(* ===== verification/Prelude.thy ===== *)
theory Prelude
  imports Main
begin

text \<open>
  Shared ground of the development: the parts of the Go language and of its standard
  library that several components use (truncating division and remainder, run-time panics,
  byte-wise string comparison, \<open>slices.SortStableFunc\<close>, \<open>slices.Insert\<close>), the generic
  lemmas on lists those components need, and the collections of simplification rules that
  carry the component proofs.

  Go's \<open>int\<close> is modelled by HOL's \<open>int\<close>: the quantities held in it here (screen cells, row
  indices, numbers of buffered lines) stay far below \<open>2 ^ 63\<close>. Where a counter can wrap
  around, the component keeps it at its width.
\<close>

section \<open>Collections\<close>

named_theorems wf_intros
named_theorems wf_dests
named_theorems frame_simps

section \<open>Integers\<close>

text \<open>Go's \<open>/\<close> and \<open>%\<close> truncate towards zero.\<close>

definition go_quot :: "int \<Rightarrow> int \<Rightarrow> int" where
  "go_quot a b = sgn a * sgn b * (\<bar>a\<bar> div \<bar>b\<bar>)"

definition go_rem :: "int \<Rightarrow> int \<Rightarrow> int" where
  "go_rem a b = a - go_quot a b * b"

lemma go_quot_nonneg [simp]: "0 \<le> a \<Longrightarrow> 0 < b \<Longrightarrow> go_quot a b = a div b"
  by (cases "a = 0") (auto simp: go_quot_def)

lemma go_rem_nonneg [simp]: "0 \<le> a \<Longrightarrow> 0 < b \<Longrightarrow> go_rem a b = a mod b"
  by (simp add: go_rem_def minus_div_mult_eq_mod)

lemma go_rem_lower: "0 \<le> a \<Longrightarrow> 0 < b \<Longrightarrow> 0 \<le> go_rem a b"
  by simp

lemma go_rem_upper: "0 \<le> a \<Longrightarrow> 0 < b \<Longrightarrow> go_rem a b < b"
  by simp

lemma mod_succ_pred:
  fixes i n :: int
  assumes "0 \<le> i" and "i < n"
  shows "((i + 1) mod n - 1 + n) mod n = i"
  using assms by (cases "i + 1 = n") (auto simp: mod_pos_pos_trivial zmod_minus1)

lemma mod_pred_succ:
  fixes i n :: int
  assumes "0 \<le> i" and "i < n"
  shows "((i - 1 + n) mod n + 1) mod n = i"
proof (cases "i = 0")
  case True
  with assms show ?thesis by (cases "n = 1") (auto simp: zmod_minus1)
next
  case False
  have "(i - 1 + n) mod n = (i - 1) mod n" by simp
  also have "\<dots> = i - 1" using False assms by (intro mod_pos_pos_trivial) auto
  finally show ?thesis using assms by (simp add: mod_pos_pos_trivial)
qed

text \<open>The two directions of a cyclic index undo each other.\<close>

lemma cyclic_pred_succ:
  assumes "0 \<le> i" and "i < n"
  shows "go_rem (go_rem (i + 1) n - 1 + n) n = i"
proof -
  have "0 \<le> (i + 1) mod n - 1 + n" using assms pos_mod_sign [of n "i + 1"] by linarith
  then show ?thesis using assms mod_succ_pred [of i n] by (simp only: go_rem_nonneg)
qed

lemma cyclic_succ_pred:
  assumes "0 \<le> i" and "i < n"
  shows "go_rem (go_rem (i - 1 + n) n + 1) n = i"
proof -
  have "0 \<le> (i - 1 + n) mod n + 1" using assms pos_mod_sign [of n "i - 1 + n"] by linarith
  then show ?thesis using assms mod_pred_succ [of i n] by (simp only: go_rem_nonneg)
qed

section \<open>Run-time panics\<close>

text \<open>
  Where the code can panic, the model returns a value of \<open>go_panic + 'a\<close>, with \<open>Inl\<close> for
  the panic: an index or a slice bound out of range, a nil pointer, or a negative count of repetitions.
\<close>

datatype go_panic = IndexOutOfRange | SliceOutOfRange | NilPointer | NegativeRepeat

type_synonym 'a go = "go_panic + 'a"

definition go_bind :: "'a go \<Rightarrow> ('a \<Rightarrow> 'b go) \<Rightarrow> 'b go" where
  "go_bind r f = (case r of Inl p \<Rightarrow> Inl p | Inr a \<Rightarrow> f a)"

lemma go_bind_simps [simp]:
  "go_bind (Inl p) f = Inl p"
  "go_bind (Inr a) f = f a"
  by (simp_all add: go_bind_def)

lemma go_bind_eq_Inr [simp]:
  "go_bind r f = Inr b \<longleftrightarrow> (\<exists>a. r = Inr a \<and> f a = Inr b)"
  by (cases r) simp_all

text \<open>The panic of a result, in a form that evaluates without equality on the value.\<close>

fun panic_of :: "'a go \<Rightarrow> go_panic option" where
  "panic_of (Inl p) = Some p"
| "panic_of (Inr a) = None"

lemma panic_of_eq: "panic_of r = Some p \<longleftrightarrow> r = Inl p"
  by (cases r) auto

definition go_index :: "'a list \<Rightarrow> int \<Rightarrow> 'a go" where
  "go_index xs i = (if 0 \<le> i \<and> i < int (length xs) then Inr (xs ! nat i) else Inl IndexOutOfRange)"

text \<open>The slice expression \<open>xs[lo:hi]\<close> of a slice whose capacity is its length.\<close>

definition go_slice :: "'a list \<Rightarrow> int \<Rightarrow> int \<Rightarrow> 'a list go" where
  "go_slice xs lo hi =
     (if 0 \<le> lo \<and> lo \<le> hi \<and> hi \<le> int (length xs)
      then Inr (take (nat (hi - lo)) (drop (nat lo) xs)) else Inl SliceOutOfRange)"

text \<open>\<open>strings.Repeat\<close>, and the results of a loop that may panic.\<close>

definition go_repeat :: "string \<Rightarrow> int \<Rightarrow> string go" where
  "go_repeat s n = (if n < 0 then Inl NegativeRepeat else Inr (concat (replicate (nat n) s)))"

primrec go_each :: "('a \<Rightarrow> 'b go) \<Rightarrow> 'a list \<Rightarrow> 'b list go" where
  "go_each f [] = Inr []"
| "go_each f (x # xs) = go_bind (f x) (\<lambda>y. go_bind (go_each f xs) (\<lambda>ys. Inr (y # ys)))"

lemma go_repeat_ok: "0 \<le> n \<Longrightarrow> go_repeat s n = Inr (concat (replicate (nat n) s))"
  by (simp add: go_repeat_def)

lemma go_each_ok: "(\<And>x. x \<in> set xs \<Longrightarrow> \<exists>y. f x = Inr y) \<Longrightarrow> \<exists>ys. go_each f xs = Inr ys"
  by (induction xs) force+

lemma go_each_Inr: "go_each f xs = Inr ys \<longleftrightarrow> length ys = length xs \<and> (\<forall>i<length xs. f (xs ! i) = Inr (ys ! i))"
proof (induction xs arbitrary: ys)
  case (Cons x xs)
  then show ?case by (cases ys) (auto simp: nth_Cons less_Suc_eq_0_disj split: nat.splits)
qed auto

lemma go_index_ok: "0 \<le> i \<Longrightarrow> i < int (length xs) \<Longrightarrow> go_index xs i = Inr (xs ! nat i)"
  by (simp add: go_index_def)

lemma go_slice_ok:
  "0 \<le> lo \<Longrightarrow> lo \<le> hi \<Longrightarrow> hi \<le> int (length xs) \<Longrightarrow>
     go_slice xs lo hi = Inr (take (nat (hi - lo)) (drop (nat lo) xs))"
  by (simp add: go_slice_def)

section \<open>Lists\<close>

text \<open>The last \<open>n\<close> elements of a list.\<close>

definition lastn :: "nat \<Rightarrow> 'a list \<Rightarrow> 'a list" where
  "lastn n xs = drop (length xs - n) xs"

lemma length_lastn [simp]: "length (lastn n xs) = min n (length xs)"
  by (simp add: lastn_def min_def)

lemma lastn_short [simp]: "length xs \<le> n \<Longrightarrow> lastn n xs = xs"
  by (simp add: lastn_def)

lemma lastn_lastn_append [simp]: "lastn n (lastn n xs @ ys) = lastn n (xs @ ys)"
  by (cases "length xs \<le> n") (auto simp: lastn_def add.commute)

lemma lastn_snoc_full:
  "length xs = n \<Longrightarrow> 0 < n \<Longrightarrow> lastn n (xs @ [x]) = tl xs @ [x]"
  by (cases xs) (simp_all add: lastn_def)

lemma last_lastn [simp]: "0 < n \<Longrightarrow> xs \<noteq> [] \<Longrightarrow> last (lastn n xs) = last xs"
  by (simp add: lastn_def last_drop)

lemma set_lastn: "set (lastn n xs) \<subseteq> set xs"
  by (auto simp: lastn_def dest: in_set_dropD)

text \<open>\<open>slices.Insert(xs, i, x)\<close>.\<close>

definition insert_at :: "nat \<Rightarrow> 'a \<Rightarrow> 'a list \<Rightarrow> 'a list" where
  "insert_at i x xs = take i xs @ x # drop i xs"

lemma length_insert_at [simp]: "length (insert_at i x xs) = Suc (length xs)"
  by (simp add: insert_at_def)

lemma nth_insert_at:
  "i \<le> length xs \<Longrightarrow> insert_at i x xs ! k =
     (if k < i then xs ! k else if k = i then x else xs ! (k - 1))"
  by (auto simp: insert_at_def nth_append nth_Cons' min_def)

text \<open>\<open>append(xs[:i], xs[i+1:]...)\<close>.\<close>

definition remove_at :: "nat \<Rightarrow> 'a list \<Rightarrow> 'a list" where
  "remove_at i xs = take i xs @ drop (Suc i) xs"

lemma length_remove_at [simp]: "i < length xs \<Longrightarrow> length (remove_at i xs) = length xs - 1"
  by (simp add: remove_at_def min_def)

lemma nth_remove_at:
  "i < length xs \<Longrightarrow> k < length xs - 1 \<Longrightarrow>
     remove_at i xs ! k = (if k < i then xs ! k else xs ! Suc k)"
  by (auto simp: remove_at_def nth_append min_def)

section \<open>Strings\<close>

text \<open>\<open>cmp.Compare\<close> on strings: Go compares strings byte by byte.\<close>

fun str_cmp :: "string \<Rightarrow> string \<Rightarrow> int" where
  "str_cmp [] [] = 0"
| "str_cmp [] (_ # _) = -1"
| "str_cmp (_ # _) [] = 1"
| "str_cmp (a # as) (b # bs) =
     (if (of_char a :: nat) < of_char b then -1
      else if (of_char b :: nat) < of_char a then 1 else str_cmp as bs)"

lemma str_cmp_refl [simp]: "str_cmp s s = 0"
  by (induction s) auto

lemma str_cmp_eq_0 [simp]: "str_cmp s t = 0 \<longleftrightarrow> s = t"
  by (induction s t rule: str_cmp.induct) (auto simp: not_less intro: antisym)

lemma str_cmp_antisym: "str_cmp t s = - str_cmp s t"
  by (induction s t rule: str_cmp.induct) auto

lemma str_cmp_Cons_le:
  "str_cmp (a # as) (b # bs) \<le> 0 \<longleftrightarrow>
     (of_char a :: nat) < of_char b \<or> a = b \<and> str_cmp as bs \<le> 0"
  by (auto simp: not_less intro: antisym)

lemma str_cmp_Nil_le [simp]: "str_cmp s [] \<le> 0 \<longleftrightarrow> s = []" "str_cmp [] s \<le> 0"
  by (cases s; simp)+

lemma str_cmp_trans: "str_cmp s t \<le> 0 \<Longrightarrow> str_cmp t u \<le> 0 \<Longrightarrow> str_cmp s u \<le> 0"
proof (induction s t arbitrary: u rule: str_cmp.induct)
  case (4 a as b bs)
  then show ?case
    by (cases u) (auto simp: str_cmp_Cons_le simp del: str_cmp.simps)
qed auto

lemma str_cmp_total: "str_cmp s t \<le> 0 \<or> str_cmp t s \<le> 0"
  by (subst (2) str_cmp_antisym) auto

section \<open>Stable sorting\<close>

text \<open>
  \<open>slices.SortStableFunc(xs, cmp)\<close>. The result of a stable sort by a total preorder is
  unique, so insertion from the right stands for the library's algorithm.
\<close>

fun insort_by :: "('a \<Rightarrow> 'a \<Rightarrow> int) \<Rightarrow> 'a \<Rightarrow> 'a list \<Rightarrow> 'a list" where
  "insort_by c x [] = [x]"
| "insort_by c x (y # ys) = (if c x y \<le> 0 then x # y # ys else y # insort_by c x ys)"

definition sort_stable :: "('a \<Rightarrow> 'a \<Rightarrow> int) \<Rightarrow> 'a list \<Rightarrow> 'a list" where
  "sort_stable c xs = foldr (insort_by c) xs []"

definition preorder_cmp :: "('a \<Rightarrow> 'a \<Rightarrow> int) \<Rightarrow> bool" where
  "preorder_cmp c \<longleftrightarrow> (\<forall>x y. c x y \<le> 0 \<or> c y x \<le> 0) \<and>
     (\<forall>x y z. c x y \<le> 0 \<longrightarrow> c y z \<le> 0 \<longrightarrow> c x z \<le> 0)"

lemma set_insort_by [simp]: "set (insort_by c x xs) = insert x (set xs)"
  by (induction xs) auto

lemma length_insort_by [simp]: "length (insort_by c x xs) = Suc (length xs)"
  by (induction xs) auto

lemma length_sort_stable [simp]: "length (sort_stable c xs) = length xs"
  by (induction xs) (auto simp: sort_stable_def)

lemma set_sort_stable [simp]: "set (sort_stable c xs) = set xs"
  by (induction xs) (auto simp: sort_stable_def)

lemma count_list_insort_by:
  "count_list (insort_by c x xs) a = count_list xs a + (if x = a then 1 else 0)"
  by (induction xs) auto

lemma count_list_sort_stable [simp]: "count_list (sort_stable c xs) a = count_list xs a"
  by (induction xs) (auto simp: sort_stable_def count_list_insort_by)

lemma distinct_insort_by [simp]: "distinct (insort_by c x xs) \<longleftrightarrow> x \<notin> set xs \<and> distinct xs"
  by (induction xs) auto

lemma distinct_sort_stable [simp]: "distinct (sort_stable c xs) \<longleftrightarrow> distinct xs"
proof (induction xs)
  case (Cons a xs)
  then show ?case
    using set_sort_stable [of c xs] by (auto simp: sort_stable_def)
qed (simp add: sort_stable_def)

lemma sorted_insort_by:
  assumes "preorder_cmp c" and "sorted_wrt (\<lambda>a b. c a b \<le> 0) xs"
  shows "sorted_wrt (\<lambda>a b. c a b \<le> 0) (insort_by c x xs)"
  using assms(2)
proof (induction xs)
  case (Cons y ys)
  have tot: "c x y \<le> 0 \<or> c y x \<le> 0" and tr: "\<And>u v w. c u v \<le> 0 \<Longrightarrow> c v w \<le> 0 \<Longrightarrow> c u w \<le> 0"
    using assms(1) by (auto simp: preorder_cmp_def)
  show ?case
    using Cons tot by (auto intro: tr)
qed simp

lemma sorted_sort_stable:
  "preorder_cmp c \<Longrightarrow> sorted_wrt (\<lambda>a b. c a b \<le> 0) (sort_stable c xs)"
  by (induction xs) (auto simp: sort_stable_def sorted_insort_by)

lemma filter_insort_by_neg: "\<not> P x \<Longrightarrow> filter P (insort_by c x xs) = filter P xs"
  by (induction xs) auto

lemma filter_insort_by_pos:
  assumes "\<And>y. y \<in> set xs \<Longrightarrow> P y \<Longrightarrow> c x y \<le> 0"
    and "P x"
  shows "filter P (insort_by c x xs) = x # filter P xs"
  using assms by (induction xs) auto

text \<open>Stability: elements that compare equal keep their order.\<close>

lemma sort_stable_stable:
  assumes "\<And>x y. P x \<Longrightarrow> P y \<Longrightarrow> c x y \<le> 0"
  shows "filter P (sort_stable c xs) = filter P xs"
proof (induction xs)
  case (Cons a xs)
  show ?case
  proof (cases "P a")
    case True
    have "filter P (insort_by c a (sort_stable c xs)) = a # filter P (sort_stable c xs)"
      by (rule filter_insort_by_pos) (use True assms in auto)
    with Cons True show ?thesis by (simp add: sort_stable_def)
  next
    case False
    with Cons show ?thesis by (simp add: sort_stable_def filter_insort_by_neg)
  qed
qed (simp add: sort_stable_def)

section \<open>Numbers as text and binary search\<close>

text \<open>\<open>fmt.Sprintf("%d", n)\<close>.\<close>

fun nat_digits :: "nat \<Rightarrow> string" where
  "nat_digits n = (if n < 10 then [char_of (48 + n)]
     else nat_digits (n div 10) @ [char_of (48 + n mod 10)])"

declare nat_digits.simps [simp del]

definition itoa :: "int \<Rightarrow> string" where
  "itoa n = (if n < 0 then CHR ''-'' # nat_digits (nat (- n)) else nat_digits (nat n))"

text \<open>\<open>sort.Search(n, f)\<close>: the loop of the library, on the half-open range \<open>[i, j)\<close>.\<close>

function search_loop :: "(nat \<Rightarrow> bool) \<Rightarrow> nat \<Rightarrow> nat \<Rightarrow> nat" where
  "search_loop f i j =
     (if i < j then (let h = (i + j) div 2
                     in if \<not> f h then search_loop f (Suc h) j else search_loop f i h)
      else i)"
  by pat_completeness auto
termination
  by (relation "measure (\<lambda>(f, i, j). j - i)") auto

declare search_loop.simps [simp del]

definition sort_Search :: "nat \<Rightarrow> (nat \<Rightarrow> bool) \<Rightarrow> nat" where
  "sort_Search n f = search_loop f 0 n"

lemma search_loop_stop: "\<not> i < j \<Longrightarrow> search_loop f i j = i"
  by (subst search_loop.simps) simp

lemma search_loop_left: "i < j \<Longrightarrow> f ((i + j) div 2) \<Longrightarrow> search_loop f i j = search_loop f i ((i + j) div 2)"
  by (subst search_loop.simps) (simp add: Let_def)

lemma search_loop_right:
  "i < j \<Longrightarrow> \<not> f ((i + j) div 2) \<Longrightarrow> search_loop f i j = search_loop f (Suc ((i + j) div 2)) j"
  by (subst search_loop.simps) (simp add: Let_def)

text \<open>For a monotone predicate the search returns the least index that satisfies it.\<close>

lemma search_loop_least:
  assumes "i \<le> j" and "\<And>k l. k \<le> l \<Longrightarrow> l < j \<Longrightarrow> f k \<Longrightarrow> f l"
  shows "search_loop f i j \<le> j \<and>
         (\<forall>k. i \<le> k \<longrightarrow> k < search_loop f i j \<longrightarrow> \<not> f k) \<and>
         (\<forall>k. search_loop f i j \<le> k \<longrightarrow> k < j \<longrightarrow> f k)"
  using assms
proof (induction f i j rule: search_loop.induct)
  case (1 f i j)
  let ?h = "(i + j) div 2"
  consider (stop) "\<not> i < j" | (left) "i < j" "f ?h" | (right) "i < j" "\<not> f ?h" by blast
  then show ?case
  proof cases
    case stop
    then show ?thesis using "1.prems"(1) by (simp add: search_loop_stop)
  next
    case left
    then have h: "i \<le> ?h" "?h < j" by auto
    have up: "f k" if "?h \<le> k" "k < j" for k using "1.prems"(2) [OF that left(2)] .
    have ih: "search_loop f i ?h \<le> ?h" "\<forall>k. i \<le> k \<longrightarrow> k < search_loop f i ?h \<longrightarrow> \<not> f k"
      "\<forall>k. search_loop f i ?h \<le> k \<longrightarrow> k < ?h \<longrightarrow> f k"
      using "1.IH"(2) [OF left(1) refl, simplified, OF left(2) h(1)] "1.prems"(2) h by auto
    show ?thesis
      unfolding search_loop_left [of i j f, OF left]
      using ih h up by (meson le_less_linear le_trans less_imp_le)
  next
    case right
    then have h: "Suc ?h \<le> j" by auto
    have down: "\<not> f k" if "k \<le> ?h" for k
      using "1.prems"(2) [OF that] h right(2) by auto
    have ih: "search_loop f (Suc ?h) j \<le> j"
      "\<forall>k. Suc ?h \<le> k \<longrightarrow> k < search_loop f (Suc ?h) j \<longrightarrow> \<not> f k"
      "\<forall>k. search_loop f (Suc ?h) j \<le> k \<longrightarrow> k < j \<longrightarrow> f k"
      using "1.IH"(1) [OF right(1) refl right(2) h] "1.prems"(2) by auto
    show ?thesis
      unfolding search_loop_right [of i j f, OF right]
      using ih down by (meson not_less_eq_eq)
  qed
qed

lemma sort_Search_least:
  assumes "\<And>k l. k \<le> l \<Longrightarrow> l < n \<Longrightarrow> f k \<Longrightarrow> f l"
  shows "sort_Search n f \<le> n" and "k < sort_Search n f \<Longrightarrow> \<not> f k"
    and "sort_Search n f \<le> k \<Longrightarrow> k < n \<Longrightarrow> f k"
  using search_loop_least [of 0 n f] assms by (auto simp: sort_Search_def)

text \<open>The part of a sorted list the search selects.\<close>

lemma drop_sort_Search:
  assumes "sorted (map g xs)"
  shows "drop (sort_Search (length xs) (\<lambda>i. k \<le> g (xs ! i))) xs = filter (\<lambda>x. k \<le> g x) xs"
proof -
  let ?n = "sort_Search (length xs) (\<lambda>i. k \<le> g (xs ! i))"
  have mono: "k \<le> g (xs ! j)" if "i \<le> j" "j < length xs" "k \<le> g (xs ! i)" for i j
    using sorted_nth_mono [OF assms, of i j] that by simp
  note least = sort_Search_least [of "length xs" "\<lambda>i. k \<le> g (xs ! i)", OF mono]
  have "filter (\<lambda>x. k \<le> g x) (take ?n xs) = []"
    using least(2) by (auto simp: filter_empty_conv in_set_conv_nth)
  moreover have "filter (\<lambda>x. k \<le> g x) (drop ?n xs) = drop ?n xs"
    using least(3) by (intro filter_True) (auto simp: in_set_conv_nth)
  ultimately show ?thesis
    by (metis append_Nil append_take_drop_id filter_append)
qed

lemma takeWhile_sorted:
  "sorted (map g xs) \<Longrightarrow> takeWhile (\<lambda>x. \<not> b \<le> g x) xs = filter (\<lambda>x. g x < b) xs"
proof (induction xs)
  case (Cons x xs)
  then show ?case
    by (cases "g x < b") (auto simp: empty_filter_conv)
qed simp

end
