(* ===== verification/Bounded_Log.thy ===== *)
theory Bounded_Log
  imports Prelude
begin

text \<open>
  The contract of a bounded log, which two components of the program provide: the log view's
  \<open>DualRingBuffer\<close> (a circular array) and the notification \<open>Store\<close> (a slice that is shifted).
  A client sees a list, oldest first, that never exceeds its bound and keeps the newest
  entries. The lemmas on whole runs of appends are proved here once.
\<close>

locale bounded_log =
  fixes add :: "'x \<Rightarrow> 's \<Rightarrow> 's"
    and entries :: "'s \<Rightarrow> 'x list"
    and bound :: "'s \<Rightarrow> nat"
    and ok :: "'s \<Rightarrow> bool"
  assumes ok_add: "ok s \<Longrightarrow> ok (add x s)"
    and bound_add: "ok s \<Longrightarrow> bound (add x s) = bound s"
    and bound_pos: "ok s \<Longrightarrow> 0 < bound s"
    and entries_bounded: "ok s \<Longrightarrow> length (entries s) \<le> bound s"
    and entries_add: "ok s \<Longrightarrow> entries (add x s) = lastn (bound s) (entries s @ [x])"
begin

lemma ok_run: "ok s \<Longrightarrow> ok (fold add xs s)"
  by (induction xs arbitrary: s) (auto simp: ok_add)

lemma bound_run: "ok s \<Longrightarrow> bound (fold add xs s) = bound s"
  by (induction xs arbitrary: s) (auto simp: ok_add bound_add)

text \<open>After any run of appends the log holds exactly the newest entries, in order.\<close>

lemma entries_run: "ok s \<Longrightarrow> entries (fold add xs s) = lastn (bound s) (entries s @ xs)"
proof (induction xs arbitrary: s)
  case Nil
  then show ?case by (simp add: entries_bounded)
next
  case (Cons x xs)
  then show ?case
    by (simp add: ok_add bound_add entries_add)
qed

lemma newest_kept: "ok s \<Longrightarrow> entries (add x s) \<noteq> [] \<and> last (entries (add x s)) = x"
  using bound_pos [of s] by (simp add: entries_add lastn_def)

lemma evicts_oldest:
  "ok s \<Longrightarrow> length (entries s) = bound s \<Longrightarrow> entries (add x s) = tl (entries s) @ [x]"
  using bound_pos [of s] by (simp add: entries_add lastn_snoc_full)

lemma grows_below_bound:
  "ok s \<Longrightarrow> length (entries s) < bound s \<Longrightarrow> entries (add x s) = entries s @ [x]"
  by (simp add: entries_add)

lemma length_add:
  "ok s \<Longrightarrow> length (entries (add x s)) = min (bound s) (Suc (length (entries s)))"
  by (simp add: entries_add)

end

end
