(* ===== verification/Ring_Buffer.thy ===== *)
theory Ring_Buffer
  imports Bounded_Log
begin

text \<open>
  \<^verbatim>\<open>internal/ui/ringbuffer.go\<close>: the fixed-capacity circular buffer of the log view. Four
  parallel arrays hold a line's raw text, its coloured text, the text without escape
  sequences and its display width. \<open>entries_of\<close> reads the buffer as the list of its lines,
  oldest first; the operations are shown to act on that list.
\<close>

section \<open>State\<close>

record ring_buffer =
  raw :: "string list"
  colored :: "string list"
  stripped :: "string list"
  widths :: "int list"
  head :: int
  count :: int
  capacity :: int
  dropped :: int

definition NewDualRingBuffer :: "int \<Rightarrow> ring_buffer" where
  "NewDualRingBuffer cap0 =
     (let cap1 = (if cap0 < 1 then 1 else cap0)
      in \<lparr> raw = replicate (nat cap1) '''', colored = replicate (nat cap1) '''',
           stripped = replicate (nat cap1) '''', widths = replicate (nat cap1) 0,
           head = 0, count = 0, capacity = cap1, dropped = 0 \<rparr>)"

section \<open>Operations\<close>

definition rb_Append :: "string \<Rightarrow> string \<Rightarrow> string \<Rightarrow> int \<Rightarrow> ring_buffer \<Rightarrow> ring_buffer" where
  "rb_Append r c s w d =
     (let d1 = (if count d = capacity d then d\<lparr>dropped := dropped d + 1\<rparr> else d);
          h = nat (head d1);
          d2 = d1\<lparr> raw := (raw d1)[h := r], colored := (colored d1)[h := c],
                    stripped := (stripped d1)[h := s], widths := (widths d1)[h := w] \<rparr>;
          d3 = d2\<lparr> head := go_rem (head d2 + 1) (capacity d2) \<rparr>
      in if count d3 < capacity d3 then d3\<lparr> count := count d3 + 1 \<rparr> else d3)"

definition rb_Len :: "ring_buffer \<Rightarrow> int" where "rb_Len d = count d"
definition rb_Cap :: "ring_buffer \<Rightarrow> int" where "rb_Cap d = capacity d"
definition rb_Dropped :: "ring_buffer \<Rightarrow> int" where "rb_Dropped d = dropped d"

definition physIdx :: "ring_buffer \<Rightarrow> int \<Rightarrow> int" where
  "physIdx d i = go_rem (head d - count d + capacity d + i) (capacity d)"

definition RawGet :: "ring_buffer \<Rightarrow> int \<Rightarrow> string" where
  "RawGet d i = (if i < 0 \<or> i \<ge> count d then '''' else raw d ! nat (physIdx d i))"

definition ColoredGet :: "ring_buffer \<Rightarrow> int \<Rightarrow> string" where
  "ColoredGet d i = (if i < 0 \<or> i \<ge> count d then '''' else colored d ! nat (physIdx d i))"

definition StrippedGet :: "ring_buffer \<Rightarrow> int \<Rightarrow> string" where
  "StrippedGet d i = (if i < 0 \<or> i \<ge> count d then '''' else stripped d ! nat (physIdx d i))"

definition WidthGet :: "ring_buffer \<Rightarrow> int \<Rightarrow> int" where
  "WidthGet d i = (if i < 0 \<or> i \<ge> count d then 0 else widths d ! nat (physIdx d i))"

definition SetColored :: "int \<Rightarrow> string \<Rightarrow> int \<Rightarrow> ring_buffer \<Rightarrow> ring_buffer" where
  "SetColored i s w d =
     (if i < 0 \<or> i \<ge> count d then d
      else let idx = nat (physIdx d i)
           in d\<lparr> colored := (colored d)[idx := s], widths := (widths d)[idx := w] \<rparr>)"

definition SetStripped :: "int \<Rightarrow> string \<Rightarrow> ring_buffer \<Rightarrow> ring_buffer" where
  "SetStripped i s d =
     (if i < 0 \<or> i \<ge> count d then d
      else d\<lparr> stripped := (stripped d)[nat (physIdx d i) := s] \<rparr>)"

text \<open>
  The bulk copies: one block when the range does not pass the end of the array, two blocks
  when it wraps around. The source has one copy for strings and one for integers.
\<close>

definition copySlice :: "ring_buffer \<Rightarrow> 'a list \<Rightarrow> int \<Rightarrow> int \<Rightarrow> 'a list" where
  "copySlice d arr start0 end0 =
     (let start1 = (if start0 < 0 then 0 else start0);
          end1 = (if end0 > count d then count d else end0)
      in if start1 \<ge> end1 then []
         else let n = end1 - start1; physStart = physIdx d start1
              in if physStart + n \<le> capacity d
                 then take (nat n) (drop (nat physStart) arr)
                 else let first = capacity d - physStart
                      in take (nat first) (drop (nat physStart) arr) @ take (nat (n - first)) arr)"

definition copyIntSlice :: "ring_buffer \<Rightarrow> int list \<Rightarrow> int \<Rightarrow> int \<Rightarrow> int list" where
  "copyIntSlice d arr start0 end0 =
     (let start1 = (if start0 < 0 then 0 else start0);
          end1 = (if end0 > count d then count d else end0)
      in if start1 \<ge> end1 then []
         else let n = end1 - start1; physStart = physIdx d start1
              in if physStart + n \<le> capacity d
                 then take (nat n) (drop (nat physStart) arr)
                 else let first = capacity d - physStart
                      in take (nat first) (drop (nat physStart) arr) @ take (nat (n - first)) arr)"

definition RawAll :: "ring_buffer \<Rightarrow> string list" where
  "RawAll d = copySlice d (raw d) 0 (count d)"

definition ColoredAll :: "ring_buffer \<Rightarrow> string list" where
  "ColoredAll d = copySlice d (colored d) 0 (count d)"

definition RawSlice :: "ring_buffer \<Rightarrow> int \<Rightarrow> int \<Rightarrow> string list" where
  "RawSlice d a b = copySlice d (raw d) a b"

definition ColoredSlice :: "ring_buffer \<Rightarrow> int \<Rightarrow> int \<Rightarrow> string list" where
  "ColoredSlice d a b = copySlice d (colored d) a b"

definition StrippedSlice :: "ring_buffer \<Rightarrow> int \<Rightarrow> int \<Rightarrow> string list" where
  "StrippedSlice d a b = copySlice d (stripped d) a b"

definition WidthSlice :: "ring_buffer \<Rightarrow> int \<Rightarrow> int \<Rightarrow> int list" where
  "WidthSlice d a b = copyIntSlice d (widths d) a b"

definition rb_Reset :: "ring_buffer \<Rightarrow> ring_buffer" where
  "rb_Reset d = d\<lparr> raw := replicate (length (raw d)) '''',
       colored := replicate (length (colored d)) '''',
       stripped := replicate (length (stripped d)) '''',
       widths := replicate (length (widths d)) 0,
       head := 0, count := 0, dropped := 0 \<rparr>"

section \<open>Invariant\<close>

definition rb_wf :: "ring_buffer \<Rightarrow> bool" where
  "rb_wf d \<longleftrightarrow> 1 \<le> capacity d \<and>
     int (length (raw d)) = capacity d \<and> int (length (colored d)) = capacity d \<and>
     int (length (stripped d)) = capacity d \<and> int (length (widths d)) = capacity d \<and>
     0 \<le> head d \<and> head d < capacity d \<and> 0 \<le> count d \<and> count d \<le> capacity d \<and>
     0 \<le> dropped d \<and> (0 < dropped d \<longrightarrow> count d = capacity d)"

lemma rb_wf_New [wf_intros]: "rb_wf (NewDualRingBuffer c)"
  by (simp add: rb_wf_def NewDualRingBuffer_def)

lemma rb_wf_Append [wf_intros]: "rb_wf d \<Longrightarrow> rb_wf (rb_Append r c s w d)"
  by (auto simp: rb_wf_def rb_Append_def Let_def)

lemma rb_wf_SetColored [wf_intros]: "rb_wf d \<Longrightarrow> rb_wf (SetColored i s w d)"
  by (simp add: rb_wf_def SetColored_def Let_def)

lemma rb_wf_SetStripped [wf_intros]: "rb_wf d \<Longrightarrow> rb_wf (SetStripped i s d)"
  by (simp add: rb_wf_def SetStripped_def)

lemma rb_wf_Reset [wf_intros]: "rb_wf d \<Longrightarrow> rb_wf (rb_Reset d)"
  by (simp add: rb_wf_def rb_Reset_def)

text \<open>Every physical index the getters and setters compute is inside the arrays.\<close>

lemma physIdx_mod:
  "rb_wf d \<Longrightarrow> 0 \<le> i \<Longrightarrow> physIdx d i = (head d - count d + i) mod capacity d"
  using mod_add_self2 [of "head d - count d + i" "capacity d"]
  by (simp add: rb_wf_def physIdx_def algebra_simps)

lemma physIdx_range:
  "rb_wf d \<Longrightarrow> 0 \<le> i \<Longrightarrow> 0 \<le> physIdx d i \<and> physIdx d i < capacity d"
  by (simp add: physIdx_mod rb_wf_def)

lemma nat_physIdx_less:
  "rb_wf d \<Longrightarrow> 0 \<le> i \<Longrightarrow> nat (physIdx d i) < length (raw d) \<and>
     nat (physIdx d i) < length (colored d) \<and> nat (physIdx d i) < length (stripped d) \<and>
     nat (physIdx d i) < length (widths d)"
  using physIdx_range [of d i] by (auto simp: rb_wf_def)

text \<open>Distinct logical indices have distinct slots.\<close>

lemma physIdx_inj:
  assumes "rb_wf d" and "0 \<le> i" and "i < count d" and "0 \<le> j" and "j < count d"
    and "physIdx d i = physIdx d j"
  shows "i = j"
proof (rule ccontr)
  assume "i \<noteq> j"
  from assms have "(head d - count d + i) mod capacity d = (head d - count d + j) mod capacity d"
    by (simp add: physIdx_mod)
  then have "capacity d dvd (head d - count d + i) - (head d - count d + j)"
    by (simp only: mod_eq_dvd_iff)
  then have "capacity d dvd i - j" by simp
  with \<open>i \<noteq> j\<close> have "\<bar>capacity d\<bar> \<le> \<bar>i - j\<bar>" by (intro dvd_imp_le_int) auto
  with assms show False by (auto simp: rb_wf_def)
qed

section \<open>The buffer as a list of lines\<close>

definition cells :: "ring_buffer \<Rightarrow> 'a list \<Rightarrow> 'a list" where
  "cells d arr = map (\<lambda>i. arr ! nat (physIdx d (int i))) [0..<nat (count d)]"

type_synonym log_entry = "string \<times> string \<times> string \<times> int"

definition rb_rows :: "ring_buffer \<Rightarrow> log_entry list" where
  "rb_rows d = zip (raw d) (zip (colored d) (zip (stripped d) (widths d)))"

definition entries_of :: "ring_buffer \<Rightarrow> log_entry list" where
  "entries_of d = cells d (rb_rows d)"

lemma length_cells [simp]: "length (cells d arr) = nat (count d)"
  by (simp add: cells_def)

lemma length_entries_of [simp]: "length (entries_of d) = nat (count d)"
  by (simp add: entries_of_def)

lemma nth_cells: "k < nat (count d) \<Longrightarrow> cells d arr ! k = arr ! nat (physIdx d (int k))"
  by (simp add: cells_def)

text \<open>Writing at the head and advancing it appends one cell and forgets the oldest.\<close>

lemma fields_Append:
  "capacity (rb_Append r c s w d) = capacity d"
  "head (rb_Append r c s w d) = go_rem (head d + 1) (capacity d)"
  "count (rb_Append r c s w d) = (if count d < capacity d then count d + 1 else count d)"
  "dropped (rb_Append r c s w d) = (if count d = capacity d then dropped d + 1 else dropped d)"
  by (simp_all add: rb_Append_def Let_def)

lemma mod_shift:
  fixes h k i n :: int
  shows "((h + 1) mod n - k + i) mod n = (h + 1 - k + i) mod n"
  by (metis mod_add_left_eq mod_diff_left_eq)

lemma physIdx_Append:
  assumes wf: "rb_wf d" and i: "0 \<le> i"
  shows "physIdx (rb_Append r c s w d) i =
           physIdx d (if count d = capacity d then i + 1 else i)"
proof -
  have h: "go_rem (head d + 1) (capacity d) = (head d + 1) mod capacity d"
    using wf by (simp add: rb_wf_def)
  have "physIdx (rb_Append r c s w d) i =
          (head d + 1 - count (rb_Append r c s w d) + i) mod capacity d"
    by (simp only: physIdx_mod [OF rb_wf_Append [OF wf] i] fields_Append(1,2) h mod_shift)
  then show ?thesis
    using wf i by (auto simp: physIdx_mod fields_Append(3) rb_wf_def algebra_simps)
qed

lemma physIdx_count: "rb_wf d \<Longrightarrow> physIdx d (count d) = head d"
  by (simp add: physIdx_mod rb_wf_def)

lemma physIdx_ne_head:
  assumes "rb_wf d" and "0 \<le> i" and "i < count d" and "count d < capacity d \<or> 0 < i"
  shows "physIdx d i \<noteq> head d"
proof
  assume "physIdx d i = head d"
  with assms have "(head d - count d + i) mod capacity d = head d mod capacity d"
    by (simp add: physIdx_mod rb_wf_def)
  then have "capacity d dvd (head d - count d + i) - head d"
    by (simp only: mod_eq_dvd_iff)
  then have "capacity d dvd i - count d" by simp
  moreover have "i - count d \<noteq> 0" using assms by simp
  ultimately have "\<bar>capacity d\<bar> \<le> \<bar>i - count d\<bar>" by (intro dvd_imp_le_int)
  with assms show False by (auto simp: rb_wf_def)
qed

lemma cells_Append:
  assumes wf: "rb_wf d" and len: "int (length arr) = capacity d"
  shows "cells (rb_Append r c s w d) (arr[nat (head d) := x]) =
           lastn (nat (capacity d)) (cells d arr @ [x])"
proof (rule nth_equalityI)
  let ?d' = "rb_Append r c s w d"
  have cnt: "count ?d' = (if count d < capacity d then count d + 1 else count d)"
    by (simp add: rb_Append_def Let_def)
  show "length (cells ?d' (arr[nat (head d) := x])) =
          length (lastn (nat (capacity d)) (cells d arr @ [x]))"
    using wf cnt by (auto simp: rb_wf_def)
  fix k assume "k < length (cells ?d' (arr[nat (head d) := x]))"
  then have k: "int k < count ?d'" by simp
  let ?j = "if count d = capacity d then int k + 1 else int k"
  have lhs: "cells ?d' (arr[nat (head d) := x]) ! k = arr[nat (head d) := x] ! nat (physIdx d ?j)"
    using k by (simp only: nth_cells physIdx_Append [OF wf] zless_nat_eq_int_zless of_nat_0_le_iff)
  have rhs: "lastn (nat (capacity d)) (cells d arr @ [x]) ! k = (cells d arr @ [x]) ! nat ?j"
  proof (cases "count d = capacity d")
    case True
    with wf k cnt have "lastn (nat (capacity d)) (cells d arr @ [x]) = drop 1 (cells d arr @ [x])"
      by (simp add: lastn_def rb_wf_def)
    with True show ?thesis by (simp add: nat_add_distrib nth_drop del: drop_append)
  next
    case False
    with wf have "Suc (nat (count d)) \<le> nat (capacity d)" by (auto simp: rb_wf_def)
    then have "lastn (nat (capacity d)) (cells d arr @ [x]) = cells d arr @ [x]" by simp
    with False show ?thesis by simp
  qed
  show "cells ?d' (arr[nat (head d) := x]) ! k = lastn (nat (capacity d)) (cells d arr @ [x]) ! k"
  proof (cases "?j = count d")
    case True
    with wf len k cnt show ?thesis
      unfolding lhs rhs
      by (simp only: physIdx_count [OF wf]) (simp add: nth_append rb_wf_def nat_less_iff)
  next
    case False
    with wf k cnt have j: "0 \<le> ?j" "?j < count d" by (auto simp: rb_wf_def split: if_splits)
    moreover from wf k cnt False have "physIdx d ?j \<noteq> head d"
      by (intro physIdx_ne_head) (auto simp: rb_wf_def split: if_splits)
    ultimately have "nat (physIdx d ?j) \<noteq> nat (head d)"
      using physIdx_range [OF wf, of ?j] wf by (auto simp: rb_wf_def)
    with j show ?thesis unfolding lhs rhs by (simp add: nth_append nth_cells nat_less_iff)
  qed
qed

lemma length_rb_rows [simp]: "rb_wf d \<Longrightarrow> int (length (rb_rows d)) = capacity d"
  by (simp add: rb_rows_def rb_wf_def)

lemma rb_rows_Append:
  "rb_rows (rb_Append r c s w d) = (rb_rows d)[nat (head d) := (r, c, s, w)]"
  by (simp add: rb_rows_def rb_Append_def Let_def zip_update)

lemma entries_Append:
  "rb_wf d \<Longrightarrow> entries_of (rb_Append r c s w d) =
     lastn (nat (capacity d)) (entries_of d @ [(r, c, s, w)])"
  by (simp add: entries_of_def rb_rows_Append cells_Append)

section \<open>The buffer implements a bounded log\<close>

definition rb_add :: "log_entry \<Rightarrow> ring_buffer \<Rightarrow> ring_buffer" where
  "rb_add e d = (case e of (r, c, s, w) \<Rightarrow> rb_Append r c s w d)"

interpretation ring: bounded_log rb_add entries_of "\<lambda>d. nat (capacity d)" rb_wf
proof (unfold_locales, goal_cases)
  case (1 d e)
  then show ?case by (cases e) (simp add: rb_add_def rb_wf_Append)
next
  case (2 d e)
  then show ?case by (cases e) (simp add: rb_add_def fields_Append)
next
  case (5 d e)
  then show ?case by (cases e) (simp add: rb_add_def entries_Append)
qed (auto simp: rb_wf_def)

text \<open>The eviction counter counts exactly the lines that no longer are in the buffer.\<close>

lemma dropped_run:
  "rb_wf d \<Longrightarrow> dropped (fold rb_add es d) + count (fold rb_add es d) =
     dropped d + count d + int (length es)"
proof (induction es arbitrary: d)
  case (Cons e es)
  have "dropped (rb_add e d) + count (rb_add e d) = dropped d + count d + 1"
    using Cons.prems by (auto simp: rb_add_def fields_Append rb_wf_def split: prod.splits)
  with Cons ring.ok_add [OF Cons.prems, of e] show ?case by simp
qed simp

section \<open>Reading\<close>

lemma nth_rb_rows:
  "rb_wf d \<Longrightarrow> 0 \<le> i \<Longrightarrow> rb_rows d ! nat (physIdx d i) =
     (raw d ! nat (physIdx d i), colored d ! nat (physIdx d i),
      stripped d ! nat (physIdx d i), widths d ! nat (physIdx d i))"
  using nat_physIdx_less [of d i] by (simp add: rb_rows_def)

lemma nth_entries_of:
  "rb_wf d \<Longrightarrow> k < nat (count d) \<Longrightarrow> entries_of d ! k =
     (RawGet d (int k), ColoredGet d (int k), StrippedGet d (int k), WidthGet d (int k))"
  by (auto simp: entries_of_def nth_cells nth_rb_rows RawGet_def ColoredGet_def StrippedGet_def
      WidthGet_def)

lemma getters_entries:
  assumes "rb_wf d" and "0 \<le> i" and "i < count d"
  shows "(RawGet d i, ColoredGet d i, StrippedGet d i, WidthGet d i) = entries_of d ! nat i"
  using assms nth_entries_of [of d "nat i"] by simp

text \<open>Block copies agree with element-wise reads, wrapped around or not.\<close>

lemma copySlice_cells:
  assumes wf: "rb_wf d" and len: "int (length arr) = capacity d"
  shows "copySlice d arr s e = drop (nat s) (take (nat e) (cells d arr))"
proof -
  define s1 where "s1 = (if s < 0 then 0 else s)"
  define e1 where "e1 = (if e > count d then count d else e)"
  have nats: "nat s = nat s1" "take (nat e) (cells d arr) = take (nat e1) (cells d arr)"
    by (auto simp: s1_def e1_def)
  show ?thesis
  proof (cases "s1 \<ge> e1")
    case True
    then have "copySlice d arr s e = []" by (simp add: copySlice_def s1_def e1_def Let_def)
    with True show ?thesis by (auto simp: nats)
  next
    case False
    let ?p = "physIdx d s1" and ?n = "e1 - s1"
    have s1: "0 \<le> s1" and e1: "e1 \<le> count d" by (auto simp: s1_def e1_def)
    have cap: "0 < capacity d" "count d \<le> capacity d" using wf by (auto simp: rb_wf_def)
    have p: "0 \<le> ?p" "?p < capacity d" using physIdx_range [OF wf s1] by auto
    have step: "physIdx d (s1 + int k) = (if ?p + int k < capacity d then ?p + int k
                  else ?p + int k - capacity d)" if "int k < ?n" for k
    proof -
      have "physIdx d (s1 + int k) = (?p + int k) mod capacity d"
        using wf s1 by (simp add: physIdx_mod mod_simps add.assoc)
      moreover have "(?p + int k) mod capacity d = ?p + int k - capacity d"
        if "\<not> ?p + int k < capacity d"
      proof -
        have "(?p + int k) mod capacity d = (?p + int k - capacity d) mod capacity d" by simp
        also have "\<dots> = ?p + int k - capacity d"
          using that \<open>int k < ?n\<close> p s1 e1 cap by (intro mod_pos_pos_trivial) auto
        finally show ?thesis .
      qed
      ultimately show ?thesis using p by (simp add: mod_pos_pos_trivial)
    qed
    show ?thesis
    proof (rule nth_equalityI)
      show "length (copySlice d arr s e) = length (drop (nat s) (take (nat e) (cells d arr)))"
        using False s1 e1 p len cap
        by (auto simp: copySlice_def nats Let_def simp flip: s1_def e1_def)
      fix k assume "k < length (copySlice d arr s e)"
      then have k: "int k < ?n"
        using False s1 e1 p len cap
        by (auto simp: copySlice_def Let_def simp flip: s1_def e1_def split: if_splits)
      have r: "drop (nat s) (take (nat e) (cells d arr)) ! k = arr ! nat (physIdx d (s1 + int k))"
        using k s1 e1 by (simp add: nats nth_cells)
      show "copySlice d arr s e ! k = drop (nat s) (take (nat e) (cells d arr)) ! k"
        unfolding r step [OF k]
        using False s1 e1 p len [symmetric] cap k
        by (auto simp: copySlice_def Let_def nth_append nat_add_distrib nat_diff_distrib add.commute
            simp flip: s1_def e1_def)
    qed
  qed
qed

lemma copyIntSlice_eq: "copyIntSlice d arr a b = copySlice d arr a b"
  by (simp add: copyIntSlice_def copySlice_def)

lemma cells_entries:
  assumes "rb_wf d"
  shows "cells d (raw d) = map fst (entries_of d)"
    and "cells d (colored d) = map (fst \<circ> snd) (entries_of d)"
    and "cells d (stripped d) = map (fst \<circ> snd \<circ> snd) (entries_of d)"
    and "cells d (widths d) = map (snd \<circ> snd \<circ> snd) (entries_of d)"
  using assms by (simp_all add: cells_def entries_of_def nth_rb_rows)

lemma slices_entries:
  assumes "rb_wf d"
  shows "RawSlice d a b = drop (nat a) (take (nat b) (map fst (entries_of d)))"
    and "ColoredSlice d a b = drop (nat a) (take (nat b) (map (fst \<circ> snd) (entries_of d)))"
    and "StrippedSlice d a b =
           drop (nat a) (take (nat b) (map (fst \<circ> snd \<circ> snd) (entries_of d)))"
    and "WidthSlice d a b =
           drop (nat a) (take (nat b) (map (snd \<circ> snd \<circ> snd) (entries_of d)))"
  using assms
  by (simp_all add: RawSlice_def ColoredSlice_def StrippedSlice_def WidthSlice_def
      copyIntSlice_eq copySlice_cells cells_entries rb_wf_def del: map_map)

lemma RawAll_entries: "rb_wf d \<Longrightarrow> RawAll d = map fst (entries_of d)"
  using slices_entries(1) [of d 0 "count d"] by (simp add: RawAll_def RawSlice_def)

lemma ColoredAll_entries: "rb_wf d \<Longrightarrow> ColoredAll d = map (fst \<circ> snd) (entries_of d)"
  using slices_entries(2) [of d 0 "count d"] by (simp add: ColoredAll_def ColoredSlice_def)

section \<open>Writing in place\<close>

lemma cells_update:
  assumes wf: "rb_wf d" and len: "int (length arr) = capacity d" and i: "0 \<le> i" "i < count d"
  shows "cells d (arr[nat (physIdx d i) := x]) = (cells d arr)[nat i := x]"
proof (rule nth_equalityI)
  fix k assume "k < length (cells d (arr[nat (physIdx d i) := x]))"
  then have k: "k < nat (count d)" by simp
  have "nat (physIdx d i) < length arr"
    using physIdx_range [OF wf i(1)] len by auto
  moreover have "nat (physIdx d (int k)) = nat (physIdx d i) \<longleftrightarrow> int k = i"
    using physIdx_inj [OF wf, of "int k" i] physIdx_range [OF wf, of "int k"]
      physIdx_range [OF wf i(1)] k i by auto
  moreover have "nat i = k \<longleftrightarrow> int k = i" using i by auto
  ultimately show "cells d (arr[nat (physIdx d i) := x]) ! k = (cells d arr)[nat i := x] ! k"
    using k by (auto simp: nth_cells nth_list_update)
qed simp

lemma physIdx_SetColored [simp]: "physIdx (SetColored i s w d) = physIdx d"
  by (simp add: physIdx_def SetColored_def Let_def fun_eq_iff)

lemma physIdx_SetStripped [simp]: "physIdx (SetStripped i s d) = physIdx d"
  by (simp add: physIdx_def SetStripped_def fun_eq_iff)

lemma fields_Set [simp]:
  "count (SetColored i s w d) = count d" "capacity (SetColored i s w d) = capacity d"
  "dropped (SetColored i s w d) = dropped d" "raw (SetColored i s w d) = raw d"
  "count (SetStripped i s d) = count d" "capacity (SetStripped i s d) = capacity d"
  "dropped (SetStripped i s d) = dropped d" "raw (SetStripped i s d) = raw d"
  by (simp_all add: SetColored_def SetStripped_def Let_def)

lemma cells_Set [simp]:
  "cells (SetColored i s w d) arr = cells d arr" "cells (SetStripped i s d) arr = cells d arr"
  by (simp_all add: cells_def)

lemma entries_Set:
  assumes wf: "rb_wf d" and i: "0 \<le> i" "i < count d"
  shows "entries_of (SetColored i c w d) =
           (entries_of d)[nat i := (RawGet d i, c, StrippedGet d i, w)]"
    and "entries_of (SetStripped i s d) =
           (entries_of d)[nat i := (RawGet d i, ColoredGet d i, s, WidthGet d i)]"
proof -
  let ?p = "nat (physIdx d i)"
  have p: "?p < length (raw d)" "?p < length (colored d)" "?p < length (stripped d)"
    "?p < length (widths d)" using nat_physIdx_less [OF wf i(1)] by auto
  have "rb_rows (SetColored i c w d) = (rb_rows d)[?p := (RawGet d i, c, StrippedGet d i, w)]"
    using i p
    by (auto simp: rb_rows_def SetColored_def Let_def RawGet_def StrippedGet_def zip_update
        simp flip: zip_update)
  then show "entries_of (SetColored i c w d) =
           (entries_of d)[nat i := (RawGet d i, c, StrippedGet d i, w)]"
    using wf i by (simp add: entries_of_def cells_update)
  have "rb_rows (SetStripped i s d) = (rb_rows d)[?p := (RawGet d i, ColoredGet d i, s, WidthGet d i)]"
    using i p
    by (simp add: rb_rows_def SetStripped_def RawGet_def ColoredGet_def WidthGet_def zip_update
        flip: zip_update)
  then show "entries_of (SetStripped i s d) =
           (entries_of d)[nat i := (RawGet d i, ColoredGet d i, s, WidthGet d i)]"
    using wf i by (simp add: entries_of_def cells_update)
qed

lemma entries_New [simp]: "entries_of (NewDualRingBuffer c) = []"
  by (simp add: entries_of_def cells_def NewDualRingBuffer_def Let_def)

lemma entries_Reset [simp]: "entries_of (rb_Reset d) = []"
  by (simp add: entries_of_def cells_def rb_Reset_def)

section \<open>Reading after an append\<close>

lemma entries_Append_cases:
  assumes "rb_wf d"
  shows "entries_of (rb_Append r c s w d) =
    (if count d = capacity d then tl (entries_of d) else entries_of d) @ [(r, c, s, w)]"
proof (cases "count d = capacity d")
  case True
  with assms have "length (entries_of d) = nat (capacity d)" by simp
  from ring.evicts_oldest [OF assms this, of "(r, c, s, w)"] True
  show ?thesis by (simp add: rb_add_def)
next
  case False
  with assms have "length (entries_of d) < nat (capacity d)" by (simp add: rb_wf_def)
  from ring.grows_below_bound [OF assms this, of "(r, c, s, w)"] False
  show ?thesis by (simp add: rb_add_def)
qed

lemma getters_Append:
  assumes wf: "rb_wf d" and i: "0 \<le> i" "i < count (rb_Append r c s w d)"
  shows "(RawGet (rb_Append r c s w d) i, ColoredGet (rb_Append r c s w d) i,
          StrippedGet (rb_Append r c s w d) i, WidthGet (rb_Append r c s w d) i) =
    (if i = count (rb_Append r c s w d) - 1 then (r, c, s, w)
     else let j = (if count d = capacity d then i + 1 else i)
          in (RawGet d j, ColoredGet d j, StrippedGet d j, WidthGet d j))"
proof -
  let ?d' = "rb_Append r c s w d" and ?j = "if count d = capacity d then i + 1 else i"
  have b: "0 \<le> count d" "count d \<le> capacity d" using wf by (auto simp: rb_wf_def)
  have eq: "entries_of ?d' ! nat i =
      (if i = count ?d' - 1 then (r, c, s, w) else entries_of d ! nat ?j)"
    using i b unfolding entries_Append_cases [OF wf]
    by (auto simp: fields_Append nth_append nth_tl Suc_nat_eq_nat_zadd1 add.commute nat_diff_distrib)
  moreover have "i \<noteq> count ?d' - 1 \<Longrightarrow> 0 \<le> ?j \<and> ?j < count d"
    using i b by (auto simp: fields_Append split: if_splits)
  ultimately show ?thesis
    using getters_entries [OF rb_wf_Append [OF wf] i] getters_entries [OF wf, of ?j]
    by (auto simp: Let_def)
qed

lemmas getter_Append = getters_Append [unfolded Let_def]

end
