(* ===== verification/Extern.thy ===== *)
theory Extern
  imports Prelude
begin

text \<open>
  The code outside the repository that the user interface calls, as parameters of the model:
  \<^verbatim>\<open>charmbracelet/x/ansi\<close>, \<^verbatim>\<open>charm.land/lipgloss/v2\<close> and
  \<^verbatim>\<open>charm.land/bubbles/v2/viewport\<close>, and the regular expressions of Go's library. A
  component takes the record it needs as its first argument; what a property relies on is a
  named hypothesis over its fields.
\<close>

section \<open>Regular expressions\<close>

text \<open>
  A compiled \<open>*regexp.Regexp\<close> is used through \<open>MatchString\<close> and \<open>FindAllStringIndex\<close>
  only; it is modelled by these two functions.
\<close>

record regexp =
  MatchString :: "string \<Rightarrow> bool"
  FindAllStringIndex :: "string \<Rightarrow> (nat \<times> nat) list"

section \<open>Text with escape sequences\<close>

text \<open>
  \<open>ansi_seqs s\<close> is the list of the sequences, with their display widths, that iterating
  \<open>ansi.DecodeSequence\<close> over \<open>s\<close> yields.
\<close>

record text_api =
  StringWidth :: "string \<Rightarrow> int"
  Strip :: "string \<Rightarrow> string"
  Cut :: "string \<Rightarrow> int \<Rightarrow> int \<Rightarrow> string"
  ansi_seqs :: "string \<Rightarrow> (string \<times> int) list"
  regexp_Compile :: "string \<Rightarrow> regexp option"
  faint_render :: "string \<Rightarrow> string"

text \<open>\<open>DecodeSequence\<close> consumes its input and never reports a negative width.\<close>

definition seqs_ok :: "text_api \<Rightarrow> bool" where
  "seqs_ok A \<longleftrightarrow> (\<forall>s. concat (map fst (ansi_seqs A s)) = s \<and> (\<forall>t\<in>set (ansi_seqs A s). 0 \<le> snd t))"

section \<open>Terminal widgets\<close>

text \<open>
  A \<open>lipgloss.Style\<close> is used through its \<open>Render\<close> method only and is taken as that function.
  \<open>'v\<close> is \<open>viewport.Model\<close> of \<^verbatim>\<open>charm.land/bubbles/v2/viewport\<close>, \<open>inline_cell w\<close> is
  \<open>lipgloss.NewStyle().Width(w).MaxWidth(w).Inline(true).Render\<close>.
\<close>

type_synonym style = "string \<Rightarrow> string"

record 'v tui_api =
  tui_text :: text_api
  va_New :: 'v
  va_Width :: "'v \<Rightarrow> int"
  va_Height :: "'v \<Rightarrow> int"
  va_YOffset :: "'v \<Rightarrow> int"
  va_SetWidth :: "int \<Rightarrow> 'v \<Rightarrow> 'v"
  va_SetHeight :: "int \<Rightarrow> 'v \<Rightarrow> 'v"
  va_SetYOffset :: "int \<Rightarrow> 'v \<Rightarrow> 'v"
  va_SetContent :: "string \<Rightarrow> 'v \<Rightarrow> 'v"
  va_View :: "'v \<Rightarrow> string"
  JoinVertical :: "string list \<Rightarrow> string"
  JoinHorizontal :: "string list \<Rightarrow> string"
  lg_Height :: "string \<Rightarrow> int"
  inline_cell :: "int \<Rightarrow> style"

text \<open>
  What the table relies on. Setters change what they name, keep the sizes otherwise, and
  content made of single-line rows can be scrolled until its last row is on the last line of
  the viewport, not further.
\<close>

definition tui_ok :: "'v tui_api \<Rightarrow> bool" where
  "tui_ok T \<longleftrightarrow>
     (\<forall>s v. va_Height T (va_SetContent T s v) = va_Height T v \<and>
            va_Width T (va_SetContent T s v) = va_Width T v) \<and>
     (\<forall>n v. va_Height T (va_SetYOffset T n v) = va_Height T v \<and>
            va_Width T (va_SetYOffset T n v) = va_Width T v) \<and>
     (\<forall>n v. va_Height T (va_SetWidth T n v) = va_Height T v \<and> va_Width T (va_SetWidth T n v) = n) \<and>
     (\<forall>n v. va_Width T (va_SetHeight T n v) = va_Width T v \<and> va_Height T (va_SetHeight T n v) = n)"

definition tui_scrolls :: "'v tui_api \<Rightarrow> bool" where
  "tui_scrolls T \<longleftrightarrow>
     (\<forall>ls n v. 0 < va_Height T v \<and> ls \<noteq> [] \<and> (\<forall>l\<in>set ls. CHR 0x0A \<notin> set l) \<longrightarrow>
        va_YOffset T (va_SetYOffset T n (va_SetContent T (JoinVertical T ls) v)) =
          min (max n 0) (max 0 (int (length ls) - va_Height T v)))"

end
