(* ===== verification/Search_State.thy ===== *)
theory Search_State
  imports Extern
begin

text \<open>
  \<^verbatim>\<open>internal/ui/searchstate.go\<close>: the compiled search or filter of one pane and its
  cyclic match index.
\<close>

datatype search_mode = SearchModeSearch | SearchModeFilter

record search_state =
  Pattern :: string
  Mode :: search_mode
  Re :: "regexp option"
  MatchCount :: int
  CurrentIdx :: int

definition zero_search :: search_state where
  "zero_search = \<lparr> Pattern = '''', Mode = SearchModeSearch, Re = None, MatchCount = 0,
     CurrentIdx = 0 \<rparr>"

definition ss_Clear :: "search_state \<Rightarrow> search_state" where
  "ss_Clear s = s\<lparr> Pattern := '''', Re := None, MatchCount := 0, CurrentIdx := 0 \<rparr>"

datatype search_error = BadPattern

definition ss_Compile ::
  "text_api \<Rightarrow> string \<Rightarrow> search_mode \<Rightarrow> search_state \<Rightarrow> search_error + search_state" where
  "ss_Compile A pattern mode s =
     (if pattern = '''' then Inr (ss_Clear s)
      else case regexp_Compile A (''(?i)'' @ pattern) of
        None \<Rightarrow> Inl BadPattern
      | Some re \<Rightarrow> Inr (s\<lparr> Pattern := pattern, Mode := mode, Re := Some re, CurrentIdx := 0,
                         MatchCount := 0 \<rparr>))"

definition ss_Active :: "search_state \<Rightarrow> bool" where
  "ss_Active s \<longleftrightarrow> Re s \<noteq> None"

definition DisplayPattern :: "search_state \<Rightarrow> string" where
  "DisplayPattern s = (if ss_Active s then Pattern s else '''')"

definition NextIdx :: "search_state \<Rightarrow> search_state \<times> int" where
  "NextIdx s =
     (if MatchCount s = 0 then (s, 0)
      else let s1 = s\<lparr> CurrentIdx := go_rem (CurrentIdx s + 1) (MatchCount s) \<rparr>
           in (s1, CurrentIdx s1))"

definition PrevIdx :: "search_state \<Rightarrow> search_state \<times> int" where
  "PrevIdx s =
     (if MatchCount s = 0 then (s, 0)
      else let s1 = s\<lparr> CurrentIdx := go_rem (CurrentIdx s - 1 + MatchCount s) (MatchCount s) \<rparr>
           in (s1, CurrentIdx s1))"

section \<open>Facts\<close>

lemma ss_Active_Clear [simp]: "\<not> ss_Active (ss_Clear s)"
  by (simp add: ss_Active_def ss_Clear_def)

lemma ss_Active_zero [simp]: "\<not> ss_Active zero_search"
  by (simp add: ss_Active_def zero_search_def)

lemma Re_Clear [simp]: "Re (ss_Clear s) = None"
  by (simp add: ss_Clear_def)

lemma ss_Active_update [simp]:
  "ss_Active (s\<lparr> MatchCount := n \<rparr>) = ss_Active s" "ss_Active (s\<lparr> CurrentIdx := n \<rparr>) = ss_Active s"
  by (simp_all add: ss_Active_def)

lemma ss_Compile_Active:
  "ss_Compile A p m s = Inr s' \<Longrightarrow> ss_Active s' \<longleftrightarrow> p \<noteq> ''''"
  by (auto simp: ss_Compile_def ss_Active_def split: if_splits option.splits)

definition ss_wf :: "search_state \<Rightarrow> bool" where
  "ss_wf s \<longleftrightarrow> 0 \<le> MatchCount s \<and> 0 \<le> CurrentIdx s \<and>
     (CurrentIdx s < MatchCount s \<or> CurrentIdx s = 0)"

lemma ss_wf_Compile [wf_intros]: "ss_Compile A p m s = Inr s' \<Longrightarrow> ss_wf s'"
  by (auto simp: ss_Compile_def ss_wf_def ss_Clear_def split: if_splits option.splits)

lemma ss_wf_Clear [wf_intros]: "ss_wf (ss_Clear s)"
  by (simp add: ss_wf_def ss_Clear_def)

lemma ss_wf_NextIdx [wf_intros]: "ss_wf s \<Longrightarrow> ss_wf (fst (NextIdx s))"
  by (auto simp: ss_wf_def NextIdx_def Let_def)

lemma ss_wf_PrevIdx [wf_intros]: "ss_wf s \<Longrightarrow> ss_wf (fst (PrevIdx s))"
  by (auto simp: ss_wf_def PrevIdx_def Let_def)

lemma PrevIdx_NextIdx:
  "ss_wf s \<Longrightarrow> CurrentIdx s < MatchCount s \<Longrightarrow> fst (PrevIdx (fst (NextIdx s))) = s"
  by (auto simp: ss_wf_def PrevIdx_def NextIdx_def Let_def cyclic_pred_succ simp del: go_rem_nonneg)

lemma NextIdx_PrevIdx:
  "ss_wf s \<Longrightarrow> CurrentIdx s < MatchCount s \<Longrightarrow> fst (NextIdx (fst (PrevIdx s))) = s"
  by (auto simp: ss_wf_def PrevIdx_def NextIdx_def Let_def cyclic_succ_pred simp del: go_rem_nonneg)

end
