(* ===== verification/Ansi_Split.thy ===== *)
theory Ansi_Split
  imports Extern
begin

text \<open>
  \<^verbatim>\<open>internal/ui/ansisplit.go\<close>: search highlights and soft wrapping of lines that carry
  escape sequences. Each function is one pass over the sequences of a line; a pass is a
  \<open>foldl\<close> of its loop body over the list \<open>ansi_seqs\<close> (the loop variable \<open>b\<close> of the source
  is the rest of that list), and a \<open>break\<close> is a flag of the loop state.
\<close>

section \<open>SGR sequences\<close>

definition ESC :: char where "ESC = CHR 0x1B"

definition isSGR :: "string \<Rightarrow> bool" where
  "isSGR s \<longleftrightarrow> \<not> length s < 3 \<and> s ! 0 = ESC \<and> s ! 1 = CHR ''['' \<and> s ! (length s - 1) = CHR ''m''"

definition sgr_reset :: string where "sgr_reset = [ESC, CHR ''['', CHR ''m'']"

definition isResetSGR :: "string \<Rightarrow> bool" where
  "isResetSGR s \<longleftrightarrow> s = sgr_reset \<or> s = [ESC, CHR ''['', CHR ''0'', CHR ''m'']"

definition track_sgr :: "string \<Rightarrow> string \<Rightarrow> string" where
  "track_sgr buf s = (if isSGR s then (if isResetSGR s then '''' else buf @ s) else buf)"

section \<open>Highlights\<close>

type_synonym highlightRange = "int \<times> int"

record hl_state =
  hl_out :: string
  hl_sgr :: string
  hl_idx :: nat
  hl_in :: bool
  hl_col :: int

definition hl_open :: "int \<Rightarrow> string \<Rightarrow> string \<Rightarrow> hl_state \<Rightarrow> hl_state" where
  "hl_open sel hiSGR selSGR st = st\<lparr>
     hl_out := hl_out st @ sgr_reset @ (if int (hl_idx st) = sel then selSGR else hiSGR),
     hl_in := True \<rparr>"

definition hl_starts :: "highlightRange list \<Rightarrow> hl_state \<Rightarrow> bool" where
  "hl_starts ms st \<longleftrightarrow> hl_idx st < length ms \<and> hl_col st \<ge> fst (ms ! hl_idx st)"

definition hl_step ::
  "highlightRange list \<Rightarrow> int \<Rightarrow> string \<Rightarrow> string \<Rightarrow> hl_state \<Rightarrow> string \<times> int \<Rightarrow> hl_state" where
  "hl_step ms sel hiSGR selSGR st t =
     (let (s, w) = t in
      if w = 0 then
        (if isSGR s then st\<lparr> hl_sgr := track_sgr (hl_sgr st) s,
             hl_out := (if hl_in st then hl_out st else hl_out st @ s) \<rparr>
         else st\<lparr> hl_out := hl_out st @ s \<rparr>)
      else
        let st1 = (if \<not> hl_in st \<and> hl_starts ms st then hl_open sel hiSGR selSGR st else st);
            st2 = st1\<lparr> hl_out := hl_out st1 @ s, hl_col := hl_col st1 + w \<rparr>
        in if hl_in st2 \<and> hl_col st2 \<ge> snd (ms ! hl_idx st2) then
             let st3 = st2\<lparr> hl_out := hl_out st2 @ sgr_reset @ hl_sgr st2, hl_in := False,
                            hl_idx := Suc (hl_idx st2) \<rparr>
             in if hl_starts ms st3 then hl_open sel hiSGR selSGR st3 else st3
           else st2)"

definition injectHighlights ::
  "text_api \<Rightarrow> string \<Rightarrow> highlightRange list \<Rightarrow> int \<Rightarrow> string \<Rightarrow> string \<Rightarrow> string" where
  "injectHighlights A line ms sel hiSGR selSGR =
     (if ms = [] then line
      else let st = foldl (hl_step ms sel hiSGR selSGR)
             \<lparr> hl_out = '''', hl_sgr = '''', hl_idx = 0, hl_in = False, hl_col = 0 \<rparr>
             (ansi_seqs A line)
           in if hl_in st then hl_out st @ sgr_reset else hl_out st)"

section \<open>Soft wrapping of a window of rows\<close>

record split_state =
  sp_row :: int
  sp_col :: int
  sp_rowWidth :: int
  sp_sgr :: string
  sp_seg :: string
  sp_segStart :: bool
  sp_capturing :: bool
  sp_segments :: "string list"
  sp_widths :: "int list"
  sp_break :: bool

definition sp_start :: "split_state \<Rightarrow> split_state" where
  "sp_start st = st\<lparr> sp_seg := sp_sgr st, sp_segStart := True \<rparr>"

definition sp_close :: "split_state \<Rightarrow> split_state" where
  "sp_close st =
     (if \<not> sp_segStart st then st
      else st\<lparr> sp_segments := sp_segments st @
                 [if sp_sgr st \<noteq> '''' then sp_seg st @ sgr_reset else sp_seg st],
               sp_widths := sp_widths st @ [sp_col st], sp_segStart := False \<rparr>)"

text \<open>A row boundary: close the row, advance, and open the next one or leave the loop.\<close>

definition sp_boundary :: "int \<Rightarrow> int \<Rightarrow> int \<Rightarrow> split_state \<Rightarrow> split_state" where
  "sp_boundary contWidth startRow endRow st =
     (let st1 = (if sp_capturing st then sp_close st else st);
          row1 = sp_row st1 + 1;
          st2 = st1\<lparr> sp_row := row1, sp_col := 0,
                     sp_rowWidth := (if row1 = 1 then contWidth else sp_rowWidth st1) \<rparr>
      in if row1 \<ge> endRow then st2\<lparr> sp_break := True \<rparr>
         else let cap = (row1 \<ge> startRow \<and> row1 < endRow);
                  st3 = st2\<lparr> sp_capturing := cap \<rparr>
              in if cap then sp_start st3 else st3)"

definition sp_step :: "int \<Rightarrow> int \<Rightarrow> int \<Rightarrow> split_state \<Rightarrow> string \<times> int \<Rightarrow> split_state" where
  "sp_step contWidth startRow endRow st t =
     (let (s, w) = t in
      if sp_break st then st
      else if w = 0 then
        st\<lparr> sp_sgr := track_sgr (sp_sgr st) s,
            sp_seg := (if sp_capturing st \<and> sp_segStart st then sp_seg st @ s else sp_seg st) \<rparr>
      else
        let st1 = (if sp_col st + w > sp_rowWidth st \<and> sp_col st > 0
                   then sp_boundary contWidth startRow endRow st else st)
        in if sp_break st1 then st1
           else
             let st2 = st1\<lparr> sp_seg := (if sp_capturing st1 \<and> sp_segStart st1
                                       then sp_seg st1 @ s else sp_seg st1),
                            sp_col := sp_col st1 + w \<rparr>
             in if sp_col st2 \<ge> sp_rowWidth st2
                then sp_boundary contWidth startRow endRow st2 else st2)"

definition sp_init :: "int \<Rightarrow> int \<Rightarrow> int \<Rightarrow> split_state" where
  "sp_init vpWidth startRow endRow =
     (let cap = (0 \<ge> startRow \<and> 0 < endRow);
          st = \<lparr> sp_row = 0, sp_col = 0, sp_rowWidth = vpWidth, sp_sgr = '''', sp_seg = '''',
                 sp_segStart = False, sp_capturing = cap, sp_segments = [], sp_widths = [],
                 sp_break = False \<rparr>
      in if cap then sp_start st else st)"

definition splitWrappedVisible ::
  "text_api \<Rightarrow> string \<Rightarrow> int \<Rightarrow> int \<Rightarrow> int \<Rightarrow> int \<Rightarrow> string list \<times> int list" where
  "splitWrappedVisible A line vpWidth contWidth0 startRow numRows =
     (if line = '''' \<or> numRows \<le> 0 \<or> vpWidth \<le> 0 then ([], [])
      else
        let contWidth = (if contWidth0 \<le> 0 then 1 else contWidth0);
            endRow = startRow + numRows;
            st = foldl (sp_step contWidth startRow endRow) (sp_init vpWidth startRow endRow)
                   (ansi_seqs A line);
            st1 = (if sp_capturing st \<and> sp_segStart st \<and> sp_col st > 0 then sp_close st else st)
        in (sp_segments st1, sp_widths st1))"

section \<open>Continuation rows\<close>

definition wrapIndicatorWidth :: int where "wrapIndicatorWidth = 2"

definition continuationWidth :: "int \<Rightarrow> int" where
  "continuationWidth vpWidth =
     (let w = vpWidth - wrapIndicatorWidth in if w \<le> 0 then 1 else w)"

definition prefixContinuationRows ::
  "string list \<Rightarrow> int list \<Rightarrow> string \<Rightarrow> int \<Rightarrow> bool \<Rightarrow> string list \<times> int list" where
  "prefixContinuationRows segs ws prefix prefixWidth firstIsCont =
     (let start = (if firstIsCont then 0 else 1)
      in (take start segs @ map (\<lambda>s. prefix @ s) (drop start segs),
          take start ws @ map (\<lambda>w. w + prefixWidth) (drop start ws)))"

lemma continuationWidth_pos: "1 \<le> continuationWidth v"
  by (simp add: continuationWidth_def Let_def)

lemma length_prefixContinuationRows [simp]:
  "length (fst (prefixContinuationRows segs ws p pw b)) = length segs"
  "length (snd (prefixContinuationRows segs ws p pw b)) = length ws"
  by (simp_all add: prefixContinuationRows_def Let_def min_def)

section \<open>A window of rows is a window of the wrapped line\<close>

text \<open>
  Two passes over the same line, \<open>f\<close> from row 0 and \<open>w\<close> from row \<open>s\<close> for \<open>n\<close> rows,
  stay in step until \<open>w\<close> leaves its loop.
\<close>

definition sp_rel :: "int \<Rightarrow> int \<Rightarrow> split_state \<Rightarrow> split_state \<Rightarrow> bool" where
  "sp_rel s n f w \<longleftrightarrow>
     (if sp_break w
      then \<not> sp_segStart w \<and> nat s + nat n \<le> length (sp_segments f) \<and>
           length (sp_widths f) = length (sp_segments f) \<and>
           sp_segments w = take (nat n) (drop (nat s) (sp_segments f)) \<and>
           sp_widths w = take (nat n) (drop (nat s) (sp_widths f))
      else \<not> sp_break f \<and> sp_row f = sp_row w \<and> sp_col f = sp_col w \<and>
           sp_rowWidth f = sp_rowWidth w \<and> sp_sgr f = sp_sgr w \<and>
           0 \<le> sp_row w \<and> sp_row w < s + n \<and> sp_capturing f \<and> sp_segStart f \<and>
           sp_capturing w = (s \<le> sp_row w) \<and> sp_segStart w = (s \<le> sp_row w) \<and>
           (s \<le> sp_row w \<longrightarrow> sp_seg w = sp_seg f) \<and>
           int (length (sp_segments f)) = sp_row w \<and> int (length (sp_widths f)) = sp_row w \<and>
           sp_segments w = drop (nat s) (sp_segments f) \<and>
           sp_widths w = drop (nat s) (sp_widths f))"

lemma sp_rel_boundary:
  assumes "sp_rel s n f w" and "\<not> sp_break w" and "0 \<le> s" and "0 < n" and "s + n \<le> N"
  shows "sp_rel s n (sp_boundary c 0 N f) (sp_boundary c s (s + n) w)"
proof -
  have len: "length (sp_segments f) = nat (sp_row w)" "length (sp_widths f) = nat (sp_row w)"
    using assms(1,2) by (auto simp: sp_rel_def)
  show ?thesis
  proof (cases "sp_row w + 1 \<ge> s + n")
    case True
    then have eq: "sp_row w + 1 = s + n" using assms(1,2) by (auto simp: sp_rel_def)
    then have n: "nat s + nat n = Suc (nat (sp_row w))" "nat s \<le> nat (sp_row w)"
      "nat n = Suc (nat (sp_row w) - nat s)"
      using assms by (auto simp: sp_rel_def)
    show ?thesis
      using assms eq n len True
      by (auto simp: sp_rel_def sp_boundary_def sp_close_def sp_start_def Let_def)
  next
    case False
    show ?thesis
      using assms len False
      by (auto simp: sp_rel_def sp_boundary_def sp_close_def sp_start_def Let_def)
  qed
qed

definition sp_grows :: "split_state \<Rightarrow> split_state \<Rightarrow> bool" where
  "sp_grows f f' \<longleftrightarrow> (\<exists>xs ys. sp_segments f' = sp_segments f @ xs \<and>
     sp_widths f' = sp_widths f @ ys \<and> length xs = length ys)"

lemma sp_grows_refl [simp]: "sp_grows f f"
  by (simp add: sp_grows_def)

lemma sp_grows_trans: "sp_grows f g \<Longrightarrow> sp_grows g h \<Longrightarrow> sp_grows f h"
  by (force simp: sp_grows_def)

lemma sp_grows_close [simp]: "sp_grows f (sp_close f)"
  by (simp add: sp_grows_def sp_close_def)

lemma sp_grows_boundary [simp]: "sp_grows f (sp_boundary c s e f)"
  by (simp add: sp_grows_def sp_boundary_def sp_close_def sp_start_def Let_def)

lemma sp_grows_fields:
  "sp_segments f' = sp_segments f \<Longrightarrow> sp_widths f' = sp_widths f \<Longrightarrow> sp_grows f f'"
  by (simp add: sp_grows_def)

lemma sp_grows_step: "sp_grows f (sp_step c s e f t)"
proof (cases "sp_break f \<or> snd t = 0")
  case True
  then show ?thesis by (auto simp: sp_step_def split: prod.splits intro: sp_grows_fields)
next
  case False
  obtain q w where t: "t = (q, w)" by (cases t)
  define f1 where "f1 = (if sp_col f + w > sp_rowWidth f \<and> sp_col f > 0
                         then sp_boundary c s e f else f)"
  define f2 where "f2 = f1\<lparr> sp_seg := (if sp_capturing f1 \<and> sp_segStart f1
                               then sp_seg f1 @ q else sp_seg f1), sp_col := sp_col f1 + w \<rparr>"
  have "sp_grows f f1" by (simp add: f1_def)
  moreover have "sp_grows f1 f2" by (rule sp_grows_fields) (simp_all add: f2_def)
  ultimately have "sp_grows f f2" by (rule sp_grows_trans)
  moreover have "sp_step c s e f t = (if sp_break f1 then f1
      else if sp_col f2 \<ge> sp_rowWidth f2 then sp_boundary c s e f2 else f2)"
    using False by (simp add: sp_step_def t f1_def f2_def Let_def)
  ultimately show ?thesis
    using \<open>sp_grows f f1\<close> by (auto intro: sp_grows_trans [OF _ sp_grows_boundary])
qed

lemma sp_rel_broken:
  "sp_rel s n f w \<Longrightarrow> sp_break w \<Longrightarrow> sp_grows f f' \<Longrightarrow> sp_rel s n f' w"
  by (auto simp: sp_rel_def sp_grows_def)

lemma sp_rel_step:
  assumes rel: "sp_rel s n f w" and s: "0 \<le> s" and n: "0 < n" and N: "s + n \<le> N"
  shows "sp_rel s n (sp_step c 0 N f t) (sp_step c s (s + n) w t)"
proof (cases "sp_break w")
  case True
  then have "sp_step c s (s + n) w t = w" by (simp add: sp_step_def split: prod.splits)
  with True rel show ?thesis by (auto intro: sp_rel_broken sp_grows_step)
next
  case nb: False
  obtain q v where t: "t = (q, v)" by (cases t)
  show ?thesis
  proof (cases "v = 0")
    case True
    with nb rel show ?thesis by (auto simp: sp_step_def t sp_rel_def)
  next
    case False
    define bd where "bd x e st = (if sp_col st + v > sp_rowWidth st \<and> sp_col st > 0
                         then sp_boundary c x e st else st)" for x e and st :: split_state
    define wr where "wr st = st\<lparr> sp_seg := (if sp_capturing st \<and> sp_segStart st
                 then sp_seg st @ q else sp_seg st), sp_col := sp_col st + v \<rparr>" for st :: split_state
    have step: "sp_step c x e st t = (if sp_break (bd x e st) then bd x e st
        else if sp_col (wr (bd x e st)) \<ge> sp_rowWidth (wr (bd x e st))
             then sp_boundary c x e (wr (bd x e st)) else wr (bd x e st))"
      if "\<not> sp_break st" for x e st
      using False that by (simp add: sp_step_def t bd_def wr_def Let_def)
    have same: "sp_col f = sp_col w" "sp_rowWidth f = sp_rowWidth w" "\<not> sp_break f"
      using rel nb by (auto simp: sp_rel_def)
    have r1: "sp_rel s n (bd 0 N f) (bd s (s + n) w)"
      using sp_rel_boundary [OF rel nb s n N] rel same by (simp add: bd_def)
    show ?thesis
    proof (cases "sp_break (bd s (s + n) w)")
      case True
      have "sp_grows (bd 0 N f) (wr (bd 0 N f))" by (rule sp_grows_fields) (simp_all add: wr_def)
      then have "sp_grows (bd 0 N f) (sp_step c 0 N f t)"
        unfolding step [OF same(3)] by (auto intro: sp_grows_trans [OF _ sp_grows_boundary])
      with r1 True show ?thesis by (simp add: step [OF nb] sp_rel_broken)
    next
      case F: False
      have r2: "sp_rel s n (wr (bd 0 N f)) (wr (bd s (s + n) w))" and nb2: "\<not> sp_break (bd 0 N f)"
        and nb3: "\<not> sp_break (wr (bd s (s + n) w))"
        using r1 F by (auto simp: sp_rel_def wr_def)
      have "sp_col (wr (bd 0 N f)) = sp_col (wr (bd s (s + n) w))"
        "sp_rowWidth (wr (bd 0 N f)) = sp_rowWidth (wr (bd s (s + n) w))"
        using r2 nb3 by (auto simp: sp_rel_def)
      with sp_rel_boundary [OF r2 nb3 s n N] r2 F nb2 show ?thesis
        by (simp add: step [OF nb] step [OF same(3)])
    qed
  qed
qed

lemma sp_rel_run:
  assumes "sp_rel s n f w" and "0 \<le> s" and "0 < n" and "s + n \<le> N"
  shows "sp_rel s n (foldl (sp_step c 0 N) f ts) (foldl (sp_step c s (s + n)) w ts)"
  using assms by (induction ts arbitrary: f w) (auto intro: sp_rel_step)

lemma sp_rel_init:
  "0 \<le> s \<Longrightarrow> 0 < n \<Longrightarrow> s + n \<le> N \<Longrightarrow> sp_rel s n (sp_init v 0 N) (sp_init v s (s + n))"
  by (auto simp: sp_rel_def sp_init_def sp_start_def Let_def)

definition sp_flush :: "split_state \<Rightarrow> split_state" where
  "sp_flush st = (if sp_capturing st \<and> sp_segStart st \<and> sp_col st > 0 then sp_close st else st)"

lemma sp_rel_flush:
  assumes "sp_rel s n f w" and "0 \<le> s" and "0 < n"
  shows "sp_segments (sp_flush w) = take (nat n) (drop (nat s) (sp_segments (sp_flush f)))"
    and "sp_widths (sp_flush w) = take (nat n) (drop (nat s) (sp_widths (sp_flush f)))"
  using assms by (auto simp: sp_rel_def sp_flush_def sp_close_def split: if_splits)

lemma splitWrappedVisible_flush:
  "splitWrappedVisible A line v c0 s n =
     (if line = '''' \<or> n \<le> 0 \<or> v \<le> 0 then ([], [])
      else let c = (if c0 \<le> 0 then 1 else c0);
               st = sp_flush (foldl (sp_step c s (s + n)) (sp_init v s (s + n)) (ansi_seqs A line))
           in (sp_segments st, sp_widths st))"
  by (simp add: splitWrappedVisible_def sp_flush_def Let_def)

lemma split_window:
  assumes "0 \<le> s" and "0 < n" and "s + n \<le> N"
  shows "splitWrappedVisible A line v c s n =
     (take (nat n) (drop (nat s) (fst (splitWrappedVisible A line v c 0 N))),
      take (nat n) (drop (nat s) (snd (splitWrappedVisible A line v c 0 N))))"
proof (cases "line = '''' \<or> v \<le> 0")
  case False
  let ?c = "if c \<le> 0 then 1 else c"
  have "sp_rel s n (foldl (sp_step ?c 0 N) (sp_init v 0 N) (ansi_seqs A line))
          (foldl (sp_step ?c s (s + n)) (sp_init v s (s + n)) (ansi_seqs A line))"
    using assms by (intro sp_rel_run sp_rel_init)
  note fl = sp_rel_flush [OF this assms(1,2)]
  show ?thesis
    using False assms fl by (simp add: splitWrappedVisible_flush Let_def)
qed (use assms in \<open>auto simp: splitWrappedVisible_flush\<close>)

section \<open>How many rows a line takes\<close>

text \<open>
  For lines whose characters are one cell wide, the rows are filled exactly. \<open>u\<close> is the
  width consumed so far.
\<close>

definition narrow :: "(string \<times> int) list \<Rightarrow> bool" where
  "narrow ts \<longleftrightarrow> (\<forall>t\<in>set ts. snd t = 0 \<or> snd t = 1)"

definition sp_fill :: "int \<Rightarrow> int \<Rightarrow> int \<Rightarrow> int \<Rightarrow> split_state \<Rightarrow> bool" where
  "sp_fill v c N u st \<longleftrightarrow> \<not> sp_break st \<and> sp_capturing st \<and> sp_segStart st \<and>
     int (length (sp_segments st)) = sp_row st \<and> length (sp_widths st) = length (sp_segments st) \<and>
     0 \<le> sp_col st \<and> sp_col st < sp_rowWidth st \<and> 0 \<le> u \<and> sp_row st < N \<and>
     (if sp_row st = 0 then sp_rowWidth st = v \<and> sp_col st = u
      else 1 \<le> sp_row st \<and> sp_rowWidth st = c \<and> u = v + (sp_row st - 1) * c + sp_col st)"

lemma sp_fill_init: "0 < v \<Longrightarrow> 0 < N \<Longrightarrow> sp_fill v c N 0 (sp_init v 0 N)"
  by (simp add: sp_fill_def sp_init_def sp_start_def)

lemma sp_fill_row_le:
  assumes "sp_fill v c N u st" and "0 < v" and "0 < c"
  shows "sp_row st \<le> u"
proof (cases "sp_row st = 0")
  case False
  with assms have "u = v + (sp_row st - 1) * c + sp_col st" "0 \<le> sp_col st" "1 \<le> sp_row st"
    by (auto simp: sp_fill_def)
  moreover have "sp_row st - 1 \<le> (sp_row st - 1) * c"
    using \<open>1 \<le> sp_row st\<close> \<open>0 < c\<close> by (simp add: mult_le_cancel_left1)
  ultimately show ?thesis using \<open>0 < v\<close> by linarith
qed (use assms in \<open>auto simp: sp_fill_def\<close>)

lemma sp_fill_step:
  assumes fill: "sp_fill v c N u st" and v: "0 < v" and c: "0 < c"
    and w: "snd t = 0 \<or> snd t = 1" and N: "u + snd t < N"
  shows "sp_fill v c N (u + snd t) (sp_step c 0 N st t)"
proof -
  obtain q k where t: "t = (q, k)" by (cases t)
  have row: "sp_row st \<le> u" using fill v c by (rule sp_fill_row_le)
  show ?thesis
  proof (cases "k = 0")
    case True
    with fill show ?thesis by (simp add: t sp_step_def sp_fill_def split: if_splits)
  next
    case False
    with w have k: "k = 1" by (simp add: t)
    show ?thesis
    proof (cases "sp_col st + 1 \<ge> sp_rowWidth st")
      case True
      then have "sp_col st + 1 = sp_rowWidth st" using fill by (simp add: sp_fill_def)
      with fill row N c v show ?thesis
        by (auto simp: t k sp_step_def sp_fill_def sp_boundary_def sp_close_def sp_start_def
            Let_def algebra_simps split: if_splits)
    next
      case nb: False
      with fill show ?thesis
        by (auto simp: t k sp_step_def sp_fill_def Let_def split: if_splits)
    qed
  qed
qed

lemma sp_fill_run:
  assumes "sp_fill v c N u st" and "0 < v" and "0 < c" and "narrow ts"
    and "u + sum_list (map snd ts) < N"
  shows "sp_fill v c N (u + sum_list (map snd ts)) (foldl (sp_step c 0 N) st ts)"
  using assms
proof (induction ts arbitrary: u st)
  case (Cons t ts)
  have nonneg: "0 \<le> sum_list (map snd ts)"
    using Cons.prems(4) by (intro sum_list_nonneg) (auto simp: narrow_def)
  have "sp_fill v c N (u + snd t) (sp_step c 0 N st t)"
    using Cons.prems nonneg by (intro sp_fill_step) (auto simp: narrow_def)
  then show ?case
    using Cons.IH [of "u + snd t" "sp_step c 0 N st t"] Cons.prems by (simp add: narrow_def add.assoc)
qed simp

lemma sp_fill_flush_length:
  assumes "sp_fill v c N u st" and "0 < v" and "0 < c" and "0 < u"
  shows "int (length (sp_segments (sp_flush st))) = (if u \<le> v then 1 else 1 + (u - v + c - 1) div c)"
proof -
  let ?r = "sp_row st" and ?k = "sp_col st"
  have len: "int (length (sp_segments (sp_flush st))) = (if 0 < ?k then ?r + 1 else ?r)"
    using assms by (auto simp: sp_flush_def sp_close_def sp_fill_def)
  show ?thesis
  proof (cases "?r = 0")
    case True
    with assms len show ?thesis by (auto simp: sp_fill_def)
  next
    case False
    with assms have r: "1 \<le> ?r" "u = v + (?r - 1) * c + ?k" "0 \<le> ?k" "?k < c"
      by (auto simp: sp_fill_def)
    have "(u - v + c - 1) div c = (?r - 1) + (?k + c - 1) div c"
      using r(2) \<open>0 < c\<close> by (simp add: algebra_simps flip: div_mult_self1)
    moreover have "(?k + c - 1) div c = (if 0 < ?k then 1 else 0)"
      using r \<open>0 < c\<close> div_pos_pos_trivial [of "?k - 1" c] div_add_self2 [of c "?k - 1"]
      by (auto simp: algebra_simps)
    moreover have "u \<le> v \<longleftrightarrow> ?r = 1 \<and> ?k = 0"
    proof (cases "?r = 1")
      case True
      with r show ?thesis by simp
    next
      case False
      with r \<open>0 < c\<close> have "0 < (?r - 1) * c" by simp
      with r False show ?thesis by linarith
    qed
    ultimately show ?thesis using len by auto
  qed
qed

lemma split_rows_narrow:
  assumes "narrow (ansi_seqs A line)" and "line \<noteq> ''''" and "0 < v" and "0 < c"
    and "u = sum_list (map snd (ansi_seqs A line))" and "0 < u" and "u < N"
  shows "int (length (fst (splitWrappedVisible A line v c 0 N))) =
           (if u \<le> v then 1 else 1 + (u - v + c - 1) div c)"
proof -
  have "sp_fill v c N (0 + u) (foldl (sp_step c 0 N) (sp_init v 0 N) (ansi_seqs A line))"
    unfolding assms(5) by (rule sp_fill_run) (use assms in \<open>auto intro: sp_fill_init\<close>)
  from sp_fill_flush_length [OF this] assms show ?thesis
    by (simp add: splitWrappedVisible_flush Let_def)
qed

end
