(* ===== verification/Log_View.thy ===== *)
theory Log_View
  imports Ring_Buffer Search_State Ansi_Split Text_Lines
begin

text \<open>
  \<^verbatim>\<open>internal/ui/logview.go\<close> and \<^verbatim>\<open>internal/ui/logviewport.go\<close>: the log panel. The
  state keeps the ring buffer of lines, the filter as a list of absolute line indices, the
  positions of search matches, and two scroll states (plain and soft-wrapped). Every
  mutation ends in \<open>updateViewport\<close>, which cuts the visible window out of the buffer; it is
  the operation that can panic, so operations return \<open>log_view go\<close>.

  \<open>DefaultPipeline\<close> is the highlighter of \<^verbatim>\<open>internal/highlight\<close>, taken as a function.
\<close>

section \<open>The renderer for visible lines\<close>

record log_viewport =
  vp_lines :: "string list"
  vp_rawWidths :: "int list"
  vp_width :: int
  vp_height :: int
  vp_xOffset :: int

definition SetLines :: "string list \<Rightarrow> int list \<Rightarrow> log_viewport \<Rightarrow> log_viewport" where
  "SetLines ls ws v = v\<lparr> vp_lines := ls, vp_rawWidths := ws \<rparr>"

definition vp_SetSize :: "int \<Rightarrow> int \<Rightarrow> log_viewport \<Rightarrow> log_viewport" where
  "vp_SetSize w h v = v\<lparr> vp_width := w, vp_height := h \<rparr>"

text \<open>One output line: the visible part of the stored line, padded to the width.\<close>

definition vp_output :: "text_api \<Rightarrow> log_viewport \<Rightarrow> nat \<Rightarrow> string" where
  "vp_output A v i =
     (let line = vp_lines v ! i;
          rw = (if i < length (vp_rawWidths v) then vp_rawWidths v ! i else 0);
          (line1, visibleWidth) =
            (if vp_xOffset v > 0
             then (if rw \<le> vp_xOffset v then ('''', 0)
                   else (Cut A line (vp_xOffset v) (vp_xOffset v + vp_width v),
                         min (rw - vp_xOffset v) (vp_width v)))
             else (if rw > vp_width v then Cut A line 0 (vp_width v) else line,
                   min rw (vp_width v)));
          padding = max (vp_width v - visibleWidth) 0
      in if padding > 0 then line1 @ replicate (nat padding) (CHR '' '') else line1)"

definition vp_outputs :: "text_api \<Rightarrow> log_viewport \<Rightarrow> string list" where
  "vp_outputs A v =
     (let n = min (length (vp_lines v)) (nat (vp_height v))
      in map (vp_output A v) [0..<n] @
         replicate (nat (vp_height v) - n) (replicate (nat (vp_width v)) (CHR '' '')))"

definition vp_View :: "text_api \<Rightarrow> log_viewport \<Rightarrow> string" where
  "vp_View A v = (if vp_width v \<le> 0 \<or> vp_height v \<le> 0 then '''' else join_lines (vp_outputs A v))"

section \<open>State\<close>

record match_position =
  mp_line :: int
  mp_colStart :: int
  mp_colEnd :: int

record log_view =
  lv_buffer :: ring_buffer
  lv_focused :: bool
  lv_borderless :: bool
  lv_width :: int
  lv_height :: int
  activeContainer :: string
  containers :: "string list"
  podName :: string
  lv_namespace :: string
  autoscroll :: bool
  unavailable :: bool
  lv_filterState :: search_state
  lv_searchState :: search_state
  lv_inlineSearch :: string
  matchPositions :: "match_position list"
  matchIndex :: int
  pipeline :: "(string \<Rightarrow> string) option"
  timeRangeLabel :: string
  defaultTimeRange :: string
  defaultSinceSeconds :: int
  scrollOffset :: int
  filteredIndices :: "int list"
  filteredIndexOffset :: int
  lv_showHeader :: bool
  logVP :: log_viewport
  highlightSGR :: string
  selectedHighlightSGR :: string
  lv_softWrap :: bool
  wrapYOffset :: int
  totalWrappedRows :: int

definition NewLogView ::
  "(string \<Rightarrow> string) \<Rightarrow> string \<Rightarrow> string \<Rightarrow> int \<Rightarrow> int \<Rightarrow> int \<Rightarrow> string \<Rightarrow> int \<Rightarrow> log_view" where
  "NewLogView DefaultPipeline hiSGR selSGR width height bufCapacity timeRange sinceSeconds =
     \<lparr> lv_buffer = NewDualRingBuffer bufCapacity, lv_focused = False, lv_borderless = False,
       lv_width = width, lv_height = height, activeContainer = '''', containers = [],
       podName = '''', lv_namespace = '''', autoscroll = True, unavailable = False,
       lv_filterState = zero_search, lv_searchState = zero_search, lv_inlineSearch = '''',
       matchPositions = [], matchIndex = 0, pipeline = Some DefaultPipeline,
       timeRangeLabel = timeRange, defaultTimeRange = timeRange,
       defaultSinceSeconds = sinceSeconds, scrollOffset = 0, filteredIndices = [],
       filteredIndexOffset = 0, lv_showHeader = True,
       logVP = vp_SetSize (width - 2) (height - 2)
         \<lparr> vp_lines = [], vp_rawWidths = [], vp_width = 0, vp_height = 0, vp_xOffset = 0 \<rparr>,
       highlightSGR = hiSGR, selectedHighlightSGR = selSGR, lv_softWrap = False,
       wrapYOffset = 0, totalWrappedRows = 0 \<rparr>"

definition hScrollStep :: int where "hScrollStep = 8"
definition hScrollPadding :: int where "hScrollPadding = 15"

text \<open>The expression \<^verbatim>\<open>^--- \d{2}:\d{2}:\d{2} ---$\<close> of timestamp markers.\<close>

definition is_digit :: "char \<Rightarrow> bool" where
  "is_digit c \<longleftrightarrow> 48 \<le> (of_char c :: nat) \<and> (of_char c :: nat) \<le> 57"

definition is_marker :: "string \<Rightarrow> bool" where
  "is_marker s \<longleftrightarrow> length s = 16 \<and> take 4 s = ''--- '' \<and> drop 12 s = '' ---'' \<and>
     is_digit (s ! 4) \<and> is_digit (s ! 5) \<and> s ! 6 = CHR '':'' \<and>
     is_digit (s ! 7) \<and> is_digit (s ! 8) \<and> s ! 9 = CHR '':'' \<and>
     is_digit (s ! 10) \<and> is_digit (s ! 11)"

section \<open>Geometry\<close>

definition viewportHeight :: "log_view \<Rightarrow> int" where
  "viewportHeight lv =
     (if lv_borderless lv then (if lv_showHeader lv then lv_height lv - 1 else lv_height lv)
      else lv_height lv - 2)"

abbreviation hasIndicator :: "log_view \<Rightarrow> bool" where
  "hasIndicator lv \<equiv> rb_Dropped (lv_buffer lv) > 0"

abbreviation filtering :: "log_view \<Rightarrow> bool" where
  "filtering lv \<equiv> ss_Active (lv_filterState lv)"

definition lineCount :: "log_view \<Rightarrow> int" where
  "lineCount lv = (if filtering lv then int (length (filteredIndices lv)) else rb_Len (lv_buffer lv))"

definition totalDisplayLines :: "log_view \<Rightarrow> int" where
  "totalDisplayLines lv = (if hasIndicator lv then lineCount lv + 1 else lineCount lv)"

definition clampScrollOffset :: "log_view \<Rightarrow> log_view" where
  "clampScrollOffset lv =
     (let maxOffset = max (totalDisplayLines lv - viewportHeight lv) 0;
          s1 = (if scrollOffset lv > maxOffset then maxOffset else scrollOffset lv);
          s2 = (if s1 < 0 then 0 else s1)
      in lv\<lparr> scrollOffset := s2 \<rparr>)"

definition indicator_text :: "log_view \<Rightarrow> string" where
  "indicator_text lv = ''~'' @ itoa (rb_Dropped (lv_buffer lv)) @ '' lines dropped''"

definition wrapHeight :: "int \<Rightarrow> int \<Rightarrow> int" where
  "wrapHeight displayWidth vpWidth0 =
     (let vpWidth = (if vpWidth0 \<le> 0 then 1 else vpWidth0)
      in if displayWidth \<le> vpWidth then 1
         else let contWidth = continuationWidth vpWidth
              in 1 + go_quot (displayWidth - vpWidth + contWidth - 1) contWidth)"

definition recomputeTotalWrappedRows :: "log_view \<Rightarrow> log_view" where
  "recomputeTotalWrappedRows lv =
     (let vpWidth = vp_width (logVP lv);
          heights = (if filtering lv
            then map (\<lambda>idx. wrapHeight (WidthGet (lv_buffer lv) (idx - filteredIndexOffset lv)) vpWidth)
                   (filteredIndices lv)
            else map (\<lambda>i. wrapHeight (WidthGet (lv_buffer lv) (int i)) vpWidth)
                   [0..<nat (rb_Len (lv_buffer lv))]);
          total = sum_list heights
      in lv\<lparr> totalWrappedRows := (if hasIndicator lv then total + 1 else total) \<rparr>)"

definition trackNonEvictingAppend :: "bool \<Rightarrow> int \<Rightarrow> log_view \<Rightarrow> log_view" where
  "trackNonEvictingAppend incl rawWidth lv =
     (let lv1 = (if lv_softWrap lv \<and> \<not> filtering lv
                 then lv\<lparr> totalWrappedRows := totalWrappedRows lv + wrapHeight rawWidth (vp_width (logVP lv)) \<rparr>
                 else lv)
      in if \<not> filtering lv1 then lv1
         else let lv2 = (if incl then lv1\<lparr> filteredIndices := filteredIndices lv1 @
                                  [filteredIndexOffset lv1 + rb_Len (lv_buffer lv1) - 1] \<rparr> else lv1)
              in if lv_softWrap lv2 then recomputeTotalWrappedRows lv2 else lv2)"

section \<open>The visible window, unwrapped\<close>

text \<open>The raw line behind index \<open>i\<close> of the filtered or the full list of lines.\<close>

definition filtered_raw :: "log_view \<Rightarrow> int \<Rightarrow> string go" where
  "filtered_raw lv i =
     (if filtering lv
      then go_bind (go_index (filteredIndices lv) i)
             (\<lambda>idx. Inr (RawGet (lv_buffer lv) (idx - filteredIndexOffset lv)))
      else Inr (RawGet (lv_buffer lv) i))"

definition uv_window :: "log_view \<Rightarrow> int \<Rightarrow> int \<Rightarrow> (string list \<times> int list) go" where
  "uv_window lv start end0 =
     (if filtering lv
      then go_bind (go_slice (filteredIndices lv) start end0)
             (\<lambda>idxs. Inr (map (\<lambda>idx. ColoredGet (lv_buffer lv) (idx - filteredIndexOffset lv)) idxs,
                          map (\<lambda>idx. WidthGet (lv_buffer lv) (idx - filteredIndexOffset lv)) idxs))
      else Inr (ColoredSlice (lv_buffer lv) start end0, WidthSlice (lv_buffer lv) start end0))"

definition windowPositions :: "log_view \<Rightarrow> int \<Rightarrow> int \<Rightarrow> match_position list" where
  "windowPositions lv windowStart windowEnd =
     (let mps = matchPositions lv;
          startIdx = sort_Search (length mps) (\<lambda>i. mp_line (mps ! i) \<ge> windowStart)
      in map (\<lambda>p. p\<lparr> mp_line := mp_line p - windowStart \<rparr>)
           (takeWhile (\<lambda>p. \<not> mp_line p \<ge> windowEnd) (drop startIdx mps)))"

definition first_index :: "('a \<Rightarrow> bool) \<Rightarrow> 'a list \<Rightarrow> int" where
  "first_index P xs =
     (if \<exists>x\<in>set xs. P x then int (length (takeWhile (\<lambda>x. \<not> P x) xs)) else -1)"

definition globalSelectedWP ::
  "log_view \<Rightarrow> int \<Rightarrow> int \<Rightarrow> match_position list \<Rightarrow> int go" where
  "globalSelectedWP lv windowStart windowEnd wps =
     (if matchIndex lv \<ge> 0
      then go_bind (go_index (matchPositions lv) (matchIndex lv))
             (\<lambda>sel. Inr (if mp_line sel \<ge> windowStart \<and> mp_line sel < windowEnd
                then first_index (\<lambda>wp. mp_line wp = mp_line sel - windowStart \<and>
                                       mp_colStart wp = mp_colStart sel) wps
                else -1))
      else Inr (-1))"

text \<open>
  The loop over the groups of positions that share a line: \<open>wpIdx\<close> counts the positions
  consumed, \<open>wps\<close> is the rest.
\<close>

function inject_groups ::
  "text_api \<Rightarrow> log_view \<Rightarrow> int \<Rightarrow> int \<Rightarrow> int \<Rightarrow> match_position list \<Rightarrow> string list \<Rightarrow> string list go" where
  "inject_groups A lv start gsel wpIdx [] window = Inr window"
| "inject_groups A lv start gsel wpIdx (p # ps) window =
     (let lineIdx = mp_line p;
          grp = p # takeWhile (\<lambda>q. mp_line q = lineIdx) ps;
          rest = dropWhile (\<lambda>q. mp_line q = lineIdx) ps;
          wpIdx1 = wpIdx + int (length grp);
          bufLineIdx = (if hasIndicator lv \<and> scrollOffset lv = 0 then lineIdx - 1 else lineIdx)
      in go_bind (if bufLineIdx \<ge> 0
                  then go_bind (filtered_raw lv (start + bufLineIdx)) (\<lambda>r. Inr (is_marker r))
                  else Inr False)
           (\<lambda>marker.
              if marker then inject_groups A lv start gsel wpIdx1 rest window
              else
                let selectedInLine = (if gsel \<ge> wpIdx \<and> gsel < wpIdx1 then gsel - wpIdx else -1);
                    ranges = map (\<lambda>q. (mp_colStart q, mp_colEnd q)) grp
                in go_bind (go_index window lineIdx)
                     (\<lambda>l. inject_groups A lv start gsel wpIdx1 rest
                        (window[nat lineIdx := injectHighlights A l ranges selectedInLine
                            (highlightSGR lv) (selectedHighlightSGR lv)]))))"
  by pat_completeness auto
termination
  by (relation "measure (\<lambda>(_, _, _, _, _, ps, _). length ps)")
    (auto simp: le_imp_less_Suc length_dropWhile_le)

definition uv_highlight :: "text_api \<Rightarrow> log_view \<Rightarrow> int \<Rightarrow> string list \<Rightarrow> string list go" where
  "uv_highlight A lv start window =
     (if ss_Active (lv_searchState lv) \<and> matchPositions lv \<noteq> []
      then let windowStart = scrollOffset lv;
               windowEnd = scrollOffset lv + int (length window);
               wps = windowPositions lv windowStart windowEnd
           in if wps \<noteq> []
              then go_bind (globalSelectedWP lv windowStart windowEnd wps)
                     (\<lambda>gsel. inject_groups A lv start gsel 0 wps window)
              else Inr window
      else Inr window)"

definition uv_range :: "log_view \<Rightarrow> int \<times> int" where
  "uv_range lv =
     (let h = viewportHeight lv;
          total = lineCount lv;
          indicatorOffset = (if hasIndicator lv then 1 else 0);
          start0 = max (scrollOffset lv - indicatorOffset) 0;
          end0 = start0 + h;
          end1 = (if hasIndicator lv \<and> scrollOffset lv = 0 then end0 - 1 else end0);
          end2 = (if end1 > total then total else end1);
          start1 = (if start0 > total then total else start0)
      in (start1, end2))"

definition updateViewport_plain :: "text_api \<Rightarrow> log_view \<Rightarrow> log_view go" where
  "updateViewport_plain A lv0 =
     (let lv = clampScrollOffset lv0; (start, end0) = uv_range lv
      in go_bind (uv_window lv start end0)
           (\<lambda>(window, ws).
              let ind = (hasIndicator lv \<and> scrollOffset lv = 0);
                  window1 = (if ind then indicator_text lv # window else window);
                  ws1 = (if ind then int (length (indicator_text lv)) # ws else ws)
              in go_bind (uv_highlight A lv start window1)
                   (\<lambda>window2. Inr (lv\<lparr> logVP := SetLines window2 ws1 (logVP lv) \<rparr>))))"

section \<open>The visible window, soft-wrapped\<close>

text \<open>
  \<open>di\<close> indexes the display list: the indicator, when there is one, then the lines.
  \<open>di < lineCount\<close> (plus one for the indicator) at every use, so the reads of
  \<open>filteredIndices\<close> are in range.
\<close>

definition disp_buf_idx :: "log_view \<Rightarrow> int \<Rightarrow> int" where
  "disp_buf_idx lv di =
     (let bufIdx = (if hasIndicator lv \<and> di > 0 then di - 1 else di)
      in if filtering lv then filteredIndices lv ! nat bufIdx - filteredIndexOffset lv else bufIdx)"

definition is_indicator :: "log_view \<Rightarrow> int \<Rightarrow> bool" where
  "is_indicator lv di \<longleftrightarrow> hasIndicator lv \<and> di = 0"

definition disp_height :: "log_view \<Rightarrow> int \<Rightarrow> int \<Rightarrow> int" where
  "disp_height lv vpWidth di =
     (if is_indicator lv di then 1
      else wrapHeight (WidthGet (lv_buffer lv) (disp_buf_idx lv di)) vpWidth)"

text \<open>The first visible display line and the rows of it to skip.\<close>

fun find_first :: "(int \<Rightarrow> int) \<Rightarrow> int \<Rightarrow> int \<Rightarrow> nat list \<Rightarrow> int \<times> int" where
  "find_first height yOffset row [] = (0, 0)"
| "find_first height yOffset row (di # dis) =
     (let h = height (int di)
      in if row + h > yOffset then (int di, yOffset - row)
         else if dis = [] then (int di, 0)
         else find_first height yOffset (row + h) dis)"

definition wrapped_line :: "text_api \<Rightarrow> log_view \<Rightarrow> int \<Rightarrow> string" where
  "wrapped_line A lv di =
     (let line = (if is_indicator lv di then indicator_text lv
                  else ColoredGet (lv_buffer lv) (disp_buf_idx lv di));
          isMarker = (\<not> is_indicator lv di \<and> is_marker (RawGet (lv_buffer lv) (disp_buf_idx lv di)))
      in if \<not> isMarker \<and> ss_Active (lv_searchState lv) \<and> matchPositions lv \<noteq> []
         then let mps = matchPositions lv;
                  startIdx = sort_Search (length mps) (\<lambda>i. mp_line (mps ! i) \<ge> di);
                  lps = map (\<lambda>p. p\<lparr> mp_line := 0 \<rparr>)
                          (takeWhile (\<lambda>p. \<not> mp_line p > di) (drop startIdx mps))
              in if lps \<noteq> []
                 then let selectedInLine =
                            (if matchIndex lv \<ge> 0 \<and> matchIndex lv < int (length mps)
                             then let sel = mps ! nat (matchIndex lv)
                                  in if mp_line sel = di
                                     then first_index (\<lambda>lp. mp_colStart lp = mp_colStart sel \<and>
                                            mp_colEnd lp = mp_colEnd sel) lps
                                     else -1
                             else -1);
                          ranges = map (\<lambda>p. (mp_colStart p, mp_colEnd p)) lps
                      in injectHighlights A line ranges selectedInLine
                           (highlightSGR lv) (selectedHighlightSGR lv)
                 else line
         else line)"

definition wrapped_width :: "log_view \<Rightarrow> int \<Rightarrow> int" where
  "wrapped_width lv di =
     (if is_indicator lv di then int (length (indicator_text lv))
      else WidthGet (lv_buffer lv) (disp_buf_idx lv di))"

text \<open>
  The rows of one display line: one row when it fits, otherwise the rows of the splitter from
  the first visible one, as many as there is room for.
\<close>

definition row_block ::
  "text_api \<Rightarrow> string \<Rightarrow> log_view \<Rightarrow> int \<Rightarrow> int \<Rightarrow> int \<Rightarrow> int \<Rightarrow> int \<Rightarrow> string list \<times> int list" where
  "row_block A prefix lv vpWidth startRow room di w =
     (let line = wrapped_line A lv di
      in if w \<le> vpWidth then ([line], [w])
         else let (segs, segWs) = splitWrappedVisible A line vpWidth (continuationWidth vpWidth)
                                    startRow room
              in prefixContinuationRows segs segWs prefix wrapIndicatorWidth (startRow > 0))"

fun build_rows ::
  "text_api \<Rightarrow> string \<Rightarrow> log_view \<Rightarrow> int \<Rightarrow> int \<Rightarrow> int \<Rightarrow> int \<Rightarrow> nat list \<Rightarrow>
     string list \<times> int list \<Rightarrow> string list \<times> int list" where
  "build_rows A prefix lv vpWidth vpHeight firstIdx vOffset [] (rows, ws) = (rows, ws)"
| "build_rows A prefix lv vpWidth vpHeight firstIdx vOffset (di # dis) (rows, ws) =
     (if \<not> int (length rows) < vpHeight then (rows, ws)
      else
        let startRow = (if int di = firstIdx then vOffset else 0);
            (rows1, ws1) = row_block A prefix lv vpWidth startRow (vpHeight - int (length rows))
                             (int di) (wrapped_width lv (int di))
        in build_rows A prefix lv vpWidth vpHeight firstIdx vOffset dis (rows @ rows1, ws @ ws1))"

definition clamp_wrapYOffset :: "log_view \<Rightarrow> int" where
  "clamp_wrapYOffset lv =
     (let maxOffset = max (totalWrappedRows lv - viewportHeight lv) 0;
          y1 = (if wrapYOffset lv > maxOffset then maxOffset else wrapYOffset lv);
          y2 = (if y1 < 0 then 0 else y1)
      in if autoscroll lv then maxOffset else y2)"

text \<open>\<open>wrapPrefix\<close> is the rendered wrap indicator (\<open>cachedWrapIndicatorPrefix\<close>).\<close>

definition wrapPrefix :: "text_api \<Rightarrow> string" where
  "wrapPrefix A = faint_render A [CHR 0xE2, CHR 0x86, CHR 0xAA] @ '' ''"

definition updateViewportWrapped :: "text_api \<Rightarrow> log_view \<Rightarrow> log_view go" where
  "updateViewportWrapped A lv0 =
     (let vpWidth = (if vp_width (logVP lv0) \<le> 0 then 1 else vp_width (logVP lv0));
          vpHeight = viewportHeight lv0;
          lv = lv0\<lparr> wrapYOffset := clamp_wrapYOffset lv0 \<rparr>;
          dis = [0..<nat (totalDisplayLines lv)];
          (firstIdx, vOffset) = find_first (disp_height lv vpWidth) (wrapYOffset lv) 0 dis;
          (rows, ws) = build_rows A (wrapPrefix A) lv vpWidth vpHeight firstIdx vOffset
                         (drop (nat firstIdx) dis) ([], [])
      in if int (length rows) > vpHeight
         then go_bind (go_slice rows 0 vpHeight)
                (\<lambda>rows1. go_bind (go_slice ws 0 vpHeight)
                  (\<lambda>ws1. Inr (lv\<lparr> logVP := SetLines rows1 ws1 (logVP lv) \<rparr>)))
         else Inr (lv\<lparr> logVP := SetLines rows ws (logVP lv) \<rparr>))"

definition updateViewport :: "text_api \<Rightarrow> log_view \<Rightarrow> log_view go" where
  "updateViewport A lv =
     (if lv_softWrap lv then updateViewportWrapped A lv else updateViewport_plain A lv)"

end
