(* ===== verification/Log_View_Ops.thy ===== *)
theory Log_View_Ops
  imports Log_View
begin

text \<open>
  The operations of \<^verbatim>\<open>internal/ui/logview.go\<close> that change the log panel: appending and
  markers with their eviction bookkeeping, search and filter, scrolling, and the setters. The
  pipeline of \<open>DefaultPipeline\<close> is passed to the operation that reinstalls it; the clock
  text of \<open>InsertMarker\<close> is an argument, and so is the rendering of the marker.
\<close>

section \<open>Search matches\<close>

definition computeLineMatchPositions ::
  "text_api \<Rightarrow> string \<Rightarrow> regexp \<Rightarrow> int \<Rightarrow> match_position list" where
  "computeLineMatchPositions A s re lineIdx =
     map (\<lambda>(a, b). \<lparr> mp_line = lineIdx, mp_colStart = StringWidth A (take a s),
                     mp_colEnd = StringWidth A (take b s) \<rparr>)
       (FindAllStringIndex re s)"

text \<open>The positions of one display line, none when no search is compiled.\<close>

definition line_positions :: "text_api \<Rightarrow> log_view \<Rightarrow> string \<Rightarrow> int \<Rightarrow> match_position list" where
  "line_positions A lv s lineIdx =
     (case Re (lv_searchState lv) of None \<Rightarrow> [] | Some re \<Rightarrow> computeLineMatchPositions A s re lineIdx)"

definition rebuildMatchPositions :: "text_api \<Rightarrow> log_view \<Rightarrow> log_view" where
  "rebuildMatchPositions A lv =
     (if \<not> ss_Active (lv_searchState lv)
      then lv\<lparr> matchPositions := [],
               lv_searchState := (lv_searchState lv)\<lparr> MatchCount := 0 \<rparr> \<rparr>
      else
        let positions =
              (if filtering lv
               then concat (map (\<lambda>k.
                      let bufIdx = filteredIndices lv ! k - filteredIndexOffset lv
                      in if bufIdx \<ge> 0 \<and> bufIdx < rb_Len (lv_buffer lv)
                         then line_positions A lv (StrippedGet (lv_buffer lv) bufIdx) (int k)
                         else [])
                    [0..<length (filteredIndices lv)])
               else concat (map (\<lambda>i. line_positions A lv (StrippedGet (lv_buffer lv) (int i)) (int i))
                    [0..<nat (rb_Len (lv_buffer lv))]));
            positions1 = (if hasIndicator lv
                          then map (\<lambda>p. p\<lparr> mp_line := mp_line p + 1 \<rparr>) positions else positions)
        in lv\<lparr> matchPositions := positions1,
               lv_searchState := (lv_searchState lv)\<lparr> MatchCount := int (length positions1) \<rparr> \<rparr>)"

definition rebuildViewportContent :: "text_api \<Rightarrow> log_view \<Rightarrow> log_view go" where
  "rebuildViewportContent A lv =
     (let lv1 = rebuildMatchPositions A (lv\<lparr> matchIndex := -1 \<rparr>);
          lv2 = (if matchPositions lv1 \<noteq> [] then lv1\<lparr> matchIndex := 0 \<rparr> else lv1);
          lv3 = (if lv_softWrap lv2 then recomputeTotalWrappedRows lv2 else lv2)
      in updateViewport A lv3)"

section \<open>Appending\<close>

definition snap_to_end :: "log_view \<Rightarrow> log_view" where
  "snap_to_end lv = lv\<lparr> scrollOffset := totalDisplayLines lv - viewportHeight lv \<rparr>"

text \<open>\<open>for len(xs) > 0 && xs[0] < off { xs = xs[1:] }\<close>\<close>

definition trim_indices :: "int \<Rightarrow> int list \<Rightarrow> int list" where
  "trim_indices off xs = dropWhile (\<lambda>i. i < off) xs"

text \<open>
  The wrapped-row bookkeeping for one appended line, shared by \<open>AppendLine\<close> and
  \<open>InsertMarker\<close> (which only reaches it after an eviction).
\<close>

definition track_wrapped :: "bool \<Rightarrow> int \<Rightarrow> int \<Rightarrow> int \<Rightarrow> log_view \<Rightarrow> log_view" where
  "track_wrapped evicted droppedBefore newWidth evictedWidth lv =
     (if lv_softWrap lv \<and> \<not> filtering lv
      then let vpWidth = vp_width (logVP lv);
               t1 = totalWrappedRows lv + wrapHeight newWidth vpWidth;
               t2 = (if evicted then t1 - wrapHeight evictedWidth vpWidth else t1);
               t3 = (if evicted \<and> droppedBefore = 0 then t2 + 1 else t2)
           in lv\<lparr> totalWrappedRows := t3 \<rparr>
      else lv)"

definition ss_matches :: "search_state \<Rightarrow> string \<Rightarrow> bool" where
  "ss_matches s line = (case Re s of None \<Rightarrow> False | Some re \<Rightarrow> MatchString re line)"

definition newest_display_idx :: "log_view \<Rightarrow> int" where
  "newest_display_idx lv =
     (let i = (if filtering lv then int (length (filteredIndices lv)) - 1
               else rb_Len (lv_buffer lv) - 1)
      in if hasIndicator lv then i + 1 else i)"

text \<open>The tail of \<open>AppendLine\<close>: search matches, autoscroll, viewport.\<close>

definition append_search :: "text_api \<Rightarrow> bool \<Rightarrow> log_view \<Rightarrow> log_view" where
  "append_search A evicted lv =
     (if ss_Active (lv_searchState lv)
      then if evicted then rebuildMatchPositions A lv
           else let s = StrippedGet (lv_buffer lv) (rb_Len (lv_buffer lv) - 1);
                    mps = matchPositions lv @ line_positions A lv s (newest_display_idx lv)
                in lv\<lparr> matchPositions := mps,
                       lv_searchState := (lv_searchState lv)\<lparr> MatchCount := int (length mps) \<rparr> \<rparr>
      else lv)"

definition finish_append :: "text_api \<Rightarrow> log_view \<Rightarrow> log_view go" where
  "finish_append A lv =
     updateViewport A (if autoscroll lv \<and> \<not> lv_softWrap lv then snap_to_end lv else lv)"

definition append_filter :: "bool \<Rightarrow> bool \<Rightarrow> log_view \<Rightarrow> log_view" where
  "append_filter evicted matched lv =
     (let lv1 = (if evicted
                 then lv\<lparr> filteredIndexOffset := filteredIndexOffset lv + 1,
                          filteredIndices := trim_indices (filteredIndexOffset lv + 1) (filteredIndices lv) \<rparr>
                 else lv)
      in if matched
         then lv1\<lparr> filteredIndices := filteredIndices lv1 @
                     [filteredIndexOffset lv1 + rb_Len (lv_buffer lv1) - 1] \<rparr>
         else lv1)"

definition highlight_line :: "log_view \<Rightarrow> string \<Rightarrow> string" where
  "highlight_line lv line = (case pipeline lv of Some p \<Rightarrow> p line | None \<Rightarrow> line)"

definition AppendLine :: "text_api \<Rightarrow> string \<Rightarrow> log_view \<Rightarrow> log_view go" where
  "AppendLine A line lv =
     (let droppedBefore = rb_Dropped (lv_buffer lv);
          col = highlight_line lv line;
          coloredWidth = StringWidth A col;
          willEvict = (rb_Len (lv_buffer lv) = rb_Cap (lv_buffer lv));
          evictedWidth = (if willEvict \<and> lv_softWrap lv then WidthGet (lv_buffer lv) 0 else 0);
          lv1 = lv\<lparr> lv_buffer := rb_Append line col (Strip A col) coloredWidth (lv_buffer lv) \<rparr>;
          evicted = (rb_Dropped (lv_buffer lv1) > droppedBefore);
          lv2 = track_wrapped evicted droppedBefore coloredWidth evictedWidth lv1
      in if filtering lv2
         then let matched = ss_matches (lv_filterState lv2) line;
                  lv3 = append_filter evicted matched lv2
              in if \<not> matched \<and> \<not> evicted then Inr lv3
                 else finish_append A (append_search A evicted
                        (if lv_softWrap lv3 then recomputeTotalWrappedRows lv3 else lv3))
         else finish_append A (append_search A evicted lv2))"

text \<open>\<open>styled\<close> is \<open>raw\<close> rendered faint in the muted colour.\<close>

definition marker_line :: "string \<Rightarrow> string" where
  "marker_line clock = ''--- '' @ clock @ '' ---''"

definition InsertMarker :: "text_api \<Rightarrow> (string \<Rightarrow> string) \<Rightarrow> string \<Rightarrow> log_view \<Rightarrow> log_view go" where
  "InsertMarker A mutedRender clock lv =
     (let rawL = marker_line clock;
          styled = mutedRender rawL;
          rawWidth = StringWidth A rawL;
          droppedBefore = rb_Dropped (lv_buffer lv);
          willEvict = (rb_Len (lv_buffer lv) = rb_Cap (lv_buffer lv));
          evictedWidth = (if willEvict \<and> lv_softWrap lv then WidthGet (lv_buffer lv) 0 else 0);
          lv1 = lv\<lparr> lv_buffer := rb_Append rawL styled rawL rawWidth (lv_buffer lv) \<rparr>;
          evicted = (rb_Dropped (lv_buffer lv1) > droppedBefore);
          lv2 = (if evicted
             then let lv3 = track_wrapped True droppedBefore rawWidth evictedWidth lv1;
                      lv4 = (if filtering lv3 then append_filter True True lv3 else lv3);
                      lv5 = (if filtering lv4 \<and> lv_softWrap lv4
                             then recomputeTotalWrappedRows lv4 else lv4)
                  in if ss_Active (lv_searchState lv5) then rebuildMatchPositions A lv5 else lv5
             else trackNonEvictingAppend True rawWidth lv1)
      in finish_append A lv2)"

section \<open>Search and filter\<close>

definition line_kept :: "search_state \<Rightarrow> string \<Rightarrow> bool" where
  "line_kept s line \<longleftrightarrow> ss_matches s line \<or> is_marker line"

definition ApplySearch ::
  "text_api \<Rightarrow> string \<Rightarrow> search_mode \<Rightarrow> log_view \<Rightarrow> (search_error + log_view) go" where
  "ApplySearch A pattern mode lv =
     (if mode = SearchModeFilter
      then case ss_Compile A pattern mode (lv_filterState lv) of
             Inl e \<Rightarrow> Inr (Inl e)
           | Inr fs \<Rightarrow>
               let lv1 = lv\<lparr> lv_filterState := fs,
                     filteredIndices :=
                       (if ss_Active fs
                        then map (\<lambda>i. filteredIndexOffset lv + int i)
                               (filter (\<lambda>i. line_kept fs (RawGet (lv_buffer lv) (int i)))
                                 [0..<nat (rb_Len (lv_buffer lv))])
                        else []) \<rparr>
               in go_bind (rebuildViewportContent A lv1) (\<lambda>lv2. Inr (Inr lv2))
      else case ss_Compile A pattern mode (lv_searchState lv) of
             Inl e \<Rightarrow> Inr (Inl e)
           | Inr s \<Rightarrow> go_bind (rebuildViewportContent A (lv\<lparr> lv_searchState := s \<rparr>))
                        (\<lambda>lv2. Inr (Inr lv2)))"

definition ClearSearch :: "text_api \<Rightarrow> log_view \<Rightarrow> log_view go" where
  "ClearSearch A lv = updateViewport A
     (lv\<lparr> lv_searchState := ss_Clear (lv_searchState lv), matchPositions := [], matchIndex := -1 \<rparr>)"

definition ClearFilter :: "text_api \<Rightarrow> log_view \<Rightarrow> log_view go" where
  "ClearFilter A lv =
     (let lv1 = lv\<lparr> lv_filterState := ss_Clear (lv_filterState lv), filteredIndices := [],
                    filteredIndexOffset := 0 \<rparr>
      in updateViewport A (if lv_softWrap lv1 then recomputeTotalWrappedRows lv1 else lv1))"

definition SearchActive :: "log_view \<Rightarrow> bool" where
  "SearchActive lv \<longleftrightarrow> ss_Active (lv_searchState lv)"

definition FilterActive :: "log_view \<Rightarrow> bool" where
  "FilterActive lv \<longleftrightarrow> ss_Active (lv_filterState lv)"

definition AnyActive :: "log_view \<Rightarrow> bool" where
  "AnyActive lv \<longleftrightarrow> ss_Active (lv_searchState lv) \<or> ss_Active (lv_filterState lv)"

text \<open>
  The visual row of a match in wrap mode: the heights of the display lines above it, then the
  row inside its own line.
\<close>

definition match_visual_row :: "log_view \<Rightarrow> match_position \<Rightarrow> int" where
  "match_visual_row lv pos =
     (let vpWidth = (if vp_width (logVP lv) \<le> 0 then 1 else vp_width (logVP lv));
          bufferLine = (if hasIndicator lv then mp_line pos - 1 else mp_line pos);
          row0 = (if hasIndicator lv then 1 else 0);
          n = nat (min (lineCount lv) bufferLine);
          row1 = row0 + sum_list (map (\<lambda>i.
                   wrapHeight (WidthGet (lv_buffer lv)
                     (if filtering lv then filteredIndices lv ! i - filteredIndexOffset lv
                      else int i)) vpWidth) [0..<n])
      in if mp_colStart pos \<ge> vpWidth
         then row1 + 1 + go_quot (mp_colStart pos - vpWidth) (continuationWidth vpWidth)
         else row1)"

definition ensureMatchVisible :: "text_api \<Rightarrow> log_view \<Rightarrow> log_view go" where
  "ensureMatchVisible A lv =
     (if matchIndex lv < 0 \<or> matchIndex lv \<ge> int (length (matchPositions lv)) then Inr lv
      else let pos = matchPositions lv ! nat (matchIndex lv)
      in if lv_softWrap lv
         then let visualRow = match_visual_row lv pos;
                  vpHeight = viewportHeight lv;
                  lv1 = (if visualRow < wrapYOffset lv then lv\<lparr> wrapYOffset := visualRow \<rparr>
                         else if visualRow \<ge> wrapYOffset lv + vpHeight
                         then lv\<lparr> wrapYOffset := visualRow - vpHeight + 1 \<rparr> else lv)
              in updateViewportWrapped A (lv1\<lparr> autoscroll := False \<rparr>)
         else let h = viewportHeight lv;
                  lv1 = (if mp_line pos < scrollOffset lv then lv\<lparr> scrollOffset := mp_line pos \<rparr>
                         else if mp_line pos \<ge> scrollOffset lv + h
                         then lv\<lparr> scrollOffset := mp_line pos - h + 1 \<rparr> else lv);
                  vp = logVP lv1;
                  xEnd = vp_xOffset vp + vp_width vp;
                  lv2 = (if mp_colStart pos < vp_xOffset vp \<or> mp_colStart pos \<ge> xEnd
                         then lv1\<lparr> logVP := vp\<lparr> vp_xOffset := max 0 (mp_colStart pos - hScrollPadding) \<rparr> \<rparr>
                         else lv1)
              in Inr (lv2\<lparr> autoscroll := False \<rparr>))"

definition SearchNext :: "text_api \<Rightarrow> log_view \<Rightarrow> log_view go" where
  "SearchNext A lv =
     (if \<not> ss_Active (lv_searchState lv) \<or> matchPositions lv = [] then Inr lv
      else go_bind (ensureMatchVisible A
             (lv\<lparr> matchIndex := go_rem (matchIndex lv + 1) (int (length (matchPositions lv))) \<rparr>))
           (updateViewport A))"

definition SearchPrev :: "text_api \<Rightarrow> log_view \<Rightarrow> log_view go" where
  "SearchPrev A lv =
     (if \<not> ss_Active (lv_searchState lv) \<or> matchPositions lv = [] then Inr lv
      else let i = matchIndex lv - 1;
               i1 = (if i < 0 then int (length (matchPositions lv)) - 1 else i)
           in go_bind (ensureMatchVisible A (lv\<lparr> matchIndex := i1 \<rparr>)) (updateViewport A))"

section \<open>Size and toggles\<close>

definition lv_SetSize :: "text_api \<Rightarrow> int \<Rightarrow> int \<Rightarrow> log_view \<Rightarrow> log_view go" where
  "lv_SetSize A w h lv =
     (let lv1 = lv\<lparr> lv_width := w, lv_height := h \<rparr>;
          vp = (if lv_borderless lv1
                then vp_SetSize w (if lv_showHeader lv1 then h - 1 else h) (logVP lv1)
                else vp_SetSize (w - 2) (h - 2) (logVP lv1));
          lv2 = lv1\<lparr> logVP := vp \<rparr>
      in updateViewport A (if lv_softWrap lv2 then recomputeTotalWrappedRows lv2 else lv2))"

definition lv_SetBorderless :: "bool \<Rightarrow> log_view \<Rightarrow> log_view" where
  "lv_SetBorderless b lv = lv\<lparr> lv_borderless := b \<rparr>"

definition lv_ToggleHeader :: "text_api \<Rightarrow> log_view \<Rightarrow> log_view go" where
  "lv_ToggleHeader A lv =
     (let lv1 = lv\<lparr> lv_showHeader := \<not> lv_showHeader lv \<rparr>
      in lv_SetSize A (lv_width lv1) (lv_height lv1) lv1)"

definition lv_Focus :: "log_view \<Rightarrow> log_view" where "lv_Focus lv = lv\<lparr> lv_focused := True \<rparr>"
definition lv_Blur :: "log_view \<Rightarrow> log_view" where "lv_Blur lv = lv\<lparr> lv_focused := False \<rparr>"
definition SetUnavailable :: "bool \<Rightarrow> log_view \<Rightarrow> log_view" where
  "SetUnavailable b lv = lv\<lparr> unavailable := b \<rparr>"

definition recolor :: "text_api \<Rightarrow> log_view \<Rightarrow> nat \<Rightarrow> ring_buffer \<Rightarrow> ring_buffer" where
  "recolor A lv i d =
     (let col = highlight_line lv (RawGet d (int i))
      in SetStripped (int i) (Strip A col) (SetColored (int i) col (StringWidth A col) d))"

definition ToggleSyntax :: "text_api \<Rightarrow> (string \<Rightarrow> string) \<Rightarrow> log_view \<Rightarrow> log_view go" where
  "ToggleSyntax A DefaultPipeline lv =
     (let lv1 = lv\<lparr> pipeline := (if pipeline lv \<noteq> None then None else Some DefaultPipeline) \<rparr>;
          lv2 = lv1\<lparr> lv_buffer := fold (recolor A lv1) [0..<nat (rb_Len (lv_buffer lv1))] (lv_buffer lv1) \<rparr>;
          lv3 = (if lv_softWrap lv2 then recomputeTotalWrappedRows lv2 else lv2)
      in if ss_Active (lv_searchState lv3) then rebuildViewportContent A lv3
         else updateViewport A lv3)"

definition maxWrapOffset :: "log_view \<Rightarrow> int" where
  "maxWrapOffset lv = max (totalWrappedRows lv - viewportHeight lv) 0"

definition ToggleAutoscroll :: "text_api \<Rightarrow> log_view \<Rightarrow> log_view go" where
  "ToggleAutoscroll A lv =
     (let lv1 = lv\<lparr> autoscroll := \<not> autoscroll lv \<rparr>
      in if autoscroll lv1
         then if lv_softWrap lv1
              then updateViewportWrapped A (lv1\<lparr> wrapYOffset := maxWrapOffset lv1 \<rparr>)
              else updateViewport A (snap_to_end lv1)
         else Inr lv1)"

definition ToggleWrap :: "text_api \<Rightarrow> log_view \<Rightarrow> log_view go" where
  "ToggleWrap A lv =
     (let lv1 = lv\<lparr> lv_softWrap := \<not> lv_softWrap lv \<rparr>
      in updateViewport A
           (if lv_softWrap lv1
            then recomputeTotalWrappedRows
                   (lv1\<lparr> logVP := (logVP lv1)\<lparr> vp_xOffset := 0 \<rparr>, wrapYOffset := 0 \<rparr>)
            else if autoscroll lv1 then snap_to_end lv1 else lv1))"

section \<open>Scrolling\<close>

text \<open>Scrolling by rows: one row for the wheel and the arrow keys, a page otherwise.\<close>

definition scroll_up_by :: "text_api \<Rightarrow> int \<Rightarrow> log_view \<Rightarrow> log_view go" where
  "scroll_up_by A n lv =
     (if lv_softWrap lv
      then let y = wrapYOffset lv - n
           in updateViewportWrapped A
                (lv\<lparr> wrapYOffset := (if y < 0 then 0 else y), autoscroll := False \<rparr>)
      else updateViewport A (lv\<lparr> scrollOffset := scrollOffset lv - n, autoscroll := False \<rparr>))"

definition scroll_down_by :: "text_api \<Rightarrow> int \<Rightarrow> log_view \<Rightarrow> log_view go" where
  "scroll_down_by A n lv =
     (if lv_softWrap lv
      then go_bind (updateViewportWrapped A (lv\<lparr> wrapYOffset := wrapYOffset lv + n \<rparr>))
             (\<lambda>lv1. Inr (if wrapYOffset lv1 \<ge> maxWrapOffset lv1
                          then lv1\<lparr> autoscroll := True \<rparr> else lv1))
      else let lv1 = lv\<lparr> scrollOffset := scrollOffset lv + n \<rparr>;
               lv2 = (if scrollOffset lv1 \<ge> totalDisplayLines lv1 - viewportHeight lv1
                      then lv1\<lparr> autoscroll := True \<rparr> else lv1)
           in updateViewport A lv2)"

definition lv_ScrollUp :: "text_api \<Rightarrow> log_view \<Rightarrow> log_view go" where
  "lv_ScrollUp A lv = scroll_up_by A 1 lv"

definition lv_ScrollDown :: "text_api \<Rightarrow> log_view \<Rightarrow> log_view go" where
  "lv_ScrollDown A lv = scroll_down_by A 1 lv"

definition lv_PageUp :: "text_api \<Rightarrow> log_view \<Rightarrow> log_view go" where
  "lv_PageUp A lv = scroll_up_by A (viewportHeight lv) lv"

definition lv_PageDown :: "text_api \<Rightarrow> log_view \<Rightarrow> log_view go" where
  "lv_PageDown A lv = scroll_down_by A (viewportHeight lv) lv"

definition lv_GotoTop :: "text_api \<Rightarrow> log_view \<Rightarrow> log_view go" where
  "lv_GotoTop A lv =
     (if lv_softWrap lv then updateViewportWrapped A (lv\<lparr> wrapYOffset := 0, autoscroll := False \<rparr>)
      else updateViewport A (lv\<lparr> scrollOffset := 0, autoscroll := False \<rparr>))"

definition lv_GotoBottom :: "text_api \<Rightarrow> log_view \<Rightarrow> log_view go" where
  "lv_GotoBottom A lv =
     (if lv_softWrap lv
      then updateViewportWrapped A (lv\<lparr> wrapYOffset := maxWrapOffset lv, autoscroll := True \<rparr>)
      else updateViewport A ((snap_to_end lv)\<lparr> autoscroll := True \<rparr>))"

definition set_xOffset :: "int \<Rightarrow> log_view \<Rightarrow> log_view" where
  "set_xOffset x lv = lv\<lparr> logVP := (logVP lv)\<lparr> vp_xOffset := x \<rparr> \<rparr>"

definition lv_ScrollLeft :: "log_view \<Rightarrow> log_view" where
  "lv_ScrollLeft lv =
     (if \<not> lv_softWrap lv then set_xOffset (max 0 (vp_xOffset (logVP lv) - hScrollStep)) lv else lv)"

definition lv_ScrollRight :: "log_view \<Rightarrow> log_view" where
  "lv_ScrollRight lv =
     (if \<not> lv_softWrap lv then set_xOffset (vp_xOffset (logVP lv) + hScrollStep) lv else lv)"

definition lv_ScrollHome :: "log_view \<Rightarrow> log_view" where
  "lv_ScrollHome lv = (if \<not> lv_softWrap lv then set_xOffset 0 lv else lv)"

definition lv_ScrollEnd :: "log_view \<Rightarrow> log_view" where
  "lv_ScrollEnd lv =
     (if \<not> lv_softWrap lv
      then let maxW = fold max (vp_rawWidths (logVP lv)) 0
           in set_xOffset (max 0 (maxW - vp_width (logVP lv))) lv
      else lv)"

datatype wheel = MouseWheelDown | MouseWheelUp | MouseWheelLeft | MouseWheelRight

definition lv_Update :: "text_api \<Rightarrow> wheel \<Rightarrow> log_view \<Rightarrow> log_view go" where
  "lv_Update A b lv = (case b of
       MouseWheelDown \<Rightarrow> lv_ScrollDown A lv
     | MouseWheelUp \<Rightarrow> lv_ScrollUp A lv
     | MouseWheelLeft \<Rightarrow> Inr (lv_ScrollLeft lv)
     | MouseWheelRight \<Rightarrow> Inr (lv_ScrollRight lv))"

section \<open>Stream metadata and restart\<close>

definition SetContainers :: "string list \<Rightarrow> log_view \<Rightarrow> log_view" where
  "SetContainers cs lv = lv\<lparr> containers := cs \<rparr>"

definition SetActiveContainer :: "string \<Rightarrow> log_view \<Rightarrow> log_view" where
  "SetActiveContainer n lv = lv\<lparr> activeContainer := n \<rparr>"

definition SetPodName :: "string \<Rightarrow> log_view \<Rightarrow> log_view" where
  "SetPodName n lv = lv\<lparr> podName := n \<rparr>"

definition lv_SetNamespace :: "string \<Rightarrow> log_view \<Rightarrow> log_view" where
  "lv_SetNamespace n lv = lv\<lparr> lv_namespace := n \<rparr>"

definition RawLines :: "log_view \<Rightarrow> string list" where
  "RawLines lv = RawAll (lv_buffer lv)"

definition SetTimeRangeLabel :: "string \<Rightarrow> log_view \<Rightarrow> log_view" where
  "SetTimeRangeLabel l lv = lv\<lparr> timeRangeLabel := l \<rparr>"

definition lv_SetInlineSearch :: "string \<Rightarrow> log_view \<Rightarrow> log_view" where
  "lv_SetInlineSearch s lv = lv\<lparr> lv_inlineSearch := s \<rparr>"

definition ClearAndRestart :: "log_view \<Rightarrow> log_view" where
  "ClearAndRestart lv =
     lv\<lparr> lv_buffer := rb_Reset (lv_buffer lv), logVP := SetLines [] [] (logVP lv),
         matchPositions := [], matchIndex := -1, scrollOffset := 0, wrapYOffset := 0,
         totalWrappedRows := 0, filteredIndices := [], filteredIndexOffset := 0,
         autoscroll := True, timeRangeLabel := defaultTimeRange lv,
         lv_filterState := ss_Clear (lv_filterState lv),
         lv_searchState := ss_Clear (lv_searchState lv) \<rparr>"

definition buildTitle :: "log_view \<Rightarrow> string" where
  "buildTitle lv =
     (if unavailable lv then ''Logs unavailable''
      else ''Logs''
        @ (if activeContainer lv \<noteq> '''' then '' ['' @ activeContainer lv @ '']'' else '''')
        @ (if timeRangeLabel lv \<noteq> '''' then '' '' @ timeRangeLabel lv else '''')
        @ (if autoscroll lv then '' [A]'' else '''')
        @ (if lv_softWrap lv then '' [W]'' else '''')
        @ (if hasIndicator lv then '' ~'' @ itoa (rb_Dropped (lv_buffer lv)) else ''''))"

end
