(* ===== verification/Log_View_Inv.thy ===== *)
theory Log_View_Inv
  imports Log_View_Ops
begin

text \<open>
  The invariant of the log panel and its preservation by every operation: the ring buffer is
  well formed, the filter lists exactly absolute indices of buffered lines in order, the
  incrementally maintained number of wrapped rows equals the recomputed one, and the search
  matches are sorted and refer to display lines.
\<close>

section \<open>The invariant\<close>

text \<open>The wrapped rows of a buffer, through the filter when there is one.\<close>

definition rows_sum :: "ring_buffer \<Rightarrow> bool \<Rightarrow> int list \<Rightarrow> int \<Rightarrow> int \<Rightarrow> int" where
  "rows_sum d flt idxs off v =
     sum_list (if flt then map (\<lambda>idx. wrapHeight (WidthGet d (idx - off)) v) idxs
               else map (\<lambda>i. wrapHeight (WidthGet d (int i)) v) [0..<nat (rb_Len d)]) +
     (if rb_Dropped d > 0 then 1 else 0)"

definition shown_lines :: "ring_buffer \<Rightarrow> bool \<Rightarrow> int list \<Rightarrow> int" where
  "shown_lines d flt idxs =
     (if flt then int (length idxs) else rb_Len d) + (if rb_Dropped d > 0 then 1 else 0)"

definition filter_ok :: "ring_buffer \<Rightarrow> bool \<Rightarrow> int list \<Rightarrow> int \<Rightarrow> bool" where
  "filter_ok d flt idxs off \<longleftrightarrow>
     (if flt then sorted_wrt (<) idxs \<and> (\<forall>i\<in>set idxs. off \<le> i \<and> i < off + rb_Len d)
      else idxs = [])"

definition positions_ok :: "int \<Rightarrow> match_position list \<Rightarrow> bool" where
  "positions_ok n ps \<longleftrightarrow> sorted (map mp_line ps) \<and> (\<forall>p\<in>set ps. 0 \<le> mp_line p \<and> mp_line p < n)"

definition search_ok :: "int \<Rightarrow> match_position list \<Rightarrow> search_state \<Rightarrow> int \<Rightarrow> bool" where
  "search_ok n ps ss mi \<longleftrightarrow> positions_ok n ps \<and> (\<not> ss_Active ss \<longrightarrow> ps = []) \<and>
     MatchCount ss = int (length ps) \<and> -1 \<le> mi"

definition filter_wf :: "log_view \<Rightarrow> bool" where
  "filter_wf lv \<longleftrightarrow>
     filter_ok (lv_buffer lv) (filtering lv) (filteredIndices lv) (filteredIndexOffset lv)"

definition wrap_total :: "log_view \<Rightarrow> int" where
  "wrap_total lv = rows_sum (lv_buffer lv) (filtering lv) (filteredIndices lv)
     (filteredIndexOffset lv) (vp_width (logVP lv))"

definition wrap_wf :: "log_view \<Rightarrow> bool" where
  "wrap_wf lv \<longleftrightarrow> (lv_softWrap lv \<longrightarrow> totalWrappedRows lv = wrap_total lv)"

definition match_wf :: "log_view \<Rightarrow> bool" where
  "match_wf lv \<longleftrightarrow> search_ok (shown_lines (lv_buffer lv) (filtering lv) (filteredIndices lv))
     (matchPositions lv) (lv_searchState lv) (matchIndex lv)"

definition lv_wf :: "log_view \<Rightarrow> bool" where
  "lv_wf lv \<longleftrightarrow> rb_wf (lv_buffer lv) \<and> filter_wf lv \<and> wrap_wf lv \<and> match_wf lv"

lemmas lv_wf_defs = lv_wf_def filter_wf_def wrap_wf_def match_wf_def wrap_total_def

lemma lv_wf_dests [wf_dests]:
  "lv_wf lv \<Longrightarrow> rb_wf (lv_buffer lv)" "lv_wf lv \<Longrightarrow> filter_wf lv" "lv_wf lv \<Longrightarrow> wrap_wf lv"
  "lv_wf lv \<Longrightarrow> match_wf lv"
  by (simp_all add: lv_wf_def)

lemma totalDisplayLines_shown:
  "totalDisplayLines lv = shown_lines (lv_buffer lv) (filtering lv) (filteredIndices lv)"
  by (simp add: totalDisplayLines_def lineCount_def shown_lines_def)

lemma recompute_eq: "recomputeTotalWrappedRows lv = lv\<lparr> totalWrappedRows := wrap_total lv \<rparr>"
  by (simp add: recomputeTotalWrappedRows_def wrap_total_def rows_sum_def Let_def)

section \<open>What the viewport update leaves alone\<close>

lemma SetLines_fields [simp]:
  "vp_width (SetLines ls ws v) = vp_width v" "vp_height (SetLines ls ws v) = vp_height v"
  "vp_xOffset (SetLines ls ws v) = vp_xOffset v"
  "vp_lines (SetLines ls ws v) = ls" "vp_rawWidths (SetLines ls ws v) = ws"
  by (simp_all add: SetLines_def)

lemma lv_wf_scroll [simp]:
  "lv_wf (lv\<lparr> scrollOffset := s \<rparr>) = lv_wf lv"
  "lv_wf (lv\<lparr> wrapYOffset := s \<rparr>) = lv_wf lv"
  "lv_wf (lv\<lparr> autoscroll := b \<rparr>) = lv_wf lv"
  "vp_width v = vp_width (logVP lv) \<Longrightarrow> lv_wf (lv\<lparr> logVP := v \<rparr>) = lv_wf lv"
  by (simp_all add: lv_wf_defs)

lemma lv_wf_meta [simp]:
  "lv_wf (lv\<lparr> lv_focused := b \<rparr>) = lv_wf lv" "lv_wf (lv\<lparr> lv_borderless := b \<rparr>) = lv_wf lv"
  "lv_wf (lv\<lparr> lv_showHeader := b \<rparr>) = lv_wf lv" "lv_wf (lv\<lparr> unavailable := b \<rparr>) = lv_wf lv"
  "lv_wf (lv\<lparr> lv_width := n \<rparr>) = lv_wf lv" "lv_wf (lv\<lparr> lv_height := n \<rparr>) = lv_wf lv"
  "lv_wf (lv\<lparr> containers := cs \<rparr>) = lv_wf lv" "lv_wf (lv\<lparr> activeContainer := c \<rparr>) = lv_wf lv"
  "lv_wf (lv\<lparr> podName := c \<rparr>) = lv_wf lv" "lv_wf (lv\<lparr> lv_namespace := c \<rparr>) = lv_wf lv"
  "lv_wf (lv\<lparr> timeRangeLabel := c \<rparr>) = lv_wf lv" "lv_wf (lv\<lparr> lv_inlineSearch := c \<rparr>) = lv_wf lv"
  "lv_wf (lv\<lparr> pipeline := p \<rparr>) = lv_wf lv"
  by (simp_all add: lv_wf_defs)

definition redraw :: "log_view \<Rightarrow> log_view \<Rightarrow> log_view" where
  "redraw lv lv' = lv\<lparr> scrollOffset := scrollOffset lv', wrapYOffset := wrapYOffset lv',
     logVP := SetLines (vp_lines (logVP lv')) (vp_rawWidths (logVP lv')) (logVP lv) \<rparr>"

lemma lv_wf_redraw [simp]: "lv_wf (redraw lv lv') = lv_wf lv"
  by (simp add: redraw_def)

lemma updateViewport_plain_frame:
  "updateViewport_plain A lv = Inr lv' \<Longrightarrow> lv' = redraw lv lv'"
  by (auto simp: updateViewport_plain_def clampScrollOffset_def redraw_def Let_def
      split: prod.splits)

lemma updateViewportWrapped_frame:
  "updateViewportWrapped A lv = Inr lv' \<Longrightarrow> lv' = redraw lv lv'"
  by (auto simp: updateViewportWrapped_def redraw_def Let_def split: prod.splits if_splits)

lemma updateViewport_frame:
  "updateViewport A lv = Inr lv' \<Longrightarrow> lv' = redraw lv lv'"
  by (auto simp: updateViewport_def dest: updateViewport_plain_frame updateViewportWrapped_frame
      split: if_splits)

lemma updateViewport_wf:
  "updateViewport A lv = Inr lv' \<Longrightarrow> lv_wf lv' = lv_wf lv"
  using updateViewport_frame by (metis lv_wf_redraw)

lemma updateViewportWrapped_wf:
  "updateViewportWrapped A lv = Inr lv' \<Longrightarrow> lv_wf lv' = lv_wf lv"
  using updateViewportWrapped_frame by (metis lv_wf_redraw)

section \<open>Search positions\<close>

lemma positions_ok_Nil [simp]: "positions_ok n []"
  by (simp add: positions_ok_def)

lemma positions_ok_mono: "positions_ok n ps \<Longrightarrow> n \<le> m \<Longrightarrow> positions_ok m ps"
  by (auto simp: positions_ok_def)

lemma positions_ok_append:
  "positions_ok n ps \<Longrightarrow> (\<And>q. q \<in> set qs \<Longrightarrow> mp_line q = n) \<Longrightarrow> 0 \<le> n \<Longrightarrow>
     positions_ok (n + 1) (ps @ qs)"
proof -
  assume ps: "positions_ok n ps" and qs: "\<And>q. q \<in> set qs \<Longrightarrow> mp_line q = n" and n: "0 \<le> n"
  have "map mp_line qs = replicate (length qs) n"
    using qs by (induction qs) simp_all
  moreover have "x \<le> n" if "x \<in> mp_line ` set ps" for x
    using ps that by (auto simp: positions_ok_def)
  ultimately show ?thesis
    using ps qs n by (auto simp: positions_ok_def sorted_append simp flip: set_map intro: less_imp_le)
qed

text \<open>Positions collected line by line, in the order of the lines.\<close>

lemma positions_ok_collect:
  "(\<And>k q. k < n \<Longrightarrow> q \<in> set (f k) \<Longrightarrow> mp_line q = int k) \<Longrightarrow>
     positions_ok (int n) (concat (map f [0..<n]))"
proof (induction n)
  case (Suc n)
  then have "positions_ok (int n + 1) (concat (map f [0..<n]) @ f n)"
    by (intro positions_ok_append) auto
  then show ?case by (simp add: add.commute)
qed simp

lemma positions_ok_shift:
  "positions_ok n ps \<Longrightarrow> positions_ok (n + 1) (map (\<lambda>p. p\<lparr> mp_line := mp_line p + 1 \<rparr>) ps)"
  by (auto simp: positions_ok_def comp_def sorted_iff_nth_mono)

lemma line_positions_line: "q \<in> set (line_positions A lv s k) \<Longrightarrow> mp_line q = k"
  by (auto simp: line_positions_def computeLineMatchPositions_def split: option.splits)

lemma rebuildMatchPositions_frame:
  "rebuildMatchPositions A lv = lv\<lparr> matchPositions := matchPositions (rebuildMatchPositions A lv),
     lv_searchState := (lv_searchState lv)\<lparr> MatchCount :=
       int (length (matchPositions (rebuildMatchPositions A lv))) \<rparr> \<rparr>"
  by (simp add: rebuildMatchPositions_def Let_def)

lemma rebuild_positions_ok:
  assumes "rb_wf (lv_buffer lv)"
  shows "positions_ok (shown_lines (lv_buffer lv) (filtering lv) (filteredIndices lv))
           (matchPositions (rebuildMatchPositions A lv))"
proof -
  let ?ind = "hasIndicator lv"
  have c: "0 \<le> rb_Len (lv_buffer lv)" using assms by (simp add: rb_wf_def rb_Len_def)
  define ps where "ps = (if filtering lv
               then concat (map (\<lambda>k.
                      let bufIdx = filteredIndices lv ! k - filteredIndexOffset lv
                      in if bufIdx \<ge> 0 \<and> bufIdx < rb_Len (lv_buffer lv)
                         then line_positions A lv (StrippedGet (lv_buffer lv) bufIdx) (int k)
                         else [])
                    [0..<length (filteredIndices lv)])
               else concat (map (\<lambda>i. line_positions A lv (StrippedGet (lv_buffer lv) (int i)) (int i))
                    [0..<nat (rb_Len (lv_buffer lv))]))"
  have "positions_ok (int (if filtering lv then length (filteredIndices lv)
           else nat (rb_Len (lv_buffer lv)))) ps"
  proof (cases "filtering lv")
    case True
    then show ?thesis unfolding ps_def if_P [OF True]
      by (intro positions_ok_collect) (auto dest!: line_positions_line simp: Let_def split: if_splits)
  next
    case False
    then show ?thesis unfolding ps_def if_not_P [OF False]
      by (intro positions_ok_collect) (rule line_positions_line)
  qed
  then have "positions_ok (shown_lines (lv_buffer lv) (filtering lv) (filteredIndices lv))
      (if ?ind then map (\<lambda>p. p\<lparr> mp_line := mp_line p + 1 \<rparr>) ps else ps)"
    using c by (auto simp: shown_lines_def dest: positions_ok_shift split: if_splits)
  moreover have "matchPositions (rebuildMatchPositions A lv) =
      (if ss_Active (lv_searchState lv)
       then if ?ind then map (\<lambda>p. p\<lparr> mp_line := mp_line p + 1 \<rparr>) ps else ps else [])"
    by (simp add: rebuildMatchPositions_def ps_def Let_def)
  ultimately show ?thesis by simp
qed

lemma rebuild_inactive:
  "\<not> ss_Active (lv_searchState lv) \<Longrightarrow> matchPositions (rebuildMatchPositions A lv) = []"
  by (simp add: rebuildMatchPositions_def)

lemma lv_wf_rebuild:
  assumes "rb_wf (lv_buffer lv)" and "filter_wf lv" and "wrap_wf lv" and "-1 \<le> matchIndex lv"
  shows "lv_wf (rebuildMatchPositions A lv)"
  using assms rebuild_positions_ok [OF assms(1), of A] rebuild_inactive [of lv A]
  by (subst rebuildMatchPositions_frame) (simp add: lv_wf_defs search_ok_def)

lemma rebuildViewportContent_wf:
  assumes "rebuildViewportContent A lv = Inr lv'" and "rb_wf (lv_buffer lv)" and "filter_wf lv"
    and "-1 \<le> matchIndex lv"
  shows "lv_wf lv'"
proof -
  define ps where "ps = matchPositions (rebuildMatchPositions A (lv\<lparr> matchIndex := -1 \<rparr>))"
  define ss where "ss = (lv_searchState lv)\<lparr> MatchCount := int (length ps) \<rparr>"
  define lv1 where "lv1 = (if ps \<noteq> [] then lv\<lparr> matchPositions := ps, lv_searchState := ss, matchIndex := 0 \<rparr>
      else lv\<lparr> matchIndex := -1, matchPositions := ps, lv_searchState := ss \<rparr>)"
  define lv2 where "lv2 = (if lv_softWrap lv then recomputeTotalWrappedRows lv1 else lv1)"
  have fr: "rebuildMatchPositions A (lv\<lparr> matchIndex := -1 \<rparr>) = lv\<lparr> matchIndex := -1, matchPositions := ps,
      lv_searchState := ss \<rparr>"
    unfolding ps_def ss_def by (subst rebuildMatchPositions_frame) simp
  have "positions_ok (shown_lines (lv_buffer lv) (filtering lv) (filteredIndices lv)) ps"
    using rebuild_positions_ok [of "lv\<lparr> matchIndex := -1 \<rparr>" A] assms(2) by (simp add: ps_def)
  moreover have "\<not> ss_Active (lv_searchState lv) \<longrightarrow> ps = []"
    by (simp add: ps_def rebuild_inactive)
  ultimately have "lv_wf lv2"
    using assms(2,3) by (simp add: lv2_def lv1_def recompute_eq lv_wf_defs search_ok_def ss_def)
  moreover have "updateViewport A lv2 = Inr lv'"
    using assms(1) unfolding rebuildViewportContent_def fr Let_def
    by (simp add: lv1_def lv2_def split: if_splits)
  ultimately show ?thesis by (simp add: updateViewport_wf)
qed

section \<open>Appending to the buffer\<close>

abbreviation buf_full :: "log_view \<Rightarrow> bool" where
  "buf_full lv \<equiv> count (lv_buffer lv) = capacity (lv_buffer lv)"

definition width_sum :: "int \<Rightarrow> log_entry list \<Rightarrow> int" where
  "width_sum v es = sum_list (map (\<lambda>e. wrapHeight (snd (snd (snd e))) v) es)"

lemma rows_sum_entries:
  assumes "rb_wf d"
  shows "rows_sum d False idxs off v = width_sum v (entries_of d) + (if rb_Dropped d > 0 then 1 else 0)"
proof -
  have "map (\<lambda>i. wrapHeight (WidthGet d (int i)) v) [0..<nat (rb_Len d)] =
        map (\<lambda>e. wrapHeight (snd (snd (snd e))) v) (entries_of d)"
    by (rule nth_equalityI) (simp_all add: nth_entries_of [OF assms] rb_Len_def)
  then show ?thesis by (simp add: rows_sum_def width_sum_def)
qed

lemma width_sum_simps [simp]:
  "width_sum v [] = 0" "width_sum v (e # es) = wrapHeight (snd (snd (snd e))) v + width_sum v es"
  "width_sum v (es @ fs) = width_sum v es + width_sum v fs"
  by (simp_all add: width_sum_def)

lemma rows_sum_Append:
  assumes wf: "rb_wf d"
  shows "rows_sum (rb_Append r c s w d) False idxs off v =
    rows_sum d False idxs' off' v + wrapHeight w v -
      (if count d = capacity d then wrapHeight (WidthGet d 0) v else 0) +
      (if count d = capacity d \<and> dropped d = 0 then 1 else 0)"
proof -
  have d: "0 \<le> dropped d" "1 \<le> capacity d" using wf by (auto simp: rb_wf_def)
  show ?thesis
  proof (cases "count d = capacity d")
    case True
    then have "entries_of d \<noteq> []" using d by (simp flip: length_greater_0_conv)
    moreover from this have "hd (entries_of d) = entries_of d ! 0" by (rule hd_conv_nth)
    then have "snd (snd (snd (hd (entries_of d)))) = WidthGet d 0"
      using True d wf by (simp add: nth_entries_of)
    ultimately have "width_sum v (entries_of d) = wrapHeight (WidthGet d 0) v + width_sum v (tl (entries_of d))"
      by (cases "entries_of d") auto
    then show ?thesis
      using True d wf by (simp add: rows_sum_entries rb_wf_Append entries_Append_cases rb_Dropped_def fields_Append)
  next
    case False
    then show ?thesis
      using d wf by (simp add: rows_sum_entries rb_wf_Append entries_Append_cases rb_Dropped_def fields_Append)
  qed
qed

text \<open>Without an eviction the lines a filter shows keep their places and widths.\<close>

lemma rows_sum_filtered_grow:
  assumes "rb_wf d" and "count d \<noteq> capacity d" and "filter_ok d True idxs off"
  shows "rows_sum (rb_Append r c s w d) True idxs off v = rows_sum d True idxs off v"
proof -
  have "WidthGet (rb_Append r c s w d) (i - off) = WidthGet d (i - off)" if "i \<in> set idxs" for i
    using getter_Append [OF assms(1), of "i - off" r c s w] assms that
    by (auto simp: filter_ok_def rb_Len_def fields_Append rb_wf_def)
  then show ?thesis
    using assms(2) by (simp add: rows_sum_def rb_Dropped_def fields_Append cong: map_cong)
qed

lemma filter_ok_grow:
  "rb_wf d \<Longrightarrow> count d \<noteq> capacity d \<Longrightarrow> filter_ok d flt idxs off \<Longrightarrow>
     filter_ok (rb_Append r c s w d) flt idxs off"
  by (fastforce simp: filter_ok_def rb_Len_def fields_Append rb_wf_def)

lemma sorted_wrt_trim: "sorted_wrt (<) xs \<Longrightarrow> sorted_wrt (<) (trim_indices off xs)"
  by (induction xs) (auto simp: trim_indices_def)

lemma set_trim: "sorted_wrt (<) xs \<Longrightarrow> set (trim_indices off xs) = {i \<in> set xs. off \<le> i}"
  by (induction xs) (auto simp: trim_indices_def)

text \<open>
  The filter bookkeeping of an append: after an eviction the base moves and stale indices go;
  a matching line is listed under its own absolute index.
\<close>

lemma filter_ok_append:
  assumes wf: "rb_wf d" and ok: "filter_ok d True idxs off"
    and off: "off' = (if count d = capacity d then off + 1 else off)"
    and idxs: "idxs' = (if count d = capacity d then trim_indices off' idxs else idxs)"
    and d': "d' = rb_Append r c s w d"
  shows "filter_ok d' True (if m then idxs' @ [off' + rb_Len d' - 1] else idxs') off'"
proof -
  have cap: "0 \<le> count d" "count d \<le> capacity d" "1 \<le> capacity d" using wf by (auto simp: rb_wf_def)
  have sorted: "sorted_wrt (<) idxs" using ok by (simp add: filter_ok_def)
  have srt: "sorted_wrt (<) idxs'" using sorted by (simp add: idxs sorted_wrt_trim)
  have rng: "off' \<le> i \<and> i < off' + rb_Len d' - 1" if "i \<in> set idxs'" for i
    using that ok cap
    by (auto simp: idxs off d' set_trim [OF sorted] filter_ok_def rb_Len_def fields_Append split: if_splits)
  have "1 \<le> rb_Len d'" using cap by (simp add: d' rb_Len_def fields_Append)
  then show ?thesis using srt rng by (force simp: filter_ok_def sorted_wrt_append)
qed

section \<open>AppendLine and InsertMarker keep the invariant\<close>

lemma newest_display_idx_shown:
  "newest_display_idx lv = shown_lines (lv_buffer lv) (filtering lv) (filteredIndices lv) - 1"
  by (simp add: newest_display_idx_def shown_lines_def Let_def)

definition search_frame :: "log_view \<Rightarrow> bool" where
  "search_frame lv \<longleftrightarrow> (\<not> ss_Active (lv_searchState lv) \<longrightarrow> matchPositions lv = []) \<and>
     MatchCount (lv_searchState lv) = int (length (matchPositions lv)) \<and> -1 \<le> matchIndex lv"

lemma lv_wf_append_search:
  assumes "rb_wf (lv_buffer lv)" and "filter_wf lv" and "wrap_wf lv" and fr: "search_frame lv"
    and old: "\<not> evicted \<Longrightarrow> positions_ok (newest_display_idx lv) (matchPositions lv)"
    and "\<not> evicted \<Longrightarrow> 0 \<le> newest_display_idx lv"
  shows "lv_wf (append_search A evicted lv)"
proof (cases "ss_Active (lv_searchState lv) \<and> \<not> evicted")
  case True
  let ?new = "line_positions A lv (StrippedGet (lv_buffer lv) (rb_Len (lv_buffer lv) - 1))
                (newest_display_idx lv)"
  have "positions_ok (newest_display_idx lv + 1) (matchPositions lv @ ?new)"
    using True assms by (intro positions_ok_append) (auto dest: line_positions_line)
  then show ?thesis
    using True assms unfolding newest_display_idx_shown
    by (simp add: append_search_def Let_def lv_wf_defs search_ok_def search_frame_def
        newest_display_idx_shown)
next
  case False
  then show ?thesis
    using assms lv_wf_rebuild [OF assms(1-3), of A]
    by (auto simp: append_search_def lv_wf_defs search_ok_def search_frame_def)
qed

lemma finish_append_wf: "finish_append A lv = Inr lv' \<Longrightarrow> lv_wf lv' = lv_wf lv"
  by (auto simp: finish_append_def snap_to_end_def dest!: updateViewport_wf split: if_splits)

lemma lv_wf_search_frame: "lv_wf lv \<Longrightarrow> search_frame lv"
  by (simp add: lv_wf_defs search_ok_def search_frame_def)

lemma lv_wf_positions:
  "lv_wf lv \<Longrightarrow> positions_ok (shown_lines (lv_buffer lv) (filtering lv) (filteredIndices lv)) (matchPositions lv)"
  by (simp add: lv_wf_defs search_ok_def)

lemma evicted_iff:
  "rb_Dropped (rb_Append r c s w d) > rb_Dropped d \<longleftrightarrow> count d = capacity d"
  by (simp add: rb_Dropped_def fields_Append)

text \<open>The state after the buffer and the wrapped-row count were updated, no filter.\<close>

definition appended :: "string \<Rightarrow> string \<Rightarrow> string \<Rightarrow> int \<Rightarrow> log_view \<Rightarrow> log_view" where
  "appended r c s w lv =
     track_wrapped (buf_full lv) (rb_Dropped (lv_buffer lv)) w
       (if buf_full lv \<and> lv_softWrap lv then WidthGet (lv_buffer lv) 0 else 0)
       (lv\<lparr> lv_buffer := rb_Append r c s w (lv_buffer lv) \<rparr>)"

lemma appended_plain:
  assumes wf: "lv_wf lv" and flt: "\<not> filtering lv"
  shows "rb_wf (lv_buffer (appended r c s w lv))" and "filter_wf (appended r c s w lv)"
    and "wrap_wf (appended r c s w lv)" and "search_frame (appended r c s w lv)"
    and "\<not> buf_full lv \<Longrightarrow> newest_display_idx (appended r c s w lv) =
           shown_lines (lv_buffer lv) (filtering lv) (filteredIndices lv)"
    and "matchPositions (appended r c s w lv) = matchPositions lv"
    and "lv_searchState (appended r c s w lv) = lv_searchState lv"
    and "\<not> filtering (appended r c s w lv)"
proof -
  have rb: "rb_wf (lv_buffer lv)" using wf by (simp add: lv_wf_def)
  have eq: "appended r c s w lv = lv\<lparr> lv_buffer := rb_Append r c s w (lv_buffer lv),
      totalWrappedRows := (if lv_softWrap lv then
        totalWrappedRows lv + wrapHeight w (vp_width (logVP lv)) -
        (if buf_full lv then wrapHeight (WidthGet (lv_buffer lv) 0) (vp_width (logVP lv)) else 0) +
        (if buf_full lv \<and> dropped (lv_buffer lv) = 0 then 1 else 0) else totalWrappedRows lv) \<rparr>"
    using flt by (auto simp: appended_def track_wrapped_def Let_def rb_Dropped_def)
  show "rb_wf (lv_buffer (appended r c s w lv))" by (simp add: eq rb rb_wf_Append)
  show "filter_wf (appended r c s w lv)" using wf flt by (simp add: eq lv_wf_defs filter_ok_def)
  show "wrap_wf (appended r c s w lv)"
    using wf flt rows_sum_Append [OF rb, of r c s w "filteredIndices lv" "filteredIndexOffset lv"
        "vp_width (logVP lv)" "filteredIndices lv" "filteredIndexOffset lv"]
    by (simp add: eq lv_wf_defs)
  show "search_frame (appended r c s w lv)" using lv_wf_search_frame [OF wf] by (simp add: eq search_frame_def)
  show "matchPositions (appended r c s w lv) = matchPositions lv"
    "lv_searchState (appended r c s w lv) = lv_searchState lv"
    "\<not> filtering (appended r c s w lv)" using flt by (simp_all add: eq)
  show "newest_display_idx (appended r c s w lv) =
           shown_lines (lv_buffer lv) (filtering lv) (filteredIndices lv)" if "\<not> buf_full lv"
    using that flt rb by (auto simp: eq newest_display_idx_shown shown_lines_def rb_Len_def rb_Dropped_def
        fields_Append rb_wf_def)
qed

text \<open>The state after the buffer and the filter indices were updated, under a filter.\<close>

definition appended_filtered :: "bool \<Rightarrow> string \<Rightarrow> string \<Rightarrow> string \<Rightarrow> int \<Rightarrow> log_view \<Rightarrow> log_view" where
  "appended_filtered m r c s w lv =
     append_filter (buf_full lv) m (lv\<lparr> lv_buffer := rb_Append r c s w (lv_buffer lv) \<rparr>)"

lemma appended_filtered_eq:
  "appended_filtered m r c s w lv = lv\<lparr> lv_buffer := rb_Append r c s w (lv_buffer lv),
     filteredIndexOffset := (if buf_full lv then filteredIndexOffset lv + 1 else filteredIndexOffset lv),
     filteredIndices :=
       (let off = (if buf_full lv then filteredIndexOffset lv + 1 else filteredIndexOffset lv);
            idxs = (if buf_full lv then trim_indices off (filteredIndices lv) else filteredIndices lv)
        in if m then idxs @ [off + rb_Len (rb_Append r c s w (lv_buffer lv)) - 1] else idxs) \<rparr>"
  by (simp add: appended_filtered_def append_filter_def Let_def)

lemma appended_filtered_fields [simp]:
  "matchPositions (appended_filtered m r c s w lv) = matchPositions lv"
  "lv_searchState (appended_filtered m r c s w lv) = lv_searchState lv"
  "lv_softWrap (appended_filtered m r c s w lv) = lv_softWrap lv"
  by (simp_all add: appended_filtered_eq)

lemma appended_filtered_wf:
  assumes wf: "lv_wf lv" and flt: "filtering lv"
  shows "rb_wf (lv_buffer (appended_filtered m r c s w lv))"
    and "filter_wf (appended_filtered m r c s w lv)"
    and "search_frame (appended_filtered m r c s w lv)"
proof -
  have rb: "rb_wf (lv_buffer lv)" using wf by (simp add: lv_wf_def)
  then show "rb_wf (lv_buffer (appended_filtered m r c s w lv))"
    by (simp add: appended_filtered_eq rb_wf_Append)
  have "filter_ok (lv_buffer lv) True (filteredIndices lv) (filteredIndexOffset lv)"
    using wf flt by (simp add: lv_wf_defs)
  from filter_ok_append [OF rb this refl refl refl, of r c s w m]
  show "filter_wf (appended_filtered m r c s w lv)"
    using flt by (simp add: appended_filtered_eq filter_wf_def Let_def)
  show "search_frame (appended_filtered m r c s w lv)"
    using lv_wf_search_frame [OF wf] by (simp add: appended_filtered_eq search_frame_def)
qed

lemma appended_filtered_unmatched:
  assumes wf: "lv_wf lv" and flt: "filtering lv" and "\<not> buf_full lv"
  shows "lv_wf (appended_filtered False r c s w lv)"
proof -
  have rb: "rb_wf (lv_buffer lv)" using wf by (simp add: lv_wf_def)
  have ok: "filter_ok (lv_buffer lv) True (filteredIndices lv) (filteredIndexOffset lv)"
    using wf flt by (simp add: lv_wf_defs)
  show ?thesis
    using assms rb rows_sum_filtered_grow [OF rb assms(3) ok, of r c s w "vp_width (logVP lv)"]
      filter_ok_grow [OF rb assms(3) ok, of r c s w]
    by (simp add: appended_filtered_eq lv_wf_defs rb_wf_Append Let_def shown_lines_def rb_Dropped_def
        fields_Append)
qed

lemma newest_appended_filtered:
  "filtering lv \<Longrightarrow> \<not> buf_full lv \<Longrightarrow> newest_display_idx (appended_filtered True r c s w lv) =
     shown_lines (lv_buffer lv) (filtering lv) (filteredIndices lv)"
  by (simp add: appended_filtered_eq newest_display_idx_shown shown_lines_def rb_Dropped_def
      fields_Append Let_def)

lemma wrap_wf_recompute:
  "lv_softWrap lv \<longleftrightarrow> b \<Longrightarrow> wrap_wf (if b then recomputeTotalWrappedRows lv else lv)"
  by (simp add: recompute_eq wrap_wf_def wrap_total_def)

lemma recompute_fields [simp]:
  "lv_buffer (if b then recomputeTotalWrappedRows lv else lv) = lv_buffer lv"
  "filter_wf (if b then recomputeTotalWrappedRows lv else lv) = filter_wf lv"
  "search_frame (if b then recomputeTotalWrappedRows lv else lv) = search_frame lv"
  "matchPositions (if b then recomputeTotalWrappedRows lv else lv) = matchPositions lv"
  "lv_searchState (if b then recomputeTotalWrappedRows lv else lv) = lv_searchState lv"
  "newest_display_idx (if b then recomputeTotalWrappedRows lv else lv) = newest_display_idx lv"
  by (simp_all add: recompute_eq filter_wf_def search_frame_def newest_display_idx_def Let_def)

lemma track_wrapped_filtering: "filtering lv \<Longrightarrow> track_wrapped e n w w' lv = lv"
  by (simp add: track_wrapped_def)

lemma filtering_buffer [simp]: "filtering (lv\<lparr> lv_buffer := d \<rparr>) = filtering lv" by simp

lemma append_filter_fields [simp]:
  "lv_softWrap (append_filter e m lv) = lv_softWrap lv"
  "lv_filterState (append_filter e m lv) = lv_filterState lv"
  "lv_searchState (append_filter e m lv) = lv_searchState lv"
  by (simp_all add: append_filter_def Let_def)

text \<open>The operation in terms of the two intermediate states.\<close>

lemma AppendLine_unfold:
  "AppendLine A line lv =
     (let c = highlight_line lv line; w = StringWidth A c; s = Strip A c; e = buf_full lv
      in if filtering lv
         then let m = ss_matches (lv_filterState lv) line;
                  lv3 = appended_filtered m line c s w lv
              in if \<not> m \<and> \<not> e then Inr lv3
                 else finish_append A (append_search A e
                        (if lv_softWrap lv3 then recomputeTotalWrappedRows lv3 else lv3))
         else finish_append A (append_search A e (appended line c s w lv)))"
proof (cases "filtering lv")
  case True
  then show ?thesis
    by (simp add: AppendLine_def Let_def evicted_iff appended_filtered_def track_wrapped_filtering)
next
  case False
  let ?d = "lv_buffer lv"
  have flt: "\<not> filtering (track_wrapped e n w w' (lv\<lparr> lv_buffer := d \<rparr>))" for e n w w' d
    using False by (simp add: track_wrapped_def Let_def)
  show ?thesis
    using False flt by (simp add: AppendLine_def Let_def evicted_iff appended_def rb_Len_def rb_Cap_def)
qed

text \<open>The state \<open>AppendLine\<close> draws, when it draws.\<close>

definition append_pre :: "text_api \<Rightarrow> string \<Rightarrow> log_view \<Rightarrow> log_view" where
  "append_pre A line lv =
     (let c = highlight_line lv line; w = StringWidth A c; s = Strip A c;
          lv3 = appended_filtered (ss_matches (lv_filterState lv) line) line c s w lv
      in append_search A (buf_full lv)
           (if filtering lv then if lv_softWrap lv3 then recomputeTotalWrappedRows lv3 else lv3
            else appended line c s w lv))"

definition append_skips :: "string \<Rightarrow> log_view \<Rightarrow> bool" where
  "append_skips line lv \<longleftrightarrow> filtering lv \<and> \<not> ss_matches (lv_filterState lv) line \<and> \<not> buf_full lv"

lemma AppendLine_draws:
  "AppendLine A line lv =
     (if append_skips line lv
      then Inr (appended_filtered False line (highlight_line lv line) (Strip A (highlight_line lv line))
             (StringWidth A (highlight_line lv line)) lv)
      else finish_append A (append_pre A line lv))"
  by (simp add: AppendLine_unfold append_pre_def append_skips_def Let_def)

lemma append_pre_wf:
  assumes wf: "lv_wf lv" and draws: "\<not> append_skips line lv"
  shows "lv_wf (append_pre A line lv)"
proof -
  let ?c = "highlight_line lv line" and ?e = "buf_full lv"
  let ?w = "StringWidth A ?c" and ?s = "Strip A ?c" and ?m = "ss_matches (lv_filterState lv) line"
  have sh: "0 \<le> shown_lines (lv_buffer lv) (filtering lv) (filteredIndices lv)"
    using wf by (simp add: lv_wf_def rb_wf_def shown_lines_def rb_Len_def)
  show ?thesis
  proof (cases "filtering lv")
    case flt: True
    let ?lv3 = "appended_filtered ?m line ?c ?s ?w lv"
    let ?lv4 = "if lv_softWrap ?lv3 then recomputeTotalWrappedRows ?lv3 else ?lv3"
    note lv3 = appended_filtered_wf [OF wf flt, of ?m line ?c ?s ?w]
    have "newest_display_idx ?lv3 = shown_lines (lv_buffer lv) (filtering lv) (filteredIndices lv)" if "\<not> ?e"
      using that draws flt newest_appended_filtered [OF flt that, of line ?c ?s ?w]
      by (simp add: append_skips_def)
    then have "lv_wf (append_search A ?e ?lv4)"
      using lv3 lv_wf_positions [OF wf] sh
      by (intro lv_wf_append_search wrap_wf_recompute) (simp_all only: recompute_fields appended_filtered_fields simp_thms)
    then show ?thesis using flt by (simp add: append_pre_def Let_def)
  next
    case flt: False
    note lv2 = appended_plain [OF wf flt, of line ?c ?s ?w]
    have "lv_wf (append_search A ?e (appended line ?c ?s ?w lv))"
      using lv2 lv_wf_positions [OF wf] sh by (intro lv_wf_append_search) simp_all
    then show ?thesis using flt by (simp add: append_pre_def Let_def)
  qed
qed

lemma AppendLine_wf:
  assumes "AppendLine A line lv = Inr lv'" and wf: "lv_wf lv"
  shows "lv_wf lv'"
proof (cases "append_skips line lv")
  case True
  then show ?thesis
    using assms appended_filtered_unmatched [OF wf] by (auto simp: AppendLine_draws append_skips_def)
next
  case False
  then show ?thesis
    using assms append_pre_wf [OF wf False, of A] by (auto simp: AppendLine_draws dest: finish_append_wf)
qed

text \<open>A marker is listed under every filter; its own text is not searched.\<close>

lemma trackNonEvicting_eq:
  assumes "\<not> buf_full lv"
  shows "trackNonEvictingAppend True w (lv\<lparr> lv_buffer := rb_Append r c s w (lv_buffer lv) \<rparr>) =
    (if filtering lv
     then let lv3 = appended_filtered True r c s w lv
          in if lv_softWrap lv3 then recomputeTotalWrappedRows lv3 else lv3
     else appended r c s w lv)"
  using assms by (auto simp: trackNonEvictingAppend_def Let_def appended_def track_wrapped_def
      appended_filtered_eq)

lemma InsertMarker_unfold:
  "InsertMarker A mr clock lv =
     (let r = marker_line clock; c = mr r; w = StringWidth A r; e = buf_full lv;
          lv2 = (if filtering lv
                 then let lv3 = appended_filtered True r c r w lv
                      in if lv_softWrap lv3 then recomputeTotalWrappedRows lv3 else lv3
                 else appended r c r w lv)
      in finish_append A (if e \<and> ss_Active (lv_searchState lv2) then rebuildMatchPositions A lv2 else lv2))"
proof (cases "buf_full lv")
  case False
  then show ?thesis
    by (simp add: InsertMarker_def Let_def evicted_iff trackNonEvicting_eq)
next
  case full: True
  let ?r = "marker_line clock"
  let ?d = "rb_Append ?r (mr ?r) ?r (StringWidth A ?r) (lv_buffer lv)"
  show ?thesis
  proof (cases "filtering lv")
    case True
    with full show ?thesis
      by (simp add: InsertMarker_def Let_def evicted_iff appended_filtered_def track_wrapped_filtering)
  next
    case False
    have flt: "\<not> filtering (track_wrapped e n w w' (lv\<lparr> lv_buffer := d \<rparr>))" for e n w w' d
      using False by (simp add: track_wrapped_def Let_def)
    show ?thesis
      using full False flt by (simp add: InsertMarker_def Let_def evicted_iff appended_def rb_Len_def rb_Cap_def)
  qed
qed

definition marker_pre :: "text_api \<Rightarrow> (string \<Rightarrow> string) \<Rightarrow> string \<Rightarrow> log_view \<Rightarrow> log_view" where
  "marker_pre A mr clock lv =
     (let r = marker_line clock; c = mr r; w = StringWidth A r;
          lv2 = (if filtering lv
                 then let lv3 = appended_filtered True r c r w lv
                      in if lv_softWrap lv3 then recomputeTotalWrappedRows lv3 else lv3
                 else appended r c r w lv)
      in if buf_full lv \<and> ss_Active (lv_searchState lv2) then rebuildMatchPositions A lv2 else lv2)"

lemma InsertMarker_draws: "InsertMarker A mr clock lv = finish_append A (marker_pre A mr clock lv)"
  unfolding InsertMarker_unfold marker_pre_def Let_def ..

lemma marker_pre_wf:
  assumes wf: "lv_wf lv"
  shows "lv_wf (marker_pre A mr clock lv)"
proof -
  let ?r = "marker_line clock"
  let ?w = "StringWidth A ?r" and ?e = "buf_full lv"
  define lv2 where "lv2 = (if filtering lv
     then let lv3 = appended_filtered True ?r (mr ?r) ?r ?w lv
          in if lv_softWrap lv3 then recomputeTotalWrappedRows lv3 else lv3
     else appended ?r (mr ?r) ?r ?w lv)"
  have st: "rb_wf (lv_buffer lv2)" "filter_wf lv2" "wrap_wf lv2" "search_frame lv2"
    using appended_plain(1-4) [OF wf, of ?r "mr ?r" ?r ?w] appended_filtered_wf [OF wf, of True ?r "mr ?r" ?r ?w]
    by (cases "filtering lv"; simp add: lv2_def Let_def wrap_wf_recompute split del: if_split)+
  have old: "positions_ok (shown_lines (lv_buffer lv2) (filtering lv2) (filteredIndices lv2))
      (matchPositions lv2)" if "\<not> ?e"
  proof (rule positions_ok_mono)
    have "matchPositions lv2 = matchPositions lv"
      using appended_plain(6) [OF wf, of ?r "mr ?r" ?r ?w] by (simp add: lv2_def Let_def)
    then show "positions_ok (shown_lines (lv_buffer lv) (filtering lv) (filteredIndices lv)) (matchPositions lv2)"
      using lv_wf_positions [OF wf] by simp
    have "newest_display_idx lv2 = shown_lines (lv_buffer lv) (filtering lv) (filteredIndices lv)"
      using appended_plain(5) [OF wf, of ?r "mr ?r" ?r ?w] newest_appended_filtered [OF _ that] that
      by (simp add: lv2_def Let_def)
    then show "shown_lines (lv_buffer lv) (filtering lv) (filteredIndices lv)
        \<le> shown_lines (lv_buffer lv2) (filtering lv2) (filteredIndices lv2)"
      by (simp add: newest_display_idx_shown)
  qed
  have "lv_wf (if ?e \<and> ss_Active (lv_searchState lv2) then rebuildMatchPositions A lv2 else lv2)"
    using st old lv_wf_rebuild [OF st(1-3), of A]
    by (cases "ss_Active (lv_searchState lv2)") (auto simp: lv_wf_defs search_ok_def search_frame_def)
  then show ?thesis unfolding marker_pre_def Let_def lv2_def .
qed

lemma InsertMarker_wf: "InsertMarker A mr clock lv = Inr lv' \<Longrightarrow> lv_wf lv \<Longrightarrow> lv_wf lv'"
  using marker_pre_wf by (auto simp: InsertMarker_draws dest: finish_append_wf)


section \<open>The other operations keep the invariant\<close>

lemma filter_ok_length:
  assumes "filter_ok d True idxs off"
  shows "int (length idxs) \<le> max 0 (rb_Len d)"
proof -
  have "set idxs \<subseteq> {off..<off + rb_Len d}" and "distinct idxs"
    using assms by (auto simp: filter_ok_def strict_sorted_iff)
  then have "length idxs \<le> card {off..<off + rb_Len d}"
    by (metis card_mono distinct_card finite_atLeastLessThan_int)
  then show ?thesis by simp
qed

lemma ClearFilter_wf:
  assumes "ClearFilter A lv = Inr lv'" and wf: "lv_wf lv"
  shows "lv_wf lv'"
proof -
  define lv1 where "lv1 = lv\<lparr> lv_filterState := ss_Clear (lv_filterState lv), filteredIndices := [],
                    filteredIndexOffset := 0 \<rparr>"
  have run: "updateViewport A (if lv_softWrap lv1 then recomputeTotalWrappedRows lv1 else lv1) = Inr lv'"
    using assms(1) unfolding ClearFilter_def Let_def lv1_def .
  have "shown_lines (lv_buffer lv) (filtering lv) (filteredIndices lv) \<le> shown_lines (lv_buffer lv) False []"
    using wf filter_ok_length [of "lv_buffer lv" "filteredIndices lv" "filteredIndexOffset lv"]
    by (auto simp: shown_lines_def lv_wf_defs rb_wf_def rb_Len_def)
  from positions_ok_mono [OF lv_wf_positions [OF wf] this]
  have "lv_wf (if lv_softWrap lv1 then recomputeTotalWrappedRows lv1 else lv1)"
    using wf by (simp add: recompute_eq lv1_def lv_wf_defs filter_ok_def search_ok_def)
  then show ?thesis using updateViewport_wf [OF run] by simp
qed

lemma ClearSearch_wf: "ClearSearch A lv = Inr lv' \<Longrightarrow> lv_wf lv \<Longrightarrow> lv_wf lv'"
  using updateViewport_wf by (fastforce simp: ClearSearch_def lv_wf_defs search_ok_def ss_Clear_def)

lemma sorted_wrt_map_filter_upt:
  "sorted_wrt (<) (map (\<lambda>i. off + int i) (filter P [0..<n]))"
  by (induction n) (auto simp: sorted_wrt_append)

lemma ApplySearch_wf:
  assumes "ApplySearch A pattern mode lv = Inr (Inr lv')" and wf: "lv_wf lv"
  shows "lv_wf lv'"
proof -
  have rb: "rb_wf (lv_buffer lv)" and mi: "-1 \<le> matchIndex lv" and f: "filter_wf lv"
    using wf by (auto simp: lv_wf_def match_wf_def search_ok_def)
  show ?thesis
  proof (cases mode)
    case SearchModeFilter
    then obtain fs where fs: "rebuildViewportContent A (lv\<lparr> lv_filterState := fs,
        filteredIndices := (if ss_Active fs
          then map (\<lambda>i. filteredIndexOffset lv + int i)
               (filter (\<lambda>i. line_kept fs (RawGet (lv_buffer lv) (int i)))
                 [0..<nat (rb_Len (lv_buffer lv))]) else []) \<rparr>) = Inr lv'"
      using assms(1) by (auto simp: ApplySearch_def Let_def split: sum.splits)
    show ?thesis
      by (rule rebuildViewportContent_wf [OF fs])
        (auto simp: rb mi filter_wf_def filter_ok_def sorted_wrt_map_filter_upt)
  next
    case SearchModeSearch
    then obtain s where s: "rebuildViewportContent A (lv\<lparr> lv_searchState := s \<rparr>) = Inr lv'"
      using assms(1) by (auto simp: ApplySearch_def Let_def split: sum.splits)
    show ?thesis
      by (rule rebuildViewportContent_wf [OF s]) (use rb mi f in \<open>simp_all add: filter_wf_def\<close>)
  qed
qed

lemma lv_wf_matchIndex: "lv_wf lv \<Longrightarrow> -1 \<le> i \<Longrightarrow> lv_wf (lv\<lparr> matchIndex := i \<rparr>)"
  by (simp add: lv_wf_defs search_ok_def)

lemma ensureMatchVisible_wf: "ensureMatchVisible A lv = Inr lv' \<Longrightarrow> lv_wf lv' = lv_wf lv"
  by (auto simp: ensureMatchVisible_def Let_def dest!: updateViewportWrapped_wf split: if_splits)

lemma SearchNext_wf: "SearchNext A lv = Inr lv' \<Longrightarrow> lv_wf lv \<Longrightarrow> lv_wf lv'"
  using lv_wf_matchIndex [of lv "go_rem (matchIndex lv + 1) (int (length (matchPositions lv)))"]
    go_rem_lower [of "matchIndex lv + 1" "int (length (matchPositions lv))"]
    lv_wf_dests(4) [of lv]
  by (auto simp: SearchNext_def match_wf_def search_ok_def simp del: go_rem_nonneg
      dest!: ensureMatchVisible_wf updateViewport_wf split: if_splits)

lemma SearchPrev_wf: "SearchPrev A lv = Inr lv' \<Longrightarrow> lv_wf lv \<Longrightarrow> lv_wf lv'"
  using lv_wf_matchIndex
  by (auto simp: SearchPrev_def Let_def dest!: ensureMatchVisible_wf updateViewport_wf split: if_splits)

lemma resize_wf:
  assumes "updateViewport A (if lv_softWrap (lv\<lparr> logVP := v \<rparr>) then recomputeTotalWrappedRows (lv\<lparr> logVP := v \<rparr>)
       else lv\<lparr> logVP := v \<rparr>) = Inr lv'" and "lv_wf lv"
  shows "lv_wf lv'"
  using assms(2) updateViewport_wf [OF assms(1)]
  by (auto simp: recompute_eq lv_wf_defs split: if_splits)

lemma lv_SetSize_wf: "lv_SetSize A w h lv = Inr lv' \<Longrightarrow> lv_wf lv \<Longrightarrow> lv_wf lv'"
  unfolding lv_SetSize_def Let_def by (drule resize_wf) simp_all

lemma lv_ToggleHeader_wf: "lv_ToggleHeader A lv = Inr lv' \<Longrightarrow> lv_wf lv \<Longrightarrow> lv_wf lv'"
  unfolding lv_ToggleHeader_def Let_def by (drule lv_SetSize_wf) simp_all

lemma recolor_wf:
  "rb_wf d \<Longrightarrow> rb_wf (fold (recolor A lv) is d) \<and> rb_Len (fold (recolor A lv) is d) = rb_Len d \<and>
     rb_Dropped (fold (recolor A lv) is d) = rb_Dropped d"
proof (induction "is" arbitrary: d)
  case (Cons i "is")
  have "rb_wf (recolor A lv i d)" "rb_Len (recolor A lv i d) = rb_Len d"
    "rb_Dropped (recolor A lv i d) = rb_Dropped d"
    using Cons.prems by (simp_all add: recolor_def Let_def rb_wf_SetColored rb_wf_SetStripped
        rb_Len_def rb_Dropped_def)
  with Cons.IH [of "recolor A lv i d"] show ?case by simp
qed simp

lemma ToggleSyntax_wf:
  assumes "ToggleSyntax A dp lv = Inr lv'" and wf: "lv_wf lv"
  shows "lv_wf lv'"
proof -
  define lv1 where "lv1 = lv\<lparr> pipeline := (if pipeline lv \<noteq> None then None else Some dp) \<rparr>"
  define d where "d = fold (recolor A lv1) [0..<nat (rb_Len (lv_buffer lv1))] (lv_buffer lv1)"
  define lv3 where "lv3 = (if lv_softWrap (lv1\<lparr> lv_buffer := d \<rparr>) then recomputeTotalWrappedRows (lv1\<lparr> lv_buffer := d \<rparr>)
      else lv1\<lparr> lv_buffer := d \<rparr>)"
  have d: "rb_wf d" "rb_Len d = rb_Len (lv_buffer lv)" "rb_Dropped d = rb_Dropped (lv_buffer lv)"
    using recolor_wf [of "lv_buffer lv" A lv1] wf by (simp_all add: d_def lv1_def lv_wf_def)
  have "shown_lines d = shown_lines (lv_buffer lv)" "filter_ok d = filter_ok (lv_buffer lv)"
    using d by (simp_all add: fun_eq_iff shown_lines_def filter_ok_def)
  with d(1) have lv3: "lv_wf lv3"
    using wf by (simp add: lv3_def lv1_def recompute_eq lv_wf_defs)
  have run: "(if ss_Active (lv_searchState lv3) then rebuildViewportContent A lv3 else updateViewport A lv3) = Inr lv'"
    using assms(1) unfolding ToggleSyntax_def Let_def lv3_def lv1_def d_def .
  show ?thesis
  proof (cases "ss_Active (lv_searchState lv3)")
    case True
    with run have "rebuildViewportContent A lv3 = Inr lv'" by simp
    then show ?thesis
      using lv3 by (rule_tac rebuildViewportContent_wf) (auto simp: lv_wf_def match_wf_def search_ok_def)
  next
    case False
    with run have "updateViewport A lv3 = Inr lv'" by simp
    then show ?thesis using lv3 updateViewport_wf by blast
  qed
qed

lemma snap_to_end_wf [simp]: "lv_wf (snap_to_end lv) = lv_wf lv"
  by (simp add: snap_to_end_def)

lemma ToggleAutoscroll_wf: "ToggleAutoscroll A lv = Inr lv' \<Longrightarrow> lv_wf lv' = lv_wf lv"
  by (auto simp: ToggleAutoscroll_def Let_def dest!: updateViewport_wf updateViewportWrapped_wf
      split: if_splits)

lemma ToggleWrap_wf:
  assumes "ToggleWrap A lv = Inr lv'" and "lv_wf lv"
  shows "lv_wf lv'"
proof -
  define lv1 where "lv1 = (if lv_softWrap (lv\<lparr> lv_softWrap := \<not> lv_softWrap lv \<rparr>)
     then recomputeTotalWrappedRows (lv\<lparr> lv_softWrap := \<not> lv_softWrap lv,
        logVP := (logVP lv)\<lparr> vp_xOffset := 0 \<rparr>, wrapYOffset := 0 \<rparr>)
     else if autoscroll lv then snap_to_end (lv\<lparr> lv_softWrap := \<not> lv_softWrap lv \<rparr>)
     else lv\<lparr> lv_softWrap := \<not> lv_softWrap lv \<rparr>)"
  have run: "updateViewport A lv1 = Inr lv'"
    using assms(1) by (cases "lv_softWrap lv"; cases "autoscroll lv") (simp_all add: ToggleWrap_def Let_def lv1_def)
  have "lv_wf lv1"
    using assms(2) by (simp add: lv1_def recompute_eq snap_to_end_def lv_wf_defs)
  then show ?thesis using updateViewport_wf [OF run] by simp
qed

lemma scroll_up_by_wf: "scroll_up_by A n lv = Inr lv' \<Longrightarrow> lv_wf lv' = lv_wf lv"
  by (cases "lv_softWrap lv")
    (simp_all add: scroll_up_by_def Let_def updateViewport_wf updateViewportWrapped_wf)

lemma scroll_down_by_wf: "scroll_down_by A n lv = Inr lv' \<Longrightarrow> lv_wf lv' = lv_wf lv"
  by (cases "lv_softWrap lv")
    (auto simp: scroll_down_by_def Let_def updateViewport_wf split: if_splits
      dest: updateViewportWrapped_wf)

lemma lv_Goto_wf:
  "lv_GotoTop A lv = Inr lv' \<Longrightarrow> lv_wf lv' = lv_wf lv"
  "lv_GotoBottom A lv = Inr lv' \<Longrightarrow> lv_wf lv' = lv_wf lv"
  by (auto simp: lv_GotoTop_def lv_GotoBottom_def dest!: updateViewport_wf updateViewportWrapped_wf
      split: if_splits)

lemma lv_horizontal_wf [simp]:
  "lv_wf (lv_ScrollLeft lv) = lv_wf lv" "lv_wf (lv_ScrollRight lv) = lv_wf lv"
  "lv_wf (lv_ScrollHome lv) = lv_wf lv" "lv_wf (lv_ScrollEnd lv) = lv_wf lv"
  by (simp_all add: lv_ScrollLeft_def lv_ScrollRight_def lv_ScrollHome_def lv_ScrollEnd_def
      set_xOffset_def Let_def)

lemma lv_Update_wf: "lv_Update A b lv = Inr lv' \<Longrightarrow> lv_wf lv' = lv_wf lv"
  by (auto simp: lv_Update_def lv_ScrollUp_def lv_ScrollDown_def dest!: scroll_up_by_wf scroll_down_by_wf
      split: wheel.splits)

lemma ClearAndRestart_wf: "rb_wf (lv_buffer lv) \<Longrightarrow> lv_wf (ClearAndRestart lv)"
  using rb_wf_Reset [of "lv_buffer lv"]
  by (simp add: ClearAndRestart_def lv_wf_defs filter_ok_def search_ok_def rows_sum_def
      rb_Len_def rb_Dropped_def rb_Reset_def ss_Clear_def ss_Active_def)

lemma NewLogView_wf: "lv_wf (NewLogView dp hi sel w h cap tr ss)"
  by (simp add: NewLogView_def lv_wf_defs rb_wf_New filter_ok_def search_ok_def zero_search_def)

section \<open>All operations together\<close>

datatype (plugins only: code) log_op =
    OpAppend string | OpMarker string | OpApply string search_mode | OpClearSearch | OpClearFilter
  | OpNext | OpPrev | OpSize int int | OpBorderless bool | OpHeader | OpFocus bool | OpSyntax
  | OpAutoscroll | OpWrap | OpWheel wheel | OpPageUp | OpPageDown | OpTop | OpBottom
  | OpHome | OpEnd | OpRestart | OpUnavailable bool | OpPod string string | OpContainers "string list"
  | OpContainer string | OpTimeRange string | OpInline string

record log_env =
  env_text :: text_api
  env_marker :: "string \<Rightarrow> string"
  env_pipeline :: "string \<Rightarrow> string"

text \<open>\<open>Inl\<close> is a panic; a pattern that does not compile leaves the state alone.\<close>

definition lv_exec :: "log_env \<Rightarrow> log_op \<Rightarrow> log_view \<Rightarrow> log_view go" where
  "lv_exec E op lv = (let A = env_text E in case op of
       OpAppend l \<Rightarrow> AppendLine A l lv
     | OpMarker c \<Rightarrow> InsertMarker A (env_marker E) c lv
     | OpApply p m \<Rightarrow> go_bind (ApplySearch A p m lv)
         (\<lambda>r. case r of Inl e \<Rightarrow> Inr lv | Inr lv1 \<Rightarrow> Inr lv1)
     | OpClearSearch \<Rightarrow> ClearSearch A lv
     | OpClearFilter \<Rightarrow> ClearFilter A lv
     | OpNext \<Rightarrow> SearchNext A lv
     | OpPrev \<Rightarrow> SearchPrev A lv
     | OpSize w h \<Rightarrow> lv_SetSize A w h lv
     | OpBorderless b \<Rightarrow> Inr (lv_SetBorderless b lv)
     | OpHeader \<Rightarrow> lv_ToggleHeader A lv
     | OpFocus b \<Rightarrow> Inr (if b then lv_Focus lv else lv_Blur lv)
     | OpSyntax \<Rightarrow> ToggleSyntax A (env_pipeline E) lv
     | OpAutoscroll \<Rightarrow> ToggleAutoscroll A lv
     | OpWrap \<Rightarrow> ToggleWrap A lv
     | OpWheel b \<Rightarrow> lv_Update A b lv
     | OpPageUp \<Rightarrow> lv_PageUp A lv
     | OpPageDown \<Rightarrow> lv_PageDown A lv
     | OpTop \<Rightarrow> lv_GotoTop A lv
     | OpBottom \<Rightarrow> lv_GotoBottom A lv
     | OpHome \<Rightarrow> Inr (lv_ScrollHome lv)
     | OpEnd \<Rightarrow> Inr (lv_ScrollEnd lv)
     | OpRestart \<Rightarrow> Inr (ClearAndRestart lv)
     | OpUnavailable b \<Rightarrow> Inr (SetUnavailable b lv)
     | OpPod n ns \<Rightarrow> Inr (lv_SetNamespace ns (SetPodName n lv))
     | OpContainers cs \<Rightarrow> Inr (SetContainers cs lv)
     | OpContainer c \<Rightarrow> Inr (SetActiveContainer c lv)
     | OpTimeRange l \<Rightarrow> Inr (SetTimeRangeLabel l lv)
     | OpInline s \<Rightarrow> Inr (lv_SetInlineSearch s lv))"

fun lv_run :: "log_env \<Rightarrow> log_op list \<Rightarrow> log_view \<Rightarrow> log_view go" where
  "lv_run E [] lv = Inr lv"
| "lv_run E (op # ops) lv = go_bind (lv_exec E op lv) (lv_run E ops)"

lemma lv_exec_wf:
  assumes "lv_exec E op lv = Inr lv'" and "lv_wf lv"
  shows "lv_wf lv'"
proof (cases op)
  case (OpApply p m)
  with assms(1) obtain r where r: "ApplySearch (env_text E) p m lv = Inr r"
    and lv': "lv' = (case r of Inl e \<Rightarrow> lv | Inr lv1 \<Rightarrow> lv1)"
    by (cases "ApplySearch (env_text E) p m lv") (simp_all add: lv_exec_def go_bind_def split: sum.splits)
  show ?thesis using ApplySearch_wf [of "env_text E" p m lv] r lv' assms(2) by (cases r) auto
qed (use assms in \<open>auto simp: lv_exec_def lv_SetBorderless_def lv_Focus_def lv_Blur_def SetUnavailable_def
    lv_SetNamespace_def SetPodName_def SetContainers_def SetActiveContainer_def SetTimeRangeLabel_def
    lv_SetInlineSearch_def lv_PageUp_def lv_PageDown_def
    dest: AppendLine_wf InsertMarker_wf ClearSearch_wf ClearFilter_wf SearchNext_wf SearchPrev_wf
      lv_SetSize_wf lv_ToggleHeader_wf ToggleSyntax_wf ToggleAutoscroll_wf ToggleWrap_wf lv_Update_wf
      scroll_up_by_wf scroll_down_by_wf lv_Goto_wf lv_wf_dests(1) ClearAndRestart_wf\<close>)

lemma lv_run_wf: "lv_run E ops lv = Inr lv' \<Longrightarrow> lv_wf lv \<Longrightarrow> lv_wf lv'"
  by (induction ops arbitrary: lv) (auto dest: lv_exec_wf)

end
