(* ===== verification/Log_View_Window.thy ===== *)
theory Log_View_Window
  imports Log_View_Inv
begin

text \<open>
  What the log panel shows. The specification is the display list (the eviction indicator, when
  there is one, then the lines that pass the filter) cut at the scroll position; the code cuts
  it out of the ring buffer without building it. When the panel has a row and the selected
  match exists, the update does not panic.
\<close>

section \<open>The display list\<close>

definition body_lines :: "log_view \<Rightarrow> (string \<times> int) list" where
  "body_lines lv =
     (if filtering lv
      then map (\<lambda>idx. (ColoredGet (lv_buffer lv) (idx - filteredIndexOffset lv),
                       WidthGet (lv_buffer lv) (idx - filteredIndexOffset lv))) (filteredIndices lv)
      else map (\<lambda>e. (fst (snd e), snd (snd (snd e)))) (entries_of (lv_buffer lv)))"

definition display_list :: "log_view \<Rightarrow> (string \<times> int) list" where
  "display_list lv =
     (if hasIndicator lv then [(indicator_text lv, int (length (indicator_text lv)))] else []) @
     body_lines lv"

lemma length_body_lines: "rb_wf (lv_buffer lv) \<Longrightarrow> int (length (body_lines lv)) = lineCount lv"
  by (simp add: body_lines_def lineCount_def rb_Len_def rb_wf_def)

lemma length_display_list:
  "rb_wf (lv_buffer lv) \<Longrightarrow> int (length (display_list lv)) = totalDisplayLines lv"
  using length_body_lines [of lv] by (simp add: display_list_def totalDisplayLines_def)

lemma lineCount_nonneg: "rb_wf (lv_buffer lv) \<Longrightarrow> 0 \<le> lineCount lv"
  by (simp add: lineCount_def rb_Len_def rb_wf_def)

lemma display_list_redraw: "display_list (redraw lv lv') = display_list lv"
  by (simp add: display_list_def body_lines_def redraw_def indicator_text_def)

section \<open>The window of the plain view\<close>

lemma uv_window_body:
  assumes wf: "rb_wf (lv_buffer lv)" and r: "0 \<le> st" "st \<le> e" "e \<le> lineCount lv"
  shows "uv_window lv st e =
    Inr (map fst (take (nat (e - st)) (drop (nat st) (body_lines lv))),
         map snd (take (nat (e - st)) (drop (nat st) (body_lines lv))))"
proof (cases "filtering lv")
  case True
  then show ?thesis
    using r by (simp add: uv_window_def go_slice_ok lineCount_def body_lines_def take_map drop_map comp_def)
next
  case False
  have "drop (nat st) (take (nat e) xs) = take (nat (e - st)) (drop (nat st) xs)" for xs :: "log_entry list"
    using r by (simp add: drop_take nat_diff_distrib)
  then show ?thesis
    using False by (simp add: uv_window_def body_lines_def slices_entries [OF wf] take_map drop_map comp_def)
qed

lemma clamp_range:
  assumes "rb_wf (lv_buffer lv)"
  shows "0 \<le> scrollOffset (clampScrollOffset lv)"
    and "scrollOffset (clampScrollOffset lv) \<le> max (totalDisplayLines lv - viewportHeight lv) 0"
  by (auto simp: clampScrollOffset_def Let_def)

lemma clamp_eq:
  "clampScrollOffset lv = lv\<lparr> scrollOffset := scrollOffset (clampScrollOffset lv) \<rparr>"
  by (simp add: clampScrollOffset_def Let_def)

lemma scroll_frame [simp]:
  "lineCount (lv\<lparr> scrollOffset := s \<rparr>) = lineCount lv"
  "viewportHeight (lv\<lparr> scrollOffset := s \<rparr>) = viewportHeight lv"
  "body_lines (lv\<lparr> scrollOffset := s \<rparr>) = body_lines lv"
  "display_list (lv\<lparr> scrollOffset := s \<rparr>) = display_list lv"
  "totalDisplayLines (lv\<lparr> scrollOffset := s \<rparr>) = totalDisplayLines lv"
  by (simp_all add: lineCount_def viewportHeight_def body_lines_def display_list_def indicator_text_def
      totalDisplayLines_def)

lemma uv_range_props:
  assumes "rb_wf (lv_buffer lv)" and h: "1 \<le> viewportHeight lv" and s0: "0 \<le> scrollOffset lv"
    and s1: "scrollOffset lv \<le> max (totalDisplayLines lv - viewportHeight lv) 0"
    and r: "uv_range lv = (st, e)"
  shows "0 \<le> st" and "st \<le> e" and "e \<le> lineCount lv"
    and "st = max (scrollOffset lv - (if hasIndicator lv then 1 else 0)) 0"
    and "e = min (st + viewportHeight lv - (if hasIndicator lv \<and> scrollOffset lv = 0 then 1 else 0)) (lineCount lv)"
  using r h s0 s1 lineCount_nonneg [OF assms(1)]
  by (auto simp: uv_range_def Let_def totalDisplayLines_def split: if_splits)

lemma take_min_drop:
  "int (length xs) = n \<Longrightarrow> 0 \<le> st \<Longrightarrow> take (nat (min (st + k) n - st)) (drop (nat st) xs) = take (nat k) (drop (nat st) xs)"
  by (cases "st + k \<le> n") (auto simp: min_def nat_diff_distrib)

definition visible :: "log_view \<Rightarrow> (string \<times> int) list" where
  "visible lv = take (nat (viewportHeight lv)) (drop (nat (scrollOffset lv)) (display_list lv))"

lemma window_visible:
  assumes wf: "rb_wf (lv_buffer lv)" and h: "1 \<le> viewportHeight lv" and s0: "0 \<le> scrollOffset lv"
    and s1: "scrollOffset lv \<le> max (totalDisplayLines lv - viewportHeight lv) 0"
    and r: "uv_range lv = (st, e)"
  shows "(if hasIndicator lv \<and> scrollOffset lv = 0
          then (indicator_text lv, int (length (indicator_text lv))) #
               take (nat (e - st)) (drop (nat st) (body_lines lv))
          else take (nat (e - st)) (drop (nat st) (body_lines lv))) = visible lv"
proof -
  note p = uv_range_props [OF assms]
  have len: "int (length (body_lines lv)) = lineCount lv" using wf by (rule length_body_lines)
  show ?thesis
  proof (cases "hasIndicator lv \<and> scrollOffset lv = 0")
    case True
    then have "take (nat (e - st)) (drop (nat st) (body_lines lv)) = take (nat (viewportHeight lv - 1)) (body_lines lv)"
      using p take_min_drop [OF len, of 0 "viewportHeight lv - 1"] by simp
    moreover have "nat (viewportHeight lv) = Suc (nat (viewportHeight lv - 1))" using h by simp
    ultimately show ?thesis using True by (simp add: visible_def display_list_def)
  next
    case False
    then have "e = min (st + viewportHeight lv) (lineCount lv)" using p by auto
    then have "take (nat (e - st)) (drop (nat st) (body_lines lv)) =
        take (nat (viewportHeight lv)) (drop (nat st) (body_lines lv))"
      using take_min_drop [OF len p(1)] by simp
    moreover have "drop (nat st) (body_lines lv) = drop (nat (scrollOffset lv)) (display_list lv)"
    proof (cases "hasIndicator lv")
      case True
      then have "nat (scrollOffset lv) = Suc (nat st)" using p(4) False s0 by auto
      then show ?thesis using True by (simp add: display_list_def)
    qed (use p(4) s0 in \<open>simp add: display_list_def\<close>)
    ultimately show ?thesis using False by (simp only: visible_def if_False)
  qed
qed

lemma map_if_window: "map f (if b then x # xs else xs) = (if b then f x # map f xs else map f xs)"
  by simp

text \<open>The plain view: the window, then the highlights, over the clamped state.\<close>

lemma updateViewport_plain_unfold:
  assumes wf: "rb_wf (lv_buffer lv)" and h: "1 \<le> viewportHeight lv" and c: "clampScrollOffset lv = lv1"
  shows "updateViewport_plain A lv =
    go_bind (uv_highlight A lv1 (fst (uv_range lv1)) (map fst (visible lv1)))
      (\<lambda>window2. Inr (lv1\<lparr> logVP := SetLines window2 (map snd (visible lv1)) (logVP lv) \<rparr>))"
proof -
  obtain st e where r: "uv_range lv1 = (st, e)" by fastforce
  have lv1: "lv1 = lv\<lparr> scrollOffset := scrollOffset lv1 \<rparr>" using clamp_eq [of lv] c by simp
  have b: "lv_buffer lv1 = lv_buffer lv" by (subst lv1) simp
  have wf1: "rb_wf (lv_buffer lv1)" using wf b by simp
  have h1: "viewportHeight lv1 = viewportHeight lv" by (subst lv1) simp
  have t1: "totalDisplayLines lv1 = totalDisplayLines lv" by (subst lv1) simp
  have vp: "logVP lv1 = logVP lv" by (subst lv1) simp
  note s = clamp_range [OF wf, unfolded c, folded h1 t1]
  note p = uv_range_props [OF wf1 _ s r]
  have h': "1 \<le> viewportHeight lv1" using h h1 by simp
  note w = window_visible [OF wf1 h' s r]
  show ?thesis
    unfolding updateViewport_plain_def c r Let_def split_conv w [symmetric] map_if_window
    using uv_window_body [OF wf1 p(1) [OF h'] p(2) [OF h'] p(3) [OF h']] by (simp add: r vp)
qed

section \<open>Search matches in the window\<close>

text \<open>
  Binary search and the early exit select exactly the matches on the window's display lines.
\<close>

lemma windowPositions_filter:
  assumes "sorted (map mp_line (matchPositions lv))"
  shows "windowPositions lv a b =
    map (\<lambda>p. p\<lparr> mp_line := mp_line p - a \<rparr>)
      (filter (\<lambda>p. a \<le> mp_line p \<and> mp_line p < b) (matchPositions lv))"
proof -
  let ?f = "filter (\<lambda>p. a \<le> mp_line p) (matchPositions lv)"
  have "sorted (map mp_line ?f)" using assms by (rule sorted_filter)
  from takeWhile_sorted [OF this, of b]
  show ?thesis
    by (simp add: windowPositions_def Let_def drop_sort_Search [OF assms] filter_filter conj_commute)
qed

lemma first_index_range: "-1 \<le> first_index P xs"
  by (simp add: first_index_def)

text \<open>Injecting the highlights keeps the number of lines and reads only lines in range.\<close>

lemma inject_groups_total:
  assumes "\<forall>p\<in>set ps. 0 \<le> mp_line p \<and> mp_line p < int (length window)"
    and "0 \<le> st"
    and "\<forall>k. 0 \<le> k \<and> k < int (length window) - (if hasIndicator lv \<and> scrollOffset lv = 0 then 1 else 0)
           \<longrightarrow> st + k < lineCount lv"
  shows "\<exists>w'. inject_groups A lv st gsel wpIdx ps window = Inr w' \<and> length w' = length window"
  using assms
proof (induction A lv st gsel wpIdx ps window rule: inject_groups.induct)
  case (2 A lv st gsel wpIdx p ps window)
  let ?grp = "p # takeWhile (\<lambda>q. mp_line q = mp_line p) ps"
  let ?rest = "dropWhile (\<lambda>q. mp_line q = mp_line p) ps"
  let ?b = "if hasIndicator lv \<and> scrollOffset lv = 0 then mp_line p - 1 else mp_line p"
  have rest: "\<forall>q\<in>set ?rest. 0 \<le> mp_line q \<and> mp_line q < int (length w)" if "length w = length window" for w :: "string list"
    using "2.prems"(1) that by (auto dest: set_dropWhileD)
  have "\<exists>m. (if ?b \<ge> 0 then go_bind (filtered_raw lv (st + ?b)) (\<lambda>r. Inr (is_marker r)) else Inr False) = Inr m"
    using "2.prems" by (auto simp: filtered_raw_def lineCount_def go_index_ok)
  then obtain m where m: "(if ?b \<ge> 0 then go_bind (filtered_raw lv (st + ?b)) (\<lambda>r. Inr (is_marker r)) else Inr False) = Inr m" ..
  show ?case
  proof (cases m)
    case True
    have "\<exists>w'. inject_groups A lv st gsel (wpIdx + int (length ?grp)) ?rest window = Inr w' \<and> length w' = length window"
      by (rule "2.IH"(1) [OF refl refl refl refl refl, of m]) (use True rest [OF refl] "2.prems" in simp_all)
    then show ?thesis using True m by (simp add: Let_def)
  next
    case False
    define sel where "sel = (if gsel \<ge> wpIdx \<and> gsel < wpIdx + int (length ?grp) then gsel - wpIdx else -1)"
    define w1 where "w1 = window[nat (mp_line p) := injectHighlights A (window ! nat (mp_line p))
       (map (\<lambda>q. (mp_colStart q, mp_colEnd q)) ?grp) sel (highlightSGR lv) (selectedHighlightSGR lv)]"
    have len: "length w1 = length window" by (simp add: w1_def)
    have "\<exists>w'. inject_groups A lv st gsel (wpIdx + int (length ?grp)) ?rest w1 = Inr w' \<and> length w' = length w1"
      unfolding w1_def
      by (rule "2.IH"(2) [OF refl refl refl refl refl, of m sel])
        (use False rest [OF len] "2.prems" len sel_def w1_def in \<open>simp_all add: Let_def\<close>)
    then show ?thesis
      using False m len "2.prems"(1) by (simp add: Let_def go_index_ok w1_def sel_def)
  qed
qed simp

definition selection_ok :: "log_view \<Rightarrow> bool" where
  "selection_ok lv \<longleftrightarrow> (ss_Active (lv_searchState lv) \<longrightarrow>
     matchIndex lv < max 1 (int (length (matchPositions lv))))"

lemma uv_highlight_total:
  assumes srt: "sorted (map mp_line (matchPositions lv))" and sel: "selection_ok lv"
    and "0 \<le> st"
    and rd: "\<forall>k. 0 \<le> k \<and> k < int (length window) - (if hasIndicator lv \<and> scrollOffset lv = 0 then 1 else 0)
           \<longrightarrow> st + k < lineCount lv"
  shows "\<exists>w'. uv_highlight A lv st window = Inr w' \<and> length w' = length window"
proof (cases "ss_Active (lv_searchState lv) \<and> matchPositions lv \<noteq> [] \<and>
    windowPositions lv (scrollOffset lv) (scrollOffset lv + int (length window)) \<noteq> []")
  case True
  let ?wps = "windowPositions lv (scrollOffset lv) (scrollOffset lv + int (length window))"
  have wps: "\<forall>p\<in>set ?wps. 0 \<le> mp_line p \<and> mp_line p < int (length window)"
    by (auto simp: windowPositions_filter [OF srt])
  have "\<exists>g. globalSelectedWP lv (scrollOffset lv) (scrollOffset lv + int (length window)) ?wps = Inr g"
    using True sel by (cases "matchPositions lv") (auto simp: globalSelectedWP_def go_index_ok selection_ok_def)
  then obtain g where g: "globalSelectedWP lv (scrollOffset lv) (scrollOffset lv + int (length window)) ?wps = Inr g" ..
  show ?thesis
    using True g inject_groups_total [OF wps assms(3) rd, of A g 0] by (simp add: uv_highlight_def Let_def)
qed (auto simp: uv_highlight_def Let_def)

lemma uv_highlight_inactive: "\<not> ss_Active (lv_searchState lv) \<Longrightarrow> uv_highlight A lv st w = Inr w"
  by (simp add: uv_highlight_def)

lemma updateViewport_plain_total:
  assumes rb: "rb_wf (lv_buffer lv)" and srt: "sorted (map mp_line (matchPositions lv))" and h: "1 \<le> viewportHeight lv" and sel: "selection_ok lv"
  shows "\<exists>lv'. updateViewport_plain A lv = Inr lv'"
proof -
  define lv1 where "lv1 = clampScrollOffset lv"
  have lv1: "lv1 = lv\<lparr> scrollOffset := scrollOffset lv1 \<rparr>" using clamp_eq [of lv] lv1_def by simp
  obtain st e where r: "uv_range lv1 = (st, e)" by fastforce
  have eqs: "lv_buffer lv1 = lv_buffer lv" "viewportHeight lv1 = viewportHeight lv"
    "totalDisplayLines lv1 = totalDisplayLines lv" "matchPositions lv1 = matchPositions lv"
    "selection_ok lv1 = selection_ok lv"
    by (subst lv1, simp add: selection_ok_def)+
  have rb1: "rb_wf (lv_buffer lv1)" using rb eqs by simp
  have h1: "1 \<le> viewportHeight lv1" using h eqs by simp
  have s: "0 \<le> scrollOffset lv1" "scrollOffset lv1 \<le> max (totalDisplayLines lv1 - viewportHeight lv1) 0"
    using clamp_range [OF rb] eqs by (simp_all add: lv1_def)
  note p = uv_range_props [OF rb1 h1 s r]
  have len: "int (length (visible lv1)) = e - st + (if hasIndicator lv1 \<and> scrollOffset lv1 = 0 then 1 else 0)"
    using window_visible [OF rb1 h1 s r, symmetric] p(1-3) length_body_lines [OF rb1] by auto
  have rd: "\<forall>k. 0 \<le> k \<and> k < int (length (map fst (visible lv1))) -
      (if hasIndicator lv1 \<and> scrollOffset lv1 = 0 then 1 else 0) \<longrightarrow> st + k < lineCount lv1"
    using len p(3) by auto
  have "\<exists>w'. uv_highlight A lv1 st (map fst (visible lv1)) = Inr w' \<and> length w' = length (map fst (visible lv1))"
    by (rule uv_highlight_total [OF _ _ p(1) rd]) (use srt sel eqs in simp_all)
  then show ?thesis
    using updateViewport_plain_unfold [OF rb h lv1_def [symmetric], of A] r by auto
qed

text \<open>Without a search the plain view shows exactly the window of the display list.\<close>

lemma updateViewport_plain_shows:
  assumes wf: "rb_wf (lv_buffer lv)" and h: "1 \<le> viewportHeight lv"
    and ns: "\<not> ss_Active (lv_searchState lv)"
  shows "\<exists>lv'. updateViewport_plain A lv = Inr lv' \<and>
      0 \<le> scrollOffset lv' \<and> scrollOffset lv' \<le> max (totalDisplayLines lv - viewportHeight lv) 0 \<and>
      scrollOffset lv' = scrollOffset (clampScrollOffset lv) \<and>
      zip (vp_lines (logVP lv')) (vp_rawWidths (logVP lv')) =
        take (nat (viewportHeight lv)) (drop (nat (scrollOffset lv')) (display_list lv))"
proof -
  define lv1 where "lv1 = clampScrollOffset lv"
  have lv1: "lv1 = lv\<lparr> scrollOffset := scrollOffset lv1 \<rparr>" using clamp_eq [of lv] lv1_def by simp
  have eqs: "viewportHeight lv1 = viewportHeight lv" "display_list lv1 = display_list lv"
    "lv_searchState lv1 = lv_searchState lv"
    by (subst lv1, simp)+
  have "updateViewport_plain A lv =
      Inr (lv1\<lparr> logVP := SetLines (map fst (visible lv1)) (map snd (visible lv1)) (logVP lv) \<rparr>)"
    using updateViewport_plain_unfold [OF wf h lv1_def [symmetric], of A] ns eqs
    by (simp add: uv_highlight_inactive)
  then show "\<exists>lv'. updateViewport_plain A lv = Inr lv' \<and>
      0 \<le> scrollOffset lv' \<and> scrollOffset lv' \<le> max (totalDisplayLines lv - viewportHeight lv) 0 \<and>
      scrollOffset lv' = scrollOffset (clampScrollOffset lv) \<and>
      zip (vp_lines (logVP lv')) (vp_rawWidths (logVP lv')) =
        take (nat (viewportHeight lv)) (drop (nat (scrollOffset lv')) (display_list lv))"
    using clamp_range [OF wf] eqs
    by (auto simp: lv1_def [symmetric] visible_def zip_map_fst_snd)
qed

section \<open>The wrapped view returns\<close>

lemma split_lengths:
  "length (fst (splitWrappedVisible A line v c s n)) = length (snd (splitWrappedVisible A line v c s n))"
proof -
  have run: "length (sp_segments (foldl (sp_step c' s e) st ts)) = length (sp_widths (foldl (sp_step c' s e) st ts))"
    if "length (sp_segments st) = length (sp_widths st)" for c' e st ts
    using that
  proof (induction ts arbitrary: st)
    case (Cons t ts)
    have "length (sp_segments (sp_step c' s e st t)) = length (sp_widths (sp_step c' s e st t))"
      using sp_grows_step [of st c' s e t] Cons.prems by (auto simp: sp_grows_def)
    then show ?case using Cons.IH by simp
  qed simp
  have "length (sp_segments (sp_flush st)) = length (sp_widths (sp_flush st))"
    if "length (sp_segments st) = length (sp_widths st)" for st
    using that by (simp add: sp_flush_def sp_close_def)
  moreover have "length (sp_segments (sp_init v s e)) = length (sp_widths (sp_init v s e))" for e
    by (simp add: sp_init_def sp_start_def Let_def)
  ultimately show ?thesis by (simp add: splitWrappedVisible_flush Let_def run)
qed

lemma build_rows_lengths:
  "build_rows A p lv v h f o' dis (rs, ws) = (rs', ws') \<Longrightarrow> length rs = length ws \<Longrightarrow> length rs' = length ws'"
proof (induction dis arbitrary: rs ws)
  case (Cons d dis)
  have "length (fst (row_block A p lv v s n di w)) = length (snd (row_block A p lv v s n di w))" for s n di w
    using split_lengths [of A "wrapped_line A lv di" v "continuationWidth v" s n]
    by (auto simp: row_block_def prefixContinuationRows_def Let_def split: prod.splits)
  note block = this [of "if int d = f then o' else 0" "h - int (length rs)" "int d" "wrapped_width lv (int d)"]
  then show ?case
    using Cons.prems Cons.IH by (auto simp: Let_def split: prod.splits if_splits)
qed simp

lemma updateViewportWrapped_total:
  assumes "0 \<le> viewportHeight lv"
  shows "\<exists>lv'. updateViewportWrapped A lv = Inr lv'"
  using assms
  by (auto simp: updateViewportWrapped_def Let_def go_slice_def split: prod.splits
      dest: build_rows_lengths)

end

