(* ===== verification/Log_View_Wrapped.thy ===== *)
theory Log_View_Wrapped
  imports Log_View_Window
begin

text \<open>
  The wrapped view. The specification wraps every display line completely and cuts the rows at
  the visual offset; the code finds the first visible line from the line heights and wraps only
  the rows it shows. Both agree whenever the height the bookkeeping uses for a long line is the
  number of rows the splitter makes of it, which \<open>split_rows_narrow\<close> gives for lines
  without wide characters.
\<close>

section \<open>All rows\<close>

definition line_rows :: "text_api \<Rightarrow> log_view \<Rightarrow> int \<Rightarrow> int \<Rightarrow> nat \<Rightarrow> string list" where
  "line_rows A lv v h di =
     (let w = wrapped_width lv (int di)
      in fst (row_block A (wrapPrefix A) lv v 0 (wrapHeight w v + h) (int di) w))"

definition all_rows :: "text_api \<Rightarrow> log_view \<Rightarrow> int \<Rightarrow> int \<Rightarrow> nat list \<Rightarrow> string list" where
  "all_rows A lv v h dis = concat (map (line_rows A lv v h) dis)"

text \<open>The height of a long line is the number of rows the splitter makes of it.\<close>

definition wrap_exact :: "text_api \<Rightarrow> log_view \<Rightarrow> int \<Rightarrow> nat \<Rightarrow> bool" where
  "wrap_exact A lv v di \<longleftrightarrow>
     (let w = wrapped_width lv (int di)
      in w > v \<longrightarrow> (\<forall>N > wrapHeight w v.
           int (length (fst (splitWrappedVisible A (wrapped_line A lv (int di)) v (continuationWidth v) 0 N)))
             = wrapHeight w v))"

lemma wrapHeight_pos: "1 \<le> wrapHeight w v"
proof -
  have c: "1 \<le> continuationWidth v'" for v' by (rule continuationWidth_pos)
  show ?thesis
    using c [of "if v \<le> 0 then 1 else v"]
    by (auto simp: wrapHeight_def Let_def go_quot_def intro!: pos_imp_zdiv_nonneg_iff [THEN iffD2])
qed

lemma disp_height_pos: "1 \<le> disp_height lv v di"
  by (simp add: disp_height_def wrapHeight_pos)

lemma wrapHeight_short: "0 < v \<Longrightarrow> w \<le> v \<Longrightarrow> wrapHeight w v = 1"
  by (simp add: wrapHeight_def Let_def)

text \<open>A block of rows is a window of the line's rows.\<close>

lemma prefix_window:
  assumes "0 \<le> s" and "0 < n"
  shows "fst (prefixContinuationRows (take (nat n) (drop (nat s) segs)) ws p k (s > 0)) =
         take (nat n) (drop (nat s) (fst (prefixContinuationRows segs ws' p k False)))"
proof (cases "s = 0")
  case True
  then show ?thesis using assms(2)
    by (cases segs; cases "nat n") (simp_all add: prefixContinuationRows_def take_map)
next
  case False
  then obtain k where "nat s = Suc k" using assms(1) by (metis not0_implies_Suc nat_0_iff antisym)
  then show ?thesis using False assms
    by (cases segs) (simp_all add: prefixContinuationRows_def take_map drop_map)
qed

lemma row_block_window:
  assumes v: "0 < v" and n: "0 < n" "n \<le> h"
    and s: "0 \<le> s" "s < wrapHeight (wrapped_width lv (int di)) v"
  shows "fst (row_block A (wrapPrefix A) lv v s n (int di) (wrapped_width lv (int di))) =
         take (nat n) (drop (nat s) (line_rows A lv v h di))"
proof (cases "wrapped_width lv (int di) \<le> v")
  case True
  then have "s = 0" using s wrapHeight_short [OF v True] by simp
  then show ?thesis using True n by (simp add: row_block_def line_rows_def Let_def take_Cons')
next
  case False
  let ?w = "wrapped_width lv (int di)" and ?l = "wrapped_line A lv (int di)"
  let ?full = "splitWrappedVisible A ?l v (continuationWidth v) 0 (wrapHeight ?w v + h)"
  have "splitWrappedVisible A ?l v (continuationWidth v) s n =
      (take (nat n) (drop (nat s) (fst ?full)), take (nat n) (drop (nat s) (snd ?full)))"
    by (rule split_window) (use s n in auto)
  then show ?thesis
    using False prefix_window [OF s(1) n(1), of "fst ?full"]
    by (simp add: row_block_def line_rows_def Let_def split_beta)
qed

lemma length_line_rows:
  assumes "0 < v" and "0 < h" and "wrap_exact A lv v di"
  shows "int (length (line_rows A lv v h di)) = wrapHeight (wrapped_width lv (int di)) v"
proof (cases "wrapped_width lv (int di) \<le> v")
  case True
  then show ?thesis using wrapHeight_short [OF assms(1) True] by (simp add: line_rows_def row_block_def Let_def)
next
  case False
  then show ?thesis
    using assms by (simp add: line_rows_def row_block_def wrap_exact_def Let_def split_beta)
qed

section \<open>The rows that are built\<close>

lemma build_rows_tail:
  assumes "0 < v" and "\<forall>d\<in>set dis. int d \<noteq> f" and "int (length rs) \<le> h"
  shows "fst (build_rows A (wrapPrefix A) lv v h f vo dis (rs, ws)) =
         rs @ take (nat (h - int (length rs))) (all_rows A lv v h dis)"
  using assms
proof (induction dis arbitrary: rs ws)
  case (Cons d dis)
  show ?case
  proof (cases "int (length rs) < h")
    case True
    let ?n = "h - int (length rs)"
    obtain b bw where b: "row_block A (wrapPrefix A) lv v 0 ?n (int d) (wrapped_width lv (int d)) = (b, bw)"
      by fastforce
    have bl: "b = take (nat ?n) (line_rows A lv v h d)"
      using row_block_window [of v ?n h 0 lv d A] b True Cons.prems(1) wrapHeight_pos
      by (simp add: less_le_trans [OF zero_less_one wrapHeight_pos])
    have len: "int (length (rs @ b)) \<le> h" using True by (simp add: bl)
    have "fst (build_rows A (wrapPrefix A) lv v h f vo (d # dis) (rs, ws)) =
        fst (build_rows A (wrapPrefix A) lv v h f vo dis (rs @ b, ws @ bw))"
      using True b Cons.prems(2) by simp
    also have "\<dots> = (rs @ b) @ take (nat (h - int (length (rs @ b)))) (all_rows A lv v h dis)"
      by (rule Cons.IH) (use Cons.prems len in auto)
    also have "\<dots> = rs @ take (nat ?n) (all_rows A lv v h (d # dis))"
      using True nat_int_add [of "length rs" "length (line_rows A lv v h d)"]
      by (auto simp: all_rows_def bl take_append nat_diff_distrib min_def)
    finally show ?thesis .
  next
    case False
    then show ?thesis using Cons.prems by simp
  qed
qed (simp add: all_rows_def)

lemma build_rows_window:
  assumes v: "0 < v" and h: "0 < h" and nf: "\<forall>d\<in>set dis. int d \<noteq> int i"
    and o: "0 \<le> o'" "o' < wrapHeight (wrapped_width lv (int i)) v" and ex: "wrap_exact A lv v i"
  shows "fst (build_rows A (wrapPrefix A) lv v h (int i) o' (i # dis) ([], [])) =
         take (nat h) (drop (nat o') (all_rows A lv v h (i # dis)))"
proof -
  obtain b bw where b: "row_block A (wrapPrefix A) lv v o' h (int i) (wrapped_width lv (int i)) = (b, bw)"
    by fastforce
  have bl: "b = take (nat h) (drop (nat o') (line_rows A lv v h i))"
    using row_block_window [OF v h order_refl o, of A] b by simp
  have len: "nat o' \<le> length (line_rows A lv v h i)"
    using length_line_rows [OF v h ex] o by linarith
  have "int (length b) \<le> h" using h by (simp add: bl)
  from build_rows_tail [OF v nf this, of A lv o' bw]
  show ?thesis using h b len by (auto simp: all_rows_def bl min_def nat_diff_distrib)
qed

section \<open>The first visible line\<close>

lemma find_first_correct:
  assumes "\<And>d. 1 \<le> hh (int d)" and "row \<le> y"
    and "y < row + sum_list (map (\<lambda>d. hh (int d)) [a..<b])"
  shows "\<exists>i o'. find_first hh y row [a..<b] = (int i, o') \<and> a \<le> i \<and> i < b \<and> 0 \<le> o' \<and> o' < hh (int i) \<and>
    y = row + sum_list (map (\<lambda>d. hh (int d)) [a..<i]) + o'"
  using assms(2,3)
proof (induction "b - a" arbitrary: a row)
  case 0
  then show ?case by simp
next
  case (Suc n)
  then have ab: "a < b" by simp
  then have up: "[a..<b] = a # [Suc a..<b]" by (rule upt_conv_Cons)
  show ?case
  proof (cases "row + hh (int a) > y")
    case True
    then show ?thesis using Suc.prems ab by (intro exI [of _ a] exI [of _ "y - row"]) (simp add: up)
  next
    case False
    have "\<exists>i o'. find_first hh y (row + hh (int a)) [Suc a..<b] = (int i, o') \<and> Suc a \<le> i \<and> i < b \<and>
        0 \<le> o' \<and> o' < hh (int i) \<and>
        y = row + hh (int a) + sum_list (map (\<lambda>d. hh (int d)) [Suc a..<i]) + o'"
      by (rule Suc.hyps(1)) (use Suc.hyps(2) Suc.prems False in \<open>auto simp: up\<close>)
    then obtain i o' where io: "find_first hh y (row + hh (int a)) [Suc a..<b] = (int i, o')"
      "Suc a \<le> i" "i < b" "0 \<le> o'" "o' < hh (int i)"
      "y = row + hh (int a) + sum_list (map (\<lambda>d. hh (int d)) [Suc a..<i]) + o'" by blast
    have "[Suc a..<b] \<noteq> []" using io(2,3) by simp
    moreover have "[a..<i] = a # [Suc a..<i]" using io(2) by (simp add: upt_conv_Cons)
    ultimately show ?thesis using io False
      by (intro exI [of _ i] exI [of _ o']) (simp add: up)
  qed
qed

text \<open>The heights of the display list add up to the maintained total.\<close>

lemma wrapHeight_width_pos: "wrapHeight w (if v \<le> 0 then 1 else v) = wrapHeight w v"
  by (simp add: wrapHeight_def Let_def)

lemma sum_disp_height:
  assumes "rb_wf (lv_buffer lv)" and v: "v = (if vp_width (logVP lv) \<le> 0 then 1 else vp_width (logVP lv))"
  shows "sum_list (map (\<lambda>d. disp_height lv v (int d)) [0..<nat (totalDisplayLines lv)]) = wrap_total lv"
proof -
  define n where "n = nat (lineCount lv)"
  define g where "g k = wrapHeight (WidthGet (lv_buffer lv)
      (if filtering lv then filteredIndices lv ! k - filteredIndexOffset lv else int k)) v" for k
  have g: "sum_list (map g [0..<n]) + (if hasIndicator lv then 1 else 0) = wrap_total lv"
  proof (cases "filtering lv")
    case True
    have "map g [0..<n] = map (\<lambda>idx. wrapHeight (WidthGet (lv_buffer lv) (idx - filteredIndexOffset lv)) v) (filteredIndices lv)"
      using True by (intro nth_equalityI) (simp_all add: g_def n_def lineCount_def)
    then show ?thesis using True by (simp add: wrap_total_def rows_sum_def v wrapHeight_width_pos)
  next
    case False
    then have "map g [0..<n] = map (\<lambda>i. wrapHeight (WidthGet (lv_buffer lv) (int i)) v) [0..<nat (rb_Len (lv_buffer lv))]"
      by (simp add: g_def n_def lineCount_def)
    then show ?thesis using False by (simp add: wrap_total_def rows_sum_def v wrapHeight_width_pos)
  qed
  have n0: "0 \<le> lineCount lv" using assms(1) by (rule lineCount_nonneg)
  show ?thesis
  proof (cases "hasIndicator lv")
    case True
    then have "nat (totalDisplayLines lv) = Suc n" using n0 by (simp add: totalDisplayLines_def n_def nat_add_distrib)
    moreover have "disp_height lv v (int (Suc k)) = g k" for k
      using True by (simp add: disp_height_def is_indicator_def disp_buf_idx_def g_def Let_def)
    moreover have "disp_height lv v 0 = 1" using True by (simp add: disp_height_def is_indicator_def)
    ultimately have "sum_list (map (\<lambda>d. disp_height lv v (int d)) [0..<nat (totalDisplayLines lv)]) = 1 + sum_list (map g [0..<n])"
      by (simp add: upt_conv_Cons map_Suc_upt [symmetric] comp_def del: upt_Suc of_nat_Suc)
    then show ?thesis using g True by simp
  next
    case False
    then have "disp_height lv v (int k) = g k" for k
      by (simp add: disp_height_def is_indicator_def disp_buf_idx_def g_def Let_def)
    then show ?thesis using g False by (simp add: totalDisplayLines_def n_def)
  qed
qed

section \<open>The wrapped view shows the window of all rows\<close>

definition heights_exact :: "text_api \<Rightarrow> log_view \<Rightarrow> int \<Rightarrow> bool" where
  "heights_exact A lv v \<longleftrightarrow> (\<forall>di < nat (totalDisplayLines lv). wrap_exact A lv v di \<and>
     disp_height lv v (int di) = wrapHeight (wrapped_width lv (int di)) v)"

lemma yoffset_frame1 [simp]:
  "is_indicator (lv\<lparr> wrapYOffset := y \<rparr>) = is_indicator lv"
  "disp_buf_idx (lv\<lparr> wrapYOffset := y \<rparr>) = disp_buf_idx lv"
  "indicator_text (lv\<lparr> wrapYOffset := y \<rparr>) = indicator_text lv"
  by (simp_all add: is_indicator_def [abs_def] disp_buf_idx_def [abs_def] indicator_text_def
      Let_def cong: if_cong split del: if_split)

lemma yoffset_frame [simp]:
  "totalDisplayLines (lv\<lparr> wrapYOffset := y \<rparr>) = totalDisplayLines lv"
  "disp_height (lv\<lparr> wrapYOffset := y \<rparr>) v = disp_height lv v"
  "wrapped_width (lv\<lparr> wrapYOffset := y \<rparr>) = wrapped_width lv"
  "wrapped_line A (lv\<lparr> wrapYOffset := y \<rparr>) = wrapped_line A lv"
  by (simp_all add: totalDisplayLines_def lineCount_def disp_height_def [abs_def]
      wrapped_width_def [abs_def] wrapped_line_def [abs_def] Let_def cong: if_cong split del: if_split)

lemma length_all_rows:
  assumes "0 < v" and "0 < h" and "\<forall>d\<in>set dis. wrap_exact A lv v d \<and>
      disp_height lv v (int d) = wrapHeight (wrapped_width lv (int d)) v"
  shows "int (length (all_rows A lv v h dis)) = sum_list (map (\<lambda>d. disp_height lv v (int d)) dis)"
  using assms(3) by (induction dis) (simp_all add: all_rows_def length_line_rows [OF assms(1,2)])

lemma all_rows_append: "all_rows A lv v h (xs @ ys) = all_rows A lv v h xs @ all_rows A lv v h ys"
  by (simp add: all_rows_def)

lemma wrapped_rows:
  assumes v: "0 < v" and h: "0 < h" and ex: "heights_exact A lv v" and y: "0 \<le> y"
    and ylt: "y < sum_list (map (\<lambda>d. disp_height lv v (int d)) [0..<nat (totalDisplayLines lv)]) \<or>
              nat (totalDisplayLines lv) = 0"
    and ff: "find_first (disp_height lv v) y 0 [0..<nat (totalDisplayLines lv)] = (f, vo)"
  shows "fst (build_rows A (wrapPrefix A) lv v h f vo (drop (nat f) [0..<nat (totalDisplayLines lv)]) ([], [])) =
         take (nat h) (drop (nat y) (all_rows A lv v h [0..<nat (totalDisplayLines lv)]))"
proof (cases "nat (totalDisplayLines lv) = 0")
  case True
  then show ?thesis by (simp add: all_rows_def)
next
  case False
  let ?n = "nat (totalDisplayLines lv)"
  obtain i where io: "f = int i" "i < ?n" "0 \<le> vo" "vo < disp_height lv v (int i)"
      "y = sum_list (map (\<lambda>d. disp_height lv v (int d)) [0..<i]) + vo"
    using find_first_correct [of "disp_height lv v" 0 y 0 ?n] disp_height_pos ff y ylt False by auto
  have split: "[0..<?n] = [0..<i] @ i # [Suc i..<?n]"
    using io(2) upt_add_eq_append [of 0 i "?n - i"] by (simp add: upt_conv_Cons)
  have ext: "wrap_exact A lv v d" "disp_height lv v (int d) = wrapHeight (wrapped_width lv (int d)) v"
    if "d < ?n" for d using ex that by (simp_all add: heights_exact_def)
  have len: "int (length (all_rows A lv v h [0..<i])) = y - vo"
    using length_all_rows [OF v h, of "[0..<i]" A lv] ext io(2,5) by simp
  have "fst (build_rows A (wrapPrefix A) lv v h (int i) vo (i # [Suc i..<?n]) ([], [])) =
      take (nat h) (drop (nat vo) (all_rows A lv v h (i # [Suc i..<?n])))"
    by (rule build_rows_window [OF v h]) (use io ext in auto)
  moreover have "drop (nat f) [0..<?n] = i # [Suc i..<?n]"
    using io(1,2) unfolding split by simp
  moreover have "drop (nat y) (all_rows A lv v h [0..<?n]) = drop (nat vo) (all_rows A lv v h (i # [Suc i..<?n]))"
  proof -
    have "nat y = length (all_rows A lv v h [0..<i]) + nat vo" using len io(3) y by linarith
    then show ?thesis unfolding split all_rows_append by simp
  qed
  ultimately show ?thesis by (simp add: io(1))
qed

lemma updateViewportWrapped_shows:
  assumes wf: "lv_wf lv" and sw: "lv_softWrap lv" and h: "1 \<le> viewportHeight lv"
    and v: "v = (if vp_width (logVP lv) \<le> 0 then 1 else vp_width (logVP lv))"
    and ex: "heights_exact A lv v"
  shows "\<exists>lv'. updateViewportWrapped A lv = Inr lv' \<and> wrapYOffset lv' = clamp_wrapYOffset lv \<and>
    vp_lines (logVP lv') = take (nat (viewportHeight lv)) (drop (nat (wrapYOffset lv'))
      (all_rows A lv v (viewportHeight lv) [0..<nat (totalDisplayLines lv)]))"
proof -
  let ?y = "clamp_wrapYOffset lv" and ?h = "viewportHeight lv"
  let ?lv = "lv\<lparr> wrapYOffset := ?y \<rparr>"
  have rb: "rb_wf (lv_buffer lv)" using wf by (simp add: lv_wf_def)
  have vpos: "0 < v" by (simp add: v)
  have sum: "sum_list (map (\<lambda>d. disp_height lv v (int d)) [0..<nat (totalDisplayLines lv)]) = totalWrappedRows lv"
    using sum_disp_height [OF rb v] wf sw by (simp add: lv_wf_def wrap_wf_def)
  have pos: "0 < totalWrappedRows lv" if "nat (totalDisplayLines lv) \<noteq> 0"
  proof -
    have "int (length ds) \<le> sum_list (map (\<lambda>d. disp_height lv v (int d)) ds)" for ds
      using disp_height_pos [of lv v] by (induction ds) (auto intro: add_mono)
    from this [of "[0..<nat (totalDisplayLines lv)]"] that sum show ?thesis by simp
  qed
  have y: "0 \<le> ?y" "?y \<le> max (totalWrappedRows lv - ?h) 0"
    by (auto simp: clamp_wrapYOffset_def Let_def)
  have ylt: "?y < totalWrappedRows lv \<or> nat (totalDisplayLines lv) = 0"
    using y pos h by (auto simp: max_def split: if_splits)
  have ex': "heights_exact A ?lv v" using ex by (simp add: heights_exact_def wrap_exact_def)
  obtain f vo where ff: "find_first (disp_height lv v) ?y 0 [0..<nat (totalDisplayLines lv)] = (f, vo)" by fastforce
  obtain rs ws where br: "build_rows A (wrapPrefix A) ?lv v ?h f vo
      (drop (nat f) [0..<nat (totalDisplayLines lv)]) ([], []) = (rs, ws)" by fastforce
  have ar: "all_rows A ?lv v ?h = all_rows A lv v ?h"
    by (simp add: all_rows_def [abs_def] line_rows_def [abs_def] row_block_def)
  have rs: "rs = take (nat ?h) (drop (nat ?y) (all_rows A lv v ?h [0..<nat (totalDisplayLines lv)]))"
    using wrapped_rows [OF vpos _ ex' y(1), of ?h f vo] h sum ylt ff br by (simp add: ar)
  then have "int (length rs) \<le> ?h" using h by simp
  then have "updateViewportWrapped A lv = Inr (?lv\<lparr> logVP := SetLines rs ws (logVP lv) \<rparr>)"
    using ff br by (simp add: updateViewportWrapped_def Let_def v)
  then show ?thesis using rs by simp
qed

end
