(* ===== verification/Log_View_Total.thy ===== *)
theory Log_View_Total
  imports Log_View_Wrapped
begin

text \<open>
  The log panel does not panic: an operation on a well-formed panel returns when the panel has
  at least one row after it, the selected match exists, and no line is evicted while a search
  is active. The last condition is needed: see \<open>log_search_eviction_panics\<close>.
\<close>

section \<open>States that can be drawn\<close>

definition drawable :: "log_view \<Rightarrow> bool" where
  "drawable lv \<longleftrightarrow> rb_wf (lv_buffer lv) \<and> sorted (map mp_line (matchPositions lv)) \<and>
     selection_ok lv \<and> 1 \<le> viewportHeight lv"

lemma drawable_wf: "lv_wf lv \<Longrightarrow> selection_ok lv \<Longrightarrow> 1 \<le> viewportHeight lv \<Longrightarrow> drawable lv"
  by (simp add: drawable_def lv_wf_defs search_ok_def positions_ok_def)

lemma drawable_frame [simp]:
  "drawable (lv\<lparr> scrollOffset := s \<rparr>) = drawable lv" "drawable (lv\<lparr> wrapYOffset := s \<rparr>) = drawable lv"
  "drawable (lv\<lparr> autoscroll := b \<rparr>) = drawable lv" "drawable (lv\<lparr> totalWrappedRows := s \<rparr>) = drawable lv"
  "drawable (lv\<lparr> logVP := v \<rparr>) = drawable lv" "drawable (lv\<lparr> lv_softWrap := b \<rparr>) = drawable lv"
  "drawable (lv\<lparr> filteredIndices := is \<rparr>) = drawable lv"
  "drawable (lv\<lparr> filteredIndexOffset := s \<rparr>) = drawable lv"
  "drawable (lv\<lparr> lv_filterState := fs \<rparr>) = drawable lv" "drawable (lv\<lparr> pipeline := p \<rparr>) = drawable lv"
  "drawable (lv\<lparr> lv_width := s \<rparr>) = drawable lv"
  by (simp_all add: drawable_def selection_ok_def viewportHeight_def)

lemma drawable_redraw [simp]: "drawable (redraw lv lv') = drawable lv"
  by (simp add: redraw_def)

lemma drawable_snap [simp]: "drawable (snap_to_end lv) = drawable lv"
  by (simp add: snap_to_end_def)

lemma drawable_recompute [simp]: "drawable (recomputeTotalWrappedRows lv) = drawable lv"
  by (simp add: recompute_eq)

lemma drawable_dests:
  "drawable lv \<Longrightarrow> selection_ok lv" "drawable lv \<Longrightarrow> 1 \<le> viewportHeight lv"
  by (simp_all add: drawable_def)

lemma draw_wrapped:
  "drawable lv \<Longrightarrow> \<exists>lv'. updateViewportWrapped A lv = Inr lv' \<and> drawable lv'"
  using updateViewportWrapped_total [of lv A] updateViewportWrapped_frame [of A lv]
    drawable_dests [of lv] by (metis drawable_redraw order_trans zero_le_one)

lemma draw: "drawable lv \<Longrightarrow> \<exists>lv'. updateViewport A lv = Inr lv' \<and> drawable lv'"
proof (cases "lv_softWrap lv")
  case False
  assume d: "drawable lv"
  then obtain lv' where "updateViewport_plain A lv = Inr lv'"
    using updateViewport_plain_total [of lv A] by (auto simp: drawable_def)
  moreover from this have "drawable lv'" using updateViewport_plain_frame d by (metis drawable_redraw)
  ultimately show ?thesis using False by (simp add: updateViewport_def)
qed (simp add: updateViewport_def draw_wrapped)

lemma draw_if:
  "drawable lv \<Longrightarrow> drawable lv1 \<Longrightarrow> \<exists>lv'. updateViewport A (if b then lv else lv1) = Inr lv' \<and> drawable lv'"
  using draw by simp

lemma draw_append: "drawable lv \<Longrightarrow> \<exists>lv'. finish_append A lv = Inr lv' \<and> drawable lv'"
  by (simp add: finish_append_def draw)

section \<open>Appending\<close>

lemma height_frame [simp]:
  "viewportHeight (append_search A e lv) = viewportHeight lv"
  "viewportHeight (rebuildMatchPositions A lv) = viewportHeight lv"
  "viewportHeight (recomputeTotalWrappedRows lv) = viewportHeight lv"
  "viewportHeight (appended_filtered m r c s w lv) = viewportHeight lv"
  "viewportHeight (appended r c s w lv) = viewportHeight lv"
  by (simp_all add: append_search_def rebuildMatchPositions_def recompute_eq appended_filtered_eq
      appended_def track_wrapped_def viewportHeight_def Let_def)

lemma height_matchIndex [simp]:
  "viewportHeight (lv\<lparr> matchIndex := i \<rparr>) = viewportHeight lv"
  "viewportHeight (lv\<lparr> lv_buffer := d \<rparr>) = viewportHeight lv"
  "viewportHeight (lv\<lparr> filteredIndices := is \<rparr>) = viewportHeight lv"
  "viewportHeight (lv\<lparr> lv_filterState := fs \<rparr>) = viewportHeight lv"
  "viewportHeight (lv\<lparr> lv_searchState := fs \<rparr>) = viewportHeight lv"
  "viewportHeight (lv\<lparr> lv_width := i \<rparr>) = viewportHeight lv"
  "viewportHeight (lv\<lparr> matchPositions := ps \<rparr>) = viewportHeight lv"
  by (simp_all add: viewportHeight_def)

lemma appended_search_fields [simp]:
  "matchPositions (appended r c s w lv) = matchPositions lv"
  "lv_searchState (appended r c s w lv) = lv_searchState lv"
  "matchIndex (appended r c s w lv) = matchIndex lv"
  "matchIndex (appended_filtered m r c s w lv) = matchIndex lv"
  by (simp_all add: appended_def track_wrapped_def appended_filtered_eq Let_def)

lemma recompute_search_fields [simp]:
  "matchPositions (recomputeTotalWrappedRows lv) = matchPositions lv"
  "lv_searchState (recomputeTotalWrappedRows lv) = lv_searchState lv"
  "matchIndex (recomputeTotalWrappedRows lv) = matchIndex lv"
  by (simp_all add: recompute_eq)

lemma selection_append_search:
  "selection_ok lv \<Longrightarrow> \<not> (e \<and> ss_Active (lv_searchState lv)) \<Longrightarrow> selection_ok (append_search A e lv)"
  by (auto simp: append_search_def selection_ok_def Let_def)

text \<open>An eviction under an active search may drop matches below the selected one.\<close>

definition evicts_match :: "log_view \<Rightarrow> bool" where
  "evicts_match lv \<longleftrightarrow> buf_full lv \<and> ss_Active (lv_searchState lv)"

lemma AppendLine_total:
  assumes wf: "lv_wf lv" and sel: "selection_ok lv" and h: "1 \<le> viewportHeight lv" and ne: "\<not> evicts_match lv"
  shows "\<exists>lv'. AppendLine A line lv = Inr lv' \<and> selection_ok lv'"
proof (cases "append_skips line lv")
  case True
  then show ?thesis using sel by (simp add: AppendLine_draws selection_ok_def)
next
  case False
  have "selection_ok (append_pre A line lv)"
    unfolding append_pre_def Let_def
    by (rule selection_append_search) (use sel ne in \<open>auto simp: selection_ok_def evicts_match_def\<close>)
  moreover have "viewportHeight (append_pre A line lv) = viewportHeight lv"
    by (simp add: append_pre_def Let_def)
  ultimately have "drawable (append_pre A line lv)"
    using append_pre_wf [OF wf False, of A] h by (intro drawable_wf) simp_all
  then show ?thesis using False draw_append drawable_dests by (fastforce simp: AppendLine_draws)
qed

lemma InsertMarker_total:
  assumes wf: "lv_wf lv" and sel: "selection_ok lv" and h: "1 \<le> viewportHeight lv" and ne: "\<not> evicts_match lv"
  shows "\<exists>lv'. InsertMarker A mr clock lv = Inr lv' \<and> selection_ok lv'"
proof -
  have "selection_ok (marker_pre A mr clock lv)"
    using sel ne by (auto simp: marker_pre_def Let_def selection_ok_def evicts_match_def)
  moreover have "viewportHeight (marker_pre A mr clock lv) = viewportHeight lv"
    by (simp add: marker_pre_def Let_def)
  ultimately have "drawable (marker_pre A mr clock lv)"
    using marker_pre_wf [OF wf, of A mr clock] h by (intro drawable_wf) simp_all
  then show ?thesis using draw_append drawable_dests by (fastforce simp: InsertMarker_draws)
qed

section \<open>The other operations\<close>

lemma rebuild_total:
  assumes rb: "rb_wf (lv_buffer lv)" and h: "1 \<le> viewportHeight lv"
  shows "\<exists>lv'. rebuildViewportContent A lv = Inr lv' \<and> drawable lv'"
proof -
  define lv1 where "lv1 = rebuildMatchPositions A (lv\<lparr> matchIndex := -1 \<rparr>)"
  define lv2 where "lv2 = (if matchPositions lv1 \<noteq> [] then lv1\<lparr> matchIndex := 0 \<rparr> else lv1)"
  have b: "lv_buffer lv1 = lv_buffer lv" "matchIndex lv1 = -1"
    unfolding lv1_def by (subst rebuildMatchPositions_frame, simp)+
  have hh: "viewportHeight lv1 = viewportHeight lv" "viewportHeight lv2 = viewportHeight lv1"
    by (simp_all add: lv1_def lv2_def)
  have "sorted (map mp_line (matchPositions lv1))"
    using rebuild_positions_ok [of "lv\<lparr> matchIndex := -1 \<rparr>" A] rb by (simp add: lv1_def positions_ok_def)
  then have d: "drawable lv2"
    using rb h b hh by (simp add: drawable_def lv2_def selection_ok_def less_max_iff_disj)
  show ?thesis
    unfolding rebuildViewportContent_def Let_def lv1_def [symmetric] lv2_def [symmetric]
    by (rule draw) (use d in simp)
qed

lemma ensure_total:
  assumes "drawable lv"
  shows "\<exists>lv'. ensureMatchVisible A lv = Inr lv' \<and> drawable lv'"
proof (cases "matchIndex lv < 0 \<or> matchIndex lv \<ge> int (length (matchPositions lv)) \<or> \<not> lv_softWrap lv")
  case True
  then show ?thesis using assms by (auto simp: ensureMatchVisible_def Let_def)
next
  case False
  then show ?thesis
    using assms by (auto simp: ensureMatchVisible_def Let_def intro!: draw_wrapped)
qed

lemma then_draw:
  "\<exists>lv1. r = Inr lv1 \<and> drawable lv1 \<Longrightarrow> \<exists>lv'. go_bind r (updateViewport A) = Inr lv' \<and> drawable lv'"
  using draw by fastforce

lemma drawable_matchIndex: "drawable lv \<Longrightarrow> i < int (length (matchPositions lv)) \<Longrightarrow> drawable (lv\<lparr> matchIndex := i \<rparr>)"
  by (auto simp: drawable_def selection_ok_def viewportHeight_def)

lemma Search_total:
  assumes wf: "lv_wf lv" and d: "drawable lv"
  shows "\<exists>lv'. SearchNext A lv = Inr lv' \<and> drawable lv'" and "\<exists>lv'. SearchPrev A lv = Inr lv' \<and> drawable lv'"
proof -
  have mi: "0 \<le> matchIndex lv + 1" using wf by (simp add: lv_wf_defs search_ok_def)
  have nx: "matchPositions lv \<noteq> [] \<Longrightarrow> go_rem (matchIndex lv + 1) (int (length (matchPositions lv))) < int (length (matchPositions lv))"
    using mi by simp
  show "\<exists>lv'. SearchNext A lv = Inr lv' \<and> drawable lv'"
    using d unfolding SearchNext_def
    by (cases "matchPositions lv = []")
      (simp_all add: then_draw ensure_total drawable_matchIndex nx del: go_rem_nonneg go_bind_eq_Inr)
  have sel: "ss_Active (lv_searchState lv) \<Longrightarrow> matchPositions lv \<noteq> [] \<Longrightarrow>
      matchIndex lv - 1 < int (length (matchPositions lv))"
    using d by (cases "matchPositions lv") (auto simp: drawable_def selection_ok_def)
  show "\<exists>lv'. SearchPrev A lv = Inr lv' \<and> drawable lv'"
    using d sel unfolding SearchPrev_def Let_def
    by (cases "matchPositions lv = []")
      (simp_all add: then_draw ensure_total drawable_matchIndex del: go_bind_eq_Inr)
qed

text \<open>The panel has at least one row when the operation draws it.\<close>

definition op_fits :: "log_op \<Rightarrow> log_view \<Rightarrow> bool" where
  "op_fits op lv = (case op of
       OpSize w h \<Rightarrow> 1 \<le> viewportHeight (lv\<lparr> lv_height := h \<rparr>)
     | OpHeader \<Rightarrow> 1 \<le> viewportHeight (lv\<lparr> lv_showHeader := \<not> lv_showHeader lv \<rparr>)
     | _ \<Rightarrow> 1 \<le> viewportHeight lv)"

definition op_appends :: "log_op \<Rightarrow> bool" where
  "op_appends op = (case op of OpAppend _ \<Rightarrow> True | OpMarker _ \<Rightarrow> True | _ \<Rightarrow> False)"

lemma recolor_drawable:
  "drawable lv \<Longrightarrow> drawable (lv\<lparr> lv_buffer := fold (recolor A lv') is (lv_buffer lv) \<rparr>)"
  using recolor_wf [of "lv_buffer lv" A lv' "is"] by (simp add: drawable_def selection_ok_def)

lemma SetSize_total:
  assumes "lv_wf lv" and "selection_ok lv" and "1 \<le> viewportHeight (lv\<lparr> lv_height := h \<rparr>)"
  shows "\<exists>lv'. lv_SetSize A w h lv = Inr lv' \<and> drawable lv'"
proof -
  have "viewportHeight (lv\<lparr> lv_width := w, lv_height := h \<rparr>) = viewportHeight (lv\<lparr> lv_height := h \<rparr>)"
    by (simp add: viewportHeight_def)
  then have "drawable (lv\<lparr> lv_width := w, lv_height := h \<rparr>)"
    using assms by (intro drawable_wf) (simp_all add: selection_ok_def)
  then show ?thesis unfolding lv_SetSize_def Let_def by (intro draw) simp
qed

lemma ToggleSyntax_total:
  assumes "drawable lv"
  shows "\<exists>lv'. ToggleSyntax A dp lv = Inr lv' \<and> drawable lv'"
proof -
  define lv1 where "lv1 = lv\<lparr> pipeline := (if pipeline lv \<noteq> None then None else Some dp) \<rparr>"
  define lv2 where "lv2 = lv1\<lparr> lv_buffer := fold (recolor A lv1) [0..<nat (rb_Len (lv_buffer lv1))] (lv_buffer lv1) \<rparr>"
  define lv3 where "lv3 = (if lv_softWrap lv2 then recomputeTotalWrappedRows lv2 else lv2)"
  have "drawable lv1" using assms by (simp add: lv1_def)
  then have "drawable lv2" unfolding lv2_def by (rule recolor_drawable)
  then have d: "drawable lv3" by (simp add: lv3_def)
  then have "\<exists>lv'. rebuildViewportContent A lv3 = Inr lv' \<and> drawable lv'"
    by (intro rebuild_total) (simp_all add: drawable_def)
  then show ?thesis using d
    unfolding ToggleSyntax_def Let_def lv1_def [symmetric] lv2_def [symmetric] lv3_def [symmetric]
    by (simp add: draw)
qed

lemma ApplySearch_total:
  assumes "lv_wf lv" and "1 \<le> viewportHeight lv" and "selection_ok lv"
  shows "\<exists>r. ApplySearch A p m lv = Inr r \<and> (\<forall>lv'. r = Inr lv' \<longrightarrow> selection_ok lv')"
proof -
  have "\<exists>lv'. rebuildViewportContent A (lv\<lparr> lv_filterState := fs, filteredIndices := is \<rparr>) = Inr lv' \<and> drawable lv'" for fs "is"
    using assms by (intro rebuild_total) (simp_all add: lv_wf_def)
  moreover have "\<exists>lv'. rebuildViewportContent A (lv\<lparr> lv_searchState := s \<rparr>) = Inr lv' \<and> drawable lv'" for s
    using assms by (intro rebuild_total) (simp_all add: lv_wf_def)
  ultimately show ?thesis
    unfolding ApplySearch_def Let_def
    by (fastforce split: sum.splits dest: drawable_dests)
qed

lemma scroll_total:
  assumes d: "drawable lv"
  shows "\<exists>lv'. scroll_up_by A n lv = Inr lv' \<and> drawable lv'" and "\<exists>lv'. scroll_down_by A n lv = Inr lv' \<and> drawable lv'"
proof -
  show "\<exists>lv'. scroll_up_by A n lv = Inr lv' \<and> drawable lv'"
    using d by (auto simp: scroll_up_by_def Let_def intro!: draw draw_wrapped)
  have "\<exists>lv'. updateViewportWrapped A (lv\<lparr> wrapYOffset := wrapYOffset lv + n \<rparr>) = Inr lv' \<and> drawable lv'"
    using d by (intro draw_wrapped) simp
  then obtain lv' where "updateViewportWrapped A (lv\<lparr> wrapYOffset := wrapYOffset lv + n \<rparr>) = Inr lv'"
    and "drawable lv'" by blast
  then show "\<exists>lv'. scroll_down_by A n lv = Inr lv' \<and> drawable lv'"
    using d by (cases "lv_softWrap lv") (simp_all add: scroll_down_by_def Let_def draw del: go_bind_eq_Inr)
qed

lemma more_total:
  assumes "lv_wf lv" and d: "drawable lv"
  shows "\<exists>lv'. ClearSearch A lv = Inr lv' \<and> drawable lv'" and "\<exists>lv'. ClearFilter A lv = Inr lv' \<and> drawable lv'"
    and "\<exists>lv'. ToggleAutoscroll A lv = Inr lv' \<and> drawable lv'" and "\<exists>lv'. ToggleWrap A lv = Inr lv' \<and> drawable lv'"
    and "\<exists>lv'. lv_GotoTop A lv = Inr lv' \<and> drawable lv'" and "\<exists>lv'. lv_GotoBottom A lv = Inr lv' \<and> drawable lv'"
proof -
  have "drawable (lv\<lparr> lv_searchState := ss_Clear (lv_searchState lv), matchPositions := [], matchIndex := -1 \<rparr>)"
    using d by (simp add: drawable_def selection_ok_def)
  then show "\<exists>lv'. ClearSearch A lv = Inr lv' \<and> drawable lv'" unfolding ClearSearch_def by (rule draw)
  show "\<exists>lv'. ClearFilter A lv = Inr lv' \<and> drawable lv'" unfolding ClearFilter_def Let_def by (rule draw) (use d in simp)
  show "\<exists>lv'. ToggleAutoscroll A lv = Inr lv' \<and> drawable lv'"
    using d by (auto simp: ToggleAutoscroll_def Let_def intro!: draw draw_wrapped)
  show "\<exists>lv'. ToggleWrap A lv = Inr lv' \<and> drawable lv'" unfolding ToggleWrap_def Let_def by (rule draw) (use d in simp)
  show "\<exists>lv'. lv_GotoTop A lv = Inr lv' \<and> drawable lv'"
    using d by (auto simp: lv_GotoTop_def intro!: draw draw_wrapped)
  show "\<exists>lv'. lv_GotoBottom A lv = Inr lv' \<and> drawable lv'"
    using d by (auto simp: lv_GotoBottom_def intro!: draw draw_wrapped)
qed

lemma selection_misc [simp]:
  "selection_ok (lv_SetBorderless b lv) = selection_ok lv" "selection_ok (lv_Focus lv) = selection_ok lv"
  "selection_ok (lv_Blur lv) = selection_ok lv" "selection_ok (lv_ScrollHome lv) = selection_ok lv"
  "selection_ok (lv_ScrollEnd lv) = selection_ok lv" "selection_ok (lv_ScrollLeft lv) = selection_ok lv"
  "selection_ok (lv_ScrollRight lv) = selection_ok lv" "selection_ok (ClearAndRestart lv)"
  "selection_ok (SetUnavailable b lv) = selection_ok lv"
  "selection_ok (lv_SetNamespace s (SetPodName n lv)) = selection_ok lv"
  "selection_ok (SetContainers cs lv) = selection_ok lv"
  "selection_ok (SetActiveContainer n lv) = selection_ok lv"
  "selection_ok (SetTimeRangeLabel n lv) = selection_ok lv"
  "selection_ok (lv_SetInlineSearch n lv) = selection_ok lv"
  by (simp_all add: selection_ok_def lv_SetBorderless_def lv_Focus_def lv_Blur_def lv_ScrollHome_def
      lv_ScrollEnd_def lv_ScrollLeft_def lv_ScrollRight_def set_xOffset_def ClearAndRestart_def
      SetUnavailable_def lv_SetNamespace_def SetPodName_def SetContainers_def SetActiveContainer_def
      SetTimeRangeLabel_def lv_SetInlineSearch_def Let_def)

lemma drawn_selected: "\<exists>lv'. r = Inr lv' \<and> drawable lv' \<Longrightarrow> \<exists>lv'. r = Inr lv' \<and> selection_ok lv'"
  using drawable_dests(1) by blast

lemma lv_Update_total:
  "drawable lv \<Longrightarrow> \<exists>lv'. lv_Update A b lv = Inr lv' \<and> selection_ok lv'"
  by (cases b) (auto simp: lv_Update_def lv_ScrollUp_def lv_ScrollDown_def drawable_dests
      intro!: drawn_selected scroll_total)

lemma lv_exec_total:
  assumes wf: "lv_wf lv" and sel: "selection_ok lv" and fits: "op_fits op lv"
    and ne: "op_appends op \<Longrightarrow> \<not> evicts_match lv"
  shows "\<exists>lv'. lv_exec E op lv = Inr lv' \<and> lv_wf lv' \<and> selection_ok lv'"
proof -
  have d: "drawable lv" if "1 \<le> viewportHeight lv" using wf sel that by (rule drawable_wf)
  have "\<exists>lv'. lv_exec E op lv = Inr lv' \<and> selection_ok lv'"
  proof (cases op)
    case (OpAppend l)
    then show ?thesis using AppendLine_total [OF wf sel] fits ne
      by (simp add: lv_exec_def op_fits_def op_appends_def)
  next
    case (OpMarker c)
    then show ?thesis using InsertMarker_total [OF wf sel] fits ne
      by (simp add: lv_exec_def op_fits_def op_appends_def)
  next
    case (OpApply p m)
    then obtain r where "ApplySearch (env_text E) p m lv = Inr r" "\<forall>lv'. r = Inr lv' \<longrightarrow> selection_ok lv'"
      using ApplySearch_total [OF wf _ sel, of "env_text E" p m] fits by (auto simp: op_fits_def)
    then show ?thesis using OpApply sel by (cases r) (simp_all add: lv_exec_def)
  next
    case (OpSize w h)
    then show ?thesis using SetSize_total [OF wf sel] fits
      by (auto simp: lv_exec_def op_fits_def intro!: drawn_selected)
  next
    case OpHeader
    let ?l = "lv\<lparr> lv_showHeader := \<not> lv_showHeader lv \<rparr>"
    have "viewportHeight (?l\<lparr> lv_height := lv_height lv \<rparr>) = viewportHeight ?l" by (simp add: viewportHeight_def)
    moreover have "selection_ok ?l" using sel by (simp add: selection_ok_def)
    moreover have "1 \<le> viewportHeight ?l" using fits OpHeader by (simp add: op_fits_def)
    ultimately have "\<exists>lv'. lv_SetSize (env_text E) (lv_width lv) (lv_height lv) ?l = Inr lv' \<and> drawable lv'"
      using SetSize_total [of ?l "lv_height lv"] wf by simp
    then show ?thesis using OpHeader by (simp add: lv_exec_def lv_ToggleHeader_def Let_def drawn_selected)
  qed (use d fits sel in \<open>auto simp: lv_exec_def op_fits_def lv_PageUp_def lv_PageDown_def
      intro: drawn_selected scroll_total more_total [OF wf] Search_total [OF wf] lv_Update_total
        ToggleSyntax_total\<close>)
  then show ?thesis using lv_exec_wf wf by blast
qed

end
