(* ===== verification/Log_View_Filter.thy ===== *)
theory Log_View_Filter
  imports Log_View_Total
begin

text \<open>
  The filter of the log panel is exact: as lines arrive, are evicted and are recoloured, the
  filtered view lists precisely the buffered lines the expression matches and the markers.
\<close>

section \<open>The lines a filter keeps\<close>

fun kept :: "int \<Rightarrow> ('a \<Rightarrow> bool) \<Rightarrow> 'a list \<Rightarrow> int list" where
  "kept off P [] = []"
| "kept off P (x # xs) = (if P x then [off] else []) @ kept (off + 1) P xs"

lemma kept_append: "kept off P (xs @ [x]) = kept off P xs @ (if P x then [off + int (length xs)] else [])"
  by (induction xs arbitrary: off) (auto simp: algebra_simps)

lemma kept_map: "kept off P (map f xs) = kept off (\<lambda>x. P (f x)) xs"
  by (induction xs arbitrary: off) auto

lemma kept_ge: "i \<in> set (kept off P xs) \<Longrightarrow> off \<le> i"
  by (induction xs arbitrary: off) (force split: if_splits)+

lemma trim_kept: "xs \<noteq> [] \<Longrightarrow> trim_indices (off + 1) (kept off P xs) = kept (off + 1) P (tl xs)"
proof (cases xs)
  case (Cons x ys)
  have "trim_indices (off + 1) (kept (off + 1) P ys) = kept (off + 1) P ys"
    using kept_ge [of "hd (kept (off + 1) P ys)" "off + 1" P ys]
    by (auto simp: trim_indices_def dropWhile_eq_self_iff)
  then show ?thesis by (simp add: Cons trim_indices_def)
qed simp

lemma kept_filter:
  "kept off P xs = map (\<lambda>i. off + int i) (filter (\<lambda>i. P (xs ! i)) [0..<length xs])"
proof (induction xs rule: rev_induct)
  case (snoc x xs)
  have "filter (\<lambda>i. P ((xs @ [x]) ! i)) [0..<length xs] = filter (\<lambda>i. P (xs ! i)) [0..<length xs]"
    by (rule filter_cong) (auto simp: nth_append)
  then show ?case using snoc by (simp add: kept_append)
qed simp

lemma map_kept: "map (\<lambda>i. xs ! nat (i - off)) (kept off P xs) = filter P xs"
proof -
  have "map (\<lambda>i. xs ! i) (filter (\<lambda>i. P (xs ! i)) [0..<length xs]) = filter P (map (\<lambda>i. xs ! i) [0..<length xs])"
    by (simp add: filter_map comp_def)
  then show ?thesis by (simp add: kept_filter comp_def map_nth)
qed

section \<open>The invariant\<close>

definition raws :: "log_view \<Rightarrow> string list" where
  "raws lv = map fst (entries_of (lv_buffer lv))"

definition filter_exact :: "log_view \<Rightarrow> bool" where
  "filter_exact lv \<longleftrightarrow> (filtering lv \<longrightarrow>
     filteredIndices lv = kept (filteredIndexOffset lv) (line_kept (lv_filterState lv)) (raws lv))"

type_synonym filter_key = "string list \<times> search_state \<times> int list \<times> int"

definition fkey :: "log_view \<Rightarrow> filter_key" where
  "fkey lv = (raws lv, lv_filterState lv, filteredIndices lv, filteredIndexOffset lv)"

lemma filter_exact_fkey: "fkey lv' = fkey lv \<Longrightarrow> filter_exact lv' = filter_exact lv"
  by (simp add: fkey_def filter_exact_def)

text \<open>Everything but appending, filtering and restarting leaves the key alone.\<close>

lemma fkey_frame [simp]:
  "fkey (lv\<lparr> scrollOffset := s \<rparr>) = fkey lv" "fkey (lv\<lparr> wrapYOffset := s \<rparr>) = fkey lv"
  "fkey (lv\<lparr> autoscroll := b \<rparr>) = fkey lv" "fkey (lv\<lparr> totalWrappedRows := s \<rparr>) = fkey lv"
  "fkey (lv\<lparr> logVP := v \<rparr>) = fkey lv" "fkey (lv\<lparr> lv_softWrap := b \<rparr>) = fkey lv"
  "fkey (lv\<lparr> pipeline := p \<rparr>) = fkey lv" "fkey (lv\<lparr> lv_width := s \<rparr>) = fkey lv"
  "fkey (lv\<lparr> lv_height := s \<rparr>) = fkey lv" "fkey (lv\<lparr> matchIndex := s \<rparr>) = fkey lv"
  "fkey (lv\<lparr> matchPositions := ps \<rparr>) = fkey lv" "fkey (lv\<lparr> lv_searchState := ss \<rparr>) = fkey lv"
  "fkey (lv\<lparr> lv_showHeader := b \<rparr>) = fkey lv"
  by (simp_all add: fkey_def raws_def)

lemma fkey_redraw [simp]: "fkey (redraw lv lv') = fkey lv"
  by (simp add: redraw_def)

lemma fkey_steps [simp]:
  "fkey (recomputeTotalWrappedRows lv) = fkey lv" "fkey (snap_to_end lv) = fkey lv"
  "fkey (rebuildMatchPositions A lv) = fkey lv" "fkey (append_search A e lv) = fkey lv"
  by (simp_all add: recompute_eq snap_to_end_def rebuildMatchPositions_def append_search_def Let_def)

lemma fkey_draw:
  "updateViewport A lv = Inr lv' \<Longrightarrow> fkey lv' = fkey lv"
  "updateViewportWrapped A lv = Inr lv' \<Longrightarrow> fkey lv' = fkey lv"
  by (metis updateViewport_frame fkey_redraw, metis updateViewportWrapped_frame fkey_redraw)

lemma fkey_rebuild: "rebuildViewportContent A lv = Inr lv' \<Longrightarrow> fkey lv' = fkey lv"
  by (auto simp: rebuildViewportContent_def Let_def dest!: fkey_draw(1) split: if_splits)

lemma fkey_finish: "finish_append A lv = Inr lv' \<Longrightarrow> fkey lv' = fkey lv"
  by (auto simp: finish_append_def dest!: fkey_draw(1) split: if_splits)

lemma fkey_recolor:
  assumes "rb_wf d" and "i < nat (rb_Len d)"
  shows "map fst (entries_of (recolor A lv i d)) = map fst (entries_of d)" (is "map fst (entries_of ?d') = _")
proof -
  let ?c = "highlight_line lv (RawGet d (int i))"
  let ?d1 = "SetColored (int i) ?c (StringWidth A ?c) d"
  have i: "0 \<le> int i" "int i < count d" using assms(2) by (auto simp: rb_Len_def)
  have e: "i < length (entries_of d)" and e': "i < length (entries_of ?d1)" using i by simp_all
  have r: "fst (entries_of d ! i) = RawGet d (int i)"
    using getters_entries [OF assms(1) i] by (metis fst_conv nat_int)
  have "map fst (entries_of ?d1) = map fst (entries_of d)"
    unfolding entries_Set(1) [OF assms(1) i] map_update using r e by (simp add: list_update_same_conv)
  moreover have "RawGet ?d1 (int i) = RawGet d (int i)" by (simp add: RawGet_def)
  moreover have "map fst (entries_of ?d') = (map fst (entries_of ?d1))[i := RawGet ?d1 (int i)]"
    using entries_Set(2) [OF rb_wf_SetColored [OF assms(1)], of "int i"] i
    by (simp add: recolor_def Let_def map_update)
  ultimately show ?thesis using e r by (simp add: list_update_same_conv)
qed

lemma fkey_recolor_all:
  "rb_wf d \<Longrightarrow> \<forall>i\<in>set is. i < nat (rb_Len d) \<Longrightarrow>
     map fst (entries_of (fold (recolor A lv) is d)) = map fst (entries_of d)"
proof (induction "is" arbitrary: d)
  case (Cons i "is")
  then show ?case
    using recolor_wf [of d A lv "[i]"] fkey_recolor [of d i A lv] by simp
qed simp

section \<open>Every operation keeps the filter exact\<close>

lemma raws_Append:
  assumes "rb_wf (lv_buffer lv)"
  shows "map fst (entries_of (rb_Append r c s w (lv_buffer lv))) =
    (if buf_full lv then tl (raws lv) else raws lv) @ [r]"
  by (simp add: raws_def entries_Append_cases [OF assms] map_tl)

lemma filter_exact_appended:
  assumes wf: "lv_wf lv" and ex: "filter_exact lv" and flt: "filtering lv"
    and m: "m \<longleftrightarrow> line_kept (lv_filterState lv) r"
  shows "filter_exact (appended_filtered m r c s w lv)"
proof -
  let ?P = "line_kept (lv_filterState lv)" and ?off = "filteredIndexOffset lv"
  let ?off' = "if buf_full lv then ?off + 1 else ?off"
  let ?rs = "if buf_full lv then tl (raws lv) else raws lv"
  have rb: "rb_wf (lv_buffer lv)" using wf by (simp add: lv_wf_def)
  then have cap: "0 \<le> count (lv_buffer lv)" "count (lv_buffer lv) \<le> capacity (lv_buffer lv)"
    "1 \<le> capacity (lv_buffer lv)" by (auto simp: rb_wf_def)
  have idx: "filteredIndices lv = kept ?off ?P (raws lv)" using ex flt by (simp add: filter_exact_def)
  have len: "int (length (raws lv)) = count (lv_buffer lv)" using cap by (simp add: raws_def)
  have ne: "buf_full lv \<Longrightarrow> raws lv \<noteq> []" using len cap by auto
  have old: "(if buf_full lv then trim_indices ?off' (filteredIndices lv) else filteredIndices lv) = kept ?off' ?P ?rs"
    using ne by (simp add: idx trim_kept)
  have new: "?off' + rb_Len (rb_Append r c s w (lv_buffer lv)) - 1 = ?off' + int (length ?rs)"
    using len cap ne by (auto simp: rb_Len_def fields_Append of_nat_diff)
  have "raws (appended_filtered m r c s w lv) = ?rs @ [r]"
    using raws_Append [OF rb, of r c s w] by (simp add: appended_filtered_eq raws_def)
  moreover have "filteredIndices (appended_filtered m r c s w lv) =
      (if m then kept ?off' ?P ?rs @ [?off' + int (length ?rs)] else kept ?off' ?P ?rs)"
    unfolding old [symmetric] new [symmetric] by (simp add: appended_filtered_eq Let_def)
  moreover have "filteredIndexOffset (appended_filtered m r c s w lv) = ?off'"
    "lv_filterState (appended_filtered m r c s w lv) = lv_filterState lv"
    by (simp_all add: appended_filtered_eq)
  ultimately show ?thesis
    using m by (simp only: filter_exact_def kept_append) simp
qed

lemma fkey_filtering: "fkey lv' = fkey lv \<Longrightarrow> filtering lv' = filtering lv"
  by (simp add: fkey_def)

lemma filter_exact_idle: "\<not> filtering lv \<Longrightarrow> filter_exact lv"
  by (simp add: filter_exact_def)

text \<open>A plain line that looks like a marker is kept only if it matches.\<close>

definition op_plain :: "log_op \<Rightarrow> log_view \<Rightarrow> bool" where
  "op_plain op lv = (case op of
       OpAppend l \<Rightarrow> is_marker l \<longrightarrow> ss_matches (lv_filterState lv) l
     | OpMarker c \<Rightarrow> is_marker (marker_line c)
     | _ \<Rightarrow> True)"

lemma AppendLine_filter_exact:
  assumes run: "AppendLine A line lv = Inr lv'" and wf: "lv_wf lv" and ex: "filter_exact lv"
    and m: "is_marker line \<longrightarrow> ss_matches (lv_filterState lv) line"
  shows "filter_exact lv'"
proof -
  let ?c = "highlight_line lv line"
  let ?w = "StringWidth A ?c" and ?s = "Strip A ?c" and ?m = "ss_matches (lv_filterState lv) line"
  have kept: "?m \<longleftrightarrow> line_kept (lv_filterState lv) line" using m by (auto simp: line_kept_def)
  show ?thesis
  proof (cases "filtering lv")
    case True
    note ex3 = filter_exact_appended [OF wf ex True kept, of ?c ?s ?w]
    show ?thesis
    proof (cases "append_skips line lv")
      case True
      then have "?m = False" by (simp add: append_skips_def)
      with True run ex3 show ?thesis by (simp add: AppendLine_draws)
    next
      case False
      with run have "fkey lv' = fkey (append_pre A line lv)" by (simp add: AppendLine_draws fkey_finish)
      also have "\<dots> = fkey (appended_filtered ?m line ?c ?s ?w lv)"
        using True by (simp add: append_pre_def Let_def)
      finally show ?thesis using ex3 filter_exact_fkey by blast
    qed
  next
    case False
    then have "\<not> append_skips line lv" by (simp add: append_skips_def)
    with run have "fkey lv' = fkey (append_pre A line lv)" by (simp add: AppendLine_draws fkey_finish)
    also have "\<dots> = fkey (appended line ?c ?s ?w lv)" using False by (simp add: append_pre_def Let_def)
    finally have "\<not> filtering lv'" using fkey_filtering appended_plain(8) [OF wf False] by blast
    then show ?thesis by (rule filter_exact_idle)
  qed
qed

lemma InsertMarker_filter_exact:
  assumes run: "InsertMarker A mr clock lv = Inr lv'" and wf: "lv_wf lv" and ex: "filter_exact lv"
    and m: "is_marker (marker_line clock)"
  shows "filter_exact lv'"
proof -
  let ?r = "marker_line clock"
  have key: "fkey lv' = fkey (marker_pre A mr clock lv)" using run by (simp add: InsertMarker_draws fkey_finish)
  show ?thesis
  proof (cases "filtering lv")
    case True
    have "True \<longleftrightarrow> line_kept (lv_filterState lv) ?r" using m by (simp add: line_kept_def)
    note ex3 = filter_exact_appended [OF wf ex True this, of "mr ?r" ?r "StringWidth A ?r"]
    have "fkey (marker_pre A mr clock lv) = fkey (appended_filtered True ?r (mr ?r) ?r (StringWidth A ?r) lv)"
      using True by (simp add: marker_pre_def Let_def)
    then show ?thesis using ex3 key filter_exact_fkey by metis
  next
    case False
    have "fkey (marker_pre A mr clock lv) = fkey (appended ?r (mr ?r) ?r (StringWidth A ?r) lv)"
      using False by (simp add: marker_pre_def Let_def)
    then have "\<not> filtering lv'" using key fkey_filtering appended_plain(8) [OF wf False] by metis
    then show ?thesis by (rule filter_exact_idle)
  qed
qed

lemma kept_raws_eq:
  assumes "rb_wf (lv_buffer lv)"
  shows "map (\<lambda>i. off + int i) (filter (\<lambda>i. P (RawGet (lv_buffer lv) (int i))) [0..<nat (rb_Len (lv_buffer lv))]) =
    kept off P (raws lv)"
proof -
  have "filter (\<lambda>i. P (RawGet (lv_buffer lv) (int i))) [0..<nat (rb_Len (lv_buffer lv))] =
      filter (\<lambda>i. P (raws lv ! i)) [0..<length (raws lv)]"
    using nth_entries_of [OF assms] by (auto simp: raws_def rb_Len_def intro!: filter_cong)
  then show ?thesis by (simp add: kept_filter)
qed

lemma ApplySearch_filter_exact:
  assumes run: "ApplySearch A p m lv = Inr (Inr lv')" and rb: "rb_wf (lv_buffer lv)" and ex: "filter_exact lv"
  shows "filter_exact lv'"
proof (cases m)
  case SearchModeFilter
  then obtain fs where fs: "rebuildViewportContent A (lv\<lparr> lv_filterState := fs,
      filteredIndices := (if ss_Active fs
        then map (\<lambda>i. filteredIndexOffset lv + int i)
             (filter (\<lambda>i. line_kept fs (RawGet (lv_buffer lv) (int i)))
               [0..<nat (rb_Len (lv_buffer lv))]) else []) \<rparr>) = Inr lv'"
    using run by (auto simp: ApplySearch_def Let_def split: sum.splits)
  show ?thesis
    using filter_exact_fkey [OF fkey_rebuild [OF fs]]
    by (simp add: filter_exact_def kept_raws_eq [OF rb]) (simp add: raws_def)
next
  case SearchModeSearch
  then obtain s where s: "rebuildViewportContent A (lv\<lparr> lv_searchState := s \<rparr>) = Inr lv'"
    using run by (auto simp: ApplySearch_def Let_def split: sum.splits)
  show ?thesis using filter_exact_fkey [of lv' lv] fkey_rebuild [OF s] ex by simp
qed

lemma fkey_resize: "lv_SetSize A w h lv = Inr lv' \<Longrightarrow> fkey lv' = fkey lv"
  by (auto simp: lv_SetSize_def Let_def dest!: fkey_draw(1) split: if_splits)

lemma fkey_ensure: "ensureMatchVisible A lv = Inr lv' \<Longrightarrow> fkey lv' = fkey lv"
  by (auto simp: ensureMatchVisible_def Let_def dest!: fkey_draw(2) split: if_splits)

lemma fkey_search:
  "SearchNext A lv = Inr lv' \<Longrightarrow> fkey lv' = fkey lv" "SearchPrev A lv = Inr lv' \<Longrightarrow> fkey lv' = fkey lv"
  by (auto simp: SearchNext_def SearchPrev_def Let_def dest!: fkey_ensure fkey_draw(1) split: if_splits)

lemma fkey_scroll:
  "scroll_up_by A n lv = Inr lv' \<Longrightarrow> fkey lv' = fkey lv" "scroll_down_by A n lv = Inr lv' \<Longrightarrow> fkey lv' = fkey lv"
  "lv_GotoTop A lv = Inr lv' \<Longrightarrow> fkey lv' = fkey lv" "lv_GotoBottom A lv = Inr lv' \<Longrightarrow> fkey lv' = fkey lv"
  "ToggleAutoscroll A lv = Inr lv' \<Longrightarrow> fkey lv' = fkey lv"
  by (cases "lv_softWrap lv"; fastforce simp: scroll_up_by_def scroll_down_by_def lv_GotoTop_def
      lv_GotoBottom_def ToggleAutoscroll_def Let_def dest: fkey_draw split: if_splits)+

lemma fkey_wheel: "lv_Update A b lv = Inr lv' \<Longrightarrow> fkey lv' = fkey lv"
  by (auto simp: lv_Update_def lv_ScrollUp_def lv_ScrollDown_def lv_ScrollLeft_def lv_ScrollRight_def
      set_xOffset_def dest: fkey_scroll split: wheel.splits)

lemma fkey_toggle_wrap:
  assumes "ToggleWrap A lv = Inr lv'"
  shows "fkey lv' = fkey lv"
  using fkey_draw(1) [OF assms [unfolded ToggleWrap_def Let_def]] by simp

lemma fkey_ClearSearch: "ClearSearch A lv = Inr lv' \<Longrightarrow> fkey lv' = fkey lv"
  by (auto simp: ClearSearch_def dest!: fkey_draw(1))

lemma fkey_ToggleSyntax:
  assumes "ToggleSyntax A dp lv = Inr lv'" and rb: "rb_wf (lv_buffer lv)"
  shows "fkey lv' = fkey lv"
proof -
  define lv1 where "lv1 = lv\<lparr> pipeline := (if pipeline lv \<noteq> None then None else Some dp) \<rparr>"
  define lv2 where "lv2 = lv1\<lparr> lv_buffer := fold (recolor A lv1) [0..<nat (rb_Len (lv_buffer lv1))] (lv_buffer lv1) \<rparr>"
  define lv3 where "lv3 = (if lv_softWrap lv2 then recomputeTotalWrappedRows lv2 else lv2)"
  have "(if ss_Active (lv_searchState lv3) then rebuildViewportContent A lv3 else updateViewport A lv3) = Inr lv'"
    using assms(1) unfolding ToggleSyntax_def Let_def lv1_def lv2_def lv3_def .
  then have "fkey lv' = fkey lv3" using fkey_rebuild fkey_draw(1) by (auto split: if_splits)
  moreover have "fkey lv3 = fkey lv2" by (simp add: lv3_def)
  moreover have "raws lv2 = raws lv" using fkey_recolor_all [of "lv_buffer lv"] rb
    by (simp add: lv2_def lv1_def raws_def)
  then have "fkey lv2 = fkey lv" by (simp add: fkey_def lv2_def lv1_def)
  ultimately show ?thesis by simp
qed

lemma ClearFilter_filter_exact:
  assumes "ClearFilter A lv = Inr lv'"
  shows "filter_exact lv'"
proof -
  have "filtering lv' = filtering (lv\<lparr> lv_filterState := ss_Clear (lv_filterState lv), filteredIndices := [],
      filteredIndexOffset := 0 \<rparr>)"
    by (rule fkey_filtering) (use fkey_draw(1) [OF assms [unfolded ClearFilter_def Let_def]] in simp)
  then show ?thesis by (intro filter_exact_idle) simp
qed

lemma fkey_misc [simp]:
  "fkey (lv_SetBorderless b lv) = fkey lv" "fkey (lv_Focus lv) = fkey lv" "fkey (lv_Blur lv) = fkey lv"
  "fkey (lv_ScrollHome lv) = fkey lv" "fkey (lv_ScrollEnd lv) = fkey lv"
  "fkey (SetUnavailable b lv) = fkey lv" "fkey (lv_SetNamespace s (SetPodName n lv)) = fkey lv"
  "fkey (SetContainers cs lv) = fkey lv" "fkey (SetActiveContainer n lv) = fkey lv"
  "fkey (SetTimeRangeLabel n lv) = fkey lv" "fkey (lv_SetInlineSearch n lv) = fkey lv"
  by (simp_all add: lv_SetBorderless_def lv_Focus_def lv_Blur_def lv_ScrollHome_def
      lv_ScrollEnd_def set_xOffset_def SetUnavailable_def lv_SetNamespace_def SetPodName_def
      SetContainers_def SetActiveContainer_def SetTimeRangeLabel_def lv_SetInlineSearch_def Let_def)
    (simp_all add: fkey_def raws_def)

lemma fkey_header: "lv_ToggleHeader A lv = Inr lv' \<Longrightarrow> fkey lv' = fkey lv"
  by (auto simp: lv_ToggleHeader_def Let_def dest!: fkey_resize)

lemma lv_exec_filter_exact:
  assumes run: "lv_exec E op lv = Inr lv'" and wf: "lv_wf lv" and ex: "filter_exact lv"
    and p: "op_plain op lv"
  shows "filter_exact lv'"
proof -
  have rb: "rb_wf (lv_buffer lv)" using wf by (simp add: lv_wf_def)
  have key: "fkey lv' = fkey lv \<Longrightarrow> filter_exact lv'" using filter_exact_fkey ex by blast
  show ?thesis
  proof (cases op)
    case (OpApply q m)
    with run obtain r where r: "ApplySearch (env_text E) q m lv = Inr r"
      and lv': "lv' = (case r of Inl e \<Rightarrow> lv | Inr lv1 \<Rightarrow> lv1)"
      by (cases "ApplySearch (env_text E) q m lv") (simp_all add: lv_exec_def go_bind_def split: sum.splits)
    then show ?thesis using ApplySearch_filter_exact [of "env_text E" q m lv] rb ex by (cases r) auto
  next
    case OpRestart
    then show ?thesis using run by (auto simp: lv_exec_def ClearAndRestart_def intro!: filter_exact_idle)
  qed (use run wf ex rb p key in \<open>auto simp: lv_exec_def op_plain_def lv_PageUp_def lv_PageDown_def
      dest: AppendLine_filter_exact InsertMarker_filter_exact ClearFilter_filter_exact fkey_search
        fkey_resize fkey_scroll fkey_wheel fkey_toggle_wrap fkey_ClearSearch fkey_ToggleSyntax fkey_header\<close>)
qed

text \<open>What the panel then shows.\<close>

lemma filter_exact_body:
  assumes "lv_wf lv" and "filter_exact lv" and "filtering lv"
  shows "body_lines lv = map (\<lambda>e. (fst (snd e), snd (snd (snd e))))
    (filter (\<lambda>e. line_kept (lv_filterState lv) (fst e)) (entries_of (lv_buffer lv)))"
proof -
  let ?d = "lv_buffer lv" and ?off = "filteredIndexOffset lv" and ?P = "line_kept (lv_filterState lv)"
  let ?Q = "\<lambda>e. ?P (fst e)" and ?f = "\<lambda>e. (fst (snd e), snd (snd (snd e)))"
  have rb: "rb_wf ?d" and ok: "filter_ok ?d True (filteredIndices lv) ?off"
    using assms by (simp_all add: lv_wf_defs)
  have idx: "filteredIndices lv = kept ?off ?Q (entries_of ?d)"
    using assms(2,3) by (simp add: filter_exact_def raws_def kept_map)
  have "body_lines lv = map (\<lambda>i. ?f (entries_of ?d ! nat (i - ?off))) (filteredIndices lv)"
    using assms(3) ok nth_entries_of [OF rb]
    by (auto simp: body_lines_def filter_ok_def rb_Len_def)
  also have "\<dots> = map ?f (map (\<lambda>i. entries_of ?d ! nat (i - ?off)) (kept ?off ?Q (entries_of ?d)))"
    by (simp add: idx comp_def)
  finally show ?thesis by (simp only: map_kept)
qed

end
