(* ===== verification/Escapes.thy ===== *)
theory Escapes
  imports Prelude
begin

text \<open>
  Walking a string past its escape sequences, as \<^verbatim>\<open>internal/table/table.go\<close> and
  \<^verbatim>\<open>internal/ui/highlight.go\<close> both do: an escape byte starts a sequence that a letter ends,
  every other byte is visible.
\<close>

definition isANSITerminator :: "char \<Rightarrow> bool" where
  "isANSITerminator b \<longleftrightarrow>
     (let c = (of_char b :: nat) in (65 \<le> c \<and> c \<le> 90) \<or> (97 \<le> c \<and> c \<le> 122))"

definition skip_escape :: "string \<Rightarrow> string" where
  "skip_escape s = drop 1 (dropWhile (\<lambda>c. \<not> isANSITerminator c) s)"

lemma length_skip_escape: "length (skip_escape s) \<le> length s"
  using length_dropWhile_le [of "\<lambda>c. \<not> isANSITerminator c" s] by (simp add: skip_escape_def)

function visible_bytes :: "string \<Rightarrow> string" where
  "visible_bytes [] = []"
| "visible_bytes (c # s) = (if c = CHR 0x1B then visible_bytes (skip_escape s) else c # visible_bytes s)"
  by pat_completeness auto
termination
  by (relation "measure length") (simp_all add: length_skip_escape less_Suc_eq_le)

text \<open>The text is outside an escape sequence at its end.\<close>

function escapes_closed :: "string \<Rightarrow> bool" where
  "escapes_closed [] = True"
| "escapes_closed (c # s) =
     (if c = CHR 0x1B then (\<exists>d\<in>set s. isANSITerminator d) \<and> escapes_closed (skip_escape s)
      else escapes_closed s)"
  by pat_completeness auto
termination
  by (relation "measure length") (simp_all add: length_skip_escape less_Suc_eq_le)

lemma skip_escape_append:
  "\<exists>d\<in>set s. isANSITerminator d \<Longrightarrow> skip_escape (s @ t) = skip_escape s @ t"
  by (induction s) (auto simp: skip_escape_def)

lemma visible_append:
  "escapes_closed s \<Longrightarrow> visible_bytes (s @ t) = visible_bytes s @ visible_bytes t"
  by (induction s rule: escapes_closed.induct) (auto simp: skip_escape_append split: if_splits)

lemma escapes_closed_append:
  "escapes_closed s \<Longrightarrow> escapes_closed (s @ t) = escapes_closed t"
  by (induction s rule: escapes_closed.induct) (auto simp: skip_escape_append split: if_splits)

lemma visible_no_escape: "CHR 0x1B \<notin> set (visible_bytes s)"
  by (induction s rule: visible_bytes.induct) auto

lemma visible_plain: "CHR 0x1B \<notin> set s \<Longrightarrow> visible_bytes s = s"
  by (induction s) auto

lemma escapes_closed_plain: "CHR 0x1B \<notin> set s \<Longrightarrow> escapes_closed s"
  by (induction s) auto

text \<open>A piece between two points outside escapes.\<close>

lemma visible_piece:
  assumes "escapes_closed (take a s)" and "a \<le> b" and "b \<le> length s"
  shows "visible_bytes (take b s) = visible_bytes (take a s) @ visible_bytes (take (b - a) (drop a s))"
    and "escapes_closed (take (b - a) (drop a s)) = escapes_closed (take b s)"
proof -
  have "take b s = take a s @ take (b - a) (drop a s)"
    using assms(2) by (metis le_add_diff_inverse take_add)
  with assms(1) show "visible_bytes (take b s) = visible_bytes (take a s) @ visible_bytes (take (b - a) (drop a s))"
    and "escapes_closed (take (b - a) (drop a s)) = escapes_closed (take b s)"
    by (simp_all add: visible_append escapes_closed_append)
qed

end
