(* ===== verification/Plain_Tui.thy ===== *)
theory Plain_Tui
  imports Extern Escapes Text_Lines
begin

text \<open>
  Concrete instances of the parameters, on which witnesses are evaluated: text without escape
  sequences whose characters are one column wide, patterns that are literal strings, a viewport that
  keeps the lines of its content and clamps its offset, styles that change nothing, and escape
  sequences stripped as the program's own walks skip them.
\<close>

section \<open>Text\<close>

fun is_prefix :: "string \<Rightarrow> string \<Rightarrow> bool" where
  "is_prefix [] s = True"
| "is_prefix (c # p) [] = False"
| "is_prefix (c # p) (d # s) = (c = d \<and> is_prefix p s)"

text \<open>The non-overlapping occurrences of \<open>p\<close>; \<open>k\<close> characters are still consumed.\<close>

fun occurrences :: "string \<Rightarrow> nat \<Rightarrow> nat \<Rightarrow> string \<Rightarrow> (nat \<times> nat) list" where
  "occurrences p i k [] = []"
| "occurrences p i k (c # s) =
     (if k > 0 then occurrences p (Suc i) (k - 1) s
      else if is_prefix p (c # s)
      then (i, i + length p) # occurrences p (Suc i) (length p - 1) s
      else occurrences p (Suc i) 0 s)"

definition literal_regexp :: "string \<Rightarrow> regexp" where
  "literal_regexp p = \<lparr> MatchString = (\<lambda>s. occurrences p 0 0 s \<noteq> []),
                        FindAllStringIndex = occurrences p 0 0 \<rparr>"

text \<open>The pattern arrives with the prefix \<open>(?i)\<close>; an opening bracket does not compile.\<close>

definition plain_text :: text_api where
  "plain_text = \<lparr> StringWidth = (\<lambda>s. int (length s)), Strip = (\<lambda>s. s),
     Cut = (\<lambda>s a b. take (nat (b - a)) (drop (nat a) s)),
     ansi_seqs = map (\<lambda>c. ([c], 1)),
     regexp_Compile = (\<lambda>p. if CHR ''['' \<in> set p then None else Some (literal_regexp (drop 4 p))),
     faint_render = (\<lambda>s. s) \<rparr>"

lemma seqs_ok_plain: "seqs_ok plain_text"
proof -
  have "concat (map fst (map (\<lambda>c. ([c], 1::int)) s)) = s" for s :: string
    by (induction s) simp_all
  then show ?thesis by (auto simp: seqs_ok_def plain_text_def)
qed

section \<open>Widgets\<close>

record plain_vp =
  pv_lines :: "string list"
  pv_w :: int
  pv_h :: int
  pv_y :: int

definition pv_max :: "plain_vp \<Rightarrow> int" where
  "pv_max v = max 0 (int (length (pv_lines v)) - pv_h v)"

definition ansi_text :: text_api where
  "ansi_text = plain_text\<lparr> Strip := visible_bytes \<rparr>"

definition plain_tui :: "plain_vp tui_api" where
  "plain_tui = \<lparr> tui_text = ansi_text,
     va_New = \<lparr> pv_lines = [], pv_w = 0, pv_h = 0, pv_y = 0 \<rparr>,
     va_Width = pv_w, va_Height = pv_h, va_YOffset = pv_y,
     va_SetWidth = (\<lambda>n v. v\<lparr> pv_w := n \<rparr>), va_SetHeight = (\<lambda>n v. v\<lparr> pv_h := n \<rparr>),
     va_SetYOffset = (\<lambda>n v. v\<lparr> pv_y := min (max n 0) (pv_max v) \<rparr>),
     va_SetContent = (\<lambda>s v. let v1 = v\<lparr> pv_lines := split_lines s \<rparr>
                            in if pv_y v1 > pv_max v1 then v1\<lparr> pv_y := pv_max v1 \<rparr> else v1),
     va_View = (\<lambda>v. join_lines (take (nat (pv_h v)) (drop (nat (pv_y v)) (pv_lines v)))),
     JoinVertical = join_lines, JoinHorizontal = concat,
     lg_Height = (\<lambda>s. int (length (split_lines s))),
     inline_cell = (\<lambda>w s. take (nat w) (s @ replicate (nat w) (CHR '' ''))) \<rparr>"

lemma plain_tui_ok: "tui_ok plain_tui"
  by (simp add: tui_ok_def plain_tui_def Let_def)

lemma plain_tui_scrolls: "tui_scrolls plain_tui"
  by (auto simp: tui_scrolls_def plain_tui_def Let_def split_join pv_max_def)

end
