(* ===== verification/Log_View_Props.thy ===== *)
theory Log_View_Props
  imports Log_View_Filter Plain_Tui
begin

text \<open>
  The properties of the log panel and its ring buffer, and concrete runs they are applied to.
  The runs use the text instance of \<^verbatim>\<open>Plain_Tui\<close>.
\<close>

section \<open>Concrete panels\<close>

definition demo_env :: log_env where
  "demo_env = \<lparr> env_text = plain_text, env_marker = (\<lambda>s. s), env_pipeline = (\<lambda>s. s) \<rparr>"

text \<open>A panel of 40 columns and 10 rows whose buffer keeps \<open>cap\<close> lines.\<close>

definition demo_view :: "int \<Rightarrow> log_view" where
  "demo_view cap = NewLogView (\<lambda>s. s) ''<'' ''>'' 40 10 cap ''5m'' 300"

definition demo_after :: "int \<Rightarrow> log_op list \<Rightarrow> log_view" where
  "demo_after cap ops = (case lv_run demo_env ops (demo_view cap) of Inr lv \<Rightarrow> lv | Inl p \<Rightarrow> demo_view cap)"

lemma demo_view_wf: "lv_wf (demo_view cap)"
  by (simp add: demo_view_def NewLogView_wf)

lemma demo_after_run:
  "panic_of (lv_run demo_env ops (demo_view cap)) = None \<Longrightarrow>
     lv_run demo_env ops (demo_view cap) = Inr (demo_after cap ops)"
  by (cases "lv_run demo_env ops (demo_view cap)") (simp_all add: demo_after_def)

lemma demo_after_wf: "lv_wf (demo_after cap ops)"
  using demo_view_wf lv_run_wf [of demo_env ops "demo_view cap"]
  by (auto simp: demo_after_def split: sum.splits)

lemma demo_filter_exact: "filter_exact (demo_view cap)"
  by (rule filter_exact_idle) (simp add: demo_view_def NewLogView_def)

section \<open>The ring buffer\<close>

text \<open>C27. After any sequence of appends to a new ring buffer the stored lines are exactly the
  newest ones, oldest first, at most the capacity of them, and the dropped counter counts the rest.\<close>

theorem ring_buffer_keeps_newest:
  "entries_of (fold rb_add es (NewDualRingBuffer c)) = lastn (nat (max 1 c)) es \<and>
   dropped (fold rb_add es (NewDualRingBuffer c)) = max 0 (int (length es) - max 1 c) \<and>
   RawAll (fold rb_add es (NewDualRingBuffer c)) = map fst (lastn (nat (max 1 c)) es)"
proof -
  let ?new = "NewDualRingBuffer c"
  let ?d = "fold rb_add es ?new"
  have cap: "capacity ?new = max 1 c" "count ?new = 0" "dropped ?new = 0"
    by (simp_all add: NewDualRingBuffer_def Let_def max_def)
  have wf: "rb_wf ?d" by (rule ring.ok_run) (rule rb_wf_New)
  have e: "entries_of ?d = lastn (nat (max 1 c)) es"
    using ring.entries_run [OF rb_wf_New, of es c] cap by simp
  have "int (length (entries_of ?d)) = count ?d" using wf by (simp add: rb_wf_def)
  moreover have "int (min (nat (max 1 c)) (length es)) = min (max 1 c) (int (length es))" by auto
  ultimately have "dropped ?d = max 0 (int (length es) - max 1 c)"
    using dropped_run [OF rb_wf_New, of es c] cap by (simp add: e)
  then show ?thesis using e RawAll_entries [OF wf] by simp
qed

section \<open>The panel\<close>

text \<open>C5. Every state the panel reaches from a new one is well formed: buffer indices in range,
  filter indices sorted and inside the buffer, the incremental wrapped-row count equal to the
  recomputed one, search matches sorted and on display lines, and the match count right.\<close>

theorem log_invariant:
  "lv_run E ops (NewLogView dp hi sel w h cap tr ss) = Inr lv \<Longrightarrow>
     rb_wf (lv_buffer lv) \<and> filter_wf lv \<and>
     (lv_softWrap lv \<longrightarrow> recomputeTotalWrappedRows lv = lv) \<and>
     sorted (map mp_line (matchPositions lv)) \<and>
     (\<forall>p\<in>set (matchPositions lv). 0 \<le> mp_line p \<and> mp_line p < totalDisplayLines lv) \<and>
     MatchCount (lv_searchState lv) = int (length (matchPositions lv))"
proof -
  assume "lv_run E ops (NewLogView dp hi sel w h cap tr ss) = Inr lv"
  then have "lv_wf lv" using NewLogView_wf by (rule lv_run_wf)
  then show ?thesis
    by (auto simp: lv_wf_def match_wf_def search_ok_def positions_ok_def totalDisplayLines_shown
        wrap_wf_def recompute_eq)
qed

theorem log_invariant_witness:
  "recomputeTotalWrappedRows (demo_after 2 [OpWrap, OpAppend ''a'', OpAppend ''ab'', OpAppend ''abc'']) =
     demo_after 2 [OpWrap, OpAppend ''a'', OpAppend ''ab'', OpAppend ''abc'']"
proof -
  let ?ops = "[OpWrap, OpAppend ''a'', OpAppend ''ab'', OpAppend ''abc'']"
  have "panic_of (lv_run demo_env ?ops (demo_view 2)) = None" by code_simp
  from log_invariant [OF demo_after_run [OF this, unfolded demo_view_def]]
  have "lv_softWrap (demo_after 2 ?ops) \<longrightarrow> recomputeTotalWrappedRows (demo_after 2 ?ops) = demo_after 2 ?ops"
    by blast
  moreover have "lv_softWrap (demo_after 2 ?ops)" by code_simp
  ultimately show ?thesis by simp
qed









text \<open>A wrapped panel of 5 by 3 text cells with one line of 12 columns.\<close>

definition demo_wrap :: log_view where
  "demo_wrap = (demo_view 3)\<lparr>
     lv_buffer := rb_Append ''abcdefghijkl'' ''abcdefghijkl'' ''abcdefghijkl'' 12 (NewDualRingBuffer 3),
     lv_height := 5, lv_softWrap := True, logVP := vp_SetSize 5 3 (logVP (demo_view 3)),
     totalWrappedRows := 4 \<rparr>"



text \<open>C6. No operation panics on a well-formed panel that has a row to draw, whose selected match
  exists, unless it evicts a line while a search is active; the resulting panel is again such a
  panel.\<close>

theorem log_no_panic:
  assumes "lv_wf lv" and "selection_ok lv" and "op_fits op lv"
    and "op_appends op \<Longrightarrow> \<not> evicts_match lv"
  shows "\<exists>lv'. lv_exec E op lv = Inr lv' \<and> lv_wf lv' \<and> selection_ok lv'"
  using assms by (rule lv_exec_total)

theorem log_no_panic_witness:
  "\<exists>lv'. lv_exec demo_env (OpAppend ''c'') (demo_after 2 [OpAppend ''a'', OpAppend ''b'']) = Inr lv'"
proof -
  let ?lv = "demo_after 2 [OpAppend ''a'', OpAppend ''b'']"
  have "selection_ok ?lv" "op_fits (OpAppend ''c'') ?lv" "\<not> evicts_match ?lv"
    by (code_simp, code_simp, code_simp)
  with log_no_panic [OF demo_after_wf, of 2 "[OpAppend ''a'', OpAppend ''b'']" "OpAppend ''c''" demo_env]
  show ?thesis by blast
qed

text \<open>The condition on evictions is needed: with the last of two matches selected, a line
  that does not match but evicts the older match makes \<open>AppendLine\<close> index past the end of
  \<open>matchPositions\<close>.\<close>

theorem log_search_eviction_panics:
  "lv_run demo_env [OpAppend ''a'', OpAppend ''ba'', OpApply ''a'' SearchModeSearch, OpNext,
     OpAppend ''b''] (demo_view 2) = Inl IndexOutOfRange"
  unfolding panic_of_eq [symmetric] by code_simp

text \<open>In wrap mode a panel whose inner height is negative (at most one row of terminal for a
  bordered panel) panics on every redraw.\<close>

theorem log_wrapped_short_panics:
  assumes "lv_softWrap lv" and "viewportHeight lv < 0"
  shows "updateViewport A lv = Inl SliceOutOfRange"
proof -
  have "build_rows A p lv' v (viewportHeight lv) f o' dis ([], []) = ([], [])" for p lv' v f o' dis
    using assms(2) by (cases dis) simp_all
  then show ?thesis
    using assms by (simp add: updateViewport_def updateViewportWrapped_def Let_def go_slice_def
        split: prod.splits)
qed

theorem log_wrapped_short_panics_witness:
  "updateViewport plain_text (demo_wrap\<lparr> lv_height := 1 \<rparr>) = Inl SliceOutOfRange"
proof -
  have "lv_softWrap (demo_wrap\<lparr> lv_height := 1 \<rparr>)"
    "viewportHeight (demo_wrap\<lparr> lv_height := 1 \<rparr>) < 0" by code_simp+
  then show ?thesis by (rule log_wrapped_short_panics)
qed

text \<open>What the stream and the clock owe: no line imitates a marker, unless it matches, and the time of a marker
  has the form that marks it.\<close>

fun plain_run :: "log_env \<Rightarrow> log_op list \<Rightarrow> log_view \<Rightarrow> bool" where
  "plain_run E [] lv = True"
| "plain_run E (op # ops) lv = (op_plain op lv \<and> (case lv_exec E op lv of Inl p \<Rightarrow> True | Inr lv' \<Rightarrow> plain_run E ops lv'))"

lemma lv_run_filter_exact:
  "lv_run E ops lv = Inr lv' \<Longrightarrow> lv_wf lv \<Longrightarrow> filter_exact lv \<Longrightarrow> plain_run E ops lv \<Longrightarrow> filter_exact lv' \<and> lv_wf lv'"
proof (induction ops arbitrary: lv)
  case (Cons op ops)
  then obtain m where m: "lv_exec E op lv = Inr m" "lv_run E ops m = Inr lv'" by auto
  then show ?case
    using Cons.IH [OF m(2)] lv_exec_wf [OF m(1) Cons.prems(2)] lv_exec_filter_exact [OF m(1) Cons.prems(2,3)] Cons.prems(4)
    by simp
qed simp

text \<open>C34. In every panel reached from a new one by any sequence of its operations (lines that arrive and evict
  others, markers, filters, syntax colours switched on and off), the filtered view shows precisely the buffered
  lines that match the filter and the markers that the user set, which a filter never hides, in order and with
  their colours. No line of the stream may have the form of a marker without matching the filter.\<close>

theorem log_filter_exact:
  assumes "lv_run E ops (NewLogView dp hi sel w h cap tr ss) = Inr lv" and "plain_run E ops (NewLogView dp hi sel w h cap tr ss)"
    and "FilterActive lv"
  shows "body_lines lv = map (\<lambda>(raw, colored, stripped, width). (colored, width))
    (filter (\<lambda>(raw, colored, stripped, width). ss_matches (lv_filterState lv) raw \<or> is_marker raw) (entries_of (lv_buffer lv)))"
proof -
  let ?new = "NewLogView dp hi sel w h cap tr ss"
  have "filter_exact ?new" by (rule filter_exact_idle) (simp add: NewLogView_def zero_search_def ss_Active_def)
  then have "filter_exact lv" "lv_wf lv" using lv_run_filter_exact [OF assms(1) NewLogView_wf] assms(2) by blast+
  from filter_exact_body [OF this(2,1)] show ?thesis
    using assms(3) by (simp add: FilterActive_def line_kept_def case_prod_unfold)
qed

text \<open>In a buffer of two lines: \<^verbatim>\<open>ab\<close> evicts \<^verbatim>\<open>a\<close>, then \<^verbatim>\<open>ba\<close> evicts the line that does
  not match, and the colours are switched.\<close>

theorem log_filter_exact_witness:
  "body_lines (demo_after 2 [OpAppend ''a'', OpAppend ''x'', OpApply ''a'' SearchModeFilter, OpAppend ''ab'', OpAppend ''ba'',
     OpSyntax]) = [(''ab'', 2), (''ba'', 2)]"
proof -
  let ?ops = "[OpAppend ''a'', OpAppend ''x'', OpApply ''a'' SearchModeFilter, OpAppend ''ab'', OpAppend ''ba'', OpSyntax]"
  have "panic_of (lv_run demo_env ?ops (demo_view 2)) = None" by code_simp
  note run = demo_after_run [OF this, unfolded demo_view_def]
  have p: "plain_run demo_env ?ops (demo_view 2)" by code_simp
  have e: "entries_of (lv_buffer (demo_after 2 ?ops)) = [(''ab'', ''ab'', ''ab'', 2), (''ba'', ''ba'', ''ba'', 2)]"
    "ss_matches (lv_filterState (demo_after 2 ?ops)) ''ab''" "ss_matches (lv_filterState (demo_after 2 ?ops)) ''ba''"
    "FilterActive (demo_after 2 ?ops)" by code_simp+
  show ?thesis using log_filter_exact [OF run p [unfolded demo_view_def] e(4)] by (simp add: e(1-3))
qed

section \<open>Autoscroll\<close>

lemma display_list_last:
  assumes "rb_wf (lv_buffer lv)" and "\<not> filtering lv" and "entries_of (lv_buffer lv) = es @ [(r, c, s, w)]"
  shows "display_list lv \<noteq> [] \<and> last (display_list lv) = (c, w)"
  using assms by (simp add: display_list_def body_lines_def)

text \<open>With autoscroll on and neither a filter nor a search, an appended line is drawn on the
  last used row: the panel shows the newest lines, and the last of them is the new one.\<close>

theorem log_autoscroll_newest:
  assumes "lv_wf lv" and "\<not> lv_softWrap lv" and "1 \<le> viewportHeight lv" and "\<not> AnyActive lv"
    and "autoscroll lv"
  shows "\<exists>lv'. AppendLine A line lv = Inr lv' \<and>
    zip (vp_lines (logVP lv')) (vp_rawWidths (logVP lv')) =
      lastn (nat (viewportHeight lv)) (display_list lv') \<and>
    last (zip (vp_lines (logVP lv')) (vp_rawWidths (logVP lv'))) =
      (highlight_line lv line, StringWidth A (highlight_line lv line))"
proof -
  let ?c = "highlight_line lv line"
  define pre where "pre = snap_to_end (append_pre A line lv)"
  have rb: "rb_wf (lv_buffer lv)" using assms(1) by (simp add: lv_wf_def)
  have pre_eq: "append_pre A line lv = lv\<lparr> lv_buffer := rb_Append line ?c (Strip A ?c) (StringWidth A ?c) (lv_buffer lv) \<rparr>"
    using assms by (simp add: append_pre_def AnyActive_def append_search_def appended_def track_wrapped_def Let_def)
  have ns: "\<not> append_skips line lv" using assms(4) by (simp add: append_skips_def AnyActive_def)
  have b: "lv_buffer pre = rb_Append line ?c (Strip A ?c) (StringWidth A ?c) (lv_buffer lv)"
    and f: "\<not> filtering pre" "\<not> ss_Active (lv_searchState pre)" "\<not> lv_softWrap pre"
    and h: "viewportHeight pre = viewportHeight lv"
    using assms by (simp_all add: pre_def pre_eq snap_to_end_def AnyActive_def)
  have so: "scrollOffset pre = totalDisplayLines pre - viewportHeight pre"
    by (simp add: pre_def snap_to_end_def)
  have rbp: "rb_wf (lv_buffer pre)" by (simp add: b rb_wf_Append rb)
  have h1: "1 \<le> viewportHeight pre" using assms(3) h by simp
  obtain lv' where lv': "updateViewport_plain A pre = Inr lv'"
    and sc: "scrollOffset lv' = scrollOffset (clampScrollOffset pre)"
    and z: "zip (vp_lines (logVP lv')) (vp_rawWidths (logVP lv')) =
      take (nat (viewportHeight pre)) (drop (nat (scrollOffset lv')) (display_list pre))"
    using updateViewport_plain_shows [OF rbp h1 f(2), of A] by blast
  have run: "AppendLine A line lv = Inr lv'"
    using ns lv' assms(2,5) f(3)
    by (simp add: AppendLine_draws finish_append_def updateViewport_def pre_def pre_eq)
  have dl: "display_list lv' = display_list pre"
    using updateViewport_plain_frame [OF lv']
    by (metis display_list_redraw)
  have len: "int (length (display_list pre)) = totalDisplayLines pre" by (rule length_display_list [OF rbp])
  have "nat (scrollOffset lv') = length (display_list pre) - nat (viewportHeight pre)"
    unfolding sc using so len h1 by (auto simp: clampScrollOffset_def Let_def)
  then have w: "zip (vp_lines (logVP lv')) (vp_rawWidths (logVP lv')) = lastn (nat (viewportHeight pre)) (display_list pre)"
    using z by (simp add: lastn_def)
  have e: "entries_of (lv_buffer pre) =
      (if count (lv_buffer lv) = capacity (lv_buffer lv) then tl (entries_of (lv_buffer lv))
       else entries_of (lv_buffer lv)) @ [(line, ?c, Strip A ?c, StringWidth A ?c)]"
    by (simp add: b entries_Append_cases [OF rb])
  from display_list_last [OF rbp f(1) e] have l: "display_list pre \<noteq> []" "last (display_list pre) = (?c, StringWidth A ?c)" by auto
  then have "last (lastn (nat (viewportHeight pre)) (display_list pre)) = (?c, StringWidth A ?c)"
    using h1 by (simp add: lastn_def last_drop)
  then show ?thesis using run w dl h by auto
qed

theorem log_autoscroll_newest_witness:
  "\<exists>lv'. AppendLine plain_text ''c'' (demo_after 2 [OpAppend ''a'', OpAppend ''b'']) = Inr lv'"
proof -
  let ?lv = "demo_after 2 [OpAppend ''a'', OpAppend ''b'']"
  have "\<not> lv_softWrap ?lv" "1 \<le> viewportHeight ?lv" "\<not> AnyActive ?lv" "autoscroll ?lv" by code_simp+
  from log_autoscroll_newest [OF demo_after_wf this] show ?thesis by blast
qed

section \<open>Wrapping\<close>

text \<open>C35. The splitter computes only the rows it is asked for, and they are a window of the rows
  of the whole line: skipping rows never changes the rows that are produced.\<close>

theorem split_is_window:
  assumes "0 \<le> s" and "0 < n" and "s + n \<le> N"
  shows "splitWrappedVisible A line v c s n =
     (take (nat n) (drop (nat s) (fst (splitWrappedVisible A line v c 0 N))),
      take (nat n) (drop (nat s) (snd (splitWrappedVisible A line v c 0 N))))"
  using assms by (rule split_window)

theorem split_is_window_witness:
  "splitWrappedVisible plain_text ''abcdefghij'' 4 2 1 2 =
     (take 2 (drop 1 (fst (splitWrappedVisible plain_text ''abcdefghij'' 4 2 0 3))),
      take 2 (drop 1 (snd (splitWrappedVisible plain_text ''abcdefghij'' 4 2 0 3))))"
  using split_is_window [of 1 2 3 plain_text "''abcdefghij''" 4 2] by simp

text \<open>For lines without wide characters the height formula of the scroll bookkeeping equals the
  number of rows the splitter produces.\<close>

theorem wrapHeight_counts_rows:
  assumes "narrow (ansi_seqs A line)" and "line \<noteq> ''''" and "0 < v"
    and "u = sum_list (map snd (ansi_seqs A line))" and "0 < u" and "u < N"
  shows "int (length (fst (splitWrappedVisible A line v (continuationWidth v) 0 N))) = wrapHeight u v"
proof -
  have c: "0 < continuationWidth v" using continuationWidth_pos [of v] by simp
  have q: "u > v \<Longrightarrow> go_quot (u - v + continuationWidth v - 1) (continuationWidth v) =
      (u - v + continuationWidth v - 1) div continuationWidth v"
    using c by (simp add: go_quot_def)
  show ?thesis
    using split_rows_narrow [OF assms(1-3) c assms(4-6)] assms(3) q by (simp add: wrapHeight_def Let_def)
qed

theorem wrapHeight_counts_rows_witness:
  "int (length (fst (splitWrappedVisible plain_text ''abcdefghij'' 4 (continuationWidth 4) 0 11))) =
     wrapHeight 10 4"
proof (rule wrapHeight_counts_rows)
  show "narrow (ansi_seqs plain_text ''abcdefghij'')" by (simp add: narrow_def plain_text_def)
  show "10 = sum_list (map snd (ansi_seqs plain_text ''abcdefghij''))" by (simp add: plain_text_def)
qed simp_all

definition wide_text :: text_api where
  "wide_text = plain_text\<lparr> StringWidth := (\<lambda>s. 2 * int (length s)), ansi_seqs := map (\<lambda>c. ([c], 2)) \<rparr>"

text \<open>With characters of width two the formula can be too small: four of them in five columns
  need three rows, the bookkeeping counts two, so the end of the log cannot be scrolled to.\<close>

theorem wrapHeight_wide_too_small:
  "length (fst (splitWrappedVisible wide_text ''WWWW'' 5 (continuationWidth 5) 0 9)) = 3 \<and>
   wrapHeight (StringWidth wide_text ''WWWW'') 5 = 2"
  by code_simp

section \<open>Clearing the filter\<close>

text \<open>\<open>ClearFilter\<close> keeps the match positions of the filtered view although the lines move:
  after it the highlighted line is not the matching one.\<close>

theorem ClearFilter_keeps_stale_matches:
  "map mp_line (matchPositions (demo_after 3 [OpAppend ''b'', OpAppend ''ca'',
     OpApply ''a'' SearchModeSearch, OpApply ''c'' SearchModeFilter, OpClearFilter])) = [0] \<and>
   map mp_line (matchPositions (rebuildMatchPositions plain_text
     (demo_after 3 [OpAppend ''b'', OpAppend ''ca'',
        OpApply ''a'' SearchModeSearch, OpApply ''c'' SearchModeFilter, OpClearFilter]))) = [1]"
  by (intro conjI) code_simp+

end
