(* ===== verification/Table.thy ===== *)
theory Table
  imports Extern Escapes
begin

text \<open>
  \<^verbatim>\<open>internal/table/table.go\<close>: the table widget with the program's own scrolling. Only the
  rows near the cursor are rendered (\<open>start\<close> to \<open>end\<close>) and handed to the viewport, which
  scrolls within them. The widget's key map is the predicate \<open>matches\<close> of \<open>t_Update\<close>.
\<close>

section \<open>State\<close>

record column =
  col_Title :: string
  col_Width :: int

record table_styles =
  st_Header :: style
  st_Cell :: style
  st_Selected :: style

type_synonym row_style_func = "int \<Rightarrow> bool \<Rightarrow> bool \<Rightarrow> style option"

record 'v table =
  RowStyleFunc :: "row_style_func option"
  t_cols :: "column list"
  t_rows :: "string list list"
  t_cursor :: int
  t_focus :: bool
  selectionActive :: bool
  t_styles :: table_styles
  t_viewport :: 'v
  t_xOffset :: int
  t_contentWidth :: int
  t_start :: int
  t_end :: int

definition clamp :: "int \<Rightarrow> int \<Rightarrow> int \<Rightarrow> int" where
  "clamp v low high = min (max v low) high"

abbreviation t_height :: "'v tui_api \<Rightarrow> 'v table \<Rightarrow> int" where
  "t_height T m \<equiv> va_Height T (t_viewport m)"

abbreviation t_width :: "'v tui_api \<Rightarrow> 'v table \<Rightarrow> int" where
  "t_width T m \<equiv> va_Width T (t_viewport m)"

section \<open>Stripping styles\<close>

definition revOn :: string where "revOn = [CHR 0x1B] @ ''[7m''"
definition revOff :: string where "revOff = [CHR 0x1B] @ ''[27m''"

fun has_prefix :: "string \<Rightarrow> string \<Rightarrow> bool" where
  "has_prefix s [] = True"
| "has_prefix [] (c # p) = False"
| "has_prefix (d # s) (c # p) = (c = d \<and> has_prefix s p)"

text \<open>The markers with their positions among the bytes that are not escapes.\<close>

function rev_markers :: "nat \<Rightarrow> string \<Rightarrow> (nat \<times> string) list" where
  "rev_markers vi [] = []"
| "rev_markers vi (c # s) =
     (if c = CHR 0x1B \<and> has_prefix (c # s) revOn
      then (vi, revOn) # rev_markers vi (drop (length revOn) (c # s))
      else if c = CHR 0x1B \<and> has_prefix (c # s) revOff
      then (vi, revOff) # rev_markers vi (drop (length revOff) (c # s))
      else if c = CHR 0x1B then rev_markers vi (skip_escape s)
      else rev_markers (Suc vi) s)"
  by pat_completeness auto
termination
proof (relation "measure (\<lambda>(_, s). length s)")
  fix vi c and s :: string
  have "length (skip_escape s) \<le> length s" by (rule length_skip_escape)
  then show "((vi, skip_escape s), vi, c # s) \<in> measure (\<lambda>(_, s). length s)" by simp
qed (simp_all add: revOn_def revOff_def del: has_prefix.simps)

fun splice_markers :: "string \<Rightarrow> nat \<Rightarrow> (nat \<times> string) list \<Rightarrow> string" where
  "splice_markers txt lst [] = drop lst txt"
| "splice_markers txt lst ((p, q) # mks) =
     (let vp = (if p > length txt then length txt else p)
      in take (vp - lst) (drop lst txt) @ q @ splice_markers txt vp mks)"

definition stripStyleKeepReverse :: "text_api \<Rightarrow> string \<Rightarrow> string" where
  "stripStyleKeepReverse A s =
     (if CHR 0x1B \<notin> set s then s
      else let txt = Strip A s; markers = rev_markers 0 s
           in if markers = [] then txt else splice_markers txt 0 markers)"

section \<open>Rendering\<close>

definition clip_line :: "'v tui_api \<Rightarrow> 'v table \<Rightarrow> string \<Rightarrow> string" where
  "clip_line T m line =
     (if t_xOffset m > 0 \<or> t_contentWidth m > t_width T m
      then let vw = t_width T m;
               line1 = Cut (tui_text T) line (t_xOffset m) (t_xOffset m + vw);
               w = StringWidth (tui_text T) line1
           in if w < vw then line1 @ replicate (nat (vw - w)) (CHR '' '') else line1
      else line)"

definition headersView :: "'v tui_api \<Rightarrow> 'v table \<Rightarrow> string" where
  "headersView T m =
     clip_line T m (JoinHorizontal T
       (map (\<lambda>c. st_Header (t_styles m) (inline_cell T (col_Width c) (col_Title c)))
         (filter (\<lambda>c. \<not> col_Width c \<le> 0) (t_cols m))))"

definition row_cells :: "'v tui_api \<Rightarrow> 'v table \<Rightarrow> string list \<Rightarrow> string list" where
  "row_cells T m row =
     map (\<lambda>(value, c). st_Cell (t_styles m) (inline_cell T (col_Width c) value))
       (filter (\<lambda>(value, c). \<not> col_Width c \<le> 0) (zip row (t_cols m)))"

definition renderRow :: "'v tui_api \<Rightarrow> 'v table \<Rightarrow> int \<Rightarrow> string" where
  "renderRow T m r =
     (let row = clip_line T m (JoinHorizontal T (row_cells T m (t_rows m ! nat r)));
          override = (\<lambda>isCursor. case RowStyleFunc m of None \<Rightarrow> None
                                 | Some f \<Rightarrow> f r isCursor (selectionActive m));
          plain = (case override False of
                     Some st \<Rightarrow> st (stripStyleKeepReverse (tui_text T) row)
                   | None \<Rightarrow> row)
      in if r = t_cursor m
         then case override True of
                Some st \<Rightarrow> st (stripStyleKeepReverse (tui_text T) row)
              | None \<Rightarrow> if selectionActive m then st_Selected (t_styles m) row else plain
         else plain)"

definition t_View :: "'v tui_api \<Rightarrow> 'v table \<Rightarrow> string" where
  "t_View T m = headersView T m @ [CHR 0x0A] @ va_View T (t_viewport m)"

section \<open>The rendered window\<close>

definition render_range :: "'v tui_api \<Rightarrow> 'v table \<Rightarrow> int \<times> int" where
  "render_range T m =
     (let h = t_height T m
      in (if t_cursor m \<ge> 0 then clamp (t_cursor m - h) 0 (t_cursor m) else 0,
          clamp (t_cursor m + h) (t_cursor m) (int (length (t_rows m)))))"

definition t_UpdateViewport :: "'v tui_api \<Rightarrow> 'v table \<Rightarrow> 'v table" where
  "t_UpdateViewport T m =
     (let (s, e) = render_range T m;
          m1 = m\<lparr> t_start := s, t_end := e \<rparr>
      in m1\<lparr> t_viewport := va_SetContent T (JoinVertical T (map (renderRow T m1) [s..e - 1])) (t_viewport m1) \<rparr>)"

section \<open>Operations\<close>

definition t_EnsureCursorVisible :: "'v tui_api \<Rightarrow> 'v table \<Rightarrow> 'v table" where
  "t_EnsureCursorVisible T m0 =
     (let m = t_UpdateViewport T m0;
          cursorLine = t_cursor m - t_start m;
          yOffset = va_YOffset T (t_viewport m);
          height = t_height T m
      in if cursorLine \<ge> yOffset \<and> cursorLine < yOffset + height then m
         else m\<lparr> t_viewport :=
                va_SetYOffset T (max (cursorLine - go_quot height 2) 0) (t_viewport m) \<rparr>)"

definition t_RowAtY :: "'v tui_api \<Rightarrow> 'v table \<Rightarrow> int \<Rightarrow> int" where
  "t_RowAtY T m localY =
     (let off = localY - 1
      in if off < 0 then -1
         else if off \<ge> t_height T m then -1
         else let idx = t_start m + va_YOffset T (t_viewport m) + off
              in if idx < 0 \<or> idx \<ge> int (length (t_rows m)) then -1 else idx)"

definition t_SelectedRow :: "'v table \<Rightarrow> string list option" where
  "t_SelectedRow m =
     (if t_cursor m < 0 \<or> t_cursor m \<ge> int (length (t_rows m)) then None
      else Some (t_rows m ! nat (t_cursor m)))"

definition t_VisibleRange :: "'v table \<Rightarrow> int \<times> int" where
  "t_VisibleRange m = (t_start m, t_end m)"

definition t_set_rows :: "string list list \<Rightarrow> 'v table \<Rightarrow> 'v table" where
  "t_set_rows r m =
     (let m1 = m\<lparr> t_rows := r \<rparr>; n = int (length r)
      in if t_cursor m1 > n - 1 then m1\<lparr> t_cursor := max 0 (n - 1) \<rparr> else m1)"

definition t_SetRows :: "'v tui_api \<Rightarrow> string list list \<Rightarrow> 'v table \<Rightarrow> 'v table" where
  "t_SetRows T r m = t_UpdateViewport T (t_set_rows r m)"

definition t_SetColumns :: "'v tui_api \<Rightarrow> column list \<Rightarrow> 'v table \<Rightarrow> 'v table" where
  "t_SetColumns T c m = t_UpdateViewport T (m\<lparr> t_cols := c \<rparr>)"

definition t_SetColumnsAndRows :: "'v tui_api \<Rightarrow> column list \<Rightarrow> string list list \<Rightarrow> 'v table \<Rightarrow> 'v table" where
  "t_SetColumnsAndRows T c r m = t_UpdateViewport T (t_set_rows r (m\<lparr> t_cols := c \<rparr>))"

definition t_set_height :: "'v tui_api \<Rightarrow> int \<Rightarrow> 'v table \<Rightarrow> 'v table" where
  "t_set_height T h m =
     m\<lparr> t_viewport := va_SetHeight T (h - lg_Height T (headersView T m)) (t_viewport m) \<rparr>"

definition t_set_width :: "'v tui_api \<Rightarrow> int \<Rightarrow> 'v table \<Rightarrow> 'v table" where
  "t_set_width T w m = m\<lparr> t_viewport := va_SetWidth T w (t_viewport m) \<rparr>"

definition t_SetWidth :: "'v tui_api \<Rightarrow> int \<Rightarrow> 'v table \<Rightarrow> 'v table" where
  "t_SetWidth T w m = t_UpdateViewport T (t_set_width T w m)"

definition t_SetHeight :: "'v tui_api \<Rightarrow> int \<Rightarrow> 'v table \<Rightarrow> 'v table" where
  "t_SetHeight T h m = t_UpdateViewport T (t_set_height T h m)"

definition t_SetLayout :: "'v tui_api \<Rightarrow> column list \<Rightarrow> int \<Rightarrow> int \<Rightarrow> 'v table \<Rightarrow> 'v table" where
  "t_SetLayout T c w h m =
     t_UpdateViewport T (t_set_height T h (t_set_width T w (m\<lparr> t_cols := c \<rparr>)))"

definition t_SetStyles :: "'v tui_api \<Rightarrow> table_styles \<Rightarrow> 'v table \<Rightarrow> 'v table" where
  "t_SetStyles T s m = t_UpdateViewport T (m\<lparr> t_styles := s \<rparr>)"

definition t_SetXOffset :: "'v tui_api \<Rightarrow> int \<Rightarrow> 'v table \<Rightarrow> 'v table" where
  "t_SetXOffset T n m =
     (let maxOffset = max 0 (t_contentWidth m - t_width T m)
      in t_UpdateViewport T (m\<lparr> t_xOffset := clamp n 0 maxOffset \<rparr>))"

definition t_SetContentWidth :: "'v tui_api \<Rightarrow> int \<Rightarrow> 'v table \<Rightarrow> 'v table" where
  "t_SetContentWidth T w m =
     (let maxOffset = max 0 (w - t_width T m)
      in m\<lparr> t_contentWidth := w, t_xOffset := clamp (t_xOffset m) 0 maxOffset \<rparr>)"

definition last_row :: "'v table \<Rightarrow> int" where
  "last_row m = max 0 (int (length (t_rows m)) - 1)"

definition t_SetCursor :: "'v tui_api \<Rightarrow> int \<Rightarrow> 'v table \<Rightarrow> 'v table" where
  "t_SetCursor T n m = t_UpdateViewport T (m\<lparr> t_cursor := clamp n 0 (last_row m) \<rparr>)"

definition t_scrollToCursor :: "'v tui_api \<Rightarrow> 'v table \<Rightarrow> 'v table" where
  "t_scrollToCursor T m =
     (let height = t_height T m
      in if height \<le> 0 then t_UpdateViewport T m
         else let top0 = t_start m + va_YOffset T (t_viewport m);
                  top1 = (if t_cursor m < top0 then t_cursor m
                          else if t_cursor m > top0 + height - 1 then t_cursor m - height + 1
                          else top0);
                  m1 = t_UpdateViewport T m
              in m1\<lparr> t_viewport := va_SetYOffset T (max 0 (top1 - t_start m1)) (t_viewport m1) \<rparr>)"

definition t_MoveUp :: "'v tui_api \<Rightarrow> int \<Rightarrow> 'v table \<Rightarrow> 'v table" where
  "t_MoveUp T n m = t_scrollToCursor T (m\<lparr> t_cursor := clamp (t_cursor m - n) 0 (last_row m) \<rparr>)"

definition t_MoveDown :: "'v tui_api \<Rightarrow> int \<Rightarrow> 'v table \<Rightarrow> 'v table" where
  "t_MoveDown T n m = t_scrollToCursor T (m\<lparr> t_cursor := clamp (t_cursor m + n) 0 (last_row m) \<rparr>)"

definition t_GotoTop :: "'v tui_api \<Rightarrow> 'v table \<Rightarrow> 'v table" where
  "t_GotoTop T m = t_MoveUp T (t_cursor m) m"

definition t_GotoBottom :: "'v tui_api \<Rightarrow> 'v table \<Rightarrow> 'v table" where
  "t_GotoBottom T m = t_MoveDown T (int (length (t_rows m))) m"

definition t_Focus :: "'v tui_api \<Rightarrow> 'v table \<Rightarrow> 'v table" where
  "t_Focus T m = t_UpdateViewport T (m\<lparr> t_focus := True \<rparr>)"

definition t_Blur :: "'v tui_api \<Rightarrow> 'v table \<Rightarrow> 'v table" where
  "t_Blur T m = t_UpdateViewport T (m\<lparr> t_focus := False \<rparr>)"

definition SetSelectionActive :: "'v tui_api \<Rightarrow> bool \<Rightarrow> 'v table \<Rightarrow> 'v table" where
  "SetSelectionActive T b m =
     (if selectionActive m = b then m else t_UpdateViewport T (m\<lparr> selectionActive := b \<rparr>))"

text \<open>The bindings of the key map, in the order the switch tests them.\<close>

datatype table_key = LineUp | LineDown | PageUp | PageDown | HalfPageUp | HalfPageDown | GotoTop | GotoBottom

definition t_Update :: "'v tui_api \<Rightarrow> (table_key \<Rightarrow> bool) \<Rightarrow> 'v table \<Rightarrow> 'v table" where
  "t_Update T matches m =
     (if \<not> t_focus m then m
      else if matches LineUp then t_MoveUp T 1 m
      else if matches LineDown then t_MoveDown T 1 m
      else if matches PageUp then t_MoveUp T (t_height T m) m
      else if matches PageDown then t_MoveDown T (t_height T m) m
      else if matches HalfPageUp then t_MoveUp T (go_quot (t_height T m) 2) m
      else if matches HalfPageDown then t_MoveDown T (go_quot (t_height T m) 2) m
      else if matches GotoTop then t_GotoTop T m
      else if matches GotoBottom then t_GotoBottom T m
      else m)"

definition t_New :: "'v tui_api \<Rightarrow> table_styles \<Rightarrow> column list \<Rightarrow> bool \<Rightarrow> int \<Rightarrow> int \<Rightarrow> 'v table" where
  "t_New T dflt cs foc w h =
     (let m0 = \<lparr> RowStyleFunc = None, t_cols = cs, t_rows = [], t_cursor = 0, t_focus = foc,
                 selectionActive = False, t_styles = dflt,
                 t_viewport = va_SetHeight T 20 (va_New T),
                 t_xOffset = 0, t_contentWidth = 0, t_start = 0, t_end = 0 \<rparr>
      in t_UpdateViewport T (t_set_height T h (t_set_width T w m0)))"

section \<open>The cursor is a row\<close>

definition table_wf :: "'v table \<Rightarrow> bool" where
  "table_wf m \<longleftrightarrow> 0 \<le> t_cursor m \<and> t_cursor m \<le> last_row m"

lemma clamp_bounds: "l \<le> h \<Longrightarrow> l \<le> clamp v l h \<and> clamp v l h \<le> h"
  by (auto simp: clamp_def)

lemma clamp_id: "l \<le> v \<Longrightarrow> v \<le> h \<Longrightarrow> clamp v l h = v"
  by (auto simp: clamp_def)

lemma last_row_nonneg [simp]: "0 \<le> last_row m"
  by (simp add: last_row_def)

lemma UpdateViewport_fields [simp]:
  "t_cursor (t_UpdateViewport T m) = t_cursor m" "t_rows (t_UpdateViewport T m) = t_rows m"
  "t_cols (t_UpdateViewport T m) = t_cols m" "t_focus (t_UpdateViewport T m) = t_focus m"
  "selectionActive (t_UpdateViewport T m) = selectionActive m"
  "RowStyleFunc (t_UpdateViewport T m) = RowStyleFunc m"
  "t_xOffset (t_UpdateViewport T m) = t_xOffset m" "t_styles (t_UpdateViewport T m) = t_styles m"
  "t_contentWidth (t_UpdateViewport T m) = t_contentWidth m"
  by (simp_all add: t_UpdateViewport_def Let_def split: prod.splits)

lemma UpdateViewport_height [simp]:
  "tui_ok T \<Longrightarrow> t_height T (t_UpdateViewport T m) = t_height T m"
  "tui_ok T \<Longrightarrow> t_width T (t_UpdateViewport T m) = t_width T m"
  by (simp_all add: t_UpdateViewport_def tui_ok_def Let_def split: prod.splits)

lemma table_wf_UpdateViewport [simp]: "table_wf (t_UpdateViewport T m) = table_wf m"
  by (simp add: table_wf_def last_row_def)

lemma table_wf_set_rows: "0 \<le> t_cursor m \<Longrightarrow> table_wf (t_set_rows r m)"
  by (auto simp: table_wf_def t_set_rows_def last_row_def Let_def)

lemma table_wf_scroll [simp]: "table_wf (t_scrollToCursor T m) = table_wf m"
  by (simp add: t_scrollToCursor_def Let_def) (simp add: table_wf_def last_row_def)

lemma table_wf_cursor: "table_wf (m\<lparr> t_cursor := clamp n 0 (last_row m) \<rparr>)"
  using clamp_bounds [of 0 "last_row m" n] by (simp add: table_wf_def) (simp add: last_row_def)

lemma table_wf_ops [wf_intros]:
  "0 \<le> t_cursor m \<Longrightarrow> table_wf (t_SetRows T r m)"
  "0 \<le> t_cursor m \<Longrightarrow> table_wf (t_SetColumnsAndRows T c r m)"
  "table_wf (t_SetCursor T n m)" "table_wf (t_MoveUp T n m)" "table_wf (t_MoveDown T n m)"
  "table_wf (t_GotoTop T m)" "table_wf (t_GotoBottom T m)"
  by (simp_all add: t_SetRows_def t_SetColumnsAndRows_def t_SetCursor_def t_MoveUp_def t_MoveDown_def
      t_GotoTop_def t_GotoBottom_def table_wf_set_rows table_wf_cursor)

lemma table_wf_frames [simp]:
  "table_wf (m\<lparr> t_viewport := v \<rparr>) = table_wf m" "table_wf (m\<lparr> t_cols := c \<rparr>) = table_wf m"
  "table_wf (m\<lparr> t_focus := b \<rparr>) = table_wf m" "table_wf (m\<lparr> selectionActive := b \<rparr>) = table_wf m"
  "table_wf (m\<lparr> t_xOffset := x \<rparr>) = table_wf m" "table_wf (m\<lparr> RowStyleFunc := f \<rparr>) = table_wf m"
  "table_wf (m\<lparr> t_contentWidth := x \<rparr>) = table_wf m"
  by (simp_all add: table_wf_def last_row_def)

lemma table_wf_more [simp]:
  "table_wf (t_EnsureCursorVisible T m) = table_wf m" "table_wf (t_SetXOffset T n m) = table_wf m"
  "table_wf (t_SetContentWidth T n m) = table_wf m" "table_wf (t_Focus T m) = table_wf m"
  "table_wf (t_Blur T m) = table_wf m" "table_wf (SetSelectionActive T b m) = table_wf m"
  "table_wf (t_SetLayout T c w h m) = table_wf m"
  by (simp_all add: t_EnsureCursorVisible_def t_SetXOffset_def t_SetContentWidth_def t_Focus_def t_Blur_def
      SetSelectionActive_def t_SetLayout_def t_set_height_def t_set_width_def Let_def)

lemma table_wf_Update: "table_wf m \<Longrightarrow> table_wf (t_Update T k m)"
  by (simp add: t_Update_def table_wf_ops)

section \<open>The cursor stays visible\<close>

text \<open>The rows on screen: \<open>first_shown\<close> and \<open>height\<close> rows from it.\<close>

definition first_shown :: "'v tui_api \<Rightarrow> 'v table \<Rightarrow> int" where
  "first_shown T m = t_start m + va_YOffset T (t_viewport m)"

definition cursor_shown :: "'v tui_api \<Rightarrow> 'v table \<Rightarrow> bool" where
  "cursor_shown T m \<longleftrightarrow> first_shown T m \<le> t_cursor m \<and> t_cursor m < first_shown T m + t_height T m"

text \<open>Rendered rows are single lines.\<close>

definition rows_single :: "'v tui_api \<Rightarrow> 'v table \<Rightarrow> bool" where
  "rows_single T m \<longleftrightarrow> (\<forall>s e. \<forall>r\<in>{0..<int (length (t_rows m))}.
     CHR 0x0A \<notin> set (renderRow T (m\<lparr> t_start := s, t_end := e \<rparr>) r))"

lemma UpdateViewport_eq:
  "t_UpdateViewport T m = (let (s, e) = render_range T m in
     m\<lparr> t_start := s, t_end := e, t_viewport := va_SetContent T
       (JoinVertical T (map (renderRow T (m\<lparr> t_start := s, t_end := e \<rparr>)) [s..e - 1])) (t_viewport m) \<rparr>)"
  by (simp add: t_UpdateViewport_def Let_def split: prod.splits)

lemma render_range_wf:
  assumes "table_wf m" and "0 < t_height T m" and "t_rows m \<noteq> []"
  shows "fst (render_range T m) = max 0 (t_cursor m - t_height T m)"
    and "snd (render_range T m) = min (t_cursor m + t_height T m) (int (length (t_rows m)))"
  using assms by (auto simp: render_range_def table_wf_def clamp_def last_row_def Let_def)

lemma YOffset_after:
  assumes ok: "tui_ok T" and sc: "tui_scrolls T" and wf: "table_wf m" and h: "0 < t_height T m"
    and ne: "t_rows m \<noteq> []" and single: "rows_single T m"
  shows "va_YOffset T (va_SetYOffset T n (t_viewport (t_UpdateViewport T m))) =
    min (max n 0) (max 0 (min (t_cursor m + t_height T m) (int (length (t_rows m))) -
      max 0 (t_cursor m - t_height T m) - t_height T m))"
proof -
  obtain s e where se: "render_range T m = (s, e)" by fastforce
  have s: "s = max 0 (t_cursor m - t_height T m)"
    and e: "e = min (t_cursor m + t_height T m) (int (length (t_rows m)))"
    using render_range_wf [OF wf h ne] se by simp_all
  have lt: "s < e" using s e wf h ne by (auto simp: table_wf_def last_row_def)
  define ls where "ls = map (renderRow T (m\<lparr> t_start := s, t_end := e \<rparr>)) [s..e - 1]"
  have "ls \<noteq> []" using lt by (simp add: ls_def)
  moreover have "\<forall>l\<in>set ls. CHR 0x0A \<notin> set l"
    using single s e by (auto simp: ls_def rows_single_def)
  moreover have "int (length ls) = e - s" using lt by (simp add: ls_def)
  ultimately have "va_YOffset T (va_SetYOffset T n (va_SetContent T (JoinVertical T ls) (t_viewport m))) =
      min (max n 0) (max 0 (e - s - t_height T m))"
    using sc [unfolded tui_scrolls_def, rule_format, of "t_viewport m" ls n] h by auto
  then show ?thesis by (simp add: UpdateViewport_eq se ls_def s e)
qed

lemma start_after:
  assumes "table_wf m" and "0 < t_height T m" and "t_rows m \<noteq> []"
  shows "t_start (t_UpdateViewport T m) = max 0 (t_cursor m - t_height T m)"
  using render_range_wf(1) [OF assms] by (simp add: UpdateViewport_eq Let_def split_beta)

lemma scroll_shows_cursor:
  assumes ok: "tui_ok T" and sc: "tui_scrolls T" and wf: "table_wf m" and h: "0 < t_height T m"
    and ne: "t_rows m \<noteq> []" and single: "rows_single T m"
  shows "cursor_shown T (t_scrollToCursor T m)"
    and "cursor_shown T m \<Longrightarrow> first_shown T m \<le> int (length (t_rows m)) - t_height T m \<Longrightarrow>
      first_shown T (t_scrollToCursor T m) = max 0 (first_shown T m)"
proof -
  let ?h = "t_height T m" and ?c = "t_cursor m" and ?n = "int (length (t_rows m))"
  define top1 where "top1 = (if ?c < first_shown T m then ?c
      else if ?c > first_shown T m + ?h - 1 then ?c - ?h + 1 else first_shown T m)"
  let ?m1 = "t_UpdateViewport T m"
  have c: "0 \<le> ?c" "?c < ?n" using wf ne by (auto simp: table_wf_def last_row_def)
  have st: "t_start ?m1 = max 0 (?c - ?h)" by (rule start_after [OF wf h ne])
  have eq: "t_scrollToCursor T m =
      ?m1\<lparr> t_viewport := va_SetYOffset T (max 0 (top1 - t_start ?m1)) (t_viewport ?m1) \<rparr>"
    using h by (simp add: t_scrollToCursor_def Let_def top1_def first_shown_def)
  have y: "va_YOffset T (va_SetYOffset T k (t_viewport ?m1)) =
      min (max k 0) (max 0 (min (?c + ?h) ?n - max 0 (?c - ?h) - ?h))" for k
    by (rule YOffset_after [OF ok sc wf h ne single])
  have hh: "t_height T (t_scrollToCursor T m) = ?h"
    using ok UpdateViewport_height(1) [OF ok, of m] by (simp add: eq tui_ok_def)
  have top: "top1 \<le> ?c" "?c < top1 + ?h" using h by (auto simp: top1_def)
  have fs: "first_shown T (t_scrollToCursor T m) =
      max 0 (?c - ?h) + min (max (max 0 (top1 - max 0 (?c - ?h))) 0) (max 0 (min (?c + ?h) ?n - max 0 (?c - ?h) - ?h))"
    by (simp add: first_shown_def eq y st)
  show "cursor_shown T (t_scrollToCursor T m)"
    using top c h unfolding cursor_shown_def hh fs by (auto simp: eq)
  show "first_shown T (t_scrollToCursor T m) = max 0 (first_shown T m)"
    if "cursor_shown T m" "first_shown T m \<le> ?n - ?h"
  proof -
    have "top1 = first_shown T m" using that(1) by (auto simp: top1_def cursor_shown_def)
    then show ?thesis using that(2) top c h unfolding fs by auto
  qed
qed

lemma ensure_shows_cursor:
  assumes ok: "tui_ok T" and sc: "tui_scrolls T" and wf: "table_wf m" and h: "0 < t_height T m"
    and ne: "t_rows m \<noteq> []" and single: "rows_single T m"
  shows "cursor_shown T (t_EnsureCursorVisible T m)"
proof -
  let ?m1 = "t_UpdateViewport T m" and ?h = "t_height T m" and ?c = "t_cursor m" and ?n = "int (length (t_rows m))"
  have c: "0 \<le> ?c" "?c < ?n" using wf ne by (auto simp: table_wf_def last_row_def)
  have st: "t_start ?m1 = max 0 (?c - ?h)" by (rule start_after [OF wf h ne])
  have hh: "t_height T ?m1 = ?h" by (rule UpdateViewport_height(1) [OF ok])
  show ?thesis
  proof (cases "?c - t_start ?m1 \<ge> va_YOffset T (t_viewport ?m1) \<and>
      ?c - t_start ?m1 < va_YOffset T (t_viewport ?m1) + ?h")
    case True
    then show ?thesis
      by (auto simp: t_EnsureCursorVisible_def Let_def hh cursor_shown_def first_shown_def)
  next
    case False
    let ?k = "max (?c - t_start ?m1 - go_quot ?h 2) 0"
    have eq: "t_EnsureCursorVisible T m = ?m1\<lparr> t_viewport := va_SetYOffset T ?k (t_viewport ?m1) \<rparr>"
      using False by (auto simp: t_EnsureCursorVisible_def Let_def hh)
    have y: "va_YOffset T (va_SetYOffset T ?k (t_viewport ?m1)) =
        min (max ?k 0) (max 0 (min (?c + ?h) ?n - max 0 (?c - ?h) - ?h))"
      by (rule YOffset_after [OF ok sc wf h ne single])
    have q: "go_quot ?h 2 = ?h div 2" using h by (simp add: go_quot_def)
    have h2: "t_height T (t_EnsureCursorVisible T m) = ?h"
      using ok hh by (simp add: eq tui_ok_def)
    define d where "d = ?h div 2"
    have d: "0 \<le> d" "d < ?h" using h by (auto simp: d_def)
    have "first_shown T (t_EnsureCursorVisible T m) = max 0 (?c - ?h) +
        min (max (max (?c - max 0 (?c - ?h) - d) 0) 0) (max 0 (min (?c + ?h) ?n - max 0 (?c - ?h) - ?h))"
    proof -
      have "first_shown T (t_EnsureCursorVisible T m) =
          t_start ?m1 + va_YOffset T (va_SetYOffset T ?k (t_viewport ?m1))"
        by (simp only: first_shown_def eq) simp
      then show ?thesis by (simp only: y) (simp only: st q d_def)
    qed
    moreover have "t_cursor (t_EnsureCursorVisible T m) = ?c" by (simp add: eq)
    ultimately show ?thesis using c h d unfolding cursor_shown_def h2 by (auto simp: min_def max_def)
  qed
qed

text \<open>A click on the line that shows row \<open>k\<close> is mapped to row \<open>k\<close>, and nothing else is.\<close>

lemma RowAtY_shown:
  assumes "0 \<le> first_shown T m"
  shows "t_RowAtY T m y = k \<and> k \<noteq> -1 \<longleftrightarrow>
    (first_shown T m \<le> k \<and> k < first_shown T m + t_height T m \<and> k < int (length (t_rows m)) \<and>
     y = 1 + (k - first_shown T m))"
  using assms by (auto simp: t_RowAtY_def Let_def first_shown_def)

section \<open>Stripping keeps the text\<close>

lemma visible_rev: "visible_bytes (revOn @ t) = visible_bytes t" "visible_bytes (revOff @ t) = visible_bytes t"
  by (simp_all add: revOn_def revOff_def skip_escape_def isANSITerminator_def)

lemma rev_markers_pos: "mk \<in> set (rev_markers vi s) \<Longrightarrow> vi \<le> fst mk \<and> snd mk \<in> {revOn, revOff}"
  by (induction vi s rule: rev_markers.induct) (auto split: if_splits simp del: has_prefix.simps)

lemma rev_markers_sorted: "sorted (map fst (rev_markers vi s))"
  by (induction vi s rule: rev_markers.induct)
    (auto dest: rev_markers_pos simp del: has_prefix.simps)

lemma visible_splice:
  assumes "CHR 0x1B \<notin> set txt" and "lst \<le> length txt" and "sorted (map fst mks)"
    and "\<forall>mk\<in>set mks. lst \<le> fst mk \<and> snd mk \<in> {revOn, revOff}"
  shows "visible_bytes (splice_markers txt lst mks) = drop lst txt"
  using assms
proof (induction mks arbitrary: lst)
  case Nil
  then have "CHR 0x1B \<notin> set (drop lst txt)" by (auto dest: in_set_dropD)
  then show ?case by (simp add: visible_plain)
next
  case (Cons mk mks)
  obtain p q where mk: "mk = (p, q)" by (cases mk)
  let ?vp = "if p > length txt then length txt else p"
  have le: "lst \<le> ?vp" "?vp \<le> length txt" using Cons.prems mk by auto
  have plain: "CHR 0x1B \<notin> set (take (?vp - lst) (drop lst txt))"
    using Cons.prems(1) by (auto dest!: in_set_takeD in_set_dropD)
  have "visible_bytes (splice_markers txt ?vp mks) = drop ?vp txt"
    by (rule Cons.IH) (use Cons.prems mk le in auto)
  moreover have "visible_bytes (q @ t) = visible_bytes t" for t
    using Cons.prems(4) mk visible_rev by auto
  ultimately have "visible_bytes (splice_markers txt lst (mk # mks)) =
      take (?vp - lst) (drop lst txt) @ drop ?vp txt"
    using plain by (simp add: mk Let_def visible_append escapes_closed_plain visible_plain)
  also have "\<dots> = drop lst txt"
    using le by (metis append_take_drop_id drop_drop le_add_diff_inverse2)
  finally show ?case .
qed

lemma visible_stripStyle:
  assumes "Strip A s = visible_bytes s"
  shows "visible_bytes (stripStyleKeepReverse A s) = visible_bytes s"
proof (cases "CHR 0x1B \<in> set s")
  case True
  have "visible_bytes (splice_markers (visible_bytes s) 0 (rev_markers 0 s)) = visible_bytes s"
    using visible_splice [OF visible_no_escape _ rev_markers_sorted, of 0 s 0 s] rev_markers_pos by auto
  then show ?thesis
    using True by (simp add: stripStyleKeepReverse_def Let_def assms visible_plain visible_no_escape)
qed (simp add: stripStyleKeepReverse_def)

end
