(* ===== verification/Cell_Highlight.thy ===== *)
theory Cell_Highlight
  imports Extern Escapes
begin

text \<open>
  \<^verbatim>\<open>internal/ui/highlight.go\<close>: search matches in a table cell. The cell carries escape
  sequences; matches are found in the stripped text and mapped back to byte offsets of the cell.
  \<open>isEscTerminator\<close> is \<open>isANSITerminator\<close> of the table; the theme's two colours are arguments.
\<close>

definition highlightOn :: string where "highlightOn = [CHR 0x1B] @ ''[7m''"
definition highlightOff :: string where "highlightOff = [CHR 0x1B] @ ''[27m''"
definition highlightMatchOff :: string where
  "highlightMatchOff = [CHR 0x1B] @ ''[49m'' @ [CHR 0x1B] @ ''[39m''"

definition hex_digit :: "char \<Rightarrow> nat option" where
  "hex_digit c =
     (let n = (of_char c :: nat)
      in if 48 \<le> n \<and> n \<le> 57 then Some (n - 48)
         else if 97 \<le> n \<and> n \<le> 102 then Some (n - 87)
         else if 65 \<le> n \<and> n \<le> 70 then Some (n - 55) else None)"

definition parse_hex2 :: "string \<Rightarrow> nat option" where
  "parse_hex2 s = (case (hex_digit (s ! 0), hex_digit (s ! 1)) of
     (Some a, Some b) \<Rightarrow> Some (16 * a + b) | _ \<Rightarrow> None)"

definition colorToSGR :: "string \<Rightarrow> bool \<Rightarrow> string" where
  "colorToSGR c bg =
     (let base = (if bg then ''48'' else ''38'')
      in if c \<noteq> [] \<and> c ! 0 = CHR ''#'' \<and> length c = 7
         then case (parse_hex2 (drop 1 c), parse_hex2 (drop 3 c), parse_hex2 (drop 5 c)) of
                (Some r, Some g, Some b) \<Rightarrow>
                  base @ '';2;'' @ itoa (int r) @ '';'' @ itoa (int g) @ '';'' @ itoa (int b)
              | _ \<Rightarrow> base @ '';5;1''
         else base @ '';5;'' @ c)"

definition highlightMatchOn :: "string \<Rightarrow> string \<Rightarrow> string" where
  "highlightMatchOn SearchMatch SearchFg =
     [CHR 0x1B, CHR ''[''] @ colorToSGR SearchMatch True @ ''m'' @
     [CHR 0x1B, CHR ''[''] @ colorToSGR SearchFg False @ ''m''"

text \<open>The style sequences of a string, concatenated.\<close>

function collectSGR :: "string \<Rightarrow> string" where
  "collectSGR [] = []"
| "collectSGR (c # s) =
     (if c \<noteq> CHR 0x1B then collectSGR s
      else let body = takeWhile (\<lambda>d. \<not> isANSITerminator d) s;
               rest = dropWhile (\<lambda>d. \<not> isANSITerminator d) s
           in case rest of [] \<Rightarrow> []
              | t # r \<Rightarrow> (if t = CHR ''m'' then c # body @ [t] else []) @ collectSGR (skip_escape s))"
  by pat_completeness auto
termination
  by (relation "measure length") (simp_all add: length_skip_escape less_Suc_eq_le)

text \<open>
  The walk that fills \<open>visualToOrig\<close>: the byte offsets of the visible bytes before \<open>n\<close>, and
  the offset where the walk ends, which is the sentinel.
\<close>

function vto_walk :: "nat \<Rightarrow> nat \<Rightarrow> nat \<Rightarrow> string \<Rightarrow> nat list \<times> nat" where
  "vto_walk n vi oi [] = ([], oi)"
| "vto_walk n vi oi (c # s) =
     (if vi > n then ([], oi)
      else if c = CHR 0x1B
      then vto_walk n vi (oi + 1 + (length s - length (skip_escape s))) (skip_escape s)
      else let (l, e) = vto_walk n (vi + 1) (oi + 1) s in (if vi < n then oi # l else l, e))"
  by pat_completeness auto
termination
  by (relation "measure (\<lambda>(_, _, _, s). length s)") (simp_all add: length_skip_escape less_Suc_eq_le)

definition visualToOrig :: "nat \<Rightarrow> string \<Rightarrow> nat \<Rightarrow> nat" where
  "visualToOrig n cell k =
     (let (l, e) = vto_walk n 0 0 cell
      in if k = n then e else if k < length l then l ! k else 0)"

definition piece :: "string \<Rightarrow> nat \<Rightarrow> nat \<Rightarrow> string" where
  "piece s a b = take (b - a) (drop a s)"

fun highlight_locs ::
  "string \<Rightarrow> nat \<Rightarrow> (nat \<Rightarrow> nat) \<Rightarrow> string \<Rightarrow> string \<Rightarrow> nat \<Rightarrow> (nat \<times> nat) list \<Rightarrow> string" where
  "highlight_locs cell n vto on off lastOrig [] = drop lastOrig cell"
| "highlight_locs cell n vto on off lastOrig ((a, b) # locs) =
     (if a > n \<or> b > n then highlight_locs cell n vto on off lastOrig locs
      else piece cell lastOrig (vto a) @ on @ piece cell (vto a) (vto b) @ off @
           collectSGR (take (vto a) cell) @ highlight_locs cell n vto on off (vto b) locs)"

definition highlightWith :: "text_api \<Rightarrow> string \<Rightarrow> regexp option \<Rightarrow> string \<Rightarrow> string \<Rightarrow> string" where
  "highlightWith A cell re on off =
     (case re of None \<Rightarrow> cell
      | Some rx \<Rightarrow>
          if cell = '''' then cell
          else let txt = Strip A cell;
                   locs = filter (\<lambda>(a, b). a \<noteq> b) (FindAllStringIndex rx txt)
               in if locs = [] then cell
                  else highlight_locs cell (length txt) (visualToOrig (length txt) cell) on off 0 locs)"

definition HighlightMatches :: "text_api \<Rightarrow> string \<Rightarrow> regexp option \<Rightarrow> string" where
  "HighlightMatches A cell re = highlightWith A cell re highlightOn highlightOff"

definition HighlightMatchesColor :: "text_api \<Rightarrow> string \<Rightarrow> string \<Rightarrow> string \<Rightarrow> regexp option \<Rightarrow> string" where
  "HighlightMatchesColor A SearchMatch SearchFg cell re =
     highlightWith A cell re (highlightMatchOn SearchMatch SearchFg) highlightMatchOff"

section \<open>Highlighting keeps the text\<close>

lemma collectSGR_invisible: "escapes_closed (collectSGR s) \<and> visible_bytes (collectSGR s) = []"
proof (induction s rule: collectSGR.induct)
  case (2 c s)
  show ?case
  proof (cases "c = CHR 0x1B \<and> dropWhile (\<lambda>d. \<not> isANSITerminator d) s \<noteq> []")
    case True
    then obtain t r where t: "dropWhile (\<lambda>d. \<not> isANSITerminator d) s = t # r"
      by (meson neq_Nil_conv)
    let ?body = "takeWhile (\<lambda>d. \<not> isANSITerminator d) s"
    have "isANSITerminator t" using hd_dropWhile [of "\<lambda>d. \<not> isANSITerminator d" s] t by simp
    moreover have "\<forall>d\<in>set ?body. \<not> isANSITerminator d" using set_takeWhileD by fast
    ultimately have sk: "skip_escape (?body @ [t]) = []"
      by (simp add: skip_escape_def dropWhile_append2)
    have seq: "escapes_closed (CHR 0x1B # ?body @ [t])" "visible_bytes (CHR 0x1B # ?body @ [t]) = []"
      using sk \<open>isANSITerminator t\<close> by simp_all
    have IH: "escapes_closed (collectSGR (skip_escape s))" "visible_bytes (collectSGR (skip_escape s)) = []"
      using "2.IH"(2) [OF _ refl refl t] True by auto
    have eq: "collectSGR (c # s) = (if t = CHR ''m'' then (CHR 0x1B # ?body @ [t]) else []) @ collectSGR (skip_escape s)"
      using True by (simp only: collectSGR.simps t Let_def list.case) simp
    show ?thesis
    proof (cases "t = CHR ''m''")
      case True
      have "collectSGR (c # s) = (CHR 0x1B # ?body @ [t]) @ collectSGR (skip_escape s)"
        using eq unfolding if_P [OF True] .
      then show ?thesis
        using IH escapes_closed_append [OF seq(1), of "collectSGR (skip_escape s)"]
          visible_append [OF seq(1), of "collectSGR (skip_escape s)"] seq(2) by simp
    next
      case False
      have "collectSGR (c # s) = collectSGR (skip_escape s)"
        using eq unfolding if_not_P [OF False] append_Nil .
      then show ?thesis using IH by (simp only:)
    qed
  next
    case False
    then show ?thesis
    proof (cases "c = CHR 0x1B")
      case True
      with False have "dropWhile (\<lambda>d. \<not> isANSITerminator d) s = []" by simp
      with True show ?thesis by (simp del: dropWhile_eq_Nil_conv)
    qed (use "2.IH"(1) in simp)
  qed
qed simp

text \<open>Every visual offset up to the end of the text is a point outside escapes.\<close>

definition cut_ok :: "string \<Rightarrow> nat \<Rightarrow> nat \<Rightarrow> bool" where
  "cut_ok s k p \<longleftrightarrow> p \<le> length s \<and> escapes_closed (take p s) \<and> visible_bytes (take p s) = take k (visible_bytes s)"

lemma escape_head:
  assumes "\<exists>d\<in>set s. isANSITerminator d"
  shows "\<exists>u. s = u @ skip_escape s \<and> escapes_closed (CHR 0x1B # u) \<and> visible_bytes (CHR 0x1B # u) = []"
proof -
  let ?w = "takeWhile (\<lambda>d. \<not> isANSITerminator d) s" and ?r = "dropWhile (\<lambda>d. \<not> isANSITerminator d) s"
  have "?r \<noteq> []" using assms by (simp add: dropWhile_eq_Nil_conv)
  then obtain t r where t: "?r = t # r" by (meson neq_Nil_conv)
  have tt: "isANSITerminator t" using hd_dropWhile [of "\<lambda>d. \<not> isANSITerminator d" s] t by simp
  have "\<forall>d\<in>set ?w. \<not> isANSITerminator d" using set_takeWhileD by fast
  then have "skip_escape (?w @ [t]) = []" using tt by (simp add: skip_escape_def dropWhile_append2)
  then have "escapes_closed (CHR 0x1B # ?w @ [t])" "visible_bytes (CHR 0x1B # ?w @ [t]) = []"
    using tt by simp_all
  moreover have "s = (?w @ [t]) @ skip_escape s"
    using takeWhile_dropWhile_id [of "\<lambda>d. \<not> isANSITerminator d" s] t by (simp add: skip_escape_def)
  ultimately show ?thesis by blast
qed

lemma vto_walk_cuts:
  assumes "cell = pre @ s" and "oi = length pre" and "escapes_closed pre" and "escapes_closed s"
    and "vi = length (visible_bytes pre)" and "n = length (visible_bytes cell)"
    and "vto_walk n vi oi s = (l, e)"
  shows "e = length cell \<and> length l = n - vi \<and> (\<forall>k < n - vi. cut_ok cell (vi + k) (l ! k))"
  using assms
proof (induction n vi oi s arbitrary: pre l e rule: vto_walk.induct)
  case (1 n vi oi)
  then show ?case by simp
next
  case (2 n vi oi c s)
  have vis: "visible_bytes cell = visible_bytes pre @ visible_bytes (c # s)"
    using "2.prems" by (simp add: visible_append)
  then have le: "\<not> vi > n" using "2.prems" by simp
  show ?case
  proof (cases "c = CHR 0x1B")
    case True
    then obtain u where u: "s = u @ skip_escape s" "escapes_closed (CHR 0x1B # u)" "visible_bytes (CHR 0x1B # u) = []"
      using escape_head [of s] "2.prems"(4) by auto
    let ?pre = "pre @ CHR 0x1B # u"
    have len: "length u = length s - length (skip_escape s)" using arg_cong [OF u(1), of length] by simp
    show ?thesis
    proof (rule "2.IH"(1) [OF le True])
      show "cell = ?pre @ skip_escape s" using "2.prems"(1) True u(1) by simp
      show "oi + 1 + (length s - length (skip_escape s)) = length ?pre" using "2.prems"(2) len by simp
      show "escapes_closed ?pre" using "2.prems"(3) u(2) by (simp add: escapes_closed_append)
      show "escapes_closed (skip_escape s)" using "2.prems"(4) True by simp
      show "vi = length (visible_bytes ?pre)" using "2.prems"(3,5) u(3) by (simp add: visible_append)
      show "n = length (visible_bytes cell)" by fact
      show "vto_walk n vi (oi + 1 + (length s - length (skip_escape s))) (skip_escape s) = (l, e)"
        using "2.prems"(7) le True by simp
    qed
  next
    case False
    obtain l' e' where r: "vto_walk n (vi + 1) (oi + 1) s = (l', e')" by fastforce
    have lt: "vi < n" using vis False "2.prems"(5,6) by simp
    have le': "l = oi # l'" "e = e'" using "2.prems"(7) le False r lt by auto
    have IH: "e' = length cell \<and> length l' = n - (vi + 1) \<and> (\<forall>k < n - (vi + 1). cut_ok cell (vi + 1 + k) (l' ! k))"
    proof (rule "2.IH"(2) [OF le False])
      show "cell = (pre @ [c]) @ s" using "2.prems"(1) by simp
      show "oi + 1 = length (pre @ [c])" using "2.prems"(2) by simp
      show "escapes_closed (pre @ [c])" using "2.prems"(3) False by (simp add: escapes_closed_append)
      show "escapes_closed s" using "2.prems"(4) False by simp
      show "vi + 1 = length (visible_bytes (pre @ [c]))" using "2.prems"(3,5) False by (simp add: visible_append)
      show "n = length (visible_bytes cell)" by fact
      show "vto_walk n (vi + 1) (oi + 1) s = (l', e')" by fact
    qed
    have "cut_ok cell vi oi" using "2.prems" by (simp add: cut_ok_def visible_append)
    then have "cut_ok cell (vi + k) (l ! k)" if "k < n - vi" for k
      using IH that le'(1) by (cases k) auto
    then show ?thesis using IH le' lt by auto
  qed
qed

lemma visualToOrig_cut:
  assumes "escapes_closed cell" and "n = length (visible_bytes cell)" and "k \<le> n"
  shows "cut_ok cell k (visualToOrig n cell k)"
proof -
  obtain l e where w: "vto_walk n 0 0 cell = (l, e)" by fastforce
  from vto_walk_cuts [OF _ _ _ assms(1) _ assms(2) w, of "[]"]
  have r: "e = length cell" "length l = n" "\<forall>k < n. cut_ok cell k (l ! k)" by auto
  show ?thesis
    using r w assms by (auto simp: visualToOrig_def cut_ok_def Let_def)
qed

lemma cut_mono:
  assumes "cut_ok s a p" and "cut_ok s b q" and "a < b" and "b \<le> length (visible_bytes s)"
  shows "p \<le> q"
proof (rule ccontr)
  assume "\<not> p \<le> q"
  then have "visible_bytes (take p s) = visible_bytes (take q s) @ visible_bytes (take (p - q) (drop q s))"
    using assms by (intro visible_piece(1)) (auto simp: cut_ok_def)
  then have "take a (visible_bytes s) = take b (visible_bytes s) @ visible_bytes (take (p - q) (drop q s))"
    using assms(1,2) by (simp add: cut_ok_def)
  from arg_cong [OF this, of length] show False using assms(3,4) by simp
qed

lemma cut_piece:
  assumes p: "cut_ok s a p" and q: "cut_ok s b q" and le: "p \<le> q" "a \<le> b"
  shows "visible_bytes (piece s p q @ t) = take (b - a) (drop a (visible_bytes s)) @ visible_bytes t"
    and "escapes_closed (piece s p q)"
proof -
  have c: "escapes_closed (piece s p q)" and v: "visible_bytes (take q s) = visible_bytes (take p s) @ visible_bytes (piece s p q)"
    using visible_piece [of p s q] p q le by (auto simp: cut_ok_def piece_def)
  have "take b (visible_bytes s) = take a (visible_bytes s) @ take (b - a) (drop a (visible_bytes s))"
    using le(2) by (metis le_add_diff_inverse take_add)
  then have "visible_bytes (piece s p q) = take (b - a) (drop a (visible_bytes s))"
    using v p q by (simp add: cut_ok_def)
  then show "visible_bytes (piece s p q @ t) = take (b - a) (drop a (visible_bytes s)) @ visible_bytes t"
    using c by (simp add: visible_append)
  show "escapes_closed (piece s p q)" by (rule c)
qed

text \<open>The locations of a regular expression: nonempty, ordered, inside the text.\<close>

fun locs_ok :: "nat \<Rightarrow> nat \<Rightarrow> (nat \<times> nat) list \<Rightarrow> bool" where
  "locs_ok lo n [] = (lo \<le> n)"
| "locs_ok lo n ((a, b) # locs) = (lo \<le> a \<and> a < b \<and> b \<le> n \<and> locs_ok b n locs)"

lemma cut_end: "cut_ok s a p \<Longrightarrow> visible_bytes (drop p s) = drop a (visible_bytes s)"
  by (metis append_take_drop_id append_eq_append_conv cut_ok_def visible_append)

lemma highlight_locs_visible:
  assumes cl: "escapes_closed cell" and n: "n = length (visible_bytes cell)"
    and on: "escapes_closed on" "visible_bytes on = []" and off: "escapes_closed off" "visible_bytes off = []"
  shows "cut_ok cell lo p \<Longrightarrow> (lo = 0 \<and> p = 0 \<or> p = visualToOrig n cell lo) \<Longrightarrow> locs_ok lo n locs \<Longrightarrow>
    visible_bytes (highlight_locs cell n (visualToOrig n cell) on off p locs) = drop lo (visible_bytes cell)"
proof (induction locs arbitrary: lo p)
  case Nil
  then show ?case by (simp add: cut_end)
next
  case (Cons ab locs)
  obtain a b where ab: "ab = (a, b)" by (cases ab)
  let ?vto = "visualToOrig n cell" and ?v = "visible_bytes cell"
  have r: "lo \<le> a" "a < b" "b \<le> n" "locs_ok b n locs" using Cons.prems(3) ab by auto
  have ca: "cut_ok cell a (?vto a)" and cb: "cut_ok cell b (?vto b)"
    using visualToOrig_cut [OF cl n] r by simp_all
  have pa: "p \<le> ?vto a" using Cons.prems(1,2) ca r n cut_mono [of cell lo p a "?vto a"] by (cases "lo = a") auto
  have ab': "?vto a \<le> ?vto b" using cut_mono [OF ca cb] r n by simp
  let ?sgr = "collectSGR (take (?vto a) cell)"
  let ?t = "highlight_locs cell n ?vto on off (?vto b) locs"
  have IH: "visible_bytes ?t = drop b ?v" by (rule Cons.IH [OF cb]) (use r in auto)
  have tail: "visible_bytes (off @ ?sgr @ ?t) = drop b ?v"
    using off collectSGR_invisible [of "take (?vto a) cell"] IH by (simp add: visible_append)
  have "visible_bytes (highlight_locs cell n ?vto on off p (ab # locs)) =
      visible_bytes (piece cell p (?vto a) @ on @ piece cell (?vto a) (?vto b) @ off @ ?sgr @ ?t)"
    using r ab by simp
  also have "\<dots> = take (a - lo) (drop lo ?v) @ visible_bytes (on @ piece cell (?vto a) (?vto b) @ off @ ?sgr @ ?t)"
    by (rule cut_piece(1) [OF Cons.prems(1) ca pa r(1)])
  also have "visible_bytes (on @ piece cell (?vto a) (?vto b) @ off @ ?sgr @ ?t) =
      visible_bytes (piece cell (?vto a) (?vto b) @ off @ ?sgr @ ?t)"
    using on by (simp add: visible_append)
  also have "\<dots> = take (b - a) (drop a ?v) @ visible_bytes (off @ ?sgr @ ?t)"
    by (rule cut_piece(1) [OF ca cb ab']) (use r in simp)
  also note tail
  also have "take (a - lo) (drop lo ?v) @ take (b - a) (drop a ?v) @ drop b ?v = drop lo ?v"
  proof -
    have "take (b - a) (drop a ?v) @ drop b ?v = drop a ?v"
      using r(2) by (metis append_take_drop_id drop_drop le_add_diff_inverse2 less_imp_le)
    moreover have "take (a - lo) (drop lo ?v) @ drop a ?v = drop lo ?v"
      using r(1) by (metis append_take_drop_id drop_drop le_add_diff_inverse2)
    ultimately show ?thesis by simp
  qed
  finally show ?case .
qed

lemma highlightWith_visible:
  assumes "escapes_closed cell" and "Strip A cell = visible_bytes cell"
    and "escapes_closed on" "visible_bytes on = []" and "escapes_closed off" "visible_bytes off = []"
    and "\<And>rx. re = Some rx \<Longrightarrow> locs_ok 0 (length (visible_bytes cell))
           (filter (\<lambda>(a, b). a \<noteq> b) (FindAllStringIndex rx (visible_bytes cell)))"
  shows "visible_bytes (highlightWith A cell re on off) = visible_bytes cell"
proof (cases re)
  case (Some rx)
  have "cut_ok cell 0 0" by (simp add: cut_ok_def)
  with assms(7) [OF Some] show ?thesis
    using highlight_locs_visible [OF assms(1) refl assms(3-6), of 0 0]
    by (simp add: highlightWith_def Some assms(2) Let_def)
qed (simp add: highlightWith_def)

end
