(* ===== verification/Table_Props.thy ===== *)
theory Table_Props
  imports Table Cell_Highlight Plain_Tui
begin

text \<open>
  The properties of the table widget and of the highlighting of cells, with concrete tables of
  the instance \<^verbatim>\<open>Plain_Tui\<close> they are applied to.
\<close>

section \<open>Concrete tables\<close>

definition demo_styles :: table_styles where
  "demo_styles = \<lparr> st_Header = (\<lambda>s. s), st_Cell = (\<lambda>s. s), st_Selected = (\<lambda>s. s) \<rparr>"

text \<open>A table of one column with \<open>n\<close> rows and \<open>h\<close> lines for them.\<close>

definition demo_table :: "nat \<Rightarrow> int \<Rightarrow> plain_vp table" where
  "demo_table n h = t_SetRows plain_tui (replicate n [''row''])
     (t_New plain_tui demo_styles [\<lparr> col_Title = ''NAME'', col_Width = 6 \<rparr>] True 10 (h + 1))"


lemma renderRow_window: "renderRow T (m\<lparr> t_start := s, t_end := e \<rparr>) r = renderRow T m r"
  by (simp add: renderRow_def row_cells_def clip_line_def Let_def cong: option.case_cong if_cong)

definition single_upto :: "'v tui_api \<Rightarrow> 'v table \<Rightarrow> bool" where
  "single_upto T m \<longleftrightarrow> list_all (\<lambda>r. CHR 0x0A \<notin> set (renderRow T m r)) [0..int (length (t_rows m)) - 1]"

lemma rows_single_upto: "single_upto T m \<Longrightarrow> rows_single T m"
  by (simp add: rows_single_def renderRow_window single_upto_def list_all_iff)

lemma demo_single: "rows_single plain_tui (demo_table 5 2)"
  by (rule rows_single_upto) code_simp

lemma renderRow_plain:
  assumes "RowStyleFunc m = None" and "st_Selected (t_styles m) = (\<lambda>s. s)"
  shows "renderRow T m r = clip_line T m (JoinHorizontal T (row_cells T m (t_rows m ! nat r)))"
  using assms by (simp add: renderRow_def Let_def)

lemma renderRow_cursor:
  assumes "RowStyleFunc m = None" and "st_Selected (t_styles m) = (\<lambda>s. s)"
  shows "renderRow T (m\<lparr> t_cursor := k \<rparr>) r = renderRow T m r"
  using assms by (simp add: renderRow_plain clip_line_def row_cells_def)

lemma demo_plain: "RowStyleFunc (demo_table n h) = None" "t_styles (demo_table n h) = demo_styles"
  by (simp_all add: demo_table_def t_SetRows_def t_set_rows_def t_New_def t_set_height_def t_set_width_def Let_def)

lemma demo_moved_single: "rows_single plain_tui ((demo_table 5 2)\<lparr> t_cursor := k \<rparr>)"
  using demo_single demo_plain [of 5 2]
  by (simp add: rows_single_def renderRow_window renderRow_cursor demo_styles_def)

section \<open>The cursor and the window\<close>

text \<open>C28. After any movement the cursor is a row of the table and that row is on screen.\<close>

theorem table_moves_show_cursor:
  assumes "tui_ok T" and "tui_scrolls T" and "0 < t_height T m" and "t_rows m \<noteq> []"
    and "\<And>c. rows_single T (m\<lparr> t_cursor := c \<rparr>)"
  shows "cursor_shown T (t_MoveUp T n m) \<and> cursor_shown T (t_MoveDown T n m) \<and>
    cursor_shown T (t_GotoTop T m) \<and> cursor_shown T (t_GotoBottom T m) \<and>
    t_SelectedRow (t_MoveUp T n m) \<noteq> None \<and> t_SelectedRow (t_MoveDown T n m) \<noteq> None"
proof -
  have sel: "table_wf k \<Longrightarrow> t_rows k \<noteq> [] \<Longrightarrow> t_SelectedRow k \<noteq> None" for k :: "'a table"
    by (auto simp: table_wf_def last_row_def t_SelectedRow_def)
  have shown: "cursor_shown T (t_scrollToCursor T (m\<lparr> t_cursor := clamp k 0 (last_row m) \<rparr>))" for k
    using scroll_shows_cursor(1) [OF assms(1,2) table_wf_cursor [of k m]] assms(3-5) by simp
  have up: "cursor_shown T (t_MoveUp T k m)" and dn: "cursor_shown T (t_MoveDown T k m)" for k
    using shown by (simp_all add: t_MoveUp_def t_MoveDown_def)
  have rws: "t_rows (t_scrollToCursor T k) = t_rows k" for k :: "'a table"
    by (simp add: t_scrollToCursor_def Let_def)
  have "t_rows (t_MoveUp T n m) \<noteq> []" "t_rows (t_MoveDown T n m) \<noteq> []"
    using assms(4) by (simp_all add: t_MoveUp_def t_MoveDown_def rws)
  then have "t_SelectedRow (t_MoveUp T n m) \<noteq> None" "t_SelectedRow (t_MoveDown T n m) \<noteq> None"
    by (intro sel table_wf_ops; simp)+
  then show ?thesis
    using up dn by (simp add: t_GotoTop_def t_GotoBottom_def)
qed

theorem table_moves_show_cursor_witness:
  "cursor_shown plain_tui (t_MoveDown plain_tui 3 (demo_table 5 2)) \<and>
   t_cursor (t_MoveDown plain_tui 3 (demo_table 5 2)) = 3"
proof -
  have "0 < t_height plain_tui (demo_table 5 2)" "t_rows (demo_table 5 2) \<noteq> []"
    "t_cursor (t_MoveDown plain_tui 3 (demo_table 5 2)) = 3" by code_simp+
  with table_moves_show_cursor [of plain_tui "demo_table 5 2" 3] plain_tui_ok plain_tui_scrolls demo_moved_single
  show ?thesis by blast
qed

text \<open>Interactive movement scrolls no more than needed: when the cursor row is already on
  screen the window does not move.\<close>

theorem table_scroll_minimal:
  assumes "tui_ok T" and "tui_scrolls T" and "table_wf m" and "0 < t_height T m" and "t_rows m \<noteq> []"
    and "rows_single T m" and "cursor_shown T m" and "0 \<le> first_shown T m"
    and "first_shown T m \<le> int (length (t_rows m)) - t_height T m"
  shows "first_shown T (t_scrollToCursor T m) = first_shown T m"
  using scroll_shows_cursor(2) [OF assms(1-6) assms(7,9)] assms(8) by simp

theorem table_scroll_minimal_witness:
  "first_shown plain_tui (t_scrollToCursor plain_tui (demo_table 5 2)) = first_shown plain_tui (demo_table 5 2)"
proof -
  have "table_wf (demo_table 5 2)" "0 < t_height plain_tui (demo_table 5 2)" "t_rows (demo_table 5 2) \<noteq> []"
    "cursor_shown plain_tui (demo_table 5 2)" "0 \<le> first_shown plain_tui (demo_table 5 2)"
    "first_shown plain_tui (demo_table 5 2) \<le> int (length (t_rows (demo_table 5 2))) - t_height plain_tui (demo_table 5 2)"
    by code_simp+
  with table_scroll_minimal [OF plain_tui_ok plain_tui_scrolls] demo_single show ?thesis by blast
qed

text \<open>\<open>EnsureCursorVisible\<close> brings the cursor row on screen, and a click on the line where it
  is drawn is mapped back to the cursor.\<close>

theorem table_ensure_click:
  assumes "tui_ok T" and "tui_scrolls T" and "table_wf m" and "0 < t_height T m" and "t_rows m \<noteq> []"
    and "rows_single T m" and "m' = t_EnsureCursorVisible T m" and "0 \<le> first_shown T m'"
  shows "cursor_shown T m' \<and> t_cursor m' = t_cursor m \<and>
    t_RowAtY T m' (1 + (t_cursor m - first_shown T m')) = t_cursor m"
proof -
  have s: "cursor_shown T m'" using ensure_shows_cursor [OF assms(1-6)] assms(7) by simp
  have c: "t_cursor m' = t_cursor m" "t_rows m' = t_rows m"
    by (simp_all add: assms(7) t_EnsureCursorVisible_def Let_def)
  have "t_RowAtY T m' (1 + (t_cursor m - first_shown T m')) = t_cursor m \<and> t_cursor m \<noteq> -1"
    using s c assms(3,5)
    by (intro iffD2 [OF RowAtY_shown [OF assms(8)]]) (auto simp: cursor_shown_def table_wf_def last_row_def)
  then show ?thesis using s c by simp
qed

theorem table_ensure_click_witness:
  "t_RowAtY plain_tui (t_EnsureCursorVisible plain_tui ((demo_table 5 2)\<lparr> t_cursor := 4 \<rparr>)) 2 = 4"
proof -
  let ?m = "(demo_table 5 2)\<lparr> t_cursor := 4 \<rparr>"
  let ?e = "t_EnsureCursorVisible plain_tui ?m"
  have "table_wf ?m" "0 < t_height plain_tui ?m" "t_rows ?m \<noteq> []" "0 \<le> first_shown plain_tui ?e"
    by code_simp+
  from table_ensure_click [OF plain_tui_ok plain_tui_scrolls this(1-3) demo_moved_single refl this(4)]
  have "t_RowAtY plain_tui ?e (1 + (t_cursor ?m - first_shown plain_tui ?e)) = t_cursor ?m" by blast
  moreover have "1 + (t_cursor ?m - first_shown plain_tui ?e) = 2" "t_cursor ?m = 4" by code_simp+
  ultimately show ?thesis by simp
qed

text \<open>A mouse position is mapped to row \<open>k\<close> exactly when row \<open>k\<close> is the one drawn there.\<close>

theorem table_click_row:
  assumes "0 \<le> first_shown T m"
  shows "(t_RowAtY T m y = k \<and> k \<noteq> -1) =
    (first_shown T m \<le> k \<and> k < first_shown T m + t_height T m \<and> k < int (length (t_rows m)) \<and>
     y = 1 + (k - first_shown T m))"
  using RowAtY_shown [OF assms] by blast

theorem table_click_row_witness:
  "t_RowAtY plain_tui (demo_table 5 2) 2 = 1"
proof -
  have "0 \<le> first_shown plain_tui (demo_table 5 2)" by code_simp
  from table_click_row [OF this, of 2 1] show ?thesis by code_simp
qed

section \<open>Styles and highlights keep the text\<close>

text \<open>Making room for a whole-row tint removes cell styles but no text: what remains visible
  of the row is unchanged.\<close>

theorem stripStyle_keeps_text:
  assumes "Strip A s = visible_bytes s"
  shows "visible_bytes (stripStyleKeepReverse A s) = visible_bytes s"
  using assms by (rule visible_stripStyle)

theorem stripStyle_keeps_text_witness:
  "visible_bytes (stripStyleKeepReverse ansi_text (revOn @ ''ab'' @ revOff @ ''c'')) = ''abc''"
proof -
  have "Strip ansi_text (revOn @ ''ab'' @ revOff @ ''c'') = visible_bytes (revOn @ ''ab'' @ revOff @ ''c'')"
    by (simp add: ansi_text_def)
  moreover have "visible_bytes (revOn @ ''ab'' @ revOff @ ''c'') = ''abc''" by code_simp
  ultimately show ?thesis using stripStyle_keeps_text by metis
qed

text \<open>Marking the search matches of a cell inserts escape sequences only: the visible text is
  unchanged, whatever escapes the cell already has.\<close>

theorem highlight_keeps_text:
  assumes "escapes_closed cell" and "Strip A cell = visible_bytes cell"
    and "locs_ok 0 (length (visible_bytes cell))
           (filter (\<lambda>(a, b). a \<noteq> b) (FindAllStringIndex rx (visible_bytes cell)))"
  shows "visible_bytes (HighlightMatches A cell (Some rx)) = visible_bytes cell"
proof -
  have "escapes_closed highlightOn" "visible_bytes highlightOn = []"
    "escapes_closed highlightOff" "visible_bytes highlightOff = []" by code_simp+
  from highlightWith_visible [OF assms(1,2) this, of "Some rx"] assms(3)
  show ?thesis by (simp add: HighlightMatches_def)
qed

theorem highlight_keeps_text_witness:
  "visible_bytes (HighlightMatches ansi_text (revOn @ ''ab'' @ revOff @ ''c'') (Some (literal_regexp ''bc''))) = ''abc''"
proof -
  let ?c = "revOn @ ''ab'' @ revOff @ ''c''"
  have "escapes_closed ?c" "locs_ok 0 (length (visible_bytes ?c))
      (filter (\<lambda>(a, b). a \<noteq> b) (FindAllStringIndex (literal_regexp ''bc'') (visible_bytes ?c)))"
    "visible_bytes ?c = ''abc''" by code_simp+
  moreover have "Strip ansi_text ?c = visible_bytes ?c" by (simp add: ansi_text_def)
  ultimately show ?thesis using highlight_keeps_text [of ?c ansi_text] by simp
qed

end
