(* ===== verification/Resource_Sort.thy ===== *)
theory Resource_Sort
  imports Extern
begin

text \<open>
  The objects and plugins of a resource list, and its sorting (\<^verbatim>\<open>internal/ui/sort.go\<close>,
  \<^verbatim>\<open>internal/plugin/plugin.go\<close>). An \<open>unstructured.Unstructured\<close> is used through
  its metadata accessors; \<open>o_body\<close> stands for the rest of the object, which only plugins read.
  A plugin is the record of the methods the list calls; the optional interfaces the code probes by
  type assertion (\<open>Sortable\<close>, \<open>DefaultSorter\<close>, \<open>HealthReporter\<close>) are options.
\<close>

section \<open>Objects and plugins\<close>

text \<open>\<open>o_created\<close> is the creation time in UTC as \<open>2006-01-02T15:04:05Z\<close>, none when it is zero.\<close>

record k8s_obj =
  o_kind :: string
  o_namespace :: string
  o_name :: string
  o_uid :: string
  o_created :: "string option"
  o_body :: string

datatype health = Healthy | Warning | HealthError

record plugin_column =
  pc_Title :: string
  pc_Width :: int
  pc_Flex :: bool

record sort_state =
  so_Column :: string
  so_Ascending :: bool

record rplugin =
  p_Name :: string
  p_ShortName :: string
  p_GVR :: "string \<times> string \<times> string"
  p_IsClusterScoped :: bool
  p_Columns :: "plugin_column list"
  p_Row :: "k8s_obj \<Rightarrow> string list"
  p_SortValue :: "(k8s_obj \<Rightarrow> string \<Rightarrow> string) option"
  p_DefaultSort :: "sort_state option"
  p_RowHealth :: "(k8s_obj \<Rightarrow> health) option"

section \<open>The sort state\<close>

definition DefaultSortState :: sort_state where
  "DefaultSortState = \<lparr> so_Column = ''NAME'', so_Ascending = True \<rparr>"

definition sort_Toggle :: "sort_state \<Rightarrow> string \<Rightarrow> sort_state" where
  "sort_Toggle s col =
     (if so_Column s = col then \<lparr> so_Column = col, so_Ascending = \<not> so_Ascending s \<rparr>
      else \<lparr> so_Column = col, so_Ascending = True \<rparr>)"

text \<open>The bytes of the two triangles.\<close>

definition tri_up :: string where "tri_up = [CHR 0xE2, CHR 0x96, CHR 0xB2]"
definition tri_down :: string where "tri_down = [CHR 0xE2, CHR 0x96, CHR 0xBC]"

definition Indicator :: "sort_state \<Rightarrow> string \<Rightarrow> string" where
  "Indicator s col = (if so_Column s \<noteq> col then '''' else if so_Ascending s then tri_up else tri_down)"

definition SortStateForPlugin :: "rplugin \<Rightarrow> sort_state" where
  "SortStateForPlugin p = (case p_DefaultSort p of Some pref \<Rightarrow> pref | None \<Rightarrow> DefaultSortState)"

section \<open>Sorting\<close>

text \<open>\<open>strings.ToUpper\<close> on the column titles, which are ASCII.\<close>

definition upper :: "string \<Rightarrow> string" where
  "upper s = map (\<lambda>c. let n = (of_char c :: nat) in if 97 \<le> n \<and> n \<le> 122 then char_of (n - 32) else c) s"

definition sortValueFor :: "k8s_obj \<Rightarrow> string \<Rightarrow> (k8s_obj \<Rightarrow> string \<Rightarrow> string) option \<Rightarrow> string" where
  "sortValueFor obj col sortable =
     (let v = (case sortable of Some f \<Rightarrow> f obj col | None \<Rightarrow> '''')
      in if v \<noteq> '''' then v
         else if col = ''NAME'' then o_name obj
         else if col = ''AGE'' then (case o_created obj of None \<Rightarrow> '''' | Some ts \<Rightarrow> ts)
         else if col = ''NAMESPACE'' then o_namespace obj
         else '''')"

definition object_cmp :: "sort_state \<Rightarrow> rplugin \<Rightarrow> k8s_obj \<Rightarrow> k8s_obj \<Rightarrow> int" where
  "object_cmp st p a b =
     (let va = sortValueFor a (upper (so_Column st)) (p_SortValue p);
          vb = sortValueFor b (upper (so_Column st)) (p_SortValue p);
          c = str_cmp va vb;
          c1 = (if so_Ascending st then c else - c)
      in if c1 \<noteq> 0 then c1 else str_cmp (o_name a) (o_name b))"

definition sortObjects :: "k8s_obj list \<Rightarrow> sort_state \<Rightarrow> rplugin \<Rightarrow> k8s_obj list" where
  "sortObjects objs st p =
     (if so_Column st = '''' then objs else sort_stable (object_cmp st p) objs)"

section \<open>The order\<close>

text \<open>Comparing by a key and then by name is a total preorder.\<close>

lemma object_cmp_preorder: "preorder_cmp (object_cmp st p)"
proof -
  let ?v = "\<lambda>a. sortValueFor a (upper (so_Column st)) (p_SortValue p)"
  let ?s = "if so_Ascending st then 1 else - 1 :: int"
  have c: "object_cmp st p a b = (if ?v a = ?v b then str_cmp (o_name a) (o_name b) else ?s * str_cmp (?v a) (?v b))"
    for a b by (simp add: object_cmp_def Let_def)
  have tr: "?s * str_cmp u w \<le> 0" if "?s * str_cmp u v \<le> 0" "?s * str_cmp v w \<le> 0" for u v w
    using that str_cmp_trans [of u v w] str_cmp_trans [of w v u]
      str_cmp_antisym [of u v] str_cmp_antisym [of v w] str_cmp_antisym [of u w] by (auto split: if_splits)
  have tot: "?s * str_cmp u w \<le> 0 \<or> ?s * str_cmp w u \<le> 0" for u w
    using str_cmp_antisym [of u w] by auto
  have anti: "u = w" if "?s * str_cmp u w \<le> 0" "?s * str_cmp w u \<le> 0" for u w
    using that str_cmp_antisym [of u w] str_cmp_eq_0 [of u w] by (auto split: if_splits)
  show ?thesis
    unfolding preorder_cmp_def
  proof (intro conjI allI impI)
    fix x y z
    show "object_cmp st p x y \<le> 0 \<or> object_cmp st p y x \<le> 0"
      using tot [of "?v x" "?v y"] str_cmp_total [of "o_name x" "o_name y"] by (simp only: c) auto
    assume 1: "object_cmp st p x y \<le> 0" and 2: "object_cmp st p y z \<le> 0"
    show "object_cmp st p x z \<le> 0"
    proof (cases "?v x = ?v y \<and> ?v y = ?v z")
      case True
      then show ?thesis using 1 2 str_cmp_trans [of "o_name x" "o_name y" "o_name z"] by (simp add: c)
    next
      case False
      have a: "?s * str_cmp (?v x) (?v y) \<le> 0" and b: "?s * str_cmp (?v y) (?v z) \<le> 0"
        using 1 2 by (auto simp: c split: if_splits)
      have "?v x \<noteq> ?v z"
      proof
        assume "?v x = ?v z"
        then have "?v x = ?v y" using anti [of "?v x" "?v y"] a b by simp
        with False \<open>?v x = ?v z\<close> show False by simp
      qed
      then show ?thesis using tr [OF a b] by (simp add: c)
    qed
  qed
qed

lemma sortObjects_sorted:
  "so_Column st \<noteq> '''' \<Longrightarrow> sorted_wrt (\<lambda>a b. object_cmp st p a b \<le> 0) (sortObjects objs st p)"
  by (simp add: sortObjects_def sorted_sort_stable object_cmp_preorder)

lemma set_sortObjects [simp]: "set (sortObjects objs st p) = set objs"
  and length_sortObjects [simp]: "length (sortObjects objs st p) = length objs"
  and count_sortObjects [simp]: "count_list (sortObjects objs st p) x = count_list objs x"
  by (simp_all add: sortObjects_def)

lemma sortObjects_stable:
  "filter (\<lambda>x. sortValueFor x (upper (so_Column st)) (p_SortValue p) = v \<and> o_name x = n) (sortObjects objs st p) =
   filter (\<lambda>x. sortValueFor x (upper (so_Column st)) (p_SortValue p) = v \<and> o_name x = n) objs"
  by (simp add: sortObjects_def) (intro impI sort_stable_stable, simp add: object_cmp_def)

end
