(* ===== verification/Nav_Stack.thy ===== *)
theory Nav_Stack
  imports Resource_Sort Search_State
begin

text \<open>
  \<^verbatim>\<open>internal/ui/navstack.go\<close>: the stack of saved list states of a drill-down. The Go
  slice grows at its end, which is the top of the stack.
\<close>

datatype nav_direction = NavChild | NavParent | NavNode

record nav_snapshot =
  ns_Plugin :: rplugin
  ns_Namespace :: string
  ns_Context :: string
  ns_Objects :: "k8s_obj list"
  ns_Cursor :: int
  ns_SortState :: sort_state
  ns_FilterState :: search_state
  ns_SearchState :: search_state
  ns_ParentUID :: string
  ns_ParentName :: string
  ns_ParentAPIVersion :: string
  ns_ParentKind :: string
  ns_Direction :: nav_direction

type_synonym nav_stack = "nav_snapshot list"

definition nav_Push :: "nav_snapshot \<Rightarrow> nav_stack \<Rightarrow> nav_stack" where
  "nav_Push snap s = s @ [snap]"

definition nav_Pop :: "nav_stack \<Rightarrow> (nav_snapshot \<times> nav_stack) option" where
  "nav_Pop s = (if length s = 0 then None else Some (s ! (length s - 1), take (length s - 1) s))"

definition nav_Peek :: "nav_stack \<Rightarrow> nav_snapshot option" where
  "nav_Peek s = (if length s = 0 then None else Some (s ! (length s - 1)))"

definition nav_Depth :: "nav_stack \<Rightarrow> int" where
  "nav_Depth s = int (length s)"

definition nav_HasGVR :: "string \<times> string \<times> string \<Rightarrow> string \<Rightarrow> nav_stack \<Rightarrow> bool" where
  "nav_HasGVR gvr ns s =
     list_ex (\<lambda>f. p_GVR (ns_Plugin f) = gvr \<and>
        (if p_IsClusterScoped (ns_Plugin f) then '''' else ns_Namespace f) = ns) s"

lemma nav_Pop_Push [simp]: "nav_Pop (nav_Push snap s) = Some (snap, s)"
  by (simp add: nav_Pop_def nav_Push_def)

lemma nav_Peek_Push [simp]: "nav_Peek (nav_Push snap s) = Some snap"
  by (simp add: nav_Peek_def nav_Push_def)

lemma nav_Pop_set: "nav_Pop s = Some (f, r) \<Longrightarrow> s = r @ [f]"
  by (cases s rule: rev_cases) (auto simp: nav_Pop_def)

end
