(* ===== verification/Resource_List.thy ===== *)
theory Resource_List
  imports Nav_Stack Table Cell_Highlight
begin

text \<open>
  \<^verbatim>\<open>internal/ui/resourcelist.go\<close>: a pane that lists the objects of one resource type in a
  table whose columns and rows a plugin supplies. It filters and searches the rows, keeps a
  multi-selection of object UIDs, and saves its state on a stack when the user drills down.

  \<open>list_env\<close> holds the widgets and the styles of the theme. A plugin's \<open>Row\<close> returns a fresh
  slice, so overwriting its cells with highlighted ones changes no other row. The set of selected
  UIDs is a Go map that may be nil.
\<close>

section \<open>State\<close>

record row_styles =
  TableMarkedSelectedStyle :: style
  TableMarkedStyle :: style
  TableHealthWarnCursorStyle :: style
  TableHealthErrorCursorStyle :: style
  TableHealthWarnStyle :: style
  TableHealthErrorStyle :: style

record 'v list_env =
  le_tui :: "'v tui_api"
  le_styles :: row_styles
  le_table :: table_styles
  le_SearchMatch :: string
  le_SearchFg :: string

abbreviation le_text :: "'v list_env \<Rightarrow> text_api" where
  "le_text E \<equiv> tui_text (le_tui E)"

record 'v resource_list =
  rl_plugin :: rplugin
  rl_table :: "'v table"
  allObjects :: "k8s_obj list"
  displayObjects :: "k8s_obj list"
  rl_filterState :: search_state
  rl_searchState :: search_state
  rl_sortState :: sort_state
  rl_namespace :: string
  rl_context :: string
  rl_focused :: bool
  rl_borderless :: bool
  rl_width :: int
  rl_height :: int
  rl_contentWidth :: int
  rl_xOffset :: int
  navStack :: nav_stack
  navFloor :: int
  rl_inlineSearch :: string
  contextLabel :: string
  offline :: bool
  selected :: "string set option"
  cachedColumnWidths :: "column list option"
  cachedContentWidth :: int
  cachedRowCount :: int

section \<open>Columns\<close>

text \<open>The width of column \<open>col\<close>: its title, measured in bytes, or its widest cell, plus three.\<close>

definition contentWidth :: "text_api \<Rightarrow> nat \<Rightarrow> int \<Rightarrow> string list list \<Rightarrow> int" where
  "contentWidth A col headerWidth rs =
     fold (\<lambda>row w. if col < length row
                   then let vw = StringWidth A (row ! col) in if vw > w then vw else w
                   else w) rs headerWidth + 3"

definition table_column :: "text_api \<Rightarrow> sort_state \<Rightarrow> string list list \<Rightarrow> nat \<Rightarrow> plugin_column \<Rightarrow> column" where
  "table_column A st rs i c =
     (let ind = Indicator st (pc_Title c);
          title = (if ind \<noteq> '''' then pc_Title c @ '' '' @ ind else pc_Title c);
          w = (if pc_Flex c then contentWidth A i (int (length title)) rs else pc_Width c)
      in \<lparr> col_Title = title, col_Width = w \<rparr>)"

definition pluginColumnsToTableColumns ::
  "text_api \<Rightarrow> plugin_column list \<Rightarrow> sort_state \<Rightarrow> string list list \<Rightarrow> column list \<times> int" where
  "pluginColumnsToTableColumns A cs st rs =
     (let res = map (\<lambda>i. table_column A st rs i (cs ! i)) [0..<length cs]
      in (res, sum_list (map col_Width res) + 2 * int (length cs)))"

definition effectiveColumns :: "'v resource_list \<Rightarrow> plugin_column list" where
  "effectiveColumns r =
     (if rl_namespace r \<noteq> '''' then p_Columns (rl_plugin r)
      else if p_IsClusterScoped (rl_plugin r) then p_Columns (rl_plugin r)
      else \<lparr> pc_Title = ''NAMESPACE'', pc_Width = 0, pc_Flex = True \<rparr> # p_Columns (rl_plugin r))"

definition effectiveRow :: "'v resource_list \<Rightarrow> k8s_obj \<Rightarrow> string list" where
  "effectiveRow r obj =
     (if rl_namespace r \<noteq> '''' then p_Row (rl_plugin r) obj
      else if p_IsClusterScoped (rl_plugin r) then p_Row (rl_plugin r) obj
      else o_namespace obj # p_Row (rl_plugin r) obj)"

definition tableWidth :: "'v resource_list \<Rightarrow> int" where
  "tableWidth r = (if rl_borderless r then rl_width r else rl_width r - 2)"

section \<open>Row styles and highlights\<close>

definition row_style :: "row_styles \<Rightarrow> string set \<Rightarrow> k8s_obj list \<Rightarrow> (k8s_obj \<Rightarrow> health) option \<Rightarrow> row_style_func" where
  "row_style S sel disp reporter index isCursor active =
     (if index < 0 \<or> index \<ge> int (length disp) then None
      else let obj = disp ! nat index
           in if o_uid obj \<in> sel
              then Some (if isCursor \<and> active then TableMarkedSelectedStyle S else TableMarkedStyle S)
              else case reporter of None \<Rightarrow> None
                | Some h \<Rightarrow>
                    if isCursor \<and> active
                    then (case h obj of Warning \<Rightarrow> Some (TableHealthWarnCursorStyle S)
                          | HealthError \<Rightarrow> Some (TableHealthErrorCursorStyle S) | Healthy \<Rightarrow> None)
                    else (case h obj of Warning \<Rightarrow> Some (TableHealthWarnStyle S)
                          | HealthError \<Rightarrow> Some (TableHealthErrorStyle S) | Healthy \<Rightarrow> None))"

definition selected_set :: "'v resource_list \<Rightarrow> string set" where
  "selected_set r = (case selected r of None \<Rightarrow> {} | Some s \<Rightarrow> s)"

definition rebindRowStyle :: "'v list_env \<Rightarrow> 'v resource_list \<Rightarrow> 'v resource_list" where
  "rebindRowStyle E r =
     (let reporter = p_RowHealth (rl_plugin r)
      in r\<lparr> rl_table := (rl_table r)\<lparr> RowStyleFunc :=
              (if selected_set r = {} \<and> reporter = None then None
               else Some (row_style (le_styles E) (selected_set r) (displayObjects r) reporter)) \<rparr> \<rparr>)"

definition rowMatchesRegex :: "text_api \<Rightarrow> string list \<Rightarrow> regexp \<Rightarrow> bool" where
  "rowMatchesRegex A row re = list_ex (\<lambda>cell. MatchString re (Strip A cell)) row"

definition highlighted_row :: "'v list_env \<Rightarrow> regexp \<Rightarrow> 'v resource_list \<Rightarrow> int \<Rightarrow> string list" where
  "highlighted_row E re r i =
     (let t = rl_table r;
          reverse = (i = t_cursor t \<or>
            (case RowStyleFunc t of None \<Rightarrow> False | Some f \<Rightarrow> f i False False \<noteq> None))
      in map (\<lambda>cell. if reverse then HighlightMatches (le_text E) cell (Some re)
                     else HighlightMatchesColor (le_text E) (le_SearchMatch E) (le_SearchFg E) cell (Some re))
           (effectiveRow r (displayObjects r ! nat i)))"

definition applyVisibleHighlights :: "'v list_env \<Rightarrow> 'v resource_list \<Rightarrow> 'v resource_list" where
  "applyVisibleHighlights E r =
     (case Re (rl_searchState r) of
        None \<Rightarrow> r
      | Some re \<Rightarrow>
          let t = t_EnsureCursorVisible (le_tui E) (rl_table r);
              r1 = r\<lparr> rl_table := t \<rparr>;
              (start, end0) = t_VisibleRange t;
              rs = t_rows t;
              hi = min end0 (int (min (length (displayObjects r)) (length rs)));
              rs1 = map (\<lambda>i. if start \<le> int i \<and> int i < hi then highlighted_row E re r1 (int i) else rs ! i)
                      [0..<length rs]
          in r1\<lparr> rl_table := t_SetRows (le_tui E) rs1 t \<rparr>)"

section \<open>Rebuilding the rows\<close>

definition set_columns :: "'v list_env \<Rightarrow> column list \<Rightarrow> int \<Rightarrow> string list list \<Rightarrow> 'v resource_list \<Rightarrow> 'v resource_list" where
  "set_columns E cs cw rs r =
     r\<lparr> rl_contentWidth := cw,
        rl_table := t_SetContentWidth (le_tui E) cw (t_SetColumnsAndRows (le_tui E) cs rs (rl_table r)) \<rparr>"

definition renderRows :: "'v list_env \<Rightarrow> 'v resource_list \<Rightarrow> 'v resource_list" where
  "renderRows E r =
     (let rs = map (effectiveRow r) (displayObjects r)
      in case cachedColumnWidths r of
           Some cs \<Rightarrow>
             if int (length rs) = cachedRowCount r then set_columns E cs (cachedContentWidth r) rs r
             else let (cs1, cw) = pluginColumnsToTableColumns (le_text E) (effectiveColumns r) (rl_sortState r) rs
                  in set_columns E cs1 cw rs (r\<lparr> cachedColumnWidths := Some cs1, cachedContentWidth := cw,
                       cachedRowCount := int (length rs) \<rparr>)
         | None \<Rightarrow>
             let (cs1, cw) = pluginColumnsToTableColumns (le_text E) (effectiveColumns r) (rl_sortState r) rs
             in set_columns E cs1 cw rs (r\<lparr> cachedColumnWidths := Some cs1, cachedContentWidth := cw,
                  cachedRowCount := int (length rs) \<rparr>))"

definition shown_objects :: "text_api \<Rightarrow> 'v resource_list \<Rightarrow> k8s_obj list" where
  "shown_objects A r = (case Re (rl_filterState r) of
     Some re \<Rightarrow> filter (\<lambda>obj. rowMatchesRegex A (effectiveRow r obj) re) (allObjects r)
   | None \<Rightarrow> allObjects r)"

definition rebuildDisplay :: "'v list_env \<Rightarrow> 'v resource_list \<Rightarrow> 'v resource_list" where
  "rebuildDisplay E r =
     applyVisibleHighlights E (renderRows E (rebindRowStyle E
       (r\<lparr> displayObjects := shown_objects (le_text E) r \<rparr>)))"

section \<open>Construction and plugin\<close>

definition NewResourceList :: "'v list_env \<Rightarrow> rplugin \<Rightarrow> int \<Rightarrow> int \<Rightarrow> 'v resource_list" where
  "NewResourceList E p w h =
     (let T = le_tui E;
          st = SortStateForPlugin p;
          (cs, cw) = pluginColumnsToTableColumns (le_text E) (p_Columns p) st [];
          t0 = t_New T (le_table E) cs True (w - 2) (h - 3);
          t1 = t_SetContentWidth T cw (t_SetStyles T (le_table E) t0)
      in \<lparr> rl_plugin = p, rl_table = SetSelectionActive T True t1, allObjects = [], displayObjects = [],
           rl_filterState = zero_search, rl_searchState = zero_search, rl_sortState = st,
           rl_namespace = '''', rl_context = '''', rl_focused = True, rl_borderless = False,
           rl_width = w, rl_height = h, rl_contentWidth = cw, rl_xOffset = 0, navStack = [], navFloor = 0,
           rl_inlineSearch = '''', contextLabel = '''', offline = False, selected = None,
           cachedColumnWidths = None, cachedContentWidth = 0, cachedRowCount = 0 \<rparr>)"

text \<open>Columns of the current plugin for an empty table, as installed when the plugin changes.\<close>

definition reset_columns :: "'v list_env \<Rightarrow> 'v resource_list \<Rightarrow> 'v resource_list" where
  "reset_columns E r =
     (let (cs, cw) = pluginColumnsToTableColumns (le_text E) (effectiveColumns r) (rl_sortState r) []
      in set_columns E cs cw [] r)"

definition set_list_xOffset :: "'v list_env \<Rightarrow> int \<Rightarrow> 'v resource_list \<Rightarrow> 'v resource_list" where
  "set_list_xOffset E x r = r\<lparr> rl_xOffset := x, rl_table := t_SetXOffset (le_tui E) x (rl_table r) \<rparr>"

definition drop_cache :: "'v resource_list \<Rightarrow> 'v resource_list" where
  "drop_cache r = r\<lparr> cachedColumnWidths := None, cachedRowCount := 0, cachedContentWidth := 0 \<rparr>"

definition SetPlugin :: "'v list_env \<Rightarrow> rplugin \<Rightarrow> 'v resource_list \<Rightarrow> 'v resource_list" where
  "SetPlugin E p r =
     reset_columns E (drop_cache (set_list_xOffset E 0
       (r\<lparr> rl_plugin := p, rl_sortState := SortStateForPlugin p,
           rl_filterState := ss_Clear (rl_filterState r), rl_searchState := ss_Clear (rl_searchState r),
           selected := None, allObjects := [], displayObjects := [] \<rparr>)))"

section \<open>Objects\<close>

definition object_key :: "'v resource_list \<Rightarrow> k8s_obj \<Rightarrow> string" where
  "object_key r obj =
     (if rl_namespace r = '''' then o_kind obj @ ''/'' @ o_namespace obj @ ''/'' @ o_name obj
      else o_kind obj @ ''/'' @ o_name obj)"

definition selectedKey :: "'v resource_list \<Rightarrow> string" where
  "selectedKey r =
     (let c = t_cursor (rl_table r)
      in if displayObjects r \<noteq> [] \<and> c \<ge> 0 \<and> c < int (length (displayObjects r))
         then object_key r (displayObjects r ! nat c) else '''')"

definition prune_selected :: "k8s_obj list \<Rightarrow> string set option \<Rightarrow> string set option" where
  "prune_selected objs sel = (case sel of None \<Rightarrow> None
     | Some s \<Rightarrow> if s = {} then Some s
                 else let s1 = s \<inter> o_uid ` set objs in if s1 = {} then None else Some s1)"

text \<open>The first row with a key, if there is one.\<close>

fun find_key :: "(k8s_obj \<Rightarrow> string) \<Rightarrow> string \<Rightarrow> int \<Rightarrow> k8s_obj list \<Rightarrow> int option" where
  "find_key key k i [] = None"
| "find_key key k i (obj # objs) = (if key obj = k then Some i else find_key key k (i + 1) objs)"

definition move_cursor :: "'v list_env \<Rightarrow> int \<Rightarrow> 'v resource_list \<Rightarrow> 'v resource_list" where
  "move_cursor E i r = applyVisibleHighlights E (r\<lparr> rl_table := t_SetCursor (le_tui E) i (rl_table r) \<rparr>)"

definition restore_cursor :: "'v list_env \<Rightarrow> string \<Rightarrow> 'v resource_list \<Rightarrow> 'v resource_list" where
  "restore_cursor E key r =
     (case (if key \<noteq> '''' then find_key (object_key r) key 0 (displayObjects r) else None) of
        Some i \<Rightarrow> move_cursor E i r
      | None \<Rightarrow>
          let n = int (length (displayObjects r)); c = t_cursor (rl_table r)
          in if displayObjects r \<noteq> [] then move_cursor E (if c \<ge> n then n - 1 else c) r else r)"

definition SetObjects :: "'v list_env \<Rightarrow> k8s_obj list \<Rightarrow> 'v resource_list \<Rightarrow> 'v resource_list" where
  "SetObjects E objs r =
     (let key = selectedKey r;
          objs1 = sortObjects objs (rl_sortState r) (rl_plugin r);
          r1 = r\<lparr> selected := prune_selected objs1 (selected r), allObjects := objs1 \<rparr>
      in restore_cursor E key (rebuildDisplay E r1))"

definition SetSort :: "'v list_env \<Rightarrow> string \<Rightarrow> 'v resource_list \<Rightarrow> 'v resource_list" where
  "SetSort E col r =
     (let r1 = r\<lparr> rl_sortState := sort_Toggle (rl_sortState r) col \<rparr> in SetObjects E (allObjects r1) r1)"

definition rl_Selected :: "'v resource_list \<Rightarrow> k8s_obj option" where
  "rl_Selected r =
     (let i = t_cursor (rl_table r)
      in if i < 0 \<or> i \<ge> int (length (displayObjects r)) then None else Some (displayObjects r ! nat i))"

definition rl_Len :: "'v resource_list \<Rightarrow> int" where
  "rl_Len r = int (length (displayObjects r))"

section \<open>Cursor and scrolling\<close>

definition on_table :: "'v list_env \<Rightarrow> ('v table \<Rightarrow> 'v table) \<Rightarrow> 'v resource_list \<Rightarrow> 'v resource_list" where
  "on_table E f r = applyVisibleHighlights E (r\<lparr> rl_table := f (rl_table r) \<rparr>)"

definition rl_GotoTop :: "'v list_env \<Rightarrow> 'v resource_list \<Rightarrow> 'v resource_list" where
  "rl_GotoTop E r = on_table E (t_GotoTop (le_tui E)) r"

definition rl_GotoBottom :: "'v list_env \<Rightarrow> 'v resource_list \<Rightarrow> 'v resource_list" where
  "rl_GotoBottom E r = on_table E (t_GotoBottom (le_tui E)) r"

definition rl_PageUp :: "'v list_env \<Rightarrow> 'v resource_list \<Rightarrow> 'v resource_list" where
  "rl_PageUp E r = on_table E (t_MoveUp (le_tui E) (t_height (le_tui E) (rl_table r))) r"

definition rl_PageDown :: "'v list_env \<Rightarrow> 'v resource_list \<Rightarrow> 'v resource_list" where
  "rl_PageDown E r = on_table E (t_MoveDown (le_tui E) (t_height (le_tui E) (rl_table r))) r"

definition CursorUp :: "'v list_env \<Rightarrow> 'v resource_list \<Rightarrow> 'v resource_list" where
  "CursorUp E r = on_table E (t_MoveUp (le_tui E) 1) r"

definition CursorDown :: "'v list_env \<Rightarrow> 'v resource_list \<Rightarrow> 'v resource_list" where
  "CursorDown E r = on_table E (t_MoveDown (le_tui E) 1) r"

definition rl_SetCursor :: "'v list_env \<Rightarrow> int \<Rightarrow> 'v resource_list \<Rightarrow> 'v resource_list" where
  "rl_SetCursor E row r = on_table E (t_SetCursor (le_tui E) row) r"

datatype mouse_button = WheelUp | WheelDown | OtherButton

definition ScrollWheel :: "'v list_env \<Rightarrow> mouse_button \<Rightarrow> 'v resource_list \<Rightarrow> 'v resource_list" where
  "ScrollWheel E b r = (case b of WheelUp \<Rightarrow> CursorUp E r | WheelDown \<Rightarrow> CursorDown E r | OtherButton \<Rightarrow> r)"

definition listScrollStep :: int where "listScrollStep = 8"

definition rl_ScrollRight :: "'v list_env \<Rightarrow> 'v resource_list \<Rightarrow> 'v resource_list" where
  "rl_ScrollRight E r =
     (let maxOffset = max 0 (rl_contentWidth r - tableWidth r)
      in set_list_xOffset E (min (rl_xOffset r + listScrollStep) maxOffset) r)"

definition rl_ScrollLeft :: "'v list_env \<Rightarrow> 'v resource_list \<Rightarrow> 'v resource_list" where
  "rl_ScrollLeft E r = set_list_xOffset E (max (rl_xOffset r - listScrollStep) 0) r"

definition rl_ScrollHome :: "'v list_env \<Rightarrow> 'v resource_list \<Rightarrow> 'v resource_list" where
  "rl_ScrollHome E r = set_list_xOffset E 0 r"

definition rl_ScrollEnd :: "'v list_env \<Rightarrow> 'v resource_list \<Rightarrow> 'v resource_list" where
  "rl_ScrollEnd E r = set_list_xOffset E (max 0 (rl_contentWidth r - tableWidth r)) r"

definition rl_RowAtY :: "'v list_env \<Rightarrow> 'v resource_list \<Rightarrow> int \<Rightarrow> int" where
  "rl_RowAtY E r y =
     (let adjusted = y - 1 in if adjusted < 0 then -1 else t_RowAtY (le_tui E) (rl_table r) adjusted)"

definition EffectiveNamespace :: "'v resource_list \<Rightarrow> string" where
  "EffectiveNamespace r = (if p_IsClusterScoped (rl_plugin r) then '''' else rl_namespace r)"

section \<open>Size and focus\<close>

definition rl_SetSize :: "'v list_env \<Rightarrow> int \<Rightarrow> int \<Rightarrow> 'v resource_list \<Rightarrow> 'v resource_list" where
  "rl_SetSize E w h r =
     (let T = le_tui E;
          r1 = drop_cache (set_list_xOffset E 0 (r\<lparr> rl_width := w, rl_height := h \<rparr>));
          tableH = (if rl_borderless r1 then h - 1 else h - 3);
          (cs, cw) = pluginColumnsToTableColumns (le_text E) (effectiveColumns r1) (rl_sortState r1)
                       (t_rows (rl_table r1))
      in r1\<lparr> rl_contentWidth := cw,
             rl_table := t_SetContentWidth T cw (t_SetLayout T cs (tableWidth r1) tableH (rl_table r1)) \<rparr>)"

definition rl_SetBorderless :: "'v list_env \<Rightarrow> bool \<Rightarrow> 'v resource_list \<Rightarrow> 'v resource_list" where
  "rl_SetBorderless E b r = rl_SetSize E (rl_width r) (rl_height r) (r\<lparr> rl_borderless := b \<rparr>)"

definition applyFocus :: "'v list_env \<Rightarrow> bool \<Rightarrow> bool \<Rightarrow> 'v resource_list \<Rightarrow> 'v resource_list" where
  "applyFocus E border selection r =
     (let T = le_tui E;
          t1 = (if border then t_Focus T (rl_table r) else t_Blur T (rl_table r));
          t2 = SetSelectionActive T selection t1
      in r\<lparr> rl_focused := border, rl_table := (if border then t_EnsureCursorVisible T t2 else t2) \<rparr>)"

definition rl_Focus :: "'v list_env \<Rightarrow> 'v resource_list \<Rightarrow> 'v resource_list" where
  "rl_Focus E r = applyFocus E True True r"

definition rl_Blur :: "'v list_env \<Rightarrow> 'v resource_list \<Rightarrow> 'v resource_list" where
  "rl_Blur E r = applyFocus E False False r"

definition rl_BlurBorder :: "'v list_env \<Rightarrow> 'v resource_list \<Rightarrow> 'v resource_list" where
  "rl_BlurBorder E r = applyFocus E False True r"

definition rl_EnsureCursorVisible :: "'v list_env \<Rightarrow> 'v resource_list \<Rightarrow> 'v resource_list" where
  "rl_EnsureCursorVisible E r = r\<lparr> rl_table := t_EnsureCursorVisible (le_tui E) (rl_table r) \<rparr>"

definition rl_Update :: "'v list_env \<Rightarrow> (table_key \<Rightarrow> bool) \<Rightarrow> 'v resource_list \<Rightarrow> 'v resource_list" where
  "rl_Update E matches r = r\<lparr> rl_table := t_Update (le_tui E) matches (rl_table r) \<rparr>"

end
