(* ===== verification/Resource_List_Ops.thy ===== *)
theory Resource_List_Ops
  imports Resource_List
begin

text \<open>
  The remaining operations of \<^verbatim>\<open>internal/ui/resourcelist.go\<close>: drill-down navigation,
  multi-selection, search and filter, and the plain setters.
\<close>

section \<open>Navigation\<close>

definition nav_frame ::
  "string \<Rightarrow> string \<Rightarrow> string \<Rightarrow> string \<Rightarrow> nav_direction \<Rightarrow> 'v resource_list \<Rightarrow> nav_snapshot" where
  "nav_frame pname puid papi pkind dir r =
     \<lparr> ns_Plugin = rl_plugin r, ns_Namespace = rl_namespace r, ns_Context = rl_context r,
       ns_Objects = allObjects r, ns_Cursor = t_cursor (rl_table r), ns_SortState = rl_sortState r,
       ns_FilterState = rl_filterState r, ns_SearchState = rl_searchState r,
       ns_ParentUID = puid, ns_ParentName = pname, ns_ParentAPIVersion = papi, ns_ParentKind = pkind,
       ns_Direction = dir \<rparr>"

definition PushNav :: "'v list_env \<Rightarrow> rplugin \<Rightarrow> k8s_obj list \<Rightarrow> string \<Rightarrow> string \<Rightarrow> string \<Rightarrow> string \<Rightarrow>
    nav_direction \<Rightarrow> 'v resource_list \<Rightarrow> 'v resource_list" where
  "PushNav E child children pname puid papi pkind dir r =
     (let r1 = r\<lparr> selected := None \<rparr>;
          r2 = r1\<lparr> navStack := nav_Push (nav_frame pname puid papi pkind dir r1) (navStack r1) \<rparr>
      in SetObjects E children (SetPlugin E child r2))"

definition PopNav :: "'v list_env \<Rightarrow> 'v resource_list \<Rightarrow> ('v resource_list \<times> bool)" where
  "PopNav E r =
     (case nav_Pop (navStack r) of
        None \<Rightarrow> (r, False)
      | Some (snap, st) \<Rightarrow>
          let r1 = reset_columns E (r\<lparr> navStack := st, rl_plugin := ns_Plugin snap,
                     rl_namespace := ns_Namespace snap, rl_context := ns_Context snap,
                     rl_sortState := ns_SortState snap, rl_filterState := ns_FilterState snap,
                     rl_searchState := ns_SearchState snap \<rparr>);
              r2 = rebuildDisplay E (r1\<lparr> selected := None, allObjects := ns_Objects snap \<rparr>);
              T = le_tui E
          in (if ns_Cursor snap < int (length (displayObjects r2))
              then applyVisibleHighlights E (r2\<lparr> rl_table :=
                     t_EnsureCursorVisible T (t_SetCursor T (ns_Cursor snap) (rl_table r2)) \<rparr>)
              else r2, True))"

definition ResetNav :: "'v resource_list \<Rightarrow> 'v resource_list" where
  "ResetNav r = r\<lparr> navStack := [], navFloor := 0, selected := None \<rparr>"

text \<open>Popping until the stack is empty leaves the bottom frame.\<close>

fun unwind :: "nat \<Rightarrow> nav_snapshot option \<Rightarrow> nav_stack \<Rightarrow> nav_snapshot option \<times> nav_stack" where
  "unwind 0 root st = (root, st)"
| "unwind (Suc n) root st =
     (case nav_Pop st of None \<Rightarrow> (root, st) | Some (snap, st1) \<Rightarrow> unwind n (Some snap) st1)"

definition ResetForReload :: "'v list_env \<Rightarrow> 'v resource_list \<Rightarrow> 'v resource_list" where
  "ResetForReload E r =
     (let (root, st) = unwind (length (navStack r)) None (navStack r);
          r0 = r\<lparr> navStack := st \<rparr>;
          r1 = (case root of
             Some snap \<Rightarrow> reset_columns E (r0\<lparr> rl_plugin := ns_Plugin snap, rl_namespace := ns_Namespace snap,
               rl_context := (if ns_Context snap \<noteq> '''' then ns_Context snap else rl_context r0),
               rl_sortState := ns_SortState snap \<rparr>)
           | None \<Rightarrow> r0\<lparr> rl_table := t_SetRows (le_tui E) [] (rl_table r0) \<rparr>)
      in r1\<lparr> rl_filterState := ss_Clear (rl_filterState r1), rl_searchState := ss_Clear (rl_searchState r1),
             selected := None, navFloor := 0, allObjects := [], displayObjects := [] \<rparr>)"

definition InDrillDown :: "'v resource_list \<Rightarrow> bool" where
  "InDrillDown r \<longleftrightarrow> nav_Depth (navStack r) > 0"

definition rl_Depth :: "'v resource_list \<Rightarrow> int" where
  "rl_Depth r = nav_Depth (navStack r)"

definition SetNavFloor :: "int \<Rightarrow> 'v resource_list \<Rightarrow> 'v resource_list" where
  "SetNavFloor n r = r\<lparr> navFloor := n \<rparr>"

definition ParentContext :: "'v resource_list \<Rightarrow> string" where
  "ParentContext r =
     (case nav_Peek (navStack r) of
        Some snap \<Rightarrow>
          let label = (if p_ShortName (ns_Plugin snap) = '''' then p_Name (ns_Plugin snap)
                       else p_ShortName (ns_Plugin snap))
          in label @ ''/'' @ ns_ParentName snap
      | None \<Rightarrow> '''')"

definition NavStackHasGVR :: "string \<times> string \<times> string \<Rightarrow> string \<Rightarrow> 'v resource_list \<Rightarrow> bool" where
  "NavStackHasGVR gvr ns r = nav_HasGVR gvr ns (navStack r)"

section \<open>Selection\<close>

definition mark :: "'v list_env \<Rightarrow> string set option \<Rightarrow> 'v resource_list \<Rightarrow> 'v resource_list" where
  "mark E sel r =
     (let r1 = rebindRowStyle E (r\<lparr> selected := sel \<rparr>)
      in r1\<lparr> rl_table := t_UpdateViewport (le_tui E) (rl_table r1) \<rparr>)"

definition HasSelection :: "'v resource_list \<Rightarrow> bool" where
  "HasSelection r \<longleftrightarrow> selected_set r \<noteq> {}"

definition SelectedObjects :: "'v resource_list \<Rightarrow> k8s_obj list" where
  "SelectedObjects r =
     (if selected_set r = {} then []
      else filter (\<lambda>obj. o_uid obj \<in> selected_set r) (displayObjects r))"

definition SelectionCount :: "'v resource_list \<Rightarrow> int" where
  "SelectionCount r =
     (if selected_set r = {} then 0
      else int (length (filter (\<lambda>obj. o_uid obj \<in> selected_set r) (displayObjects r))))"

definition ToggleSelect :: "'v list_env \<Rightarrow> 'v resource_list \<Rightarrow> 'v resource_list" where
  "ToggleSelect E r =
     (let i = t_cursor (rl_table r)
      in if i < 0 \<or> i \<ge> int (length (displayObjects r)) then r
         else let uid = o_uid (displayObjects r ! nat i); s = selected_set r
              in if uid = '''' then r
                 else mark E (if uid \<in> s then (if s - {uid} = {} then None else Some (s - {uid}))
                              else Some (insert uid s)) r)"

definition SelectAll :: "'v list_env \<Rightarrow> 'v resource_list \<Rightarrow> 'v resource_list" where
  "SelectAll E r =
     (if displayObjects r = [] then r
      else if SelectionCount r = int (length (displayObjects r)) then mark E None r
      else mark E (Some (set (filter (\<lambda>u. u \<noteq> '''') (map o_uid (displayObjects r))))) r)"

definition ClearSelection :: "'v list_env \<Rightarrow> 'v resource_list \<Rightarrow> 'v resource_list" where
  "ClearSelection E r = (if selected r = None then r else mark E None r)"

section \<open>Search and filter\<close>

definition matchingRowIndices :: "text_api \<Rightarrow> 'v resource_list \<Rightarrow> int list" where
  "matchingRowIndices A r =
     (case Re (rl_searchState r) of
        None \<Rightarrow> []
      | Some re \<Rightarrow>
          map int (filter (\<lambda>i. rowMatchesRegex A (effectiveRow r (displayObjects r ! i)) re)
            [0..<length (displayObjects r)]))"

definition set_match :: "int \<Rightarrow> int list \<Rightarrow> 'v resource_list \<Rightarrow> 'v resource_list" where
  "set_match i indices r = r\<lparr> rl_searchState := (rl_searchState r)\<lparr> CurrentIdx := i,
       MatchCount := int (length indices) \<rparr> \<rparr>"

definition rl_ApplySearch ::
  "'v list_env \<Rightarrow> string \<Rightarrow> search_mode \<Rightarrow> 'v resource_list \<Rightarrow> search_error + 'v resource_list" where
  "rl_ApplySearch E pattern mode r =
     (if mode = SearchModeFilter
      then case ss_Compile (le_text E) pattern mode (rl_filterState r) of
             Inl e \<Rightarrow> Inl e
           | Inr s \<Rightarrow> Inr (rebuildDisplay E (r\<lparr> rl_filterState := s \<rparr>))
      else case ss_Compile (le_text E) pattern mode (rl_searchState r) of
             Inl e \<Rightarrow> Inl e
           | Inr s \<Rightarrow>
               let r1 = r\<lparr> rl_searchState := s \<rparr>;
                   indices = matchingRowIndices (le_text E) r1;
                   r2 = (if ss_Active s \<and> indices \<noteq> []
                         then set_match 0 indices (r1\<lparr> rl_table :=
                                t_SetCursor (le_tui E) (indices ! 0) (rl_table r1) \<rparr>)
                         else r1)
               in Inr (rebuildDisplay E r2))"

definition rl_ClearSearch :: "'v list_env \<Rightarrow> 'v resource_list \<Rightarrow> 'v resource_list" where
  "rl_ClearSearch E r = rebuildDisplay E (r\<lparr> rl_searchState := ss_Clear (rl_searchState r) \<rparr>)"

definition rl_ClearFilter :: "'v list_env \<Rightarrow> 'v resource_list \<Rightarrow> 'v resource_list" where
  "rl_ClearFilter E r = rebuildDisplay E (r\<lparr> rl_filterState := ss_Clear (rl_filterState r) \<rparr>)"

definition rl_SearchActive :: "'v resource_list \<Rightarrow> bool" where
  "rl_SearchActive r \<longleftrightarrow> ss_Active (rl_searchState r)"

definition rl_FilterActive :: "'v resource_list \<Rightarrow> bool" where
  "rl_FilterActive r \<longleftrightarrow> ss_Active (rl_filterState r)"

definition rl_AnyActive :: "'v resource_list \<Rightarrow> bool" where
  "rl_AnyActive r \<longleftrightarrow> ss_Active (rl_searchState r) \<or> ss_Active (rl_filterState r)"

text \<open>The position in \<open>indices\<close> of the match to go to: the first after the cursor or the first
  of all, and the last before the cursor or the last of all.\<close>

definition next_match :: "int \<Rightarrow> int list \<Rightarrow> nat" where
  "next_match cur indices =
     (let k = length (takeWhile (\<lambda>i. \<not> i > cur) indices) in if k < length indices then k else 0)"

fun last_before :: "int \<Rightarrow> nat \<Rightarrow> int list \<Rightarrow> nat option" where
  "last_before cur 0 indices = None"
| "last_before cur (Suc k) indices = (if indices ! k < cur then Some k else last_before cur k indices)"

definition prev_match :: "int \<Rightarrow> int list \<Rightarrow> nat" where
  "prev_match cur indices =
     (case last_before cur (length indices) indices of Some k \<Rightarrow> k | None \<Rightarrow> length indices - 1)"

definition goto_match :: "'v list_env \<Rightarrow> nat \<Rightarrow> int list \<Rightarrow> 'v resource_list \<Rightarrow> 'v resource_list" where
  "goto_match E k indices r =
     (let r1 = set_match (int k) indices r
      in applyVisibleHighlights E (r1\<lparr> rl_table := t_SetCursor (le_tui E) (indices ! k) (rl_table r1) \<rparr>))"

definition rl_SearchNext :: "'v list_env \<Rightarrow> 'v resource_list \<Rightarrow> 'v resource_list" where
  "rl_SearchNext E r =
     (let indices = matchingRowIndices (le_text E) r
      in if indices = [] then r
         else goto_match E (next_match (t_cursor (rl_table r)) indices) indices r)"

definition rl_SearchPrev :: "'v list_env \<Rightarrow> 'v resource_list \<Rightarrow> 'v resource_list" where
  "rl_SearchPrev E r =
     (let indices = matchingRowIndices (le_text E) r
      in if indices = [] then r
         else goto_match E (prev_match (t_cursor (rl_table r)) indices) indices r)"

section \<open>Setters and title\<close>

definition rl_SetInlineSearch :: "string \<Rightarrow> 'v resource_list \<Rightarrow> 'v resource_list" where
  "rl_SetInlineSearch s r = r\<lparr> rl_inlineSearch := s \<rparr>"

definition rl_SetNamespace :: "string \<Rightarrow> 'v resource_list \<Rightarrow> 'v resource_list" where
  "rl_SetNamespace ns r = r\<lparr> rl_namespace := ns \<rparr>"

definition SetContext :: "string \<Rightarrow> 'v resource_list \<Rightarrow> 'v resource_list" where
  "SetContext c r = r\<lparr> rl_context := c \<rparr>"

definition SetContextLabel :: "string \<Rightarrow> 'v resource_list \<Rightarrow> 'v resource_list" where
  "SetContextLabel l r = r\<lparr> contextLabel := l \<rparr>"

definition SetOffline :: "bool \<Rightarrow> 'v resource_list \<Rightarrow> 'v resource_list" where
  "SetOffline b r = r\<lparr> offline := b \<rparr>"

definition nsPrefix :: "'v resource_list \<Rightarrow> string" where
  "nsPrefix r =
     (let ns = (if rl_namespace r = '''' then ''All Namespaces'' else rl_namespace r);
          pre = (if p_IsClusterScoped (rl_plugin r) then '''' else '' '' @ ns @ '' >'');
          pc = ParentContext r
      in if pc \<noteq> '''' then pre @ '' '' @ pc @ '' >'' else pre)"

definition baseTitle :: "'v resource_list \<Rightarrow> string" where
  "baseTitle r =
     (let label = p_Name (rl_plugin r);
          shown = itoa (int (length (displayObjects r)));
          total = itoa (int (length (allObjects r)));
          filtered = (rl_FilterActive r \<and> length (allObjects r) \<noteq> length (displayObjects r));
          counts = (if filtered then label @ '' ('' @ shown @ ''/'' @ total @ '')''
                    else label @ '' ('' @ shown @ '')'')
      in if HasSelection r then counts @ '' ['' @ itoa (SelectionCount r) @ '' sel]'' else counts)"

end
