(* ===== verification/Resource_List_Inv.thy ===== *)
theory Resource_List_Inv
  imports Resource_List_Ops
begin

text \<open>
  The invariant of the resource list and the proof that every operation keeps it: the table has
  one row per displayed object and its cursor is one of them, the displayed objects are objects of
  the list, every selected UID belongs to an object of the list, and the objects are in the order of
  the sort state, in the list and in every saved frame.
\<close>

section \<open>The table part\<close>

definition rows_ok :: "'v resource_list \<Rightarrow> bool" where
  "rows_ok r \<longleftrightarrow> table_wf (rl_table r) \<and> length (t_rows (rl_table r)) = length (displayObjects r)"

lemma set_rows_same [simp]:
  "table_wf t \<Longrightarrow> length rs = length (t_rows t) \<Longrightarrow> t_set_rows rs t = t\<lparr> t_rows := rs \<rparr>"
  by (auto simp: t_set_rows_def table_wf_def last_row_def Let_def)

lemma t_rows_ops [simp]:
  "t_rows (t_set_rows rs t) = rs" "t_rows (t_SetRows T rs t) = rs"
  "t_rows (t_SetColumnsAndRows T cs rs t) = rs" "t_rows (t_SetContentWidth T w t) = t_rows t"
  "t_rows (t_SetXOffset T x t) = t_rows t" "t_rows (t_SetCursor T i t) = t_rows t"
  "t_rows (t_EnsureCursorVisible T t) = t_rows t" "t_rows (t_SetLayout T cs w h t) = t_rows t"
  "t_rows (t_Focus T t) = t_rows t" "t_rows (t_Blur T t) = t_rows t"
  "t_rows (SetSelectionActive T b t) = t_rows t" "t_rows (t_SetStyles T s t) = t_rows t"
  "t_rows (t_scrollToCursor T t) = t_rows t"
  by (simp_all add: t_set_rows_def t_SetRows_def t_SetColumnsAndRows_def t_SetContentWidth_def t_SetXOffset_def
      t_SetCursor_def t_EnsureCursorVisible_def t_SetLayout_def t_Focus_def t_Blur_def SetSelectionActive_def
      t_SetStyles_def t_scrollToCursor_def t_set_height_def t_set_width_def Let_def)

lemma t_cursor_ops [simp]:
  "t_cursor (t_SetContentWidth T w t) = t_cursor t" "t_cursor (t_SetXOffset T x t) = t_cursor t"
  "t_cursor (t_EnsureCursorVisible T t) = t_cursor t" "t_cursor (t_SetLayout T cs w h t) = t_cursor t"
  "t_cursor (t_Focus T t) = t_cursor t" "t_cursor (t_Blur T t) = t_cursor t"
  "t_cursor (SetSelectionActive T b t) = t_cursor t" "t_cursor (t_scrollToCursor T t) = t_cursor t"
  "t_cursor (t_SetCursor T i t) = clamp i 0 (last_row t)"
  by (simp_all add: t_SetContentWidth_def t_SetXOffset_def t_EnsureCursorVisible_def t_SetLayout_def t_Focus_def
      t_Blur_def SetSelectionActive_def t_scrollToCursor_def t_SetCursor_def t_set_height_def t_set_width_def Let_def)

lemma t_rows_moves [simp]:
  "t_rows (t_MoveUp T n t) = t_rows t" "t_rows (t_MoveDown T n t) = t_rows t"
  "t_rows (t_GotoTop T t) = t_rows t" "t_rows (t_GotoBottom T t) = t_rows t"
  "t_rows (t_Update T k t) = t_rows t"
  by (simp_all add: t_MoveUp_def t_MoveDown_def t_GotoTop_def t_GotoBottom_def t_Update_def)

section \<open>Highlighting changes cells only\<close>

lemma avh_only_table: "applyVisibleHighlights E r = r\<lparr> rl_table := rl_table (applyVisibleHighlights E r) \<rparr>"
  by (simp add: applyVisibleHighlights_def Let_def split: option.splits prod.splits)

lemma avh_fields [simp]:
  "rl_plugin (applyVisibleHighlights E r) = rl_plugin r" "allObjects (applyVisibleHighlights E r) = allObjects r"
  "displayObjects (applyVisibleHighlights E r) = displayObjects r"
  "rl_filterState (applyVisibleHighlights E r) = rl_filterState r"
  "rl_searchState (applyVisibleHighlights E r) = rl_searchState r"
  "rl_sortState (applyVisibleHighlights E r) = rl_sortState r"
  "rl_namespace (applyVisibleHighlights E r) = rl_namespace r"
  "rl_context (applyVisibleHighlights E r) = rl_context r"
  "navStack (applyVisibleHighlights E r) = navStack r" "navFloor (applyVisibleHighlights E r) = navFloor r"
  "selected (applyVisibleHighlights E r) = selected r"
  "cachedColumnWidths (applyVisibleHighlights E r) = cachedColumnWidths r"
  by (subst avh_only_table; simp)+

lemma avh_table [simp]:
  "length (t_rows (rl_table (applyVisibleHighlights E r))) = length (t_rows (rl_table r))"
  "table_wf (rl_table r) \<Longrightarrow> table_wf (rl_table (applyVisibleHighlights E r))"
  "table_wf (rl_table r) \<Longrightarrow> t_cursor (rl_table (applyVisibleHighlights E r)) = t_cursor (rl_table r)"
proof -
  show "length (t_rows (rl_table (applyVisibleHighlights E r))) = length (t_rows (rl_table r))"
    by (simp add: applyVisibleHighlights_def Let_def split: option.splits prod.splits)
  assume wf: "table_wf (rl_table r)"
  then have wf1: "table_wf (t_EnsureCursorVisible (le_tui E) (rl_table r))" by simp
  show "table_wf (rl_table (applyVisibleHighlights E r))"
    using wf wf1 by (auto simp: applyVisibleHighlights_def Let_def table_wf_def last_row_def t_SetRows_def
        t_set_rows_def split: option.splits prod.splits)
  show "t_cursor (rl_table (applyVisibleHighlights E r)) = t_cursor (rl_table r)"
    using wf wf1 by (auto simp: applyVisibleHighlights_def Let_def t_SetRows_def split: option.splits prod.splits)
qed

lemma rows_ok_avh [simp]: "rows_ok r \<Longrightarrow> rows_ok (applyVisibleHighlights E r)"
  by (simp add: rows_ok_def)

section \<open>Rebuilding\<close>

lemma rebind_only_table:
  "rebindRowStyle E r = r\<lparr> rl_table := (rl_table r)\<lparr> RowStyleFunc := RowStyleFunc (rl_table (rebindRowStyle E r)) \<rparr> \<rparr>"
  by (simp add: rebindRowStyle_def Let_def)

lemma rebind_fields [simp]:
  "rl_plugin (rebindRowStyle E r) = rl_plugin r" "allObjects (rebindRowStyle E r) = allObjects r"
  "displayObjects (rebindRowStyle E r) = displayObjects r"
  "rl_filterState (rebindRowStyle E r) = rl_filterState r"
  "rl_searchState (rebindRowStyle E r) = rl_searchState r"
  "rl_sortState (rebindRowStyle E r) = rl_sortState r" "rl_namespace (rebindRowStyle E r) = rl_namespace r"
  "rl_context (rebindRowStyle E r) = rl_context r"
  "navStack (rebindRowStyle E r) = navStack r" "navFloor (rebindRowStyle E r) = navFloor r"
  "selected (rebindRowStyle E r) = selected r"
  "cachedColumnWidths (rebindRowStyle E r) = cachedColumnWidths r"
  "cachedContentWidth (rebindRowStyle E r) = cachedContentWidth r"
  "cachedRowCount (rebindRowStyle E r) = cachedRowCount r"
  "t_rows (rl_table (rebindRowStyle E r)) = t_rows (rl_table r)"
  "t_cursor (rl_table (rebindRowStyle E r)) = t_cursor (rl_table r)"
  "table_wf (rl_table (rebindRowStyle E r)) = table_wf (rl_table r)"
  by (simp_all add: rebindRowStyle_def Let_def)

lemma set_columns_fields [simp]:
  "rl_plugin (set_columns E cs cw rs r) = rl_plugin r" "allObjects (set_columns E cs cw rs r) = allObjects r"
  "displayObjects (set_columns E cs cw rs r) = displayObjects r"
  "rl_filterState (set_columns E cs cw rs r) = rl_filterState r"
  "rl_searchState (set_columns E cs cw rs r) = rl_searchState r"
  "rl_sortState (set_columns E cs cw rs r) = rl_sortState r"
  "rl_namespace (set_columns E cs cw rs r) = rl_namespace r" "rl_context (set_columns E cs cw rs r) = rl_context r"
  "navStack (set_columns E cs cw rs r) = navStack r" "navFloor (set_columns E cs cw rs r) = navFloor r"
  "selected (set_columns E cs cw rs r) = selected r"
  "cachedColumnWidths (set_columns E cs cw rs r) = cachedColumnWidths r"
  "t_rows (rl_table (set_columns E cs cw rs r)) = rs"
  by (simp_all add: set_columns_def)

lemma set_columns_wf [simp]:
  "0 \<le> t_cursor (rl_table r) \<Longrightarrow> table_wf (rl_table (set_columns E cs cw rs r))"
  by (simp add: set_columns_def table_wf_ops)

lemma set_columns_cursor [simp]:
  "table_wf (rl_table r) \<Longrightarrow> length rs = length (t_rows (rl_table r)) \<Longrightarrow>
     t_cursor (rl_table (set_columns E cs cw rs r)) = t_cursor (rl_table r)"
  by (simp add: set_columns_def t_SetColumnsAndRows_def)

lemma renderRows_fields [simp]:
  "rl_plugin (renderRows E r) = rl_plugin r" "allObjects (renderRows E r) = allObjects r"
  "displayObjects (renderRows E r) = displayObjects r" "rl_filterState (renderRows E r) = rl_filterState r"
  "rl_searchState (renderRows E r) = rl_searchState r" "rl_sortState (renderRows E r) = rl_sortState r"
  "rl_namespace (renderRows E r) = rl_namespace r" "rl_context (renderRows E r) = rl_context r"
  "navStack (renderRows E r) = navStack r" "navFloor (renderRows E r) = navFloor r"
  "selected (renderRows E r) = selected r"
  "t_rows (rl_table (renderRows E r)) = map (effectiveRow r) (displayObjects r)"
  "0 \<le> t_cursor (rl_table r) \<Longrightarrow> table_wf (rl_table (renderRows E r))"
  by (simp_all add: renderRows_def Let_def split: option.splits prod.splits)

lemma rebuildDisplay_fields [simp]:
  "rl_plugin (rebuildDisplay E r) = rl_plugin r" "allObjects (rebuildDisplay E r) = allObjects r"
  "displayObjects (rebuildDisplay E r) = shown_objects (le_text E) r"
  "rl_filterState (rebuildDisplay E r) = rl_filterState r"
  "rl_searchState (rebuildDisplay E r) = rl_searchState r" "rl_sortState (rebuildDisplay E r) = rl_sortState r"
  "rl_namespace (rebuildDisplay E r) = rl_namespace r" "rl_context (rebuildDisplay E r) = rl_context r"
  "navStack (rebuildDisplay E r) = navStack r" "navFloor (rebuildDisplay E r) = navFloor r"
  "selected (rebuildDisplay E r) = selected r"
  by (simp_all add: rebuildDisplay_def)

lemma rows_ok_rebuild [simp]: "0 \<le> t_cursor (rl_table r) \<Longrightarrow> rows_ok (rebuildDisplay E r)"
  by (simp add: rebuildDisplay_def rows_ok_def)

lemma shown_subset: "set (shown_objects A r) \<subseteq> set (allObjects r)"
  by (auto simp: shown_objects_def split: option.splits)

lemma rows_okD: "rows_ok r \<Longrightarrow> 0 \<le> t_cursor (rl_table r)"
  by (simp add: rows_ok_def table_wf_def)

lemma rows_ok_table:
  "table_wf t \<Longrightarrow> length (t_rows t) = length (displayObjects r) \<Longrightarrow> rows_ok (r\<lparr> rl_table := t \<rparr>)"
  by (simp add: rows_ok_def)

section \<open>The object part\<close>

definition objs_sorted :: "sort_state \<Rightarrow> rplugin \<Rightarrow> k8s_obj list \<Rightarrow> bool" where
  "objs_sorted st p objs \<longleftrightarrow> so_Column st = '''' \<or> sorted_wrt (\<lambda>a b. object_cmp st p a b \<le> 0) objs"

definition frame_ok :: "nav_snapshot \<Rightarrow> bool" where
  "frame_ok f \<longleftrightarrow> 0 \<le> ns_Cursor f \<and> objs_sorted (ns_SortState f) (ns_Plugin f) (ns_Objects f)"

definition objs_ok :: "'v resource_list \<Rightarrow> bool" where
  "objs_ok r \<longleftrightarrow> set (displayObjects r) \<subseteq> set (allObjects r) \<and>
     selected_set r \<subseteq> o_uid ` set (allObjects r) - {''''} \<and>
     objs_sorted (rl_sortState r) (rl_plugin r) (allObjects r) \<and> list_all frame_ok (navStack r)"

definition list_wf :: "'v resource_list \<Rightarrow> bool" where
  "list_wf r \<longleftrightarrow> rows_ok r \<and> objs_ok r"

lemma objs_sorted_Nil [simp]: "objs_sorted st p []"
  by (simp add: objs_sorted_def)

lemma objs_sorted_sort [simp]: "objs_sorted st p (sortObjects objs st p)"
  using sortObjects_sorted by (auto simp: objs_sorted_def)

lemma objs_ok_table [simp]: "objs_ok (r\<lparr> rl_table := t \<rparr>) = objs_ok r"
  by (simp add: objs_ok_def selected_set_def)

lemma objs_ok_avh [simp]: "objs_ok (applyVisibleHighlights E r) = objs_ok r"
  by (simp add: objs_ok_def selected_set_def)

lemma objs_ok_rebuild:
  "selected_set r \<subseteq> o_uid ` set (allObjects r) - {''''} \<Longrightarrow>
   objs_sorted (rl_sortState r) (rl_plugin r) (allObjects r) \<Longrightarrow> list_all frame_ok (navStack r) \<Longrightarrow>
   objs_ok (rebuildDisplay E r)"
  using shown_subset [of "le_text E" r] by (auto simp: objs_ok_def selected_set_def)

lemma list_wf_on_table:
  assumes "list_wf r" and "table_wf (f (rl_table r))" and "t_rows (f (rl_table r)) = t_rows (rl_table r)"
  shows "list_wf (r\<lparr> rl_table := f (rl_table r) \<rparr>)" and "list_wf (on_table E f r)"
  using assms by (simp_all add: list_wf_def on_table_def rows_ok_table rows_ok_def)

section \<open>Every operation keeps the invariant\<close>

lemma table_wf_xOffset: "table_wf (t_SetXOffset T x t) = table_wf t"
  by simp

lemma NewResourceList_wf: "list_wf (NewResourceList E p w h)"
  by (simp add: list_wf_def rows_ok_def objs_ok_def selected_set_def NewResourceList_def Let_def
      table_wf_def last_row_def t_New_def t_SetStyles_def SetSelectionActive_def t_set_height_def t_set_width_def
      split: prod.splits)

lemma SetPlugin_fields [simp]:
  "rl_plugin (SetPlugin E p r) = p" "rl_namespace (SetPlugin E p r) = rl_namespace r"
  "rl_sortState (SetPlugin E p r) = SortStateForPlugin p" "allObjects (SetPlugin E p r) = []"
  "displayObjects (SetPlugin E p r) = []" "selected (SetPlugin E p r) = None"
  "navStack (SetPlugin E p r) = navStack r" "rl_context (SetPlugin E p r) = rl_context r"
  "t_rows (rl_table (SetPlugin E p r)) = []"
  by (simp_all add: SetPlugin_def reset_columns_def drop_cache_def set_list_xOffset_def Let_def split: prod.splits)

lemma table_wf_reset [simp]: "0 \<le> t_cursor (rl_table r) \<Longrightarrow> table_wf (rl_table (reset_columns E r))"
  by (simp add: reset_columns_def split: prod.splits)

lemma reset_columns_fields [simp]:
  "rl_plugin (reset_columns E r) = rl_plugin r" "rl_namespace (reset_columns E r) = rl_namespace r"
  "rl_context (reset_columns E r) = rl_context r"
  "rl_sortState (reset_columns E r) = rl_sortState r" "allObjects (reset_columns E r) = allObjects r"
  "displayObjects (reset_columns E r) = displayObjects r" "selected (reset_columns E r) = selected r"
  "navStack (reset_columns E r) = navStack r" "rl_filterState (reset_columns E r) = rl_filterState r"
  "rl_searchState (reset_columns E r) = rl_searchState r" "t_rows (rl_table (reset_columns E r)) = []"
  by (simp_all add: reset_columns_def split: prod.splits)

lemma SetPlugin_wf:
  assumes "0 \<le> t_cursor (rl_table r)" and "list_all frame_ok (navStack r)"
  shows "list_wf (SetPlugin E p r)"
proof -
  have "table_wf (rl_table (SetPlugin E p r))"
    unfolding SetPlugin_def using assms(1)
    by (intro table_wf_reset) (simp add: drop_cache_def set_list_xOffset_def)
  then show ?thesis using assms(2) by (simp add: list_wf_def rows_ok_def objs_ok_def selected_set_def)
qed

lemma move_cursor_wf: "list_wf r \<Longrightarrow> list_wf (move_cursor E i r)"
  using list_wf_on_table(2) [of r "t_SetCursor (le_tui E) i" E]
  by (simp add: move_cursor_def on_table_def table_wf_ops)

lemma restore_cursor_wf: "list_wf r \<Longrightarrow> list_wf (restore_cursor E k r)"
  by (simp add: restore_cursor_def Let_def move_cursor_wf split: option.splits)

lemma prune_selected_subset:
  assumes "case sel of None \<Rightarrow> True | Some s \<Rightarrow> '''' \<notin> s" and "prune_selected objs sel = Some s"
  shows "s \<subseteq> o_uid ` set objs - {''''}"
  using assms by (auto simp: prune_selected_def Let_def split: option.splits if_splits)

definition with_objects :: "k8s_obj list \<Rightarrow> 'v resource_list \<Rightarrow> 'v resource_list" where
  "with_objects objs r = (let objs1 = sortObjects objs (rl_sortState r) (rl_plugin r)
     in r\<lparr> selected := prune_selected objs1 (selected r), allObjects := objs1 \<rparr>)"

lemma SetObjects_eq: "SetObjects E objs r = restore_cursor E (selectedKey r) (rebuildDisplay E (with_objects objs r))"
  by (simp add: SetObjects_def with_objects_def Let_def)

lemma with_objects_rebuilt:
  assumes "rows_ok r" and "selected_set r \<subseteq> - {''''}" and "list_all frame_ok (navStack r)"
  shows "list_wf (rebuildDisplay E (with_objects objs r))"
proof -
  let ?o = "sortObjects objs (rl_sortState r) (rl_plugin r)"
  let ?r = "r\<lparr> selected := prune_selected ?o (selected r), allObjects := ?o \<rparr>"
  have "case selected r of None \<Rightarrow> True | Some s \<Rightarrow> '''' \<notin> s"
    using assms(2) by (auto simp: selected_set_def split: option.splits)
  then have "selected_set ?r \<subseteq> o_uid ` set (allObjects ?r) - {''''}"
    using prune_selected_subset [of "selected r" ?o] by (auto simp: selected_set_def split: option.splits)
  then have "list_wf (rebuildDisplay E ?r)"
    using assms rows_okD [OF assms(1)] by (simp add: list_wf_def objs_ok_rebuild)
  then show ?thesis by (simp add: with_objects_def Let_def)
qed

lemma SetObjects_prems:
  "rows_ok r \<Longrightarrow> selected_set r \<subseteq> - {''''} \<Longrightarrow> list_all frame_ok (navStack r) \<Longrightarrow>
     list_wf (SetObjects E objs r)"
  by (simp add: SetObjects_eq restore_cursor_wf with_objects_rebuilt)

lemma with_objects_wf: "list_wf r \<Longrightarrow> list_wf (rebuildDisplay E (with_objects objs r))"
  by (rule with_objects_rebuilt) (auto simp: list_wf_def objs_ok_def)

lemma SetObjects_wf: "list_wf r \<Longrightarrow> list_wf (SetObjects E objs r)"
  by (rule SetObjects_prems) (auto simp: list_wf_def objs_ok_def)

lemma SetSort_wf: "list_wf r \<Longrightarrow> list_wf (SetSort E col r)"
  unfolding SetSort_def Let_def
  by (rule SetObjects_prems) (auto simp: list_wf_def objs_ok_def rows_ok_def selected_set_def)

lemma list_wf_setters [simp]:
  "list_wf (rl_SetInlineSearch s r) = list_wf r" "list_wf (rl_SetNamespace s r) = list_wf r"
  "list_wf (SetContext s r) = list_wf r" "list_wf (SetContextLabel s r) = list_wf r"
  "list_wf (SetOffline b r) = list_wf r" "list_wf (SetNavFloor n r) = list_wf r"
  by (simp_all add: list_wf_def rows_ok_def objs_ok_def selected_set_def rl_SetInlineSearch_def
      rl_SetNamespace_def SetContext_def SetContextLabel_def SetOffline_def SetNavFloor_def)

lemma ResetNav_wf: "list_wf r \<Longrightarrow> list_wf (ResetNav r)"
  by (simp add: list_wf_def rows_ok_def objs_ok_def selected_set_def ResetNav_def)

lemma nav_frame_ok: "list_wf r \<Longrightarrow> frame_ok (nav_frame a b c d e (r\<lparr> selected := s \<rparr>))"
  by (simp add: list_wf_def rows_ok_def objs_ok_def frame_ok_def nav_frame_def table_wf_def)

lemma PushNav_wf:
  assumes "list_wf r"
  shows "list_wf (PushNav E child children a b c d dir r)"
proof -
  have "0 \<le> t_cursor (rl_table r)" "list_all frame_ok (navStack r)"
    using assms rows_okD by (auto simp: list_wf_def objs_ok_def)
  then show ?thesis
    unfolding PushNav_def Let_def using nav_frame_ok [OF assms, of a b c d dir None]
    by (intro SetObjects_wf SetPlugin_wf) (simp_all add: nav_Push_def)
qed

lemma PopNav_wf:
  assumes "list_wf r"
  shows "list_wf (fst (PopNav E r))"
proof (cases "nav_Pop (navStack r)")
  case None
  with assms show ?thesis by (simp add: PopNav_def)
next
  case (Some fs)
  obtain snap st where fs: "fs = (snap, st)" by (cases fs)
  have st: "navStack r = st @ [snap]" using Some fs nav_Pop_set by simp
  have fr: "frame_ok snap" "list_all frame_ok st" using assms st by (auto simp: list_wf_def objs_ok_def)
  have c: "0 \<le> t_cursor (rl_table r)" using assms rows_okD by (auto simp: list_wf_def)
  define r2 where "r2 = rebuildDisplay E ((reset_columns E (r\<lparr> navStack := st, rl_plugin := ns_Plugin snap,
      rl_namespace := ns_Namespace snap, rl_context := ns_Context snap, rl_sortState := ns_SortState snap,
      rl_filterState := ns_FilterState snap, rl_searchState := ns_SearchState snap \<rparr>))
      \<lparr> selected := None, allObjects := ns_Objects snap \<rparr>)"
  have cw: "0 \<le> t_cursor (rl_table (reset_columns E (r\<lparr> navStack := st, rl_plugin := ns_Plugin snap,
      rl_namespace := ns_Namespace snap, rl_context := ns_Context snap, rl_sortState := ns_SortState snap,
      rl_filterState := ns_FilterState snap, rl_searchState := ns_SearchState snap \<rparr>)))"
    using table_wf_reset [of "r\<lparr> navStack := st, rl_plugin := ns_Plugin snap,
      rl_namespace := ns_Namespace snap, rl_context := ns_Context snap, rl_sortState := ns_SortState snap,
      rl_filterState := ns_FilterState snap, rl_searchState := ns_SearchState snap \<rparr>" E] c
    by (simp add: table_wf_def)
  have wf: "list_wf r2"
    using fr cw by (simp add: list_wf_def r2_def) (intro objs_ok_rebuild; simp add: selected_set_def frame_ok_def)
  have eq: "fst (PopNav E r) = (if ns_Cursor snap < int (length (displayObjects r2))
      then on_table E (\<lambda>t. t_EnsureCursorVisible (le_tui E) (t_SetCursor (le_tui E) (ns_Cursor snap) t)) r2 else r2)"
    using Some fs by (simp add: PopNav_def r2_def on_table_def Let_def)
  show ?thesis
    unfolding eq using wf list_wf_on_table(2) [OF wf, of "\<lambda>t. t_EnsureCursorVisible (le_tui E) (t_SetCursor (le_tui E) (ns_Cursor snap) t)"]
    by (simp add: table_wf_ops)
qed

lemma unwind_root: "unwind (length st) root st = (if st = [] then root else Some (st ! 0), [])"
proof (induction st arbitrary: root rule: rev_induct)
  case (snoc f st)
  then show ?case by (simp add: nav_Pop_def nth_append)
qed simp

lemma ResetForReload_wf:
  assumes "list_wf r"
  shows "list_wf (ResetForReload E r)"
proof -
  have c: "0 \<le> t_cursor (rl_table r)" using assms rows_okD by (auto simp: list_wf_def)
  then have "table_wf (rl_table (reset_columns E (r\<lparr> navStack := st, rl_plugin := p, rl_namespace := n,
      rl_context := x, rl_sortState := s \<rparr>)))" for st p n x s
    by (intro table_wf_reset) simp
  with c show ?thesis
    by (auto simp: ResetForReload_def unwind_root list_wf_def rows_ok_def objs_ok_def selected_set_def
        table_wf_ops Let_def split: option.splits prod.splits)
qed

lemma mark_wf:
  assumes "list_wf r" and "case s of None \<Rightarrow> True | Some u \<Rightarrow> u \<subseteq> o_uid ` set (allObjects r) - {''''}"
  shows "list_wf (mark E s r)"
  using assms by (auto simp: mark_def list_wf_def rows_ok_def objs_ok_def selected_set_def Let_def split: option.splits)

lemma ToggleSelect_wf: "list_wf r \<Longrightarrow> list_wf (ToggleSelect E r)"
proof -
  assume wf: "list_wf r"
  let ?i = "t_cursor (rl_table r)"
  show ?thesis
  proof (cases "?i < 0 \<or> ?i \<ge> int (length (displayObjects r)) \<or> o_uid (displayObjects r ! nat ?i) = ''''")
    case True
    with wf show ?thesis by (auto simp: ToggleSelect_def Let_def)
  next
    case False
    have "displayObjects r ! nat ?i \<in> set (displayObjects r)" using False by (intro nth_mem) linarith
    then have "o_uid (displayObjects r ! nat ?i) \<in> o_uid ` set (allObjects r) - {''''}"
      using wf False by (auto simp: list_wf_def objs_ok_def)
    moreover have "selected_set r \<subseteq> o_uid ` set (allObjects r) - {''''}"
      using wf by (simp add: list_wf_def objs_ok_def)
    ultimately show ?thesis
      using False unfolding ToggleSelect_def Let_def by (auto intro!: mark_wf [OF wf] split: option.splits)
  qed
qed

lemma SelectAll_wf: "list_wf r \<Longrightarrow> list_wf (SelectAll E r)"
  using mark_wf [of r] by (auto simp: SelectAll_def intro!: mark_wf) (auto simp: list_wf_def objs_ok_def)

lemma ClearSelection_wf: "list_wf r \<Longrightarrow> list_wf (ClearSelection E r)"
  by (simp add: ClearSelection_def mark_wf)

lemma rebuild_wf:
  "list_wf r \<Longrightarrow> displayObjects r' = displayObjects r \<Longrightarrow> allObjects r' = allObjects r \<Longrightarrow>
   selected r' = selected r \<Longrightarrow> rl_sortState r' = rl_sortState r \<Longrightarrow> rl_plugin r' = rl_plugin r \<Longrightarrow>
   navStack r' = navStack r \<Longrightarrow> 0 \<le> t_cursor (rl_table r') \<Longrightarrow> list_wf (rebuildDisplay E r')"
  by (simp add: list_wf_def) (intro objs_ok_rebuild; simp add: objs_ok_def selected_set_def)

lemma clamp_last_row [simp]: "0 \<le> clamp i 0 (last_row t)"
  using clamp_bounds [of 0 "last_row t" i] by simp

lemma search_ops_wf:
  assumes "list_wf r"
  shows "rl_ApplySearch E pat mode r = Inr r' \<Longrightarrow> list_wf r'"
    and "list_wf (rl_ClearSearch E r)" and "list_wf (rl_ClearFilter E r)"
proof -
  have c: "0 \<le> t_cursor (rl_table r)" using assms rows_okD by (auto simp: list_wf_def)
  show "list_wf (rl_ClearSearch E r)" "list_wf (rl_ClearFilter E r)"
    unfolding rl_ClearSearch_def rl_ClearFilter_def using c by (auto intro!: rebuild_wf [OF assms])
  assume "rl_ApplySearch E pat mode r = Inr r'"
  then show "list_wf r'"
    using c by (auto simp: rl_ApplySearch_def set_match_def Let_def split: if_splits sum.splits
        intro!: rebuild_wf [OF assms])
qed

lemma goto_match_wf: "list_wf r \<Longrightarrow> list_wf (goto_match E k ix r)"
  by (simp add: goto_match_def set_match_def list_wf_def rows_ok_def table_wf_ops Let_def)
    (simp add: objs_ok_def selected_set_def)

lemma search_moves_wf:
  "list_wf r \<Longrightarrow> list_wf (rl_SearchNext E r)" "list_wf r \<Longrightarrow> list_wf (rl_SearchPrev E r)"
  by (simp_all add: rl_SearchNext_def rl_SearchPrev_def Let_def goto_match_wf)

lemma xOffset_wf: "list_wf r \<Longrightarrow> list_wf (set_list_xOffset E x r)"
  by (simp add: set_list_xOffset_def list_wf_def rows_ok_def objs_ok_def selected_set_def)

lemma SetSize_wf: "list_wf r \<Longrightarrow> list_wf (rl_SetSize E w h r)"
  by (simp add: rl_SetSize_def drop_cache_def set_list_xOffset_def list_wf_def rows_ok_def objs_ok_def
      selected_set_def Let_def split: prod.splits)

lemma SetBorderless_wf: "list_wf r \<Longrightarrow> list_wf (rl_SetBorderless E b r)"
  unfolding rl_SetBorderless_def by (rule SetSize_wf) (simp add: list_wf_def rows_ok_def objs_ok_def selected_set_def)

lemma applyFocus_wf: "list_wf r \<Longrightarrow> list_wf (applyFocus E a b r)"
  by (simp add: applyFocus_def list_wf_def rows_ok_def objs_ok_def selected_set_def Let_def)

end
