(* ===== verification/Resource_List_Props.thy ===== *)
theory Resource_List_Props
  imports Resource_List_Inv Plain_Tui
begin

text \<open>
  Runs of the resource list and its properties, with concrete lists of the instance
  \<^verbatim>\<open>Plain_Tui\<close> they are applied to.
\<close>

section \<open>Runs\<close>

datatype (plugins only: code) list_op =
    LSetObjects "k8s_obj list" | LSetSort string | LSetCursor int | LUp | LDown | LPageUp | LPageDown | LTop | LBottom
  | LLeft | LRight | LHome | LEnd | LSize int int | LBorderless bool | LFocus | LBlur | LBlurBorder
  | LKey "table_key \<Rightarrow> bool" | LSetPlugin rplugin | LSetNamespace string | LSetContext string
  | LPush rplugin "k8s_obj list" string string string string nav_direction | LPop | LResetNav | LReload
  | LToggle | LSelectAll | LClearSelection | LSearch string search_mode | LClearSearch | LClearFilter
  | LNext | LPrev

text \<open>A search that does not compile leaves the list as it is.\<close>

fun list_exec :: "'v list_env \<Rightarrow> list_op \<Rightarrow> 'v resource_list \<Rightarrow> 'v resource_list" where
  "list_exec E (LSetObjects objs) r = SetObjects E objs r"
| "list_exec E (LSetSort c) r = SetSort E c r"
| "list_exec E (LSetCursor i) r = rl_SetCursor E i r"
| "list_exec E LUp r = CursorUp E r"
| "list_exec E LDown r = CursorDown E r"
| "list_exec E LPageUp r = rl_PageUp E r"
| "list_exec E LPageDown r = rl_PageDown E r"
| "list_exec E LTop r = rl_GotoTop E r"
| "list_exec E LBottom r = rl_GotoBottom E r"
| "list_exec E LLeft r = rl_ScrollLeft E r"
| "list_exec E LRight r = rl_ScrollRight E r"
| "list_exec E LHome r = rl_ScrollHome E r"
| "list_exec E LEnd r = rl_ScrollEnd E r"
| "list_exec E (LSize w h) r = rl_SetSize E w h r"
| "list_exec E (LBorderless b) r = rl_SetBorderless E b r"
| "list_exec E LFocus r = rl_Focus E r"
| "list_exec E LBlur r = rl_Blur E r"
| "list_exec E LBlurBorder r = rl_BlurBorder E r"
| "list_exec E (LKey k) r = rl_Update E k r"
| "list_exec E (LSetPlugin p) r = SetPlugin E p r"
| "list_exec E (LSetNamespace s) r = rl_SetNamespace s r"
| "list_exec E (LSetContext s) r = SetContext s r"
| "list_exec E (LPush p objs a b c d dir) r = PushNav E p objs a b c d dir r"
| "list_exec E LPop r = fst (PopNav E r)"
| "list_exec E LResetNav r = ResetNav r"
| "list_exec E LReload r = ResetForReload E r"
| "list_exec E LToggle r = ToggleSelect E r"
| "list_exec E LSelectAll r = SelectAll E r"
| "list_exec E LClearSelection r = ClearSelection E r"
| "list_exec E (LSearch pat m) r = (case rl_ApplySearch E pat m r of Inl e \<Rightarrow> r | Inr r1 \<Rightarrow> r1)"
| "list_exec E LClearSearch r = rl_ClearSearch E r"
| "list_exec E LClearFilter r = rl_ClearFilter E r"
| "list_exec E LNext r = rl_SearchNext E r"
| "list_exec E LPrev r = rl_SearchPrev E r"

definition list_run :: "'v list_env \<Rightarrow> list_op list \<Rightarrow> 'v resource_list \<Rightarrow> 'v resource_list" where
  "list_run E ops r = fold (list_exec E) ops r"

lemma list_exec_wf: "list_wf r \<Longrightarrow> list_wf (list_exec E op r)"
proof (cases op)
  case (LSearch pat m)
  assume "list_wf r"
  then show ?thesis using search_ops_wf(1) [of r E pat m] LSearch by (auto split: sum.splits)
next
  case (LSetPlugin p)
  assume "list_wf r"
  then show ?thesis using LSetPlugin SetPlugin_wf [of r E p] rows_okD [of r] by (simp add: list_wf_def objs_ok_def)
next
  case (LKey k)
  assume wf: "list_wf r"
  then have "table_wf (rl_table r)" by (simp add: list_wf_def rows_ok_def)
  then show ?thesis
    using LKey list_wf_on_table(1) [OF wf, of "t_Update (le_tui E) k"] by (simp add: rl_Update_def table_wf_Update)
qed (simp_all add: SetObjects_wf SetSort_wf rl_SetCursor_def CursorUp_def CursorDown_def rl_PageUp_def rl_PageDown_def
    rl_GotoTop_def rl_GotoBottom_def rl_ScrollLeft_def rl_ScrollRight_def rl_ScrollHome_def rl_ScrollEnd_def
    list_wf_on_table(2) table_wf_ops xOffset_wf SetSize_wf SetBorderless_wf rl_Focus_def rl_Blur_def
    rl_BlurBorder_def applyFocus_wf PushNav_wf PopNav_wf ResetNav_wf ResetForReload_wf ToggleSelect_wf
    SelectAll_wf ClearSelection_wf search_ops_wf search_moves_wf Let_def)

lemma list_run_wf: "list_wf r \<Longrightarrow> list_wf (list_run E ops r)"
  unfolding list_run_def by (induction ops arbitrary: r) (simp_all add: list_exec_wf)

section \<open>Concrete lists\<close>

definition demo_list_env :: "plain_vp list_env" where
  "demo_list_env = \<lparr> le_tui = plain_tui,
     le_styles = \<lparr> TableMarkedSelectedStyle = (\<lambda>s. s), TableMarkedStyle = (\<lambda>s. s),
       TableHealthWarnCursorStyle = (\<lambda>s. s), TableHealthErrorCursorStyle = (\<lambda>s. s),
       TableHealthWarnStyle = (\<lambda>s. s), TableHealthErrorStyle = (\<lambda>s. s) \<rparr>,
     le_table = \<lparr> st_Header = (\<lambda>s. s), st_Cell = (\<lambda>s. s), st_Selected = (\<lambda>s. s) \<rparr>,
     le_SearchMatch = ''43'', le_SearchFg = ''0'' \<rparr>"

definition demo_plugin :: "string \<Rightarrow> string \<Rightarrow> rplugin" where
  "demo_plugin name col = \<lparr> p_Name = name, p_ShortName = '''', p_GVR = ('''', ''v1'', name), p_IsClusterScoped = False,
     p_Columns = [\<lparr> pc_Title = ''NAME'', pc_Width = 0, pc_Flex = True \<rparr>, \<lparr> pc_Title = col, pc_Width = 6, pc_Flex = False \<rparr>],
     p_Row = (\<lambda>obj. [o_name obj, o_body obj]),
     p_SortValue = Some (\<lambda>obj c. if c = col then o_body obj else ''''), p_DefaultSort = None, p_RowHealth = None \<rparr>"

definition demo_obj :: "string \<Rightarrow> string \<Rightarrow> k8s_obj" where
  "demo_obj name body = \<lparr> o_kind = ''Pod'', o_namespace = ''ns'', o_name = name, o_uid = ''u-'' @ name,
     o_created = None, o_body = body \<rparr>"

definition demo_pods :: "plain_vp resource_list" where
  "demo_pods = list_run demo_list_env
     [LSetNamespace ''ns'', LSetObjects [demo_obj ''b'' ''x'', demo_obj ''a'' ''y'', demo_obj ''c'' ''x'']]
     (NewResourceList demo_list_env (demo_plugin ''pods'' ''STATUS'') 40 8)"

lemma demo_pods_wf: "list_wf demo_pods"
  unfolding demo_pods_def by (intro list_run_wf NewResourceList_wf)

section \<open>The invariant\<close>

text \<open>C9. Whatever is done to a resource list, its table has one row per displayed object and the
  cursor is on one of them, marked UIDs belong to listed objects, and the objects are sorted by the
  current sort state.\<close>

theorem list_invariant:
  "r = list_run E ops (NewResourceList E p w h) \<Longrightarrow>
     length (t_rows (rl_table r)) = length (displayObjects r) \<and>
     (displayObjects r \<noteq> [] \<longrightarrow> rl_Selected r \<in> Some ` set (displayObjects r)) \<and>
     set (displayObjects r) \<subseteq> set (allObjects r) \<and>
     selected_set r \<subseteq> o_uid ` set (allObjects r) \<and>
     (so_Column (rl_sortState r) \<noteq> '''' \<longrightarrow>
        sorted_wrt (\<lambda>a b. object_cmp (rl_sortState r) (rl_plugin r) a b \<le> 0) (allObjects r))"
proof -
  assume r: "r = list_run E ops (NewResourceList E p w h)"
  have wf: "list_wf r" unfolding r by (intro list_run_wf NewResourceList_wf)
  then have c: "0 \<le> t_cursor (rl_table r)" "t_cursor (rl_table r) \<le> last_row (rl_table r)"
    and len: "length (t_rows (rl_table r)) = length (displayObjects r)"
    by (simp_all add: list_wf_def rows_ok_def table_wf_def)
  have "rl_Selected r \<in> Some ` set (displayObjects r)" if "displayObjects r \<noteq> []"
    using that c len by (auto simp: rl_Selected_def last_row_def)
  then show ?thesis using wf len by (auto simp: list_wf_def objs_ok_def objs_sorted_def)
qed

theorem list_invariant_witness:
  "rl_Selected (list_run demo_list_env [LSetObjects [demo_obj ''b'' ''x'']]
     (NewResourceList demo_list_env (demo_plugin ''pods'' ''STATUS'') 40 8)) \<noteq> None"
proof -
  define r where "r = list_run demo_list_env [LSetObjects [demo_obj ''b'' ''x'']]
     (NewResourceList demo_list_env (demo_plugin ''pods'' ''STATUS'') 40 8)"
  have "map o_name (displayObjects r) = [''b'']" unfolding r_def by code_simp
  then have "displayObjects r \<noteq> []" by auto
  with list_invariant [OF r_def] have "rl_Selected r \<in> Some ` set (displayObjects r)" by blast
  then show ?thesis unfolding r_def [symmetric] by auto
qed

section \<open>Replacing the objects\<close>

lemma find_key_Some:
  "find_key key k i objs = Some j \<Longrightarrow> i \<le> j \<and> j < i + int (length objs) \<and> key (objs ! nat (j - i)) = k"
proof (induction objs arbitrary: i)
  case (Cons obj objs)
  show ?case
  proof (cases "key obj = k")
    case False
    with Cons.prems have "find_key key k (i + 1) objs = Some j" by simp
    from Cons.IH [OF this] have b: "i + 1 \<le> j" "j < i + 1 + int (length objs)" "key (objs ! nat (j - (i + 1))) = k"
      by auto
    have "nat (j - i) = Suc (nat (j - (i + 1)))" using b(1) by linarith
    with b show ?thesis by simp
  qed (use Cons.prems in auto)
qed simp

lemma find_key_None: "find_key key k i objs = None \<longleftrightarrow> k \<notin> key ` set objs"
  by (induction objs arbitrary: i) auto

lemma move_cursor_cursor:
  assumes "list_wf r" and "0 \<le> i" and "i < int (length (displayObjects r))"
  shows "t_cursor (rl_table (move_cursor E i r)) = i"
proof -
  have "length (t_rows (rl_table r)) = length (displayObjects r)" using assms(1) by (simp add: list_wf_def rows_ok_def)
  then have "clamp i 0 (last_row (rl_table r)) = i" using assms(2,3) by (simp add: clamp_def last_row_def)
  then show ?thesis by (simp add: move_cursor_def table_wf_ops)
qed

lemma move_cursor_display [simp]: "displayObjects (move_cursor E i r) = displayObjects r"
  "allObjects (move_cursor E i r) = allObjects r" "selected (move_cursor E i r) = selected r"
  "rl_namespace (move_cursor E i r) = rl_namespace r"
  by (simp_all add: move_cursor_def)

lemma restore_cursor_display [simp]: "displayObjects (restore_cursor E k r) = displayObjects r"
  "allObjects (restore_cursor E k r) = allObjects r" "selected (restore_cursor E k r) = selected r"
  "rl_namespace (restore_cursor E k r) = rl_namespace r"
  by (simp_all add: restore_cursor_def Let_def split: option.splits)

text \<open>C32. When fresh data arrives the cursor follows its object: if an object of the same kind and
  name (and namespace, when all namespaces are listed) is still displayed, the selected object
  has that identity afterwards, wherever it now is.\<close>

theorem SetObjects_follows_object:
  assumes "list_wf r" and "rl_Selected r = Some obj"
    and "\<exists>o'\<in>set (displayObjects (SetObjects E objs r)). object_key r o' = object_key r obj"
  shows "\<exists>o'. rl_Selected (SetObjects E objs r) = Some o' \<and> object_key r o' = object_key r obj"
proof -
  let ?r1 = "rebuildDisplay E (with_objects objs r)"
  have key: "selectedKey r = object_key r obj"
    using assms(2) by (auto simp: rl_Selected_def selectedKey_def Let_def split: if_splits)
  have ne: "object_key r obj \<noteq> ''''" by (simp add: object_key_def)
  have kf: "object_key ?r1 = object_key r"
    by (simp add: object_key_def fun_eq_iff with_objects_def Let_def)
  have wf: "list_wf ?r1" by (rule with_objects_wf [OF assms(1)])
  have "object_key r obj \<in> object_key r ` set (displayObjects ?r1)"
    using assms(3) by (auto simp: SetObjects_eq intro: rev_image_eqI)
  then obtain i where i: "find_key (object_key r) (object_key r obj) 0 (displayObjects ?r1) = Some i"
    using find_key_None [of "object_key r" "object_key r obj" 0 "displayObjects ?r1"] by blast
  from find_key_Some [OF this]
  have b: "0 \<le> i" "i < int (length (displayObjects ?r1))" "object_key r (displayObjects ?r1 ! nat i) = object_key r obj"
    by auto
  have "SetObjects E objs r = move_cursor E i ?r1"
    using i ne by (simp add: SetObjects_eq restore_cursor_def key kf)
  then show ?thesis
    using move_cursor_cursor [OF wf b(1,2)] b by (auto simp: rl_Selected_def)
qed

theorem SetObjects_follows_object_witness:
  "map_option o_name (rl_Selected (SetObjects demo_list_env [demo_obj ''a'' ''z'', demo_obj ''0'' ''z''] demo_pods)) = Some ''a''"
proof -
  let ?objs = "[demo_obj ''a'' ''z'', demo_obj ''0'' ''z'']"
  have s: "rl_Selected demo_pods = Some (demo_obj ''a'' ''y'')" by code_simp
  have "\<exists>o'\<in>set (displayObjects (SetObjects demo_list_env ?objs demo_pods)).
      object_key demo_pods o' = object_key demo_pods (demo_obj ''a'' ''y'')"
    by code_simp
  from SetObjects_follows_object [OF demo_pods_wf s this]
  obtain o' where o': "rl_Selected (SetObjects demo_list_env ?objs demo_pods) = Some o'"
    "object_key demo_pods o' = object_key demo_pods (demo_obj ''a'' ''y'')" by blast
  have "rl_Selected (SetObjects demo_list_env ?objs demo_pods) = Some (demo_obj ''a'' ''z'')" by code_simp
  then show ?thesis by (simp add: demo_obj_def)
qed

lemma rebuild_with_display [simp]:
  "displayObjects (rebuildDisplay E (with_objects objs r)) = shown_objects (le_text E) (with_objects objs r)"
  by simp

text \<open>Fresh data is sorted and filtered without loss: the listed objects are a permutation of the
  data in the order of the sort state, the displayed ones are those that pass the filter, and
  exactly the marks of objects that are gone disappear.\<close>

theorem SetObjects_exact:
  assumes "list_wf r" and "r' = SetObjects E objs r"
  shows "(\<forall>x. count_list (allObjects r') x = count_list objs x) \<and>
    (so_Column (rl_sortState r) \<noteq> '''' \<longrightarrow>
       sorted_wrt (\<lambda>a b. object_cmp (rl_sortState r) (rl_plugin r) a b \<le> 0) (allObjects r')) \<and>
    displayObjects r' = (case Re (rl_filterState r) of None \<Rightarrow> allObjects r'
      | Some re \<Rightarrow> filter (\<lambda>obj. rowMatchesRegex (le_text E) (effectiveRow r obj) re) (allObjects r')) \<and>
    selected_set r' = selected_set r \<inter> o_uid ` set objs"
proof -
  have all: "allObjects r' = sortObjects objs (rl_sortState r) (rl_plugin r)"
    by (simp add: assms(2) SetObjects_eq with_objects_def Let_def)
  have row: "effectiveRow (with_objects objs r) = effectiveRow r"
    by (simp add: fun_eq_iff effectiveRow_def with_objects_def Let_def)
  have "displayObjects r' = shown_objects (le_text E) (with_objects objs r)"
    by (simp add: assms(2) SetObjects_eq)
  then have disp: "displayObjects r' = (case Re (rl_filterState r) of None \<Rightarrow> allObjects r'
      | Some re \<Rightarrow> filter (\<lambda>obj. rowMatchesRegex (le_text E) (effectiveRow r obj) re) (allObjects r'))"
    unfolding shown_objects_def row by (simp add: all with_objects_def Let_def cong: option.case_cong)
  have "selected_set r' = selected_set r \<inter> o_uid ` set objs"
    by (auto simp: assms(2) SetObjects_eq with_objects_def Let_def selected_set_def prune_selected_def
        split: option.splits)
  then show ?thesis using disp all sortObjects_sorted by simp
qed

theorem SetObjects_exact_witness:
  "map o_name (allObjects (SetObjects demo_list_env [demo_obj ''q'' ''z'', demo_obj ''p'' ''z''] demo_pods)) = [''p'', ''q''] \<and>
   count_list (allObjects (SetObjects demo_list_env [demo_obj ''q'' ''z'', demo_obj ''p'' ''z''] demo_pods)) (demo_obj ''q'' ''z'') = 1"
proof -
  let ?objs = "[demo_obj ''q'' ''z'', demo_obj ''p'' ''z'']"
  have "map o_name (allObjects (SetObjects demo_list_env ?objs demo_pods)) = [''p'', ''q'']" by code_simp
  moreover have "count_list ?objs (demo_obj ''q'' ''z'') = 1" by (simp add: demo_obj_def)
  ultimately show ?thesis using SetObjects_exact [OF demo_pods_wf refl, of demo_list_env ?objs] by metis
qed

section \<open>Stepping through matches\<close>

lemma matching_sorted: "sorted_wrt (<) (matchingRowIndices A r)"
  by (auto simp: matchingRowIndices_def sorted_wrt_map intro!: sorted_wrt_filter split: option.splits)

lemma matching_range: "i \<in> set (matchingRowIndices A r) \<Longrightarrow> 0 \<le> i \<and> i < int (length (displayObjects r))"
  by (auto simp: matchingRowIndices_def split: option.splits)

lemma next_match_nth:
  assumes "sorted_wrt (<) ix" and "ix \<noteq> []"
  shows "next_match c ix < length ix \<and>
    ix ! next_match c ix = (if \<exists>i\<in>set ix. i > c then Min {i\<in>set ix. i > c} else Min (set ix))"
proof -
  let ?k = "length (takeWhile (\<lambda>i. \<not> i > c) ix)"
  have le: "ix ! i \<le> ix ! j" if "i \<le> j" "j < length ix" for i j
    using assms(1) that by (cases "i = j") (auto simp: sorted_wrt_iff_nth_less order.strict_implies_order)
  have first: "ix ! 0 = Min (set ix)"
    using assms(2) le by (intro Min_eqI [symmetric]) (auto simp: in_set_conv_nth)
  show ?thesis
  proof (cases "?k < length ix")
    case True
    then have gt: "ix ! ?k > c" using nth_length_takeWhile by blast
    have low: "\<not> ix ! i > c" if "i < ?k" for i
      using that by (metis nth_mem set_takeWhileD takeWhile_nth)
    have "Min {i\<in>set ix. i > c} = ix ! ?k"
    proof (intro Min_eqI)
      fix y assume "y \<in> {i\<in>set ix. i > c}"
      then obtain j where j: "j < length ix" "y = ix ! j" "ix ! j > c" by (auto simp: in_set_conv_nth)
      with low have "?k \<le> j" by (meson not_le)
      with j le show "ix ! ?k \<le> y" by simp
    qed (use True gt in auto)
    moreover have "\<exists>i\<in>set ix. i > c" using True gt nth_mem by blast
    ultimately show ?thesis using True by (simp add: next_match_def)
  next
    case False
    then have "takeWhile (\<lambda>i. \<not> i > c) ix = ix"
      by (metis length_takeWhile_le nat_less_le takeWhile_eq_take take_all_iff linorder_not_less)
    then have "\<not> (\<exists>i\<in>set ix. i > c)" by (metis takeWhile_eq_all_conv)
    with False first assms(2) show ?thesis by (simp add: next_match_def)
  qed
qed

lemma last_before_Some:
  "k \<le> length ix \<Longrightarrow> last_before c k ix = Some j \<Longrightarrow> j < k \<and> ix ! j < c \<and> (\<forall>i. j < i \<and> i < k \<longrightarrow> \<not> ix ! i < c)"
  by (induction k) (auto split: if_splits simp: less_Suc_eq)

lemma last_before_None: "last_before c k ix = None \<longleftrightarrow> (\<forall>i < k. \<not> ix ! i < c)"
  by (induction k) (auto simp: less_Suc_eq)

lemma prev_match_nth:
  assumes "sorted_wrt (<) ix" and "ix \<noteq> []"
  shows "prev_match c ix < length ix \<and>
    ix ! prev_match c ix = (if \<exists>i\<in>set ix. i < c then Max {i\<in>set ix. i < c} else Max (set ix))"
proof -
  have le: "ix ! i \<le> ix ! j" if "i \<le> j" "j < length ix" for i j
    using assms(1) that by (cases "i = j") (auto simp: sorted_wrt_iff_nth_less order.strict_implies_order)
  show ?thesis
  proof (cases "last_before c (length ix) ix")
    case None
    have "ix ! (length ix - 1) = Max (set ix)"
      using assms(2) le by (intro Max_eqI [symmetric]) (auto simp: in_set_conv_nth intro!: exI [of _ "length ix - 1"])
    moreover have "\<not> (\<exists>i\<in>set ix. i < c)" using None by (auto simp: last_before_None in_set_conv_nth)
    ultimately show ?thesis using None assms(2) by (simp add: prev_match_def)
  next
    case (Some j)
    from last_before_Some [OF order.refl this]
    have j: "j < length ix" "ix ! j < c" "\<And>i. j < i \<Longrightarrow> i < length ix \<Longrightarrow> \<not> ix ! i < c" by auto
    have "Max {i\<in>set ix. i < c} = ix ! j"
    proof (intro Max_eqI)
      fix y assume "y \<in> {i\<in>set ix. i < c}"
      then obtain i where i: "i < length ix" "y = ix ! i" "ix ! i < c" by (auto simp: in_set_conv_nth)
      with j(3) have "i \<le> j" by (meson not_le)
      with i le j(1) show "y \<le> ix ! j" by simp
    qed (use j in auto)
    moreover have "\<exists>i\<in>set ix. i < c" using j by (meson nth_mem)
    ultimately show ?thesis using Some j(1) by (simp add: prev_match_def)
  qed
qed

lemma goto_match_cursor:
  assumes "list_wf r" and "k < length ix" and "0 \<le> ix ! k" and "ix ! k < int (length (displayObjects r))"
  shows "t_cursor (rl_table (goto_match E k ix r)) = ix ! k"
proof -
  have "length (t_rows (rl_table r)) = length (displayObjects r)" using assms(1) by (simp add: list_wf_def rows_ok_def)
  then have "clamp (ix ! k) 0 (last_row (rl_table r)) = ix ! k"
    using assms(3,4) by (simp add: clamp_def last_row_def)
  then show ?thesis by (simp add: goto_match_def set_match_def Let_def table_wf_ops)
qed

lemma goto_match_matching [simp]: "matchingRowIndices A (goto_match E k ix r) = matchingRowIndices A r"
proof -
  have "effectiveRow (goto_match E k ix r) = effectiveRow r"
    by (simp add: fun_eq_iff effectiveRow_def goto_match_def set_match_def Let_def)
  moreover have "Re (rl_searchState (goto_match E k ix r)) = Re (rl_searchState r)"
    "displayObjects (goto_match E k ix r) = displayObjects r"
    by (simp_all add: goto_match_def set_match_def Let_def)
  ultimately show ?thesis by (simp add: matchingRowIndices_def cong: option.case_cong)
qed

lemma search_cursor:
  assumes "list_wf r" and "matchingRowIndices (le_text E) r = ix" and "ix \<noteq> []"
  shows "t_cursor (rl_table (rl_SearchNext E r)) = ix ! next_match (t_cursor (rl_table r)) ix"
    and "t_cursor (rl_table (rl_SearchPrev E r)) = ix ! prev_match (t_cursor (rl_table r)) ix"
proof -
  note s = matching_sorted [of "le_text E" r, unfolded assms(2)]
  have rng: "0 \<le> ix ! k \<and> ix ! k < int (length (displayObjects r))" if "k < length ix" for k
    using matching_range [of "ix ! k" "le_text E" r] that by (simp add: assms(2))
  have lt: "next_match c ix < length ix" "prev_match c ix < length ix" for c
    using next_match_nth [OF s assms(3)] prev_match_nth [OF s assms(3)] by blast+
  show "t_cursor (rl_table (rl_SearchNext E r)) = ix ! next_match (t_cursor (rl_table r)) ix"
    "t_cursor (rl_table (rl_SearchPrev E r)) = ix ! prev_match (t_cursor (rl_table r)) ix"
    using lt rng by (simp_all add: rl_SearchNext_def rl_SearchPrev_def Let_def assms goto_match_cursor)
qed

text \<open>Going to the next match moves the cursor to the nearest matching row below it, or to the
  first matching row when there is none below; going back from there returns to the match the
  cursor was on.\<close>

theorem search_next_prev:
  assumes "list_wf r" and "matchingRowIndices (le_text E) r = ix" and "ix \<noteq> []"
    and "c = t_cursor (rl_table r)"
  shows "t_cursor (rl_table (rl_SearchNext E r)) =
      (if \<exists>i\<in>set ix. i > c then Min {i\<in>set ix. i > c} else Min (set ix)) \<and>
    (c \<in> set ix \<longrightarrow> t_cursor (rl_table (rl_SearchPrev E (rl_SearchNext E r))) = c)"
proof -
  note s = matching_sorted [of "le_text E" r, unfolded assms(2)]
  let ?n = "t_cursor (rl_table (rl_SearchNext E r))"
  have n: "?n = (if \<exists>i\<in>set ix. i > c then Min {i\<in>set ix. i > c} else Min (set ix))"
    using search_cursor(1) [OF assms(1-3)] next_match_nth [OF s assms(3), of c] assms(4) by simp
  have m: "matchingRowIndices (le_text E) (rl_SearchNext E r) = ix"
    using assms(2,3) by (simp add: rl_SearchNext_def Let_def)
  have p: "t_cursor (rl_table (rl_SearchPrev E (rl_SearchNext E r))) =
      (if \<exists>i\<in>set ix. i < ?n then Max {i\<in>set ix. i < ?n} else Max (set ix))"
    using search_cursor(2) [OF search_moves_wf(1) [OF assms(1)] m assms(3)] prev_match_nth [OF s assms(3), of ?n] by simp
  have "(if \<exists>i\<in>set ix. i < ?n then Max {i\<in>set ix. i < ?n} else Max (set ix)) = c" if c: "c \<in> set ix"
  proof (cases "\<exists>i\<in>set ix. i > c")
    case True
    then have "{i\<in>set ix. i > c} \<noteq> {}" by auto
    then have "Min {i\<in>set ix. i > c} \<in> {i\<in>set ix. i > c}" by (intro Min_in) auto
    then have "?n \<in> {i\<in>set ix. i > c}" unfolding n if_P [OF True] .
    moreover have "\<not> i < ?n" if "i \<in> set ix" "i > c" for i
    proof -
      have "Min {i\<in>set ix. i > c} \<le> i" by (intro Min_le) (use that in auto)
      then show ?thesis unfolding n if_P [OF True] by simp
    qed
    ultimately have "Max {i\<in>set ix. i < ?n} = c" using c by (intro Max_eqI) (auto, meson not_le)
    then show ?thesis using \<open>?n \<in> _\<close> c by auto
  next
    case False
    then have "?n = Min (set ix)" using n by auto
    then have "\<not> (\<exists>i\<in>set ix. i < ?n)" using Min_le [of "set ix"] by (auto simp: not_less)
    moreover have "Max (set ix) = c" using False c by (intro Max_eqI) (auto simp: not_less)
    ultimately show ?thesis by auto
  qed
  with n p show ?thesis by simp
qed

theorem search_next_prev_witness:
  "t_cursor (rl_table (rl_SearchNext demo_list_env (list_exec demo_list_env (LSearch ''x'' SearchModeSearch) demo_pods))) = 2"
proof -
  let ?r = "list_exec demo_list_env (LSearch ''x'' SearchModeSearch) demo_pods"
  have wf: "list_wf ?r" by (rule list_exec_wf [OF demo_pods_wf])
  have m: "matchingRowIndices (le_text demo_list_env) ?r = [1, 2]" by code_simp
  have c: "1 = t_cursor (rl_table ?r)" by code_simp
  have "{i. (i = 1 \<or> i = 2) \<and> (1::int) < i} = {2}" by auto
  then show ?thesis using search_next_prev [OF wf m _ c] by simp
qed

section \<open>Drilling down and back\<close>

lemma PushNav_stack: "navStack (PushNav E child objs a b c d dir r) =
    nav_Push (nav_frame a b c d dir (r\<lparr> selected := None \<rparr>)) (navStack r)"
  by (simp add: PushNav_def SetObjects_eq restore_cursor_def move_cursor_def with_objects_def Let_def split: option.splits)

lemma frame_fields [simp]:
  "ns_Plugin (nav_frame a b c d e r) = rl_plugin r" "ns_Namespace (nav_frame a b c d e r) = rl_namespace r"
  "ns_Context (nav_frame a b c d e r) = rl_context r" "ns_Objects (nav_frame a b c d e r) = allObjects r"
  "ns_Cursor (nav_frame a b c d e r) = t_cursor (rl_table r)" "ns_SortState (nav_frame a b c d e r) = rl_sortState r"
  "ns_FilterState (nav_frame a b c d e r) = rl_filterState r" "ns_SearchState (nav_frame a b c d e r) = rl_searchState r"
  by (simp_all add: nav_frame_def)

text \<open>C33. Going back from a drill-down restores what the pane refers to and lists: whatever was done in the
  child view, when its frame is on top of the stack popping it brings back the plugin, namespace, context,
  objects, sort, filter, search, displayed objects, stack and cursor of a pane that displayed its objects
  through its filter. It does not bring back the marks, which are gone, nor, when the child had as many rows,
  the columns of the table (\<open>pop_keeps_child_columns\<close>).\<close>

theorem push_pop_restores:
  assumes "list_wf r" and "displayObjects r = shown_objects (le_text E) r" and "list_wf r'"
    and "navStack r' = navStack (PushNav E child objs a b c d dir r)"
    and "PopNav E r' = (r'', ok)"
  shows "ok \<and> rl_plugin r'' = rl_plugin r \<and> rl_namespace r'' = rl_namespace r \<and> rl_context r'' = rl_context r \<and>
    allObjects r'' = allObjects r \<and> displayObjects r'' = displayObjects r \<and>
    rl_sortState r'' = rl_sortState r \<and> rl_filterState r'' = rl_filterState r \<and>
    rl_searchState r'' = rl_searchState r \<and> navStack r'' = navStack r \<and>
    t_cursor (rl_table r'') = t_cursor (rl_table r) \<and> selected r'' = None"
proof -
  let ?f = "nav_frame a b c d dir (r\<lparr> selected := None \<rparr>)"
  let ?r1 = "r'\<lparr> navStack := navStack r, rl_plugin := rl_plugin r, rl_namespace := rl_namespace r,
      rl_context := rl_context r, rl_sortState := rl_sortState r, rl_filterState := rl_filterState r,
      rl_searchState := rl_searchState r \<rparr>"
  define r2 where "r2 = rebuildDisplay E ((reset_columns E ?r1)\<lparr> selected := None, allObjects := allObjects r \<rparr>)"
  let ?mv = "\<lambda>t. t_EnsureCursorVisible (le_tui E) (t_SetCursor (le_tui E) (t_cursor (rl_table r)) t)"
  have pop: "PopNav E r' = (if t_cursor (rl_table r) < int (length (displayObjects r2)) then on_table E ?mv r2 else r2, True)"
    using assms(4) by (simp add: PopNav_def PushNav_stack r2_def on_table_def Let_def)
  have row: "effectiveRow ((reset_columns E ?r1)\<lparr> selected := None, allObjects := allObjects r \<rparr>) = effectiveRow r"
    by (simp add: fun_eq_iff effectiveRow_def)
  have disp: "displayObjects r2 = displayObjects r"
    by (simp add: r2_def assms(2)) (simp only: shown_objects_def row, simp cong: option.case_cong)
  have c0: "0 \<le> t_cursor (rl_table (reset_columns E ?r1))"
    using table_wf_reset [of ?r1 E] rows_okD [of r'] assms(3) by (simp add: list_wf_def table_wf_def)
  have ok2: "rows_ok r2" unfolding r2_def by (rule rows_ok_rebuild) (use c0 in simp)
  have cr: "0 \<le> t_cursor (rl_table r)" "t_cursor (rl_table r) \<le> max 0 (int (length (displayObjects r)) - 1)"
    using assms(1) by (auto simp: list_wf_def rows_ok_def table_wf_def last_row_def)
  have cur: "t_cursor (rl_table r'') = t_cursor (rl_table r)"
  proof (cases "t_cursor (rl_table r) < int (length (displayObjects r2))")
    case True
    then have "clamp (t_cursor (rl_table r)) 0 (last_row (rl_table r2)) = t_cursor (rl_table r)"
      using ok2 cr by (simp add: clamp_def last_row_def rows_ok_def)
    then show ?thesis
      using True assms(5) pop by (auto simp: on_table_def table_wf_ops)
  next
    case False
    then have "displayObjects r = []" using cr disp by (cases "displayObjects r") auto
    then have "t_cursor (rl_table r) = 0" "t_cursor (rl_table r2) = 0"
      using cr ok2 disp by (auto simp: rows_ok_def table_wf_def last_row_def)
    then show ?thesis using False assms(5) pop by simp
  qed
  have flds: "rl_plugin r'' = rl_plugin r2" "rl_namespace r'' = rl_namespace r2" "rl_context r'' = rl_context r2"
    "allObjects r'' = allObjects r2" "displayObjects r'' = displayObjects r2" "rl_sortState r'' = rl_sortState r2"
    "rl_filterState r'' = rl_filterState r2" "rl_searchState r'' = rl_searchState r2" "navStack r'' = navStack r2" "selected r'' = selected r2" "ok"
    using assms(5) pop by (auto simp: on_table_def split: if_splits)
  show ?thesis using flds disp cur by (simp add: r2_def)
qed

theorem push_pop_restores_witness:
  "rl_Selected (fst (PopNav demo_list_env (PushNav demo_list_env (demo_plugin ''containers'' ''PORTS'')
     [demo_obj ''k'' ''80''] ''b'' ''u-b'' ''v1'' ''Pod'' NavChild (rl_SetCursor demo_list_env 1 demo_pods)))) =
   rl_Selected (rl_SetCursor demo_list_env 1 demo_pods)"
proof -
  let ?r = "rl_SetCursor demo_list_env 1 demo_pods"
  let ?c = "PushNav demo_list_env (demo_plugin ''containers'' ''PORTS'') [demo_obj ''k'' ''80''] ''b'' ''u-b'' ''v1'' ''Pod'' NavChild ?r"
  have wf: "list_wf ?r" using list_exec_wf [OF demo_pods_wf, of demo_list_env "LSetCursor 1"] by simp
  have d: "displayObjects ?r = shown_objects (le_text demo_list_env) ?r" by code_simp
  obtain r'' ok where p: "PopNav demo_list_env ?c = (r'', ok)" by fastforce
  from push_pop_restores [OF wf d PushNav_wf [OF wf] refl p]
  have "displayObjects r'' = displayObjects ?r" "t_cursor (rl_table r'') = t_cursor (rl_table ?r)" by blast+
  then show ?thesis by (simp only: p fst_conv rl_Selected_def)
qed

section \<open>Marks\<close>

text \<open>Marking a row flips exactly the mark of the object under the cursor, leaves the cursor where
  it is, and marking it again restores the marks.\<close>

theorem ToggleSelect_flips:
  assumes "rl_Selected r = Some obj" and "o_uid obj \<noteq> ''''"
  shows "selected_set (ToggleSelect E r) = (if o_uid obj \<in> selected_set r then selected_set r - {o_uid obj}
      else insert (o_uid obj) (selected_set r)) \<and>
    rl_Selected (ToggleSelect E r) = Some obj \<and>
    selected_set (ToggleSelect E (ToggleSelect E r)) = selected_set r"
proof -
  have flip: "selected_set (ToggleSelect E q) = (if o_uid obj \<in> selected_set q then selected_set q - {o_uid obj}
      else insert (o_uid obj) (selected_set q)) \<and> rl_Selected (ToggleSelect E q) = Some obj"
    if "rl_Selected q = Some obj" for q :: "'a resource_list"
  proof -
    have c: "0 \<le> t_cursor (rl_table q)" "t_cursor (rl_table q) < int (length (displayObjects q))"
      "displayObjects q ! nat (t_cursor (rl_table q)) = obj"
      using that by (auto simp: rl_Selected_def Let_def split: if_splits)
    then have "ToggleSelect E q = mark E (if o_uid obj \<in> selected_set q
        then (if selected_set q - {o_uid obj} = {} then None else Some (selected_set q - {o_uid obj}))
        else Some (insert (o_uid obj) (selected_set q))) q"
      using assms(2) by (simp add: ToggleSelect_def Let_def)
    moreover have "selected_set (mark E s q) = (case s of None \<Rightarrow> {} | Some u \<Rightarrow> u)" for s
      by (simp add: mark_def selected_set_def Let_def)
    moreover have "rl_Selected (mark E s q) = rl_Selected q" for s
      by (simp add: mark_def rl_Selected_def Let_def)
    ultimately show ?thesis using that by auto
  qed
  show ?thesis using flip [OF assms(1)] flip [of "ToggleSelect E r"] by auto
qed

theorem ToggleSelect_flips_witness:
  "selected_set (ToggleSelect demo_list_env demo_pods) = {''u-a''} \<and> t_cursor (rl_table (ToggleSelect demo_list_env demo_pods)) = 0"
proof -
  have "rl_Selected demo_pods = Some (demo_obj ''a'' ''y'')" by code_simp
  moreover have "selected_set demo_pods = {}" by code_simp
  moreover have "t_cursor (rl_table (ToggleSelect demo_list_env demo_pods)) = 0" by code_simp
  ultimately show ?thesis
    using ToggleSelect_flips [of demo_pods "demo_obj ''a'' ''y''" demo_list_env] by (simp add: demo_obj_def)
qed

section \<open>Cached columns\<close>

definition titles :: "'v resource_list \<Rightarrow> string list" where
  "titles r = map col_Title (t_cols (rl_table r))"

text \<open>The header keeps the columns cached for a number of rows: after a change of the sort column
  the arrow still marks the old one, until the pane is resized.\<close>

theorem sort_arrow_stale:
  "so_Column (rl_sortState (SetSort demo_list_env ''STATUS'' demo_pods)) = ''STATUS'' \<and>
   titles (SetSort demo_list_env ''STATUS'' demo_pods) = [''NAME '' @ tri_up, ''STATUS''] \<and>
   titles (rl_SetSize demo_list_env 40 8 (SetSort demo_list_env ''STATUS'' demo_pods)) = [''NAME'', ''STATUS '' @ tri_up]"
  by (intro conjI) code_simp+

text \<open>The same cache outlives a drill-down: coming back from a child view with as many rows, the
  parent's rows appear under the child's columns.\<close>

theorem pop_keeps_child_columns:
  "titles demo_pods = [''NAME '' @ tri_up, ''STATUS''] \<and>
   titles (fst (PopNav demo_list_env (PushNav demo_list_env (demo_plugin ''containers'' ''PORTS'')
     [demo_obj ''k'' ''80'', demo_obj ''l'' ''81'', demo_obj ''m'' ''82''] ''b'' ''u-b'' ''v1'' ''Pod'' NavChild demo_pods))) =
   [''NAME '' @ tri_up, ''PORTS'']"
  by (intro conjI) code_simp+

text \<open>Objects that are equal in the sort column are ordered by name, so the order in which the
  informer delivered them is not kept.\<close>

theorem sort_ties_by_name:
  assumes "sortValueFor a (upper (so_Column st)) (p_SortValue p) = sortValueFor b (upper (so_Column st)) (p_SortValue p)"
    and "so_Column st \<noteq> ''''" and "str_cmp (o_name a) (o_name b) < 0"
  shows "sortObjects [b, a] st p = [a, b]"
proof -
  have "object_cmp st p b a = str_cmp (o_name b) (o_name a)" using assms(1) by (simp add: object_cmp_def)
  then have "object_cmp st p b a > 0" using assms(3) str_cmp_antisym [of "o_name b" "o_name a"] by simp
  then show ?thesis using assms(2) by (simp add: sortObjects_def sort_stable_def)
qed

theorem sort_ties_by_name_witness:
  "sortObjects [demo_obj ''b'' ''x'', demo_obj ''a'' ''x''] \<lparr> so_Column = ''STATUS'', so_Ascending = True \<rparr>
     (demo_plugin ''pods'' ''STATUS'') = [demo_obj ''a'' ''x'', demo_obj ''b'' ''x'']"
  by (rule sort_ties_by_name) (simp_all add: sortValueFor_def demo_plugin_def demo_obj_def upper_def)

end
