(* ===== verification/Detail_View.thy ===== *)
theory Detail_View
  imports Log_View_Ops
begin

text \<open>
  \<^verbatim>\<open>internal/ui/detailview.go\<close> and \<open>wrapLines\<close> of \<^verbatim>\<open>ansisplit.go\<close>:
  the panel for YAML, describe and log text. It keeps the raw text, on which search and filter
  run, and the coloured text it displays, line by line parallel to it. Wrapping is done here, with
  a table that maps each visual row to its line and column.
\<close>

section \<open>The viewport\<close>

text \<open>
  The further methods of the viewport widget, and \<open>lipgloss.StyleRanges\<close>, whose ranges carry
  \<open>True\<close> for the style of the selected match.
\<close>

record 'v view_api = "'v tui_api" +
  va_XOffset :: "'v \<Rightarrow> int"
  va_SetXOffset :: "int \<Rightarrow> 'v \<Rightarrow> 'v"
  va_ScrollLeft :: "int \<Rightarrow> 'v \<Rightarrow> 'v"
  va_ScrollRight :: "int \<Rightarrow> 'v \<Rightarrow> 'v"
  va_ScrollUp :: "int \<Rightarrow> 'v \<Rightarrow> 'v"
  va_ScrollDown :: "int \<Rightarrow> 'v \<Rightarrow> 'v"
  va_PageUp :: "'v \<Rightarrow> 'v"
  va_PageDown :: "'v \<Rightarrow> 'v"
  va_GotoTop :: "'v \<Rightarrow> 'v"
  va_GotoBottom :: "'v \<Rightarrow> 'v"
  va_GetContent :: "'v \<Rightarrow> string"
  va_VisibleLineCount :: "'v \<Rightarrow> int"
  va_SetHighlights :: "(nat \<times> nat) list \<Rightarrow> 'v \<Rightarrow> 'v"
  va_ClearHighlights :: "'v \<Rightarrow> 'v"
  va_HighlightNext :: "'v \<Rightarrow> 'v"
  va_HighlightPrevious :: "'v \<Rightarrow> 'v"
  va_EnsureVisible :: "int \<Rightarrow> int \<Rightarrow> int \<Rightarrow> 'v \<Rightarrow> 'v"
  StyleRanges :: "string \<Rightarrow> (int \<times> int \<times> bool) list \<Rightarrow> string"

section \<open>State\<close>

datatype detail_mode = DetailYAML | DetailDescribe | DetailLogs | DetailValues | DetailValuesAll

record line_map =
  lm_logicalLine :: int
  lm_colOffset :: int

record 'v detail_view =
  dv_viewport :: 'v
  dv_mode :: detail_mode
  loading :: bool
  loadErr :: string
  dv_focused :: bool
  dv_borderless :: bool
  dv_showHeader :: bool
  dv_width :: int
  dv_height :: int
  dv_filterState :: search_state
  dv_searchState :: search_state
  rawContent :: string
  displayContent :: string
  dv_matchPositions :: "match_position list"
  dv_matchIndex :: int
  dv_inlineSearch :: string
  envResolved :: bool
  dv_softWrap :: bool
  wrapMapping :: "line_map list option"

definition NewDetailView :: "('v, 'z) view_api_scheme \<Rightarrow> int \<Rightarrow> int \<Rightarrow> 'v detail_view" where
  "NewDetailView T w h =
     \<lparr> dv_viewport = va_SetHeight T (h - 2) (va_SetWidth T (w - 2) (va_New T)), dv_mode = DetailYAML,
       loading = False, loadErr = '''', dv_focused = False, dv_borderless = False, dv_showHeader = True,
       dv_width = w, dv_height = h, dv_filterState = zero_search, dv_searchState = zero_search,
       rawContent = '''', displayContent = '''', dv_matchPositions = [], dv_matchIndex = 0,
       dv_inlineSearch = '''', envResolved = False, dv_softWrap = False, wrapMapping = None \<rparr>"

section \<open>Wrapping\<close>

text \<open>
  The segments of one line from column \<open>col\<close>: text, width and start column. A display width is
  never negative, so a width that is not positive is the zero the code tests for.
\<close>

function wrap_segs :: "text_api \<Rightarrow> string \<Rightarrow> int \<Rightarrow> int \<Rightarrow> int \<Rightarrow> (string \<times> int \<times> int) list" where
  "wrap_segs A line width lineWidth col =
     (if \<not> col < lineWidth then []
      else
        let segW = (if col = 0 then width else continuationWidth width);
            end0 = (if col + segW > lineWidth then lineWidth else col + segW);
            seg = Cut A line col end0;
            w = StringWidth A seg
        in if w \<le> 0
           then let extEnd = (if end0 + 1 > lineWidth then lineWidth else end0 + 1);
                    seg1 = Cut A line col extEnd;
                    w1 = StringWidth A seg1
                in if w1 \<le> 0 then wrap_segs A line width lineWidth (col + 1)
                   else (seg1, w1, col) # wrap_segs A line width lineWidth (col + w1)
           else (seg, w, col) # wrap_segs A line width lineWidth (col + w))"
  by pat_completeness auto
termination
  by (relation "measure (\<lambda>(_, _, _, lineWidth, col). nat (lineWidth - col))") auto

declare wrap_segs.simps [simp del]

definition wrap_one :: "text_api \<Rightarrow> int \<Rightarrow> int \<Rightarrow> string \<Rightarrow> string list \<times> line_map list" where
  "wrap_one A width i line =
     (let lineWidth = StringWidth A line
      in if lineWidth \<le> width
         then ([line], [\<lparr> lm_logicalLine = i, lm_colOffset = 0 \<rparr>])
         else let segs = wrap_segs A line width lineWidth 0
              in (fst (prefixContinuationRows (map fst segs) (map (fst \<circ> snd) segs) (wrapPrefix A)
                         wrapIndicatorWidth False),
                  map (\<lambda>s. \<lparr> lm_logicalLine = i, lm_colOffset = snd (snd s) \<rparr>) segs))"

fun wrap_from :: "text_api \<Rightarrow> int \<Rightarrow> int \<Rightarrow> string list \<Rightarrow> string list \<times> line_map list" where
  "wrap_from A width i [] = ([], [])"
| "wrap_from A width i (l # ls) =
     (let (ws, ms) = wrap_one A width i l; (ws1, ms1) = wrap_from A width (i + 1) ls
      in (ws @ ws1, ms @ ms1))"

definition wrapLines :: "text_api \<Rightarrow> string list \<Rightarrow> int \<Rightarrow> string list \<times> line_map list" where
  "wrapLines A ls width =
     (if width \<le> 0
      then (ls, map (\<lambda>i. \<lparr> lm_logicalLine = int i, lm_colOffset = 0 \<rparr>) [0..<length ls])
      else wrap_from A width 0 ls)"

definition setViewportContent :: "('v, 'z) view_api_scheme \<Rightarrow> string \<Rightarrow> 'v detail_view \<Rightarrow> 'v detail_view" where
  "setViewportContent T content d =
     (if dv_softWrap d
      then let (ws, ms) = wrapLines (tui_text T) (split_lines content) (va_Width T (dv_viewport d))
           in d\<lparr> wrapMapping := Some ms, dv_viewport := va_SetContent T (join_lines ws) (dv_viewport d) \<rparr>
      else d\<lparr> wrapMapping := None, dv_viewport := va_SetContent T content (dv_viewport d) \<rparr>)"

section \<open>Matches\<close>

text \<open>
  A match of the raw text, cut into its parts on the lines it covers: line index, start and end
  byte on that line, and the line. \<open>i\<close> and \<open>lineStart\<close> are the index and the byte offset of the
  first of the remaining lines.
\<close>

fun skip_to :: "int \<Rightarrow> int \<Rightarrow> int \<Rightarrow> string list \<Rightarrow> int \<times> int \<times> string list" where
  "skip_to start i lineStart (l # m # ls) =
     (if lineStart + int (length l) + 1 \<le> start
      then skip_to start (i + 1) (lineStart + int (length l) + 1) (m # ls)
      else (i, lineStart, l # m # ls))"
| "skip_to start i lineStart ls = (i, lineStart, ls)"

fun span_lines :: "int \<Rightarrow> int \<Rightarrow> int \<Rightarrow> int \<Rightarrow> bool \<Rightarrow> string list \<Rightarrow> (int \<times> int \<times> int \<times> string) list" where
  "span_lines start e i lineStart first [] = []"
| "span_lines start e i lineStart first (l # ls) =
     (let lineEnd = lineStart + int (length l);
          segStart = (if first then start - lineStart else 0);
          segEnd = (if e \<le> lineEnd then e - lineStart else int (length l))
      in (i, segStart, segEnd, l) #
         (if e \<le> lineEnd then [] else span_lines start e (i + 1) (lineEnd + 1) False ls))"

fun match_segments :: "int \<Rightarrow> int \<Rightarrow> string list \<Rightarrow> (nat \<times> nat) list \<Rightarrow> (int \<times> int \<times> int \<times> string) list" where
  "match_segments i lineStart ls [] = []"
| "match_segments i lineStart ls ((s, e) # ms) =
     (let (i1, st1, ls1) = skip_to (int s) i lineStart ls
      in span_lines (int s) (int e) i1 st1 True ls1 @ match_segments i1 st1 ls1 ms)"

definition segment_position :: "text_api \<Rightarrow> int \<times> int \<times> int \<times> string \<Rightarrow> match_position" where
  "segment_position A seg = (case seg of (i, a, b, l) \<Rightarrow>
     \<lparr> mp_line = i, mp_colStart = StringWidth A (take (nat a) l), mp_colEnd = StringWidth A (take (nat b) l) \<rparr>)"

definition computeMatchPositions :: "text_api \<Rightarrow> string \<Rightarrow> (nat \<times> nat) list \<Rightarrow> match_position list" where
  "computeMatchPositions A rawText rawMatches =
     (if rawMatches = [] then []
      else map (segment_position A) (match_segments 0 0 (split_lines rawText) rawMatches))"

definition line_ranges :: "match_position list \<Rightarrow> int \<Rightarrow> int \<Rightarrow> (int \<times> int \<times> bool) list" where
  "line_ranges positions sel k =
     map (\<lambda>(i, p). (mp_colStart p, mp_colEnd p, int i = sel))
       (filter (\<lambda>(i, p). mp_line p = k) (zip [0..<length positions] positions))"

definition buildHighlightedDisplay ::
  "('v, 'z) view_api_scheme \<Rightarrow> string \<Rightarrow> match_position list \<Rightarrow> int \<Rightarrow> string" where
  "buildHighlightedDisplay T display positions sel =
     (if positions = [] then display
      else let ls = split_lines display
           in join_lines (map (\<lambda>k. let rs = line_ranges positions sel (int k)
                in if rs = [] then ls ! k else StyleRanges T (ls ! k) rs) [0..<length ls]))"

section \<open>Filtering\<close>

definition filteredContent :: "'v detail_view \<Rightarrow> string" where
  "filteredContent d = (case Re (dv_filterState d) of None \<Rightarrow> rawContent d
     | Some re \<Rightarrow> join_lines (filter (MatchString re) (split_lines (rawContent d))))"

definition filterDisplayContent :: "'v detail_view \<Rightarrow> string" where
  "filterDisplayContent d = (case Re (dv_filterState d) of None \<Rightarrow> displayContent d
     | Some re \<Rightarrow>
         let rs = split_lines (rawContent d); ds = split_lines (displayContent d)
         in if length rs \<noteq> length ds then filteredContent d
            else join_lines (map snd (filter (\<lambda>(r, c). MatchString re r) (zip rs ds))))"

definition reapplySearch :: "('v, 'z) view_api_scheme \<Rightarrow> 'v detail_view \<Rightarrow> 'v detail_view" where
  "reapplySearch T d0 =
     (let fa = ss_Active (dv_filterState d0);
          rawForSearch = (if fa then filteredContent d0 else rawContent d0);
          display = (if fa then filterDisplayContent d0 else displayContent d0);
          d = d0\<lparr> dv_matchPositions := [], dv_matchIndex := -1 \<rparr>
      in case Re (dv_searchState d) of
           None \<Rightarrow> setViewportContent T display d
         | Some re \<Rightarrow>
             let rawMatches = FindAllStringIndex re rawForSearch
             in if \<not> dv_softWrap d \<and> rawForSearch = display
                then let d1 = setViewportContent T display d
                     in d1\<lparr> dv_viewport := va_SetHighlights T rawMatches (dv_viewport d1) \<rparr>
                else let ps = computeMatchPositions (tui_text T) rawForSearch rawMatches;
                         k = (if ps \<noteq> [] then 0 else -1)
                     in setViewportContent T (buildHighlightedDisplay T display ps k)
                          (d\<lparr> dv_matchPositions := ps, dv_matchIndex := k \<rparr>))"

definition restore_offsets :: "('v, 'z) view_api_scheme \<Rightarrow> int \<Rightarrow> int \<Rightarrow> 'v detail_view \<Rightarrow> 'v detail_view" where
  "restore_offsets T y x d = d\<lparr> dv_viewport := va_SetXOffset T x (va_SetYOffset T y (dv_viewport d)) \<rparr>"

definition rebuildHighlightedDisplay :: "('v, 'z) view_api_scheme \<Rightarrow> 'v detail_view \<Rightarrow> 'v detail_view" where
  "rebuildHighlightedDisplay T d =
     (let base = (if ss_Active (dv_filterState d) then filterDisplayContent d else displayContent d);
          hl = buildHighlightedDisplay T base (dv_matchPositions d) (dv_matchIndex d)
      in restore_offsets T (va_YOffset T (dv_viewport d)) (va_XOffset T (dv_viewport d))
           (setViewportContent T hl d))"

section \<open>Navigation\<close>

definition mapping_after :: "match_position \<Rightarrow> line_map \<Rightarrow> bool" where
  "mapping_after pos m \<longleftrightarrow> (if lm_logicalLine m \<noteq> mp_line pos then lm_logicalLine m > mp_line pos
     else lm_colOffset m > mp_colStart pos)"

definition logicalToVisual :: "line_map list \<Rightarrow> match_position \<Rightarrow> int \<times> int \<times> int" where
  "logicalToVisual ms pos =
     (let k = sort_Search (length ms) (\<lambda>i. mapping_after pos (ms ! i))
      in if k > 0 \<and> lm_logicalLine (ms ! (k - 1)) = mp_line pos
         then let off = lm_colOffset (ms ! (k - 1)); ind = (if off > 0 then wrapIndicatorWidth else 0)
              in (int (k - 1), mp_colStart pos - off + ind, mp_colEnd pos - off + ind)
         else (mp_line pos, mp_colStart pos, mp_colEnd pos))"

definition show_match :: "('v, 'z) view_api_scheme \<Rightarrow> 'v detail_view \<Rightarrow> 'v detail_view go" where
  "show_match T d0 =
     (let d = rebuildHighlightedDisplay T d0
      in go_bind (go_index (dv_matchPositions d) (dv_matchIndex d))
           (\<lambda>pos. let (l, a, b) = (case wrapMapping d of
                        Some ms \<Rightarrow> if dv_softWrap d then logicalToVisual ms pos
                                   else (mp_line pos, mp_colStart pos, mp_colEnd pos)
                      | None \<Rightarrow> (mp_line pos, mp_colStart pos, mp_colEnd pos))
                  in Inr (d\<lparr> dv_viewport := va_EnsureVisible T l a b (dv_viewport d) \<rparr>)))"

definition dv_SearchNext :: "('v, 'z) view_api_scheme \<Rightarrow> 'v detail_view \<Rightarrow> 'v detail_view go" where
  "dv_SearchNext T d =
     (if \<not> ss_Active (dv_searchState d) then Inr d
      else if dv_matchPositions d \<noteq> []
      then show_match T (d\<lparr> dv_matchIndex := go_rem (dv_matchIndex d + 1) (int (length (dv_matchPositions d))) \<rparr>)
      else Inr (d\<lparr> dv_viewport := va_HighlightNext T (dv_viewport d) \<rparr>))"

definition dv_SearchPrev :: "('v, 'z) view_api_scheme \<Rightarrow> 'v detail_view \<Rightarrow> 'v detail_view go" where
  "dv_SearchPrev T d =
     (if \<not> ss_Active (dv_searchState d) then Inr d
      else if dv_matchPositions d \<noteq> []
      then show_match T (d\<lparr> dv_matchIndex :=
             (if dv_matchIndex d - 1 < 0 then int (length (dv_matchPositions d)) - 1 else dv_matchIndex d - 1) \<rparr>)
      else Inr (d\<lparr> dv_viewport := va_HighlightPrevious T (dv_viewport d) \<rparr>))"

end
