(* ===== verification/Detail_View_Ops.thy ===== *)
theory Detail_View_Ops
  imports Detail_View
begin

text \<open>
  The operations of \<^verbatim>\<open>internal/ui/detailview.go\<close>, the positions its searches keep in
  range, and what its match positions and wrap table mean.
\<close>

section \<open>Operations\<close>

definition SetLoading :: "bool \<Rightarrow> 'v detail_view \<Rightarrow> 'v detail_view" where
  "SetLoading v d = (if v then d\<lparr> loading := True, loadErr := '''' \<rparr> else d\<lparr> loading := False \<rparr>)"

definition SetLoadError :: "('v, 'z) view_api_scheme \<Rightarrow> string \<Rightarrow> 'v detail_view \<Rightarrow> 'v detail_view" where
  "SetLoadError T msg d =
     d\<lparr> loading := False, loadErr := msg, dv_viewport := va_SetContent T msg (dv_viewport d) \<rparr>"

definition dv_SetMode :: "('v, 'z) view_api_scheme \<Rightarrow> detail_mode \<Rightarrow> 'v detail_view \<Rightarrow> 'v detail_view" where
  "dv_SetMode T mode d =
     d\<lparr> dv_mode := mode, rawContent := '''', displayContent := '''',
        dv_filterState := ss_Clear (dv_filterState d), dv_searchState := ss_Clear (dv_searchState d),
        dv_matchPositions := [], dv_matchIndex := -1,
        dv_viewport := va_SetXOffset T 0 (va_GotoTop T (va_SetContent T '''' (va_ClearHighlights T (dv_viewport d)))) \<rparr>"

definition dv_SetContent ::
  "('v, 'z) view_api_scheme \<Rightarrow> string \<Rightarrow> string \<Rightarrow> bool \<Rightarrow> 'v detail_view \<Rightarrow> 'v detail_view" where
  "dv_SetContent T rawText display refresh d =
     (let d1 = d\<lparr> loading := False, loadErr := '''', rawContent := rawText, displayContent := display \<rparr>
      in if refresh
         then reapplySearch T (d1\<lparr> dv_viewport := va_SetXOffset T 0 (va_GotoTop T (dv_viewport d1)) \<rparr>)
         else restore_offsets T (va_YOffset T (dv_viewport d)) (va_XOffset T (dv_viewport d)) (reapplySearch T d1))"

definition ClearContent :: "('v, 'z) view_api_scheme \<Rightarrow> 'v detail_view \<Rightarrow> 'v detail_view" where
  "ClearContent T d = d\<lparr> rawContent := '''', displayContent := '''', wrapMapping := None,
     dv_viewport := va_SetContent T '''' (dv_viewport d) \<rparr>"

definition on_viewport :: "('v \<Rightarrow> 'v) \<Rightarrow> 'v detail_view \<Rightarrow> 'v detail_view" where
  "on_viewport f d = d\<lparr> dv_viewport := f (dv_viewport d) \<rparr>"

definition dv_ScrollLeft :: "('v, 'z) view_api_scheme \<Rightarrow> 'v detail_view \<Rightarrow> 'v detail_view" where
  "dv_ScrollLeft T d = (if \<not> dv_softWrap d then on_viewport (va_ScrollLeft T hScrollStep) d else d)"

definition dv_ScrollRight :: "('v, 'z) view_api_scheme \<Rightarrow> 'v detail_view \<Rightarrow> 'v detail_view" where
  "dv_ScrollRight T d = (if \<not> dv_softWrap d then on_viewport (va_ScrollRight T hScrollStep) d else d)"

definition dv_ScrollHome :: "('v, 'z) view_api_scheme \<Rightarrow> 'v detail_view \<Rightarrow> 'v detail_view" where
  "dv_ScrollHome T d = (if \<not> dv_softWrap d then on_viewport (va_SetXOffset T 0) d else d)"

definition dv_ScrollEnd :: "('v, 'z) view_api_scheme \<Rightarrow> 'v detail_view \<Rightarrow> 'v detail_view" where
  "dv_ScrollEnd T d =
     (if \<not> dv_softWrap d
      then let v = dv_viewport d; ls = split_lines (va_GetContent T v);
               yOff = va_YOffset T v;
               end0 = (if yOff + va_VisibleLineCount T v > int (length ls) then int (length ls)
                       else yOff + va_VisibleLineCount T v);
               maxW = fold (\<lambda>l w. let x = StringWidth (tui_text T) l in if x > w then x else w)
                        (take (nat (end0 - yOff)) (drop (nat yOff) ls)) 0;
               off = maxW - va_Width T v
           in on_viewport (va_SetXOffset T (if off < 0 then 0 else off)) d
      else d)"

definition dv_PageDown :: "('v, 'z) view_api_scheme \<Rightarrow> 'v detail_view \<Rightarrow> 'v detail_view" where
  "dv_PageDown T d = on_viewport (va_PageDown T) d"
definition dv_PageUp :: "('v, 'z) view_api_scheme \<Rightarrow> 'v detail_view \<Rightarrow> 'v detail_view" where
  "dv_PageUp T d = on_viewport (va_PageUp T) d"
definition dv_GotoTop :: "('v, 'z) view_api_scheme \<Rightarrow> 'v detail_view \<Rightarrow> 'v detail_view" where
  "dv_GotoTop T d = on_viewport (va_GotoTop T) d"
definition dv_GotoBottom :: "('v, 'z) view_api_scheme \<Rightarrow> 'v detail_view \<Rightarrow> 'v detail_view" where
  "dv_GotoBottom T d = on_viewport (va_GotoBottom T) d"
definition dv_ScrollUp :: "('v, 'z) view_api_scheme \<Rightarrow> 'v detail_view \<Rightarrow> 'v detail_view" where
  "dv_ScrollUp T d = on_viewport (va_ScrollUp T 1) d"
definition dv_ScrollDown :: "('v, 'z) view_api_scheme \<Rightarrow> 'v detail_view \<Rightarrow> 'v detail_view" where
  "dv_ScrollDown T d = on_viewport (va_ScrollDown T 1) d"

definition dv_ScrollWheel :: "('v, 'z) view_api_scheme \<Rightarrow> wheel \<Rightarrow> 'v detail_view \<Rightarrow> 'v detail_view" where
  "dv_ScrollWheel T b d = (case b of
       MouseWheelUp \<Rightarrow> on_viewport (va_ScrollUp T 1) d
     | MouseWheelDown \<Rightarrow> on_viewport (va_ScrollDown T 1) d
     | MouseWheelLeft \<Rightarrow> d | MouseWheelRight \<Rightarrow> d)"

definition dv_ToggleWrap :: "('v, 'z) view_api_scheme \<Rightarrow> 'v detail_view \<Rightarrow> 'v detail_view" where
  "dv_ToggleWrap T d =
     (let d1 = d\<lparr> dv_softWrap := \<not> dv_softWrap d \<rparr>
      in reapplySearch T (if dv_softWrap d1 then on_viewport (va_SetXOffset T 0) d1 else d1))"

definition dv_SetSize :: "('v, 'z) view_api_scheme \<Rightarrow> int \<Rightarrow> int \<Rightarrow> 'v detail_view \<Rightarrow> 'v detail_view" where
  "dv_SetSize T w h d =
     (let d1 = d\<lparr> dv_width := w, dv_height := h \<rparr>;
          d2 = (if dv_borderless d1
                then on_viewport (va_SetHeight T (if dv_showHeader d1 then h - 1 else h) \<circ> va_SetWidth T w) d1
                else on_viewport (va_SetHeight T (h - 2) \<circ> va_SetWidth T (w - 2)) d1)
      in if dv_softWrap d2 then reapplySearch T d2 else d2)"

definition dv_ToggleHeader :: "('v, 'z) view_api_scheme \<Rightarrow> 'v detail_view \<Rightarrow> 'v detail_view" where
  "dv_ToggleHeader T d = (let d1 = d\<lparr> dv_showHeader := \<not> dv_showHeader d \<rparr> in dv_SetSize T (dv_width d1) (dv_height d1) d1)"

definition dv_Focus :: "'v detail_view \<Rightarrow> 'v detail_view" where "dv_Focus d = d\<lparr> dv_focused := True \<rparr>"
definition dv_Blur :: "'v detail_view \<Rightarrow> 'v detail_view" where "dv_Blur d = d\<lparr> dv_focused := False \<rparr>"
definition dv_SetBorderless :: "bool \<Rightarrow> 'v detail_view \<Rightarrow> 'v detail_view" where
  "dv_SetBorderless b d = d\<lparr> dv_borderless := b \<rparr>"
definition dv_SetInlineSearch :: "string \<Rightarrow> 'v detail_view \<Rightarrow> 'v detail_view" where
  "dv_SetInlineSearch s d = d\<lparr> dv_inlineSearch := s \<rparr>"
definition SetEnvResolved :: "bool \<Rightarrow> 'v detail_view \<Rightarrow> 'v detail_view" where
  "SetEnvResolved b d = d\<lparr> envResolved := b \<rparr>"

text \<open>\<open>f\<close> is the viewport's \<open>Update\<close> applied to the message, \<open>tick\<close> whether it is a tick of the spinner.\<close>

definition dv_Update :: "bool \<Rightarrow> ('v \<Rightarrow> 'v) \<Rightarrow> 'v detail_view \<Rightarrow> 'v detail_view" where
  "dv_Update tick f d = (if loading d \<and> tick then d else on_viewport f d)"

definition modeName :: "'v detail_view \<Rightarrow> string" where
  "modeName d = (case dv_mode d of DetailYAML \<Rightarrow> ''YAML'' | DetailDescribe \<Rightarrow> ''Describe'' | DetailLogs \<Rightarrow> ''Logs''
     | DetailValues \<Rightarrow> ''Values (user)'' | DetailValuesAll \<Rightarrow> ''Values (all)'')"

definition dv_buildTitle :: "'v detail_view \<Rightarrow> string" where
  "dv_buildTitle d = (if envResolved d then modeName d @ '' [S]'' else modeName d)"

definition dv_ApplySearch ::
  "('v, 'z) view_api_scheme \<Rightarrow> string \<Rightarrow> search_mode \<Rightarrow> 'v detail_view \<Rightarrow> search_error + 'v detail_view" where
  "dv_ApplySearch T pattern mode d =
     (if mode = SearchModeFilter
      then case ss_Compile (tui_text T) pattern mode (dv_filterState d) of
             Inl e \<Rightarrow> Inl e | Inr s \<Rightarrow> Inr (reapplySearch T (d\<lparr> dv_filterState := s \<rparr>))
      else case ss_Compile (tui_text T) pattern mode (dv_searchState d) of
             Inl e \<Rightarrow> Inl e | Inr s \<Rightarrow> Inr (reapplySearch T (d\<lparr> dv_searchState := s \<rparr>)))"

definition dv_ClearSearch :: "('v, 'z) view_api_scheme \<Rightarrow> 'v detail_view \<Rightarrow> 'v detail_view" where
  "dv_ClearSearch T d = reapplySearch T (d\<lparr> dv_searchState := ss_Clear (dv_searchState d) \<rparr>)"

definition dv_ClearFilter :: "('v, 'z) view_api_scheme \<Rightarrow> 'v detail_view \<Rightarrow> 'v detail_view" where
  "dv_ClearFilter T d = reapplySearch T (d\<lparr> dv_filterState := ss_Clear (dv_filterState d) \<rparr>)"

definition dv_SearchActive :: "'v detail_view \<Rightarrow> bool" where
  "dv_SearchActive d \<longleftrightarrow> ss_Active (dv_searchState d)"
definition dv_FilterActive :: "'v detail_view \<Rightarrow> bool" where
  "dv_FilterActive d \<longleftrightarrow> ss_Active (dv_filterState d)"
definition dv_AnyActive :: "'v detail_view \<Rightarrow> bool" where
  "dv_AnyActive d \<longleftrightarrow> ss_Active (dv_searchState d) \<or> ss_Active (dv_filterState d)"

section \<open>The selected match exists\<close>

definition dv_wf :: "'v detail_view \<Rightarrow> bool" where
  "dv_wf d \<longleftrightarrow> -1 \<le> dv_matchIndex d \<and> (dv_matchPositions d \<noteq> [] \<longrightarrow>
     0 \<le> dv_matchIndex d \<and> dv_matchIndex d < int (length (dv_matchPositions d)))"

lemma setViewportContent_fields [simp]:
  "dv_matchPositions (setViewportContent T c d) = dv_matchPositions d"
  "dv_matchIndex (setViewportContent T c d) = dv_matchIndex d"
  "dv_focused (setViewportContent T c d) = dv_focused d" "dv_borderless (setViewportContent T c d) = dv_borderless d"
  "dv_width (setViewportContent T c d) = dv_width d" "dv_height (setViewportContent T c d) = dv_height d"
  "dv_softWrap (setViewportContent T c d) = dv_softWrap d"
  "dv_searchState (setViewportContent T c d) = dv_searchState d"
  by (simp_all add: setViewportContent_def split: prod.splits)

lemma rebuild_fields [simp]:
  "dv_matchPositions (rebuildHighlightedDisplay T d) = dv_matchPositions d"
  "dv_matchIndex (rebuildHighlightedDisplay T d) = dv_matchIndex d"
  by (simp_all add: rebuildHighlightedDisplay_def restore_offsets_def Let_def)

lemma reapply_fields [simp]:
  "dv_focused (reapplySearch T d) = dv_focused d" "dv_borderless (reapplySearch T d) = dv_borderless d"
  "dv_width (reapplySearch T d) = dv_width d" "dv_height (reapplySearch T d) = dv_height d"
  by (simp_all add: reapplySearch_def Let_def split: option.splits)

lemma reapply_wf [simp]: "dv_wf (reapplySearch T d)"
  by (simp add: reapplySearch_def dv_wf_def Let_def split: option.splits)

lemma show_match_total:
  assumes "dv_matchPositions d \<noteq> []" and "0 \<le> dv_matchIndex d" and "dv_matchIndex d < int (length (dv_matchPositions d))"
  shows "\<exists>d'. show_match T d = Inr d' \<and> dv_wf d' \<and> dv_matchPositions d' = dv_matchPositions d \<and>
    dv_matchIndex d' = dv_matchIndex d"
  using assms by (auto simp: show_match_def Let_def go_index_ok dv_wf_def split: prod.splits)

lemma dv_search_total:
  assumes "dv_wf d"
  shows "\<exists>d'. dv_SearchNext T d = Inr d' \<and> dv_wf d'" and "\<exists>d'. dv_SearchPrev T d = Inr d' \<and> dv_wf d'"
proof -
  let ?n = "int (length (dv_matchPositions d))"
  show "\<exists>d'. dv_SearchNext T d = Inr d' \<and> dv_wf d'"
    using assms show_match_total [of "d\<lparr> dv_matchIndex := go_rem (dv_matchIndex d + 1) ?n \<rparr>" T]
    by (auto simp: dv_SearchNext_def dv_wf_def)
  show "\<exists>d'. dv_SearchPrev T d = Inr d' \<and> dv_wf d'"
    using assms show_match_total [of "d\<lparr> dv_matchIndex := (if dv_matchIndex d - 1 < 0 then ?n - 1 else dv_matchIndex d - 1) \<rparr>" T]
    by (auto simp: dv_SearchPrev_def dv_wf_def)
qed

end
