(* ===== verification/Detail_View_Props.thy ===== *)
theory Detail_View_Props
  imports Detail_View_Ops Plain_Tui
begin

text \<open>
  The properties of the detail view: what its match positions denote, what its wrapping shows, and
  how the wrap table finds the row of a match.
\<close>

section \<open>An instance of the viewport\<close>

text \<open>
  The instance of \<^verbatim>\<open>Plain_Tui\<close> with the further methods of the viewport the detail view
  calls: scrolling moves the clamped line offset, columns and highlights are not kept.
\<close>

definition plain_view :: "plain_vp view_api" where
  "plain_view = tui_api.extend plain_tui (view_api.fields
     (\<lambda>v. 0) (\<lambda>n v. v) (\<lambda>n v. v) (\<lambda>n v. v)
     (\<lambda>n v. va_SetYOffset plain_tui (pv_y v - n) v) (\<lambda>n v. va_SetYOffset plain_tui (pv_y v + n) v)
     (\<lambda>v. va_SetYOffset plain_tui (pv_y v - pv_h v) v) (\<lambda>v. va_SetYOffset plain_tui (pv_y v + pv_h v) v)
     (\<lambda>v. va_SetYOffset plain_tui 0 v) (\<lambda>v. va_SetYOffset plain_tui (pv_max v) v)
     (\<lambda>v. join_lines (pv_lines v)) (\<lambda>v. min (pv_h v) (int (length (pv_lines v)) - pv_y v))
     (\<lambda>ms v. v) (\<lambda>v. v) (\<lambda>v. v) (\<lambda>v. v)
     (\<lambda>l a b v. if l < pv_y v \<or> pv_y v + pv_h v \<le> l then va_SetYOffset plain_tui l v else v)
     (\<lambda>s rs. s))"

section \<open>Segments of a match\<close>

definition segment_text :: "int \<times> int \<times> int \<times> string \<Rightarrow> string" where
  "segment_text seg = (case seg of (i, a, b, l) \<Rightarrow> take (nat (b - a)) (drop (nat a) l))"

lemma segment_text_simp [simp]: "segment_text (i, a, b, l) = take (nat (b - a)) (drop (nat a) l)"
  by (simp add: segment_text_def)

lemma span_rest:
  assumes "ls \<noteq> []" and "st \<le> e" and "e \<le> st + int (length (join_lines ls))"
  shows "span_lines s e i st False ls \<noteq> [] \<and>
    join_lines (map segment_text (span_lines s e i st False ls)) = take (nat (e - st)) (join_lines ls)"
  using assms
proof (induction ls arbitrary: i st)
  case (Cons l ls)
  show ?case
  proof (cases "e \<le> st + int (length l)")
    case True
    then have "take (nat (e - st)) (join_lines (l # ls)) = take (nat (e - st)) l" by (cases ls) simp_all
    with True show ?thesis by (simp add: Let_def)
  next
    case False
    then have ne: "ls \<noteq> []" using Cons.prems(3) by auto
    have IH: "span_lines s e (i + 1) (st + int (length l) + 1) False ls \<noteq> []"
      "join_lines (map segment_text (span_lines s e (i + 1) (st + int (length l) + 1) False ls)) =
        take (nat (e - (st + int (length l) + 1))) (join_lines ls)"
      using Cons.IH [OF ne, of "st + int (length l) + 1" "i + 1"] Cons.prems False ne by (auto simp: join_lines_Cons)
    have n: "nat (e - st) = Suc (length l + nat (e - (st + int (length l) + 1)))" using False by linarith
    have t: "take (nat (e - st)) (join_lines (l # ls)) =
        l @ CHR 0x0A # take (nat (e - (st + int (length l) + 1))) (join_lines ls)"
      unfolding n using ne by (simp add: join_lines_Cons)
    show ?thesis
      unfolding t using False IH by (simp add: Let_def join_lines_Cons)
  qed
qed simp

lemma span_match:
  assumes "st \<le> s" and "s \<le> st + int (length l)" and "s \<le> e" and "e \<le> st + int (length (join_lines (l # ls)))"
  shows "join_lines (map segment_text (span_lines s e i st True (l # ls))) =
    take (nat (e - s)) (drop (nat (s - st)) (join_lines (l # ls)))"
proof (cases "e \<le> st + int (length l)")
  case True
  have j: "\<exists>t. join_lines (l # ls) = l @ t" by (cases ls) auto
  then obtain t where "join_lines (l # ls) = l @ t" by blast
  then have "take (nat (e - s)) (drop (nat (s - st)) (join_lines (l # ls))) = take (nat (e - s)) (drop (nat (s - st)) l)"
    using True assms by simp
  then show ?thesis using True by (simp add: Let_def)
next
  case False
  then have ne: "ls \<noteq> []" using assms(4) by auto
  let ?st = "st + int (length l) + 1"
  have r: "span_lines s e (i + 1) ?st False ls \<noteq> []"
    "join_lines (map segment_text (span_lines s e (i + 1) ?st False ls)) = take (nat (e - ?st)) (join_lines ls)"
    using span_rest [OF ne, of ?st e s "i + 1"] assms False ne by (auto simp: join_lines_Cons)
  have d: "drop (nat (s - st)) (join_lines (l # ls)) = drop (nat (s - st)) l @ CHR 0x0A # join_lines ls"
    using ne assms by (simp add: join_lines_Cons)
  have n: "nat (e - s) = length (drop (nat (s - st)) l) + Suc (nat (e - ?st))" using False assms by auto
  have p: "segment_text (i, s - st, int (length l), l) = drop (nat (s - st)) l"
    using assms by simp
  have sp: "span_lines s e i st True (l # ls) = (i, s - st, int (length l), l) # span_lines s e (i + 1) ?st False ls"
    using False by (simp add: Let_def)
  have t: "take (nat (e - s)) (drop (nat (s - st)) l @ CHR 0x0A # join_lines ls) =
      drop (nat (s - st)) l @ CHR 0x0A # take (nat (e - ?st)) (join_lines ls)"
    unfolding n by simp
  show ?thesis
    unfolding sp d t using r by (simp add: p join_lines_Cons)
qed

lemma span_bounds:
  assumes "seg \<in> set (span_lines s e i st first ls)" and "first \<Longrightarrow> st \<le> s" and "\<not> first \<Longrightarrow> st \<le> e" and "s \<le> e"
    and "ls \<noteq> [] \<Longrightarrow> first \<Longrightarrow> s \<le> st + int (length (hd ls))"
  shows "case seg of (k, a, b, l) \<Rightarrow> i \<le> k \<and> k < i + int (length ls) \<and> l = ls ! nat (k - i) \<and>
    0 \<le> a \<and> a \<le> b \<and> b \<le> int (length l)"
  using assms
proof (induction ls arbitrary: i st first)
  case (Cons l ls)
  show ?case
  proof (cases "seg = (i, if first then s - st else 0, if e \<le> st + int (length l) then e - st else int (length l), l)")
    case True
    then show ?thesis using Cons.prems by auto
  next
    case False
    then have "seg \<in> set (span_lines s e (i + 1) (st + int (length l) + 1) False ls)" and lt: "\<not> e \<le> st + int (length l)"
      using Cons.prems(1) by (auto simp: Let_def split: if_splits)
    from Cons.IH [OF this(1)] lt Cons.prems(4)
    have "case seg of (k, a, b, m) \<Rightarrow> i + 1 \<le> k \<and> k < i + 1 + int (length ls) \<and> m = ls ! nat (k - (i + 1)) \<and>
        0 \<le> a \<and> a \<le> b \<and> b \<le> int (length m)" by auto
    moreover have "nat (k - i) = Suc (nat (k - (i + 1)))" if "i + 1 \<le> k" for k using that by linarith
    ultimately show ?thesis by (auto split: prod.splits)
  qed
qed simp

text \<open>Where the walk over the lines stands: \<open>ls\<close> are the lines from index \<open>i\<close>, at byte \<open>st\<close>.\<close>

definition at_line :: "string \<Rightarrow> int \<Rightarrow> int \<Rightarrow> string list \<Rightarrow> bool" where
  "at_line rw i st ls \<longleftrightarrow> 0 \<le> i \<and> 0 \<le> st \<and> ls \<noteq> [] \<and> ls = drop (nat i) (split_lines rw) \<and>
     drop (nat st) rw = join_lines ls \<and> st \<le> int (length rw)"

lemma at_line_start: "at_line rw 0 0 (split_lines rw)"
  by (simp add: at_line_def)

lemma skip_to_at:
  assumes "at_line rw i st ls" and "st \<le> s" and "s \<le> int (length rw)" and "skip_to s i st ls = (i1, st1, ls1)"
  shows "at_line rw i1 st1 ls1 \<and> st1 \<le> s \<and> s \<le> st1 + int (length (hd ls1))"
  using assms
proof (induction s i st ls rule: skip_to.induct [case_names 1 none single])
  case (1 s i st l m ls)
  show ?case
  proof (cases "st + int (length l) + 1 \<le> s")
    case True
    have dr: "m # ls = drop (nat (i + 1)) (split_lines rw)"
    proof -
      have "l # m # ls = drop (nat i) (split_lines rw)" "nat (i + 1) = Suc (nat i)"
        using "1.prems"(1) by (auto simp: at_line_def)
      then show ?thesis by (metis drop_Suc drop_tl list.sel(3))
    qed
    have n: "nat (st + int (length l) + 1) = Suc (length l) + nat st"
      using "1.prems"(1) unfolding at_line_def by linarith
    have "drop (nat (st + int (length l) + 1)) rw = drop (Suc (length l)) (drop (nat st) rw)"
      unfolding n by simp
    also have "\<dots> = join_lines (m # ls)" using "1.prems"(1) by (simp add: at_line_def)
    finally have "at_line rw (i + 1) (st + int (length l) + 1) (m # ls)"
      using "1.prems"(1,3) dr True by (auto simp: at_line_def)
    with "1.IH" [OF True] True "1.prems" show ?thesis by simp
  qed (use "1.prems" in auto)
next
  case (single s i st l)
  have "drop (nat st) rw = l" using single.prems(1) by (simp add: at_line_def)
  then have "int (length rw) = st + int (length l)" using single.prems(1) by (auto simp: at_line_def)
  with single.prems show ?case by auto
qed (simp add: at_line_def)

text \<open>The segments of one match: they lie inside their lines, and joined they are its text.\<close>

definition segments_of :: "string \<Rightarrow> nat \<times> nat \<Rightarrow> (int \<times> int \<times> int \<times> string) list \<Rightarrow> bool" where
  "segments_of rw m segs \<longleftrightarrow>
     join_lines (map segment_text segs) = take (snd m - fst m) (drop (fst m) rw) \<and>
     (\<forall>(k, a, b, l)\<in>set segs. 0 \<le> k \<and> k < int (length (split_lines rw)) \<and> l = split_lines rw ! nat k \<and>
        0 \<le> a \<and> a \<le> b \<and> b \<le> int (length l))"

lemma segments_at:
  assumes "at_line rw i st ls" and "sorted (map fst ms)" and "\<forall>m\<in>set ms. fst m \<le> snd m \<and> snd m \<le> length rw"
    and "\<forall>m\<in>set ms. st \<le> int (fst m)"
  shows "\<exists>segs. match_segments i st ls ms = concat segs \<and> list_all2 (segments_of rw) ms segs"
  using assms
proof (induction ms arbitrary: i st ls)
  case (Cons m ms)
  obtain s e where m: "m = (s, e)" by (cases m)
  obtain i1 st1 ls1 where sk: "skip_to (int s) i st ls = (i1, st1, ls1)" by (metis prod_cases3)
  have se: "s \<le> e" "e \<le> length rw" "st \<le> int s" using Cons.prems(3,4) m by auto
  have at: "at_line rw i1 st1 ls1" "st1 \<le> int s" "int s \<le> st1 + int (length (hd ls1))"
    using skip_to_at [OF Cons.prems(1) se(3) _ sk] se by auto
  obtain l ls2 where ls1: "ls1 = l # ls2" using at(1) by (cases ls1) (auto simp: at_line_def)
  let ?g = "\<lambda>m. span_lines (int (fst m)) (int (snd m)) i1 st1 True ls1"
  have len: "int (length rw) = st1 + int (length (join_lines ls1))"
  proof -
    have "length (join_lines ls1) = length rw - nat st1" using at(1) by (metis at_line_def length_drop)
    then show ?thesis using at(1) by (auto simp: at_line_def)
  qed
  have cov: "join_lines (map segment_text (?g m)) = take (e - s) (drop s rw)"
  proof -
    have "join_lines (map segment_text (?g m)) = take (nat (int e - int s)) (drop (nat (int s - st1)) (join_lines ls1))"
      unfolding ls1 m fst_conv snd_conv by (rule span_match) (use at se ls1 len in auto)
    also have "drop (nat (int s - st1)) (join_lines ls1) = drop (nat (int s - st1)) (drop (nat st1) rw)"
      using at(1) by (simp add: at_line_def)
    also have "\<dots> = drop (nat (int s - st1) + nat st1) rw" by (simp only: drop_drop)
    also have "nat (int s - st1) + nat st1 = s" using at(1,2) unfolding at_line_def by linarith
    also have "nat (int e - int s) = e - s" by simp
    finally show ?thesis .
  qed
  have bnd: "\<forall>(k, a, b, l)\<in>set (?g m). 0 \<le> k \<and> k < int (length (split_lines rw)) \<and> l = split_lines rw ! nat k \<and>
      0 \<le> a \<and> a \<le> b \<and> b \<le> int (length l)"
  proof clarify
    fix k a b l' assume "(k, a, b, l') \<in> set (?g m)"
    then have b: "i1 \<le> k" "k < i1 + int (length ls1)" "l' = ls1 ! nat (k - i1)" "0 \<le> a" "a \<le> b" "b \<le> int (length l')"
      using span_bounds [of "(k, a, b, l')" "int s" "int e" i1 st1 True ls1] at se m by auto
    have i1: "0 \<le> i1" "ls1 = drop (nat i1) (split_lines rw)" using at(1) by (auto simp: at_line_def)
    have "length ls1 = length (split_lines rw) - nat i1" using i1(2) by (metis length_drop)
    then have kk: "k < int (length (split_lines rw))" using b(2) i1(1) at(1) by (auto simp: at_line_def)
    have "l' = split_lines rw ! nat k" using b(1,3) i1 kk by (simp add: nat_diff_distrib')
    with b i1(1) kk show "0 \<le> k \<and> k < int (length (split_lines rw)) \<and> l' = split_lines rw ! nat k \<and>
        0 \<le> a \<and> a \<le> b \<and> b \<le> int (length l')" by simp
  qed
  have "\<forall>x\<in>set ms. st1 \<le> int (fst x)" using Cons.prems(2) at(2) m by auto
  with Cons.IH [OF at(1)] Cons.prems obtain segs where
    "match_segments i1 st1 ls1 ms = concat segs" "list_all2 (segments_of rw) ms segs" by auto
  then have "match_segments i st ls (m # ms) = concat (?g m # segs) \<and>
      list_all2 (segments_of rw) (m # ms) (?g m # segs)"
    using sk cov bnd by (simp add: segments_of_def m)
  then show ?case by blast
qed simp

text \<open>C36. A match of the raw text is cut at the line breaks and nowhere else: its segments lie on
  existing lines, in range of them, and joined by line breaks they are exactly the matched text,
  so every highlighted column range denotes matched text of its line.\<close>

theorem match_segments_exact:
  assumes "sorted (map fst ms)" and "\<forall>m\<in>set ms. fst m \<le> snd m \<and> snd m \<le> length rw"
  shows "\<exists>segs. computeMatchPositions A rw ms = map (segment_position A) (concat segs) \<and>
    list_all2 (segments_of rw) ms segs"
proof -
  obtain segs where "match_segments 0 0 (split_lines rw) ms = concat segs" "list_all2 (segments_of rw) ms segs"
    using segments_at [OF at_line_start assms] by auto
  then show ?thesis
    by (cases "ms = []") (auto simp: computeMatchPositions_def intro: exI [of _ segs])
qed

theorem match_segments_exact_witness:
  "map mp_line (computeMatchPositions plain_text ''ab\<newline>cd'' [(1, 4)]) = [0, 1]"
proof -
  have l: "split_lines ''ab\<newline>cd'' = [''ab'', ''cd'']" by code_simp
  have "\<exists>segs. computeMatchPositions plain_text ''ab\<newline>cd'' [(1, 4)] = map (segment_position plain_text) (concat segs) \<and>
      list_all2 (segments_of ''ab\<newline>cd'') [(1, 4)] segs"
    by (rule match_segments_exact) simp_all
  then have "computeMatchPositions plain_text ''ab\<newline>cd'' [(1, 4)] \<noteq> []" 
    by (auto simp: list_all2_Cons1 segments_of_def)
  moreover have "map mp_line (computeMatchPositions plain_text ''ab\<newline>cd'' [(1, 4)]) = [0, 1]" by code_simp
  ultimately show ?thesis by simp
qed

section \<open>Wrapping\<close>

text \<open>What cutting by display columns does on a line without characters wider than a column.\<close>

definition cuts_exactly :: "text_api \<Rightarrow> string \<Rightarrow> bool" where
  "cuts_exactly A l \<longleftrightarrow> (let W = StringWidth A l in
     Cut A l 0 W = l \<and> 0 \<le> W \<and>
     (\<forall>a b. 0 \<le> a \<and> a \<le> b \<and> b \<le> W \<longrightarrow> StringWidth A (Cut A l a b) = b - a) \<and>
     (\<forall>a b c. 0 \<le> a \<and> a \<le> b \<and> b \<le> c \<and> c \<le> W \<longrightarrow> Cut A l a b @ Cut A l b c = Cut A l a c))"

lemma wrap_segs_exact:
  assumes "cuts_exactly A l" and "W = StringWidth A l" and "0 < width" and "0 \<le> col" and "col < W"
  shows "concat (map fst (wrap_segs A l width W col)) = Cut A l col W \<and>
    (\<forall>(s, w, c)\<in>set (wrap_segs A l width W col). col \<le> c \<and> 0 < w \<and> c + w \<le> W \<and>
       w \<le> (if c = 0 then width else continuationWidth width)) \<and>
    wrap_segs A l width W col \<noteq> [] \<and> snd (snd (hd (wrap_segs A l width W col))) = col"
  using assms(4,5)
proof (induction "nat (W - col)" arbitrary: col rule: less_induct)
  case less
  let ?w = "if col = 0 then width else continuationWidth width"
  define e where "e = (if col + ?w > W then W else col + ?w)"
  let ?r = "wrap_segs A l width W e"
  have w: "0 < ?w" using assms(3) continuationWidth_pos [of width] by auto
  have e: "col < e" "e \<le> W" "e - col \<le> ?w" using w less.prems by (auto simp: e_def)
  have c: "StringWidth A (Cut A l col e) = e - col"
    using assms(1,2) e less.prems by (simp add: cuts_exactly_def Let_def)
  have eq: "wrap_segs A l width W col = (Cut A l col e, e - col, col) # ?r"
    using less.prems e c by (subst wrap_segs.simps) (simp add: Let_def e_def [symmetric])
  show ?case
  proof (cases "e < W")
    case True
    have IH: "concat (map fst ?r) = Cut A l e W" "\<forall>(s, w, c)\<in>set ?r. e \<le> c \<and> 0 < w \<and>
        c + w \<le> W \<and> w \<le> (if c = 0 then width else continuationWidth width)"
      using less.hyps [of e] e less.prems True by auto
    have "Cut A l col e @ Cut A l e W = Cut A l col W"
      using assms(1,2) e less.prems by (simp add: cuts_exactly_def Let_def)
    moreover have "\<forall>(s, w, c)\<in>set ?r. col \<le> c" using IH(2) e by fastforce
    ultimately show ?thesis using IH e unfolding eq by auto
  next
    case False
    then have "?r = []" by (subst wrap_segs.simps) simp
    moreover have "e = W" using False e by linarith
    ultimately show ?thesis using e less.prems unfolding eq by (auto split: if_splits)
  qed
qed

text \<open>Wrapping a line loses nothing: for text whose characters are one column wide the segments
  follow each other without gap or overlap, joined they are the line, and each fits its row.\<close>

theorem wrapped_line_exact:
  assumes "cuts_exactly A l" and "0 < width" and "width < StringWidth A l"
  shows "concat (map fst (wrap_segs A l width (StringWidth A l) 0)) = l \<and>
    (\<forall>(s, w, c)\<in>set (wrap_segs A l width (StringWidth A l) 0).
       0 < w \<and> c + w \<le> StringWidth A l \<and> w \<le> (if c = 0 then width else continuationWidth width)) \<and>
    fst (wrapLines A [l] width) = fst (prefixContinuationRows (map fst (wrap_segs A l width (StringWidth A l) 0))
      (map (fst \<circ> snd) (wrap_segs A l width (StringWidth A l) 0)) (wrapPrefix A) wrapIndicatorWidth False)"
proof -
  have "concat (map fst (wrap_segs A l width (StringWidth A l) 0)) = Cut A l 0 (StringWidth A l)"
    "\<forall>(s, w, c)\<in>set (wrap_segs A l width (StringWidth A l) 0).
       0 \<le> c \<and> 0 < w \<and> c + w \<le> StringWidth A l \<and> w \<le> (if c = 0 then width else continuationWidth width)"
    using wrap_segs_exact [OF assms(1) refl assms(2), of 0] assms(2,3) by auto
  then show ?thesis
    using assms by (auto simp: cuts_exactly_def Let_def wrapLines_def wrap_one_def)
qed

lemma plain_cuts: "cuts_exactly plain_text l"
proof -
  have "Cut plain_text l a b @ Cut plain_text l b c = Cut plain_text l a c"
    if "0 \<le> a" "a \<le> b" "b \<le> c" for a b c
  proof -
    have "nat (b - a) + nat a = nat b" and n: "nat (c - a) = nat (b - a) + nat (c - b)" using that by linarith+
    then have d: "drop (nat b) l = drop (nat (b - a)) (drop (nat a) l)" by (simp only: drop_drop)
    show ?thesis by (simp add: plain_text_def d n take_add)
  qed
  then show ?thesis by (auto simp: cuts_exactly_def Let_def) (auto simp: plain_text_def)
qed

theorem wrapped_line_exact_witness:
  "concat (map fst (wrap_segs plain_text ''abcdefghij'' 4 10 0)) = ''abcdefghij''"
proof -
  have W: "StringWidth plain_text ''abcdefghij'' = 10" by (simp add: plain_text_def)
  show ?thesis using wrapped_line_exact [OF plain_cuts, of 4 "''abcdefghij''"] by (simp add: W)
qed

section \<open>The wrap table\<close>

definition row_before :: "line_map \<Rightarrow> line_map \<Rightarrow> bool" where
  "row_before m n \<longleftrightarrow> lm_logicalLine m < lm_logicalLine n \<or>
     lm_logicalLine m = lm_logicalLine n \<and> lm_colOffset m < lm_colOffset n"

lemma wrap_segs_sorted:
  "(\<forall>s\<in>set (wrap_segs A l width W col). col \<le> snd (snd s)) \<and>
   sorted_wrt (\<lambda>s t. snd (snd s) < snd (snd t)) (wrap_segs A l width W col)"
proof (induction "nat (W - col)" arbitrary: col rule: less_induct)
  case less
  show ?case
  proof (cases "col < W")
    case True
    define e where "e = (if col + (if col = 0 then width else continuationWidth width) > W then W
      else col + (if col = 0 then width else continuationWidth width))"
    define e1 where "e1 = (if e + 1 > W then W else e + 1)"
    define w where "w = StringWidth A (Cut A l col e)"
    define w1 where "w1 = StringWidth A (Cut A l col e1)"
    have eq: "wrap_segs A l width W col = (if w \<le> 0
        then if w1 \<le> 0 then wrap_segs A l width W (col + 1)
             else (Cut A l col e1, w1, col) # wrap_segs A l width W (col + w1)
        else (Cut A l col e, w, col) # wrap_segs A l width W (col + w))"
      using True by (subst wrap_segs.simps) (simp add: Let_def e_def e1_def w_def w1_def)
    have IH: "(\<forall>s\<in>set (wrap_segs A l width W c). c \<le> snd (snd s)) \<and>
        sorted_wrt (\<lambda>s t. snd (snd s) < snd (snd t)) (wrap_segs A l width W c)" if "col < c" for c
      using less.hyps [of c] that True by simp
    show ?thesis unfolding eq
      using IH [of "col + 1"] IH [of "col + w1"] IH [of "col + w"] by (auto, fastforce+)
  qed (simp add: wrap_segs.simps)
qed

definition line_offsets :: "int \<Rightarrow> line_map list \<Rightarrow> bool" where
  "line_offsets i ms \<longleftrightarrow> ms \<noteq> [] \<and> sorted_wrt row_before ms \<and> lm_colOffset (hd ms) = 0 \<and>
     (\<forall>m\<in>set ms. lm_logicalLine m = i)"

lemma wrap_one_rows:
  assumes "cuts_exactly A l" and "0 < width"
  shows "line_offsets i (snd (wrap_one A width i l))"
proof (cases "StringWidth A l \<le> width")
  case False
  let ?s = "wrap_segs A l width (StringWidth A l) 0"
  have "?s \<noteq> []" "snd (snd (hd ?s)) = 0"
    using wrap_segs_exact [OF assms(1) refl assms(2), of 0] assms(2) False by auto
  moreover have "sorted_wrt (\<lambda>s t. snd (snd s) < snd (snd t)) ?s" using wrap_segs_sorted by blast
  ultimately show ?thesis
    using False by (auto simp: wrap_one_def Let_def line_offsets_def sorted_wrt_map row_before_def hd_map)
qed (simp add: wrap_one_def line_offsets_def)

text \<open>The rows of the lines of a text come line after line, and each line has its first row.\<close>

lemma wrap_from_rows:
  assumes "\<forall>l\<in>set ls. cuts_exactly A l" and "0 < width"
  shows "sorted_wrt row_before (snd (wrap_from A width i ls)) \<and>
    (\<forall>m\<in>set (snd (wrap_from A width i ls)). i \<le> lm_logicalLine m) \<and>
    (\<forall>k<length ls. \<exists>m\<in>set (snd (wrap_from A width i ls)). lm_logicalLine m = i + int k \<and> lm_colOffset m = 0)"
  using assms(1)
proof (induction ls arbitrary: i)
  case (Cons l ls)
  let ?o = "snd (wrap_one A width i l)" and ?r = "snd (wrap_from A width (i + 1) ls)"
  have o: "line_offsets i ?o" using wrap_one_rows Cons.prems assms(2) by simp
  have r: "sorted_wrt row_before ?r" "\<forall>m\<in>set ?r. i + 1 \<le> lm_logicalLine m"
    "\<forall>k<length ls. \<exists>m\<in>set ?r. lm_logicalLine m = i + 1 + int k \<and> lm_colOffset m = 0"
    using Cons.IH [of "i + 1"] Cons.prems by auto
  have eq: "snd (wrap_from A width i (l # ls)) = ?o @ ?r" by (simp add: case_prod_unfold Let_def)
  have "sorted_wrt row_before (?o @ ?r)"
    using o r(1,2) by (fastforce simp: sorted_wrt_append line_offsets_def row_before_def)
  moreover have "\<exists>m\<in>set (?o @ ?r). lm_logicalLine m = i + int k \<and> lm_colOffset m = 0" if "k < length (l # ls)" for k
  proof (cases k)
    case 0
    then show ?thesis using o by (intro bexI [of _ "hd ?o"]) (auto simp: line_offsets_def)
  next
    case (Suc j)
    then have "\<exists>m\<in>set ?r. lm_logicalLine m = i + 1 + int j \<and> lm_colOffset m = 0" using r(3) that by simp
    moreover have "i + 1 + int j = i + int k" using Suc by simp
    ultimately show ?thesis by auto
  qed
  moreover have "\<forall>m\<in>set (?o @ ?r). i \<le> lm_logicalLine m" using o r(2) by (auto simp: line_offsets_def)
  ultimately show ?case unfolding eq by blast
qed simp

lemma mapping_after_mono: "row_before m n \<Longrightarrow> mapping_after p m \<Longrightarrow> mapping_after p n"
  unfolding mapping_after_def row_before_def by (simp split: if_split_asm, linarith+)

lemma logicalToVisual_sorted:
  assumes "sorted_wrt row_before ms" and "m \<in> set ms" and "lm_logicalLine m = mp_line p"
    and "lm_colOffset m \<le> mp_colStart p"
  shows "\<exists>r<length ms. \<exists>ind\<in>{0, wrapIndicatorWidth}. lm_logicalLine (ms ! r) = mp_line p \<and>
    lm_colOffset (ms ! r) \<le> mp_colStart p \<and> (\<forall>k. r < k \<and> k < length ms \<longrightarrow> mapping_after p (ms ! k)) \<and>
    logicalToVisual ms p = (int r, mp_colStart p - lm_colOffset (ms ! r) + ind, mp_colEnd p - lm_colOffset (ms ! r) + ind)"
proof -
  define n where "n = sort_Search (length ms) (\<lambda>i. mapping_after p (ms ! i))"
  have mono: "mapping_after p (ms ! l)" if "k \<le> l" "l < length ms" "mapping_after p (ms ! k)" for k l
    using that sorted_wrt_nth_less [OF assms(1), of k l] by (cases "k = l") (auto intro: mapping_after_mono)
  have least: "n \<le> length ms" "\<And>k. k < n \<Longrightarrow> \<not> mapping_after p (ms ! k)"
    "\<And>k. n \<le> k \<Longrightarrow> k < length ms \<Longrightarrow> mapping_after p (ms ! k)"
    using sort_Search_least [of "length ms" "\<lambda>i. mapping_after p (ms ! i)"] mono unfolding n_def by blast+
  obtain j where j: "j < length ms" "ms ! j = m" using assms(2) by (auto simp: in_set_conv_nth)
  have "\<not> mapping_after p (ms ! j)" using j assms(3,4) by (simp add: mapping_after_def)
  then have "j < n" using least(3) [of j] j by linarith
  then have n: "0 < n" "n - 1 < length ms" "j \<le> n - 1" using least(1) by linarith+
  have na: "\<not> mapping_after p (ms ! (n - 1))" using least(2) [of "n - 1"] n by simp
  have "j = n - 1 \<or> row_before m (ms ! (n - 1))"
    using sorted_wrt_nth_less [OF assms(1), of j "n - 1"] n j by fastforce
  then have row: "lm_logicalLine (ms ! (n - 1)) = mp_line p" "lm_colOffset (ms ! (n - 1)) \<le> mp_colStart p"
    using na assms(3) j by (auto simp: row_before_def mapping_after_def split: if_splits)
  have "\<forall>k. n - 1 < k \<and> k < length ms \<longrightarrow> mapping_after p (ms ! k)" using least(3) n(1) by auto
  then show ?thesis
    using n row by (intro exI [of _ "n - 1"] conjI) (auto simp: logicalToVisual_def n_def [symmetric] Let_def)
qed

text \<open>With soft wrap the row shown for a match is the row it starts on: the last row of its line
  whose first column is not after the match. The columns are those of the row, past the wrap
  indicator if it continues the line, and the width of the match is kept.\<close>

theorem match_row_exact:
  assumes "\<forall>l\<in>set ls. cuts_exactly A l" and "0 < width"
    and "0 \<le> mp_line p" and "mp_line p < int (length ls)" and "0 \<le> mp_colStart p"
  shows "let ms = snd (wrapLines A ls width) in
    \<exists>r<length ms. \<exists>ind\<in>{0, wrapIndicatorWidth}. lm_logicalLine (ms ! r) = mp_line p \<and>
      lm_colOffset (ms ! r) \<le> mp_colStart p \<and> (\<forall>k. r < k \<and> k < length ms \<longrightarrow> mapping_after p (ms ! k)) \<and>
      logicalToVisual ms p = (int r, mp_colStart p - lm_colOffset (ms ! r) + ind, mp_colEnd p - lm_colOffset (ms ! r) + ind)"
proof -
  let ?ms = "snd (wrap_from A width 0 ls)"
  have s: "sorted_wrt row_before ?ms"
    "\<forall>k<length ls. \<exists>m\<in>set ?ms. lm_logicalLine m = int k \<and> lm_colOffset m = 0"
    using wrap_from_rows [OF assms(1,2), of 0] by auto
  obtain m where m: "m \<in> set ?ms" "lm_logicalLine m = mp_line p" "lm_colOffset m = 0"
    using s(2) assms(3,4) by (auto simp: dest!: spec [of _ "nat (mp_line p)"])
  show ?thesis
    using logicalToVisual_sorted [OF s(1) m(1,2)] m(3) assms(2,5) by (simp add: wrapLines_def Let_def)
qed

theorem match_row_exact_witness:
  "logicalToVisual (snd (wrapLines plain_text [''xy'', ''abcdefghij''] 4)) \<lparr> mp_line = 1, mp_colStart = 5, mp_colEnd = 6 \<rparr> = (2, 3, 4)"
  (is "logicalToVisual ?ms ?p = _")
proof -
  have "\<exists>r<length ?ms. lm_logicalLine (?ms ! r) = mp_line ?p"
    using match_row_exact [of "[''xy'', ''abcdefghij'']" plain_text 4 ?p] plain_cuts by (auto simp: Let_def)
  moreover have "logicalToVisual ?ms ?p = (2, 3, 4)" by code_simp
  ultimately show ?thesis by blast
qed

section \<open>Stepping through the matches\<close>

lemma new_wf [simp]: "dv_wf (NewDetailView T w h)"
  by (simp add: NewDetailView_def dv_wf_def)

lemma keep_matches_wf:
  "dv_wf d \<Longrightarrow> dv_matchPositions d' = dv_matchPositions d \<Longrightarrow> dv_matchIndex d' = dv_matchIndex d \<Longrightarrow> dv_wf d'"
  by (simp add: dv_wf_def)

lemma dv_SetContent_wf: "dv_wf (dv_SetContent T r c b d)"
  using reapply_wf by (auto simp: dv_SetContent_def restore_offsets_def Let_def intro: keep_matches_wf [rotated])

lemma dv_SetSize_wf: "dv_wf d \<Longrightarrow> dv_wf (dv_SetSize T w h d)"
  by (auto simp: dv_SetSize_def on_viewport_def Let_def intro: keep_matches_wf)

lemma dv_ToggleHeader_wf: "dv_wf d \<Longrightarrow> dv_wf (dv_ToggleHeader T d)"
  unfolding dv_ToggleHeader_def Let_def by (rule dv_SetSize_wf) (erule keep_matches_wf, simp_all)

lemma dv_SetMode_wf: "dv_wf (dv_SetMode T m d)"
  by (simp add: dv_SetMode_def dv_wf_def)

lemma dv_ApplySearch_wf: "dv_wf d \<Longrightarrow> dv_ApplySearch T p m d = Inr d' \<Longrightarrow> dv_wf d'"
  by (auto simp: dv_ApplySearch_def split: sum.splits if_splits)

text \<open>Stepping through the matches never leaves the list. The selected match exists in a new
  panel and after every search, filter, content change, resize or wrap, whatever was selected
  before, and from such a state \<open>SearchNext\<close> and \<open>SearchPrev\<close> return without an index error and
  select an existing match again.\<close>

theorem detail_search_safe:
  assumes "dv_wf d"
  shows "dv_wf (NewDetailView T w h) \<and> dv_wf (dv_SetContent T r c b d) \<and> dv_wf (dv_SetMode T m d) \<and>
    dv_wf (dv_ToggleWrap T d) \<and> dv_wf (dv_SetSize T w h d) \<and> dv_wf (dv_ToggleHeader T d) \<and>
    dv_wf (dv_ClearSearch T d) \<and> dv_wf (dv_ClearFilter T d) \<and>
    (\<forall>d'. dv_ApplySearch T p sm d = Inr d' \<longrightarrow> dv_wf d') \<and>
    (\<exists>d1. dv_SearchNext T d = Inr d1 \<and> dv_wf d1) \<and> (\<exists>d1. dv_SearchPrev T d = Inr d1 \<and> dv_wf d1)"
  using dv_search_total [OF assms, of T] dv_SetSize_wf [OF assms, of T w h]
    dv_ToggleHeader_wf [OF assms, of T] dv_ApplySearch_wf [OF assms, of T p sm] dv_SetMode_wf [of T m d]
  by (simp add: dv_SetContent_wf dv_ToggleWrap_def dv_ClearSearch_def dv_ClearFilter_def Let_def)

definition demo_detail :: "plain_vp detail_view" where
  "demo_detail = dv_SetContent plain_view ''abcab'' ''abcab'' True
     (dv_SetSize plain_view 4 6 (dv_ToggleWrap plain_view (NewDetailView plain_view 4 6)))"

theorem detail_search_safe_witness:
  "\<exists>d d1. dv_ApplySearch plain_view ''ab'' SearchModeSearch demo_detail = Inr d \<and> length (dv_matchPositions d) = 2 \<and>
     dv_SearchNext plain_view d = Inr d1 \<and> dv_wf d1"
proof -
  have wf: "dv_wf demo_detail" by (simp add: demo_detail_def dv_SetContent_wf)
  define r where "r = dv_ApplySearch plain_view ''ab'' SearchModeSearch demo_detail"
  have n: "map_option (length \<circ> dv_matchPositions) (case r of Inl e \<Rightarrow> None | Inr d \<Rightarrow> Some d) = Some 2"
    unfolding r_def by code_simp
  then obtain d where d: "r = Inr d" "length (dv_matchPositions d) = 2" by (cases r) auto
  have "dv_wf d" using detail_search_safe [OF wf, of plain_view] d(1) unfolding r_def by blast
  then show ?thesis using detail_search_safe [of d plain_view] d unfolding r_def by blast
qed

text \<open>A match wider than the rest of its row spans rows: the column range that
  \<open>logicalToVisual\<close> gives for the first row ends beyond the width of the row.\<close>

theorem wide_match_spans_rows:
  "logicalToVisual (snd (wrapLines plain_text [''abcdefghij''] 4)) \<lparr> mp_line = 0, mp_colStart = 2, mp_colEnd = 7 \<rparr> = (0, 2, 7)"
  by code_simp

end
