(* ===== verification/Emulator.thy ===== *)
theory Emulator
  imports Text_Lines
begin

text \<open>
  \<^verbatim>\<open>internal/ui/emulator.go\<close>: the adapter over the terminal emulator of
  \<^verbatim>\<open>charmbracelet/x/vt\<close>. It mirrors the cursor's visibility and shape, which the
  emulator reports through callbacks while it consumes output, keeps the grid at least one cell
  large, and composes the scrolled-back screen, which the emulator does not offer.
\<close>

section \<open>The emulator of x/vt\<close>

text \<open>
  \<open>'t\<close> is \<open>*vt.Emulator\<close>. \<open>vt_Write\<close> returns the callbacks it makes, in order, with the number of
  bytes and whether there was no error. \<open>vt_Line i\<close> is \<open>Scrollback().Line(i).Render()\<close>.
\<close>

datatype vt_cursor_style = CursorBlock | CursorUnderline | CursorBar

datatype vt_callback = CursorVisibility bool | CursorStyle vt_cursor_style

record 't vt_api =
  vt_New :: "int \<Rightarrow> int \<Rightarrow> 't"
  vt_Write :: "string \<Rightarrow> 't \<Rightarrow> 't \<times> vt_callback list \<times> int \<times> bool"
  vt_Resize :: "int \<Rightarrow> int \<Rightarrow> 't \<Rightarrow> 't"
  vt_Render :: "'t \<Rightarrow> string"
  vt_Height :: "'t \<Rightarrow> int"
  vt_CursorPosition :: "'t \<Rightarrow> int \<times> int"
  vt_SetScrollbackSize :: "int \<Rightarrow> 't \<Rightarrow> 't"
  vt_ScrollbackLen :: "'t \<Rightarrow> int"
  vt_Line :: "int \<Rightarrow> 't \<Rightarrow> string"

section \<open>The adapter\<close>

datatype cursor_shape = CursorShapeBlock | CursorShapeUnderline | CursorShapeBar

record 't emulator =
  em_term :: 't
  cursorHidden :: bool
  cursorShape :: cursor_shape

definition NewEmulator :: "'t vt_api \<Rightarrow> int \<Rightarrow> int \<Rightarrow> 't emulator" where
  "NewEmulator V w h =
     \<lparr> em_term = vt_New V (if w < 1 then 1 else w) (if h < 1 then 1 else h),
       cursorHidden = False, cursorShape = CursorShapeBlock \<rparr>"

definition mapVTCursorStyle :: "vt_cursor_style \<Rightarrow> cursor_shape" where
  "mapVTCursorStyle s = (case s of CursorUnderline \<Rightarrow> CursorShapeUnderline | CursorBar \<Rightarrow> CursorShapeBar
     | CursorBlock \<Rightarrow> CursorShapeBlock)"

fun on_callback :: "vt_callback \<Rightarrow> 't emulator \<Rightarrow> 't emulator" where
  "on_callback (CursorVisibility visible) e = e\<lparr> cursorHidden := \<not> visible \<rparr>"
| "on_callback (CursorStyle s) e = e\<lparr> cursorShape := mapVTCursorStyle s \<rparr>"

definition em_Write :: "'t vt_api \<Rightarrow> string \<Rightarrow> 't emulator \<Rightarrow> 't emulator \<times> int \<times> bool" where
  "em_Write V p e = (case vt_Write V p (em_term e) of
     (t, cbs, res) \<Rightarrow> (fold on_callback cbs (e\<lparr> em_term := t \<rparr>), res))"

definition em_Resize :: "'t vt_api \<Rightarrow> int \<Rightarrow> int \<Rightarrow> 't emulator \<Rightarrow> 't emulator" where
  "em_Resize V w h e =
     e\<lparr> em_term := vt_Resize V (if w < 1 then 1 else w) (if h < 1 then 1 else h) (em_term e) \<rparr>"

definition em_Render :: "'t vt_api \<Rightarrow> 't emulator \<Rightarrow> string" where
  "em_Render V e = vt_Render V (em_term e)"

definition em_CursorPosition :: "'t vt_api \<Rightarrow> 't emulator \<Rightarrow> int \<times> int" where
  "em_CursorPosition V e = vt_CursorPosition V (em_term e)"

definition CursorVisible :: "'t emulator \<Rightarrow> bool" where
  "CursorVisible e \<longleftrightarrow> \<not> cursorHidden e"

definition SetScrollbackSize :: "'t vt_api \<Rightarrow> int \<Rightarrow> 't emulator \<Rightarrow> 't emulator" where
  "SetScrollbackSize V n e = e\<lparr> em_term := vt_SetScrollbackSize V (if n < 0 then 0 else n) (em_term e) \<rparr>"

definition ScrollbackLen :: "'t vt_api \<Rightarrow> 't emulator \<Rightarrow> int" where
  "ScrollbackLen V e = vt_ScrollbackLen V (em_term e)"

section \<open>The scrolled-back screen\<close>

definition trim_cr :: "string \<Rightarrow> string" where
  "trim_cr s = rev (dropWhile (\<lambda>c. c = CHR 0x0D) (rev s))"

definition splitScreenLines :: "string \<Rightarrow> string list" where
  "splitScreenLines s = map trim_cr (split_lines s)"

definition viewport_line :: "'t vt_api \<Rightarrow> 't \<Rightarrow> string list \<Rightarrow> int \<Rightarrow> string go" where
  "viewport_line V t screen i =
     (if i < vt_ScrollbackLen V t then Inr (trim_cr (vt_Line V i t))
      else go_index screen (i - vt_ScrollbackLen V t))"

text \<open>The loop from \<open>i\<close> on, for \<open>n\<close> more lines; indexing the screen out of range would panic.\<close>

fun viewport_lines :: "'t vt_api \<Rightarrow> 't \<Rightarrow> string list \<Rightarrow> int \<Rightarrow> nat \<Rightarrow> string list go" where
  "viewport_lines V t screen i 0 = Inr []"
| "viewport_lines V t screen i (Suc n) =
     go_bind (viewport_line V t screen i)
       (\<lambda>l. go_bind (viewport_lines V t screen (i + 1) n) (\<lambda>ls. Inr (l # ls)))"

definition RenderViewport :: "'t vt_api \<Rightarrow> int \<Rightarrow> 't emulator \<Rightarrow> string go" where
  "RenderViewport V offset e =
     (let t = em_term e; sbLen = vt_ScrollbackLen V t
      in if offset \<le> 0 \<or> sbLen = 0 then Inr (vt_Render V t)
         else let off = (if offset > sbLen then sbLen else offset);
                  height = (if vt_Height V t < 1 then 1 else vt_Height V t);
                  screen = splitScreenLines (vt_Render V t);
                  total = sbLen + int (length screen);
                  end0 = total - off;
                  start = (if end0 - height < 0 then 0 else end0 - height)
              in go_bind (viewport_lines V t screen start (nat (min end0 total - start)))
                   (\<lambda>ls. Inr (join_lines ls)))"

section \<open>Its meaning\<close>

text \<open>The logical buffer: the lines that scrolled off, oldest first, then the screen.\<close>

definition history :: "'t vt_api \<Rightarrow> 't \<Rightarrow> string list" where
  "history V t = map (\<lambda>i. trim_cr (vt_Line V (int i) t)) [0..<nat (vt_ScrollbackLen V t)] @
     splitScreenLines (vt_Render V t)"

lemma length_history:
  "0 \<le> vt_ScrollbackLen V t \<Longrightarrow>
     int (length (history V t)) = vt_ScrollbackLen V t + int (length (splitScreenLines (vt_Render V t)))"
  by (simp add: history_def)

lemma viewport_line_history:
  assumes "0 \<le> vt_ScrollbackLen V t" and "0 \<le> i" and "i < int (length (history V t))"
  shows "viewport_line V t (splitScreenLines (vt_Render V t)) i = Inr (history V t ! nat i)"
  using assms by (auto simp: viewport_line_def history_def nth_append go_index_ok nat_diff_distrib)

lemma viewport_lines_history:
  assumes "0 \<le> vt_ScrollbackLen V t" and "0 \<le> i" and "i + int n \<le> int (length (history V t))"
  shows "viewport_lines V t (splitScreenLines (vt_Render V t)) i n = Inr (take n (drop (nat i) (history V t)))"
  using assms(2,3)
proof (induction n arbitrary: i)
  case (Suc n)
  have "drop (nat i) (history V t) = history V t ! nat i # drop (nat (i + 1)) (history V t)"
    using Suc.prems by (simp add: Cons_nth_drop_Suc nat_add_distrib)
  then show ?case using Suc by (simp add: viewport_line_history assms(1))
qed simp

text \<open>The window of the buffer that ends \<open>off\<close> lines above its end.\<close>

definition history_window :: "'t vt_api \<Rightarrow> int \<Rightarrow> 't \<Rightarrow> string list" where
  "history_window V off t = lastn (nat (max 1 (vt_Height V t)))
     (take (length (history V t) - nat (min off (vt_ScrollbackLen V t))) (history V t))"

lemma RenderViewport_window:
  assumes "0 < off" and "0 < vt_ScrollbackLen V (em_term e)"
  shows "RenderViewport V off e = Inr (join_lines (history_window V off (em_term e)))"
proof -
  let ?t = "em_term e"
  let ?sb = "vt_ScrollbackLen V ?t" and ?H = "history V ?t" and ?s = "splitScreenLines (vt_Render V ?t)"
  define o1 where "o1 = (if off > ?sb then ?sb else off)"
  define hh where "hh = (if vt_Height V ?t < 1 then 1 else vt_Height V ?t)"
  define n where "n = int (length ?H) - o1"
  define s where "s = (if n - hh < 0 then 0 else n - hh)"
  have L: "int (length ?H) = ?sb + int (length ?s)" using assms(2) by (simp add: length_history)
  have o1: "0 < o1" "o1 \<le> int (length ?H)" "o1 = min off ?sb" using assms L by (auto simp: o1_def)
  have s: "0 \<le> s" "s \<le> n" using o1 by (auto simp: s_def n_def hh_def)
  have w: "take (nat (n - s)) (drop (nat s) ?H) = lastn (nat hh) (take (nat n) ?H)"
  proof -
    have "length (take (nat n) ?H) = nat n" unfolding length_take n_def using o1(1) by linarith
    moreover have "nat n - nat hh = nat s" using s by (auto simp: s_def hh_def nat_diff_distrib)
    ultimately show ?thesis using s by (simp add: lastn_def drop_take nat_diff_distrib)
  qed
  have "RenderViewport V off e = go_bind (viewport_lines V ?t ?s s (nat (n - s))) (\<lambda>ls. Inr (join_lines ls))"
  proof -
    have "min n (?sb + int (length ?s)) = n" using o1(1) L by (simp add: n_def)
    then show ?thesis
      using assms unfolding RenderViewport_def Let_def o1_def [symmetric] hh_def [symmetric] L [symmetric]
        n_def [symmetric] s_def [symmetric] by simp
  qed
  also have "\<dots> = Inr (join_lines (lastn (nat hh) (take (nat n) ?H)))"
    using s o1(1) assms(2) viewport_lines_history [of V ?t s "nat (n - s)"] by (simp add: n_def w [unfolded n_def])
  also have "hh = max 1 (vt_Height V ?t)" by (simp add: hh_def)
  also have "nat n = length ?H - nat (min off ?sb)" using o1 by (simp add: n_def nat_diff_distrib)
  finally show ?thesis by (simp add: history_window_def)
qed

end
