(* ===== verification/Terminal_Pane.thy ===== *)
theory Terminal_Pane
  imports Emulator
begin

text \<open>
  \<^verbatim>\<open>internal/ui/terminalpane.go\<close>: the pane that shows a remote shell. It sizes the
  emulator to its content area, scrolls into the history, and reads keys through a two-state
  machine: in typing mode they go to the shell, after the prefix key one key is a pane command.
\<close>

section \<open>State\<close>

datatype input_mode = modeTyping | modeNav

datatype pane_command = PaneCmdNone | PaneCmdFocusLeft | PaneCmdFocusRight | PaneCmdFocusUp
  | PaneCmdFocusDown | PaneCmdClose | PaneCmdScrollUp | PaneCmdScrollDown

record 't terminal_pane =
  tp_emu :: "'t emulator"
  tp_id :: string
  tp_title :: string
  tp_ctx :: string
  tp_focused :: bool
  tp_mode :: input_mode
  exited :: bool
  exitCode :: int
  exitNote :: string
  ctxBadgeHidden :: bool
  tp_scrollOffset :: int
  tp_borderless :: bool
  tp_width :: int
  tp_height :: int

definition borderChrome :: int where "borderChrome = 2"

definition innerSize :: "int \<Rightarrow> int \<Rightarrow> int \<times> int" where
  "innerSize w h = (let iw = w - borderChrome; ih = h - borderChrome
     in (if iw < 1 then 1 else iw, if ih < 1 then 1 else ih))"

definition NewTerminalPane :: "'t vt_api \<Rightarrow> string \<Rightarrow> string \<Rightarrow> int \<Rightarrow> int \<Rightarrow> 't terminal_pane" where
  "NewTerminalPane V title ctx w h =
     \<lparr> tp_emu = NewEmulator V (fst (innerSize w h)) (snd (innerSize w h)), tp_id = '''', tp_title = title,
       tp_ctx = ctx, tp_focused = False, tp_mode = modeTyping, exited = False, exitCode = 0, exitNote = '''',
       ctxBadgeHidden = False, tp_scrollOffset = 0, tp_borderless = False, tp_width = w, tp_height = h \<rparr>"

definition innerDims :: "'t terminal_pane \<Rightarrow> int \<times> int" where
  "innerDims t = (if tp_borderless t
     then (if tp_width t < 1 then 1 else tp_width t, if tp_height t - 1 < 1 then 1 else tp_height t - 1)
     else innerSize (tp_width t) (tp_height t))"

definition ContentOffset :: "'t terminal_pane \<Rightarrow> int \<times> int" where
  "ContentOffset t = (if tp_borderless t then (0, 1) else (1, 1))"

section \<open>Operations\<close>

definition resize_emu :: "'t vt_api \<Rightarrow> 't terminal_pane \<Rightarrow> 't terminal_pane" where
  "resize_emu V t = t\<lparr> tp_emu := em_Resize V (fst (innerDims t)) (snd (innerDims t)) (tp_emu t) \<rparr>"

definition tp_SetBorderless :: "'t vt_api \<Rightarrow> bool \<Rightarrow> 't terminal_pane \<Rightarrow> 't terminal_pane" where
  "tp_SetBorderless V b t = resize_emu V (t\<lparr> tp_borderless := b \<rparr>)"

definition tp_Write :: "'t vt_api \<Rightarrow> string \<Rightarrow> 't terminal_pane \<Rightarrow> 't terminal_pane \<times> int \<times> bool" where
  "tp_Write V p t = (let (e, res) = em_Write V p (tp_emu t) in (t\<lparr> tp_scrollOffset := 0, tp_emu := e \<rparr>, res))"

definition SetScrollback :: "'t vt_api \<Rightarrow> int \<Rightarrow> 't terminal_pane \<Rightarrow> 't terminal_pane" where
  "SetScrollback V n t = t\<lparr> tp_emu := SetScrollbackSize V n (tp_emu t) \<rparr>"

definition tp_ScrollUp :: "'t vt_api \<Rightarrow> int \<Rightarrow> 't terminal_pane \<Rightarrow> 't terminal_pane" where
  "tp_ScrollUp V n t =
     (if n \<le> 0 then t
      else let off = tp_scrollOffset t + n; m = ScrollbackLen V (tp_emu t)
           in t\<lparr> tp_scrollOffset := (if off > m then m else off) \<rparr>)"

definition tp_ScrollDown :: "int \<Rightarrow> 't terminal_pane \<Rightarrow> 't terminal_pane" where
  "tp_ScrollDown n t =
     (if n \<le> 0 then t
      else let off = tp_scrollOffset t - n in t\<lparr> tp_scrollOffset := (if off < 0 then 0 else off) \<rparr>)"

definition MarkExited :: "int \<Rightarrow> 't terminal_pane \<Rightarrow> 't terminal_pane" where
  "MarkExited code t = t\<lparr> exited := True, exitCode := code \<rparr>"

definition SetExitNote :: "string \<Rightarrow> 't terminal_pane \<Rightarrow> 't terminal_pane" where
  "SetExitNote note t = t\<lparr> exitNote := note \<rparr>"

definition SetID :: "string \<Rightarrow> 't terminal_pane \<Rightarrow> 't terminal_pane" where
  "SetID i t = t\<lparr> tp_id := i \<rparr>"

definition InnerSize :: "'t terminal_pane \<Rightarrow> int \<times> int" where
  "InnerSize t = innerDims t"

definition IsHidden :: "'t terminal_pane \<Rightarrow> bool" where
  "IsHidden t \<longleftrightarrow> tp_width t \<le> 0 \<or> tp_height t \<le> 0"

definition tp_SetSize :: "'t vt_api \<Rightarrow> int \<Rightarrow> int \<Rightarrow> 't terminal_pane \<Rightarrow> 't terminal_pane" where
  "tp_SetSize V w h t = resize_emu V (t\<lparr> tp_width := w, tp_height := h \<rparr>)"

definition tp_Focus :: "'t terminal_pane \<Rightarrow> 't terminal_pane" where
  "tp_Focus t = t\<lparr> tp_focused := True \<rparr>"

definition tp_Blur :: "'t terminal_pane \<Rightarrow> 't terminal_pane" where
  "tp_Blur t = t\<lparr> tp_focused := False, tp_mode := modeTyping \<rparr>"

definition SetContextBadgeVisible :: "bool \<Rightarrow> 't terminal_pane \<Rightarrow> 't terminal_pane" where
  "SetContextBadgeVisible visible t = t\<lparr> ctxBadgeHidden := \<not> visible \<rparr>"

definition ContextBadgeVisible :: "'t terminal_pane \<Rightarrow> bool" where
  "ContextBadgeVisible t \<longleftrightarrow> tp_ctx t \<noteq> '''' \<and> \<not> ctxBadgeHidden t"

definition CursorPos :: "'t vt_api \<Rightarrow> 't terminal_pane \<Rightarrow> int \<times> int \<times> bool" where
  "CursorPos V t =
     (if \<not> tp_focused t \<or> exited t \<or> tp_scrollOffset t > 0 \<or> \<not> CursorVisible (tp_emu t) then (0, 0, False)
      else let (x, y) = em_CursorPosition V (tp_emu t) in (x, y, True))"

definition term_title :: "'t terminal_pane \<Rightarrow> string" where
  "term_title t = tp_title t @ (if tp_focused t \<and> tp_mode t = modeNav then '' -- NAV --'' else '''') @
     (if tp_scrollOffset t > 0 then '' [scroll -'' @ itoa (tp_scrollOffset t) @ '']'' else '''')"

text \<open>The dash is the three bytes of its UTF-8 encoding.\<close>

definition exitBannerText :: "'t terminal_pane \<Rightarrow> string" where
  "exitBannerText t =
     (let msg = ''[exited '' @ [CHR 0xE2, CHR 0x80, CHR 0x94] @ '' status '' @ itoa (exitCode t) @ '']''
      in if exitNote t \<noteq> '''' then msg @ '' '' @ exitNote t else msg)"

text \<open>\<open>trunc\<close> is \<open>ansi.Truncate\<close> with an ellipsis and \<open>dim\<close> the style of the banner.\<close>

definition overlayExitBanner ::
  "(string \<Rightarrow> int \<Rightarrow> string) \<Rightarrow> (string \<Rightarrow> string) \<Rightarrow> string \<Rightarrow> string \<Rightarrow> int \<Rightarrow> string" where
  "overlayExitBanner trunc dim content banner innerWidth =
     (let b = (if innerWidth > 0 then trunc banner innerWidth else banner);
          ls = split_lines content
      in if ls = [] then dim b else join_lines (ls[0 := dim b]))"

definition term_content :: "'t vt_api \<Rightarrow> (string \<Rightarrow> int \<Rightarrow> string) \<Rightarrow> (string \<Rightarrow> string) \<Rightarrow> 't terminal_pane \<Rightarrow> string go" where
  "term_content V trunc dim t =
     go_bind (RenderViewport V (tp_scrollOffset t) (tp_emu t))
       (\<lambda>c. Inr (if exited t then overlayExitBanner trunc dim c (exitBannerText t) (fst (innerDims t)) else c))"

section \<open>Keys\<close>

text \<open>
  \<open>tea.Key\<close>: the text it produces, its modifiers and its code. The C0 specials are the runes of
  their control byte, the others lie outside the range of runes.
\<close>

datatype key_code = Rune nat | KeyUp | KeyDown | KeyRight | KeyLeft | KeyHome | KeyEnd | KeyDelete
  | KeyPgUp | KeyPgDown | KeyF nat | KeyOther

record key =
  key_Text :: string
  ModAlt :: bool
  ModCtrl :: bool
  ModOther :: bool
  key_Code :: key_code

definition rune_string :: "nat \<Rightarrow> string" where
  "rune_string c = [char_of c]"

fun ctrl_code :: "key_code \<Rightarrow> string option" where
  "ctrl_code (Rune c) =
     (if 97 \<le> c \<and> c \<le> 122 then Some (rune_string (c - 97 + 1))
      else if 65 \<le> c \<and> c \<le> 90 then Some (rune_string (c - 65 + 1))
      else if c = 32 \<or> c = 64 then Some (rune_string 0)
      else if c = 92 then Some (rune_string 28)
      else if c = 93 then Some (rune_string 29)
      else if c = 94 then Some (rune_string 30)
      else if c = 95 then Some (rune_string 31) else None)"
| "ctrl_code _ = None"

definition csi :: "string \<Rightarrow> string" where
  "csi s = CHR 0x1B # CHR ''['' # s"

text \<open>The numbers of the function keys from the fifth on.\<close>

definition fkey_number :: "nat \<Rightarrow> string" where
  "fkey_number n = [''15'', ''17'', ''18'', ''19'', ''20'', ''21'', ''23'', ''24''] ! (n - 5)"

fun special_code :: "key_code \<Rightarrow> string option" where
  "special_code KeyUp = Some (csi ''A'')"
| "special_code KeyDown = Some (csi ''B'')"
| "special_code KeyRight = Some (csi ''C'')"
| "special_code KeyLeft = Some (csi ''D'')"
| "special_code KeyHome = Some (csi ''H'')"
| "special_code KeyEnd = Some (csi ''F'')"
| "special_code KeyDelete = Some (csi ''3~'')"
| "special_code KeyPgUp = Some (csi ''5~'')"
| "special_code KeyPgDown = Some (csi ''6~'')"
| "special_code (Rune c) =
     (if c = 13 \<or> c = 9 \<or> c = 127 \<or> c = 27 \<or> c = 32 then Some (rune_string c) else None)"
| "special_code (KeyF n) =
     (if 1 \<le> n \<and> n \<le> 4 then Some (CHR 0x1B # CHR ''O'' # rune_string (79 + n))
      else if 5 \<le> n \<and> n \<le> 12 then Some (csi (fkey_number n @ ''~'')) else None)"
| "special_code KeyOther = None"

definition encode_plain :: "key \<Rightarrow> string" where
  "encode_plain k =
     (case (if ModCtrl k then ctrl_code (key_Code k) else None) of
        Some b \<Rightarrow> b
      | None \<Rightarrow> (case special_code (key_Code k) of Some b \<Rightarrow> b | None \<Rightarrow> key_Text k))"

definition printable :: "key_code \<Rightarrow> string option" where
  "printable c = (case c of Rune r \<Rightarrow> if 32 \<le> r \<and> r < 127 then Some (rune_string r) else None | _ \<Rightarrow> None)"

text \<open>The recursive call of the code is on a key without \<open>ModAlt\<close>.\<close>

definition encodeKey :: "key \<Rightarrow> string" where
  "encodeKey k =
     (if ModAlt k
      then let inner = k\<lparr> ModAlt := False \<rparr>;
               inner1 = (if key_Text inner = '''' \<and> \<not> ModCtrl inner \<and> \<not> ModOther inner
                         then case printable (key_Code inner) of Some s \<Rightarrow> inner\<lparr> key_Text := s \<rparr> | None \<Rightarrow> inner
                         else inner);
               rest = encode_plain inner1
           in if rest \<noteq> [] then CHR 0x1B # rest else []
      else encode_plain k)"

definition nav_command :: "string \<Rightarrow> pane_command" where
  "nav_command key =
     (if key \<in> {''h'', ''left''} then PaneCmdFocusLeft
      else if key \<in> {''l'', ''right''} then PaneCmdFocusRight
      else if key \<in> {''k'', ''up''} then PaneCmdFocusUp
      else if key \<in> {''j'', ''down''} then PaneCmdFocusDown
      else if key = ''pgup'' then PaneCmdScrollUp
      else if key = ''pgdown'' then PaneCmdScrollDown
      else if key \<in> {''x'', ''q'', ''ctrl+w''} then PaneCmdClose
      else PaneCmdNone)"

definition captured :: "(string \<Rightarrow> bool) option \<Rightarrow> string \<Rightarrow> bool" where
  "captured isCaptured key = (case isCaptured of None \<Rightarrow> False | Some f \<Rightarrow> f key)"

text \<open>\<open>str\<close> is the method \<open>String\<close> of a key press. The result: handled, bytes for the shell, command.\<close>

definition HandleKey :: "(key \<Rightarrow> string) \<Rightarrow> string \<Rightarrow> (string \<Rightarrow> bool) option \<Rightarrow> key \<Rightarrow> 't terminal_pane \<Rightarrow>
    't terminal_pane \<times> bool \<times> string \<times> pane_command" where
  "HandleKey str prefix isCaptured msg t =
     (if exited t then (t, False, [], PaneCmdNone)
      else let key = str msg in
        if tp_mode t = modeTyping
        then if key = prefix then (t\<lparr> tp_mode := modeNav \<rparr>, True, [], PaneCmdNone)
             else if captured isCaptured key then (t, False, [], PaneCmdNone)
             else (t\<lparr> tp_scrollOffset := 0 \<rparr>, True, encodeKey msg, PaneCmdNone)
        else let t1 = t\<lparr> tp_mode := modeTyping \<rparr>
             in if key = prefix then (t1, True, encodeKey msg, PaneCmdNone)
                else (t1, True, [], nav_command key))"

end
