(* ===== verification/Pane.thy ===== *)
theory Pane
  imports Resource_List_Props Terminal_Pane
begin

text \<open>
  \<^verbatim>\<open>internal/ui/pane.go\<close>: the interface through which the layout drives its panes. The
  contract of \<open>SetSize\<close>, \<open>SetBorderless\<close>, \<open>Focus\<close> and \<open>Blur\<close> is a locale; what the layout relies
  on for a list of panes is proved in it once, and it is interpreted on the resource list, on the
  terminal pane and on their sum.
\<close>

section \<open>Lists of panes\<close>

definition map_idx :: "(nat \<Rightarrow> 'a \<Rightarrow> 'b) \<Rightarrow> 'a list \<Rightarrow> 'b list" where
  "map_idx f xs = map (\<lambda>j. f j (xs ! j)) [0..<length xs]"

lemma length_map_idx [simp]: "length (map_idx f xs) = length xs"
  by (simp add: map_idx_def)

lemma nth_map_idx [simp]: "j < length xs \<Longrightarrow> map_idx f xs ! j = f j (xs ! j)"
  by (simp add: map_idx_def)

lemma map_idx_Nil [simp]: "map_idx f xs = [] \<longleftrightarrow> xs = []"
  by (simp add: map_idx_def)

text \<open>Exactly the element at \<open>i\<close> has a property.\<close>

definition only_at :: "('a \<Rightarrow> bool) \<Rightarrow> int \<Rightarrow> 'a list \<Rightarrow> bool" where
  "only_at P i xs \<longleftrightarrow> (\<forall>j<length xs. P (xs ! j) \<longleftrightarrow> int j = i)"

lemma only_at_map_idx:
  "(\<And>j p. j < length xs \<Longrightarrow> p = xs ! j \<Longrightarrow> P (f j p) = Q p) \<Longrightarrow> only_at P i (map_idx f xs) = only_at Q i xs"
  by (simp add: only_at_def)

lemma only_at_upto: "only_at P i xs \<longleftrightarrow> list_all (\<lambda>j. P (xs ! j) = (int j = i)) [0..<length xs]"
  by (auto simp: only_at_def list_all_iff)

section \<open>The contract\<close>

locale pane_ops =
  fixes set_size :: "int \<Rightarrow> int \<Rightarrow> 'p \<Rightarrow> 'p" and set_borderless :: "bool \<Rightarrow> 'p \<Rightarrow> 'p"
    and focus :: "'p \<Rightarrow> 'p" and blur :: "'p \<Rightarrow> 'p"
    and size_of :: "'p \<Rightarrow> int \<times> int" and borderless :: "'p \<Rightarrow> bool"
    and focused :: "'p \<Rightarrow> bool" and active :: "'p \<Rightarrow> bool"
  assumes set_size: "size_of (set_size w h p) = (w, h)" "borderless (set_size w h p) = borderless p"
      "focused (set_size w h p) = focused p" "active (set_size w h p) = active p"
    and set_borderless: "size_of (set_borderless b p) = size_of p" "borderless (set_borderless b p) = b"
      "focused (set_borderless b p) = focused p" "active (set_borderless b p) = active p"
    and focus: "size_of (focus p) = size_of p" "borderless (focus p) = borderless p" "focused (focus p)"
    and blur: "size_of (blur p) = size_of p" "borderless (blur p) = borderless p" "\<not> focused (blur p)"
      "\<not> active (blur p)"
begin

text \<open>Handing the focus to one pane and blurring the others.\<close>

lemma hand_over:
  assumes "i < length ps" and "focused p" and "size_of p = size_of (ps ! i)" and "borderless p = borderless (ps ! i)"
  shows "let qs = (map_idx (\<lambda>j p. if j \<noteq> i then blur p else p) ps)[i := p] in
    only_at focused (int i) qs \<and> (\<forall>j<length qs. active (qs ! j) \<longrightarrow> j = i) \<and>
    map borderless qs = map borderless ps \<and> map size_of qs = map size_of ps"
proof -
  let ?qs = "(map_idx (\<lambda>j p. if j \<noteq> i then blur p else p) ps)[i := p]"
  have n: "j < length ps \<Longrightarrow> ?qs ! j = (if j = i then p else blur (ps ! j))" for j
    by (simp add: nth_list_update)
  have "map borderless ?qs = map borderless ps" "map size_of ?qs = map size_of ps"
    by (rule nth_equalityI; simp add: n blur assms)+
  then show ?thesis using assms(2) by (auto simp: Let_def only_at_def n blur)
qed

text \<open>Moving the borderless flag from one pane to another.\<close>

lemma move_flag:
  assumes "only_at borderless (int i) ps" and "i < length ps" and "k < length ps"
  shows "let qs = ps[i := set_borderless False (ps ! i)] in
    only_at borderless (int k) (qs[k := set_borderless True (qs ! k)])"
  using assms by (auto simp: only_at_def nth_list_update set_borderless Let_def)

text \<open>Giving each pane a size changes nothing else.\<close>

lemma resize:
  "map size_of (map_idx (\<lambda>j p. set_size (w j) (h j) p) ps) = map (\<lambda>j. (w j, h j)) [0..<length ps]"
  "map borderless (map_idx (\<lambda>j p. set_size (w j) (h j) p) ps) = map borderless ps"
  "map focused (map_idx (\<lambda>j p. set_size (w j) (h j) p) ps) = map focused ps"
  "map active (map_idx (\<lambda>j p. set_size (w j) (h j) p) ps) = map active ps"
  by (auto simp: set_size map_idx_def intro!: nth_equalityI)

end

section \<open>The panes of the program\<close>

lemma rl_size_fields [simp]:
  "rl_width (rl_SetSize E w h r) = w" "rl_height (rl_SetSize E w h r) = h"
  "rl_borderless (rl_SetSize E w h r) = rl_borderless r" "rl_focused (rl_SetSize E w h r) = rl_focused r"
  "selectionActive (rl_table (rl_SetSize E w h r)) = selectionActive (rl_table r)"
  by (simp_all add: rl_SetSize_def set_list_xOffset_def drop_cache_def t_SetContentWidth_def t_SetLayout_def
      t_SetXOffset_def t_set_height_def t_set_width_def Let_def split: prod.splits)

lemma rl_focus_fields [simp]:
  "rl_width (applyFocus E b a r) = rl_width r" "rl_height (applyFocus E b a r) = rl_height r"
  "rl_borderless (applyFocus E b a r) = rl_borderless r" "rl_focused (applyFocus E b a r) = b"
  "selectionActive (rl_table (applyFocus E b a r)) = a"
  by (simp_all add: applyFocus_def SetSelectionActive_def t_EnsureCursorVisible_def t_Focus_def t_Blur_def Let_def)

definition rl_size :: "'v resource_list \<Rightarrow> int \<times> int" where
  "rl_size r = (rl_width r, rl_height r)"

definition cursor_active :: "'v resource_list \<Rightarrow> bool" where
  "cursor_active r \<longleftrightarrow> selectionActive (rl_table r)"

interpretation list_pane: pane_ops "rl_SetSize E" "rl_SetBorderless E" "rl_Focus E" "rl_Blur E"
    rl_size rl_borderless rl_focused cursor_active
  by unfold_locales
    (simp_all add: rl_size_def rl_SetBorderless_def rl_Focus_def rl_Blur_def cursor_active_def)

definition tp_size :: "'t terminal_pane \<Rightarrow> int \<times> int" where
  "tp_size t = (tp_width t, tp_height t)"

text \<open>A terminal carries no selection.\<close>

definition no_cursor :: "'p \<Rightarrow> bool" where
  "no_cursor p \<longleftrightarrow> False"

interpretation term_pane: pane_ops "tp_SetSize V" "tp_SetBorderless V" tp_Focus tp_Blur
    tp_size tp_borderless tp_focused no_cursor
  by unfold_locales
    (simp_all add: tp_size_def tp_SetSize_def tp_SetBorderless_def resize_emu_def tp_Focus_def tp_Blur_def no_cursor_def)

text \<open>The elements of the splits: \<open>*ui.ResourceList\<close> or \<open>*ui.TerminalPane\<close>.\<close>

datatype ('v, 't) pane = ResourcePane "'v resource_list" | TerminalPane "'t terminal_pane"

record ('v, 't) pane_env =
  pe_list :: "'v list_env"
  pe_vt :: "'t vt_api"

fun pane_SetSize :: "('v, 't, 'z) pane_env_scheme \<Rightarrow> int \<Rightarrow> int \<Rightarrow> ('v, 't) pane \<Rightarrow> ('v, 't) pane" where
  "pane_SetSize Y w h (ResourcePane r) = ResourcePane (rl_SetSize (pe_list Y) w h r)"
| "pane_SetSize Y w h (TerminalPane t) = TerminalPane (tp_SetSize (pe_vt Y) w h t)"

fun pane_SetBorderless :: "('v, 't, 'z) pane_env_scheme \<Rightarrow> bool \<Rightarrow> ('v, 't) pane \<Rightarrow> ('v, 't) pane" where
  "pane_SetBorderless Y b (ResourcePane r) = ResourcePane (rl_SetBorderless (pe_list Y) b r)"
| "pane_SetBorderless Y b (TerminalPane t) = TerminalPane (tp_SetBorderless (pe_vt Y) b t)"

fun pane_Focus :: "('v, 't, 'z) pane_env_scheme \<Rightarrow> ('v, 't) pane \<Rightarrow> ('v, 't) pane" where
  "pane_Focus Y (ResourcePane r) = ResourcePane (rl_Focus (pe_list Y) r)"
| "pane_Focus Y (TerminalPane t) = TerminalPane (tp_Focus t)"

fun pane_Blur :: "('v, 't, 'z) pane_env_scheme \<Rightarrow> ('v, 't) pane \<Rightarrow> ('v, 't) pane" where
  "pane_Blur Y (ResourcePane r) = ResourcePane (rl_Blur (pe_list Y) r)"
| "pane_Blur Y (TerminalPane t) = TerminalPane (tp_Blur t)"

fun pane_Title :: "('v, 't) pane \<Rightarrow> string" where
  "pane_Title (ResourcePane r) = p_Name (rl_plugin r)"
| "pane_Title (TerminalPane t) = tp_title t"

fun pane_Context :: "('v, 't) pane \<Rightarrow> string" where
  "pane_Context (ResourcePane r) = rl_context r"
| "pane_Context (TerminalPane t) = tp_ctx t"

fun pane_size :: "('v, 't) pane \<Rightarrow> int \<times> int" where
  "pane_size (ResourcePane r) = rl_size r"
| "pane_size (TerminalPane t) = tp_size t"

fun pane_borderless :: "('v, 't) pane \<Rightarrow> bool" where
  "pane_borderless (ResourcePane r) = rl_borderless r"
| "pane_borderless (TerminalPane t) = tp_borderless t"

fun pane_focused :: "('v, 't) pane \<Rightarrow> bool" where
  "pane_focused (ResourcePane r) = rl_focused r"
| "pane_focused (TerminalPane t) = tp_focused t"

fun pane_active :: "('v, 't) pane \<Rightarrow> bool" where
  "pane_active (ResourcePane r) = cursor_active r"
| "pane_active (TerminalPane t) = no_cursor t"

interpretation split_pane: pane_ops "pane_SetSize Y" "pane_SetBorderless Y" "pane_Focus Y" "pane_Blur Y"
    pane_size pane_borderless pane_focused pane_active
  by (unfold_locales; case_tac p; simp add: list_pane.set_size term_pane.set_size list_pane.set_borderless
      term_pane.set_borderless list_pane.focus term_pane.focus list_pane.blur term_pane.blur)

section \<open>What the contents of a list leave alone\<close>

definition list_key :: "'v resource_list \<Rightarrow> (int \<times> int) \<times> bool \<times> bool \<times> bool" where
  "list_key r = (rl_size r, rl_borderless r, rl_focused r, cursor_active r)"

lemma list_key_table [simp]:
  "selectionActive t = selectionActive (rl_table r) \<Longrightarrow> list_key (r\<lparr> rl_table := t \<rparr>) = list_key r"
  by (simp add: list_key_def rl_size_def cursor_active_def)

lemma list_key_fields [simp]:
  "list_key (r\<lparr> displayObjects := d \<rparr>) = list_key r" "list_key (r\<lparr> allObjects := d \<rparr>) = list_key r"
  "list_key (r\<lparr> selected := sel \<rparr>) = list_key r" "list_key (r\<lparr> rl_contentWidth := cw \<rparr>) = list_key r"
  "list_key (r\<lparr> cachedColumnWidths := cc \<rparr>) = list_key r" "list_key (r\<lparr> cachedContentWidth := cw \<rparr>) = list_key r"
  "list_key (r\<lparr> cachedRowCount := cw \<rparr>) = list_key r"
  by (simp_all add: list_key_def rl_size_def cursor_active_def)

lemma selectionActive_ops [simp]:
  "selectionActive (t_SetRows T rs m) = selectionActive m" "selectionActive (t_SetCursor T n m) = selectionActive m"
  "selectionActive (t_SetColumnsAndRows T c rs m) = selectionActive m"
  "selectionActive (t_SetContentWidth T w m) = selectionActive m"
  "selectionActive (t_EnsureCursorVisible T m) = selectionActive m"
  "selectionActive (t_scrollToCursor T m) = selectionActive m"
  by (simp_all add: t_SetRows_def t_set_rows_def t_SetCursor_def t_SetColumnsAndRows_def t_SetContentWidth_def
      t_EnsureCursorVisible_def t_scrollToCursor_def Let_def)

lemma list_key_SetObjects [simp]: "list_key (SetObjects E objs r) = list_key r"
proof -
  have a: "list_key (applyVisibleHighlights E q) = list_key q" for q
    by (simp add: applyVisibleHighlights_def Let_def split: option.splits prod.splits)
  have c: "list_key (set_columns E cs cw rs q) = list_key q" for cs cw rs q
    by (simp add: set_columns_def)
  have b: "list_key (rebuildDisplay E q) = list_key q" for q
    by (simp add: rebuildDisplay_def a renderRows_def rebindRowStyle_def c Let_def split: option.splits prod.splits)
  have "list_key (restore_cursor E k q) = list_key q" for k q
    by (simp add: restore_cursor_def move_cursor_def a Let_def split: option.splits)
  then show ?thesis by (simp add: SetObjects_def b Let_def)
qed

lemma list_key_Update [simp]: "list_key (rl_Update E f r) = list_key r"
  by (simp add: rl_Update_def t_Update_def t_MoveUp_def t_MoveDown_def t_GotoTop_def t_GotoBottom_def Let_def)

end
