(* ===== verification/Layout.thy ===== *)
theory Layout
  imports Pane Detail_View_Ops Log_View_Total
begin

text \<open>
  \<^verbatim>\<open>internal/layout/layout.go\<close>: the splits, lists and terminals, with the focused one, and
  the panel beside or below them, which is the detail view or the log view. It decides who is
  focused, who is drawn without a border, and the rectangle of each pane on the screen.

  Indexing the splits goes through \<open>go_index\<close> as in the code, and resizing the log view may fail,
  so the operations return \<open>'a go\<close>.
\<close>

section \<open>State\<close>

definition statusBarHeight :: int where "statusBarHeight = 1"

datatype zoom_mode = ZoomNone | ZoomSplit | ZoomDetail

datatype orientation = OrientationVertical | OrientationHorizontal

datatype focus_target = FocusTargetResources | FocusTargetDetails

datatype pane_kind = PaneSplit | PaneDetail | PaneLog

record pane_rect =
  pr_X :: int
  pr_Y :: int
  pr_W :: int
  pr_H :: int
  pr_Kind :: pane_kind
  pr_SplitIdx :: int

record ('v, 't) layout_env = "('v, 't) pane_env" +
  ye_view :: "'v view_api"

record ('v, 't) layout =
  splits :: "('v, 't) pane list"
  focusIdx :: int
  rightPanel :: "'v detail_view"
  rightVisible :: bool
  focusTarget :: focus_target
  splitZoomed :: bool
  detailZoomed :: bool
  ly_orientation :: orientation
  ly_width :: int
  ly_height :: int
  logView :: log_view
  logMode :: bool
  paneRects :: "pane_rect list"

definition NewLayout :: "('v, 't) layout_env \<Rightarrow> log_view \<Rightarrow> int \<Rightarrow> int \<Rightarrow> ('v, 't) layout" where
  "NewLayout Y lv width height =
     \<lparr> splits = [], focusIdx = 0, rightPanel = NewDetailView (ye_view Y) 0 (height - statusBarHeight),
       rightVisible = False, focusTarget = FocusTargetResources, splitZoomed = False, detailZoomed = False,
       ly_orientation = OrientationVertical, ly_width = width, ly_height = height - statusBarHeight,
       logView = lv, logMode = False, paneRects = [] \<rparr>"

section \<open>Geometry\<close>

definition EffectiveZoom :: "('v, 't) layout \<Rightarrow> zoom_mode" where
  "EffectiveZoom l = (if detailZoomed l \<and> rightVisible l then ZoomDetail
     else if splitZoomed l then ZoomSplit else ZoomNone)"

text \<open>\<open>int(float64(n) * 0.5)\<close> is exact for the sizes of a screen and truncates towards zero.\<close>

definition panelSizes :: "('v, 't) layout \<Rightarrow> int \<times> int" where
  "panelSizes l =
     (if ly_orientation l = OrientationHorizontal
      then if \<not> rightVisible l then (ly_height l, 0)
           else let topHeight = go_quot (ly_height l) 2 in (topHeight, ly_height l - topHeight)
      else if \<not> rightVisible l then (ly_width l, 0)
           else let leftWidth = go_quot (ly_width l) 2 in (leftWidth, ly_width l - leftWidth))"

definition splitDimensions :: "int \<Rightarrow> ('v, 't) layout \<Rightarrow> int \<times> int" where
  "splitDimensions totalSplits l =
     (let n = (if totalSplits = 0 then 1 else totalSplits)
      in if ly_orientation l = OrientationHorizontal
         then (go_quot (ly_width l) n, fst (panelSizes l))
         else (fst (panelSizes l), go_quot (ly_height l) n))"

definition SplitSeedSize :: "('v, 't) layout \<Rightarrow> int \<times> int" where
  "SplitSeedSize l = splitDimensions (int (length (splits l)) + 1) l"

definition detailPaneKind :: "('v, 't) layout \<Rightarrow> pane_kind" where
  "detailPaneKind l = (if logMode l then PaneLog else PaneDetail)"

text \<open>The share of the \<open>i\<close>th of \<open>n\<close> splits of \<open>tot\<close> cells; the last one takes the rest.\<close>

definition split_share :: "int \<Rightarrow> nat \<Rightarrow> nat \<Rightarrow> int" where
  "split_share tot n i =
     (let s = go_quot tot (int n) in if i = n - 1 then tot - s * (int n - 1) else s)"

definition split_rect :: "('v, 't) layout \<Rightarrow> nat \<Rightarrow> nat \<Rightarrow> pane_rect" where
  "split_rect l n i =
     (if ly_orientation l = OrientationHorizontal
      then \<lparr> pr_X = go_quot (ly_width l) (int n) * int i, pr_Y = 0, pr_W = split_share (ly_width l) n i,
             pr_H = fst (panelSizes l), pr_Kind = PaneSplit, pr_SplitIdx = int i \<rparr>
      else \<lparr> pr_X = 0, pr_Y = go_quot (ly_height l) (int n) * int i, pr_W = fst (panelSizes l),
             pr_H = split_share (ly_height l) n i, pr_Kind = PaneSplit, pr_SplitIdx = int i \<rparr>)"

definition detail_rect :: "('v, 't) layout \<Rightarrow> pane_rect" where
  "detail_rect l =
     (if ly_orientation l = OrientationHorizontal
      then \<lparr> pr_X = 0, pr_Y = fst (panelSizes l), pr_W = ly_width l, pr_H = snd (panelSizes l),
             pr_Kind = detailPaneKind l, pr_SplitIdx = 0 \<rparr>
      else \<lparr> pr_X = fst (panelSizes l), pr_Y = 0, pr_W = snd (panelSizes l), pr_H = ly_height l,
             pr_Kind = detailPaneKind l, pr_SplitIdx = 0 \<rparr>)"

definition full_rect :: "('v, 't) layout \<Rightarrow> pane_kind \<Rightarrow> int \<Rightarrow> pane_rect" where
  "full_rect l kind i =
     \<lparr> pr_X = 0, pr_Y = 0, pr_W = ly_width l, pr_H = ly_height l, pr_Kind = kind, pr_SplitIdx = i \<rparr>"

definition pane_rects :: "('v, 't) layout \<Rightarrow> pane_rect list" where
  "pane_rects l =
     (let n = length (splits l)
      in if n = 0 \<or> ly_width l \<le> 0 \<or> ly_height l \<le> 0 then []
         else case EffectiveZoom l of
           ZoomDetail \<Rightarrow> [full_rect l (detailPaneKind l) 0]
         | ZoomSplit \<Rightarrow> [full_rect l PaneSplit (focusIdx l)]
         | ZoomNone \<Rightarrow> map (split_rect l n) [0..<n] @ (if rightVisible l then [detail_rect l] else []))"

definition rebuildPaneRects :: "('v, 't) layout \<Rightarrow> ('v, 't) layout" where
  "rebuildPaneRects l = l\<lparr> paneRects := pane_rects l \<rparr>"

section \<open>Acting on the panes\<close>

definition upd_split :: "int \<Rightarrow> (('v, 't) pane \<Rightarrow> ('v, 't) pane) \<Rightarrow> ('v, 't) layout \<Rightarrow> ('v, 't) layout go" where
  "upd_split i f l = go_bind (go_index (splits l) i) (\<lambda>p. Inr (l\<lparr> splits := (splits l)[nat i := f p] \<rparr>))"

text \<open>\<open>ActiveDetailPanel\<close>: an operation on the log view or on the detail view.\<close>

definition on_detail ::
  "('v detail_view \<Rightarrow> 'v detail_view) \<Rightarrow> (log_view \<Rightarrow> log_view) \<Rightarrow> ('v, 't) layout \<Rightarrow> ('v, 't) layout" where
  "on_detail f g l = (if logMode l then l\<lparr> logView := g (logView l) \<rparr> else l\<lparr> rightPanel := f (rightPanel l) \<rparr>)"

definition detail_Focus :: "('v, 't) layout \<Rightarrow> ('v, 't) layout" where
  "detail_Focus l = on_detail dv_Focus lv_Focus l"

definition detail_Blur :: "('v, 't) layout \<Rightarrow> ('v, 't) layout" where
  "detail_Blur l = on_detail dv_Blur lv_Blur l"

definition detail_SetBorderless :: "bool \<Rightarrow> ('v, 't) layout \<Rightarrow> ('v, 't) layout" where
  "detail_SetBorderless b l = on_detail (dv_SetBorderless b) (lv_SetBorderless b) l"

definition detail_SetSize :: "('v, 't) layout_env \<Rightarrow> int \<Rightarrow> int \<Rightarrow> ('v, 't) layout \<Rightarrow> ('v, 't) layout go" where
  "detail_SetSize Y w h l =
     (if logMode l
      then go_bind (lv_SetSize (tui_text (ye_view Y)) w h (logView l)) (\<lambda>lv. Inr (l\<lparr> logView := lv \<rparr>))
      else Inr (l\<lparr> rightPanel := dv_SetSize (ye_view Y) w h (rightPanel l) \<rparr>))"

definition resize_splits :: "('v, 't) layout_env \<Rightarrow> (nat \<Rightarrow> int) \<Rightarrow> (nat \<Rightarrow> int) \<Rightarrow> ('v, 't) layout \<Rightarrow> ('v, 't) layout" where
  "resize_splits Y w h l = l\<lparr> splits := map_idx (\<lambda>j p. pane_SetSize Y (w j) (h j) p) (splits l) \<rparr>"

fun pane_ensure_cursor :: "('v, 't, 'z) pane_env_scheme \<Rightarrow> ('v, 't) pane \<Rightarrow> ('v, 't) pane" where
  "pane_ensure_cursor Y (ResourcePane r) = ResourcePane (rl_EnsureCursorVisible (pe_list Y) r)"
| "pane_ensure_cursor Y (TerminalPane t) = TerminalPane t"

definition recalcSizes :: "('v, 't) layout_env \<Rightarrow> ('v, 't) layout \<Rightarrow> ('v, 't) layout go" where
  "recalcSizes Y l =
     (let n = length (splits l)
      in if n = 0 then Inr (rebuildPaneRects l)
         else go_bind
           (case EffectiveZoom l of
              ZoomDetail \<Rightarrow>
                go_bind (if rightVisible l then detail_SetSize Y (ly_width l) (ly_height l + statusBarHeight) l else Inr l)
                  (\<lambda>l1. Inr (resize_splits Y (\<lambda>j. 0) (\<lambda>j. 0) l1))
            | ZoomSplit \<Rightarrow>
                Inr (resize_splits Y (\<lambda>j. if int j = focusIdx l then ly_width l else 0)
                       (\<lambda>j. if int j = focusIdx l then ly_height l + statusBarHeight else 0) l)
            | ZoomNone \<Rightarrow>
                (if ly_orientation l = OrientationHorizontal
                 then let (topHeight, bottomHeight) = panelSizes l;
                          l1 = resize_splits Y (split_share (ly_width l) n) (\<lambda>j. topHeight) l
                      in go_bind (if rightVisible l then detail_SetSize Y (ly_width l) bottomHeight l1 else Inr l1)
                           (\<lambda>l2. upd_split (focusIdx l2) (pane_ensure_cursor Y) l2)
                 else let (leftWidth, rightWidth) = panelSizes l;
                          l1 = resize_splits Y (\<lambda>j. leftWidth) (split_share (ly_height l) n) l
                      in go_bind (if rightVisible l then detail_SetSize Y rightWidth (ly_height l) l1 else Inr l1)
                           (\<lambda>l2. upd_split (focusIdx l2) (pane_ensure_cursor Y) l2)))
           (\<lambda>l3. Inr (rebuildPaneRects l3)))"

section \<open>Focus\<close>

fun pane_BlurBorder :: "('v, 't, 'z) pane_env_scheme \<Rightarrow> ('v, 't) pane \<Rightarrow> ('v, 't) pane" where
  "pane_BlurBorder Y (ResourcePane r) = ResourcePane (rl_BlurBorder (pe_list Y) r)"
| "pane_BlurBorder Y (TerminalPane t) = TerminalPane (tp_Blur t)"

definition reconcileFocus :: "('v, 't) layout_env \<Rightarrow> ('v, 't) layout \<Rightarrow> ('v, 't) layout go" where
  "reconcileFocus Y l =
     (if splits l = [] then Inr l
      else let l1 = l\<lparr> splits := map_idx (\<lambda>j p. if int j \<noteq> focusIdx l then pane_Blur Y p else p) (splits l) \<rparr>
           in if focusTarget l = FocusTargetDetails \<and> rightVisible l
              then go_bind (upd_split (focusIdx l) (pane_BlurBorder Y) l1) (\<lambda>l2. Inr (detail_Focus l2))
              else go_bind (upd_split (focusIdx l) (pane_Focus Y) l1) (\<lambda>l2. Inr (detail_Blur l2)))"

definition moveBorderlessFlag :: "('v, 't) layout_env \<Rightarrow> int \<Rightarrow> int \<Rightarrow> ('v, 't) layout \<Rightarrow> ('v, 't) layout go" where
  "moveBorderlessFlag Y from_idx to_idx l =
     (if \<not> splitZoomed l then Inr l
      else go_bind (upd_split from_idx (pane_SetBorderless Y False) l)
        (\<lambda>l1. go_bind (upd_split to_idx (pane_SetBorderless Y True) l1) (recalcSizes Y)))"

definition focus_to :: "('v, 't) layout_env \<Rightarrow> int \<Rightarrow> ('v, 't) layout \<Rightarrow> ('v, 't) layout go" where
  "focus_to Y i l =
     (if splits l = [] then Inr l
      else go_bind (reconcileFocus Y (l\<lparr> focusTarget := FocusTargetResources, focusIdx := i \<rparr>))
        (\<lambda>l1. if focusIdx l \<noteq> i then moveBorderlessFlag Y (focusIdx l) i l1 else Inr l1))"

definition FocusNext :: "('v, 't) layout_env \<Rightarrow> ('v, 't) layout \<Rightarrow> ('v, 't) layout go" where
  "FocusNext Y l = focus_to Y (go_rem (focusIdx l + 1) (int (length (splits l)))) l"

definition FocusPrev :: "('v, 't) layout_env \<Rightarrow> ('v, 't) layout \<Rightarrow> ('v, 't) layout go" where
  "FocusPrev Y l =
     focus_to Y (go_rem (focusIdx l - 1 + int (length (splits l))) (int (length (splits l)))) l"

definition FocusSplitAt :: "('v, 't) layout_env \<Rightarrow> int \<Rightarrow> ('v, 't) layout \<Rightarrow> ('v, 't) layout go" where
  "FocusSplitAt Y i l =
     (if i < 0 \<or> i \<ge> int (length (splits l)) then Inr l
      else go_bind (reconcileFocus Y (l\<lparr> focusTarget := FocusTargetResources, focusIdx := i \<rparr>))
        (moveBorderlessFlag Y (focusIdx l) i))"

definition FocusDetails :: "('v, 't) layout_env \<Rightarrow> ('v, 't) layout \<Rightarrow> ('v, 't) layout go" where
  "FocusDetails Y l =
     (if \<not> rightVisible l \<or> splits l = [] then Inr l
      else reconcileFocus Y (l\<lparr> focusTarget := FocusTargetDetails \<rparr>))"

definition FocusResources :: "('v, 't) layout_env \<Rightarrow> ('v, 't) layout \<Rightarrow> ('v, 't) layout go" where
  "FocusResources Y l = reconcileFocus Y (l\<lparr> focusTarget := FocusTargetResources \<rparr>)"

section \<open>Splits\<close>

definition insert_split :: "('v, 't) layout_env \<Rightarrow> ('v, 't) pane \<Rightarrow> ('v, 't) layout \<Rightarrow> ('v, 't) layout go" where
  "insert_split Y p l =
     go_bind (if splitZoomed l \<and> splits l \<noteq> [] then upd_split (focusIdx l) (pane_SetBorderless Y False) l else Inr l)
       (\<lambda>l1. let i = (if splits l1 \<noteq> [] then focusIdx l1 + 1 else 0)
             in if i < 0 \<or> i > int (length (splits l1)) then Inl SliceOutOfRange
                else go_bind (reconcileFocus Y (l1\<lparr> splits := insert_at (nat i) p (splits l1), focusIdx := i,
                                focusTarget := FocusTargetResources \<rparr>))
                  (\<lambda>l2. go_bind (if splitZoomed l2 then upd_split (focusIdx l2) (pane_SetBorderless Y True) l2 else Inr l2)
                    (recalcSizes Y)))"

definition AddSplit ::
  "('v, 't) layout_env \<Rightarrow> rplugin \<Rightarrow> string \<Rightarrow> string \<Rightarrow> ('v, 't) layout \<Rightarrow> ('v, 't) layout go" where
  "AddSplit Y p ns ctx l =
     (let (w, h) = splitDimensions (int (length (splits l)) + 1) l;
          rl = SetContext ctx (rl_SetNamespace ns (NewResourceList (pe_list Y) p w h))
      in insert_split Y (ResourcePane rl) l)"

definition AddTerminalSplit ::
  "('v, 't) layout_env \<Rightarrow> ('v, 't) pane \<Rightarrow> ('v, 't) layout \<Rightarrow> ('v, 't) layout go" where
  "AddTerminalSplit Y p l = insert_split Y p l"

definition CloseCurrentSplit :: "('v, 't) layout_env \<Rightarrow> ('v, 't) layout \<Rightarrow> (('v, 't) layout \<times> bool) go" where
  "CloseCurrentSplit Y l =
     (if length (splits l) \<le> 1 then Inr (l, True)
      else if focusIdx l < 0 \<or> focusIdx l \<ge> int (length (splits l)) then Inl SliceOutOfRange
      else let ss = remove_at (nat (focusIdx l)) (splits l);
               i = (if focusIdx l \<ge> int (length ss) then int (length ss) - 1 else focusIdx l)
           in go_bind (reconcileFocus Y (l\<lparr> splits := ss, focusIdx := i, focusTarget := FocusTargetResources \<rparr>))
             (\<lambda>l1. go_bind (if splitZoomed l1 then upd_split (focusIdx l1) (pane_SetBorderless Y True) l1 else Inr l1)
               (\<lambda>l2. go_bind (recalcSizes Y l2) (\<lambda>l3. Inr (l3, False)))))"

definition MoveFocusedSplit :: "('v, 't) layout_env \<Rightarrow> int \<Rightarrow> ('v, 't) layout \<Rightarrow> ('v, 't) layout go" where
  "MoveFocusedSplit Y delta l =
     (let target = focusIdx l + delta
      in if target < 0 \<or> target \<ge> int (length (splits l)) then Inr l
         else go_bind (go_index (splits l) (focusIdx l))
           (\<lambda>p. go_bind (reconcileFocus Y (l\<lparr> focusTarget := FocusTargetResources,
                  splits := (splits l)[nat (focusIdx l) := splits l ! nat target, nat target := p],
                  focusIdx := target \<rparr>)) (recalcSizes Y)))"

section \<open>The panel and the zoom\<close>

definition ShowRightPanel :: "('v, 't) layout_env \<Rightarrow> ('v, 't) layout \<Rightarrow> ('v, 't) layout go" where
  "ShowRightPanel Y l = recalcSizes Y (l\<lparr> rightVisible := True \<rparr>)"

definition HideRightPanel :: "('v, 't) layout_env \<Rightarrow> ('v, 't) layout \<Rightarrow> ('v, 't) layout go" where
  "HideRightPanel Y l =
     (let l1 = (if detailZoomed l then detail_SetBorderless False l else l)
      in go_bind (reconcileFocus Y (l1\<lparr> detailZoomed := False, rightVisible := False,
           focusTarget := FocusTargetResources \<rparr>)) (recalcSizes Y))"

definition SetLogMode :: "bool \<Rightarrow> ('v, 't) layout \<Rightarrow> ('v, 't) layout" where
  "SetLogMode on l = rebuildPaneRects (l\<lparr> logMode := on \<rparr>)"

definition ToggleZoomSplit :: "('v, 't) layout_env \<Rightarrow> ('v, 't) layout \<Rightarrow> ('v, 't) layout go" where
  "ToggleZoomSplit Y l =
     (if splitZoomed l
      then let l1 = l\<lparr> splitZoomed := False \<rparr>
           in go_bind (if splits l1 \<noteq> [] then upd_split (focusIdx l1) (pane_SetBorderless Y False) l1 else Inr l1)
                (recalcSizes Y)
      else if length (splits l) \<ge> 1
      then go_bind (upd_split (focusIdx l) (pane_SetBorderless Y True) (l\<lparr> splitZoomed := True \<rparr>)) (recalcSizes Y)
      else Inr l)"

definition ToggleZoomDetail :: "('v, 't) layout_env \<Rightarrow> ('v, 't) layout \<Rightarrow> ('v, 't) layout go" where
  "ToggleZoomDetail Y l =
     (if detailZoomed l then recalcSizes Y (detail_SetBorderless False (l\<lparr> detailZoomed := False \<rparr>))
      else if rightVisible l then recalcSizes Y (detail_SetBorderless True (l\<lparr> detailZoomed := True \<rparr>))
      else Inr l)"

definition UnzoomAll :: "('v, 't) layout_env \<Rightarrow> ('v, 't) layout \<Rightarrow> ('v, 't) layout go" where
  "UnzoomAll Y l =
     (let l1 = (if detailZoomed l then detail_SetBorderless False l else l)
      in go_bind (if splitZoomed l1 \<and> splits l1 \<noteq> [] then upd_split (focusIdx l1) (pane_SetBorderless Y False) l1 else Inr l1)
           (\<lambda>l2. recalcSizes Y (l2\<lparr> splitZoomed := False, detailZoomed := False \<rparr>)))"

definition ToggleOrientation :: "('v, 't) layout_env \<Rightarrow> ('v, 't) layout \<Rightarrow> ('v, 't) layout go" where
  "ToggleOrientation Y l = recalcSizes Y (l\<lparr> ly_orientation :=
     (if ly_orientation l = OrientationVertical then OrientationHorizontal else OrientationVertical) \<rparr>)"

definition ly_Resize :: "('v, 't) layout_env \<Rightarrow> int \<Rightarrow> int \<Rightarrow> ('v, 't) layout \<Rightarrow> ('v, 't) layout go" where
  "ly_Resize Y w h l = recalcSizes Y (l\<lparr> ly_width := w, ly_height := h - statusBarHeight \<rparr>)"

section \<open>Messages and queries\<close>

fun update_pane :: "('v, 't, 'z) pane_env_scheme \<Rightarrow> rplugin \<Rightarrow> string \<Rightarrow> string \<Rightarrow> k8s_obj list \<Rightarrow> ('v, 't) pane \<Rightarrow> ('v, 't) pane" where
  "update_pane Y p ns ctx objs (TerminalPane t) = TerminalPane t"
| "update_pane Y p ns ctx objs (ResourcePane r) =
     (if InDrillDown r then ResourcePane r
      else if p_GVR (rl_plugin r) \<noteq> p_GVR p \<or> EffectiveNamespace r \<noteq> ns then ResourcePane r
      else if rl_context r \<noteq> ctx then ResourcePane r
      else ResourcePane (SetObjects (pe_list Y) objs r))"

definition UpdateSplitObjects ::
  "('v, 't) layout_env \<Rightarrow> rplugin \<Rightarrow> string \<Rightarrow> string \<Rightarrow> k8s_obj list \<Rightarrow> ('v, 't) layout \<Rightarrow> ('v, 't) layout" where
  "UpdateSplitObjects Y p ns ctx objs l = l\<lparr> splits := map (update_pane Y p ns ctx objs) (splits l) \<rparr>"

fun pane_Update :: "('v, 't, 'z) pane_env_scheme \<Rightarrow> (table_key \<Rightarrow> bool) \<Rightarrow> ('v, 't) pane \<Rightarrow> ('v, 't) pane" where
  "pane_Update Y matches (ResourcePane r) = ResourcePane (rl_Update (pe_list Y) matches r)"
| "pane_Update Y matches (TerminalPane t) = TerminalPane t"

definition UpdateFocusedSplit ::
  "('v, 't) layout_env \<Rightarrow> (table_key \<Rightarrow> bool) \<Rightarrow> ('v, 't) layout \<Rightarrow> ('v, 't) layout go" where
  "UpdateFocusedSplit Y matches l =
     (if splits l = [] then Inr l else upd_split (focusIdx l) (pane_Update Y matches) l)"

definition UpdateRightPanel :: "bool \<Rightarrow> ('v \<Rightarrow> 'v) \<Rightarrow> ('v, 't) layout \<Rightarrow> ('v, 't) layout" where
  "UpdateRightPanel tick f l = l\<lparr> rightPanel := dv_Update tick f (rightPanel l) \<rparr>"

definition UpdateLogView :: "('v, 't) layout_env \<Rightarrow> wheel \<Rightarrow> ('v, 't) layout \<Rightarrow> ('v, 't) layout go" where
  "UpdateLogView Y b l =
     go_bind (lv_Update (tui_text (ye_view Y)) b (logView l)) (\<lambda>lv. Inr (l\<lparr> logView := lv \<rparr>))"

definition FocusedPane :: "('v, 't) layout \<Rightarrow> ('v, 't) pane option go" where
  "FocusedPane l = (if splits l = [] then Inr None else go_bind (go_index (splits l) (focusIdx l)) (\<lambda>p. Inr (Some p)))"

fun as_list :: "('v, 't) pane \<Rightarrow> 'v resource_list option" where
  "as_list (ResourcePane r) = Some r"
| "as_list (TerminalPane t) = None"

definition FocusedSplit :: "('v, 't) layout \<Rightarrow> 'v resource_list option go" where
  "FocusedSplit l = (if splits l = [] then Inr None else go_bind (go_index (splits l) (focusIdx l)) (\<lambda>p. Inr (as_list p)))"

definition PaneAtIdx :: "int \<Rightarrow> ('v, 't) layout \<Rightarrow> ('v, 't) pane option" where
  "PaneAtIdx i l = (if i < 0 \<or> i \<ge> int (length (splits l)) then None else Some (splits l ! nat i))"

definition SplitAt :: "int \<Rightarrow> ('v, 't) layout \<Rightarrow> 'v resource_list option" where
  "SplitAt i l = Option.bind (PaneAtIdx i l) as_list"

fun has_id :: "string \<Rightarrow> ('v, 't) pane \<Rightarrow> bool" where
  "has_id i (TerminalPane t) = (tp_id t = i)"
| "has_id i (ResourcePane r) = False"

fun term_inner :: "('v, 't) pane \<Rightarrow> (int \<times> int) option" where
  "term_inner (TerminalPane t) = (if IsHidden t then None else Some (InnerSize t))"
| "term_inner (ResourcePane r) = None"

definition TerminalPaneByID :: "string \<Rightarrow> ('v, 't) layout \<Rightarrow> ('v, 't) pane option" where
  "TerminalPaneByID i l = find (has_id i) (splits l)"

definition TerminalPaneInnerSize :: "string \<Rightarrow> ('v, 't) layout \<Rightarrow> (int \<times> int) option" where
  "TerminalPaneInnerSize i l = Option.bind (TerminalPaneByID i l) term_inner"

definition in_rect :: "int \<Rightarrow> int \<Rightarrow> pane_rect \<Rightarrow> bool" where
  "in_rect x y r \<longleftrightarrow> x \<ge> pr_X r \<and> x < pr_X r + pr_W r \<and> y \<ge> pr_Y r \<and> y < pr_Y r + pr_H r"

definition PaneAt :: "int \<Rightarrow> int \<Rightarrow> ('v, 't) layout \<Rightarrow> pane_rect option" where
  "PaneAt x y l = find (in_rect x y) (paneRects l)"

definition FocusedSplitRect :: "('v, 't) layout \<Rightarrow> pane_rect option" where
  "FocusedSplitRect l = find (\<lambda>r. pr_Kind r = PaneSplit \<and> pr_SplitIdx r = focusIdx l) (paneRects l)"

end
