(* ===== verification/Layout_Inv.thy ===== *)
theory Layout_Inv
  imports Layout
begin

text \<open>
  The invariant of the layout: which pane is focused and has a cursor, which panel is drawn
  without a border, and that the sizes of the panes and the cached rectangles are those of the
  current geometry. It rests on the contract of the panes (\<open>split_pane\<close>).
\<close>

section \<open>The invariant\<close>

definition idx_ok :: "('v, 't) layout \<Rightarrow> bool" where
  "idx_ok l \<longleftrightarrow> (if splits l = [] then focusIdx l = 0 \<and> \<not> splitZoomed l
     else 0 \<le> focusIdx l \<and> focusIdx l < int (length (splits l)))"

definition flags :: "('v, 't) layout \<Rightarrow> bool list" where
  "flags l = map (\<lambda>j. splitZoomed l \<and> int j = focusIdx l) [0..<length (splits l)]"

definition detail_focused :: "bool \<Rightarrow> ('v, 't) layout \<Rightarrow> bool" where
  "detail_focused log l = (if log then lv_focused (logView l) else dv_focused (rightPanel l))"

definition detail_borderless :: "bool \<Rightarrow> ('v, 't) layout \<Rightarrow> bool" where
  "detail_borderless log l = (if log then lv_borderless (logView l) else dv_borderless (rightPanel l))"

text \<open>The borderless flag follows the zoom, on the splits and on the two detail panels.\<close>

definition zoom_ok :: "('v, 't) layout \<Rightarrow> bool" where
  "zoom_ok l \<longleftrightarrow> map pane_borderless (splits l) = flags l \<and> (detailZoomed l \<longrightarrow> rightVisible l) \<and>
     (\<forall>b. detail_borderless b l \<longleftrightarrow> b = logMode l \<and> detailZoomed l)"

text \<open>One focused split at most, one cursor at most, and the detail panel has the focus otherwise.\<close>

definition target_ok :: "('v, 't) layout \<Rightarrow> bool" where
  "target_ok l \<longleftrightarrow> (focusTarget l = FocusTargetDetails \<longrightarrow> rightVisible l \<and> splits l \<noteq> [])"

definition cursor_ok :: "('v, 't) layout \<Rightarrow> bool" where
  "cursor_ok l \<longleftrightarrow>
     (\<forall>j<length (splits l). pane_focused (splits l ! j) \<longleftrightarrow> int j = focusIdx l \<and> focusTarget l = FocusTargetResources) \<and>
     (\<forall>j<length (splits l). pane_active (splits l ! j) \<longrightarrow> int j = focusIdx l)"

definition detail_focus_ok :: "('v, 't) layout \<Rightarrow> bool" where
  "detail_focus_ok l \<longleftrightarrow> (\<forall>b. detail_focused b l \<longleftrightarrow> b = logMode l \<and> focusTarget l = FocusTargetDetails)"

text \<open>The sizes that the geometry assigns to the splits.\<close>

definition split_sizes :: "('v, 't) layout \<Rightarrow> (int \<times> int) list" where
  "split_sizes l = (let n = length (splits l) in map (\<lambda>j. case EffectiveZoom l of
       ZoomDetail \<Rightarrow> (0, 0)
     | ZoomSplit \<Rightarrow> if int j = focusIdx l then (ly_width l, ly_height l + statusBarHeight) else (0, 0)
     | ZoomNone \<Rightarrow> if ly_orientation l = OrientationHorizontal
                   then (split_share (ly_width l) n j, fst (panelSizes l))
                   else (fst (panelSizes l), split_share (ly_height l) n j)) [0..<n])"

definition geom_ok :: "('v, 't) layout \<Rightarrow> bool" where
  "geom_ok l \<longleftrightarrow> map pane_size (splits l) = split_sizes l \<and> paneRects l = pane_rects l"

definition focus_ok :: "('v, 't) layout \<Rightarrow> bool" where
  "focus_ok l \<longleftrightarrow> target_ok l \<and> cursor_ok l \<and> detail_focus_ok l"

definition layout_wf :: "('v, 't) layout \<Rightarrow> bool" where
  "layout_wf l \<longleftrightarrow> idx_ok l \<and> zoom_ok l \<and> focus_ok l \<and> geom_ok l"

section \<open>Frames\<close>

text \<open>Two layouts with the same geometry: all but the contents of the panes and of the cache.\<close>

definition same_geom :: "('v, 't) layout \<Rightarrow> ('v, 't) layout \<Rightarrow> bool" where
  "same_geom l l' \<longleftrightarrow> length (splits l') = length (splits l) \<and> focusIdx l' = focusIdx l \<and>
     rightVisible l' = rightVisible l \<and> focusTarget l' = focusTarget l \<and> splitZoomed l' = splitZoomed l \<and>
     detailZoomed l' = detailZoomed l \<and> ly_orientation l' = ly_orientation l \<and> ly_width l' = ly_width l \<and>
     ly_height l' = ly_height l \<and> logMode l' = logMode l"

lemma same_geom_refl [simp]: "same_geom l l"
  by (simp add: same_geom_def)

lemma same_geom_trans: "same_geom l m \<Longrightarrow> same_geom m k \<Longrightarrow> same_geom l k"
  by (simp add: same_geom_def)

text \<open>A frame for the panes: their borderless flags, focus and cursor, and those of the panels.\<close>

definition same_flags :: "('v, 't) layout \<Rightarrow> ('v, 't) layout \<Rightarrow> bool" where
  "same_flags l l' \<longleftrightarrow> map pane_borderless (splits l') = map pane_borderless (splits l) \<and>
     (\<forall>b. detail_borderless b l' = detail_borderless b l)"

definition same_focus :: "('v, 't) layout \<Rightarrow> ('v, 't) layout \<Rightarrow> bool" where
  "same_focus l l' \<longleftrightarrow> map pane_focused (splits l') = map pane_focused (splits l) \<and>
     map pane_active (splits l') = map pane_active (splits l) \<and>
     (\<forall>b. detail_focused b l' = detail_focused b l)"

lemma same_flags_refl [simp]: "same_flags l l"
  by (simp add: same_flags_def)

lemma same_focus_refl [simp]: "same_focus l l"
  by (simp add: same_focus_def)

lemma same_flags_trans: "same_flags l m \<Longrightarrow> same_flags m k \<Longrightarrow> same_flags l k"
  by (simp add: same_flags_def)

lemma same_focus_trans: "same_focus l m \<Longrightarrow> same_focus m k \<Longrightarrow> same_focus l k"
  by (simp add: same_focus_def)

lemma idx_ok_frame: "same_geom l l' \<Longrightarrow> idx_ok l' = idx_ok l"
  by (auto simp: same_geom_def idx_ok_def)

lemma EffectiveZoom_frame: "same_geom l l' \<Longrightarrow> EffectiveZoom l' = EffectiveZoom l"
  by (simp add: same_geom_def EffectiveZoom_def)

lemma zoom_ok_frame: "same_geom l l' \<Longrightarrow> same_flags l l' \<Longrightarrow> zoom_ok l' = zoom_ok l"
  by (simp add: same_geom_def same_flags_def zoom_ok_def flags_def)

lemma same_geomD:
  assumes "same_geom l l'"
  shows "length (splits l') = length (splits l)" "focusIdx l' = focusIdx l" "rightVisible l' = rightVisible l"
    "focusTarget l' = focusTarget l" "splitZoomed l' = splitZoomed l" "detailZoomed l' = detailZoomed l"
    "ly_orientation l' = ly_orientation l" "ly_width l' = ly_width l" "ly_height l' = ly_height l"
    "logMode l' = logMode l" "(splits l' = []) = (splits l = [])"
proof -
  show "(splits l' = []) = (splits l = [])" using assms unfolding same_geom_def by (metis length_0_conv)
qed (use assms in \<open>simp_all add: same_geom_def\<close>)

lemma map_eq_nth: "map f xs = map f ys \<Longrightarrow> j < length xs \<Longrightarrow> f (xs ! j) = f (ys ! j)"
  by (metis length_map nth_map)

lemma focus_ok_frame:
  assumes "same_geom l l'" and "same_focus l l'"
  shows "focus_ok l' = focus_ok l"
proof -
  have "pane_focused (splits l' ! j) = pane_focused (splits l ! j)" "pane_active (splits l' ! j) = pane_active (splits l ! j)"
    if "j < length (splits l)" for j
    by (rule map_eq_nth; use assms that in \<open>simp add: same_focus_def same_geom_def\<close>)+
  then have "cursor_ok l' = cursor_ok l" using same_geomD [OF assms(1)] by (simp add: cursor_ok_def)
  moreover have "detail_focus_ok l' = detail_focus_ok l" "target_ok l' = target_ok l"
    using assms(2) by (simp_all only: detail_focus_ok_def same_focus_def target_ok_def same_geomD [OF assms(1)])
  ultimately show ?thesis by (simp add: focus_ok_def)
qed

lemma panelSizes_frame: "same_geom l l' \<Longrightarrow> panelSizes l' = panelSizes l"
  by (simp only: panelSizes_def same_geomD)

lemma rect_frames:
  assumes "same_geom l l'"
  shows "split_rect l' = split_rect l" and "detail_rect l' = detail_rect l" and "full_rect l' = full_rect l"
    and "detailPaneKind l' = detailPaneKind l"
  by (intro ext | simp only: split_rect_def detail_rect_def full_rect_def detailPaneKind_def
      same_geomD [OF assms] panelSizes_frame [OF assms])+

lemma rects_frame: "same_geom l l' \<Longrightarrow> pane_rects l' = pane_rects l"
  by (simp only: pane_rects_def same_geomD rect_frames EffectiveZoom_frame)

lemma split_sizes_frame: "same_geom l l' \<Longrightarrow> split_sizes l' = split_sizes l"
  by (simp only: split_sizes_def same_geomD panelSizes_frame EffectiveZoom_frame)

section \<open>Sizes\<close>

lemma lv_SetSize_fields:
  "lv_SetSize A w h lv = Inr lv' \<Longrightarrow> lv_focused lv' = lv_focused lv \<and> lv_borderless lv' = lv_borderless lv"
  unfolding lv_SetSize_def Let_def
  by (drule updateViewport_frame, erule ssubst) (simp add: redraw_def recomputeTotalWrappedRows_def Let_def)

lemma dv_SetSize_fields [simp]:
  "dv_focused (dv_SetSize T w h d) = dv_focused d" "dv_borderless (dv_SetSize T w h d) = dv_borderless d"
  by (simp_all add: dv_SetSize_def on_viewport_def Let_def)

lemma detail_SetSize_frame:
  assumes "detail_SetSize Y w h l = Inr l'"
  shows "same_geom l l'" and "same_flags l l'" and "same_focus l l'" and "splits l' = splits l"
  using assms lv_SetSize_fields [of "tui_text (ye_view Y)" w h "logView l"]
  by (auto simp: detail_SetSize_def same_geom_def same_flags_def same_focus_def detail_borderless_def
      detail_focused_def split: if_splits)

lemma resize_splits_frame:
  "same_geom l (resize_splits Y w h l)" "same_flags l (resize_splits Y w h l)" "same_focus l (resize_splits Y w h l)"
  "map pane_size (splits (resize_splits Y w h l)) = map (\<lambda>j. (w j, h j)) [0..<length (splits l)]"
  using split_pane.resize [where Y = Y and w = w and h = h]
  by (simp_all add: resize_splits_def same_geom_def same_flags_def same_focus_def detail_borderless_def detail_focused_def)

lemma pane_ensure_fields [simp]:
  "pane_size (pane_ensure_cursor Y p) = pane_size p" "pane_borderless (pane_ensure_cursor Y p) = pane_borderless p"
  "pane_focused (pane_ensure_cursor Y p) = pane_focused p" "pane_active (pane_ensure_cursor Y p) = pane_active p"
  by (cases p; simp add: rl_EnsureCursorVisible_def rl_size_def cursor_active_def t_EnsureCursorVisible_def Let_def)+

text \<open>An update of one split through functions that keep an observation keeps it on the list.\<close>

lemma map_update_same: "f x = f (xs ! i) \<Longrightarrow> map f (xs[i := x]) = map f xs"
  by (metis list_update_id map_update)

lemma upd_split_Inr: "upd_split i f l = Inr l' \<longleftrightarrow> 0 \<le> i \<and> i < int (length (splits l)) \<and>
    l' = l\<lparr> splits := (splits l)[nat i := f (splits l ! nat i)] \<rparr>"
  by (auto simp: upd_split_def go_index_def)

lemma upd_ensure_frame:
  assumes "upd_split i (pane_ensure_cursor Y) l = Inr l'"
  shows "same_geom l l'" and "same_flags l l'" and "same_focus l l'"
    and "map pane_size (splits l') = map pane_size (splits l)"
  using assms by (auto simp: upd_split_Inr same_geom_def same_flags_def same_focus_def detail_borderless_def
      detail_focused_def map_update_same)

lemma recalc_core_wf:
  assumes "idx_ok l" and "zoom_ok l" and "focus_ok l" and "same_geom l m" and "same_flags l m" and "same_focus l m"
    and "map pane_size (splits m) = split_sizes l"
  shows "layout_wf (rebuildPaneRects m)"
proof -
  have r: "same_geom m (rebuildPaneRects m)" "same_flags m (rebuildPaneRects m)" "same_focus m (rebuildPaneRects m)"
    "splits (rebuildPaneRects m) = splits m" "paneRects (rebuildPaneRects m) = pane_rects m"
    by (simp_all add: rebuildPaneRects_def same_geom_def same_flags_def same_focus_def detail_borderless_def detail_focused_def)
  note g = same_geom_trans [OF assms(4) r(1)]
  have "geom_ok (rebuildPaneRects m)"
    using assms(7) split_sizes_frame [OF g] rects_frame [OF r(1)] r(4,5) by (simp add: geom_ok_def)
  then show ?thesis
    using assms(1-3) idx_ok_frame [OF g] zoom_ok_frame [OF g same_flags_trans [OF assms(5) r(2)]]
      focus_ok_frame [OF g same_focus_trans [OF assms(6) r(3)]]
    by (simp add: layout_wf_def)
qed

text \<open>The frames of a recomputation, over its steps.\<close>

lemma opt_detail_frame:
  assumes "(if b then detail_SetSize Y dw dh l else Inr l) = Inr k"
  shows "same_geom l k" and "same_flags l k" and "same_focus l k" and "splits k = splits l"
proof -
  have "same_geom l k \<and> same_flags l k \<and> same_focus l k \<and> splits k = splits l"
  proof (cases b)
    case True
    then have "detail_SetSize Y dw dh l = Inr k" using assms by simp
    from detail_SetSize_frame [OF this] show ?thesis by blast
  next
    case False
    then have "k = l" using assms by simp
    then show ?thesis by simp
  qed
  then show "same_geom l k" "same_flags l k" "same_focus l k" "splits k = splits l" by blast+
qed

lemma resize_detail_frame:
  assumes "go_bind (if b then detail_SetSize Y dw dh (resize_splits Y w h l) else Inr (resize_splits Y w h l))
      (\<lambda>l2. upd_split (focusIdx l2) (pane_ensure_cursor Y) l2) = Inr m"
  shows "same_geom l m \<and> same_flags l m \<and> same_focus l m \<and>
    map pane_size (splits m) = map (\<lambda>j. (w j, h j)) [0..<length (splits l)]"
proof -
  obtain k where k: "(if b then detail_SetSize Y dw dh (resize_splits Y w h l) else Inr (resize_splits Y w h l)) = Inr k"
    and u: "upd_split (focusIdx k) (pane_ensure_cursor Y) k = Inr m" using assms by auto
  have d: "same_geom (resize_splits Y w h l) k" "same_flags (resize_splits Y w h l) k"
    "same_focus (resize_splits Y w h l) k" "splits k = splits (resize_splits Y w h l)"
    by (rule opt_detail_frame [OF k])+
  note r = resize_splits_frame [where l = l and Y = Y and w = w and h = h] and e = upd_ensure_frame [OF u]
  have "map pane_size (splits m) = map (\<lambda>j. (w j, h j)) [0..<length (splits l)]"
    unfolding e(4) d(4) r(4) ..
  then show ?thesis
    using same_geom_trans [OF r(1) same_geom_trans [OF d(1) e(1)]] same_flags_trans [OF r(2) same_flags_trans [OF d(2) e(2)]]
      same_focus_trans [OF r(3) same_focus_trans [OF d(3) e(3)]] by blast
qed

lemma detail_resize_frame:
  assumes "go_bind (if b then detail_SetSize Y dw dh l else Inr l) (\<lambda>l1. Inr (resize_splits Y w h l1)) = Inr m"
  shows "same_geom l m \<and> same_flags l m \<and> same_focus l m \<and>
    map pane_size (splits m) = map (\<lambda>j. (w j, h j)) [0..<length (splits l)]"
proof -
  obtain k where k: "(if b then detail_SetSize Y dw dh l else Inr l) = Inr k" and m: "m = resize_splits Y w h k"
    using assms by auto
  have d: "same_geom l k" "same_flags l k" "same_focus l k" "splits k = splits l"
    by (rule opt_detail_frame [OF k])+
  note r = resize_splits_frame [where l = k and Y = Y and w = w and h = h]
  have "map pane_size (splits m) = map (\<lambda>j. (w j, h j)) [0..<length (splits l)]"
    unfolding m r(4) d(4) ..
  then show ?thesis
    using same_geom_trans [OF d(1) r(1)] same_flags_trans [OF d(2) r(2)] same_focus_trans [OF d(3) r(3)]
    unfolding m by blast
qed

lemma recalc_steps:
  assumes "recalcSizes Y l = Inr l'"
  shows "\<exists>m. l' = rebuildPaneRects m \<and> same_geom l m \<and> same_flags l m \<and> same_focus l m \<and>
    map pane_size (splits m) = split_sizes l"
proof (cases "splits l = []")
  case True
  then show ?thesis using assms by (intro exI [of _ l]) (simp add: recalcSizes_def split_sizes_def Let_def)
next
  case ne: False
  define n where "n = length (splits l)"
  show ?thesis
  proof (cases "EffectiveZoom l")
    case ZoomDetail
    then obtain m where m: "l' = rebuildPaneRects m" "go_bind (if rightVisible l then detail_SetSize Y (ly_width l)
        (ly_height l + statusBarHeight) l else Inr l) (\<lambda>l1. Inr (resize_splits Y (\<lambda>j. 0) (\<lambda>j. 0) l1)) = Inr m"
      using ne assms by (auto simp: recalcSizes_def Let_def)
    then show ?thesis using detail_resize_frame [OF m(2)] ZoomDetail by (auto simp: split_sizes_def Let_def)
  next
    case ZoomSplit
    define w where "w = (\<lambda>j. if int j = focusIdx l then ly_width l else 0)"
    define h where "h = (\<lambda>j. if int j = focusIdx l then ly_height l + statusBarHeight else 0)"
    have "l' = rebuildPaneRects (resize_splits Y w h l)"
      using ne assms ZoomSplit by (simp add: recalcSizes_def Let_def w_def h_def)
    moreover have "map (\<lambda>j. (w j, h j)) [0..<n] = split_sizes l"
      using ZoomSplit by (auto simp: split_sizes_def Let_def w_def h_def n_def)
    ultimately show ?thesis using resize_splits_frame [where l = l and Y = Y and w = w and h = h] n_def by metis
  next
    case ZoomNone
    define w where "w = (if ly_orientation l = OrientationHorizontal then split_share (ly_width l) n else (\<lambda>j. fst (panelSizes l)))"
    define h where "h = (if ly_orientation l = OrientationHorizontal then (\<lambda>j. fst (panelSizes l)) else split_share (ly_height l) n)"
    define dw where "dw = (if ly_orientation l = OrientationHorizontal then ly_width l else snd (panelSizes l))"
    define dh where "dh = (if ly_orientation l = OrientationHorizontal then snd (panelSizes l) else ly_height l)"
    have "recalcSizes Y l = go_bind (go_bind (if rightVisible l then detail_SetSize Y dw dh (resize_splits Y w h l)
        else Inr (resize_splits Y w h l)) (\<lambda>l2. upd_split (focusIdx l2) (pane_ensure_cursor Y) l2))
        (\<lambda>l3. Inr (rebuildPaneRects l3))"
      using ne ZoomNone by (simp add: recalcSizes_def Let_def case_prod_unfold n_def w_def h_def dw_def dh_def)
    then obtain m where m: "l' = rebuildPaneRects m" "go_bind (if rightVisible l then detail_SetSize Y dw dh (resize_splits Y w h l)
        else Inr (resize_splits Y w h l)) (\<lambda>l2. upd_split (focusIdx l2) (pane_ensure_cursor Y) l2) = Inr m"
      using assms by (cases "go_bind (if rightVisible l then detail_SetSize Y dw dh (resize_splits Y w h l)
        else Inr (resize_splits Y w h l)) (\<lambda>l2. upd_split (focusIdx l2) (pane_ensure_cursor Y) l2)")
        (simp_all only: go_bind_simps Inr_inject, fast+)
    have "map (\<lambda>j. (w j, h j)) [0..<n] = split_sizes l"
      using ZoomNone by (simp add: split_sizes_def Let_def w_def h_def n_def)
    then show ?thesis using resize_detail_frame [OF m(2)] m(1) n_def by metis
  qed
qed

lemma recalcSizes_wf:
  assumes "idx_ok l" and "zoom_ok l" and "focus_ok l" and "recalcSizes Y l = Inr l'"
  shows "layout_wf l'"
  using recalc_steps [OF assms(4)] recalc_core_wf [OF assms(1-3)] by blast

lemma recalc_same_geom: "recalcSizes Y l = Inr l' \<Longrightarrow> same_geom l l'"
  using recalc_steps [of Y l l'] by (auto simp: rebuildPaneRects_def same_geom_def)

section \<open>Focus\<close>

lemma pane_BlurBorder_fields:
  "pane_size (pane_BlurBorder Y p) = pane_size p" "pane_borderless (pane_BlurBorder Y p) = pane_borderless p"
  "\<not> pane_focused (pane_BlurBorder Y p)"
  by (cases p; simp add: rl_BlurBorder_def rl_size_def tp_size_def tp_Blur_def)+

lemma on_detail_frame:
  "same_geom l (on_detail f g l)" "splits (on_detail f g l) = splits l" "paneRects (on_detail f g l) = paneRects l"
  by (simp_all add: on_detail_def same_geom_def)

lemma detail_Focus_fields [simp]:
  "detail_borderless b (detail_Focus l) = detail_borderless b l" "detail_borderless b (detail_Blur l) = detail_borderless b l"
  "detail_focused b (detail_Focus l) \<longleftrightarrow> b = logMode l \<or> detail_focused b l"
  "detail_focused b (detail_Blur l) \<longleftrightarrow> b \<noteq> logMode l \<and> detail_focused b l"
  by (auto simp: detail_Focus_def detail_Blur_def on_detail_def detail_borderless_def detail_focused_def
      lv_Focus_def lv_Blur_def dv_Focus_def dv_Blur_def)

text \<open>The splits after a reconciliation: all but the focused one are blurred.\<close>

definition handed :: "('v, 't) layout_env \<Rightarrow> ('v, 't) pane \<Rightarrow> ('v, 't) layout \<Rightarrow> ('v, 't) pane list" where
  "handed Y p l = (map_idx (\<lambda>j q. if int j \<noteq> focusIdx l then pane_Blur Y q else q) (splits l))[nat (focusIdx l) := p]"

lemma reconcile_eq:
  assumes "idx_ok l" and "splits l \<noteq> []"
  shows "reconcileFocus Y l =
    (let p = splits l ! nat (focusIdx l) in
     if focusTarget l = FocusTargetDetails \<and> rightVisible l
     then Inr (detail_Focus (l\<lparr> splits := handed Y (pane_BlurBorder Y p) l \<rparr>))
     else Inr (detail_Blur (l\<lparr> splits := handed Y (pane_Focus Y p) l \<rparr>)))"
proof -
  have "nat (focusIdx l) < length (splits l)" "0 \<le> focusIdx l" using assms by (auto simp: idx_ok_def)
  then show ?thesis using assms(2) by (simp add: reconcileFocus_def upd_split_def go_index_ok handed_def Let_def)
qed

lemma handed_fields:
  assumes "idx_ok l" and "splits l \<noteq> []" and "pane_size p = pane_size (splits l ! nat (focusIdx l))"
    and "pane_borderless p = pane_borderless (splits l ! nat (focusIdx l))"
  shows "length (handed Y p l) = length (splits l)" and "map pane_size (handed Y p l) = map pane_size (splits l)"
    and "map pane_borderless (handed Y p l) = map pane_borderless (splits l)"
    and "\<And>j. j < length (splits l) \<Longrightarrow> pane_focused (handed Y p l ! j) \<longleftrightarrow> int j = focusIdx l \<and> pane_focused p"
    and "\<And>j. j < length (splits l) \<Longrightarrow> pane_active (handed Y p l ! j) \<Longrightarrow> int j = focusIdx l"
proof -
  have i: "0 \<le> focusIdx l" "nat (focusIdx l) < length (splits l)" using assms(1,2) by (auto simp: idx_ok_def)
  have nth: "handed Y p l ! j = (if int j = focusIdx l then p else pane_Blur Y (splits l ! j))" if "j < length (splits l)" for j
    using that i by (auto simp: handed_def nth_list_update)
  have sel: "splits l ! j = splits l ! nat (focusIdx l)" if "int j = focusIdx l" for j
    unfolding that [symmetric] nat_int ..
  show len: "length (handed Y p l) = length (splits l)" by (simp add: handed_def)
  have "pane_size (handed Y p l ! j) = pane_size (splits l ! j) \<and>
      pane_borderless (handed Y p l ! j) = pane_borderless (splits l ! j)" if "j < length (splits l)" for j
  proof (cases "int j = focusIdx l")
    case True
    then show ?thesis by (simp only: nth [OF that] sel [OF True] assms(3,4) simp_thms if_True)
  qed (simp add: nth [OF that] split_pane.blur)
  then show "map pane_size (handed Y p l) = map pane_size (splits l)"
    "map pane_borderless (handed Y p l) = map pane_borderless (splits l)"
    by (auto simp: list_eq_iff_nth_eq len)
  show "pane_focused (handed Y p l ! j) \<longleftrightarrow> int j = focusIdx l \<and> pane_focused p" if "j < length (splits l)" for j
    using that by (simp add: nth split_pane.blur)
  show "int j = focusIdx l" if "j < length (splits l)" "pane_active (handed Y p l ! j)" for j
    using that by (simp add: nth split_pane.blur split: if_splits)
qed

lemma handed_cursor_ok:
  assumes "idx_ok l" and "splits l \<noteq> []" and "pane_size p = pane_size (splits l ! nat (focusIdx l))"
    and "pane_borderless p = pane_borderless (splits l ! nat (focusIdx l))"
    and "same_geom l m" and "splits m = handed Y p l" and "pane_focused p \<longleftrightarrow> focusTarget l = FocusTargetResources"
  shows "cursor_ok m"
proof -
  note h = handed_fields [where Y = Y, OF assms(1-4)]
  show ?thesis unfolding cursor_ok_def assms(6) h(1) same_geomD(2,4) [OF assms(5)]
    using h(4,5) assms(7) by blast
qed

lemma detail_splits [simp]:
  "detail_focused b (l\<lparr> splits := ps \<rparr>) = detail_focused b l"
  "detail_borderless b (l\<lparr> splits := ps \<rparr>) = detail_borderless b l"
  by (simp_all add: detail_focused_def detail_borderless_def)

text \<open>What a reconciliation needs: the panel that is not active has no focus.\<close>

definition reconcilable :: "('v, 't) layout \<Rightarrow> bool" where
  "reconcilable l \<longleftrightarrow> idx_ok l \<and> target_ok l \<and> \<not> detail_focused (\<not> logMode l) l \<and>
     (splits l = [] \<longrightarrow> \<not> detail_focused (logMode l) l)"

lemma reconcile_ok:
  assumes "reconcilable l"
  shows "\<exists>l'. reconcileFocus Y l = Inr l' \<and> same_geom l l' \<and> same_flags l l' \<and> focus_ok l' \<and>
    map pane_size (splits l') = map pane_size (splits l) \<and> paneRects l' = paneRects l"
proof (cases "splits l = []")
  case True
  have "detail_focused b l \<longleftrightarrow> b = logMode l \<and> focusTarget l = FocusTargetDetails" for b
    using assms True by (cases b; cases "logMode l") (auto simp: reconcilable_def target_ok_def)
  then have "focus_ok l"
    using assms True by (simp add: reconcilable_def focus_ok_def cursor_ok_def detail_focus_ok_def)
  then show ?thesis using True by (simp add: reconcileFocus_def)
next
  case ne: False
  have idx: "idx_ok l" using assms by (simp add: reconcilable_def)
  have nf: "b = logMode l" if "detail_focused b l" for b
    using that assms by (cases "b = logMode l"; cases b; simp add: reconcilable_def)
  show ?thesis
  proof (cases "focusTarget l = FocusTargetDetails \<and> rightVisible l")
    case True
    let ?p = "pane_BlurBorder Y (splits l ! nat (focusIdx l))"
    let ?m = "l\<lparr> splits := handed Y ?p l \<rparr>"
    note h = handed_fields [where Y = Y and p = ?p, OF idx ne pane_BlurBorder_fields(1,2)]
    have eq: "reconcileFocus Y l = Inr (detail_Focus ?m)" using True idx ne by (simp add: reconcile_eq Let_def)
    have s: "same_geom l (detail_Focus ?m)" "splits (detail_Focus ?m) = handed Y ?p l" "paneRects (detail_Focus ?m) = paneRects l"
      using on_detail_frame [where l = ?m] h(1) by (simp_all add: detail_Focus_def same_geom_def)
    have f: "same_flags l (detail_Focus ?m)"
      using h(3) by (simp add: same_flags_def s(2))
    have "focus_ok (detail_Focus ?m)"
      unfolding focus_ok_def
    proof (intro conjI)
      show "cursor_ok (detail_Focus ?m)"
        using handed_cursor_ok [OF idx ne pane_BlurBorder_fields(1,2) s(1,2)] pane_BlurBorder_fields(3) [of Y] True by simp
      show "detail_focus_ok (detail_Focus ?m)"
        unfolding detail_focus_ok_def detail_Focus_fields detail_splits same_geomD(4,10) [OF s(1)] using nf True by simp blast
      show "target_ok (detail_Focus ?m)" unfolding target_ok_def same_geomD [OF s(1)] using True ne by simp
    qed
    then show ?thesis using eq s f h(2) by auto
  next
    case False
    let ?p = "pane_Focus Y (splits l ! nat (focusIdx l))"
    let ?m = "l\<lparr> splits := handed Y ?p l \<rparr>"
    note h = handed_fields [where Y = Y and p = ?p, OF idx ne split_pane.focus(1,2)]
    have t: "focusTarget l = FocusTargetResources"
      using False assms by (cases "focusTarget l") (auto simp: reconcilable_def target_ok_def)
    have eq: "reconcileFocus Y l = Inr (detail_Blur ?m)" using False idx ne by (simp add: reconcile_eq Let_def t)
    have s: "same_geom l (detail_Blur ?m)" "splits (detail_Blur ?m) = handed Y ?p l" "paneRects (detail_Blur ?m) = paneRects l"
      using on_detail_frame [where l = ?m] h(1) by (simp_all add: detail_Blur_def same_geom_def)
    have f: "same_flags l (detail_Blur ?m)"
      using h(3) by (simp add: same_flags_def s(2))
    have "focus_ok (detail_Blur ?m)"
      unfolding focus_ok_def
    proof (intro conjI)
      show "cursor_ok (detail_Blur ?m)"
        using handed_cursor_ok [OF idx ne split_pane.focus(1,2) s(1,2)] split_pane.focus(3) [of Y] t by simp
      show "detail_focus_ok (detail_Blur ?m)"
        unfolding detail_focus_ok_def detail_Focus_fields detail_splits same_geomD(4,10) [OF s(1)] using nf t by simp blast
      show "target_ok (detail_Blur ?m)" unfolding target_ok_def same_geomD [OF s(1)] using t by simp
    qed
    then show ?thesis using eq s f h(2) by auto
  qed
qed

end
