(* ===== verification/Layout_Steps.thy ===== *)
theory Layout_Steps
  imports Layout_Inv
begin

text \<open>
  Every operation of the layout keeps its invariant, where it returns.
\<close>

section \<open>Lists of borderless flags\<close>

definition flags_at :: "bool \<Rightarrow> int \<Rightarrow> nat \<Rightarrow> bool list" where
  "flags_at z i n = map (\<lambda>j. z \<and> int j = i) [0..<n]"

lemma length_flags_at [simp]: "length (flags_at z i n) = n"
  by (simp add: flags_at_def)

lemma nth_flags_at [simp]: "j < n \<Longrightarrow> flags_at z i n ! j \<longleftrightarrow> z \<and> int j = i"
  by (simp add: flags_at_def)

lemma flags_eq: "flags l = flags_at (splitZoomed l) (focusIdx l) (length (splits l))"
  by (simp add: flags_def flags_at_def)

lemma flags_off: "flags_at False i n = replicate n False"
  by (rule nth_equalityI) simp_all

lemma flags_set: "0 \<le> i \<Longrightarrow> i < int n \<Longrightarrow> (replicate n False)[nat i := True] = flags_at True i n"
  by (rule nth_equalityI) (auto simp: nth_list_update)

lemma flags_clear: "0 \<le> i \<Longrightarrow> i < int n \<Longrightarrow> (flags_at z i n)[nat i := False] = replicate n False"
  by (rule nth_equalityI) (auto simp: nth_list_update)

lemma flags_remove: "0 \<le> i \<Longrightarrow> i < int n \<Longrightarrow> remove_at (nat i) (flags_at z i n) = replicate (n - 1) False"
  by (rule nth_equalityI) (auto simp: nth_remove_at nat_less_iff)

lemma flags_swap:
  "0 \<le> i \<Longrightarrow> i < int n \<Longrightarrow> 0 \<le> k \<Longrightarrow> k < int n \<Longrightarrow>
     (flags_at z i n)[nat i := flags_at z i n ! nat k, nat k := flags_at z i n ! nat i] = flags_at z k n"
  by (rule nth_equalityI) (auto simp: nth_list_update)

lemma flags_insert: "k \<le> n \<Longrightarrow> insert_at k False (replicate n False) = replicate (Suc n) False"
  by (rule nth_equalityI) (auto simp: nth_insert_at simp del: replicate_Suc)

lemma map_insert_at: "map f (insert_at k x xs) = insert_at k (f x) (map f xs)"
  by (simp add: insert_at_def take_map drop_map)

lemma map_remove_at: "map f (remove_at k xs) = remove_at k (map f xs)"
  by (simp add: remove_at_def take_map drop_map)

section \<open>Steps\<close>

lemma go_bindE:
  assumes "go_bind r f = Inr b"
  obtains a where "r = Inr a" and "f a = Inr b"
  using assms by auto

definition detail_zoom_ok :: "('v, 't) layout \<Rightarrow> bool" where
  "detail_zoom_ok l \<longleftrightarrow> (detailZoomed l \<longrightarrow> rightVisible l) \<and> (\<forall>b. detail_borderless b l \<longleftrightarrow> b = logMode l \<and> detailZoomed l)"

lemma zoom_ok_split: "zoom_ok l \<longleftrightarrow>
    map pane_borderless (splits l) = flags_at (splitZoomed l) (focusIdx l) (length (splits l)) \<and> detail_zoom_ok l"
  by (auto simp: zoom_ok_def detail_zoom_ok_def flags_eq)

lemma detail_zoom_frame:
  "same_geom l l' \<Longrightarrow> (\<And>b. detail_borderless b l' = detail_borderless b l) \<Longrightarrow> detail_zoom_ok l' = detail_zoom_ok l"
  by (simp add: detail_zoom_ok_def same_geomD)

lemma set_flag:
  assumes "upd_split i (pane_SetBorderless Y b) l = Inr l'"
  shows "same_geom l l'" and "same_focus l l'" and "\<And>c. detail_borderless c l' = detail_borderless c l"
    and "map pane_borderless (splits l') = (map pane_borderless (splits l))[nat i := b]"
    and "0 \<le> i" and "i < int (length (splits l))"
proof -
  have l': "0 \<le> i" "i < int (length (splits l))"
    "l' = l\<lparr> splits := (splits l)[nat i := pane_SetBorderless Y b (splits l ! nat i)] \<rparr>"
    using assms by (auto simp: upd_split_Inr)
  then show "0 \<le> i" "i < int (length (splits l))" by simp_all
  show "same_geom l l'" "same_focus l l'" "\<And>c. detail_borderless c l' = detail_borderless c l"
    by (simp_all add: l'(3) same_geom_def same_focus_def split_pane.set_borderless map_update_same)
  show "map pane_borderless (splits l') = (map pane_borderless (splits l))[nat i := b]"
    by (simp add: l'(3) map_update split_pane.set_borderless)
qed

lemma set_flag_ok:
  assumes "upd_split (focusIdx l) (pane_SetBorderless Y b) l = Inr l'" and "idx_ok l" and "focus_ok l" and "detail_zoom_ok l"
  shows "idx_ok l' \<and> focus_ok l' \<and> detail_zoom_ok l' \<and> same_geom l l' \<and>
    map pane_borderless (splits l') = (map pane_borderless (splits l))[nat (focusIdx l) := b]"
  using set_flag [OF assms(1)] assms(2-4) idx_ok_frame focus_ok_frame detail_zoom_frame by metis

lemma reconcile_frame:
  assumes "reconcilable l" and "reconcileFocus Y l = Inr l'"
  shows "same_geom l l'" and "same_flags l l'" and "focus_ok l'" and "map pane_size (splits l') = map pane_size (splits l)"
    and "paneRects l' = paneRects l" and "idx_ok l'" and "detail_zoom_ok l' = detail_zoom_ok l"
    and "map pane_borderless (splits l') = map pane_borderless (splits l)"
proof -
  have f: "same_geom l l' \<and> same_flags l l' \<and> focus_ok l' \<and> map pane_size (splits l') = map pane_size (splits l) \<and>
      paneRects l' = paneRects l"
    using reconcile_ok [OF assms(1), of Y] assms(2) by auto
  then show "same_geom l l'" "same_flags l l'" "focus_ok l'" "map pane_size (splits l') = map pane_size (splits l)"
    "paneRects l' = paneRects l" by blast+
  show "idx_ok l'" using f idx_ok_frame assms(1) by (auto simp: reconcilable_def)
  show "detail_zoom_ok l' = detail_zoom_ok l" using f by (intro detail_zoom_frame) (auto simp: same_flags_def)
  show "map pane_borderless (splits l') = map pane_borderless (splits l)" using f by (auto simp: same_flags_def)
qed

text \<open>With a borderless flag to set, a layout whose other parts are in order ends in the invariant.\<close>

lemma set_flag_recalc:
  assumes "go_bind (if splitZoomed l then upd_split (focusIdx l) (pane_SetBorderless Y True) l else Inr l) (recalcSizes Y) = Inr l'"
    and "idx_ok l" and "focus_ok l" and "detail_zoom_ok l"
    and "map pane_borderless (splits l) = replicate (length (splits l)) False"
  shows "layout_wf l'"
proof (cases "splitZoomed l")
  case True
  then obtain m where m: "upd_split (focusIdx l) (pane_SetBorderless Y True) l = Inr m" "recalcSizes Y m = Inr l'"
    using assms(1) by auto
  note f = set_flag_ok [OF m(1) assms(2-4)]
  have "zoom_ok m"
    using f True assms(5) flags_set set_flag(5,6) [OF m(1)] unfolding zoom_ok_split
    by (simp add: same_geomD [of l m])
  then show ?thesis using f recalcSizes_wf [OF _ _ _ m(2)] by blast
next
  case False
  then have "zoom_ok l" using assms(4,5) by (simp add: zoom_ok_split flags_off)
  then show ?thesis using False assms recalcSizes_wf by auto
qed

lemma clear_flag:
  assumes "(if splitZoomed l \<and> splits l \<noteq> [] then upd_split (focusIdx l) (pane_SetBorderless Y False) l else Inr l) = Inr m"
    and "idx_ok l" and "focus_ok l" and "zoom_ok l"
  shows "idx_ok m \<and> focus_ok m \<and> detail_zoom_ok m \<and> same_geom l m \<and>
    map pane_borderless (splits m) = replicate (length (splits m)) False"
proof (cases "splitZoomed l \<and> splits l \<noteq> []")
  case True
  then have u: "upd_split (focusIdx l) (pane_SetBorderless Y False) l = Inr m" using assms(1) by simp
  have z: "detail_zoom_ok l" "map pane_borderless (splits l) = flags_at (splitZoomed l) (focusIdx l) (length (splits l))"
    using assms(4) by (simp_all add: zoom_ok_split)
  note f = set_flag_ok [OF u assms(2,3) z(1)]
  then have "length (splits m) = length (splits l)" by (simp add: same_geomD)
  then show ?thesis using f set_flag(5,6) [OF u] flags_clear by (simp add: z(2))
next
  case False
  then have m: "m = l" and z: "\<not> splitZoomed l" using assms(1,2) by (auto simp: idx_ok_def)
  show ?thesis using assms(2-4) z unfolding m by (simp add: zoom_ok_split flags_off)
qed

lemma focus_ok_reconcilable:
  assumes "focus_ok l" and "idx_ok l'" and "\<And>b. detail_focused b l' = detail_focused b l" and "logMode l' = logMode l"
    and "focusTarget l' = FocusTargetResources" and "splits l' = [] \<Longrightarrow> splits l = []"
  shows "reconcilable l'"
  using assms by (auto simp: reconcilable_def focus_ok_def target_ok_def detail_focus_ok_def)

section \<open>Focus\<close>

lemma layout_wfD:
  assumes "layout_wf l"
  shows "idx_ok l" and "zoom_ok l" and "focus_ok l" and "detail_zoom_ok l" and "geom_ok l"
    and "map pane_borderless (splits l) = flags_at (splitZoomed l) (focusIdx l) (length (splits l))"
  using assms by (simp_all add: layout_wf_def zoom_ok_split)

lemma refocus_ok:
  assumes "layout_wf l" and "0 \<le> i" and "i < int (length (splits l))"
    and "l1 = l\<lparr> focusTarget := FocusTargetResources, focusIdx := i \<rparr>"
  shows "reconcilable l1"
proof -
  have "idx_ok l1" using assms(2,3) by (auto simp: assms(4) idx_ok_def)
  then show ?thesis
    using focus_ok_reconcilable [OF layout_wfD(3) [OF assms(1)], of l1] by (simp add: assms(4) detail_focused_def)
qed

lemma select_focus:
  "splits (l\<lparr> focusTarget := t \<rparr>) = splits l" "splits (l\<lparr> focusIdx := i \<rparr>) = splits l"
  "ly_width (l\<lparr> focusTarget := t \<rparr>) = ly_width l" "ly_width (l\<lparr> focusIdx := i \<rparr>) = ly_width l"
  "ly_height (l\<lparr> focusTarget := t \<rparr>) = ly_height l" "ly_height (l\<lparr> focusIdx := i \<rparr>) = ly_height l"
  "ly_orientation (l\<lparr> focusTarget := t \<rparr>) = ly_orientation l" "ly_orientation (l\<lparr> focusIdx := i \<rparr>) = ly_orientation l"
  "rightVisible (l\<lparr> focusTarget := t \<rparr>) = rightVisible l" "rightVisible (l\<lparr> focusIdx := i \<rparr>) = rightVisible l"
  "focusIdx (l\<lparr> focusTarget := t \<rparr>) = focusIdx l" "focusIdx (l\<lparr> focusIdx := i \<rparr>) = i"
  "paneRects (l\<lparr> focusTarget := t \<rparr>) = paneRects l" "paneRects (l\<lparr> focusIdx := i \<rparr>) = paneRects l"
  by simp_all

lemma geometry_focus [simp]:
  "EffectiveZoom (l\<lparr> focusTarget := t \<rparr>) = EffectiveZoom l" "EffectiveZoom (l\<lparr> focusIdx := i \<rparr>) = EffectiveZoom l"
  "panelSizes (l\<lparr> focusTarget := t \<rparr>) = panelSizes l" "panelSizes (l\<lparr> focusIdx := i \<rparr>) = panelSizes l"
  "detailPaneKind (l\<lparr> focusTarget := t \<rparr>) = detailPaneKind l" "detailPaneKind (l\<lparr> focusIdx := i \<rparr>) = detailPaneKind l"
  unfolding EffectiveZoom_def panelSizes_def detailPaneKind_def by simp_all

lemma rects_focus [simp]:
  "split_rect (l\<lparr> focusTarget := t \<rparr>) = split_rect l" "split_rect (l\<lparr> focusIdx := i \<rparr>) = split_rect l"
  "detail_rect (l\<lparr> focusTarget := t \<rparr>) = detail_rect l" "detail_rect (l\<lparr> focusIdx := i \<rparr>) = detail_rect l"
  "full_rect (l\<lparr> focusTarget := t \<rparr>) = full_rect l" "full_rect (l\<lparr> focusIdx := i \<rparr>) = full_rect l"
  unfolding fun_eq_iff split_rect_def detail_rect_def full_rect_def geometry_focus select_focus by simp_all

lemma geom_target [simp]: "geom_ok (l\<lparr> focusTarget := t \<rparr>) = geom_ok l"
  unfolding geom_ok_def pane_rects_def split_sizes_def geometry_focus rects_focus select_focus ..

text \<open>Outside the zoom of a split the geometry does not depend on which one is focused.\<close>

lemma geom_focus:
  assumes "geom_ok l" and "EffectiveZoom l \<noteq> ZoomSplit \<or> i = focusIdx l"
  shows "geom_ok (l\<lparr> focusIdx := i \<rparr>)"
proof (cases "i = focusIdx l")
  case False
  then have z: "EffectiveZoom l = ZoomNone \<or> EffectiveZoom l = ZoomDetail" using assms(2) by (cases "EffectiveZoom l") simp_all
  then have "pane_rects (l\<lparr> focusIdx := i \<rparr>) = pane_rects l"
    unfolding pane_rects_def geometry_focus rects_focus select_focus by (elim disjE) (simp_all only: zoom_mode.case)
  moreover have "split_sizes (l\<lparr> focusIdx := i \<rparr>) = split_sizes l"
    using z unfolding split_sizes_def geometry_focus select_focus by (elim disjE) (simp_all only: zoom_mode.case)
  ultimately show ?thesis using assms(1) by (simp add: geom_ok_def)
qed (use assms in simp)

lemma detail_fields [simp]:
  "detail_focused b (l\<lparr> focusTarget := t \<rparr>) = detail_focused b l" "detail_focused b (l\<lparr> focusIdx := i \<rparr>) = detail_focused b l"
  "detail_borderless b (l\<lparr> focusTarget := t \<rparr>) = detail_borderless b l"
  "detail_borderless b (l\<lparr> focusIdx := i \<rparr>) = detail_borderless b l"
  "detail_focused b (l\<lparr> rightVisible := v \<rparr>) = detail_focused b l"
  "detail_borderless b (l\<lparr> rightVisible := v \<rparr>) = detail_borderless b l"
  "detail_focused b (l\<lparr> detailZoomed := v \<rparr>) = detail_focused b l"
  "detail_borderless b (l\<lparr> detailZoomed := v \<rparr>) = detail_borderless b l"
  "detail_focused b (l\<lparr> splitZoomed := v \<rparr>) = detail_focused b l"
  "detail_borderless b (l\<lparr> splitZoomed := v \<rparr>) = detail_borderless b l"
  "detail_focused b (l\<lparr> ly_orientation := r \<rparr>) = detail_focused b l"
  "detail_borderless b (l\<lparr> ly_orientation := r \<rparr>) = detail_borderless b l"
  "detail_focused b (l\<lparr> ly_width := w \<rparr>) = detail_focused b l"
  "detail_borderless b (l\<lparr> ly_width := w \<rparr>) = detail_borderless b l"
  "detail_focused b (l\<lparr> ly_height := w \<rparr>) = detail_focused b l"
  "detail_borderless b (l\<lparr> ly_height := w \<rparr>) = detail_borderless b l"
  "detail_focused b (l\<lparr> paneRects := rs \<rparr>) = detail_focused b l"
  "detail_borderless b (l\<lparr> paneRects := rs \<rparr>) = detail_borderless b l"
  by (simp_all add: detail_focused_def detail_borderless_def)

lemma geom_frame:
  assumes "geom_ok l" and "same_geom l l'" and "map pane_size (splits l') = map pane_size (splits l)" and "paneRects l' = paneRects l"
  shows "geom_ok l'"
  using assms split_sizes_frame [OF assms(2)] rects_frame [OF assms(2)] by (simp add: geom_ok_def)

lemma moveBorderlessFlag_wf:
  assumes "moveBorderlessFlag Y from_idx (focusIdx l) l = Inr l'" and "idx_ok l" and "focus_ok l" and "detail_zoom_ok l"
    and "map pane_borderless (splits l) = flags_at (splitZoomed l) from_idx (length (splits l))"
    and "\<not> splitZoomed l \<Longrightarrow> geom_ok l"
  shows "layout_wf l'"
proof (cases "splitZoomed l")
  case True
  then obtain m where m: "upd_split from_idx (pane_SetBorderless Y False) l = Inr m"
    and u: "go_bind (upd_split (focusIdx l) (pane_SetBorderless Y True) m) (recalcSizes Y) = Inr l'"
    using assms(1) by (auto simp: moveBorderlessFlag_def)
  note f = set_flag [OF m]
  note g = same_geomD [OF f(1)]
  have "map pane_borderless (splits m) = replicate (length (splits m)) False"
    using f(4-6) flags_clear assms(5) True by (simp add: g)
  moreover have "go_bind (if splitZoomed m then upd_split (focusIdx m) (pane_SetBorderless Y True) m else Inr m) (recalcSizes Y) = Inr l'"
    using u True by (simp add: g)
  ultimately show ?thesis
    using idx_ok_frame [OF f(1)] focus_ok_frame [OF f(1,2)] detail_zoom_frame [OF f(1,3)] assms(2-4)
    by (intro set_flag_recalc) simp_all
next
  case False
  then have "l' = l" "zoom_ok l" using assms(1,4,5) by (simp_all add: moveBorderlessFlag_def zoom_ok_split flags_off)
  then show ?thesis using assms(2,3,6) False by (simp add: layout_wf_def)
qed

lemma move_focus_wf:
  assumes "layout_wf l" and "0 \<le> i" and "i < int (length (splits l))"
    and "l1 = l\<lparr> focusTarget := FocusTargetResources, focusIdx := i \<rparr>" and "reconcileFocus Y l1 = Inr l2"
    and "moveBorderlessFlag Y (focusIdx l) i l2 = Inr l' \<or> focusIdx l = i \<and> l' = l2"
  shows "layout_wf l'"
proof -
  note r = reconcile_frame [OF refocus_ok [OF assms(1-4)] assms(5)]
  note g = same_geomD [OF r(1)]
  have z: "detail_zoom_ok l2" using r(7) layout_wfD(4) [OF assms(1)] assms(4)
    by (simp add: detail_zoom_ok_def)
  have b: "map pane_borderless (splits l2) = flags_at (splitZoomed l2) (focusIdx l) (length (splits l2))"
    using r(8) layout_wfD(6) [OF assms(1)] assms(4) by (simp add: g)
  have geom: "geom_ok l2" if "EffectiveZoom l \<noteq> ZoomSplit \<or> i = focusIdx l"
  proof -
    have "geom_ok l1" using geom_focus [of "l\<lparr> focusTarget := FocusTargetResources \<rparr>" i] that layout_wfD(5) [OF assms(1)]
      by (simp add: assms(4))
    then show ?thesis using geom_frame r(1,4,5) by blast
  qed
  show ?thesis
  proof (cases "moveBorderlessFlag Y (focusIdx l) i l2 = Inr l'")
    case True
    have "focusIdx l2 = i" "splitZoomed l2 = splitZoomed l" using assms(4) by (simp_all add: g)
    moreover have "EffectiveZoom l \<noteq> ZoomSplit" if "\<not> splitZoomed l" using that by (simp add: EffectiveZoom_def)
    ultimately show ?thesis using moveBorderlessFlag_wf [of Y "focusIdx l" l2 l'] True r(6,3) z b geom by metis
  next
    case False
    then have "focusIdx l = i" "l' = l2" using assms(6) by simp_all
    then show ?thesis using r(3,6) z b geom assms(4) by (simp add: layout_wf_def zoom_ok_split g)
  qed
qed

lemma focus_to_wf:
  assumes "layout_wf l" and "splits l \<noteq> [] \<Longrightarrow> 0 \<le> i \<and> i < int (length (splits l))" and "focus_to Y i l = Inr l'"
  shows "layout_wf l'"
proof (cases "splits l = []")
  case False
  then obtain l2 where "reconcileFocus Y (l\<lparr> focusTarget := FocusTargetResources, focusIdx := i \<rparr>) = Inr l2"
    "(if focusIdx l \<noteq> i then moveBorderlessFlag Y (focusIdx l) i l2 else Inr l2) = Inr l'"
    using assms(3) by (auto simp: focus_to_def)
  then show ?thesis using move_focus_wf [OF assms(1) _ _ refl] assms(2) False by (auto split: if_splits)
qed (use assms in \<open>simp add: focus_to_def\<close>)

lemma FocusNext_wf: "layout_wf l \<Longrightarrow> FocusNext Y l = Inr l' \<Longrightarrow> layout_wf l'"
  unfolding FocusNext_def by (rule focus_to_wf) (auto simp: layout_wf_def idx_ok_def)

lemma FocusPrev_wf: "layout_wf l \<Longrightarrow> FocusPrev Y l = Inr l' \<Longrightarrow> layout_wf l'"
  unfolding FocusPrev_def by (rule focus_to_wf) (auto simp: layout_wf_def idx_ok_def)

lemma FocusSplitAt_wf: "layout_wf l \<Longrightarrow> FocusSplitAt Y i l = Inr l' \<Longrightarrow> layout_wf l'"
  by (auto simp: FocusSplitAt_def split: if_splits intro: move_focus_wf [where i = i])

lemma retarget_wf:
  assumes "layout_wf l" and "target_ok (l\<lparr> focusTarget := t \<rparr>)" and "reconcileFocus Y (l\<lparr> focusTarget := t \<rparr>) = Inr l'"
  shows "layout_wf l'"
proof -
  let ?l1 = "l\<lparr> focusTarget := t \<rparr>"
  have "reconcilable ?l1"
    unfolding reconcilable_def detail_fields
  proof (intro conjI impI)
    show "idx_ok ?l1" using layout_wfD(1) [OF assms(1)] by (simp add: idx_ok_def)
    have f: "detail_focus_ok l" "target_ok l" using layout_wfD(3) [OF assms(1)] by (simp_all add: focus_ok_def)
    show "\<not> detail_focused (\<not> logMode ?l1) l" using f(1) by (simp add: detail_focus_ok_def)
    show "\<not> detail_focused (logMode ?l1) l" if "splits ?l1 = []"
      using f that by (simp add: detail_focus_ok_def target_ok_def)
  qed (rule assms(2))
  note r = reconcile_frame [OF this assms(3)]
  have "geom_ok ?l1" using layout_wfD(5) [OF assms(1)] by simp
  then have "geom_ok l'" using geom_frame r(1,4,5) by blast
  moreover have "zoom_ok l'"
    using r(7,8) layout_wfD(4,6) [OF assms(1)] same_geomD [OF r(1)]
    by (simp add: zoom_ok_split detail_zoom_ok_def)
  ultimately show ?thesis using r(3,6) by (simp add: layout_wf_def)
qed

lemma FocusDetails_wf: "layout_wf l \<Longrightarrow> FocusDetails Y l = Inr l' \<Longrightarrow> layout_wf l'"
  by (auto simp: FocusDetails_def target_ok_def split: if_splits intro: retarget_wf)

lemma FocusResources_wf: "layout_wf l \<Longrightarrow> FocusResources Y l = Inr l' \<Longrightarrow> layout_wf l'"
  unfolding FocusResources_def by (rule retarget_wf) (auto simp: target_ok_def)

section \<open>Splits\<close>

text \<open>Replacing the splits, with no flag set, and handing the focus to one of them.\<close>

lemma new_splits_wf:
  assumes "focus_ok l" and "detail_zoom_ok l" and "l1 = l\<lparr> splits := ps, focusIdx := i, focusTarget := FocusTargetResources \<rparr>"
    and "ps \<noteq> []" and "0 \<le> i" and "i < int (length ps)"
    and "map pane_borderless ps = replicate (length ps) False" and "reconcileFocus Y l1 = Inr l2"
    and "go_bind (if splitZoomed l2 then upd_split (focusIdx l2) (pane_SetBorderless Y True) l2 else Inr l2) (recalcSizes Y) = Inr l'"
  shows "layout_wf l'"
proof -
  have "reconcilable l1"
  proof (rule focus_ok_reconcilable [OF assms(1)])
    show "idx_ok l1" using assms(4-6) by (simp add: assms(3) idx_ok_def)
  qed (use assms(4) in \<open>simp_all add: assms(3) detail_focused_def\<close>)
  note r = reconcile_frame [OF this assms(8)]
  have "detail_zoom_ok l1" using assms(2) by (simp add: assms(3) detail_zoom_ok_def)
  moreover have "map pane_borderless (splits l2) = replicate (length (splits l2)) False"
    using r(8) assms(7) same_geomD(1) [OF r(1)] by (simp add: assms(3))
  ultimately show ?thesis using set_flag_recalc [OF assms(9)] r(3,6,7) by simp
qed

lemma insert_split_wf:
  assumes "layout_wf l" and "\<not> pane_borderless p" and "insert_split Y p l = Inr l'"
  shows "layout_wf l'"
proof -
  let ?i = "\<lambda>m. if splits m \<noteq> [] then focusIdx m + 1 else 0"
  from assms(3) [unfolded insert_split_def] obtain l1
    where l1: "(if splitZoomed l \<and> splits l \<noteq> [] then upd_split (focusIdx l) (pane_SetBorderless Y False) l else Inr l) = Inr l1"
      and r1: "(if ?i l1 < 0 \<or> ?i l1 > int (length (splits l1)) then Inl SliceOutOfRange
        else go_bind (reconcileFocus Y (l1\<lparr> splits := insert_at (nat (?i l1)) p (splits l1), focusIdx := ?i l1,
                        focusTarget := FocusTargetResources \<rparr>))
          (\<lambda>l2. go_bind (if splitZoomed l2 then upd_split (focusIdx l2) (pane_SetBorderless Y True) l2 else Inr l2)
            (recalcSizes Y))) = Inr l'"
    unfolding Let_def by (rule go_bindE)
  then have i: "\<not> (?i l1 < 0 \<or> ?i l1 > int (length (splits l1)))" by (meson Inl_Inr_False)
  from r1 [unfolded if_not_P [OF i]] obtain l2
    where l2: "reconcileFocus Y (l1\<lparr> splits := insert_at (nat (?i l1)) p (splits l1), focusIdx := ?i l1,
                                focusTarget := FocusTargetResources \<rparr>) = Inr l2"
      and l': "go_bind (if splitZoomed l2 then upd_split (focusIdx l2) (pane_SetBorderless Y True) l2 else Inr l2) (recalcSizes Y) = Inr l'"
    by (rule go_bindE)
  note c = clear_flag [OF l1 layout_wfD(1,3,2) [OF assms(1)]]
  define k where "k = ?i l1"
  have k: "0 \<le> k" "k \<le> int (length (splits l1))" using i by (auto simp: k_def)
  have "map pane_borderless (insert_at (nat k) p (splits l1)) = replicate (length (insert_at (nat k) p (splits l1))) False"
    using c k assms(2) flags_insert [of "nat k" "length (splits l1)"] by (simp add: map_insert_at)
  moreover have "insert_at (nat k) p (splits l1) \<noteq> []" by (simp add: insert_at_def)
  ultimately show ?thesis
    using new_splits_wf [OF _ _ refl _ _ _ _ l2 [folded k_def] l'] c k by simp
qed

lemma NewResourceList_flags [simp]: "\<not> rl_borderless (NewResourceList E p w h)"
  by (simp add: NewResourceList_def Let_def split: prod.splits)

lemma AddSplit_wf: "layout_wf l \<Longrightarrow> AddSplit Y p ns ctx l = Inr l' \<Longrightarrow> layout_wf l'"
  unfolding AddSplit_def Let_def
  by (auto split: prod.splits elim!: insert_split_wf [rotated 2] simp: SetContext_def rl_SetNamespace_def)

lemma CloseCurrentSplit_wf:
  assumes "layout_wf l" and "CloseCurrentSplit Y l = Inr (l', quit)"
  shows "layout_wf l'"
proof (cases "length (splits l) \<le> 1")
  case False
  define ss where "ss = remove_at (nat (focusIdx l)) (splits l)"
  define i where "i = (if focusIdx l \<ge> int (length ss) then int (length ss) - 1 else focusIdx l)"
  have idx: "0 \<le> focusIdx l" "focusIdx l < int (length (splits l))"
    using layout_wfD(1) [OF assms(1)] False by (auto simp: idx_ok_def split: if_splits)
  have "go_bind (reconcileFocus Y (l\<lparr> splits := ss, focusIdx := i, focusTarget := FocusTargetResources \<rparr>))
      (\<lambda>l1. go_bind (if splitZoomed l1 then upd_split (focusIdx l1) (pane_SetBorderless Y True) l1 else Inr l1)
        (\<lambda>l2. go_bind (recalcSizes Y l2) (\<lambda>l3. Inr (l3, False)))) = Inr (l', quit)"
    using assms(2) False idx by (simp add: CloseCurrentSplit_def Let_def ss_def [symmetric] i_def [symmetric] del: go_bind_eq_Inr)
  then obtain l1 where l1: "reconcileFocus Y (l\<lparr> splits := ss, focusIdx := i, focusTarget := FocusTargetResources \<rparr>) = Inr l1"
    and r1: "go_bind (if splitZoomed l1 then upd_split (focusIdx l1) (pane_SetBorderless Y True) l1 else Inr l1)
        (\<lambda>l2. go_bind (recalcSizes Y l2) (\<lambda>l3. Inr (l3, False))) = Inr (l', quit)"
    by (rule go_bindE)
  from r1 obtain l2 where l2: "(if splitZoomed l1 then upd_split (focusIdx l1) (pane_SetBorderless Y True) l1 else Inr l1) = Inr l2"
    and l': "recalcSizes Y l2 = Inr l'" by (elim go_bindE) simp
  have len: "length ss = length (splits l) - 1" using idx by (simp add: ss_def nat_less_iff)
  have "map pane_borderless ss = replicate (length ss) False"
    using idx flags_remove by (simp add: ss_def map_remove_at layout_wfD(6) [OF assms(1)] len [unfolded ss_def])
  moreover have "0 \<le> i" "i < int (length ss)" "ss \<noteq> []" using idx len False by (auto simp: i_def)
  moreover have "go_bind (if splitZoomed l1 then upd_split (focusIdx l1) (pane_SetBorderless Y True) l1 else Inr l1) (recalcSizes Y) = Inr l'"
    using l2 l' by simp
  ultimately show ?thesis using new_splits_wf [OF layout_wfD(3,4) [OF assms(1)] refl _ _ _ _ l1] by blast
qed (use assms in \<open>simp add: CloseCurrentSplit_def\<close>)

lemma MoveFocusedSplit_wf:
  assumes "layout_wf l" and "MoveFocusedSplit Y delta l = Inr l'"
  shows "layout_wf l'"
proof -
  define t where "t = focusIdx l + delta"
  show ?thesis
  proof (cases "t < 0 \<or> t \<ge> int (length (splits l))")
    case False
    have idx: "0 \<le> focusIdx l" "focusIdx l < int (length (splits l))" "0 \<le> t" "t < int (length (splits l))"
      using layout_wfD(1) [OF assms(1)] False by (auto simp: idx_ok_def split: if_splits)
    define ss where "ss = (splits l)[nat (focusIdx l) := splits l ! nat t, nat t := splits l ! nat (focusIdx l)]"
    let ?l1 = "l\<lparr> focusTarget := FocusTargetResources, splits := ss, focusIdx := t \<rparr>"
    obtain l2 where l2: "reconcileFocus Y ?l1 = Inr l2" and l': "recalcSizes Y l2 = Inr l'"
      using assms(2) False idx unfolding MoveFocusedSplit_def Let_def t_def [symmetric] ss_def
      by (auto simp: go_index_ok)
    have len: "length ss = length (splits l)" by (simp add: ss_def)
    then have ne: "ss \<noteq> []" using idx by auto
    have rc: "reconcilable ?l1"
    proof (rule focus_ok_reconcilable [OF layout_wfD(3) [OF assms(1)]])
      show "idx_ok ?l1" using idx ne by (simp add: idx_ok_def len)
    qed (use ne in \<open>simp_all add: detail_focused_def\<close>)
    note r = reconcile_frame [OF rc l2]
    have "map pane_borderless ss = flags_at (splitZoomed l) t (length ss)"
      using flags_swap [OF idx, of "splitZoomed l"] idx
      by (simp add: ss_def map_update layout_wfD(6) [OF assms(1), symmetric] nat_less_iff nth_map)
    moreover have "detail_zoom_ok ?l1"
      using layout_wfD(4) [OF assms(1)] by (simp add: detail_zoom_ok_def)
    ultimately have "zoom_ok l2" using r(7,8) same_geomD [OF r(1)] by (simp add: zoom_ok_split)
    then show ?thesis using recalcSizes_wf r(3,6) l' by blast
  qed (use assms in \<open>simp add: MoveFocusedSplit_def t_def Let_def\<close>)
qed

section \<open>The panel and the zoom\<close>

lemma flags_recalc:
  assumes "recalcSizes Y l = Inr l'" and "idx_ok l" and "focus_ok l" and "detail_zoom_ok l"
    and "map pane_borderless (splits l) = flags_at (splitZoomed l) (focusIdx l) (length (splits l))"
  shows "layout_wf l'"
proof -
  have "zoom_ok l" using assms(4,5) by (simp add: zoom_ok_split)
  then show ?thesis using recalcSizes_wf [OF assms(2) _ assms(3,1)] by blast
qed

lemma ShowRightPanel_wf:
  assumes "layout_wf l" and "ShowRightPanel Y l = Inr l'"
  shows "layout_wf l'"
proof (rule flags_recalc [OF assms(2) [unfolded ShowRightPanel_def]])
  note w = layout_wfD [OF assms(1)]
  show "idx_ok (l\<lparr> rightVisible := True \<rparr>)" using w(1) by (simp add: idx_ok_def)
  show "focus_ok (l\<lparr> rightVisible := True \<rparr>)" using w(3)
    by (simp add: focus_ok_def target_ok_def cursor_ok_def detail_focus_ok_def)
  show "detail_zoom_ok (l\<lparr> rightVisible := True \<rparr>)" using w(4) by (simp add: detail_zoom_ok_def)
qed (use layout_wfD(6) [OF assms(1)] in simp)

lemma detail_SetBorderless_fields [simp]:
  "detail_borderless b (detail_SetBorderless z l) \<longleftrightarrow> (if b = logMode l then z else detail_borderless b l)"
  "detail_focused b (detail_SetBorderless z l) = detail_focused b l"
  "same_geom l (detail_SetBorderless z l)" "splits (detail_SetBorderless z l) = splits l"
  by (auto simp: detail_SetBorderless_def on_detail_def detail_borderless_def detail_focused_def lv_SetBorderless_def
      dv_SetBorderless_def same_geom_def)

lemma zoom_detail_ok:
  assumes "layout_wf l" and "z \<longrightarrow> rightVisible l" and "l1 = detail_SetBorderless z (l\<lparr> detailZoomed := z \<rparr>)"
  shows "idx_ok l1" and "focus_ok l1" and "detail_zoom_ok l1"
    and "map pane_borderless (splits l1) = flags_at (splitZoomed l1) (focusIdx l1) (length (splits l1))"
proof -
  let ?m = "l\<lparr> detailZoomed := z \<rparr>"
  note w = layout_wfD [OF assms(1)]
  note g = same_geomD [OF detail_SetBorderless_fields(3) [of ?m z]]
  have b: "detail_borderless b ?m = detail_borderless b l" "detail_focused b ?m = detail_focused b l" for b
    by simp_all
  have sp: "splits l1 = splits l" by (simp add: assms(3))
  show "idx_ok l1" using w(1) unfolding assms(3) idx_ok_def g by (simp add: g)
  show "detail_zoom_ok l1" using w(4) assms(2) unfolding assms(3) detail_zoom_ok_def g by (auto simp: b)
  show "focus_ok l1" using w(3) sp unfolding assms(3) focus_ok_def target_ok_def cursor_ok_def detail_focus_ok_def g
    by (simp add: b)
  show "map pane_borderless (splits l1) = flags_at (splitZoomed l1) (focusIdx l1) (length (splits l1))"
    using w(6) sp unfolding assms(3) g by simp
qed

lemma ToggleZoomDetail_wf:
  assumes "layout_wf l" and "ToggleZoomDetail Y l = Inr l'"
  shows "layout_wf l'"
proof -
  consider "detailZoomed l" "recalcSizes Y (detail_SetBorderless False (l\<lparr> detailZoomed := False \<rparr>)) = Inr l'"
    | "rightVisible l" "recalcSizes Y (detail_SetBorderless True (l\<lparr> detailZoomed := True \<rparr>)) = Inr l'" | "l' = l"
    using assms(2) by (auto simp: ToggleZoomDetail_def split: if_splits)
  then show ?thesis
  proof cases
    case 1
    show ?thesis by (rule flags_recalc [OF 1(2)]) (rule zoom_detail_ok [OF assms(1) _ refl], simp)+
  next
    case 2
    show ?thesis by (rule flags_recalc [OF 2(2)]) (rule zoom_detail_ok [OF assms(1) _ refl], simp add: 2)+
  qed (use assms(1) in simp)
qed

text \<open>Taking the detail panel out of its zoom, if it is zoomed.\<close>

lemma unzoom_detail:
  assumes "layout_wf l" and "l1 = (if detailZoomed l then detail_SetBorderless False l else l)\<lparr> detailZoomed := False \<rparr>"
  shows "idx_ok l1 \<and> focus_ok l1 \<and> detail_zoom_ok l1 \<and>
    map pane_borderless (splits l1) = flags_at (splitZoomed l1) (focusIdx l1) (length (splits l1))"
proof (cases "detailZoomed l")
  case True
  have "l1 = detail_SetBorderless False (l\<lparr> detailZoomed := False \<rparr>)"
    using True by (simp add: assms(2) detail_SetBorderless_def on_detail_def)
  then show ?thesis using zoom_detail_ok [OF assms(1), of False l1] by simp
next
  case False
  then have "l1 = l" by (simp add: assms(2))
  then show ?thesis using layout_wfD [OF assms(1)] by simp
qed

lemma HideRightPanel_wf:
  assumes "layout_wf l" and "HideRightPanel Y l = Inr l'"
  shows "layout_wf l'"
proof -
  define l1 where "l1 = (if detailZoomed l then detail_SetBorderless False l else l)\<lparr> detailZoomed := False \<rparr>"
  define l2 where "l2 = l1\<lparr> rightVisible := False, focusTarget := FocusTargetResources \<rparr>"
  note u = unzoom_detail [OF assms(1) l1_def]
  have "(if detailZoomed l then detail_SetBorderless False l else l)\<lparr> detailZoomed := False, rightVisible := False,
      focusTarget := FocusTargetResources \<rparr> = l2"
    by (simp add: l2_def l1_def)
  then obtain m where m: "reconcileFocus Y l2 = Inr m" "recalcSizes Y m = Inr l'"
    using assms(2) unfolding HideRightPanel_def Let_def by (metis go_bind_eq_Inr)
  have "reconcilable l2"
  proof (rule focus_ok_reconcilable)
    show "focus_ok l1" using u by blast
    show "idx_ok l2" using u by (simp add: l2_def idx_ok_def)
  qed (simp_all add: l2_def)
  note r = reconcile_frame [OF this m(1)]
  have dz: "\<not> detailZoomed l1" by (simp add: l1_def)
  then have "detail_zoom_ok l2" using u by (simp add: l2_def detail_zoom_ok_def)
  moreover have "map pane_borderless (splits m) = flags_at (splitZoomed m) (focusIdx m) (length (splits m))"
    using r(8) u same_geomD [OF r(1)] by (simp add: l2_def)
  ultimately show ?thesis using flags_recalc [OF m(2) r(6,3)] r(7) by simp
qed

lemma ToggleZoomSplit_wf:
  assumes "layout_wf l" and "ToggleZoomSplit Y l = Inr l'"
  shows "layout_wf l'"
proof -
  note w = layout_wfD [OF assms(1)]
  have other: "idx_ok (l\<lparr> splitZoomed := z \<rparr>)" "focus_ok (l\<lparr> splitZoomed := z \<rparr>)" "detail_zoom_ok (l\<lparr> splitZoomed := z \<rparr>)"
    if "splits l \<noteq> []" for z
    using that w(1,3,4) by (simp_all add: idx_ok_def focus_ok_def target_ok_def cursor_ok_def detail_focus_ok_def detail_zoom_ok_def)
  have idx: "0 \<le> focusIdx l" "focusIdx l < int (length (splits l))" if "splits l \<noteq> []"
    using w(1) that by (simp_all add: idx_ok_def)
  consider (on) "splitZoomed l" "splits l \<noteq> []" | (off) "\<not> splitZoomed l" "splits l \<noteq> []" | "l' = l"
    using assms(2) w(1) by (cases "splits l") (auto simp: ToggleZoomSplit_def idx_ok_def)
  then show ?thesis
  proof cases
    case on
    then obtain m where m: "upd_split (focusIdx (l\<lparr> splitZoomed := False \<rparr>)) (pane_SetBorderless Y False) (l\<lparr> splitZoomed := False \<rparr>) = Inr m"
      "recalcSizes Y m = Inr l'" using assms(2) by (auto simp: ToggleZoomSplit_def)
    note f = set_flag_ok [OF m(1) other(1-3) [OF on(2)]]
    have "map pane_borderless (splits m) = flags_at (splitZoomed m) (focusIdx m) (length (splits m))"
      using f flags_clear [OF idx [OF on(2)]] same_geomD [of "l\<lparr> splitZoomed := False \<rparr>" m] w(6) by (simp add: flags_off)
    then show ?thesis using flags_recalc [OF m(2)] f by blast
  next
    case off
    then obtain m where m: "upd_split (focusIdx (l\<lparr> splitZoomed := True \<rparr>)) (pane_SetBorderless Y True) (l\<lparr> splitZoomed := True \<rparr>) = Inr m"
      "recalcSizes Y m = Inr l'" using assms(2) by (cases "splits l") (auto simp: ToggleZoomSplit_def)
    note f = set_flag_ok [OF m(1) other(1-3) [OF off(2)]]
    have "map pane_borderless (splits m) = flags_at (splitZoomed m) (focusIdx m) (length (splits m))"
      using f flags_set [OF idx [OF off(2)]] same_geomD [of "l\<lparr> splitZoomed := True \<rparr>" m] w(6) off by (simp add: flags_off)
    then show ?thesis using flags_recalc [OF m(2)] f by blast
  qed (use assms(1) in simp)
qed

lemma UnzoomAll_wf:
  assumes "layout_wf l" and "UnzoomAll Y l = Inr l'"
  shows "layout_wf l'"
proof -
  define l0 where "l0 = (if detailZoomed l then detail_SetBorderless False l else l)"
  define l1 where "l1 = l0\<lparr> detailZoomed := False \<rparr>"
  note u = unzoom_detail [OF assms(1) l1_def [unfolded l0_def]]
  have z1: "zoom_ok l1" using u by (simp add: zoom_ok_split)
  obtain m0 where m0: "(if splitZoomed l0 \<and> splits l0 \<noteq> [] then upd_split (focusIdx l0) (pane_SetBorderless Y False) l0 else Inr l0) = Inr m0"
    and r: "recalcSizes Y (m0\<lparr> splitZoomed := False, detailZoomed := False \<rparr>) = Inr l'"
    using assms(2) unfolding UnzoomAll_def Let_def l0_def [symmetric] by (rule go_bindE)
  have m: "(if splitZoomed l1 \<and> splits l1 \<noteq> [] then upd_split (focusIdx l1) (pane_SetBorderless Y False) l1 else Inr l1) =
      Inr (m0\<lparr> detailZoomed := False \<rparr>)"
    using m0 by (auto simp: l1_def upd_split_def go_index_def split: if_splits)
  define m1 where "m1 = m0\<lparr> detailZoomed := False \<rparr>"
  note c = clear_flag [OF m [folded m1_def] _ _ z1]
  let ?m2 = "m1\<lparr> splitZoomed := False \<rparr>"
  have "m0\<lparr> splitZoomed := False, detailZoomed := False \<rparr> = ?m2" by (simp add: m1_def)
  then have "recalcSizes Y ?m2 = Inr l'" using r by simp
  moreover have "idx_ok ?m2" "focus_ok ?m2" "detail_zoom_ok ?m2"
    using c u by (auto simp: idx_ok_def focus_ok_def target_ok_def cursor_ok_def detail_focus_ok_def detail_zoom_ok_def)
  moreover have "map pane_borderless (splits ?m2) = flags_at (splitZoomed ?m2) (focusIdx ?m2) (length (splits ?m2))"
    using c u by (simp add: flags_off)
  ultimately show ?thesis by (rule flags_recalc)
qed

lemma ToggleOrientation_wf:
  assumes "layout_wf l" and "ToggleOrientation Y l = Inr l'"
  shows "layout_wf l'"
  using assms(1) layout_wfD(4) [OF assms(1)]
  by (intro flags_recalc [OF assms(2) [unfolded ToggleOrientation_def]])
    (simp_all add: layout_wf_def zoom_ok_split idx_ok_def focus_ok_def target_ok_def cursor_ok_def detail_focus_ok_def detail_zoom_ok_def)

lemma ly_Resize_wf:
  assumes "layout_wf l" and "ly_Resize Y w h l = Inr l'"
  shows "layout_wf l'"
  using assms(1) layout_wfD(4) [OF assms(1)]
  by (intro flags_recalc [OF assms(2) [unfolded ly_Resize_def]])
    (simp_all add: layout_wf_def zoom_ok_split idx_ok_def focus_ok_def target_ok_def cursor_ok_def detail_focus_ok_def detail_zoom_ok_def)

text \<open>Switching between the log and the detail view is safe while neither is zoomed or focused.\<close>

lemma SetLogMode_wf:
  assumes "layout_wf l" and "on = logMode l \<or> \<not> detailZoomed l \<and> focusTarget l = FocusTargetResources"
  shows "layout_wf (SetLogMode on l)"
proof -
  note w = layout_wfD [OF assms(1)]
  have d: "detail_focused b (SetLogMode on l) = detail_focused b l" "detail_borderless b (SetLogMode on l) = detail_borderless b l" for b
    by (simp_all add: SetLogMode_def rebuildPaneRects_def detail_focused_def detail_borderless_def)
  have "same_geom (l\<lparr> logMode := on \<rparr>) (SetLogMode on l)" by (simp add: SetLogMode_def rebuildPaneRects_def same_geom_def)
  then have p1: "pane_rects (SetLogMode on l) = pane_rects (l\<lparr> logMode := on \<rparr>)" by (rule rects_frame)
  have p2: "paneRects (SetLogMode on l) = pane_rects (l\<lparr> logMode := on \<rparr>)"
    unfolding SetLogMode_def rebuildPaneRects_def by simp
  have "paneRects (SetLogMode on l) = pane_rects (SetLogMode on l)" by (rule trans [OF p2 p1 [symmetric]])
  moreover have "EffectiveZoom (SetLogMode on l) = EffectiveZoom l" "panelSizes (SetLogMode on l) = panelSizes l"
    "ly_orientation (SetLogMode on l) = ly_orientation l" "ly_width (SetLogMode on l) = ly_width l"
    "ly_height (SetLogMode on l) = ly_height l" "focusIdx (SetLogMode on l) = focusIdx l"
    "splits (SetLogMode on l) = splits l"
    by (simp_all add: SetLogMode_def rebuildPaneRects_def EffectiveZoom_def panelSizes_def)
  then have "split_sizes (SetLogMode on l) = split_sizes l" by (simp only: split_sizes_def)
  moreover have f: "splits (SetLogMode on l) = splits l" "focusIdx (SetLogMode on l) = focusIdx l"
    "splitZoomed (SetLogMode on l) = splitZoomed l" "detailZoomed (SetLogMode on l) = detailZoomed l"
    "focusTarget (SetLogMode on l) = focusTarget l" "rightVisible (SetLogMode on l) = rightVisible l"
    "logMode (SetLogMode on l) = on"
    by (simp_all add: SetLogMode_def rebuildPaneRects_def)
  ultimately have "geom_ok (SetLogMode on l)" using w(5) by (simp add: geom_ok_def)
  moreover have t: "detailZoomed l \<Longrightarrow> logMode l = on" "focusTarget l = FocusTargetDetails \<Longrightarrow> logMode l = on"
    using assms(2) by auto
  then have "detail_zoom_ok (SetLogMode on l)" using w(4) unfolding detail_zoom_ok_def d f by blast
  moreover have "detail_focus_ok (SetLogMode on l)"
    using w(3) t(2) unfolding focus_ok_def detail_focus_ok_def d f by blast
  ultimately show ?thesis
    using w(1,3,6) by (simp add: layout_wf_def zoom_ok_split idx_ok_def focus_ok_def target_ok_def cursor_ok_def f)
qed

section \<open>Messages\<close>

text \<open>An update that keeps size, flags and focus of every pane and of the panels keeps the invariant.\<close>

definition pane_key :: "('v, 't) pane \<Rightarrow> (int \<times> int) \<times> bool \<times> bool \<times> bool" where
  "pane_key p = (pane_size p, pane_borderless p, pane_focused p, pane_active p)"

lemma map_pane_key:
  fixes ps qs :: "('v, 't) pane list"
  assumes "map pane_key ps = map pane_key qs"
  shows "map pane_size ps = map pane_size qs" and "map pane_borderless ps = map pane_borderless qs"
    and "map pane_focused ps = map pane_focused qs" and "map pane_active ps = map pane_active qs"
proof -
  have l: "length ps = length qs" using assms by (rule map_eq_imp_length_eq)
  have k: "pane_key (ps ! j) = pane_key (qs ! j)" if "j < length qs" for j using map_eq_nth [OF assms] that l by simp
  show "map pane_size ps = map pane_size qs" "map pane_borderless ps = map pane_borderless qs"
    "map pane_focused ps = map pane_focused qs" "map pane_active ps = map pane_active qs"
    by (rule nth_equalityI; use k l in \<open>simp add: pane_key_def\<close>)+
qed

lemma keep_wf:
  assumes "layout_wf l" and "same_geom l l'" and "map pane_key (splits l') = map pane_key (splits l)"
    and "paneRects l' = paneRects l" and "\<And>b. detail_focused b l' = detail_focused b l"
    and "\<And>b. detail_borderless b l' = detail_borderless b l"
  shows "layout_wf l'"
proof -
  note m = map_pane_key [OF assms(3)]
  have "same_flags l l'" "same_focus l l'" using m assms(5,6) by (simp_all add: same_flags_def same_focus_def)
  moreover have "geom_ok l'" using geom_frame [OF layout_wfD(5) [OF assms(1)] assms(2) m(1) assms(4)] .
  ultimately show ?thesis
    using layout_wfD(1-3) [OF assms(1)] idx_ok_frame [OF assms(2)] zoom_ok_frame [OF assms(2)] focus_ok_frame [OF assms(2)]
    by (simp add: layout_wf_def)
qed

lemma pane_key_list: "pane_key (ResourcePane r) = list_key r"
  by (simp add: pane_key_def list_key_def)

lemma pane_key_updates [simp]:
  "pane_key (update_pane Y p ns ctx objs q) = pane_key q" "pane_key (pane_Update Y f q) = pane_key q"
  by (cases q; simp add: pane_key_list)+

lemma UpdateSplitObjects_wf: "layout_wf l \<Longrightarrow> layout_wf (UpdateSplitObjects Y p ns ctx objs l)"
  by (erule keep_wf) (simp_all add: UpdateSplitObjects_def same_geom_def)

lemma UpdateFocusedSplit_wf: "layout_wf l \<Longrightarrow> UpdateFocusedSplit Y f l = Inr l' \<Longrightarrow> layout_wf l'"
  by (auto simp: UpdateFocusedSplit_def upd_split_Inr same_geom_def map_update_same split: if_splits elim!: keep_wf)

lemma UpdateRightPanel_wf: "layout_wf l \<Longrightarrow> layout_wf (UpdateRightPanel tick f l)"
  by (erule keep_wf)
    (simp_all add: UpdateRightPanel_def same_geom_def detail_focused_def detail_borderless_def dv_Update_def on_viewport_def)

lemma redraw_flags: "q' = redraw q q' \<Longrightarrow> lv_focused q' = lv_focused q \<and> lv_borderless q' = lv_borderless q"
proof -
  assume q: "q' = redraw q q'"
  have "lv_focused (redraw q x) = lv_focused q \<and> lv_borderless (redraw q x) = lv_borderless q" for x
    by (simp add: redraw_def)
  from this [of q'] show ?thesis unfolding q [symmetric] .
qed

lemma lv_Update_flags:
  assumes "lv_Update A b lv = Inr lv'"
  shows "lv_focused lv' = lv_focused lv \<and> lv_borderless lv' = lv_borderless lv"
proof -
  have u: "lv_focused q' = lv_focused q \<and> lv_borderless q' = lv_borderless q" if "updateViewport A q = Inr q'" for q q'
    using updateViewport_frame [OF that] by (rule redraw_flags)
  have w: "lv_focused q' = lv_focused q \<and> lv_borderless q' = lv_borderless q" if "updateViewportWrapped A q = Inr q'" for q q'
    using updateViewportWrapped_frame [OF that] by (rule redraw_flags)
  have d: "lv_focused q' = lv_focused q \<and> lv_borderless q' = lv_borderless q" if "scroll_down_by A n q = Inr q'" for n q q'
  proof (cases "lv_softWrap q")
    case True
    then obtain p where p: "updateViewportWrapped A (q\<lparr> wrapYOffset := wrapYOffset q + n \<rparr>) = Inr p"
      "q' = (if wrapYOffset p \<ge> maxWrapOffset p then p\<lparr> autoscroll := True \<rparr> else p)"
      using \<open>scroll_down_by A n q = Inr q'\<close> unfolding scroll_down_by_def if_P [OF True] by (elim go_bindE) simp
    then show ?thesis using w [OF p(1)] by simp
  next
    case False
    then show ?thesis using that by (auto simp: scroll_down_by_def Let_def split: if_split_asm dest: u)
  qed
  have e: "lv_focused q' = lv_focused q \<and> lv_borderless q' = lv_borderless q" if "scroll_up_by A n q = Inr q'" for n q q'
    using that by (auto simp: scroll_up_by_def Let_def split: if_split_asm dest: u w)
  show ?thesis using assms d e
    by (cases b) (simp_all add: lv_Update_def lv_ScrollDown_def lv_ScrollUp_def, auto simp: lv_ScrollLeft_def
        lv_ScrollRight_def set_xOffset_def split: if_splits)
qed

lemma UpdateLogView_wf: "layout_wf l \<Longrightarrow> UpdateLogView Y b l = Inr l' \<Longrightarrow> layout_wf l'"
  by (erule keep_wf)
    (auto simp: UpdateLogView_def same_geom_def detail_focused_def detail_borderless_def dest!: lv_Update_flags)

end
