(* ===== verification/Layout_Total.thy ===== *)
theory Layout_Total
  imports Layout_Steps
begin

text \<open>
  The operations of the layout as a data type, and when they return: always, except where they
  resize a log view that cannot be drawn. What no run of them breaks, in whatever order they are
  called, is \<open>layout_core\<close>: it is shown by comparing a layout with a twin whose detail panels
  are in order.
\<close>

section \<open>Runs\<close>

datatype (plugins only: code) ('v, 't) layout_op =
    OpAddSplit rplugin string string | OpAddTerminal "('v, 't) pane" | OpClose | OpFocusNext | OpFocusPrev
  | OpFocusSplitAt int | OpMove int | OpFocusDetails | OpFocusResources | OpShow | OpHide | OpSetLogMode bool
  | OpZoomSplit | OpZoomDetail | OpUnzoom | OpOrientation | OpResize int int
  | OpUpdateObjects rplugin string string "k8s_obj list" | OpUpdateSplit "table_key \<Rightarrow> bool"
  | OpUpdatePanel bool "'v \<Rightarrow> 'v" | OpUpdateLog wheel

fun layout_exec :: "('v, 't) layout_env \<Rightarrow> ('v, 't) layout_op \<Rightarrow> ('v, 't) layout \<Rightarrow> ('v, 't) layout go" where
  "layout_exec Y (OpAddSplit p ns ctx) l = AddSplit Y p ns ctx l"
| "layout_exec Y (OpAddTerminal p) l = AddTerminalSplit Y p l"
| "layout_exec Y OpClose l = go_bind (CloseCurrentSplit Y l) (\<lambda>r. Inr (fst r))"
| "layout_exec Y OpFocusNext l = FocusNext Y l"
| "layout_exec Y OpFocusPrev l = FocusPrev Y l"
| "layout_exec Y (OpFocusSplitAt i) l = FocusSplitAt Y i l"
| "layout_exec Y (OpMove d) l = MoveFocusedSplit Y d l"
| "layout_exec Y OpFocusDetails l = FocusDetails Y l"
| "layout_exec Y OpFocusResources l = FocusResources Y l"
| "layout_exec Y OpShow l = ShowRightPanel Y l"
| "layout_exec Y OpHide l = HideRightPanel Y l"
| "layout_exec Y (OpSetLogMode on) l = Inr (SetLogMode on l)"
| "layout_exec Y OpZoomSplit l = ToggleZoomSplit Y l"
| "layout_exec Y OpZoomDetail l = ToggleZoomDetail Y l"
| "layout_exec Y OpUnzoom l = UnzoomAll Y l"
| "layout_exec Y OpOrientation l = ToggleOrientation Y l"
| "layout_exec Y (OpResize w h) l = ly_Resize Y w h l"
| "layout_exec Y (OpUpdateObjects p ns ctx objs) l = Inr (UpdateSplitObjects Y p ns ctx objs l)"
| "layout_exec Y (OpUpdateSplit f) l = UpdateFocusedSplit Y f l"
| "layout_exec Y (OpUpdatePanel tick f) l = Inr (UpdateRightPanel tick f l)"
| "layout_exec Y (OpUpdateLog b) l = UpdateLogView Y b l"

text \<open>
  What the caller owes: a terminal pane is added with its border, and the kind of the detail panel
  is not switched under a zoomed or focused panel.
\<close>

fun op_safe :: "('v, 't) layout_op \<Rightarrow> ('v, 't) layout \<Rightarrow> bool" where
  "op_safe (OpAddTerminal p) l = (\<not> pane_borderless p)"
| "op_safe (OpSetLogMode on) l = (on = logMode l \<or> \<not> detailZoomed l \<and> focusTarget l = FocusTargetResources)"
| "op_safe _ l = True"

lemma layout_exec_wf:
  assumes "layout_wf l" and "op_safe op l" and "layout_exec Y op l = Inr l'"
  shows "layout_wf l'"
  using assms
  by (cases op) (auto intro: AddSplit_wf FocusNext_wf FocusPrev_wf FocusSplitAt_wf MoveFocusedSplit_wf FocusDetails_wf
      FocusResources_wf ShowRightPanel_wf HideRightPanel_wf SetLogMode_wf ToggleZoomSplit_wf ToggleZoomDetail_wf UnzoomAll_wf
      ToggleOrientation_wf ly_Resize_wf UpdateSplitObjects_wf UpdateFocusedSplit_wf UpdateRightPanel_wf UpdateLogView_wf
      insert_split_wf CloseCurrentSplit_wf simp: AddTerminalSplit_def)

fun layout_run :: "('v, 't) layout_env \<Rightarrow> ('v, 't) layout_op list \<Rightarrow> ('v, 't) layout \<Rightarrow> ('v, 't) layout go" where
  "layout_run Y [] l = Inr l"
| "layout_run Y (op # ops) l = go_bind (layout_exec Y op l) (layout_run Y ops)"

fun safe_run :: "('v, 't) layout_env \<Rightarrow> ('v, 't) layout_op list \<Rightarrow> ('v, 't) layout \<Rightarrow> bool" where
  "safe_run Y [] l = True"
| "safe_run Y (op # ops) l = (op_safe op l \<and> (case layout_exec Y op l of Inl p \<Rightarrow> True | Inr m \<Rightarrow> safe_run Y ops m))"

lemma layout_run_wf:
  "layout_wf l \<Longrightarrow> safe_run Y ops l \<Longrightarrow> layout_run Y ops l = Inr l' \<Longrightarrow> layout_wf l'"
proof (induction ops arbitrary: l)
  case (Cons op ops)
  then obtain m where "layout_exec Y op l = Inr m" "layout_run Y ops m = Inr l'" by auto
  then show ?case using Cons layout_exec_wf [of l op Y m] by simp
qed simp

lemma NewLayout_wf:
  assumes "\<not> lv_focused lv" and "\<not> lv_borderless lv"
  shows "layout_wf (NewLayout Y lv w h)"
  using assms by (simp add: NewLayout_def layout_wf_def idx_ok_def zoom_ok_def flags_def focus_ok_def target_ok_def cursor_ok_def
      detail_focus_ok_def geom_ok_def split_sizes_def pane_rects_def detail_focused_def detail_borderless_def NewDetailView_def)

section \<open>When a resize returns\<close>

text \<open>A log view that can be drawn in every size the layout gives it.\<close>

definition log_ready :: "('v, 't) layout \<Rightarrow> bool" where
  "log_ready l \<longleftrightarrow> (logMode l \<longrightarrow> lv_wf (logView l) \<and> selection_ok (logView l) \<and> 5 \<le> ly_height l)"

lemma detail_SetSize_total:
  assumes "log_ready l" and "3 \<le> h"
  shows "\<exists>l'. detail_SetSize Y w h l = Inr l'"
proof (cases "logMode l")
  case True
  have "1 \<le> viewportHeight ((logView l)\<lparr> lv_height := h \<rparr>)" using assms(2) by (simp add: viewportHeight_def)
  then show ?thesis using SetSize_total [of "logView l" h "tui_text (ye_view Y)" w] assms(1) True
    by (auto simp: log_ready_def detail_SetSize_def)
qed (simp add: detail_SetSize_def)

lemma detail_SetSize_idle: "\<not> logMode l \<Longrightarrow> \<exists>l'. detail_SetSize Y w h l = Inr l'"
  by (simp add: detail_SetSize_def)

lemma resized_ready: "log_ready (resize_splits Y w h l) = log_ready l"
  by (simp add: log_ready_def resize_splits_def)

lemma bottom_height: "5 \<le> h \<Longrightarrow> 3 \<le> h - go_quot h 2"
  by simp

lemma ensure_cursor_total:
  assumes "idx_ok l" and "splits l \<noteq> []" and "same_geom l m"
  shows "\<exists>l'. upd_split (focusIdx m) f m = Inr l'"
  using assms by (auto simp: upd_split_def idx_ok_def go_index_ok same_geomD)

lemma recalcSizes_total:
  assumes "idx_ok l" and "log_ready l"
  shows "\<exists>l'. recalcSizes Y l = Inr l'"
proof (cases "splits l = []")
  case ne: False
  define n where "n = length (splits l)"
  have sz: "\<exists>l'. detail_SetSize Y w h m = Inr l'"
    if "3 \<le> h \<or> \<not> logMode l" "same_geom l m" "log_ready m" for w h m
    using that detail_SetSize_total detail_SetSize_idle same_geomD(10) by metis
  have h5: "5 \<le> ly_height l \<or> \<not> logMode l" using assms(2) by (auto simp: log_ready_def)
  have step: "\<exists>l'. go_bind (go_bind (if rightVisible l then detail_SetSize Y dw dh (resize_splits Y w h l) else Inr (resize_splits Y w h l))
      (\<lambda>l2. upd_split (focusIdx l2) (pane_ensure_cursor Y) l2)) (\<lambda>l3. Inr (rebuildPaneRects l3)) = Inr l'"
    if dh: "3 \<le> dh \<or> \<not> logMode l" for dw dh w h
  proof -
    let ?r = "resize_splits Y w h l"
    obtain k where k: "(if rightVisible l then detail_SetSize Y dw dh ?r else Inr ?r) = Inr k"
      using sz [OF dh resize_splits_frame(1) [where Y = Y and w = w and h = h], of dw] assms(2)
      by (cases "rightVisible l") (auto simp: resized_ready)
    have "same_geom l k" using same_geom_trans [OF resize_splits_frame(1) opt_detail_frame(1) [OF k]] .
    then obtain l' where "upd_split (focusIdx k) (pane_ensure_cursor Y) k = Inr l'" using ensure_cursor_total assms(1) ne by metis
    then show ?thesis by (simp add: k)
  qed
  show ?thesis
  proof (cases "EffectiveZoom l")
    case ZoomDetail
    have "3 \<le> ly_height l + statusBarHeight \<or> \<not> logMode l" using h5 by (auto simp: statusBarHeight_def)
    then obtain k where "(if rightVisible l then detail_SetSize Y (ly_width l) (ly_height l + statusBarHeight) l else Inr l) = Inr k"
      using sz [OF _ same_geom_refl assms(2)] by (cases "rightVisible l") auto
    then show ?thesis using ne ZoomDetail by (simp add: recalcSizes_def Let_def)
  next
    case ZoomSplit
    then show ?thesis using ne by (simp add: recalcSizes_def Let_def)
  next
    case ZoomNone
    have b: "3 \<le> snd (panelSizes l) \<or> \<not> logMode l" if "ly_orientation l = OrientationHorizontal" "rightVisible l"
      using that h5 by (auto simp: panelSizes_def Let_def)
    show ?thesis
    proof (cases "ly_orientation l = OrientationHorizontal")
      case True
      show ?thesis
      proof (cases "rightVisible l")
        case v: True
        show ?thesis using step [OF b [OF True v], of "ly_width l"] True ne ZoomNone
          by (simp add: recalcSizes_def Let_def case_prod_unfold del: go_bind_eq_Inr)
      next
        case v: False
        show ?thesis using step [of 3 0] True v ne ZoomNone
          by (simp add: recalcSizes_def Let_def case_prod_unfold del: go_bind_eq_Inr)
      qed
    next
      case False
      have "3 \<le> ly_height l \<or> \<not> logMode l" using h5 by auto
      from step [OF this, of "snd (panelSizes l)"] show ?thesis using False ne ZoomNone
        by (simp add: recalcSizes_def Let_def case_prod_unfold del: go_bind_eq_Inr)
    qed
  qed
qed (simp add: recalcSizes_def)

section \<open>Every operation returns\<close>

lemma lv_panel_ready [simp]:
  "lv_wf (lv_Focus lv) = lv_wf lv" "lv_wf (lv_Blur lv) = lv_wf lv" "lv_wf (lv_SetBorderless b lv) = lv_wf lv"
  "selection_ok (lv_Focus lv) = selection_ok lv" "selection_ok (lv_Blur lv) = selection_ok lv"
  "selection_ok (lv_SetBorderless b lv) = selection_ok lv"
  by (simp_all add: lv_Focus_def lv_Blur_def lv_SetBorderless_def selection_ok_def)

lemma detail_ready [simp]:
  "log_ready (detail_Focus l) = log_ready l" "log_ready (detail_Blur l) = log_ready l"
  "log_ready (detail_SetBorderless b l) = log_ready l"
  by (simp_all add: log_ready_def detail_Focus_def detail_Blur_def detail_SetBorderless_def on_detail_def)

lemma ready_fields [simp]:
  "log_ready (l\<lparr> splits := ps \<rparr>) = log_ready l" "log_ready (l\<lparr> focusIdx := i \<rparr>) = log_ready l"
  "log_ready (l\<lparr> focusTarget := t \<rparr>) = log_ready l" "log_ready (l\<lparr> splitZoomed := z \<rparr>) = log_ready l"
  "log_ready (l\<lparr> detailZoomed := z \<rparr>) = log_ready l" "log_ready (l\<lparr> rightVisible := z \<rparr>) = log_ready l"
  "log_ready (l\<lparr> ly_orientation := r \<rparr>) = log_ready l"
  by (simp_all add: log_ready_def)

definition ready :: "('v, 't) layout \<Rightarrow> bool" where
  "ready l \<longleftrightarrow> idx_ok l \<and> log_ready l"

text \<open>The steps that an operation takes before the sizes are recomputed.\<close>

lemma upd_ready:
  assumes "ready l" and "0 \<le> i" and "i < int (length (splits l))"
  shows "\<exists>l'. upd_split i f l = Inr l' \<and> same_geom l l' \<and> ready l'"
proof -
  have "same_geom l (l\<lparr> splits := (splits l)[nat i := x] \<rparr>)" for x by (simp add: same_geom_def)
  then show ?thesis using assms idx_ok_frame by (fastforce simp: upd_split_Inr ready_def)
qed

lemma reconcile_ready:
  assumes "ready l"
  shows "\<exists>l'. reconcileFocus Y l = Inr l' \<and> same_geom l l' \<and> ready l'"
proof (cases "splits l = []")
  case False
  have idx: "idx_ok l" using assms by (simp add: ready_def)
  have h: "same_geom l (l\<lparr> splits := handed Y p l \<rparr>)" for p by (simp add: same_geom_def handed_def)
  have g: "same_geom l (detail_Focus (l\<lparr> splits := handed Y p l \<rparr>))" "same_geom l (detail_Blur (l\<lparr> splits := handed Y p l \<rparr>))" for p
    unfolding detail_Focus_def detail_Blur_def by (rule same_geom_trans [OF h on_detail_frame(1)])+
  show ?thesis
    using reconcile_eq [OF idx False, of Y] g idx_ok_frame [OF g(1)] idx_ok_frame [OF g(2)] assms
    by (auto simp: Let_def ready_def)
qed (use assms in \<open>simp add: reconcileFocus_def\<close>)

lemma recalc_ready: "ready l \<Longrightarrow> \<exists>l'. recalcSizes Y l = Inr l'"
  by (simp add: ready_def recalcSizes_total)

lemma opt_upd_ready:
  assumes "ready l" and "b \<Longrightarrow> splits l \<noteq> []"
  shows "\<exists>l'. (if b then upd_split (focusIdx l) f l else Inr l) = Inr l' \<and> same_geom l l' \<and> ready l'"
  using assms upd_ready [OF assms(1), of "focusIdx l" f] by (cases b) (auto simp: ready_def idx_ok_def)

lemma move_flag_total:
  assumes "ready l" and "0 \<le> i" and "i < int (length (splits l))" and "0 \<le> k" and "k < int (length (splits l))"
  shows "\<exists>l'. moveBorderlessFlag Y i k l = Inr l'"
proof -
  obtain m where m: "upd_split i (pane_SetBorderless Y False) l = Inr m" "same_geom l m" "ready m"
    using upd_ready [OF assms(1-3)] by blast
  obtain q where "upd_split k (pane_SetBorderless Y True) m = Inr q" "ready q"
    using upd_ready [OF m(3), of k] assms(4,5) same_geomD(1) [OF m(2)] by auto
  then show ?thesis using m(1) recalc_ready [of q Y] by (simp add: moveBorderlessFlag_def)
qed

lemma refocus_total:
  assumes "ready l" and "0 \<le> i" and "i < int (length (splits l))"
  shows "\<exists>m. reconcileFocus Y (l\<lparr> focusTarget := FocusTargetResources, focusIdx := i \<rparr>) = Inr m \<and>
    (\<exists>l'. moveBorderlessFlag Y (focusIdx l) i m = Inr l')"
proof -
  let ?l1 = "l\<lparr> focusTarget := FocusTargetResources, focusIdx := i \<rparr>"
  have "ready ?l1" using assms by (auto simp: ready_def idx_ok_def)
  then obtain m where m: "reconcileFocus Y ?l1 = Inr m" "same_geom ?l1 m" "ready m" using reconcile_ready by blast
  have "0 \<le> focusIdx l" "focusIdx l < int (length (splits l))" using assms by (auto simp: ready_def idx_ok_def split: if_splits)
  then show ?thesis using m move_flag_total [OF m(3), of "focusIdx l" i Y] assms(2,3) same_geomD(1) [OF m(2)] by simp
qed

lemma focus_to_total:
  assumes "ready l" and "splits l \<noteq> [] \<Longrightarrow> 0 \<le> i \<and> i < int (length (splits l))"
  shows "\<exists>l'. focus_to Y i l = Inr l'"
  using refocus_total [OF assms(1), of i Y] assms(2) by (cases "splits l = []") (auto simp: focus_to_def)

lemma insert_split_total:
  assumes "ready l"
  shows "\<exists>l'. insert_split Y p l = Inr l'"
proof -
  obtain m where m: "(if splitZoomed l \<and> splits l \<noteq> [] then upd_split (focusIdx l) (pane_SetBorderless Y False) l else Inr l) = Inr m"
      "same_geom l m" "ready m"
    using opt_upd_ready [OF assms, of "splitZoomed l \<and> splits l \<noteq> []" "pane_SetBorderless Y False"] by blast
  define k where "k = (if splits m \<noteq> [] then focusIdx m + 1 else 0)"
  let ?q = "m\<lparr> splits := insert_at (nat k) p (splits m), focusIdx := k, focusTarget := FocusTargetResources \<rparr>"
  have k: "0 \<le> k" "k \<le> int (length (splits m))" using m(3) by (auto simp: k_def ready_def idx_ok_def)
  have ne: "insert_at (nat k) p (splits m) \<noteq> []" by (simp add: insert_at_def)
  then have "ready ?q" using m(3) k by (simp add: ready_def idx_ok_def)
  then obtain q where q: "reconcileFocus Y ?q = Inr q" "same_geom ?q q" "ready q" using reconcile_ready by blast
  have "splits q \<noteq> []" using same_geomD(11) [OF q(2)] ne by simp
  then obtain r where r: "(if splitZoomed q then upd_split (focusIdx q) (pane_SetBorderless Y True) q else Inr q) = Inr r" "ready r"
    using opt_upd_ready [OF q(3), of "splitZoomed q" "pane_SetBorderless Y True"] by blast
  have "insert_split Y p l = recalcSizes Y r"
    using k by (simp add: insert_split_def m(1) Let_def k_def [symmetric] q(1) r(1) del: go_bind_eq_Inr)
  then show ?thesis using recalc_ready [OF r(2)] by simp
qed

lemma CloseCurrentSplit_total:
  assumes "ready l"
  shows "\<exists>r. CloseCurrentSplit Y l = Inr r"
proof (cases "length (splits l) \<le> 1")
  case False
  define ss where "ss = remove_at (nat (focusIdx l)) (splits l)"
  define i where "i = (if focusIdx l \<ge> int (length ss) then int (length ss) - 1 else focusIdx l)"
  let ?q = "l\<lparr> splits := ss, focusIdx := i, focusTarget := FocusTargetResources \<rparr>"
  have idx: "0 \<le> focusIdx l" "focusIdx l < int (length (splits l))"
    using assms False by (auto simp: ready_def idx_ok_def split: if_splits)
  then have len: "length ss = length (splits l) - 1" by (simp add: ss_def nat_less_iff)
  have ne: "ss \<noteq> []" using len False by auto
  have "0 < length ss" using ne by simp
  then have "0 \<le> i" "i < int (length ss)" using idx len by (auto simp: i_def)
  then have "ready ?q" using assms ne by (simp add: ready_def idx_ok_def)
  then obtain q where q: "reconcileFocus Y ?q = Inr q" "same_geom ?q q" "ready q" using reconcile_ready by blast
  have "splits q \<noteq> []" using same_geomD(11) [OF q(2)] ne by simp
  then obtain r where r: "(if splitZoomed q then upd_split (focusIdx q) (pane_SetBorderless Y True) q else Inr q) = Inr r" "ready r"
    using opt_upd_ready [OF q(3), of "splitZoomed q" "pane_SetBorderless Y True"] by blast
  obtain l' where "recalcSizes Y r = Inr l'" using recalc_ready [OF r(2)] by blast
  then have "CloseCurrentSplit Y l = Inr (l', False)"
    using False idx by (simp add: CloseCurrentSplit_def Let_def ss_def [symmetric] i_def [symmetric] q(1) r(1) del: go_bind_eq_Inr)
  then show ?thesis by blast
qed (auto simp: CloseCurrentSplit_def)

lemma MoveFocusedSplit_total:
  assumes "ready l"
  shows "\<exists>l'. MoveFocusedSplit Y delta l = Inr l'"
proof -
  define t where "t = focusIdx l + delta"
  show ?thesis
  proof (cases "t < 0 \<or> t \<ge> int (length (splits l))")
    case False
    then have idx: "0 \<le> focusIdx l" "focusIdx l < int (length (splits l))"
      using assms by (auto simp: ready_def idx_ok_def split: if_splits)
    let ?q = "l\<lparr> focusTarget := FocusTargetResources,
      splits := (splits l)[nat (focusIdx l) := splits l ! nat t, nat t := splits l ! nat (focusIdx l)], focusIdx := t \<rparr>"
    have "splits l \<noteq> []" using idx by auto
    then have "ready ?q" using assms False by (simp add: ready_def idx_ok_def)
    then obtain q where "reconcileFocus Y ?q = Inr q" "ready q" using reconcile_ready by blast
    then show ?thesis
      using False idx recalc_ready [of q Y] by (simp add: MoveFocusedSplit_def Let_def t_def [symmetric] go_index_ok del: go_bind_eq_Inr)
  qed (simp add: MoveFocusedSplit_def Let_def t_def)
qed

lemma idx_fields [simp]:
  "idx_ok (l\<lparr> rightVisible := v \<rparr>) = idx_ok l" "idx_ok (l\<lparr> detailZoomed := v \<rparr>) = idx_ok l"
  "idx_ok (l\<lparr> ly_orientation := r \<rparr>) = idx_ok l" "idx_ok (l\<lparr> focusTarget := t \<rparr>) = idx_ok l"
  "idx_ok (detail_SetBorderless b l) = idx_ok l"
  by (simp_all add: idx_ok_def detail_SetBorderless_def on_detail_def)

lemma field_ready [simp]:
  "ready (l\<lparr> rightVisible := v \<rparr>) = ready l" "ready (l\<lparr> detailZoomed := v \<rparr>) = ready l"
  "ready (l\<lparr> ly_orientation := r \<rparr>) = ready l" "ready (l\<lparr> focusTarget := t \<rparr>) = ready l"
  "ready (detail_SetBorderless b l) = ready l"
  by (simp_all add: ready_def)

lemma zoom_ready:
  "ready l \<Longrightarrow> ready (l\<lparr> splitZoomed := False \<rparr>)" "splits l \<noteq> [] \<Longrightarrow> ready l \<Longrightarrow> ready (l\<lparr> splitZoomed := z \<rparr>)"
  by (simp_all add: ready_def idx_ok_def split: if_splits)

lemma retarget_total: "ready l \<Longrightarrow> \<exists>l'. reconcileFocus Y (l\<lparr> focusTarget := t \<rparr>) = Inr l'"
  using reconcile_ready [of "l\<lparr> focusTarget := t \<rparr>" Y] by auto

lemma HideRightPanel_total:
  assumes "ready l"
  shows "\<exists>l'. HideRightPanel Y l = Inr l'"
proof -
  define l1 where "l1 = (if detailZoomed l then detail_SetBorderless False l else l)"
  have "ready (l1\<lparr> detailZoomed := False, rightVisible := False, focusTarget := FocusTargetResources \<rparr>)"
    using assms by (simp add: l1_def)
  then obtain m where "reconcileFocus Y (l1\<lparr> detailZoomed := False, rightVisible := False, focusTarget := FocusTargetResources \<rparr>) = Inr m"
    "ready m" using reconcile_ready by blast
  then show ?thesis
    using recalc_ready [of m Y] unfolding HideRightPanel_def Let_def l1_def [symmetric] by (simp del: go_bind_eq_Inr)
qed

lemma ToggleZoomSplit_total:
  assumes "ready l"
  shows "\<exists>l'. ToggleZoomSplit Y l = Inr l'"
proof (cases "splits l = []")
  case False
  have step: "\<exists>l'. go_bind (upd_split (focusIdx (l\<lparr> splitZoomed := z \<rparr>)) (pane_SetBorderless Y z) (l\<lparr> splitZoomed := z \<rparr>))
      (recalcSizes Y) = Inr l'" for z
  proof -
    have "ready (l\<lparr> splitZoomed := z \<rparr>)" using zoom_ready(2) [OF False assms] .
    then obtain m where "upd_split (focusIdx (l\<lparr> splitZoomed := z \<rparr>)) (pane_SetBorderless Y z) (l\<lparr> splitZoomed := z \<rparr>) = Inr m" "ready m"
      using opt_upd_ready [of "l\<lparr> splitZoomed := z \<rparr>" True "pane_SetBorderless Y z"] False by auto
    then show ?thesis using recalc_ready [of m Y] by (simp del: go_bind_eq_Inr)
  qed
  have "length (splits l) \<ge> 1" using False by (cases "splits l") simp_all
  then show ?thesis
    using step [of True] step [of False] False by (simp add: ToggleZoomSplit_def Let_def del: go_bind_eq_Inr)
qed (use assms in \<open>simp add: ToggleZoomSplit_def ready_def idx_ok_def\<close>)

lemma UnzoomAll_total:
  assumes "ready l"
  shows "\<exists>l'. UnzoomAll Y l = Inr l'"
proof -
  define l1 where "l1 = (if detailZoomed l then detail_SetBorderless False l else l)"
  have "ready l1" using assms by (simp add: l1_def)
  then obtain m where m: "(if splitZoomed l1 \<and> splits l1 \<noteq> [] then upd_split (focusIdx l1) (pane_SetBorderless Y False) l1 else Inr l1) = Inr m"
    "ready m" using opt_upd_ready [of l1 "splitZoomed l1 \<and> splits l1 \<noteq> []"] by blast
  have "ready (m\<lparr> splitZoomed := False, detailZoomed := False \<rparr>)" using zoom_ready(1) [OF m(2)] by simp
  from recalc_ready [OF this, of Y] show ?thesis
    unfolding UnzoomAll_def Let_def l1_def [symmetric] m(1) by (simp del: go_bind_eq_Inr)
qed

text \<open>What an operation needs beyond the invariant: a log view that can be drawn where it is used.\<close>

fun op_fits :: "('v, 't) layout_op \<Rightarrow> ('v, 't) layout \<Rightarrow> bool" where
  "op_fits (OpResize w h) l = (logMode l \<longrightarrow> 6 \<le> h)"
| "op_fits (OpUpdateLog b) l = drawable (logView l)"
| "op_fits _ l = True"

lemma layout_exec_total:
  assumes "ready l" and "op_fits op l"
  shows "\<exists>l'. layout_exec Y op l = Inr l'"
proof (cases op)
  case (OpAddSplit p ns ctx)
  then show ?thesis using insert_split_total [OF assms(1)] by (simp add: AddSplit_def Let_def split: prod.splits)
next
  case (OpAddTerminal p)
  then show ?thesis using insert_split_total [OF assms(1)] by (simp add: AddTerminalSplit_def)
next
  case OpClose
  then show ?thesis using CloseCurrentSplit_total [OF assms(1), of Y] by auto
next
  case OpFocusNext
  then show ?thesis unfolding OpFocusNext layout_exec.simps FocusNext_def
    by (intro focus_to_total assms(1)) (use assms(1) in \<open>auto simp: ready_def idx_ok_def\<close>)
next
  case OpFocusPrev
  then show ?thesis unfolding OpFocusPrev layout_exec.simps FocusPrev_def
    by (intro focus_to_total assms(1)) (use assms(1) in \<open>auto simp: ready_def idx_ok_def\<close>)
next
  case (OpFocusSplitAt i)
  then show ?thesis using refocus_total [OF assms(1), of i Y] by (auto simp: FocusSplitAt_def)
next
  case (OpMove d)
  then show ?thesis using MoveFocusedSplit_total [OF assms(1)] by simp
next
  case (OpResize w h)
  have "ready (l\<lparr> ly_width := w, ly_height := h - statusBarHeight \<rparr>)"
    using assms OpResize by (auto simp: ready_def idx_ok_def log_ready_def statusBarHeight_def)
  then show ?thesis using recalc_ready OpResize by (simp add: ly_Resize_def)
next
  case (OpUpdateSplit f)
  then show ?thesis using opt_upd_ready [OF assms(1), of "splits l \<noteq> []" "pane_Update Y f"] by (auto simp: UpdateFocusedSplit_def)
next
  case (OpUpdateLog b)
  then show ?thesis using lv_Update_total [of "logView l" "tui_text (ye_view Y)" b] assms(2) by (auto simp: UpdateLogView_def)
qed (use assms(1) retarget_total [of l Y] recalc_ready [of _ Y] HideRightPanel_total [of l Y] ToggleZoomSplit_total [of l Y]
      UnzoomAll_total [of l Y] in \<open>auto simp: FocusDetails_def FocusResources_def ShowRightPanel_def ToggleZoomDetail_def
      ToggleOrientation_def\<close>)

section \<open>Whatever the caller does\<close>

text \<open>The part of the invariant that says nothing of the detail panels' own flags.\<close>

definition layout_core :: "('v, 't) layout \<Rightarrow> bool" where
  "layout_core l \<longleftrightarrow> idx_ok l \<and> map pane_borderless (splits l) = flags l \<and> (detailZoomed l \<longrightarrow> rightVisible l) \<and>
     target_ok l \<and> cursor_ok l \<and> geom_ok l"

lemma layout_wf_core: "layout_wf l \<longleftrightarrow> layout_core l \<and> (\<forall>b. detail_borderless b l \<longleftrightarrow> b = logMode l \<and> detailZoomed l) \<and> detail_focus_ok l"
  by (auto simp: layout_wf_def layout_core_def zoom_ok_def focus_ok_def)

text \<open>A layout and its detail_twin differ in the two detail panels only; the log view of the detail_twin can be drawn in any size.\<close>

definition idle_log :: "log_view \<Rightarrow> bool" where
  "idle_log lv \<longleftrightarrow> \<not> lv_softWrap lv \<and> \<not> filtering lv \<and> \<not> ss_Active (lv_searchState lv)"

definition detail_twin :: "('v, 't) layout \<Rightarrow> ('v, 't) layout \<Rightarrow> bool" where
  "detail_twin l m \<longleftrightarrow> splits m = splits l \<and> paneRects m = paneRects l \<and> same_geom l m \<and> idle_log (logView m)"

definition simulated :: "('v, 't) layout go \<Rightarrow> ('v, 't) layout go \<Rightarrow> bool" where
  "simulated r s \<longleftrightarrow> (\<forall>l. r = Inr l \<longrightarrow> (\<exists>m. s = Inr m \<and> detail_twin l m))"

lemma sim_Inr [intro]: "detail_twin l m \<Longrightarrow> simulated (Inr l) (Inr m)"
  by (simp add: simulated_def)

lemma sim_Inl [intro]: "simulated (Inl e) s"
  by (simp add: simulated_def)

lemma sim_bind [intro]:
  assumes "simulated r s" and "\<And>l m. detail_twin l m \<Longrightarrow> simulated (f l) (g m)"
  shows "simulated (go_bind r f) (go_bind s g)"
  using assms by (fastforce simp: simulated_def)

lemma idle_SetSize: "idle_log lv \<Longrightarrow> \<exists>lv'. lv_SetSize A w h lv = Inr lv' \<and> idle_log lv'"
proof -
  have draw: "\<exists>lv'. updateViewport A x = Inr lv'" if "idle_log x" for x
    using that by (cases "uv_range (clampScrollOffset x)")
      (simp add: idle_log_def updateViewport_def updateViewport_plain_def uv_window_def uv_highlight_def clampScrollOffset_def Let_def)
  have keep: "idle_log lv'" if "updateViewport A x = Inr lv'" "idle_log x" for x lv'
    by (subst updateViewport_frame [OF that(1)]) (use that(2) in \<open>simp add: idle_log_def redraw_def\<close>)
  assume i: "idle_log lv"
  obtain x where x: "lv_SetSize A w h lv = updateViewport A x" "idle_log x"
  proof
    show "lv_SetSize A w h lv = updateViewport A (lv\<lparr> lv_width := w, lv_height := h,
        logVP := (if lv_borderless lv then vp_SetSize w (if lv_showHeader lv then h - 1 else h) (logVP lv)
          else vp_SetSize (w - 2) (h - 2) (logVP lv)) \<rparr>)"
      using i by (simp add: lv_SetSize_def idle_log_def)
  qed (use i in \<open>simp add: idle_log_def\<close>)
  then show ?thesis using draw keep by metis
qed

lemma twin_fields:
  assumes "detail_twin l m"
  shows "splits m = splits l" "focusIdx m = focusIdx l" "rightVisible m = rightVisible l" "focusTarget m = focusTarget l"
    "splitZoomed m = splitZoomed l" "detailZoomed m = detailZoomed l" "ly_orientation m = ly_orientation l"
    "ly_width m = ly_width l" "ly_height m = ly_height l" "logMode m = logMode l" "paneRects m = paneRects l"
    "same_geom l m"
  using assms by (simp_all add: detail_twin_def same_geom_def)

lemma twin_geom:
  assumes "detail_twin l m"
  shows "EffectiveZoom m = EffectiveZoom l" "panelSizes m = panelSizes l" "pane_rects m = pane_rects l"
    "splitDimensions n m = splitDimensions n l"
  using EffectiveZoom_frame [OF twin_fields(12) [OF assms]] panelSizes_frame [OF twin_fields(12) [OF assms]]
    rects_frame [OF twin_fields(12) [OF assms]] by (simp_all add: splitDimensions_def twin_fields [OF assms])

lemmas detail_twins = twin_fields twin_geom

lemma twin_upd [intro]:
  assumes "detail_twin l m"
  shows "detail_twin (l\<lparr> splits := ps \<rparr>) (m\<lparr> splits := ps \<rparr>)" "detail_twin (l\<lparr> focusIdx := i \<rparr>) (m\<lparr> focusIdx := i \<rparr>)"
    "detail_twin (l\<lparr> rightVisible := b \<rparr>) (m\<lparr> rightVisible := b \<rparr>)" "detail_twin (l\<lparr> focusTarget := t \<rparr>) (m\<lparr> focusTarget := t \<rparr>)"
    "detail_twin (l\<lparr> splitZoomed := b \<rparr>) (m\<lparr> splitZoomed := b \<rparr>)" "detail_twin (l\<lparr> detailZoomed := b \<rparr>) (m\<lparr> detailZoomed := b \<rparr>)"
    "detail_twin (l\<lparr> ly_orientation := r \<rparr>) (m\<lparr> ly_orientation := r \<rparr>)" "detail_twin (l\<lparr> ly_width := w \<rparr>) (m\<lparr> ly_width := w \<rparr>)"
    "detail_twin (l\<lparr> ly_height := w \<rparr>) (m\<lparr> ly_height := w \<rparr>)" "detail_twin (l\<lparr> paneRects := rs \<rparr>) (m\<lparr> paneRects := rs \<rparr>)"
    "detail_twin (rebuildPaneRects l) (rebuildPaneRects m)"
  using assms twin_geom(3) [OF assms] by (simp_all add: detail_twin_def same_geom_def rebuildPaneRects_def)

lemma twin_detail [intro]:
  assumes "detail_twin l m"
  shows "detail_twin (detail_Focus l) (detail_Focus m)" "detail_twin (detail_Blur l) (detail_Blur m)"
    "detail_twin (detail_SetBorderless b l) (detail_SetBorderless b m)" "detail_twin (resize_splits Y w h l) (resize_splits Y w h m)"
  using assms
  by (auto simp: detail_twin_def same_geom_def detail_Focus_def detail_Blur_def detail_SetBorderless_def on_detail_def resize_splits_def
      idle_log_def lv_Focus_def lv_Blur_def lv_SetBorderless_def)

lemma sim_upd [intro]: "detail_twin l m \<Longrightarrow> simulated (upd_split i f l) (upd_split i f m)"
  by (simp add: upd_split_def twin_fields go_index_def sim_Inl sim_Inr twin_upd)

lemma sim_at_focus [intro]: "detail_twin l m \<Longrightarrow> simulated (upd_split (focusIdx l) f l) (upd_split (focusIdx m) f m)"
  using sim_upd twin_fields(2) by metis

lemma sim_SetSize [intro]:
  assumes "detail_twin l m"
  shows "simulated (detail_SetSize Y w h l) (detail_SetSize Y w h m)"
proof -
  obtain lv' where "lv_SetSize (tui_text (ye_view Y)) w h (logView m) = Inr lv'" "idle_log lv'"
    using idle_SetSize assms unfolding detail_twin_def by blast
  then show ?thesis using assms by (auto simp: detail_SetSize_def simulated_def detail_twin_def same_geom_def)
qed

lemma sim_if [intro]: "(b \<Longrightarrow> simulated r s) \<Longrightarrow> (\<not> b \<Longrightarrow> simulated r' s') \<Longrightarrow> simulated (if b then r else r') (if b then s else s')"
  by simp

lemma sim_recalc [intro]: "detail_twin l m \<Longrightarrow> simulated (recalcSizes Y l) (recalcSizes Y m)"
  unfolding recalcSizes_def Let_def
  by (simp only: detail_twins case_prod_unfold cong: if_cong)
    (auto simp: detail_twins simp del: go_bind_eq_Inr split: zoom_mode.split intro!: sim_bind sim_Inr sim_if sim_SetSize sim_at_focus twin_detail twin_upd)

lemma sim_reconcile [intro]: "detail_twin l m \<Longrightarrow> simulated (reconcileFocus Y l) (reconcileFocus Y m)"
  unfolding reconcileFocus_def Let_def
  by (auto simp: twin_fields simp del: go_bind_eq_Inr intro!: sim_bind sim_Inr sim_if sim_upd twin_detail twin_upd)

lemma sim_move [intro]: "detail_twin l m \<Longrightarrow> simulated (moveBorderlessFlag Y i k l) (moveBorderlessFlag Y i k m)"
  unfolding moveBorderlessFlag_def
  by (auto simp: twin_fields simp del: go_bind_eq_Inr intro!: sim_bind sim_Inr sim_upd sim_recalc)

lemma sim_focus_to [intro]: "detail_twin l m \<Longrightarrow> simulated (focus_to Y i l) (focus_to Y i m)"
  unfolding focus_to_def
  by (auto simp: twin_fields simp del: go_bind_eq_Inr intro!: sim_bind sim_Inr sim_reconcile sim_move twin_upd)

lemma sim_insert [intro]: "detail_twin l m \<Longrightarrow> simulated (insert_split Y p l) (insert_split Y p m)"
  unfolding insert_split_def Let_def
  by (auto simp: twin_fields simp del: go_bind_eq_Inr intro!: sim_bind sim_Inr sim_Inl sim_upd sim_reconcile sim_recalc twin_upd)

lemma sim_close [intro]:
  assumes "detail_twin l m"
  shows "simulated (go_bind (CloseCurrentSplit Y l) (\<lambda>r. Inr (fst r))) (go_bind (CloseCurrentSplit Y m) (\<lambda>r. Inr (fst r)))"
proof -
  define close where "close = (\<lambda>l. if length (splits l) \<le> 1 then Inr l
      else if focusIdx l < 0 \<or> focusIdx l \<ge> int (length (splits l)) then Inl SliceOutOfRange
      else let ss = remove_at (nat (focusIdx l)) (splits l);
               i = (if focusIdx l \<ge> int (length ss) then int (length ss) - 1 else focusIdx l)
           in go_bind (reconcileFocus Y (l\<lparr> splits := ss, focusIdx := i, focusTarget := FocusTargetResources \<rparr>))
             (\<lambda>l1. go_bind (if splitZoomed l1 then upd_split (focusIdx l1) (pane_SetBorderless Y True) l1 else Inr l1)
               (recalcSizes Y)))"
  have "go_bind (CloseCurrentSplit Y l) (\<lambda>r. Inr (fst r)) = close l" for l
    by (simp add: CloseCurrentSplit_def close_def Let_def) (simp add: go_bind_def split: sum.split)
  moreover have "simulated (close l) (close m)"
  proof -
    define ss where "ss = remove_at (nat (focusIdx l)) (splits l)"
    define i where "i = (if focusIdx l \<ge> int (length ss) then int (length ss) - 1 else focusIdx l)"
    have "detail_twin (l\<lparr> splits := ss, focusIdx := i, focusTarget := FocusTargetResources \<rparr>)
        (m\<lparr> splits := ss, focusIdx := i, focusTarget := FocusTargetResources \<rparr>)"
      using assms by (intro twin_upd)
    then show ?thesis
      unfolding close_def Let_def twin_fields [OF assms] ss_def [symmetric] i_def [symmetric]
      by (auto simp: twin_fields simp del: go_bind_eq_Inr intro!: sim_bind sim_Inr sim_Inl sim_upd sim_reconcile sim_recalc assms)
  qed
  ultimately show ?thesis by simp
qed

lemma sim_exec:
  assumes "detail_twin l m" and "\<nexists>on. op = OpSetLogMode on" and "\<nexists>b. op = OpUpdateLog b"
  shows "simulated (layout_exec Y op l) (layout_exec Y op m)"
proof (cases op)
  case OpHide
  then show ?thesis using assms(1)
    by (auto simp: HideRightPanel_def Let_def twin_fields simp del: go_bind_eq_Inr
        intro!: sim_bind sim_reconcile sim_recalc twin_upd twin_detail)
next
  case OpUnzoom
  have z: "simulated (go_bind (if splitZoomed a \<and> splits a \<noteq> [] then upd_split (focusIdx a) (pane_SetBorderless Y False) a else Inr a)
        (\<lambda>l2. recalcSizes Y (l2\<lparr> splitZoomed := False, detailZoomed := False \<rparr>)))
      (go_bind (if splitZoomed b \<and> splits b \<noteq> [] then upd_split (focusIdx b) (pane_SetBorderless Y False) b else Inr b)
        (\<lambda>l2. recalcSizes Y (l2\<lparr> splitZoomed := False, detailZoomed := False \<rparr>)))" if "detail_twin a b" for a b
    using that by (auto simp: twin_fields simp del: go_bind_eq_Inr intro!: sim_bind sim_Inr sim_upd sim_recalc twin_upd)
  have "detail_twin (if detailZoomed l then detail_SetBorderless False l else l) (if detailZoomed m then detail_SetBorderless False m else m)"
    using assms(1) by (auto simp: twin_fields)
  from z [OF this] show ?thesis unfolding OpUnzoom layout_exec.simps UnzoomAll_def Let_def .
next
  case (OpUpdatePanel tick f)
  then show ?thesis using assms(1) by (auto simp: UpdateRightPanel_def detail_twin_def same_geom_def)
next
  case (OpMove d)
  then show ?thesis using assms(1)
    by (auto simp: MoveFocusedSplit_def Let_def twin_fields go_index_def simp del: go_bind_eq_Inr
        intro!: sim_bind sim_Inr sim_Inl sim_reconcile sim_recalc twin_upd)
qed (use assms in \<open>auto simp: AddSplit_def AddTerminalSplit_def FocusNext_def FocusPrev_def FocusSplitAt_def FocusDetails_def
      FocusResources_def ShowRightPanel_def ToggleZoomSplit_def ToggleZoomDetail_def UnzoomAll_def ToggleOrientation_def
      ly_Resize_def UpdateSplitObjects_def UpdateFocusedSplit_def Let_def detail_twins case_prod_unfold simp del: go_bind_eq_Inr
      intro!: sim_bind sim_Inr sim_insert sim_focus_to sim_reconcile sim_move sim_recalc sim_upd sim_close twin_upd twin_detail\<close>)

lemma core_frame:
  assumes "same_geom l m" and "splits m = splits l" and "paneRects m = paneRects l"
  shows "layout_core m = layout_core l"
  using idx_ok_frame [OF assms(1)] split_sizes_frame [OF assms(1)] rects_frame [OF assms(1)]
  by (simp add: layout_core_def flags_def target_ok_def cursor_ok_def geom_ok_def same_geomD [OF assms(1)] assms(2,3))

lemma core_twin: "detail_twin l m \<Longrightarrow> layout_core m = layout_core l"
  by (rule core_frame) (simp_all add: detail_twin_def)

text \<open>The detail_twin whose panels have the flags that the invariant asks for.\<close>

definition repaired :: "('v, 't) layout \<Rightarrow> ('v, 't) layout" where
  "repaired l = l\<lparr>
     rightPanel := (rightPanel l)\<lparr> dv_focused := \<not> logMode l \<and> focusTarget l = FocusTargetDetails,
       dv_borderless := \<not> logMode l \<and> detailZoomed l \<rparr>,
     logView := (NewLogView id '''' '''' 0 0 0 '''' 0)\<lparr> lv_focused := logMode l \<and> focusTarget l = FocusTargetDetails,
       lv_borderless := logMode l \<and> detailZoomed l \<rparr> \<rparr>"

lemma repair_twin: "detail_twin l (repaired l)"
  by (simp add: detail_twin_def repaired_def same_geom_def idle_log_def NewLogView_def zero_search_def ss_Active_def)

lemma repair_wf: "layout_core l \<Longrightarrow> layout_wf (repaired l)"
proof -
  assume "layout_core l"
  then have "layout_core (repaired l)" using core_twin [OF repair_twin] by blast
  then show ?thesis
    by (simp add: layout_wf_core) (simp add: detail_borderless_def detail_focus_ok_def detail_focused_def repaired_def)
qed

lemma SetLogMode_core:
  assumes "layout_core l"
  shows "layout_core (SetLogMode on l)"
proof -
  let ?l = "l\<lparr> logMode := on \<rparr>"
  have g: "same_geom ?l (SetLogMode on l)" by (simp add: SetLogMode_def rebuildPaneRects_def same_geom_def)
  have f: "splits (SetLogMode on l) = splits l" "paneRects (SetLogMode on l) = pane_rects ?l"
    by (simp_all add: SetLogMode_def rebuildPaneRects_def)
  have s: "split_sizes ?l = split_sizes l"
    by (simp add: split_sizes_def EffectiveZoom_def panelSizes_def Let_def)
  show ?thesis
    using assms same_geomD [OF g] rects_frame [OF g] split_sizes_frame [OF g]
    by (simp add: layout_core_def idx_ok_def flags_def target_ok_def cursor_ok_def geom_ok_def f s)
qed

lemma exec_core:
  assumes "layout_core l" and "\<And>p. op = OpAddTerminal p \<Longrightarrow> \<not> pane_borderless p" and "layout_exec Y op l = Inr l'"
  shows "layout_core l'"
proof (cases "(\<exists>on. op = OpSetLogMode on) \<or> (\<exists>b. op = OpUpdateLog b)")
  case True
  have "layout_core (l\<lparr> logView := lv \<rparr>) = layout_core l" for lv
    by (rule core_frame) (simp_all add: same_geom_def)
  then show ?thesis
    using True assms SetLogMode_core by (auto simp: UpdateLogView_def)
next
  case False
  then have "simulated (layout_exec Y op l) (layout_exec Y op (repaired l))" using sim_exec [OF repair_twin] by blast
  then obtain m where m: "layout_exec Y op (repaired l) = Inr m" "detail_twin l' m" using assms(3) by (auto simp: simulated_def)
  have "op_safe op (repaired l)" using False assms(2) by (cases op) simp_all
  then have "layout_wf m" using layout_exec_wf [OF repair_wf [OF assms(1)] _ m(1)] by blast
  then show ?thesis using core_twin [OF m(2)] by (simp add: layout_wf_core)
qed

lemma run_core:
  "layout_core l \<Longrightarrow> (\<And>p. OpAddTerminal p \<in> set ops \<Longrightarrow> \<not> pane_borderless p) \<Longrightarrow> layout_run Y ops l = Inr l' \<Longrightarrow> layout_core l'"
proof (induction ops arbitrary: l)
  case (Cons op ops)
  then obtain m where m: "layout_exec Y op l = Inr m" "layout_run Y ops m = Inr l'" by auto
  then have "layout_core m" using Cons.prems(1,2) exec_core [of l op Y m] by auto
  then show ?case using Cons m by auto
qed simp

end
