(* ===== verification/Terminal_Pane_Props.thy ===== *)
theory Terminal_Pane_Props
  imports Terminal_Pane
begin

text \<open>
  What the terminal pane promises: which keys reach the shell, what the scrolled-back screen
  shows, and that the shell's screen fits the pane.
\<close>

section \<open>A concrete emulator\<close>

text \<open>A grid without escape sequences: the lines written, of which the last \<open>h\<close> are on screen.\<close>

record plain_vt =
  pt_lines :: "string list"
  pt_height :: int
  pt_max :: int

definition pt_scrolled :: "plain_vt \<Rightarrow> nat" where
  "pt_scrolled t = length (pt_lines t) - nat (pt_height t)"

definition plain_vt_api :: "plain_vt vt_api" where
  "plain_vt_api = \<lparr> vt_New = (\<lambda>w h. \<lparr> pt_lines = [], pt_height = h, pt_max = 100 \<rparr>),
     vt_Write = (\<lambda>p t. (t\<lparr> pt_lines := pt_lines t @ split_lines p \<rparr>, [], int (length p), True)),
     vt_Resize = (\<lambda>w h t. t\<lparr> pt_height := h \<rparr>),
     vt_Render = (\<lambda>t. join_lines (lastn (nat (pt_height t)) (pt_lines t))),
     vt_Height = pt_height, vt_CursorPosition = (\<lambda>t. (0, pt_height t - 1)),
     vt_SetScrollbackSize = (\<lambda>n t. t\<lparr> pt_max := n \<rparr>),
     vt_ScrollbackLen = (\<lambda>t. int (pt_scrolled t)), vt_Line = (\<lambda>i t. pt_lines t ! nat i) \<rparr>"

definition demo_shell :: "plain_vt terminal_pane" where
  "demo_shell = fst (tp_Write plain_vt_api ''a\<newline>b\<newline>c\<newline>d'' (NewTerminalPane plain_vt_api ''sh'' ''ctx'' 10 4))"

definition demo_key :: "nat \<Rightarrow> key" where
  "demo_key c = \<lparr> key_Text = [char_of c], ModAlt = False, ModCtrl = False, ModOther = False, key_Code = Rune c \<rparr>"

section \<open>Keys\<close>

text \<open>A run of key presses: the final pane, the bytes sent to the shell and the commands reported.\<close>

fun press_keys :: "(key \<Rightarrow> string) \<Rightarrow> string \<Rightarrow> (string \<Rightarrow> bool) option \<Rightarrow> key list \<Rightarrow> 't terminal_pane \<Rightarrow>
    't terminal_pane \<times> string \<times> pane_command list" where
  "press_keys str prefix cap [] t = (t, [], [])"
| "press_keys str prefix cap (k # ks) t =
     (let (t1, handled, b, c) = HandleKey str prefix cap k t; (t2, bs, cs) = press_keys str prefix cap ks t1
      in (t2, b @ bs, (if c = PaneCmdNone then [] else [c]) @ cs))"

text \<open>The meaning of the keys typed: a prefix takes the next key with it.\<close>

fun shell_input :: "(key \<Rightarrow> string) \<Rightarrow> string \<Rightarrow> (string \<Rightarrow> bool) option \<Rightarrow> key list \<Rightarrow> string \<times> pane_command list" where
  "shell_input str prefix cap [] = ([], [])"
| "shell_input str prefix cap [k] =
     (if str k = prefix \<or> captured cap (str k) then ([], []) else (encodeKey k, []))"
| "shell_input str prefix cap (k # k2 # ks) =
     (if str k = prefix
      then let (bs, cs) = shell_input str prefix cap ks
           in if str k2 = prefix then (encodeKey k2 @ bs, cs)
              else (bs, filter (\<lambda>c. c \<noteq> PaneCmdNone) [nav_command (str k2)] @ cs)
      else let (bs, cs) = shell_input str prefix cap (k2 # ks)
           in (if captured cap (str k) then bs else encodeKey k @ bs, cs))"

lemma HandleKey_live:
  assumes "\<not> exited t" and "tp_mode t = modeTyping"
  shows "HandleKey str prefix cap k t =
    (if str k = prefix then (t\<lparr> tp_mode := modeNav \<rparr>, True, [], PaneCmdNone)
     else if captured cap (str k) then (t, False, [], PaneCmdNone)
     else (t\<lparr> tp_scrollOffset := 0 \<rparr>, True, encodeKey k, PaneCmdNone))"
  using assms by (simp add: HandleKey_def Let_def)

lemma HandleKey_nav:
  "\<not> exited t \<Longrightarrow> tp_mode t = modeNav \<Longrightarrow> HandleKey str prefix cap k t =
     (t\<lparr> tp_mode := modeTyping \<rparr>, True, if str k = prefix then encodeKey k else [],
      if str k = prefix then PaneCmdNone else nav_command (str k))"
  by (simp add: HandleKey_def Let_def)

lemma press_keys_meaning:
  assumes "\<not> exited t" and "tp_mode t = modeTyping"
  shows "snd (press_keys str prefix cap ks t) = shell_input str prefix cap ks"
  using assms
proof (induction str prefix cap ks arbitrary: t rule: shell_input.induct)
  case (3 str prefix cap k k2 ks)
  show ?case
  proof (cases "str k = prefix")
    case True
    then show ?thesis
      using "3.IH"(1) [OF True, of "t\<lparr> tp_mode := modeTyping \<rparr>"] "3.prems"
      by (auto simp: HandleKey_live HandleKey_nav case_prod_unfold Let_def intro: prod_eqI)
  next
    case False
    let ?t = "fst (HandleKey str prefix cap k t)"
    have t: "\<not> exited ?t" "tp_mode ?t = modeTyping" using False "3.prems" by (auto simp: HandleKey_live)
    have "press_keys str prefix cap (k # k2 # ks) t = (let (t1, h, b, c) = HandleKey str prefix cap k t;
        (t2, bs, cs) = press_keys str prefix cap (k2 # ks) t1
      in (t2, b @ bs, (if c = PaneCmdNone then [] else [c]) @ cs))" by (rule press_keys.simps(2))
    then show ?thesis
      using "3.IH"(2) [OF False t] False "3.prems"
      by (auto simp: HandleKey_live case_prod_unfold Let_def simp del: press_keys.simps intro: prod_eqI)
  qed
qed (auto simp: HandleKey_live)

lemma press_keys_exited:
  "exited t \<Longrightarrow> press_keys str prefix cap ks t = (t, [], [])"
  by (induction ks) (simp_all add: HandleKey_def)

text \<open>What a live pane sends to its shell is determined by the keys alone: every key outside
  the captured ones in its encoding, except that the prefix takes the next key with it, which is
  the literal prefix when it is the prefix again and otherwise one pane command and no byte. A
  dead shell receives nothing.\<close>

theorem terminal_keys_meaning:
  assumes "tp_mode t = modeTyping"
  shows "snd (press_keys str prefix cap ks t) = (if exited t then ([], []) else shell_input str prefix cap ks)"
  using press_keys_meaning press_keys_exited assms by (metis snd_conv)

theorem terminal_keys_meaning_witness:
  "snd (press_keys key_Text ''p'' None (map demo_key [97, 112, 107, 112, 112, 98]) demo_shell) =
     (''apb'', [PaneCmdFocusUp])"
proof -
  have live: "tp_mode demo_shell = modeTyping" "\<not> exited demo_shell" by code_simp+
  define ks where "ks = map demo_key [97, 112, 107, 112, 112, 98]"
  have "snd (press_keys key_Text ''p'' None ks demo_shell) = shell_input key_Text ''p'' None ks"
    using terminal_keys_meaning [OF live(1), of key_Text "''p''" None ks] live(2) by simp
  also have "\<dots> = (''apb'', [PaneCmdFocusUp])" unfolding ks_def by code_simp
  finally show ?thesis unfolding ks_def .
qed

text \<open>Alt sends escape: a key that sends bytes sends with Alt the escape byte followed by the
  same bytes, whatever else it is combined with.\<close>

theorem encodeKey_meta:
  assumes "\<not> ModAlt k" and "encodeKey k \<noteq> []"
  shows "encodeKey (k\<lparr> ModAlt := True \<rparr>) = CHR 0x1B # encodeKey k"
proof -
  have k: "k\<lparr> ModAlt := False \<rparr> = k" "encodeKey k = encode_plain k" using assms(1) by (simp_all add: encodeKey_def)
  have "encode_plain (k\<lparr> key_Text := s \<rparr>) = encode_plain k"
    if "key_Text k = ''''" "\<not> ModCtrl k" for s
    using assms(2) that unfolding k(2) by (auto simp: encode_plain_def split: option.splits)
  then show ?thesis using assms(2) k by (auto simp: encodeKey_def Let_def split: option.splits)
qed

theorem encodeKey_meta_witness:
  "encodeKey ((demo_key 98)\<lparr> ModAlt := True \<rparr>) = CHR 0x1B # ''b''"
proof -
  have "encodeKey (demo_key 98) = ''b''" by code_simp
  then show ?thesis using encodeKey_meta [of "demo_key 98"] by (simp add: demo_key_def)
qed

section \<open>Screen\<close>

text \<open>C31. Scrolled back by \<open>off\<close> lines, and never past the oldest line kept, the pane shows the lines
  of history and screen that end \<open>off\<close> lines above the end, as many as the screen has; rendering
  indexes no line that does not exist.\<close>

theorem terminal_scrollback_window:
  assumes "0 < tp_scrollOffset t" and "0 < ScrollbackLen V (tp_emu t)" and "\<not> exited t"
  shows "term_content V trunc dim t = Inr (join_lines (history_window V (tp_scrollOffset t) (em_term (tp_emu t))))"
  using assms RenderViewport_window by (simp add: term_content_def ScrollbackLen_def)

theorem terminal_scrollback_window_witness:
  "term_content plain_vt_api (\<lambda>s n. s) (\<lambda>s. s) (tp_ScrollUp plain_vt_api 1 demo_shell) = Inr ''b\<newline>c''"
proof -
  define t where "t = tp_ScrollUp plain_vt_api 1 demo_shell"
  have o: "tp_scrollOffset t = 1" "\<not> exited t" unfolding t_def by code_simp+
  have "0 < ScrollbackLen plain_vt_api (tp_emu t)" unfolding t_def by code_simp
  then have "term_content plain_vt_api (\<lambda>s n. s) (\<lambda>s. s) t =
      Inr (join_lines (history_window plain_vt_api 1 (em_term (tp_emu t))))"
    using terminal_scrollback_window [of t plain_vt_api "\<lambda>s n. s" "\<lambda>s. s"] o by simp
  also have "join_lines (history_window plain_vt_api 1 (em_term (tp_emu t))) = ''b\<newline>c''"
    unfolding t_def by code_simp
  finally show ?thesis unfolding t_def .
qed

text \<open>Scrolling stays within the history: after scrolling up the offset is at most the number of
  lines kept, after scrolling down it is not negative, and scrolling down as far as one has
  scrolled up without reaching the oldest line returns to where one was.\<close>

theorem terminal_scroll_bounds:
  assumes "0 \<le> tp_scrollOffset t" and "tp_scrollOffset t \<le> ScrollbackLen V (tp_emu t)"
  shows "0 \<le> tp_scrollOffset (tp_ScrollUp V n t) \<and>
    tp_scrollOffset (tp_ScrollUp V n t) \<le> ScrollbackLen V (tp_emu (tp_ScrollUp V n t)) \<and>
    0 \<le> tp_scrollOffset (tp_ScrollDown n t) \<and>
    tp_scrollOffset (tp_ScrollDown n t) \<le> ScrollbackLen V (tp_emu (tp_ScrollDown n t)) \<and>
    (tp_scrollOffset t + n \<le> ScrollbackLen V (tp_emu t) \<longrightarrow> tp_ScrollDown n (tp_ScrollUp V n t) = t)"
  using assms by (simp add: tp_ScrollUp_def tp_ScrollDown_def Let_def)

theorem terminal_scroll_bounds_witness:
  "tp_ScrollDown 2 (tp_ScrollUp plain_vt_api 2 demo_shell) = demo_shell"
proof -
  have "tp_scrollOffset demo_shell = 0" "ScrollbackLen plain_vt_api (tp_emu demo_shell) = 2" by code_simp+
  then show ?thesis using terminal_scroll_bounds [of demo_shell plain_vt_api 2] by simp
qed

text \<open>The shell's screen fits the pane: with room for its chrome, the content offset and the inner
  size add up to the outer size less the border on the other side, with the same number of lines
  and columns the emulator is resized to.\<close>

theorem terminal_content_fits:
  assumes "0 < w" and "0 < h" and "\<not> b \<longrightarrow> 2 < w \<and> 2 < h" and "b \<longrightarrow> 1 < h"
  shows "let t = tp_SetSize V w h (tp_SetBorderless V b t0); (dx, dy) = ContentOffset t; (iw, ih) = InnerSize t in
    dx + iw + (if b then 0 else 1) = w \<and> dy + ih + (if b then 0 else 1) = h \<and>
    em_term (tp_emu t) = vt_Resize V iw ih (em_term (tp_emu (tp_SetBorderless V b t0)))"
  using assms
  by (auto simp: tp_SetSize_def tp_SetBorderless_def resize_emu_def ContentOffset_def InnerSize_def innerDims_def
      innerSize_def borderChrome_def em_Resize_def Let_def)

theorem terminal_content_fits_witness:
  "InnerSize (tp_SetSize plain_vt_api 80 24 (tp_SetBorderless plain_vt_api True demo_shell)) = (80, 23)"
  using terminal_content_fits [of 80 24 True plain_vt_api demo_shell]
  by (simp add: Let_def ContentOffset_def tp_SetSize_def tp_SetBorderless_def resize_emu_def case_prod_unfold prod_eq_iff)

end
