(* ===== verification/Layout_Props.thy ===== *)
theory Layout_Props
  imports Layout_Total Detail_View_Props Terminal_Pane_Props
begin

text \<open>
  What the layout promises: one focused pane, a zoom that follows it, rectangles that tile the
  screen and agree with the sizes of the panes, and updates that reach the right panes only.
\<close>

section \<open>A concrete layout\<close>

definition demo_layout_env :: "(plain_vp, plain_vt) layout_env" where
  "demo_layout_env = \<lparr> pe_list = demo_list_env, pe_vt = plain_vt_api, ye_view = plain_view \<rparr>"

definition demo_log :: log_view where
  "demo_log = NewLogView (\<lambda>s. s) '''' '''' 0 20 10 ''15m'' 900"

definition demo_layout :: "(plain_vp, plain_vt) layout" where
  "demo_layout = NewLayout demo_layout_env demo_log 80 25"

definition demo_term :: "(plain_vp, plain_vt) layout_op" where
  "demo_term = OpAddTerminal (TerminalPane demo_shell)"

lemma demo_layout_wf: "layout_wf demo_layout"
  unfolding demo_layout_def by (rule NewLayout_wf) (simp_all add: demo_log_def NewLogView_def)

section \<open>The invariant\<close>

text \<open>C7. Whatever operations are called, in whatever order, the layout keeps \<open>layout_core\<close>: the focus index is in
  range, at most the pane at it is focused or has a cursor, a split has no border exactly when it is the
  zoomed one, a zoomed or focused detail panel is visible, and the sizes of the panes and the cached
  rectangles are those of the current geometry. The flags of the detail panels themselves agree as well
  (\<open>layout_wf\<close>) as long as the caller does not switch the kind of the detail panel while it is zoomed or
  focused; \<open>closeRightPanel\<close> of the application does (\<open>close_zoomed_log_stale\<close>). An added terminal pane has
  its border, as a new one has.\<close>

theorem layout_invariant:
  assumes "layout_wf l" and "layout_run Y ops l = Inr l'" and "\<forall>p. OpAddTerminal p \<in> set ops \<longrightarrow> \<not> pane_borderless p"
  shows "layout_core l' \<and> (safe_run Y ops l \<longrightarrow> layout_wf l')"
  using run_core [of l ops Y l'] layout_run_wf [of l Y ops l'] assms by (auto simp: layout_wf_core)

text \<open>The last operation but one switches the log panel off under its zoom, as the application does.\<close>

theorem layout_invariant_witness:
  "\<exists>l'. layout_run demo_layout_env [demo_term, demo_term, OpSetLogMode True, OpShow, OpZoomDetail, OpSetLogMode False, OpHide]
      demo_layout = Inr l' \<and> layout_core l' \<and> lv_borderless (logView l') \<and> focusIdx l' = 1"
proof -
  let ?ops = "[demo_term, demo_term, OpSetLogMode True, OpShow, OpZoomDetail, OpSetLogMode False, OpHide]"
  define r where "r = layout_run demo_layout_env ?ops demo_layout"
  have obs: "(case r of Inl e \<Rightarrow> None | Inr l \<Rightarrow> Some (focusIdx l, lv_borderless (logView l))) = Some (1, True)"
    unfolding r_def by code_simp
  then obtain l' where l': "r = Inr l'" "focusIdx l' = 1" "lv_borderless (logView l')" by (cases r) auto
  have "\<not> pane_borderless (TerminalPane demo_shell :: (plain_vp, plain_vt) pane)" by code_simp
  then have "layout_core l'"
    using layout_invariant [OF demo_layout_wf, of demo_layout_env ?ops l'] l'(1) by (auto simp: r_def demo_term_def)
  then show ?thesis using l' by (auto simp: r_def)
qed

text \<open>C8. No operation of a layout in order panics, as long as the log view, where it is the detail
  panel, is well formed and the screen has at least six rows.\<close>

theorem layout_no_panic:
  assumes "layout_wf l" and "logMode l \<Longrightarrow> lv_wf (logView l) \<and> selection_ok (logView l) \<and> 5 \<le> ly_height l"
    and "op_fits op l"
  shows "\<exists>l'. layout_exec Y op l = Inr l'"
  using layout_exec_total [OF _ assms(3)] assms(1,2) by (auto simp: ready_def log_ready_def layout_wf_def)

theorem layout_no_panic_witness:
  "\<exists>l'. layout_exec demo_layout_env OpClose demo_layout = Inr l'"
proof -
  have "\<not> logMode demo_layout" by (simp add: demo_layout_def NewLayout_def)
  then show ?thesis using layout_no_panic [OF demo_layout_wf, of OpClose demo_layout_env] by simp
qed

section \<open>Geometry\<close>

text \<open>Cutting a segment into \<open>n\<close> parts of which the last takes the rest.\<close>

lemma split_share_cover:
  assumes "0 < n" and "0 \<le> tot" and "0 \<le> x" and "x < tot"
  shows "\<exists>!i. i < n \<and> go_quot tot (int n) * int i \<le> x \<and> x < go_quot tot (int n) * int i + split_share tot n i"
proof -
  define s where "s = tot div int n"
  have q: "go_quot tot (int n) = s" "0 \<le> s" using assms(1,2) by (simp_all add: s_def pos_imp_zdiv_nonneg_iff)
  have sh: "split_share tot n i = (if i = n - 1 then tot - s * (int n - 1) else s)" for i
    by (simp add: split_share_def q Let_def)
  have mono: "s * int i \<le> s * int j" if "i \<le> j" for i j using that q(2) by (simp add: mult_left_mono)
  have lst: "s * (int n - 1) = s * int (n - 1)" using assms(1) by (simp add: of_nat_diff)
  show ?thesis
  proof (rule ex_ex1I)
    show "\<exists>i. i < n \<and> go_quot tot (int n) * int i \<le> x \<and> x < go_quot tot (int n) * int i + split_share tot n i"
    proof (cases "s * int (n - 1) \<le> x")
      case True
      have "split_share tot n (n - 1) = tot - s * int (n - 1)" by (simp only: sh lst simp_thms if_True)
      then show ?thesis using assms(1,4) True unfolding q(1) by (intro exI [of _ "n - 1"] conjI; linarith)
    next
      case False
      then have s: "0 < s" using assms(3) q(2) by (cases "s = 0") auto
      define i where "i = nat (x div s)"
      have i: "int i = x div s" using assms(3) s by (simp add: i_def pos_imp_zdiv_nonneg_iff)
      have b: "s * (x div s) \<le> x" "x < s * (x div s) + s"
        using pos_mod_bound [OF s, of x] pos_mod_sign [OF s, of x] mult_div_mod_eq [of s x] by linarith+
      have "i < n - 1" using False b(1) i mono [of "n - 1" i] by (metis not_le order_trans)
      then show ?thesis using b i unfolding q(1) by (intro exI [of _ i]) (simp add: sh)
    qed
    fix i j
    assume a: "i < n \<and> go_quot tot (int n) * int i \<le> x \<and> x < go_quot tot (int n) * int i + split_share tot n i"
      and b: "j < n \<and> go_quot tot (int n) * int j \<le> x \<and> x < go_quot tot (int n) * int j + split_share tot n j"
    have no: False if "p < r" "r < n" "x < s * int p + split_share tot n p" "s * int r \<le> x" for p r
    proof -
      have "s * int p + s \<le> s * int r" using mono [of "Suc p" r] that(1) by (simp add: algebra_simps)
      moreover have "p \<noteq> n - 1" using that(1,2) by linarith
      ultimately show False using that by (simp add: sh)
    qed
    show "i = j" using no [of i j] no [of j i] a b q(1) by (metis nat_neq_iff)
  qed
qed

lemma split_share_inside:
  assumes "i < n" and "0 \<le> tot" and "go_quot tot (int n) * int i \<le> x" and "x < go_quot tot (int n) * int i + split_share tot n i"
  shows "0 \<le> x \<and> x < tot"
proof -
  define s where "s = tot div int n"
  have q: "go_quot tot (int n) = s" "0 \<le> s" using assms(1,2) by (simp_all add: s_def pos_imp_zdiv_nonneg_iff)
  have "0 \<le> s * int i" using q(2) by simp
  moreover have "s * int i + split_share tot n i \<le> tot"
  proof (cases "i = n - 1")
    case True
    then have "int i = int n - 1" using assms(1) by simp
    then show ?thesis using True by (simp add: split_share_def q Let_def)
  next
    case False
    have "s * (int i + 1) \<le> s * int n" using assms(1) q(2) by (intro mult_left_mono) simp_all
    moreover have "s * int n \<le> tot"
    proof -
      have "0 \<le> tot mod int n" using assms(1) by simp
      then show ?thesis using div_mult_mod_eq [of tot "int n"] unfolding s_def by linarith
    qed
    ultimately show ?thesis using False by (simp add: split_share_def q Let_def algebra_simps)
  qed
  ultimately show ?thesis using assms(3,4) unfolding q(1) by (intro conjI; linarith)
qed

text \<open>The rectangles without a zoom: on each axis, the cell is in the share of one split.\<close>

lemma in_split_rect:
  "in_rect x y (split_rect l n i) \<longleftrightarrow>
     (if ly_orientation l = OrientationHorizontal
      then go_quot (ly_width l) (int n) * int i \<le> x \<and> x < go_quot (ly_width l) (int n) * int i + split_share (ly_width l) n i \<and>
        0 \<le> y \<and> y < fst (panelSizes l)
      else go_quot (ly_height l) (int n) * int i \<le> y \<and> y < go_quot (ly_height l) (int n) * int i + split_share (ly_height l) n i \<and>
        0 \<le> x \<and> x < fst (panelSizes l))"
  by (auto simp: in_rect_def split_rect_def)

lemma in_detail_rect:
  "in_rect x y (detail_rect l) \<longleftrightarrow>
     (if ly_orientation l = OrientationHorizontal
      then 0 \<le> x \<and> x < ly_width l \<and> fst (panelSizes l) \<le> y \<and> y < fst (panelSizes l) + snd (panelSizes l)
      else 0 \<le> y \<and> y < ly_height l \<and> fst (panelSizes l) \<le> x \<and> x < fst (panelSizes l) + snd (panelSizes l))"
  by (auto simp: in_rect_def detail_rect_def)

lemma panelSizes_sum:
  assumes "0 < ly_width l" and "0 < ly_height l"
  shows "0 \<le> fst (panelSizes l) \<and> 0 \<le> snd (panelSizes l) \<and> (\<not> rightVisible l \<longrightarrow> snd (panelSizes l) = 0) \<and>
    fst (panelSizes l) + snd (panelSizes l) =
      (if ly_orientation l = OrientationHorizontal then ly_height l else ly_width l)"
  using assms by (auto simp: panelSizes_def Let_def)

lemma rects_tile:
  assumes "splits l \<noteq> []" and "0 < ly_width l" and "0 < ly_height l"
  shows "(\<exists>r\<in>set (pane_rects l). in_rect x y r) \<longleftrightarrow> 0 \<le> x \<and> x < ly_width l \<and> 0 \<le> y \<and> y < ly_height l"
    and "r \<in> set (pane_rects l) \<Longrightarrow> q \<in> set (pane_rects l) \<Longrightarrow> in_rect x y r \<Longrightarrow> in_rect x y q \<Longrightarrow> r = q"
proof -
  define n where "n = length (splits l)"
  have n: "0 < n" using assms(1) by (simp add: n_def)
  have none: "pane_rects l = map (split_rect l n) [0..<n] @ (if rightVisible l then [detail_rect l] else [])"
    if "EffectiveZoom l = ZoomNone" using that assms by (simp add: pane_rects_def n_def Let_def)
  have one: "\<exists>r. pane_rects l = [r] \<and> (in_rect x y r \<longleftrightarrow> 0 \<le> x \<and> x < ly_width l \<and> 0 \<le> y \<and> y < ly_height l)"
    if "EffectiveZoom l \<noteq> ZoomNone"
    using that assms by (cases "EffectiveZoom l") (auto simp: pane_rects_def in_rect_def full_rect_def Let_def)
  note sum = panelSizes_sum [OF assms(2,3)]
  have le: "0 \<le> ly_width l" "0 \<le> ly_height l" using assms by simp_all
  note cw = split_share_cover [OF n le(1)] and ch = split_share_cover [OF n le(2)]
  note iw = split_share_inside [OF _ le(1)] and ih = split_share_inside [OF _ le(2)]
  show "(\<exists>r\<in>set (pane_rects l). in_rect x y r) \<longleftrightarrow> 0 \<le> x \<and> x < ly_width l \<and> 0 \<le> y \<and> y < ly_height l"
  proof (cases "EffectiveZoom l = ZoomNone")
    case True
    have ex: "(\<exists>r\<in>set (pane_rects l). in_rect x y r) \<longleftrightarrow> (\<exists>i<n. in_rect x y (split_rect l n i)) \<or> rightVisible l \<and> in_rect x y (detail_rect l)"
      unfolding none [OF True] by auto
    show ?thesis
    proof (cases "ly_orientation l = OrientationHorizontal")
      case h: True
      have "(\<exists>i<n. in_rect x y (split_rect l n i)) \<longleftrightarrow> 0 \<le> x \<and> x < ly_width l \<and> 0 \<le> y \<and> y < fst (panelSizes l)"
        using cw [of x] iw [of _ n x] unfolding in_split_rect if_P [OF h] by metis
      then show ?thesis unfolding ex in_detail_rect if_P [OF h] using sum h by auto
    next
      case v: False
      have "(\<exists>i<n. in_rect x y (split_rect l n i)) \<longleftrightarrow> 0 \<le> y \<and> y < ly_height l \<and> 0 \<le> x \<and> x < fst (panelSizes l)"
        using ch [of y] ih [of _ n y] unfolding in_split_rect if_not_P [OF v] by metis
      then show ?thesis unfolding ex in_detail_rect if_not_P [OF v] using sum v by auto
    qed
  qed (use one in auto)
  show "r = q" if rq: "r \<in> set (pane_rects l)" "q \<in> set (pane_rects l)" "in_rect x y r" "in_rect x y q"
  proof (cases "EffectiveZoom l = ZoomNone")
    case True
    have i: "i = j" if "i < n" "j < n" "in_rect x y (split_rect l n i)" "in_rect x y (split_rect l n j)" for i j
    proof (cases "ly_orientation l = OrientationHorizontal")
      case h: True
      then show ?thesis using that cw [of x] iw [of i n x] unfolding in_split_rect if_P [OF h] by metis
    next
      case v: False
      then show ?thesis using that ch [of y] ih [of i n y] unfolding in_split_rect if_not_P [OF v] by metis
    qed
    have d: "\<not> in_rect x y (detail_rect l)" if "in_rect x y (split_rect l n i)" for i
      using that unfolding in_split_rect in_detail_rect by (simp split: if_splits)
    from rq show ?thesis unfolding none [OF True] using i d by (auto split: if_splits dest: i)
  qed (use one rq in auto)
qed

lemma find_unique:
  assumes "\<And>r q. r \<in> set xs \<Longrightarrow> q \<in> set xs \<Longrightarrow> P r \<Longrightarrow> P q \<Longrightarrow> r = q"
  shows "find P xs = Some r \<longleftrightarrow> r \<in> set xs \<and> P r"
proof
  assume "find P xs = Some r"
  then show "r \<in> set xs \<and> P r" by (auto simp: find_Some_iff)
next
  assume r: "r \<in> set xs \<and> P r"
  then have "find P xs \<noteq> None" by (auto simp: find_None_iff)
  then obtain q where q: "find P xs = Some q" by blast
  then have "q \<in> set xs" "P q" by (auto simp: find_Some_iff)
  then show "find P xs = Some r" using assms r q by blast
qed

text \<open>C29. The rectangles tile the screen above the status bar: a mouse position is in a pane exactly
  when it is on the screen, and then in one pane only, the one \<open>PaneAt\<close> returns.\<close>

theorem panes_tile_screen:
  assumes "layout_wf l" and "splits l \<noteq> []" and "0 < ly_width l" and "0 < ly_height l"
  shows "(PaneAt x y l \<noteq> None \<longleftrightarrow> 0 \<le> x \<and> x < ly_width l \<and> 0 \<le> y \<and> y < ly_height l) \<and>
    (\<forall>r. PaneAt x y l = Some r \<longleftrightarrow> r \<in> set (paneRects l) \<and> in_rect x y r)"
proof -
  have p: "paneRects l = pane_rects l" using assms(1) by (simp add: layout_wf_def geom_ok_def)
  have "PaneAt x y l = Some r \<longleftrightarrow> r \<in> set (paneRects l) \<and> in_rect x y r" for r
    unfolding PaneAt_def p by (rule find_unique) (rule rects_tile(2) [OF assms(2-4)])
  then show ?thesis using rects_tile(1) [OF assms(2-4), of x y] p by (metis not_Some_eq)
qed

theorem panes_tile_screen_witness:
  "\<exists>l'. layout_run demo_layout_env [demo_term, demo_term] demo_layout = Inr l' \<and>
     (PaneAt 79 23 l' \<noteq> None) \<and> PaneAt 79 24 l' = None"
proof -
  let ?ops = "[demo_term, demo_term]"
  define r where "r = layout_run demo_layout_env ?ops demo_layout"
  have safe: "safe_run demo_layout_env ?ops demo_layout" by code_simp
  have obs: "(case r of Inl e \<Rightarrow> None | Inr l \<Rightarrow> Some (length (splits l), ly_width l, ly_height l)) = Some (2, 80, 24)"
    unfolding r_def by code_simp
  then obtain l' where l': "r = Inr l'" "length (splits l') = 2" "ly_width l' = 80" "ly_height l' = 24" by (cases r) auto
  have wf: "layout_wf l'" using layout_run_wf [OF demo_layout_wf safe] l'(1) by (simp add: r_def)
  have ne: "splits l' \<noteq> []" using l'(2) by auto
  have "0 < ly_width l'" "0 < ly_height l'" using l'(3,4) by simp_all
  note t = panes_tile_screen [OF wf ne this, THEN conjunct1]
  have "PaneAt 79 23 l' \<noteq> None" "PaneAt 79 24 l' = None" using t [of 79 23] t [of 79 24] l'(3,4) by simp_all
  then show ?thesis using l'(1) unfolding r_def by blast
qed

text \<open>Drawing and hit testing agree: without a zoom the rectangle of every split has the size that
  was assigned to the pane, and the rectangle of the focused split is the one found for it.\<close>

theorem rects_match_sizes:
  assumes "layout_wf l" and "EffectiveZoom l = ZoomNone" and "0 < ly_width l" and "0 < ly_height l" and "i < length (splits l)"
  shows "i < length (paneRects l) \<and> pr_SplitIdx (paneRects l ! i) = int i \<and> pr_Kind (paneRects l ! i) = PaneSplit \<and>
    (pr_W (paneRects l ! i), pr_H (paneRects l ! i)) = pane_size (splits l ! i)"
proof -
  define n where "n = length (splits l)"
  have g: "map pane_size (splits l) = split_sizes l" "paneRects l = pane_rects l"
    using assms(1) by (simp_all add: layout_wf_def geom_ok_def)
  have ne: "splits l \<noteq> []" using assms(5) by auto
  have p: "paneRects l = map (split_rect l n) [0..<n] @ (if rightVisible l then [detail_rect l] else [])"
    using assms(2-4) ne by (simp add: g(2) pane_rects_def n_def Let_def)
  have "pane_size (splits l ! i) = split_sizes l ! i" using g(1) assms(5) by (metis nth_map)
  then show ?thesis using assms(2,5) unfolding p
    by (simp add: nth_append n_def split_sizes_def split_rect_def Let_def)
qed

theorem rects_match_sizes_witness:
  "\<exists>l'. layout_run demo_layout_env [demo_term, demo_term, demo_term] demo_layout = Inr l' \<and>
     pane_size (splits l' ! 2) = (pr_W (paneRects l' ! 2), pr_H (paneRects l' ! 2)) \<and> pr_H (paneRects l' ! 2) = 8"
proof -
  let ?ops = "[demo_term, demo_term, demo_term]"
  define r where "r = layout_run demo_layout_env ?ops demo_layout"
  have safe: "safe_run demo_layout_env ?ops demo_layout" by code_simp
  have obs: "(case r of Inl e \<Rightarrow> None | Inr l \<Rightarrow> Some (length (splits l), ly_width l, ly_height l, EffectiveZoom l, map pr_H (paneRects l))) =
      Some (3, 80, 24, ZoomNone, [8, 8, 8])"
    unfolding r_def by code_simp
  then obtain l' where l': "r = Inr l'" "length (splits l') = 3" "ly_width l' = 80" "ly_height l' = 24" "EffectiveZoom l' = ZoomNone"
    "map pr_H (paneRects l') = [8, 8, 8]" by (cases r) auto
  have wf: "layout_wf l'" using layout_run_wf [OF demo_layout_wf safe] l'(1) by (simp add: r_def)
  have len: "length (paneRects l') = 3" using l'(6) by (metis length_map length_Cons list.size(3) numeral_3_eq_3)
  have "pr_H (paneRects l' ! 2) = map pr_H (paneRects l') ! 2" using len by simp
  then have "pr_H (paneRects l' ! 2) = 8" unfolding l'(6) by simp
  then show ?thesis using rects_match_sizes [OF wf l'(5), of 2] l'(1-4) by (auto simp: r_def)
qed

section \<open>Focus and updates\<close>

lemma moveBorderlessFlag_geom: "moveBorderlessFlag Y i k l = Inr l' \<Longrightarrow> same_geom l l'"
  unfolding moveBorderlessFlag_def
  by (auto split: if_splits dest!: set_flag(1) recalc_same_geom intro: same_geom_trans)

lemma focus_to_idx:
  assumes "layout_wf l" and "0 \<le> i" and "i < int (length (splits l))" and "focus_to Y i l = Inr l'"
  shows "focusIdx l' = i \<and> length (splits l') = length (splits l) \<and> logMode l' = logMode l"
proof -
  let ?l1 = "l\<lparr> focusTarget := FocusTargetResources, focusIdx := i \<rparr>"
  have "splits l \<noteq> []" using assms(2,3) by auto
  then obtain m where m: "reconcileFocus Y ?l1 = Inr m" "(if focusIdx l \<noteq> i then moveBorderlessFlag Y (focusIdx l) i m else Inr m) = Inr l'"
    using assms(4) by (auto simp: focus_to_def)
  have "same_geom ?l1 m" by (rule reconcile_frame(1) [OF refocus_ok [OF assms(1-3) refl] m(1)])
  moreover have "same_geom m l'" using m(2) moveBorderlessFlag_geom by (cases "focusIdx l = i") auto
  ultimately have "same_geom ?l1 l'" by (rule same_geom_trans)
  then show ?thesis using same_geomD(1,2,10) [of ?l1 l'] by simp
qed

text \<open>C30. Cycling the focus forward and back, or back and forward, returns to the split one came from,
  with or without a zoom, and around the ends.\<close>

theorem focus_next_prev:
  assumes "layout_wf l" and "splits l \<noteq> []" and "FocusNext Y l = Inr m" and "FocusPrev Y m = Inr l'"
    and "FocusPrev Y l = Inr k" and "FocusNext Y k = Inr l''"
  shows "focusIdx l' = focusIdx l \<and> focusIdx l'' = focusIdx l"
proof -
  let ?n = "int (length (splits l))"
  have idx: "0 \<le> focusIdx l" "focusIdx l < ?n" using assms(1,2) by (simp_all add: layout_wf_def idx_ok_def)
  have fwd: "focusIdx b = go_rem (focusIdx a + 1) (int (length (splits a))) \<and> length (splits b) = length (splits a)"
    if "layout_wf a" "splits a \<noteq> []" "FocusNext Y a = Inr b" for a b
    using that focus_to_idx [OF that(1) _ _ that(3) [unfolded FocusNext_def]] by (auto simp: layout_wf_def idx_ok_def)
  have bwd: "focusIdx b = go_rem (focusIdx a - 1 + int (length (splits a))) (int (length (splits a))) \<and>
      length (splits b) = length (splits a)"
    if "layout_wf a" "splits a \<noteq> []" "FocusPrev Y a = Inr b" for a b
    using that focus_to_idx [OF that(1) _ _ that(3) [unfolded FocusPrev_def]] by (auto simp: layout_wf_def idx_ok_def)
  note f = fwd [OF assms(1-3)] and b = bwd [OF assms(1,2,5)]
  have ne: "splits m \<noteq> []" "splits k \<noteq> []" using f b assms(2) by auto
  have "focusIdx l' = go_rem (go_rem (focusIdx l + 1) ?n - 1 + ?n) ?n"
    using bwd [OF FocusNext_wf [OF assms(1,3)] ne(1) assms(4)] f by simp
  moreover have "focusIdx l'' = go_rem (go_rem (focusIdx l - 1 + ?n) ?n + 1) ?n"
    using fwd [OF FocusPrev_wf [OF assms(1,5)] ne(2) assms(6)] b by simp
  ultimately show ?thesis using cyclic_pred_succ [OF idx] cyclic_succ_pred [OF idx] by simp
qed

theorem focus_next_prev_witness:
  "\<exists>l m l'. layout_run demo_layout_env [demo_term, demo_term] demo_layout = Inr l \<and> FocusNext demo_layout_env l = Inr m \<and>
     FocusPrev demo_layout_env m = Inr l' \<and> focusIdx l' = 1"
proof -
  let ?ops = "[demo_term, demo_term]"
  define r where "r = layout_run demo_layout_env ?ops demo_layout"
  have safe: "safe_run demo_layout_env ?ops demo_layout" by code_simp
  have obs: "(case r of Inl e \<Rightarrow> None | Inr l \<Rightarrow> Some (length (splits l), focusIdx l, logMode l)) = Some (2, 1, False)"
    unfolding r_def by code_simp
  then obtain l where l: "r = Inr l" "length (splits l) = 2" "focusIdx l = 1" "\<not> logMode l" by (cases r) auto
  have wf: "layout_wf l" using layout_run_wf [OF demo_layout_wf safe] l(1) by (simp add: r_def)
  have rd: "\<exists>b. FocusNext demo_layout_env a = Inr b" "\<exists>b. FocusPrev demo_layout_env a = Inr b" if "layout_wf a" "\<not> logMode a" for a
    using layout_exec_total [of a OpFocusNext demo_layout_env] layout_exec_total [of a OpFocusPrev demo_layout_env] that
    by (simp_all add: ready_def log_ready_def layout_wf_def)
  obtain m k where m: "FocusNext demo_layout_env l = Inr m" and k: "FocusPrev demo_layout_env l = Inr k" using rd [OF wf l(4)] by blast
  have "\<not> logMode m" "\<not> logMode k"
    using focus_to_idx [OF wf _ _ m [unfolded FocusNext_def]] focus_to_idx [OF wf _ _ k [unfolded FocusPrev_def]] l by simp_all
  then obtain l' l'' where "FocusPrev demo_layout_env m = Inr l'" "FocusNext demo_layout_env k = Inr l''"
    using rd FocusNext_wf [OF wf m] FocusPrev_wf [OF wf k] by blast
  moreover have "splits l \<noteq> []" using l(2) by auto
  ultimately have "focusIdx l' = 1" using focus_next_prev [OF wf _ m _ k, of l' l''] l(3) by simp
  then show ?thesis using l(1) m \<open>FocusPrev demo_layout_env m = Inr l'\<close> unfolding r_def by blast
qed

text \<open>Updates reach exactly the panes they are meant for: a pane changes only if it lists the type,
  namespace and kube-context of the update and is not drilled down, and then it shows the new
  objects; no pane is added, removed or moved.\<close>

theorem update_only_matching:
  assumes "i < length (splits l)"
  shows "length (splits (UpdateSplitObjects Y p ns ctx objs l)) = length (splits l) \<and>
    (splits (UpdateSplitObjects Y p ns ctx objs l) ! i \<noteq> splits l ! i \<longrightarrow>
       (\<exists>r. splits l ! i = ResourcePane r \<and> p_GVR (rl_plugin r) = p_GVR p \<and> EffectiveNamespace r = ns \<and>
         rl_context r = ctx \<and> navStack r = [] \<and>
         splits (UpdateSplitObjects Y p ns ctx objs l) ! i = ResourcePane (SetObjects (pe_list Y) objs r)))"
  using assms
  by (cases "splits l ! i") (auto simp: UpdateSplitObjects_def InDrillDown_def nav_Depth_def split: if_splits)

theorem update_only_matching_witness:
  "\<exists>l. layout_run demo_layout_env [demo_term] demo_layout = Inr l \<and>
     splits (UpdateSplitObjects demo_layout_env (demo_plugin ''pods'' ''po'') '''' ''ctx'' [] l) ! 0 = splits l ! 0"
proof -
  define r where "r = layout_run demo_layout_env [demo_term] demo_layout"
  have obs: "(case r of Inl e \<Rightarrow> None | Inr l \<Rightarrow> Some (length (splits l), map (\<lambda>p. case as_list p of None \<Rightarrow> True | Some q \<Rightarrow> False) (splits l))) =
      Some (1, [True])"
    unfolding r_def by code_simp
  then obtain l where l: "r = Inr l" "length (splits l) = 1"
    "map (\<lambda>p. case as_list p of None \<Rightarrow> True | Some q \<Rightarrow> False) (splits l) = [True]" by (cases r) auto
  then obtain p where p: "splits l = [p]" by (metis length_0_conv length_Suc_conv One_nat_def)
  then have "\<not> (\<exists>q. splits l ! 0 = ResourcePane q)" using l(3) by (cases p) simp_all
  then show ?thesis
    using update_only_matching [of 0 l demo_layout_env "demo_plugin ''pods'' ''po''" "''''" "''ctx''" "[]"] l unfolding r_def by auto
qed

lemma reconcile_keeps_log:
  assumes "reconcileFocus Y l = Inr l'" and "\<not> logMode l"
  shows "logView l' = logView l \<and> logMode l' = logMode l \<and> detailZoomed l' = detailZoomed l"
proof (cases "splits l = []")
  case True
  then show ?thesis using assms(1) by (simp add: reconcileFocus_def)
next
  case False
  obtain k where u: "upd_split (focusIdx l) (if focusTarget l = FocusTargetDetails \<and> rightVisible l then pane_BlurBorder Y else pane_Focus Y)
      (l\<lparr> splits := map_idx (\<lambda>j p. if int j \<noteq> focusIdx l then pane_Blur Y p else p) (splits l) \<rparr>) = Inr k"
    and l': "l' = detail_Focus k \<or> l' = detail_Blur k"
    using assms(1) False by (auto simp: reconcileFocus_def Let_def split: if_splits)
  have "logView k = logView l" "logMode k = logMode l" "detailZoomed k = detailZoomed l"
    using u by (simp_all add: upd_split_Inr)
  then show ?thesis using l' assms(2) by (auto simp: detail_Focus_def detail_Blur_def on_detail_def)
qed

text \<open>Closing a zoomed log panel the way the application does, switching the log mode off before
  hiding the panel, leaves the log view without a border although nothing is zoomed any more:
  the next log panel is drawn borderless in its split.\<close>

theorem close_zoomed_log_stale:
  assumes "layout_wf l" and "logMode l" and "detailZoomed l" and "HideRightPanel Y (SetLogMode False l) = Inr l'"
  shows "lv_borderless (logView l') \<and> \<not> detailZoomed l' \<and> \<not> logMode l'"
proof -
  let ?m = "(detail_SetBorderless False (SetLogMode False l))\<lparr> detailZoomed := False, rightVisible := False,
    focusTarget := FocusTargetResources \<rparr>"
  have m: "\<not> logMode ?m" "logView ?m = logView l" "\<not> detailZoomed ?m" "detailZoomed (SetLogMode False l)"
    using assms(3) by (simp_all add: detail_SetBorderless_def on_detail_def SetLogMode_def rebuildPaneRects_def)
  obtain k where k: "reconcileFocus Y ?m = Inr k" and r: "recalcSizes Y k = Inr l'"
    using assms(4) m(4) by (auto simp: HideRightPanel_def Let_def)
  have "detail_borderless True l" using assms(1-3) by (simp add: layout_wf_def zoom_ok_def)
  then have b: "detail_borderless True k" using reconcile_keeps_log [OF k m(1)] m(2) by (simp add: detail_borderless_def)
  obtain j where j: "l' = rebuildPaneRects j" "same_geom k j" "same_flags k j" using recalc_steps [OF r] by blast
  have "detail_borderless True j" using b j(3) by (simp add: same_flags_def)
  then show ?thesis using reconcile_keeps_log [OF k m(1)] m same_geomD(6,10) [OF j(2)] j(1)
    by (simp add: detail_borderless_def rebuildPaneRects_def)
qed

theorem close_zoomed_log_stale_witness:
  "\<exists>l l'. layout_run demo_layout_env [demo_term, OpSetLogMode True, OpShow, OpZoomDetail] demo_layout = Inr l \<and>
     HideRightPanel demo_layout_env (SetLogMode False l) = Inr l' \<and> lv_borderless (logView l')"
proof -
  let ?ops = "[demo_term, OpSetLogMode True, OpShow, OpZoomDetail]"
  define r where "r = layout_run demo_layout_env ?ops demo_layout"
  have safe: "safe_run demo_layout_env ?ops demo_layout" by code_simp
  have obs: "(case r of Inl e \<Rightarrow> None | Inr l \<Rightarrow> Some (logMode l, detailZoomed l)) = Some (True, True)"
    unfolding r_def by code_simp
  then obtain l where l: "r = Inr l" "logMode l" "detailZoomed l" by (cases r) auto
  have wf: "layout_wf l" using layout_run_wf [OF demo_layout_wf safe] l(1) by (simp add: r_def)
  have "(case go_bind r (\<lambda>l. HideRightPanel demo_layout_env (SetLogMode False l)) of Inl e \<Rightarrow> False | Inr l \<Rightarrow> True) = True"
    unfolding r_def by code_simp
  then obtain l' where "HideRightPanel demo_layout_env (SetLogMode False l) = Inr l'"
    using l(1) by (cases "HideRightPanel demo_layout_env (SetLogMode False l)") auto
  then show ?thesis using close_zoomed_log_stale [OF wf l(2,3)] l(1) by (auto simp: r_def)
qed

end
