(* ===== verification/Key_Bindings.thy ===== *)
theory Key_Bindings
  imports Prelude "HOL-Library.AList"
begin

text \<open>
  \<^verbatim>\<open>internal/config/binding.go\<close> and \<^verbatim>\<open>keytrie.go\<close>: the flat list of key
  bindings, compiled for a context (the kind of panel and the resource it shows) into a prefix
  tree, and the machine that walks the tree key by key.

  A Go map is an association list with distinct keys; the code only looks keys up in it, or
  sorts what it iterated over. \<open>slices.SortFunc\<close> leaves the order of equal keys open; the
  model takes the stable order.
\<close>

section \<open>Bindings and nodes\<close>

record run_config =
  rc_Command :: string
  rc_Background :: bool
  rc_Confirm :: bool

datatype binding = Binding
  (b_Key: string) (b_Help: string) (b_Command: string) (b_Run: "run_config option") (b_Scope: string)
  (b_For: "string list") (b_Visible: bool) (b_Capture: bool) (b_Keys: "binding list")

datatype key_node = KeyNode
  (kn_Help: string) (kn_Command: string) (kn_Run: "run_config option")
  (kn_Keys: "(string \<times> key_node) list") (kn_Hidden: bool)

type_synonym key_map = "(string \<times> key_node) list"

record key_hint =
  kh_Key :: string
  kh_Help :: string

definition matchesContext :: "string \<Rightarrow> string \<Rightarrow> binding \<Rightarrow> bool" where
  "matchesContext ct rn b =
     (if b_Scope b \<noteq> '''' \<and>
         (if b_Scope b = ''details'' then ct \<notin> {''details'', ''yaml'', ''describe'', ''logs''} else b_Scope b \<noteq> ct)
      then False
      else b_For b = [] \<or> rn \<in> set (b_For b))"

section \<open>Compilation\<close>

definition maps_Copy :: "key_map \<Rightarrow> key_map \<Rightarrow> key_map" where
  "maps_Copy dst src = foldl (\<lambda>m (k, v). AList.update k v m) dst src"

text \<open>A child of a chord inherits its scope and its resources, and is always visible.\<close>

definition inherit :: "binding \<Rightarrow> binding \<Rightarrow> binding" where
  "inherit b c = Binding (b_Key c) (b_Help c) (b_Command c) (b_Run c)
     (if b_Scope c = '''' then b_Scope b else b_Scope c)
     (if b_For c = [] \<and> b_For b \<noteq> [] then b_For b else b_For c) True (b_Capture c) (b_Keys c)"

primrec bdepth :: "binding \<Rightarrow> nat" where
  "bdepth (Binding _ _ _ _ _ _ _ _ ks) = Suc (sum_list (map bdepth ks))"

lemma bdepth_inherit [simp]: "bdepth (inherit b c) = bdepth c"
  by (cases c) (simp add: inherit_def)

lemma bdepth_child: "c \<in> set (b_Keys b) \<Longrightarrow> bdepth c < bdepth b"
  by (cases b) (auto simp: less_Suc_eq_le intro: member_le_sum_list)

function insertBinding :: "string \<Rightarrow> string \<Rightarrow> key_map \<Rightarrow> binding \<Rightarrow> key_map" where
  "insertBinding ct rn root b =
     (if \<not> matchesContext ct rn b then root
      else if b_Keys b = []
      then AList.update (b_Key b) (KeyNode (b_Help b) (b_Command b) (b_Run b) [] (\<not> b_Visible b)) root
      else let children = foldl (\<lambda>m c. insertBinding ct rn m (inherit b c)) [] (b_Keys b)
           in AList.update (b_Key b)
             (case map_of root (b_Key b) of
                Some e \<Rightarrow>
                  if kn_Keys e \<noteq> []
                  then KeyNode (b_Help b) (kn_Command e) (kn_Run e) (maps_Copy (kn_Keys e) children) (\<not> b_Visible b)
                  else KeyNode (b_Help b) (b_Command b) (b_Run b) children (\<not> b_Visible b)
              | None \<Rightarrow> KeyNode (b_Help b) (b_Command b) (b_Run b) children (\<not> b_Visible b)) root)"
  by pat_completeness auto
termination
  by (relation "measure (\<lambda>(ct, rn, root, b). bdepth b)") (auto simp: bdepth_child)

declare insertBinding.simps [simp del]

definition compile_keys :: "string \<Rightarrow> string \<Rightarrow> binding list \<Rightarrow> key_map" where
  "compile_keys ct rn bs = foldl (insertBinding ct rn) [] bs"

section \<open>The trie\<close>

text \<open>\<open>kt_current\<close> is the node the walk has reached, \<open>None\<close> at the root.\<close>

record key_trie =
  kt_root :: key_map
  kt_current :: "key_node option"

definition NewKeyTrie :: "key_map \<Rightarrow> key_trie" where
  "NewKeyTrie root = \<lparr> kt_root = root, kt_current = None \<rparr>"

definition kt_lookup :: "key_trie \<Rightarrow> key_map" where
  "kt_lookup t = (case kt_current t of None \<Rightarrow> kt_root t | Some n \<Rightarrow> kn_Keys n)"

definition Press :: "string \<Rightarrow> key_trie \<Rightarrow> key_trie \<times> string \<times> run_config option \<times> bool" where
  "Press key t =
     (case map_of (kt_lookup t) key of
        None \<Rightarrow> (t\<lparr> kt_current := None \<rparr>, '''', None, True)
      | Some node \<Rightarrow>
          if (kn_Command node \<noteq> '''' \<or> kn_Run node \<noteq> None) \<and> kn_Keys node = []
          then (t\<lparr> kt_current := None \<rparr>, kn_Command node, kn_Run node, True)
          else if kn_Keys node \<noteq> [] then (t\<lparr> kt_current := Some node \<rparr>, '''', None, False)
          else (t\<lparr> kt_current := None \<rparr>, '''', None, True))"

definition kt_Reset :: "key_trie \<Rightarrow> key_trie" where
  "kt_Reset t = t\<lparr> kt_current := None \<rparr>"

definition AtRoot :: "key_trie \<Rightarrow> bool" where
  "AtRoot t \<longleftrightarrow> kt_current t = None"

definition PendingPrefix :: "key_trie \<Rightarrow> string" where
  "PendingPrefix t = (case kt_current t of None \<Rightarrow> '''' | Some n \<Rightarrow> kn_Help n)"

definition sortHints :: "key_hint list \<Rightarrow> key_hint list" where
  "sortHints hs = sort_stable (\<lambda>a b. str_cmp (kh_Key a) (kh_Key b)) hs"

definition CurrentHints :: "key_trie \<Rightarrow> key_hint list" where
  "CurrentHints t = sortHints
     (map (\<lambda>(k, n). \<lparr> kh_Key = k, kh_Help = kn_Help n \<rparr>) (filter (\<lambda>(k, n). \<not> kn_Hidden n) (kt_lookup t)))"

section \<open>Binding sets\<close>

record binding_set =
  bindings :: "binding list"
  capturedKeys :: "(string \<Rightarrow> bool) option"

definition NewBindingSet :: "binding list \<Rightarrow> binding_set" where
  "NewBindingSet bs = \<lparr> bindings = bs, capturedKeys = None \<rparr>"

definition captured_of :: "binding list \<Rightarrow> string \<Rightarrow> bool" where
  "captured_of bs key \<longleftrightarrow> (\<exists>b\<in>set bs. b_Capture b \<and> b_Key b = key)"

text \<open>The set of captured keys is computed on the first call and kept.\<close>

definition IsCaptured :: "string \<Rightarrow> binding_set \<Rightarrow> binding_set \<times> bool" where
  "IsCaptured key bs =
     (let c = (case capturedKeys bs of None \<Rightarrow> captured_of (bindings bs) | Some c \<Rightarrow> c)
      in (bs\<lparr> capturedKeys := Some c \<rparr>, c key))"

definition TrieFor :: "string \<Rightarrow> string \<Rightarrow> binding_set \<Rightarrow> key_trie" where
  "TrieFor ct rn bs = NewKeyTrie (compile_keys ct rn (bindings bs))"

definition StatusHints :: "string \<Rightarrow> string \<Rightarrow> binding_set \<Rightarrow> key_hint list" where
  "StatusHints ct rn bs = sortHints
     (map (\<lambda>b. \<lparr> kh_Key = b_Key b, kh_Help = b_Help b \<rparr>)
       (filter (\<lambda>b. b_Visible b \<and> matchesContext ct rn b \<and> (b_Command b \<noteq> '''' \<or> b_Run b \<noteq> None \<or> b_Keys b \<noteq> []))
         (bindings bs)))"

function flattenBinding :: "binding \<Rightarrow> string \<Rightarrow> key_hint list" where
  "flattenBinding b prefix =
     (let fullKey = (if prefix \<noteq> '''' then prefix @ '' '' @ b_Key b else b_Key b)
      in if b_Keys b = []
         then (if b_Command b \<noteq> '''' \<or> b_Run b \<noteq> None then [\<lparr> kh_Key = fullKey, kh_Help = b_Help b \<rparr>] else [])
         else concat (map (\<lambda>c. flattenBinding c fullKey) (b_Keys b)))"
  by pat_completeness auto
termination
  by (relation "measure (\<lambda>(b, p). bdepth b)") (auto simp: bdepth_child)

declare flattenBinding.simps [simp del]

definition scope_name :: "binding \<Rightarrow> string" where
  "scope_name b = (if b_Scope b = '''' then ''global'' else b_Scope b)"

text \<open>The scopes in the order of their first binding, each with its hints.\<close>

definition HelpGroups :: "string \<Rightarrow> string \<Rightarrow> binding_set \<Rightarrow> (string \<times> key_hint list) list" where
  "HelpGroups ct rn bs =
     (let ms = filter (matchesContext ct rn) (bindings bs);
          order = rev (remdups (rev (map scope_name ms)));
          hints = (\<lambda>s. concat (map (\<lambda>b. flattenBinding b '''') (filter (\<lambda>b. scope_name b = s) ms)))
      in map (\<lambda>s. (s, sortHints (hints s))) (filter (\<lambda>s. hints s \<noteq> []) order))"

end
