(* ===== verification/Default_Keys.thy ===== *)
theory Default_Keys
  imports Key_Bindings
begin

text \<open>
  The table of default bindings of \<^verbatim>\<open>internal/config/defaults.go\<close>, and
  \<^verbatim>\<open>keymap.go\<close>, which puts the bindings of the user's file behind it.
\<close>

definition key_bind :: "string \<Rightarrow> string \<Rightarrow> string \<Rightarrow> bool \<Rightarrow> binding" where
  "key_bind key help command visible = Binding key help command None '''' [] visible False []"

definition DefaultBindings :: "binding list" where
  "DefaultBindings =
    [
     key_bind ''q'' ''quit/close'' ''quit'' True,
     key_bind ''ctrl+n'' ''namespace'' ''namespace-picker'' True,
     key_bind ''y'' ''yaml'' ''view-yaml-focused'' True,
     key_bind ''d'' ''describe'' ''view-describe-focused'' True,
     Binding ''x'' ''uncovered'' ''view-describe-uncovered'' None ''resources'' [''pods'', ''secrets'', ''containers'', ''deployments'', ''statefulsets'', ''daemonsets''] True False [],
     Binding ''alt+z'' ''zoom'' ''toggle-zoom'' None '''' [] True True [],
     key_bind ''e'' ''edit'' ''edit'' True,
     Binding ''g'' ''go to'' '''' None '''' [] True False [
       key_bind ''g'' ''top'' ''cursor-top'' False,
       key_bind ''p'' ''pods'' ''goto-pods'' False,
       key_bind ''d'' ''deployments'' ''goto-deployments'' False,
       key_bind ''s'' ''secrets'' ''goto-secrets'' False,
       key_bind ''v'' ''services'' ''goto-services'' False,
       key_bind ''c'' ''configmaps'' ''goto-configmaps'' False,
       key_bind ''n'' ''namespaces'' ''goto-namespaces'' False,
       key_bind ''S'' ''statefulsets'' ''goto-statefulsets'' False,
       key_bind ''D'' ''daemonsets'' ''goto-daemonsets'' False,
       Binding ''N'' ''node'' ''nav-node'' None '''' [''pods''] False False [],
       key_bind ''f'' ''port-forwards'' ''goto-portforwards'' False,
       key_bind ''H'' ''helm'' ''goto-helmreleases'' False,
       key_bind ''i'' ''ingresses'' ''goto-ingresses'' False,
       key_bind ''P'' ''pvc'' ''goto-pvc'' False,
       key_bind ''X'' ''context'' ''context-picker'' False,
       key_bind ''x'' ''pane context'' ''goto-contexts'' False,
       key_bind ''m'' ''messages'' ''goto-aku-messages'' False],
     key_bind ''G'' ''bottom'' ''cursor-bottom'' False,
     Binding ''o'' ''split'' '''' None '''' [] True False [
       key_bind ''p'' ''pods'' ''split-pods'' False,
       key_bind ''d'' ''deployments'' ''split-deployments'' False,
       key_bind ''s'' ''secrets'' ''split-secrets'' False,
       key_bind ''v'' ''services'' ''split-services'' False,
       key_bind ''c'' ''configmaps'' ''split-configmaps'' False,
       key_bind ''n'' ''namespaces'' ''split-namespaces'' False,
       key_bind ''S'' ''statefulsets'' ''split-statefulsets'' False,
       key_bind ''D'' ''daemonsets'' ''split-daemonsets'' False,
       Binding ''N'' ''split node'' ''split-nav-node'' None '''' [''pods''] False False [],
       key_bind ''f'' ''port-forwards'' ''split-portforwards'' False,
       key_bind ''H'' ''helm'' ''split-helmreleases'' False,
       key_bind ''i'' ''ingresses'' ''split-ingresses'' False,
       key_bind ''P'' ''pvc'' ''split-pvc'' False,
       key_bind ''x'' ''contexts'' ''split-contexts'' False,
       key_bind ''enter'' ''split children'' ''split-children'' False,
       key_bind ''backspace'' ''split parent'' ''split-parent'' False],
     Binding ''c'' ''copy'' '''' None '''' [] True False [
       key_bind ''c'' ''copy'' ''copy-current'' False,
       key_bind ''y'' ''copy yaml'' ''copy-yaml'' False,
       key_bind ''o'' ''open'' ''open-current'' False],
     key_bind ''ctrl+x'' ''clear msgs'' ''clear-notifications'' False,
     key_bind ''ctrl+d'' ''delete'' ''delete'' True,
     key_bind ''ctrl+f'' ''page down'' ''page-down'' False,
     key_bind ''ctrl+b'' ''page up'' ''page-up'' False,
     Binding ''shift+left'' ''focus left'' ''focus-left'' None '''' [] False True [],
     Binding ''shift+right'' ''focus right'' ''focus-right'' None '''' [] False True [],
     Binding ''shift+up'' ''focus up'' ''focus-up'' None '''' [] False True [],
     Binding ''shift+down'' ''focus down'' ''focus-down'' None '''' [] False True [],
     key_bind ''alt+shift+up'' ''move pane up'' ''move-pane-up'' False,
     key_bind ''alt+shift+down'' ''move pane down'' ''move-pane-down'' False,
     key_bind ''alt+shift+left'' ''move pane left'' ''move-pane-left'' False,
     key_bind ''alt+shift+right'' ''move pane right'' ''move-pane-right'' False,
     key_bind ''tab'' ''switch panel'' ''toggle-panel-focus'' True,
     key_bind ''shift+tab'' ''next split'' ''focus-next-split'' False,
     key_bind ''%'' ''layout'' ''toggle-orientation'' True,
     key_bind ''0'' ''line start'' ''scroll-home'' False,
     key_bind ''$'' ''line end'' ''scroll-end'' False,
     key_bind '':'' ''resource picker'' ''resource-picker'' False,
     key_bind ''esc'' ''close/clear'' ''clear-overlay'' False,
     key_bind ''ctrl+w'' ''close panel'' ''close-current-panel'' True,
     key_bind ''ctrl+r'' ''reload'' ''reload-all'' False,
     key_bind ''j'' ''down'' ''cursor-down'' False,
     key_bind ''k'' ''up'' ''cursor-up'' False,
     key_bind ''h'' ''scroll left'' ''scroll-left'' False,
     key_bind ''l'' ''scroll right'' ''scroll-right'' False,
     key_bind ''up'' ''up'' ''cursor-up'' False,
     key_bind ''down'' ''down'' ''cursor-down'' False,
     key_bind ''left'' ''scroll left'' ''scroll-left'' False,
     key_bind ''right'' ''scroll right'' ''scroll-right'' False,
     key_bind ''n'' ''next match'' ''search-next'' False,
     key_bind ''N'' ''prev match'' ''search-prev'' False,
     key_bind ''/'' ''search'' ''search-open'' True,
     key_bind ''ctrl+/'' ''filter'' ''filter-open'' False,
     key_bind ''|'' ''filter'' ''filter-open'' True,
     key_bind ''?'' ''help'' ''help'' False,
     Binding ''enter'' ''detail'' ''enter-detail'' None ''resources'' [] False False [],
     Binding ''backspace'' ''parent'' ''nav-parent'' None ''resources'' [] False False [],
     Binding ''space'' ''select'' ''toggle-select'' None ''resources'' [] False False [],
     Binding ''ctrl+a'' ''select all'' ''select-all'' None ''resources'' [] False False [],
     Binding ''pgdown'' ''page down'' ''page-down'' None ''resources'' [] False False [],
     Binding ''pgup'' ''page up'' ''page-up'' None ''resources'' [] False False [],
     Binding ''home'' ''top'' ''cursor-top'' None ''resources'' [] False False [],
     Binding ''end'' ''bottom'' ''cursor-bottom'' None ''resources'' [] False False [],
     Binding ''S'' ''sort'' '''' None ''resources'' [] True False [
       key_bind ''n'' ''by name'' ''sort-NAME'' False,
       key_bind ''N'' ''by namespace'' ''sort-NAMESPACE'' False,
       key_bind ''a'' ''by age'' ''sort-AGE'' False,
       key_bind ''s'' ''by status'' ''sort-STATUS'' False,
       Binding ''k'' ''by kind'' ''sort-KIND'' None '''' [''helmmanifest''] False False []],
     Binding ''x'' ''env resolve'' ''toggle-env-resolve'' None ''details'' [''pods'', ''secrets'', ''containers'', ''helmmanifest'', ''deployments'', ''statefulsets'', ''daemonsets''] True False [],
     Binding ''w'' ''wrap'' ''toggle-wrap'' None ''details'' [] True False [],
     Binding ''alt+e'' ''header'' ''toggle-header'' None ''details'' [] True False [],
     Binding ''r'' ''refresh'' ''refresh-detail'' None ''details'' [] False False [],
     Binding ''esc'' ''close/clear'' ''clear-overlay'' None ''details'' [] False False [],
     Binding ''pgdown'' ''page down'' ''page-down'' None ''details'' [] False False [],
     Binding ''pgup'' ''page up'' ''page-up'' None ''details'' [] False False [],
     Binding ''home'' ''top'' ''cursor-top'' None ''details'' [] False False [],
     Binding ''end'' ''bottom'' ''cursor-bottom'' None ''details'' [] False False [],
     Binding ''a'' ''autoscroll'' ''toggle-autoscroll'' None ''logs'' [] True False [],
     Binding ''s'' ''syntax'' ''toggle-log-syntax'' None ''logs'' [] True False [],
     Binding ''C'' ''container'' ''select-container'' None ''logs'' [] True False [],
     Binding ''t'' ''time range'' ''select-time-range'' None ''logs'' [] True False [],
     Binding ''enter'' ''mark'' ''log-insert-marker'' None ''logs'' [] False False [],
     Binding ''ctrl+s'' ''save logs'' ''save-logs'' None ''logs'' [] True False [],
     Binding ''ctrl+shift+s'' ''save & open logs'' ''save-and-open-logs'' None ''logs'' [] True False [],
     Binding ''ctrl+w'' ''close'' ''close-current-panel'' None ''terminal'' [] True False [],
     Binding ''alt+z'' ''zoom'' ''toggle-zoom'' None ''terminal'' [] True True [],
     Binding ''pgup'' ''scroll up'' ''page-up'' None ''terminal'' [] True False [],
     Binding ''pgdown'' ''scroll down'' ''page-down'' None ''terminal'' [] True False [],
     Binding ''l'' ''logs'' ''view-logs-focused'' None '''' [''pods'', ''containers''] True False [],
     Binding ''i'' ''set image'' ''set-image'' None '''' [''pods'', ''containers'', ''deployments'', ''statefulsets'', ''daemonsets''] True False [],
     Binding ''s'' ''scale'' ''scale'' None ''resources'' [''deployments'', ''statefulsets''] True False [],
     Binding ''R'' ''rollout restart'' ''rollout-restart'' None '''' [''deployments'', ''statefulsets'', ''daemonsets''] True False [],
     Binding ''R'' ''rollback'' ''helm-rollback'' None '''' [''helmreleases''] True False [],
     Binding ''C'' ''set chart'' ''helm-set-chart'' None '''' [''helmreleases''] True False [],
     Binding ''v'' ''values'' ''view-helm-values-user'' None '''' [''helmreleases''] True False [],
     Binding ''V'' ''all values'' ''view-helm-values-all'' None '''' [''helmreleases''] True False [],
     Binding ''s'' ''exec'' '''' None ''resources'' [''pods'', ''containers'', ''nodes''] True False [
       key_bind ''d'' ''debug'' ''debug'' False,
       key_bind ''p'' ''debug privileged'' ''debug-privileged'' False,
       Binding ''s'' ''exec'' ''exec'' None '''' [''pods'', ''containers''] True False []],
     Binding ''f'' ''port-forward'' ''port-forward'' None '''' [''pods'', ''containers''] False False [],
     Binding ''F'' ''port-forwards'' ''split-portforwards'' None ''resources'' [''pods'', ''containers''] True False []]"

record keymap =
  km_Bindings :: "binding list"
  km_bindingSet :: "binding_set option"

definition DefaultKeymap :: keymap where
  "DefaultKeymap = \<lparr> km_Bindings = DefaultBindings, km_bindingSet = None \<rparr>"

text \<open>
  Reading the file and decoding its YAML are parameters: a file that does not exist, an error, or
  its bindings.
\<close>

datatype 'e file_result = FileMissing | FileError 'e | FileBindings "binding list"

definition LoadKeymap :: "(string \<Rightarrow> 'e file_result) \<Rightarrow> string \<Rightarrow> 'e + keymap" where
  "LoadKeymap read_file path =
     (case read_file path of
        FileMissing \<Rightarrow> Inr DefaultKeymap
      | FileError e \<Rightarrow> Inl e
      | FileBindings bs \<Rightarrow>
          Inr \<lparr> km_Bindings = (if bs \<noteq> [] then DefaultBindings @ bs else DefaultBindings), km_bindingSet = None \<rparr>)"

definition km_BindingSet :: "keymap \<Rightarrow> keymap \<times> binding_set" where
  "km_BindingSet k =
     (let s = (case km_bindingSet k of
                 Some s \<Rightarrow> s
               | None \<Rightarrow> NewBindingSet (if km_Bindings k \<noteq> [] then km_Bindings k else DefaultBindings))
      in (k\<lparr> km_bindingSet := Some s \<rparr>, s))"

definition DefaultKeyTrie :: key_trie where
  "DefaultKeyTrie = TrieFor ''resources'' ''pods'' (NewBindingSet DefaultBindings)"

end
