(* ===== verification/Key_Props.thy ===== *)
theory Key_Props
  imports Default_Keys
begin

text \<open>
  What the key tries promise: every sequence of keys is resolved after as many keys as the
  bindings are nested, a later binding overrides an earlier one key by key, and what the status
  bar offers is bound. The help screen offers more than is bound.
\<close>

section \<open>Walking the trie\<close>

text \<open>The state after a sequence of keys, and the result of the last one.\<close>

definition press_keys_of :: "string list \<Rightarrow> key_trie \<Rightarrow> key_trie" where
  "press_keys_of ks t = fold (\<lambda>k t. fst (Press k t)) ks t"

lemma Press_root [simp]: "kt_root (fst (Press k t)) = kt_root t"
  by (simp add: Press_def split: option.splits)

fun node_at :: "string list \<Rightarrow> key_map \<Rightarrow> key_node option" where
  "node_at [] m = None"
| "node_at (k # ks) m = (case map_of m k of None \<Rightarrow> None | Some n \<Rightarrow> if ks = [] then Some n else node_at ks (kn_Keys n))"

text \<open>The number of keys that a sequence can take below a node.\<close>

primrec node_depth :: "key_node \<Rightarrow> nat" where
  "node_depth (KeyNode _ _ _ ks _) = Suc (foldr max (map snd (map (map_prod id node_depth) ks)) 0)"

definition map_depth :: "key_map \<Rightarrow> nat" where
  "map_depth m = foldr max (map (\<lambda>(k, n). node_depth n) m) 0"

lemma foldr_max_ge: "x \<in> set xs \<Longrightarrow> x \<le> foldr max xs (0::nat)"
  by (induction xs) auto

lemma foldr_max_le: "foldr max xs (0::nat) \<le> d \<longleftrightarrow> (\<forall>x\<in>set xs. x \<le> d)"
  by (induction xs) auto

lemma node_depth_eq: "node_depth n = Suc (map_depth (kn_Keys n))"
  by (cases n) (simp add: map_depth_def comp_def case_prod_unfold)

declare node_depth.simps [simp del]

lemma node_depth_KeyNode [simp]: "node_depth (KeyNode h c r ks hid) = Suc (map_depth ks)"
  by (simp add: node_depth_eq)

lemma map_depth_Nil [simp]: "map_depth [] = 0"
  by (simp add: map_depth_def)

lemma map_depth_Cons [simp]: "map_depth (a # m) = max (node_depth (snd a)) (map_depth m)"
  by (cases a) (simp add: map_depth_def)

lemma map_depth_pos: "m \<noteq> [] \<Longrightarrow> 0 < map_depth m"
  by (cases m) (simp_all add: node_depth_eq [of "snd a" for a])

lemma map_depth_le: "map_depth m \<le> d \<longleftrightarrow> (\<forall>(k, n)\<in>set m. node_depth n \<le> d)"
  by (induction m) (auto simp: case_prod_unfold)

lemma map_depth_lookup: "map_of m k = Some n \<Longrightarrow> node_depth n \<le> map_depth m"
  using map_depth_le [of m "map_depth m"] by (auto dest: map_of_SomeD)

lemma Press_descends:
  assumes "Press k t = (t', c, r, False)"
  shows "map_depth (kt_lookup t') < map_depth (kt_lookup t)"
proof -
  obtain n where n: "map_of (kt_lookup t) k = Some n" "kt_lookup t' = kn_Keys n"
    using assms by (auto simp: Press_def kt_lookup_def split: option.splits if_splits)
  then show ?thesis using map_depth_lookup [OF n(1)] by (simp add: node_depth_eq)
qed

lemma Press_resolves: "Press k t = (t', c, r, True) \<Longrightarrow> AtRoot t'"
  by (auto simp: Press_def AtRoot_def split: option.splits if_splits)

lemma press_within:
  assumes "map_depth (kt_lookup t) \<le> length ks" and "ks \<noteq> []"
  shows "\<exists>pre post. ks = pre @ post \<and> pre \<noteq> [] \<and> AtRoot (press_keys_of pre t)"
  using assms
proof (induction ks arbitrary: t)
  case (Cons k ks)
  obtain t' c r b where p: "Press k t = (t', c, r, b)" by (metis prod_cases4)
  show ?case
  proof (cases b)
    case True
    then have "AtRoot (press_keys_of [k] t)" using Press_resolves p by (simp add: press_keys_of_def)
    then show ?thesis by (intro exI [of _ "[k]"] exI [of _ ks]) simp
  next
    case False
    then have d: "map_depth (kt_lookup t') < map_depth (kt_lookup t)" using Press_descends p by simp
    have "ks \<noteq> []"
    proof
      assume "ks = []"
      then have "map_depth (kt_lookup t') = 0" using d Cons.prems(1) by simp
      moreover have "kt_lookup t' \<noteq> []"
        using p False by (auto simp: Press_def kt_lookup_def split: option.splits if_splits)
      ultimately show False using map_depth_pos [of "kt_lookup t'"] by simp
    qed
    then obtain pre post where "ks = pre @ post" "pre \<noteq> []" "AtRoot (press_keys_of pre t')"
      using Cons.IH [of t'] d Cons.prems(1) by auto
    then show ?thesis using p by (intro exI [of _ "k # pre"] exI [of _ post]) (simp add: press_keys_of_def)
  qed
qed simp

section \<open>How deep bindings are nested\<close>

primrec nesting :: "binding \<Rightarrow> nat" where
  "nesting (Binding _ _ _ _ _ _ _ _ ks) = Suc (foldr max (map nesting ks) 0)"

lemma nesting_eq: "nesting b = Suc (foldr max (map nesting (b_Keys b)) 0)"
  by (cases b) simp

lemma nesting_inherit [simp]: "nesting (inherit b c) = nesting c"
  by (simp add: nesting_eq inherit_def)

lemma set_update: "set (AList.update k v m) \<subseteq> insert (k, v) (set m)"
  by (induction m) auto

lemma map_depth_update: "map_depth m \<le> d \<Longrightarrow> node_depth v \<le> d \<Longrightarrow> map_depth (AList.update k v m) \<le> d"
  using set_update [of k v m] by (force simp: map_depth_le)

lemma map_depth_copy: "map_depth m \<le> d \<Longrightarrow> map_depth m' \<le> d \<Longrightarrow> map_depth (maps_Copy m m') \<le> d"
  unfolding maps_Copy_def
proof (induction m' arbitrary: m)
  case (Cons a m')
  then show ?case using map_depth_update [of m d "snd a" "fst a"] by (auto simp: case_prod_unfold)
qed simp

lemma insertBinding_depth:
  "map_depth root \<le> d \<Longrightarrow> nesting b \<le> d \<Longrightarrow> map_depth (insertBinding ct rn root b) \<le> d"
proof (induction ct rn root b arbitrary: d rule: insertBinding.induct)
  case (1 ct rn root b)
  show ?case
  proof (cases "matchesContext ct rn b \<and> b_Keys b \<noteq> []")
    case False
    then show ?thesis using "1.prems"
      by (subst insertBinding.simps) (auto intro!: map_depth_update simp: nesting_eq [of b])
  next
    case True
    obtain d' where d': "d = Suc d'" using "1.prems"(2) by (cases d) (simp_all add: nesting_eq)
    define ch where "ch = foldl (\<lambda>m c. insertBinding ct rn m (inherit b c)) [] (b_Keys b)"
    have step: "map_depth (foldl (\<lambda>m c. insertBinding ct rn m (inherit b c)) m cs) \<le> d'"
      if "map_depth m \<le> d'" "set cs \<subseteq> set (b_Keys b)" for m cs
      using that
    proof (induction cs arbitrary: m)
      case (Cons c cs)
      have "nesting (inherit b c) \<le> d'"
        using "1.prems"(2) Cons.prems(2) d' foldr_max_ge [of "nesting c" "map nesting (b_Keys b)"]
        by (simp add: nesting_eq [of b])
      then have "map_depth (insertBinding ct rn m (inherit b c)) \<le> d'"
        using "1.IH" [of c m d'] True Cons.prems by simp
      then show ?case using Cons by simp
    qed simp
    have ch: "map_depth ch \<le> d'" unfolding ch_def by (rule step) simp_all
    have e: "map_depth (kn_Keys n) \<le> d'" if "map_of root (b_Key b) = Some n" for n
      using map_depth_lookup [OF that] "1.prems"(1) by (simp add: node_depth_eq d')
    show ?thesis using True "1.prems"(1) ch e
      by (subst insertBinding.simps, unfold Let_def ch_def [symmetric])
        (auto intro!: map_depth_update map_depth_copy simp: d' split: option.split)
  qed
qed

lemma compile_depth: "\<forall>b\<in>set bs. nesting b \<le> d \<Longrightarrow> map_depth (compile_keys ct rn bs) \<le> d"
proof -
  assume "\<forall>b\<in>set bs. nesting b \<le> d"
  moreover have "map_depth (foldl (insertBinding ct rn) m bs) \<le> d"
    if "map_depth m \<le> d" "\<forall>b\<in>set bs. nesting b \<le> d" for m
    using that by (induction bs arbitrary: m) (auto intro: insertBinding_depth)
  ultimately show ?thesis by (simp add: compile_keys_def)
qed

section \<open>Overriding\<close>

lemma map_of_update: "map_of (AList.update k v m) k' = (if k' = k then Some v else map_of m k')"
  by (simp add: update_conv')

lemma map_of_copy: "map_of (maps_Copy m m') k = (case map_of (rev m') k of Some v \<Rightarrow> Some v | None \<Rightarrow> map_of m k)"
  unfolding maps_Copy_def
proof (induction m' arbitrary: m)
  case (Cons a m')
  then show ?case by (cases a) (simp add: map_of_update map_add_def split: option.split)
qed simp

text \<open>The command that a sequence of keys runs, if its last key is the one that resolves it.\<close>

fun runs :: "string list \<Rightarrow> key_trie \<Rightarrow> (string \<times> run_config option) option" where
  "runs [] t = None"
| "runs (k # ks) t = (case Press k t of (t', c, r, finished) \<Rightarrow>
     if ks = [] then (if finished \<and> (c \<noteq> '''' \<or> r \<noteq> None) then Some (c, r) else None)
     else if finished then None else runs ks t')"

definition node_command :: "key_node \<Rightarrow> (string \<times> run_config option) option" where
  "node_command n = (if kn_Keys n = [] \<and> (kn_Command n \<noteq> '''' \<or> kn_Run n \<noteq> None)
     then Some (kn_Command n, kn_Run n) else None)"

lemma node_at_Nil [simp]: "node_at ks [] = None"
  by (cases ks) simp_all

lemma runs_node: "runs ks t = Option.bind (node_at ks (kt_lookup t)) node_command"
proof (induction ks arbitrary: t)
  case (Cons k ks)
  show ?case
  proof (cases "map_of (kt_lookup t) k")
    case None
    then show ?thesis by (simp add: Press_def)
  next
    case (Some n)
    then show ?thesis
      using Cons.IH [of "t\<lparr> kt_current := Some n \<rparr>"]
      by (auto simp: Press_def node_command_def kt_lookup_def)
  qed
qed simp

lemma lookup_New [simp]: "kt_lookup (NewKeyTrie m) = m"
  by (simp add: kt_lookup_def NewKeyTrie_def)

definition chord_keys :: "string \<Rightarrow> string \<Rightarrow> binding \<Rightarrow> key_map" where
  "chord_keys ct rn b = compile_keys ct rn (map (inherit b) (b_Keys b))"

lemma insertBinding_chord:
  "foldl (\<lambda>m c. insertBinding ct rn m (inherit b c)) [] (b_Keys b) = chord_keys ct rn b"
  by (simp add: chord_keys_def compile_keys_def foldl_map)

lemma distinct_compile: "distinct (map fst (compile_keys ct rn bs))"
proof -
  have "distinct (map fst (foldl (insertBinding ct rn) m bs))" if "distinct (map fst m)" for m
    using that
  proof (induction bs arbitrary: m)
    case (Cons b bs)
    have "distinct (map fst (insertBinding ct rn m b))"
      using Cons.prems by (subst insertBinding.simps) (simp add: Let_def distinct_update)
    then show ?case using Cons.IH by simp
  qed simp
  then show ?thesis by (simp add: compile_keys_def)
qed

lemma map_of_rev_distinct: "distinct (map fst m) \<Longrightarrow> map_of (rev m) k = map_of m k"
  by (induction m) (auto simp: map_add_def map_of_eq_None_iff [symmetric] split: option.split)

lemma map_of_copy_chord:
  "map_of (maps_Copy m (chord_keys ct rn b)) k =
     (case map_of (chord_keys ct rn b) k of Some v \<Rightarrow> Some v | None \<Rightarrow> map_of m k)"
  using distinct_compile [of ct rn "map (inherit b) (b_Keys b)"]
  by (simp add: map_of_copy chord_keys_def map_of_rev_distinct)

lemma compile_snoc: "compile_keys ct rn (bs @ [b]) = insertBinding ct rn (compile_keys ct rn bs) b"
  by (simp add: compile_keys_def)

lemma node_at_insert:
  assumes "b_Keys b \<noteq> [] \<longrightarrow> ks \<noteq> []"
  shows "node_at (k # ks) (insertBinding ct rn m b) =
    (if k \<noteq> b_Key b \<or> \<not> matchesContext ct rn b then node_at (k # ks) m
     else if b_Keys b = []
     then (if ks = [] then Some (KeyNode (b_Help b) (b_Command b) (b_Run b) [] (\<not> b_Visible b)) else None)
     else if map_of (chord_keys ct rn b) (hd ks) \<noteq> None then node_at ks (chord_keys ct rn b)
     else node_at (k # ks) m)"
proof (cases "matchesContext ct rn b \<and> b_Keys b \<noteq> [] \<and> k = b_Key b")
  case True
  then obtain k2 ks2 where ks: "ks = k2 # ks2" using assms by (cases ks) auto
  show ?thesis
    using True unfolding ks
    by (subst insertBinding.simps)
      (auto simp: insertBinding_chord map_of_update map_of_copy_chord Let_def split: option.splits if_splits)
next
  case False
  then show ?thesis by (subst insertBinding.simps) (auto simp: map_of_update Let_def)
qed

lemma bound_insert: "map_of m k \<noteq> None \<Longrightarrow> map_of (insertBinding ct rn m b) k \<noteq> None"
  by (subst insertBinding.simps) (simp add: map_of_update Let_def)

lemma bound_compile:
  assumes "b \<in> set bs" and "matchesContext ct rn b"
  shows "map_of (compile_keys ct rn bs) (b_Key b) \<noteq> None"
  using assms(1)
proof (induction bs rule: rev_induct)
  case (snoc a bs)
  show ?case
  proof (cases "a = b")
    case True
    then show ?thesis using assms(2) by (subst compile_snoc, subst insertBinding.simps) (simp add: map_of_update Let_def)
  next
    case False
    then have "b \<in> set bs" using snoc.prems by simp
    from bound_insert [OF snoc.IH [OF this]] show ?thesis unfolding compile_snoc .
  qed
qed simp

lemma set_StatusHints: "set (StatusHints ct rn bs) = (\<lambda>b. \<lparr> kh_Key = b_Key b, kh_Help = b_Help b \<rparr>) `
    {b \<in> set (bindings bs). b_Visible b \<and> matchesContext ct rn b \<and> (b_Command b \<noteq> '''' \<or> b_Run b \<noteq> None \<or> b_Keys b \<noteq> [])}"
  by (auto simp: StatusHints_def sortHints_def set_sort_stable)

text \<open>The help screen lists the leaves of the matching bindings, grouped.\<close>

lemma set_HelpGroups: "set (concat (map snd (HelpGroups ct rn bs))) =
    (\<Union>b\<in>set (filter (matchesContext ct rn) (bindings bs)). set (flattenBinding b ''''))"
  by (force simp: HelpGroups_def Let_def sortHints_def set_sort_stable)

section \<open>Properties\<close>

text \<open>C10. The walk never hangs: with bindings nested at most \<open>d\<close> deep, among any \<open>d\<close> keys there is one
  after which the trie is back at its root, ready for a new sequence.\<close>

theorem key_sequences_end:
  assumes "\<forall>b\<in>set bs. nesting b \<le> length ks" and "ks \<noteq> []"
  shows "\<exists>pre post. ks = pre @ post \<and> pre \<noteq> [] \<and> AtRoot (press_keys_of pre (TrieFor ct rn (NewBindingSet bs)))"
  using press_within [of "TrieFor ct rn (NewBindingSet bs)"] compile_depth [of bs "length ks" ct rn] assms
  by (simp add: TrieFor_def NewBindingSet_def)

theorem key_sequences_end_witness:
  "\<exists>pre post. [''g'', ''z''] = pre @ post \<and> pre \<noteq> [] \<and>
     AtRoot (press_keys_of pre (TrieFor ''resources'' ''pods'' (NewBindingSet DefaultBindings)))"
proof (rule key_sequences_end)
  show "\<forall>b\<in>set DefaultBindings. nesting b \<le> length [''g'', ''z'']" by code_simp
qed simp

text \<open>A binding put behind the others, as the user's are, overrides them key by key: a single key
  takes its command, a chord is merged with an earlier one so that only the keys it binds change,
  and every other sequence, or another context, is left as it was.\<close>

theorem later_binding_overrides:
  assumes "b_Keys b \<noteq> [] \<longrightarrow> ks \<noteq> []"
  shows "runs (k # ks) (TrieFor ct rn (NewBindingSet (bs @ [b]))) =
    (if k \<noteq> b_Key b \<or> \<not> matchesContext ct rn b then runs (k # ks) (TrieFor ct rn (NewBindingSet bs))
     else if b_Keys b = []
     then (if ks = [] \<and> (b_Command b \<noteq> '''' \<or> b_Run b \<noteq> None) then Some (b_Command b, b_Run b) else None)
     else if map_of (chord_keys ct rn b) (hd ks) \<noteq> None then runs ks (NewKeyTrie (chord_keys ct rn b))
     else runs (k # ks) (TrieFor ct rn (NewBindingSet bs)))"
  using node_at_insert [OF assms, of k ct rn "compile_keys ct rn bs"]
  by (simp add: runs_node TrieFor_def NewBindingSet_def compile_snoc node_command_def)

theorem later_binding_overrides_witness:
  "runs [''g'', ''i''] (TrieFor ''resources'' ''pods''
     (NewBindingSet (DefaultBindings @ [Binding ''g'' '''' '''' None ''resources'' [] False False [key_bind ''i'' ''x'' ''mine'' False]])))
   = Some (''mine'', None)"
proof -
  let ?b = "Binding ''g'' '''' '''' None ''resources'' [] False False [key_bind ''i'' ''x'' ''mine'' False]"
  have "matchesContext ''resources'' ''pods'' ?b" by code_simp
  moreover have "map_of (chord_keys ''resources'' ''pods'' ?b) ''i'' \<noteq> None" by code_simp
  moreover have "runs [''i''] (NewKeyTrie (chord_keys ''resources'' ''pods'' ?b)) = Some (''mine'', None)" by code_simp
  ultimately show ?thesis
    using later_binding_overrides [of ?b "[''i'']" "''g''" "''resources''" "''pods''" DefaultBindings] by simp
qed

text \<open>What the status bar offers is bound: its key is a key of the trie of the same context.\<close>

theorem status_hints_bound:
  assumes "h \<in> set (StatusHints ct rn bs)"
  shows "map_of (kt_root (TrieFor ct rn bs)) (kh_Key h) \<noteq> None"
proof -
  obtain b where b: "b \<in> set (bindings bs)" "matchesContext ct rn b" "kh_Key h = b_Key b"
    using assms by (auto simp: StatusHints_def sortHints_def set_sort_stable)
  show ?thesis using bound_compile [OF b(1,2)] unfolding b(3) by (simp add: TrieFor_def NewKeyTrie_def)
qed

theorem status_hints_bound_witness:
  "map_of (kt_root (TrieFor ''resources'' ''pods'' (NewBindingSet DefaultBindings))) ''alt+z'' \<noteq> None"
proof -
  have "\<lparr> kh_Key = ''alt+z'', kh_Help = ''zoom'' \<rparr> \<in> set (StatusHints ''resources'' ''pods'' (NewBindingSet DefaultBindings))"
  proof -
    let ?b = "DefaultBindings ! 5"
    have "?b \<in> set DefaultBindings" by (rule nth_mem) (simp add: DefaultBindings_def)
    moreover have "b_Visible ?b \<and> matchesContext ''resources'' ''pods'' ?b \<and> b_Command ?b \<noteq> ''''" by code_simp
    moreover have "\<lparr> kh_Key = b_Key ?b, kh_Help = b_Help ?b \<rparr> = \<lparr> kh_Key = ''alt+z'', kh_Help = ''zoom'' \<rparr>" by code_simp
    ultimately show ?thesis unfolding set_StatusHints NewBindingSet_def by (intro image_eqI [of _ _ ?b]) simp_all
  qed
  from status_hints_bound [OF this] show ?thesis by simp
qed

text \<open>The help screen does not filter the keys of a chord by the resource: over deployments it lists
  the sequence \<open>g N\<close>, which is bound for pods only and runs nothing there.\<close>

theorem help_lists_dead_keys:
  "''g N'' \<in> kh_Key ` set (concat (map snd (HelpGroups ''resources'' ''deployments'' (NewBindingSet DefaultBindings)))) \<and>
   runs [''g'', ''N''] (TrieFor ''resources'' ''deployments'' (NewBindingSet DefaultBindings)) = None"
proof
  let ?b = "DefaultBindings ! 7"
  have mem: "?b \<in> set DefaultBindings" by (rule nth_mem) (simp add: DefaultBindings_def)
  have match: "matchesContext ''resources'' ''deployments'' ?b" by code_simp
  have "''g N'' \<in> kh_Key ` set (flattenBinding ?b '''')" by code_simp
  then show "''g N'' \<in> kh_Key ` set (concat (map snd (HelpGroups ''resources'' ''deployments'' (NewBindingSet DefaultBindings))))"
  proof -
    have "?b \<in> set (filter (matchesContext ''resources'' ''deployments'') (bindings (NewBindingSet DefaultBindings)))"
      using mem match by (simp add: NewBindingSet_def)
    then show ?thesis unfolding set_HelpGroups using \<open>''g N'' \<in> kh_Key ` set (flattenBinding ?b '''')\<close> by blast
  qed
  show "runs [''g'', ''N''] (TrieFor ''resources'' ''deployments'' (NewBindingSet DefaultBindings)) = None"
    by code_simp
qed

text \<open>The captured keys do not depend on the calls made before: the set that is kept is the set of
  the keys of the bindings marked as captured.\<close>

theorem captured_memo:
  "snd (IsCaptured key (fold (\<lambda>k s. fst (IsCaptured k s)) ks (NewBindingSet bs))) \<longleftrightarrow> captured_of bs key"
proof -
  define inv where "inv s \<longleftrightarrow> bindings s = bs \<and> (capturedKeys s = None \<or> capturedKeys s = Some (captured_of bs))" for s :: binding_set
  have "inv (fst (IsCaptured k s))" if "inv s" for k s
    using that by (auto simp: inv_def IsCaptured_def Let_def)
  then have "inv (fold (\<lambda>k s. fst (IsCaptured k s)) ks s)" if "inv s" for s
    using that by (induction ks arbitrary: s) simp_all
  moreover have "inv (NewBindingSet bs)" by (simp add: inv_def NewBindingSet_def)
  ultimately have "inv (fold (\<lambda>k s. fst (IsCaptured k s)) ks (NewBindingSet bs))" by blast
  then show ?thesis by (auto simp: inv_def IsCaptured_def Let_def)
qed

end
