(* ===== verification/Notify_Store.thy ===== *)
theory Notify_Store
  imports Bounded_Log "HOL-Library.Word"
begin

text \<open>
  \<^verbatim>\<open>internal/notify/store.go\<close>: the bounded list of the program's own messages. The
  mutex makes each operation atomic, so an operation is a function of the state. Times and
  durations are nanoseconds; the clock is read by the caller of the model and passed in. The
  identifier is a \<open>uint64\<close> and wraps around.
\<close>

section \<open>State\<close>

definition defaultCapacity :: int where "defaultCapacity = 1000"

definition Sticky :: int where "Sticky = 0"

datatype level = LevelInfo | LevelWarning | LevelError

definition level_String :: "level \<Rightarrow> string" where
  "level_String l = (case l of LevelWarning \<Rightarrow> ''warning'' | LevelError \<Rightarrow> ''error'' | LevelInfo \<Rightarrow> ''info'')"

record message =
  m_ID :: "64 word"
  m_Time :: int
  m_Level :: level
  m_Text :: string
  m_Context :: string
  m_Source :: string

text \<open>\<open>ns_send\<close> says whether a callback is wired.\<close>

record notify_store =
  ns_msgs :: "message list"
  ns_nextID :: "64 word"
  ns_cap :: int
  ns_send :: bool

definition NewStore :: "int \<Rightarrow> notify_store" where
  "NewStore capacity =
     \<lparr> ns_msgs = [], ns_nextID = 0, ns_cap = (if capacity \<le> 0 then defaultCapacity else capacity), ns_send = False \<rparr>"

definition ns_SetSend :: "bool \<Rightarrow> notify_store \<Rightarrow> notify_store" where
  "ns_SetSend wired s = s\<lparr> ns_send := wired \<rparr>"

section \<open>Operations\<close>

text \<open>
  \<open>ns_push\<close> is the change of the buffer: append, then keep the last \<open>cap\<close> messages. \<open>ns_Add\<close>
  returns the message and what is sent, a \<open>MessageAddedMsg\<close> as identifier and level.
\<close>

definition ns_push :: "message \<Rightarrow> notify_store \<Rightarrow> notify_store" where
  "ns_push m s =
     (let ms = ns_msgs s @ [m]
      in s\<lparr> ns_msgs := (if int (length ms) > ns_cap s
                          then take (nat (ns_cap s)) (drop (nat (int (length ms) - ns_cap s)) ms) else ms) \<rparr>)"

definition ns_Add ::
  "int \<Rightarrow> level \<Rightarrow> string \<Rightarrow> string \<Rightarrow> string \<Rightarrow> notify_store \<Rightarrow> notify_store \<times> message \<times> (64 word \<times> level) list" where
  "ns_Add now l text ctx source s =
     (let i = ns_nextID s + 1;
          m = \<lparr> m_ID = i, m_Time = now, m_Level = l, m_Text = text, m_Context = ctx, m_Source = source \<rparr>
      in (ns_push m (s\<lparr> ns_nextID := i \<rparr>), m, if ns_send s then [(i, l)] else []))"

definition ns_List :: "notify_store \<Rightarrow> message list" where
  "ns_List s = rev (ns_msgs s)"

definition is_live :: "int \<Rightarrow> (level \<Rightarrow> int) \<Rightarrow> message \<Rightarrow> bool" where
  "is_live now ttl m \<longleftrightarrow> ttl (m_Level m) = Sticky \<or> now - m_Time m < ttl (m_Level m)"

definition ns_Live :: "int \<Rightarrow> (level \<Rightarrow> int) \<Rightarrow> notify_store \<Rightarrow> message list" where
  "ns_Live now ttl s = filter (is_live now ttl) (rev (ns_msgs s))"

section \<open>A bounded log\<close>

definition ns_ok :: "notify_store \<Rightarrow> bool" where
  "ns_ok s \<longleftrightarrow> 0 < ns_cap s \<and> int (length (ns_msgs s)) \<le> ns_cap s"

lemma ns_push_msgs: "0 < ns_cap s \<Longrightarrow> ns_msgs (ns_push m s) = lastn (nat (ns_cap s)) (ns_msgs s @ [m])"
  by (auto simp: ns_push_def Let_def lastn_def nat_diff_distrib simp del: of_nat_Suc)

lemma ns_push_fields [simp]:
  "ns_cap (ns_push m s) = ns_cap s" "ns_nextID (ns_push m s) = ns_nextID s" "ns_send (ns_push m s) = ns_send s"
  by (simp_all add: ns_push_def Let_def)

interpretation nlog: bounded_log ns_push ns_msgs "\<lambda>s. nat (ns_cap s)" ns_ok
  by unfold_locales (auto simp: ns_ok_def ns_push_msgs)

lemma ns_ok_New: "ns_ok (NewStore c)"
  by (simp add: ns_ok_def NewStore_def defaultCapacity_def)

lemma ns_ok_Add: "ns_ok s \<Longrightarrow> ns_ok (fst (ns_Add now l text ctx source s))"
  unfolding ns_Add_def Let_def fst_conv by (rule nlog.ok_add) (simp add: ns_ok_def)

lemma ns_msgs_Add:
  assumes "ns_ok s"
  shows "ns_msgs (fst (ns_Add now l text ctx source s)) =
    lastn (nat (ns_cap s)) (ns_msgs s @ [fst (snd (ns_Add now l text ctx source s))])"
proof -
  have "ns_ok (s\<lparr> ns_nextID := ns_nextID s + 1 \<rparr>)" using assms by (simp add: ns_ok_def)
  from nlog.entries_add [OF this] show ?thesis by (simp add: ns_Add_def Let_def)
qed

section \<open>Identifiers\<close>

text \<open>Identifiers increase along the buffer and none is above the counter.\<close>

definition ids_ok :: "notify_store \<Rightarrow> bool" where
  "ids_ok s \<longleftrightarrow> sorted_wrt (<) (map (unat \<circ> m_ID) (ns_msgs s)) \<and> (\<forall>m\<in>set (ns_msgs s). unat (m_ID m) \<le> unat (ns_nextID s))"

lemma ids_ok_New: "ids_ok (NewStore c)"
  by (simp add: ids_ok_def NewStore_def)

lemma next_id:
  assumes "unat (ns_nextID s) + 1 < 2 ^ 64"
  shows "unat (ns_nextID s + 1) = unat (ns_nextID s) + 1"
  using assms by (simp add: unat_word_ariths)

lemma ids_ok_Add:
  assumes "ns_ok s" and "ids_ok s" and "unat (ns_nextID s) + 1 < 2 ^ 64"
  shows "ids_ok (fst (ns_Add now l text ctx source s))"
proof -
  let ?s = "fst (ns_Add now l text ctx source s)" and ?m = "fst (snd (ns_Add now l text ctx source s))"
  have m: "unat (m_ID ?m) = unat (ns_nextID s) + 1" "unat (ns_nextID ?s) = unat (ns_nextID s) + 1"
    using next_id [OF assms(3)] by (simp_all add: ns_Add_def Let_def)
  have "sorted_wrt (<) (map (unat \<circ> m_ID) (ns_msgs s @ [?m]))"
    using assms(2) m(1) by (auto simp: ids_ok_def sorted_wrt_append less_Suc_eq_le)
  then have "sorted_wrt (<) (map (unat \<circ> m_ID) (ns_msgs ?s))"
    unfolding ns_msgs_Add [OF assms(1)] lastn_def drop_map [symmetric] by (rule sorted_wrt_drop)
  moreover have "set (ns_msgs ?s) \<subseteq> insert ?m (set (ns_msgs s))"
    unfolding ns_msgs_Add [OF assms(1)] lastn_def using set_drop_subset by fastforce
  ultimately show ?thesis using assms(2) m by (fastforce simp: ids_ok_def)
qed

end
