(* ===== verification/Config.thy ===== *)
theory Config
  imports Prelude
begin

text \<open>
  \<^verbatim>\<open>internal/config/config.go\<close>: the options of the configuration file and the
  accessors that put defaults in the place of what is not set. Durations are nanoseconds.
\<close>

definition Second :: int where "Second = 1000000000"

record debug_config =
  dc_Image :: string
  dc_Command :: "string list"

record exec_config =
  ec_Command :: "string list"

record api_config =
  TimeoutSeconds :: int
  HeartbeatSeconds :: int

record logs_config =
  lc_BufferSize :: int
  DefaultTimeRange :: string

record terminal_config =
  tc_Prefix :: string
  tc_Scrollback :: int

record notifications_config =
  nc_BufferSize :: int
  MaxVisible :: int
  TimeoutInfo :: int
  TimeoutWarning :: int
  TimeoutError :: int

text \<open>A nil map of maps is the empty map, which is what reading it gives.\<close>

record config =
  cfg_Theme :: string
  cfg_Charts :: "string \<rightharpoonup> (string \<rightharpoonup> string)"
  cfg_API :: api_config
  cfg_Debug :: debug_config
  cfg_Exec :: exec_config
  cfg_Logs :: logs_config
  cfg_Mouse :: bool
  cfg_Terminal :: terminal_config
  cfg_Contexts :: "string list"
  cfg_Notifications :: notifications_config

definition DefaultConfig :: config where
  "DefaultConfig = \<lparr> cfg_Theme = '''', cfg_Charts = Map.empty,
     cfg_API = \<lparr> TimeoutSeconds = 0, HeartbeatSeconds = 0 \<rparr>, cfg_Debug = \<lparr> dc_Image = '''', dc_Command = [] \<rparr>,
     cfg_Exec = \<lparr> ec_Command = [] \<rparr>, cfg_Logs = \<lparr> lc_BufferSize = 0, DefaultTimeRange = '''' \<rparr>, cfg_Mouse = False,
     cfg_Terminal = \<lparr> tc_Prefix = '''', tc_Scrollback = 0 \<rparr>, cfg_Contexts = [],
     cfg_Notifications = \<lparr> nc_BufferSize = 0, MaxVisible = 0, TimeoutInfo = 0, TimeoutWarning = 0, TimeoutError = 0 \<rparr> \<rparr>"

definition ChartRef :: "string \<Rightarrow> string \<Rightarrow> config \<Rightarrow> string" where
  "ChartRef ns release c =
     (case cfg_Charts c ns of None \<Rightarrow> '''' | Some m \<Rightarrow> (case m release of None \<Rightarrow> '''' | Some r \<Rightarrow> r))"

definition SetChartRef :: "string \<Rightarrow> string \<Rightarrow> string \<Rightarrow> config \<Rightarrow> config" where
  "SetChartRef ns release ref c =
     (let m = (case cfg_Charts c ns of None \<Rightarrow> Map.empty | Some m \<Rightarrow> m)
      in c\<lparr> cfg_Charts := (cfg_Charts c)(ns \<mapsto> m(release \<mapsto> ref)) \<rparr>)"

definition DebugImage :: "config \<Rightarrow> string" where
  "DebugImage c = (if dc_Image (cfg_Debug c) \<noteq> '''' then dc_Image (cfg_Debug c) else ''busybox:latest'')"

definition DebugCommand :: "config \<Rightarrow> string list" where
  "DebugCommand c = (if dc_Command (cfg_Debug c) \<noteq> [] then dc_Command (cfg_Debug c) else [''sh''])"

definition ExecCommand :: "config \<Rightarrow> string list" where
  "ExecCommand c = (if ec_Command (cfg_Exec c) \<noteq> [] then ec_Command (cfg_Exec c)
     else [''sh'', ''-c'', ''clear; (bash || ash || sh)''])"

definition TerminalPrefix :: "config \<Rightarrow> string" where
  "TerminalPrefix c = (if tc_Prefix (cfg_Terminal c) \<noteq> '''' then tc_Prefix (cfg_Terminal c) else ''ctrl+a'')"

definition TerminalScrollback :: "config \<Rightarrow> int" where
  "TerminalScrollback c = (if tc_Scrollback (cfg_Terminal c) > 0 then tc_Scrollback (cfg_Terminal c) else 5000)"

definition LogDefaultTimeRange :: "config \<Rightarrow> string" where
  "LogDefaultTimeRange c = (if DefaultTimeRange (cfg_Logs c) \<noteq> '''' then DefaultTimeRange (cfg_Logs c) else ''15m'')"

definition LogBufferSize :: "config \<Rightarrow> int" where
  "LogBufferSize c = (if lc_BufferSize (cfg_Logs c) > 0 then lc_BufferSize (cfg_Logs c) else 10000)"

definition APITimeout :: "config \<Rightarrow> int" where
  "APITimeout c = (if TimeoutSeconds (cfg_API c) > 0 then TimeoutSeconds (cfg_API c) * Second else 5 * Second)"

definition HeartbeatInterval :: "config \<Rightarrow> int" where
  "HeartbeatInterval c = (if HeartbeatSeconds (cfg_API c) > 0 then HeartbeatSeconds (cfg_API c) * Second else 5 * Second)"

definition NotifyBufferSize :: "config \<Rightarrow> int" where
  "NotifyBufferSize c = (if nc_BufferSize (cfg_Notifications c) > 0 then nc_BufferSize (cfg_Notifications c) else 1000)"

definition NotifyMaxVisible :: "config \<Rightarrow> int" where
  "NotifyMaxVisible c = (if MaxVisible (cfg_Notifications c) > 0 then MaxVisible (cfg_Notifications c) else 5)"

text \<open>The level is the number of the \<open>notify\<close> level: 1 is a warning, 2 an error.\<close>

definition ToastTTL :: "int \<Rightarrow> config \<Rightarrow> int" where
  "ToastTTL l c =
     (let (secs, def) = (if l = 1 then (TimeoutWarning (cfg_Notifications c), 5 * Second)
                         else if l = 2 then (TimeoutError (cfg_Notifications c), 8 * Second)
                         else (TimeoutInfo (cfg_Notifications c), 3 * Second))
      in if secs > 0 then secs * Second else if secs < 0 then 0 else def)"

lemma ChartRef_SetChartRef:
  "ChartRef ns' rel' (SetChartRef ns rel ref c) = (if ns' = ns \<and> rel' = rel then ref else ChartRef ns' rel' c)"
  by (auto simp: ChartRef_def SetChartRef_def Let_def split: option.splits)

end
