(* ===== verification/Toasts.thy ===== *)
theory Toasts
  imports Notify_Store Config Text_Lines
begin

text \<open>
  The toasts of \<^verbatim>\<open>internal/app/app.go\<close>: which messages of the store are on screen, and
  the handlers of the messages that a message was added, that a toast expired and that all are to
  be cleared. \<^verbatim>\<open>internal/ui/toaststack.go\<close> bounds how many are drawn.
\<close>

section \<open>State\<close>

text \<open>The fields \<open>notify\<close> and \<open>dismissed\<close> of the application.\<close>

record toasts =
  to_notify :: notify_store
  dismissed :: "64 word set"

fun level_int :: "level \<Rightarrow> int" where
  "level_int LevelInfo = 0"
| "level_int LevelWarning = 1"
| "level_int LevelError = 2"

definition toastTTL :: "config \<Rightarrow> level \<Rightarrow> int" where
  "toastTTL c l = ToastTTL (level_int l) c"

definition pruneDismissed :: "toasts \<Rightarrow> toasts" where
  "pruneDismissed t = t\<lparr> dismissed := {i \<in> dismissed t. i \<in> m_ID ` set (ns_List (to_notify t))} \<rparr>"

definition messageCreatedAt :: "64 word \<Rightarrow> toasts \<Rightarrow> int option" where
  "messageCreatedAt i t = map_option m_Time (find (\<lambda>m. m_ID m = i) (ns_List (to_notify t)))"

definition visibleToasts :: "int \<Rightarrow> (level \<Rightarrow> int) \<Rightarrow> toasts \<Rightarrow> message list" where
  "visibleToasts now ttl t = filter (\<lambda>m. m_ID m \<notin> dismissed t) (ns_Live now ttl (to_notify t))"

definition dismiss :: "64 word \<Rightarrow> toasts \<Rightarrow> toasts" where
  "dismiss i t = pruneDismissed (t\<lparr> dismissed := insert i (dismissed t) \<rparr>)"

section \<open>Handlers\<close>

text \<open>The tick that a new message arms: the time left, and the identifier it will report.\<close>

definition on_MessageAdded :: "config \<Rightarrow> int \<Rightarrow> 64 word \<Rightarrow> level \<Rightarrow> toasts \<Rightarrow> toasts \<times> (int \<times> 64 word) option" where
  "on_MessageAdded c now i l t =
     (let ttl = toastTTL c l
      in if ttl = 0 then (t, None)
         else case messageCreatedAt i t of
           None \<Rightarrow> (dismiss i t, None)
         | Some created \<Rightarrow>
             (let remaining = ttl - (now - created)
              in if remaining \<le> 0 then (dismiss i t, None) else (t, Some (remaining, i))))"

definition on_ToastExpired :: "64 word \<Rightarrow> toasts \<Rightarrow> toasts" where
  "on_ToastExpired i t = dismiss i t"

definition on_ClearNotifications :: "config \<Rightarrow> int \<Rightarrow> toasts \<Rightarrow> toasts" where
  "on_ClearNotifications c now t =
     pruneDismissed (t\<lparr> dismissed := dismissed t \<union> m_ID ` set (ns_Live now (toastTTL c) (to_notify t)) \<rparr>)"

section \<open>The stack\<close>

definition NewToastStack :: "int \<Rightarrow> int" where
  "NewToastStack maxVisible = (if maxVisible \<le> 0 then 5 else maxVisible)"

text \<open>The messages that get a box and the number in the line below them; \<open>chrome\<close> is the border.\<close>

definition stack_boxes :: "int \<Rightarrow> int \<Rightarrow> message list \<Rightarrow> int \<Rightarrow> int \<Rightarrow> (message list \<times> int) option" where
  "stack_boxes maxVisible chrome live termW termH =
     (if live = [] then None
      else if termW < 8 + chrome \<or> termH < 1 then None
      else if int (length live) > maxVisible
      then Some (take (nat maxVisible) live, int (length live) - maxVisible)
      else Some (live, 0))"

definition box_caps :: "int \<Rightarrow> int \<Rightarrow> int \<times> int" where
  "box_caps termW termH =
     (min (max (go_quot (termW * 2) 5) 8) 60, min (max (go_quot (termH * 3) 10) 1) 6)"

text \<open>A box is as wide as its widest line, its lines are cut to the height with an ellipsis.\<close>

definition toast_lines :: "(string \<Rightarrow> int) \<Rightarrow> (string \<Rightarrow> int \<Rightarrow> string) \<Rightarrow> (string \<Rightarrow> int \<Rightarrow> string) \<Rightarrow>
    string \<Rightarrow> string \<Rightarrow> int \<Rightarrow> int \<Rightarrow> int \<times> string list" where
  "toast_lines width wrap trunc ellipsis content maxW maxH =
     (let widest = foldl (\<lambda>w l. if width l > w then width l else w) 0 (split_lines content);
          boxW = min widest maxW;
          ls = split_lines (wrap content boxW)
      in (boxW, if int (length ls) > maxH
                then (take (nat maxH) ls)[nat (maxH - 1) := trunc (ls ! nat (maxH - 1) @ ellipsis) boxW] else ls))"

end
