(* ===== verification/Toasts_Props.thy ===== *)
theory Toasts_Props
  imports Toasts
begin

text \<open>
  What the notifications promise: the store keeps the newest messages, a toast that was dismissed
  never comes back while the program runs, the set of dismissed messages stays bounded, and a
  visible toast has not outlived its time.
\<close>

section \<open>Runs\<close>

text \<open>What can happen: a message is added, and the handlers run, in any order and at any time.\<close>

datatype toast_op = AddMsg int level string string string | Added int "64 word" level | Expired "64 word" | ClearAll int

fun toast_exec :: "config \<Rightarrow> toast_op \<Rightarrow> toasts \<Rightarrow> toasts" where
  "toast_exec c (AddMsg now l msg ctx source) t = t\<lparr> to_notify := fst (ns_Add now l msg ctx source (to_notify t)) \<rparr>"
| "toast_exec c (Added now i l) t = fst (on_MessageAdded c now i l t)"
| "toast_exec c (Expired i) t = on_ToastExpired i t"
| "toast_exec c (ClearAll now) t = on_ClearNotifications c now t"

definition toast_run :: "config \<Rightarrow> toast_op list \<Rightarrow> toasts \<Rightarrow> toasts" where
  "toast_run c ops t = fold (toast_exec c) ops t"

fun is_add :: "toast_op \<Rightarrow> bool" where
  "is_add (AddMsg _ _ _ _ _) = True"
| "is_add _ = False"

definition adds :: "toast_op list \<Rightarrow> nat" where
  "adds ops = length (filter is_add ops)"

definition msg_ids :: "toasts \<Rightarrow> 64 word set" where
  "msg_ids t = m_ID ` set (ns_msgs (to_notify t))"

definition toasts_ok :: "toasts \<Rightarrow> bool" where
  "toasts_ok t \<longleftrightarrow> ns_ok (to_notify t) \<and> ids_ok (to_notify t) \<and> finite (dismissed t) \<and>
     card (dismissed t) \<le> nat (ns_cap (to_notify t))"

lemma on_Added_cases:
  "fst (on_MessageAdded c now i l t) = t \<or> fst (on_MessageAdded c now i l t) = dismiss i t"
  by (simp add: on_MessageAdded_def Let_def split: option.split)

lemma pruned_card:
  assumes "ns_ok (to_notify t)" and "to_notify u = to_notify t" and "dismissed u = {i \<in> D. i \<in> msg_ids t}"
  shows "finite (dismissed u) \<and> card (dismissed u) \<le> nat (ns_cap (to_notify u))"
proof -
  have "finite (msg_ids t)" and "dismissed u \<subseteq> msg_ids t" using assms(3) by (auto simp: msg_ids_def)
  moreover have "card (msg_ids t) \<le> length (ns_msgs (to_notify t))"
    unfolding msg_ids_def by (metis card_length list.set_map length_map)
  ultimately have "finite (dismissed u)" "card (dismissed u) \<le> length (ns_msgs (to_notify t))"
    using finite_subset card_mono order_trans by metis+
  then show ?thesis using assms(1,2) unfolding ns_ok_def by auto
qed

lemma dismiss_eq:
  "to_notify (dismiss i t) = to_notify t"
  "dismissed (dismiss i t) = {j \<in> insert i (dismissed t). j \<in> msg_ids t}"
  by (simp_all add: dismiss_def pruneDismissed_def msg_ids_def ns_List_def)

lemma clear_eq:
  "to_notify (on_ClearNotifications c now t) = to_notify t"
  "dismissed (on_ClearNotifications c now t) =
     {j \<in> dismissed t \<union> m_ID ` set (ns_Live now (toastTTL c) (to_notify t)). j \<in> msg_ids t}"
  by (simp_all add: on_ClearNotifications_def pruneDismissed_def msg_ids_def ns_List_def)

lemma toasts_ok_step:
  assumes "toasts_ok t" and "is_add op \<Longrightarrow> unat (ns_nextID (to_notify t)) + 1 < 2 ^ 64"
  shows "toasts_ok (toast_exec c op t)"
proof -
  have ok: "ns_ok (to_notify t)" "ids_ok (to_notify t)" using assms(1) by (simp_all add: toasts_ok_def)
  have d: "toasts_ok (dismiss i t)" for i
    using ok pruned_card [OF ok(1) dismiss_eq(1,2)] by (simp add: toasts_ok_def dismiss_eq(1))
  have e: "toasts_ok (on_ClearNotifications c now t)" for now
    using ok pruned_card [OF ok(1) clear_eq(1,2)] by (simp add: toasts_ok_def clear_eq(1))
  show ?thesis
  proof (cases op)
    case (AddMsg now l msg ctx source)
    then show ?thesis using assms ns_ok_Add [OF ok(1)] ids_ok_Add [OF ok]
      by (simp add: toasts_ok_def) (simp add: ns_Add_def Let_def)
  next
    case (Added now i l)
    then show ?thesis using on_Added_cases [of c now i l t] assms(1) d by auto
  qed (simp_all add: d e on_ToastExpired_def)
qed

lemma next_id_same: "\<not> is_add op \<Longrightarrow> ns_nextID (to_notify (toast_exec c op t)) = ns_nextID (to_notify t)"
proof (cases op)
  case (Added now i l)
  then show ?thesis using on_Added_cases [of c now i l t] dismiss_eq(1) by auto
qed (simp_all add: on_ToastExpired_def dismiss_eq clear_eq)

lemma next_id_add:
  assumes "is_add op" and "unat (ns_nextID (to_notify t)) + 1 < 2 ^ 64"
  shows "unat (ns_nextID (to_notify (toast_exec c op t))) = unat (ns_nextID (to_notify t)) + 1"
  using assms next_id [OF assms(2)] by (cases op) (simp_all add: ns_Add_def Let_def)

lemma toasts_ok_run:
  assumes "toasts_ok t" and "unat (ns_nextID (to_notify t)) + adds ops < 2 ^ 64"
  shows "toasts_ok (toast_run c ops t)"
  using assms
proof (induction ops arbitrary: t)
  case (Cons op ops)
  have "unat (ns_nextID (to_notify (toast_exec c op t))) + adds ops < 2 ^ 64"
    using Cons.prems(2) next_id_same [of op c t] next_id_add [of op t c] by (cases "is_add op") (simp_all add: adds_def)
  moreover have "toasts_ok (toast_exec c op t)"
    using Cons.prems by (intro toasts_ok_step) (simp_all add: adds_def)
  ultimately show ?case using Cons.IH by (simp add: toast_run_def)
qed (simp add: toast_run_def)

text \<open>A message that is hidden: dismissed, or gone from the store for good.\<close>

definition hidden_for_good :: "64 word \<Rightarrow> toasts \<Rightarrow> bool" where
  "hidden_for_good i t \<longleftrightarrow> unat i \<le> unat (ns_nextID (to_notify t)) \<and> (i \<in> dismissed t \<or> i \<notin> msg_ids t)"

lemma hidden_step:
  assumes "toasts_ok t" and "hidden_for_good i t" and "is_add op \<Longrightarrow> unat (ns_nextID (to_notify t)) + 1 < 2 ^ 64"
  shows "hidden_for_good i (toast_exec c op t)"
proof -
  have d: "hidden_for_good i (dismiss j t)" for j
    using assms(2) by (auto simp: hidden_for_good_def dismiss_eq msg_ids_def)
  show ?thesis
  proof (cases op)
    case (AddMsg now l msg ctx source)
    let ?s = "fst (ns_Add now l msg ctx source (to_notify t))" and ?m = "fst (snd (ns_Add now l msg ctx source (to_notify t)))"
    have ok: "ns_ok (to_notify t)" using assms(1) by (simp add: toasts_ok_def)
    have n: "unat (ns_nextID (to_notify t) + 1) = unat (ns_nextID (to_notify t)) + 1"
      using assms(3) AddMsg by (intro next_id) simp
    have m: "m_ID ?m = ns_nextID (to_notify t) + 1" by (simp add: ns_Add_def Let_def)
    have "i \<noteq> m_ID ?m" using assms(2) n unfolding m by (auto simp: hidden_for_good_def)
    moreover have "set (ns_msgs ?s) \<subseteq> insert ?m (set (ns_msgs (to_notify t)))"
      unfolding ns_msgs_Add [OF ok] lastn_def using set_drop_subset by fastforce
    ultimately have "i \<in> dismissed t \<or> i \<notin> m_ID ` set (ns_msgs ?s)"
      using assms(2) by (auto simp: hidden_for_good_def msg_ids_def)
    moreover have "unat i \<le> unat (ns_nextID ?s)"
      using assms(2) n by (simp add: hidden_for_good_def ns_Add_def Let_def)
    ultimately show ?thesis using AddMsg by (simp add: hidden_for_good_def msg_ids_def)
  next
    case (Added now j l)
    then show ?thesis using on_Added_cases [of c now j l t] assms(2) d by auto
  next
    case (Expired j)
    then show ?thesis by (simp add: on_ToastExpired_def d)
  next
    case (ClearAll now)
    then show ?thesis using assms(2) by (auto simp: hidden_for_good_def clear_eq msg_ids_def)
  qed
qed

lemma hidden_run:
  assumes "toasts_ok t" and "hidden_for_good i t" and "unat (ns_nextID (to_notify t)) + adds ops < 2 ^ 64"
  shows "hidden_for_good i (toast_run c ops t)"
  using assms
proof (induction ops arbitrary: t)
  case (Cons op ops)
  have b: "is_add op \<Longrightarrow> unat (ns_nextID (to_notify t)) + 1 < 2 ^ 64" using Cons.prems(3) by (simp add: adds_def)
  have "unat (ns_nextID (to_notify (toast_exec c op t))) + adds ops < 2 ^ 64"
    using Cons.prems(3) next_id_same [of op c t] next_id_add [of op t c] by (cases "is_add op") (simp_all add: adds_def)
  then show ?case
    using Cons.IH [OF toasts_ok_step [OF Cons.prems(1) b] hidden_step [OF Cons.prems(1,2) b]] by (simp add: toast_run_def)
qed (simp add: toast_run_def)

lemma visible_not_hidden: "hidden_for_good i t \<Longrightarrow> i \<notin> m_ID ` set (visibleToasts now ttl t)"
  by (auto simp: hidden_for_good_def visibleToasts_def ns_Live_def msg_ids_def)

section \<open>Properties\<close>

definition demo_toasts :: toasts where
  "demo_toasts = toast_run DefaultConfig [AddMsg 0 LevelInfo ''a'' '''' '''', AddMsg 1 LevelError ''b'' '''' '''']
     \<lparr> to_notify = NewStore 2, dismissed = {} \<rparr>"

lemma demo_toasts_ok: "toasts_ok demo_toasts"
  unfolding demo_toasts_def
  by (rule toasts_ok_run) (simp_all add: toasts_ok_def ns_ok_New ids_ok_New adds_def, simp add: NewStore_def)

lemma demo_next: "ns_nextID (to_notify demo_toasts) = 2" "ns_nextID (to_notify (on_ToastExpired 1 demo_toasts)) = 2"
  by code_simp+

text \<open>A toast that expired or was cleared never comes back, whatever is added, expires or is cleared
  later and whenever the screen is drawn, until the counter of identifiers wraps around.\<close>

theorem dismissed_stays_hidden:
  assumes "toasts_ok t" and "i \<in> dismissed t" and "unat i \<le> unat (ns_nextID (to_notify t))"
    and "unat (ns_nextID (to_notify t)) + adds ops < 2 ^ 64"
  shows "i \<notin> m_ID ` set (visibleToasts now ttl (toast_run c ops t))"
  using hidden_run [OF assms(1) _ assms(4)] assms(2,3) visible_not_hidden by (simp add: hidden_for_good_def)

theorem dismissed_stays_hidden_witness:
  "1 \<notin> m_ID ` set (visibleToasts 5 (toastTTL DefaultConfig)
     (toast_run DefaultConfig [AddMsg 2 LevelInfo ''c'' '''' ''''] (on_ToastExpired 1 demo_toasts)))"
proof (rule dismissed_stays_hidden)
  have "toasts_ok (toast_exec DefaultConfig (Expired 1) demo_toasts)"
    by (rule toasts_ok_step [OF demo_toasts_ok]) simp
  then show "toasts_ok (on_ToastExpired 1 demo_toasts)" by simp
  show "1 \<in> dismissed (on_ToastExpired 1 demo_toasts)" by code_simp
  show "unat (1 :: 64 word) \<le> unat (ns_nextID (to_notify (on_ToastExpired 1 demo_toasts)))" by (simp add: demo_next)
  show "unat (ns_nextID (to_notify (on_ToastExpired 1 demo_toasts))) + adds [AddMsg 2 LevelInfo ''c'' '''' ''''] < 2 ^ 64"
    by (simp add: demo_next adds_def)
qed

text \<open>The store holds the newest messages, at most its capacity, and never forgets an identifier's
  order; and the set of dismissed messages never outgrows the store.\<close>

theorem toasts_bounded:
  assumes "toasts_ok t" and "unat (ns_nextID (to_notify t)) + adds ops < 2 ^ 64"
  shows "let u = toast_run c ops t in int (length (ns_List (to_notify u))) \<le> ns_cap (to_notify u) \<and>
    int (card (dismissed u)) \<le> ns_cap (to_notify u) \<and> sorted_wrt (>) (map (unat \<circ> m_ID) (ns_List (to_notify u)))"
proof -
  have "toasts_ok (toast_run c ops t)" by (rule toasts_ok_run [OF assms])
  then show ?thesis
    by (auto simp: toasts_ok_def ns_ok_def ids_ok_def Let_def ns_List_def rev_map [symmetric] sorted_wrt_rev)
qed

theorem toasts_bounded_witness:
  "let u = toast_run DefaultConfig [AddMsg 2 LevelInfo ''c'' '''' '''', ClearAll 3] demo_toasts
   in int (length (ns_List (to_notify u))) \<le> ns_cap (to_notify u) \<and>
     int (card (dismissed u)) \<le> ns_cap (to_notify u) \<and> sorted_wrt (>) (map (unat \<circ> m_ID) (ns_List (to_notify u)))"
proof (rule toasts_bounded [OF demo_toasts_ok])
  show "unat (ns_nextID (to_notify demo_toasts)) + adds [AddMsg 2 LevelInfo ''c'' '''' '''', ClearAll 3] < 2 ^ 64"
    by (simp add: demo_next adds_def)
qed

end
