(* ===== verification/Object_Store.thy ===== *)
theory Object_Store
  imports Resource_Sort "HOL-Library.AList"
begin

text \<open>
  \<^verbatim>\<open>internal/k8s/store.go\<close> and \<^verbatim>\<open>debounce.go\<close>: the cache of the objects of
  one cluster, by resource type and namespace, which informers fill, and the debouncer between
  their events and the messages to the application. The mutexes make each operation atomic.

  A Go map that is iterated is an association list: the code does not depend on its order, and
  neither does any statement. The dynamic client, the informer factory and timers are outside: what
  they do are the events of the step relation in \<^verbatim>\<open>Object_Store_Props\<close>.
\<close>

type_synonym gvr = "string \<times> string \<times> string"

type_synonym watch_key = "gvr \<times> string"

section \<open>The debouncer\<close>

text \<open>A timer is a number, new for every \<open>time.AfterFunc\<close>, as a pointer is.\<close>

record debouncer =
  db_timers :: "watch_key \<rightharpoonup> nat"
  db_next :: nat

definition NewDebouncer :: debouncer where
  "NewDebouncer = \<lparr> db_timers = Map.empty, db_next = 0 \<rparr>"

definition db_Trigger :: "watch_key \<Rightarrow> debouncer \<Rightarrow> debouncer" where
  "db_Trigger k d = \<lparr> db_timers = (db_timers d)(k \<mapsto> db_next d), db_next = db_next d + 1 \<rparr>"

text \<open>The function of timer \<open>i\<close>, which runs if the timer was not stopped in time: calls back or not.\<close>

definition db_fire :: "watch_key \<Rightarrow> nat \<Rightarrow> debouncer \<Rightarrow> debouncer \<times> bool" where
  "db_fire k i d =
     (if db_timers d k = Some i then (d\<lparr> db_timers := (db_timers d)(k := None) \<rparr>, True) else (d, False))"

definition db_Cancel :: "watch_key \<Rightarrow> debouncer \<Rightarrow> debouncer" where
  "db_Cancel k d = d\<lparr> db_timers := (db_timers d)(k := None) \<rparr>"

definition db_Stop :: "debouncer \<Rightarrow> debouncer" where
  "db_Stop d = d\<lparr> db_timers := Map.empty \<rparr>"

section \<open>The store\<close>

record object_store =
  st_client :: bool
  st_ctxName :: string
  st_static :: bool
  st_cache :: "(watch_key \<times> (string \<times> k8s_obj) list) list"
  st_informers :: "watch_key list"
  st_send :: bool
  st_debouncer :: debouncer

definition st_New :: "bool \<Rightarrow> string \<Rightarrow> bool \<Rightarrow> object_store" where
  "st_New client ctx send = \<lparr> st_client = client, st_ctxName = ctx, st_static = False, st_cache = [],
     st_informers = [], st_send = send, st_debouncer = NewDebouncer \<rparr>"

definition MarkStatic :: "object_store \<Rightarrow> object_store" where
  "MarkStatic s = s\<lparr> st_static := True \<rparr>"

definition st_SetSend :: "bool \<Rightarrow> object_store \<Rightarrow> object_store" where
  "st_SetSend send s = s\<lparr> st_send := send \<rparr>"

definition bucket :: "watch_key \<Rightarrow> object_store \<Rightarrow> (string \<times> k8s_obj) list option" where
  "bucket k s = map_of (st_cache s) k"

definition st_List :: "gvr \<Rightarrow> string \<Rightarrow> object_store \<Rightarrow> k8s_obj list" where
  "st_List gvr ns s = (case bucket (gvr, ns) s of None \<Rightarrow> [] | Some b \<Rightarrow> map snd b)"

definition ensure_bucket :: "watch_key \<Rightarrow> object_store \<Rightarrow> object_store" where
  "ensure_bucket k s = (if bucket k s = None then s\<lparr> st_cache := AList.update k [] (st_cache s) \<rparr> else s)"

text \<open>The third result says whether an informer is started.\<close>

definition Subscribe :: "gvr \<Rightarrow> string \<Rightarrow> object_store \<Rightarrow> object_store \<times> k8s_obj list \<times> bool" where
  "Subscribe gvr ns s =
     (if (gvr, ns) \<in> set (st_informers s) then (s, st_List gvr ns s, False)
      else let s1 = ensure_bucket (gvr, ns) s
           in if \<not> st_client s1 then (s1, st_List gvr ns s1, False)
              else (s1\<lparr> st_informers := (gvr, ns) # st_informers s1 \<rparr>, st_List gvr ns s1, True))"

definition IsSubscribed :: "gvr \<Rightarrow> string \<Rightarrow> object_store \<Rightarrow> bool" where
  "IsSubscribed gvr ns s \<longleftrightarrow> (gvr, ns) \<in> set (st_informers s)"

definition Unsubscribe :: "gvr \<Rightarrow> string \<Rightarrow> object_store \<Rightarrow> object_store" where
  "Unsubscribe gvr ns s =
     (if st_static s then s
      else s\<lparr> st_informers := filter (\<lambda>k. k \<noteq> (gvr, ns)) (st_informers s),
              st_cache := AList.delete (gvr, ns) (st_cache s),
              st_debouncer := db_Cancel (gvr, ns) (st_debouncer s) \<rparr>)"

definition UnsubscribeAll :: "object_store \<Rightarrow> object_store" where
  "UnsubscribeAll s =
     (if st_static s then s
      else s\<lparr> st_debouncer := db_Stop (st_debouncer s), st_informers := [], st_cache := [] \<rparr>)"

definition CountInNamespace :: "string \<Rightarrow> object_store \<Rightarrow> int" where
  "CountInNamespace ns s =
     sum_list (map (\<lambda>(k, b). if snd k = ns then int (length b) else 0) (st_cache s))"

definition cacheObjKey :: "k8s_obj \<Rightarrow> string" where
  "cacheObjKey o1 = (if o_namespace o1 \<noteq> '''' then o_namespace o1 @ ''/'' @ o_name o1 else o_name o1)"

definition CacheUpsert :: "gvr \<Rightarrow> string \<Rightarrow> k8s_obj \<Rightarrow> object_store \<Rightarrow> object_store" where
  "CacheUpsert gvr ns o1 s =
     (let s1 = ensure_bucket (gvr, ns) s;
          b = the (bucket (gvr, ns) s1)
      in s1\<lparr> st_cache := AList.update (gvr, ns) (AList.update (cacheObjKey o1) o1 b) (st_cache s1) \<rparr>)"

definition CacheDelete :: "gvr \<Rightarrow> string \<Rightarrow> k8s_obj \<Rightarrow> object_store \<Rightarrow> object_store" where
  "CacheDelete gvr ns o1 s =
     (case bucket (gvr, ns) s of
        None \<Rightarrow> s
      | Some b \<Rightarrow> s\<lparr> st_cache := AList.update (gvr, ns) (AList.delete (cacheObjKey o1) b) (st_cache s) \<rparr>)"

text \<open>The messages of one notification: a \<open>ResourceUpdatedMsg\<close> as its key and its context.\<close>

definition doNotify :: "watch_key \<Rightarrow> object_store \<Rightarrow> (watch_key \<times> string) list" where
  "doNotify k s = (if st_send s then [(k, st_ctxName s)] else [])"

section \<open>Informers\<close>

text \<open>
  An informer as \<open>runInformer\<close> runs it: its key, whether its context was cancelled and whether
  its first list is complete. An event changes the cache and, after the first list, arms the timer.
\<close>

record informer =
  inf_key :: watch_key
  inf_cancelled :: bool
  inf_synced :: bool

definition trigger :: "informer \<Rightarrow> object_store \<Rightarrow> object_store" where
  "trigger i s = (if inf_synced i then s\<lparr> st_debouncer := db_Trigger (inf_key i) (st_debouncer s) \<rparr> else s)"

definition on_upsert :: "informer \<Rightarrow> k8s_obj \<Rightarrow> object_store \<Rightarrow> object_store" where
  "on_upsert i o1 s = trigger i (CacheUpsert (fst (inf_key i)) (snd (inf_key i)) o1 s)"

definition on_delete :: "informer \<Rightarrow> k8s_obj \<Rightarrow> object_store \<Rightarrow> object_store" where
  "on_delete i o1 s = trigger i (CacheDelete (fst (inf_key i)) (snd (inf_key i)) o1 s)"

definition on_synced :: "informer \<Rightarrow> object_store \<Rightarrow> informer \<times> (watch_key \<times> string) list" where
  "on_synced i s = (i\<lparr> inf_synced := True \<rparr>, if inf_cancelled i then [] else doNotify (inf_key i) s)"

section \<open>Facts\<close>

lemma map_of_update_alist: "map_of (AList.update k v m) k' = (if k' = k then Some v else map_of m k')"
  by (simp add: update_conv')

lemma map_of_delete_alist: "map_of (AList.delete k m) k' = (if k' = k then None else map_of m k')"
  by (simp add: delete_conv')

lemma bucket_ensure: "bucket k (ensure_bucket k0 s) = (if k = k0 \<and> bucket k s = None then Some [] else bucket k s)"
  by (auto simp: ensure_bucket_def bucket_def map_of_update_alist)

lemma ensure_fields [simp]:
  "st_informers (ensure_bucket k s) = st_informers s" "st_static (ensure_bucket k s) = st_static s"
  "st_debouncer (ensure_bucket k s) = st_debouncer s" "st_client (ensure_bucket k s) = st_client s"
  "st_send (ensure_bucket k s) = st_send s" "st_ctxName (ensure_bucket k s) = st_ctxName s"
  by (simp_all add: ensure_bucket_def)

definition entries_at :: "watch_key \<Rightarrow> object_store \<Rightarrow> string \<rightharpoonup> k8s_obj" where
  "entries_at k s = (case bucket k s of None \<Rightarrow> Map.empty | Some b \<Rightarrow> map_of b)"

lemma entries_Upsert: "entries_at k (CacheUpsert gvr ns o1 s) =
    (if k = (gvr, ns) then (entries_at k s)(cacheObjKey o1 \<mapsto> o1) else entries_at k s)"
proof -
  have b: "bucket k (CacheUpsert gvr ns o1 s) =
      (if k = (gvr, ns) then Some (AList.update (cacheObjKey o1) o1 (the (bucket (gvr, ns) (ensure_bucket (gvr, ns) s))))
       else bucket k s)"
    by (auto simp: CacheUpsert_def Let_def bucket_def map_of_update_alist ensure_bucket_def)
  show ?thesis
    by (auto simp: entries_at_def b bucket_ensure map_of_update_alist fun_eq_iff split: option.split)
qed

lemma entries_Delete: "entries_at k (CacheDelete gvr ns o1 s) =
    (if k = (gvr, ns) then (entries_at k s)(cacheObjKey o1 := None) else entries_at k s)"
  by (auto simp: entries_at_def CacheDelete_def bucket_def map_of_update_alist map_of_delete_alist fun_eq_iff
      split: option.splits)

lemma entries_Unsubscribe: "\<not> st_static s \<Longrightarrow>
    entries_at k (Unsubscribe gvr ns s) = (if k = (gvr, ns) then Map.empty else entries_at k s)"
  by (simp add: entries_at_def Unsubscribe_def bucket_def map_of_delete_alist)

lemma entries_Subscribe: "entries_at k (fst (Subscribe gvr ns s)) = entries_at k s"
  by (auto simp: entries_at_def Subscribe_def Let_def bucket_ensure bucket_def [of k "_\<lparr> st_informers := _ \<rparr>"]
      simp flip: bucket_def)

end
