(* ===== verification/Discovery.thy ===== *)
theory Discovery
  imports Object_Store
begin

text \<open>
  \<^verbatim>\<open>internal/k8s/discovery.go\<close>: the indexes of the resource types of one cluster,
  replaced as a whole by \<open>Populate\<close>. \<open>schema.ParseGroupVersion\<close> belongs to apimachinery and is a
  parameter.
\<close>

record discovery =
  gvrIndex :: "string \<rightharpoonup> gvr"
  kindIndex :: "gvr \<rightharpoonup> string"
  di_empty :: bool

text \<open>\<open>di_empty\<close> is \<open>len(d.gvrIndex) == 0\<close>.\<close>

record api_resource =
  ar_Name :: string
  ar_ShortNames :: "string list"
  ar_APIVersion :: string
  ar_Group :: string
  ar_Version :: string
  ar_Kind :: string
  ar_Namespaced :: bool
  ar_GVR :: gvr

definition NewDiscovery :: discovery where
  "NewDiscovery = \<lparr> gvrIndex = Map.empty, kindIndex = Map.empty, di_empty = True \<rparr>"

definition gvrIndexKey :: "string \<Rightarrow> string \<Rightarrow> string \<Rightarrow> string" where
  "gvrIndexKey g version kind = g @ ''/'' @ version @ ''/'' @ kind"

definition ResolveGVR :: "(string \<Rightarrow> (string \<times> string) option) \<Rightarrow> string \<Rightarrow> string \<Rightarrow> discovery \<Rightarrow> gvr option" where
  "ResolveGVR parseGV apiVersion kind d =
     (case parseGV apiVersion of None \<Rightarrow> None | Some (g, v) \<Rightarrow> gvrIndex d (gvrIndexKey g v kind))"

definition KindForGVR :: "gvr \<Rightarrow> discovery \<Rightarrow> string option" where
  "KindForGVR g d = kindIndex d g"

definition IsEmpty :: "discovery \<Rightarrow> bool" where
  "IsEmpty d = di_empty d"

definition Populate :: "api_resource list \<Rightarrow> discovery \<Rightarrow> discovery" where
  "Populate rs d =
     \<lparr> gvrIndex = foldl (\<lambda>m r. m(gvrIndexKey (ar_Group r) (ar_Version r) (ar_Kind r) \<mapsto> ar_GVR r)) Map.empty rs,
       kindIndex = foldl (\<lambda>m r. m(ar_GVR r \<mapsto> ar_Kind r)) Map.empty rs, di_empty = (rs = []) \<rparr>"

text \<open>A raw list of the API: its group version and, per resource, name, short names, kind, scope, verbs.\<close>

record raw_resource =
  rr_Name :: string
  rr_ShortNames :: "string list"
  rr_Kind :: string
  rr_Namespaced :: bool
  rr_Verbs :: "string list"

definition hasVerb :: "string list \<Rightarrow> string \<Rightarrow> bool" where
  "hasVerb verbs v \<longleftrightarrow> v \<in> set verbs"

definition api_resource_of :: "string \<Rightarrow> string \<Rightarrow> raw_resource \<Rightarrow> api_resource" where
  "api_resource_of g v r =
     \<lparr> ar_Name = rr_Name r, ar_ShortNames = rr_ShortNames r, ar_APIVersion = (if g = '''' then v else g @ ''/'' @ v),
       ar_Group = g, ar_Version = v, ar_Kind = rr_Kind r, ar_Namespaced = rr_Namespaced r, ar_GVR = (g, v, rr_Name r) \<rparr>"

definition navigable :: "raw_resource \<Rightarrow> bool" where
  "navigable r \<longleftrightarrow> CHR ''/'' \<notin> set (rr_Name r) \<and> hasVerb (rr_Verbs r) ''list''"

text \<open>\<open>slices.SortFunc\<close> leaves the order of equal names open; the model takes the stable one.\<close>

definition filterAPIResources ::
  "(string \<Rightarrow> (string \<times> string) option) \<Rightarrow> (string \<times> raw_resource list) list \<Rightarrow> discovery \<Rightarrow> discovery \<times> api_resource list" where
  "filterAPIResources parseGV raw d =
     (let result = concat (map (\<lambda>(gv, rs). case parseGV gv of None \<Rightarrow> []
            | Some (g, v) \<Rightarrow> map (api_resource_of g v) (filter navigable rs)) raw);
          sorted = sort_stable (\<lambda>a b. str_cmp (ar_Name a) (ar_Name b)) result
      in (Populate sorted d, sorted))"

section \<open>Facts\<close>

lemma kindIndex_fold:
  "foldl (\<lambda>m r. m(ar_GVR r \<mapsto> ar_Kind r)) m0 rs g =
     (case find (\<lambda>r. ar_GVR r = g) (rev rs) of Some r \<Rightarrow> Some (ar_Kind r) | None \<Rightarrow> m0 g)"
  by (induction rs rule: rev_induct) (auto simp: fun_upd_def)

lemma KindForGVR_Populate:
  "KindForGVR g (Populate rs d) \<noteq> None \<longleftrightarrow> g \<in> ar_GVR ` set rs"
proof -
  have "find (\<lambda>r. ar_GVR r = g) xs \<noteq> None \<longleftrightarrow> g \<in> ar_GVR ` set xs" for xs
    by (induction xs) auto
  from this [of "rev rs"] show ?thesis
    by (auto simp: KindForGVR_def Populate_def kindIndex_fold split: option.splits)
qed

end
