(* ===== verification/Cluster_Manager.thy ===== *)
theory Cluster_Manager
  imports Discovery
begin

text \<open>
  \<^verbatim>\<open>internal/cluster/manager.go\<close> and \<^verbatim>\<open>cluster.go\<close>: one cluster for each
  kube-context, made on first use or from a client that was dialled elsewhere, and given up when no
  pane refers to it. The client is a parameter of which the manager reads a few fields; dialling is
  the argument \<open>connect\<close> of the operations that dial.
\<close>

section \<open>State\<close>

text \<open>\<open>kc_warn\<close>: the warning handler, if there is one, and whether its callback is wired.\<close>

record k8s_client =
  kc_Context :: string
  kc_Namespace :: string
  kc_Dynamic :: bool
  kc_warn :: "bool option"

record cluster =
  c_context :: string
  c_file :: string
  c_client :: "k8s_client option"
  c_store :: "object_store option"
  c_discovery :: "discovery option"
  c_err :: "string option"
  c_refCount :: int

definition cluster_New ::
  "string \<Rightarrow> string \<Rightarrow> k8s_client option \<Rightarrow> object_store option \<Rightarrow> discovery option \<Rightarrow> string option \<Rightarrow> cluster" where
  "cluster_New ctx file client store disc err =
     \<lparr> c_context = ctx, c_file = file, c_client = client, c_store = store, c_discovery = disc, c_err = err, c_refCount = 0 \<rparr>"

definition degraded :: "string \<Rightarrow> cluster" where
  "degraded ctx = cluster_New ctx '''' None None None None"

definition Connected :: "cluster option \<Rightarrow> bool" where
  "Connected c \<longleftrightarrow> (case c of None \<Rightarrow> False | Some c \<Rightarrow> c_client c \<noteq> None \<and> c_err c = None)"

record context_entry =
  ce_Name :: string
  ce_File :: string

record manager =
  clusters :: "(string \<times> cluster) list"
  mgr_entries :: "context_entry list"
  mgr_kubeconfig :: string
  mgr_send :: bool
  pinned :: "string list"

definition NewManager :: "context_entry list \<Rightarrow> string \<Rightarrow> manager" where
  "NewManager es kubeconfig =
     \<lparr> clusters = [], mgr_entries = es, mgr_kubeconfig = kubeconfig, mgr_send = False, pinned = [] \<rparr>"

text \<open>The connect function a new manager has: the default path in the place of an empty one.\<close>

definition default_connect :: "(string \<Rightarrow> string \<Rightarrow> string + k8s_client) \<Rightarrow> manager \<Rightarrow> string \<Rightarrow> string \<Rightarrow> string + k8s_client" where
  "default_connect NewClient m file ctx = NewClient (if file = '''' then mgr_kubeconfig m else file) ctx"

section \<open>Operations\<close>

definition mgr_Get :: "string \<Rightarrow> manager \<Rightarrow> cluster option" where
  "mgr_Get ctx m = map_of (clusters m) ctx"

definition put :: "cluster \<Rightarrow> manager \<Rightarrow> manager" where
  "put c m = m\<lparr> clusters := AList.update (c_context c) c (clusters m) \<rparr>"

definition mgr_Register :: "cluster \<Rightarrow> manager \<Rightarrow> manager" where
  "mgr_Register c m = put c m"

definition IsPinned :: "string \<Rightarrow> manager \<Rightarrow> bool" where
  "IsPinned ctx m \<longleftrightarrow> ctx \<in> set (pinned m)"

definition RegisterPinned :: "cluster \<Rightarrow> manager \<Rightarrow> manager" where
  "RegisterPinned c m =
     (let m1 = (put c m)\<lparr> pinned := List.insert (c_context c) (pinned m) \<rparr>
      in if \<exists>e\<in>set (mgr_entries m1). ce_Name e = c_context c then m1
         else m1\<lparr> mgr_entries := mgr_entries m1 @ [\<lparr> ce_Name = c_context c, ce_File = '''' \<rparr>] \<rparr>)"

definition wire_client :: "bool \<Rightarrow> k8s_client \<Rightarrow> k8s_client" where
  "wire_client send c = c\<lparr> kc_warn := map_option (\<lambda>_. send) (kc_warn c) \<rparr>"

definition mgr_SetSend :: "bool \<Rightarrow> manager \<Rightarrow> manager" where
  "mgr_SetSend send m =
     m\<lparr> mgr_send := send,
        clusters := map (\<lambda>(ctx, c). (ctx, c\<lparr> c_store := map_option (st_SetSend send) (c_store c),
                       c_client := map_option (wire_client send) (c_client c) \<rparr>)) (clusters m) \<rparr>"

definition fileFor :: "string \<Rightarrow> manager \<Rightarrow> string" where
  "fileFor ctx m = (case find (\<lambda>e. ce_Name e = ctx) (mgr_entries m) of None \<Rightarrow> '''' | Some e \<Rightarrow> ce_File e)"

text \<open>A new cluster around a client: its store and an empty discovery.\<close>

definition live_cluster :: "string \<Rightarrow> k8s_client \<Rightarrow> manager \<Rightarrow> cluster" where
  "live_cluster ctx client m =
     cluster_New ctx (fileFor ctx m) (Some (if mgr_send m then wire_client True client else client))
       (Some (st_New (kc_Dynamic client) ctx (mgr_send m))) (Some NewDiscovery) None"

text \<open>The third result is the error.\<close>

definition GetOrCreate ::
  "(string \<Rightarrow> string \<Rightarrow> string + k8s_client) \<Rightarrow> string \<Rightarrow> manager \<Rightarrow> manager \<times> cluster \<times> string option" where
  "GetOrCreate connect ctx m =
     (case mgr_Get ctx m of
        Some c \<Rightarrow> (m, c, c_err c)
      | None \<Rightarrow>
          if IsPinned ctx m then (m, degraded ctx, None)
          else case connect (fileFor ctx m) ctx of
            Inl e \<Rightarrow> (m, cluster_New ctx (fileFor ctx m) None None None (Some e), Some e)
          | Inr client \<Rightarrow>
              (let resolved = (if ctx = '''' then kc_Context client else ctx);
                   c = (live_cluster resolved client m)\<lparr> c_file := fileFor ctx m \<rparr>
               in (put c m, c, None)))"

definition Dial :: "(string \<Rightarrow> string \<Rightarrow> string + k8s_client) \<Rightarrow> string \<Rightarrow> manager \<Rightarrow> string + k8s_client" where
  "Dial connect ctx m = connect (fileFor ctx m) ctx"

text \<open>The third result says whether a new cluster was installed.\<close>

definition RegisterConnected :: "string \<Rightarrow> k8s_client \<Rightarrow> manager \<Rightarrow> manager \<times> cluster \<times> bool" where
  "RegisterConnected ctx client m =
     (case mgr_Get ctx m of
        Some c \<Rightarrow> (m, c, False)
      | None \<Rightarrow> if IsPinned ctx m then (m, degraded ctx, False)
                else let c = live_cluster ctx client m in (put c m, c, True))"

text \<open>The contexts that are given up, whose informers are stopped, are the second result.\<close>

definition SyncRefs :: "(string \<Rightarrow> int) \<Rightarrow> manager \<Rightarrow> manager \<times> string list" where
  "SyncRefs panes m =
     (m\<lparr> clusters :=
          map (\<lambda>(ctx, c). (ctx, if IsPinned ctx m then c else c\<lparr> c_refCount := panes ctx \<rparr>))
            (filter (\<lambda>(ctx, c). IsPinned ctx m \<or> panes ctx > 0) (clusters m)) \<rparr>,
      map fst (filter (\<lambda>(ctx, c). \<not> IsPinned ctx m \<and> panes ctx \<le> 0) (clusters m)))"

text \<open>An operation on the store of a context, as through the pointer the manager holds.\<close>

definition on_store :: "string \<Rightarrow> (object_store \<Rightarrow> object_store) \<Rightarrow> manager \<Rightarrow> manager" where
  "on_store ctx f m =
     m\<lparr> clusters := map (\<lambda>(k, c). (k, if k = ctx then c\<lparr> c_store := map_option f (c_store c) \<rparr> else c)) (clusters m) \<rparr>"

definition store_of :: "string \<Rightarrow> manager \<Rightarrow> object_store option" where
  "store_of ctx m = Option.bind (mgr_Get ctx m) c_store"

section \<open>Facts\<close>

definition mgr_wf :: "manager \<Rightarrow> bool" where
  "mgr_wf m \<longleftrightarrow> distinct (map fst (clusters m)) \<and> (\<forall>(ctx, c)\<in>set (clusters m). c_context c = ctx)"

lemma Get_put: "mgr_Get ctx (put c m) = (if ctx = c_context c then Some c else mgr_Get ctx m)"
  by (simp add: mgr_Get_def put_def map_of_update_alist)

lemma put_fields [simp]: "pinned (put c m) = pinned m" "mgr_entries (put c m) = mgr_entries m" "mgr_send (put c m) = mgr_send m"
  by (simp_all add: put_def)

lemma set_update_sub: "set (AList.update k v m) \<subseteq> insert (k, v) (set m)"
  by (induction m) auto

lemma put_wf: "mgr_wf m \<Longrightarrow> mgr_wf (put c m)"
  using set_update_sub [of "c_context c" c "clusters m"] by (auto simp: mgr_wf_def put_def distinct_update)


lemma Get_SyncRefs: "mgr_Get ctx (fst (SyncRefs panes m)) =
    (if IsPinned ctx m then mgr_Get ctx m
     else if panes ctx > 0 then map_option (\<lambda>c. c\<lparr> c_refCount := panes ctx \<rparr>) (mgr_Get ctx m) else None)"
proof -
  have "map_of (map (\<lambda>(ctx, c). (ctx, if P ctx then c else f ctx c)) (filter (\<lambda>(ctx, c). P ctx \<or> Q ctx) cs)) ctx =
      (if P ctx then map_of cs ctx else if Q ctx then map_option (f ctx) (map_of cs ctx) else None)"
    for P Q f and cs :: "(string \<times> cluster) list"
    by (induction cs) auto
  then show ?thesis by (simp add: mgr_Get_def SyncRefs_def)
qed

lemma SyncRefs_fields [simp]: "pinned (fst (SyncRefs panes m)) = pinned m" "mgr_entries (fst (SyncRefs panes m)) = mgr_entries m"
  by (simp_all add: SyncRefs_def)

lemma SyncRefs_wf: "mgr_wf m \<Longrightarrow> mgr_wf (fst (SyncRefs panes m))"
  by (fastforce simp: mgr_wf_def SyncRefs_def distinct_map inj_on_def)

lemma Get_on_store: "mgr_Get k (on_store ctx f m) =
    (if k = ctx then map_option (\<lambda>c. c\<lparr> c_store := map_option f (c_store c) \<rparr>) (mgr_Get k m) else mgr_Get k m)"
proof -
  have "map_of (map (\<lambda>(k, c). (k, if k = ctx then g c else c)) cs) k = (if k = ctx then map_option g (map_of cs k) else map_of cs k)"
    for cs :: "(string \<times> cluster) list" and g
    by (induction cs) auto
  then show ?thesis by (simp add: mgr_Get_def on_store_def)
qed

lemma store_of_on_store: "store_of k (on_store ctx f m) = (if k = ctx then map_option f (store_of k m) else store_of k m)"
  by (cases "mgr_Get ctx m") (simp_all add: store_of_def Get_on_store)

lemma on_store_fields [simp]: "pinned (on_store ctx f m) = pinned m" "mgr_entries (on_store ctx f m) = mgr_entries m"
  "mgr_send (on_store ctx f m) = mgr_send m" "map fst (clusters (on_store ctx f m)) = map fst (clusters m)"
  by (simp_all add: on_store_def comp_def case_prod_unfold)

end
