(* ===== verification/Object_Store_Props.thy ===== *)
theory Object_Store_Props
  imports Object_Store
begin

text \<open>
  The store with its informers and timers running beside it, as a step relation: the goroutines
  interleave between the operations, and an informer whose context was cancelled may still deliver
  an event that was in flight.
\<close>

section \<open>Steps\<close>

text \<open>
  \<open>sy_informers\<close> are the goroutines, \<open>sy_timers\<close> the timer functions that can still run, \<open>sy_sent\<close>
  the messages sent. \<open>sy_dirty\<close> is a ghost: the keys with a change that no message has reported.
\<close>

record store_sys =
  sy_store :: object_store
  sy_informers :: "informer list"
  sy_timers :: "(watch_key \<times> nat) list"
  sy_sent :: "(watch_key \<times> string) list"
  sy_dirty :: "watch_key set"

definition new_informer :: "watch_key \<Rightarrow> informer" where
  "new_informer k = \<lparr> inf_key = k, inf_cancelled = False, inf_synced = False \<rparr>"

definition cancel_if :: "(watch_key \<Rightarrow> bool) \<Rightarrow> informer \<Rightarrow> informer" where
  "cancel_if p i = (if p (inf_key i) then i\<lparr> inf_cancelled := True \<rparr> else i)"

definition sys_subscribe :: "gvr \<Rightarrow> string \<Rightarrow> store_sys \<Rightarrow> store_sys" where
  "sys_subscribe gvr ns y = (case Subscribe gvr ns (sy_store y) of (s, objs, started) \<Rightarrow>
     y\<lparr> sy_store := s,
        sy_informers := (if started then new_informer (gvr, ns) # sy_informers y else sy_informers y) \<rparr>)"

definition sys_unsubscribe :: "gvr \<Rightarrow> string \<Rightarrow> store_sys \<Rightarrow> store_sys" where
  "sys_unsubscribe gvr ns y =
     (if st_static (sy_store y) then y
      else y\<lparr> sy_store := Unsubscribe gvr ns (sy_store y),
              sy_informers := map (cancel_if (\<lambda>k. k = (gvr, ns))) (sy_informers y),
              sy_dirty := sy_dirty y - {(gvr, ns)} \<rparr>)"

definition sys_unsubscribe_all :: "store_sys \<Rightarrow> store_sys" where
  "sys_unsubscribe_all y =
     (if st_static (sy_store y) then y
      else y\<lparr> sy_store := UnsubscribeAll (sy_store y),
              sy_informers := map (cancel_if (\<lambda>k. True)) (sy_informers y), sy_dirty := {} \<rparr>)"

text \<open>An event of an informer, with the timer function that it arms.\<close>

definition sys_event :: "(informer \<Rightarrow> object_store \<Rightarrow> object_store) \<Rightarrow> informer \<Rightarrow> store_sys \<Rightarrow> store_sys" where
  "sys_event f i y =
     y\<lparr> sy_store := f i (sy_store y),
        sy_timers := (if inf_synced i then (inf_key i, db_next (st_debouncer (sy_store y))) # sy_timers y else sy_timers y),
        sy_dirty := (if inf_synced i then insert (inf_key i) (sy_dirty y) else sy_dirty y) \<rparr>"

definition sys_synced :: "nat \<Rightarrow> store_sys \<Rightarrow> store_sys" where
  "sys_synced n y = (case on_synced (sy_informers y ! n) (sy_store y) of (i, out) \<Rightarrow>
     y\<lparr> sy_informers := (sy_informers y)[n := i], sy_sent := sy_sent y @ out \<rparr>)"

definition sys_fire :: "watch_key \<Rightarrow> nat \<Rightarrow> store_sys \<Rightarrow> store_sys" where
  "sys_fire k i y = (case db_fire k i (st_debouncer (sy_store y)) of (d, called) \<Rightarrow>
     y\<lparr> sy_store := (sy_store y)\<lparr> st_debouncer := d \<rparr>, sy_timers := remove1 (k, i) (sy_timers y),
        sy_sent := (if called then sy_sent y @ doNotify k (sy_store y) else sy_sent y),
        sy_dirty := (if called then sy_dirty y - {k} else sy_dirty y) \<rparr>)"

inductive store_step :: "store_sys \<Rightarrow> store_sys \<Rightarrow> bool" where
  subscribe: "store_step y (sys_subscribe gvr ns y)"
| unsubscribe: "store_step y (sys_unsubscribe gvr ns y)"
| unsubscribe_all: "store_step y (sys_unsubscribe_all y)"
| upsert: "i \<in> set (sy_informers y) \<Longrightarrow> store_step y (sys_event (\<lambda>i. on_upsert i o1) i y)"
| delete: "i \<in> set (sy_informers y) \<Longrightarrow> store_step y (sys_event (\<lambda>i. on_delete i o1) i y)"
| synced: "n < length (sy_informers y) \<Longrightarrow> \<not> inf_synced (sy_informers y ! n) \<Longrightarrow> store_step y (sys_synced n y)"
| exit: "i \<in> set (sy_informers y) \<Longrightarrow> inf_cancelled i \<Longrightarrow>
    store_step y (y\<lparr> sy_informers := remove1 i (sy_informers y) \<rparr>)"
| fire: "(k, i) \<in> set (sy_timers y) \<Longrightarrow> store_step y (sys_fire k i y)"

definition start_sys :: "object_store \<Rightarrow> store_sys" where
  "start_sys s = \<lparr> sy_store = s, sy_informers = [], sy_timers = [], sy_sent = [], sy_dirty = {} \<rparr>"

inductive reachable :: "object_store \<Rightarrow> store_sys \<Rightarrow> bool" for s where
  start: "reachable s (start_sys s)"
| step: "reachable s y \<Longrightarrow> store_step y z \<Longrightarrow> reachable s z"

section \<open>The invariant\<close>

text \<open>The live informers are those that are registered, one for each key.\<close>

definition live_keys :: "store_sys \<Rightarrow> watch_key list" where
  "live_keys y = map inf_key (filter (\<lambda>i. \<not> inf_cancelled i) (sy_informers y))"

definition informers_ok :: "store_sys \<Rightarrow> bool" where
  "informers_ok y \<longleftrightarrow> distinct (st_informers (sy_store y)) \<and> distinct (live_keys y) \<and>
     set (live_keys y) = set (st_informers (sy_store y)) \<and>
     (\<forall>k\<in>set (st_informers (sy_store y)). bucket k (sy_store y) \<noteq> None)"

text \<open>A change that was not reported has a timer pending whose function will run.\<close>

definition timers_ok :: "store_sys \<Rightarrow> bool" where
  "timers_ok y \<longleftrightarrow>
     (\<forall>k i. db_timers (st_debouncer (sy_store y)) k = Some i \<longrightarrow> (k, i) \<in> set (sy_timers y)) \<and>
     (\<forall>(k, i)\<in>set (sy_timers y). i < db_next (st_debouncer (sy_store y))) \<and> distinct (sy_timers y) \<and>
     (\<forall>k\<in>sy_dirty y. db_timers (st_debouncer (sy_store y)) k \<noteq> None)"

definition sys_ok :: "store_sys \<Rightarrow> bool" where
  "sys_ok y \<longleftrightarrow> informers_ok y \<and> timers_ok y"

lemma cancel_fields [simp]:
  "inf_key (cancel_if p i) = inf_key i" "inf_cancelled (cancel_if p i) \<longleftrightarrow> inf_cancelled i \<or> p (inf_key i)"
  by (simp_all add: cancel_if_def)

lemma live_cancel: "map inf_key (filter (\<lambda>i. \<not> inf_cancelled i) (map (cancel_if p) is)) =
    filter (\<lambda>k. \<not> p k) (map inf_key (filter (\<lambda>i. \<not> inf_cancelled i) is))"
  by (induction "is") auto

lemma bucket_fields [simp]:
  "bucket k (s\<lparr> st_informers := a \<rparr>) = bucket k s" "bucket k (s\<lparr> st_debouncer := d \<rparr>) = bucket k s"
  by (simp_all add: bucket_def)

lemma CacheUpsert_fields [simp]:
  "st_informers (CacheUpsert g n o1 s) = st_informers s" "st_debouncer (CacheUpsert g n o1 s) = st_debouncer s"
  "bucket k (CacheUpsert g n o1 s) = None \<longleftrightarrow> bucket k s = None \<and> k \<noteq> (g, n)"
  by (auto simp: CacheUpsert_def Let_def bucket_def map_of_update_alist ensure_bucket_def)

lemma CacheDelete_fields [simp]:
  "st_informers (CacheDelete g n o1 s) = st_informers s" "st_debouncer (CacheDelete g n o1 s) = st_debouncer s"
  "bucket k (CacheDelete g n o1 s) = None \<longleftrightarrow> bucket k s = None"
  by (auto simp: CacheDelete_def bucket_def map_of_update_alist split: option.split)

lemma trigger_fields [simp]:
  "st_informers (trigger i s) = st_informers s" "bucket k (trigger i s) = bucket k s"
  "st_debouncer (trigger i s) = (if inf_synced i then db_Trigger (inf_key i) (st_debouncer s) else st_debouncer s)"
  by (simp_all add: trigger_def)

lemma live_new: "live_keys (y\<lparr> sy_store := s, sy_informers := new_informer k # is \<rparr>) = k # live_keys (y\<lparr> sy_informers := is \<rparr>)"
  by (simp add: live_keys_def new_informer_def)

lemma live_frame [simp]: "live_keys (y\<lparr> sy_store := s \<rparr>) = live_keys y" "live_keys (y\<lparr> sy_informers := sy_informers y \<rparr>) = live_keys y"
  by (simp_all add: live_keys_def)

lemma subscribe_ok:
  assumes "informers_ok y"
  shows "informers_ok (sys_subscribe g n y)"
proof (cases "(g, n) \<in> set (st_informers (sy_store y))")
  case True
  then show ?thesis using assms by (simp add: sys_subscribe_def Subscribe_def)
next
  case False
  have l: "live_keys (sys_subscribe g n y) = (if st_client (sy_store y) then (g, n) # live_keys y else live_keys y)"
    using False by (simp add: sys_subscribe_def Subscribe_def Let_def live_new)
  have i: "st_informers (sy_store (sys_subscribe g n y)) =
      (if st_client (sy_store y) then (g, n) # st_informers (sy_store y) else st_informers (sy_store y))"
    using False by (simp add: sys_subscribe_def Subscribe_def Let_def)
  have b: "bucket k (sy_store (sys_subscribe g n y)) = bucket k (ensure_bucket (g, n) (sy_store y))" for k
    using False by (simp add: sys_subscribe_def Subscribe_def Let_def)
  show ?thesis using assms False unfolding informers_ok_def l i b bucket_ensure by auto
qed

lemma live_cancelled: "live_keys (y\<lparr> sy_store := s, sy_informers := map (cancel_if p) (sy_informers y), sy_dirty := d \<rparr>) =
    filter (\<lambda>k. \<not> p k) (live_keys y)"
  unfolding live_keys_def by (simp add: live_cancel)

lemma unsubscribe_ok: "informers_ok y \<Longrightarrow> informers_ok (sys_unsubscribe g n y)"
  by (auto simp: informers_ok_def sys_unsubscribe_def live_cancelled Unsubscribe_def bucket_def map_of_delete_alist)

lemma unsubscribe_all_ok: "informers_ok y \<Longrightarrow> informers_ok (sys_unsubscribe_all y)"
  by (auto simp: informers_ok_def sys_unsubscribe_all_def live_cancelled UnsubscribeAll_def)

lemma live_synced: "live_keys (sys_synced n y) = live_keys y" if "n < length (sy_informers y)"
proof -
  have "map inf_key (filter (\<lambda>i. \<not> inf_cancelled i) (xs[n := (xs ! n)\<lparr> inf_synced := True \<rparr>])) =
      map inf_key (filter (\<lambda>i. \<not> inf_cancelled i) xs)" if "n < length xs" for xs n
    using that by (induction xs arbitrary: n) (auto split: nat.split)
  then show ?thesis using that by (simp add: live_keys_def sys_synced_def on_synced_def)
qed

lemma live_exit: "inf_cancelled i \<Longrightarrow> live_keys (y\<lparr> sy_informers := remove1 i (sy_informers y) \<rparr>) = live_keys y"
proof -
  assume "inf_cancelled i"
  then have "filter (\<lambda>i. \<not> inf_cancelled i) (remove1 i xs) = filter (\<lambda>i. \<not> inf_cancelled i) xs" for xs
    by (induction xs) auto
  then show ?thesis by (simp add: live_keys_def)
qed

lemma live_event [simp]: "live_keys (sys_event f i y) = live_keys y"
  by (simp add: live_keys_def sys_event_def)

lemma live_fire [simp]: "live_keys (sys_fire k i y) = live_keys y"
  by (simp add: live_keys_def sys_fire_def db_fire_def)

lemma informers_step:
  assumes "store_step y z" and "informers_ok y"
  shows "informers_ok z"
  using assms
proof (induction rule: store_step.induct)
  case (upsert i y o1)
  then show ?case unfolding informers_ok_def live_event by (auto simp: sys_event_def on_upsert_def simp del: not_None_eq)
next
  case (delete i y o1)
  then show ?case unfolding informers_ok_def live_event by (auto simp: sys_event_def on_delete_def simp del: not_None_eq)
next
  case (synced n y)
  then show ?case by (simp add: informers_ok_def live_synced) (simp add: sys_synced_def on_synced_def)
next
  case (exit i y)
  then show ?case by (simp add: informers_ok_def live_exit)
next
  case (fire k i y)
  then show ?case by (simp add: informers_ok_def) (simp add: sys_fire_def db_fire_def)
qed (simp_all add: subscribe_ok unsubscribe_ok unsubscribe_all_ok)

lemma timers_step:
  assumes "store_step y z" and "timers_ok y"
  shows "timers_ok z"
  using assms
proof (induction rule: store_step.induct)
  case (subscribe y gvr ns)
  then show ?case by (simp add: timers_ok_def sys_subscribe_def Subscribe_def Let_def)
next
  case (unsubscribe y gvr ns)
  then show ?case by (auto simp: timers_ok_def sys_unsubscribe_def Unsubscribe_def db_Cancel_def)
next
  case (unsubscribe_all y)
  then show ?case by (auto simp: timers_ok_def sys_unsubscribe_all_def UnsubscribeAll_def db_Stop_def)
next
  case (upsert i y o1)
  then show ?case by (fastforce simp: timers_ok_def sys_event_def on_upsert_def db_Trigger_def less_Suc_eq)
next
  case (delete i y o1)
  then show ?case by (fastforce simp: timers_ok_def sys_event_def on_delete_def db_Trigger_def less_Suc_eq)
next
  case (synced n y)
  then show ?case by (simp add: timers_ok_def sys_synced_def on_synced_def)
next
  case (exit i y)
  then show ?case by (simp add: timers_ok_def)
next
  case (fire k i y)
  then show ?case by (auto simp: timers_ok_def sys_fire_def db_fire_def in_set_remove1 dest: notin_set_remove1)
qed

lemma reachable_ok:
  assumes "reachable s y" and "st_informers s = []" and "st_debouncer s = NewDebouncer"
  shows "sys_ok y"
  using assms
proof (induction rule: reachable.induct)
  case start
  then show ?case by (simp add: sys_ok_def informers_ok_def timers_ok_def start_sys_def live_keys_def NewDebouncer_def)
next
  case (step y z)
  then show ?case using informers_step timers_step by (simp add: sys_ok_def)
qed

section \<open>Properties\<close>

definition demo_store :: object_store where
  "demo_store = st_New True ''ctx'' True"

definition demo_gvr :: gvr where
  "demo_gvr = ('''', ''v1'', ''pods'')"

definition demo_pod :: "string \<Rightarrow> k8s_obj" where
  "demo_pod name = \<lparr> o_kind = ''Pod'', o_namespace = ''ns'', o_name = name, o_uid = name, o_created = None, o_body = '''' \<rparr>"

text \<open>C11. Whatever the interleaving, the informers that were not cancelled are exactly those that are
  registered, with one for each key, and every registered key has a bucket in the cache.\<close>

theorem one_informer_per_key:
  assumes "reachable s y" and "st_informers s = []" and "st_debouncer s = NewDebouncer"
  shows "distinct (live_keys y) \<and> (IsSubscribed gvr ns (sy_store y) \<longleftrightarrow> (gvr, ns) \<in> set (live_keys y)) \<and>
    (IsSubscribed gvr ns (sy_store y) \<longrightarrow> bucket (gvr, ns) (sy_store y) \<noteq> None)"
  using reachable_ok [OF assms] by (simp add: sys_ok_def informers_ok_def IsSubscribed_def)

lemma demo_reach: "reachable demo_store (sys_subscribe demo_gvr ''ns'' (start_sys demo_store))"
  by (rule reachable.step [OF reachable.start]) (rule store_step.subscribe)

theorem one_informer_per_key_witness:
  "IsSubscribed demo_gvr ''ns'' (sy_store (sys_subscribe demo_gvr ''ns'' (start_sys demo_store))) \<and>
   live_keys (sys_subscribe demo_gvr ''ns'' (start_sys demo_store)) = [(demo_gvr, ''ns'')]"
proof -
  have "IsSubscribed demo_gvr ''ns'' (sy_store (sys_subscribe demo_gvr ''ns'' (start_sys demo_store)))" by code_simp
  moreover have "live_keys (sys_subscribe demo_gvr ''ns'' (start_sys demo_store)) = [(demo_gvr, ''ns'')]" by code_simp
  moreover have "st_informers demo_store = []" and "st_debouncer demo_store = NewDebouncer"
    by (simp_all add: demo_store_def st_New_def)
  ultimately show ?thesis using one_informer_per_key [OF demo_reach, of demo_gvr "''ns''"] by blast
qed

text \<open>C12. No change is lost: as long as a change that a synchronised informer made has not been reported,
  its timer is pending, and when the timer's function runs it sends the message.\<close>

theorem no_lost_update:
  assumes "reachable s y" and "st_informers s = []" and "st_debouncer s = NewDebouncer" and "k \<in> sy_dirty y"
  shows "\<exists>i. (k, i) \<in> set (sy_timers y) \<and> store_step y (sys_fire k i y) \<and>
    sy_sent (sys_fire k i y) = sy_sent y @ doNotify k (sy_store y) \<and> k \<notin> sy_dirty (sys_fire k i y)"
proof -
  have t: "timers_ok y" using reachable_ok [OF assms(1-3)] by (simp add: sys_ok_def)
  then have "db_timers (st_debouncer (sy_store y)) k \<noteq> None" using assms(4) unfolding timers_ok_def by blast
  then obtain i where i: "db_timers (st_debouncer (sy_store y)) k = Some i" "(k, i) \<in> set (sy_timers y)"
    using t unfolding timers_ok_def by blast
  have "store_step y (sys_fire k i y)" by (rule store_step.fire [OF i(2)])
  then show ?thesis using i by (auto simp: sys_fire_def db_fire_def)
qed

text \<open>A concrete run: an informer is started, completes its first list and delivers a pod.\<close>

definition demo_synced :: store_sys where
  "demo_synced = sys_synced 0 (sys_subscribe demo_gvr ''ns'' (start_sys demo_store))"

definition demo_event :: "store_sys \<Rightarrow> store_sys" where
  "demo_event y = sys_event (\<lambda>i. on_upsert i (demo_pod ''web'')) (hd (sy_informers y)) y"

lemma demo_synced_reach: "reachable demo_store demo_synced"
  unfolding demo_synced_def
  by (rule reachable.step [OF demo_reach store_step.synced]; code_simp)

lemma demo_event_reach: "reachable demo_store y \<Longrightarrow> sy_informers y \<noteq> [] \<Longrightarrow> reachable demo_store (demo_event y)"
  unfolding demo_event_def by (rule reachable.step) (auto intro: store_step.upsert)

theorem no_lost_update_witness:
  "\<exists>i. ((demo_gvr, ''ns''), i) \<in> set (sy_timers (demo_event demo_synced)) \<and>
     sy_sent (sys_fire (demo_gvr, ''ns'') i (demo_event demo_synced)) =
       sy_sent (demo_event demo_synced) @ [((demo_gvr, ''ns''), ''ctx'')]"
proof -
  have "sy_informers demo_synced \<noteq> []" by code_simp
  note r = demo_event_reach [OF demo_synced_reach this]
  have "(demo_gvr, ''ns'') \<in> sy_dirty (demo_event demo_synced)" by code_simp
  moreover have "st_informers demo_store = []" and "st_debouncer demo_store = NewDebouncer"
    by (simp_all add: demo_store_def st_New_def)
  moreover have "doNotify (demo_gvr, ''ns'') (sy_store (demo_event demo_synced)) = [((demo_gvr, ''ns''), ''ctx'')]" by code_simp
  ultimately show ?thesis using no_lost_update [OF r] by metis
qed

text \<open>C13. The store refines a map from keys and object names to objects: an update writes one entry, a
  deletion clears it, subscribing changes nothing, and giving a key up clears its bucket only.\<close>

theorem store_refines_map:
  "entries_at k (CacheUpsert gvr ns o1 s) = (if k = (gvr, ns) then (entries_at k s)(cacheObjKey o1 \<mapsto> o1) else entries_at k s) \<and>
   entries_at k (CacheDelete gvr ns o1 s) = (if k = (gvr, ns) then (entries_at k s)(cacheObjKey o1 := None) else entries_at k s) \<and>
   entries_at k (fst (Subscribe gvr ns s)) = entries_at k s \<and>
   entries_at k (Unsubscribe gvr ns s) = (if k = (gvr, ns) \<and> \<not> st_static s then Map.empty else entries_at k s)"
  using entries_Unsubscribe [of s k gvr ns] entries_Upsert entries_Delete entries_Subscribe
  by (auto simp: Unsubscribe_def)

text \<open>Giving a key up does not end its informer at once: an event in flight writes into the cache
  again, so a later subscription returns the stale object, and a message is sent for the key.\<close>

theorem late_event_resurrects:
  "\<exists>y. reachable demo_store y \<and> \<not> IsSubscribed demo_gvr ''ns'' (sy_store y) \<and>
     fst (snd (Subscribe demo_gvr ''ns'' (sy_store y))) = [demo_pod ''web''] \<and> sy_timers y \<noteq> []"
proof (intro exI conjI)
  let ?y = "demo_event (sys_unsubscribe demo_gvr ''ns'' demo_synced)"
  have "reachable demo_store (sys_unsubscribe demo_gvr ''ns'' demo_synced)"
    by (rule reachable.step [OF demo_synced_reach]) (rule store_step.unsubscribe)
  then show "reachable demo_store ?y" by (rule demo_event_reach) code_simp
  show "\<not> IsSubscribed demo_gvr ''ns'' (sy_store ?y)" by code_simp
  show "fst (snd (Subscribe demo_gvr ''ns'' (sy_store ?y))) = [demo_pod ''web'']" by code_simp
  show "sy_timers ?y \<noteq> []" by code_simp
qed

end
