(* ===== verification/Cluster_Manager_Props.thy ===== *)
theory Cluster_Manager_Props
  imports Cluster_Manager Object_Store_Props
begin

text \<open>
  Runs of the operations of the cluster manager and of the stores it holds: what every run keeps,
  what happens to the store of a pinned context, and what a reconciliation of the reference counts
  makes of the clusters, whatever came before it.
\<close>

section \<open>Runs\<close>

datatype mgr_op =
    Op_GetOrCreate string
  | Op_RegisterConnected string k8s_client
  | Op_SyncRefs "string \<Rightarrow> int"
  | Op_SetSend bool
  | Op_Subscribe string gvr string
  | Op_Unsubscribe string gvr string
  | Op_UnsubscribeAll string

fun mgr_step :: "(string \<Rightarrow> string \<Rightarrow> string + k8s_client) \<Rightarrow> mgr_op \<Rightarrow> manager \<Rightarrow> manager" where
  "mgr_step connect (Op_GetOrCreate ctx) m = fst (GetOrCreate connect ctx m)"
| "mgr_step connect (Op_RegisterConnected ctx client) m = fst (RegisterConnected ctx client m)"
| "mgr_step connect (Op_SyncRefs panes) m = fst (SyncRefs panes m)"
| "mgr_step connect (Op_SetSend send) m = mgr_SetSend send m"
| "mgr_step connect (Op_Subscribe ctx gvr ns) m = on_store ctx (\<lambda>s. fst (Subscribe gvr ns s)) m"
| "mgr_step connect (Op_Unsubscribe ctx gvr ns) m = on_store ctx (Unsubscribe gvr ns) m"
| "mgr_step connect (Op_UnsubscribeAll ctx) m = on_store ctx UnsubscribeAll m"

definition mgr_run :: "(string \<Rightarrow> string \<Rightarrow> string + k8s_client) \<Rightarrow> mgr_op list \<Rightarrow> manager \<Rightarrow> manager" where
  "mgr_run connect ops m = fold (mgr_step connect) ops m"

lemma Get_SetSend: "mgr_Get ctx (mgr_SetSend send m) =
    map_option (\<lambda>c. c\<lparr> c_store := map_option (st_SetSend send) (c_store c),
      c_client := map_option (wire_client send) (c_client c) \<rparr>) (mgr_Get ctx m)"
proof -
  have "map_of (map (\<lambda>(k, c). (k, f c)) cs) ctx = map_option f (map_of cs ctx)"
    for cs :: "(string \<times> cluster) list" and f
    by (induction cs) auto
  then show ?thesis by (simp add: mgr_Get_def mgr_SetSend_def)
qed

lemma SetSend_fields [simp]: "pinned (mgr_SetSend send m) = pinned m" "mgr_entries (mgr_SetSend send m) = mgr_entries m"
  "map fst (clusters (mgr_SetSend send m)) = map fst (clusters m)"
  by (simp_all add: mgr_SetSend_def comp_def case_prod_unfold)

lemma GetOrCreate_or: "fst (GetOrCreate connect ctx m) = m \<or>
    (\<exists>client. mgr_Get ctx m = None \<and> \<not> IsPinned ctx m \<and> connect (fileFor ctx m) ctx = Inr client \<and>
       fst (GetOrCreate connect ctx m) =
         put ((live_cluster (if ctx = '''' then kc_Context client else ctx) client m)\<lparr> c_file := fileFor ctx m \<rparr>) m)"
  by (cases "mgr_Get ctx m") (simp_all add: GetOrCreate_def Let_def split: sum.split)

lemma RegisterConnected_or: "fst (RegisterConnected ctx client m) = m \<or>
    mgr_Get ctx m = None \<and> \<not> IsPinned ctx m \<and> fst (RegisterConnected ctx client m) = put (live_cluster ctx client m) m"
  by (simp add: RegisterConnected_def Let_def split: option.split)

lemma live_cluster_fields [simp]: "c_context (live_cluster ctx client m) = ctx" "c_err (live_cluster ctx client m) = None"
  "c_refCount (live_cluster ctx client m) = 0"
  "c_store (live_cluster ctx client m) = Some (st_New (kc_Dynamic client) ctx (mgr_send m))"
  by (simp_all add: live_cluster_def cluster_New_def)

lemma step_pinned [simp]: "pinned (mgr_step connect a m) = pinned m"
proof (cases a)
  case (Op_GetOrCreate ctx)
  then show ?thesis using GetOrCreate_or [of connect ctx m] by auto
next
  case (Op_RegisterConnected ctx client)
  then show ?thesis using RegisterConnected_or [of ctx client m] by auto
qed simp_all

lemma run_pinned [simp]: "IsPinned ctx (mgr_run connect ops m) = IsPinned ctx m"
  unfolding mgr_run_def by (induction ops arbitrary: m) (simp_all add: IsPinned_def)

section \<open>The pinned context\<close>

text \<open>What is kept of the cluster of a pinned context whose store is static: the objects of the store.\<close>

definition keeps_objects :: "string \<Rightarrow> (watch_key \<Rightarrow> string \<rightharpoonup> k8s_obj) \<Rightarrow> manager \<Rightarrow> bool" where
  "keeps_objects ctx es m \<longleftrightarrow> IsPinned ctx m \<and>
     (case store_of ctx m of None \<Rightarrow> False | Some s \<Rightarrow> st_static s \<and> (\<forall>k. entries_at k s = es k))"

lemma keeps_on_store:
  assumes "keeps_objects ctx es m"
    and "\<And>s. st_static s \<Longrightarrow> st_static (f s) \<and> (\<forall>k. entries_at k (f s) = entries_at k s)"
  shows "keeps_objects ctx es (on_store ctx' f m)"
  using assms by (auto simp: keeps_objects_def store_of_on_store IsPinned_def split: option.splits)

lemma Subscribe_static: "st_static (fst (Subscribe gvr ns s)) = st_static s"
  by (simp add: Subscribe_def Let_def)

lemma keeps_put: "keeps_objects ctx es m \<Longrightarrow> \<not> IsPinned (c_context c) m \<or> mgr_Get (c_context c) m = None \<Longrightarrow>
    keeps_objects ctx es (put c m)"
  by (auto simp: keeps_objects_def store_of_def Get_put IsPinned_def)

lemma keeps_step:
  assumes k: "keeps_objects ctx es m"
    and named: "\<And>ctx'. a = Op_GetOrCreate ctx' \<Longrightarrow> ctx' \<noteq> ''''"
  shows "keeps_objects ctx es (mgr_step connect a m)"
proof (cases a)
  case (Op_GetOrCreate ctx')
  with named have "ctx' \<noteq> ''''" by simp
  with Op_GetOrCreate show ?thesis
    using GetOrCreate_or [of connect ctx' m] by (auto simp: k intro!: keeps_put)
next
  case (Op_RegisterConnected ctx' client)
  then show ?thesis using RegisterConnected_or [of ctx' client m] by (auto simp: k intro!: keeps_put)
next
  case (Op_SyncRefs panes)
  with k show ?thesis by (simp add: keeps_objects_def store_of_def Get_SyncRefs IsPinned_def)
next
  case (Op_SetSend send)
  have "entries_at k (st_SetSend send s) = entries_at k s" for k s
    by (simp add: entries_at_def bucket_def st_SetSend_def)
  with k Op_SetSend show ?thesis
    by (cases "mgr_Get ctx m") (auto simp: keeps_objects_def store_of_def Get_SetSend IsPinned_def st_SetSend_def split: option.splits)
next
  case (Op_Subscribe ctx' gvr ns)
  then show ?thesis by (simp add: keeps_on_store k Subscribe_static entries_Subscribe)
next
  case (Op_Unsubscribe ctx' gvr ns)
  then show ?thesis by (simp add: keeps_on_store k Unsubscribe_def)
next
  case (Op_UnsubscribeAll ctx')
  then show ?thesis by (simp add: keeps_on_store k UnsubscribeAll_def)
qed

text \<open>C15. The objects of a pinned context survive every run: once a static store is registered as
  pinned, no sequence of dials by name, late connects, reconciliations, subscriptions, releases and
  tear-downs, on this context or on another, removes the cluster or changes what its store lists.
\<close>

theorem pinned_objects_survive:
  assumes "c_store c = Some s" "st_static s" and "Op_GetOrCreate '''' \<notin> set ops"
  shows "\<exists>s'. store_of (c_context c) (mgr_run connect ops (RegisterPinned c m)) = Some s' \<and>
    (\<forall>k. entries_at k s' = entries_at k s)"
proof -
  have "keeps_objects (c_context c) (\<lambda>k. entries_at k s) (RegisterPinned c m)"
    using assms(1,2) by (auto simp: keeps_objects_def RegisterPinned_def Let_def store_of_def mgr_Get_def put_def
        IsPinned_def map_of_update_alist)
  then have "keeps_objects (c_context c) (\<lambda>k. entries_at k s) (mgr_run connect ops (RegisterPinned c m))"
    unfolding mgr_run_def using assms(3)
    by (induction ops arbitrary: m rule: rev_induct) (auto intro!: keeps_step)
  then show ?thesis by (auto simp: keeps_objects_def split: option.splits)
qed

section \<open>Reconciliation\<close>

lemma wf_same_names:
  assumes "mgr_wf m" "map fst (clusters m') = map fst (clusters m)"
    and "\<And>ctx c. (ctx, c) \<in> set (clusters m') \<Longrightarrow> \<exists>c0. (ctx, c0) \<in> set (clusters m) \<and> c_context c = c_context c0"
  shows "mgr_wf m'"
  using assms by (fastforce simp: mgr_wf_def)

lemma SetSend_wf: "mgr_wf m \<Longrightarrow> mgr_wf (mgr_SetSend send m)"
  by (rule wf_same_names) (auto simp: mgr_SetSend_def comp_def case_prod_unfold)

lemma on_store_wf: "mgr_wf m \<Longrightarrow> mgr_wf (on_store ctx f m)"
  by (rule wf_same_names) (auto simp: on_store_def comp_def case_prod_unfold)

lemma step_wf: "mgr_wf m \<Longrightarrow> mgr_wf (mgr_step connect a m)"
proof (cases a)
  case (Op_GetOrCreate ctx)
  assume "mgr_wf m"
  with Op_GetOrCreate show ?thesis using GetOrCreate_or [of connect ctx m] by (auto simp: put_wf)
next
  case (Op_RegisterConnected ctx client)
  assume "mgr_wf m"
  with Op_RegisterConnected show ?thesis using RegisterConnected_or [of ctx client m] by (auto simp: put_wf)
qed (simp_all add: SyncRefs_wf SetSend_wf on_store_wf)

lemma NewManager_wf: "mgr_wf (NewManager es kubeconfig)"
  by (simp add: mgr_wf_def NewManager_def)

lemma RegisterPinned_wf: "mgr_wf m \<Longrightarrow> mgr_wf (RegisterPinned c m)"
  using put_wf [of m c] by (simp add: RegisterPinned_def Let_def mgr_wf_def)

lemma run_wf: "mgr_wf m \<Longrightarrow> mgr_wf (mgr_run connect ops m)"
  unfolding mgr_run_def by (induction ops arbitrary: m) (simp_all add: step_wf)

lemma Get_names: "mgr_wf m \<Longrightarrow> mgr_Get ctx m = Some c \<Longrightarrow> c_context c = ctx"
  by (auto simp: mgr_wf_def mgr_Get_def dest: map_of_SomeD)

lemma SyncRefs_absorbs:
  assumes "\<And>ctx. panes ctx > 0 \<Longrightarrow> earlier ctx > 0"
  shows "fst (SyncRefs panes (fst (SyncRefs earlier m))) = fst (SyncRefs panes m)"
proof -
  have "map (\<lambda>(ctx, c). (ctx, if P ctx then c else f ctx c))
      (filter (\<lambda>(ctx, c). P ctx \<or> Q ctx)
        (map (\<lambda>(ctx, c). (ctx, if P ctx then c else g ctx c)) (filter (\<lambda>(ctx, c). P ctx \<or> R ctx) cs))) =
      map (\<lambda>(ctx, c). (ctx, if P ctx then c else f ctx c)) (filter (\<lambda>(ctx, c). P ctx \<or> Q ctx) cs)"
    if "\<And>ctx. Q ctx \<Longrightarrow> R ctx" "\<And>ctx c. f ctx (g ctx c) = f ctx c"
    for P Q R f g and cs :: "(string \<times> cluster) list"
    using that by (induction cs) auto
  then show ?thesis using assms by (simp add: SyncRefs_def IsPinned_def)
qed

text \<open>C14. Reconciliation converges: after any run of the manager, \<open>SyncRefs\<close> with the present counts
  keeps exactly the clusters that are pinned or that a pane refers to, each under its own name, with
  the count of its panes as its reference count; a second reconciliation changes nothing, and an
  earlier one with counts that cover the present ones makes no difference.
\<close>

theorem sync_refs_converges:
  assumes "mgr_wf m0" and "\<And>ctx. panes ctx > 0 \<Longrightarrow> earlier ctx > 0"
  shows "let m = mgr_run connect ops m0; m' = fst (SyncRefs panes m)
    in (\<forall>ctx. mgr_Get ctx m' \<noteq> None \<longleftrightarrow> mgr_Get ctx m \<noteq> None \<and> (IsPinned ctx m \<or> panes ctx > 0)) \<and>
       (\<forall>ctx c. mgr_Get ctx m' = Some c \<longrightarrow> c_context c = ctx \<and> (IsPinned ctx m \<or> c_refCount c = panes ctx)) \<and>
       fst (SyncRefs panes m') = m' \<and>
       fst (SyncRefs panes (fst (SyncRefs earlier m))) = m'"
proof -
  define m where "m = mgr_run connect ops m0"
  have "mgr_wf (fst (SyncRefs panes m))"
    unfolding m_def using assms(1) by (intro SyncRefs_wf run_wf)
  then have "c_context c = ctx" if "mgr_Get ctx (fst (SyncRefs panes m)) = Some c" for ctx c
    using that by (rule Get_names)
  moreover have "c_refCount c = panes ctx" if "mgr_Get ctx (fst (SyncRefs panes m)) = Some c" "\<not> IsPinned ctx m" for ctx c
    using that by (auto simp: Get_SyncRefs split: if_splits)
  moreover have "mgr_Get ctx (fst (SyncRefs panes m)) \<noteq> None \<longleftrightarrow> mgr_Get ctx m \<noteq> None \<and> (IsPinned ctx m \<or> panes ctx > 0)" for ctx
    by (simp add: Get_SyncRefs)
  moreover note SyncRefs_absorbs [of panes panes m] SyncRefs_absorbs [of panes earlier m, OF assms(2)]
  ultimately show ?thesis unfolding Let_def m_def [symmetric] by blast
qed

text \<open>A run that meets the hypotheses: a pinned context, two live ones and one reconciliation.\<close>

definition sample_client :: k8s_client where
  "sample_client = \<lparr> kc_Context = ''dev'', kc_Namespace = ''default'', kc_Dynamic = True, kc_warn = None \<rparr>"

definition sample_pod :: k8s_obj where
  "sample_pod = \<lparr> o_kind = ''Pod'', o_namespace = ''ns'', o_name = ''web'', o_uid = ''u'', o_created = None, o_body = '''' \<rparr>"

definition sample_store :: object_store where
  "sample_store = MarkStatic (CacheUpsert ('''', ''v1'', ''pods'') ''ns'' sample_pod (st_New False ''manifests'' False))"

definition sample_manager :: manager where
  "sample_manager = RegisterPinned (cluster_New ''manifests'' '''' None (Some sample_store) None None)
     (NewManager [\<lparr> ce_Name = ''dev'', ce_File = ''/k'' \<rparr>] ''/k'')"

lemma pinned_objects_survive_witness:
  "\<exists>s'. store_of ''manifests'' (mgr_run (\<lambda>_ _. Inr sample_client)
       [Op_GetOrCreate ''dev'', Op_UnsubscribeAll ''manifests'', Op_SyncRefs (\<lambda>_. 0)] sample_manager) = Some s' \<and>
     entries_at (('''', ''v1'', ''pods''), ''ns'') s' (cacheObjKey sample_pod) = Some sample_pod"
proof -
  have "st_static sample_store" by (simp add: sample_store_def MarkStatic_def)
  moreover have "entries_at k (MarkStatic s) = entries_at k s" for k s by (simp add: entries_at_def bucket_def MarkStatic_def)
  then have "entries_at (('''', ''v1'', ''pods''), ''ns'') sample_store (cacheObjKey sample_pod) = Some sample_pod"
    by (simp add: sample_store_def entries_Upsert)
  ultimately show ?thesis
    using pinned_objects_survive [of "cluster_New ''manifests'' '''' None (Some sample_store) None None" sample_store
        "[Op_GetOrCreate ''dev'', Op_UnsubscribeAll ''manifests'', Op_SyncRefs (\<lambda>_. 0)]" "\<lambda>_ _. Inr sample_client"
        "NewManager [\<lparr> ce_Name = ''dev'', ce_File = ''/k'' \<rparr>] ''/k''"]
    by (auto simp: sample_manager_def cluster_New_def)
qed

lemma sync_refs_converges_witness:
  "fst (SyncRefs (\<lambda>ctx. if ctx = ''dev'' then 2 else 0)
      (fst (SyncRefs (\<lambda>ctx. 1) (mgr_run (\<lambda>_ _. Inr sample_client) [Op_GetOrCreate ''dev''] sample_manager)))) =
   fst (SyncRefs (\<lambda>ctx. if ctx = ''dev'' then 2 else 0) (mgr_run (\<lambda>_ _. Inr sample_client) [Op_GetOrCreate ''dev''] sample_manager))"
  using sync_refs_converges [of sample_manager "\<lambda>ctx. if ctx = ''dev'' then 2 else 0" "\<lambda>ctx. 1"
      "\<lambda>_ _. Inr sample_client" "[Op_GetOrCreate ''dev'']"]
  by (simp add: sample_manager_def RegisterPinned_wf NewManager_wf Let_def)

end
