(* ===== verification/Plugin_Registry.thy ===== *)
theory Plugin_Registry
  imports Discovery
begin

text \<open>
  \<^verbatim>\<open>internal/plugin/registry.go\<close>: the plugins by name, by short name and by resource
  type, and in the order of their registration. The package's variables are one record, the mutex
  makes each operation atomic.
\<close>

section \<open>State and operations\<close>

record registry =
  byName :: "string \<rightharpoonup> rplugin"
  byNameAll :: "string \<Rightarrow> rplugin list"
  byShortName :: "string \<rightharpoonup> rplugin"
  byGVR :: "gvr \<rightharpoonup> rplugin"
  ordered :: "rplugin list"

definition reg_Reset :: registry where
  "reg_Reset = \<lparr> byName = Map.empty, byNameAll = (\<lambda>_. []), byShortName = Map.empty, byGVR = Map.empty, ordered = [] \<rparr>"

definition add_short :: "rplugin \<Rightarrow> registry \<Rightarrow> registry" where
  "add_short p R = (if p_ShortName p \<noteq> '''' then R\<lparr> byShortName := (byShortName R)(p_ShortName p \<mapsto> p) \<rparr> else R)"

definition reg_Register :: "rplugin \<Rightarrow> registry \<Rightarrow> registry" where
  "reg_Register p R =
     (let R1 = R\<lparr> byName := (byName R)(p_Name p \<mapsto> p),
                  byNameAll := (byNameAll R)(p_Name p := byNameAll R (p_Name p) @ [p]) \<rparr>;
          R2 = add_short p R1
      in R2\<lparr> byGVR := (byGVR R2)(p_GVR p \<mapsto> p), ordered := ordered R2 @ [p] \<rparr>)"

definition RegisterIfAbsent :: "rplugin \<Rightarrow> registry \<Rightarrow> registry \<times> bool" where
  "RegisterIfAbsent p R =
     (if byGVR R (p_GVR p) \<noteq> None then (R, False)
      else let R1 = R\<lparr> byNameAll := (byNameAll R)(p_Name p := byNameAll R (p_Name p) @ [p]),
                       byGVR := (byGVR R)(p_GVR p \<mapsto> p), ordered := ordered R @ [p] \<rparr>
           in if byName R1 (p_Name p) \<noteq> None then (R1, False)
              else (add_short p (R1\<lparr> byName := (byName R1)(p_Name p \<mapsto> p) \<rparr>), True))"

definition ByName :: "string \<Rightarrow> registry \<Rightarrow> rplugin option" where
  "ByName name R = (case byName R name of Some p \<Rightarrow> Some p | None \<Rightarrow> byShortName R name)"

definition ByGVR :: "gvr \<Rightarrow> registry \<Rightarrow> rplugin option" where
  "ByGVR g R = byGVR R g"

text \<open>The text before and after the last slash, and around the first dot.\<close>

definition cut_last :: "char \<Rightarrow> string \<Rightarrow> (string \<times> string) option" where
  "cut_last c s = (if c \<notin> set s then None
     else Some (rev (tl (dropWhile (\<lambda>x. x \<noteq> c) (rev s))), rev (takeWhile (\<lambda>x. x \<noteq> c) (rev s))))"

definition cut_first :: "char \<Rightarrow> string \<Rightarrow> (string \<times> string) option" where
  "cut_first c s = (if c \<notin> set s then None
     else Some (takeWhile (\<lambda>x. x \<noteq> c) s, tl (dropWhile (\<lambda>x. x \<noteq> c) s)))"

definition ByQualifiedName :: "string \<Rightarrow> registry \<Rightarrow> rplugin option" where
  "ByQualifiedName qualified R =
     (case cut_last (CHR ''/'') qualified of
        None \<Rightarrow> ByName qualified R
      | Some (left, version) \<Rightarrow>
          (case cut_first (CHR ''.'') left of
             None \<Rightarrow> ByName qualified R
           | Some (name, g) \<Rightarrow> ByGVR (g, version, name) R))"

definition ByKind :: "(string \<Rightarrow> string \<Rightarrow> gvr option) option \<Rightarrow> string \<Rightarrow> string \<Rightarrow> registry \<Rightarrow> rplugin option" where
  "ByKind resolve apiVersion kind R =
     (case resolve of
        None \<Rightarrow> None
      | Some f \<Rightarrow> (case f apiVersion kind of None \<Rightarrow> None | Some g \<Rightarrow> ByGVR g R))"

definition AllByName :: "string \<Rightarrow> registry \<Rightarrow> rplugin list" where
  "AllByName name R = byNameAll R name"

definition HasNameCollision :: "string \<Rightarrow> registry \<Rightarrow> bool" where
  "HasNameCollision name R \<longleftrightarrow> length (byNameAll R name) > 1"

definition reg_All :: "registry \<Rightarrow> rplugin list" where
  "reg_All R = ordered R"

section \<open>What the indexes have in common\<close>

text \<open>
  The indexes are views of \<open>ordered\<close>: what is found by name or type was registered under it, and the
  plugins of a name are those of \<open>ordered\<close> in their order.
\<close>

definition registry_ok :: "registry \<Rightarrow> bool" where
  "registry_ok R \<longleftrightarrow>
     (\<forall>n. byNameAll R n = filter (\<lambda>p. p_Name p = n) (ordered R)) \<and>
     (\<forall>n p. byName R n = Some p \<longrightarrow> p \<in> set (ordered R) \<and> p_Name p = n) \<and>
     (\<forall>n p. byShortName R n = Some p \<longrightarrow> p \<in> set (ordered R) \<and> p_ShortName p = n \<and> n \<noteq> '''') \<and>
     (\<forall>g p. byGVR R g = Some p \<longrightarrow> p \<in> set (ordered R) \<and> p_GVR p = g) \<and>
     (\<forall>p\<in>set (ordered R). byName R (p_Name p) \<noteq> None \<and> byGVR R (p_GVR p) \<noteq> None)"

lemma registry_ok_Reset: "registry_ok reg_Reset"
  by (simp add: registry_ok_def reg_Reset_def)

lemma registry_ok_Register: "registry_ok R \<Longrightarrow> registry_ok (reg_Register p R)"
  unfolding registry_ok_def by (auto simp: reg_Register_def add_short_def Let_def split: if_splits)

lemma registry_ok_IfAbsent: "registry_ok R \<Longrightarrow> registry_ok (fst (RegisterIfAbsent p R))"
  unfolding registry_ok_def by (auto simp: RegisterIfAbsent_def add_short_def Let_def split: if_splits)

datatype reg_op = R_Register rplugin | R_IfAbsent rplugin

fun reg_step :: "reg_op \<Rightarrow> registry \<Rightarrow> registry" where
  "reg_step (R_Register p) R = reg_Register p R"
| "reg_step (R_IfAbsent p) R = fst (RegisterIfAbsent p R)"

definition reg_run :: "reg_op list \<Rightarrow> registry" where
  "reg_run ops = fold reg_step ops reg_Reset"

lemma registry_ok_run: "registry_ok (reg_run ops)"
  unfolding reg_run_def
  by (induction ops rule: rev_induct)
    (simp_all add: registry_ok_Reset, case_tac x, simp_all add: registry_ok_Register registry_ok_IfAbsent)

text \<open>The qualified name of a plugin, as the resource picker writes it.\<close>

definition qualified_name :: "rplugin \<Rightarrow> string" where
  "qualified_name p = (case p_GVR p of (g, v, r) \<Rightarrow> r @ ''.'' @ g @ ''/'' @ v)"

lemma cut_last_app: "c \<notin> set b \<Longrightarrow> cut_last c (a @ c # b) = Some (a, b)"
proof -
  assume c: "c \<notin> set b"
  have "dropWhile (\<lambda>x. x \<noteq> c) (rev b @ c # rev a) = c # rev a" "takeWhile (\<lambda>x. x \<noteq> c) (rev b @ c # rev a) = rev b"
    using c by (auto simp: dropWhile_append takeWhile_append)
  then show ?thesis by (simp add: cut_last_def)
qed

lemma cut_first_app: "c \<notin> set a \<Longrightarrow> cut_first c (a @ c # b) = Some (a, b)"
  by (auto simp: cut_first_def takeWhile_append dropWhile_append)

text \<open>
  A qualified name finds its plugin: after any registrations, looking up the name, group and
  version of a plugin whose type is registered finds a plugin of just that resource type, whatever
  other plugins have the same name; the bare name finds only a plugin of that name or short name.
\<close>

theorem qualified_lookup:
  assumes "p \<in> set (reg_All (reg_run ops))" and "p_GVR p = (g, v, r)"
    and "CHR ''/'' \<notin> set v" and "CHR ''.'' \<notin> set r"
  shows "\<exists>q. ByQualifiedName (qualified_name p) (reg_run ops) = Some q \<and> p_GVR q = p_GVR p \<and>
    q \<in> set (reg_All (reg_run ops)) \<and>
    (\<exists>q'. ByName (p_Name p) (reg_run ops) = Some q' \<and> p_Name q' = p_Name p) \<and>
    AllByName (p_Name p) (reg_run ops) = filter (\<lambda>q. p_Name q = p_Name p) (reg_All (reg_run ops))"
proof -
  let ?R = "reg_run ops"
  note ok = registry_ok_run [of ops, unfolded registry_ok_def]
  have "ByQualifiedName (qualified_name p) ?R = byGVR ?R (p_GVR p)"
    using assms(3,4) cut_last_app [of "CHR ''/''" v "r @ ''.'' @ g"] cut_first_app [of "CHR ''.''" r g]
    by (simp add: ByQualifiedName_def qualified_name_def assms(2) ByGVR_def)
  moreover obtain q where "byGVR ?R (p_GVR p) = Some q" "q \<in> set (ordered ?R)" "p_GVR q = p_GVR p"
    using ok assms(1) unfolding reg_All_def by fastforce
  moreover obtain q' where "byName ?R (p_Name p) = Some q'" "p_Name q' = p_Name p"
    using ok assms(1) unfolding reg_All_def by fastforce
  moreover have "byNameAll ?R (p_Name p) = filter (\<lambda>q. p_Name q = p_Name p) (ordered ?R)"
    using ok by simp
  ultimately show ?thesis by (simp add: ByName_def AllByName_def reg_All_def)
qed

definition reg_sample :: "string \<Rightarrow> string \<times> string \<times> string \<Rightarrow> rplugin" where
  "reg_sample name g = \<lparr> p_Name = name, p_ShortName = '''', p_GVR = g, p_IsClusterScoped = False, p_Columns = [],
     p_Row = (\<lambda>_. []), p_SortValue = None, p_DefaultSort = None, p_RowHealth = None \<rparr>"

lemma qualified_lookup_witness:
  "\<exists>q. ByQualifiedName ''events.events.k8s.io/v1''
      (reg_run [R_Register (reg_sample ''events'' ('''', ''v1'', ''events'')),
                R_IfAbsent (reg_sample ''events'' (''events.k8s.io'', ''v1'', ''events''))]) = Some q \<and>
    p_GVR q = (''events.k8s.io'', ''v1'', ''events'')"
  using qualified_lookup [of "reg_sample ''events'' (''events.k8s.io'', ''v1'', ''events'')"
      "[R_Register (reg_sample ''events'' ('''', ''v1'', ''events'')),
        R_IfAbsent (reg_sample ''events'' (''events.k8s.io'', ''v1'', ''events''))]" "''events.k8s.io''" "''v1''" "''events''"]
  by (auto simp: reg_run_def reg_Register_def RegisterIfAbsent_def reg_Reset_def reg_sample_def add_short_def
      Let_def reg_All_def qualified_name_def)

end
