(* ===== verification/Plugin_Picker.thy ===== *)
theory Plugin_Picker
  imports Plugin_Registry Text_Lines "HOL-Library.Sublist"
begin

text \<open>
  \<^verbatim>\<open>internal/app/collision.go\<close>, \<^verbatim>\<open>internal/ui/fuzzymatch.go\<close> and
  \<^verbatim>\<open>resourcepicker.go\<close>: the entries of the resource picker, which of them are
  written with their group, how they are matched against what is typed, the command that a picked
  entry becomes and the plugin that \<^verbatim>\<open>commands.go\<close> resolves it to. Names, groups and
  queries are ASCII text, whose lower case and whose runes are those of its bytes.
\<close>

section \<open>Entries\<close>

record plugin_entry =
  pe_Name :: string
  pe_ShortName :: string
  pe_GVR :: gvr
  pe_Qualified :: bool

definition has_suffix :: "string \<Rightarrow> string \<Rightarrow> bool" where
  "has_suffix s t \<longleftrightarrow> length t \<le> length s \<and> drop (length s - length t) s = t"

definition isBuiltInGroup :: "string \<Rightarrow> bool" where
  "isBuiltInGroup g \<longleftrightarrow> g = '''' \<or> has_suffix g ''.k8s.io'' \<or> g \<in> {''apps'', ''batch'', ''autoscaling'', ''policy''}"

definition built_in :: "plugin_entry \<Rightarrow> bool" where
  "built_in e \<longleftrightarrow> isBuiltInGroup (fst (pe_GVR e))"

text \<open>
  The loop over the groups of equal names acts on each entry by its group alone: \<open>same es e\<close> is the
  group of \<open>e\<close>. An entry is qualified, and one is removed, as its group says.
\<close>

definition same :: "plugin_entry list \<Rightarrow> plugin_entry \<Rightarrow> plugin_entry list" where
  "same es e = filter (\<lambda>f. pe_Name f = pe_Name e) es"

definition qualify :: "plugin_entry list \<Rightarrow> plugin_entry \<Rightarrow> plugin_entry" where
  "qualify es e =
     (if length (same es e) \<ge> 2 \<and> \<not> built_in e then e\<lparr> pe_Qualified := True \<rparr> else e)"

definition removed :: "plugin_entry list \<Rightarrow> nat \<Rightarrow> bool" where
  "removed es i \<longleftrightarrow> length (same es (es ! i)) \<ge> 2 \<and> (\<forall>f\<in>set (same es (es ! i)). built_in f) \<and>
     (\<exists>j<i. pe_Name (es ! j) = pe_Name (es ! i))"

definition markCollisions :: "plugin_entry list \<Rightarrow> plugin_entry list" where
  "markCollisions es = map (\<lambda>i. qualify es (es ! i)) (filter (\<lambda>i. \<not> removed es i) [0..<length es])"

definition entry_of :: "rplugin \<Rightarrow> plugin_entry" where
  "entry_of p = \<lparr> pe_Name = p_Name p, pe_ShortName = p_ShortName p, pe_GVR = p_GVR p, pe_Qualified = False \<rparr>"

definition buildPickerEntries :: "registry \<Rightarrow> plugin_entry list" where
  "buildPickerEntries R = markCollisions (map entry_of (reg_All R))"

section \<open>Matching\<close>

definition lower_char :: "char \<Rightarrow> char" where
  "lower_char c = (let n = (of_char c :: nat) in if 65 \<le> n \<and> n \<le> 90 then char_of (n + 32) else c)"

definition lower :: "string \<Rightarrow> string" where
  "lower s = map lower_char s"

text \<open>White space in the sense of \<^verbatim>\<open>strings\<close>, of text that has only ASCII white space.\<close>

definition blank :: "char \<Rightarrow> bool" where
  "blank c \<longleftrightarrow> c \<in> {CHR '' '', CHR 0x09, CHR 0x0A, CHR 0x0B, CHR 0x0C, CHR 0x0D}"

definition trim_space :: "string \<Rightarrow> string" where
  "trim_space s = rev (dropWhile blank (rev (dropWhile blank s)))"

fun matchAbbreviation :: "string \<Rightarrow> string \<Rightarrow> bool" where
  "matchAbbreviation [] candidate = True"
| "matchAbbreviation (q # qs) [] = False"
| "matchAbbreviation (q # qs) (c # cs) = (if c = q then matchAbbreviation qs cs else matchAbbreviation (q # qs) cs)"

fun contains :: "string \<Rightarrow> string \<Rightarrow> bool" where
  "contains [] t = (t = [])"
| "contains (c # cs) t = (prefix t (c # cs) \<or> contains cs t)"

definition scoreCandidate :: "string \<Rightarrow> string \<Rightarrow> int" where
  "scoreCandidate candidate query =
     (let c = lower candidate; q = lower query
      in if c = q then 1000
         else if prefix q c then 800 + go_quot (100 * int (length q)) (int (length c))
         else if contains c q then 400
         else if matchAbbreviation q c then 200
         else 0)"

definition scoreEntry :: "string \<Rightarrow> plugin_entry \<Rightarrow> int" where
  "scoreEntry query e =
     (if query = '''' then 1
      else let (g, v, r) = pe_GVR e;
               best1 = foldl (\<lambda>best c. if c = '''' then best else max best (scoreCandidate c query)) 0
                         [lower (pe_Name e), lower (pe_ShortName e)]
           in foldl (\<lambda>best c. if c = '''' \<or> c = ''/'' then best
                else let s = scoreCandidate c query in if s > 0 \<and> go_quot s 2 > best then go_quot s 2 else best)
                best1 [lower g, lower (g @ ''/'' @ v)])"

record fuzzy_match =
  fm_Name :: string
  fm_Display :: string
  fm_Score :: int
  fm_Index :: nat

definition display_name :: "plugin_entry \<Rightarrow> string" where
  "display_name e =
     (pe_Name e @
      (if pe_ShortName e \<noteq> '''' \<and> pe_ShortName e \<noteq> pe_Name e then '' ('' @ pe_ShortName e @ '')'' else '''') @
      (if pe_Qualified e then '' ['' @ fst (pe_GVR e) @ ''/'' @ fst (snd (pe_GVR e)) @ '']'' else ''''))"

definition fuzzy_cmp :: "fuzzy_match \<Rightarrow> fuzzy_match \<Rightarrow> int" where
  "fuzzy_cmp a b =
     (if fm_Score b < fm_Score a then -1 else if fm_Score a < fm_Score b then 1
      else int (length (fm_Name a)) - int (length (fm_Name b)))"

definition FuzzyMatchPlugins :: "string \<Rightarrow> plugin_entry list \<Rightarrow> fuzzy_match list" where
  "FuzzyMatchPlugins query0 es =
     (let query = lower (trim_space query0)
      in sort_stable fuzzy_cmp
           (map (\<lambda>i. \<lparr> fm_Name = pe_Name (es ! i), fm_Display = display_name (es ! i),
                      fm_Score = scoreEntry query (es ! i), fm_Index = i \<rparr>)
             (filter (\<lambda>i. scoreEntry query (es ! i) > 0 \<or> query = '''') [0..<length es])))"

definition FilterPlugins :: "string \<Rightarrow> plugin_entry list \<Rightarrow> plugin_entry list" where
  "FilterPlugins query es = map (\<lambda>m. es ! fm_Index m) (FuzzyMatchPlugins query es)"

section \<open>Picking\<close>

text \<open>\<open>OnSelect\<close>: the command of the message that a picked entry becomes.\<close>

definition pick_command :: "plugin_entry \<Rightarrow> string" where
  "pick_command e =
     (if pe_Qualified e then (case pe_GVR e of (g, v, r) \<Rightarrow> ''goto-gvr '' @ g @ ''/'' @ v @ ''/'' @ r)
      else ''goto '' @ pe_Name e)"

text \<open>\<open>strings.Split(s, "/")\<close>, and \<open>strings.Fields\<close>.\<close>

fun split_slash :: "string \<Rightarrow> string list" where
  "split_slash [] = ['''']"
| "split_slash (c # s) = (if c = CHR ''/'' then '''' # split_slash s
     else (case split_slash s of [] \<Rightarrow> [[c]] | x # xs \<Rightarrow> (c # x) # xs))"

fun split_blank :: "string \<Rightarrow> string list" where
  "split_blank [] = ['''']"
| "split_blank (c # s) = (if blank c then '''' # split_blank s
     else (case split_blank s of [] \<Rightarrow> [[c]] | x # xs \<Rightarrow> (c # x) # xs))"

definition str_fields :: "string \<Rightarrow> string list" where
  "str_fields s = filter (\<lambda>w. w \<noteq> []) (split_blank s)"

definition parse_gvr :: "string \<Rightarrow> gvr option" where
  "parse_gvr s = (case split_slash s of [g, v, r] \<Rightarrow> Some (g, v, r) | [v, r] \<Rightarrow> Some ('''', v, r) | _ \<Rightarrow> None)"

definition goto_target :: "string \<Rightarrow> registry \<Rightarrow> rplugin option" where
  "goto_target name R =
     (let q = (if CHR ''/'' \<in> set name then ByQualifiedName name R else None)
      in if q = None then ByName name R else q)"

text \<open>The plugin that the handler of a picked command goes to, if it goes to one.\<close>

definition picked :: "string \<Rightarrow> registry \<Rightarrow> rplugin option" where
  "picked input R =
     (case str_fields input of
        [] \<Rightarrow> None
      | w # ws \<Rightarrow>
          if w = ''goto'' then (case ws of x # _ \<Rightarrow> goto_target x R | [] \<Rightarrow> None)
          else if w = ''goto-gvr'' then (case ws of x # _ \<Rightarrow> Option.bind (parse_gvr x) (\<lambda>g. ByGVR g R) | [] \<Rightarrow> None)
          else goto_target w R)"

end
