(* ===== verification/Plugin_Picker_Props.thy ===== *)
theory Plugin_Picker_Props
  imports Plugin_Picker
begin

text \<open>
  The resource picker: the fuzzy matcher finds exactly the subsequence matches, and where a picked
  entry leads. An entry that shares its name reaches its own type only if it is written with its
  group, which the entries of built-in groups are not.
\<close>

section \<open>The matcher\<close>

lemma lower_char_code: "(of_char (lower_char c) :: nat) =
    (if 65 \<le> (of_char c :: nat) \<and> of_char c \<le> (90 :: nat) then of_char c + 32 else of_char c)"
  by (simp add: lower_char_def Let_def)

lemma lower_idem [simp]: "lower (lower s) = lower s"
proof -
  have "lower_char d = d" if "\<not> (65 \<le> (of_char d :: nat) \<and> (of_char d :: nat) \<le> 90)" for d
    using that by (auto simp: lower_char_def Let_def)
  moreover have "\<not> (65 \<le> (of_char (lower_char c) :: nat) \<and> (of_char (lower_char c) :: nat) \<le> 90)" for c
    using lower_char_code [of c] by (auto split: if_splits)
  ultimately have "lower_char (lower_char c) = lower_char c" for c by blast
  then show ?thesis by (simp add: lower_def)
qed

lemma lower_Nil [simp]: "lower s = [] \<longleftrightarrow> s = []" "lower [] = []"
  by (simp_all add: lower_def)

lemma abbreviation_subseq: "matchAbbreviation q c \<longleftrightarrow> subseq q c"
  by (induction q c rule: matchAbbreviation.induct) auto

lemma contains_subseq: "contains c q \<Longrightarrow> subseq q c"
  by (induction c) (auto intro: list_emb_Cons2 prefix_imp_subseq)

lemma scoreCandidate_pos:
  assumes "q \<noteq> []" and "c \<noteq> []"
  shows "scoreCandidate c q \<ge> 200 \<and> subseq (lower q) (lower c) \<or> scoreCandidate c q = 0 \<and> \<not> subseq (lower q) (lower c)"
proof -
  have "0 \<le> go_quot (100 * int (length (lower q))) (int (length (lower c)))"
    using assms(2) by (simp add: pos_imp_zdiv_nonneg_iff)
  then show ?thesis
    by (auto simp: scoreCandidate_def Let_def abbreviation_subseq dest: contains_subseq prefix_imp_subseq)
qed

text \<open>The texts of an entry that a query is matched against.\<close>

definition candidates :: "plugin_entry \<Rightarrow> string list" where
  "candidates e = (case pe_GVR e of (g, v, r) \<Rightarrow>
     filter (\<lambda>c. c \<noteq> '''') [pe_Name e, pe_ShortName e] @
     filter (\<lambda>c. c \<noteq> '''' \<and> c \<noteq> ''/'') [g, g @ ''/'' @ v])"

lemma slash_lower: "lower s = ''/'' \<longleftrightarrow> s = ''/''"
proof -
  have "c = CHR ''/''" if "lower_char c = CHR ''/''" for c
  proof -
    have "(of_char (lower_char c) :: nat) = 47" using that by simp
    then have "(of_char c :: nat) = 47" using lower_char_code [of c] by (simp split: if_splits)
    then have "(of_char c :: nat) = of_char (CHR ''/'')" by simp
    then show ?thesis by (simp only: of_char_eq_iff)
  qed
  moreover have "lower_char (CHR ''/'') = CHR ''/''" by (simp add: lower_char_def)
  ultimately show ?thesis by (auto simp: lower_def map_eq_Cons_conv)
qed

lemma fold_max_pos: "0 \<le> b \<Longrightarrow>
    (0 < foldl (\<lambda>best c. if P c then best else max best (f c)) b cs \<longleftrightarrow> 0 < b \<or> (\<exists>c\<in>set cs. \<not> P c \<and> 0 < f c)) \<and>
    0 \<le> foldl (\<lambda>best c. if P c then best else max best (f c)) b cs" for f :: "'a \<Rightarrow> int"
  by (induction cs arbitrary: b) auto

lemma fold_half_pos:
  fixes f :: "'a \<Rightarrow> int"
  assumes "0 \<le> b" and "\<And>c. c \<in> set cs \<Longrightarrow> \<not> P c \<Longrightarrow> 0 < f c \<Longrightarrow> 0 < go_quot (f c) 2"
  shows "0 < foldl (\<lambda>best c. if P c then best else let s = f c in if s > 0 \<and> go_quot s 2 > best then go_quot s 2 else best) b cs
    \<longleftrightarrow> 0 < b \<or> (\<exists>c\<in>set cs. \<not> P c \<and> 0 < f c)"
  using assms
proof (induction cs arbitrary: b)
  case (Cons c cs)
  let ?b = "if P c then b else let s = f c in if s > 0 \<and> go_quot s 2 > b then go_quot s 2 else b"
  have "0 \<le> ?b" using Cons.prems(1) by (auto simp: Let_def)
  moreover have "0 < ?b \<longleftrightarrow> 0 < b \<or> \<not> P c \<and> 0 < f c"
    using Cons.prems(1) Cons.prems(2) [of c] by (auto simp: Let_def)
  ultimately show ?case using Cons.IH [of ?b] Cons.prems(2) by simp
qed simp

lemma scoreEntry_pos:
  assumes "q \<noteq> []" and "lower q = q"
  shows "scoreEntry q e > 0 \<longleftrightarrow> (\<exists>c\<in>set (candidates e). subseq q (lower c))"
proof -
  obtain g v r where gvr: "pe_GVR e = (g, v, r)" by (cases "pe_GVR e")
  have sc: "scoreCandidate (lower c) q \<ge> 200 \<and> subseq q (lower c) \<or> scoreCandidate (lower c) q = 0 \<and> \<not> subseq q (lower c)"
    if "c \<noteq> []" for c
    using scoreCandidate_pos [OF assms(1), of "lower c"] that assms(2) by simp
  then have pos: "0 < scoreCandidate (lower c) q \<longleftrightarrow> subseq q (lower c)" if "c \<noteq> []" for c
    using sc [OF that] by auto
  define best1 where "best1 = foldl (\<lambda>best c. if c = '''' then best else max best (scoreCandidate c q)) 0
    [lower (pe_Name e), lower (pe_ShortName e)]"
  have b1: "0 < best1 \<longleftrightarrow> (\<exists>c\<in>{pe_Name e, pe_ShortName e}. c \<noteq> '''' \<and> subseq q (lower c))" "0 \<le> best1"
    unfolding best1_def
    using fold_max_pos [of 0 "\<lambda>c. c = ''''" "\<lambda>c. scoreCandidate c q" "[lower (pe_Name e), lower (pe_ShortName e)]"]
      pos [of "pe_Name e"] pos [of "pe_ShortName e"] by (auto simp del: foldl_Cons foldl_Nil)
  have h: "0 < go_quot (scoreCandidate c q) 2" if "c \<in> {lower g, lower (g @ ''/'' @ v)}" "c \<noteq> ''''" "0 < scoreCandidate c q" for c
    using that sc [of g] sc [of "g @ ''/'' @ v"] by auto
  have "0 < scoreEntry q e \<longleftrightarrow> 0 < best1 \<or> (\<exists>c\<in>set [lower g, lower (g @ ''/'' @ v)]. \<not> (c = '''' \<or> c = ''/'') \<and> 0 < scoreCandidate c q)"
    using assms(1) fold_half_pos [OF b1(2), of "[lower g, lower (g @ ''/'' @ v)]" "\<lambda>c. c = '''' \<or> c = ''/''" "\<lambda>c. scoreCandidate c q"] h
    by (simp add: scoreEntry_def gvr best1_def Let_def)
  also have "\<dots> \<longleftrightarrow> (\<exists>c\<in>set (candidates e). subseq q (lower c))"
    using pos [of g] pos [of "g @ ''/'' @ v"] by (auto simp: candidates_def gvr b1(1) slash_lower)
  finally show ?thesis .
qed

lemma fuzzy_preorder: "preorder_cmp fuzzy_cmp"
  by (auto simp: preorder_cmp_def fuzzy_cmp_def split: if_splits)

lemma lower_trim: "lower (trim_space q) = [] \<longleftrightarrow> trim_space q = []"
  by simp

text \<open>C18. The matcher finds exactly what it should: for a query that is not blank it returns, each once
  and the best scores first, the entries of which the query, without regard to case, is a
  subsequence of the name, the short name, the group or the group with its version.
\<close>

theorem fuzzy_exact:
  assumes "trim_space query \<noteq> ''''"
  shows "set (map fm_Index (FuzzyMatchPlugins query es)) =
      {i. i < length es \<and> (\<exists>c\<in>set (candidates (es ! i)). subseq (lower (trim_space query)) (lower c))} \<and>
    distinct (map fm_Index (FuzzyMatchPlugins query es)) \<and>
    sorted_wrt (\<lambda>a b. fm_Score a \<ge> fm_Score b) (FuzzyMatchPlugins query es)"
proof (intro conjI)
  let ?q = "lower (trim_space query)"
  let ?is = "filter (\<lambda>i. scoreEntry ?q (es ! i) > 0 \<or> ?q = '''') [0..<length es]"
  let ?f = "\<lambda>i. \<lparr> fm_Name = pe_Name (es ! i), fm_Display = display_name (es ! i), fm_Score = scoreEntry ?q (es ! i), fm_Index = i \<rparr>"
  have ms: "FuzzyMatchPlugins query es = sort_stable fuzzy_cmp (map ?f ?is)"
    by (simp add: FuzzyMatchPlugins_def Let_def)
  show "set (map fm_Index (FuzzyMatchPlugins query es)) =
      {i. i < length es \<and> (\<exists>c\<in>set (candidates (es ! i)). subseq ?q (lower c))}"
    using scoreEntry_pos [of ?q] assms by (auto simp: ms image_image)
  have "inj_on fm_Index (set (map ?f ?is))" by (auto simp: inj_on_def)
  then show "distinct (map fm_Index (FuzzyMatchPlugins query es))"
    by (simp add: ms distinct_map inj_on_def)
  show "sorted_wrt (\<lambda>a b. fm_Score a \<ge> fm_Score b) (FuzzyMatchPlugins query es)"
    using sorted_sort_stable [OF fuzzy_preorder, of "map ?f ?is"] unfolding ms
    by (rule sorted_wrt_mono_rel [rotated]) (auto simp: fuzzy_cmp_def split: if_splits)
qed

definition hpa :: plugin_entry where
  "hpa = \<lparr> pe_Name = ''horizontalpodautoscalers'', pe_ShortName = '''', pe_GVR = (''autoscaling'', ''v2'', ''horizontalpodautoscalers''),
     pe_Qualified = False \<rparr>"

lemma fuzzy_exact_witness:
  "0 \<in> set (map fm_Index (FuzzyMatchPlugins ''HPA'' [hpa]))"
proof -
  have s: "subseq (lower ''HPA'') (lower ''horizontalpodautoscalers'')" and t: "trim_space ''HPA'' = ''HPA''" by code_simp+
  have "''horizontalpodautoscalers'' \<in> set (candidates hpa)" by (simp add: candidates_def hpa_def)
  then show ?thesis
    using fuzzy_exact [of "''HPA''" "[hpa]"] s unfolding t by (auto simp del: list.set_map)
qed

section \<open>Picking\<close>

lemma split_slash_plain: "CHR ''/'' \<notin> set s \<Longrightarrow> split_slash s = [s]"
  by (induction s) auto

lemma split_slash_app: "CHR ''/'' \<notin> set s \<Longrightarrow> split_slash (s @ CHR ''/'' # t) = s # split_slash t"
  by (induction s) auto

lemma split_blank_plain: "\<forall>c\<in>set s. \<not> blank c \<Longrightarrow> split_blank s = [s]"
  by (induction s) auto

lemma blank_space: "blank CHR '' ''"
  by (simp add: blank_def)

lemma split_blank_app: "\<forall>c\<in>set s. \<not> blank c \<Longrightarrow> split_blank (s @ CHR '' '' # t) = s # split_blank t"
  by (induction s) (auto simp: blank_space)

lemma str_fields_two: "\<forall>c\<in>set a. \<not> blank c \<Longrightarrow> \<forall>c\<in>set b. \<not> blank c \<Longrightarrow> a \<noteq> [] \<Longrightarrow> b \<noteq> [] \<Longrightarrow>
    str_fields (a @ CHR '' '' # b) = [a, b]"
  by (simp add: str_fields_def split_blank_app split_blank_plain)

text \<open>No white space and no slash, as in every name and group of the API.\<close>

definition clean :: "string \<Rightarrow> bool" where
  "clean s \<longleftrightarrow> (\<forall>c\<in>set s. \<not> blank c) \<and> CHR ''/'' \<notin> set s"

lemma parse_gvr_clean: "clean g \<Longrightarrow> clean v \<Longrightarrow> clean r \<Longrightarrow> parse_gvr (g @ ''/'' @ v @ ''/'' @ r) = Some (g, v, r)"
  using split_slash_app [of g "v @ ''/'' @ r"] split_slash_app [of v r]
  by (simp add: parse_gvr_def clean_def split_slash_plain)

lemma entry_origin:
  assumes "e \<in> set (buildPickerEntries R)"
  obtains p where "p \<in> set (ordered R)" "pe_Name e = p_Name p" "pe_GVR e = p_GVR p"
    "\<not> pe_Qualified e \<longrightarrow> e = entry_of p"
    "pe_Qualified e \<longrightarrow> length (filter (\<lambda>q. p_Name q = p_Name p) (ordered R)) \<ge> 2"
proof -
  let ?es = "map entry_of (ordered R)"
  obtain i where i: "i < length ?es" "e = qualify ?es (?es ! i)"
    using assms by (auto simp: buildPickerEntries_def reg_All_def markCollisions_def)
  define p where "p = ordered R ! i"
  have e: "?es ! i = entry_of p" using i by (simp add: p_def)
  have "length (same ?es (entry_of p)) = length (filter (\<lambda>q. p_Name q = p_Name p) (ordered R))"
    by (simp add: same_def filter_map comp_def entry_of_def)
  then show thesis
    using i that [of p] by (auto simp: e qualify_def entry_of_def p_def split: if_splits)
qed

text \<open>
  A picked entry leads where it says: after any registrations the command of an entry that is
  written with its group goes to a plugin of just its resource type, and that of any other entry to
  the primary plugin of its name, which is of its type too when no other plugin has the name.
\<close>

theorem picker_reaches:
  assumes "e \<in> set (buildPickerEntries (reg_run ops))"
    and "pe_GVR e = (g, v, r)" and "clean g" and "clean v" and "clean r"
    and "clean (pe_Name e)" and "pe_Name e \<noteq> ''''"
  shows "\<exists>q. picked (pick_command e) (reg_run ops) = Some q \<and>
    (if pe_Qualified e \<or> length (AllByName (pe_Name e) (reg_run ops)) = 1 then p_GVR q = pe_GVR e
     else p_Name q = pe_Name e)"
proof -
  let ?R = "reg_run ops"
  note ok = registry_ok_run [of ops, unfolded registry_ok_def]
  obtain p where p: "p \<in> set (ordered ?R)" "pe_Name e = p_Name p" "pe_GVR e = p_GVR p"
    using entry_origin [OF assms(1)] by metis
  show ?thesis
  proof (cases "pe_Qualified e")
    case True
    have "\<not> blank CHR ''/''" "\<forall>c\<in>set ''goto-gvr''. \<not> blank c" by (simp_all add: blank_def)
    moreover from this(1) have "\<forall>c\<in>set (g @ ''/'' @ v @ ''/'' @ r). \<not> blank c"
      using assms(3-5) by (simp add: clean_def ball_Un)
    ultimately have "str_fields (''goto-gvr'' @ CHR '' '' # g @ ''/'' @ v @ ''/'' @ r) = [''goto-gvr'', g @ ''/'' @ v @ ''/'' @ r]"
      by (intro str_fields_two) simp_all
    then have "picked (pick_command e) ?R = byGVR ?R (p_GVR p)"
      using True p(3) parse_gvr_clean [OF assms(3-5)] by (simp add: picked_def pick_command_def p(3) [symmetric] assms(2) ByGVR_def)
    moreover obtain q where "byGVR ?R (p_GVR p) = Some q" "p_GVR q = p_GVR p"
      using ok p(1) by (metis option.exhaust)
    ultimately show ?thesis using p True by simp
  next
    case False
    have "str_fields (''goto'' @ CHR '' '' # pe_Name e) = [''goto'', pe_Name e]"
      using assms(6,7) by (intro str_fields_two) (simp_all add: clean_def blank_def)
    moreover obtain q where q: "byName ?R (p_Name p) = Some q" "q \<in> set (ordered ?R)" "p_Name q = p_Name p"
      using ok p(1) by (metis option.exhaust)
    ultimately have "picked (pick_command e) ?R = Some q"
      using False p(2) assms(6) by (simp add: picked_def pick_command_def goto_target_def clean_def ByName_def)
    moreover have "q = p" if "length (AllByName (pe_Name e) ?R) = 1"
    proof -
      have "AllByName (pe_Name e) ?R = filter (\<lambda>q. p_Name q = p_Name p) (ordered ?R)"
        using ok p(2) by (simp add: AllByName_def)
      moreover obtain x where "AllByName (pe_Name e) ?R = [x]"
        using \<open>length (AllByName (pe_Name e) ?R) = 1\<close> by (auto simp: length_Suc_conv One_nat_def)
      ultimately have f: "filter (\<lambda>q. p_Name q = p_Name p) (ordered ?R) = [x]" by simp
      have "p \<in> set [x]" "q \<in> set [x]" unfolding f [symmetric] using p(1) q(2,3) by simp_all
      then show ?thesis by simp
    qed
    ultimately show ?thesis using False p q(3) by auto
  qed
qed

lemma picker_reaches_witness:
  "\<exists>q. picked ''goto pods'' (reg_run [R_Register (reg_sample ''pods'' ('''', ''v1'', ''pods''))]) = Some q \<and>
     p_GVR q = ('''', ''v1'', ''pods'')"
  using picker_reaches [of "entry_of (reg_sample ''pods'' ('''', ''v1'', ''pods''))"
      "[R_Register (reg_sample ''pods'' ('''', ''v1'', ''pods''))]" "''''" "''v1''" "''pods''"]
  by (auto simp: reg_run_def reg_Register_def reg_Reset_def reg_sample_def add_short_def Let_def reg_All_def
      buildPickerEntries_def markCollisions_def removed_def qualify_def same_def entry_of_def clean_def blank_def AllByName_def
      pick_command_def)

definition leases :: "string \<Rightarrow> rplugin" where
  "leases g = reg_sample ''leases'' (g, ''v1'', ''leases'')"

text \<open>
  An entry can lead elsewhere: when a plugin of another group has taken a name before the one of
  a built-in group, the entry of the built-in one is written without its group, and picking it goes
  to the plugin of the other group.
\<close>

theorem picker_wrong_target:
  "let R = reg_run [R_IfAbsent (leases ''acme.io''), R_IfAbsent (leases ''coordination.k8s.io'')];
       e = buildPickerEntries R ! 1
   in \<not> pe_Qualified e \<and> pe_GVR e = (''coordination.k8s.io'', ''v1'', ''leases'') \<and>
      map_option p_GVR (picked (pick_command e) R) = Some (''acme.io'', ''v1'', ''leases'')"
proof -
  let ?R = "reg_run [R_IfAbsent (leases ''acme.io''), R_IfAbsent (leases ''coordination.k8s.io'')]"
  have o2: "ordered ?R = [leases ''acme.io'', leases ''coordination.k8s.io'']"
    and n: "byName ?R ''leases'' = Some (leases ''acme.io'')"
    by (simp_all add: reg_run_def RegisterIfAbsent_def reg_Reset_def leases_def reg_sample_def add_short_def Let_def)
  have "isBuiltInGroup ''coordination.k8s.io''" "\<not> isBuiltInGroup ''acme.io''" by code_simp+
  then have es: "buildPickerEntries ?R = [(entry_of (leases ''acme.io''))\<lparr> pe_Qualified := True \<rparr>, entry_of (leases ''coordination.k8s.io'')]"
    unfolding buildPickerEntries_def reg_All_def o2
    by (simp add: markCollisions_def removed_def qualify_def same_def entry_of_def
        leases_def reg_sample_def built_in_def)
  have "picked ''goto leases'' ?R = Some (leases ''acme.io'')"
    using str_fields_two [of "''goto''" "''leases''"] by (simp add: picked_def goto_target_def ByName_def n blank_def)
  moreover have "pick_command (entry_of (leases ''coordination.k8s.io'')) = ''goto leases''"
    "\<not> pe_Qualified (entry_of (leases ''coordination.k8s.io''))"
    "pe_GVR (entry_of (leases ''coordination.k8s.io'')) = (''coordination.k8s.io'', ''v1'', ''leases'')"
    "p_GVR (leases ''acme.io'') = (''acme.io'', ''v1'', ''leases'')"
    by (simp_all add: pick_command_def entry_of_def leases_def reg_sample_def)
  ultimately show ?thesis unfolding Let_def es by simp
qed

text \<open>
  Colliding entries of built-in groups are not told apart but dropped: of the entries of a name
  that are all of built-in groups the first is kept, not qualified, and the others are gone.
\<close>

theorem builtin_duplicates_dropped:
  assumes "\<forall>f\<in>set es. built_in f \<and> pe_Name f = n \<and> \<not> pe_Qualified f" and "es \<noteq> []"
  shows "markCollisions es = [hd es]"
proof -
  have s: "same es (es ! i) = es" if "i < length es" for i
    using assms(1) nth_mem [OF that] by (simp add: same_def)
  have n: "pe_Name (es ! i) = n" if "i < length es" for i
    using assms(1) nth_mem [OF that] by simp
  have "\<exists>j<i. pe_Name (es ! j) = pe_Name (es ! i)" if "i < length es" "i \<noteq> 0" for i
  proof (intro exI conjI)
    show "0 < i" using that(2) by simp
    have "0 < length es" using that by (cases es) simp_all
    then show "pe_Name (es ! 0) = pe_Name (es ! i)" using n [of 0] n [OF that(1)] by simp
  qed
  then have "length es \<ge> 2 \<and> (\<exists>j<i. pe_Name (es ! j) = pe_Name (es ! i)) \<longleftrightarrow> i \<noteq> 0" if "i < length es" for i
    using that by (cases i) auto
  then have r: "removed es i \<longleftrightarrow> i \<noteq> 0" if "i < length es" for i
    using that assms(1) by (auto simp: removed_def s)
  have "filter (\<lambda>i. \<not> removed es i) [0..<length es] = filter (\<lambda>i. i = 0) [0..<length es]"
    by (rule filter_cong) (simp_all add: r)
  also have "\<dots> = [0]"
    using assms(2) by (cases es) (simp_all add: upt_conv_Cons filter_empty_conv del: upt_Suc)
  finally show ?thesis
    using assms by (simp add: markCollisions_def qualify_def s hd_conv_nth)
qed

lemma builtin_duplicates_dropped_witness:
  "markCollisions [entry_of (reg_sample ''events'' ('''', ''v1'', ''events'')),
       entry_of (reg_sample ''events'' (''events.k8s.io'', ''v1'', ''events''))] =
     [entry_of (reg_sample ''events'' ('''', ''v1'', ''events''))]"
proof -
  have "isBuiltInGroup ''events.k8s.io''" "isBuiltInGroup ''''" by code_simp+
  then show ?thesis
    using builtin_duplicates_dropped [of "[entry_of (reg_sample ''events'' ('''', ''v1'', ''events'')),
        entry_of (reg_sample ''events'' (''events.k8s.io'', ''v1'', ''events''))]" "''events''"]
    by (simp add: built_in_def entry_of_def reg_sample_def)
qed

end
