(* ===== verification/Status_Bar.thy ===== *)
theory Status_Bar
  imports Key_Bindings Extern
begin

text \<open>
  \<^verbatim>\<open>internal/ui/statusbar.go\<close>: the bottom line with the context, the indicators and
  as many key hints as fit. The spinner widget is third-party code: of it only whether it is shown
  is kept. The styles of lipgloss are functions on text.
\<close>

section \<open>State and operations\<close>

record status_bar =
  sb_hints :: "key_hint list"
  sb_indicator :: string
  sb_width :: int
  sb_online :: bool
  sb_inflight :: int
  sb_showSpinner :: bool
  sb_contextName :: string

definition maxContextWidth :: int where "maxContextWidth = 24"

definition NewStatusBar :: "int \<Rightarrow> status_bar" where
  "NewStatusBar width = \<lparr> sb_hints = [], sb_indicator = '''', sb_width = width, sb_online = False, sb_inflight = 0,
     sb_showSpinner = False, sb_contextName = ''default'' \<rparr>"

definition SetHints :: "key_hint list \<Rightarrow> status_bar \<Rightarrow> status_bar" where
  "SetHints hs s = s\<lparr> sb_hints := hs \<rparr>"

definition ClearHints :: "status_bar \<Rightarrow> status_bar" where
  "ClearHints s = s\<lparr> sb_hints := [] \<rparr>"

definition SetIndicator :: "string \<Rightarrow> status_bar \<Rightarrow> status_bar" where
  "SetIndicator ind s = s\<lparr> sb_indicator := ind \<rparr>"

definition sb_SetWidth :: "int \<Rightarrow> status_bar \<Rightarrow> status_bar" where
  "sb_SetWidth w s = s\<lparr> sb_width := w \<rparr>"

definition SetContextName :: "string \<Rightarrow> status_bar \<Rightarrow> status_bar" where
  "SetContextName name s = s\<lparr> sb_contextName := (if name = '''' then ''default'' else name) \<rparr>"

definition SetOnline :: "bool \<Rightarrow> status_bar \<Rightarrow> status_bar" where
  "SetOnline v s = s\<lparr> sb_online := v \<rparr>"

text \<open>The second result says whether the tick that will show the spinner is armed.\<close>

definition StartOperation :: "status_bar \<Rightarrow> status_bar \<times> bool" where
  "StartOperation s = (s\<lparr> sb_inflight := sb_inflight s + 1 \<rparr>, sb_inflight s + 1 = 1)"

definition EndOperation :: "status_bar \<Rightarrow> status_bar" where
  "EndOperation s =
     (let s1 = (if sb_inflight s > 0 then s\<lparr> sb_inflight := sb_inflight s - 1 \<rparr> else s)
      in if sb_inflight s1 = 0 then s1\<lparr> sb_showSpinner := False \<rparr> else s1)"

definition Busy :: "status_bar \<Rightarrow> bool" where
  "Busy s \<longleftrightarrow> sb_inflight s > 0"

definition ShowSpinnerMsg :: "status_bar \<Rightarrow> status_bar \<times> bool" where
  "ShowSpinnerMsg s = (if sb_inflight s > 0 then (s\<lparr> sb_showSpinner := True \<rparr>, True) else (s, False))"

section \<open>The line\<close>

text \<open>
  \<open>rune_cuts s\<close> lists the proper prefixes of \<open>s\<close> at rune boundaries, the longest first, without the
  empty one; decoding runes belongs to the language's runtime.
\<close>

record status_style =
  ss_width :: "string \<Rightarrow> int"
  rune_cuts :: "string \<Rightarrow> string list"
  ellipsis :: string
  ss_key :: "string \<Rightarrow> string"
  ss_help :: "string \<Rightarrow> string"
  badge :: "bool \<Rightarrow> string \<Rightarrow> string"
  spinner_view :: "bool \<Rightarrow> string"

definition truncateContext :: "status_style \<Rightarrow> string \<Rightarrow> int \<Rightarrow> string" where
  "truncateContext S name max_width =
     (if ss_width S name \<le> max_width then name
      else case find (\<lambda>p. ss_width S (p @ ellipsis S) \<le> max_width) (rune_cuts S name) of
        Some p \<Rightarrow> p @ ellipsis S
      | None \<Rightarrow> ellipsis S)"

definition health_slot :: "status_style \<Rightarrow> status_bar \<Rightarrow> string" where
  "health_slot S s =
     (let name = truncateContext S (sb_contextName s) maxContextWidth
      in if sb_showSpinner s then badge S (sb_online s) (name @ '' '' @ spinner_view S (sb_online s))
         else badge S (sb_online s) name)"

definition more_suffix :: "status_style \<Rightarrow> string" where
  "more_suffix S = ''  '' @ ss_key S ''?'' @ '' '' @ ss_help S ''more''"

definition hint_text :: "status_style \<Rightarrow> key_hint \<Rightarrow> string" where
  "hint_text S h = ss_key S (kh_Key h) @ '' '' @ ss_help S (kh_Help h)"

text \<open>The loop over the hints: \<open>used\<close> is \<open>usedWidth\<close>.\<close>

fun add_hints :: "status_style \<Rightarrow> int \<Rightarrow> key_hint list \<Rightarrow> string \<Rightarrow> int \<Rightarrow> string" where
  "add_hints S w [] line used = line"
| "add_hints S w (h # hs) line used =
     (let gap = (if line = '''' then '''' else '' '');
          r = gap @ hint_text S h;
          hw = ss_width S r
      in if hs = [] then (if used + hw \<le> w then line @ r else line @ more_suffix S)
         else if used + hw + ss_width S (more_suffix S) \<le> w then add_hints S w hs (line @ r) (used + hw)
         else line @ more_suffix S)"

text \<open>\<open>View\<close> before the outer style, which pads the line to the width.\<close>

definition sb_line :: "status_style \<Rightarrow> status_bar \<Rightarrow> string" where
  "sb_line S s =
     (if sb_width s < 2 then ''''
      else let line = health_slot S s @ sb_indicator s
           in add_hints S (sb_width s) (sb_hints s) line (ss_width S line))"

section \<open>Facts\<close>

text \<open>Widths add up, as they do for whole runs of escape sequences and cells.\<close>

definition widths_add :: "status_style \<Rightarrow> bool" where
  "widths_add S \<longleftrightarrow> (\<forall>a b. ss_width S (a @ b) = ss_width S a + ss_width S b) \<and> (\<forall>a. 0 \<le> ss_width S a)"

lemma add_hints_fits:
  assumes "widths_add S" and "used = ss_width S line" and "used + ss_width S (more_suffix S) \<le> w"
  shows "ss_width S (add_hints S w hs line used) \<le> w"
  using assms(2,3)
proof (induction hs arbitrary: line used)
  case Nil
  then show ?case using assms(1) by (simp add: widths_add_def) (smt (verit))
next
  case (Cons h hs)
  define r where "r = (if line = '''' then '''' else '' '') @ hint_text S h"
  have add: "ss_width S (a @ b) = ss_width S a + ss_width S b" "0 \<le> ss_width S a" for a b
    using assms(1) by (simp_all add: widths_add_def)
  have "ss_width S (line @ r) \<le> w" if "used + ss_width S r \<le> w"
    using that Cons.prems(1) by (simp only: add(1))
  moreover have "ss_width S (line @ more_suffix S) \<le> w"
    using Cons.prems by (simp only: add(1))
  moreover have "ss_width S (add_hints S w hs (line @ r) (used + ss_width S r)) \<le> w"
    if "used + ss_width S r + ss_width S (more_suffix S) \<le> w"
    using Cons.IH [of "used + ss_width S r" "line @ r"] that Cons.prems(1) by (simp only: add(1))
  moreover have "add_hints S w (h # hs) line used =
      (if hs = [] then (if used + ss_width S r \<le> w then line @ r else line @ more_suffix S)
       else if used + ss_width S r + ss_width S (more_suffix S) \<le> w then add_hints S w hs (line @ r) (used + ss_width S r)
       else line @ more_suffix S)"
    by (simp add: r_def Let_def)
  ultimately show ?case by simp
qed

lemma add_hints_prefix: "\<exists>ext. add_hints S w hs line used = line @ ext"
proof (induction hs arbitrary: line used)
  case (Cons h hs)
  then show ?case by (auto simp: Let_def) (metis append_assoc)
qed simp

text \<open>
  The status line fits: where the badge, the indicators and the note that there is more fit, the
  line with any hints is no wider than the bar, and it always begins with the badge.
\<close>

theorem status_line_fits:
  assumes "widths_add S" and "sb_width s \<ge> 2"
    and "ss_width S (health_slot S s @ sb_indicator s @ more_suffix S) \<le> sb_width s"
  shows "ss_width S (sb_line S s) \<le> sb_width s \<and> (\<exists>ext. sb_line S s = health_slot S s @ ext)"
proof -
  let ?line = "health_slot S s @ sb_indicator s"
  have "ss_width S ?line + ss_width S (more_suffix S) \<le> sb_width s"
    using assms(1,3) by (simp add: widths_add_def)
  then have "ss_width S (sb_line S s) \<le> sb_width s"
    using add_hints_fits [OF assms(1) refl] assms(2) by (simp add: sb_line_def Let_def)
  moreover obtain ext where "sb_line S s = ?line @ ext"
    using add_hints_prefix [of S "sb_width s" "sb_hints s" ?line "ss_width S ?line"] assms(2)
    by (auto simp: sb_line_def Let_def)
  ultimately show ?thesis by auto
qed

text \<open>Operations in flight: \<open>True\<close> starts one, \<open>False\<close> ends one.\<close>

definition sb_run :: "bool list \<Rightarrow> status_bar \<Rightarrow> status_bar" where
  "sb_run ops s = fold (\<lambda>b s. if b then fst (StartOperation s) else EndOperation s) ops s"

definition sb_ok :: "status_bar \<Rightarrow> bool" where
  "sb_ok s \<longleftrightarrow> 0 \<le> sb_inflight s \<and> (sb_showSpinner s \<longrightarrow> 0 < sb_inflight s)"

lemma sb_ok_run: "sb_ok s \<Longrightarrow> sb_ok (sb_run ops s)"
proof -
  have "sb_ok (if b then fst (StartOperation s) else EndOperation s)" if "sb_ok s" for b s
    using that by (auto simp: sb_ok_def StartOperation_def EndOperation_def Let_def)
  then show "sb_ok s \<Longrightarrow> sb_ok (sb_run ops s)"
    unfolding sb_run_def by (induction ops arbitrary: s) auto
qed

definition cells :: status_style where
  "cells = \<lparr> ss_width = (\<lambda>s. int (length s)), rune_cuts = (\<lambda>s. map (\<lambda>n. take n s) (rev [1..<length s])),
     ellipsis = ''~'', ss_key = id, ss_help = id, badge = (\<lambda>_ s. s), spinner_view = (\<lambda>_. ''*'') \<rparr>"

lemma status_line_fits_witness:
  "ss_width cells (sb_line cells (SetHints [\<lparr> kh_Key = ''y'', kh_Help = ''yaml'' \<rparr>, \<lparr> kh_Key = ''d'', kh_Help = ''describe'' \<rparr>]
      (NewStatusBar 24))) \<le> 24"
  using status_line_fits [of cells "SetHints [\<lparr> kh_Key = ''y'', kh_Help = ''yaml'' \<rparr>, \<lparr> kh_Key = ''d'', kh_Help = ''describe'' \<rparr>]
      (NewStatusBar 24)"]
  by (simp add: widths_add_def cells_def SetHints_def NewStatusBar_def health_slot_def truncateContext_def
      more_suffix_def maxContextWidth_def)

end
