(* ===== verification/Port_Forward.thy ===== *)
theory Port_Forward
  imports Prelude "HOL-Library.AList" "HOL-Library.Word"
begin

text \<open>
  \<^verbatim>\<open>internal/portforward/registry.go\<close>: the registry of the running port-forwards. An
  operation runs under the lock of the registry, so each is one step. The map of the entries is an
  association list, whose order stands for the order in which Go happens to iterate; calling the
  \<open>Cancel\<close> of an entry is reported as its identifier.
\<close>

section \<open>State and operations\<close>

datatype pf_status = StatusStarting | StatusReady | StatusError | StatusStopped

record pf_entry =
  pf_ID :: string
  pf_PodName :: string
  pf_PodNamespace :: string
  pf_ContainerName :: string
  pf_LocalPort :: int
  pf_RemotePort :: int
  pf_Protocol :: string
  pf_Status :: pf_status
  pf_Cancel :: bool

record pf_registry =
  pf_entries :: "(string \<times> pf_entry) list"
  pf_nextID :: "64 word"

definition NewRegistry :: pf_registry where
  "NewRegistry = \<lparr> pf_entries = [], pf_nextID = 0 \<rparr>"

text \<open>\<open>nextID\<close> is an \<open>atomic.Int64\<close>: adding wraps around and the number is printed with its sign.\<close>

definition pf_id :: "64 word \<Rightarrow> string" where
  "pf_id n = ''pf-'' @ itoa (sint n)"

definition pf_Add :: "pf_entry \<Rightarrow> pf_registry \<Rightarrow> pf_registry \<times> string" where
  "pf_Add e r =
     (let n = pf_nextID r + 1; i = pf_id n
      in (r\<lparr> pf_nextID := n, pf_entries := AList.update i (e\<lparr> pf_ID := i \<rparr>) (pf_entries r) \<rparr>, i))"

definition HasLocalPort :: "int \<Rightarrow> pf_registry \<Rightarrow> bool" where
  "HasLocalPort port r \<longleftrightarrow> (\<exists>(i, e)\<in>set (pf_entries r). pf_LocalPort e = port)"

definition port_taken :: "int \<Rightarrow> string" where
  "port_taken port = ''local port '' @ itoa port @ '' already in use by another port-forward''"

definition AddIfNotPresent :: "pf_entry \<Rightarrow> pf_registry \<Rightarrow> pf_registry \<times> (string + string)" where
  "AddIfNotPresent e r =
     (if \<exists>(i, f)\<in>set (pf_entries r). pf_LocalPort f = pf_LocalPort e then (r, Inl (port_taken (pf_LocalPort e)))
      else let (r1, i) = pf_Add e r in (r1, Inr i))"

definition cancel_of :: "pf_entry \<Rightarrow> string list" where
  "cancel_of e = (if pf_Cancel e then [pf_ID e] else [])"

definition pf_Remove :: "string \<Rightarrow> pf_registry \<Rightarrow> pf_registry \<times> string list" where
  "pf_Remove i r =
     (case map_of (pf_entries r) i of
        None \<Rightarrow> (r, [])
      | Some e \<Rightarrow> (r\<lparr> pf_entries := AList.delete i (pf_entries r) \<rparr>, cancel_of e))"

definition pf_List :: "pf_registry \<Rightarrow> pf_entry list" where
  "pf_List r = map snd (pf_entries r)"

definition pf_Count :: "pf_registry \<Rightarrow> int" where
  "pf_Count r = int (length (pf_entries r))"

definition UpdateStatus :: "string \<Rightarrow> pf_status \<Rightarrow> pf_registry \<Rightarrow> pf_registry \<times> bool" where
  "UpdateStatus i s r =
     (case map_of (pf_entries r) i of
        None \<Rightarrow> (r, False)
      | Some e \<Rightarrow> (r\<lparr> pf_entries := AList.update i (e\<lparr> pf_Status := s \<rparr>) (pf_entries r) \<rparr>, True))"

definition StopAll :: "pf_registry \<Rightarrow> pf_registry \<times> string list" where
  "StopAll r = (r\<lparr> pf_entries := [] \<rparr>, concat (map (cancel_of \<circ> snd) (pf_entries r)))"

text \<open>\<open>localPortForPF\<close> of the application.\<close>

definition localPortForPF :: "string \<Rightarrow> pf_registry \<Rightarrow> int" where
  "localPortForPF i r = (case find (\<lambda>e. pf_ID e = i) (pf_List r) of None \<Rightarrow> 0 | Some e \<Rightarrow> pf_LocalPort e)"

section \<open>Runs of the operations the application uses\<close>

datatype pf_op = PF_Add pf_entry | PF_Remove string | PF_Status string pf_status

fun pf_step :: "pf_op \<Rightarrow> pf_registry \<Rightarrow> pf_registry" where
  "pf_step (PF_Add e) r = fst (AddIfNotPresent e r)"
| "pf_step (PF_Remove i) r = fst (pf_Remove i r)"
| "pf_step (PF_Status i s) r = fst (UpdateStatus i s r)"

definition pf_run :: "pf_op list \<Rightarrow> pf_registry" where
  "pf_run ops = foldl (\<lambda>r op. pf_step op r) NewRegistry ops"

text \<open>Identifiers are the keys, and no two entries have the same local port.\<close>

definition port_of :: "string \<times> pf_entry \<Rightarrow> int" where
  "port_of x = pf_LocalPort (snd x)"

definition filed :: "string \<times> pf_entry \<Rightarrow> bool" where
  "filed x \<longleftrightarrow> pf_ID (snd x) = fst x"

definition pf_ok :: "pf_registry \<Rightarrow> bool" where
  "pf_ok r \<longleftrightarrow> distinct (map fst (pf_entries r)) \<and> list_all filed (pf_entries r) \<and>
     inj_on port_of (set (pf_entries r))"

lemma set_alist_update:
  "distinct (map fst es) \<Longrightarrow> set (AList.update k v es) = insert (k, v) {x \<in> set es. fst x \<noteq> k}"
  by (induction es) (auto simp: rev_image_eqI)

lemma pf_ok_new: "pf_ok NewRegistry"
  by (simp add: pf_ok_def NewRegistry_def)

text \<open>Filing an entry whose port nobody else has.\<close>

lemma pf_ok_update:
  assumes "pf_ok r" and "pf_ID e = i" and "\<forall>x\<in>set (pf_entries r). fst x \<noteq> i \<longrightarrow> port_of x \<noteq> pf_LocalPort e"
  shows "pf_ok (r\<lparr> pf_entries := AList.update i e (pf_entries r) \<rparr>)"
proof -
  have d: "distinct (map fst (pf_entries r))" and i: "inj_on port_of (set (pf_entries r))"
    and l: "list_all filed (pf_entries r)" using assms(1) by (simp_all add: pf_ok_def)
  have "inj_on port_of (insert (i, e) {x \<in> set (pf_entries r). fst x \<noteq> i})"
    using assms(3) i by (auto simp: port_of_def inj_on_def)
  moreover have "list_all filed (AList.update i e (pf_entries r))"
    using l assms(2) unfolding list_all_iff set_alist_update [OF d] by (auto simp: filed_def)
  ultimately show ?thesis
    using d by (simp add: pf_ok_def set_alist_update distinct_update)
qed

lemma pf_ok_nextID: "pf_ok (r\<lparr> pf_nextID := n \<rparr>) = pf_ok r"
  by (simp add: pf_ok_def)

lemma pf_ok_add:
  assumes "pf_ok r" shows "pf_ok (fst (AddIfNotPresent e r))"
proof (cases "\<exists>(i, f)\<in>set (pf_entries r). pf_LocalPort f = pf_LocalPort e")
  case False
  let ?n = "pf_nextID r + 1"
  have "pf_ok ((r\<lparr> pf_nextID := ?n \<rparr>)\<lparr> pf_entries := AList.update (pf_id ?n) (e\<lparr> pf_ID := pf_id ?n \<rparr>)
      (pf_entries (r\<lparr> pf_nextID := ?n \<rparr>)) \<rparr>)"
    using assms False by (intro pf_ok_update) (auto simp: pf_ok_nextID port_of_def)
  then show ?thesis using False by (simp add: AddIfNotPresent_def pf_Add_def Let_def)
qed (use assms in \<open>simp add: AddIfNotPresent_def\<close>)

lemma pf_ok_remove:
  assumes "pf_ok r" shows "pf_ok (fst (pf_Remove i r))"
proof -
  have "set (AList.delete i (pf_entries r)) \<subseteq> set (pf_entries r)"
    by (auto simp: AList.delete_eq)
  moreover have "distinct (map fst (AList.delete i (pf_entries r)))"
    using assms by (simp add: pf_ok_def distinct_delete)
  ultimately have "pf_ok (r\<lparr> pf_entries := AList.delete i (pf_entries r) \<rparr>)"
    using assms by (auto simp: pf_ok_def list_all_iff intro: inj_on_subset)
  then show ?thesis using assms by (simp add: pf_Remove_def split: option.split)
qed

lemma pf_ok_status:
  assumes "pf_ok r" shows "pf_ok (fst (UpdateStatus i s r))"
proof (cases "map_of (pf_entries r) i")
  case (Some e)
  have m: "(i, e) \<in> set (pf_entries r)" using Some by (rule map_of_SomeD)
  have "pf_ID e = i" using assms m by (auto simp: pf_ok_def list_all_iff filed_def)
  moreover have "\<forall>x\<in>set (pf_entries r). fst x \<noteq> i \<longrightarrow> port_of x \<noteq> pf_LocalPort e"
    using assms m unfolding pf_ok_def inj_on_def by (fastforce simp: port_of_def)
  ultimately have "pf_ok (r\<lparr> pf_entries := AList.update i (e\<lparr> pf_Status := s \<rparr>) (pf_entries r) \<rparr>)"
    using assms by (intro pf_ok_update) simp_all
  then show ?thesis using Some by (simp add: UpdateStatus_def)
qed (use assms in \<open>simp add: UpdateStatus_def\<close>)

lemma pf_ok_step: "pf_ok r \<Longrightarrow> pf_ok (pf_step op r)"
  by (cases op) (simp_all add: pf_ok_add pf_ok_remove pf_ok_status)

lemma pf_ok_run: "pf_ok (pf_run ops)"
  unfolding pf_run_def
  by (induction ops rule: rev_induct) (simp_all add: pf_ok_new pf_ok_step)

text \<open>C16. No two port-forwards share a local port: whatever sequence of additions, removals and changes of
  status the application makes, two entries of the registry with the same local port are the same
  entry, each entry is filed under its own identifier, and the port of an entry is refused until the
  entry is removed.
\<close>

theorem ports_exclusive:
  "(\<forall>e\<in>set (pf_List (pf_run ops)). \<forall>f\<in>set (pf_List (pf_run ops)). pf_LocalPort e = pf_LocalPort f \<longrightarrow> e = f) \<and>
   (\<forall>e\<in>set (pf_List (pf_run ops)).
      map_of (pf_entries (pf_run ops)) (pf_ID e) = Some e \<and>
      (\<forall>g. pf_LocalPort g = pf_LocalPort e \<longrightarrow> AddIfNotPresent g (pf_run ops) = (pf_run ops, Inl (port_taken (pf_LocalPort e)))))"
proof -
  let ?r = "pf_run ops"
  have ok: "distinct (map fst (pf_entries ?r))" "list_all filed (pf_entries ?r)" "inj_on port_of (set (pf_entries ?r))"
    using pf_ok_run [of ops] by (simp_all add: pf_ok_def)
  have p: "(pf_ID e, e) \<in> set (pf_entries ?r)" if "e \<in> set (pf_List ?r)" for e
    using that ok(2) by (auto simp: pf_List_def list_all_iff filed_def)
  have "e = f" if "e \<in> set (pf_List ?r)" "f \<in> set (pf_List ?r)" "pf_LocalPort e = pf_LocalPort f" for e f
    using inj_onD [OF ok(3) _ p [OF that(1)] p [OF that(2)]] that(3) by (simp add: port_of_def)
  moreover have "AddIfNotPresent g ?r = (?r, Inl (port_taken (pf_LocalPort e)))"
    if "e \<in> set (pf_List ?r)" "pf_LocalPort g = pf_LocalPort e" for e g
    using p [OF that(1)] that(2) by (auto simp: AddIfNotPresent_def)
  ultimately show ?thesis using map_of_is_SomeI [OF ok(1)] p by blast
qed

lemma ports_exclusive_witness:
  "let e = \<lparr> pf_ID = '''', pf_PodName = ''web'', pf_PodNamespace = ''default'', pf_ContainerName = '''',
       pf_LocalPort = 8080, pf_RemotePort = 80, pf_Protocol = ''TCP'', pf_Status = StatusStarting, pf_Cancel = True \<rparr>
   in length (pf_List (pf_run [PF_Add e])) = 1 \<and>
      AddIfNotPresent e (pf_run [PF_Add e]) = (pf_run [PF_Add e], Inl (port_taken 8080))"
proof -
  define e where "e = \<lparr> pf_ID = '''', pf_PodName = ''web'', pf_PodNamespace = ''default'', pf_ContainerName = '''',
       pf_LocalPort = 8080, pf_RemotePort = 80, pf_Protocol = ''TCP'', pf_Status = StatusStarting, pf_Cancel = True \<rparr>"
  let ?r = "pf_run [PF_Add e]"
  have l: "pf_List ?r = [e\<lparr> pf_ID := pf_id 1 \<rparr>]"
    by (simp add: pf_run_def NewRegistry_def AddIfNotPresent_def pf_Add_def pf_List_def Let_def)
  then have "AddIfNotPresent e ?r = (?r, Inl (port_taken (pf_LocalPort (e\<lparr> pf_ID := pf_id 1 \<rparr>))))"
    using ports_exclusive [of "[PF_Add e]"] by simp
  then show ?thesis using l by (simp add: e_def)
qed

end
