(* ===== verification/App.thy ===== *)
theory App
  imports Layout Cluster_Manager Plugin_Picker Port_Forward Status_Bar Toasts
begin

text \<open>
  The application of \<^verbatim>\<open>internal/app/app.go\<close>, \<^verbatim>\<open>commands.go\<close> and
  \<^verbatim>\<open>panefooters.go\<close>: the state that ties the layout, the clusters, the key tries, the
  notifications and the terminal sessions together, and the helpers its handlers share.

  A handler is a function of the state. What it hands to the runtime, which are the commands it
  returns and the calls it makes to goroutines, is appended to \<open>a_out\<close> in order. The methods of
  the plugins, the YAML and the Helm client are parameters; \<open>'w\<close> is the state the plugins keep.
  The fields that the text inputs and pickers keep for themselves are left out; what the objects
  say of their ports and images, and writing files, are parameters too.
\<close>

section \<open>State\<close>

datatype overlay = OverlayNone | OverlayResourcePicker | OverlayNsPicker | OverlayConfirm | OverlaySearchBar
  | OverlayHelp | OverlayPortForward | OverlaySetImage | OverlayHelmRollback | OverlayChartInput
  | OverlayContainerPicker | OverlayTimeRange | OverlayScale | OverlayContextPicker

record debug_action =
  da_nodeMode :: bool
  da_privileged :: bool
  da_nodeName :: string
  da_podName :: string
  da_container :: string
  da_namespace :: string
  da_image :: string
  da_command :: "string list"

record pending =
  pendingRun :: "run_config option"
  pendingDelete :: "k8s_obj list option"
  pendingDebug :: "debug_action option"
  pendingRestart :: "(string \<times> string) list option"
  pendingRestartGVR :: gvr

definition no_pending :: pending where
  "no_pending = \<lparr> pendingRun = None, pendingDelete = None, pendingDebug = None, pendingRestart = None,
     pendingRestartGVR = ('''', '''', '''') \<rparr>"

record terminal_meta =
  tm_ephemeral :: bool
  tm_nodeDebug :: bool
  tm_client :: "k8s_client option"
  tm_podName :: string
  tm_namespace :: string
  tm_preflight :: bool

record manifest_source =
  mf_paths :: "string list"
  mf_defaultNS :: string
  mf_fromStdin :: bool

record log_options =
  lo_Since :: "int option"
  lo_Tail :: "int option"

text \<open>
  What leaves the application: commands to run, calls on sessions and stores, messages sent. A command
  that talks to a cluster carries the client it is run with, as its closure does in the code. A Helm
  client wraps the configuration of a cluster's client, unless one was injected for every cluster.
\<close>

datatype (plugins only: code) helm_client = HelmOverride | HelmOf k8s_client

type_synonym image_change = "string \<times> string \<times> bool \<times> string"

datatype (plugins only: code) effect =
    E_Connect string
  | E_Discover string
  | E_Heartbeat string
  | E_HeartbeatLater string int
  | E_Informer string gvr string
  | E_SpinnerTick
  | E_PanelSpin
  | E_HelmReleases string string
  | E_HelmValues "helm_client option" detail_mode string string
  | E_Describe string "64 word" string string string bool
  | E_DescribeDebounce "64 word"
  | E_LogDebounce "64 word"
  | E_StreamLogs k8s_client "64 word" string string string log_options
  | E_ReadLog "64 word"
  | E_CancelLogs
  | E_Message "64 word" level
  | E_TermWrite string string
  | E_TermResize string int int
  | E_TermStop string
  | E_TermStart string
  | E_ReadTerm string
  | E_DeletePod k8s_client string string
  | E_CancelPreflight string
  | E_ClearNotifications
  | E_ToastTick int "64 word"
  | E_SearchApply "64 word" string search_mode
  | E_Helm_Uninstall helm_client "(string \<times> string) list"
  | E_Helm_History helm_client string string
  | E_Delete k8s_client gvr bool bool "(string \<times> string) list"
  | E_Restart "k8s_client option" gvr "(string \<times> string) list"
  | E_Run string bool
  | E_LoadNamespaces k8s_client
  | E_Namespaces "string list"
  | E_Preflight k8s_client string string string string string "string list" bool
  | E_NodePreflight k8s_client string string string "string list"
  | E_PfCancel "string list"
  | E_WatchReady string
  | E_WatchDone string
  | E_ClearScreen
  | E_Copy string
  | E_OpenEditor string
  | E_EditValues helm_client string string
  | E_Edit "k8s_client option" gvr bool string string
  | E_SetImage k8s_client gvr string string string "image_change list"
  | E_Scale k8s_client gvr string string int
  | E_Rollback helm_client string string int
  | E_PortForward k8s_client string string string int int string
  | E_PortForwardFailed string
  | E_Quit

text \<open>The last click, which a double click is told from; no time stands for the zero time.\<close>

record click =
  lastClickTime :: "int option"
  lastClickKind :: pane_kind
  lastClickRow :: int
  lastClickSplit :: int

record ('v, 't, 'w) app =
  a_mgr :: manager
  a_startup :: string
  a_registry :: registry
  a_bindings :: binding_set
  a_trie :: key_trie
  a_trieType :: string
  a_trieRes :: string
  a_layout :: "('v, 't) layout"
  a_status :: status_bar
  a_envResolved :: bool
  a_overlay :: overlay
  a_pending :: pending
  a_pf :: pf_registry
  a_handles :: "string list"
  a_confirm :: string
  a_termSeq :: "64 word"
  a_click :: click
  a_bar :: search_mode
  a_terminals :: "string list"
  a_cleanup :: "(string \<times> terminal_meta) list"
  a_config :: config
  a_notify :: notify_store
  a_helmOverride :: bool
  a_manifest :: "manifest_source option"
  a_logCancel :: bool
  a_logCh :: bool
  a_dismissed :: "64 word set"
  a_picker :: "plugin_entry list"
  a_searchApplySeq :: "64 word"
  a_logDebounceSeq :: "64 word"
  a_logStreamGen :: "64 word"
  a_describeGen :: "64 word"
  a_describeDebounceSeq :: "64 word"
  a_lastDetailKey :: string
  a_plugins :: 'w
  a_clock :: int
  a_out :: "effect list"

text \<open>
  The parameters. \<open>ap_Objects\<close> is \<open>Objects\<close> of a self-populating plugin, which reads what the plugin
  keeps, the clusters, the port-forwards and the notifications; \<open>ap_Refresh\<close> is its optional
  \<open>Refresh\<close>; drill-downs may subscribe on the store of the context, so they change the manager.
\<close>

type_synonym 'w plugin_view = "'w \<times> manager \<times> pf_registry \<times> notify_store"

record ('v, 't, 'w) app_env =
  ap_layout :: "('v, 't) layout_env"
  ap_Objects :: "'w plugin_view \<Rightarrow> rplugin \<Rightarrow> k8s_obj list option"
  ap_Refresh :: "rplugin \<Rightarrow> (string \<Rightarrow> 'w \<Rightarrow> 'w) option"
  ap_SetPaneCounts :: "(string \<times> int) list \<Rightarrow> 'w \<Rightarrow> 'w"
  ap_YAML :: "rplugin \<Rightarrow> k8s_obj \<Rightarrow> (string \<times> string) option"
  ap_isHelm :: "rplugin \<Rightarrow> bool"
  ap_DrillDown :: "rplugin \<Rightarrow> (string \<Rightarrow> k8s_obj \<Rightarrow> manager \<Rightarrow> manager \<times> (rplugin \<times> k8s_obj list) option) option"
  ap_DrillUp :: "rplugin \<Rightarrow> (string \<Rightarrow> k8s_obj \<Rightarrow> manager \<Rightarrow> manager \<times> (rplugin \<times> k8s_obj option) option) option"
  ap_GoToNode :: "rplugin \<Rightarrow> (string \<Rightarrow> k8s_obj \<Rightarrow> manager \<Rightarrow> manager \<times> (rplugin \<times> k8s_obj option) option) option"
  ap_GoTo :: "rplugin \<Rightarrow> k8s_obj \<Rightarrow> (string \<times> string) option"
  ap_Command :: "rplugin \<Rightarrow> k8s_obj \<Rightarrow> string option"
  ap_APIVersion :: "k8s_obj \<Rightarrow> string"
  ap_podName :: "k8s_obj \<Rightarrow> string option"
  ap_containers :: "k8s_obj \<Rightarrow> string list"
  ap_hasConfig :: "k8s_client \<Rightarrow> bool"
  ap_zoomMark :: string
  ap_firstContainer :: "k8s_obj \<Rightarrow> string"
  ap_exec :: "k8s_client \<Rightarrow> string \<Rightarrow> string \<Rightarrow> string \<Rightarrow> string list \<Rightarrow> string option"
  ap_attach :: "k8s_client option \<Rightarrow> string \<Rightarrow> string \<Rightarrow> string \<Rightarrow> string option"
  ap_YAMLError :: "rplugin \<Rightarrow> k8s_obj \<Rightarrow> string"
  ap_ports :: "rplugin \<Rightarrow> k8s_obj \<Rightarrow> (string \<times> int \<times> string) list"
  ap_images :: "rplugin \<Rightarrow> k8s_obj \<Rightarrow> image_change list"
  ap_stateDir :: "string + string"
  ap_stamp :: "int \<Rightarrow> string"
  ap_write :: "string \<Rightarrow> string \<Rightarrow> string option"
  ap_temp :: "string \<Rightarrow> string \<Rightarrow> string + string"
  ap_quote :: "string \<Rightarrow> string"
  ap_pfMark :: "int \<Rightarrow> string"
  ap_LoadFiles :: "string list \<Rightarrow> string \<Rightarrow> string + (cluster \<times> string list)"
  ap_regexError :: "string \<Rightarrow> string"
  ap_muted :: "string \<Rightarrow> string"
  ap_clock :: "int \<Rightarrow> string"
  ap_pipeline :: "string \<Rightarrow> string"
  ap_keyString :: "key \<Rightarrow> string"
  ap_NewDiscovered :: "gvr \<Rightarrow> string \<Rightarrow> string \<Rightarrow> bool \<Rightarrow> rplugin"
  ap_SetResources :: "api_resource list \<Rightarrow> 'w \<Rightarrow> 'w"

definition plugin_objects :: "('v, 't, 'w) app_env \<Rightarrow> ('v, 't, 'w) app \<Rightarrow> rplugin \<Rightarrow> k8s_obj list option" where
  "plugin_objects P a p = ap_Objects P (a_plugins a, a_mgr a, a_pf a, a_notify a) p"

section \<open>Steps\<close>

primrec steps :: "('s \<Rightarrow> 's go) list \<Rightarrow> 's \<Rightarrow> 's go" where
  "steps [] a = Inr a"
| "steps (f # fs) a = go_bind (f a) (steps fs)"

definition pure_step :: "('s \<Rightarrow> 's) \<Rightarrow> 's \<Rightarrow> 's go" where
  "pure_step f a = Inr (f a)"

definition emit :: "effect \<Rightarrow> ('v, 't, 'w) app \<Rightarrow> ('v, 't, 'w) app" where
  "emit e a = a\<lparr> a_out := a_out a @ [e] \<rparr>"

text \<open>\<open>a.notify.Add\<close>.\<close>

definition add_note :: "level \<Rightarrow> string \<Rightarrow> string \<Rightarrow> string \<Rightarrow> ('v, 't, 'w) app \<Rightarrow> ('v, 't, 'w) app" where
  "add_note l msg ctx source a =
     (let (s, m, sent) = ns_Add (a_clock a) l msg ctx source (a_notify a)
      in a\<lparr> a_notify := s, a_out := a_out a @ map (\<lambda>(i, l). E_Message i l) sent \<rparr>)"

definition on_layout :: "(('v, 't) layout \<Rightarrow> ('v, 't) layout go) \<Rightarrow> ('v, 't, 'w) app \<Rightarrow> ('v, 't, 'w) app go" where
  "on_layout f a = go_bind (f (a_layout a)) (\<lambda>l. Inr (a\<lparr> a_layout := l \<rparr>))"

definition set_layout :: "(('v, 't) layout \<Rightarrow> ('v, 't) layout) \<Rightarrow> ('v, 't, 'w) app \<Rightarrow> ('v, 't, 'w) app" where
  "set_layout f a = a\<lparr> a_layout := f (a_layout a) \<rparr>"

definition on_status :: "(status_bar \<Rightarrow> status_bar) \<Rightarrow> ('v, 't, 'w) app \<Rightarrow> ('v, 't, 'w) app" where
  "on_status f a = a\<lparr> a_status := f (a_status a) \<rparr>"

definition on_mgr :: "(manager \<Rightarrow> manager) \<Rightarrow> ('v, 't, 'w) app \<Rightarrow> ('v, 't, 'w) app" where
  "on_mgr f a = a\<lparr> a_mgr := f (a_mgr a) \<rparr>"

definition start_op :: "('v, 't, 'w) app \<Rightarrow> ('v, 't, 'w) app" where
  "start_op a = (let (s, tick) = StartOperation (a_status a); a1 = a\<lparr> a_status := s \<rparr>
     in if tick then emit E_SpinnerTick a1 else a1)"

definition reset_trie :: "('v, 't, 'w) app \<Rightarrow> ('v, 't, 'w) app" where
  "reset_trie a = a\<lparr> a_trie := kt_Reset (a_trie a) \<rparr>"

definition clear_env :: "('v, 't, 'w) app \<Rightarrow> ('v, 't, 'w) app" where
  "clear_env a = a\<lparr> a_envResolved := False \<rparr>"

text \<open>An operation on the list that a pane pointer refers to; the pane is known by its index.\<close>

fun on_list :: "('v resource_list \<Rightarrow> 'v resource_list) \<Rightarrow> ('v, 't) pane \<Rightarrow> ('v, 't) pane" where
  "on_list f (ResourcePane r) = ResourcePane (f r)"
| "on_list f (TerminalPane t) = TerminalPane t"

fun on_term :: "('t terminal_pane \<Rightarrow> 't terminal_pane) \<Rightarrow> ('v, 't) pane \<Rightarrow> ('v, 't) pane" where
  "on_term f (TerminalPane t) = TerminalPane (f t)"
| "on_term f (ResourcePane r) = ResourcePane r"

definition upd_list :: "int \<Rightarrow> ('v resource_list \<Rightarrow> 'v resource_list) \<Rightarrow> ('v, 't, 'w) app \<Rightarrow> ('v, 't, 'w) app go" where
  "upd_list i f a = on_layout (upd_split i (on_list f)) a"

definition upd_focused :: "('v resource_list \<Rightarrow> 'v resource_list) \<Rightarrow> ('v, 't, 'w) app \<Rightarrow> ('v, 't, 'w) app go" where
  "upd_focused f a = upd_list (focusIdx (a_layout a)) f a"

definition with_focused ::
  "('v resource_list option \<Rightarrow> ('v, 't, 'w) app \<Rightarrow> 'b go) \<Rightarrow> ('v, 't, 'w) app \<Rightarrow> 'b go" where
  "with_focused k a = go_bind (FocusedSplit (a_layout a)) (\<lambda>f. k f a)"

abbreviation list_env_of :: "('v, 't, 'w) app_env \<Rightarrow> 'v list_env" where
  "list_env_of P \<equiv> pe_list (ap_layout P)"

section \<open>Contexts and clusters\<close>

definition contextFor :: "'v resource_list option \<Rightarrow> ('v, 't, 'w) app \<Rightarrow> string go" where
  "contextFor rl a =
     (case rl of
        Some r \<Rightarrow> Inr (rl_context r)
      | None \<Rightarrow> with_focused (\<lambda>f a. Inr (case f of Some r \<Rightarrow> rl_context r | None \<Rightarrow> a_startup a)) a)"

definition clusterFor :: "'v resource_list option \<Rightarrow> ('v, 't, 'w) app \<Rightarrow> cluster option go" where
  "clusterFor rl a = go_bind (contextFor rl a) (\<lambda>ctx. Inr (mgr_Get ctx (a_mgr a)))"

definition clusterForFocused :: "('v, 't, 'w) app \<Rightarrow> cluster option go" where
  "clusterForFocused a = with_focused clusterFor a"

definition storeFor :: "'v resource_list option \<Rightarrow> ('v, 't, 'w) app \<Rightarrow> object_store option go" where
  "storeFor rl a = go_bind (clusterFor rl a) (\<lambda>cl. Inr (Option.bind cl c_store))"

definition storeForFocused :: "('v, 't, 'w) app \<Rightarrow> object_store option go" where
  "storeForFocused a = with_focused storeFor a"

definition clientForFocused :: "('v, 't, 'w) app \<Rightarrow> k8s_client option go" where
  "clientForFocused a = go_bind (clusterForFocused a) (\<lambda>cl. Inr (Option.bind cl c_client))"

definition storeForContext :: "string \<Rightarrow> ('v, 't, 'w) app \<Rightarrow> object_store option" where
  "storeForContext ctx a = store_of ctx (a_mgr a)"

text \<open>The Helm client for a cluster.\<close>

definition helmClientFor ::
  "('v, 't, 'w) app_env \<Rightarrow> cluster option \<Rightarrow> ('v, 't, 'w) app \<Rightarrow> helm_client option" where
  "helmClientFor P cl a =
     (if a_helmOverride a then Some HelmOverride
      else if \<not> Connected cl then None
      else case Option.bind cl c_client of
             None \<Rightarrow> None
           | Some c \<Rightarrow> if ap_hasConfig P c then Some (HelmOf c) else None)"

definition note_here :: "level \<Rightarrow> string \<Rightarrow> string \<Rightarrow> ('v, 't, 'w) app \<Rightarrow> ('v, 't, 'w) app go" where
  "note_here l msg source a = go_bind (contextFor None a) (\<lambda>ctx. Inr (add_note l msg ctx source a))"

section \<open>Contexts of the panes\<close>

definition pane_counts :: "string list \<Rightarrow> (string \<times> int) list" where
  "pane_counts ctxs = map (\<lambda>c. (c, int (count_list ctxs c))) (remdups (filter (\<lambda>c. c \<noteq> '''') ctxs))"

definition distinctPaneContexts :: "('v, 't, 'w) app \<Rightarrow> (string \<times> int) list" where
  "distinctPaneContexts a = pane_counts (map pane_Context (splits (a_layout a)))"

definition count_of :: "(string \<times> int) list \<Rightarrow> string \<Rightarrow> int" where
  "count_of m ctx = (case map_of m ctx of None \<Rightarrow> 0 | Some n \<Rightarrow> n)"

definition sync_refs :: "('v, 't, 'w) app \<Rightarrow> ('v, 't, 'w) app" where
  "sync_refs a = on_mgr (\<lambda>m. fst (SyncRefs (count_of (distinctPaneContexts a)) m)) a"

definition syncPaneOffline :: "manager \<Rightarrow> 'v resource_list \<Rightarrow> 'v resource_list" where
  "syncPaneOffline m r =
     (let ctx = rl_context r
      in if ctx = '''' \<or> IsPinned ctx m then SetOffline False r
         else case mgr_Get ctx m of None \<Rightarrow> r | Some c \<Rightarrow> SetOffline (\<not> Connected (Some c)) r)"

fun pane_footer :: "bool \<Rightarrow> manager \<Rightarrow> ('v, 't) pane \<Rightarrow> ('v, 't) pane" where
  "pane_footer multi m (ResourcePane r) =
     ResourcePane (syncPaneOffline m (SetContextLabel (if multi then rl_context r else '''') r))"
| "pane_footer multi m (TerminalPane t) = TerminalPane (SetContextBadgeVisible multi t)"

definition syncPaneFooters :: "('v, 't, 'w) app \<Rightarrow> ('v, 't, 'w) app" where
  "syncPaneFooters a =
     set_layout (\<lambda>l. l\<lparr> splits := map (pane_footer (length (distinctPaneContexts a) > 1) (a_mgr a)) (splits l) \<rparr>) a"

definition syncContextPaneCounts :: "('v, 't, 'w) app_env \<Rightarrow> ('v, 't, 'w) app \<Rightarrow> ('v, 't, 'w) app" where
  "syncContextPaneCounts P a =
     (case ByName ''contexts'' (a_registry a) of
        None \<Rightarrow> a
      | Some p \<Rightarrow> a\<lparr> a_plugins := ap_SetPaneCounts P (distinctPaneContexts a) (a_plugins a) \<rparr>)"

section \<open>The status bar\<close>

definition currentContext :: "('v, 't, 'w) app \<Rightarrow> (string \<times> string) go" where
  "currentContext a =
     (let l = a_layout a; res = (\<lambda>f. case f of Some r \<Rightarrow> p_Name (rl_plugin r) | None \<Rightarrow> '''')
      in if focusTarget l = FocusTargetDetails
         then let ct = (if logMode l then ''logs''
                        else case dv_mode (rightPanel l) of DetailYAML \<Rightarrow> ''yaml'' | DetailDescribe \<Rightarrow> ''describe''
                          | _ \<Rightarrow> ''details'')
              in go_bind (FocusedSplit l) (\<lambda>f. Inr (ct, res f))
         else go_bind (FocusedPane l) (\<lambda>p. case p of
              Some (TerminalPane t) \<Rightarrow> Inr (''terminal'', '''')
            | _ \<Rightarrow> go_bind (FocusedSplit l) (\<lambda>f. Inr (''resources'', res f))))"

definition currentHints :: "('v, 't, 'w) app \<Rightarrow> key_hint list go" where
  "currentHints a =
     (if AtRoot (a_trie a) then go_bind (currentContext a) (\<lambda>(ct, rn). Inr (StatusHints ct rn (a_bindings a)))
      else Inr (CurrentHints (a_trie a)))"

definition sync_hints :: "('v, 't, 'w) app \<Rightarrow> ('v, 't, 'w) app go" where
  "sync_hints a = go_bind (currentHints a) (\<lambda>hs. Inr (on_status (SetHints hs) a))"

definition AnyZoomed :: "('v, 't) layout \<Rightarrow> bool" where
  "AnyZoomed l \<longleftrightarrow> splitZoomed l \<or> detailZoomed l"

definition syncIndicators :: "('v, 't, 'w) app_env \<Rightarrow> ('v, 't, 'w) app \<Rightarrow> ('v, 't, 'w) app" where
  "syncIndicators P a =
     on_status (SetIndicator ((if AnyZoomed (a_layout a) then ap_zoomMark P else '''') @
       (if pf_Count (a_pf a) > 0 then ap_pfMark P (pf_Count (a_pf a)) else ''''))) a"

definition setStatusBarContext :: "string \<Rightarrow> ('v, 't, 'w) app \<Rightarrow> ('v, 't, 'w) app" where
  "setStatusBarContext ctx a =
     on_status (\<lambda>s. SetOnline (Connected (mgr_Get ctx (a_mgr a))) (SetContextName ctx s)) a"

definition syncStatusBarContext :: "('v, 't, 'w) app \<Rightarrow> ('v, 't, 'w) app go" where
  "syncStatusBarContext a =
     go_bind (FocusedPane (a_layout a)) (\<lambda>p.
       case p of Some q \<Rightarrow> Inr (setStatusBarContext (pane_Context q) a)
       | None \<Rightarrow> go_bind (contextFor None a) (\<lambda>ctx. Inr (setStatusBarContext ctx a)))"

section \<open>The selected object\<close>

definition focusedSelection :: "('v, 't, 'w) app \<Rightarrow> ('v resource_list \<times> k8s_obj) option go" where
  "focusedSelection a = with_focused (\<lambda>f a. Inr (case f of None \<Rightarrow> None
     | Some r \<Rightarrow> map_option (\<lambda>sel. (r, sel)) (rl_Selected r))) a"

definition detailKey :: "('v, 't, 'w) app \<Rightarrow> string go" where
  "detailKey a = go_bind (focusedSelection a) (\<lambda>s. Inr (case s of
       None \<Rightarrow> ''''
     | Some (r, sel) \<Rightarrow>
         if rl_namespace r = '''' then o_kind sel @ ''/'' @ o_namespace sel @ ''/'' @ o_name sel
         else o_kind sel @ ''/'' @ o_name sel))"

definition sel_namespace :: "'v resource_list \<Rightarrow> k8s_obj \<Rightarrow> string" where
  "sel_namespace r sel = (if o_namespace sel = '''' then rl_namespace r else o_namespace sel)"

section \<open>Subscriptions\<close>

text \<open>Whether a pane shows a resource type in a namespace, or a frame below it did.\<close>

definition pane_needs :: "gvr \<Rightarrow> string \<Rightarrow> 'v resource_list \<Rightarrow> bool" where
  "pane_needs g ns r \<longleftrightarrow> p_GVR (rl_plugin r) = g \<and> EffectiveNamespace r = ns \<or> NavStackHasGVR g ns r"

fun is_list_with :: "('v resource_list \<Rightarrow> bool) \<Rightarrow> ('v, 't) pane \<Rightarrow> bool" where
  "is_list_with C (ResourcePane r) = C r"
| "is_list_with C (TerminalPane t) = False"

definition unsubscribeOnStoreIfUnused :: "string \<Rightarrow> gvr \<Rightarrow> string \<Rightarrow> ('v, 't, 'w) app \<Rightarrow> ('v, 't, 'w) app" where
  "unsubscribeOnStoreIfUnused ctx g ns a =
     (if fst g = ''_ktui'' then a
      else if \<exists>p\<in>set (splits (a_layout a)). is_list_with (\<lambda>r. rl_context r = ctx \<and> pane_needs g ns r) p then a
      else on_mgr (on_store ctx (Unsubscribe g ns)) a)"

definition unsubscribeIfUnused :: "gvr \<Rightarrow> string \<Rightarrow> ('v, 't, 'w) app \<Rightarrow> ('v, 't, 'w) app go" where
  "unsubscribeIfUnused g ns a =
     (if fst g = ''_ktui'' then Inr a
      else if \<exists>p\<in>set (splits (a_layout a)). is_list_with (pane_needs g ns) p then Inr a
      else go_bind (contextFor None a) (\<lambda>ctx. Inr (on_mgr (on_store ctx (Unsubscribe g ns)) a)))"

text \<open>Subscribing the pane at \<open>i\<close> on the store of its context, whose informer may have to be started.\<close>

definition subscribe_pane ::
  "('v, 't, 'w) app_env \<Rightarrow> int \<Rightarrow> string \<Rightarrow> object_store \<Rightarrow> gvr \<Rightarrow> string \<Rightarrow> ('v, 't, 'w) app \<Rightarrow> ('v, 't, 'w) app go" where
  "subscribe_pane P i ctx s g ns a =
     (let (s1, objs, started) = Subscribe g ns s;
          a1 = on_mgr (on_store ctx (\<lambda>_. s1)) a;
          a2 = (if started then emit (E_Informer ctx g ns) a1 else a1)
      in upd_list i (SetObjects (list_env_of P) objs) a2)"

definition subscribeAndPopulate ::
  "('v, 't, 'w) app_env \<Rightarrow> int \<Rightarrow> 'v resource_list \<Rightarrow> rplugin \<Rightarrow> string \<Rightarrow> ('v, 't, 'w) app \<Rightarrow> ('v, 't, 'w) app go" where
  "subscribeAndPopulate P i r p ns a =
     (let cl = mgr_Get (rl_context r) (a_mgr a); store = Option.bind cl c_store
      in if store \<noteq> None \<and> fst (p_GVR p) \<noteq> ''_ktui''
         then subscribe_pane P i (rl_context r) (the store) (p_GVR p) ns a
         else case plugin_objects P a p of
           None \<Rightarrow> Inr a
         | Some objs \<Rightarrow>
             go_bind (upd_list i (SetObjects (list_env_of P) objs) a) (\<lambda>a1.
               Inr (if ap_Refresh P p \<noteq> None \<and> helmClientFor P cl a \<noteq> None
                    then emit (E_HelmReleases (rl_context r) ns) (start_op a1) else a1)))"

end
