(* ===== verification/App_Panel.thy ===== *)
theory App_Panel
  imports App
begin

text \<open>
  The detail panel and the log stream of \<^verbatim>\<open>internal/app/app.go\<close>: refreshing the
  panel for the selected object, starting, stopping and restarting the log stream, and the
  messages in which their results come back. Sequence numbers and generations are \<open>uint64\<close>.
\<close>

section \<open>The log stream\<close>

definition stopLogStream :: "('v, 't, 'w) app \<Rightarrow> ('v, 't, 'w) app" where
  "stopLogStream a =
     (let a1 = (if a_logCancel a then (emit E_CancelLogs a)\<lparr> a_logCancel := False \<rparr> else a)
      in a1\<lparr> a_logCh := False, a_logStreamGen := a_logStreamGen a1 + 1 \<rparr>)"

definition isLoggablePlugin :: "string \<Rightarrow> bool" where
  "isLoggablePlugin name \<longleftrightarrow> name = ''pods'' \<or> name = ''containers''"

definition on_log :: "(log_view \<Rightarrow> log_view) \<Rightarrow> ('v, 't, 'w) app \<Rightarrow> ('v, 't, 'w) app" where
  "on_log f a = set_layout (\<lambda>l. l\<lparr> logView := f (logView l) \<rparr>) a"

definition on_panel :: "('v detail_view \<Rightarrow> 'v detail_view) \<Rightarrow> ('v, 't, 'w) app \<Rightarrow> ('v, 't, 'w) app" where
  "on_panel f a = set_layout (\<lambda>l. l\<lparr> rightPanel := f (rightPanel l) \<rparr>) a"

definition defaultLogOptions :: "('v, 't, 'w) app \<Rightarrow> log_options" where
  "defaultLogOptions a =
     (let s = defaultSinceSeconds (logView (a_layout a))
      in if s > 0 then \<lparr> lo_Since = Some s, lo_Tail = None \<rparr>
         else if s = -1 then \<lparr> lo_Since = None, lo_Tail = Some 200 \<rparr>
         else \<lparr> lo_Since = None, lo_Tail = None \<rparr>)"

definition startLogStream ::
  "string \<Rightarrow> string \<Rightarrow> string \<Rightarrow> log_options \<Rightarrow> ('v, 't, 'w) app \<Rightarrow> ('v, 't, 'w) app go" where
  "startLogStream pod container ns opts a =
     (let a1 = stopLogStream a; a2 = a1\<lparr> a_logStreamGen := a_logStreamGen a1 + 1 \<rparr>
      in go_bind (clientForFocused a2) (\<lambda>client. case client of
           None \<Rightarrow> go_bind (with_focused contextFor a2)
             (\<lambda>ctx. Inr (add_note LevelError ''logs: not available in manifest mode'' ctx ''logs'' a2))
         | Some c \<Rightarrow> Inr (emit (E_StreamLogs c (a_logStreamGen a2) pod container ns opts)
             (start_op (a2\<lparr> a_logCancel := True \<rparr>)))))"

definition resolvePodName :: "('v, 't, 'w) app_env \<Rightarrow> 'v resource_list \<Rightarrow> k8s_obj \<Rightarrow> string" where
  "resolvePodName P r sel =
     (if p_Name (rl_plugin r) = ''containers''
      then (case ap_podName P sel of Some n \<Rightarrow> if n \<noteq> '''' then n else o_name sel | None \<Rightarrow> o_name sel)
      else o_name sel)"

definition restartLogForCursor :: "('v, 't, 'w) app_env \<Rightarrow> ('v, 't, 'w) app \<Rightarrow> ('v, 't, 'w) app go" where
  "restartLogForCursor P a =
     go_bind (focusedSelection a) (\<lambda>s. case s of
       None \<Rightarrow> Inr a
     | Some (r, sel) \<Rightarrow>
         go_bind (detailKey a) (\<lambda>k.
           let a1 = a\<lparr> a_lastDetailKey := k \<rparr>;
               pod = resolvePodName P r sel;
               ns = sel_namespace r sel;
               cs = (if p_Name (rl_plugin r) = ''containers'' then [o_name sel] else ap_containers P sel)
           in if cs = [] then note_here LevelError ''no containers found'' ''logs'' a1
              else let a2 = on_log (\<lambda>lv. lv_SetNamespace ns (SetPodName pod (SetActiveContainer (cs ! 0) (SetContainers cs lv)))) a1
                   in startLogStream pod (cs ! 0) ns (defaultLogOptions a2) a2))"

definition syncLogPanel :: "('v, 't, 'w) app_env \<Rightarrow> ('v, 't, 'w) app \<Rightarrow> ('v, 't, 'w) app go" where
  "syncLogPanel P a =
     (if \<not> logMode (a_layout a) then Inr a
      else with_focused (\<lambda>f a. case f of
          None \<Rightarrow> Inr a
        | Some r \<Rightarrow>
            if \<not> isLoggablePlugin (p_Name (rl_plugin r))
            then Inr (on_log (\<lambda>lv. SetUnavailable True (ClearAndRestart lv)) (stopLogStream a))
            else if unavailable (logView (a_layout a))
            then go_bind (focusedSelection a) (\<lambda>s.
                   if s = None then Inr a
                   else restartLogForCursor P (on_log (\<lambda>lv. ClearAndRestart (SetUnavailable False lv)) a))
            else Inr a) a)"

definition startLogViewForSelected :: "('v, 't, 'w) app_env \<Rightarrow> ('v, 't, 'w) app \<Rightarrow> ('v, 't, 'w) app go" where
  "startLogViewForSelected P a = restartLogForCursor P (on_log ClearAndRestart a)"

section \<open>The detail panel\<close>

definition show_content :: "('v, 't, 'w) app_env \<Rightarrow> string \<times> string \<Rightarrow> bool \<Rightarrow> ('v, 't, 'w) app \<Rightarrow> ('v, 't, 'w) app" where
  "show_content P c refresh a = on_panel (dv_SetContent (ye_view (ap_layout P)) (fst c) (snd c) refresh) a"

definition same_text :: "string \<Rightarrow> string \<times> string" where
  "same_text s = (s, s)"

definition newline :: string where "newline = [CHR 0x0A]"

text \<open>The panel in its mode, for the selected object \<open>sel\<close> of the focused list \<open>r\<close>, whose key is \<open>k\<close>.\<close>

definition refresh_yaml ::
  "('v, 't, 'w) app_env \<Rightarrow> bool \<Rightarrow> 'v resource_list \<Rightarrow> k8s_obj \<Rightarrow> ('v, 't, 'w) app \<Rightarrow> ('v, 't, 'w) app" where
  "refresh_yaml P refresh r sel a =
     (case ap_YAML P (rl_plugin r) sel of None \<Rightarrow> a | Some c \<Rightarrow> show_content P c refresh a)"

definition refresh_values ::
  "('v, 't, 'w) app_env \<Rightarrow> bool \<Rightarrow> 'v resource_list \<Rightarrow> k8s_obj \<Rightarrow> ('v, 't, 'w) app \<Rightarrow> ('v, 't, 'w) app" where
  "refresh_values P refresh r sel a =
     (if \<not> ap_isHelm P (rl_plugin r) then refresh_yaml P refresh r sel a
      else emit (E_HelmValues (helmClientFor P (mgr_Get (rl_context r) (a_mgr a)) a)
                    (dv_mode (rightPanel (a_layout a))) (o_name sel) (o_namespace sel))
             (show_content P (same_text (''# loading values...'' @ newline)) refresh a))"

definition refresh_describe :: "'v resource_list \<Rightarrow> k8s_obj \<Rightarrow> ('v, 't, 'w) app \<Rightarrow> ('v, 't, 'w) app" where
  "refresh_describe r sel a =
     (let a1 = start_op (emit E_PanelSpin (on_panel (SetLoading True) a));
          a2 = a1\<lparr> a_describeGen := a_describeGen a1 + 1 \<rparr>
      in emit (E_Describe (rl_context r) (a_describeGen a2) (p_Name (rl_plugin r)) (o_name sel) (sel_namespace r sel)
               (a_envResolved a2)) a2)"

definition refreshDetailPanelOpts :: "('v, 't, 'w) app_env \<Rightarrow> bool \<Rightarrow> ('v, 't, 'w) app \<Rightarrow> ('v, 't, 'w) app go" where
  "refreshDetailPanelOpts P preserve a =
     (if logMode (a_layout a) \<or> \<not> rightVisible (a_layout a) then Inr a
      else go_bind (focusedSelection a) (\<lambda>s. case s of
          None \<Rightarrow> Inr a
        | Some (r, sel) \<Rightarrow>
            go_bind (detailKey a) (\<lambda>k.
              let a1 = (if k \<noteq> '''' \<and> a_lastDetailKey a \<noteq> '''' \<and> k \<noteq> a_lastDetailKey a then clear_env a else a);
                  a2 = on_panel (SetEnvResolved (a_envResolved a1)) a1;
                  keyed = a2\<lparr> a_lastDetailKey := k \<rparr>
              in case dv_mode (rightPanel (a_layout a2)) of
                   DetailYAML \<Rightarrow> Inr (refresh_yaml P (\<not> preserve) r sel keyed)
                 | DetailValues \<Rightarrow> Inr (refresh_values P (\<not> preserve) r sel keyed)
                 | DetailValuesAll \<Rightarrow> Inr (refresh_values P (\<not> preserve) r sel keyed)
                 | DetailDescribe \<Rightarrow> Inr (refresh_describe r sel keyed)
                 | DetailLogs \<Rightarrow> Inr (show_content P (same_text ''Log streaming not yet implemented'') (\<not> preserve) a2))))"

definition refreshDetailPanel :: "('v, 't, 'w) app_env \<Rightarrow> ('v, 't, 'w) app \<Rightarrow> ('v, 't, 'w) app go" where
  "refreshDetailPanel P a = refreshDetailPanelOpts P False a"

definition reloadDetailPanel :: "('v, 't, 'w) app_env \<Rightarrow> ('v, 't, 'w) app \<Rightarrow> ('v, 't, 'w) app go" where
  "reloadDetailPanel P a = refreshDetailPanelOpts P True a"

definition refreshDetailPanelOrLog :: "('v, 't, 'w) app_env \<Rightarrow> ('v, 't, 'w) app \<Rightarrow> ('v, 't, 'w) app go" where
  "refreshDetailPanelOrLog P a =
     (if \<not> logMode (a_layout a) then refreshDetailPanel P a
      else let a1 = on_log ClearAndRestart (stopLogStream a);
               a2 = a1\<lparr> a_logDebounceSeq := a_logDebounceSeq a1 + 1 \<rparr>
           in Inr (emit (E_LogDebounce (a_logDebounceSeq a2)) a2))"

section \<open>Opening and closing the panel\<close>

definition closeRightPanel :: "('v, 't, 'w) app_env \<Rightarrow> ('v, 't, 'w) app \<Rightarrow> ('v, 't, 'w) app go" where
  "closeRightPanel P a =
     steps [pure_step stopLogStream,
       pure_step (set_layout (SetLogMode False)),
       pure_step (\<lambda>a. reset_trie (a\<lparr> a_envResolved := False, a_lastDetailKey := '''' \<rparr>)),
       on_layout (HideRightPanel (ap_layout P)),
       pure_step (syncIndicators P), sync_hints] a"

definition focus_details_hints :: "('v, 't, 'w) app_env \<Rightarrow> ('v, 't, 'w) app \<Rightarrow> ('v, 't, 'w) app go" where
  "focus_details_hints P a = steps [on_layout (FocusDetails (ap_layout P)), sync_hints] a"

definition handleViewMode ::
  "('v, 't, 'w) app_env \<Rightarrow> detail_mode \<Rightarrow> bool \<Rightarrow> ('v, 't, 'w) app \<Rightarrow> ('v, 't, 'w) app go" where
  "handleViewMode P mode focus a =
     go_bind (focusedSelection a) (\<lambda>s. case s of
       None \<Rightarrow> Inr a
     | Some (r, sel) \<Rightarrow>
         let a1 = a\<lparr> a_lastDetailKey := '''' \<rparr>
         in if mode = DetailLogs \<and> \<not> isLoggablePlugin (p_Name (rl_plugin r)) then Inr a1
            else let a2 = (if mode \<noteq> DetailDescribe then clear_env a1 else a1)
                 in if mode = DetailLogs
                    then steps ([pure_step (set_layout (SetLogMode True)), on_layout (ShowRightPanel (ap_layout P)),
                           startLogViewForSelected P] @ (if focus then [focus_details_hints P] else [])) a2
                    else steps ([pure_step stopLogStream, pure_step (set_layout (SetLogMode False)),
                           on_layout (ShowRightPanel (ap_layout P)),
                           pure_step (on_panel (dv_SetMode (ye_view (ap_layout P)) mode)),
                           refreshDetailPanel P] @ (if focus then [focus_details_hints P] else [])) a2)"

definition handleViewHelmValues ::
  "('v, 't, 'w) app_env \<Rightarrow> detail_mode \<Rightarrow> ('v, 't, 'w) app \<Rightarrow> ('v, 't, 'w) app go" where
  "handleViewHelmValues P mode a =
     go_bind (focusedSelection a) (\<lambda>s. case s of
       None \<Rightarrow> Inr a
     | Some (r, sel) \<Rightarrow>
         if p_Name (rl_plugin r) \<noteq> ''helmreleases'' then Inr a
         else go_bind (clusterForFocused a) (\<lambda>cl.
           if helmClientFor P cl a = None then Inr (add_note LevelError ''helm: no client'' (rl_context r) ''helm'' a)
           else steps [pure_step stopLogStream, pure_step (set_layout (SetLogMode False)),
                  on_layout (ShowRightPanel (ap_layout P)),
                  pure_step (on_panel (dv_SetMode (ye_view (ap_layout P)) mode)),
                  refreshDetailPanel P, focus_details_hints P] (a\<lparr> a_lastDetailKey := '''' \<rparr>)))"

section \<open>Results\<close>

definition on_LogLine :: "('v, 't, 'w) app_env \<Rightarrow> 64 word \<Rightarrow> string \<Rightarrow> ('v, 't, 'w) app \<Rightarrow> ('v, 't, 'w) app go" where
  "on_LogLine P gen line a =
     (if gen \<noteq> a_logStreamGen a then Inr a
      else go_bind (if logMode (a_layout a)
                    then on_layout (\<lambda>l. go_bind (AppendLine (tui_text (ye_view (ap_layout P))) line (logView l))
                           (\<lambda>lv. Inr (l\<lparr> logView := lv \<rparr>))) a
                    else Inr a)
             (\<lambda>a1. Inr (if a_logCh a1 then emit (E_ReadLog (a_logStreamGen a1)) a1 else a1)))"

definition on_LogStreamEnded :: "64 word \<Rightarrow> string option \<Rightarrow> ('v, 't, 'w) app \<Rightarrow> ('v, 't, 'w) app go" where
  "on_LogStreamEnded gen err a =
     (if gen \<noteq> a_logStreamGen a then Inr a
      else go_bind (case err of None \<Rightarrow> Inr a | Some e \<Rightarrow> note_here LevelError (''log stream: '' @ e) ''logs'' a)
             (\<lambda>a1. Inr (a1\<lparr> a_logCh := False \<rparr>)))"

definition on_LogStreamReady :: "64 word \<Rightarrow> string option \<Rightarrow> ('v, 't, 'w) app \<Rightarrow> ('v, 't, 'w) app go" where
  "on_LogStreamReady gen err a =
     (let a0 = on_status EndOperation a
      in if gen \<noteq> a_logStreamGen a0 then Inr a0
         else case err of
           Some e \<Rightarrow> go_bind (note_here LevelError (''logs: '' @ e) ''logs'' a0) (\<lambda>a1. Inr (a1\<lparr> a_logCancel := False \<rparr>))
         | None \<Rightarrow> Inr (emit (E_ReadLog gen) (a0\<lparr> a_logCh := True \<rparr>)))"

definition on_LogDebounceFired :: "('v, 't, 'w) app_env \<Rightarrow> 64 word \<Rightarrow> ('v, 't, 'w) app \<Rightarrow> ('v, 't, 'w) app go" where
  "on_LogDebounceFired P seq a =
     (if seq \<noteq> a_logDebounceSeq a \<or> \<not> logMode (a_layout a) then Inr a
      else with_focused (\<lambda>f a. case f of
          None \<Rightarrow> Inr a
        | Some r \<Rightarrow> if isLoggablePlugin (p_Name (rl_plugin r)) then restartLogForCursor P a else Inr a) a)"

text \<open>Restarting the stream for another container, or with another time range.\<close>

definition on_LogContainerSelected :: "('v, 't, 'w) app_env \<Rightarrow> string \<Rightarrow> ('v, 't, 'w) app \<Rightarrow> ('v, 't, 'w) app go" where
  "on_LogContainerSelected P container a =
     (if \<not> logMode (a_layout a) then Inr a
      else let a1 = on_log (\<lambda>lv. SetActiveContainer container (ClearAndRestart lv)) a
           in go_bind (focusedSelection a1) (\<lambda>s. case s of
                None \<Rightarrow> Inr a1
              | Some (r, sel) \<Rightarrow> startLogStream (resolvePodName P r sel) container (sel_namespace r sel) (defaultLogOptions a1) a1))"

definition range_options :: "string \<Rightarrow> int option \<Rightarrow> log_options" where
  "range_options label since =
     (case since of
        Some s \<Rightarrow> \<lparr> lo_Since = Some s, lo_Tail = None \<rparr>
      | None \<Rightarrow> if label = ''tail 200'' \<or> label = '''' then \<lparr> lo_Since = None, lo_Tail = Some 200 \<rparr>
                else \<lparr> lo_Since = None, lo_Tail = None \<rparr>)"

definition on_LogTimeRangeSelected ::
  "('v, 't, 'w) app_env \<Rightarrow> string \<Rightarrow> int option \<Rightarrow> ('v, 't, 'w) app \<Rightarrow> ('v, 't, 'w) app go" where
  "on_LogTimeRangeSelected P label since a =
     (if \<not> logMode (a_layout a) then Inr a
      else let a1 = on_log (\<lambda>lv. SetTimeRangeLabel label (ClearAndRestart lv)) a
           in go_bind (focusedSelection a1) (\<lambda>s. case s of
                None \<Rightarrow> Inr a1
              | Some (r, sel) \<Rightarrow> startLogStream (resolvePodName P r sel) (activeContainer (logView (a_layout a1)))
                  (sel_namespace r sel) (range_options label since) a1))"

definition content_Append :: "string \<times> string \<Rightarrow> string \<times> string \<Rightarrow> string \<times> string" where
  "content_Append c d = (if fst d = '''' then c else if fst c = '''' then d else (fst c @ fst d, snd c @ snd d))"

text \<open>A description arrives with its generation, its text and the text of the events, if any.\<close>

definition on_DescribeLoaded ::
  "('v, 't, 'w) app_env \<Rightarrow> 64 word \<Rightarrow> string + ((string \<times> string) \<times> (string \<times> string)) \<Rightarrow> ('v, 't, 'w) app \<Rightarrow> ('v, 't, 'w) app" where
  "on_DescribeLoaded P gen res a =
     (let a0 = on_status EndOperation a
      in if gen \<noteq> a_describeGen a0 \<or> dv_mode (rightPanel (a_layout a0)) \<noteq> DetailDescribe then a0
         else case res of
           Inl e \<Rightarrow> on_panel (SetLoadError (ye_view (ap_layout P)) e) a0
         | Inr (content, events) \<Rightarrow>
             show_content P (if fst events \<noteq> '''' then content_Append content events else content) False a0)"

definition on_DescribeDebounceFired :: "('v, 't, 'w) app_env \<Rightarrow> 64 word \<Rightarrow> ('v, 't, 'w) app \<Rightarrow> ('v, 't, 'w) app go" where
  "on_DescribeDebounceFired P seq a =
     (if seq \<noteq> a_describeDebounceSeq a \<or> \<not> rightVisible (a_layout a) \<or> logMode (a_layout a) then Inr a
      else reloadDetailPanel P a)"

definition on_InitDetailRefresh :: "('v, 't, 'w) app_env \<Rightarrow> ('v, 't, 'w) app \<Rightarrow> ('v, 't, 'w) app go" where
  "on_InitDetailRefresh P a =
     (if \<not> rightVisible (a_layout a) \<or> logMode (a_layout a) then Inr a else refreshDetailPanel P a)"

end
