(* ===== verification/App_Switch.thy ===== *)
theory App_Switch
  imports App_Panel
begin

text \<open>
  The handlers of \<^verbatim>\<open>internal/app/commands.go\<close> that change what the panes refer to:
  another resource, namespace or context, a new pane, a closed one, a reload. They keep the
  subscriptions of the stores and the reference counts of the clusters.
\<close>

section \<open>Terminal sessions\<close>

text \<open>
  A live session is known by its identifier. \<open>sess.Resize\<close>, writes and the tear-down in a goroutine
  are effects. Go iterates over the map in any order; the model takes the order of \<open>a_terminals\<close>.
\<close>

definition resize_session :: "('v, 't, 'w) app \<Rightarrow> string \<Rightarrow> effect list" where
  "resize_session a i =
     (case TerminalPaneInnerSize i (a_layout a) of
        None \<Rightarrow> []
      | Some (w, h) \<Rightarrow> if w \<le> 0 \<or> h \<le> 0 then [] else [E_TermResize i w h])"

definition syncTerminalSizes :: "('v, 't, 'w) app \<Rightarrow> ('v, 't, 'w) app" where
  "syncTerminalSizes a = a\<lparr> a_out := a_out a @ concat (map (resize_session a) (a_terminals a)) \<rparr>"

definition deletePod :: "k8s_client option \<Rightarrow> string \<Rightarrow> string \<Rightarrow> effect list" where
  "deletePod client pod ns = (case client of None \<Rightarrow> [] | Some c \<Rightarrow> if pod = '''' then [] else [E_DeletePod c pod ns])"

definition closeTerminalSession :: "string \<Rightarrow> ('v, 't, 'w) app \<Rightarrow> ('v, 't, 'w) app" where
  "closeTerminalSession i a =
     (let a1 = (if i \<in> set (a_terminals a)
                then (emit (E_TermStop i) a)\<lparr> a_terminals := filter (\<lambda>j. j \<noteq> i) (a_terminals a) \<rparr> else a)
      in case map_of (a_cleanup a1) i of
           None \<Rightarrow> a1
         | Some meta \<Rightarrow> a1\<lparr> a_out := a_out a1 @ (if tm_preflight meta then [E_CancelPreflight i] else []) @
               (if tm_nodeDebug meta then deletePod (tm_client meta) (tm_podName meta) (tm_namespace meta) else []),
             a_cleanup := AList.delete i (a_cleanup a1) \<rparr>)"

definition ephemeralCloseNote :: "string \<Rightarrow> ('v, 't, 'w) app \<Rightarrow> string" where
  "ephemeralCloseNote i a =
     (case map_of (a_cleanup a) i of
        Some meta \<Rightarrow> if tm_ephemeral meta
          then ''debug: ephemeral container left on '' @ tm_podName meta @ '' (k8s cannot remove it)'' else ''''
      | None \<Rightarrow> '''')"

section \<open>Closing a pane\<close>

definition close_terminal :: "'t terminal_pane \<Rightarrow> ('v, 't, 'w) app \<Rightarrow> ('v, 't, 'w) app go" where
  "close_terminal t a =
     (let msg = ephemeralCloseNote (tp_id t) a; a1 = closeTerminalSession (tp_id t) a
      in if msg \<noteq> '''' then note_here LevelWarning msg ''debug'' a1 else Inr a1)"

definition close_split :: "('v, 't, 'w) app_env \<Rightarrow> ('v, 't, 'w) app \<Rightarrow> ('v, 't, 'w) app go" where
  "close_split P a = on_layout (\<lambda>l. go_bind (CloseCurrentSplit (ap_layout P) l) (\<lambda>(l1, _). Inr l1)) a"

definition closeFocusedSplit :: "('v, 't, 'w) app_env \<Rightarrow> ('v, 't, 'w) app \<Rightarrow> ('v, 't, 'w) app go" where
  "closeFocusedSplit P a =
     go_bind (FocusedPane (a_layout a)) (\<lambda>p. case p of
       Some (TerminalPane t) \<Rightarrow>
         steps [close_terminal t, pure_step reset_trie, close_split P, pure_step sync_refs,
           pure_step syncTerminalSizes, pure_step syncPaneFooters] a
     | Some (ResourcePane r) \<Rightarrow>
         steps [pure_step reset_trie, close_split P,
           pure_step (unsubscribeOnStoreIfUnused (rl_context r) (p_GVR (rl_plugin r)) (EffectiveNamespace r)),
           pure_step sync_refs, pure_step syncPaneFooters] a
     | None \<Rightarrow> Inr a)"

definition closeFocusedTerminal :: "('v, 't, 'w) app_env \<Rightarrow> ('v, 't, 'w) app \<Rightarrow> ('v, 't, 'w) app go" where
  "closeFocusedTerminal P a =
     (if length (splits (a_layout a)) \<le> 1
      then go_bind (FocusedPane (a_layout a)) (\<lambda>p. case p of Some (TerminalPane t) \<Rightarrow> close_terminal t a | _ \<Rightarrow> Inr a)
      else closeFocusedSplit P a)"

section \<open>Another resource or namespace\<close>

definition unzoom :: "('v, 't, 'w) app_env \<Rightarrow> ('v, 't, 'w) app \<Rightarrow> ('v, 't, 'w) app go" where
  "unzoom P a =
     (if AnyZoomed (a_layout a)
      then steps [on_layout (UnzoomAll (ap_layout P)), pure_step (syncIndicators P)] a else Inr a)"

text \<open>The pane that has the focus, with its index, for a handler that goes on with the pointer.\<close>

definition for_focused ::
  "(int \<Rightarrow> 'v resource_list \<Rightarrow> ('v, 't, 'w) app \<Rightarrow> ('v, 't, 'w) app go) \<Rightarrow> ('v, 't, 'w) app \<Rightarrow> ('v, 't, 'w) app go" where
  "for_focused k a = with_focused (\<lambda>f a. case f of None \<Rightarrow> Inr a | Some r \<Rightarrow> k (focusIdx (a_layout a)) r a) a"

definition populate_focused :: "('v, 't, 'w) app_env \<Rightarrow> ('v, 't, 'w) app \<Rightarrow> ('v, 't, 'w) app go" where
  "populate_focused P a = for_focused (\<lambda>i r. subscribeAndPopulate P i r (rl_plugin r) (EffectiveNamespace r)) a"

text \<open>The end of most handlers: the panel, the log panel and the hints follow the focused pane.\<close>

definition settle :: "('v, 't, 'w) app_env \<Rightarrow> ('v, 't, 'w) app \<Rightarrow> ('v, 't, 'w) app go" where
  "settle P a = steps [refreshDetailPanel P, syncLogPanel P, sync_hints] a"

definition handleGotoPlugin ::
  "('v, 't, 'w) app_env \<Rightarrow> rplugin \<Rightarrow> string \<Rightarrow> ('v, 't, 'w) app \<Rightarrow> ('v, 't, 'w) app go" where
  "handleGotoPlugin P p targetNs a =
     go_bind (unzoom P a) (for_focused (\<lambda>i r.
       steps [pure_step (\<lambda>a. clear_env (reset_trie a)),
         upd_list i (\<lambda>r. let r1 = SetPlugin (list_env_of P) p (ResetNav r)
                         in if targetNs \<noteq> '''' then rl_SetNamespace targetNs r1 else r1),
         populate_focused P,
         (\<lambda>a. go_bind (storeForFocused a) (\<lambda>s.
            if s \<noteq> None \<and> p_GVR (rl_plugin r) \<noteq> p_GVR p
            then unsubscribeIfUnused (p_GVR (rl_plugin r)) (EffectiveNamespace r) a else Inr a)),
         settle P]))"

definition handleGoto :: "('v, 't, 'w) app_env \<Rightarrow> string \<Rightarrow> string \<Rightarrow> ('v, 't, 'w) app \<Rightarrow> ('v, 't, 'w) app go" where
  "handleGoto P name targetNs a =
     (case goto_target name (a_registry a) of
        None \<Rightarrow> note_here LevelError (''unknown resource: '' @ name) ''goto'' a
      | Some p \<Rightarrow> handleGotoPlugin P p targetNs a)"

definition handleGotoGVR :: "('v, 't, 'w) app_env \<Rightarrow> string \<Rightarrow> ('v, 't, 'w) app \<Rightarrow> ('v, 't, 'w) app go" where
  "handleGotoGVR P s a =
     (case parse_gvr s of
        None \<Rightarrow> note_here LevelError (''invalid GVR format: '' @ s @
          '' (expected group/version/resource or version/resource)'') ''goto'' a
      | Some g \<Rightarrow> (case ByGVR g (a_registry a) of
            None \<Rightarrow> note_here LevelError (''unknown GVR: '' @ s) ''goto'' a
          | Some p \<Rightarrow> handleGotoPlugin P p '''' a))"

definition handleResourcePickerCommand :: "('v, 't, 'w) app_env \<Rightarrow> string \<Rightarrow> ('v, 't, 'w) app \<Rightarrow> ('v, 't, 'w) app go" where
  "handleResourcePickerCommand P input a =
     (case str_fields input of
        [] \<Rightarrow> Inr a
      | w # ws \<Rightarrow>
          if w = ''goto''
          then (case ws of x # _ \<Rightarrow> handleGoto P x '''' a
                | [] \<Rightarrow> note_here LevelError ''usage: goto <resource>'' ''goto'' a)
          else if w = ''goto-gvr''
          then (case ws of x # _ \<Rightarrow> handleGotoGVR P x a
                | [] \<Rightarrow> note_here LevelError ''usage: goto-gvr <group/version/resource>'' ''goto'' a)
          else handleGoto P w '''' a)"

definition handleNamespaceSwitch :: "('v, 't, 'w) app_env \<Rightarrow> string \<Rightarrow> ('v, 't, 'w) app \<Rightarrow> ('v, 't, 'w) app go" where
  "handleNamespaceSwitch P ns a =
     for_focused (\<lambda>i r a.
       if p_IsClusterScoped (rl_plugin r) \<or> rl_namespace r = ns then Inr a
       else let wasLog = logMode (a_layout a)
            in steps [pure_step stopLogStream, pure_step (set_layout (SetLogMode False)),
                 upd_list i (\<lambda>r. SetObjects (list_env_of P) [] (rl_SetNamespace ns (ResetNav r))),
                 for_focused (\<lambda>i r. subscribeAndPopulate P i r (rl_plugin r) ns),
                 unsubscribeIfUnused (p_GVR (rl_plugin r)) (rl_namespace r),
                 pure_step (if wasLog \<and> isLoggablePlugin (p_Name (rl_plugin r))
                   then (\<lambda>a. on_log (\<lambda>lv. SetUnavailable True (ClearAndRestart lv)) (set_layout (SetLogMode True) a))
                   else (\<lambda>a. a)),
                 refreshDetailPanel P] a) (clear_env a)"

section \<open>New panes\<close>

text \<open>The namespace of a new pane: that of the pane it comes from, else the default of its cluster.\<close>

definition inherited_ns :: "'v resource_list option \<Rightarrow> cluster option \<Rightarrow> string" where
  "inherited_ns f cl =
     (let ns = (case Option.bind cl c_client of Some c \<Rightarrow> kc_Namespace c | None \<Rightarrow> ''default'')
      in case f of Some r \<Rightarrow> if rl_namespace r \<noteq> '''' then rl_namespace r else ns | None \<Rightarrow> ns)"

definition add_split :: "('v, 't, 'w) app_env \<Rightarrow> rplugin \<Rightarrow> string \<Rightarrow> string \<Rightarrow> ('v, 't, 'w) app \<Rightarrow> ('v, 't, 'w) app go" where
  "add_split P p ns ctx a =
     steps [pure_step reset_trie, on_layout (AddSplit (ap_layout P) p ns ctx), pure_step syncPaneFooters,
       pure_step (syncContextPaneCounts P), populate_focused P] a"

definition handleSplit :: "('v, 't, 'w) app_env \<Rightarrow> string \<Rightarrow> ('v, 't, 'w) app \<Rightarrow> ('v, 't, 'w) app go" where
  "handleSplit P name a =
     (case ByName name (a_registry a) of
        None \<Rightarrow> note_here LevelError (''unknown resource: '' @ name) ''split'' a
      | Some p \<Rightarrow>
          go_bind (unzoom P a) (with_focused (\<lambda>f a.
            go_bind (contextFor f a) (\<lambda>ctx.
              steps [add_split P p (inherited_ns f (mgr_Get ctx (a_mgr a))) ctx, settle P] a))))"

definition openDrilledSplit ::
  "('v, 't, 'w) app_env \<Rightarrow> 'v resource_list \<Rightarrow> rplugin \<Rightarrow> k8s_obj list \<Rightarrow> k8s_obj \<Rightarrow> nav_direction \<Rightarrow>
   ('v, 't, 'w) app \<Rightarrow> ('v, 't, 'w) app go" where
  "openDrilledSplit P r child objs sel dir a =
     go_bind (unzoom P a) (\<lambda>a.
       steps [add_split P (rl_plugin r) (inherited_ns (Some r) (mgr_Get (rl_context r) (a_mgr a))) (rl_context r),
         upd_focused (\<lambda>r1. SetNavFloor 1 (PushNav (list_env_of P) child objs (o_name sel) (o_uid sel)
           (ap_APIVersion P sel) (o_kind sel) dir r1)),
         pure_step clear_env, settle P] a)"

section \<open>The list of contexts\<close>

definition handleGotoContexts :: "('v, 't, 'w) app_env \<Rightarrow> ('v, 't, 'w) app \<Rightarrow> ('v, 't, 'w) app go" where
  "handleGotoContexts P a =
     (case ByName ''contexts'' (a_registry a) of
        None \<Rightarrow> note_here LevelError ''contexts view unavailable'' ''contexts'' a
      | Some p \<Rightarrow>
          with_focused (\<lambda>f a. case f of
              None \<Rightarrow> Inr a
            | Some r \<Rightarrow>
                steps [unzoom P, pure_step (syncContextPaneCounts P), pure_step (\<lambda>a. clear_env (reset_trie a)),
                  (\<lambda>a. upd_focused (PushNav (list_env_of P) p
                     (case plugin_objects P a p of None \<Rightarrow> [] | Some objs \<Rightarrow> objs)
                     (rl_context r) '''' '''' '''' NavChild) a),
                  (\<lambda>a. if rightVisible (a_layout a) then on_layout (FocusResources (ap_layout P)) a else Inr a),
                  settle P] a) a)"

section \<open>Another context\<close>

text \<open>The panes of a context and what they show, as the subscriptions to look at afterwards.\<close>

fun sub_of :: "string \<Rightarrow> ('v, 't) pane \<Rightarrow> (gvr \<times> string) list" where
  "sub_of ctx (ResourcePane r) = (if rl_context r = ctx then [(p_GVR (rl_plugin r), EffectiveNamespace r)] else [])"
| "sub_of ctx (TerminalPane t) = []"

definition subs_of :: "string \<Rightarrow> ('v, 't, 'w) app \<Rightarrow> (gvr \<times> string) list" where
  "subs_of ctx a = concat (map (sub_of ctx) (splits (a_layout a)))"

definition release :: "string \<Rightarrow> (gvr \<times> string) list \<Rightarrow> ('v, 't, 'w) app \<Rightarrow> ('v, 't, 'w) app" where
  "release ctx subs a = foldl (\<lambda>a (g, ns). unsubscribeOnStoreIfUnused ctx g ns a) a subs"

text \<open>The loop over the panes of a context: \<open>k\<close> for the index and list of each.\<close>

fun for_panes ::
  "string \<Rightarrow> (int \<Rightarrow> 'v resource_list \<Rightarrow> ('v, 't, 'w) app \<Rightarrow> ('v, 't, 'w) app go) \<Rightarrow> nat list \<Rightarrow>
   ('v, 't, 'w) app \<Rightarrow> ('v, 't, 'w) app go" where
  "for_panes ctx k [] a = Inr a"
| "for_panes ctx k (n # ns) a =
     go_bind (case SplitAt (int n) (a_layout a) of
         None \<Rightarrow> Inr a
       | Some r \<Rightarrow> if rl_context r = ctx then k (int n) r a else Inr a) (for_panes ctx k ns)"

definition each_pane ::
  "string \<Rightarrow> (int \<Rightarrow> 'v resource_list \<Rightarrow> ('v, 't, 'w) app \<Rightarrow> ('v, 't, 'w) app go) \<Rightarrow> ('v, 't, 'w) app \<Rightarrow> ('v, 't, 'w) app go" where
  "each_pane ctx k a = for_panes ctx k [0..<length (splits (a_layout a))] a"

definition leave_logs :: "('v, 't, 'w) app \<Rightarrow> ('v, 't, 'w) app" where
  "leave_logs a = clear_env (set_layout (SetLogMode False) (stopLogStream a))"

text \<open>The retarget of one pane that the pinned switches make.\<close>

definition to_pinned ::
  "('v, 't, 'w) app_env \<Rightarrow> string \<Rightarrow> int \<Rightarrow> ('v, 't, 'w) app \<Rightarrow> ('v, 't, 'w) app go" where
  "to_pinned P ctx i a = upd_list i (\<lambda>r. SetOffline False (rl_SetNamespace '''' (ResetNav (SetContext ctx r)))) a"

definition populate_at :: "('v, 't, 'w) app_env \<Rightarrow> int \<Rightarrow> ('v, 't, 'w) app \<Rightarrow> ('v, 't, 'w) app go" where
  "populate_at P i a =
     (case SplitAt i (a_layout a) of
        None \<Rightarrow> Inr a
      | Some r \<Rightarrow> subscribeAndPopulate P i r (rl_plugin r) (EffectiveNamespace r) a)"

definition switchPaneToPinned :: "('v, 't, 'w) app_env \<Rightarrow> int \<Rightarrow> string \<Rightarrow> ('v, 't, 'w) app \<Rightarrow> ('v, 't, 'w) app go" where
  "switchPaneToPinned P i ctx a =
     steps [pure_step leave_logs, to_pinned P ctx i, pure_step sync_refs, populate_at P i,
       pure_step (setStatusBarContext ctx), pure_step syncPaneFooters, sync_hints, pure_step (syncIndicators P)] a"

definition switchGroupToPinned :: "('v, 't, 'w) app_env \<Rightarrow> string \<Rightarrow> string \<Rightarrow> ('v, 't, 'w) app \<Rightarrow> ('v, 't, 'w) app go" where
  "switchGroupToPinned P target ctx a =
     steps [pure_step leave_logs,
       each_pane target (\<lambda>i r. steps [to_pinned P ctx i, populate_at P i]),
       pure_step sync_refs, pure_step (release target (subs_of target a)),
       pure_step (setStatusBarContext ctx), pure_step syncPaneFooters, sync_hints, pure_step (syncIndicators P)] a"

definition note_connecting :: "string \<Rightarrow> ('v, 't, 'w) app \<Rightarrow> ('v, 't, 'w) app" where
  "note_connecting ctx a = emit (E_Connect ctx)
     (add_note LevelInfo (''connecting to '' @ ctx @ [CHR 0xE2, CHR 0x80, CHR 0xA6]) ctx ''context'' a)"

definition is_connected :: "string \<Rightarrow> ('v, 't, 'w) app \<Rightarrow> bool" where
  "is_connected ctx a \<longleftrightarrow> Connected (mgr_Get ctx (a_mgr a))"

definition handlePaneContextSwitch :: "('v, 't, 'w) app_env \<Rightarrow> string \<Rightarrow> ('v, 't, 'w) app \<Rightarrow> ('v, 't, 'w) app go" where
  "handlePaneContextSwitch P ctx a =
     for_focused (\<lambda>i r a.
       if IsPinned ctx (a_mgr a) then (if rl_context r = ctx then Inr a else switchPaneToPinned P i ctx a)
       else if rl_context r = ctx \<and> is_connected ctx a then Inr a
       else steps [pure_step leave_logs,
              upd_list i (\<lambda>r. SetObjects (list_env_of P) [] (ResetNav (SetContext ctx r))),
              pure_step sync_refs, pure_step (setStatusBarContext ctx), pure_step (note_connecting ctx)] a)
       (a\<lparr> a_overlay := OverlayNone \<rparr>)"

definition handleGroupContextSwitch :: "('v, 't, 'w) app_env \<Rightarrow> string \<Rightarrow> ('v, 't, 'w) app \<Rightarrow> ('v, 't, 'w) app go" where
  "handleGroupContextSwitch P ctx a =
     with_focused (\<lambda>f a.
       go_bind (contextFor f a) (\<lambda>target.
         if IsPinned ctx (a_mgr a) then (if ctx = target then Inr a else switchGroupToPinned P target ctx a)
         else if ctx = target \<and> is_connected ctx a then Inr a
         else steps [pure_step (setStatusBarContext ctx), pure_step leave_logs,
                each_pane target (\<lambda>i r. if ctx \<noteq> rl_context r
                  then upd_list i (\<lambda>r. SetObjects (list_env_of P) [] (ResetNav (SetContext ctx r))) else Inr),
                pure_step sync_refs,
                pure_step (if storeForContext target a \<noteq> None then release target (subs_of target a) else (\<lambda>a. a)),
                sync_hints, pure_step (syncIndicators P), pure_step syncPaneFooters,
                pure_step (note_connecting ctx)] a)) (a\<lparr> a_overlay := OverlayNone \<rparr>)"

text \<open>The dispatcher refreshes the footers once more after the group switch.\<close>

definition on_GlobalContextSelected :: "('v, 't, 'w) app_env \<Rightarrow> string \<Rightarrow> ('v, 't, 'w) app \<Rightarrow> ('v, 't, 'w) app go" where
  "on_GlobalContextSelected P ctx a = steps [handleGroupContextSwitch P ctx, pure_step syncPaneFooters] a"

definition handlePaneSwitchContext :: "('v, 't, 'w) app_env \<Rightarrow> string \<Rightarrow> ('v, 't, 'w) app \<Rightarrow> ('v, 't, 'w) app go" where
  "handlePaneSwitchContext P ctx a =
     for_focused (\<lambda>i r a.
       if InDrillDown r
       then steps [upd_list i (\<lambda>r. fst (PopNav (list_env_of P) r)), handlePaneContextSwitch P ctx] a
       else if p_Name (rl_plugin r) = ''contexts''
       then (case ByName ''pods'' (a_registry a) of
               Some pods \<Rightarrow> steps [upd_list i (\<lambda>r. ResetNav (SetPlugin (list_env_of P) pods r)), handlePaneContextSwitch P ctx] a
             | None \<Rightarrow> steps [upd_list i ResetNav, pure_step (add_note LevelError
                 ''cannot switch context: 'pods' plugin not registered'' (rl_context r) ''context'')] a)
       else handlePaneContextSwitch P ctx a) (a\<lparr> a_overlay := OverlayNone \<rparr>)"

end
