(* ===== verification/App_Cluster.thy ===== *)
theory App_Cluster
  imports App_Switch
begin

text \<open>
  The start of the application and the handlers of \<^verbatim>\<open>internal/app\<close> for what the
  clusters report: a finished dial, a health check, an update of a store, the discovery of the
  resource types; and the reload of everything.
\<close>

section \<open>A finished dial\<close>

definition mark_offline :: "string \<Rightarrow> ('v, 't, 'w) app \<Rightarrow> ('v, 't, 'w) app" where
  "mark_offline ctx a = set_layout (\<lambda>l. l\<lparr> splits :=
     map (on_list (\<lambda>r. if rl_context r = ctx then SetOffline True r else r)) (splits l) \<rparr>) a"

text \<open>One pane that waited for the cluster \<open>cl\<close>.\<close>

definition ready_pane ::
  "('v, 't, 'w) app_env \<Rightarrow> string \<Rightarrow> cluster \<Rightarrow> int \<Rightarrow> 'v resource_list \<Rightarrow> ('v, 't, 'w) app \<Rightarrow> ('v, 't, 'w) app go" where
  "ready_pane P ctx cl i r a =
     (let ns = (case c_client cl of Some c \<Rightarrow> kc_Namespace c | None \<Rightarrow> '''');
          g = p_GVR (rl_plugin r)
      in go_bind (if ns \<noteq> '''' then upd_list i (rl_SetNamespace ns) a else Inr a) (\<lambda>a1.
           if fst g \<noteq> ''_ktui'' \<and>
              (case c_discovery cl of None \<Rightarrow> False | Some d \<Rightarrow> \<not> IsEmpty d \<and> KindForGVR g d = None)
           then steps [upd_list i (SetObjects (list_env_of P) []),
                  pure_step (add_note LevelWarning (snd (snd g) @ '' not available on '' @ ctx) ctx ''discovery'')] a1
           else populate_at P i a1))"

definition dial_failed :: "string \<Rightarrow> string \<Rightarrow> ('v, 't, 'w) app \<Rightarrow> ('v, 't, 'w) app" where
  "dial_failed ctx msg a = add_note LevelError msg ctx ''context'' (syncPaneFooters (mark_offline ctx a))"

text \<open>The result of the dial is the error, or the client; \<open>Inr None\<close> is a client that is nil.\<close>

definition handleClusterReady ::
  "('v, 't, 'w) app_env \<Rightarrow> string \<Rightarrow> string + k8s_client option \<Rightarrow> ('v, 't, 'w) app \<Rightarrow> ('v, 't, 'w) app go" where
  "handleClusterReady P ctx res a =
     (case res of
        Inl e \<Rightarrow> Inr (dial_failed ctx (''context '' @ ctx @ '': '' @ e) (sync_refs a))
      | Inr None \<Rightarrow> Inr (dial_failed ctx (''context '' @ ctx @ '': failed to connect'') (sync_refs a))
      | Inr (Some client) \<Rightarrow>
          (let (m, cl, newly) = RegisterConnected ctx client (a_mgr a);
               a1 = sync_refs (a\<lparr> a_mgr := m \<rparr>)
           in if \<not> Connected (Some cl)
              then Inr (dial_failed ctx (''context '' @ ctx @ '': failed to connect'') a1)
              else steps [pure_step (\<lambda>a. if newly \<and> c_client cl \<noteq> None
                     then emit (E_Heartbeat ctx) (if c_discovery cl \<noteq> None then emit (E_Discover ctx) a else a) else a),
                   each_pane ctx (ready_pane P ctx cl),
                   pure_step syncPaneFooters, pure_step (syncContextPaneCounts P), syncStatusBarContext,
                   pure_step (add_note LevelInfo (''connected to '' @ ctx) ctx ''context''),
                   refreshDetailPanel P, sync_hints] a1))"

section \<open>Health\<close>

definition heartbeatRearmContexts :: "string \<Rightarrow> ('v, 't, 'w) app \<Rightarrow> string list" where
  "heartbeatRearmContexts ctx a = (if is_connected ctx a then [ctx] else [])"

definition handleClusterHealth :: "string \<Rightarrow> bool \<Rightarrow> ('v, 't, 'w) app \<Rightarrow> ('v, 't, 'w) app go" where
  "handleClusterHealth ctx online a =
     go_bind (with_focused contextFor a) (\<lambda>focused.
       let tick = (if ctx = '''' then focused else ctx);
           a1 = (if tick = focused then on_status (SetOnline online) a else a);
           a2 = a1\<lparr> a_out := a_out a1 @
             map (\<lambda>c. E_HeartbeatLater c (HeartbeatInterval (a_config a1))) (heartbeatRearmContexts tick a1) \<rparr>
       in Inr (syncPaneFooters a2))"

section \<open>Drill-downs follow their sources\<close>

definition find_source :: "('v, 't, 'w) app_env \<Rightarrow> nav_snapshot \<Rightarrow> k8s_obj \<Rightarrow> bool" where
  "find_source P snap o1 \<longleftrightarrow> o_name o1 = ns_ParentName snap \<and>
     (ns_ParentKind snap = '''' \<or> o_kind o1 = ns_ParentKind snap) \<and>
     (ns_ParentAPIVersion snap = '''' \<or> ap_APIVersion P o1 = ns_ParentAPIVersion snap)"

definition resolveSnapSourceObject ::
  "('v, 't, 'w) app_env \<Rightarrow> string \<Rightarrow> nav_snapshot \<Rightarrow> ('v, 't, 'w) app \<Rightarrow> k8s_obj option" where
  "resolveSnapSourceObject P ctx snap a =
     (case plugin_objects P a (ns_Plugin snap) of
        Some objs \<Rightarrow> find (find_source P snap) objs
      | None \<Rightarrow>
          if ns_ParentUID snap = '''' then None
          else case store_of ctx (a_mgr a) of
            None \<Rightarrow> None
          | Some s \<Rightarrow> find (\<lambda>o1. o_uid o1 = ns_ParentUID snap)
              (st_List (p_GVR (ns_Plugin snap)) (if p_IsClusterScoped (ns_Plugin snap) then '''' else ns_Namespace snap) s))"

text \<open>\<open>f\<close> is \<open>DrillUp\<close> or \<open>GoToNode\<close>: an object that is not there yet leaves the view alone.\<close>

definition refresh_single ::
  "('v, 't, 'w) app_env \<Rightarrow> int \<Rightarrow> (string \<Rightarrow> k8s_obj \<Rightarrow> manager \<Rightarrow> manager \<times> (rplugin \<times> k8s_obj option) option) \<Rightarrow>
   string \<Rightarrow> k8s_obj \<Rightarrow> ('v, 't, 'w) app \<Rightarrow> ('v, 't, 'w) app go" where
  "refresh_single P i f ctx src a =
     (let (m, res) = f ctx src (a_mgr a); a1 = a\<lparr> a_mgr := m \<rparr>
      in case res of Some (_, Some o1) \<Rightarrow> upd_list i (SetObjects (list_env_of P) [o1]) a1 | _ \<Rightarrow> Inr a1)"

definition refreshDrillDownSplit ::
  "('v, 't, 'w) app_env \<Rightarrow> int \<Rightarrow> 'v resource_list \<Rightarrow> ('v, 't, 'w) app \<Rightarrow> ('v, 't, 'w) app go" where
  "refreshDrillDownSplit P i r a =
     (case nav_Peek (navStack r) of
        None \<Rightarrow> Inr a
      | Some snap \<Rightarrow>
          (let src = resolveSnapSourceObject P (rl_context r) snap a
           in case ns_Direction snap of
                NavParent \<Rightarrow> (case (ap_DrillUp P (ns_Plugin snap), src) of
                    (Some f, Some o1) \<Rightarrow> refresh_single P i f (rl_context r) o1 a | _ \<Rightarrow> Inr a)
              | NavNode \<Rightarrow> (case (ap_GoToNode P (ns_Plugin snap), src) of
                    (Some f, Some o1) \<Rightarrow> refresh_single P i f (rl_context r) o1 a | _ \<Rightarrow> Inr a)
              | NavChild \<Rightarrow> (case (ap_DrillDown P (ns_Plugin snap), src) of
                    (Some f, Some o1) \<Rightarrow>
                      (let (m, res) = f (rl_context r) o1 (a_mgr a)
                       in upd_list i (SetObjects (list_env_of P) (case res of Some (_, objs) \<Rightarrow> objs | None \<Rightarrow> []))
                            (a\<lparr> a_mgr := m \<rparr>))
                  | _ \<Rightarrow> Inr a)))"

definition drill_matches :: "gvr \<Rightarrow> string \<Rightarrow> 'v resource_list \<Rightarrow> bool" where
  "drill_matches g ns r \<longleftrightarrow>
     (case nav_Peek (navStack r) of
        None \<Rightarrow> False
      | Some snap \<Rightarrow> (p_GVR (rl_plugin r) = g \<or> p_GVR (ns_Plugin snap) = g) \<and>
          (EffectiveNamespace r = ns \<or> EffectiveNamespace r = ''''))"

fun refresh_drills :: "('v, 't, 'w) app_env \<Rightarrow> gvr \<Rightarrow> string \<Rightarrow> nat list \<Rightarrow> ('v, 't, 'w) app \<Rightarrow> ('v, 't, 'w) app go" where
  "refresh_drills P g ns [] a = Inr a"
| "refresh_drills P g ns (n # is) a =
     go_bind (case SplitAt (int n) (a_layout a) of
         None \<Rightarrow> Inr a
       | Some r \<Rightarrow> if InDrillDown r \<and> drill_matches g ns r then refreshDrillDownSplit P (int n) r a else Inr a)
       (refresh_drills P g ns is)"

definition refreshDrillDownSplits :: "('v, 't, 'w) app_env \<Rightarrow> gvr \<Rightarrow> string \<Rightarrow> ('v, 't, 'w) app \<Rightarrow> ('v, 't, 'w) app go" where
  "refreshDrillDownSplits P g ns a = refresh_drills P g ns [0..<length (splits (a_layout a))] a"

section \<open>An update of a store\<close>

definition eventsGVR :: gvr where "eventsGVR = ('''', ''v1'', ''events'')"
definition configMapsGVR :: gvr where "configMapsGVR = ('''', ''v1'', ''configmaps'')"
definition secretsGVR :: gvr where "secretsGVR = ('''', ''v1'', ''secrets'')"

text \<open>The first part: the panes that show the type, and the drill-downs that come from it.\<close>

definition repaint :: "('v, 't, 'w) app_env \<Rightarrow> gvr \<Rightarrow> string \<Rightarrow> string \<Rightarrow> ('v, 't, 'w) app \<Rightarrow> ('v, 't, 'w) app" where
  "repaint P g ns ctx a =
     (case ByGVR g (a_registry a) of
        None \<Rightarrow> a
      | Some p \<Rightarrow> (case store_of (if ctx = '''' then a_startup a else ctx) (a_mgr a) of
            None \<Rightarrow> a
          | Some s \<Rightarrow> set_layout (UpdateSplitObjects (ap_layout P) p ns ctx (st_List g ns s)) a))"

text \<open>The second part: another object under the cursor.\<close>

definition selection_moved :: "('v, 't, 'w) app_env \<Rightarrow> string \<Rightarrow> ('v, 't, 'w) app \<Rightarrow> ('v, 't, 'w) app go" where
  "selection_moved P k a =
     (if k = ''''
      then Inr ((if logMode (a_layout a) then on_log ClearAndRestart (stopLogStream a)
                 else on_panel (ClearContent (ye_view (ap_layout P))) a)\<lparr> a_lastDetailKey := '''' \<rparr>)
      else if logMode (a_layout a) then refreshDetailPanelOrLog P (a\<lparr> a_lastDetailKey := k \<rparr>)
      else refreshDetailPanel P (a\<lparr> a_lastDetailKey := k \<rparr>))"

text \<open>The third part: the panel of the same object, unless a search has frozen it.\<close>

definition reload_describe :: "gvr \<Rightarrow> 'v resource_list option \<Rightarrow> ('v, 't, 'w) app \<Rightarrow> ('v, 't, 'w) app" where
  "reload_describe g f a =
     (case f of
        None \<Rightarrow> a
      | Some r \<Rightarrow>
          if g = p_GVR (rl_plugin r) \<or> g = eventsGVR \<or> a_envResolved a \<and> (g = configMapsGVR \<or> g = secretsGVR)
          then let a1 = a\<lparr> a_describeDebounceSeq := a_describeDebounceSeq a + 1 \<rparr>
               in emit (E_DescribeDebounce (a_describeDebounceSeq a1)) a1
          else a)"

definition wait_for_log :: "('v, 't, 'w) app_env \<Rightarrow> ('v, 't, 'w) app \<Rightarrow> ('v, 't, 'w) app go" where
  "wait_for_log P a = (if logMode (a_layout a) \<and> \<not> a_logCh a then syncLogPanel P a else Inr a)"

definition panel_frozen :: "'v resource_list option \<Rightarrow> ('v, 't) layout \<Rightarrow> bool" where
  "panel_frozen f l \<longleftrightarrow> (case f of None \<Rightarrow> False | Some r \<Rightarrow> rl_AnyActive r) \<or>
     rightVisible l \<and> (if logMode l then AnyActive (logView l) else dv_AnyActive (rightPanel l))"

definition follow_update :: "('v, 't, 'w) app_env \<Rightarrow> gvr \<Rightarrow> ('v, 't, 'w) app \<Rightarrow> ('v, 't, 'w) app go" where
  "follow_update P g a =
     with_focused (\<lambda>f a.
       let l = a_layout a
       in if panel_frozen f l then wait_for_log P a
          else if logMode l then steps [reloadDetailPanel P, wait_for_log P] a
          else if dv_mode (rightPanel l) = DetailDescribe then Inr (reload_describe g f a)
          else if (case f of None \<Rightarrow> False | Some r \<Rightarrow> g = p_GVR (rl_plugin r)) then reloadDetailPanel P a
          else Inr a) a"

definition on_ResourceUpdated ::
  "('v, 't, 'w) app_env \<Rightarrow> gvr \<Rightarrow> string \<Rightarrow> string \<Rightarrow> ('v, 't, 'w) app \<Rightarrow> ('v, 't, 'w) app go" where
  "on_ResourceUpdated P g ns ctx a =
     go_bind (refreshDrillDownSplits P g ns (repaint P g ns ctx a)) (\<lambda>a1.
       with_focused (\<lambda>f a1.
         go_bind (detailKey a1) (\<lambda>k.
           if rightVisible (a_layout a1) \<and> f \<noteq> None \<and> k \<noteq> a_lastDetailKey a1 then selection_moved P k a1
           else follow_update P g a1)) a1)"

section \<open>Synthetic resources\<close>

fun repoll :: "('v, 't, 'w) app_env \<Rightarrow> ('v, 't, 'w) app \<Rightarrow> string \<Rightarrow> ('v, 't) pane \<Rightarrow> ('v, 't) pane" where
  "repoll P a name (TerminalPane t) = TerminalPane t"
| "repoll P a name (ResourcePane r) =
     (if p_Name (rl_plugin r) = name
      then (case plugin_objects P a (rl_plugin r) of None \<Rightarrow> ResourcePane r
            | Some objs \<Rightarrow> ResourcePane (SetObjects (list_env_of P) objs r))
      else ResourcePane r)"

definition refreshSelfPopulatingSplits :: "('v, 't, 'w) app_env \<Rightarrow> string \<Rightarrow> ('v, 't, 'w) app \<Rightarrow> ('v, 't, 'w) app" where
  "refreshSelfPopulatingSplits P name a =
     set_layout (\<lambda>l. l\<lparr> splits := map (repoll P a name) (splits l) \<rparr>) a"

section \<open>Reload\<close>

definition reset_pane :: "('v, 't, 'w) app_env \<Rightarrow> int \<Rightarrow> ('v, 't, 'w) app \<Rightarrow> ('v, 't, 'w) app go" where
  "reset_pane P i a = steps [upd_list i (ResetForReload (list_env_of P)), populate_at P i] a"

fun reset_panes :: "('v, 't, 'w) app_env \<Rightarrow> nat list \<Rightarrow> ('v, 't, 'w) app \<Rightarrow> ('v, 't, 'w) app go" where
  "reset_panes P [] a = Inr a"
| "reset_panes P (n # ns) a =
     go_bind (if SplitAt (int n) (a_layout a) = None then Inr a else reset_pane P (int n) a) (reset_panes P ns)"

definition unsubscribe_live :: "manager \<Rightarrow> manager" where
  "unsubscribe_live m = m\<lparr> clusters := map (\<lambda>(k, c). (k, if IsPinned (c_context c) m then c
     else c\<lparr> c_store := map_option UnsubscribeAll (c_store c) \<rparr>)) (clusters m) \<rparr>"

definition reloadManifest :: "('v, 't, 'w) app_env \<Rightarrow> manifest_source \<Rightarrow> string \<Rightarrow> ('v, 't, 'w) app \<Rightarrow> ('v, 't, 'w) app go" where
  "reloadManifest P src ctx a =
     (if mf_fromStdin src \<or> mf_paths src = [] then Inr (emit E_ClearScreen a)
      else case ap_LoadFiles P (mf_paths src) (mf_defaultNS src) of
        Inl e \<Rightarrow> Inr (add_note LevelError (''reload failed: '' @ e) ctx ''reload'' a)
      | Inr (rebuilt, warns) \<Rightarrow>
          (let n = (case c_store rebuilt of None \<Rightarrow> 0 | Some s \<Rightarrow> CountInNamespace '''' s)
           in steps [pure_step (on_mgr (RegisterPinned rebuilt)),
                pure_step (\<lambda>a. foldl (\<lambda>a w. add_note LevelWarning w ctx ''manifest'' a) a warns),
                each_pane ctx (\<lambda>i r. reset_pane P i),
                pure_step (add_note LevelInfo (''reloaded '' @ itoa n @ '' objects from '' @ ctx) ctx ''reload''),
                sync_hints, pure_step (syncIndicators P), pure_step (emit E_ClearScreen)] a))"

definition reloadAll :: "('v, 't, 'w) app_env \<Rightarrow> ('v, 't, 'w) app \<Rightarrow> ('v, 't, 'w) app go" where
  "reloadAll P a =
     go_bind (with_focused contextFor a) (\<lambda>ctx.
       if IsPinned ctx (a_mgr a) \<and> a_manifest a \<noteq> None then reloadManifest P (the (a_manifest a)) ctx a
       else let wasLog = logMode (a_layout a); wasRight = rightVisible (a_layout a)
            in steps [pure_step (on_mgr unsubscribe_live), pure_step stopLogStream, pure_step (set_layout (SetLogMode False)),
                 pure_step (\<lambda>a. a\<lparr> a_overlay := OverlayNone, a_pending := no_pending \<rparr>),
                 (\<lambda>a. if AnyZoomed (a_layout a) then on_layout (UnzoomAll (ap_layout P)) a else Inr a),
                 on_layout (FocusResources (ap_layout P)), pure_step (\<lambda>a. reset_trie (clear_env a)),
                 (\<lambda>a. reset_panes P [0..<length (splits (a_layout a))] a),
                 (if wasRight \<and> wasLog
                  then pure_step (\<lambda>a. on_log (\<lambda>lv. SetUnavailable True (ClearAndRestart lv)) (set_layout (SetLogMode True) a))
                  else reloadDetailPanel P),
                 sync_hints, pure_step (syncIndicators P), pure_step syncTerminalSizes,
                 pure_step (emit E_ClearScreen)] a)"

section \<open>The start\<close>

record spec =
  sp_Plugin :: rplugin
  sp_Namespace :: string

text \<open>
  \<open>New\<close>: one pane for each spec. The subscription uses the namespace of the spec, and its result is
  shown only for a pinned context.
\<close>

definition add_spec ::
  "('v, 't, 'w) app_env \<Rightarrow> string \<Rightarrow> nat \<Rightarrow> spec \<Rightarrow> ('v, 't, 'w) app \<Rightarrow> ('v, 't, 'w) app go" where
  "add_spec P defaultNs i sp a =
     (let ns = (if sp_Namespace sp = '''' then defaultNs else sp_Namespace sp);
          ctx = a_startup a; g = p_GVR (sp_Plugin sp)
      in steps [on_layout (AddSplit (ap_layout P) (sp_Plugin sp) ns ctx),
           (\<lambda>a. case store_of ctx (a_mgr a) of
              None \<Rightarrow> Inr a
            | Some s \<Rightarrow>
                (let (s1, objs, started) = Subscribe g ns s;
                     a1 = on_mgr (on_store ctx (\<lambda>_. s1)) a;
                     a2 = (if started then emit (E_Informer ctx g ns) a1 else a1)
                 in if IsPinned ctx (a_mgr a2) \<and> SplitAt (int i) (a_layout a2) \<noteq> None
                    then upd_list (int i) (SetObjects (list_env_of P) objs) a2 else Inr a2)),
           pure_step (\<lambda>a. if i = 0 then a\<lparr> a_trie := TrieFor ''resources'' (p_Name (sp_Plugin sp)) (a_bindings a) \<rparr> else a)] a)"

fun add_specs :: "('v, 't, 'w) app_env \<Rightarrow> string \<Rightarrow> nat \<Rightarrow> spec list \<Rightarrow> ('v, 't, 'w) app \<Rightarrow> ('v, 't, 'w) app go" where
  "add_specs P defaultNs i [] a = Inr a"
| "add_specs P defaultNs i (sp # sps) a = go_bind (add_spec P defaultNs i sp a) (add_specs P defaultNs (i + 1) sps)"

text \<open>The state of the literal in \<open>New\<close>; \<open>lv\<close> is the log view that the layout is made with.\<close>

definition initial_app ::
  "('v, 't, 'w) app_env \<Rightarrow> manager \<Rightarrow> registry \<Rightarrow> binding_set \<Rightarrow> config \<Rightarrow> notify_store \<Rightarrow> log_view \<Rightarrow> string \<Rightarrow> pf_registry \<Rightarrow> 'w \<Rightarrow> int \<Rightarrow>
   ('v, 't, 'w) app" where
  "initial_app P m R bs cfg ns lv startup pf w now =
     \<lparr> a_mgr = m, a_startup = startup, a_registry = R, a_bindings = bs, a_trie = TrieFor ''resources'' '''' bs,
       a_trieType = '''', a_trieRes = '''', a_layout = NewLayout (ap_layout P) lv 80 24, a_status = NewStatusBar 80,
       a_envResolved = False, a_overlay = OverlayNone, a_pending = no_pending, a_pf = pf, a_handles = [], a_confirm = '''', a_termSeq = 0,
       a_click = \<lparr> lastClickTime = None, lastClickKind = PaneSplit, lastClickRow = -1, lastClickSplit = -1 \<rparr>,
       a_bar = SearchModeSearch, a_terminals = [],
       a_cleanup = [], a_config = cfg, a_notify = ns, a_helmOverride = False, a_manifest = None, a_logCancel = False,
       a_logCh = False, a_dismissed = {}, a_picker = buildPickerEntries R, a_searchApplySeq = 0, a_logDebounceSeq = 0, a_logStreamGen = 0, a_describeGen = 0, a_describeDebounceSeq = 0,
       a_lastDetailKey = '''', a_plugins = w, a_clock = now, a_out = [] \<rparr>"

definition default_namespace :: "manager \<Rightarrow> string \<Rightarrow> string" where
  "default_namespace m startup =
     (if IsPinned startup m then ''''
      else case Option.bind (mgr_Get startup m) c_client of Some c \<Rightarrow> kc_Namespace c | None \<Rightarrow> ''default'')"

definition startup_badge :: "('v, 't, 'w) app \<Rightarrow> ('v, 't, 'w) app" where
  "startup_badge a =
     (case Option.bind (mgr_Get (a_startup a) (a_mgr a)) c_client of
        Some c \<Rightarrow> on_status (SetContextName (kc_Context c)) a
      | None \<Rightarrow> on_status (\<lambda>s. SetOnline False (SetContextName (a_startup a) s)) a)"

definition default_specs :: "string \<Rightarrow> registry \<Rightarrow> spec list \<Rightarrow> spec list" where
  "default_specs ns R specs =
     (if specs \<noteq> [] then specs
      else case ByName ''pods'' R of None \<Rightarrow> [] | Some p \<Rightarrow> [\<lparr> sp_Plugin = p, sp_Namespace = ns \<rparr>])"

definition open_detail :: "('v, 't, 'w) app_env \<Rightarrow> detail_mode option \<Rightarrow> ('v, 't, 'w) app \<Rightarrow> ('v, 't, 'w) app go" where
  "open_detail P d a =
     (case d of
        None \<Rightarrow> Inr a
      | Some mode \<Rightarrow>
          if mode = DetailLogs
          then steps [pure_step (set_layout (SetLogMode True)), on_layout (ShowRightPanel (ap_layout P))] a
          else steps [on_layout (ShowRightPanel (ap_layout P)),
                 pure_step (on_panel (dv_SetMode (ye_view (ap_layout P)) mode))] a)"

definition app_New :: "('v, 't, 'w) app_env \<Rightarrow> spec list \<Rightarrow> detail_mode option \<Rightarrow> orientation \<Rightarrow>
    ('v, 't, 'w) app \<Rightarrow> ('v, 't, 'w) app go" where
  "app_New P specs detail ori a =
     (let ns = default_namespace (a_mgr a) (a_startup a); sps = default_specs ns (a_registry a) specs
      in steps [(if ori = OrientationHorizontal then on_layout (ToggleOrientation (ap_layout P)) else Inr),
           pure_step startup_badge, add_specs P ns 0 sps,
           (if length sps > 1 then on_layout (FocusSplitAt (ap_layout P) 0) else Inr),
           open_detail P detail, sync_hints] a)"

text \<open>\<open>Init\<close>: a message to fill the panel is not modelled apart from its handler.\<close>

definition app_Init :: "('v, 't, 'w) app \<Rightarrow> effect list" where
  "app_Init a = (if is_connected (a_startup a) a then [E_Discover (a_startup a), E_Heartbeat (a_startup a)] else [])"

end
