(* ===== verification/App_Terminals.thy ===== *)
theory App_Terminals
  imports App_Switch
begin

text \<open>
  The embedded terminals of \<^verbatim>\<open>internal/app\<close>: opening a pane for a session or for a debug
  container that is still being made, the result of the preparation, the bytes and the end of a
  session, the keys that go to a shell, and what is torn down before the program exits.
  The registry of the sessions, the pumps between session and emulator and the calls to the cluster
  are effects.
\<close>

section \<open>Opening\<close>

text \<open>The bytes of the ellipsis in the code's UTF-8 text and the end of a line in a terminal.\<close>

definition dots :: string where "dots = [CHR 0xE2, CHR 0x80, CHR 0xA6]"
definition crlf :: string where "crlf = [CHR 0x0D, CHR 0x0A]"

definition next_term :: "('v, 't, 'w) app \<Rightarrow> ('v, 't, 'w) app" where
  "next_term a = a\<lparr> a_termSeq := a_termSeq a + 1 \<rparr>"

definition seq_of :: "('v, 't, 'w) app \<Rightarrow> string" where
  "seq_of a = itoa (uint (a_termSeq a))"

definition term_pane :: "('v, 't, 'w) app_env \<Rightarrow> string \<Rightarrow> string \<Rightarrow> string \<Rightarrow> ('v, 't, 'w) app \<Rightarrow> 't terminal_pane" where
  "term_pane P title ctx i a =
     (let (w, h) = SplitSeedSize (a_layout a); V = pe_vt (ap_layout P)
      in SetScrollback V (TerminalScrollback (a_config a)) (SetID i (NewTerminalPane V title ctx w h)))"

definition placeholder :: "('v, 't, 'w) app_env \<Rightarrow> string \<Rightarrow> 't terminal_pane \<Rightarrow> 't terminal_pane" where
  "placeholder P msg t = fst (tp_Write (pe_vt (ap_layout P)) (msg @ dots @ crlf) t)"

definition add_terminal :: "('v, 't, 'w) app_env \<Rightarrow> 't terminal_pane \<Rightarrow> ('v, 't, 'w) app \<Rightarrow> ('v, 't, 'w) app go" where
  "add_terminal P t a =
     steps [on_layout (AddTerminalSplit (ap_layout P) (TerminalPane t)), pure_step reset_trie,
       pure_step syncPaneFooters, pure_step syncTerminalSizes] a"

definition start_session :: "string \<Rightarrow> ('v, 't, 'w) app \<Rightarrow> ('v, 't, 'w) app" where
  "start_session i a = (emit (E_TermStart i) a)\<lparr> a_terminals := filter (\<lambda>j. j \<noteq> i) (a_terminals a) @ [i] \<rparr>"

definition set_meta :: "string \<Rightarrow> terminal_meta \<Rightarrow> ('v, 't, 'w) app \<Rightarrow> ('v, 't, 'w) app" where
  "set_meta i m a = a\<lparr> a_cleanup := AList.update i m (a_cleanup a) \<rparr>"

definition drop_meta :: "string \<Rightarrow> ('v, 't, 'w) app \<Rightarrow> ('v, 't, 'w) app" where
  "drop_meta i a = a\<lparr> a_cleanup := AList.delete i (a_cleanup a) \<rparr>"

definition exec_id :: "string \<Rightarrow> string \<Rightarrow> string \<Rightarrow> ('v, 't, 'w) app \<Rightarrow> string" where
  "exec_id ns pod container a = ''exec:'' @ ns @ ''/'' @ pod @ ''/'' @ container @ '':'' @ seq_of a"

definition openExecTerminal ::
  "('v, 't, 'w) app_env \<Rightarrow> k8s_client \<Rightarrow> string \<Rightarrow> string \<Rightarrow> string \<Rightarrow> string \<Rightarrow> string \<Rightarrow>
   ('v, 't, 'w) app \<Rightarrow> ('v, 't, 'w) app go" where
  "openExecTerminal P client pod container ns ctx title a =
     (case ap_exec P client pod container ns (ExecCommand (a_config a)) of
        Some e \<Rightarrow> Inr (add_note LevelError (''exec: '' @ e) ctx ''exec'' a)
      | None \<Rightarrow>
          (let a1 = next_term a; i = exec_id ns pod container a1
           in steps [pure_step (start_session i), add_terminal P (term_pane P title ctx i a1),
                pure_step (emit (E_ReadTerm i))] a1))"

definition no_meta :: terminal_meta where
  "no_meta = \<lparr> tm_ephemeral = False, tm_nodeDebug = False, tm_client = None, tm_podName = '''', tm_namespace = '''',
     tm_preflight = False \<rparr>"

definition debug_id :: "string \<Rightarrow> string \<Rightarrow> ('v, 't, 'w) app \<Rightarrow> string" where
  "debug_id ns pod a = ''debug:'' @ ns @ ''/'' @ pod @ '':'' @ seq_of a"

definition openDebugTerminal ::
  "('v, 't, 'w) app_env \<Rightarrow> k8s_client \<Rightarrow> string \<Rightarrow> string \<Rightarrow> string \<Rightarrow> string \<Rightarrow> string \<Rightarrow> string list \<Rightarrow> bool \<Rightarrow>
   ('v, 't, 'w) app \<Rightarrow> ('v, 't, 'w) app go" where
  "openDebugTerminal P client pod container ns ctx img command privileged a =
     (let a1 = next_term a; i = debug_id ns pod a1;
          title = ''debug: '' @ pod @ (if container \<noteq> '''' then ''/'' @ container else '''');
          t = placeholder P ''starting debug container'' (term_pane P title ctx i a1);
          meta = no_meta\<lparr> tm_ephemeral := True, tm_client := Some client, tm_podName := pod, tm_namespace := ns,
                   tm_preflight := True \<rparr>
      in steps [pure_step (set_meta i meta), add_terminal P t,
           pure_step (emit (E_Preflight client i pod container ns img command privileged))] a1)"

definition node_id :: "string \<Rightarrow> ('v, 't, 'w) app \<Rightarrow> string" where
  "node_id node a = ''debug-node:'' @ node @ '':'' @ seq_of a"

definition openNodeDebugTerminal ::
  "('v, 't, 'w) app_env \<Rightarrow> k8s_client \<Rightarrow> string \<Rightarrow> string \<Rightarrow> string list \<Rightarrow> ('v, 't, 'w) app \<Rightarrow> ('v, 't, 'w) app go" where
  "openNodeDebugTerminal P client node img command a =
     (let a1 = next_term a; i = node_id node a1;
          t = placeholder P (''starting debug pod on '' @ node) (term_pane P (''node: '' @ node) (kc_Context client) i a1);
          meta = no_meta\<lparr> tm_nodeDebug := True, tm_client := Some client, tm_preflight := True \<rparr>
      in steps [pure_step (set_meta i meta), add_terminal P t,
           pure_step (emit (E_NodePreflight client i node img command))] a1)"

section \<open>The result of the preparation\<close>

text \<open>A pane is found by its identifier, which no other pane has; the code compares the pointers.\<close>

fun index_of :: "string \<Rightarrow> ('v, 't) pane list \<Rightarrow> int option" where
  "index_of i [] = None"
| "index_of i (p # ps) = (if has_id i p then Some 0 else map_option (\<lambda>n. n + 1) (index_of i ps))"

definition upd_term :: "string \<Rightarrow> ('t terminal_pane \<Rightarrow> 't terminal_pane) \<Rightarrow> ('v, 't, 'w) app \<Rightarrow> ('v, 't, 'w) app" where
  "upd_term i f a = set_layout (\<lambda>l. case index_of i (splits l) of
       None \<Rightarrow> l
     | Some n \<Rightarrow> l\<lparr> splits := (splits l)[nat n := on_term f (splits l ! nat n)] \<rparr>) a"

definition removeTerminalPane :: "('v, 't, 'w) app_env \<Rightarrow> string \<Rightarrow> ('v, 't, 'w) app \<Rightarrow> ('v, 't, 'w) app go" where
  "removeTerminalPane P i a =
     steps [(\<lambda>a. go_bind (FocusedPane (a_layout a)) (\<lambda>p.
               if (case p of Some q \<Rightarrow> has_id i q | None \<Rightarrow> False) then Inr a
               else case index_of i (splits (a_layout a)) of
                   None \<Rightarrow> Inr a
                 | Some n \<Rightarrow> on_layout (FocusSplitAt (ap_layout P) n) a)),
       (\<lambda>a. if length (splits (a_layout a)) > 1 then close_split P a else Inr a),
       pure_step reset_trie, pure_step syncTerminalSizes] a"

definition failTerminalPane :: "('v, 't, 'w) app_env \<Rightarrow> string \<Rightarrow> string \<Rightarrow> ('v, 't, 'w) app \<Rightarrow> ('v, 't, 'w) app go" where
  "failTerminalPane P i note1 a =
     (if length (splits (a_layout a)) \<le> 1
      then Inr (syncTerminalSizes (reset_trie (upd_term i (SetExitNote note1 \<circ> MarkExited 1) a)))
      else removeTerminalPane P i a)"

record debug_ready =
  dr_ID :: string
  dr_PodName :: string
  dr_Namespace :: string
  dr_ContainerName :: string
  dr_NodeMode :: bool
  dr_Client :: "k8s_client option"
  dr_Err :: "string option"

text \<open>Reading an identifier that is not in \<open>termCleanup\<close> gives the zero value.\<close>

definition meta_of :: "string \<Rightarrow> ('v, 't, 'w) app \<Rightarrow> terminal_meta" where
  "meta_of i a = (case map_of (a_cleanup a) i of Some m \<Rightarrow> m | None \<Rightarrow> no_meta)"

definition cancel_preflight :: "string \<Rightarrow> ('v, 't, 'w) app \<Rightarrow> ('v, 't, 'w) app" where
  "cancel_preflight i a = (if tm_preflight (meta_of i a) then emit (E_CancelPreflight i) a else a)"

definition emit_all :: "effect list \<Rightarrow> ('v, 't, 'w) app \<Rightarrow> ('v, 't, 'w) app" where
  "emit_all es a = a\<lparr> a_out := a_out a @ es \<rparr>"

definition handleDebugReady :: "('v, 't, 'w) app_env \<Rightarrow> debug_ready \<Rightarrow> ('v, 't, 'w) app \<Rightarrow> ('v, 't, 'w) app go" where
  "handleDebugReady P m a =
     (let i = dr_ID m; found = index_of i (splits (a_layout a)) \<noteq> None; meta = meta_of i a
      in case dr_Err m of
           Some e \<Rightarrow>
             steps [note_here LevelError (''debug: '' @ e) ''debug'', pure_step (drop_meta i \<circ> cancel_preflight i),
               (if found then failTerminalPane P i (''debug failed: '' @ e) else Inr)] a
         | None \<Rightarrow>
             if \<not> found
             then Inr (drop_meta i (emit_all (if dr_NodeMode m
                    then deletePod (if dr_Client m = None then tm_client meta else dr_Client m) (dr_PodName m) (dr_Namespace m)
                    else []) (cancel_preflight i a)))
             else case ap_attach P (tm_client meta) (dr_PodName m) (dr_ContainerName m) (dr_Namespace m) of
               Some e \<Rightarrow>
                 steps [note_here LevelError (''debug: '' @ e) ''debug'',
                   pure_step (emit_all (if dr_NodeMode m then deletePod (tm_client meta) (dr_PodName m) (dr_Namespace m) else [])),
                   pure_step (drop_meta i \<circ> cancel_preflight i),
                   failTerminalPane P i (''debug failed: '' @ e)] a
             | None \<Rightarrow>
                 Inr (emit (E_ReadTerm i) (syncTerminalSizes (start_session i
                   (set_meta i (meta\<lparr> tm_podName := dr_PodName m, tm_namespace := dr_Namespace m, tm_preflight := False \<rparr>)
                     (cancel_preflight i a))))))"

section \<open>The session\<close>

definition on_TermBytes :: "('v, 't, 'w) app_env \<Rightarrow> string \<Rightarrow> string \<Rightarrow> ('v, 't, 'w) app \<Rightarrow> ('v, 't, 'w) app" where
  "on_TermBytes P i bytes a =
     (if i \<notin> set (a_terminals a) then a
      else emit (E_ReadTerm i) (upd_term i (\<lambda>t. fst (tp_Write (pe_vt (ap_layout P)) bytes t)) a))"

definition dash :: string where "dash = [CHR '' '', CHR 0xE2, CHR 0x80, CHR 0x94, CHR '' '']"

definition exit_note :: "string \<Rightarrow> string option \<Rightarrow> ('v, 't, 'w) app \<Rightarrow> string" where
  "exit_note i err a =
     (let n = (case err of Some e \<Rightarrow> ''stream error: '' @ e | None \<Rightarrow> ''''); eph = ephemeralCloseNote i a
      in if eph = '''' then n else if n \<noteq> '''' then n @ dash @ eph else eph)"

definition on_TermExit :: "string \<Rightarrow> int \<Rightarrow> string option \<Rightarrow> ('v, 't, 'w) app \<Rightarrow> ('v, 't, 'w) app" where
  "on_TermExit i code err a =
     (let c = (if err \<noteq> None \<and> code = 0 then 1 else code); n = exit_note i err a
      in upd_term i (\<lambda>t. if n \<noteq> '''' then SetExitNote n (MarkExited c t) else MarkExited c t) a)"

definition terminalScrollPageLines :: "'t terminal_pane \<Rightarrow> int" where
  "terminalScrollPageLines t = (let n = snd (InnerSize t) - 1 in if n < 1 then 1 else n)"

text \<open>What a command of the pane does; the pane itself is at the index that has the focus.\<close>

fun pane_command_step ::
  "('v, 't, 'w) app_env \<Rightarrow> 't terminal_pane \<Rightarrow> pane_command \<Rightarrow> ('v, 't, 'w) app \<Rightarrow> ('v, 't, 'w) app go" where
  "pane_command_step P t c a =
     (let move = (\<lambda>f. steps [on_layout f, pure_step syncTerminalSizes, syncStatusBarContext] a);
          scroll = (\<lambda>f. on_layout (upd_split (focusIdx (a_layout a)) (on_term f)) a)
      in case c of
           PaneCmdFocusLeft \<Rightarrow> move (FocusPrev (ap_layout P))
         | PaneCmdFocusUp \<Rightarrow> move (FocusPrev (ap_layout P))
         | PaneCmdFocusRight \<Rightarrow> move (FocusNext (ap_layout P))
         | PaneCmdFocusDown \<Rightarrow> move (FocusNext (ap_layout P))
         | PaneCmdClose \<Rightarrow> closeFocusedTerminal P a
         | PaneCmdScrollUp \<Rightarrow> scroll (tp_ScrollUp (pe_vt (ap_layout P)) (terminalScrollPageLines t))
         | PaneCmdScrollDown \<Rightarrow> scroll (tp_ScrollDown (terminalScrollPageLines t))
         | PaneCmdNone \<Rightarrow> Inr a)"

text \<open>The first component says whether the pane took the key.\<close>

definition routeTerminalKey ::
  "('v, 't, 'w) app_env \<Rightarrow> 't terminal_pane \<Rightarrow> key \<Rightarrow> ('v, 't, 'w) app \<Rightarrow> (bool \<times> ('v, 't, 'w) app) go" where
  "routeTerminalKey P t k a =
     (let (t1, consumed, bytes, c) =
            HandleKey (ap_keyString P) (TerminalPrefix (a_config a)) (Some (\<lambda>key. snd (IsCaptured key (a_bindings a)))) k t
      in if \<not> consumed then Inr (False, a)
         else go_bind (on_layout (upd_split (focusIdx (a_layout a)) (\<lambda>_. TerminalPane t1)) a) (\<lambda>a1.
           let a2 = (if bytes \<noteq> [] \<and> tp_id t \<in> set (a_terminals a1) then emit (E_TermWrite (tp_id t) bytes) a1 else a1)
           in go_bind (pane_command_step P t1 c a2) (\<lambda>a3. Inr (True, a3))))"

section \<open>Before the program exits\<close>

definition cleanup_effects :: "string \<times> terminal_meta \<Rightarrow> effect list" where
  "cleanup_effects = (\<lambda>(i, m). (if tm_preflight m then [E_CancelPreflight i] else []) @
     (if tm_nodeDebug m then deletePod (tm_client m) (tm_podName m) (tm_namespace m) else []))"

definition shutdownTerminals :: "('v, 't, 'w) app \<Rightarrow> ('v, 't, 'w) app" where
  "shutdownTerminals a =
     (emit_all (concat (map cleanup_effects (a_cleanup a)) @ map E_TermStop (a_terminals a)) a)
       \<lparr> a_cleanup := [], a_terminals := [] \<rparr>"

end
