(* ===== verification/Shell_Expand.thy ===== *)
theory Shell_Expand
  imports Log_View "HOL-Library.Sublist"
begin

text \<open>
  \<^verbatim>\<open>os.Expand\<close> of the standard library, which the commands bound by the user go through,
  and the expression in \<^verbatim>\<open>internal/app/commands.go\<close> that a value has to match before it is
  put into such a command.
\<close>

section \<open>Expansion\<close>

definition special_var :: "char \<Rightarrow> bool" where
  "special_var c \<longleftrightarrow> c \<in> set ''*#$@!?-0123456789''"

definition letter :: "char \<Rightarrow> bool" where
  "letter c \<longleftrightarrow> (let n = of_char c :: nat in 97 \<le> n \<and> n \<le> 122 \<or> 65 \<le> n \<and> n \<le> 90)"

definition alnum :: "char \<Rightarrow> bool" where
  "alnum c \<longleftrightarrow> c = CHR ''_'' \<or> is_digit c \<or> letter c"

text \<open>The name after a dollar sign and how many bytes it takes; the text is not empty.\<close>

definition getShellName :: "string \<Rightarrow> string \<times> nat" where
  "getShellName s =
     (case s of
        [] \<Rightarrow> ([], 0)
      | c # t \<Rightarrow>
          if c = CHR ''{''
          then (if length s > 2 \<and> special_var (s ! 1) \<and> s ! 2 = CHR ''}'' then ([s ! 1], 3)
                else if CHR ''}'' \<in> set t
                then (let n = takeWhile (\<lambda>d. d \<noteq> CHR ''}'') t in if n = [] then ([], 2) else (n, length n + 2))
                else ([], 1))
          else if special_var c then ([c], 1)
          else (let n = takeWhile alnum s in (n, length n)))"

text \<open>The names for which the mapping is called, in order, and the result for a mapping.\<close>

function shell_names :: "string \<Rightarrow> string list" where
  "shell_names [] = []"
| "shell_names (c # s) =
     (if c = CHR ''$'' \<and> s \<noteq> []
      then let (n, w) = getShellName s in (if n = [] then [] else [n]) @ shell_names (drop w s)
      else shell_names s)"
  by pat_completeness auto
termination by (relation "measure length") auto

function expand :: "(string \<Rightarrow> string) \<Rightarrow> string \<Rightarrow> string" where
  "expand f [] = []"
| "expand f (c # s) =
     (if c = CHR ''$'' \<and> s \<noteq> []
      then let (n, w) = getShellName s
           in (if n = [] then (if w > 0 then [] else [c]) else f n) @ expand f (drop w s)
      else c # expand f s)"
  by pat_completeness auto
termination by (relation "measure (length \<circ> snd)") auto

definition safe_char :: "char \<Rightarrow> bool" where
  "safe_char c \<longleftrightarrow> letter c \<or> is_digit c \<or>
     c \<in> set ''._:/-''"

definition safe_value :: "string \<Rightarrow> bool" where
  "safe_value v \<longleftrightarrow> list_all safe_char v"

section \<open>Safety\<close>

text \<open>A name and the bytes it is read from: its unsafe bytes are among those.\<close>

lemma getShellName_subseq: "subseq (fst (getShellName s)) (take (snd (getShellName s)) s)"
proof (cases s)
  case (Cons c t)
  have t: "take (length (takeWhile Q u)) u = takeWhile Q u" for Q :: "char \<Rightarrow> bool" and u
    by (simp add: takeWhile_eq_take [symmetric])
  show ?thesis
  proof (cases "c = CHR ''{''")
    case True
    consider "length s > 2" "special_var (s ! 1)" "s ! 2 = CHR ''}''" | "CHR ''}'' \<in> set t"
        "\<not> (length s > 2 \<and> special_var (s ! 1) \<and> s ! 2 = CHR ''}'')"
      | "CHR ''}'' \<notin> set t" "\<not> (length s > 2 \<and> special_var (s ! 1) \<and> s ! 2 = CHR ''}'')" by blast
    then show ?thesis
    proof cases
      case 1
      then have "take 3 s ! 1 \<in> set (take 3 s)" by (intro nth_mem) simp
      then have m: "s ! 1 \<in> set (take 3 s)" by simp
      have "getShellName s = ([s ! 1], 3)" using 1 True Cons by (simp add: getShellName_def)
      then show ?thesis using m by (simp add: subseq_singleton_left)
    next
      case 2
      have "subseq (takeWhile (\<lambda>d. d \<noteq> CHR ''}'') t) (take (length (takeWhile (\<lambda>d. d \<noteq> CHR ''}'') t) + 1) t)"
        by (metis t le_add1 prefix_imp_subseq take_is_prefix take_take min.absorb1 prefix_def)
      then show ?thesis using 2 True Cons by (auto simp: getShellName_def Let_def)
    qed (use True Cons in \<open>auto simp: getShellName_def\<close>)
  next
    case False
    then show ?thesis using Cons by (auto simp: getShellName_def Let_def t)
  qed
qed (simp add: getShellName_def)

lemma expand_subseq:
  assumes "\<And>n. n \<in> set (shell_names s) \<Longrightarrow> subseq (filter Q (f n)) (filter Q (CHR ''$'' # n))"
  shows "subseq (filter Q (expand f s)) (filter Q s)"
  using assms
proof (induction f s rule: expand.induct)
  case (2 f c s)
  show ?case
  proof (cases "c = CHR ''$'' \<and> s \<noteq> []")
    case True
    obtain n w where nw: "getShellName s = (n, w)" by fastforce
    let ?h = "if n = [] then (if w > 0 then [] else [c]) else f n"
    have names: "shell_names (c # s) = (if n = [] then [] else [n]) @ shell_names (drop w s)"
      using True nw by simp
    have "subseq n (take w s)" using getShellName_subseq [of s] nw by simp
    then have "subseq (CHR ''$'' # n) (c # take w s)" using True by simp
    then have take: "subseq (filter Q (CHR ''$'' # n)) (filter Q (c # take w s))" by (rule subseq_filter)
    have head: "subseq (filter Q ?h) (filter Q (c # take w s))"
    proof (cases "n = []")
      case False
      then have "subseq (filter Q (f n)) (filter Q (CHR ''$'' # n))" using 2(3) [of n] names by simp
      with take False show ?thesis using subseq_order.trans by fastforce
    qed auto
    have rest: "subseq (filter Q (expand f (drop w s))) (filter Q (drop w s))"
      using 2(1) [OF True nw [symmetric] refl] 2(3) names by auto
    have "expand f (c # s) = ?h @ expand f (drop w s)" using True nw by simp
    moreover have "filter Q (c # s) = filter Q (c # take w s) @ filter Q (drop w s)"
      by (simp flip: filter_append)
    ultimately show ?thesis using list_emb_append_mono [OF head rest] by simp
  next
    case False
    then show ?thesis using 2(2,3) by auto
  qed
qed simp

end
