(* ===== verification/App_Run.thy ===== *)
theory App_Run
  imports App_Panel Shell_Expand
begin

text \<open>
  The commands that the user binds to a key in the configuration, from
  \<^verbatim>\<open>internal/app/commands.go\<close>: a shell command in which variables stand for the selected
  object. The shell that runs it is not modelled.
\<close>

section \<open>The variables of a command\<close>

definition api_version :: "gvr \<Rightarrow> string" where
  "api_version g = (if fst g = '''' then fst (snd g) else fst g @ ''/'' @ fst (snd g))"

text \<open>The value of a variable, or nothing for a name the program does not know.\<close>

definition run_value :: "('v, 't, 'w) app_env \<Rightarrow> 'v resource_list \<Rightarrow> k8s_obj \<Rightarrow> string \<Rightarrow> string option" where
  "run_value P r sel key =
     (let g = p_GVR (rl_plugin r)
      in if key = ''NAME'' then Some (o_name sel)
         else if key = ''NAMESPACE'' then Some (o_namespace sel)
         else if key = ''KIND'' then Some (snd (snd g))
         else if key = ''APIVERSION'' then Some (api_version g)
         else if key = ''PARENT''
         then Some (if p_Name (rl_plugin r) = ''containers'' then resolvePodName P r sel else '''')
         else None)"

definition unsafe_var :: "('v, 't, 'w) app_env \<Rightarrow> 'v resource_list \<Rightarrow> k8s_obj \<Rightarrow> string \<Rightarrow> bool" where
  "unsafe_var P r sel key \<longleftrightarrow> (case run_value P r sel key of None \<Rightarrow> False | Some v \<Rightarrow> \<not> safe_value v)"

definition var_text :: "('v, 't, 'w) app_env \<Rightarrow> 'v resource_list \<Rightarrow> k8s_obj \<Rightarrow> string \<Rightarrow> string" where
  "var_text P r sel key =
     (case run_value P r sel key of None \<Rightarrow> CHR ''$'' # key | Some v \<Rightarrow> if safe_value v then v else '''')"

definition unsafe_error :: "('v, 't, 'w) app_env \<Rightarrow> 'v resource_list \<Rightarrow> k8s_obj \<Rightarrow> string \<Rightarrow> string" where
  "unsafe_error P r sel key =
     ''run: unsafe value for $'' @ key @ '': '' @ ap_quote P (case run_value P r sel key of None \<Rightarrow> '''' | Some v \<Rightarrow> v)"

text \<open>The error of the last variable that failed wins.\<close>

definition substitute :: "('v, 't, 'w) app_env \<Rightarrow> 'v resource_list \<Rightarrow> k8s_obj \<Rightarrow> string \<Rightarrow> string + string" where
  "substitute P r sel cmd =
     (let bad = filter (unsafe_var P r sel) (shell_names cmd)
      in if bad \<noteq> [] then Inl (unsafe_error P r sel (last bad)) else Inr (expand (var_text P r sel) cmd))"

definition substituteVars :: "('v, 't, 'w) app_env \<Rightarrow> string \<Rightarrow> ('v, 't, 'w) app \<Rightarrow> (string + string) go" where
  "substituteVars P cmd a =
     go_bind (focusedSelection a) (\<lambda>s. Inr (case s of None \<Rightarrow> Inr cmd | Some (r, sel) \<Rightarrow> substitute P r sel cmd))"

section \<open>Running\<close>

definition executeRunExpanded :: "string \<Rightarrow> bool \<Rightarrow> ('v, 't, 'w) app \<Rightarrow> ('v, 't, 'w) app" where
  "executeRunExpanded cmd background a = emit (E_Run cmd background) a"

definition executeRun :: "run_config \<Rightarrow> ('v, 't, 'w) app \<Rightarrow> ('v, 't, 'w) app" where
  "executeRun rc a = executeRunExpanded (rc_Command rc) (rc_Background rc) a"

definition open_confirm :: "string \<Rightarrow> ('v, 't, 'w) app \<Rightarrow> ('v, 't, 'w) app" where
  "open_confirm msg a = a\<lparr> a_confirm := msg, a_overlay := OverlayConfirm \<rparr>"

definition handleRunCommand :: "('v, 't, 'w) app_env \<Rightarrow> run_config \<Rightarrow> ('v, 't, 'w) app \<Rightarrow> ('v, 't, 'w) app go" where
  "handleRunCommand P rc a =
     go_bind (focusedSelection a) (\<lambda>s. case s of
       None \<Rightarrow> note_here LevelError ''run: no resource selected'' ''run'' a
     | Some (r, sel) \<Rightarrow>
         (case substitute P r sel (rc_Command rc) of
            Inl e \<Rightarrow> go_bind (contextFor (Some r) a) (\<lambda>ctx. Inr (add_note LevelError e ctx ''run'' a))
          | Inr cmd \<Rightarrow>
              if rc_Confirm rc
              then Inr (open_confirm (''Run: '' @ cmd @ ''?'')
                (a\<lparr> a_pending := (a_pending a)\<lparr> pendingRun := Some \<lparr> rc_Command = cmd, rc_Background = rc_Background rc,
                     rc_Confirm = False \<rparr> \<rparr> \<rparr>))
              else Inr (executeRunExpanded cmd (rc_Background rc) a)))"

section \<open>What a command can become\<close>

text \<open>The characters of a command that the expression does not allow in a value.\<close>

definition shell_syntax :: "string \<Rightarrow> string" where
  "shell_syntax s = filter (\<lambda>c. \<not> safe_char c) s"

lemma shell_syntax_value: "safe_value v \<Longrightarrow> shell_syntax v = []"
  by (simp add: shell_syntax_def safe_value_def list_all_iff filter_empty_conv)

text \<open>C17. Nothing in the name of an object can change what a bound command does: the characters of the
  expanded command that could mean something to the shell are characters of the configured command, in
  their order; and the command is refused exactly when a variable it uses has a value with such a
  character.
\<close>

theorem run_expansion_safe:
  "case substitute P r sel cmd of
     Inr out \<Rightarrow> subseq (shell_syntax out) (shell_syntax cmd) \<and>
       (\<forall>n\<in>set (shell_names cmd). case run_value P r sel n of None \<Rightarrow> True | Some v \<Rightarrow> shell_syntax v = [])
   | Inl e \<Rightarrow> (\<exists>n\<in>set (shell_names cmd). \<exists>v. run_value P r sel n = Some v \<and> shell_syntax v \<noteq> [])"
proof (cases "filter (unsafe_var P r sel) (shell_names cmd)")
  case Nil
  have "subseq (filter (\<lambda>c. \<not> safe_char c) (expand (var_text P r sel) cmd)) (filter (\<lambda>c. \<not> safe_char c) cmd)"
  proof (rule expand_subseq)
    fix n assume "n \<in> set (shell_names cmd)"
    then have "\<not> unsafe_var P r sel n" using Nil by (auto simp: filter_empty_conv)
    then show "subseq (filter (\<lambda>c. \<not> safe_char c) (var_text P r sel n)) (filter (\<lambda>c. \<not> safe_char c) (CHR ''$'' # n))"
      using shell_syntax_value by (auto simp: var_text_def unsafe_var_def shell_syntax_def split: option.splits)
  qed
  moreover have "\<forall>n\<in>set (shell_names cmd). \<not> unsafe_var P r sel n"
    using Nil by (auto simp: filter_empty_conv)
  ultimately show ?thesis
    using Nil shell_syntax_value
    by (auto simp: substitute_def unsafe_var_def shell_syntax_def split: option.splits)
next
  case (Cons n ns)
  then have "n \<in> set (filter (unsafe_var P r sel) (shell_names cmd))" by simp
  then have "n \<in> set (shell_names cmd)" and "unsafe_var P r sel n" by simp_all
  moreover from this(2) obtain v where "run_value P r sel n = Some v" "shell_syntax v \<noteq> []"
    by (auto simp: unsafe_var_def safe_value_def shell_syntax_def filter_empty_conv list_all_iff split: option.splits)
  ultimately show ?thesis
    using Cons by (auto simp: substitute_def)
qed

text \<open>The definition of \<open>expand\<close> on a command, for evaluation.\<close>

lemmas expand_eval = substitute_def getShellName_def special_var_def alnum_def letter_def is_digit_def
  unsafe_var_def var_text_def run_value_def

text \<open>
  A variable of the shell in braces is damaged on the way: a name that is not one of the program's
  is put back without its braces, so it runs into the text that follows it and the shell reads another
  variable.
\<close>

theorem run_braces_lost:
  "substitute P r sel ''cp ${HOME}dir $NAMESPACE'' =
     (if safe_value (o_namespace sel) then Inr (''cp $HOMEdir '' @ o_namespace sel)
      else Inl (unsafe_error P r sel ''NAMESPACE'')) \<and>
   substitute P r sel ''echo ${USER:-root}'' = Inr ''echo $USER:-root''"
  by (simp add: expand_eval)

end
