(* ===== verification/App_Actions.thy ===== *)
theory App_Actions
  imports App_Cluster App_Terminals App_Run
begin

text \<open>
  The actions behind the commands of \<^verbatim>\<open>internal/app/commands.go\<close>: moving the cursor and
  scrolling whatever has the focus, searching, moving between panes and panel, following objects to
  their parents and children, and the questions asked before something is deleted or restarted.
\<close>

section \<open>What has the focus\<close>

definition panel_active :: "('v, 't) layout \<Rightarrow> bool" where
  "panel_active l \<longleftrightarrow> focusTarget l = FocusTargetDetails \<and> rightVisible l"

definition detail_go ::
  "('v detail_view \<Rightarrow> 'v detail_view) \<Rightarrow> (log_view \<Rightarrow> log_view go) \<Rightarrow> ('v, 't) layout \<Rightarrow> ('v, 't) layout go" where
  "detail_go f g l =
     (if logMode l then go_bind (g (logView l)) (\<lambda>lv. Inr (l\<lparr> logView := lv \<rparr>))
      else Inr (l\<lparr> rightPanel := f (rightPanel l) \<rparr>))"

abbreviation view_of :: "('v, 't, 'w) app_env \<Rightarrow> 'v view_api" where
  "view_of P \<equiv> ye_view (ap_layout P)"

abbreviation text_of :: "('v, 't, 'w) app_env \<Rightarrow> text_api" where
  "text_of P \<equiv> tui_text (view_of P)"

text \<open>An action on the panel or on the focused list; \<open>after\<close> is what the second case goes on with.\<close>

definition panel_or_list ::
  "(('v, 't) layout \<Rightarrow> ('v, 't) layout go) \<Rightarrow> ('v resource_list \<Rightarrow> bool) \<Rightarrow> ('v resource_list \<Rightarrow> 'v resource_list) \<Rightarrow>
   (('v, 't, 'w) app \<Rightarrow> ('v, 't, 'w) app go) \<Rightarrow> ('v, 't, 'w) app \<Rightarrow> ('v, 't, 'w) app go" where
  "panel_or_list f C g after a =
     (if panel_active (a_layout a) then on_layout f a
      else for_focused (\<lambda>i r a. if C r then steps [upd_list i g, after] a else Inr a) a)"

definition cursor_up :: "('v, 't, 'w) app_env \<Rightarrow> ('v, 't, 'w) app \<Rightarrow> ('v, 't, 'w) app go" where
  "cursor_up P a =
     panel_or_list (detail_go (dv_ScrollUp (view_of P)) (lv_ScrollUp (text_of P)))
       (\<lambda>r. t_cursor (rl_table r) \<noteq> 0) (CursorUp (list_env_of P)) (refreshDetailPanelOrLog P) a"

definition cursor_down :: "('v, 't, 'w) app_env \<Rightarrow> ('v, 't, 'w) app \<Rightarrow> ('v, 't, 'w) app go" where
  "cursor_down P a =
     panel_or_list (detail_go (dv_ScrollDown (view_of P)) (lv_ScrollDown (text_of P)))
       (\<lambda>r. t_cursor (rl_table r) \<noteq> rl_Len r - 1) (CursorDown (list_env_of P)) (refreshDetailPanelOrLog P) a"

definition cursor_top :: "('v, 't, 'w) app_env \<Rightarrow> ('v, 't, 'w) app \<Rightarrow> ('v, 't, 'w) app go" where
  "cursor_top P a =
     panel_or_list (detail_go (dv_GotoTop (view_of P)) (lv_GotoTop (text_of P)))
       (\<lambda>r. True) (rl_GotoTop (list_env_of P)) (refreshDetailPanelOrLog P) a"

definition cursor_bottom :: "('v, 't, 'w) app_env \<Rightarrow> ('v, 't, 'w) app \<Rightarrow> ('v, 't, 'w) app go" where
  "cursor_bottom P a =
     panel_or_list (detail_go (dv_GotoBottom (view_of P)) (lv_GotoBottom (text_of P)))
       (\<lambda>r. True) (rl_GotoBottom (list_env_of P)) (refreshDetailPanelOrLog P) a"

text \<open>Horizontal scrolling does not touch the panel.\<close>

definition scroll_sideways ::
  "('v detail_view \<Rightarrow> 'v detail_view) \<Rightarrow> (log_view \<Rightarrow> log_view) \<Rightarrow> ('v resource_list \<Rightarrow> 'v resource_list) \<Rightarrow>
   ('v, 't, 'w) app \<Rightarrow> ('v, 't, 'w) app go" where
  "scroll_sideways f g h a = panel_or_list (\<lambda>l. Inr (on_detail f g l)) (\<lambda>r. True) h Inr a"

text \<open>Paging also scrolls a terminal.\<close>

definition page ::
  "(('v, 't) layout \<Rightarrow> ('v, 't) layout go) \<Rightarrow> ('t terminal_pane \<Rightarrow> 't terminal_pane) \<Rightarrow>
   ('v resource_list \<Rightarrow> 'v resource_list) \<Rightarrow> ('v, 't, 'w) app_env \<Rightarrow> ('v, 't, 'w) app \<Rightarrow> ('v, 't, 'w) app go" where
  "page f t g P a =
     (if panel_active (a_layout a) then on_layout f a
      else go_bind (FocusedPane (a_layout a)) (\<lambda>p. case p of
          Some (TerminalPane _) \<Rightarrow> on_layout (upd_split (focusIdx (a_layout a)) (on_term t)) a
        | _ \<Rightarrow> for_focused (\<lambda>i r. steps [upd_list i g, refreshDetailPanelOrLog P]) a))"

definition page_down :: "('v, 't, 'w) app_env \<Rightarrow> ('v, 't, 'w) app \<Rightarrow> ('v, 't, 'w) app go" where
  "page_down P a = page (detail_go (dv_PageDown (view_of P)) (lv_PageDown (text_of P)))
     (\<lambda>t. tp_ScrollDown (terminalScrollPageLines t) t) (rl_PageDown (list_env_of P)) P a"

definition page_up :: "('v, 't, 'w) app_env \<Rightarrow> ('v, 't, 'w) app \<Rightarrow> ('v, 't, 'w) app go" where
  "page_up P a = page (detail_go (dv_PageUp (view_of P)) (lv_PageUp (text_of P)))
     (\<lambda>t. tp_ScrollUp (pe_vt (ap_layout P)) (terminalScrollPageLines t) t) (rl_PageUp (list_env_of P)) P a"

definition in_logs :: "(('v, 't) layout \<Rightarrow> ('v, 't) layout go) \<Rightarrow> ('v, 't, 'w) app \<Rightarrow> ('v, 't, 'w) app go" where
  "in_logs f a = (if logMode (a_layout a) then on_layout f a else Inr a)"

definition log_op_go :: "(log_view \<Rightarrow> log_view go) \<Rightarrow> ('v, 't) layout \<Rightarrow> ('v, 't) layout go" where
  "log_op_go g l = go_bind (g (logView l)) (\<lambda>lv. Inr (l\<lparr> logView := lv \<rparr>))"

definition if_panel :: "(('v, 't) layout \<Rightarrow> ('v, 't) layout go) \<Rightarrow> ('v, 't, 'w) app \<Rightarrow> ('v, 't, 'w) app go" where
  "if_panel f a = (if rightVisible (a_layout a) then on_layout f a else Inr a)"

section \<open>Search\<close>

text \<open>The target of a search is the panel if it has the focus, else the focused list.\<close>

definition target_is ::
  "('v detail_view \<Rightarrow> bool) \<Rightarrow> (log_view \<Rightarrow> bool) \<Rightarrow> ('v resource_list \<Rightarrow> bool) \<Rightarrow> ('v, 't, 'w) app \<Rightarrow> bool go" where
  "target_is f g h a =
     (if panel_active (a_layout a)
      then Inr (if logMode (a_layout a) then g (logView (a_layout a)) else f (rightPanel (a_layout a)))
      else with_focused (\<lambda>s a. Inr (case s of None \<Rightarrow> False | Some r \<Rightarrow> h r)) a)"

definition no_target :: "('v, 't, 'w) app \<Rightarrow> bool go" where
  "no_target a = (if panel_active (a_layout a) then Inr False else with_focused (\<lambda>s a. Inr (s = None)) a)"

definition on_target ::
  "('v detail_view \<Rightarrow> 'v detail_view) \<Rightarrow> (log_view \<Rightarrow> log_view go) \<Rightarrow> ('v resource_list \<Rightarrow> 'v resource_list) \<Rightarrow>
   ('v, 't, 'w) app \<Rightarrow> ('v, 't, 'w) app go" where
  "on_target f g h a = panel_or_list (detail_go f g) (\<lambda>r. True) h Inr a"

definition refresh_if_list :: "('v, 't, 'w) app_env \<Rightarrow> ('v, 't, 'w) app \<Rightarrow> ('v, 't, 'w) app go" where
  "refresh_if_list P a =
     (if focusTarget (a_layout a) = FocusTargetResources then refreshDetailPanel P a else Inr a)"

definition search_active :: "('v, 't, 'w) app \<Rightarrow> bool go" where
  "search_active a = target_is dv_SearchActive SearchActive rl_SearchActive a"

definition filter_active :: "('v, 't, 'w) app \<Rightarrow> bool go" where
  "filter_active a = target_is dv_FilterActive FilterActive rl_FilterActive a"

text \<open>Stepping through the matches of the detail view indexes its lines, which may fail.\<close>

definition detail_go2 ::
  "('v detail_view \<Rightarrow> 'v detail_view go) \<Rightarrow> (log_view \<Rightarrow> log_view go) \<Rightarrow> ('v, 't) layout \<Rightarrow> ('v, 't) layout go" where
  "detail_go2 f g l =
     (if logMode l then log_op_go g l else go_bind (f (rightPanel l)) (\<lambda>d. Inr (l\<lparr> rightPanel := d \<rparr>)))"

definition search_next :: "('v, 't, 'w) app_env \<Rightarrow> ('v, 't, 'w) app \<Rightarrow> ('v, 't, 'w) app go" where
  "search_next P a =
     go_bind (search_active a) (\<lambda>b. if \<not> b then Inr a
       else steps [panel_or_list (detail_go2 (dv_SearchNext (view_of P)) (SearchNext (text_of P))) (\<lambda>r. True)
                     (rl_SearchNext (list_env_of P)) Inr, refresh_if_list P] a)"

definition search_prev :: "('v, 't, 'w) app_env \<Rightarrow> ('v, 't, 'w) app \<Rightarrow> ('v, 't, 'w) app go" where
  "search_prev P a =
     go_bind (search_active a) (\<lambda>b. if \<not> b then Inr a
       else steps [panel_or_list (detail_go2 (dv_SearchPrev (view_of P)) (SearchPrev (text_of P))) (\<lambda>r. True)
                     (rl_SearchPrev (list_env_of P)) Inr, refresh_if_list P] a)"

definition clear_search :: "('v, 't, 'w) app_env \<Rightarrow> ('v, 't, 'w) app \<Rightarrow> ('v, 't, 'w) app go" where
  "clear_search P a = on_target (dv_ClearSearch (view_of P)) (ClearSearch (text_of P)) (rl_ClearSearch (list_env_of P)) a"

definition clear_filter :: "('v, 't, 'w) app_env \<Rightarrow> ('v, 't, 'w) app \<Rightarrow> ('v, 't, 'w) app go" where
  "clear_filter P a = on_target (dv_ClearFilter (view_of P)) (ClearFilter (text_of P)) (rl_ClearFilter (list_env_of P)) a"

definition clear_mode :: "('v, 't, 'w) app_env \<Rightarrow> search_mode \<Rightarrow> ('v, 't, 'w) app \<Rightarrow> ('v, 't, 'w) app go" where
  "clear_mode P mode a = (if mode = SearchModeFilter then clear_filter P a else clear_search P a)"

text \<open>The state with the pattern applied to the target, or nothing for a pattern that does not compile.\<close>

definition apply_target ::
  "('v, 't, 'w) app_env \<Rightarrow> string \<Rightarrow> search_mode \<Rightarrow> ('v, 't, 'w) app \<Rightarrow> ('v, 't, 'w) app option go" where
  "apply_target P pattern mode a =
     (let l = a_layout a
      in if panel_active l
         then if logMode l
              then go_bind (ApplySearch (text_of P) pattern mode (logView l)) (\<lambda>res. Inr (case res of
                     Inl e \<Rightarrow> None | Inr lv \<Rightarrow> Some (a\<lparr> a_layout := l\<lparr> logView := lv \<rparr> \<rparr>)))
              else Inr (case dv_ApplySearch (view_of P) pattern mode (rightPanel l) of
                     Inl e \<Rightarrow> None | Inr d \<Rightarrow> Some (a\<lparr> a_layout := l\<lparr> rightPanel := d \<rparr> \<rparr>))
         else with_focused (\<lambda>f a. case f of
             None \<Rightarrow> Inr (Some a)
           | Some r \<Rightarrow> (case rl_ApplySearch (list_env_of P) pattern mode r of
                 Inl e \<Rightarrow> Inr None
               | Inr r1 \<Rightarrow> go_bind (upd_focused (\<lambda>_. r1) a) (\<lambda>a1. Inr (Some a1)))) a)"

definition applySearchToTarget ::
  "('v, 't, 'w) app_env \<Rightarrow> string \<Rightarrow> search_mode \<Rightarrow> ('v, 't, 'w) app \<Rightarrow> ('v, 't, 'w) app go" where
  "applySearchToTarget P pattern mode a =
     go_bind (apply_target P pattern mode a) (\<lambda>res. case res of
       None \<Rightarrow> note_here LevelError (''invalid regex: '' @ ap_regexError P pattern) ''search'' a
     | Some a1 \<Rightarrow> refresh_if_list P a1)"

definition handleSearchSubmitted ::
  "('v, 't, 'w) app_env \<Rightarrow> string \<Rightarrow> search_mode \<Rightarrow> ('v, 't, 'w) app \<Rightarrow> ('v, 't, 'w) app go" where
  "handleSearchSubmitted P pattern mode a =
     go_bind (no_target a) (\<lambda>n. if n then note_here LevelError ''no active panel to search'' ''search'' a
       else applySearchToTarget P pattern mode a)"

definition handleSearchApply ::
  "('v, 't, 'w) app_env \<Rightarrow> 64 word \<Rightarrow> string \<Rightarrow> search_mode \<Rightarrow> ('v, 't, 'w) app \<Rightarrow> ('v, 't, 'w) app go" where
  "handleSearchApply P seq pattern mode a =
     (if seq \<noteq> a_searchApplySeq a then Inr a
      else go_bind (no_target a) (\<lambda>n. if n then Inr a else applySearchToTarget P pattern mode a))"

definition bump_search :: "('v, 't, 'w) app \<Rightarrow> ('v, 't, 'w) app" where
  "bump_search a = a\<lparr> a_searchApplySeq := a_searchApplySeq a + 1 \<rparr>"

definition handleSearchChanged ::
  "('v, 't, 'w) app_env \<Rightarrow> string \<Rightarrow> search_mode \<Rightarrow> ('v, 't, 'w) app \<Rightarrow> ('v, 't, 'w) app go" where
  "handleSearchChanged P pattern mode a =
     go_bind (no_target a) (\<lambda>n.
       if n then Inr a
       else if pattern = '''' then steps [clear_mode P mode, refresh_if_list P] (bump_search a)
       else let a1 = bump_search a in Inr (emit (E_SearchApply (a_searchApplySeq a1) pattern mode) a1))"

definition handleSearchCleared :: "('v, 't, 'w) app_env \<Rightarrow> search_mode \<Rightarrow> ('v, 't, 'w) app \<Rightarrow> ('v, 't, 'w) app go" where
  "handleSearchCleared P mode a =
     go_bind (no_target a) (\<lambda>n. if n then Inr a else steps [clear_mode P mode, refresh_if_list P] a)"

end
