(* ===== verification/App_Commands.thy ===== *)
theory App_Commands
  imports App_Actions
begin

text \<open>
  \<open>executeCommand\<close> of \<^verbatim>\<open>internal/app/commands.go\<close>, which a key, a click or a
  plugin leads to: the commands that move the focus, drill down and up, clear, zoom, close and quit,
  those that ask before they act, and the dispatch on the name of the command.
\<close>

section \<open>Focus and zoom\<close>

definition focus_resources :: "('v, 't, 'w) app_env \<Rightarrow> ('v, 't, 'w) app \<Rightarrow> ('v, 't, 'w) app go" where
  "focus_resources P a = on_layout (FocusResources (ap_layout P)) a"

text \<open>Leaving the panel: a zoomed panel is only made small again.\<close>

definition exit_detail :: "('v, 't, 'w) app_env \<Rightarrow> ('v, 't, 'w) app \<Rightarrow> ('v, 't, 'w) app go" where
  "exit_detail P a =
     (if detailZoomed (a_layout a) then steps [on_layout (ToggleZoomDetail (ap_layout P)), pure_step (syncIndicators P)] a
      else steps [pure_step clear_env, focus_resources P, pure_step reset_trie, sync_hints] a)"

definition exit_if_detail :: "('v, 't, 'w) app_env \<Rightarrow> ('v, 't, 'w) app \<Rightarrow> ('v, 't, 'w) app go" where
  "exit_if_detail P a = (if focusTarget (a_layout a) = FocusTargetDetails then exit_detail P a else Inr a)"

definition enter_panel :: "('v, 't, 'w) app_env \<Rightarrow> ('v, 't, 'w) app \<Rightarrow> ('v, 't, 'w) app go" where
  "enter_panel P a =
     with_focused (\<lambda>f a.
       if f \<noteq> None \<and> focusTarget (a_layout a) = FocusTargetResources \<and> rightVisible (a_layout a)
       then focus_details_hints P a else Inr a) a"

definition focus_move ::
  "('v, 't, 'w) app_env \<Rightarrow> (('v, 't) layout \<Rightarrow> ('v, 't) layout go) \<Rightarrow> ('v, 't, 'w) app \<Rightarrow> ('v, 't, 'w) app go" where
  "focus_move P f a =
     steps [pure_step reset_trie, on_layout f, syncStatusBarContext, refreshDetailPanel P, syncLogPanel P, sync_hints] a"

definition by_axis :: "(('v, 't, 'w) app \<Rightarrow> ('v, 't, 'w) app go) \<Rightarrow> (('v, 't, 'w) app \<Rightarrow> ('v, 't, 'w) app go) \<Rightarrow>
    ('v, 't, 'w) app \<Rightarrow> ('v, 't, 'w) app go" where
  "by_axis vertical horizontal a =
     (if ly_orientation (a_layout a) = OrientationVertical then vertical a else horizontal a)"

definition focus_left :: "('v, 't, 'w) app_env \<Rightarrow> ('v, 't, 'w) app \<Rightarrow> ('v, 't, 'w) app go" where
  "focus_left P a = by_axis (exit_if_detail P) (focus_move P (FocusPrev (ap_layout P))) a"

definition focus_right :: "('v, 't, 'w) app_env \<Rightarrow> ('v, 't, 'w) app \<Rightarrow> ('v, 't, 'w) app go" where
  "focus_right P a = by_axis (enter_panel P) (focus_move P (FocusNext (ap_layout P))) a"

definition focus_up :: "('v, 't, 'w) app_env \<Rightarrow> ('v, 't, 'w) app \<Rightarrow> ('v, 't, 'w) app go" where
  "focus_up P a = by_axis (focus_move P (FocusPrev (ap_layout P))) (exit_if_detail P) a"

definition focus_down :: "('v, 't, 'w) app_env \<Rightarrow> ('v, 't, 'w) app \<Rightarrow> ('v, 't, 'w) app go" where
  "focus_down P a = by_axis (focus_move P (FocusNext (ap_layout P))) (enter_panel P) a"

definition move_pane :: "('v, 't, 'w) app_env \<Rightarrow> orientation \<Rightarrow> int \<Rightarrow> ('v, 't, 'w) app \<Rightarrow> ('v, 't, 'w) app go" where
  "move_pane P axis delta a =
     steps [(\<lambda>a. if ly_orientation (a_layout a) = axis then on_layout (MoveFocusedSplit (ap_layout P) delta) a else Inr a),
       pure_step reset_trie, pure_step syncTerminalSizes] a"

definition toggle_orientation :: "('v, 't, 'w) app_env \<Rightarrow> ('v, 't, 'w) app \<Rightarrow> ('v, 't, 'w) app go" where
  "toggle_orientation P a = steps [on_layout (ToggleOrientation (ap_layout P)), pure_step syncTerminalSizes] a"

definition toggle_panel_focus :: "('v, 't, 'w) app_env \<Rightarrow> ('v, 't, 'w) app \<Rightarrow> ('v, 't, 'w) app go" where
  "toggle_panel_focus P a =
     (if focusTarget (a_layout a) = FocusTargetDetails then exit_detail P a
      else with_focused (\<lambda>f a. if f \<noteq> None \<and> rightVisible (a_layout a) then focus_details_hints P a else Inr a) a)"

definition toggleZoomDetailAndSync :: "('v, 't, 'w) app_env \<Rightarrow> ('v, 't, 'w) app \<Rightarrow> ('v, 't, 'w) app go" where
  "toggleZoomDetailAndSync P a = steps [on_layout (ToggleZoomDetail (ap_layout P)), pure_step (syncIndicators P)] a"

definition toggleZoomSplitAndSync :: "('v, 't, 'w) app_env \<Rightarrow> ('v, 't, 'w) app \<Rightarrow> ('v, 't, 'w) app go" where
  "toggleZoomSplitAndSync P a =
     steps [on_layout (ToggleZoomSplit (ap_layout P)), pure_step (syncIndicators P), pure_step syncTerminalSizes] a"

definition toggle_zoom :: "('v, 't, 'w) app_env \<Rightarrow> ('v, 't, 'w) app \<Rightarrow> ('v, 't, 'w) app go" where
  "toggle_zoom P a =
     (if focusTarget (a_layout a) = FocusTargetDetails then toggleZoomDetailAndSync P a else toggleZoomSplitAndSync P a)"

section \<open>Drilling\<close>

definition push_nav ::
  "('v, 't, 'w) app_env \<Rightarrow> nav_direction \<Rightarrow> rplugin \<Rightarrow> k8s_obj list \<Rightarrow> k8s_obj \<Rightarrow> ('v, 't, 'w) app \<Rightarrow> ('v, 't, 'w) app go" where
  "push_nav P dir child objs sel a =
     steps [upd_focused (PushNav (list_env_of P) child objs (o_name sel) (o_uid sel) (ap_APIVersion P sel) (o_kind sel) dir),
       (\<lambda>a. if rightVisible (a_layout a) then focus_resources P a else Inr a),
       refreshDetailPanelOrLog P, pure_step (\<lambda>a. clear_env (reset_trie a)), sync_hints] a"

text \<open>The selection goes to the plugin's drill; \<open>k\<close> goes on with what it gives.\<close>

definition drill_children ::
  "('v, 't, 'w) app_env \<Rightarrow> ('v resource_list \<Rightarrow> rplugin \<Rightarrow> k8s_obj list \<Rightarrow> k8s_obj \<Rightarrow> ('v, 't, 'w) app \<Rightarrow> ('v, 't, 'w) app go) \<Rightarrow>
   (('v, 't, 'w) app \<Rightarrow> ('v, 't, 'w) app go) \<Rightarrow> 'v resource_list \<Rightarrow> k8s_obj \<Rightarrow> ('v, 't, 'w) app \<Rightarrow> ('v, 't, 'w) app go" where
  "drill_children P k none r sel a =
     (case ap_DrillDown P (rl_plugin r) of
        None \<Rightarrow> none a
      | Some f \<Rightarrow>
          (let (m, res) = f (rl_context r) sel (a_mgr a); a1 = a\<lparr> a_mgr := m \<rparr>
           in case res of None \<Rightarrow> Inr a1 | Some (child, objs) \<Rightarrow> k r child objs sel a1))"

definition drill_single ::
  "(rplugin \<Rightarrow> (string \<Rightarrow> k8s_obj \<Rightarrow> manager \<Rightarrow> manager \<times> (rplugin \<times> k8s_obj option) option) option) \<Rightarrow>
   ('v resource_list \<Rightarrow> rplugin \<Rightarrow> k8s_obj list \<Rightarrow> k8s_obj \<Rightarrow> ('v, 't, 'w) app \<Rightarrow> ('v, 't, 'w) app go) \<Rightarrow>
   'v resource_list \<Rightarrow> k8s_obj \<Rightarrow> ('v, 't, 'w) app \<Rightarrow> ('v, 't, 'w) app go" where
  "drill_single F k r sel a =
     (case F (rl_plugin r) of
        None \<Rightarrow> Inr a
      | Some f \<Rightarrow>
          (let (m, res) = f (rl_context r) sel (a_mgr a); a1 = a\<lparr> a_mgr := m \<rparr>
           in case res of
                None \<Rightarrow> Inr a1
              | Some (p, o1) \<Rightarrow> k r p (case o1 of Some x \<Rightarrow> [x] | None \<Rightarrow> []) sel a1))"

definition with_selection ::
  "('v resource_list \<Rightarrow> k8s_obj \<Rightarrow> ('v, 't, 'w) app \<Rightarrow> ('v, 't, 'w) app go) \<Rightarrow> ('v, 't, 'w) app \<Rightarrow> ('v, 't, 'w) app go" where
  "with_selection k a = go_bind (focusedSelection a) (\<lambda>s. case s of None \<Rightarrow> Inr a | Some (r, sel) \<Rightarrow> k r sel a)"

definition split_children :: "('v, 't, 'w) app_env \<Rightarrow> ('v, 't, 'w) app \<Rightarrow> ('v, 't, 'w) app go" where
  "split_children P a =
     with_selection (drill_children P (\<lambda>r p objs sel. openDrilledSplit P r p objs sel NavChild) Inr) a"

definition split_parent :: "('v, 't, 'w) app_env \<Rightarrow> ('v, 't, 'w) app \<Rightarrow> ('v, 't, 'w) app go" where
  "split_parent P a =
     with_selection (drill_single (ap_DrillUp P) (\<lambda>r p objs sel. openDrilledSplit P r p objs sel NavParent)) a"

definition split_nav_node :: "('v, 't, 'w) app_env \<Rightarrow> ('v, 't, 'w) app \<Rightarrow> ('v, 't, 'w) app go" where
  "split_nav_node P a =
     with_selection (drill_single (ap_GoToNode P) (\<lambda>r p objs sel. openDrilledSplit P r p objs sel NavNode)) a"

definition nav_parent :: "('v, 't, 'w) app_env \<Rightarrow> ('v, 't, 'w) app \<Rightarrow> ('v, 't, 'w) app go" where
  "nav_parent P a = with_selection (drill_single (ap_DrillUp P) (\<lambda>r. push_nav P NavParent)) a"

definition nav_node :: "('v, 't, 'w) app_env \<Rightarrow> ('v, 't, 'w) app \<Rightarrow> ('v, 't, 'w) app go" where
  "nav_node P a = with_selection (drill_single (ap_GoToNode P) (\<lambda>r. push_nav P NavNode)) a"

text \<open>What a plugin maps Enter to, and what Enter does when it maps it to nothing.\<close>

definition enter_command :: "('v, 't, 'w) app_env \<Rightarrow> ('v, 't, 'w) app \<Rightarrow> string option go" where
  "enter_command P a =
     go_bind (focusedSelection a) (\<lambda>s. Inr (case s of None \<Rightarrow> None | Some (r, sel) \<Rightarrow> ap_Command P (rl_plugin r) sel))"

definition enter_detail :: "('v, 't, 'w) app_env \<Rightarrow> ('v, 't, 'w) app \<Rightarrow> ('v, 't, 'w) app go" where
  "enter_detail P a =
     for_focused (\<lambda>i r a. case rl_Selected r of
       None \<Rightarrow> enter_panel P a
     | Some sel \<Rightarrow>
         (case ap_GoTo P (rl_plugin r) sel of
            Some (res, ns) \<Rightarrow> handleGoto P res ns a
          | None \<Rightarrow> drill_children P (\<lambda>r. push_nav P NavChild) (enter_panel P) r sel a)) a"

section \<open>Clearing\<close>

definition self_populate ::
  "('v, 't, 'w) app_env \<Rightarrow> int \<Rightarrow> 'v resource_list \<Rightarrow> ('v, 't, 'w) app \<Rightarrow> ('v, 't, 'w) app go" where
  "self_populate P i r a =
     (let w = (case ap_Refresh P (rl_plugin r) of None \<Rightarrow> a_plugins a
               | Some f \<Rightarrow> f (EffectiveNamespace r) (a_plugins a));
          a1 = a\<lparr> a_plugins := w \<rparr>
      in case plugin_objects P a1 (rl_plugin r) of None \<Rightarrow> Inr a1 | Some objs \<Rightarrow> upd_list i (SetObjects (list_env_of P) objs) a1)"

definition self_populating :: "('v, 't, 'w) app_env \<Rightarrow> rplugin \<Rightarrow> ('v, 't, 'w) app \<Rightarrow> bool" where
  "self_populating P p a \<longleftrightarrow> plugin_objects P a p \<noteq> None"

text \<open>The objects of a pane that went back one frame; both parts may apply.\<close>

definition after_pop :: "('v, 't, 'w) app_env \<Rightarrow> int \<Rightarrow> 'v resource_list \<Rightarrow> ('v, 't, 'w) app \<Rightarrow> ('v, 't, 'w) app go" where
  "after_pop P i r a =
     go_bind (case store_of (rl_context r) (a_mgr a) of
         None \<Rightarrow> Inr a
       | Some s \<Rightarrow>
           if InDrillDown r
           then (if self_populating P (rl_plugin r) a then self_populate P i r a else refreshDrillDownSplit P i r a)
           else if fst (p_GVR (rl_plugin r)) \<noteq> ''_ktui''
           then upd_list i (SetObjects (list_env_of P) (st_List (p_GVR (rl_plugin r)) (EffectiveNamespace r) s)) a
           else Inr a)
       (\<lambda>a1. if self_populating P (rl_plugin r) a1 \<and> \<not> InDrillDown r then self_populate P i r a1 else Inr a1)"

definition pop_drill :: "('v, 't, 'w) app_env \<Rightarrow> ('v, 't, 'w) app \<Rightarrow> ('v, 't, 'w) app go" where
  "pop_drill P a =
     for_focused (\<lambda>i r.
       steps [upd_list i (\<lambda>r. fst (PopNav (list_env_of P) r)), after_pop P i (fst (PopNav (list_env_of P) r)),
         (\<lambda>a. if rightVisible (a_layout a) then focus_resources P a else Inr a),
         refreshDetailPanelOrLog P, pure_step (\<lambda>a. clear_env (reset_trie a)), sync_hints]) a"

definition clear_overlay :: "('v, 't, 'w) app_env \<Rightarrow> ('v, 't, 'w) app \<Rightarrow> ('v, 't, 'w) app go" where
  "clear_overlay P a =
     with_focused (\<lambda>f a.
       if (case f of Some r \<Rightarrow> HasSelection r | None \<Rightarrow> False) then upd_focused (ClearSelection (list_env_of P)) a
       else go_bind (search_active a) (\<lambda>s.
         if s then steps [clear_search P, refresh_if_list P] a
         else go_bind (filter_active a) (\<lambda>t.
           if t then steps [clear_filter P, refresh_if_list P] a
           else if focusTarget (a_layout a) = FocusTargetDetails then exit_detail P a
           else if (case f of Some r \<Rightarrow> rl_Depth r > navFloor r | None \<Rightarrow> False) then pop_drill P a
           else if splitZoomed (a_layout a) then toggleZoomSplitAndSync P a
           else Inr a))) a"

section \<open>Closing\<close>

definition close_pane :: "('v, 't, 'w) app_env \<Rightarrow> ('v, 't, 'w) app \<Rightarrow> ('v, 't, 'w) app go" where
  "close_pane P a = steps [closeFocusedSplit P, sync_hints] a"

definition close_current_panel :: "('v, 't, 'w) app_env \<Rightarrow> ('v, 't, 'w) app \<Rightarrow> ('v, 't, 'w) app go" where
  "close_current_panel P a =
     (if panel_active (a_layout a) then closeRightPanel P a
      else if length (splits (a_layout a)) > 1 then close_pane P a else Inr a)"

definition quit :: "('v, 't, 'w) app_env \<Rightarrow> ('v, 't, 'w) app \<Rightarrow> ('v, 't, 'w) app go" where
  "quit P a =
     (if detailZoomed (a_layout a) then toggleZoomDetailAndSync P a
      else if splitZoomed (a_layout a) then toggleZoomSplitAndSync P a
      else if rightVisible (a_layout a) then closeRightPanel P a
      else if length (splits (a_layout a)) > 1 then close_pane P a
      else Inr (emit E_Quit (shutdownTerminals (stopLogStream a))))"

end
