(* ===== verification/App_Forms.thy ===== *)
theory App_Forms
  imports App_Commands
begin

text \<open>
  The commands of \<^verbatim>\<open>internal/app/commands.go\<close> that open a form or hand a text to another
  program, the handlers of what the forms ask for, and the packages \<^verbatim>\<open>internal/logs\<close> and
  \<^verbatim>\<open>internal/clipboard\<close> that they use. Writing a file is a parameter that gives the
  error, if any; the fields of a form are kept by its component, modelled in \<^verbatim>\<open>Forms\<close>.
\<close>

section \<open>Texts\<close>

text \<open>\<open>strings.Join\<close> and \<open>strings.ReplaceAll\<close> for a pattern of one or two characters.\<close>

fun join_with :: "string \<Rightarrow> string list \<Rightarrow> string" where
  "join_with sep [] = ''''"
| "join_with sep [x] = x"
| "join_with sep (x # y # xs) = x @ sep @ join_with sep (y # xs)"

fun replace_dots :: "string \<Rightarrow> string" where
  "replace_dots (c # d # s) = (if c = CHR ''.'' \<and> d = CHR ''.'' then ''__'' @ replace_dots s else c # replace_dots (d # s))"
| "replace_dots s = s"

definition sanitize :: "string \<Rightarrow> string" where
  "sanitize seg = replace_dots (map (\<lambda>c. if c = CHR ''/'' then CHR ''_'' else c) seg)"

text \<open>
  \<open>filepath.Join\<close> of the clean directory \<open>base\<close>, \<^verbatim>\<open>aku/logs\<close>, the cluster and the
  file: an empty element and the element \<^verbatim>\<open>.\<close> disappear.
\<close>

definition BuildPath :: "string + string \<Rightarrow> string \<Rightarrow> string \<Rightarrow> string \<Rightarrow> string \<Rightarrow> string \<Rightarrow> string + string" where
  "BuildPath stateDir cluster ns pod container stamp =
     (case stateDir of
        Inl e \<Rightarrow> Inl (''resolve home dir: '' @ e)
      | Inr base \<Rightarrow>
          (let dir = sanitize cluster;
               name = sanitize ns @ ''-'' @ sanitize pod @ ''-'' @ sanitize container @ ''-'' @ stamp @ ''.log''
           in Inr (base @ ''/aku/logs/'' @ (if dir = '''' \<or> dir = ''.'' then '''' else dir @ ''/'') @ name)))"

definition log_text :: "string list \<Rightarrow> string" where
  "log_text ls = concat (map (\<lambda>l. l @ newline) ls)"

definition JoinNames :: "k8s_obj list \<Rightarrow> string" where
  "JoinNames objs = join_with newline (map o_name objs)"

definition trim_right :: "string \<Rightarrow> string" where
  "trim_right s = rev (dropWhile (\<lambda>c. c \<in> {CHR 0x0A, CHR '' '', CHR 0x09}) (rev s))"

definition trim_doc :: "string \<Rightarrow> string" where
  "trim_doc doc0 =
     (let doc = trim_right doc0
      in if prefix (''---'' @ newline) doc then drop 4 doc else if doc = ''---'' then '''' else doc)"

definition JoinYAML :: "string list \<Rightarrow> string" where
  "JoinYAML docs = join_with (newline @ ''---'' @ newline) (map trim_doc docs)"

section \<open>Saving the log\<close>

definition currentLogContext ::
  "('v, 't, 'w) app \<Rightarrow> (string \<times> string \<times> string \<times> string \<times> string list) option go" where
  "currentLogContext a =
     (let lv = logView (a_layout a); ls = RawLines lv
      in if ls = [] \<or> lv_namespace lv = '''' \<or> podName lv = '''' \<or> activeContainer lv = '''' then Inr None
         else go_bind (clusterForFocused a) (\<lambda>cl.
           Inr (Some (case cl of Some c \<Rightarrow> if c_context c \<noteq> '''' then c_context c else ''unknown-cluster'' | None \<Rightarrow> ''unknown-cluster'',
             lv_namespace lv, podName lv, activeContainer lv, ls))))"

text \<open>The path and the number of lines, or nothing after a note.\<close>

definition saveLogBuffer ::
  "('v, 't, 'w) app_env \<Rightarrow> string \<Rightarrow> ('v, 't, 'w) app \<Rightarrow> (('v, 't, 'w) app \<times> (string \<times> nat) option) go" where
  "saveLogBuffer P tag a =
     (let failed = (\<lambda>msg. go_bind (note_here LevelError msg tag a) (\<lambda>a1. Inr (a1, None)))
      in go_bind (currentLogContext a) (\<lambda>c. case c of
           None \<Rightarrow> failed ''No log lines to save''
         | Some (cluster, ns, pod, container, ls) \<Rightarrow>
             (case BuildPath (ap_stateDir P) cluster ns pod container (ap_stamp P (a_clock a)) of
                Inl e \<Rightarrow> failed (''Save failed: '' @ e)
              | Inr path \<Rightarrow> (case ap_write P path (log_text ls) of
                    Some e \<Rightarrow> failed (''Save failed: '' @ e)
                  | None \<Rightarrow> Inr (a, Some (path, length ls))))))"

definition arrow :: string where "arrow = [CHR '' '', CHR 0xE2, CHR 0x86, CHR 0x92, CHR '' '']"

definition with_saved ::
  "('v, 't, 'w) app_env \<Rightarrow> string \<Rightarrow> (string \<Rightarrow> nat \<Rightarrow> ('v, 't, 'w) app \<Rightarrow> ('v, 't, 'w) app go) \<Rightarrow>
   ('v, 't, 'w) app \<Rightarrow> ('v, 't, 'w) app go" where
  "with_saved P tag k a =
     go_bind (saveLogBuffer P tag a) (\<lambda>(a1, res). case res of None \<Rightarrow> Inr a1 | Some (path, n) \<Rightarrow> k path n a1)"

definition save_logs :: "('v, 't, 'w) app_env \<Rightarrow> ('v, 't, 'w) app \<Rightarrow> ('v, 't, 'w) app go" where
  "save_logs P a =
     (if \<not> logMode (a_layout a) then Inr a
      else with_saved P ''save-logs'' (\<lambda>path n.
        note_here LevelInfo (''Saved '' @ itoa (int n) @ '' lines'' @ arrow @ path) ''save-logs'') a)"

definition save_and_open_logs :: "('v, 't, 'w) app_env \<Rightarrow> ('v, 't, 'w) app \<Rightarrow> ('v, 't, 'w) app go" where
  "save_and_open_logs P a =
     (if \<not> logMode (a_layout a) then Inr a
      else with_saved P ''save-and-open-logs'' (\<lambda>path n. pure_step (emit (E_OpenEditor path))) a)"

section \<open>Copying and opening what has the focus\<close>

definition note_for ::
  "level \<Rightarrow> string \<Rightarrow> string \<Rightarrow> 'v resource_list option \<Rightarrow> ('v, 't, 'w) app \<Rightarrow> ('v, 't, 'w) app go" where
  "note_for l msg source f a = go_bind (contextFor f a) (\<lambda>ctx. Inr (add_note l msg ctx source a))"

text \<open>The marked objects, or the one under the cursor.\<close>

definition chosen :: "'v resource_list \<Rightarrow> k8s_obj list" where
  "chosen r = (let objs = SelectedObjects r
     in if objs \<noteq> [] then objs else case rl_Selected r of Some x \<Rightarrow> [x] | None \<Rightarrow> [])"

definition copy_objects ::
  "string \<Rightarrow> string \<Rightarrow> ('v resource_list \<Rightarrow> k8s_obj list \<Rightarrow> ('v, 't, 'w) app \<Rightarrow> ('v, 't, 'w) app go) \<Rightarrow>
   ('v, 't, 'w) app \<Rightarrow> ('v, 't, 'w) app go" where
  "copy_objects tag nothing k a =
     with_focused (\<lambda>f a. case f of
       None \<Rightarrow> note_here LevelError nothing tag a
     | Some r \<Rightarrow> if chosen r = [] then note_for LevelError nothing tag f a else k r (chosen r) a) a"

definition copy_log :: "('v, 't, 'w) app \<Rightarrow> ('v, 't, 'w) app go" where
  "copy_log a =
     go_bind (currentLogContext a) (\<lambda>c. case c of
       None \<Rightarrow> note_here LevelError ''Nothing to copy'' ''copy-current'' a
     | Some (cluster, ns, pod, container, ls) \<Rightarrow>
         steps [note_here LevelInfo (''Copied '' @ itoa (int (length ls)) @ '' log line(s)'') ''copy-current'',
           pure_step (emit (E_Copy (join_with newline ls)))] a)"

definition handleCopyCurrent :: "('v, 't, 'w) app \<Rightarrow> ('v, 't, 'w) app go" where
  "handleCopyCurrent a =
     go_bind (currentContext a) (\<lambda>(ct, rn).
       if ct = ''yaml'' \<or> ct = ''describe'' \<or> ct = ''details''
       then let txt = rawContent (rightPanel (a_layout a))
            in if txt = '''' then note_here LevelError ''Nothing to copy'' ''copy-current'' a
               else steps [note_here LevelInfo ''Copied buffer'' ''copy-current'', pure_step (emit (E_Copy txt))] a
       else if ct = ''logs'' then copy_log a
       else copy_objects ''copy-current'' ''Nothing to copy'' (\<lambda>r objs.
         steps [note_for LevelInfo (''Copied '' @ itoa (int (length objs)) @ '' name(s)'') ''copy-current'' (Some r),
           pure_step (emit (E_Copy (JoinNames objs)))]) a)"

text \<open>The rendered objects, up to the first that cannot be rendered.\<close>

fun rendered :: "('v, 't, 'w) app_env \<Rightarrow> rplugin \<Rightarrow> k8s_obj list \<Rightarrow> string + string list" where
  "rendered P p [] = Inr []"
| "rendered P p (x # xs) =
     (case ap_YAML P p x of
        None \<Rightarrow> Inl (ap_YAMLError P p x)
      | Some c \<Rightarrow> (case rendered P p xs of Inl e \<Rightarrow> Inl e | Inr ds \<Rightarrow> Inr (fst c # ds)))"

definition selectedResourceYAML ::
  "('v, 't, 'w) app_env \<Rightarrow> string \<Rightarrow> string \<Rightarrow> string \<Rightarrow>
   ('v resource_list \<Rightarrow> string list \<Rightarrow> ('v, 't, 'w) app \<Rightarrow> ('v, 't, 'w) app go) \<Rightarrow> ('v, 't, 'w) app \<Rightarrow> ('v, 't, 'w) app go" where
  "selectedResourceYAML P tag nothing failed k a =
     copy_objects tag nothing (\<lambda>r objs a. case rendered P (rl_plugin r) objs of
         Inl e \<Rightarrow> note_for LevelError (failed @ '': '' @ e) tag (Some r) a
       | Inr docs \<Rightarrow> k r docs a) a"

definition handleCopyYAML :: "('v, 't, 'w) app_env \<Rightarrow> ('v, 't, 'w) app \<Rightarrow> ('v, 't, 'w) app go" where
  "handleCopyYAML P a =
     selectedResourceYAML P ''copy-yaml'' ''Nothing to copy'' ''Copy YAML failed'' (\<lambda>r docs.
       steps [note_for LevelInfo (''Copied YAML ('' @ itoa (int (length docs)) @ '' resource(s))'') ''copy-yaml'' (Some r),
         pure_step (emit (E_Copy (JoinYAML docs)))]) a"

text \<open>\<open>openInEditorTemp\<close> and its two uses: a note and the editor, or the error.\<close>

definition openInEditorTemp ::
  "('v, 't, 'w) app_env \<Rightarrow> string \<Rightarrow> string \<Rightarrow> string \<Rightarrow> 'v resource_list option \<Rightarrow> ('v, 't, 'w) app \<Rightarrow> ('v, 't, 'w) app go" where
  "openInEditorTemp P content suf msg f a =
     (case ap_temp P content suf of
        Inl e \<Rightarrow> note_for LevelError (''Open failed: '' @ e) ''open-current'' f a
      | Inr path \<Rightarrow> steps [note_for LevelInfo msg ''open-current'' f, pure_step (emit (E_OpenEditor path))] a)"

definition handleOpenCurrent :: "('v, 't, 'w) app_env \<Rightarrow> ('v, 't, 'w) app \<Rightarrow> ('v, 't, 'w) app go" where
  "handleOpenCurrent P a =
     go_bind (currentContext a) (\<lambda>(ct, rn).
       if ct = ''yaml'' \<or> ct = ''describe'' \<or> ct = ''details''
       then let txt = rawContent (rightPanel (a_layout a))
            in if txt = '''' then note_here LevelError ''Nothing to open'' ''open-current'' a
               else openInEditorTemp P txt (if ct = ''describe'' then ''.txt'' else ''.yaml'') ''Opening buffer in editor'' None a
       else if ct = ''logs''
       then with_saved P ''open-current'' (\<lambda>path n. steps [note_here LevelInfo ''Saved & opened; path copied'' ''open-current'',
              pure_step (emit (E_OpenEditor path)), pure_step (emit (E_Copy path))]) a
       else selectedResourceYAML P ''open-current'' ''Nothing to open'' ''Open failed'' (\<lambda>r docs.
         openInEditorTemp P (JoinYAML docs) ''.yaml''
           (''Opening '' @ itoa (int (length docs)) @ '' resource(s) in editor'') (Some r)) a)"

section \<open>Forms\<close>

text \<open>Most actions need a live cluster; \<open>verb\<close> is the action that the note names.\<close>

definition when_connected ::
  "string \<Rightarrow> 'v resource_list \<Rightarrow> (cluster \<Rightarrow> ('v, 't, 'w) app \<Rightarrow> ('v, 't, 'w) app go) \<Rightarrow> ('v, 't, 'w) app \<Rightarrow> ('v, 't, 'w) app go" where
  "when_connected verb r k a =
     (case mgr_Get (rl_context r) (a_mgr a) of
        Some cl \<Rightarrow> if Connected (Some cl) then k cl a
          else Inr (add_note LevelError (verb @ '': not available in manifest mode'') (rl_context r) verb a)
      | None \<Rightarrow> Inr (add_note LevelError (verb @ '': not available in manifest mode'') (rl_context r) verb a))"

definition port_forward_cmd :: "('v, 't, 'w) app_env \<Rightarrow> ('v, 't, 'w) app \<Rightarrow> ('v, 't, 'w) app go" where
  "port_forward_cmd P a =
     with_selection (\<lambda>r sel. when_connected ''port-forward'' r (\<lambda>cl a.
       Inr (if ap_ports P (rl_plugin r) sel = []
            then add_note LevelError ''no ports found on this resource'' (rl_context r) ''port-forward'' a
            else a\<lparr> a_overlay := OverlayPortForward \<rparr>))) a"

definition edit_cmd :: "('v, 't, 'w) app_env \<Rightarrow> ('v, 't, 'w) app \<Rightarrow> ('v, 't, 'w) app go" where
  "edit_cmd P a =
     with_selection (\<lambda>r sel. when_connected ''edit'' r (\<lambda>cl a.
       let p = rl_plugin r
       in Inr (if p_Name p = ''helmreleases''
               then (case helmClientFor P (Some cl) a of
                       None \<Rightarrow> add_note LevelError ''helm: no client'' (rl_context r) ''helm'' a
                     | Some hc \<Rightarrow>
                         if ChartRef (o_namespace sel) (o_name sel) (a_config a) = ''''
                         then a\<lparr> a_overlay := OverlayChartInput \<rparr>
                         else emit (E_EditValues hc (o_name sel) (o_namespace sel)) a)
               else if fst (p_GVR p) = ''_ktui'' then a
               else emit (E_Edit (c_client cl) (p_GVR p) (p_IsClusterScoped p) (o_name sel) (o_namespace sel)) a))) a"

definition set_image_cmd :: "('v, 't, 'w) app_env \<Rightarrow> ('v, 't, 'w) app \<Rightarrow> ('v, 't, 'w) app go" where
  "set_image_cmd P a =
     with_selection (\<lambda>r sel. when_connected ''set-image'' r (\<lambda>cl a.
       Inr (if ap_images P (rl_plugin r) sel = []
            then add_note LevelError ''no containers found on this resource'' (rl_context r) ''set-image'' a
            else a\<lparr> a_overlay := OverlaySetImage \<rparr>))) a"

section \<open>What the forms ask for\<close>

definition with_client :: "(k8s_client \<Rightarrow> ('v, 't, 'w) app \<Rightarrow> ('v, 't, 'w) app) \<Rightarrow> ('v, 't, 'w) app \<Rightarrow> ('v, 't, 'w) app go" where
  "with_client k a = go_bind (clientForFocused a) (\<lambda>c. Inr (case c of None \<Rightarrow> a | Some client \<Rightarrow> k client a))"

definition handleSetImageRequested ::
  "gvr \<Rightarrow> string \<Rightarrow> string \<Rightarrow> string \<Rightarrow> image_change list \<Rightarrow> ('v, 't, 'w) app \<Rightarrow> ('v, 't, 'w) app go" where
  "handleSetImageRequested g name ns plugin images a = with_client (\<lambda>c. emit (E_SetImage c g name ns plugin images)) a"

definition handleScaleRequested :: "gvr \<Rightarrow> string \<Rightarrow> string \<Rightarrow> int \<Rightarrow> ('v, 't, 'w) app \<Rightarrow> ('v, 't, 'w) app go" where
  "handleScaleRequested g name ns replicas a = with_client (\<lambda>c. emit (E_Scale c g name ns replicas)) a"

definition with_helm ::
  "('v, 't, 'w) app_env \<Rightarrow> (helm_client \<Rightarrow> ('v, 't, 'w) app \<Rightarrow> ('v, 't, 'w) app) \<Rightarrow> ('v, 't, 'w) app \<Rightarrow> ('v, 't, 'w) app go" where
  "with_helm P k a =
     go_bind (clusterForFocused a) (\<lambda>cl.
       case helmClientFor P cl a of
         None \<Rightarrow> note_here LevelError ''helm: no client'' ''helm'' a
       | Some hc \<Rightarrow> Inr (k hc a))"

definition handleHelmRollback ::
  "('v, 't, 'w) app_env \<Rightarrow> string \<Rightarrow> string \<Rightarrow> int \<Rightarrow> ('v, 't, 'w) app \<Rightarrow> ('v, 't, 'w) app go" where
  "handleHelmRollback P rel ns revision a = with_helm P (\<lambda>hc. emit (E_Rollback hc rel ns revision)) a"

definition handleHelmChartRefSet ::
  "('v, 't, 'w) app_env \<Rightarrow> string \<Rightarrow> string \<Rightarrow> string \<Rightarrow> ('v, 't, 'w) app \<Rightarrow> ('v, 't, 'w) app go" where
  "handleHelmChartRefSet P rel ns chart a =
     with_helm P (\<lambda>hc. emit (E_EditValues hc rel ns)) (a\<lparr> a_config := SetChartRef ns rel chart (a_config a) \<rparr>)"

text \<open>A history that comes late for a dismissed form only ends the operation; the form's fields are in \<^verbatim>\<open>Forms\<close>.\<close>

definition on_HelmHistoryLoaded :: "('v, 't, 'w) app \<Rightarrow> ('v, 't, 'w) app" where
  "on_HelmHistoryLoaded a = on_status EndOperation a"

text \<open>
  A port-forward is checked for its port, then started by a goroutine, which registers it: \<open>started\<close>
  is the error of the tunnel, if any, and the result is the message it sends.
\<close>

definition handlePortForwardRequested ::
  "string \<Rightarrow> string \<Rightarrow> string \<Rightarrow> int \<Rightarrow> int \<Rightarrow> string \<Rightarrow> ('v, 't, 'w) app \<Rightarrow> ('v, 't, 'w) app go" where
  "handlePortForwardRequested pod ns container local remote protocol a =
     with_client (\<lambda>c a.
       if HasLocalPort local (a_pf a)
       then emit (E_PortForwardFailed (''local port '' @ itoa local @ '' already in use by another port-forward'')) a
       else emit (E_PortForward c pod ns container local remote protocol) a) a"

definition run_port_forward ::
  "string option \<Rightarrow> pf_entry \<Rightarrow> pf_registry \<Rightarrow> pf_registry \<times> (string + string \<times> int \<times> bool)" where
  "run_port_forward started e r =
     (case started of
        Some msg \<Rightarrow> (r, Inl msg)
      | None \<Rightarrow> (let (r1, res) = AddIfNotPresent e r
                 in case res of Inl msg \<Rightarrow> (r1, Inl msg) | Inr i \<Rightarrow> (r1, Inr (i, pf_LocalPort e, True))))"

section \<open>Spinners\<close>

text \<open>A tick goes to the panel that is loading, and to the status bar if it shows its spinner.\<close>

definition on_ShowSpinner :: "('v, 't, 'w) app \<Rightarrow> ('v, 't, 'w) app" where
  "on_ShowSpinner a =
     (let (s, tick) = ShowSpinnerMsg (a_status a); a1 = a\<lparr> a_status := s \<rparr> in if tick then emit E_SpinnerTick a1 else a1)"

definition on_SpinnerTick :: "('v, 't, 'w) app \<Rightarrow> ('v, 't, 'w) app" where
  "on_SpinnerTick a =
     (let a1 = (if loading (rightPanel (a_layout a)) then emit E_PanelSpin a else a)
      in if Busy (a_status a1) \<and> sb_showSpinner (a_status a1) then emit E_SpinnerTick a1 else a1)"

end
