(* ===== verification/App_Dispatch.thy ===== *)
theory App_Dispatch
  imports App_Forms
begin

text \<open>
  The rest of \<open>executeCommand\<close> of \<^verbatim>\<open>internal/app/commands.go\<close>: the commands that
  ask before they act, the pickers, and the dispatch on the name of a command. The dispatch calls
  itself when a plugin maps Enter to a command, so it is a partial function.
\<close>

section \<open>Questions\<close>

definition resource_label :: "rplugin \<Rightarrow> string" where
  "resource_label p = (if p_Name p = ''helmreleases'' then ''helm release'' else snd (snd (p_GVR p)))"

definition object_label :: "rplugin \<Rightarrow> k8s_obj \<Rightarrow> string" where
  "object_label p x = (if p_IsClusterScoped p then o_name x else o_namespace x @ ''/'' @ o_name x)"

definition more_names :: "nat \<Rightarrow> string" where
  "more_names n = (if n > 20 then newline @ ''  ... and '' @ itoa (int n - 20) @ '' more'' else '''')"

definition delete_many_message :: "rplugin \<Rightarrow> k8s_obj list \<Rightarrow> string" where
  "delete_many_message p objs =
     ''Delete '' @ itoa (int (length objs)) @ '' '' @ resource_label p @ ''?'' @ newline @ newline @ ''  '' @
     join_with (newline @ ''  '') (take 20 (map (object_label p) objs)) @ more_names (length objs)"

definition ask_delete :: "k8s_obj list \<Rightarrow> string \<Rightarrow> ('v, 't, 'w) app \<Rightarrow> ('v, 't, 'w) app" where
  "ask_delete objs msg a = open_confirm msg (a\<lparr> a_pending := (a_pending a)\<lparr> pendingDelete := Some objs \<rparr> \<rparr>)"

definition delete_cmd :: "('v, 't, 'w) app \<Rightarrow> ('v, 't, 'w) app go" where
  "delete_cmd a =
     with_focused (\<lambda>f a. Inr (case f of
         None \<Rightarrow> a
       | Some r \<Rightarrow>
           let p = rl_plugin r
           in if HasSelection r
              then (let objs = SelectedObjects r
                    in if objs = [] then a else ask_delete objs (delete_many_message p objs) a)
              else case rl_Selected r of
                  None \<Rightarrow> a
                | Some sel \<Rightarrow>
                    ask_delete [sel] (''Delete '' @ resource_label p @ '' '' @ object_label p sel @ ''?'') a)) a"

definition trim_s :: "string \<Rightarrow> string" where
  "trim_s s = (if s \<noteq> [] \<and> last s = CHR ''s'' then butlast s else s)"

definition buildRestartConfirmMessage :: "string \<Rightarrow> string list \<Rightarrow> string" where
  "buildRestartConfirmMessage name names =
     ''Rollout restart '' @ itoa (int (length names)) @ '' '' @ (if length names = 1 then trim_s name else name) @
     ''?'' @ newline @ newline @ ''  - '' @ join_with (newline @ ''  - '') (take 20 names) @ more_names (length names)"

definition restart_target :: "k8s_obj \<Rightarrow> string \<times> string" where
  "restart_target x = (o_name x, o_namespace x)"

definition restart_cmd :: "('v, 't, 'w) app \<Rightarrow> ('v, 't, 'w) app go" where
  "restart_cmd a =
     for_focused (\<lambda>i r. when_connected ''rollout-restart'' r (\<lambda>cl a.
       let objs = (if HasSelection r then SelectedObjects r else case rl_Selected r of Some sel \<Rightarrow> [sel] | None \<Rightarrow> [])
       in Inr (if objs = [] then a
          else open_confirm (buildRestartConfirmMessage (p_Name (rl_plugin r)) (map o_name objs))
            (a\<lparr> a_pending := (a_pending a)\<lparr> pendingRestart := Some (map restart_target objs),
                 pendingRestartGVR := p_GVR (rl_plugin r) \<rparr> \<rparr>)))) a"

section \<open>Terminals\<close>

definition resolveContainerName :: "('v, 't, 'w) app_env \<Rightarrow> 'v resource_list \<Rightarrow> k8s_obj \<Rightarrow> string" where
  "resolveContainerName P r sel =
     (if p_Name (rl_plugin r) = ''containers'' then o_name sel else ap_firstContainer P sel)"

definition exec_cmd :: "('v, 't, 'w) app_env \<Rightarrow> ('v, 't, 'w) app \<Rightarrow> ('v, 't, 'w) app go" where
  "exec_cmd P a =
     with_selection (\<lambda>r sel. when_connected ''exec'' r (\<lambda>cl a.
       let pod = resolvePodName P r sel; container = resolveContainerName P r sel;
           title = ''exec: '' @ pod @ (if container \<noteq> '''' then ''/'' @ container else '''')
       in case c_client cl of
            None \<Rightarrow> Inl NilPointer
          | Some client \<Rightarrow> openExecTerminal P client pod container (sel_namespace r sel) (rl_context r) title a)) a"

definition node_question :: "string \<Rightarrow> string" where
  "node_question node =
     ''Debug node '' @ node @ ''?'' @ newline @ newline @ ''This creates a privileged pod with full host access'' @
     newline @ ''(HostPID, HostNetwork, HostIPC, host root at /host).''"

definition privileged_question :: "string \<Rightarrow> string \<Rightarrow> string" where
  "privileged_question ns pod =
     ''Debug pod '' @ ns @ ''/'' @ pod @ '' with privileged container?'' @ newline @ newline @
     ''This creates an ephemeral container with elevated privileges.''"

definition ask_debug :: "debug_action \<Rightarrow> string \<Rightarrow> ('v, 't, 'w) app \<Rightarrow> ('v, 't, 'w) app" where
  "ask_debug d msg a = open_confirm msg (a\<lparr> a_pending := (a_pending a)\<lparr> pendingDebug := Some d \<rparr> \<rparr>)"

definition handleDebug :: "('v, 't, 'w) app_env \<Rightarrow> bool \<Rightarrow> ('v, 't, 'w) app \<Rightarrow> ('v, 't, 'w) app go" where
  "handleDebug P privileged a =
     with_selection (\<lambda>r sel. when_connected ''debug'' r (\<lambda>cl a.
       let img = DebugImage (a_config a); command = DebugCommand (a_config a); ns = sel_namespace r sel;
           pod = resolvePodName P r sel; container = resolveContainerName P r sel
       in if p_Name (rl_plugin r) = ''nodes''
          then Inr (ask_debug \<lparr> da_nodeMode = True, da_privileged = False, da_nodeName = o_name sel, da_podName = '''',
                 da_container = '''', da_namespace = '''', da_image = img, da_command = command \<rparr>
               (node_question (o_name sel)) a)
          else if privileged
          then Inr (ask_debug \<lparr> da_nodeMode = False, da_privileged = True, da_nodeName = '''', da_podName = pod,
                 da_container = container, da_namespace = ns, da_image = img, da_command = command \<rparr>
               (privileged_question ns pod) a)
          else case c_client cl of
              None \<Rightarrow> Inl NilPointer
            | Some client \<Rightarrow> openDebugTerminal P client pod container ns (rl_context r) img command False a)) a"

section \<open>Pickers\<close>

definition open_overlay :: "overlay \<Rightarrow> ('v, 't, 'w) app \<Rightarrow> ('v, 't, 'w) app" where
  "open_overlay w a = a\<lparr> a_overlay := w \<rparr>"

definition namespacesGVR :: gvr where "namespacesGVR = ('''', ''v1'', ''namespaces'')"

definition storeNamespaceNames :: "object_store option \<Rightarrow> string list" where
  "storeNamespaceNames store =
     (case store of None \<Rightarrow> []
      | Some s \<Rightarrow> sort_stable str_cmp (filter (\<lambda>n. n \<noteq> '''') (map o_name (st_List namespacesGVR '''' s))))"

definition namespace_picker :: "('v, 't, 'w) app \<Rightarrow> ('v, 't, 'w) app go" where
  "namespace_picker a =
     go_bind (clusterForFocused a) (\<lambda>cl.
       let a1 = open_overlay OverlayNsPicker a
       in Inr (case cl of
            None \<Rightarrow> a1
          | Some c \<Rightarrow> if IsPinned (c_context c) (a_mgr a) then emit (E_Namespaces (storeNamespaceNames (c_store c))) a1
                       else case c_client c of
                         None \<Rightarrow> a1
                       | Some client \<Rightarrow> emit (E_LoadNamespaces client) (start_op a1)))"

definition search_bar :: "search_mode \<Rightarrow> ('v, 't, 'w) app \<Rightarrow> ('v, 't, 'w) app" where
  "search_bar mode a = (open_overlay OverlaySearchBar a)\<lparr> a_bar := mode \<rparr>"

definition scale_cmd :: "('v, 't, 'w) app \<Rightarrow> ('v, 't, 'w) app go" where
  "scale_cmd a = with_selection (\<lambda>r sel. when_connected ''scale'' r (\<lambda>cl. pure_step (open_overlay OverlayScale))) a"

definition with_release :: "('v resource_list \<Rightarrow> k8s_obj \<Rightarrow> ('v, 't, 'w) app \<Rightarrow> ('v, 't, 'w) app) \<Rightarrow>
    ('v, 't, 'w) app \<Rightarrow> ('v, 't, 'w) app go" where
  "with_release k a = with_selection (\<lambda>r sel. pure_step (\<lambda>a. if p_Name (rl_plugin r) = ''helmreleases'' then k r sel a else a)) a"

definition rollback_cmd :: "('v, 't, 'w) app_env \<Rightarrow> ('v, 't, 'w) app \<Rightarrow> ('v, 't, 'w) app go" where
  "rollback_cmd P a =
     with_release (\<lambda>r sel a.
       case helmClientFor P (mgr_Get (rl_context r) (a_mgr a)) a of
         None \<Rightarrow> add_note LevelError ''helm: no client'' (rl_context r) ''helm'' a
       | Some hc \<Rightarrow> emit (E_Helm_History hc (o_name sel) (o_namespace sel))
                      (start_op (open_overlay OverlayHelmRollback a))) a"

definition toggle_env :: "('v, 't, 'w) app_env \<Rightarrow> ('v, 't, 'w) app \<Rightarrow> ('v, 't, 'w) app go" where
  "toggle_env P a =
     (let a1 = a\<lparr> a_envResolved := \<not> a_envResolved a \<rparr>
      in if \<not> rightVisible (a_layout a1) then Inr a1
         else let a2 = on_panel (SetEnvResolved (a_envResolved a1)) a1
              in if dv_mode (rightPanel (a_layout a2)) = DetailDescribe then reloadDetailPanel P a2 else Inr a2)"

definition refresh_detail :: "('v, 't, 'w) app_env \<Rightarrow> ('v, 't, 'w) app \<Rightarrow> ('v, 't, 'w) app go" where
  "refresh_detail P a =
     (if \<not> rightVisible (a_layout a) then Inr a
      else if logMode (a_layout a) then startLogViewForSelected P a else reloadDetailPanel P a)"

definition select_cmd :: "('v resource_list \<Rightarrow> 'v resource_list) \<Rightarrow> ('v, 't, 'w) app \<Rightarrow> ('v, 't, 'w) app go" where
  "select_cmd f a = for_focused (\<lambda>i r. upd_list i f) a"

definition open_if_logs :: "overlay \<Rightarrow> (log_view \<Rightarrow> bool) \<Rightarrow> ('v, 't, 'w) app \<Rightarrow> ('v, 't, 'w) app go" where
  "open_if_logs w C a = Inr (if logMode (a_layout a) \<and> C (logView (a_layout a)) then open_overlay w a else a)"

section \<open>Dispatch\<close>

definition move_commands :: "('v, 't, 'w) app_env \<Rightarrow> (string \<times> (('v, 't, 'w) app \<Rightarrow> ('v, 't, 'w) app go)) list" where
  "move_commands P =
     [(''cursor-up'', cursor_up P), (''cursor-down'', cursor_down P), (''cursor-top'', cursor_top P),
      (''cursor-bottom'', cursor_bottom P), (''page-down'', page_down P), (''page-up'', page_up P),
      (''scroll-left'', scroll_sideways (dv_ScrollLeft (view_of P)) lv_ScrollLeft (rl_ScrollLeft (list_env_of P))),
      (''scroll-right'', scroll_sideways (dv_ScrollRight (view_of P)) lv_ScrollRight (rl_ScrollRight (list_env_of P))),
      (''scroll-home'', scroll_sideways (dv_ScrollHome (view_of P)) lv_ScrollHome (rl_ScrollHome (list_env_of P))),
      (''scroll-end'', scroll_sideways (dv_ScrollEnd (view_of P)) lv_ScrollEnd (rl_ScrollEnd (list_env_of P))),
      (''focus-left'', focus_left P), (''focus-right'', focus_right P), (''focus-up'', focus_up P),
      (''focus-down'', focus_down P), (''focus-next-split'', focus_move P (FocusNext (ap_layout P))),
      (''move-pane-up'', move_pane P OrientationVertical (-1)), (''move-pane-down'', move_pane P OrientationVertical 1),
      (''move-pane-left'', move_pane P OrientationHorizontal (-1)), (''move-pane-right'', move_pane P OrientationHorizontal 1),
      (''toggle-orientation'', toggle_orientation P), (''toggle-panel-focus'', toggle_panel_focus P),
      (''toggle-zoom'', toggle_zoom P), (''nav-parent'', nav_parent P), (''nav-node'', nav_node P),
      (''search-next'', search_next P), (''search-prev'', search_prev P), (''clear-overlay'', clear_overlay P)]"

definition view_commands :: "('v, 't, 'w) app_env \<Rightarrow> (string \<times> (('v, 't, 'w) app \<Rightarrow> ('v, 't, 'w) app go)) list" where
  "view_commands P =
     [(''view-yaml'', handleViewMode P DetailYAML False), (''view-describe'', handleViewMode P DetailDescribe False),
      (''view-logs'', handleViewMode P DetailLogs False), (''view-yaml-focused'', handleViewMode P DetailYAML True),
      (''view-describe-focused'', handleViewMode P DetailDescribe True),
      (''view-describe-uncovered'', \<lambda>a. handleViewMode P DetailDescribe True (a\<lparr> a_envResolved := True \<rparr>)),
      (''view-logs-focused'', handleViewMode P DetailLogs True),
      (''view-helm-values-user'', handleViewHelmValues P DetailValues),
      (''view-helm-values-all'', handleViewHelmValues P DetailValuesAll),
      (''toggle-env-resolve'', toggle_env P), (''refresh-detail'', refresh_detail P), (''reload-all'', reloadAll P),
      (''toggle-wrap'', if_panel (detail_go (dv_ToggleWrap (view_of P)) (ToggleWrap (text_of P)))),
      (''toggle-header'', if_panel (detail_go (dv_ToggleHeader (view_of P)) (lv_ToggleHeader (text_of P)))),
      (''toggle-autoscroll'', in_logs (log_op_go (ToggleAutoscroll (text_of P)))),
      (''toggle-log-syntax'', in_logs (log_op_go (ToggleSyntax (text_of P) (ap_pipeline P)))),
      (''log-insert-marker'',
        \<lambda>a. in_logs (log_op_go (InsertMarker (text_of P) (ap_muted P) (ap_clock P (a_clock a)))) a),
      (''select-container'', open_if_logs OverlayContainerPicker (\<lambda>lv. length (containers lv) > 1)),
      (''select-time-range'', open_if_logs OverlayTimeRange (\<lambda>lv. True))]"

definition action_commands :: "('v, 't, 'w) app_env \<Rightarrow> (string \<times> (('v, 't, 'w) app \<Rightarrow> ('v, 't, 'w) app go)) list" where
  "action_commands P =
     [(''close-panel'', closeRightPanel P), (''close-current-panel'', close_current_panel P), (''quit'', quit P),
      (''help'', pure_step (open_overlay OverlayHelp)), (''clear-notifications'', pure_step (emit E_ClearNotifications)),
      (''search-open'', pure_step (search_bar SearchModeSearch)), (''filter-open'', pure_step (search_bar SearchModeFilter)),
      (''resource-picker'', pure_step (open_overlay OverlayResourcePicker)), (''namespace-picker'', namespace_picker),
      (''context-picker'', pure_step (open_overlay OverlayContextPicker)),
      (''toggle-select'', select_cmd (\<lambda>r. CursorDown (list_env_of P) (ToggleSelect (list_env_of P) r))),
      (''select-all'', select_cmd (SelectAll (list_env_of P))),
      (''delete'', delete_cmd), (''rollout-restart'', restart_cmd), (''exec'', exec_cmd P),
      (''debug'', handleDebug P False), (''debug-privileged'', handleDebug P True), (''scale'', scale_cmd),
      (''helm-set-chart'', with_release (\<lambda>r sel. open_overlay OverlayChartInput)), (''helm-rollback'', rollback_cmd P)]"

text \<open>The commands that hand something to another program or open a form for it.\<close>

definition form_commands :: "('v, 't, 'w) app_env \<Rightarrow> (string \<times> (('v, 't, 'w) app \<Rightarrow> ('v, 't, 'w) app go)) list" where
  "form_commands P =
     [(''port-forward'', port_forward_cmd P), (''edit'', edit_cmd P), (''set-image'', set_image_cmd P),
      (''save-logs'', save_logs P), (''save-and-open-logs'', save_and_open_logs P),
      (''copy-current'', handleCopyCurrent), (''copy-yaml'', handleCopyYAML P), (''open-current'', handleOpenCurrent P)]"

definition unknown_command :: "string \<Rightarrow> ('v, 't, 'w) app \<Rightarrow> ('v, 't, 'w) app go" where
  "unknown_command cmd a = note_here LevelError (''unknown command: '' @ cmd) ''command'' a"

definition handleSort :: "('v, 't, 'w) app_env \<Rightarrow> string \<Rightarrow> ('v, 't, 'w) app \<Rightarrow> ('v, 't, 'w) app go" where
  "handleSort P column a = select_cmd (SetSort (list_env_of P) column) a"

definition named_command :: "('v, 't, 'w) app_env \<Rightarrow> string \<Rightarrow> ('v, 't, 'w) app \<Rightarrow> ('v, 't, 'w) app go" where
  "named_command P cmd a =
     (case map_of (move_commands P @ view_commands P @ action_commands P @ form_commands P) cmd of
        Some f \<Rightarrow> f a
      | None \<Rightarrow> unknown_command cmd a)"

definition after_prefix :: "string \<Rightarrow> string \<Rightarrow> string option" where
  "after_prefix p s = (if prefix p s then Some (drop (length p) s) else None)"

text \<open>Every command but Enter, with the prefixes in the order of the code.\<close>

definition plain_command :: "('v, 't, 'w) app_env \<Rightarrow> string \<Rightarrow> ('v, 't, 'w) app \<Rightarrow> ('v, 't, 'w) app go" where
  "plain_command P cmd a =
     (case after_prefix ''pane-switch-context '' cmd of
        Some ctx \<Rightarrow> handlePaneSwitchContext P (trim_space ctx) a
      | None \<Rightarrow>
          if cmd = ''goto-contexts'' then handleGotoContexts P a
          else case after_prefix ''goto-'' cmd of
            Some name \<Rightarrow> handleGoto P name '''' a
          | None \<Rightarrow>
              if cmd = ''split-children'' then split_children P a
              else if cmd = ''split-parent'' then split_parent P a
              else if cmd = ''split-nav-node'' then split_nav_node P a
              else case after_prefix ''split-'' cmd of
                Some name \<Rightarrow> handleSplit P name a
              | None \<Rightarrow> (case after_prefix ''sort-'' cmd of
                    Some column \<Rightarrow> handleSort P column a
                  | None \<Rightarrow> named_command P cmd a))"

partial_function (option) executeCommand ::
  "('v, 't, 'w) app_env \<Rightarrow> string \<Rightarrow> ('v, 't, 'w) app \<Rightarrow> ('v, 't, 'w) app go option" where
  "executeCommand P cmd a =
     (if cmd = ''enter-detail''
      then (case enter_command P a of
              Inl e \<Rightarrow> Some (Inl e)
            | Inr c \<Rightarrow> (case c of Some c \<Rightarrow> executeCommand P c a | None \<Rightarrow> Some (enter_detail P a)))
      else Some (plain_command P cmd a))"

end
