(* ===== verification/App_Update.thy ===== *)
theory App_Update
  imports App_Dispatch
begin

text \<open>
  \<open>update\<close> of \<^verbatim>\<open>internal/app/app.go\<close> for the messages that are not in the other
  theories: keys, the mouse, the answer to a question, the results of actions, of Helm and of
  port-forwards, the discovery of resource types, and the notifications on screen.
\<close>

section \<open>Keys\<close>

definition sync_trie :: "('v, 't, 'w) app \<Rightarrow> ('v, 't, 'w) app go" where
  "sync_trie a =
     (if \<not> AtRoot (a_trie a) then Inr a
      else go_bind (currentContext a) (\<lambda>(ct, rn).
        Inr (if ct \<noteq> a_trieType a \<or> rn \<noteq> a_trieRes a
             then a\<lparr> a_trie := TrieFor ct rn (a_bindings a), a_trieType := ct, a_trieRes := rn \<rparr> else a)))"

text \<open>Results of the dispatch may be missing, so a handler that uses it binds twice.\<close>

definition then_run :: "('v, 't, 'w) app go \<Rightarrow> (('v, 't, 'w) app \<Rightarrow> ('v, 't, 'w) app go option) \<Rightarrow> ('v, 't, 'w) app go option" where
  "then_run r k = (case r of Inl e \<Rightarrow> Some (Inl e) | Inr a \<Rightarrow> k a)"

definition handleKey :: "('v, 't, 'w) app_env \<Rightarrow> string \<Rightarrow> ('v, 't, 'w) app \<Rightarrow> ('v, 't, 'w) app go option" where
  "handleKey P key a =
     then_run (sync_trie a) (\<lambda>a.
       let (t, command, rc, resolved) = Press key (a_trie a)
       in then_run (sync_hints (a\<lparr> a_trie := t \<rparr>)) (\<lambda>a1.
            if \<not> resolved then Some (Inr a1)
            else case rc of
                Some c \<Rightarrow> Some (handleRunCommand P c a1)
              | None \<Rightarrow> if command = '''' then Some (Inr a1) else executeCommand P command a1))"

text \<open>
  The component of an open overlay keeps its own state: whether it is still active after a key, and
  the messages it sends, are arguments.
\<close>

definition overlay_key :: "bool \<Rightarrow> effect list \<Rightarrow> ('v, 't, 'w) app \<Rightarrow> ('v, 't, 'w) app" where
  "overlay_key active es a = emit_all es (if active then a else a\<lparr> a_overlay := OverlayNone \<rparr>)"

definition dismiss_overlay :: "('v, 't, 'w) app \<Rightarrow> ('v, 't, 'w) app" where
  "dismiss_overlay a = a\<lparr> a_overlay := OverlayNone, a_pending := no_pending \<rparr>"

definition plain_key :: "('v, 't, 'w) app_env \<Rightarrow> key \<Rightarrow> bool \<Rightarrow> effect list \<Rightarrow> ('v, 't, 'w) app \<Rightarrow> ('v, 't, 'w) app go option" where
  "plain_key P k active es a =
     (if ap_keyString P k = ''ctrl+c'' then Some (Inr (emit E_Quit (shutdownTerminals a)))
      else if a_overlay a = OverlayNone then handleKey P (ap_keyString P k) a
      else Some (Inr (if ap_keyString P k = ''ctrl+w'' then dismiss_overlay a else overlay_key active es a)))"

definition on_KeyPress :: "('v, 't, 'w) app_env \<Rightarrow> key \<Rightarrow> bool \<Rightarrow> effect list \<Rightarrow> ('v, 't, 'w) app \<Rightarrow> ('v, 't, 'w) app go option" where
  "on_KeyPress P k active es a =
     (if a_overlay a \<noteq> OverlayNone then plain_key P k active es a
      else case FocusedPane (a_layout a) of
          Inl e \<Rightarrow> Some (Inl e)
        | Inr (Some (TerminalPane t)) \<Rightarrow>
            if exited t then plain_key P k active es a
            else (case routeTerminalKey P t k a of
                    Inl e \<Rightarrow> Some (Inl e)
                  | Inr (handled, a1) \<Rightarrow> if handled then Some (Inr a1) else plain_key P k active es a)
        | Inr _ \<Rightarrow> plain_key P k active es a)"

definition on_WindowSize :: "('v, 't, 'w) app_env \<Rightarrow> int \<Rightarrow> int \<Rightarrow> ('v, 't, 'w) app \<Rightarrow> ('v, 't, 'w) app go" where
  "on_WindowSize P w h a =
     steps [pure_step (on_status (sb_SetWidth w)), on_layout (ly_Resize (ap_layout P) w h), pure_step syncTerminalSizes] a"

section \<open>The mouse\<close>

definition doubleClickWindow :: int where "doubleClickWindow = 500000000"
definition terminalWheelLines :: int where "terminalWheelLines = 3"

text \<open>A click on a pane: the new state and the row, or -1.\<close>

definition click_split ::
  "('v, 't, 'w) app_env \<Rightarrow> pane_rect \<Rightarrow> int \<Rightarrow> ('v, 't, 'w) app \<Rightarrow> (('v, 't, 'w) app \<times> int) go" where
  "click_split P rect y a =
     (let prev = focusIdx (a_layout a); i = pr_SplitIdx rect;
          prevCursor = (case SplitAt i (a_layout a) of Some r \<Rightarrow> t_cursor (rl_table r) | None \<Rightarrow> -1)
      in go_bind (on_layout (FocusSplitAt (ap_layout P) i) a) (\<lambda>a1.
           case SplitAt i (a_layout a1) of
             None \<Rightarrow> Inr (a1, -1)
           | Some r \<Rightarrow>
               (let row = rl_RowAtY (list_env_of P) r (y - pr_Y rect)
                in if row < 0 then Inr (a1, -1)
                   else go_bind (upd_list i (rl_SetCursor (list_env_of P) row) a1) (\<lambda>a2.
                     go_bind (if i \<noteq> prev \<or> row \<noteq> prevCursor then refreshDetailPanelOrLog P a2 else Inr a2)
                       (\<lambda>a3. Inr (a3, row))))))"

definition is_double :: "int \<Rightarrow> pane_rect \<Rightarrow> int \<Rightarrow> click \<Rightarrow> bool" where
  "is_double now rect row c \<longleftrightarrow> pr_Kind rect = PaneSplit \<and> lastClickKind c = PaneSplit \<and> row \<ge> 0 \<and>
     row = lastClickRow c \<and> pr_SplitIdx rect = lastClickSplit c \<and>
     (case lastClickTime c of None \<Rightarrow> False | Some t \<Rightarrow> now - t \<le> doubleClickWindow)"

definition this_click :: "int \<Rightarrow> pane_rect \<Rightarrow> int \<Rightarrow> click" where
  "this_click now rect row = \<lparr> lastClickTime = Some now, lastClickKind = pr_Kind rect, lastClickRow = row,
     lastClickSplit = (if pr_Kind rect = PaneSplit then pr_SplitIdx rect else -1) \<rparr>"

definition handleMouseClick ::
  "('v, 't, 'w) app_env \<Rightarrow> bool \<Rightarrow> int \<Rightarrow> int \<Rightarrow> ('v, 't, 'w) app \<Rightarrow> ('v, 't, 'w) app go option" where
  "handleMouseClick P left x y a =
     (if \<not> cfg_Mouse (a_config a) \<or> \<not> left \<or> a_overlay a \<noteq> OverlayNone then Some (Inr a)
      else case PaneAt x y (a_layout a) of
        None \<Rightarrow> Some (Inr a)
      | Some rect \<Rightarrow>
          (case (if pr_Kind rect = PaneSplit then click_split P rect y a
                 else go_bind (on_layout (FocusDetails (ap_layout P)) a) (\<lambda>a1. Inr (a1, -1))) of
             Inl e \<Rightarrow> Some (Inl e)
           | Inr (a1, row) \<Rightarrow>
               (let now = a_clock a1; c = this_click now rect row
                in if is_double now rect row (a_click a1)
                   then executeCommand P ''enter-detail'' (a1\<lparr> a_click := c\<lparr> lastClickTime := None \<rparr> \<rparr>)
                   else Some (Inr (a1\<lparr> a_click := c \<rparr>)))))"

definition list_button :: "wheel \<Rightarrow> mouse_button" where
  "list_button b = (case b of MouseWheelUp \<Rightarrow> WheelUp | MouseWheelDown \<Rightarrow> WheelDown | _ \<Rightarrow> OtherButton)"

definition term_wheel :: "('v, 't, 'w) app_env \<Rightarrow> wheel \<Rightarrow> 't terminal_pane \<Rightarrow> 't terminal_pane" where
  "term_wheel P b t = (case b of MouseWheelUp \<Rightarrow> tp_ScrollUp (pe_vt (ap_layout P)) terminalWheelLines t
     | MouseWheelDown \<Rightarrow> tp_ScrollDown terminalWheelLines t | _ \<Rightarrow> t)"

fun pane_wheel :: "('v, 't, 'w) app_env \<Rightarrow> wheel \<Rightarrow> ('v, 't) pane \<Rightarrow> ('v, 't) pane" where
  "pane_wheel P b (TerminalPane t) = TerminalPane (term_wheel P b t)"
| "pane_wheel P b (ResourcePane r) = ResourcePane (ScrollWheel (list_env_of P) (list_button b) r)"

text \<open>With an overlay open the wheel only reaches the overlay.\<close>

definition handleMouseWheel :: "('v, 't, 'w) app_env \<Rightarrow> wheel \<Rightarrow> int \<Rightarrow> int \<Rightarrow> ('v, 't, 'w) app \<Rightarrow> ('v, 't, 'w) app go" where
  "handleMouseWheel P b x y a =
     (if \<not> cfg_Mouse (a_config a) \<or> a_overlay a \<noteq> OverlayNone then Inr a
      else case PaneAt x y (a_layout a) of
        None \<Rightarrow> Inr a
      | Some rect \<Rightarrow>
          (case pr_Kind rect of
             PaneSplit \<Rightarrow> if PaneAtIdx (pr_SplitIdx rect) (a_layout a) = None then Inr a
                          else on_layout (upd_split (pr_SplitIdx rect) (pane_wheel P b)) a
           | PaneDetail \<Rightarrow> Inr (on_panel (dv_ScrollWheel (view_of P) b) a)
           | PaneLog \<Rightarrow> on_layout (UpdateLogView (ap_layout P) b) a))"

end
