(* ===== verification/App_Results.thy ===== *)
theory App_Results
  imports App_Update
begin

text \<open>
  \<open>update\<close> of \<^verbatim>\<open>internal/app/app.go\<close>, continued: the answer to a question, and the
  messages in which actions, Helm, port-forwards, the discovery and the notifications come back.
\<close>

section \<open>The answer to a question\<close>

datatype confirm_action = ConfirmCancel | ConfirmYes | ConfirmForce

definition key_of_object :: "k8s_obj \<Rightarrow> string \<times> string" where
  "key_of_object x = (o_name x, o_namespace x)"

text \<open>Removing port-forwards, one after the other, with the handles kept for them.\<close>

definition pf_drop :: "string \<Rightarrow> ('v, 't, 'w) app \<Rightarrow> ('v, 't, 'w) app" where
  "pf_drop i a =
     (let (r, cancels) = pf_Remove i (a_pf a)
      in a\<lparr> a_pf := r, a_handles := filter (\<lambda>h. h \<noteq> i) (a_handles a),
            a_out := a_out a @ (if cancels = [] then [] else [E_PfCancel cancels]) \<rparr>)"

definition executeDelete :: "('v, 't, 'w) app_env \<Rightarrow> k8s_obj list \<Rightarrow> bool \<Rightarrow> ('v, 't, 'w) app \<Rightarrow> ('v, 't, 'w) app go" where
  "executeDelete P targets force a =
     for_focused (\<lambda>i r a.
       let p = rl_plugin r; cl = mgr_Get (rl_context r) (a_mgr a)
       in if targets = [] then Inr a
          else if p_Name p = ''helmreleases''
          then Inr (case helmClientFor P cl a of
                      None \<Rightarrow> a
                    | Some hc \<Rightarrow> emit (E_Helm_Uninstall hc (map key_of_object targets)) a)
          else if p_Name p = ''portforwards''
          then (let a1 = syncIndicators P (fold (pf_drop \<circ> o_name) targets a)
                in case plugin_objects P a1 p of None \<Rightarrow> Inr a1 | Some objs \<Rightarrow> upd_list i (SetObjects (list_env_of P) objs) a1)
          else Inr (case Option.bind cl c_client of
                      None \<Rightarrow> add_note LevelError ''delete: not available in manifest mode'' (rl_context r) ''delete'' a
                    | Some c \<Rightarrow> emit (E_Delete c (p_GVR p) (p_IsClusterScoped p) force (map key_of_object targets)) a)) a"

definition clear_focused_selection :: "('v, 't, 'w) app_env \<Rightarrow> ('v, 't, 'w) app \<Rightarrow> ('v, 't, 'w) app go" where
  "clear_focused_selection P a = for_focused (\<lambda>i r. upd_list i (ClearSelection (list_env_of P))) a"

definition executePendingDebug :: "('v, 't, 'w) app_env \<Rightarrow> debug_action \<Rightarrow> ('v, 't, 'w) app \<Rightarrow> ('v, 't, 'w) app go" where
  "executePendingDebug P d a =
     go_bind (clusterForFocused a) (\<lambda>cl.
       case Option.bind cl c_client of
         Some client \<Rightarrow>
           if \<not> Connected cl then go_bind (with_focused contextFor a) (\<lambda>ctx.
               Inr (add_note LevelError ''debug: not available in manifest mode'' ctx ''debug'' a))
           else if da_nodeMode d then openNodeDebugTerminal P client (da_nodeName d) (da_image d) (da_command d) a
           else openDebugTerminal P client (da_podName d) (da_container d) (da_namespace d) (kc_Context client)
                  (da_image d) (da_command d) (da_privileged d) a
       | None \<Rightarrow> go_bind (with_focused contextFor a) (\<lambda>ctx.
           Inr (add_note LevelError ''debug: not available in manifest mode'' ctx ''debug'' a)))"

definition run_restart ::
  "('v, 't, 'w) app_env \<Rightarrow> (string \<times> string) list \<Rightarrow> gvr \<Rightarrow> ('v, 't, 'w) app \<Rightarrow> ('v, 't, 'w) app go" where
  "run_restart P targets g a =
     steps [clear_focused_selection P,
       (\<lambda>a. go_bind (clusterForFocused a) (\<lambda>cl. Inr (if Connected cl then emit (E_Restart (Option.bind cl c_client) g targets) a else a)))] a"

text \<open>Only the first question that is pending is answered.\<close>

definition on_ConfirmResult :: "('v, 't, 'w) app_env \<Rightarrow> confirm_action \<Rightarrow> ('v, 't, 'w) app \<Rightarrow> ('v, 't, 'w) app go" where
  "on_ConfirmResult P action a0 =
     (let a = a0\<lparr> a_overlay := OverlayNone \<rparr>; q = a_pending a; yes = (action \<noteq> ConfirmCancel)
      in case pendingRestart q of
           Some targets \<Rightarrow>
             (let a1 = a\<lparr> a_pending := q\<lparr> pendingRestart := None, pendingRestartGVR := ('''', '''', '''') \<rparr> \<rparr>
              in if yes then run_restart P targets (pendingRestartGVR q) a1 else Inr a1)
         | None \<Rightarrow>
             (case pendingDelete q of
                Some objs \<Rightarrow>
                  (let a1 = a\<lparr> a_pending := q\<lparr> pendingDelete := None \<rparr> \<rparr>
                   in if yes then steps [clear_focused_selection P, executeDelete P objs (action = ConfirmForce)] a1 else Inr a1)
              | None \<Rightarrow>
                  (case pendingRun q of
                     Some rc \<Rightarrow>
                       (let a1 = a\<lparr> a_pending := q\<lparr> pendingRun := None \<rparr> \<rparr>
                        in Inr (if yes then executeRun rc a1 else a1))
                   | None \<Rightarrow>
                       (case pendingDebug q of
                          Some d \<Rightarrow>
                            (let a1 = a\<lparr> a_pending := q\<lparr> pendingDebug := None \<rparr> \<rparr>
                             in if yes then executePendingDebug P d a1 else Inr a1)
                        | None \<Rightarrow> Inr a))))"

section \<open>Actions and Helm\<close>

text \<open>\<open>strings.Cut\<close> at the first colon.\<close>

definition verb_of :: "string \<Rightarrow> string" where
  "verb_of s = takeWhile (\<lambda>c. c \<noteq> CHR '':'') s"

definition actionSource :: "string \<Rightarrow> string" where
  "actionSource s = (if CHR '':'' \<in> set s then verb_of s else if s = '''' then ''action'' else s)"

definition actionSuccessNote :: "string \<Rightarrow> string" where
  "actionSuccessNote s =
     (if CHR '':'' \<notin> set s then ''''
      else let verb = verb_of s; detail = drop (length verb + 1) s
           in case map_of [(''scale'', ''scaled ''), (''delete'', ''deleted ''), (''restart'', ''rollout restart ''),
                  (''set-image'', ''updated image for ''), (''helm-rollback'', ''rolled back ''),
                  (''helm-uninstall'', ''uninstalled ''), (''edit'', ''applied edit to '')] verb of
                Some t \<Rightarrow> t @ detail
              | None \<Rightarrow> '''')"

definition helm_split :: "('v, 't, 'w) app_env \<Rightarrow> ('v, 't) pane \<Rightarrow> ('v, 't, 'w) app \<Rightarrow> ('v, 't, 'w) app" where
  "helm_split P p a =
     (case as_list p of
        None \<Rightarrow> a
      | Some r \<Rightarrow> if p_Name (rl_plugin r) = ''helmreleases'' \<and> helmClientFor P (mgr_Get (rl_context r) (a_mgr a)) a \<noteq> None
                  then emit (E_HelmReleases (rl_context r) (rl_namespace r)) (start_op a) else a)"

definition refreshHelmSplits :: "('v, 't, 'w) app_env \<Rightarrow> ('v, 't, 'w) app \<Rightarrow> ('v, 't, 'w) app" where
  "refreshHelmSplits P a = fold (helm_split P) (splits (a_layout a)) a"

definition maybeRefetchValuesAfterEdit :: "('v, 't, 'w) app_env \<Rightarrow> ('v, 't, 'w) app \<Rightarrow> ('v, 't, 'w) app go" where
  "maybeRefetchValuesAfterEdit P a =
     (let l = a_layout a; mode = dv_mode (rightPanel l)
      in if \<not> rightVisible l \<or> logMode l \<or> mode \<noteq> DetailValues \<and> mode \<noteq> DetailValuesAll then Inr a
         else for_focused (\<lambda>i r a. if p_Name (rl_plugin r) = ''helmreleases'' then reloadDetailPanel P a else Inr a) a)"

definition note_result :: "string \<Rightarrow> string option \<Rightarrow> ('v, 't, 'w) app \<Rightarrow> ('v, 't, 'w) app go" where
  "note_result i err a =
     (case err of
        Some e \<Rightarrow> note_here LevelError e (actionSource i) a
      | None \<Rightarrow> if actionSuccessNote i \<noteq> '''' then note_here LevelInfo (actionSuccessNote i) (actionSource i) a else Inr a)"

definition on_ActionResult :: "('v, 't, 'w) app_env \<Rightarrow> string \<Rightarrow> string option \<Rightarrow> ('v, 't, 'w) app \<Rightarrow> ('v, 't, 'w) app go" where
  "on_ActionResult P i err a =
     go_bind (note_result i err a) (\<lambda>a1.
       if prefix ''helm-'' i
       then (let a2 = refreshHelmSplits P a1
             in if prefix ''helm-edit-values:'' i then maybeRefetchValuesAfterEdit P a2 else Inr a2)
       else Inr a1)"

text \<open>The releases of a namespace; the message does not say of which cluster.\<close>

fun show_releases :: "('v, 't, 'w) app_env \<Rightarrow> string \<Rightarrow> k8s_obj list \<Rightarrow> ('v, 't) pane \<Rightarrow> ('v, 't) pane" where
  "show_releases P ns objs (TerminalPane t) = TerminalPane t"
| "show_releases P ns objs (ResourcePane r) =
     ResourcePane (if p_Name (rl_plugin r) = ''helmreleases'' \<and> rl_namespace r = ns
                   then SetObjects (list_env_of P) objs r else r)"

definition on_HelmReleasesLoaded ::
  "('v, 't, 'w) app_env \<Rightarrow> string \<Rightarrow> string + k8s_obj list \<Rightarrow> ('v, 't, 'w) app \<Rightarrow> ('v, 't, 'w) app go" where
  "on_HelmReleasesLoaded P ns res a =
     (let a0 = on_status EndOperation a
      in case res of
           Inl e \<Rightarrow> note_here LevelError (''helm releases: '' @ e) ''helm'' a0
         | Inr objs \<Rightarrow> Inr (set_layout (\<lambda>l. l\<lparr> splits := map (show_releases P ns objs) (splits l) \<rparr>) a0))"

definition on_HelmValuesLoaded ::
  "('v, 't, 'w) app_env \<Rightarrow> string \<Rightarrow> string \<Rightarrow> detail_mode \<Rightarrow> string + (string \<times> string) \<Rightarrow>
   ('v, 't, 'w) app \<Rightarrow> ('v, 't, 'w) app go" where
  "on_HelmValuesLoaded P rel ns mode res a =
     (let l = a_layout a
      in if \<not> rightVisible l \<or> logMode l \<or> dv_mode (rightPanel l) \<noteq> mode then Inr a
         else with_selection (\<lambda>r sel a.
           Inr (if p_Name (rl_plugin r) \<noteq> ''helmreleases'' \<or> o_name sel \<noteq> rel \<or> sel_namespace r sel \<noteq> ns then a
                else show_content P (case res of Inl e \<Rightarrow> same_text (''# error: '' @ e @ newline) | Inr c \<Rightarrow> c) False a)) a)"

definition on_NamespacesLoaded :: "string option \<Rightarrow> ('v, 't, 'w) app \<Rightarrow> ('v, 't, 'w) app go" where
  "on_NamespacesLoaded err a =
     (let a0 = on_status EndOperation a
      in case err of Some e \<Rightarrow> note_here LevelError (''namespaces: '' @ e) ''namespaces'' a0 | None \<Rightarrow> Inr a0)"

section \<open>Port-forwards\<close>

definition after_pf :: "('v, 't, 'w) app_env \<Rightarrow> ('v, 't, 'w) app \<Rightarrow> ('v, 't, 'w) app" where
  "after_pf P a = refreshSelfPopulatingSplits P ''portforwards'' (syncIndicators P a)"

text \<open>A result is an error, or the identifier and port of an entry with its handle, if there is one.\<close>

definition on_PortForwardStarted ::
  "('v, 't, 'w) app_env \<Rightarrow> string + (string \<times> int \<times> bool) \<Rightarrow> ('v, 't, 'w) app \<Rightarrow> ('v, 't, 'w) app go" where
  "on_PortForwardStarted P res a =
     (case res of
        Inl e \<Rightarrow> note_here LevelError (''port-forward failed: '' @ e) ''port-forward'' a
      | Inr (i, port, handle) \<Rightarrow>
          go_bind (note_here LevelInfo (''port-forward starting: localhost:'' @ itoa port) ''port-forward'' a) (\<lambda>a1.
            let a2 = after_pf P a1
            in Inr (if handle then emit (E_WatchReady i) (a2\<lparr> a_handles := filter (\<lambda>h. h \<noteq> i) (a_handles a2) @ [i] \<rparr>) else a2)))"

definition on_PortForwardStatus ::
  "('v, 't, 'w) app_env \<Rightarrow> string \<Rightarrow> pf_status \<Rightarrow> string option \<Rightarrow> ('v, 't, 'w) app \<Rightarrow> ('v, 't, 'w) app go" where
  "on_PortForwardStatus P i s err a =
     (let a0 = a\<lparr> a_pf := fst (UpdateStatus i s (a_pf a)) \<rparr>;
          fin = (\<lambda>watch r. go_bind r (\<lambda>a1. let a2 = after_pf P a1 in Inr (if watch then emit (E_WatchDone i) a2 else a2)))
      in case s of
           StatusReady \<Rightarrow> fin (i \<in> set (a_handles a0))
             (note_here LevelInfo (''port-forward ready: localhost:'' @ itoa (localPortForPF i (a_pf a0))) ''port-forward'' a0)
         | StatusError \<Rightarrow> fin False
             (go_bind (note_here LevelError (''port-forward error'' @ (case err of Some e \<Rightarrow> '': '' @ e | None \<Rightarrow> '''')) ''port-forward'' a0)
               (\<lambda>a1. Inr (pf_drop i a1)))
         | StatusStopped \<Rightarrow> fin False (Inr (pf_drop i a0))
         | StatusStarting \<Rightarrow> fin False (Inr a0))"

section \<open>Discovery\<close>

definition register_discovered :: "('v, 't, 'w) app_env \<Rightarrow> api_resource \<Rightarrow> registry \<Rightarrow> registry" where
  "register_discovered P x R =
     fst (RegisterIfAbsent (ap_NewDiscovered P (ar_GVR x) (ar_Name x) (case ar_ShortNames x of [] \<Rightarrow> '''' | s # _ \<Rightarrow> s)
       (\<not> ar_Namespaced x)) R)"

definition handleAPIResourcesDiscovered ::
  "('v, 't, 'w) app_env \<Rightarrow> string \<Rightarrow> api_resource list \<Rightarrow> string option \<Rightarrow> ('v, 't, 'w) app \<Rightarrow> ('v, 't, 'w) app go" where
  "handleAPIResourcesDiscovered P ctx resources err a =
     (if err \<noteq> None \<and> resources = [] then note_here LevelError (''api discovery: '' @ the err) ''discovery'' a
      else go_bind (case err of None \<Rightarrow> Inr a
             | Some e \<Rightarrow> note_here LevelWarning (''api discovery partial: '' @ e) ''discovery'' a) (\<lambda>a1.
        go_bind (with_focused contextFor a1) (\<lambda>registryCtx.
          if (if ctx = '''' then registryCtx else ctx) \<noteq> registryCtx then Inr a1
          else let R = fold (register_discovered P) resources (a_registry a1);
                   w = (if ByName ''api-resources'' R = None then a_plugins a1 else ap_SetResources P resources (a_plugins a1))
               in Inr (refreshSelfPopulatingSplits P ''api-resources''
                    (a1\<lparr> a_registry := R, a_plugins := w, a_picker := buildPickerEntries R \<rparr>)))))"

section \<open>Notifications\<close>

definition on_toasts :: "(toasts \<Rightarrow> toasts) \<Rightarrow> ('v, 't, 'w) app \<Rightarrow> ('v, 't, 'w) app" where
  "on_toasts f a =
     (let t = f \<lparr> to_notify = a_notify a, dismissed = a_dismissed a \<rparr> in a\<lparr> a_notify := to_notify t, a_dismissed := dismissed t \<rparr>)"

definition app_MessageAdded :: "('v, 't, 'w) app_env \<Rightarrow> 64 word \<Rightarrow> level \<Rightarrow> ('v, 't, 'w) app \<Rightarrow> ('v, 't, 'w) app" where
  "app_MessageAdded P i l a =
     (let a1 = refreshSelfPopulatingSplits P ''aku-messages'' a;
          (t, tick) = on_MessageAdded (a_config a1) (a_clock a1) i l \<lparr> to_notify = a_notify a1, dismissed = a_dismissed a1 \<rparr>;
          a2 = a1\<lparr> a_dismissed := dismissed t \<rparr>
      in case tick of None \<Rightarrow> a2 | Some (d, j) \<Rightarrow> emit (E_ToastTick d j) a2)"

definition app_ToastExpired :: "64 word \<Rightarrow> ('v, 't, 'w) app \<Rightarrow> ('v, 't, 'w) app" where
  "app_ToastExpired i a = on_toasts (on_ToastExpired i) a"

definition app_ClearNotifications :: "('v, 't, 'w) app \<Rightarrow> ('v, 't, 'w) app" where
  "app_ClearNotifications a = on_toasts (on_ClearNotifications (a_config a) (a_clock a)) a"

definition on_Warning :: "string \<Rightarrow> string \<Rightarrow> ('v, 't, 'w) app \<Rightarrow> ('v, 't, 'w) app" where
  "on_Warning msg ctx a = add_note LevelWarning msg ctx ''k8s'' a"

definition on_Err :: "string \<Rightarrow> ('v, 't, 'w) app \<Rightarrow> ('v, 't, 'w) app go" where
  "on_Err e a = note_here LevelError e ''k8s'' a"

end
