(* ===== verification/App_Keep.thy ===== *)
theory App_Keep
  imports App_Results
begin

text \<open>
  What the handlers of the application leave alone. The parts of the state that other components own
  (the clusters, the layout, the port-forwards, the types, the status bar, the history) are changed
  by the operations of these components only. The locale names those operations: for any predicates
  on the parts that they keep, its lemmas, here and in the following theories, say that every handler
  keeps them.
\<close>

section \<open>Predicates on the parts\<close>

definition keep :: "('s \<Rightarrow> bool) \<Rightarrow> 's go \<Rightarrow> bool" where
  "keep J r \<longleftrightarrow> (case r of Inl e \<Rightarrow> True | Inr a \<Rightarrow> J a)"

definition keep_run :: "('s \<Rightarrow> bool) \<Rightarrow> 's go option \<Rightarrow> bool" where
  "keep_run J r \<longleftrightarrow> (case r of None \<Rightarrow> True | Some x \<Rightarrow> keep J x)"

definition app_sat ::
  "(manager \<Rightarrow> bool) \<Rightarrow> (('v, 't) layout \<Rightarrow> bool) \<Rightarrow> (pf_registry \<Rightarrow> bool) \<Rightarrow> (registry \<Rightarrow> bool) \<Rightarrow>
   (status_bar \<Rightarrow> bool) \<Rightarrow> (notify_store \<Rightarrow> bool) \<Rightarrow> ('v, 't, 'w) app \<Rightarrow> bool" where
  "app_sat M L F R S N a \<longleftrightarrow>
     M (a_mgr a) \<and> L (a_layout a) \<and> F (a_pf a) \<and> R (a_registry a) \<and> S (a_status a) \<and> N (a_notify a)"

named_theorems keeps

lemma keep_simps [simp]: "keep J (Inl e)" "keep J (Inr a) = J a"
  by (simp_all add: keep_def)

lemma keep_run_simps [simp]: "keep_run J None" "keep_run J (Some x) = keep J x"
  by (simp_all add: keep_run_def)

lemma keepD: "keep J r \<Longrightarrow> r = Inr a \<Longrightarrow> J a"
  by simp

lemma keep_mono: "keep J r \<Longrightarrow> (\<And>a. J a \<Longrightarrow> K a) \<Longrightarrow> keep K r"
  by (cases r) simp_all

lemma keep_Inr [keeps]: "J a \<Longrightarrow> keep J (Inr a)"
  by simp

lemma keep_Inl [keeps]: "keep J (Inl e)"
  by simp

lemma keep_bind: "keep K r \<Longrightarrow> (\<And>a. K a \<Longrightarrow> keep J (f a)) \<Longrightarrow> keep J (go_bind r f)"
  by (cases r) simp_all

lemma keep_read:
  fixes r :: "'x go"
  shows "(\<And>x. r = Inr x \<Longrightarrow> keep J (f x)) \<Longrightarrow> keep J (go_bind r f)"
  by (cases r) simp_all

lemma keep_steps [keeps]:
  "J a \<Longrightarrow> keep J (steps [] a)"
  "J a \<Longrightarrow> (\<And>b. J b \<Longrightarrow> keep J (f b)) \<Longrightarrow> (\<And>b. J b \<Longrightarrow> keep J (steps fs b)) \<Longrightarrow> keep J (steps (f # fs) a)"
  by (simp_all add: keep_bind [where K = J])

lemma steps_append: "steps (fs @ gs) a = go_bind (steps fs a) (steps gs)"
proof (induction fs arbitrary: a)
  case (Cons f fs)
  then show ?case by (cases "f a") simp_all
qed simp

lemma keep_append [keeps]:
  "J a \<Longrightarrow> (\<And>b. J b \<Longrightarrow> keep J (steps fs b)) \<Longrightarrow> (\<And>b. J b \<Longrightarrow> keep J (steps gs b)) \<Longrightarrow> keep J (steps (fs @ gs) a)"
  by (simp add: steps_append keep_bind [where K = J])

lemma keep_pure [keeps]: "J (f a) \<Longrightarrow> keep J (pure_step f a)"
  by (simp add: pure_step_def)

text \<open>Case distinctions, on results, on states and on handlers that are yet to be applied.\<close>

lemma keep_cases [keeps]:
  "(c \<Longrightarrow> keep J r) \<Longrightarrow> (\<not> c \<Longrightarrow> keep J s) \<Longrightarrow> keep J (if c then r else s)"
  "(x = None \<Longrightarrow> keep J r) \<Longrightarrow> (\<And>y. x = Some y \<Longrightarrow> keep J (k y)) \<Longrightarrow> keep J (case x of None \<Rightarrow> r | Some y \<Rightarrow> k y)"
  "(\<And>e. z = Inl e \<Longrightarrow> keep J (g e)) \<Longrightarrow> (\<And>y. z = Inr y \<Longrightarrow> keep J (h y)) \<Longrightarrow> keep J (case z of Inl e \<Rightarrow> g e | Inr y \<Rightarrow> h y)"
  "(\<And>u v. p = (u, v) \<Longrightarrow> keep J (q u v)) \<Longrightarrow> keep J (case p of (u, v) \<Rightarrow> q u v)"
  by (simp_all split: option.split sum.split prod.split)

lemma handler_cases [keeps]:
  "(c \<Longrightarrow> keep J (f a)) \<Longrightarrow> (\<not> c \<Longrightarrow> keep J (g a)) \<Longrightarrow> keep J ((if c then f else g) a)"
  "(c \<Longrightarrow> keep J (steps fs a)) \<Longrightarrow> (\<not> c \<Longrightarrow> keep J (steps gs a)) \<Longrightarrow> keep J (steps (if c then fs else gs) a)"
  by simp_all

lemma keep_pane [keeps]:
  "(\<And>r. p = ResourcePane r \<Longrightarrow> keep J (f r)) \<Longrightarrow> (\<And>t. p = TerminalPane t \<Longrightarrow> keep J (g t)) \<Longrightarrow>
   keep J (case p of ResourcePane r \<Rightarrow> f r | TerminalPane t \<Rightarrow> g t)"
  by (simp split: pane.split)

lemma keep_mode [keeps]:
  "(m = DetailYAML \<Longrightarrow> keep J r1) \<Longrightarrow> (m = DetailDescribe \<Longrightarrow> keep J r2) \<Longrightarrow> (m = DetailLogs \<Longrightarrow> keep J r3) \<Longrightarrow>
   (m = DetailValues \<Longrightarrow> keep J r4) \<Longrightarrow> (m = DetailValuesAll \<Longrightarrow> keep J r5) \<Longrightarrow>
   keep J (case m of DetailYAML \<Rightarrow> r1 | DetailDescribe \<Rightarrow> r2 | DetailLogs \<Rightarrow> r3 | DetailValues \<Rightarrow> r4 | DetailValuesAll \<Rightarrow> r5)"
  by (simp split: detail_mode.split)

lemma keep_list [keeps]:
  "(xs = [] \<Longrightarrow> keep J r) \<Longrightarrow> (\<And>y ys. xs = y # ys \<Longrightarrow> keep J (f y ys)) \<Longrightarrow> keep J (case xs of [] \<Rightarrow> r | y # ys \<Rightarrow> f y ys)"
  by (simp split: list.split)

lemma keep_foldl: "J a \<Longrightarrow> (\<And>x b. J b \<Longrightarrow> J (f b x)) \<Longrightarrow> J (foldl f a xs)"
  by (induction xs arbitrary: a) simp_all

lemma keep_fold: "J a \<Longrightarrow> (\<And>x b. J b \<Longrightarrow> J (f x b)) \<Longrightarrow> J (fold f xs a)"
  by (induction xs arbitrary: a) simp_all

lemma keep_run_cases [keeps]:
  "keep J r \<Longrightarrow> keep_run J (Some r)"
  "(c \<Longrightarrow> keep_run J u) \<Longrightarrow> (\<not> c \<Longrightarrow> keep_run J v) \<Longrightarrow> keep_run J (if c then u else v)"
  "(x = None \<Longrightarrow> keep_run J u) \<Longrightarrow> (\<And>y. x = Some y \<Longrightarrow> keep_run J (k y)) \<Longrightarrow> keep_run J (case x of None \<Rightarrow> u | Some y \<Rightarrow> k y)"
  "(\<And>u v. p = (u, v) \<Longrightarrow> keep_run J (q u v)) \<Longrightarrow> keep_run J (case p of (u, v) \<Rightarrow> q u v)"
  by (simp_all split: option.split prod.split)

section \<open>The operations of the parts\<close>

locale manager_keeps =
  fixes M :: "manager \<Rightarrow> bool"
  assumes M_sync: "M m \<Longrightarrow> M (fst (SyncRefs c m))"
    and M_subscribe: "M m \<Longrightarrow> store_of ctx m = Some s \<Longrightarrow> M (on_store ctx (\<lambda>_. fst (Subscribe g ns s)) m)"
    and M_unsubscribe: "M m \<Longrightarrow> M (on_store ctx (Unsubscribe g ns) m)"
    and M_live: "M m \<Longrightarrow> M (unsubscribe_live m)"
    and M_connected: "M m \<Longrightarrow> M (fst (RegisterConnected ctx client m))"

locale layout_keeps =
  fixes Y :: "('v, 't) layout_env" and L :: "('v, 't) layout \<Rightarrow> bool"
  assumes L_upd: "L l \<Longrightarrow> keep L (upd_split i f l)"
    and L_map: "L l \<Longrightarrow> L (l\<lparr> splits := map f (splits l) \<rparr>)"
    and L_nth: "L l \<Longrightarrow> L (l\<lparr> splits := (splits l)[n := q] \<rparr>)"
    and L_log: "L l \<Longrightarrow> L (l\<lparr> logView := v \<rparr>)"
    and L_panel: "L l \<Longrightarrow> L (l\<lparr> rightPanel := d \<rparr>)"
    and L_mode: "L l \<Longrightarrow> L (SetLogMode b l)"
    and L_next: "L l \<Longrightarrow> keep L (FocusNext Y l)"
    and L_prev: "L l \<Longrightarrow> keep L (FocusPrev Y l)"
    and L_at: "L l \<Longrightarrow> keep L (FocusSplitAt Y i l)"
    and L_details: "L l \<Longrightarrow> keep L (FocusDetails Y l)"
    and L_resources: "L l \<Longrightarrow> keep L (FocusResources Y l)"
    and L_insert: "L l \<Longrightarrow> keep L (insert_split Y q l)"
    and L_close: "L l \<Longrightarrow> keep (\<lambda>x. L (fst x)) (CloseCurrentSplit Y l)"
    and L_move: "L l \<Longrightarrow> keep L (MoveFocusedSplit Y delta l)"
    and L_show: "L l \<Longrightarrow> keep L (ShowRightPanel Y l)"
    and L_hide: "L l \<Longrightarrow> keep L (HideRightPanel Y l)"
    and L_zoom_split: "L l \<Longrightarrow> keep L (ToggleZoomSplit Y l)"
    and L_zoom_detail: "L l \<Longrightarrow> keep L (ToggleZoomDetail Y l)"
    and L_unzoom: "L l \<Longrightarrow> keep L (UnzoomAll Y l)"
    and L_orientation: "L l \<Longrightarrow> keep L (ToggleOrientation Y l)"
    and L_resize: "L l \<Longrightarrow> keep L (ly_Resize Y w h l)"

locale status_keeps =
  fixes S :: "status_bar \<Rightarrow> bool"
  assumes S_hints: "S s \<Longrightarrow> S (SetHints hs s)"
    and S_indicator: "S s \<Longrightarrow> S (SetIndicator i s)"
    and S_online: "S s \<Longrightarrow> S (SetOnline b s)"
    and S_context: "S s \<Longrightarrow> S (SetContextName c s)"
    and S_width: "S s \<Longrightarrow> S (sb_SetWidth w s)"
    and S_start: "S s \<Longrightarrow> S (fst (StartOperation s))"
    and S_end: "S s \<Longrightarrow> S (EndOperation s)"
    and S_spinner: "S s \<Longrightarrow> S (fst (ShowSpinnerMsg s))"

locale table_keeps =
  fixes F :: "pf_registry \<Rightarrow> bool" and R :: "registry \<Rightarrow> bool" and N :: "notify_store \<Rightarrow> bool"
  assumes F_remove: "F r \<Longrightarrow> F (fst (pf_Remove i r))"
    and F_status: "F r \<Longrightarrow> F (fst (UpdateStatus i st r))"
    and R_absent: "R reg \<Longrightarrow> R (fst (RegisterIfAbsent p reg))"
    and N_add: "N nst \<Longrightarrow> N (fst (ns_Add now l msg ctx src nst))"

text \<open>
  What the parameters may do: a drill-down of a plugin reads and subscribes, and the manifests that
  are read again make a cluster without a client.
\<close>

inductive subscribes :: "manager \<Rightarrow> manager \<Rightarrow> bool" where
  none: "subscribes m m"
| more: "subscribes m m1 \<Longrightarrow> store_of ctx m1 = Some s \<Longrightarrow> subscribes m (on_store ctx (\<lambda>_. fst (Subscribe g ns s)) m1)"

definition subscribing :: "(string \<Rightarrow> k8s_obj \<Rightarrow> manager \<Rightarrow> manager \<times> 'r) \<Rightarrow> bool" where
  "subscribing f \<longleftrightarrow> (\<forall>ctx x m. subscribes m (fst (f ctx x m)))"

definition drills_subscribe :: "('v, 't, 'w) app_env \<Rightarrow> bool" where
  "drills_subscribe P \<longleftrightarrow> (\<forall>p f. ap_DrillDown P p = Some f \<longrightarrow> subscribing f) \<and>
     (\<forall>p f. ap_DrillUp P p = Some f \<longrightarrow> subscribing f) \<and> (\<forall>p f. ap_GoToNode P p = Some f \<longrightarrow> subscribing f)"

definition manifests_pinned :: "('v, 't, 'w) app_env \<Rightarrow> bool" where
  "manifests_pinned P \<longleftrightarrow> (\<forall>ps ns c ws. ap_LoadFiles P ps ns = Inr (c, ws) \<longrightarrow>
     c_client c = None \<and> (case c_store c of None \<Rightarrow> False | Some s \<Rightarrow> st_static s))"

definition plugins_ok :: "('v, 't, 'w) app_env \<Rightarrow> bool" where
  "plugins_ok P \<longleftrightarrow> drills_subscribe P \<and> manifests_pinned P"

section \<open>The handlers\<close>

locale app_keeps = manager_keeps M + layout_keeps "ap_layout P" L + status_keeps S + table_keeps F R N
  for P :: "('v, 't, 'w) app_env" and M L S F R N +
  assumes plugins: "plugins_ok P"
    and M_manifest: "M m \<Longrightarrow> c_client c = None \<Longrightarrow> c_store c = Some s \<Longrightarrow> st_static s \<Longrightarrow> M (RegisterPinned c m)"
begin

abbreviation J :: "('v, 't, 'w) app \<Rightarrow> bool" where
  "J \<equiv> app_sat M L F R S N"

lemma J_parts: "J a \<Longrightarrow> M (a_mgr a) \<and> L (a_layout a) \<and> F (a_pf a) \<and> R (a_registry a) \<and> S (a_status a) \<and> N (a_notify a)"
  by (simp add: app_sat_def)

lemma state_cases [keeps]:
  "(c \<Longrightarrow> J a) \<Longrightarrow> (\<not> c \<Longrightarrow> J b) \<Longrightarrow> J (if c then a else b)"
  "(x = None \<Longrightarrow> J a) \<Longrightarrow> (\<And>y. x = Some y \<Longrightarrow> J (k y)) \<Longrightarrow> J (case x of None \<Rightarrow> a | Some y \<Rightarrow> k y)"
  "(\<And>e. z = Inl e \<Longrightarrow> J (g e)) \<Longrightarrow> (\<And>y. z = Inr y \<Longrightarrow> J (h y)) \<Longrightarrow> J (case z of Inl e \<Rightarrow> g e | Inr y \<Rightarrow> h y)"
  "(\<And>u v. p = (u, v) \<Longrightarrow> J (q u v)) \<Longrightarrow> J (case p of (u, v) \<Rightarrow> q u v)"
  "(c \<Longrightarrow> J (f b)) \<Longrightarrow> (\<not> c \<Longrightarrow> J (f' b)) \<Longrightarrow> J ((if c then f else f') b)"
  "J (f (f' b)) \<Longrightarrow> J ((f \<circ> f') b)"
  by (simp_all split: option.split sum.split prod.split)

lemma bind_J [keeps]: "keep J r \<Longrightarrow> (\<And>a. J a \<Longrightarrow> keep J (f a)) \<Longrightarrow> keep J (go_bind r f)"
  by (rule keep_bind)

text \<open>Reading first: a result that is not a state says nothing.\<close>

lemmas reads [keeps] =
  keep_read [where 'x = string] keep_read [where 'x = bool] keep_read [where 'x = "'v resource_list option"]
  keep_read [where 'x = "cluster option"] keep_read [where 'x = "object_store option"]
  keep_read [where 'x = "k8s_client option"] keep_read [where 'x = "string \<times> string"]
  keep_read [where 'x = "key_hint list"] keep_read [where 'x = "('v resource_list \<times> k8s_obj) option"]
  keep_read [where 'x = "string option"] keep_read [where 'x = "('v, 't) pane option"]
  keep_read [where 'x = "string + string"] keep_read [where 'x = log_view] keep_read [where 'x = "'v detail_view"]

text \<open>Fields that no predicate looks at.\<close>

lemma J_fields [keeps]:
  "J a \<Longrightarrow> J (a\<lparr> a_trie := v1 \<rparr>)" "J a \<Longrightarrow> J (a\<lparr> a_envResolved := v2 \<rparr>)" "J a \<Longrightarrow> J (a\<lparr> a_overlay := v3 \<rparr>)"
  "J a \<Longrightarrow> J (a\<lparr> a_pending := v4 \<rparr>)" "J a \<Longrightarrow> J (a\<lparr> a_handles := v5 \<rparr>)" "J a \<Longrightarrow> J (a\<lparr> a_confirm := v6 \<rparr>)"
  "J a \<Longrightarrow> J (a\<lparr> a_termSeq := v7 \<rparr>)" "J a \<Longrightarrow> J (a\<lparr> a_click := v8 \<rparr>)" "J a \<Longrightarrow> J (a\<lparr> a_bar := v9 \<rparr>)"
  "J a \<Longrightarrow> J (a\<lparr> a_terminals := v10 \<rparr>)" "J a \<Longrightarrow> J (a\<lparr> a_cleanup := v11 \<rparr>)" "J a \<Longrightarrow> J (a\<lparr> a_logCancel := v12 \<rparr>)"
  "J a \<Longrightarrow> J (a\<lparr> a_logCh := v13 \<rparr>)" "J a \<Longrightarrow> J (a\<lparr> a_dismissed := v14 \<rparr>)" "J a \<Longrightarrow> J (a\<lparr> a_picker := v15 \<rparr>)"
  "J a \<Longrightarrow> J (a\<lparr> a_searchApplySeq := v16 \<rparr>)" "J a \<Longrightarrow> J (a\<lparr> a_logDebounceSeq := v17 \<rparr>)"
  "J a \<Longrightarrow> J (a\<lparr> a_logStreamGen := v18 \<rparr>)" "J a \<Longrightarrow> J (a\<lparr> a_describeGen := v19 \<rparr>)"
  "J a \<Longrightarrow> J (a\<lparr> a_describeDebounceSeq := v20 \<rparr>)" "J a \<Longrightarrow> J (a\<lparr> a_lastDetailKey := v21 \<rparr>)"
  "J a \<Longrightarrow> J (a\<lparr> a_plugins := v22 \<rparr>)" "J a \<Longrightarrow> J (a\<lparr> a_clock := v23 \<rparr>)" "J a \<Longrightarrow> J (a\<lparr> a_out := v24 \<rparr>)"
  "J a \<Longrightarrow> J (a\<lparr> a_trieType := v25 \<rparr>)" "J a \<Longrightarrow> J (a\<lparr> a_trieRes := v26 \<rparr>)" "J a \<Longrightarrow> J (a\<lparr> a_config := v27 \<rparr>)"
  by (simp_all add: app_sat_def)

lemma J_parts_upd:
  "J a \<Longrightarrow> M m \<Longrightarrow> J (a\<lparr> a_mgr := m \<rparr>)" "J a \<Longrightarrow> L l \<Longrightarrow> J (a\<lparr> a_layout := l \<rparr>)"
  "J a \<Longrightarrow> F r \<Longrightarrow> J (a\<lparr> a_pf := r \<rparr>)" "J a \<Longrightarrow> R reg \<Longrightarrow> J (a\<lparr> a_registry := reg \<rparr>)"
  "J a \<Longrightarrow> S s \<Longrightarrow> J (a\<lparr> a_status := s \<rparr>)" "J a \<Longrightarrow> N nst \<Longrightarrow> J (a\<lparr> a_notify := nst \<rparr>)"
  by (simp_all add: app_sat_def)

lemmas laws [keeps] = M_sync M_subscribe M_unsubscribe M_live M_connected L_upd L_map L_nth L_log L_panel L_mode
  L_next L_prev L_at L_details L_resources L_insert L_move L_show L_hide L_zoom_split L_zoom_detail L_unzoom
  L_orientation L_resize S_hints S_indicator S_online S_context S_width S_start S_end S_spinner F_remove F_status R_absent N_add

lemma of_J [keeps]:
  "J a \<Longrightarrow> M (a_mgr a)" "J a \<Longrightarrow> L (a_layout a)" "J a \<Longrightarrow> F (a_pf a)" "J a \<Longrightarrow> R (a_registry a)"
  "J a \<Longrightarrow> S (a_status a)" "J a \<Longrightarrow> N (a_notify a)"
  by (simp_all add: app_sat_def)

lemma M_subscribed [keeps]:
  "M m \<Longrightarrow> store_of ctx m = Some s \<Longrightarrow> Subscribe g ns s = (s1, x) \<Longrightarrow> M (on_store ctx (\<lambda>_. s1) m)"
  using M_subscribe [of m ctx s g ns] by simp

lemma L_more [keeps]:
  "L l \<Longrightarrow> keep L (AddSplit (ap_layout P) p ns ctx l)" "L l \<Longrightarrow> keep L (AddTerminalSplit (ap_layout P) q l)"
  "L l \<Longrightarrow> L (UpdateSplitObjects (ap_layout P) p ns ctx objs l)" "L l \<Longrightarrow> keep L (UpdateLogView (ap_layout P) w l)"
  by (auto simp: AddSplit_def AddTerminalSplit_def UpdateSplitObjects_def UpdateLogView_def Let_def
      split: prod.split intro!: L_insert L_map L_log reads)

lemma manifest_kept [keeps]:
  "ap_LoadFiles P ps ns = Inr y \<Longrightarrow> y = (c, ws) \<Longrightarrow> M m \<Longrightarrow> M (RegisterPinned c m)"
  using plugins M_manifest [of m c] by (fastforce simp: plugins_ok_def manifests_pinned_def split: option.splits)

lemma M_subs: "subscribes m m' \<Longrightarrow> M m \<Longrightarrow> M m'"
  by (induction rule: subscribes.induct) (auto intro: M_subscribe)

lemma drilled [keeps]: "J a \<Longrightarrow> subscribing f \<Longrightarrow> f ctx x (a_mgr a) = (m, res) \<Longrightarrow> J (a\<lparr> a_mgr := m \<rparr>)"
proof -
  assume J: "J a" "subscribing f" "f ctx x (a_mgr a) = (m, res)"
  then have "subscribes (a_mgr a) m" by (metis fst_conv subscribing_def)
  then show ?thesis using M_subs J(1) by (blast intro: J_parts_upd of_J)
qed

lemma connected [keeps]:
  "J a \<Longrightarrow> RegisterConnected ctx client (a_mgr a) = (m, x) \<Longrightarrow> J (a\<lparr> a_mgr := m \<rparr>)"
  using M_connected [of "a_mgr a" ctx client] by (auto intro!: J_parts_upd of_J)

lemma drill_subscribes [keeps]:
  "ap_DrillDown P p = Some f1 \<Longrightarrow> subscribing f1" "ap_DrillUp P p = Some f2 \<Longrightarrow> subscribing f2"
  "ap_GoToNode P p = Some f3 \<Longrightarrow> subscribing f3"
  using plugins by (auto simp: plugins_ok_def drills_subscribe_def)

lemma keep_emit [keeps]: "J a \<Longrightarrow> J (emit x0 a)"
  unfolding emit_def Let_def by (intro keeps)

lemma keep_add_note [keeps]: "J a \<Longrightarrow> J (add_note l msg ctx src a)"
  using N_add [of "a_notify a" "a_clock a" l msg ctx src]
  by (auto simp: add_note_def Let_def app_sat_def split: prod.splits)

lemma keep_on_layout [keeps]: "J a \<Longrightarrow> keep L (f (a_layout a)) \<Longrightarrow> keep J (on_layout f a)"
  unfolding on_layout_def by (rule keep_bind [where K = L]) (simp_all add: J_parts_upd)

lemma keep_set_layout [keeps]: "J a \<Longrightarrow> L (f (a_layout a)) \<Longrightarrow> J (set_layout f a)"
  by (simp add: set_layout_def J_parts_upd)

lemma keep_on_status [keeps]: "J a \<Longrightarrow> S (f (a_status a)) \<Longrightarrow> J (on_status f a)"
  by (simp add: on_status_def J_parts_upd)

lemma keep_on_mgr [keeps]: "J a \<Longrightarrow> M (f (a_mgr a)) \<Longrightarrow> J (on_mgr f a)"
  by (simp add: on_mgr_def J_parts_upd)

lemma keep_start_op [keeps]: "J a \<Longrightarrow> J (start_op a)"
  using S_start [of "a_status a"] keep_emit [of "a\<lparr> a_status := fst (StartOperation (a_status a)) \<rparr>"]
  by (auto simp: start_op_def Let_def J_parts_upd of_J split: prod.splits)

lemma keep_reset_trie [keeps]: "J a \<Longrightarrow> J (reset_trie a)"
  unfolding reset_trie_def Let_def by (intro keeps)

lemma keep_clear_env [keeps]: "J a \<Longrightarrow> J (clear_env a)"
  unfolding clear_env_def Let_def by (intro keeps)

lemma keep_upd_list [keeps]: "J a \<Longrightarrow> keep J (upd_list i f a)"
  unfolding upd_list_def by (intro keeps)

lemma keep_upd_focused [keeps]: "J a \<Longrightarrow> keep J (upd_focused f a)"
  unfolding upd_focused_def by (intro keeps)

lemma keep_with_focused [keeps]: "(\<And>f. keep K (k f a)) \<Longrightarrow> keep K (with_focused k a)"
  unfolding with_focused_def by (rule keep_read) simp

lemma keep_note_here [keeps]: "J a \<Longrightarrow> keep J (note_here x0 x1 x2 a)"
  unfolding note_here_def Let_def by (intro keeps)

lemma keep_sync_refs [keeps]: "J a \<Longrightarrow> J (sync_refs a)"
  unfolding sync_refs_def Let_def by (intro keeps)

lemma keep_syncPaneFooters [keeps]: "J a \<Longrightarrow> J (syncPaneFooters a)"
  unfolding syncPaneFooters_def Let_def by (intro keeps)

lemma keep_syncContextPaneCounts [keeps]: "J a \<Longrightarrow> J (syncContextPaneCounts P a)"
  unfolding syncContextPaneCounts_def Let_def by (intro keeps)

lemma keep_sync_hints [keeps]: "J a \<Longrightarrow> keep J (sync_hints a)"
  unfolding sync_hints_def Let_def by (intro keeps)

lemma keep_syncIndicators [keeps]: "J a \<Longrightarrow> J (syncIndicators P a)"
  unfolding syncIndicators_def Let_def by (intro keeps)

lemma keep_setStatusBarContext [keeps]: "J a \<Longrightarrow> J (setStatusBarContext x0 a)"
  unfolding setStatusBarContext_def Let_def by (intro keeps)

lemma keep_syncStatusBarContext [keeps]: "J a \<Longrightarrow> keep J (syncStatusBarContext a)"
  unfolding syncStatusBarContext_def Let_def by (intro keeps)

lemma keep_unsubscribeOnStoreIfUnused [keeps]: "J a \<Longrightarrow> J (unsubscribeOnStoreIfUnused x0 x1 x2 a)"
  unfolding unsubscribeOnStoreIfUnused_def Let_def by (intro keeps)

lemma keep_unsubscribeIfUnused [keeps]: "J a \<Longrightarrow> keep J (unsubscribeIfUnused x0 x1 a)"
  unfolding unsubscribeIfUnused_def Let_def by (intro keeps)

lemma keep_subscribe_pane [keeps]:
  "J a \<Longrightarrow> store_of ctx (a_mgr a) = Some s \<Longrightarrow> keep J (subscribe_pane P i ctx s g ns a)"
  unfolding subscribe_pane_def Let_def by (intro keeps)

lemma keep_subscribeAndPopulate [keeps]: "J a \<Longrightarrow> keep J (subscribeAndPopulate P i r p ns a)"
  unfolding subscribeAndPopulate_def Let_def
  by (rule keep_cases, rule keep_subscribe_pane) (auto simp: store_of_def intro!: keeps)

lemma keep_stopLogStream [keeps]: "J a \<Longrightarrow> J (stopLogStream a)"
  unfolding stopLogStream_def Let_def by (intro keeps)

lemma keep_on_log [keeps]: "J a \<Longrightarrow> J (on_log x0 a)"
  unfolding on_log_def Let_def by (intro keeps)

lemma keep_on_panel [keeps]: "J a \<Longrightarrow> J (on_panel x0 a)"
  unfolding on_panel_def Let_def by (intro keeps)

lemma keep_startLogStream [keeps]: "J a \<Longrightarrow> keep J (startLogStream x0 x1 x2 x3 a)"
  unfolding startLogStream_def Let_def by (intro keeps)

lemma keep_restartLogForCursor [keeps]: "J a \<Longrightarrow> keep J (restartLogForCursor P a)"
  unfolding restartLogForCursor_def Let_def by (intro keeps)

lemma keep_syncLogPanel [keeps]: "J a \<Longrightarrow> keep J (syncLogPanel P a)"
  unfolding syncLogPanel_def Let_def by (intro keeps)

lemma keep_startLogViewForSelected [keeps]: "J a \<Longrightarrow> keep J (startLogViewForSelected P a)"
  unfolding startLogViewForSelected_def Let_def by (intro keeps)

lemma keep_show_content [keeps]: "J a \<Longrightarrow> J (show_content P x1 b2 a)"
  unfolding show_content_def Let_def by (intro keeps)

lemma keep_refresh_yaml [keeps]: "J a \<Longrightarrow> J (refresh_yaml P b1 x2 x3 a)"
  unfolding refresh_yaml_def Let_def by (intro keeps)

lemma keep_refresh_values [keeps]: "J a \<Longrightarrow> J (refresh_values P b1 x2 x3 a)"
  unfolding refresh_values_def Let_def by (intro keeps)

lemma keep_refresh_describe [keeps]: "J a \<Longrightarrow> J (refresh_describe x0 x1 a)"
  unfolding refresh_describe_def Let_def by (intro keeps)

lemma keep_refreshDetailPanelOpts [keeps]: "J a \<Longrightarrow> keep J (refreshDetailPanelOpts P b1 a)"
  unfolding refreshDetailPanelOpts_def Let_def by (intro keeps)

lemma keep_refreshDetailPanel [keeps]: "J a \<Longrightarrow> keep J (refreshDetailPanel P a)"
  unfolding refreshDetailPanel_def Let_def by (intro keeps)

lemma keep_reloadDetailPanel [keeps]: "J a \<Longrightarrow> keep J (reloadDetailPanel P a)"
  unfolding reloadDetailPanel_def Let_def by (intro keeps)

lemma keep_refreshDetailPanelOrLog [keeps]: "J a \<Longrightarrow> keep J (refreshDetailPanelOrLog P a)"
  unfolding refreshDetailPanelOrLog_def Let_def by (intro keeps)

lemma keep_closeRightPanel [keeps]: "J a \<Longrightarrow> keep J (closeRightPanel P a)"
  unfolding closeRightPanel_def Let_def by (intro keeps)

lemma keep_focus_details_hints [keeps]: "J a \<Longrightarrow> keep J (focus_details_hints P a)"
  unfolding focus_details_hints_def Let_def by (intro keeps)

lemma keep_handleViewMode [keeps]: "J a \<Longrightarrow> keep J (handleViewMode P x1 b2 a)"
  unfolding handleViewMode_def Let_def by (intro keeps)

lemma keep_handleViewHelmValues [keeps]: "J a \<Longrightarrow> keep J (handleViewHelmValues P x1 a)"
  unfolding handleViewHelmValues_def Let_def by (intro keeps)

lemma keep_on_LogLine [keeps]: "J a \<Longrightarrow> keep J (on_LogLine P x1 x2 a)"
  unfolding on_LogLine_def Let_def by (intro keeps)

lemma keep_on_LogStreamEnded [keeps]: "J a \<Longrightarrow> keep J (on_LogStreamEnded x0 x1 a)"
  unfolding on_LogStreamEnded_def Let_def by (intro keeps)

lemma keep_on_LogStreamReady [keeps]: "J a \<Longrightarrow> keep J (on_LogStreamReady x0 x1 a)"
  unfolding on_LogStreamReady_def Let_def by (intro keeps)

lemma keep_on_LogDebounceFired [keeps]: "J a \<Longrightarrow> keep J (on_LogDebounceFired P x1 a)"
  unfolding on_LogDebounceFired_def Let_def by (intro keeps)

lemma keep_on_LogContainerSelected [keeps]: "J a \<Longrightarrow> keep J (on_LogContainerSelected P x1 a)"
  unfolding on_LogContainerSelected_def Let_def by (intro keeps)

lemma keep_on_LogTimeRangeSelected [keeps]: "J a \<Longrightarrow> keep J (on_LogTimeRangeSelected P x1 x2 a)"
  unfolding on_LogTimeRangeSelected_def Let_def by (intro keeps)

lemma keep_on_DescribeLoaded [keeps]: "J a \<Longrightarrow> J (on_DescribeLoaded P x1 x2 a)"
  unfolding on_DescribeLoaded_def Let_def by (intro keeps)

lemma keep_on_DescribeDebounceFired [keeps]: "J a \<Longrightarrow> keep J (on_DescribeDebounceFired P x1 a)"
  unfolding on_DescribeDebounceFired_def Let_def by (intro keeps)

lemma keep_on_InitDetailRefresh [keeps]: "J a \<Longrightarrow> keep J (on_InitDetailRefresh P a)"
  unfolding on_InitDetailRefresh_def Let_def by (intro keeps)

end

end
