(* ===== verification/App_Keep_Handlers.thy ===== *)
theory App_Keep_Handlers
  imports App_Keep
begin

text \<open>
  The handlers keep what the operations of the components keep: the remaining handlers, one lemma
  for each, up to the dispatch of commands, keys and the mouse.
\<close>

context app_keeps begin

lemma keep_syncTerminalSizes [keeps]: "J a \<Longrightarrow> J (syncTerminalSizes a)"
  unfolding syncTerminalSizes_def Let_def by (intro keeps)

lemma keep_closeTerminalSession [keeps]: "J a \<Longrightarrow> J (closeTerminalSession x0 a)"
  unfolding closeTerminalSession_def Let_def by (intro keeps)

lemma keep_close_terminal [keeps]: "J a \<Longrightarrow> keep J (close_terminal x0 a)"
  unfolding close_terminal_def Let_def by (intro keeps)

lemma keep_close_split [keeps]: "J a \<Longrightarrow> keep J (close_split P a)"
  unfolding close_split_def
  by (intro keep_on_layout keep_bind [where K = "\<lambda>x. L (fst x)"] L_close of_J) auto

lemma keep_closeFocusedSplit [keeps]: "J a \<Longrightarrow> keep J (closeFocusedSplit P a)"
  unfolding closeFocusedSplit_def Let_def by (intro keeps)

lemma keep_closeFocusedTerminal [keeps]: "J a \<Longrightarrow> keep J (closeFocusedTerminal P a)"
  unfolding closeFocusedTerminal_def Let_def by (intro keeps)

lemma keep_unzoom [keeps]: "J a \<Longrightarrow> keep J (unzoom P a)"
  unfolding unzoom_def Let_def by (intro keeps)

lemma keep_for_focused [keeps]: "J a \<Longrightarrow> (\<And>i r b. J b \<Longrightarrow> keep J (k i r b)) \<Longrightarrow> keep J (for_focused k a)"
  unfolding for_focused_def by (intro keeps)

lemma keep_populate_focused [keeps]: "J a \<Longrightarrow> keep J (populate_focused P a)"
  unfolding populate_focused_def Let_def by (intro keeps)

lemma keep_settle [keeps]: "J a \<Longrightarrow> keep J (settle P a)"
  unfolding settle_def Let_def by (intro keeps)

lemma keep_handleGotoPlugin [keeps]: "J a \<Longrightarrow> keep J (handleGotoPlugin P x1 x2 a)"
  unfolding handleGotoPlugin_def Let_def by (intro keeps)

lemma keep_handleGoto [keeps]: "J a \<Longrightarrow> keep J (handleGoto P x1 x2 a)"
  unfolding handleGoto_def Let_def by (intro keeps)

lemma keep_handleGotoGVR [keeps]: "J a \<Longrightarrow> keep J (handleGotoGVR P x1 a)"
  unfolding handleGotoGVR_def Let_def by (intro keeps)

lemma keep_handleResourcePickerCommand [keeps]: "J a \<Longrightarrow> keep J (handleResourcePickerCommand P x1 a)"
  unfolding handleResourcePickerCommand_def Let_def by (intro keeps)

lemma keep_handleNamespaceSwitch [keeps]: "J a \<Longrightarrow> keep J (handleNamespaceSwitch P x1 a)"
  unfolding handleNamespaceSwitch_def Let_def by (intro keeps)

lemma keep_add_split [keeps]: "J a \<Longrightarrow> keep J (add_split P x1 x2 x3 a)"
  unfolding add_split_def Let_def by (intro keeps)

lemma keep_handleSplit [keeps]: "J a \<Longrightarrow> keep J (handleSplit P x1 a)"
  unfolding handleSplit_def Let_def by (intro keeps)

lemma keep_openDrilledSplit [keeps]: "J a \<Longrightarrow> keep J (openDrilledSplit P x1 x2 x3 x4 x5 a)"
  unfolding openDrilledSplit_def Let_def by (intro keeps)

lemma keep_handleGotoContexts [keeps]: "J a \<Longrightarrow> keep J (handleGotoContexts P a)"
  unfolding handleGotoContexts_def Let_def by (intro keeps)

lemma keep_release [keeps]: "J a \<Longrightarrow> J (release ctx subs a)"
  unfolding release_def by (rule keep_foldl) (auto intro: keeps)

lemma keep_for_panes [keeps]:
  "J a \<Longrightarrow> (\<And>i r b. J b \<Longrightarrow> keep J (k i r b)) \<Longrightarrow> keep J (for_panes ctx k is a)"
  by (induction "is" arbitrary: a) (auto intro!: keeps split: option.split)

lemma keep_each_pane [keeps]: "J a \<Longrightarrow> (\<And>i r b. J b \<Longrightarrow> keep J (k i r b)) \<Longrightarrow> keep J (each_pane ctx k a)"
  unfolding each_pane_def by (intro keeps)

lemma keep_leave_logs [keeps]: "J a \<Longrightarrow> J (leave_logs a)"
  unfolding leave_logs_def Let_def by (intro keeps)

lemma keep_to_pinned [keeps]: "J a \<Longrightarrow> keep J (to_pinned P x1 x2 a)"
  unfolding to_pinned_def Let_def by (intro keeps)

lemma keep_populate_at [keeps]: "J a \<Longrightarrow> keep J (populate_at P x1 a)"
  unfolding populate_at_def Let_def by (intro keeps)

lemma keep_switchPaneToPinned [keeps]: "J a \<Longrightarrow> keep J (switchPaneToPinned P x1 x2 a)"
  unfolding switchPaneToPinned_def Let_def by (intro keeps)

lemma keep_switchGroupToPinned [keeps]: "J a \<Longrightarrow> keep J (switchGroupToPinned P x1 x2 a)"
  unfolding switchGroupToPinned_def Let_def by (intro keeps)

lemma keep_note_connecting [keeps]: "J a \<Longrightarrow> J (note_connecting x0 a)"
  unfolding note_connecting_def Let_def by (intro keeps)

lemma keep_handlePaneContextSwitch [keeps]: "J a \<Longrightarrow> keep J (handlePaneContextSwitch P x1 a)"
  unfolding handlePaneContextSwitch_def Let_def by (intro keeps)

lemma keep_handleGroupContextSwitch [keeps]: "J a \<Longrightarrow> keep J (handleGroupContextSwitch P x1 a)"
  unfolding handleGroupContextSwitch_def Let_def by (intro keeps)

lemma keep_on_GlobalContextSelected [keeps]: "J a \<Longrightarrow> keep J (on_GlobalContextSelected P x1 a)"
  unfolding on_GlobalContextSelected_def Let_def by (intro keeps)

lemma keep_handlePaneSwitchContext [keeps]: "J a \<Longrightarrow> keep J (handlePaneSwitchContext P x1 a)"
  unfolding handlePaneSwitchContext_def Let_def by (intro keeps)

lemma keep_mark_offline [keeps]: "J a \<Longrightarrow> J (mark_offline ctx a)"
  unfolding mark_offline_def by (intro keeps)

lemma keep_ready_pane [keeps]: "J a \<Longrightarrow> keep J (ready_pane P x1 x2 x3 x4 a)"
  unfolding ready_pane_def Let_def by (intro keeps)

lemma keep_dial_failed [keeps]: "J a \<Longrightarrow> J (dial_failed x0 x1 a)"
  unfolding dial_failed_def Let_def by (intro keeps)

lemma keep_handleClusterReady [keeps]: "J a \<Longrightarrow> keep J (handleClusterReady P x1 x2 a)"
  unfolding handleClusterReady_def Let_def by (intro keeps)

lemma keep_handleClusterHealth [keeps]: "J a \<Longrightarrow> keep J (handleClusterHealth x0 b1 a)"
  unfolding handleClusterHealth_def Let_def by (intro keeps)

lemma keep_refresh_single [keeps]: "J a \<Longrightarrow> subscribing f \<Longrightarrow> keep J (refresh_single P i f ctx src a)"
  unfolding refresh_single_def Let_def by (intro keeps)

lemma keep_refreshDrillDownSplit [keeps]: "J a \<Longrightarrow> keep J (refreshDrillDownSplit P i r a)"
  unfolding refreshDrillDownSplit_def Let_def
  by (auto split: option.split nav_direction.split prod.split
        intro!: keep_Inr keep_refresh_single keep_upd_list dest!: drill_subscribes dest: drilled)

lemma keep_refresh_drills [keeps]: "J a \<Longrightarrow> keep J (refresh_drills P g ns is a)"
  by (induction "is" arbitrary: a) (auto intro!: keeps split: option.split)

lemma keep_refreshDrillDownSplits [keeps]: "J a \<Longrightarrow> keep J (refreshDrillDownSplits P x1 x2 a)"
  unfolding refreshDrillDownSplits_def Let_def by (intro keeps)

lemma keep_repaint [keeps]: "J a \<Longrightarrow> J (repaint P x1 x2 x3 a)"
  unfolding repaint_def Let_def by (intro keeps)

lemma keep_selection_moved [keeps]: "J a \<Longrightarrow> keep J (selection_moved P x1 a)"
  unfolding selection_moved_def Let_def by (intro keeps)

lemma keep_reload_describe [keeps]: "J a \<Longrightarrow> J (reload_describe x0 x1 a)"
  unfolding reload_describe_def Let_def by (intro keeps)

lemma keep_wait_for_log [keeps]: "J a \<Longrightarrow> keep J (wait_for_log P a)"
  unfolding wait_for_log_def Let_def by (intro keeps)

lemma keep_follow_update [keeps]: "J a \<Longrightarrow> keep J (follow_update P x1 a)"
  unfolding follow_update_def Let_def by (intro keeps)

lemma keep_on_ResourceUpdated [keeps]: "J a \<Longrightarrow> keep J (on_ResourceUpdated P x1 x2 x3 a)"
  unfolding on_ResourceUpdated_def Let_def by (intro keeps)

lemma keep_refreshSelfPopulatingSplits [keeps]: "J a \<Longrightarrow> J (refreshSelfPopulatingSplits P x1 a)"
  unfolding refreshSelfPopulatingSplits_def Let_def by (intro keeps)

lemma keep_reset_pane [keeps]: "J a \<Longrightarrow> keep J (reset_pane P x1 a)"
  unfolding reset_pane_def Let_def by (intro keeps)

lemma keep_reset_panes [keeps]: "J a \<Longrightarrow> keep J (reset_panes P is a)"
  by (induction "is" arbitrary: a) (auto intro!: keeps)

lemma keep_notes [keeps]: "J a \<Longrightarrow> J (foldl (\<lambda>a w. add_note l w ctx src a) a ws)"
  by (rule keep_foldl) (auto intro: keeps)

lemma keep_reloadManifest [keeps]: "J a \<Longrightarrow> keep J (reloadManifest P src ctx a)"
  unfolding reloadManifest_def Let_def by (intro keeps)

lemma keep_reloadAll [keeps]: "J a \<Longrightarrow> keep J (reloadAll P a)"
  unfolding reloadAll_def Let_def by (intro keeps)

lemma keep_add_spec [keeps]: "J a \<Longrightarrow> keep J (add_spec P x1 x2 x3 a)"
  unfolding add_spec_def Let_def by (intro keeps)

lemma keep_add_specs [keeps]: "J a \<Longrightarrow> keep J (add_specs P ns i sps a)"
  by (induction sps arbitrary: i a) (auto intro!: keeps)

lemma keep_startup_badge [keeps]: "J a \<Longrightarrow> J (startup_badge a)"
  unfolding startup_badge_def Let_def by (intro keeps)

lemma keep_open_detail [keeps]: "J a \<Longrightarrow> keep J (open_detail P x1 a)"
  unfolding open_detail_def Let_def by (intro keeps)

lemma keep_app_New [keeps]: "J a \<Longrightarrow> keep J (app_New P x1 x2 x3 a)"
  unfolding app_New_def Let_def by (intro keeps)

lemma keep_next_term [keeps]: "J a \<Longrightarrow> J (next_term a)"
  unfolding next_term_def Let_def by (intro keeps)

lemma keep_add_terminal [keeps]: "J a \<Longrightarrow> keep J (add_terminal P x1 a)"
  unfolding add_terminal_def Let_def by (intro keeps)

lemma keep_start_session [keeps]: "J a \<Longrightarrow> J (start_session x0 a)"
  unfolding start_session_def Let_def by (intro keeps)

lemma keep_set_meta [keeps]: "J a \<Longrightarrow> J (set_meta x0 x1 a)"
  unfolding set_meta_def Let_def by (intro keeps)

lemma keep_drop_meta [keeps]: "J a \<Longrightarrow> J (drop_meta x0 a)"
  unfolding drop_meta_def Let_def by (intro keeps)

lemma keep_openExecTerminal [keeps]: "J a \<Longrightarrow> keep J (openExecTerminal P x1 x2 x3 x4 x5 x6 a)"
  unfolding openExecTerminal_def Let_def by (intro keeps)

lemma keep_openDebugTerminal [keeps]: "J a \<Longrightarrow> keep J (openDebugTerminal P x1 x2 x3 x4 x5 x6 x7 b8 a)"
  unfolding openDebugTerminal_def Let_def by (intro keeps)

lemma keep_openNodeDebugTerminal [keeps]: "J a \<Longrightarrow> keep J (openNodeDebugTerminal P x1 x2 x3 x4 a)"
  unfolding openNodeDebugTerminal_def Let_def by (intro keeps)

lemma keep_upd_term [keeps]: "J a \<Longrightarrow> J (upd_term i f a)"
  unfolding upd_term_def by (rule keep_set_layout) (auto split: option.split intro!: keeps)

lemma keep_removeTerminalPane [keeps]: "J a \<Longrightarrow> keep J (removeTerminalPane P x1 a)"
  unfolding removeTerminalPane_def Let_def by (intro keeps)

lemma keep_failTerminalPane [keeps]: "J a \<Longrightarrow> keep J (failTerminalPane P x1 x2 a)"
  unfolding failTerminalPane_def Let_def by (intro keeps)

lemma keep_cancel_preflight [keeps]: "J a \<Longrightarrow> J (cancel_preflight x0 a)"
  unfolding cancel_preflight_def Let_def by (intro keeps)

lemma keep_emit_all [keeps]: "J a \<Longrightarrow> J (emit_all x0 a)"
  unfolding emit_all_def Let_def by (intro keeps)

lemma keep_handleDebugReady [keeps]: "J a \<Longrightarrow> keep J (handleDebugReady P x1 a)"
  unfolding handleDebugReady_def Let_def by (intro keeps)

lemma keep_on_TermBytes [keeps]: "J a \<Longrightarrow> J (on_TermBytes P x1 x2 a)"
  unfolding on_TermBytes_def Let_def by (intro keeps)

lemma keep_on_TermExit [keeps]: "J a \<Longrightarrow> J (on_TermExit x0 x1 x2 a)"
  unfolding on_TermExit_def Let_def by (intro keeps)

lemma keep_pane_command_step [keeps]: "J a \<Longrightarrow> keep J (pane_command_step P t c a)"
  by (cases c) (auto simp: Let_def intro!: keeps)

lemma keep_routeTerminalKey: "J a \<Longrightarrow> keep (\<lambda>x. J (snd x)) (routeTerminalKey P t k a)"
  unfolding routeTerminalKey_def Let_def
  by (auto split: prod.split intro!: keep_bind [where K = J] keeps simp del: pane_command_step.simps)

lemma keep_shutdownTerminals [keeps]: "J a \<Longrightarrow> J (shutdownTerminals a)"
  unfolding shutdownTerminals_def Let_def by (intro keeps)

lemma keep_executeRunExpanded [keeps]: "J a \<Longrightarrow> J (executeRunExpanded x0 b1 a)"
  unfolding executeRunExpanded_def Let_def by (intro keeps)

lemma keep_executeRun [keeps]: "J a \<Longrightarrow> J (executeRun x0 a)"
  unfolding executeRun_def Let_def by (intro keeps)

lemma keep_open_confirm [keeps]: "J a \<Longrightarrow> J (open_confirm x0 a)"
  unfolding open_confirm_def Let_def by (intro keeps)

lemma keep_handleRunCommand [keeps]: "J a \<Longrightarrow> keep J (handleRunCommand P x1 a)"
  unfolding handleRunCommand_def Let_def by (intro keeps)

lemma keep_detail_go [keeps]:
  "L l \<Longrightarrow> keep L (detail_go f g l)" "L l \<Longrightarrow> keep L (detail_go2 f' g l)" "L l \<Longrightarrow> keep L (log_op_go g l)"
  "L l \<Longrightarrow> L (on_detail f g' l)"
  by (auto simp: detail_go_def detail_go2_def log_op_go_def on_detail_def keep_def go_bind_def L_log L_panel
      split: sum.splits)

lemma keep_panel_or_list [keeps]:
  "J a \<Longrightarrow> (\<And>l. L l \<Longrightarrow> keep L (f l)) \<Longrightarrow> (\<And>b. J b \<Longrightarrow> keep J (after b)) \<Longrightarrow> keep J (panel_or_list f C g after a)"
  unfolding panel_or_list_def by (intro keeps) (blast intro: of_J)+

lemma keep_cursor_up [keeps]: "J a \<Longrightarrow> keep J (cursor_up P a)"
  unfolding cursor_up_def Let_def by (intro keeps)

lemma keep_cursor_down [keeps]: "J a \<Longrightarrow> keep J (cursor_down P a)"
  unfolding cursor_down_def Let_def by (intro keeps)

lemma keep_cursor_top [keeps]: "J a \<Longrightarrow> keep J (cursor_top P a)"
  unfolding cursor_top_def Let_def by (intro keeps)

lemma keep_cursor_bottom [keeps]: "J a \<Longrightarrow> keep J (cursor_bottom P a)"
  unfolding cursor_bottom_def Let_def by (intro keeps)

lemma keep_scroll_sideways [keeps]: "J a \<Longrightarrow> keep J (scroll_sideways f g h a)"
  unfolding scroll_sideways_def by (intro keeps)

lemma keep_page [keeps]: "J a \<Longrightarrow> (\<And>l. L l \<Longrightarrow> keep L (f l)) \<Longrightarrow> keep J (page f t g P a)"
  unfolding page_def by (intro keeps) (blast intro: of_J)+

lemma keep_page_down [keeps]: "J a \<Longrightarrow> keep J (page_down P a)"
  unfolding page_down_def Let_def by (intro keeps)

lemma keep_page_up [keeps]: "J a \<Longrightarrow> keep J (page_up P a)"
  unfolding page_up_def Let_def by (intro keeps)

lemma keep_in_logs [keeps]: "J a \<Longrightarrow> (\<And>l. L l \<Longrightarrow> keep L (f l)) \<Longrightarrow> keep J (in_logs f a)"
  unfolding in_logs_def by (intro keeps) (blast intro: of_J)+

lemma keep_if_panel [keeps]: "J a \<Longrightarrow> (\<And>l. L l \<Longrightarrow> keep L (f l)) \<Longrightarrow> keep J (if_panel f a)"
  unfolding if_panel_def by (intro keeps) (blast intro: of_J)+

lemma keep_on_target [keeps]: "J a \<Longrightarrow> keep J (on_target f g h a)"
  unfolding on_target_def by (intro keeps)

lemma keep_refresh_if_list [keeps]: "J a \<Longrightarrow> keep J (refresh_if_list P a)"
  unfolding refresh_if_list_def Let_def by (intro keeps)

lemma keep_search_next [keeps]: "J a \<Longrightarrow> keep J (search_next P a)"
  unfolding search_next_def Let_def by (intro keeps)

lemma keep_search_prev [keeps]: "J a \<Longrightarrow> keep J (search_prev P a)"
  unfolding search_prev_def Let_def by (intro keeps)

lemma keep_clear_search [keeps]: "J a \<Longrightarrow> keep J (clear_search P a)"
  unfolding clear_search_def Let_def by (intro keeps)

lemma keep_clear_filter [keeps]: "J a \<Longrightarrow> keep J (clear_filter P a)"
  unfolding clear_filter_def Let_def by (intro keeps)

lemma keep_clear_mode [keeps]: "J a \<Longrightarrow> keep J (clear_mode P x1 a)"
  unfolding clear_mode_def Let_def by (intro keeps)

lemma keep_apply_target: "J a \<Longrightarrow> keep (pred_option J) (apply_target P pattern mode a)"
  unfolding apply_target_def Let_def
  by (auto intro!: keep_with_focused keep_read [where r = "ApplySearch t p m l" for t p m l]
      keep_bind [where K = J and f = "\<lambda>a1. Inr (Some a1)"] keep_upd_focused J_parts_upd of_J L_log L_panel
      split: sum.split option.split)

lemma keep_applySearchToTarget [keeps]: "J a \<Longrightarrow> keep J (applySearchToTarget P pattern mode a)"
  unfolding applySearchToTarget_def
  by (rule keep_bind [OF keep_apply_target]) (auto split: option.split intro!: keeps)

lemma keep_handleSearchSubmitted [keeps]: "J a \<Longrightarrow> keep J (handleSearchSubmitted P x1 x2 a)"
  unfolding handleSearchSubmitted_def Let_def by (intro keeps)

lemma keep_handleSearchApply [keeps]: "J a \<Longrightarrow> keep J (handleSearchApply P x1 x2 x3 a)"
  unfolding handleSearchApply_def Let_def by (intro keeps)

lemma keep_bump_search [keeps]: "J a \<Longrightarrow> J (bump_search a)"
  unfolding bump_search_def Let_def by (intro keeps)

lemma keep_handleSearchChanged [keeps]: "J a \<Longrightarrow> keep J (handleSearchChanged P x1 x2 a)"
  unfolding handleSearchChanged_def Let_def by (intro keeps)

lemma keep_handleSearchCleared [keeps]: "J a \<Longrightarrow> keep J (handleSearchCleared P x1 a)"
  unfolding handleSearchCleared_def Let_def by (intro keeps)

lemma keep_focus_resources [keeps]: "J a \<Longrightarrow> keep J (focus_resources P a)"
  unfolding focus_resources_def Let_def by (intro keeps)

lemma keep_exit_detail [keeps]: "J a \<Longrightarrow> keep J (exit_detail P a)"
  unfolding exit_detail_def Let_def by (intro keeps)

lemma keep_exit_if_detail [keeps]: "J a \<Longrightarrow> keep J (exit_if_detail P a)"
  unfolding exit_if_detail_def Let_def by (intro keeps)

lemma keep_enter_panel [keeps]: "J a \<Longrightarrow> keep J (enter_panel P a)"
  unfolding enter_panel_def Let_def by (intro keeps)

lemma keep_focus_move [keeps]: "J a \<Longrightarrow> (\<And>l. L l \<Longrightarrow> keep L (f l)) \<Longrightarrow> keep J (focus_move P f a)"
  unfolding focus_move_def by (intro keeps) (blast intro: of_J)+

lemma keep_by_axis [keeps]: "J a \<Longrightarrow> (\<And>b. J b \<Longrightarrow> keep J (f b)) \<Longrightarrow> (\<And>b. J b \<Longrightarrow> keep J (g b)) \<Longrightarrow> keep J (by_axis f g a)"
  unfolding by_axis_def by (intro keeps)

lemma keep_focus_left [keeps]: "J a \<Longrightarrow> keep J (focus_left P a)"
  unfolding focus_left_def Let_def by (intro keeps)

lemma keep_focus_right [keeps]: "J a \<Longrightarrow> keep J (focus_right P a)"
  unfolding focus_right_def Let_def by (intro keeps)

lemma keep_focus_up [keeps]: "J a \<Longrightarrow> keep J (focus_up P a)"
  unfolding focus_up_def Let_def by (intro keeps)

lemma keep_focus_down [keeps]: "J a \<Longrightarrow> keep J (focus_down P a)"
  unfolding focus_down_def Let_def by (intro keeps)

lemma keep_move_pane [keeps]: "J a \<Longrightarrow> keep J (move_pane P x1 x2 a)"
  unfolding move_pane_def Let_def by (intro keeps)

lemma keep_toggle_orientation [keeps]: "J a \<Longrightarrow> keep J (toggle_orientation P a)"
  unfolding toggle_orientation_def Let_def by (intro keeps)

lemma keep_toggle_panel_focus [keeps]: "J a \<Longrightarrow> keep J (toggle_panel_focus P a)"
  unfolding toggle_panel_focus_def Let_def by (intro keeps)

lemma keep_toggleZoomDetailAndSync [keeps]: "J a \<Longrightarrow> keep J (toggleZoomDetailAndSync P a)"
  unfolding toggleZoomDetailAndSync_def Let_def by (intro keeps)

lemma keep_toggleZoomSplitAndSync [keeps]: "J a \<Longrightarrow> keep J (toggleZoomSplitAndSync P a)"
  unfolding toggleZoomSplitAndSync_def Let_def by (intro keeps)

lemma keep_toggle_zoom [keeps]: "J a \<Longrightarrow> keep J (toggle_zoom P a)"
  unfolding toggle_zoom_def Let_def by (intro keeps)

lemma keep_push_nav [keeps]: "J a \<Longrightarrow> keep J (push_nav P x1 x2 x3 x4 a)"
  unfolding push_nav_def Let_def by (intro keeps)

lemma drilled_fact: "subscribing f \<Longrightarrow> J a \<Longrightarrow> f ctx x (a_mgr a) = (m, res) \<Longrightarrow> J (a\<lparr> a_mgr := m \<rparr>)"
  by (rule drilled)

lemma keep_drill_children [keeps]:
  "J a \<Longrightarrow> (\<And>r p objs sel b. J b \<Longrightarrow> keep J (k r p objs sel b)) \<Longrightarrow> (\<And>b. J b \<Longrightarrow> keep J (none b)) \<Longrightarrow>
   keep J (drill_children P k none r sel a)"
  unfolding drill_children_def Let_def
  by (auto split: option.split prod.split dest!: drill_subscribes dest: drilled_fact)

lemma keep_drill_single [keeps]:
  assumes "J a" and "\<And>p f. G p = Some f \<Longrightarrow> subscribing f"
    and "\<And>r p objs sel b. J b \<Longrightarrow> keep J (k r p objs sel b)"
  shows "keep J (drill_single G k r sel a)"
  unfolding drill_single_def Let_def
  by (auto split: option.split prod.split intro!: assms(1,3) drilled_fact [OF assms(2,1)])

lemma keep_with_selection [keeps]:
  "J a \<Longrightarrow> (\<And>r sel b. J b \<Longrightarrow> keep J (k r sel b)) \<Longrightarrow> keep J (with_selection k a)"
  unfolding with_selection_def by (intro keeps)

lemma keep_split_children [keeps]: "J a \<Longrightarrow> keep J (split_children P a)"
  unfolding split_children_def Let_def by (intro keeps)

lemma keep_split_parent [keeps]: "J a \<Longrightarrow> keep J (split_parent P a)"
  unfolding split_parent_def Let_def by (intro keeps)

lemma keep_split_nav_node [keeps]: "J a \<Longrightarrow> keep J (split_nav_node P a)"
  unfolding split_nav_node_def Let_def by (intro keeps)

lemma keep_nav_parent [keeps]: "J a \<Longrightarrow> keep J (nav_parent P a)"
  unfolding nav_parent_def Let_def by (intro keeps)

lemma keep_nav_node [keeps]: "J a \<Longrightarrow> keep J (nav_node P a)"
  unfolding nav_node_def Let_def by (intro keeps)

lemma keep_enter_detail [keeps]: "J a \<Longrightarrow> keep J (enter_detail P a)"
  unfolding enter_detail_def Let_def by (intro keeps)

lemma keep_self_populate [keeps]: "J a \<Longrightarrow> keep J (self_populate P x1 x2 a)"
  unfolding self_populate_def Let_def by (intro keeps)

lemma keep_after_pop [keeps]: "J a \<Longrightarrow> keep J (after_pop P x1 x2 a)"
  unfolding after_pop_def Let_def by (intro keeps)

lemma keep_pop_drill [keeps]: "J a \<Longrightarrow> keep J (pop_drill P a)"
  unfolding pop_drill_def Let_def by (intro keeps)

lemma keep_clear_overlay [keeps]: "J a \<Longrightarrow> keep J (clear_overlay P a)"
  unfolding clear_overlay_def Let_def by (intro keeps)

lemma keep_close_pane [keeps]: "J a \<Longrightarrow> keep J (close_pane P a)"
  unfolding close_pane_def Let_def by (intro keeps)

lemma keep_close_current_panel [keeps]: "J a \<Longrightarrow> keep J (close_current_panel P a)"
  unfolding close_current_panel_def Let_def by (intro keeps)

lemma keep_quit [keeps]: "J a \<Longrightarrow> keep J (quit P a)"
  unfolding quit_def Let_def by (intro keeps)

lemma keep_saveLogBuffer: "J a \<Longrightarrow> keep (\<lambda>x. J (fst x)) (saveLogBuffer P tag a)"
  unfolding saveLogBuffer_def Let_def
  by (auto intro!: keep_read [where r = "currentLogContext a"] keep_bind [where K = J and f = "\<lambda>a1. Inr (a1, None)"] keeps
      split: option.split sum.split)

lemma keep_with_saved [keeps]:
  "J a \<Longrightarrow> (\<And>path n b. J b \<Longrightarrow> keep J (k path n b)) \<Longrightarrow> keep J (with_saved P tag k a)"
  unfolding with_saved_def
  by (rule keep_bind [OF keep_saveLogBuffer]) (auto split: option.split)

lemma keep_save_logs [keeps]: "J a \<Longrightarrow> keep J (save_logs P a)"
  unfolding save_logs_def Let_def by (intro keeps)

lemma keep_save_and_open_logs [keeps]: "J a \<Longrightarrow> keep J (save_and_open_logs P a)"
  unfolding save_and_open_logs_def Let_def by (intro keeps)



lemma keep_note_for [keeps]: "J a \<Longrightarrow> keep J (note_for l msg src f a)"
  unfolding note_for_def by (intro keeps)

lemma keep_copy_objects [keeps]:
  "J a \<Longrightarrow> (\<And>r objs b. J b \<Longrightarrow> keep J (k r objs b)) \<Longrightarrow> keep J (copy_objects tag nothing k a)"
  unfolding copy_objects_def by (intro keeps)

lemma keep_copy_log [keeps]: "J a \<Longrightarrow> keep J (copy_log a)"
  unfolding copy_log_def by (rule keep_read) (auto intro!: keeps split: option.split)

lemma keep_handleCopyCurrent [keeps]: "J a \<Longrightarrow> keep J (handleCopyCurrent a)"
  unfolding handleCopyCurrent_def Let_def by (intro keeps)

lemma keep_selectedResourceYAML [keeps]:
  "J a \<Longrightarrow> (\<And>r docs b. J b \<Longrightarrow> keep J (k r docs b)) \<Longrightarrow> keep J (selectedResourceYAML P tag nothing failed k a)"
  unfolding selectedResourceYAML_def by (intro keeps)

lemma keep_handleCopyYAML [keeps]: "J a \<Longrightarrow> keep J (handleCopyYAML P a)"
  unfolding handleCopyYAML_def Let_def by (intro keeps)

lemma keep_openInEditorTemp [keeps]: "J a \<Longrightarrow> keep J (openInEditorTemp P x1 x2 x3 x4 a)"
  unfolding openInEditorTemp_def Let_def by (intro keeps)

lemma keep_handleOpenCurrent [keeps]: "J a \<Longrightarrow> keep J (handleOpenCurrent P a)"
  unfolding handleOpenCurrent_def Let_def by (intro keeps)

lemma keep_when_connected [keeps]:
  "J a \<Longrightarrow> (\<And>cl b. J b \<Longrightarrow> keep J (k cl b)) \<Longrightarrow> keep J (when_connected verb r k a)"
  unfolding when_connected_def by (intro keeps)

lemma keep_port_forward_cmd [keeps]: "J a \<Longrightarrow> keep J (port_forward_cmd P a)"
  unfolding port_forward_cmd_def Let_def by (intro keeps)

lemma keep_edit_cmd [keeps]: "J a \<Longrightarrow> keep J (edit_cmd P a)"
  unfolding edit_cmd_def Let_def by (intro keeps)

lemma keep_set_image_cmd [keeps]: "J a \<Longrightarrow> keep J (set_image_cmd P a)"
  unfolding set_image_cmd_def Let_def by (intro keeps)

lemma keep_with_client [keeps]: "J a \<Longrightarrow> (\<And>c b. J b \<Longrightarrow> J (k c b)) \<Longrightarrow> keep J (with_client k a)"
  unfolding with_client_def by (intro keeps)

lemma keep_handleSetImageRequested [keeps]: "J a \<Longrightarrow> keep J (handleSetImageRequested x0 x1 x2 x3 x4 a)"
  unfolding handleSetImageRequested_def Let_def by (intro keeps)

lemma keep_handleScaleRequested [keeps]: "J a \<Longrightarrow> keep J (handleScaleRequested x0 x1 x2 x3 a)"
  unfolding handleScaleRequested_def Let_def by (intro keeps)

lemma keep_with_helm [keeps]: "J a \<Longrightarrow> (\<And>hc b. J b \<Longrightarrow> J (k hc b)) \<Longrightarrow> keep J (with_helm P k a)"
  unfolding with_helm_def by (intro keeps)

lemma keep_handleHelmRollback [keeps]: "J a \<Longrightarrow> keep J (handleHelmRollback P x1 x2 x3 a)"
  unfolding handleHelmRollback_def Let_def by (intro keeps)

lemma keep_handleHelmChartRefSet [keeps]: "J a \<Longrightarrow> keep J (handleHelmChartRefSet P x1 x2 x3 a)"
  unfolding handleHelmChartRefSet_def Let_def by (intro keeps)

lemma keep_on_HelmHistoryLoaded [keeps]: "J a \<Longrightarrow> J (on_HelmHistoryLoaded a)"
  unfolding on_HelmHistoryLoaded_def Let_def by (intro keeps)

lemma keep_handlePortForwardRequested [keeps]:
  "J a \<Longrightarrow> keep J (handlePortForwardRequested x0 x1 x2 x3 x4 x5 a)"
  unfolding handlePortForwardRequested_def Let_def by (intro keeps)

lemma keep_on_ShowSpinner [keeps]: "J a \<Longrightarrow> J (on_ShowSpinner a)"
  using S_spinner [of "a_status a"] keep_emit [of "a\<lparr> a_status := fst (ShowSpinnerMsg (a_status a)) \<rparr>"]
  by (auto simp: on_ShowSpinner_def Let_def J_parts_upd of_J split: prod.splits)

lemma keep_on_SpinnerTick [keeps]: "J a \<Longrightarrow> J (on_SpinnerTick a)"
  unfolding on_SpinnerTick_def Let_def by (intro keeps)

lemma keep_ask_delete [keeps]: "J a \<Longrightarrow> J (ask_delete x0 x1 a)"
  unfolding ask_delete_def Let_def by (intro keeps)

lemma keep_delete_cmd [keeps]: "J a \<Longrightarrow> keep J (delete_cmd a)"
  unfolding delete_cmd_def Let_def by (intro keeps)

lemma keep_restart_cmd [keeps]: "J a \<Longrightarrow> keep J (restart_cmd a)"
  unfolding restart_cmd_def Let_def by (intro keeps)

lemma keep_exec_cmd [keeps]: "J a \<Longrightarrow> keep J (exec_cmd P a)"
  unfolding exec_cmd_def Let_def by (intro keeps)

lemma keep_ask_debug [keeps]: "J a \<Longrightarrow> J (ask_debug x0 x1 a)"
  unfolding ask_debug_def Let_def by (intro keeps)

lemma keep_handleDebug [keeps]: "J a \<Longrightarrow> keep J (handleDebug P b1 a)"
  unfolding handleDebug_def Let_def by (intro keeps)

lemma keep_open_overlay [keeps]: "J a \<Longrightarrow> J (open_overlay x0 a)"
  unfolding open_overlay_def Let_def by (intro keeps)

lemma keep_namespace_picker [keeps]: "J a \<Longrightarrow> keep J (namespace_picker a)"
  unfolding namespace_picker_def Let_def by (intro keeps)

lemma keep_search_bar [keeps]: "J a \<Longrightarrow> J (search_bar x0 a)"
  unfolding search_bar_def Let_def by (intro keeps)

lemma keep_scale_cmd [keeps]: "J a \<Longrightarrow> keep J (scale_cmd a)"
  unfolding scale_cmd_def Let_def by (intro keeps)

lemma keep_with_release [keeps]:
  "J a \<Longrightarrow> (\<And>r sel b. J b \<Longrightarrow> J (k r sel b)) \<Longrightarrow> keep J (with_release k a)"
  unfolding with_release_def by (intro keeps)

lemma keep_rollback_cmd [keeps]: "J a \<Longrightarrow> keep J (rollback_cmd P a)"
  unfolding rollback_cmd_def Let_def by (intro keeps)

lemma keep_toggle_env [keeps]: "J a \<Longrightarrow> keep J (toggle_env P a)"
  unfolding toggle_env_def Let_def by (intro keeps)

lemma keep_refresh_detail [keeps]: "J a \<Longrightarrow> keep J (refresh_detail P a)"
  unfolding refresh_detail_def Let_def by (intro keeps)

lemma keep_select_cmd [keeps]: "J a \<Longrightarrow> keep J (select_cmd f a)"
  unfolding select_cmd_def by (intro keeps)

lemma keep_open_if_logs [keeps]: "J a \<Longrightarrow> keep J (open_if_logs w C a)"
  unfolding open_if_logs_def by (intro keeps)

lemma keep_unknown_command [keeps]: "J a \<Longrightarrow> keep J (unknown_command x0 a)"
  unfolding unknown_command_def Let_def by (intro keeps)

lemma keep_handleSort [keeps]: "J a \<Longrightarrow> keep J (handleSort P x1 a)"
  unfolding handleSort_def Let_def by (intro keeps)

text \<open>The tables of commands, entry by entry.\<close>

definition keeps_all :: "(string \<times> (('v, 't, 'w) app \<Rightarrow> ('v, 't, 'w) app go)) list \<Rightarrow> bool" where
  "keeps_all cs \<longleftrightarrow> (\<forall>(c, f)\<in>set cs. \<forall>a. J a \<longrightarrow> keep J (f a))"

lemma keeps_all_simps:
  "keeps_all []" "(\<And>a. J a \<Longrightarrow> keep J (f a)) \<Longrightarrow> keeps_all cs \<Longrightarrow> keeps_all ((c, f) # cs)"
  "keeps_all cs \<Longrightarrow> keeps_all ds \<Longrightarrow> keeps_all (cs @ ds)"
  by (auto simp: keeps_all_def)

lemma move_commands_keep: "keeps_all (move_commands P)"
  unfolding move_commands_def by (intro keeps_all_simps keeps)

lemma action_commands_keep: "keeps_all (action_commands P)"
  unfolding action_commands_def by (intro keeps_all_simps keeps)

lemma form_commands_keep: "keeps_all (form_commands P)"
  unfolding form_commands_def by (intro keeps_all_simps keeps)

lemma view_commands_keep: "keeps_all (view_commands P)"
  unfolding view_commands_def by (intro keeps_all_simps keeps)

lemmas tables_keep = move_commands_keep view_commands_keep action_commands_keep form_commands_keep

lemma keep_named_command [keeps]: "J a \<Longrightarrow> keep J (named_command P cmd a)"
  using keeps_all_simps(3) [OF tables_keep(1) keeps_all_simps(3) [OF tables_keep(2) keeps_all_simps(3) [OF tables_keep(3,4)]]]
  unfolding named_command_def
  by (auto split: option.split intro!: keeps dest!: map_of_SomeD simp: keeps_all_def)

lemma keep_plain_command [keeps]: "J a \<Longrightarrow> keep J (plain_command P cmd a)"
  unfolding plain_command_def by (intro keeps)

lemma execute_returns:
  assumes "executeCommand P cmd a = Some r" and "J a"
  shows "keep J r"
proof -
  have "(\<lambda>((P', cmd), a) r. P' = P \<longrightarrow> J a \<longrightarrow> keep J r) ((P, cmd), a) r"
    by (rule executeCommand.raw_induct [OF _ assms(1)])
      (auto split: if_splits sum.splits option.splits intro!: keep_plain_command keep_enter_detail)
  then show ?thesis
    using assms(2) by simp
qed


lemma keep_executeCommand [keeps]: "J a \<Longrightarrow> keep_run J (executeCommand P cmd a)"
  using execute_returns [of cmd a] by (cases "executeCommand P cmd a") simp_all

lemma keep_then_run [keeps]: "keep J r \<Longrightarrow> (\<And>a. J a \<Longrightarrow> keep_run J (k a)) \<Longrightarrow> keep_run J (then_run r k)"
  by (cases r) (simp_all add: then_run_def)


lemma keep_sync_trie [keeps]: "J a \<Longrightarrow> keep J (sync_trie a)"
  unfolding sync_trie_def Let_def by (intro keeps)

lemma keep_handleKey [keeps]: "J a \<Longrightarrow> keep_run J (handleKey P x1 a)"
  unfolding handleKey_def Let_def by (intro keeps)

lemma keep_overlay_key [keeps]: "J a \<Longrightarrow> J (overlay_key b0 x1 a)"
  unfolding overlay_key_def Let_def by (intro keeps)

lemma keep_dismiss_overlay [keeps]: "J a \<Longrightarrow> J (dismiss_overlay a)"
  unfolding dismiss_overlay_def Let_def by (intro keeps)

lemma keep_plain_key [keeps]: "J a \<Longrightarrow> keep_run J (plain_key P x1 b2 x3 a)"
  unfolding plain_key_def Let_def by (intro keeps)

lemma routed_key: "routeTerminalKey P t k a = Inr (b, a') \<Longrightarrow> J a \<Longrightarrow> J a'"
  using keep_routeTerminalKey [of a t k] by simp

lemma keep_on_KeyPress [keeps]: "J a \<Longrightarrow> keep_run J (on_KeyPress P k active es a)"
  by (auto simp: on_KeyPress_def intro!: keeps dest: routed_key split: sum.split option.split pane.split)


lemma keep_on_WindowSize [keeps]: "J a \<Longrightarrow> keep J (on_WindowSize P x1 x2 a)"
  unfolding on_WindowSize_def Let_def by (intro keeps)

lemma keep_click_split: "J a \<Longrightarrow> keep (\<lambda>x. J (fst x)) (click_split P rect y a)"
  unfolding click_split_def Let_def
  by (intro keep_bind [where K = J and J = "\<lambda>x. J (fst x)"]) (auto intro!: keep_bind [where K = J] keeps split: option.split)

lemma keep_clicked:
  assumes "J a"
  shows "keep (\<lambda>x. J (fst x)) (if c then click_split P rect y a
    else go_bind (on_layout (FocusDetails (ap_layout P)) a) (\<lambda>a1. Inr (a1, -1)))"
  using assms by (auto intro!: keep_click_split keep_bind [where K = J] keeps)

lemma keep_handleMouseClick [keeps]: "J a \<Longrightarrow> keep_run J (handleMouseClick P left x y a)"
  unfolding handleMouseClick_def Let_def
  by (auto split: option.split sum.split intro!: keep_executeCommand keep_run_cases(1) keep_Inr J_fields
      dest: keepD [OF keep_clicked])

lemma keep_handleMouseWheel [keeps]: "J a \<Longrightarrow> keep J (handleMouseWheel P b x y a)"
  unfolding handleMouseWheel_def by (auto intro!: keeps split: option.split pane_kind.split)

lemma keep_pf_drop [keeps]: "J a \<Longrightarrow> J (pf_drop i a)"
  using F_remove [of "a_pf a" i] by (auto simp: pf_drop_def app_sat_def split: prod.split)

lemma keep_pf_drops [keeps]: "J a \<Longrightarrow> J (fold (pf_drop \<circ> o_name) ts a)"
  by (rule keep_fold) (auto intro: keeps)

lemma keep_executeDelete [keeps]: "J a \<Longrightarrow> keep J (executeDelete P x1 b2 a)"
  unfolding executeDelete_def Let_def by (intro keeps)


lemma keep_clear_focused_selection [keeps]: "J a \<Longrightarrow> keep J (clear_focused_selection P a)"
  unfolding clear_focused_selection_def Let_def by (intro keeps)

lemma keep_executePendingDebug [keeps]: "J a \<Longrightarrow> keep J (executePendingDebug P x1 a)"
  unfolding executePendingDebug_def Let_def by (intro keeps)

lemma keep_run_restart [keeps]: "J a \<Longrightarrow> keep J (run_restart P x1 x2 a)"
  unfolding run_restart_def Let_def by (intro keeps)

lemma keep_on_ConfirmResult [keeps]: "J a \<Longrightarrow> keep J (on_ConfirmResult P x1 a)"
  unfolding on_ConfirmResult_def Let_def by (intro keeps)

lemma keep_helm_split [keeps]: "J a \<Longrightarrow> J (helm_split P x1 a)"
  unfolding helm_split_def Let_def by (intro keeps)

lemma keep_refreshHelmSplits [keeps]: "J a \<Longrightarrow> J (refreshHelmSplits P a)"
  unfolding refreshHelmSplits_def Let_def by (rule keep_fold) (auto intro: keeps)


lemma keep_maybeRefetchValuesAfterEdit [keeps]: "J a \<Longrightarrow> keep J (maybeRefetchValuesAfterEdit P a)"
  unfolding maybeRefetchValuesAfterEdit_def Let_def by (intro keeps)

lemma keep_note_result [keeps]: "J a \<Longrightarrow> keep J (note_result x0 x1 a)"
  unfolding note_result_def Let_def by (intro keeps)

lemma keep_on_ActionResult [keeps]: "J a \<Longrightarrow> keep J (on_ActionResult P x1 x2 a)"
  unfolding on_ActionResult_def Let_def by (intro keeps)

lemma keep_on_HelmReleasesLoaded [keeps]: "J a \<Longrightarrow> keep J (on_HelmReleasesLoaded P x1 x2 a)"
  unfolding on_HelmReleasesLoaded_def Let_def by (intro keeps)

lemma keep_on_HelmValuesLoaded [keeps]: "J a \<Longrightarrow> keep J (on_HelmValuesLoaded P x1 x2 x3 x4 a)"
  unfolding on_HelmValuesLoaded_def Let_def by (intro keeps)

lemma keep_on_NamespacesLoaded [keeps]: "J a \<Longrightarrow> keep J (on_NamespacesLoaded x0 a)"
  unfolding on_NamespacesLoaded_def Let_def by (intro keeps)

lemma keep_after_pf [keeps]: "J a \<Longrightarrow> J (after_pf P a)"
  unfolding after_pf_def Let_def by (intro keeps)

lemma keep_on_PortForwardStarted [keeps]: "J a \<Longrightarrow> keep J (on_PortForwardStarted P x1 a)"
  unfolding on_PortForwardStarted_def Let_def by (intro keeps)

lemma pf_status [keeps]: "J a \<Longrightarrow> J (a\<lparr> a_pf := fst (UpdateStatus i st (a_pf a)) \<rparr>)"
  by (auto intro!: J_parts_upd F_status of_J)

lemma keep_on_PortForwardStatus [keeps]: "J a \<Longrightarrow> keep J (on_PortForwardStatus P x1 x2 x3 a)"
  unfolding on_PortForwardStatus_def Let_def by (cases x2) (auto intro!: keeps)


lemma R_discovered: "R reg \<Longrightarrow> R (fold (register_discovered P) xs reg)"
  by (rule keep_fold) (auto simp: register_discovered_def R_absent)

lemma discovered: "J a \<Longrightarrow> J (a\<lparr> a_registry := fold (register_discovered P) xs (a_registry a) \<rparr>)"
  by (rule J_parts_upd) (auto intro: R_discovered of_J)


lemma keep_handleAPIResourcesDiscovered [keeps]:
  "J a \<Longrightarrow> keep J (handleAPIResourcesDiscovered P x1 x2 x3 a)"
  unfolding handleAPIResourcesDiscovered_def Let_def by (intro keeps) (assumption | rule discovered)+


lemma keep_on_toasts: "J a \<Longrightarrow> (\<And>t. to_notify (f t) = to_notify t) \<Longrightarrow> J (on_toasts f a)"
  by (simp add: on_toasts_def Let_def app_sat_def)


lemma keep_app_MessageAdded [keeps]: "J a \<Longrightarrow> J (app_MessageAdded P x1 x2 a)"
  unfolding app_MessageAdded_def Let_def by (intro keeps)

lemma keep_app_ToastExpired [keeps]: "J a \<Longrightarrow> J (app_ToastExpired x0 a)"
  unfolding app_ToastExpired_def by (erule keep_on_toasts) (simp add: on_ToastExpired_def dismiss_def pruneDismissed_def)


lemma keep_app_ClearNotifications [keeps]: "J a \<Longrightarrow> J (app_ClearNotifications a)"
  unfolding app_ClearNotifications_def by (erule keep_on_toasts) (simp add: on_ClearNotifications_def pruneDismissed_def)


lemma keep_on_Warning [keeps]: "J a \<Longrightarrow> J (on_Warning x0 x1 a)"
  unfolding on_Warning_def Let_def by (intro keeps)

lemma keep_on_Err [keeps]: "J a \<Longrightarrow> keep J (on_Err x0 a)"
  unfolding on_Err_def Let_def by (intro keeps)

end

end
