(* ===== verification/App_Invariants.thy ===== *)
theory App_Invariants
  imports App_Keep_Handlers Layout_Steps Cluster_Manager_Props
begin

text \<open>
  The invariants of the components, and the laws of \<^verbatim>\<open>App_Keep\<close> for them: the focus of
  the layout is one of its panes, the clusters and their contexts agree, ports and identifiers of
  port-forwards are distinct, the registry agrees with its index, the operations in flight are
  counted, and the notifications are in the order of their identifiers. The second set of predicates
  says that a cluster read from manifests stays offline.
\<close>

section \<open>The layout\<close>

lemma same_idx: "same_geom l l' \<Longrightarrow> idx_ok l \<Longrightarrow> idx_ok l'"
  by (simp add: idx_ok_frame)

lemma upd_same_geom: "upd_split i f l = Inr l' \<Longrightarrow> same_geom l l'"
  by (auto simp: upd_split_Inr same_geom_def)

lemma detail_same_geom [simp]:
  "same_geom l (detail_Focus l)" "same_geom l (detail_Blur l)" "same_geom l (detail_SetBorderless b l)"
  by (simp_all add: detail_Focus_def detail_Blur_def detail_SetBorderless_def on_detail_frame)

lemma reconcile_same_geom: "reconcileFocus Y l = Inr l' \<Longrightarrow> same_geom l l'"
  by (auto simp: reconcileFocus_def Let_def upd_split_Inr same_geom_def detail_Focus_def detail_Blur_def on_detail_def
      split: if_splits)

lemma move_flag_same_geom: "moveBorderlessFlag Y i j l = Inr l' \<Longrightarrow> same_geom l l'"
  by (auto simp: moveBorderlessFlag_def split: if_splits dest!: upd_same_geom recalc_same_geom intro: same_geom_trans)

lemmas idx_frames = same_idx [OF reconcile_same_geom] same_idx [OF recalc_same_geom] same_idx [OF move_flag_same_geom]
  same_idx [OF upd_same_geom]

lemma idx_focus: "idx_ok l \<Longrightarrow> 0 \<le> i \<Longrightarrow> i < int (length (splits l)) \<Longrightarrow> idx_ok (l\<lparr> focusTarget := t, focusIdx := i \<rparr>)"
  by (auto simp: idx_ok_def split: if_splits)

lemma idx_ok_fields [simp]:
  "idx_ok (l\<lparr> focusTarget := t \<rparr>) = idx_ok l" "idx_ok (l\<lparr> rightVisible := b \<rparr>) = idx_ok l"
  "idx_ok (l\<lparr> detailZoomed := b \<rparr>) = idx_ok l" "idx_ok (l\<lparr> logMode := b \<rparr>) = idx_ok l"
  "idx_ok (l\<lparr> ly_orientation := r \<rparr>) = idx_ok l" "idx_ok (l\<lparr> ly_width := w \<rparr>) = idx_ok l"
  "idx_ok (l\<lparr> ly_height := h \<rparr>) = idx_ok l" "idx_ok (l\<lparr> paneRects := rs \<rparr>) = idx_ok l"
  "idx_ok (l\<lparr> logView := v \<rparr>) = idx_ok l" "idx_ok (l\<lparr> rightPanel := d \<rparr>) = idx_ok l"
  "idx_ok (detail_SetBorderless b l) = idx_ok l"
  by (auto simp: idx_ok_def detail_SetBorderless_def on_detail_def)

lemma idx_unzoom: "idx_ok l \<Longrightarrow> idx_ok (l\<lparr> splitZoomed := False \<rparr>)"
  by (simp add: idx_ok_def split: if_splits)

text \<open>The operations, in the calculus of \<open>keep\<close>.\<close>

lemma keep_frames:
  "idx_ok l \<Longrightarrow> keep idx_ok (reconcileFocus Y l)" "idx_ok l \<Longrightarrow> keep idx_ok (recalcSizes Y l)"
  "idx_ok l \<Longrightarrow> keep idx_ok (moveBorderlessFlag Y i j l)" "idx_ok l \<Longrightarrow> keep idx_ok (upd_split i f l)"
  by (auto simp: keep_def split: sum.split dest: idx_frames)

lemma keep_flag: "idx_ok l \<Longrightarrow> keep idx_ok (if c then upd_split i f l else Inr l)"
  by (simp add: keep_frames)

lemmas keep_idx = keep_frames keep_flag keep_bind [where K = idx_ok]

lemma keep_focus_to:
  "idx_ok l \<Longrightarrow> (splits l \<noteq> [] \<Longrightarrow> 0 \<le> i \<and> i < int (length (splits l))) \<Longrightarrow> keep idx_ok (focus_to Y i l)"
  by (auto simp: focus_to_def intro!: keep_idx idx_focus)

lemma idx_inserted:
  "0 \<le> i \<Longrightarrow> i \<le> int (length xs) \<Longrightarrow> idx_ok (l\<lparr> splits := insert_at (nat i) q xs, focusIdx := i \<rparr>)"
  "idx_ok (l\<lparr> splits := insert_at 0 q [], focusIdx := 0 \<rparr>)"
  by (auto simp: idx_ok_def insert_at_def)

lemma keep_insert_split: "idx_ok l \<Longrightarrow> keep idx_ok (insert_split Y q l)"
  unfolding insert_split_def Let_def by (auto intro!: keep_idx idx_inserted)

lemma idx_removed:
  "int (length (splits l)) - 1 \<le> focusIdx l \<Longrightarrow> focusIdx l < int (length (splits l)) \<Longrightarrow> 1 < length (splits l) \<Longrightarrow>
   idx_ok (l\<lparr> splits := remove_at (nat (focusIdx l)) (splits l), focusIdx := int (length (splits l)) - 2 \<rparr>)"
  "focusIdx l < int (length (splits l)) - 1 \<Longrightarrow> 0 \<le> focusIdx l \<Longrightarrow> idx_ok (l\<lparr> splits := remove_at (nat (focusIdx l)) (splits l) \<rparr>)"
  by (auto simp: idx_ok_def remove_at_def)

lemma keep_close: "idx_ok l \<Longrightarrow> keep (\<lambda>x. idx_ok (fst x)) (CloseCurrentSplit Y l)"
  unfolding CloseCurrentSplit_def Let_def
  by (auto intro!: keep_bind [where K = idx_ok] keep_frames idx_removed)

lemma keep_move: "idx_ok l \<Longrightarrow> keep idx_ok (MoveFocusedSplit Y delta l)"
  unfolding MoveFocusedSplit_def Let_def
  by (auto intro!: keep_idx keep_read [where 'x = "('a, 'b) pane"] simp: idx_ok_def [of "_\<lparr> focusIdx := _ \<rparr>"])

lemma go_rem_range: "0 \<le> x \<Longrightarrow> 0 < n \<Longrightarrow> 0 \<le> go_rem x n \<and> go_rem x n < n"
  by simp

lemma idx_splits:
  "idx_ok l \<Longrightarrow> idx_ok (l\<lparr> splits := map f (splits l) \<rparr>)" "idx_ok l \<Longrightarrow> idx_ok (l\<lparr> splits := (splits l)[n := q] \<rparr>)"
  "idx_ok l \<Longrightarrow> splits l \<noteq> [] \<Longrightarrow> idx_ok (l\<lparr> splitZoomed := b \<rparr>)"
  by (simp_all add: idx_ok_def split: if_splits)

interpretation idx_layout: layout_keeps Y idx_ok
  for Y :: "('v, 't) layout_env"
proof (unfold_locales, goal_cases)
  case (7 l)
  then show ?case unfolding FocusNext_def
    by (intro keep_focus_to) (auto simp: idx_ok_def intro!: go_rem_range)
next
  case (8 l)
  then show ?case unfolding FocusPrev_def
    by (intro keep_focus_to) (auto simp: idx_ok_def intro!: go_rem_range)
next
  case (9 l i)
  then show ?case unfolding FocusSplitAt_def by (auto intro!: keep_idx idx_focus)
next
  case (13 l)
  then show ?case by (rule keep_close)
next
  case (14 l delta)
  then show ?case by (rule keep_move)
next
  case (12 l q)
  then show ?case by (rule keep_insert_split)
qed (auto simp: FocusDetails_def FocusResources_def ShowRightPanel_def HideRightPanel_def SetLogMode_def rebuildPaneRects_def
    ToggleZoomSplit_def ToggleZoomDetail_def UnzoomAll_def ToggleOrientation_def ly_Resize_def Let_def
    intro!: keep_idx idx_unzoom idx_splits)

section \<open>The clusters\<close>

text \<open>A live store runs one informer for each of its subscriptions, and only with a client.\<close>

definition store_sound :: "object_store \<Rightarrow> bool" where
  "store_sound s \<longleftrightarrow> distinct (st_informers s) \<and> (\<forall>k\<in>set (st_informers s). bucket k s \<noteq> None) \<and>
     (st_informers s \<noteq> [] \<longrightarrow> st_client s)"

definition store_fine :: "object_store \<Rightarrow> bool" where
  "store_fine s \<longleftrightarrow> st_static s \<or> store_sound s"

definition cluster_fine :: "cluster \<Rightarrow> bool" where
  "cluster_fine c \<longleftrightarrow> (case c_store c of None \<Rightarrow> True | Some s \<Rightarrow> store_fine s)"

definition manifest_cluster :: "cluster \<Rightarrow> bool" where
  "manifest_cluster c \<longleftrightarrow> c_client c = None \<and> (case c_store c of None \<Rightarrow> False | Some s \<Rightarrow> st_static s)"

definition mgr_ok :: "manager \<Rightarrow> bool" where
  "mgr_ok m \<longleftrightarrow> mgr_wf m \<and> (\<forall>ctx. IsPinned ctx m \<longrightarrow> mgr_Get ctx m \<noteq> None) \<and>
     (\<forall>ctx c. mgr_Get ctx m = Some c \<longrightarrow> cluster_fine c \<and> (IsPinned ctx m \<longrightarrow> manifest_cluster c))"

lemma store_fine_ops:
  "store_fine s \<Longrightarrow> store_fine (fst (Subscribe g ns s))" "store_fine s \<Longrightarrow> store_fine (Unsubscribe g ns s)"
  "store_fine s \<Longrightarrow> store_fine (UnsubscribeAll s)" "store_fine (st_New client ctx send)"
  by (auto simp: store_fine_def store_sound_def Subscribe_def Unsubscribe_def UnsubscribeAll_def Let_def st_New_def
      bucket_ensure bucket_def [of _ "_\<lparr> st_cache := _ \<rparr>"] bucket_def [of _ "st_New _ _ _"] map_of_delete_alist
      simp flip: bucket_def)

lemma static_ops [simp]:
  "st_static (fst (Subscribe g ns s)) = st_static s" "st_static (Unsubscribe g ns s) = st_static s"
  "st_static (UnsubscribeAll s) = st_static s"
  by (simp_all add: Subscribe_def Unsubscribe_def UnsubscribeAll_def Let_def)

lemma fine_upd:
  assumes "cluster_fine c" and "\<And>s. c_store c = Some s \<Longrightarrow> store_fine s \<Longrightarrow> store_fine (f s) \<and> st_static (f s) = st_static s"
  shows "cluster_fine (c\<lparr> c_store := map_option f (c_store c) \<rparr>)"
    and "manifest_cluster (c\<lparr> c_store := map_option f (c_store c) \<rparr>) = manifest_cluster c"
  using assms by (auto simp: cluster_fine_def manifest_cluster_def split: option.splits)

lemma mgr_ok_on_store:
  assumes m: "mgr_ok m"
    and f: "\<And>s. store_of ctx m = Some s \<Longrightarrow> store_fine s \<Longrightarrow> store_fine (f s) \<and> st_static (f s) = st_static s"
  shows "mgr_ok (on_store ctx f m)"
proof -
  have "cluster_fine (c\<lparr> c_store := map_option f (c_store c) \<rparr>) \<and>
      manifest_cluster (c\<lparr> c_store := map_option f (c_store c) \<rparr>) = manifest_cluster c" if "mgr_Get ctx m = Some c" for c
    using fine_upd [of c f] f m that by (auto simp: mgr_ok_def store_of_def)
  then show ?thesis
    using m by (auto simp: mgr_ok_def on_store_wf Get_on_store IsPinned_def)
qed

lemma mgr_ok_put: "mgr_ok m \<Longrightarrow> \<not> IsPinned (c_context c) m \<Longrightarrow> cluster_fine c \<Longrightarrow> mgr_ok (put c m)"
  by (auto simp: mgr_ok_def put_wf Get_put IsPinned_def)

lemma mgr_ok_connected: "mgr_ok m \<Longrightarrow> mgr_ok (fst (RegisterConnected ctx client m))"
  using RegisterConnected_or [of ctx client m] by (auto intro!: mgr_ok_put simp: cluster_fine_def store_fine_ops)

lemma fine_refs [simp]:
  "cluster_fine (c\<lparr> c_refCount := n \<rparr>) = cluster_fine c" "manifest_cluster (c\<lparr> c_refCount := n \<rparr>) = manifest_cluster c"
  by (simp_all add: cluster_fine_def manifest_cluster_def)

lemma mgr_ok_sync: "mgr_ok m \<Longrightarrow> mgr_ok (fst (SyncRefs panes m))"
  by (auto simp: mgr_ok_def SyncRefs_wf Get_SyncRefs IsPinned_def split: if_splits)

lemma mgr_ok_pinned:
  assumes "mgr_ok m" and "c_client c = None" and "c_store c = Some s" and "st_static s"
  shows "mgr_ok (RegisterPinned c m)"
proof -
  have "mgr_Get k (RegisterPinned c m) = mgr_Get k (put c m)"
    "IsPinned k (RegisterPinned c m) \<longleftrightarrow> k = c_context c \<or> IsPinned k m" for k
    by (simp_all add: RegisterPinned_def Let_def mgr_Get_def IsPinned_def)
  moreover have "cluster_fine c" "manifest_cluster c"
    using assms(2-4) by (simp_all add: cluster_fine_def manifest_cluster_def store_fine_def)
  ultimately show ?thesis
    using assms(1) by (auto simp: mgr_ok_def RegisterPinned_wf Get_put)
qed

lemma Get_live: "mgr_Get ctx (unsubscribe_live m) = map_option (\<lambda>c. if IsPinned (c_context c) m then c
    else c\<lparr> c_store := map_option UnsubscribeAll (c_store c) \<rparr>) (mgr_Get ctx m)"
proof -
  have "map_of (map (\<lambda>(k, c). (k, f c)) cs) ctx = map_option f (map_of cs ctx)"
    for cs :: "(string \<times> cluster) list" and f
    by (induction cs) auto
  then show ?thesis by (simp add: mgr_Get_def unsubscribe_live_def)
qed

lemma mgr_ok_live:
  assumes m: "mgr_ok m"
  shows "mgr_ok (unsubscribe_live m)"
proof -
  have wf: "mgr_wf (unsubscribe_live m)"
    using m by - (rule wf_same_names [of m], auto simp: mgr_ok_def unsubscribe_live_def comp_def case_prod_unfold)
  have pin: "IsPinned k (unsubscribe_live m) = IsPinned k m" for k
    by (simp add: IsPinned_def unsubscribe_live_def)
  have "cluster_fine c \<and> (IsPinned k m \<longrightarrow> manifest_cluster c)" if c: "mgr_Get k (unsubscribe_live m) = Some c" for k c
  proof -
    obtain c0 where c0: "mgr_Get k m = Some c0"
      "c = (if IsPinned (c_context c0) m then c0 else c0\<lparr> c_store := map_option UnsubscribeAll (c_store c0) \<rparr>)"
      using c by (auto simp: Get_live)
    then have "c_context c0 = k" "cluster_fine c0" "IsPinned k m \<longrightarrow> manifest_cluster c0"
      using m Get_names [of m k c0] by (auto simp: mgr_ok_def)
    then show ?thesis
      using c0(2) fine_upd(1) [of c0 UnsubscribeAll] by (simp add: store_fine_ops split: if_splits)
  qed
  moreover have "mgr_Get k (unsubscribe_live m) \<noteq> None" if "IsPinned k m" for k
    using m that by (simp add: mgr_ok_def Get_live)
  ultimately show ?thesis
    using wf by (simp add: mgr_ok_def pin)
qed

section \<open>The interpretations\<close>

interpretation sound_manager: manager_keeps mgr_ok
  by unfold_locales (auto simp: mgr_ok_sync mgr_ok_connected mgr_ok_live store_fine_ops intro!: mgr_ok_on_store)

interpretation counted_status: status_keeps sb_ok
  by unfold_locales
    (auto simp: sb_ok_def SetHints_def SetIndicator_def SetOnline_def SetContextName_def sb_SetWidth_def
      StartOperation_def EndOperation_def ShowSpinnerMsg_def Let_def)

interpretation sound_tables: table_keeps pf_ok registry_ok ns_ok
  by unfold_locales (auto simp: pf_ok_remove pf_ok_status registry_ok_IfAbsent ns_ok_Add)

end
