(* ===== verification/App_Machine.thy ===== *)
theory App_Machine
  imports App_Invariants
begin

text \<open>
  The application as a machine: the messages it handles, \<open>update\<close> as the dispatch over them, what
  happens beside it, and the states it reaches from \<open>New\<close>. The invariants of the components hold in
  all of them.
\<close>

section \<open>Messages\<close>

text \<open>A key carries what an open overlay makes of it: whether it is still active, and its messages.\<close>

datatype (plugins only: code) app_msg =
    WindowSizeMsg int int
  | KeyPressMsg key bool "effect list"
  | MouseClickMsg bool int int
  | MouseWheelMsg wheel int int
  | ResourcePickedMsg string
  | NamespaceSelectedMsg string
  | GlobalContextSelectedMsg string
  | ClusterReadyMsg string "string + k8s_client option"
  | NamespacesLoadedMsg "string option"
  | ConfirmResultMsg confirm_action
  | ActionResultMsg string "string option"
  | ResourceUpdatedMsg gvr string string
  | APIResourcesDiscoveredMsg string "api_resource list" "string option"
  | SearchSubmittedMsg string search_mode
  | SearchChangedMsg string search_mode
  | SearchApplyMsg "64 word" string search_mode
  | SearchClearedMsg search_mode
  | PortForwardRequestedMsg string string string int int string
  | SetImageRequestedMsg gvr string string string "image_change list"
  | ScaleRequestedMsg gvr string string int
  | HelmRollbackRequestedMsg string string int
  | HelmHistoryLoadedMsg
  | HelmReleasesLoadedMsg string "string + k8s_obj list"
  | HelmValuesLoadedMsg string string detail_mode "string + (string \<times> string)"
  | HelmChartRefSetMsg string string string
  | HelmReleasesRefreshMsg
  | PortForwardStartedMsg "string + (string \<times> int \<times> bool)"
  | PortForwardStatusMsg string pf_status "string option"
  | MessageAddedMsg "64 word" level
  | ToastExpiredMsg "64 word"
  | ClearNotificationsMsg
  | WarningMsg string string
  | ErrMsg string
  | LogLineMsg "64 word" string
  | LogStreamEndedMsg "64 word" "string option"
  | LogStreamReadyMsg "64 word" "string option"
  | TermBytesMsg string string
  | TermExitMsg string int "string option"
  | DebugReadyMsg debug_ready
  | LogDebounceFiredMsg "64 word"
  | LogContainerSelectedMsg string
  | LogTimeRangeSelectedMsg string "int option"
  | InitDetailRefreshMsg
  | DescribeLoadedMsg "64 word" "string + ((string \<times> string) \<times> (string \<times> string))"
  | DescribeDebounceFiredMsg "64 word"
  | StatusBarShowSpinnerMsg
  | SpinnerTickMsg
  | ClusterHealthMsg string bool

section \<open>The update\<close>

text \<open>\<open>None\<close> is a handler that does not return.\<close>

primrec app_update :: "('v, 't, 'w) app_env \<Rightarrow> app_msg \<Rightarrow> ('v, 't, 'w) app \<Rightarrow> ('v, 't, 'w) app go option" where
  "app_update P (KeyPressMsg k active es) a = on_KeyPress P k active es a"
| "app_update P (MouseClickMsg left x y) a = handleMouseClick P left x y a"
| "app_update P (WindowSizeMsg w h) a = Some (on_WindowSize P w h a)"
| "app_update P (MouseWheelMsg b x y) a = Some (handleMouseWheel P b x y a)"
| "app_update P (ResourcePickedMsg cmd) a = Some (handleResourcePickerCommand P cmd a)"
| "app_update P (NamespaceSelectedMsg ns) a = Some (handleNamespaceSwitch P ns a)"
| "app_update P (GlobalContextSelectedMsg ctx) a = Some (on_GlobalContextSelected P ctx a)"
| "app_update P (ClusterReadyMsg ctx res) a = Some (handleClusterReady P ctx res a)"
| "app_update P (NamespacesLoadedMsg err) a = Some (on_NamespacesLoaded err a)"
| "app_update P (ConfirmResultMsg action) a = Some (on_ConfirmResult P action a)"
| "app_update P (ActionResultMsg i err) a = Some (on_ActionResult P i err a)"
| "app_update P (ResourceUpdatedMsg g ns ctx) a = Some (on_ResourceUpdated P g ns ctx a)"
| "app_update P (APIResourcesDiscoveredMsg ctx rs err) a = Some (handleAPIResourcesDiscovered P ctx rs err a)"
| "app_update P (SearchSubmittedMsg pat mode) a = Some (handleSearchSubmitted P pat mode a)"
| "app_update P (SearchChangedMsg pat mode) a = Some (handleSearchChanged P pat mode a)"
| "app_update P (SearchApplyMsg seq pat mode) a = Some (handleSearchApply P seq pat mode a)"
| "app_update P (SearchClearedMsg mode) a = Some (handleSearchCleared P mode a)"
| "app_update P (PortForwardRequestedMsg pod ns c l r pr) a = Some (handlePortForwardRequested pod ns c l r pr a)"
| "app_update P (SetImageRequestedMsg g name ns p imgs) a = Some (handleSetImageRequested g name ns p imgs a)"
| "app_update P (ScaleRequestedMsg g name ns n) a = Some (handleScaleRequested g name ns n a)"
| "app_update P (HelmRollbackRequestedMsg rel ns n) a = Some (handleHelmRollback P rel ns n a)"
| "app_update P HelmHistoryLoadedMsg a = Some (Inr (on_HelmHistoryLoaded a))"
| "app_update P (HelmReleasesLoadedMsg ns res) a = Some (on_HelmReleasesLoaded P ns res a)"
| "app_update P (HelmValuesLoadedMsg rel ns mode res) a = Some (on_HelmValuesLoaded P rel ns mode res a)"
| "app_update P (HelmChartRefSetMsg rel ns chart) a = Some (handleHelmChartRefSet P rel ns chart a)"
| "app_update P HelmReleasesRefreshMsg a = Some (Inr (refreshHelmSplits P a))"
| "app_update P (PortForwardStartedMsg res) a = Some (on_PortForwardStarted P res a)"
| "app_update P (PortForwardStatusMsg i s err) a = Some (on_PortForwardStatus P i s err a)"
| "app_update P (MessageAddedMsg i l) a = Some (Inr (app_MessageAdded P i l a))"
| "app_update P (ToastExpiredMsg i) a = Some (Inr (app_ToastExpired i a))"
| "app_update P ClearNotificationsMsg a = Some (Inr (app_ClearNotifications a))"
| "app_update P (WarningMsg msg ctx) a = Some (Inr (on_Warning msg ctx a))"
| "app_update P (ErrMsg e) a = Some (on_Err e a)"
| "app_update P (LogLineMsg gen line) a = Some (on_LogLine P gen line a)"
| "app_update P (LogStreamEndedMsg gen err) a = Some (on_LogStreamEnded gen err a)"
| "app_update P (LogStreamReadyMsg gen err) a = Some (on_LogStreamReady gen err a)"
| "app_update P (TermBytesMsg i bytes) a = Some (Inr (on_TermBytes P i bytes a))"
| "app_update P (TermExitMsg i code err) a = Some (Inr (on_TermExit i code err a))"
| "app_update P (DebugReadyMsg m) a = Some (handleDebugReady P m a)"
| "app_update P (LogDebounceFiredMsg seq) a = Some (on_LogDebounceFired P seq a)"
| "app_update P (LogContainerSelectedMsg c) a = Some (on_LogContainerSelected P c a)"
| "app_update P (LogTimeRangeSelectedMsg lbl since) a = Some (on_LogTimeRangeSelected P lbl since a)"
| "app_update P InitDetailRefreshMsg a = Some (on_InitDetailRefresh P a)"
| "app_update P (DescribeLoadedMsg gen res) a = Some (Inr (on_DescribeLoaded P gen res a))"
| "app_update P (DescribeDebounceFiredMsg seq) a = Some (on_DescribeDebounceFired P seq a)"
| "app_update P StatusBarShowSpinnerMsg a = Some (Inr (on_ShowSpinner a))"
| "app_update P SpinnerTickMsg a = Some (Inr (on_SpinnerTick a))"
| "app_update P (ClusterHealthMsg ctx online) a = Some (handleClusterHealth ctx online a)"

context app_keeps begin

lemma keep_update: "J a \<Longrightarrow> keep_run J (app_update P m a)"
  by (cases m; simp only: app_update.simps keep_run_simps; intro keeps; assumption)

end

end
