(* ===== verification/App_Reach.thy ===== *)
theory App_Reach
  imports App_Machine
begin

text \<open>
  The states that the application reaches, and what holds in all of them: the invariants of the
  components at once, so that reading the focus never panics, and that a cluster read from manifests
  has no client.
\<close>

section \<open>The contract of the plug-ins\<close>

text \<open>An environment whose plug-ins break the contract is read as one without drill-downs and manifests.\<close>

definition safe_env :: "('v, 't, 'w) app_env \<Rightarrow> ('v, 't, 'w) app_env" where
  "safe_env P = (if plugins_ok P then P
     else P\<lparr> ap_DrillDown := \<lambda>_. None, ap_DrillUp := \<lambda>_. None, ap_GoToNode := \<lambda>_. None, ap_LoadFiles := \<lambda>_ _. Inl '''' \<rparr>)"

lemma safe_env_ok: "plugins_ok (safe_env P)"
  by (simp add: safe_env_def) (simp add: plugins_ok_def drills_subscribe_def manifests_pinned_def)

lemma safe_env_same [simp]: "plugins_ok P \<Longrightarrow> safe_env P = P"
  by (simp add: safe_env_def)

interpretation sound_app: app_keeps "safe_env P" mgr_ok idx_ok sb_ok pf_ok registry_ok ns_ok
  for P :: "('v, 't, 'w) app_env"
  by unfold_locales (auto simp: safe_env_ok intro: mgr_ok_pinned)

section \<open>Reachable states\<close>

definition app_inv :: "('v, 't, 'w) app \<Rightarrow> bool" where
  "app_inv a \<longleftrightarrow> app_sat mgr_ok idx_ok pf_ok registry_ok sb_ok ns_ok a"

text \<open>
  What happens beside the updates: time passes, commands are taken away to run, a goroutine that
  starts a port-forward registers it, and an informer reports an object to the store of its cluster.
\<close>

inductive background :: "('v, 't, 'w) app \<Rightarrow> ('v, 't, 'w) app \<Rightarrow> bool" where
  clock: "a_clock a \<le> t \<Longrightarrow> background a (a\<lparr> a_clock := t \<rparr>)"
| taken: "background a (a\<lparr> a_out := [] \<rparr>)"
| forward: "background a (a\<lparr> a_pf := fst (run_port_forward started e (a_pf a)) \<rparr>)"
| upsert: "background a (on_mgr (on_store ctx (on_upsert i x)) a)"
| delete: "background a (on_mgr (on_store ctx (on_delete i x)) a)"
| fire: "background a (on_mgr (on_store ctx (\<lambda>s. s\<lparr> st_debouncer := fst (db_fire k n (st_debouncer s)) \<rparr>)) a)"

inductive app_reach :: "('v, 't, 'w) app_env \<Rightarrow> ('v, 't, 'w) app \<Rightarrow> ('v, 't, 'w) app \<Rightarrow> bool" for P a0 where
  start: "app_New P specs detail ori a0 = Inr a \<Longrightarrow> app_reach P a0 a"
| handle: "app_reach P a0 a \<Longrightarrow> app_update P m a = Some (Inr b) \<Longrightarrow> app_reach P a0 b"
| aside: "app_reach P a0 a \<Longrightarrow> background a b \<Longrightarrow> app_reach P a0 b"

inductive_cases startE: "background a b"

section \<open>The invariant\<close>

lemma cache_static [simp]:
  "st_static (CacheUpsert g ns x s) = st_static s" "st_static (CacheDelete g ns x s) = st_static s"
  "st_client (CacheUpsert g ns x s) = st_client s" "st_client (CacheDelete g ns x s) = st_client s"
  by (simp_all add: CacheUpsert_def CacheDelete_def Let_def ensure_bucket_def split: option.split)

lemma trigger_static [simp]: "st_static (trigger i s) = st_static s" "st_client (trigger i s) = st_client s"
  by (simp_all add: trigger_def)

lemma event_fine:
  "store_fine s \<Longrightarrow> store_fine (on_upsert i x s) \<and> st_static (on_upsert i x s) = st_static s"
  "store_fine s \<Longrightarrow> store_fine (on_delete i x s) \<and> st_static (on_delete i x s) = st_static s"
  "store_fine s \<Longrightarrow> store_fine (s\<lparr> st_debouncer := d \<rparr>)"
  by (auto simp: store_fine_def store_sound_def on_upsert_def on_delete_def)

lemma inv_mgr: "app_inv a \<Longrightarrow> mgr_ok (f (a_mgr a)) \<Longrightarrow> app_inv (on_mgr f a)"
  by (simp add: app_inv_def app_sat_def on_mgr_def)

lemma forward_ok: "pf_ok r \<Longrightarrow> pf_ok (fst (run_port_forward started e r))"
  using pf_ok_add [of r e] by (auto simp: run_port_forward_def Let_def split: option.split prod.split sum.split)

lemma background_inv: "background a b \<Longrightarrow> app_inv a \<Longrightarrow> app_inv b"
proof (induction rule: background.induct)
  case (forward a started e)
  then show ?case by (simp add: app_inv_def app_sat_def forward_ok)
qed (auto simp: app_inv_def app_sat_def on_mgr_def event_fine intro!: mgr_ok_on_store)

lemma update_inv:
  assumes "plugins_ok P" and "app_inv a" and "app_update P m a = Some (Inr b)"
  shows "app_inv b"
  using sound_app.keep_update [of a P m] assms by (simp add: app_inv_def)

lemma start_inv:
  assumes "plugins_ok P" and "app_inv a" and "app_New P specs detail ori a = Inr b"
  shows "app_inv b"
  using sound_app.keep_app_New [of a P specs detail ori] assms by (simp add: app_inv_def)

lemma reach_inv: "app_reach P a0 a \<Longrightarrow> plugins_ok P \<Longrightarrow> app_inv a0 \<Longrightarrow> app_inv a"
  by (induction rule: app_reach.induct) (blast intro: update_inv start_inv background_inv)+

end
