(* ===== verification/App_Demo.thy ===== *)
theory App_Demo
  imports App_Results Layout_Props
begin

text \<open>
  A concrete application for the examples of the other theories: plain text, two live clusters and
  a few resource types without behaviour of their own.
\<close>

definition demo_resource :: "string \<Rightarrow> bool \<Rightarrow> rplugin" where
  "demo_resource name scoped = (demo_plugin name ''STATUS'')\<lparr> p_IsClusterScoped := scoped \<rparr>"

definition demo_pod_type :: rplugin where "demo_pod_type = demo_resource ''pods'' False"
definition demo_node_type :: rplugin where "demo_node_type = demo_resource ''nodes'' True"
definition demo_release_type :: rplugin where "demo_release_type = demo_resource ''helmreleases'' False"

definition demo_env :: "(plain_vp, plain_vt, unit) app_env" where
  "demo_env =
     \<lparr> ap_layout = demo_layout_env, ap_Objects = (\<lambda>w p. None), ap_Refresh = (\<lambda>p. None), ap_SetPaneCounts = (\<lambda>n w. w),
       ap_YAML = (\<lambda>p x. Some (o_name x, o_name x)), ap_isHelm = (\<lambda>p. p_Name p = ''helmreleases''),
       ap_DrillDown = (\<lambda>p. None), ap_DrillUp = (\<lambda>p. None), ap_GoToNode = (\<lambda>p. None), ap_GoTo = (\<lambda>p x. None),
       ap_Command = (\<lambda>p x. None), ap_APIVersion = (\<lambda>x. ''v1''), ap_podName = (\<lambda>x. None), ap_containers = (\<lambda>x. [''main'']),
       ap_hasConfig = (\<lambda>c. True), ap_zoomMark = ''Z'', ap_firstContainer = (\<lambda>x. ''main''),
       ap_exec = (\<lambda>c p k n cmd. None), ap_attach = (\<lambda>c p k n. None), ap_YAMLError = (\<lambda>p x. ''''),
       ap_ports = (\<lambda>p x. []), ap_images = (\<lambda>p x. []), ap_stateDir = Inr ''/state'', ap_stamp = (\<lambda>n. ''now''),
       ap_write = (\<lambda>path txt. None), ap_temp = (\<lambda>txt suf. Inr ''/tmp/f''), ap_quote = (\<lambda>s. s),
       ap_pfMark = (\<lambda>n. ''P''), ap_LoadFiles = (\<lambda>ps ns. Inl ''no files''), ap_regexError = (\<lambda>p. p),
       ap_muted = (\<lambda>s. s), ap_clock = (\<lambda>n. ''''), ap_pipeline = (\<lambda>s. s), ap_keyString = (\<lambda>k. key_Text k),
       ap_NewDiscovered = (\<lambda>g n s b. demo_resource n b), ap_SetResources = (\<lambda>rs w. w) \<rparr>"

definition demo_client :: "string \<Rightarrow> k8s_client" where
  "demo_client ctx = \<lparr> kc_Context = ctx, kc_Namespace = ''ns'', kc_Dynamic = True, kc_warn = None \<rparr>"

definition demo_connect :: "string \<Rightarrow> manager \<Rightarrow> manager" where
  "demo_connect ctx m = fst (RegisterConnected ctx (demo_client ctx) m)"

definition demo_mgr :: manager where
  "demo_mgr = demo_connect ''b'' (demo_connect ''a'' (NewManager [] ''''))"

definition demo_registry :: registry where
  "demo_registry = reg_run (map R_Register [demo_pod_type, demo_node_type, demo_release_type])"

text \<open>The start with the given panes in cluster \<^verbatim>\<open>a\<close>, and a run of handlers from there.\<close>

definition demo_app :: "(plain_vp, plain_vt, unit) app" where
  "demo_app = initial_app demo_env demo_mgr demo_registry (NewBindingSet []) DefaultConfig (NewStore 5) demo_log ''a'' NewRegistry () 0"

definition demo_start :: "(rplugin \<times> string) list \<Rightarrow> (plain_vp, plain_vt, unit) app go" where
  "demo_start ps = app_New demo_env (map (\<lambda>(p, ns). \<lparr> sp_Plugin = p, sp_Namespace = ns \<rparr>) ps) None OrientationVertical demo_app"

definition demo_run :: "(rplugin \<times> string) list \<Rightarrow>
    ((plain_vp, plain_vt, unit) app \<Rightarrow> (plain_vp, plain_vt, unit) app go) list \<Rightarrow> (plain_vp, plain_vt, unit) app go" where
  "demo_run ps fs = go_bind (demo_start ps) (steps fs)"

text \<open>The store of a cluster gets objects and reports them.\<close>

definition demo_arrive :: "string \<Rightarrow> rplugin \<Rightarrow> string \<Rightarrow> k8s_obj list \<Rightarrow> (plain_vp, plain_vt, unit) app \<Rightarrow> (plain_vp, plain_vt, unit) app go" where
  "demo_arrive ctx p ns objs a =
     on_ResourceUpdated demo_env (p_GVR p) ns ctx (on_mgr (on_store ctx (\<lambda>s. foldr (CacheUpsert (p_GVR p) ns) objs s)) a)"

text \<open>A command that returns.\<close>

definition demo_cmd :: "string \<Rightarrow> (plain_vp, plain_vt, unit) app \<Rightarrow> (plain_vp, plain_vt, unit) app go" where
  "demo_cmd c a = (case executeCommand demo_env c a of None \<Rightarrow> Inl NilPointer | Some r \<Rightarrow> r)"

text \<open>What can be seen of a state by evaluation.\<close>

definition seen :: "('s \<Rightarrow> 'a) \<Rightarrow> 's go \<Rightarrow> 'a option" where
  "seen f r = (case r of Inl e \<Rightarrow> None | Inr a \<Rightarrow> Some (f a))"

lemma seenD: "seen f r = Some x \<Longrightarrow> \<exists>a. r = Inr a \<and> f a = x"
  by (cases r) (simp_all add: seen_def)

declare executeCommand.simps [code]

definition names_shown :: "('v, 't, 'w) app \<Rightarrow> string list list" where
  "names_shown a = map (\<lambda>p. case as_list p of None \<Rightarrow> [] | Some r \<Rightarrow> map o_name (displayObjects r)) (splits (a_layout a))"

end
