(* ===== verification/App_Props.thy ===== *)
theory App_Props
  imports App_Reach App_Demo
begin

text \<open>
  Properties of the application: what holds in every state it reaches, that a command is dispatched
  in finitely many steps, and what happens at the boundaries of its components.
\<close>

section \<open>Examples\<close>

text \<open>A cluster that was read from manifests, and an application that starts on it with one pane.\<close>

definition demo_manifest :: cluster where
  "demo_manifest = cluster_New ''m'' '''' None (Some (MarkStatic (st_New False ''m'' False))) None None"

definition demo_offline :: "(plain_vp, plain_vt, unit) app" where
  "demo_offline = demo_app\<lparr> a_mgr := RegisterPinned demo_manifest (NewManager [] ''''), a_startup := ''m'', a_registry := reg_Reset,
     a_layout := (a_layout demo_app)\<lparr> splits :=
       [ResourcePane (SetContext ''m'' (NewResourceList (list_env_of demo_env) demo_pod_type 80 20))] \<rparr> \<rparr>"

lemma demo_plugins: "plugins_ok demo_env"
  by (simp add: plugins_ok_def drills_subscribe_def manifests_pinned_def demo_env_def)

lemma new_mgr_ok: "mgr_ok (NewManager es kubeconfig)"
  by (simp add: mgr_ok_def NewManager_wf) (simp add: NewManager_def IsPinned_def mgr_Get_def)

text \<open>An application made of components in order is in order.\<close>

lemma initial_inv:
  assumes "mgr_ok m" and "registry_ok R" and "ns_ok ns" and "pf_ok pf"
  shows "app_inv (initial_app P m R bs cfg ns lv startup pf w now)"
  using assms by (simp add: app_inv_def app_sat_def initial_app_def idx_ok_def NewLayout_def sb_ok_def NewStatusBar_def)

lemma demo_offline_inv: "app_inv demo_offline"
proof -
  have "app_inv demo_app" unfolding demo_app_def demo_mgr_def demo_connect_def demo_registry_def
    by (intro initial_inv mgr_ok_connected new_mgr_ok registry_ok_run ns_ok_New pf_ok_new)
  moreover have "mgr_ok (RegisterPinned demo_manifest (NewManager [] ''''))"
    by (rule mgr_ok_pinned [OF new_mgr_ok, where s = "MarkStatic (st_New False ''m'' False)"]) (simp_all add: demo_manifest_def cluster_New_def MarkStatic_def st_New_def)
  ultimately show ?thesis
    by (simp add: app_inv_def app_sat_def demo_offline_def registry_ok_Reset idx_ok_def)
      (simp add: demo_app_def initial_app_def NewLayout_def)
qed

text \<open>Where the focus is one of the panes, it can be read.\<close>

lemma focus_read:
  assumes "idx_ok l"
  shows "\<exists>p. FocusedPane l = Inr p \<and> FocusedSplit l = Inr (Option.bind p as_list)"
  using assms by (auto simp: idx_ok_def FocusedPane_def FocusedSplit_def go_index_ok split: if_splits)

lemma hints_read: "idx_ok (a_layout a) \<Longrightarrow> \<exists>hs. currentHints a = Inr hs"
proof -
  assume "idx_ok (a_layout a)"
  then obtain p where "FocusedPane (a_layout a) = Inr p" "FocusedSplit (a_layout a) = Inr (Option.bind p as_list)"
    using focus_read by blast
  then show ?thesis
    by (simp add: currentHints_def currentContext_def Let_def split: option.split pane.split)
qed

text \<open>A start without panes to add keeps the layout and the clusters, so an example starts with its panes.\<close>

lemma start_plain:
  assumes "idx_ok (a_layout x)" and "a_registry x = reg_Reset"
  shows "\<exists>a. app_New demo_env [] None OrientationVertical x = Inr a \<and> a_layout a = a_layout x \<and> a_mgr a = a_mgr x \<and> a_out a = a_out x"
proof -
  have "a_layout (startup_badge x) = a_layout x" "a_mgr (startup_badge x) = a_mgr x" "a_out (startup_badge x) = a_out x"
    by (simp_all add: startup_badge_def on_status_def split: option.split)
  moreover from this obtain hs where "currentHints (startup_badge x) = Inr hs"
    using hints_read [of "startup_badge x"] assms(1) by auto
  ultimately show ?thesis
    using assms(2) by (simp add: app_New_def default_specs_def ByName_def reg_Reset_def open_detail_def sync_hints_def
        pure_step_def on_status_def)
qed

definition demo_ready :: "(plain_vp, plain_vt, unit) app" where
  "demo_ready = (case app_New demo_env [] None OrientationVertical demo_offline of Inl e \<Rightarrow> demo_offline | Inr a \<Rightarrow> a)"

lemma demo_layout_offline [simp]:
  "a_layout demo_offline = \<lparr> splits = [ResourcePane (SetContext ''m'' (NewResourceList (list_env_of demo_env) demo_pod_type 80 20))],
     focusIdx = 0, rightPanel = rightPanel (a_layout demo_app), rightVisible = False, focusTarget = FocusTargetResources,
     splitZoomed = False, detailZoomed = False, ly_orientation = OrientationVertical, ly_width = 80, ly_height = 23,
     logView = demo_log, logMode = False, paneRects = [] \<rparr>"
  by (simp add: demo_offline_def demo_app_def initial_app_def NewLayout_def statusBarHeight_def)

lemma demo_ready_start:
  "app_New demo_env [] None OrientationVertical demo_offline = Inr demo_ready \<and>
   a_layout demo_ready = a_layout demo_offline \<and> a_mgr demo_ready = a_mgr demo_offline \<and> a_out demo_ready = []"
proof -
  have "idx_ok (a_layout demo_offline)" "a_registry demo_offline = reg_Reset" "a_out demo_offline = []"
    by (simp add: idx_ok_def) (simp_all add: demo_offline_def demo_app_def initial_app_def)
  then show ?thesis
    using start_plain [of demo_offline] by (auto simp: demo_ready_def)
qed

lemma demo_ready_reach: "app_reach demo_env demo_offline demo_ready"
  using demo_ready_start by (blast intro: app_reach.start)

section \<open>Every state\<close>

text \<open>C1. In every state that the application reaches the parts agree: the focus is one of the panes, the
  manager has one cluster per context and a store runs at most one informer per subscription, the
  status bar counts its operations, the port-forwards have distinct ports, the registry agrees with its
  index and the notifications are in order.\<close>

theorem app_invariant:
  assumes "plugins_ok P" and "app_inv a0" and "app_reach P a0 a"
  shows "idx_ok (a_layout a) \<and> mgr_ok (a_mgr a) \<and> sb_ok (a_status a) \<and> pf_ok (a_pf a) \<and>
    registry_ok (a_registry a) \<and> ns_ok (a_notify a)"
  using reach_inv [OF assms(3,1,2)] by (simp add: app_inv_def app_sat_def)

theorem app_invariant_witness: "idx_ok (a_layout demo_ready) \<and> mgr_ok (a_mgr demo_ready)"
  using app_invariant [OF demo_plugins demo_offline_inv demo_ready_reach] by simp

text \<open>C2. The handlers read the focused pane by its index without a check: this never panics, so neither
  does the computation of the key hints that ends most of them.\<close>

theorem focus_never_panics:
  assumes "plugins_ok P" and "app_inv a0" and "app_reach P a0 a"
  shows "\<exists>p hs. FocusedPane (a_layout a) = Inr p \<and> FocusedSplit (a_layout a) = Inr (Option.bind p as_list) \<and>
    currentHints a = Inr hs"
  using reach_inv [OF assms(3,1,2)] focus_read hints_read by (simp add: app_inv_def app_sat_def) blast

theorem focus_never_panics_witness: "\<exists>hs. currentHints demo_ready = Inr hs"
  using focus_never_panics [OF demo_plugins demo_offline_inv demo_ready_reach] by blast

lemma adds_no_delete:
  "E_Delete k g c f ks \<in> set (a_out (add_note l msg ctx src a)) \<Longrightarrow> E_Delete k g c f ks \<in> set (a_out a)"
  "E_Delete k g c f ks \<in> set (a_out (pf_drop i a)) \<Longrightarrow> E_Delete k g c f ks \<in> set (a_out a)"
  "E_Delete k g c f ks \<in> set (a_out (fold (pf_drop \<circ> o_name) xs a)) \<Longrightarrow> E_Delete k g c f ks \<in> set (a_out a)"
proof -
  show "E_Delete k g c f ks \<in> set (a_out (add_note l msg ctx src a)) \<Longrightarrow> E_Delete k g c f ks \<in> set (a_out a)" for a
    by (auto simp: add_note_def Let_def split: prod.splits)
  have d: "E_Delete k g c f ks \<in> set (a_out (pf_drop i a)) \<Longrightarrow> E_Delete k g c f ks \<in> set (a_out a)" for a i
    by (auto simp: pf_drop_def Let_def split: prod.splits if_splits)
  then show "E_Delete k g c f ks \<in> set (a_out (pf_drop i a)) \<Longrightarrow> E_Delete k g c f ks \<in> set (a_out a)" .
  show "E_Delete k g c f ks \<in> set (a_out (fold (pf_drop \<circ> o_name) xs a)) \<Longrightarrow> E_Delete k g c f ks \<in> set (a_out a)"
    by (induction xs arbitrary: a) (auto dest: d)
qed

lemma quiet [simp]:
  "a_out (syncIndicators P a) = a_out a" "a_mgr (syncIndicators P a) = a_mgr a"
  "upd_list i f a = Inr b \<Longrightarrow> a_out b = a_out a"
  by (auto simp: syncIndicators_def on_status_def upd_list_def on_layout_def)

lemma no_client:
  assumes "mgr_ok m" and "IsPinned ctx m"
  shows "Option.bind (mgr_Get ctx m) c_client = None" and "\<not> Connected (mgr_Get ctx m)"
proof -
  obtain c where "mgr_Get ctx m = Some c" "manifest_cluster c"
    using assms by (auto simp: mgr_ok_def)
  then show "Option.bind (mgr_Get ctx m) c_client = None" "\<not> Connected (mgr_Get ctx m)"
    by (simp_all add: manifest_cluster_def Connected_def)
qed

text \<open>C3. The context of a manifest has a cluster without a client in every reachable state, whatever
  was reloaded and whichever contexts were switched to, so a confirmed deletion in a pane on it never
  becomes a request to a cluster.\<close>

theorem manifest_offline:
  assumes "plugins_ok P" and "app_inv a0" and "app_reach P a0 a"
    and "IsPinned ctx (a_mgr a)" and "FocusedSplit (a_layout a) = Inr (Some r)" and "rl_context r = ctx"
    and "executeDelete P targets force a = Inr b"
  shows "\<not> Connected (mgr_Get ctx (a_mgr a)) \<and>
    (E_Delete k g scoped f ks \<in> set (a_out b) \<longrightarrow> E_Delete k g scoped f ks \<in> set (a_out a))"
proof -
  have m: "mgr_ok (a_mgr a)" using reach_inv [OF assms(3,1,2)] by (simp add: app_inv_def app_sat_def)
  have c: "Option.bind (mgr_Get (rl_context r) (a_mgr a)) c_client = None"
    using no_client(1) [OF m] assms(4,6) by simp
  have "E_Delete k g scoped f ks \<in> set (a_out b) \<Longrightarrow> E_Delete k g scoped f ks \<in> set (a_out a)"
    using assms(5,7) c by (auto simp: executeDelete_def for_focused_def with_focused_def Let_def emit_def
        split: if_splits option.splits dest: adds_no_delete)
  then show ?thesis using no_client(2) [OF m] assms(4) by blast
qed

theorem manifest_offline_witness:
  "\<exists>b. executeDelete demo_env [demo_pod ''web''] True demo_ready = Inr b \<and>
     (\<forall>k. E_Delete k (p_GVR demo_pod_type) False True [(''web'', ''ns'')] \<notin> set (a_out b))"
proof -
  let ?r = "SetContext ''m'' (NewResourceList (list_env_of demo_env) demo_pod_type 80 20)"
  have f: "FocusedSplit (a_layout demo_ready) = Inr (Some ?r)"
    using demo_ready_start by (simp add: FocusedSplit_def go_index_def)
  have m: "IsPinned ''m'' (a_mgr demo_ready)"
    using demo_ready_start by (simp add: demo_offline_def RegisterPinned_def IsPinned_def demo_manifest_def cluster_New_def Let_def)
  have r: "rl_context ?r = ''m''" "rl_plugin ?r = demo_pod_type"
    by (simp_all add: SetContext_def NewResourceList_def Let_def split: prod.split)
  have "Option.bind (mgr_Get ''m'' (a_mgr demo_ready)) c_client = None"
    using no_client(1) reach_inv [OF demo_ready_reach demo_plugins demo_offline_inv] m by (simp add: app_inv_def app_sat_def)
  then obtain b where b: "executeDelete demo_env [demo_pod ''web''] True demo_ready = Inr b"
    using f r by (simp add: executeDelete_def for_focused_def with_focused_def Let_def demo_pod_type_def demo_resource_def demo_plugin_def)
  then show ?thesis
    using manifest_offline [OF demo_plugins demo_offline_inv demo_ready_reach m f r(1) b] demo_ready_start by auto
qed

section \<open>The dispatch\<close>

lemma run_plain: "cmd \<noteq> ''enter-detail'' \<Longrightarrow> executeCommand P cmd a = Some (plain_command P cmd a)"
  by (subst executeCommand.simps) simp

lemma run_enter: "executeCommand P ''enter-detail'' a = (case enter_command P a of Inl e \<Rightarrow> Some (Inl e)
    | Inr None \<Rightarrow> Some (enter_detail P a) | Inr (Some c) \<Rightarrow> executeCommand P c a)"
  by (subst executeCommand.simps) simp

text \<open>C4. A command is dispatched in finitely many steps, but for one: \<^verbatim>\<open>enter-detail\<close> on a row whose
  plug-in names \<^verbatim>\<open>enter-detail\<close> as its command calls itself without end.\<close>

theorem dispatch_terminates:
  "executeCommand P cmd a = None \<longleftrightarrow> cmd = ''enter-detail'' \<and> enter_command P a = Inr (Some ''enter-detail'')"
proof
  assume n: "executeCommand P cmd a = None"
  then have cmd: "cmd = ''enter-detail''" using run_plain [of cmd P a] by auto
with n obtain c where c: "enter_command P a = Inr (Some c)" "executeCommand P c a = None"
    by (simp add: run_enter split: sum.splits option.splits)
  then have "enter_command P a = Inr (Some ''enter-detail'')"
    using run_plain [of c P a] by auto

  with cmd show "cmd = ''enter-detail'' \<and> enter_command P a = Inr (Some ''enter-detail'')" by simp
next
  have "(\<lambda>((P, cmd), a) y. \<not> (cmd = ''enter-detail'' \<and> enter_command P a = Inr (Some ''enter-detail''))) ((P, cmd), a) y"
    if "executeCommand P cmd a = Some y" for y
    by (rule executeCommand.raw_induct [OF _ that]) (auto split: if_splits sum.splits option.splits)
  then show "executeCommand P cmd a = None"
    if "cmd = ''enter-detail'' \<and> enter_command P a = Inr (Some ''enter-detail'')"
    using that by (cases "executeCommand P cmd a") auto
qed

section \<open>A search that was cleared\<close>

lemma seq_fields [simp]:
  "a_searchApplySeq (emit e a) = a_searchApplySeq a" "a_searchApplySeq (start_op a) = a_searchApplySeq a"
  "a_searchApplySeq (on_panel g a) = a_searchApplySeq a" "a_searchApplySeq (clear_env a) = a_searchApplySeq a"
  "a_searchApplySeq (show_content P c b a) = a_searchApplySeq a"
  by (simp_all add: emit_def start_op_def on_panel_def set_layout_def clear_env_def show_content_def Let_def
      split: prod.split)






text \<open>What the panel shows for the selection has no effect on the panes.\<close>

lemma splits_kept [simp]:
  "splits (a_layout (emit e a)) = splits (a_layout a)" "splits (a_layout (start_op a)) = splits (a_layout a)"
  "splits (a_layout (on_panel g a)) = splits (a_layout a)" "splits (a_layout (clear_env a)) = splits (a_layout a)"
  "splits (a_layout (show_content P c b a)) = splits (a_layout a)"
  "focusIdx (a_layout (emit e a)) = focusIdx (a_layout a)" "focusIdx (a_layout (start_op a)) = focusIdx (a_layout a)"
  "focusIdx (a_layout (on_panel g a)) = focusIdx (a_layout a)" "focusIdx (a_layout (clear_env a)) = focusIdx (a_layout a)"
  "focusIdx (a_layout (show_content P c b a)) = focusIdx (a_layout a)"
  "focusTarget (a_layout (emit e a)) = focusTarget (a_layout a)" "focusTarget (a_layout (start_op a)) = focusTarget (a_layout a)"
  "focusTarget (a_layout (on_panel g a)) = focusTarget (a_layout a)" "focusTarget (a_layout (clear_env a)) = focusTarget (a_layout a)"
  "focusTarget (a_layout (show_content P c b a)) = focusTarget (a_layout a)"
  by (simp_all add: emit_def start_op_def on_panel_def set_layout_def clear_env_def show_content_def Let_def
      split: prod.split)











section \<open>Logs\<close>

lemma replace_dots_hd: "replace_dots (d # s) = x # r \<Longrightarrow> x = d \<or> d = CHR ''.'' \<and> x = CHR ''_''"
  by (cases s) (auto split: if_splits)

lemma replace_dots_not: "replace_dots s \<noteq> ''..''"
proof (induction s rule: replace_dots.induct)
  case (1 c d s)
  show ?case using replace_dots_hd [of d s] by (auto split: if_splits)
qed auto

lemma replace_dots_chars: "set (replace_dots s) \<subseteq> insert (CHR ''_'') (set s)"
  by (induction s rule: replace_dots.induct) auto

lemma sanitize_segment: "CHR ''/'' \<notin> set (sanitize s)" "sanitize s \<noteq> ''..''"
  using replace_dots_chars [of "map (\<lambda>c. if c = CHR ''/'' then CHR ''_'' else c) s"] replace_dots_not
  by (auto simp: sanitize_def)

text \<open>C38. Whatever the names of a cluster, namespace, pod and container, the log is written below
  \<^verbatim>\<open>aku/logs\<close> of the state directory: the path goes through at most one further directory, and no
  element of it is empty, \<^verbatim>\<open>.\<close> or \<^verbatim>\<open>..\<close>.\<close>

theorem log_path_confined:
  assumes "CHR ''/'' \<notin> set stamp"
  shows "\<exists>dir name. BuildPath (Inr base) cluster ns pod container stamp = Inr (base @ ''/aku/logs/'' @ dir @ name) \<and>
    CHR ''/'' \<notin> set name \<and> name \<notin> {'''', ''.'', ''..''} \<and>
    (dir = '''' \<or> (\<exists>d. dir = d @ ''/'' \<and> CHR ''/'' \<notin> set d \<and> d \<notin> {'''', ''.'', ''..''}))"
proof -
  let ?name = "sanitize ns @ ''-'' @ sanitize pod @ ''-'' @ sanitize container @ ''-'' @ stamp @ ''.log''"
  have "CHR ''/'' \<notin> set ?name" "length ?name > 2"
    using assms sanitize_segment(1) by auto
  then have "CHR ''/'' \<notin> set ?name \<and> ?name \<notin> {'''', ''.'', ''..''}" by force
moreover have "sanitize cluster \<noteq> '''' \<and> sanitize cluster \<noteq> ''.'' \<Longrightarrow>
      CHR ''/'' \<notin> set (sanitize cluster) \<and> sanitize cluster \<notin> {'''', ''.'', ''..''}"
    using sanitize_segment [of cluster] by simp
  moreover have "BuildPath (Inr base) cluster ns pod container stamp = Inr (base @ ''/aku/logs/'' @
      (if sanitize cluster = '''' \<or> sanitize cluster = ''.'' then '''' else sanitize cluster @ ''/'') @ ?name)"
    by (simp add: BuildPath_def Let_def)
ultimately show ?thesis
    by (intro exI [of _ "if sanitize cluster = '''' \<or> sanitize cluster = ''.'' then '''' else sanitize cluster @ ''/''"]
        exI [of _ ?name]) auto
qed

theorem log_path_confined_witness:
  "\<exists>dir name. BuildPath (Inr ''/state'') ''..'' ''../../etc'' ''p'' ''c'' ''2006'' = Inr (''/state'' @ ''/aku/logs/'' @ dir @ name) \<and>
     CHR ''/'' \<notin> set name \<and> (dir = '''' \<or> (\<exists>d. dir = d @ ''/'' \<and> d \<noteq> ''..''))"
  using log_path_confined [of "''2006''" "''/state''" "''..''" "''../../etc''" "''p''" "''c''"] by auto

section \<open>Questions\<close>

text \<open>A question that is answered with no changes nothing but the question: no pane, no cluster and
  no command.\<close>

theorem cancel_is_harmless:
  "keep (\<lambda>b. a_out b = a_out a \<and> a_mgr b = a_mgr a \<and> a_layout b = a_layout a \<and> a_overlay b = OverlayNone)
     (on_ConfirmResult P ConfirmCancel a)"
  by (simp add: on_ConfirmResult_def Let_def split: option.split)

lemma ClearSelection_pane [simp]:
  "rl_plugin (ClearSelection E r) = rl_plugin r" "rl_context (ClearSelection E r) = rl_context r"
  by (simp_all add: ClearSelection_def mark_def Let_def)

lemma cleared_pane:
  assumes "FocusedSplit (a_layout a) = Inr (Some r)" and "clear_focused_selection P a = Inr b"
  shows "FocusedSplit (a_layout b) = Inr (Some (ClearSelection (list_env_of P) r)) \<and> a_mgr b = a_mgr a"
  using assms by (auto simp: clear_focused_selection_def for_focused_def with_focused_def upd_list_def on_layout_def
      upd_split_Inr FocusedSplit_def go_index_ok split: if_splits option.splits elim: as_list.elims)

text \<open>C39. What is deleted after a question is decided by the pane that is focused when the answer comes: the
  request goes through the client of its cluster and to its resource type, with the names of the objects
  that were asked about.\<close>

theorem confirm_deletes_in_focused_pane:
  assumes "pendingRestart (a_pending a) = None" and "pendingDelete (a_pending a) = Some (x # xs)"
    and "FocusedSplit (a_layout a) = Inr (Some r)" and "Option.bind (mgr_Get (rl_context r) (a_mgr a)) c_client = Some cl"
    and "p_Name (rl_plugin r) \<notin> {''helmreleases'', ''portforwards''}"
    and "on_ConfirmResult P ConfirmYes a = Inr b"
  shows "last (a_out b) = E_Delete cl (p_GVR (rl_plugin r)) (p_IsClusterScoped (rl_plugin r)) False (map key_of_object (x # xs))"
proof -
  obtain a1 where a1: "clear_focused_selection P (a\<lparr> a_overlay := OverlayNone,
        a_pending := (a_pending a)\<lparr> pendingDelete := None \<rparr> \<rparr>) = Inr a1" "executeDelete P (x # xs) False a1 = Inr b"
    using assms(1,2,6) by (auto simp: on_ConfirmResult_def Let_def)
  have "FocusedSplit (a_layout a1) = Inr (Some (ClearSelection (list_env_of P) r))" "a_mgr a1 = a_mgr a"
    using cleared_pane [OF _ a1(1)] assms(3) by simp_all
  then show ?thesis
    using a1(2) assms(4,5) by (auto simp: executeDelete_def for_focused_def with_focused_def Let_def emit_def)
qed

text \<open>The question was about a pod of cluster \<^verbatim>\<open>b\<close>, the answer finds the nodes of cluster \<^verbatim>\<open>a\<close>.\<close>

definition demo_nodes :: "plain_vp resource_list" where
  "demo_nodes = SetContext ''a'' (NewResourceList (list_env_of demo_env) demo_node_type 80 20)"

definition demo_asked :: "(plain_vp, plain_vt, unit) app" where
  "demo_asked = demo_app\<lparr> a_layout := (a_layout demo_app)\<lparr> splits := [ResourcePane demo_nodes] \<rparr>,
     a_pending := no_pending\<lparr> pendingDelete := Some [demo_pod ''web''] \<rparr> \<rparr>"

lemma demo_nodes_pane: "rl_context demo_nodes = ''a''" "rl_plugin demo_nodes = demo_node_type"
  by (simp_all add: demo_nodes_def SetContext_def NewResourceList_def Let_def split: prod.split)

lemma demo_asked_focus: "FocusedSplit (a_layout demo_asked) = Inr (Some demo_nodes)"
  by (simp add: demo_asked_def demo_app_def initial_app_def NewLayout_def FocusedSplit_def go_index_def)

lemma demo_asked_client: "Option.bind (mgr_Get ''a'' (a_mgr demo_asked)) c_client = Some (demo_client ''a'')"
  unfolding demo_asked_def demo_app_def initial_app_def by simp (simp add: demo_mgr_def demo_connect_def RegisterConnected_def
    Let_def Get_put live_cluster_def cluster_New_def NewManager_def mgr_Get_def IsPinned_def put_def demo_client_def)




theorem confirm_deletes_in_focused_pane_witness:
  "\<exists>b. on_ConfirmResult demo_env ConfirmYes demo_asked = Inr b \<and>
     last (a_out b) = E_Delete (demo_client ''a'') (p_GVR demo_node_type) True False [(''web'', ''ns'')]"
proof -
  have q: "pendingRestart (a_pending demo_asked) = None" "pendingDelete (a_pending demo_asked) = Some [demo_pod ''web'']"
    by (simp_all add: demo_asked_def no_pending_def)
  have "clear_focused_selection demo_env a = Inr b1 \<Longrightarrow> \<exists>b. executeDelete demo_env [demo_pod ''web''] False b1 = Inr b"
    if "FocusedSplit (a_layout a) = Inr (Some demo_nodes)" "a_mgr a = a_mgr demo_asked"
    for a b1 :: "(plain_vp, plain_vt, unit) app"
    using cleared_pane [OF that(1)] that(2) demo_asked_client
    by (auto simp: executeDelete_def for_focused_def with_focused_def Let_def demo_nodes_pane demo_node_type_def
        demo_resource_def demo_plugin_def)
  moreover have "\<exists>b1. clear_focused_selection demo_env a = Inr b1"
    if "FocusedSplit (a_layout a) = Inr (Some demo_nodes)" for a :: "(plain_vp, plain_vt, unit) app"
    using that by (auto simp: clear_focused_selection_def for_focused_def with_focused_def upd_list_def on_layout_def
        upd_split_def FocusedSplit_def split: if_splits)
moreover have "on_ConfirmResult demo_env ConfirmYes demo_asked = go_bind (clear_focused_selection demo_env
      (demo_asked\<lparr> a_overlay := OverlayNone, a_pending := (a_pending demo_asked)\<lparr> pendingDelete := None \<rparr> \<rparr>))
      (steps [executeDelete demo_env [demo_pod ''web''] False])"
    by (simp add: on_ConfirmResult_def Let_def q)
  moreover have "FocusedSplit (a_layout (demo_asked\<lparr> a_overlay := OverlayNone,
      a_pending := (a_pending demo_asked)\<lparr> pendingDelete := None \<rparr> \<rparr>)) = Inr (Some demo_nodes)"
    using demo_asked_focus by simp
  ultimately obtain b where b: "on_ConfirmResult demo_env ConfirmYes demo_asked = Inr b"
    by fastforce

  then show ?thesis
    using confirm_deletes_in_focused_pane [OF q demo_asked_focus _ _ b, of "demo_client ''a''"] demo_asked_client
    by (simp add: demo_nodes_pane demo_node_type_def demo_resource_def demo_plugin_def demo_pod_def key_of_object_def)
qed

section \<open>Subscriptions\<close>

lemma mgr_steps [simp]:
  "a_mgr (leave_logs a) = a_mgr a" "a_mgr (setStatusBarContext ctx a) = a_mgr a" "a_mgr (note_connecting ctx a) = a_mgr a"
  by (simp_all add: leave_logs_def clear_env_def set_layout_def stopLogStream_def setStatusBarContext_def on_status_def
      note_connecting_def emit_def add_note_def Let_def split: prod.split)

lemma store_of_SyncRefs: "store_of c (fst (SyncRefs panes m)) = (if IsPinned c m \<or> panes c > 0 then store_of c m else None)"
  by (cases "mgr_Get c m") (simp_all add: store_of_def Get_SyncRefs)

text \<open>Retargeting a pane to another live cluster unsubscribes nothing: a store that still has a pane
  keeps the informer of the pane that has left.\<close>

theorem pane_switch_leaks:
  "keep (\<lambda>b. IsPinned ctx (a_mgr a) \<or> store_of c (a_mgr b) \<in> {None, store_of c (a_mgr a)})
     (handlePaneContextSwitch P ctx a)"
  by (auto simp: handlePaneContextSwitch_def for_focused_def with_focused_def Let_def upd_list_def on_layout_def pure_step_def
      sync_refs_def on_mgr_def store_of_SyncRefs keep_def go_bind_def split: option.split sum.split)

lemma release_layout [simp]: "a_layout (release ctx subs a) = a_layout a"
  by (induction subs arbitrary: a) (auto simp: release_def unsubscribeOnStoreIfUnused_def on_mgr_def)





section \<open>A group switch\<close>

text \<open>What matters of the panes: whether a pane is a list, and its context.\<close>

definition places :: "('v, 't, 'w) app \<Rightarrow> (bool \<times> string) list" where
  "places a = map (\<lambda>p. (as_list p \<noteq> None, pane_Context p)) (splits (a_layout a))"


lemma cleared_context [simp]: "rl_context (SetObjects E objs (ResetNav (SetContext ctx r))) = ctx"
  by (simp add: SetObjects_def restore_cursor_def move_cursor_def ResetNav_def SetContext_def Let_def split: option.split)

lemma place_of_list [simp]: "as_list p = Some r \<Longrightarrow> pane_Context p = rl_context r"
  by (cases p) simp_all






lemma places_kept [simp]:
  "places (leave_logs a) = places a" "places (setStatusBarContext c a) = places a" "places (sync_refs a) = places a"
  "places (release c subs a) = places a" "places (syncIndicators P a) = places a" "places (note_connecting c a) = places a"
  "places (a\<lparr> a_overlay := w \<rparr>) = places a" "places (on_status h a) = places a"
  by (simp_all add: places_def leave_logs_def clear_env_def set_layout_def stopLogStream_def SetLogMode_def rebuildPaneRects_def setStatusBarContext_def
      on_status_def sync_refs_def on_mgr_def syncIndicators_def note_connecting_def emit_def add_note_def Let_def
      split: prod.split)

lemma footer_place: "(as_list (pane_footer m mgr p) \<noteq> None) = (as_list p \<noteq> None)" "pane_Context (pane_footer m mgr p) = pane_Context p"
  by (cases p; simp add: syncPaneOffline_def SetOffline_def SetContextLabel_def SetContextBadgeVisible_def Let_def
      split: option.split)+

lemma places_footers [simp]: "places (syncPaneFooters a) = places a"
  by (simp add: syncPaneFooters_def set_layout_def places_def comp_def footer_place del: not_None_eq)
















section \<open>An external command\<close>

text \<open>A pipe of the configured command stays a pipe, with the name of the object put in.\<close>

theorem run_expansion_safe_witness:
  "substitute demo_env (NewResourceList (list_env_of demo_env) demo_pod_type 80 20) (demo_pod ''web-0'') ''echo $NAME|wc'' =
     Inr ''echo web-0|wc'' \<and> subseq (shell_syntax ''echo web-0|wc'') (shell_syntax ''echo $NAME|wc'')"
proof -
  have "substitute demo_env (NewResourceList (list_env_of demo_env) demo_pod_type 80 20) (demo_pod ''web-0'') ''echo $NAME|wc'' =
      Inr ''echo web-0|wc''"
    by (simp add: expand_eval safe_value_def safe_char_def demo_pod_def)
  then show ?thesis
    using run_expansion_safe [where P = demo_env and r = "NewResourceList (list_env_of demo_env) demo_pod_type 80 20" and
      sel = "demo_pod ''web-0''" and cmd = "''echo $NAME|wc''"] by simp
qed

end
