(* ===== verification/Go_Text.thy ===== *)
theory Go_Text
  imports Log_View Plugin_Picker Terminal_Pane
begin

text \<open>
  What the forms use of Go's strings and numbers: the conversions between a string, which is its
  bytes, and its runes, in UTF-8; \<^verbatim>\<open>strconv.Atoi\<close>; and the wrap-around of a 64-bit
  \<^verbatim>\<open>int\<close>. Bytes that are not UTF-8 become the replacement rune, one for each byte.
\<close>

section \<open>Runes\<close>

definition cont_byte :: "nat \<Rightarrow> bool" where
  "cont_byte c \<longleftrightarrow> 128 \<le> c \<and> c \<le> 191"

text \<open>The rune and the number of further bytes of a sequence that starts with the byte \<open>b\<close>.\<close>

definition utf8_multi :: "nat \<Rightarrow> nat list \<Rightarrow> (nat \<times> nat) option" where
  "utf8_multi b bs =
     (if 194 \<le> b \<and> b \<le> 223
      then (case bs of
          c1 # _ \<Rightarrow> if cont_byte c1 then Some ((b - 192) * 64 + (c1 - 128), 1) else None
        | _ \<Rightarrow> None)
      else if 224 \<le> b \<and> b \<le> 239
      then (case bs of
          c1 # c2 # _ \<Rightarrow>
            if cont_byte c1 \<and> (b = 224 \<longrightarrow> 160 \<le> c1) \<and> (b = 237 \<longrightarrow> c1 \<le> 159) \<and> cont_byte c2
            then Some ((b - 224) * 4096 + (c1 - 128) * 64 + (c2 - 128), 2) else None
        | _ \<Rightarrow> None)
      else if 240 \<le> b \<and> b \<le> 244
      then (case bs of
          c1 # c2 # c3 # _ \<Rightarrow>
            if cont_byte c1 \<and> (b = 240 \<longrightarrow> 144 \<le> c1) \<and> (b = 244 \<longrightarrow> c1 \<le> 143) \<and> cont_byte c2 \<and> cont_byte c3
            then Some ((b - 240) * 262144 + (c1 - 128) * 4096 + (c2 - 128) * 64 + (c3 - 128), 3) else None
        | _ \<Rightarrow> None)
      else None)"

fun decode_runes :: "nat list \<Rightarrow> nat list" where
  "decode_runes [] = []"
| "decode_runes (b # bs) =
     (if b < 128 then b # decode_runes bs
      else case utf8_multi b bs of
        Some (r, n) \<Rightarrow> r # decode_runes (drop n bs)
      | None \<Rightarrow> 65533 # decode_runes bs)"

definition valid_rune :: "nat \<Rightarrow> bool" where
  "valid_rune r \<longleftrightarrow> r < 55296 \<or> 57343 < r \<and> r < 1114112"

definition rune_bytes :: "nat \<Rightarrow> nat list" where
  "rune_bytes r0 =
     (let r = (if valid_rune r0 then r0 else 65533)
      in if r < 128 then [r]
         else if r < 2048 then [192 + r div 64, 128 + r mod 64]
         else if r < 65536 then [224 + r div 4096, 128 + r div 64 mod 64, 128 + r mod 64]
         else [240 + r div 262144, 128 + r div 4096 mod 64, 128 + r div 64 mod 64, 128 + r mod 64])"

text \<open>\<open>[]rune(s)\<close> and \<open>string(rs)\<close>.\<close>

definition runes :: "string \<Rightarrow> nat list" where
  "runes s = decode_runes (map of_char s)"

definition string_of_runes :: "nat list \<Rightarrow> string" where
  "string_of_runes rs = map char_of (concat (map rune_bytes rs))"

lemma decode_two: "2 \<le> a \<Longrightarrow> a < 32 \<Longrightarrow> m < 64 \<Longrightarrow> decode_runes ((192 + a) # (128 + m) # bs) = (a * 64 + m) # decode_runes bs"
  by (simp add: utf8_multi_def cont_byte_def)

lemma decode_three:
  assumes "a < 16" and "b < 64" and "m < 64" and "a = 0 \<longrightarrow> 32 \<le> b" and "a = 13 \<longrightarrow> b < 32"
  shows "decode_runes ((224 + a) # (128 + b) # (128 + m) # bs) = (a * 4096 + b * 64 + m) # decode_runes bs"
proof -
  have "utf8_multi (224 + a) ((128 + b) # (128 + m) # bs) = Some (a * 4096 + b * 64 + m, 2)"
    using assms by (auto simp: utf8_multi_def cont_byte_def)
  then show ?thesis by simp
qed

lemma decode_four:
  assumes "a < 5" and "b < 64" and "c < 64" and "m < 64" and "a = 0 \<longrightarrow> 16 \<le> b" and "a = 4 \<longrightarrow> b < 16"
  shows "decode_runes ((240 + a) # (128 + b) # (128 + c) # (128 + m) # bs) =
    (a * 262144 + b * 4096 + c * 64 + m) # decode_runes bs"
proof -
  have "utf8_multi (240 + a) ((128 + b) # (128 + c) # (128 + m) # bs) = Some (a * 262144 + b * 4096 + c * 64 + m, 3)"
    using assms by (auto simp: utf8_multi_def cont_byte_def)
  then show ?thesis by simp
qed

lemma decode_rune:
  assumes "valid_rune r"
  shows "decode_runes (rune_bytes r @ bs) = r # decode_runes bs"
proof -
  define m c where "m = r mod 64" and "c = r div 64 mod 64"
  have m: "m < 64" "c < 64" and r: "r = r div 64 * 64 + m" by (simp_all add: m_def c_def)
  have q: "r div 64 = r div 4096 * 64 + c"
    using div_mult_mod_eq [of "r div 64" 64] by (simp add: c_def div_mult2_eq [symmetric])
  consider "r < 128" | "128 \<le> r" "r < 2048" | "2048 \<le> r" "r < 65536" | "65536 \<le> r" by linarith
  then show ?thesis
  proof cases
    case 1
    then show ?thesis using assms by (simp add: rune_bytes_def)
  next
    case 2
    have "rune_bytes r = [192 + r div 64, 128 + m]" using 2 assms by (simp add: rune_bytes_def m_def)
    moreover have "2 \<le> r div 64" "r div 64 < 32" using 2 by linarith+
    ultimately show ?thesis using decode_two [of "r div 64" m bs] m r by simp
  next
    case 3
    have "rune_bytes r = [224 + r div 4096, 128 + c, 128 + m]"
      using 3 assms by (simp add: rune_bytes_def m_def c_def)
    moreover have e: "r = r div 4096 * 4096 + c * 64 + m" using r q by linarith
    moreover have "r div 4096 < 16" using 3 by linarith
    moreover have "r div 4096 = 0 \<longrightarrow> 32 \<le> c" "r div 4096 = 13 \<longrightarrow> c < 32"
      using 3 m assms e by (auto simp: valid_rune_def)
    ultimately show ?thesis using decode_three [of "r div 4096" c m bs] m by simp
  next
    case 4
    then have u: "r < 1114112" using assms by (simp add: valid_rune_def)
    define b where "b = r div 4096 mod 64"
    have b: "b < 64" by (simp add: b_def)
    have p: "r div 4096 = r div 262144 * 64 + b"
      using div_mult_mod_eq [of "r div 4096" 64] by (simp add: b_def div_mult2_eq [symmetric])
    have "rune_bytes r = [240 + r div 262144, 128 + b, 128 + c, 128 + m]"
      using 4 assms by (simp add: rune_bytes_def m_def c_def b_def)
    moreover have e: "r = r div 262144 * 262144 + b * 4096 + c * 64 + m" using r q p by linarith
    moreover have "r div 262144 < 5" using u by linarith
    moreover have "r div 262144 = 0 \<longrightarrow> 16 \<le> b" "r div 262144 = 4 \<longrightarrow> b < 16"
      using 4 u m b e by auto
    ultimately show ?thesis using decode_four [of "r div 262144" b c m bs] m b by simp
  qed
qed

lemma rune_bytes_small: "b \<in> set (rune_bytes r) \<Longrightarrow> b < 256"
  by (auto simp: rune_bytes_def Let_def valid_rune_def less_mult_imp_div_less split: if_splits)

lemma runes_string:
  assumes "list_all valid_rune rs"
  shows "runes (string_of_runes rs) = rs"
proof -
  have "map of_char (string_of_runes rs) = concat (map rune_bytes rs)"
    using rune_bytes_small by (auto simp: string_of_runes_def comp_def intro!: map_idI)
  moreover have "decode_runes (concat (map rune_bytes rs)) = rs"
    using assms by (induction rs) (simp_all add: decode_rune)
  ultimately show ?thesis by (simp add: runes_def)
qed

lemma cont_byte_obtain: "cont_byte c \<Longrightarrow> \<exists>x. c = 128 + x \<and> x < 64"
  by (auto simp: cont_byte_def intro!: exI [of _ "c - 128"])

lemma utf8_multi_cases:
  assumes "utf8_multi b bs = Some (r, n)"
  obtains (two) a m where "a \<le> 31" "m < 64" "r = a * 64 + m"
    | (three) a c m where "r = a * 4096 + c * 64 + m" "a \<le> 15" "c < 64" "m < 64" "a = 13 \<longrightarrow> c \<le> 31"
    | (four) a d c m where "r = a * 262144 + d * 4096 + c * 64 + m" "a \<le> 4" "d < 64" "c < 64" "m < 64"
        "a = 4 \<longrightarrow> d \<le> 15" "a = 0 \<longrightarrow> 16 \<le> d"
proof -
  consider "194 \<le> b" "b \<le> 223" | "224 \<le> b" "b \<le> 239" | "240 \<le> b" "b \<le> 244"
    using assms by (auto simp: utf8_multi_def split: if_splits)
  then show thesis
  proof cases
    case 1
    then have "b = 192 + (b - 192)" "b - 192 < 32" by auto
    then obtain a where "b = 192 + a" "a < 32" by blast
    then show thesis using assms 1 by (auto simp: utf8_multi_def split: list.splits if_splits dest!: cont_byte_obtain intro: two)
  next
    case 2
    then have "b = 224 + (b - 224)" "b - 224 < 16" by auto
    then obtain a where "b = 224 + a" "a < 16" by blast
    then show thesis using assms 2
      by (auto simp: utf8_multi_def split: list.splits if_splits dest!: cont_byte_obtain intro!: three)
  next
    case 3
    then have "b = 240 + (b - 240)" "b - 240 \<le> 4" by auto
    then obtain a where "b = 240 + a" "a \<le> 4" by blast
    then show thesis using assms 3
      by (auto simp: utf8_multi_def split: list.splits if_splits dest!: cont_byte_obtain intro!: four)
  qed
qed

lemma utf8_multi_valid: "utf8_multi b bs = Some (r, n) \<Longrightarrow> valid_rune r"
proof (erule utf8_multi_cases)
  fix a m assume "a \<le> 31" "m < 64" "r = a * 64 + m"
  then show "valid_rune r" by (simp add: valid_rune_def)
next
  fix a c m assume h: "r = a * 4096 + c * 64 + m" "a \<le> 15" "c < 64" "m < 64" "a = 13 \<longrightarrow> c \<le> (31::nat)"
  then consider "a < 13" | "a = 13" "c \<le> 31" | "14 \<le> a" by linarith
  then show "valid_rune r" by cases (use h in \<open>auto simp: valid_rune_def\<close>)
next
  fix a d c m assume h: "r = a * 262144 + d * 4096 + c * 64 + m" "a \<le> 4" "d < 64" "c < 64" "m < 64"
    "a = 4 \<longrightarrow> d \<le> 15" "a = 0 \<longrightarrow> 16 \<le> (d::nat)"
  then consider "a = 0" "16 \<le> d" | "0 < a" "a < 4" | "a = 4" "d \<le> 15" by linarith
  then show "valid_rune r" by cases (use h in \<open>auto simp: valid_rune_def\<close>)
qed

lemma valid_runes: "list_all valid_rune (runes s)"
proof -
  have "list_all valid_rune (decode_runes bs)" for bs
    by (induction bs rule: decode_runes.induct)
      (auto simp: valid_rune_def split: option.splits dest: utf8_multi_valid)
  then show ?thesis by (simp add: runes_def)
qed

lemma runes_part [simp]:
  "runes (string_of_runes (take n (runes s))) = take n (runes s)"
  "runes (string_of_runes (take n (runes s) @ drop m (runes s))) = take n (runes s) @ drop m (runes s)"
proof -
  have "list_all valid_rune (take n (runes s))" "list_all valid_rune (drop m (runes s))" for n m
    using valid_runes [of s] set_take_subset [of n "runes s"] set_drop_subset [of m "runes s"]
    unfolding list_all_iff by blast+
  then show "runes (string_of_runes (take n (runes s))) = take n (runes s)"
    "runes (string_of_runes (take n (runes s) @ drop m (runes s))) = take n (runes s) @ drop m (runes s)"
    by (simp_all add: runes_string)
qed

section \<open>Numbers\<close>

definition digits_value :: "string \<Rightarrow> nat" where
  "digits_value ds = foldl (\<lambda>n c. n * 10 + (of_char c - 48)) 0 ds"

text \<open>\<^verbatim>\<open>strconv.Atoi\<close>, with \<open>None\<close> for its error.\<close>

definition Atoi :: "string \<Rightarrow> int option" where
  "Atoi s =
     (let neg = (s \<noteq> [] \<and> hd s = CHR ''-'');
          ds = (if s \<noteq> [] \<and> (hd s = CHR ''-'' \<or> hd s = CHR ''+'') then tl s else s);
          v = (if neg then - int (digits_value ds) else int (digits_value ds))
      in if ds \<noteq> [] \<and> list_all is_digit ds \<and> - (2 ^ 63) \<le> v \<and> v < 2 ^ 63 then Some v else None)"

text \<open>A sum of two 64-bit integers, wrapped around.\<close>

definition int64 :: "int \<Rightarrow> int" where
  "int64 n = (n + 2 ^ 63) mod 2 ^ 64 - 2 ^ 63"

lemma int64_small: "- (2 ^ 63) \<le> n \<Longrightarrow> n < 2 ^ 63 \<Longrightarrow> int64 n = n"
  by (simp add: int64_def)

lemma nat_digits_value: "digits_value (nat_digits n) = n \<and> list_all is_digit (nat_digits n) \<and> nat_digits n \<noteq> []"
proof (induction n rule: nat_digits.induct)
  case (1 n)
  have d: "is_digit (char_of (48 + k))" "of_char (char_of (48 + k)) = 48 + k" if "k < 10" for k :: nat
    using that by (simp_all add: is_digit_def)
  show ?case
  proof (cases "n < 10")
    case True
    then show ?thesis using d [of n] by (subst (1 2 3) nat_digits.simps) (simp add: digits_value_def)
  next
    case False
    then show ?thesis
      using 1 d [of "n mod 10"] by (subst (1 2 3) nat_digits.simps) (simp add: digits_value_def)
  qed
qed

lemma nat_digits_start: "hd (nat_digits n) \<noteq> CHR ''-'' \<and> hd (nat_digits n) \<noteq> CHR ''+''"
proof -
  have "is_digit (hd (nat_digits n))"
    using nat_digits_value [of n] by (cases "nat_digits n") auto
  then show ?thesis by (auto simp: is_digit_def)
qed

lemma Atoi_itoa: "- (2 ^ 63) \<le> n \<Longrightarrow> n < 2 ^ 63 \<Longrightarrow> Atoi (itoa n) = Some n"
  using nat_digits_value [of "nat n"] nat_digits_value [of "nat (- n)"] nat_digits_start [of "nat n"]
  by (auto simp: Atoi_def itoa_def)

lemma Atoi_range: "Atoi s = Some n \<Longrightarrow> - (2 ^ 63) \<le> n \<and> n < 2 ^ 63"
  by (auto simp: Atoi_def Let_def split: if_splits)

text \<open>
  \<^verbatim>\<open>internal/ui/wordmotion.go\<close>: motion and deletion by parts of a word in the text fields of
  the forms. \<open>unicode\<close> stands for the tables of letters and digits beyond ASCII of Go's package of
  this name.
\<close>

record unicode =
  uni_letter :: "nat \<Rightarrow> bool"
  uni_digit :: "nat \<Rightarrow> bool"

datatype charClass = classOther | classLetter | classDigit

definition IsLetter :: "unicode \<Rightarrow> nat \<Rightarrow> bool" where
  "IsLetter U r \<longleftrightarrow> (if r < 128 then 65 \<le> r \<and> r \<le> 90 \<or> 97 \<le> r \<and> r \<le> 122 else uni_letter U r)"

definition IsDigit :: "unicode \<Rightarrow> nat \<Rightarrow> bool" where
  "IsDigit U r \<longleftrightarrow> (if r < 128 then 48 \<le> r \<and> r \<le> 57 else uni_digit U r)"

definition classOf :: "unicode \<Rightarrow> nat \<Rightarrow> charClass" where
  "classOf U r = (if IsLetter U r then classLetter else if IsDigit U r then classDigit else classOther)"

section \<open>Boundaries\<close>

text \<open>The loops of the two searches. A position is never negative, so it is a natural number.\<close>

function next_loop :: "unicode \<Rightarrow> nat list \<Rightarrow> nat \<Rightarrow> nat" where
  "next_loop U rs pos =
     (if pos < length rs \<and> classOf U (rs ! (pos - 1)) = classOf U (rs ! pos) then next_loop U rs (pos + 1) else pos)"
  by pat_completeness auto
termination
  by (relation "measure (\<lambda>(U, rs, pos). length rs - pos)") auto

declare next_loop.simps [simp del]

definition nextWordBoundary :: "unicode \<Rightarrow> nat list \<Rightarrow> nat \<Rightarrow> nat" where
  "nextWordBoundary U rs pos = (if pos \<ge> length rs then length rs else next_loop U rs (pos + 1))"

primrec prev_loop :: "unicode \<Rightarrow> nat list \<Rightarrow> nat \<Rightarrow> nat" where
  "prev_loop U rs 0 = 0"
| "prev_loop U rs (Suc p) =
     (if classOf U (rs ! p) = classOf U (rs ! Suc p) then prev_loop U rs p else Suc p)"

definition prevWordBoundary :: "unicode \<Rightarrow> nat list \<Rightarrow> nat \<Rightarrow> nat" where
  "prevWordBoundary U rs pos0 =
     (if pos0 = 0 then 0
      else let pos = (if pos0 > length rs then length rs else pos0) in prev_loop U rs (pos - 1))"

section \<open>Keys\<close>

definition wordMotionDir :: "key \<Rightarrow> int" where
  "wordMotionDir km =
     (if key_Code km = KeyRight then (if ModAlt km \<or> ModCtrl km then 1 else 0)
      else if key_Code km = KeyLeft then (if ModAlt km \<or> ModCtrl km then -1 else 0)
      else if key_Code km = Rune 102 then (if ModAlt km then 1 else 0)
      else if key_Code km = Rune 98 then (if ModAlt km then -1 else 0)
      else 0)"

definition wordDeleteDir :: "key \<Rightarrow> int" where
  "wordDeleteDir km =
     (if key_Code km = Rune 127 then (if ModAlt km then -1 else 0)
      else if key_Code km = KeyDelete then (if ModAlt km then 1 else 0)
      else if key_Code km = Rune 119 then (if ModCtrl km then -1 else 0)
      else if key_Code km = Rune 100 then (if ModAlt km then 1 else 0)
      else 0)"

section \<open>What the searches find\<close>

definition boundary :: "unicode \<Rightarrow> nat list \<Rightarrow> nat \<Rightarrow> bool" where
  "boundary U rs k \<longleftrightarrow> k = 0 \<or> length rs \<le> k \<or> classOf U (rs ! (k - 1)) \<noteq> classOf U (rs ! k)"

lemma next_loop_least:
  assumes "0 < pos" and "pos \<le> length rs"
  shows "pos \<le> next_loop U rs pos \<and> next_loop U rs pos \<le> length rs \<and> boundary U rs (next_loop U rs pos) \<and>
    (\<forall>k. pos \<le> k \<and> k < next_loop U rs pos \<longrightarrow> \<not> boundary U rs k)"
  using assms
proof (induction U rs pos rule: next_loop.induct)
  case (1 U rs pos)
  show ?case
  proof (cases "pos < length rs \<and> classOf U (rs ! (pos - 1)) = classOf U (rs ! pos)")
    case True
    then have e: "next_loop U rs pos = next_loop U rs (pos + 1)" by (subst next_loop.simps) simp
    have "\<not> boundary U rs pos" using True "1.prems" by (simp add: boundary_def)
    then show ?thesis using 1(1) [OF True] True e by (auto simp: Suc_le_eq nat_less_le)
  next
    case False
    then have "next_loop U rs pos = pos" by (subst next_loop.simps) auto
    then show ?thesis using False "1.prems" by (auto simp: boundary_def)
  qed
qed

lemma prev_loop_greatest:
  assumes "pos < length rs"
  shows "prev_loop U rs pos \<le> pos \<and> boundary U rs (prev_loop U rs pos) \<and>
    (\<forall>k. prev_loop U rs pos < k \<and> k \<le> pos \<longrightarrow> \<not> boundary U rs k)"
  using assms
proof (induction pos)
  case (Suc p)
  then show ?case by (auto simp: boundary_def le_Suc_eq)
qed (auto simp: boundary_def)

lemma next_boundary:
  assumes "pos < length rs"
  shows "pos < nextWordBoundary U rs pos" "nextWordBoundary U rs pos \<le> length rs"
    and "boundary U rs (nextWordBoundary U rs pos)"
    and "pos < k \<Longrightarrow> k < nextWordBoundary U rs pos \<Longrightarrow> \<not> boundary U rs k"
  using next_loop_least [of "pos + 1" rs U] assms by (auto simp: nextWordBoundary_def Suc_le_eq)

lemma prev_boundary:
  assumes "0 < pos" and "pos \<le> length rs"
  shows "prevWordBoundary U rs pos < pos" and "boundary U rs (prevWordBoundary U rs pos)"
    and "prevWordBoundary U rs pos < k \<Longrightarrow> k < pos \<Longrightarrow> \<not> boundary U rs k"
  using prev_loop_greatest [of "pos - 1" rs U] assms by (cases pos; auto simp: prevWordBoundary_def less_Suc_eq_le)+

lemma next_boundary_le [simp]: "nextWordBoundary U rs pos \<le> length rs"
  using next_boundary(2) [of pos rs U] by (cases "pos < length rs") (simp_all add: nextWordBoundary_def)

lemma prev_boundary_le: "pos \<le> length rs \<Longrightarrow> prevWordBoundary U rs pos \<le> pos"
  using prev_boundary(1) [of pos rs U] by (cases "pos = 0") (auto simp: prevWordBoundary_def)

text \<open>The two directions meet: going forth from where one came to going back leads to no further place.\<close>

lemma next_of_prev:
  assumes "0 < pos" and "pos \<le> length rs" and "boundary U rs pos"
  shows "nextWordBoundary U rs (prevWordBoundary U rs pos) = pos"
proof (rule ccontr)
  let ?p = "prevWordBoundary U rs pos"
  assume ne: "nextWordBoundary U rs ?p \<noteq> pos"
  have p: "?p < pos" using prev_boundary(1) [OF assms(1,2)] .
  then have l: "?p < length rs" using assms(2) by simp
  consider "nextWordBoundary U rs ?p < pos" | "pos < nextWordBoundary U rs ?p" using ne by linarith
  then show False
  proof cases
    case 1
    then show False using prev_boundary(3) [OF assms(1,2) next_boundary(1) [OF l]] next_boundary(3) [OF l] by blast
  next
    case 2
    then show False using next_boundary(4) [OF l p] assms(3) by blast
  qed
qed

text \<open>The search to the left is the one to the right on the reversed text.\<close>

lemma boundary_rev:
  assumes "k \<le> length rs"
  shows "boundary U (rev rs) (length rs - k) = boundary U rs k"
proof (cases "k = 0 \<or> k = length rs")
  case False
  then have "rev rs ! (length rs - k - 1) = rs ! k" "rev rs ! (length rs - k) = rs ! (k - 1)"
    using assms by (auto simp: rev_nth)
  then show ?thesis using False assms by (auto simp: boundary_def)
qed (auto simp: boundary_def)

lemma boundary_unique:
  assumes "a < pos" and "boundary U rs a" and "\<And>k. a < k \<Longrightarrow> k < pos \<Longrightarrow> \<not> boundary U rs k"
    and "b < pos" and "boundary U rs b" and "\<And>k. b < k \<Longrightarrow> k < pos \<Longrightarrow> \<not> boundary U rs k"
  shows "a = b"
  using assms by (meson linorder_neqE_nat)

lemma prev_is_mirrored_next:
  assumes "pos \<le> length rs"
  shows "prevWordBoundary U rs pos = length rs - nextWordBoundary U (rev rs) (length rs - pos)"
proof (cases "pos = 0")
  case False
  let ?n = "nextWordBoundary U (rev rs) (length rs - pos)"
  have l: "length rs - pos < length (rev rs)" using False assms by simp
  have n: "length rs - pos < ?n" "?n \<le> length rs" using next_boundary(1,2) [OF l, of U] by simp_all
  show ?thesis
  proof (rule boundary_unique [of _ pos U rs])
    show "prevWordBoundary U rs pos < pos" "boundary U rs (prevWordBoundary U rs pos)"
      using prev_boundary(1,2) [of pos rs U] False assms by simp_all
    show "\<not> boundary U rs k" if "prevWordBoundary U rs pos < k" "k < pos" for k
      using prev_boundary(3) [of pos rs U k] False assms that by simp
    show "length rs - ?n < pos" using n by linarith
    show "boundary U rs (length rs - ?n)"
      using next_boundary(3) [OF l, of U] boundary_rev [of "length rs - ?n" rs U] n by simp
    show "\<not> boundary U rs k" if "length rs - ?n < k" "k < pos" for k
      using next_boundary(4) [OF l, of "length rs - k" U] boundary_rev [of k rs U] that n assms by auto
  qed
qed (simp add: prevWordBoundary_def nextWordBoundary_def)

text \<open>C37. Going to the left is going to the right in the mirrored text, and both stop at the nearest boundary strictly
  beyond the position: a place between runes of different classes, or an end of the text. A position that is a
  boundary itself is left, although the comments of the code say \<^verbatim>\<open>at or after\<close> and
  \<^verbatim>\<open>at or before\<close>.\<close>

theorem word_motion_nearest:
  assumes "pos \<le> length rs"
  shows "prevWordBoundary U rs pos = length rs - nextWordBoundary U (rev rs) (length rs - pos) \<and>
    (pos < length rs \<longrightarrow> pos < nextWordBoundary U rs pos \<and> boundary U rs (nextWordBoundary U rs pos) \<and>
       (\<forall>k. pos < k \<and> k < nextWordBoundary U rs pos \<longrightarrow> \<not> boundary U rs k)) \<and>
    (0 < pos \<longrightarrow> prevWordBoundary U rs pos < pos \<and> boundary U rs (prevWordBoundary U rs pos) \<and>
       (\<forall>k. prevWordBoundary U rs pos < k \<and> k < pos \<longrightarrow> \<not> boundary U rs k))"
  using prev_is_mirrored_next [OF assms, of U] next_boundary [where pos = pos and rs = rs and U = U]
    prev_boundary [where pos = pos and rs = rs and U = U] assms by blast

text \<open>In \<^verbatim>\<open>nginx:1.25\<close> the word before the end is the number after the dot.\<close>

theorem word_motion_nearest_witness:
  "prevWordBoundary \<lparr> uni_letter = (\<lambda>_. False), uni_digit = (\<lambda>_. False) \<rparr> (runes ''nginx:1.25'') 10 = 8 \<and>
   nextWordBoundary \<lparr> uni_letter = (\<lambda>_. False), uni_digit = (\<lambda>_. False) \<rparr> (rev (runes ''nginx:1.25'')) 0 = 2"
proof -
  let ?U = "\<lparr> uni_letter = (\<lambda>_. False), uni_digit = (\<lambda>_. False) \<rparr>"
  have "length (runes ''nginx:1.25'') = 10" "nextWordBoundary ?U (rev (runes ''nginx:1.25'')) 0 = 2" by code_simp+
  then show ?thesis using word_motion_nearest [of 10 "runes ''nginx:1.25''" ?U] by simp
qed

text \<open>Text survives the way through its runes: of a list of Unicode scalar values, the string made of it in
  UTF-8 has these runes again; and whatever the bytes of a string are, its runes are such values.\<close>

theorem runes_round_trip:
  assumes "list_all valid_rune rs"
  shows "runes (string_of_runes rs) = rs \<and> list_all valid_rune (runes s)"
  using runes_string [OF assms] valid_runes by blast

theorem runes_round_trip_witness:
  "runes (string_of_runes [0x48, 0xE9, 0x25CF, 0x1F600]) = [0x48, 0xE9, 0x25CF, 0x1F600] \<and>
   list_all valid_rune (runes [CHR 0xFF, CHR ''a''])"
  by (rule runes_round_trip) (simp add: valid_rune_def)

end
