(* ===== verification/Overlay_Panel.thy ===== *)
theory Overlay_Panel
  imports Go_Text
begin

text \<open>
  \<^verbatim>\<open>internal/ui/overlay_panel.go\<close>: the panel that every form is built on. It keeps the text
  fields, which of them has the focus, a list with a cursor and the part of it in view, and it draws
  them in a box with a title and a footer. The text field itself is the
  \<^verbatim>\<open>textinput\<close> of \<^verbatim>\<open>charm.land/bubbles/v2\<close>, a parameter.
\<close>

section \<open>Text fields\<close>

text \<open>
  A message is a key or one of the library's own, of type \<open>'m\<close>; a command of the text field is taken
  as the message that it will send.
\<close>

datatype 'm tea_msg = KeyPress key | OtherMsg 'm

record ('i, 'm) ti_api =
  ti_New :: 'i
  ti_Value :: "'i \<Rightarrow> string"
  ti_Position :: "'i \<Rightarrow> nat"
  ti_Width :: "'i \<Rightarrow> int"
  ti_Prompt :: "'i \<Rightarrow> string"
  ti_View :: "'i \<Rightarrow> string"
  ti_SetValue :: "string \<Rightarrow> 'i \<Rightarrow> 'i"
  ti_SetCursor :: "nat \<Rightarrow> 'i \<Rightarrow> 'i"
  ti_SetWidth :: "int \<Rightarrow> 'i \<Rightarrow> 'i"
  ti_SetPrompt :: "string \<Rightarrow> 'i \<Rightarrow> 'i"
  ti_SetPlaceholder :: "string \<Rightarrow> 'i \<Rightarrow> 'i"
  ti_SetCharLimit :: "int \<Rightarrow> 'i \<Rightarrow> 'i"
  ti_SetValidate :: "(string \<Rightarrow> bool) \<Rightarrow> 'i \<Rightarrow> 'i"
  ti_SetPromptStyle :: "style \<Rightarrow> 'i \<Rightarrow> 'i"
  ti_SetErrorStyle :: "bool \<Rightarrow> 'i \<Rightarrow> 'i"
  ti_Focus :: "'i \<Rightarrow> 'i"
  ti_Blur :: "'i \<Rightarrow> 'i"
  ti_Update :: "'m tea_msg \<Rightarrow> 'i \<Rightarrow> 'i \<times> 'm option"

text \<open>What the library documents of a text field and the panel relies on: its cursor is inside its text.\<close>

definition ti_ok :: "('i, 'm) ti_api \<Rightarrow> bool" where
  "ti_ok T \<longleftrightarrow> (\<forall>i. ti_Position T i \<le> length (runes (ti_Value T i)))"

text \<open>
  The drawing: \<open>us_box w\<close> is \<open>OverlayStyle.Width(w).Render\<close>, \<open>us_footer w\<close> the centred footer,
  \<open>us_width\<close> is \<open>lipgloss.Width\<close>, and the other fields are the styles by their use.
\<close>

record ui_styles =
  us_width :: "string \<Rightarrow> int"
  us_title :: style
  us_cursor :: style
  us_prompt :: style
  us_border :: style
  us_box :: "int \<Rightarrow> style"
  us_footer :: "int \<Rightarrow> style"
  us_focused :: style
  us_normal :: style
  us_sep :: style
  us_muted :: style
  us_error :: style
  us_in_use :: style
  us_ctx_focused :: style
  us_ctx_count :: style
  us_scope :: style
  us_truncate :: "string \<Rightarrow> int \<Rightarrow> string"

record ('i, 'm) form_env =
  fe_ti :: "('i, 'm) ti_api"
  fe_st :: ui_styles
  fe_uni :: unicode
  fe_str :: "key \<Rightarrow> string"

section \<open>State\<close>

record 'i overlay_panel =
  ov_active :: bool
  ov_width :: int
  ov_height :: int
  ov_title :: string
  ov_content :: string
  ov_footer :: string
  ov_fixedWidth :: int
  ov_inputs :: "'i list"
  ov_focusIdx :: int
  ov_items :: "string list"
  ov_itemsSet :: bool
  ov_cursor :: int
  ov_offset :: int
  ov_maxVisible :: int
  ov_noItemsMsg :: string
  ov_postListInputIdx :: int
  ov_promptStyle :: "style option"

text \<open>The border on both sides and the padding of \<open>OverlayStyle\<close>.\<close>

definition overlayChrome :: int where
  "overlayChrome = 1 + 1 + 2 + 2"

definition NewOverlay :: "('i, 'm) form_env \<Rightarrow> 'i overlay_panel" where
  "NewOverlay E =
     \<lparr> ov_active = False, ov_width = 0, ov_height = 0, ov_title = '''', ov_content = '''', ov_footer = '''',
       ov_fixedWidth = 0, ov_inputs = [], ov_focusIdx = -1, ov_items = [], ov_itemsSet = False, ov_cursor = 0,
       ov_offset = 0, ov_maxVisible = 0, ov_noItemsMsg = ''(no items)'', ov_postListInputIdx = 0,
       ov_promptStyle = Some (us_prompt (fe_st E)) \<rparr>"

definition ov_Reset :: "('i, 'm) form_env \<Rightarrow> 'i overlay_panel \<Rightarrow> 'i overlay_panel" where
  "ov_Reset E p = p\<lparr> ov_active := False, ov_inputs := [], ov_focusIdx := -1, ov_content := '''', ov_items := [],
     ov_itemsSet := False, ov_cursor := 0, ov_offset := 0, ov_postListInputIdx := 0,
     ov_promptStyle := Some (us_prompt (fe_st E)) \<rparr>"

section \<open>Sizes\<close>

definition effectiveMaxVisible :: "'i overlay_panel \<Rightarrow> int" where
  "effectiveMaxVisible p = (if ov_maxVisible p > 0 then ov_maxVisible p else max (ov_height p - 8) 1)"

definition computeInnerWidth :: "('i, 'm) form_env \<Rightarrow> 'i overlay_panel \<Rightarrow> int" where
  "computeInnerWidth E p =
     (if ov_fixedWidth p > 0 then ov_fixedWidth p
      else let W = us_width (fe_st E);
               w0 = max (W (ov_content p)) (max (W (ov_footer p)) (W (ov_title p)));
               w1 = foldl (\<lambda>m item. if W item + 4 > m then W item + 4 else m) w0 (ov_items p);
               w2 = foldl (\<lambda>m i. let w = int (length (ti_Prompt (fe_ti E) i)) + 20 in if w > m then w else m) w1 (ov_inputs p);
               w3 = w2 + overlayChrome;
               upper = min (max (ov_width p) 26) 80;
               w4 = (if w3 < 26 then 26 else w3)
           in if w4 > upper then upper else w4)"

definition syncInputWidths :: "('i, 'm) form_env \<Rightarrow> int \<Rightarrow> 'i overlay_panel \<Rightarrow> 'i overlay_panel" where
  "syncInputWidths E innerWidth p =
     (let T = fe_ti E; cw = innerWidth - overlayChrome
      in p\<lparr> ov_inputs := map (\<lambda>i.
           let i1 = ti_SetWidth T (max (cw - us_width (fe_st E) (ti_Prompt T i) - 1) 1) i
           in ti_SetCursor T (ti_Position T i1) i1) (ov_inputs p) \<rparr>)"

definition ov_SetSize :: "('i, 'm) form_env \<Rightarrow> int \<Rightarrow> int \<Rightarrow> 'i overlay_panel \<Rightarrow> 'i overlay_panel" where
  "ov_SetSize E w h p =
     (let p1 = p\<lparr> ov_width := w, ov_height := h \<rparr> in syncInputWidths E (computeInnerWidth E p1) p1)"

section \<open>The list\<close>

definition clampCursor :: "'i overlay_panel \<Rightarrow> 'i overlay_panel" where
  "clampCursor p =
     (if ov_items p = [] then p\<lparr> ov_cursor := 0, ov_offset := 0 \<rparr>
      else let n = int (length (ov_items p));
               c1 = (if ov_cursor p < 0 then 0 else ov_cursor p);
               c = (if c1 \<ge> n then n - 1 else c1);
               mv = effectiveMaxVisible p;
               o1 = (if c < ov_offset p then c else ov_offset p);
               o2 = (if c \<ge> o1 + mv then c - mv + 1 else o1)
           in p\<lparr> ov_cursor := c, ov_offset := o2 \<rparr>)"

definition ov_SetItems :: "string list \<Rightarrow> 'i overlay_panel \<Rightarrow> 'i overlay_panel" where
  "ov_SetItems xs p = clampCursor (p\<lparr> ov_items := xs, ov_itemsSet := True, ov_cursor := 0, ov_offset := 0 \<rparr>)"

definition ov_SetCursor :: "int \<Rightarrow> 'i overlay_panel \<Rightarrow> 'i overlay_panel" where
  "ov_SetCursor pos p = clampCursor (p\<lparr> ov_cursor := pos \<rparr>)"

definition ov_SelectedItem :: "'i overlay_panel \<Rightarrow> string go" where
  "ov_SelectedItem p = (if ov_items p = [] then Inr '''' else go_index (ov_items p) (ov_cursor p))"

definition HandleListKeys :: "key \<Rightarrow> 'i overlay_panel \<Rightarrow> 'i overlay_panel \<times> bool" where
  "HandleListKeys msg p =
     (case key_Code msg of
        KeyDown \<Rightarrow> (clampCursor (p\<lparr> ov_cursor := ov_cursor p + 1 \<rparr>), True)
      | KeyUp \<Rightarrow> (clampCursor (p\<lparr> ov_cursor := ov_cursor p - 1 \<rparr>), True)
      | _ \<Rightarrow> (p, False))"

section \<open>The text fields\<close>

definition AddInput :: "('i, 'm) form_env \<Rightarrow> 'i \<Rightarrow> 'i overlay_panel \<Rightarrow> 'i overlay_panel \<times> nat" where
  "AddInput E ti p =
     (let ti1 = (case ov_promptStyle p of None \<Rightarrow> ti | Some s \<Rightarrow> ti_SetPromptStyle (fe_ti E) s ti);
          p1 = p\<lparr> ov_inputs := ov_inputs p @ [ti1] \<rparr>
      in (syncInputWidths E (computeInnerWidth E p1) p1, length (ov_inputs p)))"

definition InputValue :: "('i, 'm) form_env \<Rightarrow> int \<Rightarrow> 'i overlay_panel \<Rightarrow> string go" where
  "InputValue E i p = go_bind (go_index (ov_inputs p) i) (\<lambda>ti. Inr (ti_Value (fe_ti E) ti))"

text \<open>\<open>o.Input(i).SetValue(v)\<close>.\<close>

definition set_input :: "('i, 'm) form_env \<Rightarrow> int \<Rightarrow> string \<Rightarrow> 'i overlay_panel \<Rightarrow> 'i overlay_panel go" where
  "set_input E i v p =
     go_bind (go_index (ov_inputs p) i) (\<lambda>ti.
       Inr (p\<lparr> ov_inputs := (ov_inputs p)[nat i := ti_SetValue (fe_ti E) v ti] \<rparr>))"

definition FocusInput :: "('i, 'm) form_env \<Rightarrow> int \<Rightarrow> 'i overlay_panel \<Rightarrow> 'i overlay_panel" where
  "FocusInput E i p = p\<lparr> ov_focusIdx := i,
     ov_inputs := map (\<lambda>(j, ti). if int j = i then ti_Focus (fe_ti E) ti else ti_Blur (fe_ti E) ti)
       (enumerate 0 (ov_inputs p)) \<rparr>"

definition blurAll :: "('i, 'm) form_env \<Rightarrow> 'i overlay_panel \<Rightarrow> 'i overlay_panel" where
  "blurAll E p = p\<lparr> ov_inputs := map (ti_Blur (fe_ti E)) (ov_inputs p) \<rparr>"

definition FocusList :: "('i, 'm) form_env \<Rightarrow> 'i overlay_panel \<Rightarrow> 'i overlay_panel" where
  "FocusList E p = (blurAll E p)\<lparr> ov_focusIdx := -1 \<rparr>"

definition FocusNextInput :: "('i, 'm) form_env \<Rightarrow> 'i overlay_panel \<Rightarrow> 'i overlay_panel" where
  "FocusNextInput E p =
     (if ov_inputs p = [] then p
      else if ov_focusIdx p = -1 then FocusInput E 0 p
      else if ov_focusIdx p \<ge> int (length (ov_inputs p)) - 1
      then (if ov_items p \<noteq> [] then (blurAll E p)\<lparr> ov_focusIdx := -1 \<rparr> else FocusInput E 0 p)
      else FocusInput E (ov_focusIdx p + 1) p)"

definition FocusPrevInput :: "('i, 'm) form_env \<Rightarrow> 'i overlay_panel \<Rightarrow> 'i overlay_panel" where
  "FocusPrevInput E p =
     (let n = int (length (ov_inputs p))
      in if ov_inputs p = [] then p
         else if ov_focusIdx p = -1 then FocusInput E (n - 1) p
         else if ov_focusIdx p \<le> 0
         then (if ov_items p \<noteq> [] then (blurAll E p)\<lparr> ov_focusIdx := -1 \<rparr> else FocusInput E (n - 1) p)
         else FocusInput E (ov_focusIdx p - 1) p)"

text \<open>A word key on a text field, or nothing when the key is another.\<close>

definition handleWordKey :: "('i, 'm) form_env \<Rightarrow> key \<Rightarrow> 'i \<Rightarrow> 'i option go" where
  "handleWordKey E km i =
     (let T = fe_ti E; U = fe_uni E; rs = runes (ti_Value T i); pos = ti_Position T i;
          cut = (\<lambda>lo hi cur.
            go_bind (go_slice rs 0 (int lo)) (\<lambda>a. go_bind (go_slice rs (int hi) (int (length rs))) (\<lambda>b.
              Inr (Some (ti_SetCursor T cur (ti_SetValue T (string_of_runes a @ string_of_runes b) i))))))
      in if wordMotionDir km \<noteq> 0
         then Inr (Some (ti_SetCursor T
                (if wordMotionDir km > 0 then nextWordBoundary U rs pos else prevWordBoundary U rs pos) i))
         else if wordDeleteDir km \<noteq> 0
         then (if wordDeleteDir km > 0 then cut pos (nextWordBoundary U rs pos) pos
               else let start = prevWordBoundary U rs pos in cut start pos start)
         else Inr None)"

definition update_input :: "('i, 'm) form_env \<Rightarrow> 'm tea_msg \<Rightarrow> 'i \<Rightarrow> ('i \<times> 'm option) go" where
  "update_input E msg i =
     go_bind (case msg of KeyPress km \<Rightarrow> handleWordKey E km i | OtherMsg m \<Rightarrow> Inr None) (\<lambda>res.
       Inr (case res of Some i1 \<Rightarrow> (i1, None) | None \<Rightarrow> ti_Update (fe_ti E) msg i))"

definition UpdateInputs :: "('i, 'm) form_env \<Rightarrow> 'm tea_msg \<Rightarrow> 'i overlay_panel \<Rightarrow>
    ('i overlay_panel \<times> 'm option) go" where
  "UpdateInputs E msg p =
     (if ov_focusIdx p \<ge> 0 \<and> ov_focusIdx p < int (length (ov_inputs p))
      then let k = nat (ov_focusIdx p)
           in go_bind (update_input E msg (ov_inputs p ! k)) (\<lambda>(i, cmd).
                Inr (p\<lparr> ov_inputs := (ov_inputs p)[k := i] \<rparr>, cmd))
      else Inr (p, None))"

section \<open>Drawing\<close>

text \<open>The rows of the list in view, the note on those below, and blank rows up to a stable height.\<close>

definition list_rows :: "('i, 'm) form_env \<Rightarrow> 'i overlay_panel \<Rightarrow> string list go" where
  "list_rows E p =
     (let start = ov_offset p; n = int (length (ov_items p)); end = min (start + effectiveMaxVisible p) n;
          row = (\<lambda>i. let s = ov_items p ! nat i in if i = ov_cursor p then us_cursor (fe_st E) (''> '' @ s) else ''  '' @ s)
      in if start < end \<and> start < 0 then Inl IndexOutOfRange
         else Inr (map row [start..end - 1] @
           (if n - end > 0 then [''  ... and '' @ itoa (n - end) @ '' more''] else [])))"

definition list_lines :: "('i, 'm) form_env \<Rightarrow> 'i overlay_panel \<Rightarrow> string list go" where
  "list_lines E p =
     (let mv = nat (effectiveMaxVisible p)
      in go_bind (if ov_items p = [] then Inr [''  '' @ ov_noItemsMsg p] else list_rows E p) (\<lambda>rows.
           Inr (take (mv + 1) (rows @ replicate (mv - length rows) ''''))))"

definition composeLines :: "('i, 'm) form_env \<Rightarrow> 'i overlay_panel \<Rightarrow> string go" where
  "composeLines E p =
     (let n = length (ov_inputs p); views = map (ti_View (fe_ti E)) (ov_inputs p);
          split = (ov_postListInputIdx p > 0 \<and> ov_postListInputIdx p < int n);
          preEnd = (if split then nat (ov_postListInputIdx p) else n);
          head = (if ov_content p \<noteq> '''' then [us_title (fe_st E) (ov_content p), ''''] else []);
          pre = (if preEnd > 0 then take preEnd views @ [''''] else []);
          post = (if split then '''' # drop preEnd views else [])
      in go_bind (if ov_itemsSet p then list_lines E p else Inr []) (\<lambda>ls. Inr (join_lines (head @ pre @ ls @ post))))"

text \<open>The corners and the edge of \<open>lipgloss.RoundedBorder\<close>.\<close>

definition top_left :: string where "top_left = string_of_runes [0x256D]"
definition top_edge :: string where "top_edge = string_of_runes [0x2500]"
definition top_right :: string where "top_right = string_of_runes [0x256E]"

definition injectCenteredBorderTitle :: "('i, 'm) form_env \<Rightarrow> string \<Rightarrow> string \<Rightarrow> string go" where
  "injectCenteredBorderTitle E rendered title =
     (if title = '''' then Inr rendered
      else let S = fe_st E; ls = split_lines rendered; lineWidth = us_width S (hd ls);
               t = us_title S title; titleWidth = us_width S t
           in if titleWidth + 2 \<ge> lineWidth then Inr rendered
              else let available = lineWidth - 2 - titleWidth; leftDashes = go_quot available 2
                   in go_bind (go_repeat top_edge leftDashes) (\<lambda>left. go_bind (go_repeat top_edge (available - leftDashes)) (\<lambda>right.
                        Inr (join_lines ((us_border S top_left @ us_border S left @ t @ us_border S right @
                          us_border S top_right) # tl ls)))))"

definition finishBox :: "('i, 'm) form_env \<Rightarrow> string \<Rightarrow> int \<Rightarrow> 'i overlay_panel \<Rightarrow> string go" where
  "finishBox E content0 innerWidth p =
     (let footer = us_footer (fe_st E) (innerWidth - overlayChrome) (ov_footer p);
          content = (if ov_footer p = '''' then content0
            else if content0 = '''' then [CHR 0x0A] @ footer else content0 @ [CHR 0x0A, CHR 0x0A] @ footer)
      in injectCenteredBorderTitle E (us_box (fe_st E) innerWidth content) (ov_title p))"

definition ov_View :: "('i, 'm) form_env \<Rightarrow> 'i overlay_panel \<Rightarrow> string go" where
  "ov_View E p =
     (if \<not> ov_active p then Inr ''''
      else go_bind (composeLines E p) (\<lambda>c. finishBox E c (computeInnerWidth E p) p))"

definition ViewWithBody :: "('i, 'm) form_env \<Rightarrow> string \<Rightarrow> 'i overlay_panel \<Rightarrow> string go" where
  "ViewWithBody E body p = (if \<not> ov_active p then Inr '''' else finishBox E body (computeInnerWidth E p) p)"

end
