(* ===== verification/Forms.thy ===== *)
theory Forms
  imports Overlay_Panel App_Machine
begin

text \<open>
  \<^verbatim>\<open>internal/ui/picker.go\<close> and the pickers built on it, \<^verbatim>\<open>resourcepicker.go\<close>,
  \<^verbatim>\<open>nspicker.go\<close>, \<^verbatim>\<open>contextpicker.go\<close>,
  \<^verbatim>\<open>containerpicker.go\<close> and \<^verbatim>\<open>timerangepicker.go\<close>: a list that
  is filtered by what is typed, one entry of which is chosen. A command of a form is the list of the
  messages it sends, to the application or to the library. What is filtered is ASCII text.
\<close>

section \<open>The generic picker\<close>

datatype 'm form_msg = LibMsg 'm | AppMsg app_msg

type_synonym 'm form_cmd = "'m form_msg list"

definition lib_cmd :: "'m option \<Rightarrow> 'm form_cmd" where
  "lib_cmd c = (case c of None \<Rightarrow> [] | Some m \<Rightarrow> [LibMsg m])"

text \<open>\<open>OnSelect\<close> may be missing; calling it then is a panic.\<close>

record ('e, 'm) picker_config =
  pc_Title :: string
  pc_NoItemsMsg :: string
  pc_MaxVisible :: int
  pc_Display :: "'e \<Rightarrow> string"
  pc_Filter :: "string \<Rightarrow> 'e list \<Rightarrow> 'e list"
  pc_OnSelect :: "('e \<Rightarrow> 'm form_cmd) option"

record ('i, 'e, 'm) picker =
  pk_overlay :: "'i overlay_panel"
  pk_cfg :: "('e, 'm) picker_config"
  pk_all :: "'e list"
  pk_filtered :: "'e list"

definition configure :: "('e, 'm) picker_config \<Rightarrow> 'i overlay_panel \<Rightarrow> 'i overlay_panel" where
  "configure cfg p =
     (let p1 = (if pc_NoItemsMsg cfg \<noteq> '''' then p\<lparr> ov_noItemsMsg := pc_NoItemsMsg cfg \<rparr> else p)
      in if pc_MaxVisible cfg > 0 then p1\<lparr> ov_maxVisible := pc_MaxVisible cfg \<rparr> else p1)"

definition NewPicker :: "('i, 'm) form_env \<Rightarrow> ('e, 'm) picker_config \<Rightarrow> int \<Rightarrow> int \<Rightarrow> ('i, 'e, 'm) picker" where
  "NewPicker E cfg w h =
     \<lparr> pk_overlay = configure cfg (ov_SetSize E w h ((NewOverlay E)\<lparr> ov_title := pc_Title cfg \<rparr>)),
       pk_cfg = cfg, pk_all = [], pk_filtered = [] \<rparr>"

definition pk_query :: "('i, 'm) form_env \<Rightarrow> ('i, 'e, 'm) picker \<Rightarrow> string" where
  "pk_query E k = (case ov_inputs (pk_overlay k) of [] \<Rightarrow> '''' | ti # _ \<Rightarrow> ti_Value (fe_ti E) ti)"

definition pk_applyFilter :: "('i, 'm) form_env \<Rightarrow> ('i, 'e, 'm) picker \<Rightarrow> ('i, 'e, 'm) picker" where
  "pk_applyFilter E k =
     (let xs = pc_Filter (pk_cfg k) (pk_query E k) (pk_all k)
      in k\<lparr> pk_filtered := xs, pk_overlay := ov_SetItems (map (pc_Display (pk_cfg k)) xs) (pk_overlay k) \<rparr>)"

definition pk_SetItems :: "('i, 'm) form_env \<Rightarrow> 'e list \<Rightarrow> ('i, 'e, 'm) picker \<Rightarrow> ('i, 'e, 'm) picker" where
  "pk_SetItems E items k = pk_applyFilter E (k\<lparr> pk_all := items \<rparr>)"

definition SetDisplay :: "('i, 'm) form_env \<Rightarrow> ('e \<Rightarrow> string) \<Rightarrow> ('i, 'e, 'm) picker \<Rightarrow> ('i, 'e, 'm) picker" where
  "SetDisplay E display k = pk_applyFilter E (k\<lparr> pk_cfg := (pk_cfg k)\<lparr> pc_Display := display \<rparr> \<rparr>)"

definition pk_Open :: "('i, 'm) form_env \<Rightarrow> ('i, 'e, 'm) picker \<Rightarrow> ('i, 'e, 'm) picker" where
  "pk_Open E k =
     (let T = fe_ti E;
          p = configure (pk_cfg k) ((ov_Reset E (pk_overlay k))\<lparr> ov_active := True, ov_title := pc_Title (pk_cfg k) \<rparr>);
          ti = ti_Focus T (ti_SetPrompt T ''Filter: '' (ti_New T))
      in pk_applyFilter E (k\<lparr> pk_overlay := FocusInput E 0 (fst (AddInput E ti p)) \<rparr>))"

definition pk_Close :: "('i, 'e, 'm) picker \<Rightarrow> ('i, 'e, 'm) picker" where
  "pk_Close k = k\<lparr> pk_overlay := (pk_overlay k)\<lparr> ov_active := False \<rparr> \<rparr>"

definition pk_Active :: "('i, 'e, 'm) picker \<Rightarrow> bool" where
  "pk_Active k = ov_active (pk_overlay k)"

definition pk_SetSize :: "('i, 'm) form_env \<Rightarrow> int \<Rightarrow> int \<Rightarrow> ('i, 'e, 'm) picker \<Rightarrow> ('i, 'e, 'm) picker" where
  "pk_SetSize E w h k = k\<lparr> pk_overlay := ov_SetSize E w h (pk_overlay k) \<rparr>"

definition pk_Cursor :: "('i, 'e, 'm) picker \<Rightarrow> int" where
  "pk_Cursor k = ov_cursor (pk_overlay k)"

definition arrow_key :: "key_code \<Rightarrow> key" where
  "arrow_key c = \<lparr> key_Text = '''', ModAlt = False, ModCtrl = False, ModOther = False, key_Code = c \<rparr>"

definition pk_ScrollWheel :: "wheel \<Rightarrow> ('i, 'e, 'm) picker \<Rightarrow> ('i, 'e, 'm) picker" where
  "pk_ScrollWheel btn k =
     (case btn of
        MouseWheelUp \<Rightarrow> k\<lparr> pk_overlay := fst (HandleListKeys (arrow_key KeyUp) (pk_overlay k)) \<rparr>
      | MouseWheelDown \<Rightarrow> k\<lparr> pk_overlay := fst (HandleListKeys (arrow_key KeyDown) (pk_overlay k)) \<rparr>
      | _ \<Rightarrow> k)"

text \<open>The runes of the enter key and of escape are those of their control byte.\<close>

definition KeyEnter :: key_code where "KeyEnter = Rune 13"
definition KeyEscape :: key_code where "KeyEscape = Rune 27"

definition pk_Update ::
  "('i, 'm) form_env \<Rightarrow> 'm tea_msg \<Rightarrow> ('i, 'e, 'm) picker \<Rightarrow> (('i, 'e, 'm) picker \<times> 'm form_cmd) go" where
  "pk_Update E msg k =
     (case msg of
        OtherMsg m \<Rightarrow> Inr (k, [])
      | KeyPress km \<Rightarrow>
          if key_Code km = KeyEnter
          then if pk_filtered k \<noteq> [] \<and> pk_Cursor k < int (length (pk_filtered k))
               then go_bind (go_index (pk_filtered k) (pk_Cursor k)) (\<lambda>selected.
                 case pc_OnSelect (pk_cfg k) of None \<Rightarrow> Inl NilPointer | Some f \<Rightarrow> Inr (pk_Close k, f selected))
               else Inr (pk_Close k, [])
          else if key_Code km = KeyEscape then Inr (pk_Close k, [])
          else if key_Code km = KeyUp \<or> key_Code km = KeyDown
          then Inr (k\<lparr> pk_overlay := fst (HandleListKeys km (pk_overlay k)) \<rparr>, [])
          else go_bind (UpdateInputs E msg (pk_overlay k)) (\<lambda>(p, cmd).
                 Inr (pk_applyFilter E (k\<lparr> pk_overlay := p \<rparr>), lib_cmd cmd)))"

definition pk_View :: "('i, 'm) form_env \<Rightarrow> ('i, 'e, 'm) picker \<Rightarrow> string go" where
  "pk_View E k = ov_View E (pk_overlay k)"

section \<open>The pickers\<close>

definition maxDropdownItems :: int where "maxDropdownItems = 10"

definition matching :: "('e \<Rightarrow> string) \<Rightarrow> string \<Rightarrow> 'e list \<Rightarrow> 'e list" where
  "matching label query items =
     (if query = '''' then items else filter (\<lambda>e. contains (lower (label e)) (lower query)) items)"

definition resource_picker :: "(plugin_entry, 'm) picker_config" where
  "resource_picker = \<lparr> pc_Title = ''Select Resource'', pc_NoItemsMsg = ''(no matches)'', pc_MaxVisible = maxDropdownItems,
     pc_Display = display_name, pc_Filter = FilterPlugins,
     pc_OnSelect = Some (\<lambda>e. [AppMsg (ResourcePickedMsg (pick_command e))]) \<rparr>"

definition allNamespacesLabel :: string where "allNamespacesLabel = ''All Namespaces''"

definition ns_picker :: "(string, 'm) picker_config" where
  "ns_picker = \<lparr> pc_Title = ''Select Namespace'', pc_NoItemsMsg = ''(no matches)'', pc_MaxVisible = maxDropdownItems,
     pc_Display = (\<lambda>s. s), pc_Filter = matching (\<lambda>s. s),
     pc_OnSelect = Some (\<lambda>s. [AppMsg (NamespaceSelectedMsg (if s = allNamespacesLabel then '''' else s))]) \<rparr>"

definition SetNamespaces :: "('i, 'm) form_env \<Rightarrow> string list \<Rightarrow> ('i, string, 'm) picker \<Rightarrow> ('i, string, 'm) picker" where
  "SetNamespaces E nss k = pk_SetItems E (allNamespacesLabel # nss) k"

definition container_picker :: "(string, 'm) picker_config" where
  "container_picker = \<lparr> pc_Title = ''Select Container'', pc_NoItemsMsg = ''(no containers)'',
     pc_MaxVisible = maxDropdownItems, pc_Display = (\<lambda>s. s), pc_Filter = matching (\<lambda>s. s),
     pc_OnSelect = Some (\<lambda>s. [AppMsg (LogContainerSelectedMsg s)]) \<rparr>"

type_synonym timePreset = "string \<times> int"

definition timePresets :: "timePreset list" where
  "timePresets = [(''tail 200'', -1), (''1m'', 60), (''5m'', 300), (''15m'', 900), (''30m'', 1800), (''1h'', 3600),
     (''4h'', 14400), (''12h'', 43200), (''24h'', 86400), (''all'', 0)]"

definition time_range_picker :: "(timePreset, 'm) picker_config" where
  "time_range_picker = \<lparr> pc_Title = ''Log Time Range'', pc_NoItemsMsg = ''(no matches)'',
     pc_MaxVisible = maxDropdownItems, pc_Display = fst, pc_Filter = matching fst,
     pc_OnSelect = Some (\<lambda>p. [AppMsg (LogTimeRangeSelectedMsg (fst p) (if snd p > 0 then Some (snd p) else None))]) \<rparr>"

definition LookupTimePreset :: "string \<Rightarrow> int option" where
  "LookupTimePreset label = map_of timePresets label"

definition OpenPresets :: "('i, 'm) form_env \<Rightarrow> ('i, timePreset, 'm) picker \<Rightarrow> ('i, timePreset, 'm) picker" where
  "OpenPresets E k = pk_Open E (pk_SetItems E timePresets k)"

section \<open>The context picker\<close>

definition context_picker :: "(string, 'm) picker_config" where
  "context_picker = \<lparr> pc_Title = ''Select Context'', pc_NoItemsMsg = ''(no matches)'', pc_MaxVisible = maxDropdownItems,
     pc_Display = (\<lambda>s. s), pc_Filter = matching (\<lambda>s. s), pc_OnSelect = None \<rparr>"

definition inUseMarker :: string where "inUseMarker = string_of_runes [0x25CF]"

definition displayContext :: "ui_styles \<Rightarrow> (string \<Rightarrow> int) \<Rightarrow> string \<Rightarrow> string \<Rightarrow> string" where
  "displayContext S counts focused name =
     (let n = counts name
      in (if n > 0 then us_in_use S inUseMarker @ '' '' else '''') @
         (if name = focused \<and> focused \<noteq> '''' then us_ctx_focused S name else name) @
         (if n > 0 then '' '' @ us_ctx_count S (''('' @ itoa n @ '')'') else ''''))"

definition SetAnnotations :: "('i, 'm) form_env \<Rightarrow> (string \<Rightarrow> int) \<Rightarrow> string \<Rightarrow>
    ('i, string, 'm) picker \<Rightarrow> ('i, string, 'm) picker" where
  "SetAnnotations E counts focused k = SetDisplay E (displayContext (fe_st E) counts focused) k"

definition context_Update ::
  "('i, 'm) form_env \<Rightarrow> 'm tea_msg \<Rightarrow> ('i, string, 'm) picker \<Rightarrow> (('i, string, 'm) picker \<times> 'm form_cmd) go" where
  "context_Update E msg k =
     (case msg of
        KeyPress km \<Rightarrow>
          if key_Code km = KeyEnter
          then (if pk_Cursor k < 0 \<or> pk_Cursor k \<ge> int (length (pk_filtered k)) then Inr (pk_Close k, [])
                else Inr (pk_Close k, [AppMsg (GlobalContextSelectedMsg (pk_filtered k ! nat (pk_Cursor k)))]))
          else pk_Update E msg k
      | OtherMsg m \<Rightarrow> pk_Update E msg k)"

text \<open>
  The forms of \<^verbatim>\<open>internal/ui\<close> with one field: the confirmation (\<^verbatim>\<open>confirmdialog.go\<close>, with
  the buttons of \<^verbatim>\<open>buttonbar.go\<close>), the search bar (\<^verbatim>\<open>searchbar.go\<close>), the number of
  replicas (\<^verbatim>\<open>scale.go\<close>) and the source of a chart (\<^verbatim>\<open>chartinput.go\<close>).
\<close>

section \<open>Buttons\<close>

type_synonym button = "string \<times> string"

definition bar_sep :: string where "bar_sep = string_of_runes [0x2502]"

definition RenderButtonBar :: "('i, 'm) form_env \<Rightarrow> button list \<Rightarrow> int \<Rightarrow> string" where
  "RenderButtonBar E buttons focusedIdx =
     (let S = fe_st E; sep = us_sep S bar_sep;
          parts = map (\<lambda>(i, label, hotkey). (if int i = focusedIdx then us_focused S else us_normal S)
                    (label @ ''('' @ hotkey @ '')'')) (enumerate 0 buttons)
      in sep @ '' '' @ join_with ('' '' @ sep @ '' '') parts @ '' '' @ sep)"

definition yes_no :: "button list" where
  "yes_no = [(''Yes'', ''y''), (''No'', ''n'')]"

section \<open>The confirmation\<close>

definition buttonCount :: int where "buttonCount = 3"
definition btnYes :: int where "btnYes = 0"
definition btnForce :: int where "btnForce = 1"
definition btnNo :: int where "btnNo = 2"

record 'i confirm_dialog =
  cd_overlay :: "'i overlay_panel"
  cd_button :: int

definition cd_updateFooter :: "('i, 'm) form_env \<Rightarrow> 'i confirm_dialog \<Rightarrow> 'i confirm_dialog" where
  "cd_updateFooter E c = c\<lparr> cd_overlay := (cd_overlay c)\<lparr> ov_footer :=
     RenderButtonBar E [(''Yes'', ''y''), (''Force'', ''f''), (''No'', ''N'')] (cd_button c) \<rparr> \<rparr>"

definition NewConfirmDialog :: "('i, 'm) form_env \<Rightarrow> string \<Rightarrow> int \<Rightarrow> 'i confirm_dialog" where
  "NewConfirmDialog E message width =
     cd_updateFooter E \<lparr> cd_overlay = (ov_SetSize E width 24 ((NewOverlay E)\<lparr> ov_active := True \<rparr>))
       \<lparr> ov_fixedWidth := 70, ov_content := message \<rparr>, cd_button = btnNo \<rparr>"

definition cd_SetWidth :: "('i, 'm) form_env \<Rightarrow> int \<Rightarrow> 'i confirm_dialog \<Rightarrow> 'i confirm_dialog" where
  "cd_SetWidth E w c = c\<lparr> cd_overlay := ov_SetSize E w 24 (cd_overlay c) \<rparr>"

definition focusedAction :: "'i confirm_dialog \<Rightarrow> confirm_action" where
  "focusedAction c =
     (if cd_button c = btnYes then ConfirmYes else if cd_button c = btnForce then ConfirmForce else ConfirmCancel)"

definition cd_answer :: "confirm_action \<Rightarrow> 'i confirm_dialog \<Rightarrow> 'i confirm_dialog \<times> 'm form_cmd" where
  "cd_answer act c = (c\<lparr> cd_overlay := (cd_overlay c)\<lparr> ov_active := False \<rparr> \<rparr>, [AppMsg (ConfirmResultMsg act)])"

definition cd_Update ::
  "('i, 'm) form_env \<Rightarrow> 'm tea_msg \<Rightarrow> 'i confirm_dialog \<Rightarrow> 'i confirm_dialog \<times> 'm form_cmd" where
  "cd_Update E msg c =
     (case msg of
        OtherMsg m \<Rightarrow> (c, [])
      | KeyPress km \<Rightarrow> (let k = fe_str E km in
          if k \<in> {''y'', ''Y''} then cd_answer ConfirmYes c
          else if k \<in> {''f'', ''F''} then cd_answer ConfirmForce c
          else if k \<in> {''n'', ''N'', ''esc''} then cd_answer ConfirmCancel c
          else if k = ''enter'' then cd_answer (focusedAction c) c
          else if k \<in> {''left'', ''shift+tab''}
          then (cd_updateFooter E (c\<lparr> cd_button := go_rem (cd_button c - 1 + buttonCount) buttonCount \<rparr>), [])
          else if k \<in> {''right'', ''tab''}
          then (cd_updateFooter E (c\<lparr> cd_button := go_rem (cd_button c + 1) buttonCount \<rparr>), [])
          else (c, [])))"

section \<open>The search bar\<close>

record 'i search_field =
  sr_input :: 'i
  sr_mode :: search_mode
  sr_active :: bool
  sr_width :: int
  sr_errMsg :: string

definition NewSearchBar :: "('i, 'm) form_env \<Rightarrow> int \<Rightarrow> 'i search_field" where
  "NewSearchBar E width =
     (let T = fe_ti E
      in \<lparr> sr_input = ti_SetWidth T (width - 4) (ti_SetCharLimit T 256 (ti_New T)), sr_mode = SearchModeSearch,
           sr_active = False, sr_width = width, sr_errMsg = '''' \<rparr>)"

definition sr_Open :: "('i, 'm) form_env \<Rightarrow> search_mode \<Rightarrow> 'i search_field \<Rightarrow> 'i search_field" where
  "sr_Open E mode s =
     (let T = fe_ti E
      in s\<lparr> sr_mode := mode, sr_active := True, sr_errMsg := '''',
            sr_input := ti_Focus T (ti_SetPrompt T (if mode = SearchModeSearch then ''/'' else ''|'')
              (ti_SetValue T '''' (sr_input s))) \<rparr>)"

definition sr_Close :: "('i, 'm) form_env \<Rightarrow> 'i search_field \<Rightarrow> 'i search_field" where
  "sr_Close E s = s\<lparr> sr_active := False, sr_input := ti_Blur (fe_ti E) (sr_input s) \<rparr>"

definition sr_SetError :: "('i, 'm) form_env \<Rightarrow> string \<Rightarrow> 'i search_field \<Rightarrow> 'i search_field" where
  "sr_SetError E err s =
     s\<lparr> sr_errMsg := err, sr_input := ti_SetErrorStyle (fe_ti E) (err \<noteq> '''') (sr_input s) \<rparr>"

definition sr_SetWidth :: "('i, 'm) form_env \<Rightarrow> int \<Rightarrow> 'i search_field \<Rightarrow> 'i search_field" where
  "sr_SetWidth E w s = s\<lparr> sr_width := w, sr_input := ti_SetWidth (fe_ti E) (w - 4) (sr_input s) \<rparr>"

definition sr_type :: "('i, 'm) form_env \<Rightarrow> 'm tea_msg \<Rightarrow> 'i search_field \<Rightarrow> 'i search_field \<times> 'm form_cmd" where
  "sr_type E msg s =
     (let T = fe_ti E; (i, cmd) = ti_Update T msg (sr_input s)
      in (s\<lparr> sr_input := i \<rparr>, lib_cmd cmd @
           (if ti_Value T i \<noteq> ti_Value T (sr_input s) then [AppMsg (SearchChangedMsg (ti_Value T i) (sr_mode s))] else [])))"

definition sr_Update :: "('i, 'm) form_env \<Rightarrow> 'm tea_msg \<Rightarrow> 'i search_field \<Rightarrow> 'i search_field \<times> 'm form_cmd" where
  "sr_Update E msg s =
     (case msg of
        OtherMsg m \<Rightarrow> sr_type E msg s
      | KeyPress km \<Rightarrow>
          if key_Code km = KeyEnter
          then (sr_Close E s, [AppMsg (SearchSubmittedMsg (ti_Value (fe_ti E) (sr_input s)) (sr_mode s))])
          else if key_Code km = KeyEscape then (sr_Close E s, [AppMsg (SearchClearedMsg (sr_mode s))])
          else sr_type E msg s)"

definition InlineView :: "('i, 'm) form_env \<Rightarrow> 'i search_field \<Rightarrow> string" where
  "InlineView E s = (if sr_active s then ti_View (fe_ti E) (sr_input s) else '''')"

definition sr_View :: "('i, 'm) form_env \<Rightarrow> 'i search_field \<Rightarrow> string" where
  "sr_View E s =
     (if \<not> sr_active s then ''''
      else let S = fe_st E; content = ti_View (fe_ti E) (sr_input s)
           in us_box S (max (min (go_quot (sr_width s) 2) 60) 20)
                (if sr_errMsg s \<noteq> '''' then content @ CHR 0x0A # us_error S (sr_errMsg s) else content))"

section \<open>The number of replicas\<close>

definition scaleBtnYes :: int where "scaleBtnYes = 0"
definition scaleBtnNo :: int where "scaleBtnNo = 1"
definition MaxInt32 :: int where "MaxInt32 = 2147483647"
definition KeyTab :: key_code where "KeyTab = Rune 9"

record 'i scale_overlay =
  so_overlay :: "'i overlay_panel"
  so_resourceName :: string
  so_namespace :: string
  so_gvr :: gvr
  so_currentReplicas :: int
  so_inputFocused :: bool
  so_focusedButton :: int

definition NewScaleOverlay :: "('i, 'm) form_env \<Rightarrow> int \<Rightarrow> int \<Rightarrow> 'i scale_overlay" where
  "NewScaleOverlay E w h =
     \<lparr> so_overlay = ov_SetSize E w h (NewOverlay E), so_resourceName = '''', so_namespace = '''',
       so_gvr = ('''', '''', ''''), so_currentReplicas = 0, so_inputFocused = False, so_focusedButton = 0 \<rparr>"

definition so_updateFooter :: "('i, 'm) form_env \<Rightarrow> 'i scale_overlay \<Rightarrow> 'i scale_overlay" where
  "so_updateFooter E s = s\<lparr> so_overlay := (so_overlay s)\<lparr> ov_footer :=
     RenderButtonBar E yes_no (if so_inputFocused s then -1 else so_focusedButton s) \<rparr> \<rparr>"

definition digits_only :: "string \<Rightarrow> bool" where
  "digits_only s \<longleftrightarrow> list_all is_digit s"

definition so_Open :: "('i, 'm) form_env \<Rightarrow> string \<Rightarrow> string \<Rightarrow> gvr \<Rightarrow> int \<Rightarrow> 'i scale_overlay \<Rightarrow> 'i scale_overlay" where
  "so_Open E resourceName ns g replicas s =
     (let T = fe_ti E;
          ti = ti_SetValue T (itoa replicas) (ti_SetValidate T digits_only (ti_SetPrompt T ''Replicas: '' (ti_New T)));
          p = (ov_Reset E (so_overlay s))\<lparr> ov_active := True, ov_title := ''Scale: '' @ resourceName, ov_fixedWidth := 40 \<rparr>
      in so_updateFooter E (s\<lparr> so_resourceName := resourceName, so_namespace := ns, so_gvr := g,
           so_currentReplicas := replicas, so_inputFocused := True, so_focusedButton := scaleBtnYes,
           so_overlay := FocusInput E 0 (fst (AddInput E ti p)) \<rparr>))"

definition so_Close :: "'i scale_overlay \<Rightarrow> 'i scale_overlay" where
  "so_Close s = s\<lparr> so_overlay := (so_overlay s)\<lparr> ov_active := False \<rparr> \<rparr>"

definition so_focusToInput :: "('i, 'm) form_env \<Rightarrow> 'i scale_overlay \<Rightarrow> 'i scale_overlay" where
  "so_focusToInput E s = so_updateFooter E (s\<lparr> so_inputFocused := True, so_overlay := FocusInput E 0 (so_overlay s) \<rparr>)"

definition so_focusToButtons :: "('i, 'm) form_env \<Rightarrow> 'i scale_overlay \<Rightarrow> 'i scale_overlay" where
  "so_focusToButtons E s = so_updateFooter E (s\<lparr> so_inputFocused := False, so_overlay := blurAll E (so_overlay s) \<rparr>)"

definition toggleFocus :: "('i, 'm) form_env \<Rightarrow> 'i scale_overlay \<Rightarrow> 'i scale_overlay" where
  "toggleFocus E s = (if so_inputFocused s then so_focusToButtons E s else so_focusToInput E s)"

definition adjustReplicas :: "('i, 'm) form_env \<Rightarrow> int \<Rightarrow> 'i scale_overlay \<Rightarrow> 'i scale_overlay go" where
  "adjustReplicas E delta s =
     go_bind (InputValue E 0 (so_overlay s)) (\<lambda>val.
       case Atoi val of
         None \<Rightarrow> Inr s
       | Some n0 \<Rightarrow> (let n1 = int64 (n0 + delta); n2 = (if n1 < 0 then 0 else n1); n = (if n2 > MaxInt32 then MaxInt32 else n2)
           in go_bind (set_input E 0 (itoa n) (so_overlay s)) (\<lambda>p. Inr (s\<lparr> so_overlay := p \<rparr>))))"

definition so_handleSubmit :: "('i, 'm) form_env \<Rightarrow> 'i scale_overlay \<Rightarrow> ('i scale_overlay \<times> 'm form_cmd) go" where
  "so_handleSubmit E s =
     go_bind (InputValue E 0 (so_overlay s)) (\<lambda>val.
       case Atoi val of
         None \<Rightarrow> Inr (s, [])
       | Some n \<Rightarrow>
           if n < 0 \<or> n > MaxInt32 then Inr (s, [])
           else if n = so_currentReplicas s then Inr (so_Close s, [])
           else Inr (so_Close s, [AppMsg (ScaleRequestedMsg (so_gvr s) (so_resourceName s) (so_namespace s) n)]))"

definition so_type :: "('i, 'm) form_env \<Rightarrow> key \<Rightarrow> 'i scale_overlay \<Rightarrow> ('i scale_overlay \<times> 'm form_cmd) go" where
  "so_type E km s =
     go_bind (UpdateInputs E (KeyPress km) (so_overlay s)) (\<lambda>(p, cmd). Inr (s\<lparr> so_overlay := p \<rparr>, lib_cmd cmd))"

definition so_arrow :: "('i, 'm) form_env \<Rightarrow> key \<Rightarrow> int \<Rightarrow> 'i scale_overlay \<Rightarrow> ('i scale_overlay \<times> 'm form_cmd) go" where
  "so_arrow E km btn s =
     (if so_inputFocused s then so_type E km s else Inr (so_updateFooter E (s\<lparr> so_focusedButton := btn \<rparr>), []))"

definition so_key :: "('i, 'm) form_env \<Rightarrow> key \<Rightarrow> 'i scale_overlay \<Rightarrow> ('i scale_overlay \<times> 'm form_cmd) go" where
  "so_key E km s =
     (let str = fe_str E km in
      if str \<in> {''y'', ''Y''} then so_handleSubmit E s
      else if str \<in> {''n'', ''N''} then Inr (so_Close s, [])
      else if so_inputFocused s
      then (if digits_only (key_Text km) then so_type E km s else Inr (s, []))
      else Inr (s, []))"

definition so_Update ::
  "('i, 'm) form_env \<Rightarrow> 'm tea_msg \<Rightarrow> 'i scale_overlay \<Rightarrow> ('i scale_overlay \<times> 'm form_cmd) go" where
  "so_Update E msg s =
     (case msg of
        OtherMsg m \<Rightarrow> Inr (s, [])
      | KeyPress km \<Rightarrow> (let c = key_Code km in
          if c = KeyEscape then Inr (so_Close s, [])
          else if c = KeyEnter
          then (if so_inputFocused s \<or> so_focusedButton s = scaleBtnYes then so_handleSubmit E s else Inr (so_Close s, []))
          else if c = KeyTab then Inr (toggleFocus E s, [])
          else if c = KeyUp
          then (if so_inputFocused s then go_bind (adjustReplicas E 1 s) (\<lambda>t. Inr (t, [])) else Inr (so_focusToInput E s, []))
          else if c = KeyDown
          then (if so_inputFocused s then go_bind (adjustReplicas E (-1) s) (\<lambda>t. Inr (t, [])) else Inr (s, []))
          else if c = KeyLeft then so_arrow E km scaleBtnYes s
          else if c = KeyRight then so_arrow E km scaleBtnNo s
          else so_key E km s))"

section \<open>The source of a chart\<close>

record 'i chart_input =
  ci_overlay :: "'i overlay_panel"
  ci_releaseName :: string
  ci_namespace :: string

definition NewChartInput :: "('i, 'm) form_env \<Rightarrow> int \<Rightarrow> int \<Rightarrow> 'i chart_input" where
  "NewChartInput E w h =
     \<lparr> ci_overlay = ov_SetSize E w h (NewOverlay E), ci_releaseName = '''', ci_namespace = '''' \<rparr>"

definition ci_Open :: "('i, 'm) form_env \<Rightarrow> string \<Rightarrow> string \<Rightarrow> string \<Rightarrow> 'i chart_input \<Rightarrow> 'i chart_input" where
  "ci_Open E releaseName ns currentRef c =
     (let T = fe_ti E;
          ti = ti_SetValue T currentRef (ti_SetPlaceholder T ''oci://registry/chart or /path/to/chart''
            (ti_SetPrompt T ''Chart: '' (ti_New T)));
          p = (ov_Reset E (ci_overlay c))\<lparr> ov_active := True, ov_title := ''Chart Source: '' @ releaseName, ov_fixedWidth := 70 \<rparr>
      in c\<lparr> ci_releaseName := releaseName, ci_namespace := ns,
            ci_overlay := FocusInput E 0 (fst (AddInput E ti p)) \<rparr>)"

definition ci_Close :: "'i chart_input \<Rightarrow> 'i chart_input" where
  "ci_Close c = c\<lparr> ci_overlay := (ci_overlay c)\<lparr> ov_active := False \<rparr> \<rparr>"

definition ci_handleSubmit :: "('i, 'm) form_env \<Rightarrow> 'i chart_input \<Rightarrow> ('i chart_input \<times> 'm form_cmd) go" where
  "ci_handleSubmit E c =
     go_bind (InputValue E 0 (ci_overlay c)) (\<lambda>chart.
       Inr (ci_Close c, if chart = '''' then [] else [AppMsg (HelmChartRefSetMsg (ci_releaseName c) (ci_namespace c) chart)]))"

definition ci_Update ::
  "('i, 'm) form_env \<Rightarrow> 'm tea_msg \<Rightarrow> 'i chart_input \<Rightarrow> ('i chart_input \<times> 'm form_cmd) go" where
  "ci_Update E msg c =
     (case msg of
        OtherMsg m \<Rightarrow> Inr (c, [])
      | KeyPress km \<Rightarrow>
          if key_Code km = KeyEscape then Inr (ci_Close c, [])
          else if key_Code km = KeyEnter then ci_handleSubmit E c
          else if key_Code km = KeyTab then Inr (c, [])
          else go_bind (UpdateInputs E msg (ci_overlay c)) (\<lambda>(p, cmd). Inr (c\<lparr> ci_overlay := p \<rparr>, lib_cmd cmd)))"

text \<open>
  The forms of \<^verbatim>\<open>internal/ui\<close> with a list: the port-forward
  (\<^verbatim>\<open>portforward.go\<close>), a filter, the ports of a pod and the local port, and the rollback of
  a release (\<^verbatim>\<open>helmrollback.go\<close>), whose revisions are fetched while it is shown.
\<close>

section \<open>The port-forward\<close>

record port_item =
  pi_ContainerName :: string
  pi_Port :: int
  pi_Protocol :: string

definition portItemDisplay :: "port_item \<Rightarrow> string" where
  "portItemDisplay p = pi_ContainerName p @ '':'' @ itoa (pi_Port p) @ ''/'' @ pi_Protocol p"

definition pfBtnYes :: int where "pfBtnYes = 0"
definition pfBtnNo :: int where "pfBtnNo = 1"

record 'i pf_overlay =
  po_overlay :: "'i overlay_panel"
  po_allPorts :: "port_item list"
  po_filtered :: "port_item list"
  po_podName :: string
  po_podNs :: string
  po_inputFocused :: bool
  po_focusedButton :: int

definition NewPortForwardOverlay :: "('i, 'm) form_env \<Rightarrow> int \<Rightarrow> int \<Rightarrow> 'i pf_overlay" where
  "NewPortForwardOverlay E w h =
     \<lparr> po_overlay = ov_SetSize E w h (NewOverlay E), po_allPorts = [], po_filtered = [], po_podName = '''',
       po_podNs = '''', po_inputFocused = False, po_focusedButton = 0 \<rparr>"

definition po_updateFooter :: "('i, 'm) form_env \<Rightarrow> 'i pf_overlay \<Rightarrow> 'i pf_overlay" where
  "po_updateFooter E p = p\<lparr> po_overlay := (po_overlay p)\<lparr> ov_footer :=
     RenderButtonBar E yes_no (if po_inputFocused p then -1 else po_focusedButton p) \<rparr> \<rparr>"

definition set_local :: "('i, 'm) form_env \<Rightarrow> string \<Rightarrow> 'i pf_overlay \<Rightarrow> 'i pf_overlay go" where
  "set_local E v p = go_bind (set_input E 1 v (po_overlay p)) (\<lambda>q. Inr (p\<lparr> po_overlay := q \<rparr>))"

definition syncLocalPort :: "('i, 'm) form_env \<Rightarrow> 'i pf_overlay \<Rightarrow> 'i pf_overlay go" where
  "syncLocalPort E p =
     (let idx = ov_cursor (po_overlay p)
      in if ov_focusIdx (po_overlay p) = 1 then Inr p
         else if po_filtered p = [] then set_local E '''' p
         else if idx \<ge> 0 \<and> idx < int (length (po_filtered p))
         then set_local E (''localhost:'' @ itoa (pi_Port (po_filtered p ! nat idx))) p
         else Inr p)"

definition po_applyFilter :: "('i, 'm) form_env \<Rightarrow> 'i pf_overlay \<Rightarrow> 'i pf_overlay go" where
  "po_applyFilter E p =
     (let query = (case ov_inputs (po_overlay p) of [] \<Rightarrow> '''' | ti # _ \<Rightarrow> ti_Value (fe_ti E) ti);
          xs = filter (\<lambda>i. query = '''' \<or> contains (lower (portItemDisplay i)) (lower query)) (po_allPorts p)
      in syncLocalPort E (p\<lparr> po_filtered := xs, po_overlay := ov_SetItems (map portItemDisplay xs) (po_overlay p) \<rparr>))"

definition po_Open ::
  "('i, 'm) form_env \<Rightarrow> string \<Rightarrow> string \<Rightarrow> port_item list \<Rightarrow> 'i pf_overlay \<Rightarrow> 'i pf_overlay go" where
  "po_Open E pod ns ports p =
     (let T = fe_ti E;
          o0 = (ov_Reset E (po_overlay p))\<lparr> ov_active := True, ov_title := ''Port Forward'',
             ov_noItemsMsg := ''(no ports found)'', ov_maxVisible := 3 \<rparr>;
          o1 = fst (AddInput E (ti_Focus T (ti_SetPrompt T ''Filter: '' (ti_New T))) o0);
          o2 = fst (AddInput E (ti_SetPrompt T ''Local: '' (ti_New T)) o1);
          o3 = FocusInput E 0 (o2\<lparr> ov_postListInputIdx := 1 \<rparr>)
      in go_bind (po_applyFilter E (p\<lparr> po_podName := pod, po_podNs := ns, po_allPorts := ports,
           po_inputFocused := True, po_focusedButton := pfBtnYes, po_overlay := o3 \<rparr>)) (\<lambda>q. Inr (po_updateFooter E q)))"

definition po_Close :: "'i pf_overlay \<Rightarrow> 'i pf_overlay" where
  "po_Close p = p\<lparr> po_overlay := (po_overlay p)\<lparr> ov_active := False \<rparr> \<rparr>"

text \<open>The part after the last colon, if there is one.\<close>

definition after_colon :: "string \<Rightarrow> string" where
  "after_colon val = rev (takeWhile (\<lambda>c. c \<noteq> CHR '':'') (rev val))"

definition parseLocalPort :: "string \<Rightarrow> int option" where
  "parseLocalPort val =
     (case Atoi (after_colon val) of
        None \<Rightarrow> None
      | Some port \<Rightarrow> if port < 1 \<or> port > 65535 then None else Some port)"

definition po_handleSubmit :: "('i, 'm) form_env \<Rightarrow> 'i pf_overlay \<Rightarrow> ('i pf_overlay \<times> 'm form_cmd) go" where
  "po_handleSubmit E p =
     (if po_filtered p = [] then Inr (p, [])
      else go_bind (InputValue E 1 (po_overlay p)) (\<lambda>val.
        case parseLocalPort val of
          None \<Rightarrow> Inr (p\<lparr> po_overlay := (po_overlay p)\<lparr> ov_footer := ''Invalid port (1-65535)'' \<rparr> \<rparr>, [])
        | Some port \<Rightarrow>
            if ov_cursor (po_overlay p) \<ge> int (length (po_filtered p)) then Inr (p, [])
            else go_bind (go_index (po_filtered p) (ov_cursor (po_overlay p))) (\<lambda>sel.
              Inr (po_Close p, [AppMsg (PortForwardRequestedMsg (po_podName p) (po_podNs p) (pi_ContainerName sel)
                port (pi_Port sel) (pi_Protocol sel))]))))"

definition po_focusToInput :: "('i, 'm) form_env \<Rightarrow> int \<Rightarrow> 'i pf_overlay \<Rightarrow> 'i pf_overlay" where
  "po_focusToInput E idx p =
     po_updateFooter E (p\<lparr> po_inputFocused := True, po_overlay := FocusInput E idx (po_overlay p) \<rparr>)"

definition po_focusToButtons :: "('i, 'm) form_env \<Rightarrow> 'i pf_overlay \<Rightarrow> 'i pf_overlay" where
  "po_focusToButtons E p = po_updateFooter E (p\<lparr> po_inputFocused := False, po_overlay := blurAll E (po_overlay p) \<rparr>)"

definition cycleFocusForward :: "('i, 'm) form_env \<Rightarrow> 'i pf_overlay \<Rightarrow> 'i pf_overlay" where
  "cycleFocusForward E p =
     (if \<not> po_inputFocused p then po_focusToInput E 0 p
      else if ov_focusIdx (po_overlay p) = 0 then p\<lparr> po_overlay := FocusList E (po_overlay p) \<rparr>
      else if ov_focusIdx (po_overlay p) = -1 then p\<lparr> po_overlay := FocusInput E 1 (po_overlay p) \<rparr>
      else if ov_focusIdx (po_overlay p) = 1 then po_focusToButtons E p
      else p)"

definition po_type :: "('i, 'm) form_env \<Rightarrow> key \<Rightarrow> 'i pf_overlay \<Rightarrow> ('i pf_overlay \<times> 'm form_cmd) go" where
  "po_type E km p =
     go_bind (UpdateInputs E (KeyPress km) (po_overlay p)) (\<lambda>(q, cmd). Inr (p\<lparr> po_overlay := q \<rparr>, lib_cmd cmd))"

definition po_arrow :: "('i, 'm) form_env \<Rightarrow> key \<Rightarrow> int \<Rightarrow> 'i pf_overlay \<Rightarrow> ('i pf_overlay \<times> 'm form_cmd) go" where
  "po_arrow E km btn p =
     (if po_inputFocused p then po_type E km p else Inr (po_updateFooter E (p\<lparr> po_focusedButton := btn \<rparr>), []))"

definition po_move :: "('i, 'm) form_env \<Rightarrow> key \<Rightarrow> 'i pf_overlay \<Rightarrow> 'i pf_overlay go" where
  "po_move E km p =
     (if po_inputFocused p
      then syncLocalPort E (p\<lparr> po_overlay := fst (HandleListKeys km (po_overlay p)) \<rparr>)
      else Inr (if key_Code km = KeyUp then po_focusToInput E 1 p else p))"

definition po_key :: "('i, 'm) form_env \<Rightarrow> key \<Rightarrow> 'i pf_overlay \<Rightarrow> ('i pf_overlay \<times> 'm form_cmd) go" where
  "po_key E km p =
     (let str = fe_str E km in
      if \<not> po_inputFocused p
      then if str \<in> {''y'', ''Y''} then po_handleSubmit E p
           else if str \<in> {''n'', ''N''} then Inr (po_Close p, []) else Inr (p, [])
      else go_bind (po_type E km p) (\<lambda>(q, cmd).
             if ov_focusIdx (po_overlay p) = 0 then go_bind (po_applyFilter E q) (\<lambda>r. Inr (r, cmd)) else Inr (q, cmd)))"

definition po_Update ::
  "('i, 'm) form_env \<Rightarrow> 'm tea_msg \<Rightarrow> 'i pf_overlay \<Rightarrow> ('i pf_overlay \<times> 'm form_cmd) go" where
  "po_Update E msg p =
     (case msg of
        OtherMsg m \<Rightarrow> Inr (p, [])
      | KeyPress km \<Rightarrow> (let c = key_Code km in
          if c = KeyEscape then Inr (po_Close p, [])
          else if c = KeyEnter
          then (if po_inputFocused p \<or> po_focusedButton p = pfBtnYes then po_handleSubmit E p else Inr (po_Close p, []))
          else if c = KeyTab then Inr (cycleFocusForward E p, [])
          else if c = KeyUp \<or> c = KeyDown then go_bind (po_move E km p) (\<lambda>q. Inr (q, []))
          else if c = KeyLeft then po_arrow E km pfBtnYes p
          else if c = KeyRight then po_arrow E km pfBtnNo p
          else po_key E km p))"

section \<open>The rollback of a release\<close>

type_synonym helm_revision = "int \<times> string"

record 'i rollback_overlay =
  hr_overlay :: "'i overlay_panel"
  hr_revisions :: "helm_revision list"
  hr_releaseName :: string
  hr_namespace :: string
  hr_loading :: bool
  hr_loadErr :: string

definition NewHelmRollbackOverlay :: "('i, 'm) form_env \<Rightarrow> int \<Rightarrow> int \<Rightarrow> 'i rollback_overlay" where
  "NewHelmRollbackOverlay E w h =
     \<lparr> hr_overlay = ov_SetSize E w h (NewOverlay E), hr_revisions = [], hr_releaseName = '''', hr_namespace = '''',
       hr_loading = False, hr_loadErr = '''' \<rparr>"

definition hr_show :: "('i, 'm) form_env \<Rightarrow> string \<Rightarrow> string list \<Rightarrow> 'i overlay_panel \<Rightarrow> 'i overlay_panel" where
  "hr_show E name items p =
     ov_SetItems items ((ov_Reset E p)\<lparr> ov_active := True, ov_title := ''Rollback '' @ name \<rparr>)"

definition hr_Open ::
  "('i, 'm) form_env \<Rightarrow> string \<Rightarrow> string \<Rightarrow> helm_revision list \<Rightarrow> 'i rollback_overlay \<Rightarrow> 'i rollback_overlay" where
  "hr_Open E name ns revs h = h\<lparr> hr_releaseName := name, hr_namespace := ns, hr_revisions := revs,
     hr_overlay := hr_show E name (map snd revs) (hr_overlay h) \<rparr>"

definition OpenLoading :: "('i, 'm) form_env \<Rightarrow> string \<Rightarrow> string \<Rightarrow> 'i rollback_overlay \<Rightarrow> 'i rollback_overlay" where
  "OpenLoading E name ns h = h\<lparr> hr_releaseName := name, hr_namespace := ns, hr_revisions := [], hr_loading := True,
     hr_loadErr := '''', hr_overlay := hr_show E name [''Loading history...''] (hr_overlay h) \<rparr>"

definition SetRevisions :: "helm_revision list \<Rightarrow> 'i rollback_overlay \<Rightarrow> 'i rollback_overlay" where
  "SetRevisions entries h = h\<lparr> hr_revisions := entries, hr_loading := False, hr_loadErr := '''',
     hr_overlay := ov_SetItems (map snd entries) (hr_overlay h) \<rparr>"

definition hr_SetError :: "string \<Rightarrow> 'i rollback_overlay \<Rightarrow> 'i rollback_overlay" where
  "hr_SetError msg h = h\<lparr> hr_loading := False, hr_loadErr := msg, hr_overlay := ov_SetItems [msg] (hr_overlay h) \<rparr>"

definition hr_Close :: "'i rollback_overlay \<Rightarrow> 'i rollback_overlay" where
  "hr_Close h = h\<lparr> hr_overlay := (hr_overlay h)\<lparr> ov_active := False \<rparr> \<rparr>"

definition hr_Update :: "'m tea_msg \<Rightarrow> 'i rollback_overlay \<Rightarrow> 'i rollback_overlay \<times> 'm form_cmd" where
  "hr_Update msg h =
     (case msg of
        OtherMsg m \<Rightarrow> (h, [])
      | KeyPress km \<Rightarrow>
          if key_Code km = KeyEscape then (hr_Close h, [])
          else if key_Code km = KeyEnter
          then (let idx = ov_cursor (hr_overlay h)
                in if hr_loading h \<or> hr_loadErr h \<noteq> '''' then (h, [])
                   else if idx \<ge> 0 \<and> idx < int (length (hr_revisions h))
                   then (hr_Close h, [AppMsg (HelmRollbackRequestedMsg (hr_releaseName h) (hr_namespace h)
                          (fst (hr_revisions h ! nat idx)))])
                   else (h, []))
          else (h\<lparr> hr_overlay := fst (HandleListKeys km (hr_overlay h)) \<rparr>, []))"

text \<open>
  \<^verbatim>\<open>internal/ui/setimage.go\<close> with the field of \<^verbatim>\<open>cyclefield.go\<close>: the form that
  changes the images of the containers of an object and their pull policies. Each container has a
  text field, held by the panel, and a field that cycles through the policies; the focus walks through
  them and the buttons.
\<close>

section \<open>The field of the pull policy\<close>

record cycle_field =
  cf_prompt :: string
  cf_options :: "string list"
  cf_idx :: int
  cf_focused :: bool

definition pullPolicyDefault :: string where "pullPolicyDefault = ''(default)''"

fun option_index :: "string \<Rightarrow> string list \<Rightarrow> int \<Rightarrow> int" where
  "option_index s [] i = 0"
| "option_index s (x # xs) i = (if x = s then i else option_index s xs (i + 1))"

definition cf_SetValue :: "string \<Rightarrow> cycle_field \<Rightarrow> cycle_field" where
  "cf_SetValue s f = f\<lparr> cf_idx := (if s = '''' then 0 else option_index s (cf_options f) 0) \<rparr>"

definition NewPullPolicyField :: "string \<Rightarrow> cycle_field" where
  "NewPullPolicyField current = cf_SetValue current
     \<lparr> cf_prompt = ''pull'', cf_options = [pullPolicyDefault, ''Always'', ''IfNotPresent'', ''Never''],
       cf_idx = 0, cf_focused = False \<rparr>"

definition cf_Next :: "cycle_field \<Rightarrow> cycle_field" where
  "cf_Next f = (if cf_options f = [] then f
     else f\<lparr> cf_idx := go_rem (cf_idx f + 1) (int (length (cf_options f))) \<rparr>)"

definition cf_Prev :: "cycle_field \<Rightarrow> cycle_field" where
  "cf_Prev f = (let n = int (length (cf_options f))
     in if cf_options f = [] then f else f\<lparr> cf_idx := go_rem (cf_idx f - 1 + n) n \<rparr>)"

definition cf_Value :: "cycle_field \<Rightarrow> string" where
  "cf_Value f = (if cf_idx f \<le> 0 \<or> cf_idx f \<ge> int (length (cf_options f)) then '''' else cf_options f ! nat (cf_idx f))"

text \<open>The arrows of the field, and its drawing with the styles of a field with or without the focus.\<close>

definition left_arrow :: string where "left_arrow = string_of_runes [0x2039]"
definition right_arrow :: string where "right_arrow = string_of_runes [0x203A]"

definition cf_View :: "('i, 'm) form_env \<Rightarrow> cycle_field \<Rightarrow> string go" where
  "cf_View E f =
     (if cf_options f = [] then Inr ''''
      else go_bind (go_index (cf_options f) (cf_idx f)) (\<lambda>v.
        let S = fe_st E; arrow = (if cf_focused f then us_border S else us_normal S);
            val = (if cf_focused f then us_focused S else us_muted S)
        in Inr (''  '' @ us_prompt S (cf_prompt f @ '':'') @ ''  '' @ arrow left_arrow @ '' '' @ val v @ '' '' @ arrow right_arrow)))"

section \<open>State\<close>

datatype setImageFocus = focusImage | focusPolicy | focusButtons

definition setImageBtnYes :: int where "setImageBtnYes = 0"
definition setImageBtnNo :: int where "setImageBtnNo = 1"

record container_row =
  cr_inputIdx :: int
  cr_policy :: cycle_field

text \<open>A container is its name, its image, whether it is an init container, and its pull policy.\<close>

record 'i set_image =
  si_overlay :: "'i overlay_panel"
  si_containers :: "image_change list"
  si_rows :: "container_row list"
  si_resourceName :: string
  si_namespace :: string
  si_gvr :: gvr
  si_pluginName :: string
  si_focusKind :: setImageFocus
  si_focusRow :: int
  si_focusedButton :: int

definition NewSetImageOverlay :: "('i, 'm) form_env \<Rightarrow> int \<Rightarrow> int \<Rightarrow> 'i set_image" where
  "NewSetImageOverlay E w h =
     \<lparr> si_overlay = ov_SetSize E w h (NewOverlay E), si_containers = [], si_rows = [], si_resourceName = '''',
       si_namespace = '''', si_gvr = ('''', '''', ''''), si_pluginName = '''', si_focusKind = focusImage,
       si_focusRow = 0, si_focusedButton = 0 \<rparr>"

definition si_Close :: "'i set_image \<Rightarrow> 'i set_image" where
  "si_Close s = s\<lparr> si_overlay := (si_overlay s)\<lparr> ov_active := False \<rparr> \<rparr>"

section \<open>The focus\<close>

definition si_updateFooter :: "('i, 'm) form_env \<Rightarrow> 'i set_image \<Rightarrow> 'i set_image" where
  "si_updateFooter E s = s\<lparr> si_overlay := (si_overlay s)\<lparr> ov_footer :=
     RenderButtonBar E yes_no (if si_focusKind s \<noteq> focusButtons then -1 else si_focusedButton s) \<rparr> \<rparr>"

definition on_policy :: "(cycle_field \<Rightarrow> cycle_field) \<Rightarrow> container_row \<Rightarrow> container_row" where
  "on_policy f r = r\<lparr> cr_policy := f (cr_policy r) \<rparr>"

definition blurPolicies :: "'i set_image \<Rightarrow> 'i set_image" where
  "blurPolicies s = s\<lparr> si_rows := map (on_policy (\<lambda>f. f\<lparr> cf_focused := False \<rparr>)) (si_rows s) \<rparr>"

text \<open>\<open>s.rows[r].policy\<close> changed by \<open>f\<close>.\<close>

definition upd_policy :: "(cycle_field \<Rightarrow> cycle_field) \<Rightarrow> int \<Rightarrow> 'i set_image \<Rightarrow> 'i set_image go" where
  "upd_policy f r s =
     go_bind (go_index (si_rows s) r) (\<lambda>row. Inr (s\<lparr> si_rows := (si_rows s)[nat r := on_policy f row] \<rparr>))"

definition si_focusImage :: "('i, 'm) form_env \<Rightarrow> int \<Rightarrow> 'i set_image \<Rightarrow> 'i set_image go" where
  "si_focusImage E r s =
     (let s1 = (blurPolicies s)\<lparr> si_focusKind := focusImage, si_focusRow := r \<rparr>
      in go_bind (go_index (si_rows s1) r) (\<lambda>row.
           Inr (si_updateFooter E (s1\<lparr> si_overlay := FocusInput E (cr_inputIdx row) (si_overlay s1) \<rparr>))))"

definition si_focusPolicy :: "('i, 'm) form_env \<Rightarrow> int \<Rightarrow> 'i set_image \<Rightarrow> 'i set_image go" where
  "si_focusPolicy E r s =
     (let s1 = (blurPolicies (s\<lparr> si_overlay := blurAll E (si_overlay s) \<rparr>))\<lparr> si_focusKind := focusPolicy, si_focusRow := r \<rparr>
      in go_bind (upd_policy (\<lambda>f. f\<lparr> cf_focused := True \<rparr>) r s1) (\<lambda>s2. Inr (si_updateFooter E s2)))"

definition si_focusToButtons :: "('i, 'm) form_env \<Rightarrow> 'i set_image \<Rightarrow> 'i set_image" where
  "si_focusToButtons E s = si_updateFooter E
     ((blurPolicies (s\<lparr> si_overlay := blurAll E (si_overlay s) \<rparr>))\<lparr> si_focusKind := focusButtons \<rparr>)"

definition focusNext :: "('i, 'm) form_env \<Rightarrow> 'i set_image \<Rightarrow> 'i set_image go" where
  "focusNext E s =
     (if si_rows s = [] then Inr s
      else case si_focusKind s of
        focusImage \<Rightarrow> si_focusPolicy E (si_focusRow s) s
      | focusPolicy \<Rightarrow>
          if si_focusRow s \<ge> int (length (si_rows s)) - 1 then Inr (si_focusToButtons E s)
          else si_focusImage E (si_focusRow s + 1) s
      | focusButtons \<Rightarrow> si_focusImage E 0 s)"

definition focusPrev :: "('i, 'm) form_env \<Rightarrow> 'i set_image \<Rightarrow> 'i set_image go" where
  "focusPrev E s =
     (if si_rows s = [] then Inr s
      else case si_focusKind s of
        focusImage \<Rightarrow>
          if si_focusRow s \<le> 0 then Inr (si_focusToButtons E s) else si_focusPolicy E (si_focusRow s - 1) s
      | focusPolicy \<Rightarrow> si_focusImage E (si_focusRow s) s
      | focusButtons \<Rightarrow> si_focusPolicy E (int (length (si_rows s)) - 1) s)"

text \<open>The rows of the containers, with a text field added to the panel for each.\<close>

fun add_rows :: "('i, 'm) form_env \<Rightarrow> image_change list \<Rightarrow> 'i overlay_panel \<Rightarrow> 'i overlay_panel \<times> container_row list" where
  "add_rows E [] p = (p, [])"
| "add_rows E ((name, img, init, policy) # cs) p =
     (let T = fe_ti E;
          (p1, idx) = AddInput E (ti_SetValue T img (ti_SetPrompt T '' image:  '' (ti_New T))) p;
          (p2, rows) = add_rows E cs p1
      in (p2, \<lparr> cr_inputIdx = int idx, cr_policy = NewPullPolicyField policy \<rparr> # rows))"

definition si_Open :: "('i, 'm) form_env \<Rightarrow> string \<Rightarrow> string \<Rightarrow> gvr \<Rightarrow> string \<Rightarrow> image_change list \<Rightarrow>
    'i set_image \<Rightarrow> 'i set_image go" where
  "si_Open E resourceName ns g plugin cs s =
     (let p = (ov_Reset E (si_overlay s))\<lparr> ov_active := True, ov_title := ''Set Image'', ov_fixedWidth := 70 \<rparr>;
          (p1, rows) = add_rows E cs p;
          s1 = s\<lparr> si_resourceName := resourceName, si_namespace := ns, si_gvr := g, si_pluginName := plugin,
            si_containers := cs, si_rows := rows, si_focusKind := focusImage, si_focusRow := 0,
            si_focusedButton := setImageBtnYes, si_overlay := p1 \<rparr>
      in go_bind (if rows \<noteq> [] then si_focusImage E 0 s1 else Inr s1) (\<lambda>s2. Inr (si_updateFooter E s2)))"

section \<open>Submitting\<close>

text \<open>What is to be changed of a container, if anything.\<close>

definition row_change :: "image_change \<Rightarrow> string \<Rightarrow> string \<Rightarrow> image_change option" where
  "row_change orig newImage newPolicy =
     (case orig of (name, img, init, policy) \<Rightarrow>
        let imgChanged = (newImage \<noteq> img \<and> newImage \<noteq> '''');
            policyChanged = (newPolicy \<noteq> policy \<and> newPolicy \<noteq> '''')
        in if \<not> imgChanged \<and> \<not> policyChanged then None
           else Some (name, if imgChanged then newImage else '''', init, if policyChanged then newPolicy else ''''))"

fun changes :: "('i, 'm) form_env \<Rightarrow> 'i overlay_panel \<Rightarrow> image_change list \<Rightarrow> container_row list \<Rightarrow> image_change list go" where
  "changes E p [] rows = Inr []"
| "changes E p (orig # cs) [] = Inl IndexOutOfRange"
| "changes E p (orig # cs) (row # rows) =
     go_bind (InputValue E (cr_inputIdx row) p) (\<lambda>v. go_bind (changes E p cs rows) (\<lambda>ch.
       Inr (case row_change orig v (cf_Value (cr_policy row)) of None \<Rightarrow> ch | Some c \<Rightarrow> c # ch)))"

definition si_handleSubmit :: "('i, 'm) form_env \<Rightarrow> 'i set_image \<Rightarrow> ('i set_image \<times> 'm form_cmd) go" where
  "si_handleSubmit E s =
     go_bind (changes E (si_overlay s) (si_containers s) (si_rows s)) (\<lambda>changed.
       Inr (si_Close s, if changed = [] then []
         else [AppMsg (SetImageRequestedMsg (si_gvr s) (si_resourceName s) (si_namespace s) (si_pluginName s) changed)]))"

section \<open>Keys\<close>

definition si_type :: "('i, 'm) form_env \<Rightarrow> key \<Rightarrow> 'i set_image \<Rightarrow> ('i set_image \<times> 'm form_cmd) go" where
  "si_type E km s =
     go_bind (UpdateInputs E (KeyPress km) (si_overlay s)) (\<lambda>(p, cmd). Inr (s\<lparr> si_overlay := p \<rparr>, lib_cmd cmd))"

definition silent :: "'a go \<Rightarrow> ('a \<times> 'm form_cmd) go" where
  "silent r = go_bind r (\<lambda>s. Inr (s, []))"

definition si_side :: "('i, 'm) form_env \<Rightarrow> key \<Rightarrow> (cycle_field \<Rightarrow> cycle_field) \<Rightarrow> int \<Rightarrow> 'i set_image \<Rightarrow>
    ('i set_image \<times> 'm form_cmd) go" where
  "si_side E km f btn s =
     (case si_focusKind s of
        focusImage \<Rightarrow> si_type E km s
      | focusPolicy \<Rightarrow> silent (upd_policy f (si_focusRow s) s)
      | focusButtons \<Rightarrow> Inr (si_updateFooter E (s\<lparr> si_focusedButton := btn \<rparr>), []))"

definition si_space :: "('i, 'm) form_env \<Rightarrow> key \<Rightarrow> 'i set_image \<Rightarrow> ('i set_image \<times> 'm form_cmd) go" where
  "si_space E km s =
     (case si_focusKind s of
        focusPolicy \<Rightarrow> silent (upd_policy cf_Next (si_focusRow s) s)
      | focusImage \<Rightarrow> si_type E km s
      | focusButtons \<Rightarrow> Inr (s, []))"

definition si_key :: "('i, 'm) form_env \<Rightarrow> key \<Rightarrow> 'i set_image \<Rightarrow> ('i set_image \<times> 'm form_cmd) go" where
  "si_key E km s =
     (case si_focusKind s of
        focusImage \<Rightarrow> si_type E km s
      | focusPolicy \<Rightarrow> Inr (s, [])
      | focusButtons \<Rightarrow>
          if fe_str E km \<in> {''y'', ''Y''} then si_handleSubmit E s
          else if fe_str E km \<in> {''n'', ''N''} then Inr (si_Close s, []) else Inr (s, []))"

definition si_Update ::
  "('i, 'm) form_env \<Rightarrow> 'm tea_msg \<Rightarrow> 'i set_image \<Rightarrow> ('i set_image \<times> 'm form_cmd) go" where
  "si_Update E msg s =
     (case msg of
        OtherMsg m \<Rightarrow> Inr (s, [])
      | KeyPress km \<Rightarrow> (let c = key_Code km in
          if fe_str E km = ''shift+tab'' then silent (focusPrev E s)
          else if si_rows s = []
          then (if c = KeyEscape then Inr (si_Close s, []) else if c = KeyEnter then si_handleSubmit E s else Inr (s, []))
          else if c = KeyEscape then Inr (si_Close s, [])
          else if c = KeyEnter
          then (if si_focusKind s = focusButtons \<and> si_focusedButton s \<noteq> setImageBtnYes then Inr (si_Close s, [])
                else si_handleSubmit E s)
          else if c = KeyTab then silent (focusNext E s)
          else if c = Rune 32 then si_space E km s
          else if c = KeyDown then silent (focusNext E s)
          else if c = KeyUp then silent (focusPrev E s)
          else if c = KeyLeft then si_side E km cf_Prev setImageBtnYes s
          else if c = KeyRight then si_side E km cf_Next setImageBtnNo s
          else si_key E km s))"

section \<open>Drawing\<close>

definition ellipsis_rune :: string where "ellipsis_rune = string_of_runes [0x2026]"

text \<open>\<open>us_truncate s w\<close> is \<open>ansi.Truncate(s, w, "\<dots>")\<close>.\<close>

definition imageLine :: "('i, 'm) form_env \<Rightarrow> container_row \<Rightarrow> bool \<Rightarrow> 'i set_image \<Rightarrow> string go" where
  "imageLine E row active s =
     go_bind (go_index (ov_inputs (si_overlay s)) (cr_inputIdx row)) (\<lambda>i.
       let T = fe_ti E; S = fe_st E
       in Inr (if active then ti_View T i
               else us_prompt S (ti_Prompt T i) @ us_muted S (us_truncate S (ti_Value T i) (ti_Width T i))))"

fun sections_from :: "('i, 'm) form_env \<Rightarrow> 'i set_image \<Rightarrow> int \<Rightarrow> container_row list \<Rightarrow> string list go" where
  "sections_from E s i [] = Inr []"
| "sections_from E s i (row # rows) =
     go_bind (go_index (si_containers s) i) (\<lambda>(name, img, init, policy).
     go_bind (imageLine E row (si_focusKind s = focusImage \<and> si_focusRow s = i) s) (\<lambda>line.
     go_bind (cf_View E (cr_policy row)) (\<lambda>pol.
     go_bind (sections_from E s (i + 1) rows) (\<lambda>rest.
       Inr (join_lines [us_focused (fe_st E) (name @ (if init then '' (init)'' else '''')), line, pol] # rest)))))"

definition buildBody :: "('i, 'm) form_env \<Rightarrow> 'i set_image \<Rightarrow> string go" where
  "buildBody E s =
     go_bind (sections_from E s 0 (si_rows s)) (\<lambda>ss. Inr (join_with [CHR 0x0A, CHR 0x0A] ss))"

definition si_View :: "('i, 'm) form_env \<Rightarrow> 'i set_image \<Rightarrow> string go" where
  "si_View E s =
     (if \<not> ov_active (si_overlay s) then Inr ''''
      else go_bind (buildBody E s) (\<lambda>b. ViewWithBody E b (si_overlay s)))"

section \<open>The help\<close>

text \<open>
  \<^verbatim>\<open>internal/ui/helpoverlay.go\<close>: the key bindings by their scope, in columns of equal
  height that scroll together, with a search in them.
\<close>

type_synonym hint_group = "string \<times> key_hint list"

record help_overlay =
  ho_groups :: "hint_group list"
  ho_scroll :: int
  ho_active :: bool
  ho_searching :: bool
  ho_query :: string
  ho_width :: int
  ho_height :: int

definition NewHelpOverlay :: "int \<Rightarrow> int \<Rightarrow> help_overlay" where
  "NewHelpOverlay w h = \<lparr> ho_groups = [], ho_scroll = 0, ho_active = False, ho_searching = False, ho_query = '''',
     ho_width = w, ho_height = h \<rparr>"

definition ho_Open :: "hint_group list \<Rightarrow> help_overlay \<Rightarrow> help_overlay" where
  "ho_Open groups h = h\<lparr> ho_groups := groups, ho_scroll := 0, ho_searching := False, ho_query := '''', ho_active := True \<rparr>"

definition ho_SetSize :: "int \<Rightarrow> int \<Rightarrow> help_overlay \<Rightarrow> help_overlay" where
  "ho_SetSize w height h = h\<lparr> ho_width := w, ho_height := height \<rparr>"

definition filteredGroups :: "help_overlay \<Rightarrow> hint_group list" where
  "filteredGroups h =
     (if ho_query h = '''' then ho_groups h
      else filter (\<lambda>g. snd g \<noteq> [])
        (map (\<lambda>(scope, hs). (scope, filter (\<lambda>x. contains (lower (kh_Key x @ '' '' @ kh_Help x)) (lower (ho_query h))) hs))
          (ho_groups h)))"

definition tallest :: "hint_group list \<Rightarrow> int" where
  "tallest gs = foldl (\<lambda>m g. max m (1 + int (length (snd g)))) 0 gs"

definition ho_visibleHeight :: "help_overlay \<Rightarrow> int" where
  "ho_visibleHeight h =
     (let overhead = (if ho_searching h \<or> ho_query h \<noteq> '''' then 11 else 10) in max (ho_height h - overhead) 5)"

definition maxScroll :: "help_overlay \<Rightarrow> int" where
  "maxScroll h = (let m = tallest (filteredGroups h) - ho_visibleHeight h in if m < 0 then 0 else m)"

definition ho_down :: "help_overlay \<Rightarrow> help_overlay" where
  "ho_down h = h\<lparr> ho_scroll := (if ho_scroll h + 1 > maxScroll h then maxScroll h else ho_scroll h + 1) \<rparr>"

definition ho_up :: "help_overlay \<Rightarrow> help_overlay" where
  "ho_up h = (if ho_scroll h > 0 then h\<lparr> ho_scroll := ho_scroll h - 1 \<rparr> else h)"

definition ho_ScrollWheel :: "wheel \<Rightarrow> help_overlay \<Rightarrow> help_overlay" where
  "ho_ScrollWheel btn h = (case btn of MouseWheelUp \<Rightarrow> ho_up h | MouseWheelDown \<Rightarrow> ho_down h | _ \<Rightarrow> h)"

definition ho_backspace :: "help_overlay \<Rightarrow> help_overlay go" where
  "ho_backspace h =
     (let rs = runes (ho_query h)
      in go_bind (if ho_query h = '''' then Inr h
                  else go_bind (go_slice rs 0 (int (length rs) - 1)) (\<lambda>ys.
                         Inr (h\<lparr> ho_query := string_of_runes ys, ho_scroll := 0 \<rparr>))) (\<lambda>h1.
           Inr (if ho_query h1 = '''' then h1\<lparr> ho_searching := False \<rparr> else h1)))"

definition ho_Update :: "('i, 'm) form_env \<Rightarrow> 'm tea_msg \<Rightarrow> help_overlay \<Rightarrow> help_overlay go" where
  "ho_Update E msg h =
     (case msg of
        OtherMsg m \<Rightarrow> Inr h
      | KeyPress km \<Rightarrow> (let k = fe_str E km in
          if ho_searching h
          then if k = ''backspace'' then ho_backspace h
               else Inr (if k = ''esc'' then h\<lparr> ho_query := '''', ho_searching := False, ho_scroll := 0 \<rparr>
                 else if k = ''enter'' then h\<lparr> ho_searching := False \<rparr>
                 else if key_Text km \<noteq> '''' then h\<lparr> ho_query := ho_query h @ key_Text km, ho_scroll := 0 \<rparr>
                 else h)
          else Inr (if k = ''/'' then h\<lparr> ho_searching := True \<rparr>
            else if k \<in> {''esc'', ''?'', ''q''} then h\<lparr> ho_active := False, ho_query := '''', ho_searching := False \<rparr>
            else if k \<in> {''j'', ''down''} then ho_down h
            else if k \<in> {''k'', ''up''} then ho_up h
            else h)))"

text \<open>
  The drawing. Columns are measured in bytes and a key is filled up to its width in runes, as in the code. A column
  is its header and the rows of its hints that are in view, each filled up to the width of the column. A slice and
  a filling can panic.
\<close>

definition space_rune :: string where "space_rune = '' ''"

definition key_width :: "key_hint list \<Rightarrow> int" where
  "key_width hs = foldl (\<lambda>m h. max m (int (length (kh_Key h)))) 0 hs + 2"

definition col_width :: "hint_group \<Rightarrow> int" where
  "col_width g = max (foldl (\<lambda>m h. max m (key_width (snd g) + int (length (kh_Help h)))) 0 (snd g)) (int (length (fst g)))"

text \<open>\<open>fmt.Sprintf("%-*s", kw, key)\<close>, which fills up or leaves the key as it is.\<close>

definition pad_key :: "int \<Rightarrow> string \<Rightarrow> string" where
  "pad_key kw k = k @ replicate (nat (kw - int (length (runes k)))) (CHR '' '')"

definition hint_row :: "('i, 'm) form_env \<Rightarrow> int \<Rightarrow> int \<Rightarrow> key_hint \<Rightarrow> string go" where
  "hint_row E kw cw h =
     (let used = kw + int (length (kh_Help h))
      in go_bind (if used < cw then go_repeat space_rune (cw - used) else Inr '''') (\<lambda>pad.
           Inr (us_focused (fe_st E) (pad_key kw (kh_Key h)) @ us_muted (fe_st E) (kh_Help h) @ pad)))"

definition help_column :: "('i, 'm) form_env \<Rightarrow> int \<Rightarrow> int \<Rightarrow> hint_group \<Rightarrow> string list go" where
  "help_column E scroll visibleH g =
     (let kw = key_width (snd g); cw = col_width g
      in go_bind (go_repeat space_rune (cw - int (length (fst g)))) (\<lambda>fill.
         go_bind (go_each (hint_row E kw cw) (snd g)) (\<lambda>body.
         go_bind (if scroll < int (length body) then go_slice body scroll (int (length body)) else Inr []) (\<lambda>body1.
         go_bind (if int (length body1) > visibleH - 1 then go_slice body1 0 (visibleH - 1) else Inr body1) (\<lambda>body2.
           Inr ((us_scope (fe_st E) (fst g) @ fill) # body2))))))"

text \<open>The columns, each filled up to the number of lines of the longest, and their lines side by side.\<close>

definition fill_column :: "nat \<Rightarrow> hint_group \<times> string list \<Rightarrow> string list go" where
  "fill_column n = (\<lambda>(g, c). go_bind (go_repeat space_rune (col_width g)) (\<lambda>blank.
     Inr (c @ replicate (n - length c) blank)))"

definition help_body :: "('i, 'm) form_env \<Rightarrow> int \<Rightarrow> int \<Rightarrow> hint_group list \<Rightarrow> string list go" where
  "help_body E scroll visibleH gs =
     go_bind (go_each (help_column E scroll visibleH) gs) (\<lambda>cols.
       let maxLines = foldl (\<lambda>m c. max m (length c)) 0 cols
       in go_bind (go_each (fill_column maxLines) (zip gs cols)) (\<lambda>padded.
            go_each (\<lambda>r. go_bind (go_each (\<lambda>c. go_index c (int r)) padded) (\<lambda>parts. Inr (join_with ''  '' parts)))
              [0..<maxLines]))"

definition renderFooter :: "('i, 'm) form_env \<Rightarrow> int \<Rightarrow> help_overlay \<Rightarrow> string" where
  "renderFooter E maxs h =
     us_muted (fe_st E)
       (if ho_searching h then ''enter apply  esc cancel''
        else join_with ''  '' ([''/ search''] @ (if maxs > 0 then [''j/k scroll''] else []) @ [''esc/? close'']))"

definition renderSearchLine :: "('i, 'm) form_env \<Rightarrow> help_overlay \<Rightarrow> string" where
  "renderSearchLine E h =
     (if ho_searching h
      then [CHR 0x0A] @ us_muted (fe_st E) ''/'' @ '' '' @ ho_query h @ string_of_runes [0x2588]
      else if ho_query h \<noteq> '''' then [CHR 0x0A] @ us_muted (fe_st E) ''/'' @ '' '' @ ho_query h
      else '''')"

text \<open>\<open>box\<close> is \<open>OverlayStyle.Render\<close>, without a width.\<close>

definition ho_View :: "('i, 'm) form_env \<Rightarrow> style \<Rightarrow> help_overlay \<Rightarrow> string go" where
  "ho_View E box h =
     (if \<not> ho_active h then Inr ''''
      else let gs = filteredGroups h;
               head = us_title (fe_st E) ''Keybindings'' @ renderSearchLine E h @ [CHR 0x0A, CHR 0x0A];
               foot = (\<lambda>m. [CHR 0x0A, CHR 0x0A] @ renderFooter E m h)
           in if gs = [] then Inr (box (head @ us_muted (fe_st E) ''No matching keybindings'' @ foot 0))
              else let visibleH = ho_visibleHeight h; maxs = max (tallest gs - visibleH) 0;
                       scroll = (if ho_scroll h > maxs then maxs else ho_scroll h)
                   in go_bind (help_body E scroll visibleH gs) (\<lambda>rows. Inr (box (head @ join_lines rows @ foot maxs))))"

section \<open>The forms of the application\<close>

text \<open>
  The fields of the application in \<^verbatim>\<open>internal/app/app.go\<close> that hold its forms, with the
  one that is shown, and what the application does with them: it opens them, gives them the keys and
  the wheel while they are shown, resizes them, and hands them the lists that were fetched.
\<close>

record ('i, 'm) forms =
  f_shown :: overlay
  f_width :: int
  f_resource :: "('i, plugin_entry, 'm) picker"
  f_ns :: "('i, string, 'm) picker"
  f_context :: "('i, string, 'm) picker"
  f_container :: "('i, string, 'm) picker"
  f_timeRange :: "('i, timePreset, 'm) picker"
  f_search :: "'i search_field"
  f_help :: help_overlay
  f_portForward :: "'i pf_overlay"
  f_setImage :: "'i set_image"
  f_rollback :: "'i rollback_overlay"
  f_chart :: "'i chart_input"
  f_scale :: "'i scale_overlay"
  f_confirm :: "'i confirm_dialog"

text \<open>The confirmation is the empty one until it is first made; it is shown only then.\<close>

definition NewForms :: "('i, 'm) form_env \<Rightarrow> ('i, 'm) forms" where
  "NewForms E =
     \<lparr> f_shown = OverlayNone, f_width = 0, f_resource = NewPicker E resource_picker 40 20, f_ns = NewPicker E ns_picker 40 20,
       f_context = NewPicker E context_picker 40 20, f_container = NewPicker E container_picker 40 20,
       f_timeRange = NewPicker E time_range_picker 40 20, f_search = NewSearchBar E 80, f_help = NewHelpOverlay 80 24,
       f_portForward = NewPortForwardOverlay E 40 20, f_setImage = NewSetImageOverlay E 40 20,
       f_rollback = NewHelmRollbackOverlay E 40 20, f_chart = NewChartInput E 40 20, f_scale = NewScaleOverlay E 40 20,
       f_confirm = NewConfirmDialog E '''' 0 \<rparr>"

text \<open>The new form is put back; when it is no longer active, no form is shown.\<close>

definition put_form :: "('s \<Rightarrow> bool) \<Rightarrow> ('s \<Rightarrow> ('i, 'm) forms \<Rightarrow> ('i, 'm) forms) \<Rightarrow> ('i, 'm) forms \<Rightarrow>
    ('s \<times> 'm form_cmd) go \<Rightarrow> (('i, 'm) forms \<times> 'm form_cmd) go" where
  "put_form active upd f res =
     go_bind res (\<lambda>(x, cmd). Inr (if active x then upd x f else (upd x f)\<lparr> f_shown := OverlayNone \<rparr>, cmd))"

definition forms_key :: "('i, 'm) form_env \<Rightarrow> key \<Rightarrow> ('i, 'm) forms \<Rightarrow> (('i, 'm) forms \<times> 'm form_cmd) go" where
  "forms_key E k f =
     (let msg = KeyPress k in
      if fe_str E k = ''ctrl+w'' then Inr (f\<lparr> f_shown := OverlayNone \<rparr>, [])
      else case f_shown f of
        OverlayNone \<Rightarrow> Inr (f, [])
      | OverlayHelp \<Rightarrow> put_form ho_active (\<lambda>x. f_help_update (\<lambda>_. x)) f (silent (ho_Update E msg (f_help f)))
      | OverlaySearchBar \<Rightarrow> put_form sr_active (\<lambda>x. f_search_update (\<lambda>_. x)) f (Inr (sr_Update E msg (f_search f)))
      | OverlayPortForward \<Rightarrow>
          put_form (ov_active \<circ> po_overlay) (\<lambda>x. f_portForward_update (\<lambda>_. x)) f (po_Update E msg (f_portForward f))
      | OverlaySetImage \<Rightarrow>
          put_form (ov_active \<circ> si_overlay) (\<lambda>x. f_setImage_update (\<lambda>_. x)) f (si_Update E msg (f_setImage f))
      | OverlayHelmRollback \<Rightarrow>
          put_form (ov_active \<circ> hr_overlay) (\<lambda>x. f_rollback_update (\<lambda>_. x)) f (Inr (hr_Update msg (f_rollback f)))
      | OverlayChartInput \<Rightarrow>
          put_form (ov_active \<circ> ci_overlay) (\<lambda>x. f_chart_update (\<lambda>_. x)) f (ci_Update E msg (f_chart f))
      | OverlayResourcePicker \<Rightarrow> put_form pk_Active (\<lambda>x. f_resource_update (\<lambda>_. x)) f (pk_Update E msg (f_resource f))
      | OverlayNsPicker \<Rightarrow> put_form pk_Active (\<lambda>x. f_ns_update (\<lambda>_. x)) f (pk_Update E msg (f_ns f))
      | OverlayContextPicker \<Rightarrow> put_form pk_Active (\<lambda>x. f_context_update (\<lambda>_. x)) f (context_Update E msg (f_context f))
      | OverlayConfirm \<Rightarrow>
          put_form (ov_active \<circ> cd_overlay) (\<lambda>x. f_confirm_update (\<lambda>_. x)) f (Inr (cd_Update E msg (f_confirm f)))
      | OverlayContainerPicker \<Rightarrow> put_form pk_Active (\<lambda>x. f_container_update (\<lambda>_. x)) f (pk_Update E msg (f_container f))
      | OverlayTimeRange \<Rightarrow> put_form pk_Active (\<lambda>x. f_timeRange_update (\<lambda>_. x)) f (pk_Update E msg (f_timeRange f))
      | OverlayScale \<Rightarrow> put_form (ov_active \<circ> so_overlay) (\<lambda>x. f_scale_update (\<lambda>_. x)) f (so_Update E msg (f_scale f)))"

definition forms_wheel :: "wheel \<Rightarrow> ('i, 'm) forms \<Rightarrow> ('i, 'm) forms" where
  "forms_wheel b f =
     (case f_shown f of
        OverlayResourcePicker \<Rightarrow> f_resource_update (pk_ScrollWheel b) f
      | OverlayNsPicker \<Rightarrow> f_ns_update (pk_ScrollWheel b) f
      | OverlayContextPicker \<Rightarrow> f_context_update (pk_ScrollWheel b) f
      | OverlayContainerPicker \<Rightarrow> f_container_update (pk_ScrollWheel b) f
      | OverlayTimeRange \<Rightarrow> f_timeRange_update (pk_ScrollWheel b) f
      | OverlayHelp \<Rightarrow> f_help_update (ho_ScrollWheel b) f
      | _ \<Rightarrow> f)"

definition forms_resize :: "('i, 'm) form_env \<Rightarrow> int \<Rightarrow> int \<Rightarrow> ('i, 'm) forms \<Rightarrow> ('i, 'm) forms" where
  "forms_resize E w0 h0 f =
     (let w = min (w0 - 10) 80; h = min (h0 - 6) 30
      in f\<lparr> f_width := w0, f_resource := pk_SetSize E w h (f_resource f), f_search := sr_SetWidth E w0 (f_search f),
            f_ns := pk_SetSize E w h (f_ns f), f_context := pk_SetSize E w h (f_context f),
            f_portForward := (f_portForward f)\<lparr> po_overlay := ov_SetSize E w h (po_overlay (f_portForward f)) \<rparr>,
            f_setImage := (f_setImage f)\<lparr> si_overlay := ov_SetSize E w h (si_overlay (f_setImage f)) \<rparr>,
            f_rollback := (f_rollback f)\<lparr> hr_overlay := ov_SetSize E w h (hr_overlay (f_rollback f)) \<rparr>,
            f_chart := (f_chart f)\<lparr> ci_overlay := ov_SetSize E w h (ci_overlay (f_chart f)) \<rparr>,
            f_container := pk_SetSize E w h (f_container f), f_timeRange := pk_SetSize E w h (f_timeRange f),
            f_scale := (f_scale f)\<lparr> so_overlay := ov_SetSize E w h (so_overlay (f_scale f)) \<rparr>,
            f_help := ho_SetSize w0 h0 (f_help f),
            f_confirm := (if f_shown f = OverlayConfirm then cd_SetWidth E w0 (f_confirm f) else f_confirm f) \<rparr>)"

text \<open>The events, with what the application computes for the form that it opens.\<close>

datatype (plugins only: code) form_event =
    KeyEvent key | WheelEvent wheel | SizeEvent int int
  | OpenResources | OpenNamespaces | OpenContexts "string list" "string \<Rightarrow> int" string
  | OpenContainers "string list" | OpenTimeRange | OpenSearch search_mode | OpenHelp "hint_group list"
  | OpenPortForward string string "port_item list" | OpenSetImage string string gvr string "image_change list"
  | OpenScale string string gvr int | OpenChart string string string | OpenRollback string string | OpenConfirm string
  | PluginsEvent "plugin_entry list" | NamespacesEvent "string list" | HistoryEvent string string "string + helm_revision list"

text \<open>
  \<^verbatim>\<open>OpenContexts\<close> has the names, the number of panes by context and the focused context,
  \<^verbatim>\<open>HistoryEvent\<close> the release and the namespace that were asked for and the answer.
\<close>

definition forms_open :: "('i, 'm) form_env \<Rightarrow> form_event \<Rightarrow> ('i, 'm) forms \<Rightarrow> ('i, 'm) forms go" where
  "forms_open E ev f =
     (case ev of
        OpenResources \<Rightarrow> Inr (f\<lparr> f_shown := OverlayResourcePicker, f_resource := pk_Open E (f_resource f) \<rparr>)
      | OpenNamespaces \<Rightarrow> Inr (f\<lparr> f_shown := OverlayNsPicker, f_ns := pk_Open E (f_ns f) \<rparr>)
      | OpenContexts names counts focused \<Rightarrow> Inr (f\<lparr> f_shown := OverlayContextPicker,
          f_context := pk_Open E (SetAnnotations E counts focused (pk_SetItems E names (f_context f))) \<rparr>)
      | OpenContainers names \<Rightarrow> Inr (f\<lparr> f_shown := OverlayContainerPicker,
          f_container := pk_Open E (pk_SetItems E names (f_container f)) \<rparr>)
      | OpenTimeRange \<Rightarrow> Inr (f\<lparr> f_shown := OverlayTimeRange, f_timeRange := OpenPresets E (f_timeRange f) \<rparr>)
      | OpenSearch mode \<Rightarrow> Inr (f\<lparr> f_shown := OverlaySearchBar, f_search := sr_Open E mode (f_search f) \<rparr>)
      | OpenHelp gs \<Rightarrow> Inr (f\<lparr> f_shown := OverlayHelp, f_help := ho_Open gs (f_help f) \<rparr>)
      | OpenPortForward pod ns ports \<Rightarrow> go_bind (po_Open E pod ns ports (f_portForward f))
          (\<lambda>x. Inr (f\<lparr> f_shown := OverlayPortForward, f_portForward := x \<rparr>))
      | OpenSetImage name ns g plugin cs \<Rightarrow> go_bind (si_Open E name ns g plugin cs (f_setImage f))
          (\<lambda>x. Inr (f\<lparr> f_shown := OverlaySetImage, f_setImage := x \<rparr>))
      | OpenScale name ns g n \<Rightarrow> Inr (f\<lparr> f_shown := OverlayScale, f_scale := so_Open E name ns g n (f_scale f) \<rparr>)
      | OpenChart rel ns chart \<Rightarrow> Inr (f\<lparr> f_shown := OverlayChartInput, f_chart := ci_Open E rel ns chart (f_chart f) \<rparr>)
      | OpenRollback rel ns \<Rightarrow> Inr (f\<lparr> f_shown := OverlayHelmRollback, f_rollback := OpenLoading E rel ns (f_rollback f) \<rparr>)
      | OpenConfirm msg \<Rightarrow> Inr (f\<lparr> f_shown := OverlayConfirm, f_confirm := NewConfirmDialog E msg (f_width f) \<rparr>)
      | _ \<Rightarrow> Inr f)"

definition forms_data :: "('i, 'm) form_env \<Rightarrow> form_event \<Rightarrow> ('i, 'm) forms \<Rightarrow> ('i, 'm) forms" where
  "forms_data E ev f =
     (case ev of
        PluginsEvent es \<Rightarrow> f\<lparr> f_resource := pk_SetItems E es (f_resource f) \<rparr>
      | NamespacesEvent nss \<Rightarrow> if f_shown f = OverlayNsPicker then f\<lparr> f_ns := SetNamespaces E nss (f_ns f) \<rparr> else f
      | HistoryEvent rel ns res \<Rightarrow>
          if f_shown f \<noteq> OverlayHelmRollback then f
          else (case res of
              Inl e \<Rightarrow> f\<lparr> f_rollback := hr_SetError (''helm history: '' @ e) (f_rollback f) \<rparr>
            | Inr entries \<Rightarrow> f\<lparr> f_rollback := SetRevisions entries (f_rollback f) \<rparr>)
      | _ \<Rightarrow> f)"

definition forms_step :: "('i, 'm) form_env \<Rightarrow> form_event \<Rightarrow> ('i, 'm) forms \<Rightarrow> (('i, 'm) forms \<times> 'm form_cmd) go" where
  "forms_step E ev f =
     (case ev of
        KeyEvent k \<Rightarrow> forms_key E k f
      | WheelEvent b \<Rightarrow> Inr (forms_wheel b f, [])
      | SizeEvent w h \<Rightarrow> Inr (forms_resize E w h f, [])
      | _ \<Rightarrow> go_bind (forms_open E ev (forms_data E ev f)) (\<lambda>f1. Inr (f1, [])))"

text \<open>\<open>currentOverlayView\<close>; the search bar is drawn in the title of its pane.\<close>

definition forms_view :: "('i, 'm) form_env \<Rightarrow> style \<Rightarrow> ('i, 'm) forms \<Rightarrow> string go" where
  "forms_view E box f =
     (case f_shown f of
        OverlayResourcePicker \<Rightarrow> pk_View E (f_resource f)
      | OverlayNsPicker \<Rightarrow> pk_View E (f_ns f)
      | OverlayContextPicker \<Rightarrow> pk_View E (f_context f)
      | OverlayPortForward \<Rightarrow> ov_View E (po_overlay (f_portForward f))
      | OverlaySetImage \<Rightarrow> si_View E (f_setImage f)
      | OverlayHelmRollback \<Rightarrow> ov_View E (hr_overlay (f_rollback f))
      | OverlayChartInput \<Rightarrow> ov_View E (ci_overlay (f_chart f))
      | OverlayConfirm \<Rightarrow> ov_View E (cd_overlay (f_confirm f))
      | OverlayHelp \<Rightarrow> ho_View E box (f_help f)
      | OverlayContainerPicker \<Rightarrow> pk_View E (f_container f)
      | OverlayTimeRange \<Rightarrow> pk_View E (f_timeRange f)
      | OverlayScale \<Rightarrow> ov_View E (so_overlay (f_scale f))
      | OverlaySearchBar \<Rightarrow> Inr ''''
      | OverlayNone \<Rightarrow> Inr '''')"

end
