(* ===== verification/Form_Props.thy ===== *)
theory Form_Props
  imports Forms
begin

text \<open>
  What holds of the forms: the panel keeps its cursor on an entry, in view; no sequence of keys, sizes
  and lists makes a form panic, as long as a text field keeps its cursor inside its text; what a form asks for
  is what it shows. The contract of a form is after the progress and preservation of a type system: the locale
  \<open>kept_form\<close> has the preservation, \<open>safe_form\<close> adds the progress.
\<close>

section \<open>The panel\<close>

definition panel_ok :: "'i overlay_panel \<Rightarrow> bool" where
  "panel_ok p \<longleftrightarrow> 0 \<le> ov_offset p \<and> ov_offset p \<le> ov_cursor p \<and>
     (if ov_items p = [] then ov_cursor p = 0 else ov_cursor p < int (length (ov_items p)))"

definition cursor_in_view :: "'i overlay_panel \<Rightarrow> bool" where
  "cursor_in_view p \<longleftrightarrow> ov_offset p \<le> ov_cursor p \<and> ov_cursor p < ov_offset p + effectiveMaxVisible p"

lemma max_visible_pos: "0 < effectiveMaxVisible p"
  by (simp add: effectiveMaxVisible_def less_max_iff_disj)

lemma effectiveMaxVisible_update [simp]:
  "effectiveMaxVisible (p\<lparr> ov_cursor := c \<rparr>) = effectiveMaxVisible p"
  "effectiveMaxVisible (p\<lparr> ov_offset := c \<rparr>) = effectiveMaxVisible p"
  "effectiveMaxVisible (p\<lparr> ov_items := xs \<rparr>) = effectiveMaxVisible p"
  "effectiveMaxVisible (p\<lparr> ov_itemsSet := b \<rparr>) = effectiveMaxVisible p"
  "effectiveMaxVisible (p\<lparr> ov_inputs := is \<rparr>) = effectiveMaxVisible p"
  "effectiveMaxVisible (p\<lparr> ov_focusIdx := j \<rparr>) = effectiveMaxVisible p"
  "effectiveMaxVisible (p\<lparr> ov_footer := s \<rparr>) = effectiveMaxVisible p"
  "effectiveMaxVisible (p\<lparr> ov_active := b \<rparr>) = effectiveMaxVisible p"
  by (simp_all add: effectiveMaxVisible_def)

lemma clampCursor_ok:
  assumes "0 \<le> ov_offset p"
  shows "panel_ok (clampCursor p) \<and> cursor_in_view (clampCursor p)"
  using assms max_visible_pos [of p] by (auto simp: clampCursor_def panel_ok_def cursor_in_view_def Let_def)

lemma clampCursor_frame [simp]:
  "ov_items (clampCursor p) = ov_items p" "ov_inputs (clampCursor p) = ov_inputs p"
  "ov_active (clampCursor p) = ov_active p" "ov_focusIdx (clampCursor p) = ov_focusIdx p"
  "ov_maxVisible (clampCursor p) = ov_maxVisible p" "ov_height (clampCursor p) = ov_height p"
  "ov_itemsSet (clampCursor p) = ov_itemsSet p"
  by (simp_all add: clampCursor_def Let_def)

lemma SetItems_ok: "panel_ok (ov_SetItems xs p)" "cursor_in_view (ov_SetItems xs p)"
  using clampCursor_ok [of "p\<lparr> ov_items := xs, ov_itemsSet := True, ov_cursor := 0, ov_offset := 0 \<rparr>"]
  by (simp_all add: ov_SetItems_def)

lemma SetItems_frame [simp]:
  "ov_items (ov_SetItems xs p) = xs" "ov_inputs (ov_SetItems xs p) = ov_inputs p"
  "ov_active (ov_SetItems xs p) = ov_active p" "ov_focusIdx (ov_SetItems xs p) = ov_focusIdx p"
  "ov_maxVisible (ov_SetItems xs p) = ov_maxVisible p" "ov_cursor (ov_SetItems xs p) = 0"
  by (simp_all add: ov_SetItems_def) (simp add: clampCursor_def Let_def)

lemma ListKeys_cases:
  "fst (HandleListKeys km p) = p \<or> (\<exists>c. fst (HandleListKeys km p) = clampCursor (p\<lparr> ov_cursor := c \<rparr>))"
  by (auto simp: HandleListKeys_def split: key_code.split)

lemma ListKeys_frame [simp]:
  "ov_items (fst (HandleListKeys km p)) = ov_items p" "ov_inputs (fst (HandleListKeys km p)) = ov_inputs p"
  "ov_active (fst (HandleListKeys km p)) = ov_active p" "ov_focusIdx (fst (HandleListKeys km p)) = ov_focusIdx p"
  "ov_maxVisible (fst (HandleListKeys km p)) = ov_maxVisible p"
  using ListKeys_cases [of km p] by auto

lemma ListKeys_ok:
  assumes "panel_ok p"
  shows "panel_ok (fst (HandleListKeys km p))"
    and "cursor_in_view p \<Longrightarrow> cursor_in_view (fst (HandleListKeys km p))"
proof -
  have "0 \<le> ov_offset (p\<lparr> ov_cursor := c \<rparr>)" for c using assms by (simp add: panel_ok_def)
  then show "panel_ok (fst (HandleListKeys km p))" "cursor_in_view p \<Longrightarrow> cursor_in_view (fst (HandleListKeys km p))"
    using ListKeys_cases [of km p] assms clampCursor_ok by metis+
qed

text \<open>What does not touch the list.\<close>

definition same_list :: "'i overlay_panel \<Rightarrow> 'i overlay_panel \<Rightarrow> bool" where
  "same_list p q \<longleftrightarrow> ov_items q = ov_items p \<and> ov_cursor q = ov_cursor p \<and> ov_offset q = ov_offset p \<and>
     ov_active q = ov_active p \<and> length (ov_inputs q) = length (ov_inputs p) \<and> ov_maxVisible q = ov_maxVisible p \<and>
     ov_itemsSet q = ov_itemsSet p"

named_theorems same_lists

lemma same_list_ok: "same_list p q \<Longrightarrow> panel_ok q = panel_ok p"
  by (simp add: same_list_def panel_ok_def)

lemma same_list_inputs: "same_list p q \<Longrightarrow> length (ov_inputs q) = length (ov_inputs p)"
  by (simp add: same_list_def)

lemma same_list_simps [same_lists]:
  "same_list p (syncInputWidths E w p)" "same_list p (ov_SetSize E w h p)" "same_list p (FocusInput E i p)"
  "same_list p (blurAll E p)" "same_list p (FocusList E p)"
  "same_list p (p\<lparr> ov_footer := s \<rparr>)" "same_list p p"
  by (simp_all add: same_list_def syncInputWidths_def ov_SetSize_def FocusInput_def blurAll_def FocusList_def
      Let_def)

lemma set_input_ok:
  "0 \<le> i \<Longrightarrow> i < int (length (ov_inputs p)) \<Longrightarrow> \<exists>q. set_input E i v p = Inr q \<and> same_list p q \<and> ov_focusIdx q = ov_focusIdx p"
  by (simp add: set_input_def go_index_def same_list_def)

lemma InputValue_ok: "0 \<le> i \<Longrightarrow> i < int (length (ov_inputs p)) \<Longrightarrow> \<exists>v. InputValue E i p = Inr v"
  by (simp add: InputValue_def go_index_def)

lemma list_rows_ok: "panel_ok p \<Longrightarrow> \<exists>rs. list_rows E p = Inr rs"
  by (simp add: list_rows_def panel_ok_def Let_def)

lemma title_ok: "\<exists>s. injectCenteredBorderTitle E drawn title = Inr s"
proof -
  have "0 \<le> go_quot a 2 \<and> go_quot a 2 \<le> a" if "0 < a" for a using that by (simp add: go_quot_def)
  then show ?thesis by (auto simp: injectCenteredBorderTitle_def Let_def go_repeat_ok)
qed

lemma box_ok: "\<exists>s. finishBox E c w p = Inr s"
  by (simp add: finishBox_def title_ok Let_def)

lemma View_ok: "panel_ok p \<Longrightarrow> \<exists>s. ov_View E p = Inr s"
  using list_rows_ok [of p E] box_ok by (fastforce simp: ov_View_def composeLines_def list_lines_def Let_def)

section \<open>Typing\<close>

lemma UpdateInputs_same: "UpdateInputs E msg p = Inr (q, cmd) \<Longrightarrow> same_list p q"
  by (auto simp: UpdateInputs_def same_list_def Let_def split: if_splits)

text \<open>A cursor inside the text is all that the cuts of the word keys need.\<close>

lemma word_key_ok:
  assumes "ti_ok (fe_ti E)"
  shows "\<exists>r. handleWordKey E km i = Inr r"
proof -
  have "ti_Position (fe_ti E) i \<le> length (runes (ti_Value (fe_ti E) i))" using assms by (simp add: ti_ok_def)
  moreover from this have "prevWordBoundary (fe_uni E) (runes (ti_Value (fe_ti E) i)) (ti_Position (fe_ti E) i)
      \<le> length (runes (ti_Value (fe_ti E) i))"
    using prev_boundary_le order_trans by blast
  ultimately show ?thesis by (simp add: handleWordKey_def go_slice_def Let_def)
qed

lemma UpdateInputs_ok:
  assumes "ti_ok (fe_ti E)"
  obtains q cmd where "UpdateInputs E msg p = Inr (q, cmd)" "same_list p q"
proof -
  have "\<exists>r. update_input E msg i = Inr r" for i
    using word_key_ok [OF assms] by (cases msg) (fastforce simp: update_input_def)+
  then have "\<exists>r. UpdateInputs E msg p = Inr r"
    by (fastforce simp: UpdateInputs_def Let_def split: prod.split)
  then show ?thesis using that UpdateInputs_same by fastforce
qed

section \<open>The contract of a form\<close>

text \<open>
  A step from a good state gives a good state, never a panic; so does every run of steps. What the
  events are is left open.
\<close>

primrec run_steps :: "('e \<Rightarrow> 's \<Rightarrow> ('s \<times> 'o list) go) \<Rightarrow> 'e list \<Rightarrow> 's \<Rightarrow> ('s \<times> 'o list) go" where
  "run_steps step [] s = Inr (s, [])"
| "run_steps step (e # es) s =
     go_bind (step e s) (\<lambda>(s1, c1). go_bind (run_steps step es s1) (\<lambda>(s2, c2). Inr (s2, c1 @ c2)))"

locale kept_form =
  fixes step :: "'e \<Rightarrow> 's \<Rightarrow> ('s \<times> 'o list) go" and good :: "'s \<Rightarrow> bool" and sends :: "'o \<Rightarrow> bool"
  assumes preservation: "good s \<Longrightarrow> step e s = Inr (s1, c) \<Longrightarrow> good s1 \<and> list_all sends c"
begin

lemma run_kept:
  assumes "good s" and "run_steps step es s = Inr (s1, c)"
  shows "good s1 \<and> list_all sends c"
  using assms
proof (induction es arbitrary: s c)
  case (Cons e es)
  then obtain s0 c0 c2 where s: "step e s = Inr (s0, c0)" "run_steps step es s0 = Inr (s1, c2)" "c = c0 @ c2" by auto
  show ?case using preservation [OF Cons.prems(1) s(1)] Cons.IH [OF _ s(2)] s(3) by simp
qed simp

end

locale safe_form = kept_form +
  assumes progress: "good s \<Longrightarrow> \<exists>s1 c. step e s = Inr (s1, c)"
begin

lemma run_safe:
  assumes "good s"
  shows "\<exists>s1 c. run_steps step es s = Inr (s1, c) \<and> good s1 \<and> list_all sends c"
  using assms
proof (induction es arbitrary: s)
  case (Cons e es)
  obtain s1 c1 where s: "step e s = Inr (s1, c1)" using progress [OF Cons.prems] by blast
  then have g: "good s1" "list_all sends c1" using preservation [OF Cons.prems s] by simp_all
  then show ?case using Cons.IH [OF g(1)] s by auto
qed simp

end

lemma safe_formI:
  assumes "\<And>e s. good s \<Longrightarrow> \<exists>s1 c. step e s = Inr (s1, c) \<and> good s1 \<and> list_all sends c"
  shows "safe_form step good sends"
proof
  show "good s1 \<and> list_all sends c" if "good s" "step e s = Inr (s1, c)" for s e s1 c
    using assms [OF that(1), of e] that(2) by auto
  show "\<exists>s1 c. step e s = Inr (s1, c)" if "good s" for s e using assms [OF that] by blast
qed

section \<open>Pickers\<close>

definition picker_ok :: "('i, 'e, 'm) picker \<Rightarrow> bool" where
  "picker_ok k \<longleftrightarrow> panel_ok (pk_overlay k) \<and>
     ov_items (pk_overlay k) = map (pc_Display (pk_cfg k)) (pk_filtered k)"

lemma applyFilter_ok [simp]: "picker_ok (pk_applyFilter E k)"
  by (simp add: picker_ok_def pk_applyFilter_def Let_def SetItems_ok)

lemma applyFilter_frame [simp]:
  "pk_cfg (pk_applyFilter E k) = pk_cfg k" "pk_all (pk_applyFilter E k) = pk_all k"
  "ov_active (pk_overlay (pk_applyFilter E k)) = ov_active (pk_overlay k)"
  "ov_maxVisible (pk_overlay (pk_applyFilter E k)) = ov_maxVisible (pk_overlay k)"
  "cursor_in_view (pk_overlay (pk_applyFilter E k))"
  by (simp_all add: pk_applyFilter_def Let_def SetItems_ok)

lemma picker_frame:
  "same_list (pk_overlay k) p \<Longrightarrow> picker_ok (k\<lparr> pk_overlay := p \<rparr>) = picker_ok k"
  by (simp add: picker_ok_def same_list_ok) (simp add: same_list_def)

lemma configure_frame [simp]:
  "ov_items (configure cfg p) = ov_items p" "ov_cursor (configure cfg p) = ov_cursor p"
  "ov_offset (configure cfg p) = ov_offset p" "ov_inputs (configure cfg p) = ov_inputs p"
  "ov_active (configure cfg p) = ov_active p"
  by (simp_all add: configure_def Let_def)

lemma NewPicker_ok: "picker_ok (NewPicker E cfg w h)"
  by (simp add: NewPicker_def picker_ok_def panel_ok_def ov_SetSize_def syncInputWidths_def NewOverlay_def Let_def)

lemma Open_ok [simp]: "picker_ok (pk_Open E k)" "pk_cfg (pk_Open E k) = pk_cfg k"
  by (simp_all add: pk_Open_def Let_def)

lemma pk_SetItems_ok [simp]: "picker_ok (pk_SetItems E xs k)" "pk_cfg (pk_SetItems E xs k) = pk_cfg k"
  by (simp_all add: pk_SetItems_def)

lemma pk_SetSize_ok [simp]: "picker_ok (pk_SetSize E w h k) = picker_ok k" "pk_cfg (pk_SetSize E w h k) = pk_cfg k"
  by (simp_all add: pk_SetSize_def picker_frame same_lists)

lemma picker_move:
  assumes "picker_ok k"
  shows "picker_ok (k\<lparr> pk_overlay := fst (HandleListKeys km (pk_overlay k)) \<rparr>)"
  using assms by (simp add: picker_ok_def ListKeys_ok(1))

lemma ScrollWheel_ok [simp]: "picker_ok k \<Longrightarrow> picker_ok (pk_ScrollWheel b k)" "pk_cfg (pk_ScrollWheel b k) = pk_cfg k"
  by (simp_all add: pk_ScrollWheel_def picker_move split: wheel.split)

lemma Close_ok [simp]: "picker_ok (pk_Close k) = picker_ok k" "pk_cfg (pk_Close k) = pk_cfg k"
  by (simp_all add: pk_Close_def picker_ok_def panel_ok_def)

text \<open>The cursor is on an entry as long as there is one.\<close>

lemma picker_cursor: "picker_ok k \<Longrightarrow> pk_filtered k \<noteq> [] \<Longrightarrow> 0 \<le> pk_Cursor k \<and> pk_Cursor k < int (length (pk_filtered k))"
  by (auto simp: picker_ok_def panel_ok_def pk_Cursor_def)

lemma pk_Update_progress:
  assumes "ti_ok (fe_ti E)" and "picker_ok k" and "pc_OnSelect (pk_cfg k) \<noteq> None \<or> (\<forall>km. msg = KeyPress km \<longrightarrow> key_Code km \<noteq> KeyEnter)"
  shows "\<exists>k1 c. pk_Update E msg k = Inr (k1, c) \<and> picker_ok k1 \<and> pk_cfg k1 = pk_cfg k"
proof (cases msg)
  case (KeyPress km)
  show ?thesis
  proof (cases "key_Code km = KeyEnter \<and> pk_filtered k \<noteq> []")
    case True
    then obtain f where "pc_OnSelect (pk_cfg k) = Some f" using assms KeyPress by auto
    then show ?thesis
      using True KeyPress assms(2) picker_cursor [OF assms(2)]
      by (simp add: pk_Update_def go_index_def)
  next
    case False
    obtain p cmd where "UpdateInputs E msg (pk_overlay k) = Inr (p, cmd)" by (rule UpdateInputs_ok [OF assms(1)])
    then show ?thesis
      using False KeyPress assms(2) picker_move [OF assms(2), of km] by (auto simp: pk_Update_def)
  qed
qed (use assms(2) in \<open>simp add: pk_Update_def\<close>)

lemma context_progress:
  assumes "ti_ok (fe_ti E)" and "picker_ok k"
  shows "\<exists>k1 c. context_Update E msg k = Inr (k1, c) \<and> picker_ok k1 \<and> pk_cfg k1 = pk_cfg k"
proof (cases msg)
  case (KeyPress km)
  then show ?thesis
    using assms pk_Update_progress [OF assms, of msg] by (simp add: context_Update_def)
next
  case (OtherMsg m)
  then show ?thesis using assms by (simp add: context_Update_def pk_Update_def)
qed

lemma picker_view: "picker_ok k \<Longrightarrow> \<exists>s. pk_View E k = Inr s"
  by (simp add: pk_View_def picker_ok_def View_ok)

section \<open>The number of replicas\<close>

definition so_ok :: "'i scale_overlay \<Rightarrow> bool" where
  "so_ok s \<longleftrightarrow> ov_inputs (so_overlay s) \<noteq> [] \<and> panel_ok (so_overlay s)"

lemma so_ok_same: "same_list (so_overlay s) p \<Longrightarrow> so_ok (s\<lparr> so_overlay := p \<rparr>) = so_ok s"
  using same_list_ok [of "so_overlay s" p] same_list_inputs [of "so_overlay s" p] by (auto simp: so_ok_def)

lemma so_ok_frame [simp]:
  "so_ok (so_Close s) = so_ok s" "so_ok (so_updateFooter E s) = so_ok s"
  "so_ok (s\<lparr> so_inputFocused := b \<rparr>) = so_ok s" "so_ok (s\<lparr> so_focusedButton := i \<rparr>) = so_ok s"
  by (simp_all add: so_ok_def so_Close_def so_updateFooter_def panel_ok_def)

text \<open>What the form was opened for.\<close>

definition so_for :: "'i scale_overlay \<Rightarrow> string \<times> string \<times> gvr \<times> int" where
  "so_for s = (so_resourceName s, so_namespace s, so_gvr s, so_currentReplicas s)"

lemma so_for_frame [simp]:
  "so_for (so_Close s) = so_for s" "so_for (so_updateFooter E s) = so_for s"
  "so_for (s\<lparr> so_inputFocused := b \<rparr>) = so_for s" "so_for (s\<lparr> so_focusedButton := i \<rparr>) = so_for s"
  "so_for (s\<lparr> so_overlay := p \<rparr>) = so_for s"
  by (simp_all add: so_for_def so_Close_def so_updateFooter_def)

definition so_sends :: "string \<times> string \<times> gvr \<times> int \<Rightarrow> 'm form_msg \<Rightarrow> bool" where
  "so_sends = (\<lambda>(name, ns, g, current) msg. case msg of
     LibMsg m \<Rightarrow> True
   | AppMsg m \<Rightarrow> (\<exists>n. m = ScaleRequestedMsg g name ns n \<and> 0 \<le> n \<and> n \<le> MaxInt32 \<and> n \<noteq> current))"

lemma so_sends_lib [simp]: "list_all (so_sends w) (lib_cmd c)"
  by (simp add: lib_cmd_def so_sends_def split: option.split prod.split)

lemma so_submit_ok:
  assumes "so_ok s"
  shows "\<exists>s1 c. so_handleSubmit E s = Inr (s1, c) \<and> so_ok s1 \<and> so_for s1 = so_for s \<and> list_all (so_sends (so_for s)) c"
proof -
  obtain v where "InputValue E 0 (so_overlay s) = Inr v"
    using InputValue_ok [of 0 "so_overlay s" E] assms by (auto simp: so_ok_def)
  then show ?thesis
    using assms by (auto simp: so_handleSubmit_def so_sends_def so_for_def so_Close_def so_ok_def panel_ok_def split: option.split)
qed

lemma adjust_ok:
  assumes "so_ok s"
  shows "\<exists>s1. adjustReplicas E d s = Inr s1 \<and> so_ok s1 \<and> so_for s1 = so_for s"
proof -
  have i: "0 < int (length (ov_inputs (so_overlay s)))" using assms by (simp add: so_ok_def)
  obtain v where "InputValue E 0 (so_overlay s) = Inr v" using InputValue_ok [OF order_refl i] by blast
  moreover have "\<exists>q. set_input E 0 w (so_overlay s) = Inr q \<and> same_list (so_overlay s) q" for w
    using set_input_ok [OF order_refl i, of E w] by blast
  then obtain q where "set_input E 0 w (so_overlay s) = Inr (q w)" "same_list (so_overlay s) (q w)" for w by metis
  ultimately show ?thesis
    using assms by (auto simp: adjustReplicas_def so_ok_same Let_def split: option.split)
qed

lemma so_type_ok:
  assumes "ti_ok (fe_ti E)" and "so_ok s"
  shows "\<exists>s1 c. so_type E km s = Inr (s1, c) \<and> so_ok s1 \<and> so_for s1 = so_for s \<and> list_all (so_sends w) c"
proof -
  obtain p cmd where "UpdateInputs E (KeyPress km) (so_overlay s) = Inr (p, cmd)" "same_list (so_overlay s) p"
    by (rule UpdateInputs_ok [OF assms(1)])
  then show ?thesis using assms(2) by (simp add: so_type_def so_ok_same)
qed

lemma so_focus_ok:
  assumes "so_ok s"
  shows "so_ok (so_focusToInput E s) \<and> so_for (so_focusToInput E s) = so_for s"
    and "so_ok (toggleFocus E s) \<and> so_for (toggleFocus E s) = so_for s"
  using assms by (simp_all add: so_focusToInput_def so_focusToButtons_def toggleFocus_def so_ok_same same_lists)

lemma so_Update_ok:
  assumes "ti_ok (fe_ti E)" and "so_ok s"
  shows "\<exists>s1 c. so_Update E msg s = Inr (s1, c) \<and> so_ok s1 \<and> so_for s1 = so_for s \<and> list_all (so_sends (so_for s)) c"
proof (cases msg)
  case (KeyPress km)
  obtain s1 c where s: "so_handleSubmit E s = Inr (s1, c)" "so_ok s1" "so_for s1 = so_for s"
      "list_all (so_sends (so_for s)) c"
    using so_submit_ok [OF assms(2), of E] by blast
  obtain u where u: "adjustReplicas E 1 s = Inr u" "so_ok u" "so_for u = so_for s"
    using adjust_ok [OF assms(2), of E 1] by blast
  obtain d where d: "adjustReplicas E (-1) s = Inr d" "so_ok d" "so_for d = so_for s"
    using adjust_ok [OF assms(2), of E "-1"] by blast
  note t = so_type_ok [OF assms, of km "so_for s"]
  have arrow: "\<exists>s1 c. so_arrow E km b s = Inr (s1, c) \<and> so_ok s1 \<and> so_for s1 = so_for s \<and> list_all (so_sends (so_for s)) c" for b
    using t assms(2) by (auto simp: so_arrow_def)
  have key: "\<exists>s1 c. so_key E km s = Inr (s1, c) \<and> so_ok s1 \<and> so_for s1 = so_for s \<and> list_all (so_sends (so_for s)) c"
    using t s assms(2) by (auto simp: so_key_def Let_def)
  show ?thesis
    using KeyPress s u d so_focus_ok [OF assms(2), of E] assms(2)
    by (simp add: so_Update_def Let_def arrow key)
qed (use assms in \<open>simp add: so_Update_def\<close>)

interpretation scale: safe_form "so_Update E" "\<lambda>s. ti_ok (fe_ti E) \<and> so_ok s \<and> so_for s = w" "so_sends w"
  by (rule safe_formI) (use so_Update_ok in blast)

lemma so_Open_ok: "so_ok (so_Open E name ns g n s)" "so_for (so_Open E name ns g n s) = (name, ns, g, n)"
  by (simp_all add: so_Open_def so_ok_def so_for_def so_updateFooter_def FocusInput_def AddInput_def syncInputWidths_def
      panel_ok_def ov_Reset_def Let_def split: option.split)

section \<open>The source of a chart\<close>

definition ci_ok :: "'i chart_input \<Rightarrow> bool" where
  "ci_ok c \<longleftrightarrow> ov_inputs (ci_overlay c) \<noteq> [] \<and> panel_ok (ci_overlay c)"

lemma ci_ok_same: "same_list (ci_overlay c) p \<Longrightarrow> ci_ok (c\<lparr> ci_overlay := p \<rparr>) = ci_ok c"
  using same_list_ok [of "ci_overlay c" p] same_list_inputs [of "ci_overlay c" p] by (auto simp: ci_ok_def)

definition ci_for :: "'i chart_input \<Rightarrow> string \<times> string" where
  "ci_for c = (ci_releaseName c, ci_namespace c)"

definition ci_sends :: "string \<times> string \<Rightarrow> 'm form_msg \<Rightarrow> bool" where
  "ci_sends = (\<lambda>(rel, ns) msg. case msg of
     LibMsg m \<Rightarrow> True | AppMsg m \<Rightarrow> (\<exists>chart. m = HelmChartRefSetMsg rel ns chart \<and> chart \<noteq> ''''))"

lemma ci_Update_ok:
  assumes "ti_ok (fe_ti E)" and "ci_ok c"
  shows "\<exists>c1 out. ci_Update E msg c = Inr (c1, out) \<and> ci_ok c1 \<and> ci_for c1 = ci_for c \<and> list_all (ci_sends (ci_for c)) out"
proof -
  have cl: "ci_ok (ci_Close c)" "ci_for (ci_Close c) = ci_for c"
    using assms(2) by (simp_all add: ci_ok_def ci_for_def ci_Close_def panel_ok_def)
  obtain v where "InputValue E 0 (ci_overlay c) = Inr v"
    using InputValue_ok [of 0 "ci_overlay c" E] assms by (auto simp: ci_ok_def)
  then have s: "\<exists>c1 out. ci_handleSubmit E c = Inr (c1, out) \<and> ci_ok c1 \<and> ci_for c1 = ci_for c \<and>
      list_all (ci_sends (ci_for c)) out"
    using cl by (auto simp: ci_handleSubmit_def ci_sends_def ci_for_def)
  have l: "list_all (ci_sends w) (lib_cmd x)" for w and x :: "'b option"
    by (simp add: lib_cmd_def ci_sends_def split: option.split prod.split)
  obtain q x where u: "UpdateInputs E msg (ci_overlay c) = Inr (q, x)" by (rule UpdateInputs_ok [OF assms(1)])
  then have "ci_ok (c\<lparr> ci_overlay := q \<rparr>)" "ci_for (c\<lparr> ci_overlay := q \<rparr>) = ci_for c"
    using assms by (simp_all add: ci_ok_same UpdateInputs_same ci_for_def)
  then show ?thesis
    using s cl assms u l by (cases msg) (auto simp: ci_Update_def)
qed

interpretation chart: safe_form "ci_Update E" "\<lambda>c. ti_ok (fe_ti E) \<and> ci_ok c \<and> ci_for c = w" "ci_sends w"
  by (rule safe_formI) (use ci_Update_ok in blast)

lemma AddInput_frame [simp]:
  "length (ov_inputs (fst (AddInput E ti p))) = Suc (length (ov_inputs p))" "ov_items (fst (AddInput E ti p)) = ov_items p"
  "ov_cursor (fst (AddInput E ti p)) = ov_cursor p" "ov_offset (fst (AddInput E ti p)) = ov_offset p"
  "snd (AddInput E ti p) = length (ov_inputs p)" "ov_active (fst (AddInput E ti p)) = ov_active p"
  "ov_maxVisible (fst (AddInput E ti p)) = ov_maxVisible p" "panel_ok (fst (AddInput E ti p)) = panel_ok p"
  by (simp_all add: AddInput_def syncInputWidths_def Let_def panel_ok_def)

lemma Reset_frame [simp]:
  "ov_inputs (ov_Reset E p) = []" "panel_ok (ov_Reset E p)" "ov_items (ov_Reset E p) = []"
  "ov_maxVisible (ov_Reset E p) = ov_maxVisible p"
  by (simp_all add: ov_Reset_def panel_ok_def)

lemma panel_ok_update [simp]:
  "panel_ok (p\<lparr> ov_active := b \<rparr>) = panel_ok p" "panel_ok (p\<lparr> ov_title := s \<rparr>) = panel_ok p"
  "panel_ok (p\<lparr> ov_fixedWidth := w \<rparr>) = panel_ok p" "panel_ok (p\<lparr> ov_noItemsMsg := s \<rparr>) = panel_ok p"
  "panel_ok (p\<lparr> ov_maxVisible := w \<rparr>) = panel_ok p" "panel_ok (p\<lparr> ov_footer := s \<rparr>) = panel_ok p"
  "panel_ok (p\<lparr> ov_content := s \<rparr>) = panel_ok p" "panel_ok (p\<lparr> ov_postListInputIdx := w \<rparr>) = panel_ok p"
  "panel_ok (FocusInput E i p) = panel_ok p" "panel_ok (ov_SetSize E w h p) = panel_ok p"
  "length (ov_inputs (FocusInput E i p)) = length (ov_inputs p)"
  using same_list_ok [OF same_list_simps(3) [of p E i]] same_list_ok [OF same_list_simps(2) [of p E w h]]
    same_list_inputs [OF same_list_simps(3) [of p E i]] by (simp_all add: panel_ok_def)

lemma ci_Open_ok: "ci_ok (ci_Open E rel ns chart c)" "ci_for (ci_Open E rel ns chart c) = (rel, ns)"
  by (simp_all add: ci_Open_def ci_ok_def ci_for_def Let_def length_greater_0_conv [symmetric] del: length_greater_0_conv)

section \<open>The port-forward\<close>

definition po_ok :: "'i pf_overlay \<Rightarrow> bool" where
  "po_ok p \<longleftrightarrow> length (ov_inputs (po_overlay p)) = 2 \<and> panel_ok (po_overlay p) \<and>
     ov_items (po_overlay p) = map portItemDisplay (po_filtered p) \<and> set (po_filtered p) \<subseteq> set (po_allPorts p)"

definition po_for :: "'i pf_overlay \<Rightarrow> string \<times> string \<times> port_item list" where
  "po_for p = (po_podName p, po_podNs p, po_allPorts p)"

definition po_sends :: "string \<times> string \<times> port_item list \<Rightarrow> 'm form_msg \<Rightarrow> bool" where
  "po_sends = (\<lambda>(pod, ns, ports) msg. case msg of
     LibMsg m \<Rightarrow> True
   | AppMsg m \<Rightarrow> (\<exists>i port. i \<in> set ports \<and> 1 \<le> port \<and> port \<le> 65535 \<and>
       m = PortForwardRequestedMsg pod ns (pi_ContainerName i) port (pi_Port i) (pi_Protocol i)))"

lemma po_sends_lib [simp]: "list_all (po_sends w) (lib_cmd c)"
  by (simp add: lib_cmd_def po_sends_def split: option.split prod.split)

lemma po_ok_same: "same_list (po_overlay p) q \<Longrightarrow> po_ok (p\<lparr> po_overlay := q \<rparr>) = po_ok p"
  using same_list_ok [of "po_overlay p" q] by (auto simp: po_ok_def same_list_def)

lemma po_frame [simp]:
  "po_ok (p\<lparr> po_inputFocused := b \<rparr>) = po_ok p" "po_ok (p\<lparr> po_focusedButton := i \<rparr>) = po_ok p"
  "po_ok (po_updateFooter E p) = po_ok p" "po_ok (po_Close p) = po_ok p"
  "po_for (p\<lparr> po_inputFocused := b \<rparr>) = po_for p" "po_for (p\<lparr> po_focusedButton := i \<rparr>) = po_for p"
  "po_for (po_updateFooter E p) = po_for p" "po_for (po_Close p) = po_for p" "po_for (p\<lparr> po_overlay := q \<rparr>) = po_for p"
  by (simp_all add: po_ok_def po_for_def po_updateFooter_def po_Close_def)

lemma set_local_ok:
  assumes "po_ok p"
  shows "\<exists>q. set_local E v p = Inr q \<and> po_ok q \<and> po_for q = po_for p"
proof -
  obtain q where "set_input E 1 v (po_overlay p) = Inr q" "same_list (po_overlay p) q"
    using set_input_ok [of 1 "po_overlay p" E v] assms by (auto simp: po_ok_def)
  then show ?thesis using assms by (simp add: set_local_def po_ok_same)
qed

lemma sync_ok:
  assumes "po_ok p"
  shows "\<exists>q. syncLocalPort E p = Inr q \<and> po_ok q \<and> po_for q = po_for p"
  using assms by (simp add: syncLocalPort_def Let_def set_local_ok)

text \<open>A filter makes the list fit, whatever it was.\<close>

lemma po_applyFilter_ok:
  assumes "length (ov_inputs (po_overlay p)) = 2"
  shows "\<exists>q. po_applyFilter E p = Inr q \<and> po_ok q \<and> po_for q = po_for p"
proof -
  define xs where "xs = filter (\<lambda>i. (case ov_inputs (po_overlay p) of [] \<Rightarrow> '''' | ti # _ \<Rightarrow> ti_Value (fe_ti E) ti) = '''' \<or>
    contains (lower (portItemDisplay i)) (lower (case ov_inputs (po_overlay p) of [] \<Rightarrow> '''' | ti # _ \<Rightarrow> ti_Value (fe_ti E) ti)))
    (po_allPorts p)"
  let ?p = "p\<lparr> po_filtered := xs, po_overlay := ov_SetItems (map portItemDisplay xs) (po_overlay p) \<rparr>"
  have "po_ok ?p" using assms by (auto simp: po_ok_def SetItems_ok xs_def)
  moreover have "po_for ?p = po_for p" by (simp add: po_for_def)
  moreover have "po_applyFilter E p = syncLocalPort E ?p" by (simp add: po_applyFilter_def xs_def Let_def)
  ultimately show ?thesis using sync_ok [of ?p E] by simp
qed

lemma po_Open_ok: "\<exists>q. po_Open E pod ns ports p = Inr q \<and> po_ok q \<and> po_for q = (pod, ns, ports)"
proof -
  let ?T = "fe_ti E"
  let ?o0 = "(ov_Reset E (po_overlay p))\<lparr> ov_active := True, ov_title := ''Port Forward'',
             ov_noItemsMsg := ''(no ports found)'', ov_maxVisible := 3 \<rparr>"
  let ?o1 = "fst (AddInput E (ti_Focus ?T (ti_SetPrompt ?T ''Filter: '' (ti_New ?T))) ?o0)"
  let ?o2 = "fst (AddInput E (ti_SetPrompt ?T ''Local: '' (ti_New ?T)) ?o1)"
  let ?p = "p\<lparr> po_podName := pod, po_podNs := ns, po_allPorts := ports,
           po_inputFocused := True, po_focusedButton := pfBtnYes, po_overlay := FocusInput E 0 (?o2\<lparr> ov_postListInputIdx := 1 \<rparr>) \<rparr>"
  have "po_for ?p = (pod, ns, ports)" by (simp add: po_for_def)
  then obtain q where "po_applyFilter E ?p = Inr q" "po_ok q" "po_for q = (pod, ns, ports)"
    using po_applyFilter_ok [of ?p E] by (auto simp: po_for_def)
  then show ?thesis by (simp add: po_Open_def Let_def)
qed

lemma po_submit_ok:
  assumes "po_ok p"
  shows "\<exists>q c. po_handleSubmit E p = Inr (q, c) \<and> po_ok q \<and> po_for q = po_for p \<and> list_all (po_sends (po_for p)) c"
proof -
  obtain v where v: "InputValue E 1 (po_overlay p) = Inr v"
    using InputValue_ok [of 1 "po_overlay p" E] assms by (auto simp: po_ok_def)
  have c: "0 \<le> ov_cursor (po_overlay p)" using assms by (simp add: po_ok_def panel_ok_def)
  have i: "po_filtered p ! nat (ov_cursor (po_overlay p)) \<in> set (po_allPorts p)"
    if "\<not> int (length (po_filtered p)) \<le> ov_cursor (po_overlay p)"
    using assms c that nth_mem [of "nat (ov_cursor (po_overlay p))" "po_filtered p"] by (auto simp: po_ok_def)
  show ?thesis
    using v assms c
    by (auto simp: po_handleSubmit_def parseLocalPort_def go_index_def po_sends_def po_for_def [of p] po_ok_same same_lists
        split: option.split dest!: i)
qed

lemma po_type_ok:
  assumes "ti_ok (fe_ti E)" and "po_ok p"
  shows "\<exists>q c. po_type E km p = Inr (q, c) \<and> po_ok q \<and> po_for q = po_for p \<and> list_all (po_sends w) c"
proof -
  obtain q cmd where "UpdateInputs E (KeyPress km) (po_overlay p) = Inr (q, cmd)" "same_list (po_overlay p) q"
    by (rule UpdateInputs_ok [OF assms(1)])
  then show ?thesis using assms(2) by (simp add: po_type_def po_ok_same)
qed

lemma po_focus_ok:
  assumes "po_ok p"
  shows "po_ok (po_focusToInput E i p) \<and> po_for (po_focusToInput E i p) = po_for p"
    and "po_ok (cycleFocusForward E p) \<and> po_for (cycleFocusForward E p) = po_for p"
  using assms by (simp_all add: po_focusToInput_def po_focusToButtons_def cycleFocusForward_def po_ok_same same_lists)

lemma po_move_ok:
  assumes "po_ok p"
  shows "\<exists>q. po_move E km p = Inr q \<and> po_ok q \<and> po_for q = po_for p"
proof -
  let ?p = "p\<lparr> po_overlay := fst (HandleListKeys km (po_overlay p)) \<rparr>"
  have "po_ok ?p" using assms by (simp add: po_ok_def ListKeys_ok(1))
  then show ?thesis
    using sync_ok [of ?p E] po_focus_ok(1) [OF assms, of E 1] assms by (simp add: po_move_def)
qed

lemma po_Update_ok:
  assumes "ti_ok (fe_ti E)" and "po_ok p"
  shows "\<exists>q c. po_Update E msg p = Inr (q, c) \<and> po_ok q \<and> po_for q = po_for p \<and> list_all (po_sends (po_for p)) c"
proof (cases msg)
  case (KeyPress km)
  obtain s c where s: "po_handleSubmit E p = Inr (s, c)" "po_ok s" "po_for s = po_for p" "list_all (po_sends (po_for p)) c"
    using po_submit_ok [OF assms(2), of E] by blast
  obtain m where m: "po_move E km p = Inr m" "po_ok m" "po_for m = po_for p" using po_move_ok [OF assms(2), of E km] by blast
  obtain t d where t: "po_type E km p = Inr (t, d)" "po_ok t" "po_for t = po_for p" "list_all (po_sends (po_for p)) d"
    using po_type_ok [OF assms, of km "po_for p"] by blast
  obtain u where u: "po_applyFilter E t = Inr u" "po_ok u" "po_for u = po_for p"
    using po_applyFilter_ok [of t E] t by (auto simp: po_ok_def [of t])
  have arrow: "\<exists>q c. po_arrow E km b p = Inr (q, c) \<and> po_ok q \<and> po_for q = po_for p \<and> list_all (po_sends (po_for p)) c" for b
    using t assms(2) by (simp add: po_arrow_def)
  have key: "\<exists>q c. po_key E km p = Inr (q, c) \<and> po_ok q \<and> po_for q = po_for p \<and> list_all (po_sends (po_for p)) c"
    using s t u assms(2) by (simp add: po_key_def Let_def)
  show ?thesis
    using KeyPress s m po_focus_ok(2) [OF assms(2), of E] assms(2) by (simp add: po_Update_def Let_def arrow key)
qed (use assms in \<open>simp add: po_Update_def\<close>)

interpretation port_forward: safe_form "po_Update E" "\<lambda>p. ti_ok (fe_ti E) \<and> po_ok p \<and> po_for p = w" "po_sends w"
  by (rule safe_formI) (use po_Update_ok in blast)

section \<open>The images of a workload\<close>

definition policies :: "string list" where
  "policies = [pullPolicyDefault, ''Always'', ''IfNotPresent'', ''Never'']"

definition policy_ok :: "cycle_field \<Rightarrow> bool" where
  "policy_ok f \<longleftrightarrow> cf_options f = policies \<and> 0 \<le> cf_idx f \<and> cf_idx f < 4"

lemma option_index_range: "option_index s xs i = 0 \<or> i \<le> option_index s xs i \<and> option_index s xs i < i + int (length xs)"
  by (induction s xs i rule: option_index.induct) auto

lemma NewPullPolicy_ok: "policy_ok (NewPullPolicyField s)"
  using option_index_range [of s policies 0]
  by (auto simp: NewPullPolicyField_def cf_SetValue_def policy_ok_def policies_def simp del: option_index.simps)

lemma policy_step_ok:
  assumes "policy_ok f"
  shows "policy_ok (cf_Next f)" "policy_ok (cf_Prev f)" "policy_ok (f\<lparr> cf_focused := b \<rparr>)"
proof -
  have "0 \<le> go_rem (cf_idx f + 1) 4 \<and> go_rem (cf_idx f + 1) 4 < 4" "0 \<le> go_rem (cf_idx f - 1 + 4) 4 \<and> go_rem (cf_idx f - 1 + 4) 4 < 4"
    using assms by (simp_all add: policy_ok_def)
  then show "policy_ok (cf_Next f)" "policy_ok (cf_Prev f)" "policy_ok (f\<lparr> cf_focused := b \<rparr>)"
    using assms by (simp_all add: policy_ok_def cf_Next_def cf_Prev_def policies_def Let_def)
qed

lemma policy_view: "policy_ok f \<Longrightarrow> \<exists>s. cf_View E f = Inr s"
  by (simp add: cf_View_def policy_ok_def policies_def go_index_def Let_def)

text \<open>Each row has the text field of its number.\<close>

definition image_rows_ok :: "container_row list \<Rightarrow> bool" where
  "image_rows_ok rows \<longleftrightarrow> (\<forall>i<length rows. cr_inputIdx (rows ! i) = int i \<and> policy_ok (cr_policy (rows ! i)))"

definition si_ok :: "'i set_image \<Rightarrow> bool" where
  "si_ok s \<longleftrightarrow> image_rows_ok (si_rows s) \<and> length (si_rows s) = length (si_containers s) \<and>
     length (ov_inputs (si_overlay s)) = length (si_rows s) \<and> panel_ok (si_overlay s) \<and>
     0 \<le> si_focusRow s \<and> (si_rows s = [] \<or> si_focusRow s < int (length (si_rows s)))"

lemma si_ok_same: "same_list (si_overlay s) p \<Longrightarrow> si_ok (s\<lparr> si_overlay := p \<rparr>) = si_ok s"
  using same_list_ok [of "si_overlay s" p] same_list_inputs [of "si_overlay s" p] by (auto simp: si_ok_def)

lemma si_ok_frame [simp]:
  "si_ok (si_Close s) = si_ok s" "si_ok (si_updateFooter E s) = si_ok s"
  "si_ok (s\<lparr> si_focusKind := k \<rparr>) = si_ok s" "si_ok (s\<lparr> si_focusedButton := i \<rparr>) = si_ok s"
  by (simp_all add: si_ok_def si_Close_def si_updateFooter_def)

lemma image_rows_policy:
  assumes "image_rows_ok rows" and "\<And>f. policy_ok f \<Longrightarrow> policy_ok (g f)"
  shows "image_rows_ok (map (on_policy g) rows)" and "image_rows_ok (rows[i := on_policy g (rows ! i)])"
proof -
  show "image_rows_ok (map (on_policy g) rows)" using assms by (simp add: image_rows_ok_def on_policy_def)
  have "image_rows_ok (rows[i := on_policy g (rows ! i)])" if "i < length rows"
    using assms that by (simp add: image_rows_ok_def on_policy_def nth_list_update)
  then show "image_rows_ok (rows[i := on_policy g (rows ! i)])" using assms(1) by (cases "i < length rows") (simp_all add: list_update_beyond)
qed

lemma blurPolicies_ok [simp]: "si_ok s \<Longrightarrow> si_ok (blurPolicies s)"
  by (auto simp: si_ok_def blurPolicies_def image_rows_policy policy_step_ok)

lemma blurPolicies_frame [simp]:
  "length (si_rows (blurPolicies s)) = length (si_rows s)" "si_overlay (blurPolicies s) = si_overlay s"
  "si_focusRow (blurPolicies s) = si_focusRow s" "si_focusKind (blurPolicies s) = si_focusKind s"
  by (simp_all add: blurPolicies_def)

lemma upd_policy_ok:
  assumes "si_ok s" and "0 \<le> r" and "r < int (length (si_rows s))" and "\<And>f. policy_ok f \<Longrightarrow> policy_ok (g f)"
  shows "\<exists>t. upd_policy g r s = Inr t \<and> si_ok t \<and> si_focusKind t = si_focusKind s \<and> si_focusRow t = si_focusRow s \<and>
    length (si_rows t) = length (si_rows s)"
proof -
  have "image_rows_ok ((si_rows s)[nat r := on_policy g (si_rows s ! nat r)])"
    using assms image_rows_policy(2) by (simp add: si_ok_def)
  then show ?thesis using assms by (auto simp: upd_policy_def go_index_def si_ok_def)
qed

lemma focusImage_ok:
  assumes "si_ok s" and "0 \<le> r" and "r < int (length (si_rows s))"
  shows "\<exists>t. si_focusImage E r s = Inr t \<and> si_ok t \<and> si_focusKind t = focusImage \<and> si_focusRow t = r \<and>
    length (si_rows t) = length (si_rows s)"
proof -
  let ?s = "(blurPolicies s)\<lparr> si_focusKind := focusImage, si_focusRow := r \<rparr>"
  have "si_ok ?s" using blurPolicies_ok [OF assms(1)] assms(2,3) by (simp add: si_ok_def)
  then have "si_ok (?s\<lparr> si_overlay := FocusInput E i (si_overlay ?s) \<rparr>)" for i
    by (subst si_ok_same) (simp_all add: same_lists)
  then show ?thesis using assms by (simp add: si_focusImage_def go_index_def Let_def) (simp add: si_updateFooter_def)
qed

lemma focusPolicy_ok:
  assumes "si_ok s" and "0 \<le> r" and "r < int (length (si_rows s))"
  shows "\<exists>t. si_focusPolicy E r s = Inr t \<and> si_ok t \<and> si_focusKind t = focusPolicy \<and> si_focusRow t = r \<and>
    length (si_rows t) = length (si_rows s)"
proof -
  let ?s = "(blurPolicies (s\<lparr> si_overlay := blurAll E (si_overlay s) \<rparr>))\<lparr> si_focusKind := focusPolicy, si_focusRow := r \<rparr>"
  have "si_ok (s\<lparr> si_overlay := blurAll E (si_overlay s) \<rparr>)" using assms(1) by (simp add: si_ok_same same_lists)
  then have "si_ok ?s" using blurPolicies_ok assms(2,3) by (fastforce simp: si_ok_def)
  then obtain t where "upd_policy (\<lambda>f. f\<lparr> cf_focused := True \<rparr>) r ?s = Inr t" "si_ok t" "si_focusKind t = focusPolicy"
      "si_focusRow t = r" "length (si_rows t) = length (si_rows s)"
    using upd_policy_ok [of ?s r "\<lambda>f. f\<lparr> cf_focused := True \<rparr>"] assms(2,3) policy_step_ok(3) by auto
  then show ?thesis by (simp add: si_focusPolicy_def Let_def) (simp add: si_updateFooter_def)
qed

lemma focusToButtons_ok:
  assumes "si_ok s"
  shows "si_ok (si_focusToButtons E s)" "si_focusKind (si_focusToButtons E s) = focusButtons"
    "si_focusRow (si_focusToButtons E s) = si_focusRow s" "length (si_rows (si_focusToButtons E s)) = length (si_rows s)"
  using assms by (simp_all add: si_focusToButtons_def si_ok_same same_lists) (simp_all add: si_updateFooter_def)

text \<open>The place of the focus in the walk: the fields of the rows in order, then the buttons.\<close>

definition place :: "'i set_image \<Rightarrow> int" where
  "place s = (case si_focusKind s of
     focusImage \<Rightarrow> 2 * si_focusRow s | focusPolicy \<Rightarrow> 2 * si_focusRow s + 1
   | focusButtons \<Rightarrow> 2 * int (length (si_rows s)))"

lemma place_next:
  assumes "si_ok s" and "si_rows s \<noteq> []"
  shows "\<exists>t. focusNext E s = Inr t \<and> si_ok t \<and> length (si_rows t) = length (si_rows s) \<and>
    place t = (if si_focusKind s = focusButtons then 0 else place s + 1)"
proof -
  have r: "0 \<le> si_focusRow s" "si_focusRow s < int (length (si_rows s))" using assms by (auto simp: si_ok_def)
  show ?thesis
  proof (cases "si_focusKind s")
    case focusImage
    then show ?thesis using focusPolicy_ok [OF assms(1) r, of E] assms(2) by (auto simp: focusNext_def place_def)
  next
    case focusPolicy
    show ?thesis
    proof (cases "si_focusRow s \<ge> int (length (si_rows s)) - 1")
      case True
      then show ?thesis using focusPolicy focusToButtons_ok [OF assms(1), of E] assms(2) r
        by (simp add: focusNext_def place_def)
    next
      case False
      then show ?thesis using focusPolicy focusImage_ok [OF assms(1), of "si_focusRow s + 1" E] assms(2) r
        by (auto simp: focusNext_def place_def)
    qed
  next
    case focusButtons
    then show ?thesis using focusImage_ok [OF assms(1), of 0 E] assms(2) by (auto simp: focusNext_def place_def)
  qed
qed

lemma place_prev:
  assumes "si_ok s" and "si_rows s \<noteq> []"
  shows "\<exists>t. focusPrev E s = Inr t \<and> si_ok t \<and> length (si_rows t) = length (si_rows s) \<and>
    place t = (if place s = 0 then 2 * int (length (si_rows s)) else place s - 1)"
proof -
  have r: "0 \<le> si_focusRow s" "si_focusRow s < int (length (si_rows s))" using assms by (auto simp: si_ok_def)
  show ?thesis
  proof (cases "si_focusKind s")
    case focusImage
    show ?thesis
    proof (cases "si_focusRow s \<le> 0")
      case True
      then show ?thesis using focusImage focusToButtons_ok [OF assms(1), of E] assms(2) r
        by (simp add: focusPrev_def place_def)
    next
      case False
      then show ?thesis using focusImage focusPolicy_ok [OF assms(1), of "si_focusRow s - 1" E] assms(2) r
        by (auto simp: focusPrev_def place_def)
    qed
  next
    case focusPolicy
    then show ?thesis using focusImage_ok [OF assms(1) r, of E] assms(2) r by (auto simp: focusPrev_def place_def)
  next
    case focusButtons
    then show ?thesis using focusPolicy_ok [OF assms(1), of "int (length (si_rows s)) - 1" E] assms(2)
      by (auto simp: focusPrev_def place_def Suc_le_eq)
  qed
qed

lemma place_range: "si_ok s \<Longrightarrow> si_rows s \<noteq> [] \<Longrightarrow> 0 \<le> place s \<and> place s \<le> 2 * int (length (si_rows s))"
  by (auto simp: place_def si_ok_def split: setImageFocus.split)

lemma place_buttons: "si_ok s \<Longrightarrow> si_rows s \<noteq> [] \<Longrightarrow> si_focusKind s = focusButtons \<longleftrightarrow> place s = 2 * int (length (si_rows s))"
  by (cases "si_focusKind s") (auto simp: place_def si_ok_def)

lemma focus_steps_ok:
  assumes "si_ok s"
  shows "\<exists>t. focusNext E s = Inr t \<and> si_ok t" "\<exists>t. focusPrev E s = Inr t \<and> si_ok t"
proof -
  have "focusNext E s = Inr s" "focusPrev E s = Inr s" if "si_rows s = []"
    using that by (simp_all add: focusNext_def focusPrev_def)
  then show "\<exists>t. focusNext E s = Inr t \<and> si_ok t" "\<exists>t. focusPrev E s = Inr t \<and> si_ok t"
    using place_next [OF assms, of E] place_prev [OF assms, of E] assms by blast+
qed

text \<open>What is submitted: row by row the change, if there is one.\<close>

lemma in_map_filter: "y \<in> set (List.map_filter f xs) \<longleftrightarrow> (\<exists>x\<in>set xs. f x = Some y)"
  by (induction xs) (auto simp: map_filter_simps split: option.splits)

lemma bex_zip: "length ys = length xs \<Longrightarrow> (\<exists>x\<in>set (zip xs ys). Q x) \<longleftrightarrow> (\<exists>i<length xs. Q (xs ! i, ys ! i))"
  by (fastforce simp: set_zip)

lemma changes_exact:
  assumes "length rows = length cs" and "\<And>row. row \<in> set rows \<Longrightarrow> InputValue E (cr_inputIdx row) p = Inr (v row)"
  shows "changes E p cs rows = Inr (List.map_filter (\<lambda>(orig, row). row_change orig (v row) (cf_Value (cr_policy row))) (zip cs rows))"
  using assms
proof (induction E p cs rows rule: changes.induct)
  case (3 E p orig cs row rows)
  have "changes E p cs rows = Inr (List.map_filter (\<lambda>(orig, row). row_change orig (v row) (cf_Value (cr_policy row))) (zip cs rows))"
    using 3 by auto
  then show ?case using "3.prems"(2) [of row] by (simp add: map_filter_simps split: option.split)
qed (simp_all add: map_filter_simps)

lemma row_input:
  assumes "si_ok s" and "row \<in> set (si_rows s)"
  shows "\<exists>v. InputValue E (cr_inputIdx row) (si_overlay s) = Inr v"
proof -
  obtain i where "i < length (si_rows s)" "row = si_rows s ! i" using assms(2) by (auto simp: in_set_conv_nth)
  then show ?thesis using assms(1) InputValue_ok [of "int i" "si_overlay s" E] by (auto simp: si_ok_def image_rows_ok_def)
qed

definition row_value :: "('i, 'm) form_env \<Rightarrow> 'i set_image \<Rightarrow> container_row \<Rightarrow> string" where
  "row_value E s row = ti_Value (fe_ti E) (ov_inputs (si_overlay s) ! nat (cr_inputIdx row))"

definition edits :: "('i, 'm) form_env \<Rightarrow> 'i set_image \<Rightarrow> image_change list" where
  "edits E s = List.map_filter (\<lambda>(orig, row). row_change orig (row_value E s row) (cf_Value (cr_policy row)))
     (zip (si_containers s) (si_rows s))"

lemma si_submit:
  assumes "si_ok s"
  shows "si_handleSubmit E s = Inr (si_Close s, if edits E s = [] then []
    else [AppMsg (SetImageRequestedMsg (si_gvr s) (si_resourceName s) (si_namespace s) (si_pluginName s) (edits E s))])"
proof -
  have "InputValue E (cr_inputIdx row) (si_overlay s) = Inr (row_value E s row)" if "row \<in> set (si_rows s)" for row
    using row_input [OF assms that, of E] by (auto simp: InputValue_def go_index_def row_value_def split: if_splits)
  then show ?thesis
    using changes_exact [of "si_rows s" "si_containers s" E "si_overlay s" "row_value E s"] assms
    by (simp add: si_handleSubmit_def edits_def si_ok_def)
qed

text \<open>A change in it is an edit of a container: a new image or a new policy, and what was not edited is left out.\<close>

lemma row_change_iff:
  "row_change orig v q = Some (name, img, init, pol) \<longleftrightarrow>
    (\<exists>img0 pol0. orig = (name, img0, init, pol0) \<and> img = (if v \<noteq> img0 then v else '''') \<and>
       pol = (if q \<noteq> pol0 then q else '''') \<and> (img \<noteq> '''' \<or> pol \<noteq> ''''))"
  by (cases orig) (auto simp: row_change_def Let_def)

text \<open>A change in it is an edit of a container: a new image or a new policy, and what was not edited is left out.\<close>

lemma edits_iff:
  assumes "length (si_rows s) = length (si_containers s)"
  shows "(name, img, init, pol) \<in> set (edits E s) \<longleftrightarrow>
    (\<exists>i<length (si_containers s). \<exists>img0 pol0. si_containers s ! i = (name, img0, init, pol0) \<and>
       img = (if row_value E s (si_rows s ! i) \<noteq> img0 then row_value E s (si_rows s ! i) else '''') \<and>
       pol = (if cf_Value (cr_policy (si_rows s ! i)) \<noteq> pol0 then cf_Value (cr_policy (si_rows s ! i)) else '''') \<and>
       (img \<noteq> '''' \<or> pol \<noteq> ''''))"
  unfolding edits_def in_map_filter bex_zip [OF assms] prod.case row_change_iff ..

definition si_for :: "'i set_image \<Rightarrow> string \<times> string \<times> gvr \<times> string \<times> image_change list" where
  "si_for s = (si_resourceName s, si_namespace s, si_gvr s, si_pluginName s, si_containers s)"

text \<open>An edit of one of the containers \<open>cs\<close>: it changes the image or the policy to another that is not empty.\<close>

definition is_edit :: "image_change list \<Rightarrow> image_change \<Rightarrow> bool" where
  "is_edit cs = (\<lambda>(name, img, init, pol). (img \<noteq> '''' \<or> pol \<noteq> '''') \<and>
     (\<exists>img0 pol0. (name, img0, init, pol0) \<in> set cs \<and> (img = '''' \<or> img \<noteq> img0) \<and> (pol = '''' \<or> pol \<noteq> pol0)))"

definition si_sends :: "string \<times> string \<times> gvr \<times> string \<times> image_change list \<Rightarrow> 'm form_msg \<Rightarrow> bool" where
  "si_sends = (\<lambda>(name, ns, g, plugin, cs) msg. case msg of
     LibMsg m \<Rightarrow> True
   | AppMsg m \<Rightarrow> (\<exists>ch. m = SetImageRequestedMsg g name ns plugin ch \<and> ch \<noteq> [] \<and> list_all (is_edit cs) ch))"

lemma si_sends_lib [simp]: "list_all (si_sends w) (lib_cmd c)"
  by (simp add: lib_cmd_def si_sends_def split: option.split prod.split)

lemma edits_are_edits:
  assumes "si_ok s"
  shows "list_all (is_edit (si_containers s)) (edits E s)"
proof -
  have "is_edit (si_containers s) c" if "c \<in> set (edits E s)" for c
  proof -
    obtain name img init pol where c: "c = (name, img, init, pol)" by (cases c)
    have "length (si_rows s) = length (si_containers s)" using assms by (simp add: si_ok_def)
    from that [unfolded c edits_iff [OF this]] obtain i img0 pol0 where
        "i < length (si_containers s)" "si_containers s ! i = (name, img0, init, pol0)"
        "img = (if row_value E s (si_rows s ! i) \<noteq> img0 then row_value E s (si_rows s ! i) else '''')"
        "pol = (if cf_Value (cr_policy (si_rows s ! i)) \<noteq> pol0 then cf_Value (cr_policy (si_rows s ! i)) else '''')"
        "img \<noteq> '''' \<or> pol \<noteq> ''''" by blast
    moreover from this have "(name, img0, init, pol0) \<in> set (si_containers s)" by (metis nth_mem)
    ultimately show ?thesis by (auto simp: c is_edit_def split: if_splits)
  qed
  then show ?thesis by (simp add: list_all_iff)
qed

lemma si_for_frame [simp]:
  "si_for (si_Close s) = si_for s" "si_for (si_updateFooter E s) = si_for s" "si_for (blurPolicies s) = si_for s"
  "si_for (s\<lparr> si_overlay := p \<rparr>) = si_for s" "si_for (s\<lparr> si_rows := rs \<rparr>) = si_for s"
  "si_for (s\<lparr> si_focusKind := k \<rparr>) = si_for s" "si_for (s\<lparr> si_focusRow := r \<rparr>) = si_for s"
  "si_for (s\<lparr> si_focusedButton := b \<rparr>) = si_for s" "si_for (si_focusToButtons E s) = si_for s"
  by (simp_all add: si_for_def si_Close_def si_updateFooter_def blurPolicies_def si_focusToButtons_def)

lemma si_for_upd: "upd_policy g r s = Inr t \<Longrightarrow> si_for t = si_for s"
  by (auto simp: upd_policy_def)

lemma si_for_focus:
  "si_focusImage E r s = Inr t \<Longrightarrow> si_for t = si_for s" "si_focusPolicy E r s = Inr t \<Longrightarrow> si_for t = si_for s"
  by (auto simp: si_focusImage_def si_focusPolicy_def Let_def dest!: si_for_upd)

lemma si_for_walk:
  "focusNext E s = Inr t \<Longrightarrow> si_for t = si_for s" "focusPrev E s = Inr t \<Longrightarrow> si_for t = si_for s"
  by (auto simp: focusNext_def focusPrev_def split: if_splits setImageFocus.splits dest: si_for_focus)

text \<open>What a handler of a key does when it returns: a good form again, for the same object, and a request for
  edits at most. It does return if the text fields do.\<close>

definition si_kept :: "'i set_image \<Rightarrow> ('i set_image \<times> 'm form_cmd) go \<Rightarrow> bool" where
  "si_kept s res \<longleftrightarrow> (\<forall>t c. res = Inr (t, c) \<longrightarrow> si_ok t \<and> si_for t = si_for s \<and> list_all (si_sends (si_for s)) c)"

definition si_safe :: "'i set_image \<Rightarrow> ('i set_image \<times> 'm form_cmd) go \<Rightarrow> bool" where
  "si_safe s res \<longleftrightarrow> si_kept s res \<and> (\<exists>t c. res = Inr (t, c))"

lemma si_safe_simps [simp]:
  "si_safe s (Inr (t, [])) \<longleftrightarrow> si_ok t \<and> si_for t = si_for s"
  "si_safe s (silent (Inr t)) \<longleftrightarrow> si_ok t \<and> si_for t = si_for s"
  by (simp_all add: si_safe_def si_kept_def silent_def)

lemma si_safe_kept: "si_safe s res \<Longrightarrow> si_kept s res"
  by (simp add: si_safe_def)

lemma si_kept_type: "si_ok s \<Longrightarrow> si_kept s (si_type E km s)"
  by (auto simp: si_kept_def si_type_def si_ok_same dest!: UpdateInputs_same)

lemma si_safe_type:
  assumes "ti_ok (fe_ti E)" and "si_ok s"
  shows "si_safe s (si_type E km s)"
proof -
  obtain q cmd where "UpdateInputs E (KeyPress km) (si_overlay s) = Inr (q, cmd)" by (rule UpdateInputs_ok [OF assms(1)])
  then show ?thesis using si_kept_type [OF assms(2), of E km] by (simp add: si_safe_def si_type_def)
qed

lemma si_safe_submit: "si_ok s \<Longrightarrow> si_safe s (si_handleSubmit E s)"
  using edits_are_edits [of s E] by (auto simp: si_safe_def si_kept_def si_submit si_sends_def si_for_def si_Close_def si_ok_def)

lemma si_safe_walk:
  assumes "si_ok s"
  shows "si_safe s (silent (focusNext E s))" "si_safe s (silent (focusPrev E s))"
  using focus_steps_ok [OF assms, of E] by (auto dest: si_for_walk)

lemma si_safe_policy:
  assumes "si_ok s" and "si_rows s \<noteq> []" and "\<And>f. policy_ok f \<Longrightarrow> policy_ok (g f)"
  shows "si_safe s (silent (upd_policy g (si_focusRow s) s))"
proof -
  have "0 \<le> si_focusRow s" "si_focusRow s < int (length (si_rows s))" using assms by (auto simp: si_ok_def)
  then obtain t where "upd_policy g (si_focusRow s) s = Inr t" "si_ok t" using upd_policy_ok [of s _ g] assms by blast
  then show ?thesis by (simp add: si_for_upd)
qed

lemma si_Update_safe: "ti_ok (fe_ti E) \<Longrightarrow> si_ok s \<Longrightarrow> si_safe s (si_Update E msg s)"
  by (cases msg; cases "si_focusKind s")
    (simp_all add: si_Update_def Let_def si_side_def si_space_def si_key_def si_safe_type si_safe_submit si_safe_walk
      si_safe_policy policy_step_ok)

lemma si_kept_simps [simp]: "si_kept s (Inr (t, [])) \<longleftrightarrow> si_ok t \<and> si_for t = si_for s"
  by (simp add: si_kept_def)

lemma si_Update_kept: "si_ok s \<Longrightarrow> si_kept s (si_Update E msg s)"
  by (cases msg; cases "si_focusKind s")
    (simp_all add: si_Update_def Let_def si_side_def si_space_def si_key_def si_kept_type si_safe_kept si_safe_submit
      si_safe_walk si_safe_policy policy_step_ok)

interpretation images_kept: kept_form "si_Update E" "\<lambda>s. si_ok s \<and> si_for s = w" "si_sends w"
  by unfold_locales (use si_Update_kept in \<open>force simp: si_kept_def\<close>)

interpretation images: safe_form "si_Update E" "\<lambda>s. ti_ok (fe_ti E) \<and> si_ok s \<and> si_for s = w" "si_sends w"
  by (rule safe_formI) (use si_Update_safe in \<open>fastforce simp: si_safe_def si_kept_def\<close>)

lemma add_rows_ok:
  "add_rows E cs p = (q, rows) \<Longrightarrow> length rows = length cs \<and> length (ov_inputs q) = length (ov_inputs p) + length cs \<and>
     panel_ok q = panel_ok p \<and>
     (\<forall>i<length rows. cr_inputIdx (rows ! i) = int (length (ov_inputs p) + i) \<and> policy_ok (cr_policy (rows ! i)))"
proof (induction E cs p arbitrary: q rows rule: add_rows.induct)
  case (2 E name img init policy cs p)
  let ?T = "fe_ti E"
  let ?a = "AddInput E (ti_SetValue ?T img (ti_SetPrompt ?T '' image:  '' (ti_New ?T))) p"
  obtain q1 rows1 where r: "add_rows E cs (fst ?a) = (q1, rows1)" by (cases "add_rows E cs (fst ?a)")
  then have "q = q1" "rows = \<lparr> cr_inputIdx = int (length (ov_inputs p)), cr_policy = NewPullPolicyField policy \<rparr> # rows1"
    using "2.prems" r by (simp_all add: Let_def case_prod_beta)
  moreover have "length rows1 = length cs \<and> length (ov_inputs q1) = length (ov_inputs (fst ?a)) + length cs \<and>
     panel_ok q1 = panel_ok (fst ?a) \<and>
     (\<forall>i<length rows1. cr_inputIdx (rows1 ! i) = int (length (ov_inputs (fst ?a)) + i) \<and> policy_ok (cr_policy (rows1 ! i)))"
    using "2.IH" [OF refl refl prod.collapse r] .
  ultimately show ?case by (auto simp: NewPullPolicy_ok nth_Cons split: nat.split)
qed simp

lemma si_Open_ok: "\<exists>t. si_Open E name ns g plugin cs s = Inr t \<and> si_ok t \<and> si_for t = (name, ns, g, plugin, cs)"
proof -
  let ?p = "(ov_Reset E (si_overlay s))\<lparr> ov_active := True, ov_title := ''Set Image'', ov_fixedWidth := 70 \<rparr>"
  obtain q rows where r: "add_rows E cs ?p = (q, rows)" by (cases "add_rows E cs ?p")
  let ?s = "s\<lparr> si_resourceName := name, si_namespace := ns, si_gvr := g, si_pluginName := plugin,
            si_containers := cs, si_rows := rows, si_focusKind := focusImage, si_focusRow := 0,
            si_focusedButton := setImageBtnYes, si_overlay := q \<rparr>"
  have ok: "si_ok ?s" using add_rows_ok [OF r] by (auto simp: si_ok_def image_rows_ok_def)
  have f: "si_for ?s = (name, ns, g, plugin, cs)" by (simp add: si_for_def)
  show ?thesis
  proof (cases "rows = []")
    case True
    then show ?thesis using ok f r by (simp add: si_Open_def Let_def)
  next
    case False
    then obtain t where "si_focusImage E 0 ?s = Inr t" "si_ok t" using focusImage_ok [OF ok, of 0 E] by auto
    moreover from this have "si_for t = (name, ns, g, plugin, cs)" using si_for_focus(1) f by metis
    ultimately show ?thesis using False r by (simp add: si_Open_def Let_def)
  qed
qed

section \<open>All forms together\<close>

definition selects :: "('i, 'e, 'm) picker \<Rightarrow> bool" where
  "selects k \<longleftrightarrow> picker_ok k \<and> pc_OnSelect (pk_cfg k) \<noteq> None"

text \<open>A form that is built for what it is opened with needs that only while it is shown.\<close>

definition forms_ok :: "('i, 'm) forms \<Rightarrow> bool" where
  "forms_ok f \<longleftrightarrow> selects (f_resource f) \<and> selects (f_ns f) \<and> selects (f_container f) \<and> selects (f_timeRange f) \<and>
     picker_ok (f_context f) \<and> 0 \<le> ho_scroll (f_help f) \<and> panel_ok (hr_overlay (f_rollback f)) \<and> panel_ok (cd_overlay (f_confirm f)) \<and>
     (case f_shown f of OverlayPortForward \<Rightarrow> po_ok (f_portForward f) | OverlaySetImage \<Rightarrow> si_ok (f_setImage f)
      | OverlayChartInput \<Rightarrow> ci_ok (f_chart f) | OverlayScale \<Rightarrow> so_ok (f_scale f) | _ \<Rightarrow> True)"

lemma selects_simps [simp]:
  "selects (pk_Open E k) \<longleftrightarrow> pc_OnSelect (pk_cfg k) \<noteq> None" "selects (pk_SetItems E xs k) \<longleftrightarrow> pc_OnSelect (pk_cfg k) \<noteq> None"
  "selects (pk_SetSize E w h k) = selects k" "selects k \<Longrightarrow> selects (pk_ScrollWheel b k)"
  by (simp_all add: selects_def)

lemma selects_update:
  assumes "ti_ok (fe_ti E)" and "selects k"
  shows "\<exists>k1 c. pk_Update E msg k = Inr (k1, c) \<and> selects k1"
  using pk_Update_progress [OF assms(1), of k msg] assms by (auto simp: selects_def)

lemma SetSize_frame [simp]:
  "po_ok (p\<lparr> po_overlay := ov_SetSize E w h (po_overlay p) \<rparr>) = po_ok p"
  "so_ok (s\<lparr> so_overlay := ov_SetSize E w h (so_overlay s) \<rparr>) = so_ok s"
  "ci_ok (c\<lparr> ci_overlay := ov_SetSize E w h (ci_overlay c) \<rparr>) = ci_ok c"
  "si_ok (i\<lparr> si_overlay := ov_SetSize E w h (si_overlay i) \<rparr>) = si_ok i"
  by (simp_all add: po_ok_same so_ok_same ci_ok_same si_ok_same same_lists)

lemma NewOverlay_ok [simp]: "panel_ok (NewOverlay E)"
  by (simp add: NewOverlay_def panel_ok_def)

lemma NewPicker_cfg: "pk_cfg (NewPicker E cfg w h) = cfg"
  by (simp add: NewPicker_def)

lemma confirm_ok [simp]:
  "panel_ok (cd_overlay (NewConfirmDialog E msg w))" "panel_ok (cd_overlay (cd_SetWidth E w c)) = panel_ok (cd_overlay c)"
  "panel_ok (cd_overlay (fst (cd_Update E m c))) = panel_ok (cd_overlay c)"
  by (simp_all add: NewConfirmDialog_def cd_updateFooter_def cd_SetWidth_def cd_Update_def cd_answer_def Let_def
      split: tea_msg.split)

lemma rollback_ok [simp]:
  "panel_ok (hr_overlay (OpenLoading E rel ns h))" "panel_ok (hr_overlay (SetRevisions es h))"
  "panel_ok (hr_overlay (hr_SetError e h))" "panel_ok (hr_overlay h) \<Longrightarrow> panel_ok (hr_overlay (fst (hr_Update m h)))"
  by (simp_all add: OpenLoading_def hr_show_def SetRevisions_def hr_SetError_def SetItems_ok)
    (auto simp: hr_Update_def hr_Close_def Let_def ListKeys_ok(1) split: tea_msg.split)

text \<open>The help scrolls from the first row on; the bound below keeps it from a negative place when all fits.\<close>

lemma help_scroll_ok [simp]:
  "0 \<le> ho_scroll h \<Longrightarrow> 0 \<le> ho_scroll (ho_down h)" "0 \<le> ho_scroll h \<Longrightarrow> 0 \<le> ho_scroll (ho_up h)"
  "0 \<le> ho_scroll h \<Longrightarrow> 0 \<le> ho_scroll (ho_ScrollWheel b h)" "ho_scroll (ho_Open gs h) = 0"
  "ho_scroll (ho_SetSize w ht h) = ho_scroll h" "ho_scroll (NewHelpOverlay w ht) = 0"
  by (simp_all add: ho_down_def ho_up_def ho_ScrollWheel_def ho_Open_def ho_SetSize_def NewHelpOverlay_def maxScroll_def
      Let_def split: wheel.split)

lemma runes_empty [simp]: "runes s = [] \<longleftrightarrow> s = ''''"
  by (cases s) (simp_all add: runes_def split: option.split)

lemma help_update:
  assumes "0 \<le> ho_scroll h"
  shows "\<exists>h1. ho_Update E msg h = Inr h1 \<and> 0 \<le> ho_scroll h1"
proof -
  have "\<exists>h1. ho_backspace h = Inr h1 \<and> 0 \<le> ho_scroll h1"
    using assms by (auto simp: ho_backspace_def go_slice_def Let_def Suc_le_eq)
  then show ?thesis using assms by (cases msg) (auto simp: ho_Update_def Let_def)
qed

lemma NewForms_ok: "forms_ok (NewForms E)"
  by (simp add: NewForms_def forms_ok_def selects_def NewPicker_ok NewPicker_cfg NewHelmRollbackOverlay_def
      resource_picker_def ns_picker_def container_picker_def time_range_picker_def)

lemma forms_resize_ok: "forms_ok f \<Longrightarrow> forms_ok (forms_resize E w h f)"
  by (auto simp: forms_ok_def forms_resize_def Let_def split: overlay.splits)

lemma forms_wheel_ok: "forms_ok f \<Longrightarrow> forms_ok (forms_wheel b f)"
  by (cases "f_shown f") (simp_all add: forms_ok_def forms_wheel_def)

lemma forms_data_ok: "forms_ok f \<Longrightarrow> forms_ok (forms_data E ev f)"
  by (cases ev) (auto simp: forms_ok_def forms_data_def selects_def SetNamespaces_def split: sum.split overlay.splits)

lemma forms_open_ok:
  assumes "forms_ok f"
  shows "\<exists>f1. forms_open E ev f = Inr f1 \<and> forms_ok f1"
proof (cases ev)
  case (OpenPortForward pod ns ports)
  then show ?thesis using po_Open_ok [of E pod ns ports "f_portForward f"] assms by (auto simp: forms_open_def forms_ok_def)
next
  case (OpenSetImage name ns g plugin cs)
  then show ?thesis
    using si_Open_ok [of E name ns g plugin cs "f_setImage f"] assms by (auto simp: forms_open_def forms_ok_def)
qed (use assms in \<open>auto simp: forms_open_def forms_ok_def selects_def so_Open_ok ci_Open_ok OpenPresets_def SetAnnotations_def\<close>)

lemma go_pair: "(\<exists>x. (\<exists>c. r = (x, c)) \<and> P x) \<longleftrightarrow> P (fst r)"
  by (cases r) simp

lemma put_form_ok:
  assumes "\<exists>x c. res = Inr (x, c) \<and> good x" and "\<And>x. good x \<Longrightarrow> forms_ok (upd x f)"
    and "\<And>x. good x \<Longrightarrow> forms_ok ((upd x f)\<lparr> f_shown := OverlayNone \<rparr>)"
  shows "\<exists>f1 c. put_form active upd f res = Inr (f1, c) \<and> forms_ok f1"
proof -
  obtain x c where "res = Inr (x, c)" "good x" using assms(1) by blast
  then show ?thesis using assms(2,3) by (simp add: put_form_def)
qed

lemma forms_key_ok:
  assumes ti: "ti_ok (fe_ti E)" and "forms_ok f"
  shows "\<exists>f1 c. forms_key E k f = Inr (f1, c) \<and> forms_ok f1"
proof (cases "fe_str E k = ''ctrl+w''")
  case True
  then show ?thesis using assms(2) by (simp add: forms_key_def forms_ok_def)
next
  case False
  note d = forms_key_def Let_def if_not_P [OF False] overlay.case
  show ?thesis
  proof (cases "f_shown f")
    case OverlayNone
    then show ?thesis using assms(2) by (simp add: d)
  next
    case OverlayResourcePicker
    show ?thesis unfolding d OverlayResourcePicker
      by (rule put_form_ok [where good = "selects"])
        (use assms(2) OverlayResourcePicker selects_update [OF ti, of "f_resource f" "KeyPress k"] in \<open>auto simp: forms_ok_def\<close>)
  next
    case OverlayNsPicker
    show ?thesis unfolding d OverlayNsPicker
      by (rule put_form_ok [where good = "selects"])
        (use assms(2) OverlayNsPicker selects_update [OF ti, of "f_ns f" "KeyPress k"] in \<open>auto simp: forms_ok_def\<close>)
  next
    case OverlayContainerPicker
    show ?thesis unfolding d OverlayContainerPicker
      by (rule put_form_ok [where good = "selects"])
        (use assms(2) OverlayContainerPicker selects_update [OF ti, of "f_container f" "KeyPress k"] in \<open>auto simp: forms_ok_def\<close>)
  next
    case OverlayTimeRange
    show ?thesis unfolding d OverlayTimeRange
      by (rule put_form_ok [where good = "selects"])
        (use assms(2) OverlayTimeRange selects_update [OF ti, of "f_timeRange f" "KeyPress k"] in \<open>auto simp: forms_ok_def\<close>)
  next
    case OverlayContextPicker
    show ?thesis unfolding d OverlayContextPicker
      by (rule put_form_ok [where good = "picker_ok"])
        (use assms(2) OverlayContextPicker context_progress [OF ti, of "f_context f" "KeyPress k"] in \<open>auto simp: forms_ok_def\<close>)
  next
    case OverlayPortForward
    show ?thesis unfolding d OverlayPortForward
      by (rule put_form_ok [where good = "po_ok"])
        (use assms(2) OverlayPortForward po_Update_ok [OF ti, of "f_portForward f" "KeyPress k"] in \<open>auto simp: forms_ok_def\<close>)
  next
    case OverlaySetImage
    show ?thesis unfolding d OverlaySetImage
      by (rule put_form_ok [where good = "si_ok"])
        (use assms(2) OverlaySetImage si_Update_safe [OF ti, of "f_setImage f" "KeyPress k"] in \<open>auto simp: forms_ok_def si_safe_def si_kept_def\<close>)
  next
    case OverlayScale
    show ?thesis unfolding d OverlayScale
      by (rule put_form_ok [where good = "so_ok"])
        (use assms(2) OverlayScale so_Update_ok [OF ti, of "f_scale f" "KeyPress k"] in \<open>auto simp: forms_ok_def\<close>)
  next
    case OverlayChartInput
    show ?thesis unfolding d OverlayChartInput
      by (rule put_form_ok [where good = "ci_ok"])
        (use assms(2) OverlayChartInput ci_Update_ok [OF ti, of "f_chart f" "KeyPress k"] in \<open>auto simp: forms_ok_def\<close>)
  next
    case OverlayHelmRollback
    show ?thesis unfolding d OverlayHelmRollback
      by (rule put_form_ok [where good = "\<lambda>h. panel_ok (hr_overlay h)"])
        (use assms(2) OverlayHelmRollback in \<open>auto simp: forms_ok_def go_pair rollback_ok(4)\<close>)
  next
    case OverlayConfirm
    show ?thesis unfolding d OverlayConfirm
      by (rule put_form_ok [where good = "\<lambda>c. panel_ok (cd_overlay c)"])
        (use assms(2) OverlayConfirm in \<open>auto simp: forms_ok_def go_pair\<close>)
  next
    case OverlaySearchBar
    show ?thesis unfolding d OverlaySearchBar
      by (rule put_form_ok [where good = "\<lambda>_. True"])
        (use assms(2) OverlaySearchBar in \<open>auto simp: forms_ok_def go_pair\<close>)
  next
    case OverlayHelp
    show ?thesis unfolding d OverlayHelp
      by (rule put_form_ok [where good = "\<lambda>h. 0 \<le> ho_scroll h"])
        (use assms(2) OverlayHelp help_update [of "f_help f" E "KeyPress k"] in \<open>auto simp: forms_ok_def silent_def\<close>)
  qed
qed

lemma forms_step_ok:
  assumes "ti_ok (fe_ti E)" and "forms_ok f"
  shows "\<exists>f1 c. forms_step E ev f = Inr (f1, c) \<and> forms_ok f1"
proof -
  obtain f1 where "forms_open E ev (forms_data E ev f) = Inr f1" "forms_ok f1"
    using forms_open_ok [OF forms_data_ok [OF assms(2)]] by blast
  then show ?thesis
    using forms_key_ok [OF assms] assms(2)
    by (cases ev) (simp_all add: forms_step_def forms_wheel_ok forms_resize_ok)
qed

interpretation forms: safe_form "forms_step E" "\<lambda>f. ti_ok (fe_ti E) \<and> forms_ok f" "\<lambda>_. True"
  by (rule safe_formI) (use forms_step_ok in \<open>force simp: list_all_iff\<close>)

lemma sections_view:
  assumes "list_all (\<lambda>r. 0 \<le> cr_inputIdx r \<and> cr_inputIdx r < int (length (ov_inputs (si_overlay s))) \<and> policy_ok (cr_policy r)) rows'"
    and "0 \<le> i" and "i + int (length rows') \<le> int (length (si_containers s))"
  shows "\<exists>ls. sections_from E s i rows' = Inr ls"
  using assms
proof (induction E s i rows' rule: sections_from.induct)
  case (2 E s i row rows)
  obtain ls where "sections_from E s (i + 1) rows = Inr ls" using 2 by auto
  moreover obtain v where "cf_View E (cr_policy row) = Inr v" using policy_view [of "cr_policy row" E] "2.prems"(1) by auto
  ultimately show ?case
    using "2.prems" by (cases "si_containers s ! nat i") (simp add: go_index_def imageLine_def Let_def)
qed simp

lemma si_view: "si_ok s \<Longrightarrow> \<exists>v. si_View E s = Inr v"
  using sections_view [of s "si_rows s" 0 E]
  by (auto simp: si_View_def buildBody_def si_ok_def image_rows_ok_def list_all_length ViewWithBody_def box_ok)

text \<open>No column is narrower than its header or than one of its rows, and all have the same number of lines.\<close>

lemma foldl_max:
  fixes g :: "'a \<Rightarrow> 'b::linorder"
  shows "m \<le> foldl (\<lambda>m x. max m (g x)) m xs" "x \<in> set xs \<Longrightarrow> g x \<le> foldl (\<lambda>m x. max m (g x)) m xs"
proof -
  have l: "m \<le> foldl (\<lambda>m x. max m (g x)) m xs" for m xs
  proof (induction xs arbitrary: m)
    case (Cons y ys)
    have "m \<le> max m (g y)" by simp
    also have "\<dots> \<le> foldl (\<lambda>m x. max m (g x)) (max m (g y)) ys" by (rule Cons.IH)
    finally show ?case by simp
  qed simp
  then show "m \<le> foldl (\<lambda>m x. max m (g x)) m xs" .
  show "x \<in> set xs \<Longrightarrow> g x \<le> foldl (\<lambda>m x. max m (g x)) m xs"
  proof (induction xs arbitrary: m)
    case (Cons y ys)
    have "g y \<le> foldl (\<lambda>m x. max m (g x)) (max m (g y)) ys"
      using l [of "max m (g y)"] max.cobounded2 order_trans by blast
    then show ?case using Cons by auto
  qed simp
qed

lemma help_column_ok:
  assumes "0 \<le> scroll" and "1 \<le> visibleH"
  shows "\<exists>c. help_column E scroll visibleH g = Inr c"
proof -
  have "\<exists>b. go_each (hint_row E (key_width (snd g)) (col_width g)) (snd g) = Inr b"
    by (rule go_each_ok) (simp add: hint_row_def go_repeat_ok Let_def)
  moreover have "0 \<le> col_width g - int (length (fst g))" by (simp add: col_width_def)
  ultimately show ?thesis using assms by (auto simp: help_column_def go_repeat_ok go_slice_def Let_def)
qed

lemma help_body_ok:
  assumes "0 \<le> scroll" and "1 \<le> visibleH"
  shows "\<exists>rows. help_body E scroll visibleH gs = Inr rows"
proof -
  have "\<exists>cols. go_each (help_column E scroll visibleH) gs = Inr cols"
    by (intro go_each_ok help_column_ok assms)
  then obtain cols where c: "go_each (help_column E scroll visibleH) gs = Inr cols" by blast
  let ?n = "foldl (\<lambda>m c. max m (length c)) 0 cols"
  have "\<exists>y. fill_column ?n x = Inr y" for x
    by (cases x) (simp add: fill_column_def go_repeat_def col_width_def)
  then have "\<exists>padded. go_each (fill_column ?n) (zip gs cols) = Inr padded" by (intro go_each_ok)
  then obtain padded where p: "go_each (fill_column ?n) (zip gs cols) = Inr padded" by blast
  have "length q = ?n" if q: "q \<in> set padded" for q
  proof -
    obtain i where i: "i < length (zip gs cols)" "fill_column ?n (zip gs cols ! i) = Inr q"
      using q p by (auto simp: go_each_Inr in_set_conv_nth)
    then have "length (cols ! i) \<le> ?n" by (intro foldl_max(2)) simp
    then show ?thesis using i by (auto simp: fill_column_def)
  qed
  then have "\<exists>ps. go_each (\<lambda>c. go_index c (int r)) padded = Inr ps" if "r < ?n" for r
    using that by (intro go_each_ok) (simp add: go_index_def)
  then have "\<exists>rows. go_each (\<lambda>r. go_bind (go_each (\<lambda>c. go_index c (int r)) padded) (\<lambda>parts. Inr (join_with ''  '' parts)))
      [0..<?n] = Inr rows"
    by (intro go_each_ok) fastforce
  then show ?thesis using c p by (simp add: help_body_def Let_def)
qed

lemma help_view: "0 \<le> ho_scroll h \<Longrightarrow> \<exists>v. ho_View E box h = Inr v"
proof -
  assume h: "0 \<le> ho_scroll h"
  have v: "1 \<le> ho_visibleHeight h" by (simp add: ho_visibleHeight_def Let_def)
  have "\<exists>rows. help_body E (if ho_scroll h > max m 0 then max m 0 else ho_scroll h) (ho_visibleHeight h) gs = Inr rows" for m gs
    using h v by (intro help_body_ok) auto
  then show ?thesis by (auto simp: ho_View_def Let_def simp del: if_split)
qed

lemma forms_view_ok: "forms_ok f \<Longrightarrow> \<exists>v. forms_view E box f = Inr v"
  by (cases "f_shown f")
    (auto simp: forms_ok_def forms_view_def selects_def picker_view View_ok si_view po_ok_def ci_ok_def so_ok_def help_view)

section \<open>Examples\<close>

text \<open>A text field that keeps a value and a position and types at the end.\<close>

record plain_input =
  pl_value :: string
  pl_pos :: nat
  pl_width :: int
  pl_prompt :: string

definition plain_ti :: "(plain_input, unit) ti_api" where
  "plain_ti = \<lparr> ti_New = \<lparr> pl_value = '''', pl_pos = 0, pl_width = 0, pl_prompt = '''' \<rparr>, ti_Value = pl_value,
     ti_Position = (\<lambda>i. min (pl_pos i) (length (runes (pl_value i)))), ti_Width = pl_width, ti_Prompt = pl_prompt, ti_View = (\<lambda>i. pl_prompt i @ pl_value i),
     ti_SetValue = (\<lambda>v i. i\<lparr> pl_value := v, pl_pos := length (runes v) \<rparr>), ti_SetCursor = (\<lambda>n i. i\<lparr> pl_pos := n \<rparr>),
     ti_SetWidth = (\<lambda>w i. i\<lparr> pl_width := w \<rparr>), ti_SetPrompt = (\<lambda>s i. i\<lparr> pl_prompt := s \<rparr>),
     ti_SetPlaceholder = (\<lambda>s i. i), ti_SetCharLimit = (\<lambda>n i. i), ti_SetValidate = (\<lambda>f i. i),
     ti_SetPromptStyle = (\<lambda>s i. i), ti_SetErrorStyle = (\<lambda>b i. i), ti_Focus = (\<lambda>i. i), ti_Blur = (\<lambda>i. i),
     ti_Update = (\<lambda>msg i. (case msg of KeyPress k \<Rightarrow> i\<lparr> pl_value := pl_value i @ key_Text k \<rparr> | OtherMsg m \<Rightarrow> i, None)) \<rparr>"

definition plain_styles :: ui_styles where
  "plain_styles = \<lparr> us_width = int \<circ> length, us_title = id, us_cursor = id, us_prompt = id, us_border = id,
     us_box = (\<lambda>w s. s), us_footer = (\<lambda>w s. s), us_focused = id, us_normal = id, us_sep = id, us_muted = id,
     us_error = id, us_in_use = id, us_ctx_focused = id, us_ctx_count = id, us_scope = id,
     us_truncate = (\<lambda>s w. take (nat w) s) \<rparr>"

text \<open>The strings of the keys that the examples press.\<close>

definition plain_form :: "(plain_input, unit) form_env" where
  "plain_form = \<lparr> fe_ti = plain_ti, fe_st = plain_styles,
     fe_uni = \<lparr> uni_letter = (\<lambda>_. False), uni_digit = (\<lambda>_. False) \<rparr>,
     fe_str = (\<lambda>k. if key_Text k \<noteq> '''' then key_Text k else if key_Code k = KeyEnter then ''enter''
       else if key_Code k = KeyEscape then ''esc'' else if key_Code k = KeyTab then ''tab'' else '''') \<rparr>"

section \<open>Properties\<close>

lemma plain_ti_ok: "ti_ok (fe_ti plain_form)"
  by (simp add: ti_ok_def plain_form_def plain_ti_def)

text \<open>C20. No form panics, as long as the text field of the library keeps its cursor inside its text: after any
  sequence of keys, wheel events, sizes, openings and fetched lists from the start of the program every handler has
  returned, and the form that is shown can be drawn.\<close>

theorem forms_never_panic:
  assumes "ti_ok (fe_ti E)"
  shows "\<exists>f c v. run_steps (forms_step E) evs (NewForms E) = Inr (f, c) \<and> forms_view E box f = Inr v"
  using forms.run_safe [of E "NewForms E" evs] assms NewForms_ok forms_view_ok by blast

text \<open>A row of help that all fits, scrolled down by a key, and a word of a filter that is deleted.\<close>

theorem forms_never_panic_witness:
  "\<exists>f c v. run_steps (forms_step plain_form)
      [OpenHelp [(''Global'', [\<lparr> kh_Key = ''q'', kh_Help = ''quit'' \<rparr>])], KeyEvent ((arrow_key (Rune 106))\<lparr> key_Text := ''j'' \<rparr>),
       OpenNamespaces, KeyEvent ((arrow_key (Rune 97))\<lparr> key_Text := ''a'' \<rparr>), KeyEvent ((arrow_key (Rune 119))\<lparr> ModCtrl := True \<rparr>)]
      (NewForms plain_form) = Inr (f, c) \<and> forms_view plain_form id f = Inr v"
  by (rule forms_never_panic [OF plain_ti_ok])

text \<open>C21. A form asks for what it was opened for, and for nothing invalid. Whatever is typed, the number of
  replicas is between 0 and the greatest 32-bit integer and not the present one; a port-forward is of a
  port of the pod, to a local port from 1 to 65535; a chart source is not empty; and the images and
  policies that are to change are those of containers of the object, other than before and not empty. The text
  field of the library is taken to keep its cursor inside its text, so that the handlers return.\<close>

theorem requests_valid:
  assumes "ti_ok (fe_ti E)"
  shows "(\<exists>s c. run_steps (so_Update E) msgs (so_Open E name ns g n s0) = Inr (s, c) \<and> list_all (so_sends (name, ns, g, n)) c) \<and>
   (\<exists>p0 p c. po_Open E name ns ports p1 = Inr p0 \<and> run_steps (po_Update E) msgs p0 = Inr (p, c) \<and>
      list_all (po_sends (name, ns, ports)) c) \<and>
   (\<exists>s c. run_steps (ci_Update E) msgs (ci_Open E name ns chart c0) = Inr (s, c) \<and> list_all (ci_sends (name, ns)) c) \<and>
   (\<exists>i0 i c. si_Open E name ns g plugin cs i1 = Inr i0 \<and> run_steps (si_Update E) msgs i0 = Inr (i, c) \<and>
      list_all (si_sends (name, ns, g, plugin, cs)) c)"
proof (intro conjI)
  show "\<exists>s c. run_steps (so_Update E) msgs (so_Open E name ns g n s0) = Inr (s, c) \<and> list_all (so_sends (name, ns, g, n)) c"
    using scale.run_safe [of E "so_Open E name ns g n s0" "(name, ns, g, n)" msgs] assms so_Open_ok by blast
  obtain p0 where "po_Open E name ns ports p1 = Inr p0" "po_ok p0 \<and> po_for p0 = (name, ns, ports)"
    using po_Open_ok by blast
  then show "\<exists>p0 p c. po_Open E name ns ports p1 = Inr p0 \<and> run_steps (po_Update E) msgs p0 = Inr (p, c) \<and>
      list_all (po_sends (name, ns, ports)) c"
    using port_forward.run_safe [of E p0 "(name, ns, ports)" msgs] assms by blast
  show "\<exists>s c. run_steps (ci_Update E) msgs (ci_Open E name ns chart c0) = Inr (s, c) \<and> list_all (ci_sends (name, ns)) c"
    using chart.run_safe [of E "ci_Open E name ns chart c0" "(name, ns)" msgs] assms ci_Open_ok by blast
  obtain i0 where "si_Open E name ns g plugin cs i1 = Inr i0" "si_ok i0 \<and> si_for i0 = (name, ns, g, plugin, cs)"
    using si_Open_ok by blast
  then show "\<exists>i0 i c. si_Open E name ns g plugin cs i1 = Inr i0 \<and> run_steps (si_Update E) msgs i0 = Inr (i, c) \<and>
      list_all (si_sends (name, ns, g, plugin, cs)) c"
    using images.run_safe [of E i0 "(name, ns, g, plugin, cs)" msgs] assms by blast
qed

theorem requests_valid_witness:
  "\<exists>s c. run_steps (so_Update plain_form) [KeyPress ((arrow_key (Rune 53))\<lparr> key_Text := ''5'' \<rparr>), KeyPress (arrow_key KeyEnter)]
     (so_Open plain_form ''web'' ''ns'' (''apps'', ''v1'', ''deployments'') 3 (NewScaleOverlay plain_form 40 20)) = Inr (s, c) \<and>
     list_all (so_sends (''web'', ''ns'', (''apps'', ''v1'', ''deployments''), 3)) c"
  using requests_valid [OF plain_ti_ok] by blast

subsection \<open>What a picker picks\<close>

text \<open>The state of a picker that was opened on \<open>xs\<close>: it lists what the filter leaves, and shows its cursor.\<close>

definition listing :: "('i, 'm) form_env \<Rightarrow> ('e, 'm) picker_config \<Rightarrow> 'e list \<Rightarrow> ('i, 'e, 'm) picker \<Rightarrow> bool" where
  "listing E cfg xs k \<longleftrightarrow> picker_ok k \<and> pk_cfg k = cfg \<and> pk_all k = xs \<and>
     pk_filtered k = pc_Filter cfg (pk_query E k) xs \<and> cursor_in_view (pk_overlay k)"

lemma applyFilter_listing: "listing E (pk_cfg k) (pk_all k) (pk_applyFilter E k)"
  by (simp add: listing_def) (simp add: pk_applyFilter_def pk_query_def Let_def)

lemma Open_listing: "listing E cfg xs (pk_Open E (pk_SetItems E xs (NewPicker E cfg w h)))"
proof -
  let ?k = "pk_SetItems E xs (NewPicker E cfg w h)"
  have "pk_cfg ?k = cfg" "pk_all ?k = xs" by (simp_all add: NewPicker_cfg pk_SetItems_def)
  then show ?thesis
    using applyFilter_listing [of E "?k\<lparr> pk_overlay := FocusInput E 0 (fst (AddInput E
      (ti_Focus (fe_ti E) (ti_SetPrompt (fe_ti E) ''Filter: '' (ti_New (fe_ti E))))
      (configure cfg ((ov_Reset E (pk_overlay ?k))\<lparr> ov_active := True, ov_title := pc_Title cfg \<rparr>)))) \<rparr>"]
    by (simp add: pk_Open_def Let_def)
qed

lemma pk_Update_listing:
  assumes "listing E cfg xs k" and "pk_Update E msg k = Inr (k1, c)"
  shows "listing E cfg xs k1"
proof -
  have close: "listing E cfg xs (pk_Close k)"
    using assms(1) by (simp add: listing_def) (simp add: pk_Close_def pk_query_def cursor_in_view_def)
  have move: "listing E cfg xs (k\<lparr> pk_overlay := fst (HandleListKeys km (pk_overlay k)) \<rparr>)" for km
    using assms(1) picker_move [of k km] by (simp add: listing_def pk_query_def ListKeys_ok(2) picker_ok_def)
  have type: "listing E cfg xs (pk_applyFilter E (k\<lparr> pk_overlay := q \<rparr>))" for q
    using assms(1) applyFilter_listing [of E "k\<lparr> pk_overlay := q \<rparr>"] by (simp add: listing_def)
  show ?thesis
    using assms close move type
    by (auto simp: pk_Update_def split: tea_msg.splits if_splits option.splits prod.splits)
qed

lemma run_listing:
  "run_steps (pk_Update E) msgs k = Inr (k1, c) \<Longrightarrow> listing E cfg xs k \<Longrightarrow> listing E cfg xs k1"
proof (induction msgs arbitrary: k c)
  case (Cons m msgs)
  then show ?case by (auto dest: pk_Update_listing)
qed simp

text \<open>C22. A picker picks the entry that it marks: however it was filtered and moved, the enter key sends the
  message of an entry that matches what is typed, and this entry is drawn with the mark of the cursor.\<close>

theorem picker_picks_marked:
  assumes "run_steps (pk_Update E) msgs (pk_Open E (pk_SetItems E xs (NewPicker E cfg w h))) = Inr (k, c)"
    and "pc_OnSelect cfg = Some g" and "pk_filtered k \<noteq> []" and "key_Code km = KeyEnter"
  shows "\<exists>e rows j. e \<in> set (pc_Filter cfg (pk_query E k) xs) \<and> pk_Update E (KeyPress km) k = Inr (pk_Close k, g e) \<and>
    list_lines E (pk_overlay k) = Inr rows \<and> j < length rows \<and> rows ! j = us_cursor (fe_st E) (''> '' @ pc_Display cfg e)"
proof -
  let ?p = "pk_overlay k"
  have l: "listing E cfg xs k" using run_listing [OF assms(1)] Open_listing by blast
  then have ok: "picker_ok k" and cfg: "pk_cfg k = cfg" and f: "pk_filtered k = pc_Filter cfg (pk_query E k) xs"
    and v: "cursor_in_view ?p" by (simp_all add: listing_def)
  have c: "0 \<le> ov_cursor ?p" "ov_cursor ?p < int (length (pk_filtered k))"
    using picker_cursor [OF ok assms(3)] by (simp_all add: pk_Cursor_def)
  let ?e = "pk_filtered k ! nat (ov_cursor ?p)"
  have items: "ov_items ?p = map (pc_Display cfg) (pk_filtered k)" "0 \<le> ov_offset ?p"
    using ok cfg by (simp_all add: picker_ok_def panel_ok_def)
  have "?e \<in> set (pc_Filter cfg (pk_query E k) xs)" using c f by (simp add: nth_mem)
  moreover have "pk_Update E (KeyPress km) k = Inr (pk_Close k, g ?e)"
    using c assms cfg by (simp add: pk_Update_def pk_Cursor_def go_index_def)
  moreover have "\<exists>rows. list_lines E ?p = Inr rows \<and> nat (ov_cursor ?p - ov_offset ?p) < length rows \<and>
      rows ! nat (ov_cursor ?p - ov_offset ?p) = us_cursor (fe_st E) (''> '' @ pc_Display cfg ?e)"
    using c items v assms(3)
    by (auto simp: list_lines_def list_rows_def cursor_in_view_def Let_def nth_append less_diff_conv nth_upto)
  ultimately show ?thesis by blast
qed

definition demo_picker :: "(plain_input, string, unit) picker" where
  "demo_picker = pk_Open plain_form (pk_SetItems plain_form [''app'', ''sidecar''] (NewPicker plain_form container_picker 40 20))"

lemma demo_picker_filtered: "pk_filtered demo_picker = [''app'', ''sidecar'']"
  by code_simp

theorem picker_picks_marked_witness:
  "\<exists>e rows j. e \<in> set (pc_Filter container_picker (pk_query plain_form demo_picker) [''app'', ''sidecar'']) \<and>
     pk_Update plain_form (KeyPress (arrow_key KeyEnter)) demo_picker =
       Inr (pk_Close demo_picker, [AppMsg (LogContainerSelectedMsg e)]) \<and>
     list_lines plain_form (pk_overlay demo_picker) = Inr rows \<and> j < length rows \<and>
     rows ! j = us_cursor (fe_st plain_form) (''> '' @ pc_Display (container_picker :: (string, unit) picker_config) e)"
  using picker_picks_marked [of plain_form "[]" "[''app'', ''sidecar'']" container_picker 40 20 demo_picker "[]"
      "\<lambda>s. [AppMsg (LogContainerSelectedMsg s)]" "arrow_key KeyEnter"]
  by (simp add: demo_picker_filtered) (simp add: demo_picker_def container_picker_def arrow_key_def)

subsection \<open>The walk through the fields\<close>

lemma run_images:
  assumes "si_Open E name ns g plugin cs s0 = Inr s1" and "run_steps (si_Update E) msgs s1 = Inr (s, c)"
  shows "si_ok s" and "length (si_rows s) = length cs"
proof -
  have "si_ok s1 \<and> si_for s1 = (name, ns, g, plugin, cs)"
    using si_Open_ok [of E name ns g plugin cs s0] assms(1) by auto
  from images_kept.run_kept [OF this assms(2)] have "si_ok s \<and> si_for s = (name, ns, g, plugin, cs)" by simp
  then show "si_ok s" "length (si_rows s) = length cs" by (auto simp: si_ok_def si_for_def)
qed

text \<open>C24. In the form for the images of a workload with \<open>n\<close> containers the focus walks through a cycle of
  \<open>2 n + 1\<close> places, the two fields of each container in order and then the buttons: after any messages,
  going forth leads to the next place and going back to the one before, so each undoes the other.\<close>

theorem set_image_walk:
  assumes "si_Open E name ns g plugin cs s0 = Inr s1" and "run_steps (si_Update E) msgs s1 = Inr (s, c)" and "cs \<noteq> []"
  shows "\<exists>t u v. focusNext E s = Inr t \<and> place t = (place s + 1) mod (2 * int (length cs) + 1) \<and>
    focusPrev E s = Inr u \<and> place u = (place s - 1) mod (2 * int (length cs) + 1) \<and>
    focusPrev E t = Inr v \<and> place v = place s"
proof -
  let ?n = "2 * int (length cs)"
  have ok: "si_ok s" and n: "length (si_rows s) = length cs" using run_images [OF assms(1,2)] by simp_all
  then have ne: "si_rows s \<noteq> []" using assms(3) by auto
  have r: "0 \<le> place s" "place s \<le> ?n" using place_range [OF ok ne] n by simp_all
  obtain t where t: "focusNext E s = Inr t" "si_ok t" "length (si_rows t) = length cs"
      "place t = (if place s = ?n then 0 else place s + 1)"
    using place_next [OF ok ne, of E] place_buttons [OF ok ne] n by auto
  obtain u where u: "focusPrev E s = Inr u" "place u = (if place s = 0 then ?n else place s - 1)"
    using place_prev [OF ok ne, of E] n by auto
  have "si_rows t \<noteq> []" using t(3) assms(3) by auto
  then obtain v where v: "focusPrev E t = Inr v" "place v = (if place t = 0 then ?n else place t - 1)"
    using place_prev [OF t(2), of E] t(3) by auto
  have "place t = (place s + 1) mod (?n + 1)" using t(4) r by auto
  moreover have "place u = (place s - 1) mod (?n + 1)"
    using u(2) r by (cases "place s = 0") (simp_all add: zmod_minus1)
  moreover have "place v = place s" using v(2) t(4) r by auto
  ultimately show ?thesis using t(1) u(1) v(1) by blast
qed

definition demo_containers :: "image_change list" where
  "demo_containers = [(''app'', ''nginx:1.25'', False, ''Always''), (''init'', ''busybox'', True, '''')]"

theorem set_image_walk_witness:
  "\<exists>s t. si_Open plain_form ''web'' ''ns'' (''apps'', ''v1'', ''deployments'') ''deployments'' demo_containers
      (NewSetImageOverlay plain_form 40 20) = Inr s \<and>
    focusNext plain_form s = Inr t \<and> place t = (place s + 1) mod 5"
proof -
  obtain s where s: "si_Open plain_form ''web'' ''ns'' (''apps'', ''v1'', ''deployments'') ''deployments'' demo_containers
      (NewSetImageOverlay plain_form 40 20) = Inr s" using si_Open_ok by blast
  then show ?thesis
    using set_image_walk [OF s, of "[]" s "[]"] by (auto simp: demo_containers_def)
qed

subsection \<open>Late answers\<close>

text \<open>C23. The history of a release that comes late is taken for the one that is shown: after the form was left for
  \<open>a\<close> and opened for \<open>b\<close>, the answer for \<open>a\<close> fills it, and the enter key rolls \<open>b\<close> back to a revision
  of \<open>a\<close>.\<close>

theorem late_history_rolls_back_other:
  assumes "fe_str E esc \<noteq> ''ctrl+w''" and "fe_str E enter \<noteq> ''ctrl+w''"
    and "key_Code esc = KeyEscape" and "key_Code enter = KeyEnter"
  shows "\<exists>f1. run_steps (forms_step E)
      [OpenRollback a ns, KeyEvent esc, OpenRollback b ns, HistoryEvent a ns (Inr ((n, d) # es)), KeyEvent enter] f =
    Inr (f1, [AppMsg (HelmRollbackRequestedMsg b ns n)]) \<and> f_shown f1 = OverlayNone"
  using assms
  by (simp add: forms_step_def forms_open_def forms_data_def forms_key_def put_form_def hr_Update_def hr_Close_def
      OpenLoading_def SetRevisions_def hr_show_def KeyEscape_def KeyEnter_def Let_def)

theorem late_history_rolls_back_other_witness:
  "\<exists>f1. run_steps (forms_step plain_form)
      [OpenRollback ''a'' ''ns'', KeyEvent (arrow_key KeyEscape), OpenRollback ''b'' ''ns'',
       HistoryEvent ''a'' ''ns'' (Inr [(7, ''7 deployed'')]), KeyEvent (arrow_key KeyEnter)] (NewForms plain_form) =
    Inr (f1, [AppMsg (HelmRollbackRequestedMsg ''b'' ''ns'' 7)]) \<and> f_shown f1 = OverlayNone"
  by (rule late_history_rolls_back_other) (simp_all add: plain_form_def arrow_key_def KeyEscape_def KeyEnter_def)

subsection \<open>Bounds\<close>

text \<open>One more than the greatest 64-bit integer is taken for a negative number, so the field shows 0 instead of
  the greatest number of replicas.\<close>

theorem replicas_wrap:
  assumes "InputValue E 0 (so_overlay s) = Inr ''9223372036854775807''"
  shows "adjustReplicas E 1 s = go_bind (set_input E 0 ''0'' (so_overlay s)) (\<lambda>p. Inr (s\<lparr> so_overlay := p \<rparr>))"
proof -
  have "Atoi ''9223372036854775807'' = Some (2 ^ 63 - 1)"
    by (simp add: Atoi_def digits_value_def is_digit_def Let_def)
  moreover have "int64 (2 ^ 63 - 1 + 1) = - (2 ^ 63)" by (simp add: int64_def)
  moreover have "itoa 0 = ''0''" by code_simp
  ultimately show ?thesis using assms by (simp add: adjustReplicas_def MaxInt32_def)
qed

text \<open>A list whose height follows the terminal does not follow its cursor: when the terminal becomes too low
  for the rows above it, the cursor is no longer in view.\<close>

theorem resize_hides_cursor:
  assumes "ov_maxVisible p = 0" and "max (h - 8) 1 \<le> ov_cursor p - ov_offset p"
  shows "\<not> cursor_in_view (ov_SetSize E w h p)"
  using assms by (simp add: cursor_in_view_def ov_SetSize_def syncInputWidths_def effectiveMaxVisible_def Let_def max_def)

end
