(* ===== verification/Spec2Isabelle.thy ===== *)
theory Spec2Isabelle
  imports Log_View_Props Table_Props Resource_List_Props Detail_View_Props Layout_Props Key_Props Toasts_Props
    Cluster_Manager_Props Plugin_Picker_Props Status_Bar App_Props Form_Props
begin

text \<open>
  A model of \<^verbatim>\<open>aku\<close>, a terminal user interface for Kubernetes written in Go
  (\<^verbatim>\<open>src/\<close>), with the theorems that make its components correct. The program is a
  Bubble Tea application: \<^verbatim>\<open>internal/app\<close> dispatches messages to panels that keep
  their own state (\<^verbatim>\<open>internal/ui\<close>, \<^verbatim>\<open>internal/layout\<close>,
  \<^verbatim>\<open>internal/table\<close>), and stores and registries feed them
  (\<^verbatim>\<open>internal/k8s\<close>, \<^verbatim>\<open>internal/plugin\<close>, \<^verbatim>\<open>internal/config\<close>).

  \<^bold>\<open>Conventions.\<close> A Go struct is a \<open>record\<close>, a method is a function of the receiver that
  returns the new receiver. Go's \<open>int\<close> is \<open>int\<close>: sizes and indices of the program stay far below
  \<open>2 ^ 63\<close>, and division and remainder truncate (\<open>go_quot\<close>, \<open>go_rem\<close> in
  \<^verbatim>\<open>Prelude\<close>). A run-time panic is a value: \<open>'a go = go_panic + 'a\<close>, and indexing and
  slicing that the code does without a guard go through \<open>go_index\<close> and \<open>go_slice\<close>, filling through
  \<open>go_repeat\<close>. An
  \<open>error\<close> result is a further sum. A string is its list of bytes.

  \<^bold>\<open>Code outside the repository\<close> is a parameter (\<^verbatim>\<open>Extern\<close>): \<open>text_api\<close> holds
  \<open>ansi.StringWidth\<close>, \<open>ansi.Strip\<close>, \<open>ansi.Cut\<close>, the sequences of \<open>ansi.DecodeSequence\<close>
  and regular expressions, \<open>tui_api\<close> holds lipgloss and the viewport widget. What a theorem relies
  on is one of the named hypotheses \<open>seqs_ok\<close>, \<open>tui_ok\<close>, \<open>tui_scrolls\<close>;
  \<^verbatim>\<open>Plain_Tui\<close> has instances on which the witnesses run.

  \<^bold>\<open>Log panel\<close> (\<^verbatim>\<open>internal/ui/logview.go\<close>, \<^verbatim>\<open>ringbuffer.go\<close>,
  \<^verbatim>\<open>ansisplit.go\<close>, \<^verbatim>\<open>searchstate.go\<close>, \<^verbatim>\<open>logviewport.go\<close>).
  \<^item> \<^verbatim>\<open>Bounded_Log\<close> is the contract of a buffer that keeps the newest entries, a locale;
    \<^verbatim>\<open>Ring_Buffer\<close> is \<open>DualRingBuffer\<close> with its interpretation.
  \<^item> \<^verbatim>\<open>Search_State\<close> and \<^verbatim>\<open>Ansi_Split\<close> model the compiled search and the
    splitting and highlighting of lines with escape sequences.
  \<^item> \<^verbatim>\<open>Log_View\<close> has the state and the drawing of the visible window, plain and
    soft-wrapped; \<^verbatim>\<open>Log_View_Ops\<close> every operation.
  \<^item> \<^verbatim>\<open>Log_View_Inv\<close> states the invariant, shows that each operation keeps it, and runs
    sequences of operations (\<open>log_op\<close>, \<open>lv_run\<close>); \<^verbatim>\<open>Log_View_Window\<close> and
    \<^verbatim>\<open>Log_View_Wrapped\<close> show what is on screen; \<^verbatim>\<open>Log_View_Total\<close> when nothing
    panics; \<^verbatim>\<open>Log_View_Filter\<close> that the filtered view is exact;
    \<^verbatim>\<open>Log_View_Props\<close> has the properties and their concrete runs.

  \<^bold>\<open>Table\<close> (\<^verbatim>\<open>internal/table/table.go\<close>, \<^verbatim>\<open>internal/ui/highlight.go\<close>).
  \<^item> \<^verbatim>\<open>Escapes\<close> has the byte walk over escape sequences and what is visible of a string.
  \<^item> \<^verbatim>\<open>Table\<close> models the widget, its rendered window and its scrolling;
    \<^verbatim>\<open>Cell_Highlight\<close> the search matches in cells; \<^verbatim>\<open>Table_Props\<close> the properties.

  \<^bold>\<open>Resource list\<close> (\<^verbatim>\<open>internal/ui/resourcelist.go\<close>, \<^verbatim>\<open>sort.go\<close>,
  \<^verbatim>\<open>navstack.go\<close>).
  \<^item> \<^verbatim>\<open>Resource_Sort\<close> has the objects and their order, \<^verbatim>\<open>Nav_Stack\<close> the stack of
    drill-downs, \<^verbatim>\<open>Resource_List\<close> the state and its rows, \<^verbatim>\<open>Resource_List_Ops\<close>
    the operations; \<^verbatim>\<open>Resource_List_Inv\<close> the invariant and
    \<^verbatim>\<open>Resource_List_Props\<close> the properties, over runs of operations.

  \<^bold>\<open>Detail view\<close> (\<^verbatim>\<open>internal/ui/detailview.go\<close>).
  \<^item> \<^verbatim>\<open>Text_Lines\<close> splits and joins text, \<^verbatim>\<open>Detail_View\<close> wraps lines and maps a
    position of the text to a row, \<^verbatim>\<open>Detail_View_Ops\<close> has the state machine of search,
    filter and scrolling. \<^verbatim>\<open>Detail_View_Props\<close> has an instance of the
    viewport and the properties.

  \<^bold>\<open>Terminal pane\<close> (\<^verbatim>\<open>internal/ui/emulator.go\<close>, \<^verbatim>\<open>terminalpane.go\<close>).
  \<^item> \<^verbatim>\<open>Emulator\<close> adapts the third-party emulator, the parameter \<open>vt_api\<close>;
    \<^verbatim>\<open>Terminal_Pane\<close> has the pane and its keys, \<^verbatim>\<open>Terminal_Pane_Props\<close> what a
    sequence of keys does and which lines a scrolled pane shows.

  \<^bold>\<open>Layout\<close> (\<^verbatim>\<open>internal/layout/layout.go\<close>, \<^verbatim>\<open>internal/ui/pane.go\<close>).
  \<^item> \<^verbatim>\<open>Pane\<close> is the contract of a pane, the locale \<open>pane_ops\<close>, interpreted on the
    resource list, on the terminal and on their sum.
  \<^item> \<^verbatim>\<open>Layout\<close> has the state and every operation; \<^verbatim>\<open>Layout_Inv\<close> the invariant and
    its frames, \<^verbatim>\<open>Layout_Steps\<close> that each operation keeps it, \<^verbatim>\<open>Layout_Total\<close>
    runs of operations and when nothing panics, \<^verbatim>\<open>Layout_Props\<close> the properties.

  \<^bold>\<open>Keys and configuration\<close> (\<^verbatim>\<open>internal/config\<close>).
  \<^item> \<^verbatim>\<open>Key_Bindings\<close> compiles bindings into a trie and walks it, \<^verbatim>\<open>Config\<close> and
    \<^verbatim>\<open>Default_Keys\<close> have the configuration and the built-in bindings; \<^verbatim>\<open>Key_Props\<close>
    shows that a sequence of keys ends, that later bindings override earlier ones, and what the help lists.

  \<^bold>\<open>Stores and registries\<close> (\<^verbatim>\<open>internal/notify\<close>, \<^verbatim>\<open>internal/k8s/store.go\<close>,
  \<^verbatim>\<open>debounce.go\<close>, \<^verbatim>\<open>discovery.go\<close>, \<^verbatim>\<open>internal/cluster\<close>,
  \<^verbatim>\<open>internal/plugin/registry.go\<close>, \<^verbatim>\<open>internal/portforward\<close>).
  \<^item> \<^verbatim>\<open>Notify_Store\<close>, \<^verbatim>\<open>Toasts\<close> and \<^verbatim>\<open>Toasts_Props\<close>: the notifications,
    which of them are on screen, and that a dismissed one stays hidden.
  \<^item> \<^verbatim>\<open>Object_Store\<close> has the cache, the informers and the debouncer;
    \<^verbatim>\<open>Object_Store_Props\<close> their interleavings as a step relation (\<open>store_step\<close>, \<open>reachable\<close>).
  \<^item> \<^verbatim>\<open>Cluster_Manager\<close> and \<^verbatim>\<open>Discovery\<close> have the clusters, pinned or counted by
    their panes; \<^verbatim>\<open>Cluster_Manager_Props\<close> the runs of the manager.
  \<^item> \<^verbatim>\<open>Plugin_Registry\<close>, \<^verbatim>\<open>Plugin_Picker\<close> and \<^verbatim>\<open>Plugin_Picker_Props\<close>: the
    resource types, the entries of the picker and the fuzzy match. \<^verbatim>\<open>Port_Forward\<close> is the
    registry of port-forwards, \<^verbatim>\<open>Status_Bar\<close> the line at the bottom.

  \<^bold>\<open>Application\<close> (\<^verbatim>\<open>internal/app\<close>). A message is handled by a function of the state; a
  command for the runtime is an \<open>effect\<close> that the handler appends to \<open>a_out\<close>, and what comes back is
  another message. An effect that talks to a cluster carries the client it goes through.
  \<^item> \<^verbatim>\<open>App\<close> has the state and its parameters (\<open>app_env\<close>: the plug-ins, the clock, the file
    system), \<^verbatim>\<open>App_Panel\<close> the detail and log panel with their generations and debounces,
    \<^verbatim>\<open>App_Switch\<close> resources, namespaces and contexts, \<^verbatim>\<open>App_Cluster\<close> what comes
    from the clusters and the start, \<^verbatim>\<open>App_Terminals\<close>, \<^verbatim>\<open>Shell_Expand\<close>,
    \<^verbatim>\<open>App_Run\<close> terminals and external commands, \<^verbatim>\<open>App_Actions\<close>,
    \<^verbatim>\<open>App_Commands\<close>, \<^verbatim>\<open>App_Forms\<close> and \<^verbatim>\<open>App_Dispatch\<close> the commands
    and their dispatch, \<^verbatim>\<open>App_Update\<close> and \<^verbatim>\<open>App_Results\<close> keys, the mouse and
    results.
  \<^item> The dispatch calls itself (\<^verbatim>\<open>enter-detail\<close>), so \<open>executeCommand\<close> is a
    \<open>partial_function\<close> and a handler that uses it may return nothing; when it does is shown exactly.
  \<^item> \<^verbatim>\<open>App_Keep\<close> states the operations by which the application changes its components as
    locales (\<open>manager_keeps\<close>, \<open>layout_keeps\<close>, \<open>status_keeps\<close>, \<open>table_keeps\<close>): any predicates that these
    operations keep are kept by every handler, one lemma each (\<open>app_keeps\<close>, continued in
    \<^verbatim>\<open>App_Keep_Handlers\<close>). \<^verbatim>\<open>App_Invariants\<close> interprets them on the invariants
    of the components, \<^verbatim>\<open>App_Machine\<close> composes the handlers to \<open>app_update\<close>,
    \<^verbatim>\<open>App_Reach\<close> has the reachable states, and \<^verbatim>\<open>App_Props\<close> the properties.
  \<^item> What is assumed of a plug-in and of reading manifests is \<open>plugins_ok\<close>: a drill-down only subscribes,
    and the cluster of a manifest has no client. \<^verbatim>\<open>App_Demo\<close> is a concrete application.

  \<^bold>\<open>Forms\<close> (\<^verbatim>\<open>internal/ui\<close>: \<^verbatim>\<open>overlay_panel.go\<close>,
  \<^verbatim>\<open>wordmotion.go\<close>, \<^verbatim>\<open>picker.go\<close> and the pickers, \<^verbatim>\<open>confirmdialog.go\<close>,
  \<^verbatim>\<open>searchbar.go\<close>, \<^verbatim>\<open>scale.go\<close>, \<^verbatim>\<open>chartinput.go\<close>,
  \<^verbatim>\<open>portforward.go\<close>, \<^verbatim>\<open>helmrollback.go\<close>, \<^verbatim>\<open>setimage.go\<close>,
  \<^verbatim>\<open>cyclefield.go\<close>, \<^verbatim>\<open>helpoverlay.go\<close>).
  \<^item> \<^verbatim>\<open>Go_Text\<close> has runes, \<open>strconv.Atoi\<close>, the 64-bit \<open>int\<close> of the replica count
    and the word motions; \<^verbatim>\<open>Overlay_Panel\<close> the panel of text fields and a list that every
    form is built on. The text field is the parameter \<open>ti_api\<close>; that it keeps its cursor inside its text
    (\<open>ti_ok\<close>) is all that the forms rely on.
  \<^item> \<^verbatim>\<open>Forms\<close> has each form, with what a key makes it ask of the application, and all of
    them together with their opening, data and sizes as the machine \<open>forms_step\<close>, \<open>forms_view\<close>. What is
    filtered by a picker is ASCII text.
  \<^item> \<^verbatim>\<open>Form_Props\<close> states the contract of a form as the locales \<open>kept_form\<close> (its
    invariant is kept and all it sends is valid) and \<open>safe_form\<close> (no message makes it panic either),
    interpreted on the forms and on the machine, and has the properties.

  \<^bold>\<open>Not modelled.\<close> The rendering of borders and titles by lipgloss; the resource plug-ins, the reading
  of manifests, YAML and describe texts and their colours, which are parameters; the passing
  of a key to the open form inside \<open>app_update\<close>, where a key press carries what the form does with it (the
  forms are a machine of their own); the clients of Kubernetes and Helm and
  the terminal sessions, whose calls are effects; the command line. Real concurrency is the interleaving
  of messages and of the background events of \<open>background\<close> and \<open>store_step\<close>.
\<close>

end
